(* ===== verification/Cil_Prelude.thy ===== *)
theory Cil_Prelude
  imports Main "HOL-Library.Word" "HOL-Library.Sublist"
begin

text \<open>
  The vocabulary shared by every component of the CIL compiler's model: addresses, the
  outcome of a C function, the state-passing combinators in which the operations are
  written, the calculus of preserved predicates, and generic lemmas on lists.

  A C function that returns \<open>int rc\<close> is a function whose result is an \<open>outcome\<close>:
  \<open>Ok x\<close> for \<open>SEPOL_OK\<close> (with the values it returns through its out-parameters),
  \<open>Fail rc\<close> for an error code, \<open>Fault\<close> where the C program dereferences a null or
  foreign pointer or leaves an array, and \<open>Out_of_fuel\<close> where a loop or a recursion did
  not end within the fuel it was given.
\<close>

type_synonym addr = nat

type_synonym cstring = "string option"

datatype sepol_rc = SEPOL_ERR | SEPOL_ENOENT | SEPOL_EEXIST

datatype 'a outcome = Ok 'a | Fail sepol_rc | Fault | Out_of_fuel

named_theorems cil_simps \<open>unfolding of the combinators on a given state\<close>
named_theorems cil_pres \<open>introduction rules of the preservation calculus\<close>

subsection \<open>Outcomes without state\<close>

definition obind :: "'a outcome \<Rightarrow> ('a \<Rightarrow> 'b outcome) \<Rightarrow> 'b outcome" where
  "obind m f =
     (case m of Ok x \<Rightarrow> f x | Fail e \<Rightarrow> Fail e | Fault \<Rightarrow> Fault | Out_of_fuel \<Rightarrow> Out_of_fuel)"

lemma obind_simps [simp, cil_simps]:
  "obind (Ok x) f = f x"
  "obind (Fail e) f = Fail e"
  "obind Fault f = Fault"
  "obind Out_of_fuel f = Out_of_fuel"
  by (simp_all add: obind_def)

lemma obind_eq_Ok [simp]: "obind m f = Ok y \<longleftrightarrow> (\<exists>x. m = Ok x \<and> f x = Ok y)"
  by (cases m) simp_all

lemma obind_assoc: "obind (obind m f) g = obind m (\<lambda>x. obind (f x) g)"
  by (cases m) simp_all

lemma obind_cong [fundef_cong]:
  "m = m' \<Longrightarrow> (\<And>x. m' = Ok x \<Longrightarrow> f x = f' x) \<Longrightarrow> obind m f = obind m' f'"
  by (cases m') simp_all

text \<open>Reading a struct through a pointer; a null pointer or an address that holds no such
  struct is a fault.\<close>

definition deref :: "(addr \<rightharpoonup> 'x) \<Rightarrow> addr option \<Rightarrow> 'x outcome" where
  "deref m p = (case p of None \<Rightarrow> Fault | Some a \<Rightarrow> (case m a of None \<Rightarrow> Fault | Some x \<Rightarrow> Ok x))"

lemma deref_simps [simp, cil_simps]:
  "deref m None = Fault"
  "m a = Some x \<Longrightarrow> deref m (Some a) = Ok x"
  "m a = None \<Longrightarrow> deref m (Some a) = Fault"
  by (simp_all add: deref_def)

lemma deref_eq_Ok [simp]: "deref m p = Ok x \<longleftrightarrow> (\<exists>a. p = Some a \<and> m a = Some x)"
  by (auto simp: deref_def split: option.splits)

lemma deref_not_Fail [simp]: "deref m p \<noteq> Fail e" "deref m p \<noteq> Out_of_fuel"
  by (auto simp: deref_def split: option.splits)

definition not_null :: "'a option \<Rightarrow> 'a outcome" where
  "not_null p = (case p of None \<Rightarrow> Fault | Some x \<Rightarrow> Ok x)"

lemma not_null_simps [simp, cil_simps]: "not_null None = Fault" "not_null (Some x) = Ok x"
  by (simp_all add: not_null_def)

lemma not_null_eq_Ok [simp]: "not_null p = Ok x \<longleftrightarrow> p = Some x"
  by (cases p) simp_all

text \<open>A loop over a list that leaves at the first iteration that does not succeed.\<close>

fun oeach :: "('x \<Rightarrow> unit outcome) \<Rightarrow> 'x list \<Rightarrow> unit outcome" where
  "oeach f [] = Ok ()"
| "oeach f (x # xs) = obind (f x) (\<lambda>_. oeach f xs)"

lemma oeach_Ok_iff: "oeach f xs = Ok () \<longleftrightarrow> (\<forall>x \<in> set xs. f x = Ok ())"
  by (induction xs) auto

lemma oeach_cong [fundef_cong]:
  "xs = ys \<Longrightarrow> (\<And>y. y \<in> set ys \<Longrightarrow> f y = g y) \<Longrightarrow> oeach f xs = oeach g ys"
proof (induction ys arbitrary: xs)
  case (Cons y ys)
  then show ?case by (auto intro!: obind_cong)
qed simp

text \<open>A C \<open>int\<close> passed as an unsigned number of 32 bits.\<close>

definition unsigned_int :: "int \<Rightarrow> nat" where
  "unsigned_int v = nat (v mod 2 ^ 32)"

lemma unsigned_int_small: "0 \<le> v \<Longrightarrow> v < 2 ^ 32 \<Longrightarrow> unsigned_int v = nat v"
  by (simp add: unsigned_int_def)

subsection \<open>Operations on a state\<close>

type_synonym ('s, 'a) cil = "'s \<Rightarrow> 'a outcome \<times> 's"

definition ret :: "'a \<Rightarrow> ('s, 'a) cil" where
  "ret x = (\<lambda>s. (Ok x, s))"

definition fail :: "sepol_rc \<Rightarrow> ('s, 'a) cil" where
  "fail e = (\<lambda>s. (Fail e, s))"

definition fault :: "('s, 'a) cil" where
  "fault = (\<lambda>s. (Fault, s))"

definition no_fuel :: "('s, 'a) cil" where
  "no_fuel = (\<lambda>s. (Out_of_fuel, s))"

text \<open>\<open>bind m f\<close> is the C idiom \<open>rc = m(); if (rc != SEPOL_OK) goto exit;\<close> followed by
  \<open>f\<close>: the state that \<open>m\<close> leaves behind is kept on every path.\<close>

definition bind :: "('s, 'a) cil \<Rightarrow> ('a \<Rightarrow> ('s, 'b) cil) \<Rightarrow> ('s, 'b) cil" where
  "bind m f = (\<lambda>s. case m s of
       (Ok x, s') \<Rightarrow> f x s'
     | (Fail e, s') \<Rightarrow> (Fail e, s')
     | (Fault, s') \<Rightarrow> (Fault, s')
     | (Out_of_fuel, s') \<Rightarrow> (Out_of_fuel, s'))"

text \<open>\<open>attempt m\<close> runs \<open>m\<close> and hands its return code to the caller.\<close>

definition attempt :: "('s, 'a) cil \<Rightarrow> ('s, sepol_rc + 'a) cil" where
  "attempt m = (\<lambda>s. case m s of
       (Ok x, s') \<Rightarrow> (Ok (Inr x), s')
     | (Fail e, s') \<Rightarrow> (Ok (Inl e), s')
     | (Fault, s') \<Rightarrow> (Fault, s')
     | (Out_of_fuel, s') \<Rightarrow> (Out_of_fuel, s'))"

definition gets :: "('s \<Rightarrow> 'a) \<Rightarrow> ('s, 'a) cil" where
  "gets f = (\<lambda>s. (Ok (f s), s))"

definition modify :: "('s \<Rightarrow> 's) \<Rightarrow> ('s, unit) cil" where
  "modify f = (\<lambda>s. (Ok (), f s))"

text \<open>A computation that only reads the state.\<close>

definition reading :: "('s \<Rightarrow> 'a outcome) \<Rightarrow> ('s, 'a) cil" where
  "reading f = (\<lambda>s. (f s, s))"

definition lift :: "'a outcome \<Rightarrow> ('s, 'a) cil" where
  "lift r = (\<lambda>s. (r, s))"

text \<open>Reading and writing the struct at an address, given the map that holds structs of its
  kind and the update function of that map.\<close>

definition rd :: "('s \<Rightarrow> addr \<rightharpoonup> 'x) \<Rightarrow> addr \<Rightarrow> ('s, 'x) cil" where
  "rd sel a = (\<lambda>s. case sel s a of Some x \<Rightarrow> (Ok x, s) | None \<Rightarrow> (Fault, s))"

definition wr ::
  "('s \<Rightarrow> addr \<rightharpoonup> 'x) \<Rightarrow> (((addr \<rightharpoonup> 'x) \<Rightarrow> addr \<rightharpoonup> 'x) \<Rightarrow> 's \<Rightarrow> 's) \<Rightarrow> addr \<Rightarrow> ('x \<Rightarrow> 'x) \<Rightarrow> ('s, unit) cil"
where
  "wr sel upd a f = (\<lambda>s. case sel s a of
       Some x \<Rightarrow> (Ok (), upd (\<lambda>m. m(a \<mapsto> f x)) s)
     | None \<Rightarrow> (Fault, s))"

fun for_each :: "('x \<Rightarrow> ('s, unit) cil) \<Rightarrow> 'x list \<Rightarrow> ('s, unit) cil" where
  "for_each f [] = ret ()"
| "for_each f (x # xs) = bind (f x) (\<lambda>_. for_each f xs)"

lemma ret_apply [simp, cil_simps]: "ret x s = (Ok x, s)"
  and fail_apply [simp, cil_simps]: "fail e s = (Fail e, s)"
  and fault_apply [simp, cil_simps]: "fault s = (Fault, s)"
  and no_fuel_apply [simp, cil_simps]: "no_fuel s = (Out_of_fuel, s)"
  and gets_apply [simp, cil_simps]: "gets f s = (Ok (f s), s)"
  and modify_apply [simp, cil_simps]: "modify g s = (Ok (), g s)"
  and reading_apply [simp, cil_simps]: "reading h s = (h s, s)"
  and lift_apply [simp, cil_simps]: "lift r s = (r, s)"
  by (simp_all add: ret_def fail_def fault_def no_fuel_def gets_def modify_def reading_def lift_def)

lemma bind_Ok [simp, cil_simps]: "m s = (Ok x, s') \<Longrightarrow> bind m f s = f x s'"
  and bind_Fail [simp, cil_simps]: "m s = (Fail e, s') \<Longrightarrow> bind m f s = (Fail e, s')"
  and bind_Fault [simp, cil_simps]: "m s = (Fault, s') \<Longrightarrow> bind m f s = (Fault, s')"
  and bind_Out_of_fuel [simp, cil_simps]:
    "m s = (Out_of_fuel, s') \<Longrightarrow> bind m f s = (Out_of_fuel, s')"
  by (simp_all add: bind_def)

lemma attempt_Ok [simp, cil_simps]: "m s = (Ok x, s') \<Longrightarrow> attempt m s = (Ok (Inr x), s')"
  and attempt_Fail [simp, cil_simps]: "m s = (Fail e, s') \<Longrightarrow> attempt m s = (Ok (Inl e), s')"
  and attempt_Fault [simp, cil_simps]: "m s = (Fault, s') \<Longrightarrow> attempt m s = (Fault, s')"
  and attempt_Out_of_fuel [simp, cil_simps]:
    "m s = (Out_of_fuel, s') \<Longrightarrow> attempt m s = (Out_of_fuel, s')"
  by (simp_all add: attempt_def)

lemma rd_apply [simp, cil_simps]:
  "sel s a = Some x \<Longrightarrow> rd sel a s = (Ok x, s)"
  "sel s a = None \<Longrightarrow> rd sel a s = (Fault, s)"
  by (simp_all add: rd_def)

lemma wr_apply [simp, cil_simps]:
  "sel s a = Some x \<Longrightarrow> wr sel upd a f s = (Ok (), upd (\<lambda>m. m(a \<mapsto> f x)) s)"
  "sel s a = None \<Longrightarrow> wr sel upd a f s = (Fault, s)"
  by (simp_all add: wr_def)

lemma bind_cases:
  obtains (Ok) x s' where "m s = (Ok x, s')" "bind m f s = f x s'"
  | (Fail) e s' where "m s = (Fail e, s')" "bind m f s = (Fail e, s')"
  | (Fault) s' where "m s = (Fault, s')" "bind m f s = (Fault, s')"
  | (Out_of_fuel) s' where "m s = (Out_of_fuel, s')" "bind m f s = (Out_of_fuel, s')"
proof (cases "m s")
  case (Pair r s')
  with that show ?thesis by (cases r) auto
qed

lemma bind_eq_Ok: "bind m f s = (Ok y, t) \<longleftrightarrow> (\<exists>x s'. m s = (Ok x, s') \<and> f x s' = (Ok y, t))"
  by (rule bind_cases [of m s f]) auto

lemma bind_OkE:
  assumes "bind m f s = (Ok y, t)"
  obtains x s' where "m s = (Ok x, s')" and "f x s' = (Ok y, t)"
  using assms by (auto simp: bind_eq_Ok)

lemma rd_eq_Ok: "rd sel a s = (Ok x, t) \<longleftrightarrow> sel s a = Some x \<and> t = s"
  by (auto simp: rd_def split: option.splits)

lemma wr_eq_Ok:
  "wr sel upd a f s = (Ok u, t) \<longleftrightarrow>
     (\<exists>x. sel s a = Some x \<and> t = upd (\<lambda>m. m(a \<mapsto> f x)) s)"
  by (auto simp: wr_def split: option.splits)

lemma bind_assoc: "bind (bind m f) g s = bind m (\<lambda>x. bind (f x) g) s"
  by (rule bind_cases [of m s f]) (auto simp: bind_def split: outcome.splits)

lemma bind_ret_right [simp]: "bind m ret s = m s"
  by (rule bind_cases [of m s ret]) auto

lemma bind_ret_unit [simp]: "bind m (\<lambda>_. ret ()) s = m s"
  by (rule bind_cases [of m s "\<lambda>_. ret ()"]) auto

lemma bind_cong [fundef_cong]:
  "m s = m' s \<Longrightarrow> s = s' \<Longrightarrow> (\<And>x t. m' s' = (Ok x, t) \<Longrightarrow> f x t = f' x t)
   \<Longrightarrow> bind m f s = bind m' f' s'"
  by (auto simp: bind_def split: prod.splits outcome.splits)

subsection \<open>Preserved predicates\<close>

text \<open>\<open>preserves I m\<close>: whatever \<open>m\<close> returns, a state with \<open>I\<close> stays one. The rules are
  syntax directed, so that a component's invariant is a call of \<open>auto intro: cil_pres\<close>.\<close>

definition preserves :: "('s \<Rightarrow> bool) \<Rightarrow> ('s, 'a) cil \<Rightarrow> bool" where
  "preserves I m \<longleftrightarrow> (\<forall>s. I s \<longrightarrow> I (snd (m s)))"

lemma preservesI: "(\<And>s. I s \<Longrightarrow> I (snd (m s))) \<Longrightarrow> preserves I m"
  by (simp add: preserves_def)

lemma preservesD: "preserves I m \<Longrightarrow> I s \<Longrightarrow> m s = (r, t) \<Longrightarrow> I t"
  by (metis preserves_def snd_conv)

lemma preserves_ret [cil_pres]: "preserves I (ret x)"
  and preserves_fail [cil_pres]: "preserves I (fail e)"
  and preserves_fault [cil_pres]: "preserves I fault"
  and preserves_no_fuel [cil_pres]: "preserves I no_fuel"
  and preserves_gets [cil_pres]: "preserves I (gets f)"
  and preserves_reading [cil_pres]: "preserves I (reading g)"
  and preserves_lift [cil_pres]: "preserves I (lift r)"
  by (simp_all add: preserves_def)

lemma preserves_Pair [simp, cil_pres]: "preserves I (Pair r)"
  by (simp add: preserves_def)

lemma preserves_rd [cil_pres]: "preserves I (rd sel a)"
  by (auto simp: preserves_def rd_def split: option.splits)

lemma preserves_bind [cil_pres]:
  assumes "preserves I m" and "\<And>x. preserves I (f x)"
  shows "preserves I (bind m f)"
proof (rule preservesI)
  fix s assume "I s"
  then show "I (snd (bind m f s))"
    using assms by (cases m s f rule: bind_cases) (auto dest: preservesD simp: preserves_def)
qed

lemma preserves_attempt [cil_pres]: "preserves I m \<Longrightarrow> preserves I (attempt m)"
  by (auto simp: preserves_def attempt_def split: prod.splits outcome.splits)

lemma preserves_modify [cil_pres]: "(\<And>s. I s \<Longrightarrow> I (f s)) \<Longrightarrow> preserves I (modify f)"
  by (simp add: preserves_def)

lemma preserves_wr [cil_pres]:
  "(\<And>s x. I s \<Longrightarrow> sel s a = Some x \<Longrightarrow> I (upd (\<lambda>m. m(a \<mapsto> f x)) s)) \<Longrightarrow> preserves I (wr sel upd a f)"
  by (auto simp: preserves_def wr_def split: option.splits)

lemma preserves_for_each [cil_pres]:
  "(\<And>x. x \<in> set xs \<Longrightarrow> preserves I (f x)) \<Longrightarrow> preserves I (for_each f xs)"
  by (induction xs) (auto intro: cil_pres)

lemma preserves_if [cil_pres]:
  "(b \<Longrightarrow> preserves I m) \<Longrightarrow> (\<not> b \<Longrightarrow> preserves I n) \<Longrightarrow> preserves I (if b then m else n)"
  by simp

lemma preserves_case_option [cil_pres]:
  "preserves I m \<Longrightarrow> (\<And>x. preserves I (f x)) \<Longrightarrow> preserves I (case p of None \<Rightarrow> m | Some x \<Rightarrow> f x)"
  by (cases p) auto

lemma preserves_case_sum [cil_pres]:
  "(\<And>x. preserves I (f x)) \<Longrightarrow> (\<And>y. preserves I (g y)) \<Longrightarrow>
   preserves I (case p of Inl x \<Rightarrow> f x | Inr y \<Rightarrow> g y)"
  by (cases p) auto

subsection \<open>Total correctness\<close>

text \<open>\<open>achieves I m Q s\<close>: from \<open>s\<close>, \<open>m\<close> succeeds with a result in \<open>Q\<close> and leaves a state with \<open>I\<close>.\<close>

definition achieves :: "('s \<Rightarrow> bool) \<Rightarrow> ('s, 'a) cil \<Rightarrow> ('a \<Rightarrow> bool) \<Rightarrow> 's \<Rightarrow> bool" where
  "achieves I m Q s \<longleftrightarrow> (\<exists>x t. m s = (Ok x, t) \<and> I t \<and> Q x)"

lemma achievesI: "m s = (Ok x, t) \<Longrightarrow> I t \<Longrightarrow> Q x \<Longrightarrow> achieves I m Q s"
  by (auto simp: achieves_def)

lemma achievesE:
  assumes "achieves I m Q s"
  obtains x t where "m s = (Ok x, t)" and "I t" and "Q x"
  using assms by (auto simp: achieves_def)

lemma achieves_ret: "I s \<Longrightarrow> Q x \<Longrightarrow> achieves I (ret x) Q s"
  by (simp add: achieves_def)

lemma achieves_Pair [simp]: "achieves I (Pair r) Q s \<longleftrightarrow> I s \<and> (\<exists>x. r = Ok x \<and> Q x)"
  by (auto simp: achieves_def)

lemma achieves_bind:
  assumes "achieves J m P s" and "\<And>x t. J t \<Longrightarrow> P x \<Longrightarrow> achieves I (f x) Q t"
  shows "achieves I (bind m f) Q s"
  using assms(1) by (rule achievesE) (use assms(2) in \<open>auto simp: achieves_def\<close>)

lemma achieves_reading: "I s \<Longrightarrow> g s = Ok x \<Longrightarrow> Q x \<Longrightarrow> achieves I (reading g) Q s"
  by (simp add: achieves_def)

lemma achieves_weaken:
  "achieves I m Q s \<Longrightarrow> (\<And>t. I t \<Longrightarrow> J t) \<Longrightarrow> (\<And>x. Q x \<Longrightarrow> R x) \<Longrightarrow> achieves J m R s"
  by (auto simp: achieves_def)

end
