(* ===== verification/Cil_Flavor.thy ===== *)
theory Cil_Flavor
  imports Cil_Prelude
begin

text \<open>
  The enumerations of \<open>src/cil_flavor.h\<close> and of \<open>src/cil_internal.h\<close>.

  A flavor is a C enumerator with 126 values in three numeric bands, which the code compares
  with the bounds \<open>CIL_MIN_OP_OPERANDS\<close> and \<open>CIL_MIN_DECLARATIVE\<close> and stores in list items as a
  plain pointer-sized number. It is modelled by that number, one abbreviation per enumerator,
  so that distinctness and the band tests are decided by the simplifier's arithmetic.
\<close>

type_synonym cil_flavor = nat

abbreviation (input) CIL_MIN_OP_OPERANDS :: cil_flavor where "CIL_MIN_OP_OPERANDS \<equiv> 1000"

abbreviation (input) CIL_MIN_DECLARATIVE :: cil_flavor where "CIL_MIN_DECLARATIVE \<equiv> 2000"

abbreviation (input) CIL_NONE :: cil_flavor where "CIL_NONE \<equiv> 0"
abbreviation (input) CIL_ROOT :: cil_flavor where "CIL_ROOT \<equiv> 1"
abbreviation (input) CIL_NODE :: cil_flavor where "CIL_NODE \<equiv> 2"
abbreviation (input) CIL_STRING :: cil_flavor where "CIL_STRING \<equiv> 3"
abbreviation (input) CIL_DATUM :: cil_flavor where "CIL_DATUM \<equiv> 4"
abbreviation (input) CIL_LIST :: cil_flavor where "CIL_LIST \<equiv> 5"
abbreviation (input) CIL_LIST_ITEM :: cil_flavor where "CIL_LIST_ITEM \<equiv> 6"
abbreviation (input) CIL_PARAM :: cil_flavor where "CIL_PARAM \<equiv> 7"
abbreviation (input) CIL_ARGS :: cil_flavor where "CIL_ARGS \<equiv> 8"
abbreviation (input) CIL_BLOCKINHERIT :: cil_flavor where "CIL_BLOCKINHERIT \<equiv> 9"
abbreviation (input) CIL_BLOCKABSTRACT :: cil_flavor where "CIL_BLOCKABSTRACT \<equiv> 10"
abbreviation (input) CIL_IN :: cil_flavor where "CIL_IN \<equiv> 11"
abbreviation (input) CIL_CALL :: cil_flavor where "CIL_CALL \<equiv> 12"
abbreviation (input) CIL_BOOLEANIF :: cil_flavor where "CIL_BOOLEANIF \<equiv> 13"
abbreviation (input) CIL_TUNABLEIF :: cil_flavor where "CIL_TUNABLEIF \<equiv> 14"
abbreviation (input) CIL_CONDBLOCK :: cil_flavor where "CIL_CONDBLOCK \<equiv> 15"
abbreviation (input) CIL_CONDTRUE :: cil_flavor where "CIL_CONDTRUE \<equiv> 16"
abbreviation (input) CIL_CONDFALSE :: cil_flavor where "CIL_CONDFALSE \<equiv> 17"
abbreviation (input) CIL_CLASSORDER :: cil_flavor where "CIL_CLASSORDER \<equiv> 18"
abbreviation (input) CIL_CLASSCOMMON :: cil_flavor where "CIL_CLASSCOMMON \<equiv> 19"
abbreviation (input) CIL_CLASSMAPPING :: cil_flavor where "CIL_CLASSMAPPING \<equiv> 20"
abbreviation (input) CIL_CLASSPERMS :: cil_flavor where "CIL_CLASSPERMS \<equiv> 21"
abbreviation (input) CIL_CLASSPERMS_SET :: cil_flavor where "CIL_CLASSPERMS_SET \<equiv> 22"
abbreviation (input) CIL_CLASSPERMISSIONSET :: cil_flavor where "CIL_CLASSPERMISSIONSET \<equiv> 23"
abbreviation (input) CIL_USERPREFIX :: cil_flavor where "CIL_USERPREFIX \<equiv> 24"
abbreviation (input) CIL_USERROLE :: cil_flavor where "CIL_USERROLE \<equiv> 25"
abbreviation (input) CIL_USERLEVEL :: cil_flavor where "CIL_USERLEVEL \<equiv> 26"
abbreviation (input) CIL_USERRANGE :: cil_flavor where "CIL_USERRANGE \<equiv> 27"
abbreviation (input) CIL_USERBOUNDS :: cil_flavor where "CIL_USERBOUNDS \<equiv> 28"
abbreviation (input) CIL_SELINUXUSER :: cil_flavor where "CIL_SELINUXUSER \<equiv> 29"
abbreviation (input) CIL_SELINUXUSERDEFAULT :: cil_flavor where "CIL_SELINUXUSERDEFAULT \<equiv> 30"
abbreviation (input) CIL_ROLEATTRIBUTESET :: cil_flavor where "CIL_ROLEATTRIBUTESET \<equiv> 31"
abbreviation (input) CIL_ROLETYPE :: cil_flavor where "CIL_ROLETYPE \<equiv> 32"
abbreviation (input) CIL_ROLEBOUNDS :: cil_flavor where "CIL_ROLEBOUNDS \<equiv> 33"
abbreviation (input) CIL_TYPEATTRIBUTESET :: cil_flavor where "CIL_TYPEATTRIBUTESET \<equiv> 34"
abbreviation (input) CIL_TYPEALIASACTUAL :: cil_flavor where "CIL_TYPEALIASACTUAL \<equiv> 35"
abbreviation (input) CIL_TYPEBOUNDS :: cil_flavor where "CIL_TYPEBOUNDS \<equiv> 36"
abbreviation (input) CIL_TYPEPERMISSIVE :: cil_flavor where "CIL_TYPEPERMISSIVE \<equiv> 37"
abbreviation (input) CIL_SENSALIASACTUAL :: cil_flavor where "CIL_SENSALIASACTUAL \<equiv> 38"
abbreviation (input) CIL_SENSITIVITYORDER :: cil_flavor where "CIL_SENSITIVITYORDER \<equiv> 39"
abbreviation (input) CIL_SENSCAT :: cil_flavor where "CIL_SENSCAT \<equiv> 40"
abbreviation (input) CIL_CATALIASACTUAL :: cil_flavor where "CIL_CATALIASACTUAL \<equiv> 41"
abbreviation (input) CIL_CATORDER :: cil_flavor where "CIL_CATORDER \<equiv> 42"
abbreviation (input) CIL_SIDORDER :: cil_flavor where "CIL_SIDORDER \<equiv> 43"
abbreviation (input) CIL_ROLEALLOW :: cil_flavor where "CIL_ROLEALLOW \<equiv> 44"
abbreviation (input) CIL_AVRULE :: cil_flavor where "CIL_AVRULE \<equiv> 45"
abbreviation (input) CIL_ROLETRANSITION :: cil_flavor where "CIL_ROLETRANSITION \<equiv> 46"
abbreviation (input) CIL_TYPE_RULE :: cil_flavor where "CIL_TYPE_RULE \<equiv> 47"
abbreviation (input) CIL_NAMETYPETRANSITION :: cil_flavor where "CIL_NAMETYPETRANSITION \<equiv> 48"
abbreviation (input) CIL_RANGETRANSITION :: cil_flavor where "CIL_RANGETRANSITION \<equiv> 49"
abbreviation (input) CIL_CONSTRAIN :: cil_flavor where "CIL_CONSTRAIN \<equiv> 50"
abbreviation (input) CIL_MLSCONSTRAIN :: cil_flavor where "CIL_MLSCONSTRAIN \<equiv> 51"
abbreviation (input) CIL_VALIDATETRANS :: cil_flavor where "CIL_VALIDATETRANS \<equiv> 52"
abbreviation (input) CIL_MLSVALIDATETRANS :: cil_flavor where "CIL_MLSVALIDATETRANS \<equiv> 53"
abbreviation (input) CIL_SIDCONTEXT :: cil_flavor where "CIL_SIDCONTEXT \<equiv> 54"
abbreviation (input) CIL_FSUSE :: cil_flavor where "CIL_FSUSE \<equiv> 55"
abbreviation (input) CIL_FILECON :: cil_flavor where "CIL_FILECON \<equiv> 56"
abbreviation (input) CIL_PORTCON :: cil_flavor where "CIL_PORTCON \<equiv> 57"
abbreviation (input) CIL_NODECON :: cil_flavor where "CIL_NODECON \<equiv> 58"
abbreviation (input) CIL_GENFSCON :: cil_flavor where "CIL_GENFSCON \<equiv> 59"
abbreviation (input) CIL_NETIFCON :: cil_flavor where "CIL_NETIFCON \<equiv> 60"
abbreviation (input) CIL_PIRQCON :: cil_flavor where "CIL_PIRQCON \<equiv> 61"
abbreviation (input) CIL_IOMEMCON :: cil_flavor where "CIL_IOMEMCON \<equiv> 62"
abbreviation (input) CIL_IOPORTCON :: cil_flavor where "CIL_IOPORTCON \<equiv> 63"
abbreviation (input) CIL_PCIDEVICECON :: cil_flavor where "CIL_PCIDEVICECON \<equiv> 64"
abbreviation (input) CIL_DEFAULTUSER :: cil_flavor where "CIL_DEFAULTUSER \<equiv> 65"
abbreviation (input) CIL_DEFAULTROLE :: cil_flavor where "CIL_DEFAULTROLE \<equiv> 66"
abbreviation (input) CIL_DEFAULTTYPE :: cil_flavor where "CIL_DEFAULTTYPE \<equiv> 67"
abbreviation (input) CIL_DEFAULTRANGE :: cil_flavor where "CIL_DEFAULTRANGE \<equiv> 68"
abbreviation (input) CIL_HANDLEUNKNOWN :: cil_flavor where "CIL_HANDLEUNKNOWN \<equiv> 69"
abbreviation (input) CIL_MLS :: cil_flavor where "CIL_MLS \<equiv> 70"
abbreviation (input) CIL_OP :: cil_flavor where "CIL_OP \<equiv> 1000"
abbreviation (input) CIL_ALL :: cil_flavor where "CIL_ALL \<equiv> 1001"
abbreviation (input) CIL_AND :: cil_flavor where "CIL_AND \<equiv> 1002"
abbreviation (input) CIL_OR :: cil_flavor where "CIL_OR \<equiv> 1003"
abbreviation (input) CIL_XOR :: cil_flavor where "CIL_XOR \<equiv> 1004"
abbreviation (input) CIL_NOT :: cil_flavor where "CIL_NOT \<equiv> 1005"
abbreviation (input) CIL_EQ :: cil_flavor where "CIL_EQ \<equiv> 1006"
abbreviation (input) CIL_NEQ :: cil_flavor where "CIL_NEQ \<equiv> 1007"
abbreviation (input) CIL_RANGE :: cil_flavor where "CIL_RANGE \<equiv> 1008"
abbreviation (input) CIL_CONS_DOM :: cil_flavor where "CIL_CONS_DOM \<equiv> 1009"
abbreviation (input) CIL_CONS_DOMBY :: cil_flavor where "CIL_CONS_DOMBY \<equiv> 1010"
abbreviation (input) CIL_CONS_INCOMP :: cil_flavor where "CIL_CONS_INCOMP \<equiv> 1011"
abbreviation (input) CIL_CONS_OPERAND :: cil_flavor where "CIL_CONS_OPERAND \<equiv> 1012"
abbreviation (input) CIL_CONS_U1 :: cil_flavor where "CIL_CONS_U1 \<equiv> 1013"
abbreviation (input) CIL_CONS_U2 :: cil_flavor where "CIL_CONS_U2 \<equiv> 1014"
abbreviation (input) CIL_CONS_U3 :: cil_flavor where "CIL_CONS_U3 \<equiv> 1015"
abbreviation (input) CIL_CONS_T1 :: cil_flavor where "CIL_CONS_T1 \<equiv> 1016"
abbreviation (input) CIL_CONS_T2 :: cil_flavor where "CIL_CONS_T2 \<equiv> 1017"
abbreviation (input) CIL_CONS_T3 :: cil_flavor where "CIL_CONS_T3 \<equiv> 1018"
abbreviation (input) CIL_CONS_R1 :: cil_flavor where "CIL_CONS_R1 \<equiv> 1019"
abbreviation (input) CIL_CONS_R2 :: cil_flavor where "CIL_CONS_R2 \<equiv> 1020"
abbreviation (input) CIL_CONS_R3 :: cil_flavor where "CIL_CONS_R3 \<equiv> 1021"
abbreviation (input) CIL_CONS_L1 :: cil_flavor where "CIL_CONS_L1 \<equiv> 1022"
abbreviation (input) CIL_CONS_L2 :: cil_flavor where "CIL_CONS_L2 \<equiv> 1023"
abbreviation (input) CIL_CONS_H1 :: cil_flavor where "CIL_CONS_H1 \<equiv> 1024"
abbreviation (input) CIL_CONS_H2 :: cil_flavor where "CIL_CONS_H2 \<equiv> 1025"
abbreviation (input) CIL_BLOCK :: cil_flavor where "CIL_BLOCK \<equiv> 2000"
abbreviation (input) CIL_MACRO :: cil_flavor where "CIL_MACRO \<equiv> 2001"
abbreviation (input) CIL_OPTIONAL :: cil_flavor where "CIL_OPTIONAL \<equiv> 2002"
abbreviation (input) CIL_BOOL :: cil_flavor where "CIL_BOOL \<equiv> 2003"
abbreviation (input) CIL_TUNABLE :: cil_flavor where "CIL_TUNABLE \<equiv> 2004"
abbreviation (input) CIL_PERM :: cil_flavor where "CIL_PERM \<equiv> 2005"
abbreviation (input) CIL_MAP_PERM :: cil_flavor where "CIL_MAP_PERM \<equiv> 2006"
abbreviation (input) CIL_COMMON :: cil_flavor where "CIL_COMMON \<equiv> 2007"
abbreviation (input) CIL_CLASS :: cil_flavor where "CIL_CLASS \<equiv> 2008"
abbreviation (input) CIL_MAP_CLASS :: cil_flavor where "CIL_MAP_CLASS \<equiv> 2009"
abbreviation (input) CIL_CLASSPERMISSION :: cil_flavor where "CIL_CLASSPERMISSION \<equiv> 2010"
abbreviation (input) CIL_USER :: cil_flavor where "CIL_USER \<equiv> 2011"
abbreviation (input) CIL_ROLE :: cil_flavor where "CIL_ROLE \<equiv> 2012"
abbreviation (input) CIL_ROLEATTRIBUTE :: cil_flavor where "CIL_ROLEATTRIBUTE \<equiv> 2013"
abbreviation (input) CIL_TYPE :: cil_flavor where "CIL_TYPE \<equiv> 2014"
abbreviation (input) CIL_TYPEATTRIBUTE :: cil_flavor where "CIL_TYPEATTRIBUTE \<equiv> 2015"
abbreviation (input) CIL_TYPEALIAS :: cil_flavor where "CIL_TYPEALIAS \<equiv> 2016"
abbreviation (input) CIL_SENS :: cil_flavor where "CIL_SENS \<equiv> 2017"
abbreviation (input) CIL_SENSALIAS :: cil_flavor where "CIL_SENSALIAS \<equiv> 2018"
abbreviation (input) CIL_CAT :: cil_flavor where "CIL_CAT \<equiv> 2019"
abbreviation (input) CIL_CATSET :: cil_flavor where "CIL_CATSET \<equiv> 2020"
abbreviation (input) CIL_CATALIAS :: cil_flavor where "CIL_CATALIAS \<equiv> 2021"
abbreviation (input) CIL_LEVEL :: cil_flavor where "CIL_LEVEL \<equiv> 2022"
abbreviation (input) CIL_LEVELRANGE :: cil_flavor where "CIL_LEVELRANGE \<equiv> 2023"
abbreviation (input) CIL_SID :: cil_flavor where "CIL_SID \<equiv> 2024"
abbreviation (input) CIL_NAME :: cil_flavor where "CIL_NAME \<equiv> 2025"
abbreviation (input) CIL_CONTEXT :: cil_flavor where "CIL_CONTEXT \<equiv> 2026"
abbreviation (input) CIL_IPADDR :: cil_flavor where "CIL_IPADDR \<equiv> 2027"
abbreviation (input) CIL_POLICYCAP :: cil_flavor where "CIL_POLICYCAP \<equiv> 2028"

subsection \<open>Symbol table indices\<close>

text \<open>
  \<open>enum cil_sym_index\<close> indexes the arrays of symbol tables that blocks, macros and the root
  hold. \<open>CIL_SYM_NUM\<close>, \<open>CIL_SYM_UNKNOWN\<close> and \<open>CIL_SYM_PERMS\<close> are out of range of these arrays.
\<close>

datatype cil_sym_index =
    CIL_SYM_BLOCKS
  | CIL_SYM_USERS
  | CIL_SYM_ROLES
  | CIL_SYM_TYPES
  | CIL_SYM_COMMONS
  | CIL_SYM_CLASSES
  | CIL_SYM_CLASSPERMSETS
  | CIL_SYM_BOOLS
  | CIL_SYM_TUNABLES
  | CIL_SYM_SENS
  | CIL_SYM_CATS
  | CIL_SYM_SIDS
  | CIL_SYM_CONTEXTS
  | CIL_SYM_LEVELS
  | CIL_SYM_LEVELRANGES
  | CIL_SYM_POLICYCAPS
  | CIL_SYM_IPADDRS
  | CIL_SYM_NAMES
  | CIL_SYM_NUM
  | CIL_SYM_UNKNOWN
  | CIL_SYM_PERMS

text \<open>The enumerator's number, used where the code does arithmetic on an index.\<close>

fun sym_num :: "cil_sym_index \<Rightarrow> nat" where
  "sym_num CIL_SYM_BLOCKS = 0"
| "sym_num CIL_SYM_USERS = 1"
| "sym_num CIL_SYM_ROLES = 2"
| "sym_num CIL_SYM_TYPES = 3"
| "sym_num CIL_SYM_COMMONS = 4"
| "sym_num CIL_SYM_CLASSES = 5"
| "sym_num CIL_SYM_CLASSPERMSETS = 6"
| "sym_num CIL_SYM_BOOLS = 7"
| "sym_num CIL_SYM_TUNABLES = 8"
| "sym_num CIL_SYM_SENS = 9"
| "sym_num CIL_SYM_CATS = 10"
| "sym_num CIL_SYM_SIDS = 11"
| "sym_num CIL_SYM_CONTEXTS = 12"
| "sym_num CIL_SYM_LEVELS = 13"
| "sym_num CIL_SYM_LEVELRANGES = 14"
| "sym_num CIL_SYM_POLICYCAPS = 15"
| "sym_num CIL_SYM_IPADDRS = 16"
| "sym_num CIL_SYM_NAMES = 17"
| "sym_num CIL_SYM_NUM = 18"
| "sym_num CIL_SYM_UNKNOWN = 19"
| "sym_num CIL_SYM_PERMS = 20"

lemma sym_num_inject: "sym_num i = sym_num j \<Longrightarrow> i = j"
  by (cases i) (cases j; simp)+

text \<open>\<open>cil_flavor_to_symtab_index\<close> of \<open>src/cil.c\<close>: which symbol table a declaration goes to.\<close>

definition cil_flavor_to_symtab_index :: "cil_flavor \<Rightarrow> cil_sym_index outcome" where
  "cil_flavor_to_symtab_index flavor =
    (if flavor < CIL_MIN_DECLARATIVE then Fail SEPOL_ERR
     else if flavor = CIL_BLOCK then Ok CIL_SYM_BLOCKS
     else if flavor = CIL_MACRO then Ok CIL_SYM_BLOCKS
     else if flavor = CIL_OPTIONAL then Ok CIL_SYM_BLOCKS
     else if flavor = CIL_BOOL then Ok CIL_SYM_BOOLS
     else if flavor = CIL_TUNABLE then Ok CIL_SYM_TUNABLES
     else if flavor = CIL_PERM \<or> flavor = CIL_MAP_PERM then Ok CIL_SYM_PERMS
     else if flavor = CIL_COMMON then Ok CIL_SYM_COMMONS
     else if flavor = CIL_CLASS \<or> flavor = CIL_MAP_CLASS then Ok CIL_SYM_CLASSES
     else if flavor = CIL_CLASSPERMISSION \<or> flavor = CIL_CLASSPERMISSIONSET
       then Ok CIL_SYM_CLASSPERMSETS
     else if flavor = CIL_USER then Ok CIL_SYM_USERS
     else if flavor = CIL_ROLE \<or> flavor = CIL_ROLEATTRIBUTE then Ok CIL_SYM_ROLES
     else if flavor = CIL_TYPE \<or> flavor = CIL_TYPEALIAS \<or> flavor = CIL_TYPEATTRIBUTE
       then Ok CIL_SYM_TYPES
     else if flavor = CIL_SENS \<or> flavor = CIL_SENSALIAS then Ok CIL_SYM_SENS
     else if flavor = CIL_CAT \<or> flavor = CIL_CATSET \<or> flavor = CIL_CATALIAS
       then Ok CIL_SYM_CATS
     else if flavor = CIL_LEVEL then Ok CIL_SYM_LEVELS
     else if flavor = CIL_LEVELRANGE then Ok CIL_SYM_LEVELRANGES
     else if flavor = CIL_SID then Ok CIL_SYM_SIDS
     else if flavor = CIL_NAME then Ok CIL_SYM_NAMES
     else if flavor = CIL_CONTEXT then Ok CIL_SYM_CONTEXTS
     else if flavor = CIL_IPADDR then Ok CIL_SYM_IPADDRS
     else if flavor = CIL_POLICYCAP then Ok CIL_SYM_POLICYCAPS
     else Fail SEPOL_ERR)"

text \<open>A declaration's table is one of the 18 of an array, or the permission table of a class.\<close>

lemma cil_flavor_to_symtab_index_range:
  "cil_flavor_to_symtab_index f = Ok i \<Longrightarrow> CIL_MIN_DECLARATIVE \<le> f \<and> (sym_num i < 18 \<or> i = CIL_SYM_PERMS)"
  by (auto simp: cil_flavor_to_symtab_index_def split: if_splits)

subsection \<open>Passes of the resolver\<close>

datatype cil_pass =
    CIL_PASS_INIT
  | CIL_PASS_TIF
  | CIL_PASS_IN
  | CIL_PASS_BLKIN_LINK
  | CIL_PASS_BLKIN_COPY
  | CIL_PASS_BLKABS
  | CIL_PASS_MACRO
  | CIL_PASS_CALL1
  | CIL_PASS_CALL2
  | CIL_PASS_ALIAS1
  | CIL_PASS_ALIAS2
  | CIL_PASS_MISC1
  | CIL_PASS_MLS
  | CIL_PASS_MISC2
  | CIL_PASS_MISC3
  | CIL_PASS_NUM

subsection \<open>The tree walker's skip flags (\<open>src/cil_tree.h\<close>)\<close>

abbreviation (input) CIL_TREE_SKIP_NOTHING :: nat where "CIL_TREE_SKIP_NOTHING \<equiv> 0"

abbreviation (input) CIL_TREE_SKIP_NEXT :: nat where "CIL_TREE_SKIP_NEXT \<equiv> 1"

abbreviation (input) CIL_TREE_SKIP_HEAD :: nat where "CIL_TREE_SKIP_HEAD \<equiv> 2"

subsection \<open>Rule kinds\<close>

abbreviation (input) CIL_AVRULE_ALLOWED :: nat where "CIL_AVRULE_ALLOWED \<equiv> 1"

abbreviation (input) CIL_AVRULE_AUDITALLOW :: nat where "CIL_AVRULE_AUDITALLOW \<equiv> 2"

abbreviation (input) CIL_AVRULE_DONTAUDIT :: nat where "CIL_AVRULE_DONTAUDIT \<equiv> 8"

abbreviation (input) CIL_AVRULE_NEVERALLOW :: nat where "CIL_AVRULE_NEVERALLOW \<equiv> 128"

abbreviation (input) CIL_TYPE_TRANSITION :: nat where "CIL_TYPE_TRANSITION \<equiv> 16"

abbreviation (input) CIL_TYPE_MEMBER :: nat where "CIL_TYPE_MEMBER \<equiv> 32"

abbreviation (input) CIL_TYPE_CHANGE :: nat where "CIL_TYPE_CHANGE \<equiv> 64"

end
