(* ===== verification/Cil_Structs.thy ===== *)
theory Cil_Structs
  imports Cil_Flavor
begin

text \<open>
  The structs of \<open>src/cil_internal.h\<close>, \<open>src/cil_symtab.h\<close> and \<open>src/cil_tree.h\<close>, one record per
  struct, the fields in the order of the source and with its names, prefixed by the struct's.

  A pointer to a struct is an \<open>addr option\<close> (\<open>None\<close> is \<open>NULL\<close>); a \<open>char *\<close> is a \<open>cstring\<close>. Names are
  interned by \<open>src/cil_strpool.c\<close>, so that comparing their pointers is comparing the strings.
  A \<open>struct cil_list\<close> is a list value: theory \<open>Cil_List\<close> shows that the head and tail pointers
  implement one. The embedded \<open>struct cil_symtab_datum\<close> of a declared object is kept in a map of
  its own under the object's address, which is where the casts of the code find it. The
  bitmaps of \<open>libsepol\<close> are values of a type parameter.
\<close>

subsection \<open>Lists of the program\<close>

text \<open>
  An item of a \<open>struct cil_list\<close> carries a flavor and a pointer. The items of expression lists
  are strings before name resolution and data afterwards, operators, operands of
  constraints, and sublists; other items point to structs of their flavor.
\<close>

datatype cil_item =
    Item_String cstring
  | Item_Datum addr
  | Item_Op cil_flavor
  | Item_Operand cil_flavor
  | Item_List cil_list
  | Item_Ref cil_flavor addr
and cil_list = Cil_List (list_flavor: cil_flavor) (list_items: "cil_item list")

fun item_flavor :: "cil_item \<Rightarrow> cil_flavor" where
  "item_flavor (Item_String s) = CIL_STRING"
| "item_flavor (Item_Datum a) = CIL_DATUM"
| "item_flavor (Item_Op f) = CIL_OP"
| "item_flavor (Item_Operand f) = CIL_CONS_OPERAND"
| "item_flavor (Item_List l) = CIL_LIST"
| "item_flavor (Item_Ref f a) = f"

text \<open>The object an item points to.\<close>

fun item_data :: "cil_item \<Rightarrow> addr option" where
  "item_data (Item_Datum a) = Some a"
| "item_data (Item_Ref f a) = Some a"
| "item_data i = None"

text \<open>A list of class permissions: the items are of flavor \<open>CIL_CLASSPERMS\<close> or
  \<open>CIL_CLASSPERMS_SET\<close> and point to structs of that kind.\<close>

type_synonym classperms_list = "(cil_flavor \<times> addr) list"

text \<open>A \<open>symtab_t *\<close>: a position in the array of symbol tables of a block, macro or root, or
  the permission table of a class.\<close>

datatype symtab_ref = SymArray addr nat | SymPerms addr

subsection \<open>Structs\<close>

text \<open>\<open>cil_symtab_datum\<close>: the header every declared object starts with; \<open>nodes\<close> are the AST nodes that point to the object.\<close>

record cil_symtab_datum =
  datum_name :: cstring
  datum_fqn :: cstring
  datum_symtab :: "symtab_ref option"
  datum_nodes :: "addr list option"

text \<open>\<open>cil_tree_node\<close>: a node of the AST; its children are the chain from \<open>cl_head\<close> along \<open>next\<close>.\<close>

record cil_tree_node =
  node_parent :: "addr option"
  node_cl_head :: "addr option"
  node_cl_tail :: "addr option"
  node_next :: "addr option"
  node_flavor :: cil_flavor
  node_line :: nat
  node_path :: cstring
  node_data :: "addr option"

record cil_block =
  block_is_abstract :: bool
  block_bi_nodes :: "addr list option"

record cil_blockinherit =
  blockinherit_block_str :: cstring
  blockinherit_block :: "addr option"

record cil_blockabstract =
  blockabstract_block_str :: cstring

record cil_in =
  in_block_str :: cstring

record cil_optional =
  optional_enabled :: bool

record cil_perm =
  perm_value :: "32 word"
  perm_classperms :: "classperms_list option"

text \<open>\<open>cil_class\<close>: the symbol table \<open>perms\<close> is \<open>SymPerms\<close> of the class's address.\<close>

record cil_class =
  class_num_perms :: "32 word"
  class_common :: "addr option"
  class_ordered :: bool

record cil_classorder =
  classorder_class_list_str :: "cstring list"

record cil_classperms_set =
  classperms_set_set_str :: cstring
  classperms_set_set :: "addr option"

record cil_classperms =
  classperms_class_str :: cstring
  classperms_class :: "addr option"
  classperms_perm_strs :: cil_list
  classperms_perms :: "cil_list option"

record cil_classpermission =
  classpermission_classperms :: "classperms_list option"

record cil_classpermissionset =
  classpermissionset_set_str :: cstring
  classpermissionset_classperms :: classperms_list

record cil_classmapping =
  classmapping_map_class_str :: cstring
  classmapping_map_perm_str :: cstring
  classmapping_classperms :: classperms_list

record cil_classcommon =
  classcommon_class_str :: cstring
  classcommon_common_str :: cstring

record cil_alias =
  alias_actual :: "addr option"

record cil_aliasactual =
  aliasactual_alias_str :: cstring
  aliasactual_actual_str :: cstring

record cil_sid =
  sid_context :: "addr option"
  sid_ordered :: bool

record cil_sidcontext =
  sidcontext_sid_str :: cstring
  sidcontext_context_str :: cstring
  sidcontext_context :: "addr option"

record cil_sidorder =
  sidorder_sid_list_str :: "cstring list"

record cil_user =
  user_bounds :: "addr option"
  user_roles :: "addr list option"
  user_dftlevel :: "addr option"
  user_range :: "addr option"

record cil_userrole =
  userrole_user_str :: cstring
  userrole_user :: "addr option"
  userrole_role_str :: cstring
  userrole_role :: "addr option"

record cil_userlevel =
  userlevel_user_str :: cstring
  userlevel_level_str :: cstring
  userlevel_level :: "addr option"

record cil_userrange =
  userrange_user_str :: cstring
  userrange_range_str :: cstring
  userrange_range :: "addr option"

record cil_userprefix =
  userprefix_user_str :: cstring
  userprefix_user :: "addr option"
  userprefix_prefix_str :: cstring

record cil_selinuxuser =
  selinuxuser_name_str :: cstring
  selinuxuser_user_str :: cstring
  selinuxuser_user :: "addr option"
  selinuxuser_range_str :: cstring
  selinuxuser_range :: "addr option"

record 'b cil_role =
  role_bounds :: "addr option"
  role_types :: "'b option"
  role_value :: int

record 'b cil_roleattribute =
  roleattribute_expr_list :: "cil_list list option"
  roleattribute_roles :: "'b option"

record cil_roleattributeset =
  roleattributeset_attr_str :: cstring
  roleattributeset_str_expr :: cil_list
  roleattributeset_datum_expr :: "cil_list option"

record cil_roletype =
  roletype_role_str :: cstring
  roletype_role :: "addr option"
  roletype_type_str :: cstring
  roletype_type :: "addr option"

record cil_type =
  type_bounds :: "addr option"
  type_value :: int

record 'b cil_typeattribute =
  typeattribute_expr_list :: "cil_list list option"
  typeattribute_types :: "'b option"
  typeattribute_used :: bool

record cil_typeattributeset =
  typeattributeset_attr_str :: cstring
  typeattributeset_str_expr :: cil_list
  typeattributeset_datum_expr :: "cil_list option"

record cil_typepermissive =
  typepermissive_type_str :: cstring
  typepermissive_type :: "addr option"

record cil_name =
  name_name_str :: cstring

record cil_nametypetransition =
  nametypetransition_src_str :: cstring
  nametypetransition_src :: "addr option"
  nametypetransition_tgt_str :: cstring
  nametypetransition_tgt :: "addr option"
  nametypetransition_obj_str :: cstring
  nametypetransition_obj :: "addr option"
  nametypetransition_name_str :: cstring
  nametypetransition_name :: "addr option"
  nametypetransition_result_str :: cstring
  nametypetransition_result :: "addr option"

record cil_rangetransition =
  rangetransition_src_str :: cstring
  rangetransition_src :: "addr option"
  rangetransition_exec_str :: cstring
  rangetransition_exec :: "addr option"
  rangetransition_obj_str :: cstring
  rangetransition_obj :: "addr option"
  rangetransition_range_str :: cstring
  rangetransition_range :: "addr option"

record cil_bool =
  bool_value :: bool

record cil_tunable =
  tunable_value :: bool

record cil_avrule =
  avrule_rule_kind :: nat
  avrule_src_str :: cstring
  avrule_src :: "addr option"
  avrule_tgt_str :: cstring
  avrule_tgt :: "addr option"
  avrule_classperms :: classperms_list

record cil_type_rule =
  type_rule_rule_kind :: nat
  type_rule_src_str :: cstring
  type_rule_src :: "addr option"
  type_rule_tgt_str :: cstring
  type_rule_tgt :: "addr option"
  type_rule_obj_str :: cstring
  type_rule_obj :: "addr option"
  type_rule_result_str :: cstring
  type_rule_result :: "addr option"

record cil_roletransition =
  roletransition_src_str :: cstring
  roletransition_src :: "addr option"
  roletransition_tgt_str :: cstring
  roletransition_tgt :: "addr option"
  roletransition_obj_str :: cstring
  roletransition_obj :: "addr option"
  roletransition_result_str :: cstring
  roletransition_result :: "addr option"

record cil_roleallow =
  roleallow_src_str :: cstring
  roleallow_src :: "addr option"
  roleallow_tgt_str :: cstring
  roleallow_tgt :: "addr option"

record cil_sens =
  sens_cats_list :: "addr list option"
  sens_ordered :: bool

record cil_sensorder =
  sensorder_sens_list_str :: "cstring list"

record cil_cat =
  cat_ordered :: bool
  cat_value :: int

record cil_cats =
  cats_evaluated :: bool
  cats_str_expr :: cil_list
  cats_datum_expr :: "cil_list option"

record cil_catset =
  catset_cats :: "addr option"

record cil_catorder =
  catorder_cat_list_str :: "cstring list"

record cil_senscat =
  senscat_sens_str :: cstring
  senscat_cats :: "addr option"

record cil_level =
  level_sens_str :: cstring
  level_sens :: "addr option"
  level_cats :: "addr option"

record cil_levelrange =
  levelrange_low_str :: cstring
  levelrange_low :: "addr option"
  levelrange_high_str :: cstring
  levelrange_high :: "addr option"

record cil_context =
  context_user_str :: cstring
  context_user :: "addr option"
  context_role_str :: cstring
  context_role :: "addr option"
  context_type_str :: cstring
  context_type :: "addr option"
  context_range_str :: cstring
  context_range :: "addr option"

text \<open>\<open>cil_filecon\<close>: \<open>kind\<close> is the field \<open>type\<close>, an \<open>enum cil_filecon_types\<close>.\<close>

record cil_filecon =
  filecon_path_str :: string
  filecon_kind :: nat
  filecon_context_str :: cstring
  filecon_context :: "addr option"

record cil_portcon =
  portcon_proto :: nat
  portcon_port_low :: "32 word"
  portcon_port_high :: "32 word"
  portcon_context_str :: cstring
  portcon_context :: "addr option"

record cil_nodecon =
  nodecon_addr_str :: cstring
  nodecon_addr :: "addr option"
  nodecon_mask_str :: cstring
  nodecon_mask :: "addr option"
  nodecon_context_str :: cstring
  nodecon_context :: "addr option"

text \<open>\<open>cil_ipaddr\<close>: \<open>bytes\<close> is the union of \<open>struct in_addr\<close> and \<open>struct in6_addr\<close> in network byte order.\<close>

record cil_ipaddr =
  ipaddr_family :: nat
  ipaddr_bytes :: "8 word list"

record cil_genfscon =
  genfscon_fs_str :: string
  genfscon_path_str :: string
  genfscon_context_str :: cstring
  genfscon_context :: "addr option"

record cil_netifcon =
  netifcon_interface_str :: string
  netifcon_if_context_str :: cstring
  netifcon_if_context :: "addr option"
  netifcon_packet_context_str :: cstring
  netifcon_packet_context :: "addr option"

record cil_pirqcon =
  pirqcon_pirq :: "32 word"
  pirqcon_context_str :: cstring
  pirqcon_context :: "addr option"

record cil_iomemcon =
  iomemcon_iomem_low :: "32 word"
  iomemcon_iomem_high :: "32 word"
  iomemcon_context_str :: cstring
  iomemcon_context :: "addr option"

record cil_ioportcon =
  ioportcon_ioport_low :: "32 word"
  ioportcon_ioport_high :: "32 word"
  ioportcon_context_str :: cstring
  ioportcon_context :: "addr option"

record cil_pcidevicecon =
  pcidevicecon_dev :: "32 word"
  pcidevicecon_context_str :: cstring
  pcidevicecon_context :: "addr option"

text \<open>\<open>cil_fsuse\<close>: \<open>kind\<close> is the field \<open>type\<close>, an \<open>enum cil_fsuse_types\<close>.\<close>

record cil_fsuse =
  fsuse_kind :: nat
  fsuse_fs_str :: string
  fsuse_context_str :: cstring
  fsuse_context :: "addr option"

record cil_constrain =
  constrain_classperms :: classperms_list
  constrain_str_expr :: cil_list
  constrain_datum_expr :: "cil_list option"

record cil_validatetrans =
  validatetrans_class_str :: cstring
  validatetrans_class :: "addr option"
  validatetrans_str_expr :: cil_list
  validatetrans_datum_expr :: "cil_list option"

text \<open>\<open>cil_args\<close>: \<open>kind\<close> is the field \<open>flavor\<close>.\<close>

record cil_args =
  args_arg_str :: cstring
  args_arg :: "addr option"
  args_param_str :: cstring
  args_kind :: cil_flavor

text \<open>\<open>cil_macro\<close>: \<open>params\<close> are the pairs of a parameter's name and flavor.\<close>

record cil_macro =
  macro_params :: "(cstring \<times> cil_flavor) list option"

text \<open>\<open>cil_call\<close>: \<open>args\<close> are the addresses of \<open>struct cil_args\<close>.\<close>

record cil_call =
  call_macro_str :: cstring
  call_macro :: "addr option"
  call_args :: "addr list option"
  call_copied :: bool

text \<open>\<open>cil_condblock\<close>: \<open>kind\<close> is the field \<open>flavor\<close>.\<close>

record cil_condblock =
  condblock_kind :: cil_flavor

record cil_booleanif =
  booleanif_str_expr :: cil_list
  booleanif_datum_expr :: "cil_list option"
  booleanif_preserved_tunable :: bool

record cil_tunableif =
  tunableif_str_expr :: cil_list
  tunableif_datum_expr :: "cil_list option"

record cil_bounds =
  bounds_parent_str :: cstring
  bounds_child_str :: cstring

text \<open>\<open>cil_default\<close>: \<open>kind\<close> is the field \<open>flavor\<close>.\<close>

record cil_default =
  default_kind :: cil_flavor
  default_class_strs :: "cstring list option"
  default_class_datums :: "addr list option"
  default_object :: int

record cil_defaultrange =
  defaultrange_class_strs :: "cstring list option"
  defaultrange_class_datums :: "addr list option"
  defaultrange_object_range :: int

record cil_handleunknown =
  handleunknown_handle_unknown :: int

record cil_mls =
  mls_value :: int

end
