(* ===== verification/Cil_Store.thy ===== *)
theory Cil_Store
  imports Cil_Structs "HOL-Library.AList"
begin

text \<open>
  The memory of the compiler and its database, \<open>struct cil_db\<close> of \<open>src/cil_internal.h\<close>, as one
  record: a map from addresses for every kind of struct, the symbol tables, and the fields of
  the database. Also here is the interface of \<open>libsepol\<close>, which the program links and whose
  code is not part of the repository: the operations the compiler calls are the components
  of a record that the definitions take as an argument, and the \<open>laws\<close> below list what the compiler
  relies on.
\<close>

subsection \<open>The interface of libsepol\<close>

text \<open>
  Hash tables (\<open>sepol/policydb/hashtab.h\<close>): \<open>ht_insert\<close> returns the error code of
  \<open>hashtab_insert\<close>, \<open>None\<close> for \<open>SEPOL_OK\<close>; \<open>ht_entries\<close> lists the entries in the order in which
  \<open>hashtab_map\<close> visits them. Bitmaps (\<open>sepol/policydb/ebitmap.h\<close>): operations that allocate return
  \<open>None\<close> when they fail; \<open>eb_positions\<close> lists the positions \<open>ebitmap_for_each_bit\<close> visits. \<open>deny_unknown\<close> is the constant \<open>SEPOL_DENY_UNKNOWN\<close>.
\<close>

record ('h, 'b) sepol =
  ht_create :: "'h"
  ht_insert :: "'h \<Rightarrow> string \<Rightarrow> addr \<Rightarrow> sepol_rc option \<times> 'h"
  ht_search :: "'h \<Rightarrow> string \<Rightarrow> addr option"
  ht_remove :: "'h \<Rightarrow> string \<Rightarrow> 'h"
  ht_entries :: "'h \<Rightarrow> (string \<times> addr) list"
  eb_init :: "'b"
  eb_get_bit :: "'b \<Rightarrow> nat \<Rightarrow> bool"
  eb_set_bit :: "'b \<Rightarrow> nat \<Rightarrow> 'b option"
  eb_or :: "'b \<Rightarrow> 'b \<Rightarrow> 'b option"
  eb_and :: "'b \<Rightarrow> 'b \<Rightarrow> 'b option"
  eb_xor :: "'b \<Rightarrow> 'b \<Rightarrow> 'b option"
  eb_not :: "'b \<Rightarrow> nat \<Rightarrow> 'b option"
  eb_union :: "'b \<Rightarrow> 'b \<Rightarrow> 'b option"
  eb_positions :: "'b \<Rightarrow> nat list"
  polcap_getnum :: "string \<Rightarrow> int"
  deny_unknown :: int

subsection \<open>The database and the memory\<close>

text \<open>\<open>struct cil_sort\<close>: an array of pointers of known length, filled up to \<open>index\<close>. The database has
  ten, one for each kind of object context: \<open>db->netifcon\<close> is \<open>sorts s CIL_NETIFCON\<close>, and so on.\<close>

record cil_sort =
  sort_count :: nat
  sort_index :: nat
  sort_array :: "addr option list option"

record ('h, 'b) cil_store =
  datums :: "addr \<rightharpoonup> cil_symtab_datum"
  nodes :: "addr \<rightharpoonup> cil_tree_node"
  m_block :: "addr \<rightharpoonup> cil_block"
  m_blockinherit :: "addr \<rightharpoonup> cil_blockinherit"
  m_blockabstract :: "addr \<rightharpoonup> cil_blockabstract"
  m_in :: "addr \<rightharpoonup> cil_in"
  m_optional :: "addr \<rightharpoonup> cil_optional"
  m_perm :: "addr \<rightharpoonup> cil_perm"
  m_class :: "addr \<rightharpoonup> cil_class"
  m_classorder :: "addr \<rightharpoonup> cil_classorder"
  m_classperms_set :: "addr \<rightharpoonup> cil_classperms_set"
  m_classperms :: "addr \<rightharpoonup> cil_classperms"
  m_classpermission :: "addr \<rightharpoonup> cil_classpermission"
  m_classpermissionset :: "addr \<rightharpoonup> cil_classpermissionset"
  m_classmapping :: "addr \<rightharpoonup> cil_classmapping"
  m_classcommon :: "addr \<rightharpoonup> cil_classcommon"
  m_alias :: "addr \<rightharpoonup> cil_alias"
  m_aliasactual :: "addr \<rightharpoonup> cil_aliasactual"
  m_sid :: "addr \<rightharpoonup> cil_sid"
  m_sidcontext :: "addr \<rightharpoonup> cil_sidcontext"
  m_sidorder :: "addr \<rightharpoonup> cil_sidorder"
  m_user :: "addr \<rightharpoonup> cil_user"
  m_userrole :: "addr \<rightharpoonup> cil_userrole"
  m_userlevel :: "addr \<rightharpoonup> cil_userlevel"
  m_userrange :: "addr \<rightharpoonup> cil_userrange"
  m_userprefix :: "addr \<rightharpoonup> cil_userprefix"
  m_selinuxuser :: "addr \<rightharpoonup> cil_selinuxuser"
  m_role :: "addr \<rightharpoonup> 'b cil_role"
  m_roleattribute :: "addr \<rightharpoonup> 'b cil_roleattribute"
  m_roleattributeset :: "addr \<rightharpoonup> cil_roleattributeset"
  m_roletype :: "addr \<rightharpoonup> cil_roletype"
  m_type :: "addr \<rightharpoonup> cil_type"
  m_typeattribute :: "addr \<rightharpoonup> 'b cil_typeattribute"
  m_typeattributeset :: "addr \<rightharpoonup> cil_typeattributeset"
  m_typepermissive :: "addr \<rightharpoonup> cil_typepermissive"
  m_name :: "addr \<rightharpoonup> cil_name"
  m_nametypetransition :: "addr \<rightharpoonup> cil_nametypetransition"
  m_rangetransition :: "addr \<rightharpoonup> cil_rangetransition"
  m_bool :: "addr \<rightharpoonup> cil_bool"
  m_tunable :: "addr \<rightharpoonup> cil_tunable"
  m_avrule :: "addr \<rightharpoonup> cil_avrule"
  m_type_rule :: "addr \<rightharpoonup> cil_type_rule"
  m_roletransition :: "addr \<rightharpoonup> cil_roletransition"
  m_roleallow :: "addr \<rightharpoonup> cil_roleallow"
  m_sens :: "addr \<rightharpoonup> cil_sens"
  m_sensorder :: "addr \<rightharpoonup> cil_sensorder"
  m_cat :: "addr \<rightharpoonup> cil_cat"
  m_cats :: "addr \<rightharpoonup> cil_cats"
  m_catset :: "addr \<rightharpoonup> cil_catset"
  m_catorder :: "addr \<rightharpoonup> cil_catorder"
  m_senscat :: "addr \<rightharpoonup> cil_senscat"
  m_level :: "addr \<rightharpoonup> cil_level"
  m_levelrange :: "addr \<rightharpoonup> cil_levelrange"
  m_context :: "addr \<rightharpoonup> cil_context"
  m_filecon :: "addr \<rightharpoonup> cil_filecon"
  m_portcon :: "addr \<rightharpoonup> cil_portcon"
  m_nodecon :: "addr \<rightharpoonup> cil_nodecon"
  m_ipaddr :: "addr \<rightharpoonup> cil_ipaddr"
  m_genfscon :: "addr \<rightharpoonup> cil_genfscon"
  m_netifcon :: "addr \<rightharpoonup> cil_netifcon"
  m_pirqcon :: "addr \<rightharpoonup> cil_pirqcon"
  m_iomemcon :: "addr \<rightharpoonup> cil_iomemcon"
  m_ioportcon :: "addr \<rightharpoonup> cil_ioportcon"
  m_pcidevicecon :: "addr \<rightharpoonup> cil_pcidevicecon"
  m_fsuse :: "addr \<rightharpoonup> cil_fsuse"
  m_constrain :: "addr \<rightharpoonup> cil_constrain"
  m_validatetrans :: "addr \<rightharpoonup> cil_validatetrans"
  m_args :: "addr \<rightharpoonup> cil_args"
  m_macro :: "addr \<rightharpoonup> cil_macro"
  m_call :: "addr \<rightharpoonup> cil_call"
  m_condblock :: "addr \<rightharpoonup> cil_condblock"
  m_booleanif :: "addr \<rightharpoonup> cil_booleanif"
  m_tunableif :: "addr \<rightharpoonup> cil_tunableif"
  m_bounds :: "addr \<rightharpoonup> cil_bounds"
  m_default :: "addr \<rightharpoonup> cil_default"
  m_defaultrange :: "addr \<rightharpoonup> cil_defaultrange"
  m_handleunknown :: "addr \<rightharpoonup> cil_handleunknown"
  m_mls :: "addr \<rightharpoonup> cil_mls"
  symtabs :: "symtab_ref \<rightharpoonup> 'h"
  ast_root :: "addr option"
  selftype :: "addr option"
  sidorder :: "addr list option"
  classorder :: "addr list option"
  catorder :: "addr list option"
  sensitivityorder :: "addr list option"
  sorts :: "cil_flavor \<Rightarrow> cil_sort"
  userprefixes :: "addr list"
  selinuxusers :: "(cil_flavor \<times> addr) list"
  names :: "addr list"
  num_cats :: int
  num_types :: int
  num_roles :: int
  val_to_type :: "addr option list option"
  val_to_role :: "addr option list option"
  disable_dontaudit :: bool
  disable_neverallow :: bool
  preserve_tunables :: bool
  db_handle_unknown :: int
  db_mls :: int

subsection \<open>What the compiler relies on in libsepol\<close>

definition ebitmap_laws :: "('h, 'b) sepol \<Rightarrow> bool" where
  "ebitmap_laws L \<longleftrightarrow>
     (\<forall>i. \<not> eb_get_bit L (eb_init L) i) \<and>
     (\<forall>b i b'. eb_set_bit L b i = Some b' \<longrightarrow>
        (\<forall>j. eb_get_bit L b' j = (j = i \<or> eb_get_bit L b j))) \<and>
     (\<forall>b c d. eb_or L b c = Some d \<longrightarrow>
        (\<forall>j. eb_get_bit L d j = (eb_get_bit L b j \<or> eb_get_bit L c j))) \<and>
     (\<forall>b c d. eb_and L b c = Some d \<longrightarrow>
        (\<forall>j. eb_get_bit L d j = (eb_get_bit L b j \<and> eb_get_bit L c j))) \<and>
     (\<forall>b c d. eb_xor L b c = Some d \<longrightarrow>
        (\<forall>j. eb_get_bit L d j = (eb_get_bit L b j \<noteq> eb_get_bit L c j))) \<and>
     (\<forall>b n d. eb_not L b n = Some d \<longrightarrow>
        (\<forall>j. eb_get_bit L d j = (j < n \<and> \<not> eb_get_bit L b j))) \<and>
     (\<forall>b c d. eb_union L b c = Some d \<longrightarrow>
        (\<forall>j. eb_get_bit L d j = (eb_get_bit L b j \<or> eb_get_bit L c j))) \<and>
     (\<forall>b j. eb_get_bit L b j \<longrightarrow> j \<in> set (eb_positions L b))"

text \<open>No operation on bitmaps runs out of memory.\<close>

definition ebitmap_total :: "('h, 'b) sepol \<Rightarrow> bool" where
  "ebitmap_total L \<longleftrightarrow>
     (\<forall>b i. eb_set_bit L b i \<noteq> None) \<and> (\<forall>b c. eb_or L b c \<noteq> None) \<and>
     (\<forall>b c. eb_and L b c \<noteq> None) \<and> (\<forall>b c. eb_xor L b c \<noteq> None) \<and>
     (\<forall>b n. eb_not L b n \<noteq> None) \<and> (\<forall>b c. eb_union L b c \<noteq> None)"

definition hashtab_laws :: "('h, 'b) sepol \<Rightarrow> bool" where
  "hashtab_laws L \<longleftrightarrow>
     (\<forall>k. ht_search L (ht_create L) k = None) \<and>
     (\<forall>h k. ht_search L h k = map_of (ht_entries L h) k) \<and>
     (\<forall>h. distinct (map fst (ht_entries L h))) \<and>
     (\<forall>h k d. ht_search L h k \<noteq> None \<longrightarrow> ht_insert L h k d = (Some SEPOL_EEXIST, h)) \<and>
     (\<forall>h k d h'. ht_insert L h k d = (None, h') \<longrightarrow>
        (\<forall>j. ht_search L h' j = (if j = k then Some d else ht_search L h j))) \<and>
     (\<forall>h k j. ht_search L (ht_remove L h k) j = (if j = k then None else ht_search L h j))"

lemma ebitmap_lawsD:
  assumes "ebitmap_laws L"
  shows "\<not> eb_get_bit L (eb_init L) i"
    and "eb_set_bit L b i = Some b' \<Longrightarrow> eb_get_bit L b' j = (j = i \<or> eb_get_bit L b j)"
    and "eb_or L b c = Some d \<Longrightarrow> eb_get_bit L d j = (eb_get_bit L b j \<or> eb_get_bit L c j)"
    and "eb_and L b c = Some d \<Longrightarrow> eb_get_bit L d j = (eb_get_bit L b j \<and> eb_get_bit L c j)"
    and "eb_xor L b c = Some d \<Longrightarrow> eb_get_bit L d j = (eb_get_bit L b j \<noteq> eb_get_bit L c j)"
    and "eb_not L b n = Some d \<Longrightarrow> eb_get_bit L d j = (j < n \<and> \<not> eb_get_bit L b j)"
    and "eb_union L b c = Some d \<Longrightarrow> eb_get_bit L d j = (eb_get_bit L b j \<or> eb_get_bit L c j)"
    and "eb_get_bit L b j \<Longrightarrow> j \<in> set (eb_positions L b)"
  using assms by (auto simp: ebitmap_laws_def)

lemma ebitmap_totalD:
  assumes "ebitmap_total L"
  shows "\<exists>d. eb_set_bit L b i = Some d" "\<exists>d. eb_or L b c = Some d"
    "\<exists>d. eb_and L b c = Some d" "\<exists>d. eb_xor L b c = Some d"
    "\<exists>d. eb_not L b n = Some d" "\<exists>d. eb_union L b c = Some d"
  using assms by (auto simp: ebitmap_total_def)

subsection \<open>An empty memory and an instance of the interface\<close>

definition sort0 :: cil_sort where
  "sort0 = \<lparr>sort_count = 0, sort_index = 0, sort_array = None\<rparr>"

definition store0 :: "('h, 'b) cil_store" where
  "store0 = \<lparr>datums = Map.empty,
     nodes = Map.empty,
     m_block = Map.empty,
     m_blockinherit = Map.empty,
     m_blockabstract = Map.empty,
     m_in = Map.empty,
     m_optional = Map.empty,
     m_perm = Map.empty,
     m_class = Map.empty,
     m_classorder = Map.empty,
     m_classperms_set = Map.empty,
     m_classperms = Map.empty,
     m_classpermission = Map.empty,
     m_classpermissionset = Map.empty,
     m_classmapping = Map.empty,
     m_classcommon = Map.empty,
     m_alias = Map.empty,
     m_aliasactual = Map.empty,
     m_sid = Map.empty,
     m_sidcontext = Map.empty,
     m_sidorder = Map.empty,
     m_user = Map.empty,
     m_userrole = Map.empty,
     m_userlevel = Map.empty,
     m_userrange = Map.empty,
     m_userprefix = Map.empty,
     m_selinuxuser = Map.empty,
     m_role = Map.empty,
     m_roleattribute = Map.empty,
     m_roleattributeset = Map.empty,
     m_roletype = Map.empty,
     m_type = Map.empty,
     m_typeattribute = Map.empty,
     m_typeattributeset = Map.empty,
     m_typepermissive = Map.empty,
     m_name = Map.empty,
     m_nametypetransition = Map.empty,
     m_rangetransition = Map.empty,
     m_bool = Map.empty,
     m_tunable = Map.empty,
     m_avrule = Map.empty,
     m_type_rule = Map.empty,
     m_roletransition = Map.empty,
     m_roleallow = Map.empty,
     m_sens = Map.empty,
     m_sensorder = Map.empty,
     m_cat = Map.empty,
     m_cats = Map.empty,
     m_catset = Map.empty,
     m_catorder = Map.empty,
     m_senscat = Map.empty,
     m_level = Map.empty,
     m_levelrange = Map.empty,
     m_context = Map.empty,
     m_filecon = Map.empty,
     m_portcon = Map.empty,
     m_nodecon = Map.empty,
     m_ipaddr = Map.empty,
     m_genfscon = Map.empty,
     m_netifcon = Map.empty,
     m_pirqcon = Map.empty,
     m_iomemcon = Map.empty,
     m_ioportcon = Map.empty,
     m_pcidevicecon = Map.empty,
     m_fsuse = Map.empty,
     m_constrain = Map.empty,
     m_validatetrans = Map.empty,
     m_args = Map.empty,
     m_macro = Map.empty,
     m_call = Map.empty,
     m_condblock = Map.empty,
     m_booleanif = Map.empty,
     m_tunableif = Map.empty,
     m_bounds = Map.empty,
     m_default = Map.empty,
     m_defaultrange = Map.empty,
     m_handleunknown = Map.empty,
     m_mls = Map.empty,
     symtabs = Map.empty,
     ast_root = None,
     selftype = None,
     sidorder = None,
     classorder = None,
     catorder = None,
     sensitivityorder = None,
     sorts = (\<lambda>_. sort0),
     userprefixes = [],
     selinuxusers = [],
     names = [],
     num_cats = 0,
     num_types = 0,
     num_roles = 0,
     val_to_type = None,
     val_to_role = None,
     disable_dontaudit = False,
     disable_neverallow = False,
     preserve_tunables = False,
     db_handle_unknown = 0,
     db_mls = 0\<rparr>"

text \<open>The fields of the empty memory.\<close>

lemma store0_fields [simp]:
  "datums store0 = Map.empty"
  "nodes store0 = Map.empty"
  "m_block store0 = Map.empty"
  "m_blockinherit store0 = Map.empty"
  "m_blockabstract store0 = Map.empty"
  "m_in store0 = Map.empty"
  "m_optional store0 = Map.empty"
  "m_perm store0 = Map.empty"
  "m_class store0 = Map.empty"
  "m_classorder store0 = Map.empty"
  "m_classperms_set store0 = Map.empty"
  "m_classperms store0 = Map.empty"
  "m_classpermission store0 = Map.empty"
  "m_classpermissionset store0 = Map.empty"
  "m_classmapping store0 = Map.empty"
  "m_classcommon store0 = Map.empty"
  "m_alias store0 = Map.empty"
  "m_aliasactual store0 = Map.empty"
  "m_sid store0 = Map.empty"
  "m_sidcontext store0 = Map.empty"
  "m_sidorder store0 = Map.empty"
  "m_user store0 = Map.empty"
  "m_userrole store0 = Map.empty"
  "m_userlevel store0 = Map.empty"
  "m_userrange store0 = Map.empty"
  "m_userprefix store0 = Map.empty"
  "m_selinuxuser store0 = Map.empty"
  "m_role store0 = Map.empty"
  "m_roleattribute store0 = Map.empty"
  "m_roleattributeset store0 = Map.empty"
  "m_roletype store0 = Map.empty"
  "m_type store0 = Map.empty"
  "m_typeattribute store0 = Map.empty"
  "m_typeattributeset store0 = Map.empty"
  "m_typepermissive store0 = Map.empty"
  "m_name store0 = Map.empty"
  "m_nametypetransition store0 = Map.empty"
  "m_rangetransition store0 = Map.empty"
  "m_bool store0 = Map.empty"
  "m_tunable store0 = Map.empty"
  "m_avrule store0 = Map.empty"
  "m_type_rule store0 = Map.empty"
  "m_roletransition store0 = Map.empty"
  "m_roleallow store0 = Map.empty"
  "m_sens store0 = Map.empty"
  "m_sensorder store0 = Map.empty"
  "m_cat store0 = Map.empty"
  "m_cats store0 = Map.empty"
  "m_catset store0 = Map.empty"
  "m_catorder store0 = Map.empty"
  "m_senscat store0 = Map.empty"
  "m_level store0 = Map.empty"
  "m_levelrange store0 = Map.empty"
  "m_context store0 = Map.empty"
  "m_filecon store0 = Map.empty"
  "m_portcon store0 = Map.empty"
  "m_nodecon store0 = Map.empty"
  "m_ipaddr store0 = Map.empty"
  "m_genfscon store0 = Map.empty"
  "m_netifcon store0 = Map.empty"
  "m_pirqcon store0 = Map.empty"
  "m_iomemcon store0 = Map.empty"
  "m_ioportcon store0 = Map.empty"
  "m_pcidevicecon store0 = Map.empty"
  "m_fsuse store0 = Map.empty"
  "m_constrain store0 = Map.empty"
  "m_validatetrans store0 = Map.empty"
  "m_args store0 = Map.empty"
  "m_macro store0 = Map.empty"
  "m_call store0 = Map.empty"
  "m_condblock store0 = Map.empty"
  "m_booleanif store0 = Map.empty"
  "m_tunableif store0 = Map.empty"
  "m_bounds store0 = Map.empty"
  "m_default store0 = Map.empty"
  "m_defaultrange store0 = Map.empty"
  "m_handleunknown store0 = Map.empty"
  "m_mls store0 = Map.empty"
  "symtabs store0 = Map.empty"
  "ast_root store0 = None"
  "selftype store0 = None"
  "sidorder store0 = None"
  "classorder store0 = None"
  "catorder store0 = None"
  "sensitivityorder store0 = None"
  "sorts store0 = (\<lambda>_. sort0)"
  "userprefixes store0 = []"
  "selinuxusers store0 = []"
  "names store0 = []"
  "num_cats store0 = 0"
  "num_types store0 = 0"
  "num_roles store0 = 0"
  "val_to_type store0 = None"
  "val_to_role store0 = None"
  "disable_dontaudit store0 = False"
  "disable_neverallow store0 = False"
  "preserve_tunables store0 = False"
  "db_handle_unknown store0 = 0"
  "db_mls store0 = 0"
  by (simp_all add: store0_def)

text \<open>Hash tables as association lists and bitmaps as lists of positions.\<close>

definition sepol0 :: "((string \<times> addr) list, nat list) sepol" where
  "sepol0 = \<lparr>ht_create = [],
     ht_insert = (\<lambda>h k d. if map_of h k = None then (None, h @ [(k, d)]) else (Some SEPOL_EEXIST, h)),
     ht_search = map_of,
     ht_remove = (\<lambda>h k. filter (\<lambda>e. fst e \<noteq> k) h),
     ht_entries = AList.clearjunk,
     eb_init = [],
     eb_get_bit = (\<lambda>b i. i \<in> set b),
     eb_set_bit = (\<lambda>b i. Some (List.insert i b)),
     eb_or = (\<lambda>b c. Some (b @ c)),
     eb_and = (\<lambda>b c. Some (filter (\<lambda>i. i \<in> set c) b)),
     eb_xor = (\<lambda>b c. Some (filter (\<lambda>i. i \<notin> set c) b @ filter (\<lambda>i. i \<notin> set b) c)),
     eb_not = (\<lambda>b n. Some (filter (\<lambda>i. i \<notin> set b) [0..<n])),
     eb_union = (\<lambda>b c. Some (b @ c)),
     eb_positions = (\<lambda>b. b),
     polcap_getnum = (\<lambda>n. if n = ''open_perms'' then 1 else -1),
     deny_unknown = 0\<rparr>"

lemma map_of_filter_neq:
  "map_of (filter (\<lambda>e. fst e \<noteq> k) h) j = (if j = k then None else map_of h j)"
  by (induction h) auto

lemma sepol0_hashtab: "hashtab_laws sepol0"
  unfolding hashtab_laws_def sepol0_def
  by (auto simp: map_of_clearjunk distinct_clearjunk map_of_filter_neq map_add_def split: if_splits option.split)

lemma sepol0_ebitmap: "ebitmap_laws sepol0"
  by (auto simp: ebitmap_laws_def sepol0_def)

lemma sepol0_total: "ebitmap_total sepol0"
  by (auto simp: ebitmap_total_def sepol0_def)

subsection \<open>From a datum to its node\<close>

text \<open>\<open>NODE(d)\<close> and \<open>FLAVOR(d)\<close> of \<open>src/cil_symtab.h\<close>: the first AST node that points to a
  datum, and the flavor of that node.\<close>

definition NODE :: "('h, 'b, 'z) cil_store_scheme \<Rightarrow> addr option \<Rightarrow> addr outcome" where
  "NODE s d =
     obind (deref (datums s) d) (\<lambda>dt.
     obind (not_null (datum_nodes dt)) (\<lambda>ns.
     case ns of [] \<Rightarrow> Fault | n # _ \<Rightarrow> Ok n))"

definition FLAVOR :: "('h, 'b, 'z) cil_store_scheme \<Rightarrow> addr option \<Rightarrow> cil_flavor outcome" where
  "FLAVOR s d = obind (NODE s d) (\<lambda>n. obind (deref (nodes s) (Some n)) (\<lambda>nd. Ok (node_flavor nd)))"

lemma NODE_Ok_iff:
  "NODE s d = Ok n \<longleftrightarrow>
     (\<exists>a dt ns. d = Some a \<and> datums s a = Some dt \<and> datum_nodes dt = Some (n # ns))"
  by (auto simp: NODE_def neq_Nil_conv split: list.splits)

lemma FLAVOR_Ok_iff:
  "FLAVOR s d = Ok f \<longleftrightarrow> (\<exists>n nd. NODE s d = Ok n \<and> nodes s n = Some nd \<and> node_flavor nd = f)"
  by (auto simp: FLAVOR_def)

text \<open>Whether a datum is anonymous: \<open>datum.name == NULL\<close>.\<close>

definition is_anonymous :: "('h, 'b, 'z) cil_store_scheme \<Rightarrow> addr option \<Rightarrow> bool outcome" where
  "is_anonymous s d = obind (deref (datums s) d) (\<lambda>dt. Ok (datum_name dt = None))"

end
