(* ===== verification/Cil_Compare.thy ===== *)
theory Cil_Compare
  imports Cil_Store "HOL-Library.Char_ord" "HOL-Library.List_Lexorder"
    "HOL-Library.Product_Lexorder" "HOL-Library.Multiset"
begin

text \<open>
  The order of the object contexts (\<open>src/cil_post.c\<close>): the functions that \<open>qsort\<close> is called with,
  and the data about the path of a file context that its order depends on.

  Every comparison is an instance of the locale \<open>comparator\<close>: on the objects the program builds it
  is the comparison of a key in a linear order, so \<open>qsort\<close> is called within its contract and
  sorts. Outside of that range (ports or addresses more than \<open>2\<^sup>3\<^sup>1\<close> apart, a path that ends in the
  middle of an escape) the key is not followed or the code leaves the string.
\<close>

subsection \<open>Comparisons of the C library\<close>

text \<open>\<open>strcmp\<close> and \<open>memcmp\<close>; only the sign of their results is specified, and used.\<close>

fun lexcmp :: "'a::linorder list \<Rightarrow> 'a list \<Rightarrow> int" where
  "lexcmp [] [] = 0"
| "lexcmp [] (b # bs) = -1"
| "lexcmp (a # as) [] = 1"
| "lexcmp (a # as) (b # bs) = (if a < b then -1 else if b < a then 1 else lexcmp as bs)"

definition strcmp :: "string \<Rightarrow> string \<Rightarrow> int" where
  "strcmp a b = lexcmp a b"

definition memcmp :: "nat \<Rightarrow> 8 word list \<Rightarrow> 8 word list \<Rightarrow> int" where
  "memcmp n a b = lexcmp (take n a) (take n b)"

definition three_way :: "'a::linorder \<Rightarrow> 'a \<Rightarrow> int" where
  "three_way a b = (if a < b then -1 else if b < a then 1 else 0)"

abbreviation (input) AF_INET :: nat where "AF_INET \<equiv> 2"
abbreviation (input) AF_INET6 :: nat where "AF_INET6 \<equiv> 10"

subsection \<open>The path of a file context\<close>

record fc_data =
  fc_meta :: bool
  fc_stem_len :: int
  fc_str_len :: int

definition is_meta :: "char \<Rightarrow> bool" where
  "is_meta c \<longleftrightarrow> c \<in> set ''.^$?*+|[({''"

definition backslash :: char where
  "backslash = CHR 0x5C"

text \<open>A character that is not special: it counts for the stem as long as there is no special one.\<close>

definition plain_unit :: "fc_data \<Rightarrow> fc_data" where
  "plain_unit fc = fc\<lparr>
     fc_stem_len := (if fc_meta fc then fc_stem_len fc else fc_stem_len fc + 1),
     fc_str_len := fc_str_len fc + 1\<rparr>"

text \<open>The loop over the path. After a backslash at the end of the path the index is moved past the
  terminating null, and the loop reads on outside of the string.\<close>

fun fc_fill_loop :: "fc_data \<Rightarrow> string \<Rightarrow> fc_data outcome" where
  "fc_fill_loop fc [] = Ok fc"
| "fc_fill_loop fc (c # cs) =
     (if is_meta c then fc_fill_loop (fc\<lparr>fc_meta := True, fc_str_len := fc_str_len fc + 1\<rparr>) cs
      else if c = backslash then
        (case cs of [] \<Rightarrow> Fault | _ # cs' \<Rightarrow> fc_fill_loop (plain_unit fc) cs')
      else fc_fill_loop (plain_unit fc) cs)"

definition cil_post_fc_fill_data :: "string \<Rightarrow> fc_data outcome" where
  "cil_post_fc_fill_data path =
     fc_fill_loop \<lparr>fc_meta = False, fc_stem_len = 0, fc_str_len = 0\<rparr> path"

subsection \<open>The comparisons\<close>

definition cil_post_filecon_compare :: "cil_filecon \<Rightarrow> cil_filecon \<Rightarrow> int outcome" where
  "cil_post_filecon_compare a b =
     obind (cil_post_fc_fill_data (filecon_path_str a)) (\<lambda>a_data.
     obind (cil_post_fc_fill_data (filecon_path_str b)) (\<lambda>b_data.
     Ok (if fc_meta a_data \<and> \<not> fc_meta b_data then -1
         else if fc_meta b_data \<and> \<not> fc_meta a_data then 1
         else if fc_stem_len a_data < fc_stem_len b_data then -1
         else if fc_stem_len b_data < fc_stem_len a_data then 1
         else if fc_str_len a_data < fc_str_len b_data then -1
         else if fc_str_len b_data < fc_str_len a_data then 1
         else if filecon_kind a < filecon_kind b then -1
         else if filecon_kind b < filecon_kind a then 1
         else 0)))"

text \<open>The difference of two ranges is computed with 32 bit unsigned numbers and converted to \<open>int\<close>.\<close>

definition range_compare :: "32 word \<Rightarrow> 32 word \<Rightarrow> 32 word \<Rightarrow> 32 word \<Rightarrow> int" where
  "range_compare a_low a_high b_low b_high =
     (let rc = sint ((a_high - a_low) - (b_high - b_low)) in
      if rc = 0 then (if a_low < b_low then -1 else if b_low < a_low then 1 else rc) else rc)"

definition cil_post_portcon_compare :: "cil_portcon \<Rightarrow> cil_portcon \<Rightarrow> int outcome" where
  "cil_post_portcon_compare a b =
     Ok (range_compare (portcon_port_low a) (portcon_port_high a) (portcon_port_low b) (portcon_port_high b))"

definition cil_post_genfscon_compare :: "cil_genfscon \<Rightarrow> cil_genfscon \<Rightarrow> int outcome" where
  "cil_post_genfscon_compare a b =
     (let rc = strcmp (genfscon_fs_str a) (genfscon_fs_str b) in
      Ok (if rc = 0 then strcmp (genfscon_path_str a) (genfscon_path_str b) else rc))"

definition cil_post_netifcon_compare :: "cil_netifcon \<Rightarrow> cil_netifcon \<Rightarrow> int outcome" where
  "cil_post_netifcon_compare a b = Ok (strcmp (netifcon_interface_str a) (netifcon_interface_str b))"

definition cil_post_nodecon_compare ::
  "('h, 'b, 'z) cil_store_scheme \<Rightarrow> cil_nodecon \<Rightarrow> cil_nodecon \<Rightarrow> int outcome"
where
  "cil_post_nodecon_compare s a b =
     obind (deref (m_ipaddr s) (nodecon_addr a)) (\<lambda>a_addr.
     obind (deref (m_ipaddr s) (nodecon_addr b)) (\<lambda>b_addr.
     if ipaddr_family a_addr \<noteq> ipaddr_family b_addr then
       Ok (if ipaddr_family a_addr = AF_INET then -1 else 1)
     else
       obind (deref (m_ipaddr s) (nodecon_mask a)) (\<lambda>a_mask.
       obind (deref (m_ipaddr s) (nodecon_mask b)) (\<lambda>b_mask.
       let size = (if ipaddr_family a_addr = AF_INET then 4 else 16);
           rc = memcmp size (ipaddr_bytes a_mask) (ipaddr_bytes b_mask)
       in Ok (if rc \<noteq> 0 then -1 * rc
              else memcmp size (ipaddr_bytes a_addr) (ipaddr_bytes b_addr))))))"

definition cil_post_pirqcon_compare :: "cil_pirqcon \<Rightarrow> cil_pirqcon \<Rightarrow> int outcome" where
  "cil_post_pirqcon_compare a b = Ok (three_way (pirqcon_pirq a) (pirqcon_pirq b))"

definition cil_post_iomemcon_compare :: "cil_iomemcon \<Rightarrow> cil_iomemcon \<Rightarrow> int outcome" where
  "cil_post_iomemcon_compare a b =
     Ok (range_compare (iomemcon_iomem_low a) (iomemcon_iomem_high a)
           (iomemcon_iomem_low b) (iomemcon_iomem_high b))"

definition cil_post_ioportcon_compare :: "cil_ioportcon \<Rightarrow> cil_ioportcon \<Rightarrow> int outcome" where
  "cil_post_ioportcon_compare a b =
     Ok (range_compare (ioportcon_ioport_low a) (ioportcon_ioport_high a)
           (ioportcon_ioport_low b) (ioportcon_ioport_high b))"

definition cil_post_pcidevicecon_compare :: "cil_pcidevicecon \<Rightarrow> cil_pcidevicecon \<Rightarrow> int outcome" where
  "cil_post_pcidevicecon_compare a b = Ok (three_way (pcidevicecon_dev a) (pcidevicecon_dev b))"

definition cil_post_fsuse_compare :: "cil_fsuse \<Rightarrow> cil_fsuse \<Rightarrow> int outcome" where
  "cil_post_fsuse_compare a b =
     Ok (if fsuse_kind a < fsuse_kind b then -1
         else if fsuse_kind b < fsuse_kind a then 1
         else strcmp (fsuse_fs_str a) (fsuse_fs_str b))"

subsection \<open>Sorting an array of pointers\<close>

text \<open>\<open>qsort\<close> of the C library, which is given a function that compares the pointed-to objects.
  The call faults when there is something to compare and a comparison does; the elements of the
  array past the last one that was filled are not initialised.\<close>

definition compare_at :: "(addr \<rightharpoonup> 'x) \<Rightarrow> ('x \<Rightarrow> 'x \<Rightarrow> int outcome) \<Rightarrow> addr \<Rightarrow> addr \<Rightarrow> int outcome" where
  "compare_at m cmp a b = obind (deref m (Some a)) (\<lambda>x. obind (deref m (Some b)) (\<lambda>y. cmp x y))"

definition cmp_value :: "(addr \<Rightarrow> addr \<Rightarrow> int outcome) \<Rightarrow> addr \<Rightarrow> addr \<Rightarrow> int" where
  "cmp_value cmp a b = (case cmp a b of Ok v \<Rightarrow> v | _ \<Rightarrow> 0)"

definition compares :: "(addr \<Rightarrow> addr \<Rightarrow> int outcome) \<Rightarrow> addr list \<Rightarrow> bool" where
  "compares cmp xs \<longleftrightarrow>
     length xs < 2 \<or> list_all (\<lambda>a. list_all (\<lambda>b. case cmp a b of Ok _ \<Rightarrow> True | _ \<Rightarrow> False) xs) xs"

definition sort_pointers ::
  "((addr \<Rightarrow> addr \<Rightarrow> int) \<Rightarrow> addr list \<Rightarrow> addr list) \<Rightarrow> (addr \<Rightarrow> addr \<Rightarrow> int outcome)
   \<Rightarrow> addr option list \<Rightarrow> addr option list outcome"
where
  "sort_pointers qsort cmp arr =
     (if \<not> list_all (\<lambda>p. p \<noteq> None) arr then (if length arr < 2 then Ok arr else Fault)
      else let xs = map the arr in
        if compares cmp xs then Ok (map Some (qsort (cmp_value cmp) xs)) else Fault)"

text \<open>What the C library promises about \<open>qsort\<close>: the result has the elements of the array, and it
  is sorted if the comparison is consistent on them.\<close>

definition consistent :: "(addr \<Rightarrow> addr \<Rightarrow> int) \<Rightarrow> addr set \<Rightarrow> bool" where
  "consistent cmp A \<longleftrightarrow>
     (\<forall>a \<in> A. \<forall>b \<in> A. cmp a b < 0 \<longleftrightarrow> 0 < cmp b a) \<and>
     (\<forall>a \<in> A. \<forall>b \<in> A. \<forall>c \<in> A. cmp a b \<le> 0 \<longrightarrow> cmp b c \<le> 0 \<longrightarrow> cmp a c \<le> 0)"

definition qsort_laws :: "((addr \<Rightarrow> addr \<Rightarrow> int) \<Rightarrow> addr list \<Rightarrow> addr list) \<Rightarrow> bool" where
  "qsort_laws qsort \<longleftrightarrow>
     (\<forall>cmp xs. mset (qsort cmp xs) = mset xs) \<and>
     (\<forall>cmp xs. consistent cmp (set xs) \<longrightarrow> sorted_wrt (\<lambda>a b. cmp a b \<le> 0) (qsort cmp xs))"

subsection \<open>Comparisons by a key\<close>

locale comparator =
  fixes cmp :: "'x \<Rightarrow> 'x \<Rightarrow> int outcome" and valid :: "'x \<Rightarrow> bool" and key :: "'x \<Rightarrow> 'k::linorder"
  assumes cmp_key: "valid a \<Longrightarrow> valid b \<Longrightarrow>
    \<exists>v. cmp a b = Ok v \<and> (v < 0 \<longleftrightarrow> key a < key b) \<and> (v = 0 \<longleftrightarrow> key a = key b)"
begin

lemma cmp_le: "valid a \<Longrightarrow> valid b \<Longrightarrow> \<exists>v. cmp a b = Ok v \<and> (v \<le> 0 \<longleftrightarrow> key a \<le> key b)"
  using cmp_key [of a b] by (auto simp: le_less order_le_less)

text \<open>An array of pointers to valid objects is sorted by the key.\<close>

lemma sorts_by_key:
  assumes q: "qsort_laws qsort" and objs: "\<forall>a \<in> set xs. \<exists>x. m a = Some x \<and> valid x"
  shows "\<exists>ys. sort_pointers qsort (compare_at m cmp) (map Some xs) = Ok (map Some ys) \<and>
    mset ys = mset xs \<and> sorted (map (\<lambda>a. key (the (m a))) ys)"
proof -
  let ?c = "compare_at m cmp"
  let ?k = "\<lambda>a. key (the (m a))"
  have val: "\<exists>v. ?c a b = Ok v \<and> (v < 0 \<longleftrightarrow> ?k a < ?k b) \<and> (v = 0 \<longleftrightarrow> ?k a = ?k b)"
    if "a \<in> set xs" "b \<in> set xs" for a b
  proof -
    from objs that obtain x y where "m a = Some x" "valid x" "m b = Some y" "valid y" by blast
    with cmp_key [of x y] show ?thesis by (auto simp: compare_at_def)
  qed
  have val': "cmp_value ?c a b < 0 \<longleftrightarrow> ?k a < ?k b" "0 < cmp_value ?c a b \<longleftrightarrow> ?k b < ?k a"
    "cmp_value ?c a b \<le> 0 \<longleftrightarrow> ?k a \<le> ?k b"
    if "a \<in> set xs" "b \<in> set xs" for a b
    using val [OF that] by (auto simp: cmp_value_def)
  have cons: "consistent (cmp_value ?c) (set xs)"
    unfolding consistent_def
  proof (intro conjI ballI impI)
    fix a b c assume "a \<in> set xs" "b \<in> set xs" "c \<in> set xs"
      "cmp_value ?c a b \<le> 0" "cmp_value ?c b c \<le> 0"
    then show "cmp_value ?c a c \<le> 0" by (simp add: val'(3))
  next
    fix a b assume "a \<in> set xs" "b \<in> set xs"
    then show "cmp_value ?c a b < 0 \<longleftrightarrow> 0 < cmp_value ?c b a" by (simp add: val'(1,2))
  qed
  let ?ys = "qsort (cmp_value ?c) xs"
  have perm: "mset ?ys = mset xs" using q by (simp add: qsort_laws_def)
  then have "set ?ys = set xs" by (rule mset_eq_setD)
  moreover have "sorted_wrt (\<lambda>a b. cmp_value ?c a b \<le> 0) ?ys"
    using q cons unfolding qsort_laws_def by blast
  ultimately have "sorted_wrt (\<lambda>a b. ?k a \<le> ?k b) ?ys"
    using val'(3) by (auto elim!: sorted_wrt_mono_rel [rotated])
  then have "sorted (map ?k ?ys)" by (simp add: sorted_map)
  moreover have "compares ?c xs"
  proof -
    have "case ?c a b of Ok _ \<Rightarrow> True | _ \<Rightarrow> False" if "a \<in> set xs" "b \<in> set xs" for a b
      using val [OF that] by (elim exE conjE) (simp only: outcome.simps)
    then show ?thesis unfolding compares_def list_all_iff by blast
  qed
  ultimately show ?thesis
    using perm by (auto simp: sort_pointers_def list_all_iff comp_def intro!: exI [of _ ?ys])
qed

end

subsection \<open>The keys\<close>

lemma lexcmp_key: "lexcmp a b < 0 \<longleftrightarrow> a < b" "lexcmp a b = 0 \<longleftrightarrow> a = b"
  by (induction a b rule: lexcmp.induct) auto

lemma lexcmp_flip:
  fixes f :: "'a::linorder \<Rightarrow> 'c::linorder"
  assumes "\<And>x y. f x < f y \<longleftrightarrow> y < x"
  shows "length a = length b \<Longrightarrow> lexcmp (map f a) (map f b) = - lexcmp a b"
  by (induction a b rule: lexcmp.induct) (auto simp: assms)

lemma three_way_key: "three_way a b < 0 \<longleftrightarrow> a < b" "three_way a b = 0 \<longleftrightarrow> a = b"
  by (auto simp: three_way_def)

text \<open>Ranges that are not upside down and span less than \<open>2\<^sup>3\<^sup>1\<close> are ordered by their width, then by
  their lower end.\<close>

definition range_ok :: "32 word \<Rightarrow> 32 word \<Rightarrow> bool" where
  "range_ok lo hi \<longleftrightarrow> lo \<le> hi \<and> unat hi - unat lo < 2 ^ 31"

definition range_key :: "32 word \<Rightarrow> 32 word \<Rightarrow> nat \<times> nat" where
  "range_key lo hi = (unat hi - unat lo, unat lo)"

lemma sint_diff_small:
  fixes x y :: "32 word"
  assumes "uint x < 2 ^ 31" and "uint y < 2 ^ 31"
  shows "sint (x - y) = uint x - uint y"
proof -
  have "sint (x - y) = sint (word_of_int (uint x - uint y) :: 32 word)" by simp
  also have "sint (word_of_int (uint x - uint y) :: 32 word) = signed_take_bit 31 (uint x - uint y)"
    by (simp only: signed_of_int) simp
  also have "\<dots> = uint x - uint y"
    by (rule signed_take_bit_int_eq_self; use assms uint_ge_0 [of x] uint_ge_0 [of y] in linarith)
  finally show ?thesis .
qed

lemma range_compare_key:
  assumes "range_ok a_low a_high" and "range_ok b_low b_high"
  shows "range_compare a_low a_high b_low b_high < 0 \<longleftrightarrow> range_key a_low a_high < range_key b_low b_high"
    and "range_compare a_low a_high b_low b_high = 0 \<longleftrightarrow> range_key a_low a_high = range_key b_low b_high"
proof -
  have width: "uint (hi - lo) = int (unat hi - unat lo)" if "lo \<le> hi" for lo hi :: "32 word"
    using unat_sub [OF that] by (metis uint_nat)
  have d: "sint ((a_high - a_low) - (b_high - b_low)) =
      int (unat a_high - unat a_low) - int (unat b_high - unat b_low)"
    using assms width [of a_low a_high] width [of b_low b_high]
    by (subst sint_diff_small) (auto simp: range_ok_def)
  show "range_compare a_low a_high b_low b_high < 0 \<longleftrightarrow> range_key a_low a_high < range_key b_low b_high"
    "range_compare a_low a_high b_low b_high = 0 \<longleftrightarrow> range_key a_low a_high = range_key b_low b_high"
    unfolding range_compare_def d range_key_def Let_def
    by (auto simp: word_less_nat_alt word_unat_eq_iff)
qed

text \<open>File contexts: paths with special characters first, then by the length of the stem, the
  length of the path and the type of the file.\<close>

definition fc_key :: "cil_filecon \<Rightarrow> bool \<times> int \<times> int \<times> nat" where
  "fc_key f = (case cil_post_fc_fill_data (filecon_path_str f) of
     Ok d \<Rightarrow> (\<not> fc_meta d, fc_stem_len d, fc_str_len d, filecon_kind f)
   | _ \<Rightarrow> (False, 0, 0, 0))"

definition fc_path_ok :: "cil_filecon \<Rightarrow> bool" where
  "fc_path_ok f \<longleftrightarrow> (case cil_post_fc_fill_data (filecon_path_str f) of Ok d \<Rightarrow> True | _ \<Rightarrow> False)"

lemma cascade_key:
  fixes a :: int and b :: int and c :: nat
  shows "\<exists>v. Ok (if m \<and> \<not> m' then -1 else if m' \<and> \<not> m then 1
      else if a < a' then -1 else if a' < a then 1
      else if b < b' then -1 else if b' < b then 1
      else if c < c' then -1 else if c' < c then (1 :: int) else 0) = Ok v \<and>
    (v < 0 \<longleftrightarrow> (\<not> m, a, b, c) < (\<not> m', a', b', c')) \<and>
    (v = 0 \<longleftrightarrow> (\<not> m, a, b, c) = (\<not> m', a', b', c'))"
  by (cases m; cases m') auto

lemma filecon_compare_key:
  assumes "fc_path_ok a" and "fc_path_ok b"
  shows "\<exists>v. cil_post_filecon_compare a b = Ok v \<and>
    (v < 0 \<longleftrightarrow> fc_key a < fc_key b) \<and> (v = 0 \<longleftrightarrow> fc_key a = fc_key b)"
proof -
  obtain d where d: "cil_post_fc_fill_data (filecon_path_str a) = Ok d"
    using assms(1) by (cases "cil_post_fc_fill_data (filecon_path_str a)") (simp_all add: fc_path_ok_def)
  obtain e where e: "cil_post_fc_fill_data (filecon_path_str b) = Ok e"
    using assms(2) by (cases "cil_post_fc_fill_data (filecon_path_str b)") (simp_all add: fc_path_ok_def)
  show ?thesis
    unfolding cil_post_filecon_compare_def fc_key_def d e obind_simps outcome.simps
    using cascade_key by blast
qed

text \<open>Node contexts: IPv4 before IPv6, then the greater masks, then the lower addresses.\<close>

definition ip_size :: "cil_ipaddr \<Rightarrow> nat" where
  "ip_size a = (if ipaddr_family a = AF_INET then 4 else 16)"

definition ip_ok :: "cil_ipaddr \<Rightarrow> bool" where
  "ip_ok a \<longleftrightarrow> ipaddr_family a \<in> {AF_INET, AF_INET6} \<and> length (ipaddr_bytes a) = 16"

definition nodecon_ok :: "('h, 'b, 'z) cil_store_scheme \<Rightarrow> cil_nodecon \<Rightarrow> bool" where
  "nodecon_ok s n \<longleftrightarrow> (\<exists>p q a m. nodecon_addr n = Some p \<and> m_ipaddr s p = Some a \<and>
     nodecon_mask n = Some q \<and> m_ipaddr s q = Some m \<and> ip_ok a \<and> ip_ok m)"

definition nodecon_key :: "('h, 'b, 'z) cil_store_scheme \<Rightarrow> cil_nodecon \<Rightarrow> bool \<times> int list \<times> 8 word list" where
  "nodecon_key s n =
     (let a = the (m_ipaddr s (the (nodecon_addr n))); m = the (m_ipaddr s (the (nodecon_mask n))) in
      (ipaddr_family a \<noteq> AF_INET, map (\<lambda>b. - uint b) (take (ip_size a) (ipaddr_bytes m)),
       take (ip_size a) (ipaddr_bytes a)))"

lemma nodecon_compare_key:
  assumes "nodecon_ok s x" and "nodecon_ok s y"
  shows "\<exists>v. cil_post_nodecon_compare s x y = Ok v \<and>
    (v < 0 \<longleftrightarrow> nodecon_key s x < nodecon_key s y) \<and> (v = 0 \<longleftrightarrow> nodecon_key s x = nodecon_key s y)"
proof -
  from assms obtain p q a m p' q' a' m' where x: "nodecon_addr x = Some p" "m_ipaddr s p = Some a"
      "nodecon_mask x = Some q" "m_ipaddr s q = Some m" "ip_ok a" "ip_ok m"
    and y: "nodecon_addr y = Some p'" "m_ipaddr s p' = Some a'"
      "nodecon_mask y = Some q'" "m_ipaddr s q' = Some m'" "ip_ok a'" "ip_ok m'"
    unfolding nodecon_ok_def by blast
  have kx: "nodecon_key s x = (ipaddr_family a \<noteq> AF_INET,
      map (\<lambda>b. - uint b) (take (ip_size a) (ipaddr_bytes m)), take (ip_size a) (ipaddr_bytes a))"
    and ky: "nodecon_key s y = (ipaddr_family a' \<noteq> AF_INET,
      map (\<lambda>b. - uint b) (take (ip_size a') (ipaddr_bytes m')), take (ip_size a') (ipaddr_bytes a'))"
    using x y by (simp_all add: nodecon_key_def)
  show ?thesis
  proof (cases "ipaddr_family a = ipaddr_family a'")
    case False
    then have "cil_post_nodecon_compare s x y = Ok (if ipaddr_family a = AF_INET then -1 else 1)"
      using x y by (simp add: cil_post_nodecon_compare_def)
    moreover have "(ipaddr_family a = AF_INET) \<noteq> (ipaddr_family a' = AF_INET)"
      using False x(5) y(5) by (auto simp: ip_ok_def)
    ultimately show ?thesis unfolding kx ky by auto
  next
    case True
    then have size: "ip_size a' = ip_size a" by (simp add: ip_size_def)
    let ?m = "take (ip_size a) (ipaddr_bytes m)" and ?m' = "take (ip_size a) (ipaddr_bytes m')"
    let ?b = "take (ip_size a) (ipaddr_bytes a)" and ?b' = "take (ip_size a) (ipaddr_bytes a')"
    let ?neg = "map (\<lambda>b. - uint b)"
    have "length ?m = length ?m'" using x y by (simp add: ip_ok_def)
    then have flip: "lexcmp (?neg ?m) (?neg ?m') = - lexcmp ?m ?m'"
      by (intro lexcmp_flip) (auto simp: word_less_def)
    have run: "cil_post_nodecon_compare s x y =
        Ok (if lexcmp ?m ?m' \<noteq> 0 then - lexcmp ?m ?m' else lexcmp ?b ?b')"
      using x y True by (simp add: cil_post_nodecon_compare_def memcmp_def Let_def ip_size_def)
    show ?thesis
      unfolding run kx ky size
      using True lexcmp_key [of "?neg ?m" "?neg ?m'"] lexcmp_key [of ?b ?b'] flip
      by (auto simp: less_le)
  qed
qed

subsection \<open>The contexts are sorted by their keys\<close>

interpretation filecon: comparator cil_post_filecon_compare fc_path_ok fc_key
  by unfold_locales (rule filecon_compare_key)

interpretation portcon: comparator cil_post_portcon_compare
  "\<lambda>p. range_ok (portcon_port_low p) (portcon_port_high p)"
  "\<lambda>p. range_key (portcon_port_low p) (portcon_port_high p)"
  by unfold_locales (simp add: cil_post_portcon_compare_def range_compare_key)

interpretation genfscon: comparator cil_post_genfscon_compare "\<lambda>_. True"
  "\<lambda>g. (genfscon_fs_str g, genfscon_path_str g)"
  by unfold_locales (auto simp: cil_post_genfscon_compare_def strcmp_def Let_def lexcmp_key order_le_less)

interpretation netifcon: comparator cil_post_netifcon_compare "\<lambda>_. True" netifcon_interface_str
  by unfold_locales (simp add: cil_post_netifcon_compare_def strcmp_def lexcmp_key)

interpretation nodecon: comparator "cil_post_nodecon_compare s" "nodecon_ok s" "nodecon_key s" for s
  by unfold_locales (rule nodecon_compare_key)

interpretation pirqcon: comparator cil_post_pirqcon_compare "\<lambda>_. True" pirqcon_pirq
  by unfold_locales (simp add: cil_post_pirqcon_compare_def three_way_key)

interpretation iomemcon: comparator cil_post_iomemcon_compare
  "\<lambda>p. range_ok (iomemcon_iomem_low p) (iomemcon_iomem_high p)"
  "\<lambda>p. range_key (iomemcon_iomem_low p) (iomemcon_iomem_high p)"
  by unfold_locales (simp add: cil_post_iomemcon_compare_def range_compare_key)

interpretation ioportcon: comparator cil_post_ioportcon_compare
  "\<lambda>p. range_ok (ioportcon_ioport_low p) (ioportcon_ioport_high p)"
  "\<lambda>p. range_key (ioportcon_ioport_low p) (ioportcon_ioport_high p)"
  by unfold_locales (simp add: cil_post_ioportcon_compare_def range_compare_key)

interpretation pcidevicecon: comparator cil_post_pcidevicecon_compare "\<lambda>_. True" pcidevicecon_dev
  by unfold_locales (simp add: cil_post_pcidevicecon_compare_def three_way_key)

interpretation fsuse: comparator cil_post_fsuse_compare "\<lambda>_. True"
  "\<lambda>f. (fsuse_kind f, fsuse_fs_str f)"
  by unfold_locales (auto simp: cil_post_fsuse_compare_def strcmp_def lexcmp_key)

subsection \<open>The data about a path\<close>

text \<open>A path as a sequence of units: characters, escaped characters and special characters.\<close>

datatype path_unit = Plain char | Escaped char | Special char

fun unit_ok :: "path_unit \<Rightarrow> bool" where
  "unit_ok (Plain c) \<longleftrightarrow> \<not> is_meta c \<and> c \<noteq> backslash"
| "unit_ok (Escaped c) \<longleftrightarrow> True"
| "unit_ok (Special c) \<longleftrightarrow> is_meta c"

fun unit_string :: "path_unit \<Rightarrow> string" where
  "unit_string (Plain c) = [c]"
| "unit_string (Escaped c) = [backslash, c]"
| "unit_string (Special c) = [c]"

fun is_special :: "path_unit \<Rightarrow> bool" where
  "is_special (Special c) \<longleftrightarrow> True"
| "is_special u \<longleftrightarrow> False"

definition path_of :: "path_unit list \<Rightarrow> string" where
  "path_of us = concat (map unit_string us)"

definition fc_data_of :: "path_unit list \<Rightarrow> fc_data" where
  "fc_data_of us = \<lparr>fc_meta = list_ex is_special us,
     fc_stem_len = int (length (takeWhile (\<lambda>u. \<not> is_special u) us)),
     fc_str_len = int (length us)\<rparr>"

lemma backslash_not_meta [simp]: "\<not> is_meta backslash"
  by (simp add: is_meta_def backslash_def)

lemma path_of_simps [simp]: "path_of [] = []" "path_of (u # us) = unit_string u @ path_of us"
  by (simp_all add: path_of_def)

text \<open>From any data, the loop adds the units of the rest of the path.\<close>

definition add_units :: "fc_data \<Rightarrow> path_unit list \<Rightarrow> fc_data" where
  "add_units fc us = \<lparr>fc_meta = (fc_meta fc \<or> list_ex is_special us),
     fc_stem_len = (if fc_meta fc then fc_stem_len fc
       else fc_stem_len fc + int (length (takeWhile (\<lambda>u. \<not> is_special u) us))),
     fc_str_len = fc_str_len fc + int (length us)\<rparr>"

lemma add_units_simps [simp]:
  "add_units fc [] = fc"
  "add_units fc (Plain c # us) = add_units (plain_unit fc) us"
  "add_units fc (Escaped c # us) = add_units (plain_unit fc) us"
  "add_units fc (Special c # us) = add_units (fc\<lparr>fc_meta := True, fc_str_len := fc_str_len fc + 1\<rparr>) us"
  by (simp_all add: add_units_def plain_unit_def)

lemma fc_fill_loop_units: "list_all unit_ok us \<Longrightarrow> fc_fill_loop fc (path_of us) = Ok (add_units fc us)"
proof (induction us arbitrary: fc)
  case (Cons u us)
  then show ?case by (cases u) simp_all
qed simp

lemma fc_fill_loop_Ok:
  "fc_fill_loop fc path = Ok d \<Longrightarrow> \<exists>us. list_all unit_ok us \<and> path_of us = path"
proof (induction fc path rule: fc_fill_loop.induct)
  case (1 fc)
  have "list_all unit_ok [] \<and> path_of [] = []" by simp
  then show ?case by blast
next
  case (2 fc c cs)
  consider (meta) "is_meta c" | (esc) e cs' where "c = backslash" "cs = e # cs'"
    | (plain) "\<not> is_meta c" "c \<noteq> backslash"
    using 2(4) by (cases "is_meta c"; cases "c = backslash"; cases cs) auto
  then show ?case
  proof cases
    case meta
    then obtain us where "list_all unit_ok us" "path_of us = cs" using 2(1,4) by auto
    with meta have "list_all unit_ok (Special c # us) \<and> path_of (Special c # us) = c # cs" by simp
    then show ?thesis by blast
  next
    case esc
    then obtain us where "list_all unit_ok us" "path_of us = cs'" using 2(2) [of e cs'] 2(4) by auto
    with esc have "list_all unit_ok (Escaped e # us) \<and> path_of (Escaped e # us) = c # cs" by simp
    then show ?thesis by blast
  next
    case plain
    then obtain us where "list_all unit_ok us" "path_of us = cs" using 2(3,4) by auto
    with plain have "list_all unit_ok (Plain c # us) \<and> path_of (Plain c # us) = c # cs" by simp
    then show ?thesis by blast
  qed
qed

lemma cil_post_fc_fill_data_units:
  "list_all unit_ok us \<Longrightarrow> cil_post_fc_fill_data (path_of us) = Ok (fc_data_of us)"
  by (simp add: cil_post_fc_fill_data_def fc_fill_loop_units add_units_def fc_data_of_def)

subsection \<open>Properties\<close>

text \<open>C11. The data about the path of a file context: the computation succeeds exactly on the paths
  that are a sequence of plain, escaped and special characters (all but those that end in a lone
  backslash); it then tells whether there is a special character, how many units precede the first
  one, and how many units there are.\<close>

theorem fc_data_semantics:
  "cil_post_fc_fill_data path = Ok d \<longleftrightarrow>
     (\<exists>us. list_all unit_ok us \<and> path_of us = path \<and> d = fc_data_of us)"
proof
  assume run: "cil_post_fc_fill_data path = Ok d"
  then obtain us where "list_all unit_ok us" "path_of us = path"
    using fc_fill_loop_Ok unfolding cil_post_fc_fill_data_def by blast
  with run cil_post_fc_fill_data_units [of us]
  show "\<exists>us. list_all unit_ok us \<and> path_of us = path \<and> d = fc_data_of us" by auto
qed (auto simp: cil_post_fc_fill_data_units)

text \<open>An implementation of \<open>qsort\<close>, to run the examples.\<close>

fun insert_by :: "(addr \<Rightarrow> addr \<Rightarrow> int) \<Rightarrow> addr \<Rightarrow> addr list \<Rightarrow> addr list" where
  "insert_by cmp x [] = [x]"
| "insert_by cmp x (y # ys) = (if cmp x y \<le> 0 then x # y # ys else y # insert_by cmp x ys)"

definition insertion_sort :: "(addr \<Rightarrow> addr \<Rightarrow> int) \<Rightarrow> addr list \<Rightarrow> addr list" where
  "insertion_sort cmp xs = foldr (insert_by cmp) xs []"

lemma mset_insert_by: "mset (insert_by cmp x ys) = add_mset x (mset ys)"
  by (induction ys) auto

lemma set_insert_by: "set (insert_by cmp x ys) = insert x (set ys)"
  using mset_insert_by [of cmp x ys] by (metis set_mset_mset set_mset_add_mset_insert)

lemma consistent_mono: "consistent cmp B \<Longrightarrow> A \<subseteq> B \<Longrightarrow> consistent cmp A"
  unfolding consistent_def by blast

lemma consistent_trans:
  "consistent cmp A \<Longrightarrow> a \<in> A \<Longrightarrow> b \<in> A \<Longrightarrow> c \<in> A \<Longrightarrow> cmp a b \<le> 0 \<Longrightarrow> cmp b c \<le> 0 \<Longrightarrow> cmp a c \<le> 0"
  unfolding consistent_def by blast

lemma consistent_total: "consistent cmp A \<Longrightarrow> a \<in> A \<Longrightarrow> b \<in> A \<Longrightarrow> \<not> cmp a b \<le> 0 \<Longrightarrow> cmp b a \<le> 0"
  unfolding consistent_def by (meson linorder_not_less order_less_imp_le)

lemma sorted_insert_by:
  "consistent cmp (insert x (set ys)) \<Longrightarrow> sorted_wrt (\<lambda>a b. cmp a b \<le> 0) ys \<Longrightarrow>
   sorted_wrt (\<lambda>a b. cmp a b \<le> 0) (insert_by cmp x ys)"
proof (induction ys)
  case (Cons y ys)
  have sub: "consistent cmp (insert x (set ys))"
    by (rule consistent_mono [OF Cons.prems(1)]) auto
  show ?case
  proof (cases "cmp x y \<le> 0")
    case True
    then have "cmp x z \<le> 0" if "z \<in> set ys" for z
      using consistent_trans [OF Cons.prems(1), of x y z] Cons.prems(2) that by auto
    with True Cons.prems(2) show ?thesis by auto
  next
    case False
    then have "cmp y x \<le> 0" using consistent_total [OF Cons.prems(1), of x y] by auto
    with False Cons.IH [OF sub] Cons.prems(2) show ?thesis by (auto simp: set_insert_by)
  qed
qed simp

lemma mset_insertion_sort: "mset (insertion_sort cmp xs) = mset xs"
  by (induction xs) (simp_all add: insertion_sort_def mset_insert_by)

lemma qsort_insertion_sort: "qsort_laws insertion_sort"
  unfolding qsort_laws_def
proof (intro conjI allI impI)
  fix cmp :: "addr \<Rightarrow> addr \<Rightarrow> int" and xs
  show "mset (insertion_sort cmp xs) = mset xs" by (rule mset_insertion_sort)
  show "consistent cmp (set xs) \<Longrightarrow> sorted_wrt (\<lambda>a b. cmp a b \<le> 0) (insertion_sort cmp xs)"
  proof (induction xs)
    case (Cons x xs)
    have "consistent cmp (insert x (set (insertion_sort cmp xs)))"
      using Cons.prems mset_eq_setD [OF mset_insertion_sort [of cmp xs]] by simp
    moreover have "consistent cmp (set xs)" by (rule consistent_mono [OF Cons.prems]) auto
    ultimately show ?case
      using Cons.IH sorted_insert_by [of cmp x "insertion_sort cmp xs"] by (simp add: insertion_sort_def)
  qed (simp add: insertion_sort_def)
qed

text \<open>Port contexts: an array of port contexts whose ranges are not upside down and span less
  than \<open>2\<^sup>3\<^sup>1\<close> is sorted, without losing or duplicating one, by the width of the range and then by
  the lower port: the most specific ranges come first.\<close>

theorem portcons_sorted:
  assumes "qsort_laws qsort"
    and "\<forall>a \<in> set xs. \<exists>p. m_portcon s a = Some p \<and> range_ok (portcon_port_low p) (portcon_port_high p)"
  shows "\<exists>ys. sort_pointers qsort (compare_at (m_portcon s) cil_post_portcon_compare) (map Some xs) =
      Ok (map Some ys) \<and> mset ys = mset xs \<and>
    sorted (map (\<lambda>a. let p = the (m_portcon s a) in
      (unat (portcon_port_high p) - unat (portcon_port_low p), unat (portcon_port_low p))) ys)"
  using portcon.sorts_by_key [OF assms] by (simp only: range_key_def Let_def)

definition ports_1_2 :: "((string \<times> addr) list, nat list) cil_store" where
  "ports_1_2 = store0\<lparr>m_portcon := [
     4 \<mapsto> \<lparr>portcon_proto = 1, portcon_port_low = 80, portcon_port_high = 90, portcon_context_str = None,
       portcon_context = None\<rparr>,
     5 \<mapsto> \<lparr>portcon_proto = 1, portcon_port_low = 85, portcon_port_high = 85, portcon_context_str = None,
       portcon_context = None\<rparr>]\<rparr>"

theorem portcons_sorted_witness:
  "\<exists>ys. sort_pointers insertion_sort (compare_at (m_portcon ports_1_2) cil_post_portcon_compare)
      [Some 4, Some 5] = Ok (map Some ys) \<and> mset ys = {#4, 5#}"
  using portcons_sorted [OF qsort_insertion_sort, of "[4, 5]" ports_1_2]
  by (auto simp: ports_1_2_def range_ok_def)

text \<open>File contexts: an array of file contexts is sorted so that the paths with special
  characters come first, and among those with and among those without, the shorter stems, then
  the shorter paths, then the lower file types.\<close>

theorem filecons_sorted:
  assumes "qsort_laws qsort"
    and "\<forall>a \<in> set xs. \<exists>f. m_filecon s a = Some f \<and> list_all unit_ok (units a) \<and>
      filecon_path_str f = path_of (units a)"
  shows "\<exists>ys. sort_pointers qsort (compare_at (m_filecon s) cil_post_filecon_compare) (map Some xs) =
      Ok (map Some ys) \<and> mset ys = mset xs \<and>
    sorted (map (\<lambda>a. (\<not> list_ex is_special (units a),
      int (length (takeWhile (\<lambda>u. \<not> is_special u) (units a))),
      int (length (units a)), filecon_kind (the (m_filecon s a)))) ys)"
proof -
  have ok: "\<forall>a \<in> set xs. \<exists>f. m_filecon s a = Some f \<and> fc_path_ok f"
    using assms(2) by (fastforce simp: fc_path_ok_def cil_post_fc_fill_data_units)
  have key: "fc_key (the (m_filecon s a)) = (\<not> list_ex is_special (units a),
      int (length (takeWhile (\<lambda>u. \<not> is_special u) (units a))),
      int (length (units a)), filecon_kind (the (m_filecon s a)))" if "a \<in> set xs" for a
    using assms(2) that by (fastforce simp: fc_key_def cil_post_fc_fill_data_units fc_data_of_def)
  from filecon.sorts_by_key [OF assms(1) ok] obtain ys where
    ys: "sort_pointers qsort (compare_at (m_filecon s) cil_post_filecon_compare) (map Some xs) = Ok (map Some ys)"
      "mset ys = mset xs" "sorted (map (\<lambda>a. fc_key (the (m_filecon s a))) ys)" by blast
  have "set ys = set xs" using ys(2) by (rule mset_eq_setD)
  with key have "map (\<lambda>a. fc_key (the (m_filecon s a))) ys = map (\<lambda>a. (\<not> list_ex is_special (units a),
      int (length (takeWhile (\<lambda>u. \<not> is_special u) (units a))),
      int (length (units a)), filecon_kind (the (m_filecon s a)))) ys"
    by (intro map_cong refl) auto
  with ys show ?thesis by auto
qed

definition two_files :: "((string \<times> addr) list, nat list) cil_store" where
  "two_files = store0\<lparr>m_filecon := [
     4 \<mapsto> \<lparr>filecon_path_str = ''a'', filecon_kind = 1, filecon_context_str = None, filecon_context = None\<rparr>,
     5 \<mapsto> \<lparr>filecon_path_str = ''b*'', filecon_kind = 1, filecon_context_str = None, filecon_context = None\<rparr>]\<rparr>"

theorem filecons_sorted_witness:
  "\<exists>ys. sort_pointers insertion_sort (compare_at (m_filecon two_files) cil_post_filecon_compare)
      [Some 4, Some 5] = Ok (map Some ys) \<and> mset ys = {#4, 5#}"
  using filecons_sorted [OF qsort_insertion_sort, of "[4, 5]" two_files
      "\<lambda>a. if a = 4 then [Plain CHR ''a''] else [Plain CHR ''b'', Special CHR ''*'']"]
  by (auto simp: two_files_def is_meta_def backslash_def)

text \<open>Node contexts: an array of node contexts is sorted so that IPv4 addresses come first, then
  by mask, the greater mask (as a sequence of bytes) first, then by address.\<close>

theorem nodecons_sorted:
  assumes "qsort_laws qsort"
    and "\<forall>a \<in> set xs. \<exists>n. m_nodecon s a = Some n \<and> nodecon_ok s n"
  shows "\<exists>ys. sort_pointers qsort (compare_at (m_nodecon s) (cil_post_nodecon_compare s)) (map Some xs) =
      Ok (map Some ys) \<and> mset ys = mset xs \<and>
    sorted (map (\<lambda>a. let n = the (m_nodecon s a);
        ip = the (m_ipaddr s (the (nodecon_addr n))); mask = the (m_ipaddr s (the (nodecon_mask n)));
        size = (if ipaddr_family ip = AF_INET then 4 else 16) in
      (ipaddr_family ip \<noteq> AF_INET, map (\<lambda>b. - uint b) (take size (ipaddr_bytes mask)),
       take size (ipaddr_bytes ip))) ys)"
  using nodecon.sorts_by_key [OF assms] by (simp only: nodecon_key_def ip_size_def Let_def)

definition two_nodes :: "((string \<times> addr) list, nat list) cil_store" where
  "two_nodes = store0\<lparr>m_nodecon := [
     4 \<mapsto> \<lparr>nodecon_addr_str = None, nodecon_addr = Some 14, nodecon_mask_str = None, nodecon_mask = Some 16,
       nodecon_context_str = None, nodecon_context = None\<rparr>,
     5 \<mapsto> \<lparr>nodecon_addr_str = None, nodecon_addr = Some 15, nodecon_mask_str = None, nodecon_mask = Some 17,
       nodecon_context_str = None, nodecon_context = None\<rparr>],
     m_ipaddr := [14 \<mapsto> \<lparr>ipaddr_family = 2, ipaddr_bytes = [10, 0, 0, 1] @ replicate 12 0\<rparr>,
       15 \<mapsto> \<lparr>ipaddr_family = 2, ipaddr_bytes = [10, 0, 0, 0] @ replicate 12 0\<rparr>,
       16 \<mapsto> \<lparr>ipaddr_family = 2, ipaddr_bytes = [255, 0, 0, 0] @ replicate 12 0\<rparr>,
       17 \<mapsto> \<lparr>ipaddr_family = 2, ipaddr_bytes = [255, 255, 0, 0] @ replicate 12 0\<rparr>]\<rparr>"

theorem nodecons_sorted_witness:
  "\<exists>ys. sort_pointers insertion_sort (compare_at (m_nodecon two_nodes) (cil_post_nodecon_compare two_nodes))
      [Some 4, Some 5] = Ok (map Some ys) \<and> mset ys = {#4, 5#}"
  using nodecons_sorted [OF qsort_insertion_sort, of "[4, 5]" two_nodes]
  by (auto simp: two_nodes_def nodecon_ok_def ip_ok_def)

end
