(* ===== verification/Cil_Order.thy ===== *)
theory Cil_Order
  imports Cil_Store
begin

text \<open>
  The ordered lists of \<open>src/cil_resolve_ast.c\<close>: every \<open>sidorder\<close>, \<open>classorder\<close>, \<open>categoryorder\<close> and
  \<open>sensitivityorder\<close> statement contributes a list, and the resolver merges them into one
  composite list that keeps the order of each.

  A list item is its flavor and its data pointer. A pointer into a list is modelled by the
  split of the list at that item: \<open>pre\<close> are the items up to and including the one before the
  pointer. The state of a merge is the memory, whose objects carry the flag \<open>ordered\<close>, together
  with the composite list; a merge that fails half way leaves its insertions there, as the code
  does.
\<close>

type_synonym order_items = "(cil_flavor \<times> addr) list"

type_synonym ('h, 'b, 'z) order_state = "('h, 'b, 'z) cil_store_scheme \<times> order_items"

text \<open>\<open>struct cil_ordered_list\<close>\<close>

record cil_ordered_list =
  ordered_merged :: bool
  ordered_list :: order_items
  ordered_node :: addr

subsection \<open>Insertion\<close>

definition on_fst :: "('x \<Rightarrow> 'y \<Rightarrow> 'y) \<Rightarrow> 'x \<Rightarrow> 'y \<times> 'c \<Rightarrow> 'y \<times> 'c" where
  "on_fst upd f p = (upd f (fst p), snd p)"

definition mark_ordered :: "cil_flavor \<times> addr \<Rightarrow> (('h, 'b, 'z) order_state, unit) cil" where
  "mark_ordered item =
     (if fst item = CIL_SID then
        bind (rd (\<lambda>p. m_sid (fst p)) (snd item)) (\<lambda>sid.
        if sid_ordered sid then fail SEPOL_ERR
        else wr (\<lambda>p. m_sid (fst p)) (on_fst m_sid_update) (snd item) (sid_ordered_update (\<lambda>_. True)))
      else if fst item = CIL_CLASS then
        bind (rd (\<lambda>p. m_class (fst p)) (snd item)) (\<lambda>class.
        if class_ordered class then fail SEPOL_ERR
        else wr (\<lambda>p. m_class (fst p)) (on_fst m_class_update) (snd item) (class_ordered_update (\<lambda>_. True)))
      else if fst item = CIL_CAT then
        bind (rd (\<lambda>p. m_cat (fst p)) (snd item)) (\<lambda>cat.
        if cat_ordered cat then fail SEPOL_ERR
        else wr (\<lambda>p. m_cat (fst p)) (on_fst m_cat_update) (snd item) (cat_ordered_update (\<lambda>_. True)))
      else if fst item = CIL_SENS then
        bind (rd (\<lambda>p. m_sens (fst p)) (snd item)) (\<lambda>sens.
        if sens_ordered sens then fail SEPOL_ERR
        else wr (\<lambda>p. m_sens (fst p)) (on_fst m_sens_update) (snd item) (sens_ordered_update (\<lambda>_. True)))
      else ret ())"

definition cil_ordered_item_insert ::
  "order_items \<Rightarrow> cil_flavor \<times> addr \<Rightarrow> order_items \<Rightarrow> (('h, 'b, 'z) order_state, unit) cil"
where
  "cil_ordered_item_insert pre item rest =
     bind (mark_ordered item) (\<lambda>_. modify (\<lambda>p. (fst p, pre @ item # rest)))"

text \<open>The result is the part of the composite list up to the last inserted item.\<close>

fun cil_ordered_list_insert ::
  "order_items \<Rightarrow> order_items \<Rightarrow> order_items \<Rightarrow> (('h, 'b, 'z) order_state, order_items) cil"
where
  "cil_ordered_list_insert pre [] rest = ret pre"
| "cil_ordered_list_insert pre (n # ns) rest =
     bind (cil_ordered_item_insert pre n rest) (\<lambda>_.
     cil_ordered_list_insert (pre @ [n]) ns rest)"

subsection \<open>Merging\<close>

fun cil_ordered_find_match ::
  "addr \<Rightarrow> order_items \<Rightarrow> (order_items \<times> (cil_flavor \<times> addr) \<times> order_items) option"
where
  "cil_ordered_find_match t [] = None"
| "cil_ordered_find_match t (i # is) =
     (if snd i = t then Some ([], i, is)
      else map_option (\<lambda>(pre, m, post). (i # pre, m, post)) (cil_ordered_find_match t is))"

text \<open>The first item of the new list that is in the old one, with both lists split there.\<close>

fun ordered_first_match ::
  "order_items \<Rightarrow> order_items \<Rightarrow>
   (order_items \<times> order_items \<times> order_items \<times> (cil_flavor \<times> addr) \<times> order_items) option"
where
  "ordered_first_match [] old = None"
| "ordered_first_match (n # ns) old =
     (case cil_ordered_find_match (snd n) old of
        Some (obefore, omatch, oafter) \<Rightarrow> Some ([], ns, obefore, omatch, oafter)
      | None \<Rightarrow>
          map_option (\<lambda>(nbefore, nafter, omatches). (n # nbefore, nafter, omatches))
            (ordered_first_match ns old))"

lemma find_match_split:
  "cil_ordered_find_match t is = Some (pre, m, post) \<Longrightarrow> is = pre @ m # post \<and> snd m = t"
  by (induction "is" arbitrary: pre) (auto split: if_splits)

function ordered_merge_overlap ::
  "order_items \<Rightarrow> order_items \<Rightarrow> order_items \<Rightarrow> (('h, 'b, 'z) order_state, unit) cil"
where
  "ordered_merge_overlap pre [] [] = ret ()"
| "ordered_merge_overlap pre [] (n # ns) =
     bind (cil_ordered_list_insert pre (n # ns) []) (\<lambda>_. ret ())"
| "ordered_merge_overlap pre (oc # os) [] = ret ()"
| "ordered_merge_overlap pre (oc # os) (n # ns) =
     (if snd n = snd oc then ordered_merge_overlap (pre @ [oc]) os ns
      else
        (case cil_ordered_find_match (snd oc) ns of
           Some (gap, _, ns') \<Rightarrow>
             bind (cil_ordered_list_insert pre (n # gap) (oc # os)) (\<lambda>pre'.
             ordered_merge_overlap (pre' @ [oc]) os ns')
         | None \<Rightarrow>
             (case cil_ordered_find_match (snd n) os of
                Some (skip, omatch, os') \<Rightarrow>
                  ordered_merge_overlap (pre @ oc # skip @ [omatch]) os' ns
              | None \<Rightarrow> fail SEPOL_ERR)))"
  by pat_completeness auto

termination
  by (relation "measure (\<lambda>(pre, os, ns). length ns)") (auto dest: find_match_split)

definition cil_ordered_lists_merge :: "order_items \<Rightarrow> (('h, 'b, 'z) order_state, unit) cil" where
  "cil_ordered_lists_merge new =
     bind (gets snd) (\<lambda>old.
     if new = [] then ret ()
     else if old = [] then bind (cil_ordered_list_insert [] new []) (\<lambda>_. ret ())
     else
       (case ordered_first_match new old of
          None \<Rightarrow> fail SEPOL_ERR
        | Some (nbefore, nafter, obefore, omatch, oafter) \<Rightarrow>
            if nbefore \<noteq> [] \<and> obefore \<noteq> [] then fail SEPOL_ERR
            else
              bind (if nbefore \<noteq> [] then cil_ordered_list_insert [] nbefore old else ret []) (\<lambda>pre.
              ordered_merge_overlap (pre @ obefore @ [omatch]) oafter nafter)))"

subsection \<open>Merging all the lists\<close>

text \<open>One pass over the lists that are not merged yet: how many still wait, and whether any was
  merged.\<close>

fun ordered_merge_pass ::
  "cil_ordered_list list \<Rightarrow> (('h, 'b, 'z) order_state, cil_ordered_list list \<times> nat \<times> bool) cil"
where
  "ordered_merge_pass [] = ret ([], 0, False)"
| "ordered_merge_pass (l # ls) =
     (if ordered_merged l then
        bind (ordered_merge_pass ls) (\<lambda>(ls', waiting, changed). ret (l # ls', waiting, changed))
      else
        bind (attempt (cil_ordered_lists_merge (ordered_list l))) (\<lambda>rc.
        case rc of
          Inl _ \<Rightarrow> bind (ordered_merge_pass ls) (\<lambda>(ls', waiting, changed).
            ret (l # ls', Suc waiting, changed))
        | Inr _ \<Rightarrow> bind (ordered_merge_pass ls) (\<lambda>(ls', waiting, changed).
            ret (l\<lparr>ordered_merged := True\<rparr> # ls', waiting, True))))"

definition unmerged :: "cil_ordered_list list \<Rightarrow> nat" where
  "unmerged ls = length (filter (\<lambda>l. \<not> ordered_merged l) ls)"

lemma ordered_merge_pass_waiting:
  "ordered_merge_pass ls st = (Ok (ls', waiting, changed), st') \<Longrightarrow>
   waiting = unmerged ls' \<and> map ordered_list ls' = map ordered_list ls \<and>
   (if changed then unmerged ls' < unmerged ls else unmerged ls' \<le> unmerged ls)"
proof (induction ls arbitrary: st ls' waiting changed)
  case Nil
  then show ?case by (simp add: unmerged_def)
next
  case (Cons l ls)
  show ?case
  proof (cases "ordered_merged l")
    case True
    with Cons.prems obtain ls1 where "ordered_merge_pass ls st = (Ok (ls1, waiting, changed), st')"
      and "ls' = l # ls1"
      by (auto simp: bind_eq_Ok)
    with Cons.IH [OF this(1)] True show ?thesis by (auto simp: unmerged_def split: if_splits)
  next
    case False
    with Cons.prems obtain rc st1 where
      "attempt (cil_ordered_lists_merge (ordered_list l)) st = (Ok rc, st1)"
      by (auto simp: bind_eq_Ok)
    with Cons.prems False obtain ls1 w1 c1 where
      "ordered_merge_pass ls st1 = (Ok (ls1, w1, c1), st')" and
      "ls' = l # ls1 \<and> waiting = Suc w1 \<and> changed = c1 \<or>
       ls' = l\<lparr>ordered_merged := True\<rparr> # ls1 \<and> waiting = w1 \<and> changed"
      by (cases rc) (auto simp: bind_eq_Ok)
    with Cons.IH [OF this(1)] False show ?thesis by (auto simp: unmerged_def split: if_splits)
  qed
qed

function ordered_merge_loop ::
  "cil_ordered_list list \<Rightarrow> (('h, 'b, 'z) order_state, order_items option) cil"
where
  "ordered_merge_loop ls st =
     (case ordered_merge_pass ls st of
        (Ok (ls', waiting, changed), st') \<Rightarrow>
          if waiting > 0 \<and> changed then ordered_merge_loop ls' st'
          else if waiting > 0 then (Ok None, st')
          else (Ok (Some (snd st')), st')
      | (Fail e, st') \<Rightarrow> (Fail e, st')
      | (Fault, st') \<Rightarrow> (Fault, st')
      | (Out_of_fuel, st') \<Rightarrow> (Out_of_fuel, st'))"
  by pat_completeness auto

termination
  by (relation "measure (\<lambda>(ls, st). unmerged ls)") (auto dest!: ordered_merge_pass_waiting [OF sym])

declare ordered_merge_loop.simps [simp del]

text \<open>\<open>None\<close> is the null pointer the code returns when some list cannot be merged.\<close>

definition cil_ordered_lists_merge_all ::
  "cil_ordered_list list \<Rightarrow> (('h, 'b, 'z) cil_store_scheme, order_items option) cil"
where
  "cil_ordered_lists_merge_all ls =
     (\<lambda>s. case ordered_merge_loop ls (s, []) of (r, st) \<Rightarrow> (r, fst st))"

fun set_cat_values :: "nat \<Rightarrow> addr list \<Rightarrow> (('h, 'b, 'z) cil_store_scheme, nat) cil" where
  "set_cat_values v [] = ret v"
| "set_cat_values v (cat # cats) =
     bind (wr m_cat m_cat_update cat (cat_value_update (\<lambda>_. int v))) (\<lambda>_.
     set_cat_values (Suc v) cats)"

definition cil_set_cat_values :: "order_items option \<Rightarrow> (('h, 'b, 'z) cil_store_scheme, unit) cil" where
  "cil_set_cat_values ordered_cats =
     bind (lift (not_null ordered_cats)) (\<lambda>cats.
     bind (set_cat_values 0 (map snd cats)) (\<lambda>v.
     modify (num_cats_update (\<lambda>_. int v))))"

subsection \<open>The invariant of a composite list\<close>

definition order_flavor :: "cil_flavor \<Rightarrow> bool" where
  "order_flavor f \<longleftrightarrow> f = CIL_SID \<or> f = CIL_CLASS \<or> f = CIL_CAT \<or> f = CIL_SENS"

definition is_ordered :: "('h, 'b, 'z) cil_store_scheme \<Rightarrow> cil_flavor \<Rightarrow> addr \<Rightarrow> bool" where
  "is_ordered s f a \<longleftrightarrow>
     (if f = CIL_SID then (case m_sid s a of Some x \<Rightarrow> sid_ordered x | None \<Rightarrow> False)
      else if f = CIL_CLASS then (case m_class s a of Some x \<Rightarrow> class_ordered x | None \<Rightarrow> False)
      else if f = CIL_CAT then (case m_cat s a of Some x \<Rightarrow> cat_ordered x | None \<Rightarrow> False)
      else (case m_sens s a of Some x \<Rightarrow> sens_ordered x | None \<Rightarrow> False))"

definition ordered_inv :: "cil_flavor \<Rightarrow> ('h, 'b, 'z) order_state \<Rightarrow> bool" where
  "ordered_inv f st \<longleftrightarrow>
     distinct (map snd (snd st)) \<and> (\<forall>x \<in> set (snd st). fst x = f \<and> is_ordered (fst st) f (snd x))"

lemma mark_ordered_result:
  assumes "order_flavor f" and "mark_ordered (f, a) st = (r, st')"
  shows "snd st' = snd st" and "is_ordered (fst st) f b \<Longrightarrow> is_ordered (fst st') f b"
    and "r = Ok () \<Longrightarrow> \<not> is_ordered (fst st) f a \<and> is_ordered (fst st') f a"
    and "r \<noteq> Ok () \<Longrightarrow> st' = st"
  using assms
  by (auto simp: order_flavor_def mark_ordered_def is_ordered_def bind_def rd_def wr_def on_fst_def
      split: if_splits option.splits)

lemma list_insert_result:
  assumes "order_flavor f" and "\<forall>x \<in> set xs. fst x = f"
    and "ordered_inv f (s, pre @ rest)"
    and "cil_ordered_list_insert pre xs rest (s, pre @ rest) = (r, (s', c))"
  obtains k where "c = pre @ take k xs @ rest" and "ordered_inv f (s', c)"
    and "\<And>p. r = Ok p \<Longrightarrow> p = pre @ xs \<and> k = length xs"
proof -
  have "\<exists>k. c = pre @ take k xs @ rest \<and> ordered_inv f (s', c) \<and>
      (\<forall>p. r = Ok p \<longrightarrow> p = pre @ xs \<and> k = length xs)"
    using assms(2-)
  proof (induction xs arbitrary: pre s)
    case Nil
    then show ?case by auto
  next
    case (Cons x xs)
    obtain r1 st1 where m: "mark_ordered x (s, pre @ rest) = (r1, st1)"
      by (cases "mark_ordered x (s, pre @ rest)") blast
    from Cons.prems(1) have x: "x = (f, snd x)" by (cases x) auto
    note res = mark_ordered_result [OF assms(1), of "snd x", folded x, OF m]
    show ?case
    proof (cases "r1 = Ok ()")
      case True
      have inv: "ordered_inv f (fst st1, (pre @ [x]) @ rest)"
      proof -
        have "snd x \<notin> snd ` set (pre @ rest)"
        proof
          assume "snd x \<in> snd ` set (pre @ rest)"
          then obtain y where "y \<in> set (pre @ rest)" "snd x = snd y" by auto
          with Cons.prems(2) res(3) [OF True] show False by (simp add: ordered_inv_def)
        qed
        then show ?thesis
          using Cons.prems(1,2) res(2) res(3) [OF True] by (auto simp: ordered_inv_def)
      qed
      have "cil_ordered_list_insert (pre @ [x]) xs rest (fst st1, (pre @ [x]) @ rest) = (r, (s', c))"
        using Cons.prems(3) m True by (simp add: cil_ordered_item_insert_def bind_def)
      with Cons.IH [of "fst st1" "pre @ [x]"] Cons.prems(1) inv obtain k where
        "c = (pre @ [x]) @ take k xs @ rest" "ordered_inv f (s', c)"
        "\<forall>p. r = Ok p \<longrightarrow> p = (pre @ [x]) @ xs \<and> k = length xs" by auto
      then show ?thesis by (intro exI [of _ "Suc k"]) auto
    next
      case False
      then have "(s', c) = (s, pre @ rest) \<and> (\<forall>p. r \<noteq> Ok p)"
        using Cons.prems(3) m res(4) by (cases r1) (auto simp: cil_ordered_item_insert_def bind_def)
      with Cons.prems(2) show ?thesis by (intro exI [of _ 0]) auto
    qed
  qed
  with that show thesis by blast
qed

text \<open>What the overlapping part of a merge does to the rest \<open>os\<close> of the composite list: it inserts
  items of the new list, and if it succeeds the new list is a subsequence of the result.\<close>

lemma merge_overlap_result:
  assumes "order_flavor f" and "\<forall>x \<in> set ns. fst x = f"
    and "ordered_inv f (s, pre @ os)"
    and "ordered_merge_overlap pre os ns (s, pre @ os) = (r, (s', c))"
  shows "\<exists>tail. c = pre @ tail \<and> subseq os tail \<and> set tail \<subseteq> set os \<union> set ns \<and>
    ordered_inv f (s', c) \<and> (r = Ok () \<longrightarrow> subseq (map snd ns) (map snd tail))"
  using assms(2-)
proof (induction pre os ns arbitrary: s rule: ordered_merge_overlap.induct)
  case (1 pre)
  then show ?case by auto
next
  case (2 pre n ns)
  then obtain r1 where ins: "cil_ordered_list_insert pre (n # ns) [] (s, pre @ []) = (r1, (s', c))"
    and r: "r = Ok () \<longrightarrow> (\<exists>p. r1 = Ok p)"
    by (cases rule: bind_cases [of "cil_ordered_list_insert pre (n # ns) []" "(s, pre)" "\<lambda>_. ret ()"])
       (auto simp del: cil_ordered_list_insert.simps)
  from list_insert_result [OF assms(1) 2(1,2) ins] obtain k where
    "c = pre @ take k (n # ns) @ []" "ordered_inv f (s', c)" "\<And>p. r1 = Ok p \<Longrightarrow> k = length (n # ns)"
    by metis
  with r show ?case
    by (intro exI [of _ "take k (n # ns)"]) (auto dest: in_set_takeD)
next
  case (3 pre oc os)
  then show ?case by (intro exI [of _ "oc # os"]) auto
next
  case (4 pre oc os n ns)
  show ?case
  proof (cases "snd n = snd oc")
    case True
    have inv: "ordered_inv f (s, (pre @ [oc]) @ os)" using "4.prems"(2) by simp
    have "ordered_merge_overlap (pre @ [oc]) os ns (s, (pre @ [oc]) @ os) = (r, s', c)"
      using "4.prems"(3) True by simp
    from "4.IH"(1) [OF True _ inv this] "4.prems"(1) obtain tail where
      "c = (pre @ [oc]) @ tail" "subseq os tail" "set tail \<subseteq> set os \<union> set ns"
      "ordered_inv f (s', c)" "r = Ok () \<longrightarrow> subseq (map snd ns) (map snd tail)" by auto
    with True show ?thesis by (intro exI [of _ "oc # tail"]) auto
  next
    case neq: False
    show ?thesis
    proof (cases "cil_ordered_find_match (snd oc) ns")
      case (Some m)
      then obtain gap x ns' where m: "cil_ordered_find_match (snd oc) ns = Some (gap, x, ns')"
        by (cases m) auto
      from find_match_split [OF m] have ns: "ns = gap @ x # ns'" "snd x = snd oc" by auto
      obtain r1 s1 c1 where ins:
        "cil_ordered_list_insert pre (n # gap) (oc # os) (s, pre @ oc # os) = (r1, (s1, c1))"
        by (metis prod.exhaust)
      from "4.prems"(1) ns have gapf: "\<forall>x \<in> set (n # gap). fst x = f" by auto
      obtain k where k: "c1 = pre @ take k (n # gap) @ oc # os" "ordered_inv f (s1, c1)"
        and full: "\<And>p. r1 = Ok p \<Longrightarrow> p = pre @ n # gap \<and> k = length (n # gap)"
        using list_insert_result [OF assms(1) gapf "4.prems"(2) ins] by metis
      show ?thesis
      proof (cases "\<exists>p. r1 = Ok p")
        case True
        then have p: "r1 = Ok (pre @ n # gap)" and c1: "c1 = (pre @ n # gap @ [oc]) @ os"
          using full k(1) by auto
        have "ordered_merge_overlap (pre @ n # gap @ [oc]) os ns' (s1, (pre @ n # gap @ [oc]) @ os)
            = (r, s', c)"
          using "4.prems"(3) neq m ins p c1 by (simp add: bind_def del: cil_ordered_list_insert.simps)
        moreover have "ordered_inv f (s1, (pre @ n # gap @ [oc]) @ os)" using k(2) c1 by simp
        ultimately obtain tail where
          "c = (pre @ n # gap @ [oc]) @ tail" "subseq os tail" "set tail \<subseteq> set os \<union> set ns'"
          "ordered_inv f (s', c)" "r = Ok () \<longrightarrow> subseq (map snd ns') (map snd tail)"
          using "4.IH"(3) [OF neq m refl refl, of s1 "pre @ n # gap"] "4.prems"(1) ns by auto
        with ns show ?thesis
          by (intro exI [of _ "n # gap @ oc # tail"])
             (auto intro!: list_emb_append_mono simp flip: append_Cons)
      next
        case False
        then have "(s', c) = (s1, c1)" "r \<noteq> Ok ()"
          using "4.prems"(3) neq m ins
          by (cases r1; auto simp: bind_def simp del: cil_ordered_list_insert.simps)+
        with k ns show ?thesis
          by (intro exI [of _ "take k (n # gap) @ oc # os"]) (auto dest: in_set_takeD)
      qed
    next
      case none: None
      show ?thesis
      proof (cases "cil_ordered_find_match (snd n) os")
        case None
        with "4.prems" neq none show ?thesis by (intro exI [of _ "oc # os"]) auto
      next
        case (Some m)
        then obtain skip x os' where m: "cil_ordered_find_match (snd n) os = Some (skip, x, os')"
          by (cases m) auto
        from find_match_split [OF m] have os: "os = skip @ x # os'" "snd x = snd n" by auto
        have inv: "ordered_inv f (s, (pre @ oc # skip @ [x]) @ os')" using "4.prems"(2) os by simp
        have "ordered_merge_overlap (pre @ oc # skip @ [x]) os' ns (s, (pre @ oc # skip @ [x]) @ os')
            = (r, s', c)"
          using "4.prems"(3) neq none m os by simp
        from "4.IH"(2) [OF neq none m refl refl _ inv this] "4.prems"(1) obtain tail where
          "c = (pre @ oc # skip @ [x]) @ tail" "subseq os' tail" "set tail \<subseteq> set os' \<union> set ns"
          "ordered_inv f (s', c)" "r = Ok () \<longrightarrow> subseq (map snd ns) (map snd tail)" by auto
        moreover from this(2) have "subseq (skip @ x # os') (skip @ x # tail)"
          by (intro list_emb_append_mono) auto
        moreover from calculation(5) have
          "r = Ok () \<longrightarrow> subseq (map snd (n # ns)) (map snd (oc # skip @ x # tail))"
          using os list_emb_append2 [of "(=)" "map snd (n # ns)" "map snd (x # tail)"
              "map snd (oc # skip)"] by auto
        ultimately show ?thesis
          using os by (intro exI [of _ "oc # skip @ x # tail"]) auto
      qed
    qed
  qed
qed

lemma first_match_split:
  "ordered_first_match new old = Some (nb, na, ob, om, oa) \<Longrightarrow>
   \<exists>nm. new = nb @ nm # na \<and> old = ob @ om # oa \<and> snd nm = snd om"
  by (induction new arbitrary: nb) (auto split: option.splits dest!: find_match_split)

text \<open>A merge only adds items of the new list, keeps the invariant on every path, and when it
  succeeds the composite list follows the new order.\<close>

lemma lists_merge_result:
  assumes "order_flavor f" and "\<forall>x \<in> set new. fst x = f" and "ordered_inv f (s, old)"
    and run: "cil_ordered_lists_merge new (s, old) = (r, (s', c))"
  shows "subseq old c \<and> set c \<subseteq> set old \<union> set new \<and> ordered_inv f (s', c) \<and>
    (r = Ok () \<longrightarrow> subseq (map snd new) (map snd c))"
proof (cases "new = [] \<or> old = []")
  case True
  show ?thesis
  proof (cases "new = []")
    case True
    with assms show ?thesis by (auto simp: cil_ordered_lists_merge_def)
  next
    case False
    with True have old: "old = []" by simp
    obtain r1 s1 c1 where ins: "cil_ordered_list_insert [] new [] (s, [] @ []) = (r1, (s1, c1))"
      by (metis prod.exhaust)
    with False old run have "(s', c) = (s1, c1)" "r = Ok () \<longrightarrow> (\<exists>p. r1 = Ok p)"
      by (cases r1; auto simp: cil_ordered_lists_merge_def bind_def)+
    moreover have "ordered_inv f (s, [] @ [])" using assms(3) old by simp
    from list_insert_result [OF assms(1,2) this ins] obtain k where
      k: "c1 = [] @ take k new @ []" "ordered_inv f (s1, c1)"
      "\<And>p. r1 = Ok p \<Longrightarrow> p = [] @ new \<and> k = length new"
      by blast
    moreover have "set c1 \<subseteq> set new" using k(1) by (auto dest: in_set_takeD)
    moreover have "r1 = Ok p \<Longrightarrow> c1 = new" for p using k(1,3) by simp
    ultimately have "c = c1" "s' = s1" "ordered_inv f (s1, c1)" "set c1 \<subseteq> set new"
      "r = Ok () \<longrightarrow> c1 = new" by blast+
    with old show ?thesis by simp
  qed
next
  case False
  show ?thesis
  proof (cases "ordered_first_match new old")
    case None
    with False assms show ?thesis by (auto simp: cil_ordered_lists_merge_def)
  next
    case (Some m)
    then obtain nb na ob om oa where m: "ordered_first_match new old = Some (nb, na, ob, om, oa)"
      by (cases m) auto
    then obtain nm where new: "new = nb @ nm # na" and old: "old = ob @ om # oa" "snd nm = snd om"
      using first_match_split by metis
    have naf: "\<forall>x \<in> set na. fst x = f" and nbf: "\<forall>x \<in> set nb. fst x = f"
      using assms(2) new by auto
    show ?thesis
    proof (cases "nb \<noteq> [] \<and> ob \<noteq> []")
      case True
      with False m assms show ?thesis by (auto simp: cil_ordered_lists_merge_def)
    next
      case conf: False
      obtain r1 s1 c1 where ins: "cil_ordered_list_insert [] nb old (s, [] @ old) = (r1, (s1, c1))"
        by (metis prod.exhaust)
      have inv0: "ordered_inv f (s, [] @ old)" using assms(3) by simp
      obtain k where k: "c1 = [] @ take k nb @ old" "ordered_inv f (s1, c1)"
        and full: "\<And>p. r1 = Ok p \<Longrightarrow> p = [] @ nb \<and> k = length nb"
        using list_insert_result [OF assms(1) nbf inv0 ins] by metis
      have run': "bind (cil_ordered_list_insert [] nb old)
          (\<lambda>pre. ordered_merge_overlap (pre @ ob @ [om]) oa na) (s, old) = (r, (s', c))"
        using run False m conf by (cases "nb = []") (simp_all add: cil_ordered_lists_merge_def)
      show ?thesis
      proof (cases "\<exists>p. r1 = Ok p")
        case True
        then have r1: "r1 = Ok nb" and c1: "c1 = (nb @ ob @ [om]) @ oa"
          using full k(1) old by auto
        have "ordered_merge_overlap (nb @ ob @ [om]) oa na (s1, (nb @ ob @ [om]) @ oa) = (r, (s', c))"
          using run' ins r1 c1 by simp
        from merge_overlap_result [OF assms(1) naf _ this] k(2) c1 obtain tail where
          t: "c = (nb @ ob @ [om]) @ tail" "subseq oa tail" "set tail \<subseteq> set oa \<union> set na"
            "ordered_inv f (s', c)" "r = Ok () \<longrightarrow> subseq (map snd na) (map snd tail)"
          by auto
        have "subseq (ob @ om # oa) (nb @ ob @ om # tail)"
          using t(2) by (intro list_emb_append2 list_emb_append_mono) auto
        moreover have "r = Ok () \<longrightarrow> subseq (map snd new) (map snd c)"
        proof
          assume "r = Ok ()"
          with t(5) have "subseq (snd om # map snd na) (map snd ob @ snd om # map snd tail)"
            by (intro list_emb_append2) simp
          then have "subseq (map snd nb @ snd om # map snd na)
              (map snd nb @ map snd ob @ snd om # map snd tail)"
            by (intro list_emb_append_mono) simp_all
          with t(1) new old(2) show "subseq (map snd new) (map snd c)" by simp
        qed
        ultimately show ?thesis using t new old by auto
      next
        case fails: False
        have "(s', c) = (s1, c1) \<and> r \<noteq> Ok ()"
          using run' ins fails by (cases r1) auto
        moreover have "subseq old (take k nb @ old)" by (rule list_emb_append2) simp
        moreover have "set (take k nb) \<subseteq> set new" using new by (auto dest: in_set_takeD)
        ultimately show ?thesis using k by auto
      qed
    qed
  qed
qed

text \<open>A pass keeps the invariant, lets the composite list grow, and every list it marks as merged
  is a subsequence of it.\<close>

definition merged_in :: "order_items \<Rightarrow> cil_ordered_list list \<Rightarrow> bool" where
  "merged_in c ls \<longleftrightarrow> (\<forall>l \<in> set ls. ordered_merged l \<longrightarrow> subseq (map snd (ordered_list l)) (map snd c))"

definition ordered_of :: "cil_flavor \<Rightarrow> cil_ordered_list list \<Rightarrow> bool" where
  "ordered_of f ls \<longleftrightarrow> (\<forall>l \<in> set ls. \<forall>x \<in> set (ordered_list l). fst x = f)"

definition ordered_items :: "cil_ordered_list list \<Rightarrow> (cil_flavor \<times> addr) set" where
  "ordered_items ls = (\<Union>l \<in> set ls. set (ordered_list l))"

lemma ordered_of_image: "ordered_of f ls \<longleftrightarrow> (\<forall>is \<in> ordered_list ` set ls. \<forall>x \<in> set is. fst x = f)"
  by (simp add: ordered_of_def)

lemma ordered_items_image: "ordered_items ls = (\<Union>is \<in> ordered_list ` set ls. set is)"
  by (simp add: ordered_items_def)

lemma merged_in_mono: "merged_in c ls \<Longrightarrow> subseq c c' \<Longrightarrow> merged_in c' ls"
  by (auto simp: merged_in_def intro: subseq_order.trans [OF _ subseq_map])

lemma merge_pass_result:
  assumes "order_flavor f" and "ordered_of f ls" and "ordered_inv f (s, old)" and "merged_in old ls"
    and "ordered_merge_pass ls (s, old) = (Ok (ls', waiting, changed), (s', c))"
  shows "ordered_inv f (s', c) \<and> subseq old c \<and> set c \<subseteq> set old \<union> ordered_items ls \<and> merged_in c ls'"
  using assms(2-)
proof (induction ls arbitrary: s old ls' waiting changed)
  case Nil
  then show ?case by (auto simp: merged_in_def)
next
  case (Cons l ls)
  from Cons.prems have of: "ordered_of f ls" "\<forall>x \<in> set (ordered_list l). fst x = f"
    and mi: "merged_in old ls"
    by (auto simp: ordered_of_def merged_in_def)
  show ?case
  proof (cases "ordered_merged l")
    case True
    with Cons.prems obtain ls1 where
      "ordered_merge_pass ls (s, old) = (Ok (ls1, waiting, changed), (s', c))" "ls' = l # ls1"
      by (auto simp: bind_eq_Ok)
    with Cons.IH [OF of(1) Cons.prems(2) mi this(1)] True Cons.prems(3) show ?thesis
      by (auto simp: merged_in_def ordered_items_def intro: subseq_order.trans [OF _ subseq_map])
  next
    case False
    obtain r1 s1 c1 where m: "cil_ordered_lists_merge (ordered_list l) (s, old) = (r1, (s1, c1))"
      by (metis prod.exhaust)
    note step = lists_merge_result [OF assms(1) of(2) Cons.prems(2) m]
    from Cons.prems(4) False m obtain ls1 w1 c2 where
      rest: "ordered_merge_pass ls (s1, c1) = (Ok (ls1, w1, c2), (s', c))"
      and ls': "r1 = Ok () \<and> ls' = l\<lparr>ordered_merged := True\<rparr> # ls1 \<or> ls' = l # ls1"
      by (cases r1) (auto simp: bind_eq_Ok)
    have "merged_in c1 ls" using mi step by (blast intro: merged_in_mono)
    with Cons.IH [OF of(1) _ this rest] step have
      ih: "ordered_inv f (s', c) \<and> subseq c1 c \<and> set c \<subseteq> set c1 \<union> ordered_items ls \<and> merged_in c ls1"
      by blast
    moreover from ih step have "r1 = Ok () \<longrightarrow> subseq (map snd (ordered_list l)) (map snd c)"
      by (blast intro: subseq_order.trans [OF _ subseq_map])
    moreover from ih step have "subseq old c" by (blast intro: subseq_order.trans)
    ultimately show ?thesis
      using ls' step False by (auto simp: merged_in_def ordered_items_def)
  qed
qed

lemma merge_loop_result:
  assumes "order_flavor f" and "ordered_of f ls" and "ordered_inv f (s, old)" and "merged_in old ls"
    and "ordered_merge_loop ls (s, old) = (Ok (Some c), (s', c'))"
  shows "c' = c \<and> ordered_inv f (s', c) \<and> set c \<subseteq> set old \<union> ordered_items ls \<and>
    (\<forall>l \<in> set ls. subseq (map snd (ordered_list l)) (map snd c))"
  using assms(2-)
proof (induction "unmerged ls" arbitrary: ls s old rule: less_induct)
  case less
  obtain r1 s1 c1 where p: "ordered_merge_pass ls (s, old) = (r1, (s1, c1))"
    by (metis prod.exhaust)
  with less.prems(4) obtain ls1 w ch where r1: "r1 = Ok (ls1, w, ch)"
    by (cases r1) (auto simp: ordered_merge_loop.simps [of ls])
  note pass = merge_pass_result [OF assms(1) less.prems(1,2,3) p [unfolded r1]]
    and cnt = ordered_merge_pass_waiting [OF p [unfolded r1]]
  have lists: "ordered_list ` set ls1 = ordered_list ` set ls"
    using cnt by (metis set_map)
  have of1: "ordered_of f ls1" and items: "ordered_items ls1 = ordered_items ls"
    using less.prems(1) lists by (simp_all add: ordered_of_image ordered_items_image)
  have all: "(\<forall>l \<in> set ls1. P (ordered_list l)) \<longleftrightarrow> (\<forall>l \<in> set ls. P (ordered_list l))" for P
  proof -
    have "(\<forall>is \<in> ordered_list ` set ls1. P is) \<longleftrightarrow> (\<forall>is \<in> ordered_list ` set ls. P is)"
      using lists by simp
    then show ?thesis by simp
  qed
  show ?case
  proof (cases "0 < w \<and> ch")
    case True
    then have "ordered_merge_loop ls1 (s1, c1) = (Ok (Some c), (s', c'))"
      using less.prems(4) p r1 by (simp add: ordered_merge_loop.simps [of ls])
    moreover have "unmerged ls1 < unmerged ls" using cnt True by simp
    ultimately have "c' = c \<and> ordered_inv f (s', c) \<and> set c \<subseteq> set c1 \<union> ordered_items ls1 \<and>
        (\<forall>l \<in> set ls1. subseq (map snd (ordered_list l)) (map snd c))"
      using less.hyps of1 pass by blast
    with pass items all [where P = "\<lambda>is. subseq (map snd is) (map snd c)"] show ?thesis by blast
  next
    case False
    with less.prems(4) p r1 have "w = 0" "c1 = c" "s1 = s'" "c' = c" by (auto simp: ordered_merge_loop.simps [of ls] split: if_splits)
    moreover from this(1) cnt have "\<forall>l \<in> set ls1. ordered_merged l"
      by (auto simp: unmerged_def filter_empty_conv)
    ultimately show ?thesis
      using pass all [where P = "\<lambda>is. subseq (map snd is) (map snd c)"]
      unfolding merged_in_def by blast
  qed
qed

subsection \<open>Properties\<close>

text \<open>C3. The composite order: when all the lists of one kind of statement are merged, the
  composite list has no duplicates, consists of exactly the items of the lists, and keeps the
  order of every one of them.\<close>

theorem merge_all_composite:
  assumes "order_flavor f" and "ordered_of f ls" and "\<forall>l \<in> set ls. \<not> ordered_merged l"
    and "cil_ordered_lists_merge_all ls s = (Ok (Some c), s')"
  shows "distinct (map snd c) \<and> set c = ordered_items ls \<and>
    (\<forall>l \<in> set ls. subseq (map snd (ordered_list l)) (map snd c))"
proof -
  from assms(4) obtain c' where loop: "ordered_merge_loop ls (s, []) = (Ok (Some c), (s', c'))"
    by (auto simp: cil_ordered_lists_merge_all_def split: prod.splits)
  have "ordered_inv f (s, [])" "merged_in [] ls"
    using assms(3) by (auto simp: ordered_inv_def merged_in_def)
  note res = merge_loop_result [OF assms(1,2) this loop]
  have "ordered_items ls \<subseteq> set c"
  proof
    fix x assume "x \<in> ordered_items ls"
    then obtain l where l: "l \<in> set ls" "x \<in> set (ordered_list l)" by (auto simp: ordered_items_def)
    with res have sub: "subseq (map snd (ordered_list l)) (map snd c)" by blast
    have "snd x \<in> set (map snd (ordered_list l))" using l(2) by simp
    from list_emb_set [OF sub this] have "snd x \<in> set (map snd c)" by blast
    then obtain y where "y \<in> set c" "snd y = snd x" by auto
    moreover from this res have "fst y = f" by (auto simp: ordered_inv_def)
    moreover have "fst x = f" using assms(2) l by (auto simp: ordered_of_def)
    ultimately show "x \<in> set c" by (metis prod.collapse)
  qed
  with res show ?thesis by (auto simp: ordered_inv_def)
qed

definition three_cats :: "(unit, unit) cil_store" where
  "three_cats = store0\<lparr>m_cat := (\<lambda>_. Some \<lparr>cat_ordered = False, cat_value = 0\<rparr>)\<rparr>"

definition two_orders :: "cil_ordered_list list" where
  "two_orders =
    [\<lparr>ordered_merged = False, ordered_list = [(CIL_CAT, 2), (CIL_CAT, 4)], ordered_node = 0\<rparr>,
     \<lparr>ordered_merged = False, ordered_list = [(CIL_CAT, 2), (CIL_CAT, 3), (CIL_CAT, 4), (CIL_CAT, 5)],
      ordered_node = 0\<rparr>]"

lemma two_orders_merge:
  "fst (cil_ordered_lists_merge_all two_orders three_cats) =
    Ok (Some [(CIL_CAT, 2), (CIL_CAT, 3), (CIL_CAT, 4), (CIL_CAT, 5)])"
  by (simp add: cil_ordered_lists_merge_all_def two_orders_def three_cats_def
      ordered_merge_loop.simps cil_ordered_lists_merge_def cil_ordered_item_insert_def
      mark_ordered_def on_fst_def rd_def wr_def bind_def attempt_def)

theorem merge_all_composite_witness:
  "subseq [2, 4] (map snd [(CIL_CAT, 2 :: addr), (CIL_CAT, 3), (CIL_CAT, 4), (CIL_CAT, 5)])"
proof -
  obtain s' where run: "cil_ordered_lists_merge_all two_orders three_cats =
      (Ok (Some [(CIL_CAT, 2), (CIL_CAT, 3), (CIL_CAT, 4), (CIL_CAT, 5)]), s')"
    using two_orders_merge by (metis prod.collapse)
  have "order_flavor CIL_CAT" "ordered_of CIL_CAT two_orders"
    "\<forall>l \<in> set two_orders. \<not> ordered_merged l"
    by (simp_all add: order_flavor_def ordered_of_def two_orders_def)
  from merge_all_composite [OF this run] show ?thesis by (simp add: two_orders_def)
qed

text \<open>Category values: \<open>cil_set_cat_values\<close> numbers the categories of a duplicate-free composite
  list by their position, and counts them.\<close>

lemma set_cat_values_run:
  "set_cat_values v cats s = (Ok n, t) \<Longrightarrow> distinct cats \<Longrightarrow>
   n = v + length cats \<and> (\<forall>i < length cats. \<exists>c. m_cat t (cats ! i) = Some c \<and> cat_value c = int (v + i)) \<and>
   (\<forall>a. a \<notin> set cats \<longrightarrow> m_cat t a = m_cat s a)"
proof (induction cats arbitrary: v s)
  case (Cons cat cats)
  then obtain x s1 where x: "m_cat s cat = Some x"
    and s1: "s1 = m_cat_update (\<lambda>m. m(cat \<mapsto> cat_value_update (\<lambda>_. int v) x)) s"
    and rest: "set_cat_values (Suc v) cats s1 = (Ok n, t)"
    by (auto simp: bind_eq_Ok wr_eq_Ok)
  have "m_cat s1 cat = Some (cat_value_update (\<lambda>_. int v) x)" "\<And>a. a \<noteq> cat \<Longrightarrow> m_cat s1 a = m_cat s a"
    by (simp_all add: s1)
  with Cons.IH [OF rest] Cons.prems(2) show ?case
    by (auto simp: nth_Cons split: nat.splits)
qed simp

theorem cat_values_are_positions:
  assumes "cil_set_cat_values (Some c) s = (Ok (), t)" and "distinct (map snd c)"
  shows "num_cats t = int (length c) \<and>
    (\<forall>i < length c. \<exists>cat. m_cat t (snd (c ! i)) = Some cat \<and> cat_value cat = int i)"
proof -
  from assms(1) obtain n s1 where "set_cat_values 0 (map snd c) s = (Ok n, s1)"
    and t: "t = num_cats_update (\<lambda>_. int n) s1"
    by (auto simp: cil_set_cat_values_def bind_eq_Ok)
  from set_cat_values_run [OF this(1) assms(2)] t show ?thesis by simp
qed

theorem cat_values_are_positions_witness:
  "num_cats (snd (cil_set_cat_values (Some [(CIL_CAT, 4), (CIL_CAT, 2)]) three_cats)) = 2"
proof -
  obtain t where run: "cil_set_cat_values (Some [(CIL_CAT, 4), (CIL_CAT, 2)]) three_cats = (Ok (), t)"
    by (simp add: cil_set_cat_values_def three_cats_def bind_def wr_def)
  from cat_values_are_positions [OF this] run show ?thesis by simp
qed

end
