(* ===== verification/Cil_Parser.thy ===== *)
theory Cil_Parser
  imports Cil_Prelude
begin

text \<open>
  The lexer (\<open>src/cil_lexer.l\<close>) and the parser (\<open>src/cil_parser.c\<close>).

  The lexer's rules start with disjoint sets of characters, so that flex's longest match is
  decided by the first one. A parse tree is a value: the node under construction and its
  ancestors, which the code reaches through \<open>current\<close> and \<open>parent\<close>, are the children read so far
  and a stack of frames. Every file is parsed into the same root.
\<close>

subsection \<open>Parse trees\<close>

text \<open>A node of the parse tree: \<open>p_data\<close> is the string of a symbol and \<open>None\<close> for a list.\<close>

datatype parse_tree =
  PNode (p_data: cstring) (p_children: "parse_tree list") (p_line: nat) (p_path: string)

subsection \<open>The lexer\<close>

datatype token =
  OPAREN | CPAREN | SYMBOL string | QSTRING string | COMMENT string | END_OF_FILE | UNKNOWN string

definition is_digit :: "char \<Rightarrow> bool" where
  "is_digit c \<longleftrightarrow> 48 \<le> (of_char c :: nat) \<and> (of_char c :: nat) \<le> 57"

definition is_alpha :: "char \<Rightarrow> bool" where
  "is_alpha c \<longleftrightarrow> 65 \<le> (of_char c :: nat) \<and> (of_char c :: nat) \<le> 90 \<or>
     97 \<le> (of_char c :: nat) \<and> (of_char c :: nat) \<le> 122"

definition is_spec_char :: "char \<Rightarrow> bool" where
  "is_spec_char c \<longleftrightarrow> c \<in> set ''[].@=/*-_$%+!|&^:~`#{}<>?,'' \<or> c = CHR 0x27"

definition is_symbol_char :: "char \<Rightarrow> bool" where
  "is_symbol_char c \<longleftrightarrow> is_digit c \<or> is_alpha c \<or> is_spec_char c"

definition is_newline :: "char \<Rightarrow> bool" where
  "is_newline c \<longleftrightarrow> c = CHR 0x0A \<or> c = CHR 0x0D"

definition is_white :: "char \<Rightarrow> bool" where
  "is_white c \<longleftrightarrow> c = CHR 0x20 \<or> c = CHR 0x09"

definition is_qbody :: "char \<Rightarrow> bool" where
  "is_qbody c \<longleftrightarrow> c \<noteq> CHR 0x22 \<and> c \<noteq> CHR 0x0A"

text \<open>The next token, the rest of the buffer and the line the lexer is then in.\<close>

fun cil_lexer_next :: "string \<Rightarrow> nat \<Rightarrow> token \<times> string \<times> nat" where
  "cil_lexer_next [] line = (END_OF_FILE, [], line)"
| "cil_lexer_next (c # cs) line =
     (if is_newline c then cil_lexer_next cs (Suc line)
      else if c = CHR '';'' then
        (COMMENT (c # takeWhile (\<lambda>d. d \<noteq> CHR 0x0A) cs), dropWhile (\<lambda>d. d \<noteq> CHR 0x0A) cs, line)
      else if c = CHR ''('' then (OPAREN, cs, line)
      else if c = CHR '')'' then (CPAREN, cs, line)
      else if is_symbol_char c then
        (SYMBOL (c # takeWhile is_symbol_char cs), dropWhile is_symbol_char cs, line)
      else if is_white c then cil_lexer_next cs line
      else if c = CHR 0x22 then
        (case dropWhile is_qbody cs of
           d # rest \<Rightarrow>
             if d = CHR 0x22 then (QSTRING (c # takeWhile is_qbody cs @ [d]), rest, line)
             else (UNKNOWN [c], cs, line)
         | [] \<Rightarrow> (UNKNOWN [c], cs, line))
      else (UNKNOWN [c], cs, line))"

lemma lexer_consumes:
  "cil_lexer_next cs line = (tok, rest, line') \<Longrightarrow> tok \<noteq> END_OF_FILE \<Longrightarrow> length rest < length cs"
proof (induction cs line rule: cil_lexer_next.induct)
  case (2 c cs line)
  have "length (dropWhile is_qbody cs) \<le> length cs"
    "length (dropWhile is_symbol_char cs) \<le> length cs"
    "length (dropWhile (\<lambda>d. d \<noteq> CHR 0x0A) cs) \<le> length cs"
    by (simp_all add: length_dropWhile_le)
  with 2 show ?case
    by (auto split: if_splits list.splits dest!: less_SucI simp: le_imp_less_Suc)
qed simp

subsection \<open>The parser\<close>

text \<open>The open nodes, innermost first: the line of the node and its parent's children before it.\<close>

type_synonym frames = "(nat \<times> parse_tree list) list"

fun close_frames :: "string \<Rightarrow> parse_tree list \<Rightarrow> frames \<Rightarrow> parse_tree list" where
  "close_frames path kids [] = kids"
| "close_frames path kids ((ln, up) # fs) = close_frames path (up @ [PNode None kids ln path]) fs"

text \<open>\<open>QSTRING\<close>: the code cuts the last character and skips the first.\<close>

definition unquote :: "string \<Rightarrow> string" where
  "unquote v = tl (butlast v)"

function cil_parser_loop ::
  "string \<Rightarrow> string \<Rightarrow> nat \<Rightarrow> int \<Rightarrow> parse_tree list \<Rightarrow> frames \<Rightarrow> parse_tree list outcome"
where
  "cil_parser_loop path buf line paren_count kids fs =
     (case cil_lexer_next buf line of (tok, rest, line') \<Rightarrow>
       (case tok of
          OPAREN \<Rightarrow> cil_parser_loop path rest line' (paren_count + 1) [] ((line', kids) # fs)
        | CPAREN \<Rightarrow>
            if paren_count - 1 < 0 then Fail SEPOL_ERR
            else
              (case fs of
                 [] \<Rightarrow> Fault
               | (ln, up) # fs' \<Rightarrow>
                   cil_parser_loop path rest line' (paren_count - 1) (up @ [PNode None kids ln path]) fs')
        | SYMBOL v \<Rightarrow>
            if paren_count = 0 then Fail SEPOL_ERR
            else cil_parser_loop path rest line' paren_count (kids @ [PNode (Some v) [] line' path]) fs
        | QSTRING v \<Rightarrow>
            if paren_count = 0 then Fail SEPOL_ERR
            else
              cil_parser_loop path rest line' paren_count
                (kids @ [PNode (Some (unquote v)) [] line' path]) fs
        | END_OF_FILE \<Rightarrow>
            if paren_count > 0 then Fail SEPOL_ERR else Ok (close_frames path kids fs)
        | COMMENT v \<Rightarrow> cil_parser_loop path rest line' paren_count kids fs
        | UNKNOWN v \<Rightarrow> Fail SEPOL_ERR))"
  by pat_completeness auto

termination
  by (relation "measure (\<lambda>(path, buf, _). length buf)")
     (auto dest!: lexer_consumes [OF sym])

declare cil_parser_loop.simps [simp del]

definition cil_parser :: "string \<Rightarrow> string \<Rightarrow> parse_tree list \<Rightarrow> parse_tree list outcome" where
  "cil_parser path buffer root = cil_parser_loop path buffer 1 0 root []"

subsection \<open>The tokens of a buffer and of a tree\<close>

datatype mark = Open | Close | Text string

text \<open>The marks of a buffer, \<open>None\<close> if it has an invalid token.\<close>

function buffer_marks :: "string \<Rightarrow> nat \<Rightarrow> mark list option" where
  "buffer_marks buf line =
     (case cil_lexer_next buf line of (tok, rest, line') \<Rightarrow>
       (case tok of
          OPAREN \<Rightarrow> map_option ((#) Open) (buffer_marks rest line')
        | CPAREN \<Rightarrow> map_option ((#) Close) (buffer_marks rest line')
        | SYMBOL v \<Rightarrow> map_option ((#) (Text v)) (buffer_marks rest line')
        | QSTRING v \<Rightarrow> map_option ((#) (Text (unquote v))) (buffer_marks rest line')
        | END_OF_FILE \<Rightarrow> Some []
        | COMMENT v \<Rightarrow> buffer_marks rest line'
        | UNKNOWN v \<Rightarrow> None))"
  by pat_completeness auto

termination
  by (relation "measure (\<lambda>(buf, _). length buf)")
     (auto dest!: lexer_consumes [OF sym])

declare buffer_marks.simps [simp del]

text \<open>Parentheses match and every text is inside some.\<close>

fun well_nested :: "nat \<Rightarrow> mark list \<Rightarrow> bool" where
  "well_nested d [] \<longleftrightarrow> d = 0"
| "well_nested d (Open # ms) \<longleftrightarrow> well_nested (Suc d) ms"
| "well_nested d (Close # ms) \<longleftrightarrow> 0 < d \<and> well_nested (d - 1) ms"
| "well_nested d (Text s # ms) \<longleftrightarrow> 0 < d \<and> well_nested d ms"

fun tree_marks :: "parse_tree \<Rightarrow> mark list" and forest_marks :: "parse_tree list \<Rightarrow> mark list" where
  "tree_marks (PNode (Some s) ts ln path) = [Text s]"
| "tree_marks (PNode None ts ln path) = Open # forest_marks ts @ [Close]"
| "forest_marks [] = []"
| "forest_marks (t # ts) = tree_marks t @ forest_marks ts"

lemma forest_marks_append [simp]: "forest_marks (ts @ us) = forest_marks ts @ forest_marks us"
  by (induction ts) auto

fun frames_marks :: "frames \<Rightarrow> mark list" where
  "frames_marks [] = []"
| "frames_marks ((ln, up) # fs) = frames_marks fs @ forest_marks up @ [Open]"

text \<open>The parser succeeds exactly on well nested buffers, and its tree has the buffer's marks.\<close>

lemma parser_loop_marks:
  "paren_count = int (length fs) \<Longrightarrow>
   (case buffer_marks buf line of
      None \<Rightarrow> cil_parser_loop path buf line paren_count kids fs = Fail SEPOL_ERR
    | Some ms \<Rightarrow>
        if well_nested (length fs) ms then
          (\<exists>ts. cil_parser_loop path buf line paren_count kids fs = Ok ts \<and>
                forest_marks ts = frames_marks fs @ forest_marks kids @ ms)
        else cil_parser_loop path buf line paren_count kids fs = Fail SEPOL_ERR)"
proof (induction path buf line paren_count kids fs rule: cil_parser_loop.induct)
  case (1 path buf line paren_count kids fs)
  obtain tok rest line' where tok: "cil_lexer_next buf line = (tok, rest, line')"
    by (metis prod.exhaust)
  note unf = cil_parser_loop.simps [of path buf] buffer_marks.simps [of buf]
  show ?case
  proof (cases tok)
    case OPAREN
    with tok 1 show ?thesis
      by (auto simp: unf split: option.splits if_splits)
  next
    case CPAREN
    show ?thesis
    proof (cases fs)
      case Nil
      with tok CPAREN 1 show ?thesis by (auto simp: unf split: option.splits)
    next
      case (Cons fr fs')
      obtain ln up where "fr = (ln, up)" by (cases fr)
      with Cons tok CPAREN 1 show ?thesis
        by (auto simp: unf split: option.splits if_splits)
    qed
  next
    case (SYMBOL v)
    with tok 1 show ?thesis
      by (cases fs) (auto simp: unf split: option.splits if_splits)
  next
    case (QSTRING v)
    with tok 1 show ?thesis
      by (cases fs) (auto simp: unf split: option.splits if_splits)
  qed (use tok 1 in \<open>auto simp: unf split: option.splits if_splits\<close>)
qed

subsection \<open>Printing and reading back\<close>

definition is_symbol :: "string \<Rightarrow> bool" where
  "is_symbol s \<longleftrightarrow> s \<noteq> [] \<and> list_all is_symbol_char s"

fun unparse :: "parse_tree \<Rightarrow> string" and unparse_forest :: "parse_tree list \<Rightarrow> string" where
  "unparse (PNode (Some s) ts ln path) =
     (if is_symbol s then s else CHR 0x22 # s @ [CHR 0x22])"
| "unparse (PNode None ts ln path) = CHR ''('' # unparse_forest ts @ [CHR '')'']"
| "unparse_forest [] = []"
| "unparse_forest (t # ts) = unparse t @ CHR 0x20 # unparse_forest ts"

text \<open>Trees that have a concrete syntax: leaves are texts that fit in quotes.\<close>

fun printable :: "parse_tree \<Rightarrow> bool" and printable_forest :: "parse_tree list \<Rightarrow> bool" where
  "printable (PNode (Some s) ts ln path) \<longleftrightarrow> ts = [] \<and> list_all is_qbody s"
| "printable (PNode None ts ln path) \<longleftrightarrow> printable_forest ts"
| "printable_forest [] \<longleftrightarrow> True"
| "printable_forest (t # ts) \<longleftrightarrow> printable t \<and> printable_forest ts"

fun placed :: "string \<Rightarrow> nat \<Rightarrow> parse_tree \<Rightarrow> parse_tree" where
  "placed path line (PNode d ts ln p) = PNode d (map (placed path line) ts) line path"

lemma is_symbol_char_facts:
  "\<not> is_symbol_char (CHR 0x20)" "\<not> is_symbol_char (CHR '')'')" "\<not> is_symbol_char (CHR 0x22)"
  "is_symbol_char c \<Longrightarrow> \<not> is_newline c \<and> c \<noteq> CHR '';'' \<and> c \<noteq> CHR ''('' \<and> c \<noteq> CHR '')''"
  by (auto simp: is_symbol_char_def is_digit_def is_alpha_def is_spec_char_def is_newline_def)

lemma takeWhile_sep: "list_all P s \<Longrightarrow> \<not> P d \<Longrightarrow> takeWhile P (s @ d # rest) = s"
  and dropWhile_sep: "list_all P s \<Longrightarrow> \<not> P d \<Longrightarrow> dropWhile P (s @ d # rest) = d # rest"
  by (induction s) auto

lemma lexer_symbol:
  assumes "is_symbol s" and "\<not> is_symbol_char d"
  shows "cil_lexer_next (s @ d # rest) line = (SYMBOL s, d # rest, line)"
  using assms is_symbol_char_facts(4) [of "hd s"]
  by (cases s) (auto simp: is_symbol_def takeWhile_sep dropWhile_sep)

lemma lexer_qstring:
  assumes "list_all is_qbody s"
  shows "cil_lexer_next (CHR 0x22 # s @ CHR 0x22 # rest) line =
    (QSTRING (CHR 0x22 # s @ [CHR 0x22]), rest, line)"
  using assms is_symbol_char_facts(3)
  by (auto simp: takeWhile_sep dropWhile_sep is_qbody_def [of "CHR 0x22"] is_newline_def is_white_def)

lemma unquote_quoted [simp]: "unquote (CHR 0x22 # s @ [CHR 0x22]) = s"
  by (simp add: unquote_def)

lemma lexer_space:
  "cil_lexer_next (CHR 0x20 # rest) line = cil_lexer_next rest line"
  using is_symbol_char_facts(1) by (auto simp: is_newline_def is_white_def)

lemma loop_space:
  "cil_parser_loop path (CHR 0x20 # rest) line pc kids fs = cil_parser_loop path rest line pc kids fs"
  by (simp add: cil_parser_loop.simps [of path "CHR 0x20 # rest"]
      cil_parser_loop.simps [of path rest] lexer_space del: cil_lexer_next.simps)

lemma loop_unparse:
  "printable t \<Longrightarrow> 0 \<le> pc \<Longrightarrow> (p_data t \<noteq> None \<longrightarrow> 0 < pc) \<Longrightarrow> \<not> is_symbol_char d \<Longrightarrow>
   cil_parser_loop path (unparse t @ d # rest) line pc kids fs =
   cil_parser_loop path (d # rest) line pc (kids @ [placed path line t]) fs"
  "printable_forest ts \<Longrightarrow> 0 \<le> pc \<Longrightarrow> (\<forall>t \<in> set ts. p_data t \<noteq> None \<longrightarrow> 0 < pc) \<Longrightarrow>
   cil_parser_loop path (unparse_forest ts @ rest) line pc kids fs =
   cil_parser_loop path rest line pc (kids @ map (placed path line) ts) fs"
proof (induction t and ts arbitrary: pc d rest kids fs and pc rest kids fs
    rule: unparse_unparse_forest.induct)
  case (1 s ts ln p)
  show ?case
  proof (cases "is_symbol s")
    case True
    with 1 show ?thesis
      by (simp add: cil_parser_loop.simps [of path "s @ d # rest"] lexer_symbol)
  next
    case False
    with 1 show ?thesis
      by (simp add: cil_parser_loop.simps [of path "CHR 0x22 # s @ CHR 0x22 # d # rest"] lexer_qstring
          del: cil_lexer_next.simps)
  qed
next
  case (2 ts ln p)
  have "cil_lexer_next (CHR ''('' # xs) line = (OPAREN, xs, line)"
    and "cil_lexer_next (CHR '')'' # xs) line = (CPAREN, xs, line)" for xs
    by (simp_all add: is_newline_def)
  with 2 show ?case
    by (simp add: cil_parser_loop.simps [of path "CHR ''('' # _"]
        cil_parser_loop.simps [of path "CHR '')'' # _"] del: cil_lexer_next.simps)
next
  case 3
  then show ?case by simp
next
  case (4 t ts)
  then show ?case
    using is_symbol_char_facts(1) by (simp add: loop_space)
qed

lemma parser_unparse:
  assumes "printable_forest ts" and "\<forall>t \<in> set ts. p_data t = None"
  shows "cil_parser path (unparse_forest ts) root = Ok (root @ map (placed path 1) ts)"
  using loop_unparse(2) [of ts 0 path "[]" 1 root "[]"] assms
  by (simp add: cil_parser_def cil_parser_loop.simps [of path "[]"])

subsection \<open>Properties\<close>

text \<open>C4. The parser accepts exactly the buffers without invalid tokens whose parentheses match and
  whose texts are all inside parentheses; it then appends to the root a forest with the
  buffer's parentheses and texts, in order, and otherwise it returns an error.\<close>

theorem parser_accepts_well_nested:
  "case buffer_marks buf 1 of
     None \<Rightarrow> cil_parser path buf root = Fail SEPOL_ERR
   | Some ms \<Rightarrow>
       if well_nested 0 ms then
         \<exists>ts. cil_parser path buf root = Ok ts \<and> forest_marks ts = forest_marks root @ ms
       else cil_parser path buf root = Fail SEPOL_ERR"
  using parser_loop_marks [where paren_count = 0 and fs = "[]" and buf = buf and line = 1
      and path = path and kids = root]
  by (auto simp: cil_parser_def split: option.splits if_splits)

text \<open>C7. Printing a forest whose texts have a concrete syntax and parsing the result gives the
  forest back, at line 1 of the file.\<close>

theorem parser_roundtrip:
  assumes "printable_forest ts" and "\<forall>t \<in> set ts. p_data t = None"
  shows "cil_parser path (unparse_forest ts) root = Ok (root @ map (placed path 1) ts)"
  by (rule parser_unparse [OF assms])

theorem parser_roundtrip_witness:
  "cil_parser ''f'' (unparse_forest
      [PNode None [PNode (Some ''a b'') [] 5 ''x'', PNode (Some ''ab'') [] 5 ''x''] 5 ''x'']) [] =
    Ok [PNode None [PNode (Some ''a b'') [] 1 ''f'', PNode (Some ''ab'') [] 1 ''f''] 1 ''f'']"
  using parser_roundtrip [of "[PNode None [PNode (Some ''a b'') [] 5 ''x'',
      PNode (Some ''ab'') [] 5 ''x''] 5 ''x'']" "''f''" "[]"]
  by (simp add: is_qbody_def)

end
