(* ===== verification/Cil_Syntax.thy ===== *)
theory Cil_Syntax
  imports Cil_Parser Cil_Structs
begin

unbundle bit_operations_syntax

text \<open>
  The syntactic checks of \<open>src/cil_verify.c\<close>: names, the shape of a statement's arguments, the
  shape of expressions, self-references in resolved expressions and ranges.

  A chain of parse nodes is the list of the siblings from a node on. An \<open>enum cil_syntax\<close> is a
  bit mask, and the array of masks is a list.
\<close>

subsection \<open>Names\<close>

definition CIL_MAX_NAME_LENGTH :: nat where
  "CIL_MAX_NAME_LENGTH = 2048"

definition is_name_char :: "char \<Rightarrow> bool" where
  "is_name_char c \<longleftrightarrow> is_alpha c \<or> is_digit c \<or> c = CHR ''_'' \<or> c = CHR ''-''"

fun verify_name_chars :: "string \<Rightarrow> unit outcome" where
  "verify_name_chars [] = Ok ()"
| "verify_name_chars (c # cs) = (if \<not> is_name_char c then Fail SEPOL_ERR else verify_name_chars cs)"

definition cil_verify_name :: "string \<Rightarrow> unit outcome" where
  "cil_verify_name name =
     (if length name \<ge> CIL_MAX_NAME_LENGTH then Fail SEPOL_ERR
      else
        (case name of
           [] \<Rightarrow> Fail SEPOL_ERR
         | c # cs \<Rightarrow> if \<not> is_alpha c then Fail SEPOL_ERR else verify_name_chars cs))"

lemma verify_name_chars_Ok: "verify_name_chars cs = Ok () \<longleftrightarrow> list_all is_name_char cs"
  by (induction cs) auto

subsection \<open>The shape of arguments\<close>

abbreviation (input) CIL_SYN_STRING :: nat where "CIL_SYN_STRING \<equiv> 1"
abbreviation (input) CIL_SYN_LIST :: nat where "CIL_SYN_LIST \<equiv> 2"
abbreviation (input) CIL_SYN_EMPTY_LIST :: nat where "CIL_SYN_EMPTY_LIST \<equiv> 4"
abbreviation (input) CIL_SYN_N_LISTS :: nat where "CIL_SYN_N_LISTS \<equiv> 8"
abbreviation (input) CIL_SYN_N_STRINGS :: nat where "CIL_SYN_N_STRINGS \<equiv> 16"
abbreviation (input) CIL_SYN_END :: nat where "CIL_SYN_END \<equiv> 32"

definition is_string_node :: "parse_tree \<Rightarrow> bool" where
  "is_string_node c \<longleftrightarrow> p_data c \<noteq> None \<and> p_children c = []"

definition is_list_node :: "parse_tree \<Rightarrow> bool" where
  "is_list_node c \<longleftrightarrow> p_data c = None \<and> p_children c \<noteq> []"

definition is_empty_list_node :: "parse_tree \<Rightarrow> bool" where
  "is_empty_list_node c \<longleftrightarrow> p_data c = None \<and> p_children c = []"

text \<open>The three tests for one argument, in the order of the code.\<close>

definition syn_fits :: "nat \<Rightarrow> parse_tree \<Rightarrow> bool" where
  "syn_fits f c \<longleftrightarrow>
     f AND CIL_SYN_STRING \<noteq> 0 \<and> is_string_node c \<or>
     f AND CIL_SYN_LIST \<noteq> 0 \<and> is_list_node c \<or>
     f AND CIL_SYN_EMPTY_LIST \<noteq> 0 \<and> is_empty_list_node c"

definition syn_many :: "nat \<Rightarrow> bool" where
  "syn_many f \<longleftrightarrow> f AND CIL_SYN_N_LISTS \<noteq> 0 \<or> f AND CIL_SYN_N_STRINGS \<noteq> 0"

definition syn_more :: "nat \<Rightarrow> parse_tree \<Rightarrow> bool" where
  "syn_more f c \<longleftrightarrow>
     f AND CIL_SYN_N_LISTS \<noteq> 0 \<and> is_list_node c \<or>
     f AND CIL_SYN_N_STRINGS \<noteq> 0 \<and> is_string_node c"

fun verify_syntax :: "nat list \<Rightarrow> nat \<Rightarrow> parse_tree list \<Rightarrow> unit outcome" where
  "verify_syntax [] num_extras c = Ok ()"
| "verify_syntax (f # s) num_extras [] =
     (if f AND CIL_SYN_END \<noteq> 0 then Ok ()
      else if syn_many f \<and> num_extras > 0 then verify_syntax s num_extras []
      else Fail SEPOL_ERR)"
| "verify_syntax (f # s) num_extras (c # cs) =
     (if syn_more f c then verify_syntax (f # s) (Suc num_extras) cs
      else if syn_fits f c then verify_syntax s num_extras cs
      else Fail SEPOL_ERR)"

definition cil_verify_syntax :: "parse_tree list \<Rightarrow> nat list \<Rightarrow> unit outcome" where
  "cil_verify_syntax parse_current s = verify_syntax s 0 parse_current"

text \<open>Arrays without repetition: the arguments fit one by one, up to the end of the array or to
  the end of the arguments where the array allows it.\<close>

lemma verify_syntax_single:
  assumes "\<forall>f \<in> set s. \<not> syn_many f"
  shows "verify_syntax s n c = Ok () \<longleftrightarrow>
    (\<exists>k \<le> length s. k \<le> length c \<and> list_all2 syn_fits (take k s) (take k c) \<and>
       (k = length s \<or> k = length c \<and> s ! k AND CIL_SYN_END \<noteq> 0))"
  using assms
proof (induction s n c rule: verify_syntax.induct)
  case (1 n c)
  then show ?case by simp
next
  case (2 f s n)
  then show ?case by auto
next
  case (3 f s n c cs)
  then have "\<not> syn_more f c" by (auto simp: syn_more_def syn_many_def)
  have "verify_syntax (f # s) n (c # cs) = Ok () \<longleftrightarrow> syn_fits f c \<and> verify_syntax s n cs = Ok ()"
    using \<open>\<not> syn_more f c\<close> by simp
  also have "\<dots> \<longleftrightarrow> (\<exists>k \<le> length (f # s). k \<le> length (c # cs) \<and>
      list_all2 syn_fits (take k (f # s)) (take k (c # cs)) \<and>
      (k = length (f # s) \<or> k = length (c # cs) \<and> (f # s) ! k AND CIL_SYN_END \<noteq> 0))"
    (is "?l \<longleftrightarrow> ?r")
  proof
    assume l: ?l
    then obtain k where "k \<le> length s" "k \<le> length cs" "list_all2 syn_fits (take k s) (take k cs)"
      "k = length s \<or> k = length cs \<and> s ! k AND CIL_SYN_END \<noteq> 0"
      using "3.IH"(2) [OF \<open>\<not> syn_more f c\<close>] "3.prems" by auto
    with l show ?r by (intro exI [of _ "Suc k"]) auto
  next
    assume ?r
    then obtain k where k: "k \<le> length (f # s)" "k \<le> length (c # cs)"
      "list_all2 syn_fits (take k (f # s)) (take k (c # cs))"
      "k = length (f # s) \<or> k = length (c # cs) \<and> (f # s) ! k AND CIL_SYN_END \<noteq> 0" by auto
    from k(4) obtain j where "k = Suc j" by (cases k) auto
    with k "3.IH"(2) [OF \<open>\<not> syn_more f c\<close>] "3.prems" show ?l by auto
  qed
  finally show ?case .
qed

text \<open>A repetition before the end of the array: at least one argument, all of the repeated kind.\<close>

lemma verify_syntax_repeat:
  assumes "syn_many f" and "f AND CIL_SYN_END = 0" and "\<And>c. \<not> syn_fits f c"
  shows "verify_syntax [f, CIL_SYN_END] n c = Ok () \<longleftrightarrow> list_all (syn_more f) c \<and> (n > 0 \<or> c \<noteq> [])"
  using assms
  by (induction c arbitrary: n) (auto simp: syn_more_def [of 32] syn_fits_def [of 32])

subsection \<open>The shape of expressions\<close>

definition cil_verify_expr_syntax ::
  "parse_tree list \<Rightarrow> cil_flavor \<Rightarrow> cil_flavor \<Rightarrow> unit outcome"
where
  "cil_verify_expr_syntax current op expr_flavor =
    (let SL = CIL_SYN_STRING OR CIL_SYN_LIST;
         check = (\<lambda>syntax. case cil_verify_syntax current syntax of Ok _ \<Rightarrow> Ok () | Fail _ \<Rightarrow> Fail SEPOL_ERR | r \<Rightarrow> r)
     in
     if op = CIL_NOT then check [CIL_SYN_STRING, SL, CIL_SYN_END]
     else if op = CIL_AND \<or> op = CIL_OR \<or> op = CIL_XOR then check [CIL_SYN_STRING, SL, SL, CIL_SYN_END]
     else if op = CIL_EQ \<or> op = CIL_NEQ then
       (if expr_flavor \<noteq> CIL_BOOL \<and> expr_flavor \<noteq> CIL_TUNABLE then Fail SEPOL_ERR
        else check [CIL_SYN_STRING, SL, SL, CIL_SYN_END])
     else if op = CIL_ALL then
       (if expr_flavor = CIL_BOOL \<or> expr_flavor = CIL_TUNABLE then Fail SEPOL_ERR
        else check [CIL_SYN_STRING, CIL_SYN_END])
     else if op = CIL_RANGE then
       (if expr_flavor \<noteq> CIL_CAT then Fail SEPOL_ERR
        else check [CIL_SYN_STRING, CIL_SYN_STRING, CIL_SYN_STRING, CIL_SYN_END])
     else if op = CIL_NONE then check [CIL_SYN_N_STRINGS OR CIL_SYN_N_LISTS, CIL_SYN_END]
     else Fail SEPOL_ERR)"

definition cil_verify_constraint_leaf_expr_syntax ::
  "cil_flavor \<Rightarrow> cil_flavor \<Rightarrow> cil_flavor \<Rightarrow> cil_flavor \<Rightarrow> unit outcome"
where
  "cil_verify_constraint_leaf_expr_syntax l_flavor r_flavor op expr_flavor =
    (if r_flavor = CIL_STRING \<or> r_flavor = CIL_LIST then
       (if l_flavor = CIL_CONS_L1 \<or> l_flavor = CIL_CONS_L2 \<or> l_flavor = CIL_CONS_H1 \<or> l_flavor = CIL_CONS_H2
        then Fail SEPOL_ERR
        else if l_flavor = CIL_CONS_U3 \<or> l_flavor = CIL_CONS_R3 \<or> l_flavor = CIL_CONS_T3 then
          (if expr_flavor \<noteq> CIL_MLSVALIDATETRANS then Fail SEPOL_ERR else Ok ())
        else Ok ())
     else if r_flavor = CIL_CONS_U2 then
       (if op \<noteq> CIL_EQ \<and> op \<noteq> CIL_NEQ then Fail SEPOL_ERR
        else if l_flavor \<noteq> CIL_CONS_U1 then Fail SEPOL_ERR else Ok ())
     else if r_flavor = CIL_CONS_R2 then
       (if l_flavor \<noteq> CIL_CONS_R1 then Fail SEPOL_ERR else Ok ())
     else if r_flavor = CIL_CONS_T2 then
       (if op \<noteq> CIL_EQ \<and> op \<noteq> CIL_NEQ then Fail SEPOL_ERR
        else if l_flavor \<noteq> CIL_CONS_T1 then Fail SEPOL_ERR else Ok ())
     else if r_flavor = CIL_CONS_L2 then
       (if l_flavor \<noteq> CIL_CONS_L1 \<and> l_flavor \<noteq> CIL_CONS_H1 then Fail SEPOL_ERR else Ok ())
     else if r_flavor = CIL_CONS_H2 then
       (if l_flavor \<noteq> CIL_CONS_L1 \<and> l_flavor \<noteq> CIL_CONS_L2 \<and> l_flavor \<noteq> CIL_CONS_H1
        then Fail SEPOL_ERR else Ok ())
     else if r_flavor = CIL_CONS_H1 then
       (if l_flavor \<noteq> CIL_CONS_L1 then Fail SEPOL_ERR else Ok ())
     else Ok ())"

definition cil_verify_constraint_expr_syntax :: "parse_tree list \<Rightarrow> cil_flavor \<Rightarrow> unit outcome" where
  "cil_verify_constraint_expr_syntax current op =
    (let check = (\<lambda>syntax. case cil_verify_syntax current syntax of Ok _ \<Rightarrow> Ok () | Fail _ \<Rightarrow> Fail SEPOL_ERR | r \<Rightarrow> r)
     in
     if op = CIL_NOT then check [CIL_SYN_STRING, CIL_SYN_LIST, CIL_SYN_END]
     else if op = CIL_AND \<or> op = CIL_OR then
       check [CIL_SYN_STRING, CIL_SYN_LIST, CIL_SYN_LIST, CIL_SYN_END]
     else if op = CIL_EQ \<or> op = CIL_NEQ then
       check [CIL_SYN_STRING, CIL_SYN_STRING, CIL_SYN_STRING OR CIL_SYN_LIST, CIL_SYN_END]
     else if op = CIL_CONS_DOM \<or> op = CIL_CONS_DOMBY \<or> op = CIL_CONS_INCOMP then
       check [CIL_SYN_STRING, CIL_SYN_STRING, CIL_SYN_STRING, CIL_SYN_END]
     else Fail SEPOL_ERR)"

subsection \<open>Resolved expressions\<close>

fun verify_no_self_reference :: "addr \<Rightarrow> cil_item list \<Rightarrow> unit outcome" where
  "verify_no_self_reference datum [] = Ok ()"
| "verify_no_self_reference datum (Item_Datum d # is) =
     (if d = datum then Fail SEPOL_ERR else verify_no_self_reference datum is)"
| "verify_no_self_reference datum (Item_List (Cil_List f js) # is) =
     (case verify_no_self_reference datum js of
        Ok _ \<Rightarrow> verify_no_self_reference datum is
      | Fail _ \<Rightarrow> Fail SEPOL_ERR
      | r \<Rightarrow> r)"
| "verify_no_self_reference datum (i # is) = verify_no_self_reference datum is"

definition cil_verify_no_self_reference :: "addr \<Rightarrow> cil_list option \<Rightarrow> unit outcome" where
  "cil_verify_no_self_reference datum datum_list =
     obind (not_null datum_list) (\<lambda>l. verify_no_self_reference datum (list_items l))"

text \<open>The data an expression mentions, at any depth.\<close>

fun mentioned :: "cil_item list \<Rightarrow> addr set" where
  "mentioned [] = {}"
| "mentioned (Item_Datum d # is) = insert d (mentioned is)"
| "mentioned (Item_List (Cil_List f js) # is) = mentioned js \<union> mentioned is"
| "mentioned (i # is) = mentioned is"

lemma verify_no_self_reference_eq:
  "verify_no_self_reference datum is = (if datum \<in> mentioned is then Fail SEPOL_ERR else Ok ())"
  by (induction datum "is" rule: verify_no_self_reference.induct) simp_all

definition range_ok :: "cil_item \<Rightarrow> bool" where
  "range_ok i = (case i of Item_List (Cil_List f js) \<Rightarrow> length js = 2 | _ \<Rightarrow> True)"

fun verify_ranges :: "cil_item list \<Rightarrow> unit outcome" where
  "verify_ranges [] = Ok ()"
| "verify_ranges (i # is) =
     (case i of
        Item_List (Cil_List f [x, y]) \<Rightarrow> verify_ranges is
      | Item_List (Cil_List f js) \<Rightarrow> Fail SEPOL_ERR
      | _ \<Rightarrow> verify_ranges is)"

definition cil_verify_ranges :: "cil_list option \<Rightarrow> unit outcome" where
  "cil_verify_ranges l =
     (case l of
        None \<Rightarrow> Fail SEPOL_ERR
      | Some l \<Rightarrow> if list_items l = [] then Fail SEPOL_ERR else verify_ranges (list_items l))"

lemma verify_ranges_Ok: "verify_ranges is = Ok () \<longleftrightarrow> list_all range_ok is"
proof (induction "is")
  case (Cons i "is")
  show ?case
  proof (cases i)
    case (Item_List l)
    obtain f js where "l = Cil_List f js" by (cases l)
    with Cons Item_List show ?thesis
      by (auto simp: range_ok_def numeral_2_eq_2 length_Suc_conv split: list.splits)
  qed (use Cons in \<open>simp_all add: range_ok_def\<close>)
qed simp

subsection \<open>Properties\<close>

text \<open>The check of a statement's arguments against an array without repetitions accepts exactly
  when the arguments fit the masks one by one, up to the end of the array or up to the end of
  the arguments where the array allows it.\<close>

theorem syntax_of_statement:
  assumes "\<forall>f \<in> set s. \<not> syn_many f"
  shows "cil_verify_syntax c s = Ok () \<longleftrightarrow>
    (\<exists>k \<le> length s. k \<le> length c \<and> list_all2 syn_fits (take k s) (take k c) \<and>
       (k = length s \<or> k = length c \<and> s ! k AND CIL_SYN_END \<noteq> 0))"
  unfolding cil_verify_syntax_def by (rule verify_syntax_single [OF assms])

theorem syntax_of_statement_witness:
  "cil_verify_syntax [PNode (Some ''not'') [] 1 ''f'', PNode (Some ''x'') [] 1 ''f'']
    [CIL_SYN_STRING, CIL_SYN_STRING OR CIL_SYN_LIST, CIL_SYN_END] = Ok ()"
  using syntax_of_statement [of "[CIL_SYN_STRING, CIL_SYN_STRING OR CIL_SYN_LIST, CIL_SYN_END]"
      "[PNode (Some ''not'') [] 1 ''f'', PNode (Some ''x'') [] 1 ''f'']"]
  by (simp add: syn_many_def) (auto simp: syn_fits_def is_string_node_def intro!: exI [of _ "2"])

text \<open>A resolved expression is rejected as self-referential exactly when the object occurs in it
  at some depth of nesting.\<close>

theorem self_reference_exact:
  "cil_verify_no_self_reference datum (Some l) =
    (if datum \<in> mentioned (list_items l) then Fail SEPOL_ERR else Ok ())"
  by (simp add: cil_verify_no_self_reference_def verify_no_self_reference_eq del: obind_eq_Ok)

text \<open>A name is accepted exactly when it is shorter than the limit, starts with a letter and
  consists of letters, digits, underscores and hyphens.\<close>

theorem name_syntax:
  "cil_verify_name name = Ok () \<longleftrightarrow>
    length name < CIL_MAX_NAME_LENGTH \<and> name \<noteq> [] \<and> is_alpha (hd name) \<and> list_all is_name_char name"
  by (cases name) (auto simp: cil_verify_name_def verify_name_chars_Ok is_name_char_def)

end
