(* ===== verification/Cil_Tree.thy ===== *)
theory Cil_Tree
  imports Cil_Store
begin

unbundle bit_operations_syntax

text \<open>
  The walker of \<open>src/cil_tree.c\<close> over the nodes in memory, and the proof that on a tree it is
  the structural traversal.

  The C code follows the pointers \<open>cl_head\<close> and \<open>next\<close>, which the callbacks may change while
  the walk is under way; the model does the same, with fuel. \<open>forest_at\<close> says that a chain of
  nodes is a finite forest, \<open>walk_forest\<close> is the traversal by recursion on that forest, and the
  locale \<open>tree_visitor\<close> is the contract of a callback that leaves the links alone: for such a
  callback the two agree, with any fuel above the number of nodes.
\<close>

subsection \<open>cil_tree_walk\<close>

fun cil_tree_walk_core ::
  "nat \<Rightarrow> (addr \<Rightarrow> (('h, 'b, 'z) cil_store_scheme, nat) cil)
   \<Rightarrow> (addr \<Rightarrow> (('h, 'b, 'z) cil_store_scheme, unit) cil) option
   \<Rightarrow> (addr option \<Rightarrow> (('h, 'b, 'z) cil_store_scheme, unit) cil) option
   \<Rightarrow> addr option \<Rightarrow> (('h, 'b, 'z) cil_store_scheme, unit) cil"
and cil_tree_walk ::
  "nat \<Rightarrow> (addr \<Rightarrow> (('h, 'b, 'z) cil_store_scheme, nat) cil)
   \<Rightarrow> (addr \<Rightarrow> (('h, 'b, 'z) cil_store_scheme, unit) cil) option
   \<Rightarrow> (addr option \<Rightarrow> (('h, 'b, 'z) cil_store_scheme, unit) cil) option
   \<Rightarrow> addr option \<Rightarrow> (('h, 'b, 'z) cil_store_scheme, unit) cil"
where
  "cil_tree_walk_core 0 process_node first_child last_child node = no_fuel"
| "cil_tree_walk_core (Suc fuel) process_node first_child last_child None = ret ()"
| "cil_tree_walk_core (Suc fuel) process_node first_child last_child (Some node) =
     bind (process_node node) (\<lambda>finished.
     if finished AND CIL_TREE_SKIP_NEXT \<noteq> 0 then ret ()
     else
       bind (rd nodes node) (\<lambda>nd.
       bind (if node_cl_head nd \<noteq> None \<and> finished AND CIL_TREE_SKIP_HEAD = 0
             then cil_tree_walk fuel process_node first_child last_child (Some node)
             else ret ()) (\<lambda>_.
       bind (rd nodes node) (\<lambda>nd'.
       cil_tree_walk_core fuel process_node first_child last_child (node_next nd')))))"
| "cil_tree_walk 0 process_node first_child last_child node = no_fuel"
| "cil_tree_walk (Suc fuel) process_node first_child last_child None = ret ()"
| "cil_tree_walk (Suc fuel) process_node first_child last_child (Some node) =
     bind (rd nodes node) (\<lambda>nd.
     case node_cl_head nd of
       None \<Rightarrow> ret ()
     | Some head \<Rightarrow>
         bind (case first_child of None \<Rightarrow> ret () | Some f \<Rightarrow> f head) (\<lambda>_.
         bind (rd nodes node) (\<lambda>nd.
         bind (cil_tree_walk_core fuel process_node first_child last_child (node_cl_head nd)) (\<lambda>_.
         case last_child of
           None \<Rightarrow> ret ()
         | Some f \<Rightarrow> bind (rd nodes node) (\<lambda>nd. f (node_cl_tail nd))))))"

subsection \<open>Trees in memory\<close>

datatype ast = Ast addr "ast list"

fun ast_addr :: "ast \<Rightarrow> addr" where
  "ast_addr (Ast a ts) = a"

fun ast_size :: "ast \<Rightarrow> nat" and forest_size :: "ast list \<Rightarrow> nat" where
  "ast_size (Ast a ts) = Suc (Suc (forest_size ts))"
| "forest_size [] = 1"
| "forest_size (t # ts) = ast_size t + forest_size ts"

fun ast_addrs :: "ast \<Rightarrow> addr set" and forest_addrs :: "ast list \<Rightarrow> addr set" where
  "ast_addrs (Ast a ts) = insert a (forest_addrs ts)"
| "forest_addrs [] = {}"
| "forest_addrs (t # ts) = ast_addrs t \<union> forest_addrs ts"

text \<open>\<open>forest_at s p ts\<close>: the chain that starts at \<open>p\<close> is the forest \<open>ts\<close>.\<close>

fun forest_at :: "('h, 'b, 'z) cil_store_scheme \<Rightarrow> addr option \<Rightarrow> ast list \<Rightarrow> bool" where
  "forest_at s p [] \<longleftrightarrow> p = None"
| "forest_at s p (Ast a ts # us) \<longleftrightarrow>
     p = Some a \<and>
     (case nodes s a of None \<Rightarrow> False
      | Some nd \<Rightarrow> forest_at s (node_cl_head nd) ts \<and> forest_at s (node_next nd) us)"

text \<open>The links of the nodes; two memories with the same links hold the same trees.\<close>

definition links :: "('h, 'b, 'z) cil_store_scheme \<Rightarrow> addr \<Rightarrow> (addr option \<times> addr option \<times> addr option) option"
where
  "links s a = map_option (\<lambda>nd. (node_cl_head nd, node_cl_tail nd, node_next nd)) (nodes s a)"

lemma ast_forest_induct [case_names Nil Cons]:
  assumes "P []" and "\<And>a ts us. P ts \<Longrightarrow> P us \<Longrightarrow> P (Ast a ts # us)"
  shows "P us"
proof (induction us rule: measure_induct_rule [where f = forest_size])
  case (less us)
  show ?case
  proof (cases us)
    case Nil
    with assms(1) show ?thesis by simp
  next
    case (Cons t vs)
    obtain a ts where t: "t = Ast a ts" by (cases t)
    from Cons t less have "P ts" "P vs" by auto
    with Cons t assms(2) show ?thesis by simp
  qed
qed

lemma links_node:
  assumes "links t = links s" and "nodes s a = Some nd"
  obtains nd' where "nodes t a = Some nd'" and "node_cl_head nd' = node_cl_head nd"
    and "node_cl_tail nd' = node_cl_tail nd" and "node_next nd' = node_next nd"
proof -
  from assms have "links t a = links s a" by simp
  with assms(2) that show ?thesis by (auto simp: links_def split: option.splits)
qed

lemma forest_at_links:
  assumes "links t = links s"
  shows "forest_at s p ts \<Longrightarrow> forest_at t p ts"
proof (induction ts arbitrary: p rule: ast_forest_induct)
  case (Cons a ts us)
  then obtain nd where "p = Some a" "nodes s a = Some nd"
    and "forest_at s (node_cl_head nd) ts" "forest_at s (node_next nd) us"
    by (auto split: option.splits)
  with assms Cons.IH show ?case by (auto elim!: links_node)
qed simp

lemma forest_at_None [simp]: "forest_at s None ts \<longleftrightarrow> ts = []"
  by (cases "(s, None :: addr option, ts)" rule: forest_at.cases) auto

text \<open>A walk without the hooks for the first and the last child.\<close>

lemma walk_unfold:
  assumes "nodes s a = Some nd"
  shows "cil_tree_walk (Suc fuel) process None None (Some a) s =
    (case node_cl_head nd of
       None \<Rightarrow> (Ok (), s)
     | Some head \<Rightarrow> cil_tree_walk_core fuel process None None (Some head) s)"
  using assms by (auto simp: bind_def split: option.splits prod.splits outcome.splits)

lemma links_nodes_eq: "nodes t = nodes s \<Longrightarrow> links t = links s"
  by (simp add: links_def fun_eq_iff)

subsection \<open>The traversal by recursion on the forest\<close>

fun walk_forest ::
  "(addr \<Rightarrow> (('h, 'b, 'z) cil_store_scheme, nat) cil)
   \<Rightarrow> ast list \<Rightarrow> (('h, 'b, 'z) cil_store_scheme, unit) cil"
where
  "walk_forest process [] = ret ()"
| "walk_forest process (Ast a ts # us) =
     bind (process a) (\<lambda>finished.
     if finished AND CIL_TREE_SKIP_NEXT \<noteq> 0 then ret ()
     else
       bind (if finished AND CIL_TREE_SKIP_HEAD = 0 then walk_forest process ts else ret ()) (\<lambda>_.
       walk_forest process us))"

locale tree_visitor =
  fixes process :: "addr \<Rightarrow> (('h, 'b, 'z) cil_store_scheme, nat) cil"
  assumes keeps_links: "preserves (\<lambda>s. links s = l) (process a)"
begin

lemma walk_forest_keeps_links: "preserves (\<lambda>s. links s = l) (walk_forest process ts)"
  by (induction ts rule: ast_forest_induct)
     (auto simp: ret_def [symmetric] intro!: preserves_bind preserves_ret keeps_links simp del: ret_apply)

lemma process_links: "process a s = (r, t) \<Longrightarrow> links t = links s"
  using preservesD [OF keeps_links [where l = "links s" and a = a], where s = s] by simp

lemma walk_links: "walk_forest process ts s = (r, t) \<Longrightarrow> links t = links s"
  using preservesD [OF walk_forest_keeps_links [where l = "links s" and ts = ts], where s = s]
  by simp

lemma walk_core_is_walk_forest:
  "forest_at s p ts \<Longrightarrow> forest_size ts \<le> fuel \<Longrightarrow>
   cil_tree_walk_core fuel process None None p s = walk_forest process ts s"
proof (induction ts arbitrary: s p fuel rule: ast_forest_induct)
  case Nil
  then show ?case by (cases fuel) auto
next
  case (Cons a ts us)
  from Cons.prems obtain nd where p: "p = Some a" and nd: "nodes s a = Some nd"
    and kids: "forest_at s (node_cl_head nd) ts" and rest: "forest_at s (node_next nd) us"
    by (auto split: option.splits)
  from Cons.prems(2) obtain m where fuel: "fuel = Suc (Suc m)"
    and sz: "forest_size ts \<le> m" "forest_size us \<le> Suc m"
    by (cases fuel; cases "fuel - 1") auto
  show ?case
    unfolding fuel p cil_tree_walk_core.simps walk_forest.simps
  proof (rule bind_cong)
    fix fin t
    assume "process a s = (Ok fin, t)"
    then have same: "links t = links s" by (rule process_links)
    obtain nd' where nd': "nodes t a = Some nd'" "node_cl_head nd' = node_cl_head nd"
        "node_next nd' = node_next nd"
      using same nd by (rule links_node)
    have kids': "forest_at t (node_cl_head nd') ts" and rest': "forest_at t (node_next nd') us"
      using kids rest forest_at_links [OF same] nd' by auto
    have sub: "(if node_cl_head nd' \<noteq> None \<and> fin AND CIL_TREE_SKIP_HEAD = 0
        then cil_tree_walk (Suc m) process None None (Some a) else ret ()) t =
      (if fin AND CIL_TREE_SKIP_HEAD = 0 then walk_forest process ts else ret ()) t"
      using Cons.IH(1) [OF kids' sz(1)] kids' nd'(1)
      by (auto simp: walk_unfold [OF nd'(1)] forest_at_None split: option.splits)
    have "bind (if node_cl_head nd' \<noteq> None \<and> fin AND CIL_TREE_SKIP_HEAD = 0
          then cil_tree_walk (Suc m) process None None (Some a) else ret ())
        (\<lambda>_. bind (rd nodes a) (\<lambda>nd'.
          cil_tree_walk_core (Suc m) process None None (node_next nd'))) t =
      bind (if fin AND CIL_TREE_SKIP_HEAD = 0 then walk_forest process ts else ret ())
        (\<lambda>_. walk_forest process us) t"
    proof (rule bind_cong, rule sub, rule refl)
      fix x u
      assume "(if fin AND CIL_TREE_SKIP_HEAD = 0 then walk_forest process ts else ret ()) t = (Ok x, u)"
      then have same': "links u = links t" by (auto dest: walk_links split: if_splits)
      obtain nd'' where "nodes u a = Some nd''" "node_next nd'' = node_next nd'"
        using same' nd'(1) by (rule links_node)
      moreover have "forest_at u (node_next nd') us"
        using rest' forest_at_links [OF same'] by auto
      ultimately show "bind (rd nodes a) (\<lambda>nd'.
          cil_tree_walk_core (Suc m) process None None (node_next nd')) u = walk_forest process us u"
        using Cons.IH(2) [OF _ sz(2)] by simp
    qed
    with nd'(1) show "(if fin AND CIL_TREE_SKIP_NEXT \<noteq> 0 then ret ()
        else bind (rd nodes a) (\<lambda>nd.
          bind (if node_cl_head nd \<noteq> None \<and> fin AND CIL_TREE_SKIP_HEAD = 0
            then cil_tree_walk (Suc m) process None None (Some a) else ret ())
          (\<lambda>_. bind (rd nodes a) (\<lambda>nd'.
            cil_tree_walk_core (Suc m) process None None (node_next nd'))))) t =
      (if fin AND CIL_TREE_SKIP_NEXT \<noteq> 0 then ret ()
        else bind (if fin AND CIL_TREE_SKIP_HEAD = 0 then walk_forest process ts else ret ())
          (\<lambda>_. walk_forest process us)) t"
      by simp
  qed simp_all
qed

text \<open>The whole walk from a node, with any fuel above the size of the forest below it.\<close>

lemma walk_is_walk_forest:
  assumes "nodes s a = Some nd" and "forest_at s (node_cl_head nd) ts" and "forest_size ts < fuel"
  shows "cil_tree_walk fuel process None None (Some a) s = walk_forest process ts s"
proof -
  obtain n where fuel: "fuel = Suc n" using assms(3) by (cases fuel) auto
  have "cil_tree_walk_core n process None None (node_cl_head nd) s = walk_forest process ts s"
    using assms fuel by (intro walk_core_is_walk_forest) auto
  then show ?thesis
    using assms fuel
    by (auto simp: walk_unfold [OF assms(1)] forest_at_None split: option.splits)
qed

end

subsection \<open>Checks that run over a tree\<close>

text \<open>The callback of a pass that only reads the memory.\<close>

definition check_node ::
  "(('h, 'b, 'z) cil_store_scheme \<Rightarrow> addr \<Rightarrow> unit outcome) \<Rightarrow> addr \<Rightarrow> (('h, 'b, 'z) cil_store_scheme, nat) cil"
where
  "check_node f node = bind (reading (\<lambda>s. f s node)) (\<lambda>_. ret CIL_TREE_SKIP_NOTHING)"

interpretation checker: tree_visitor "check_node f"
  by unfold_locales (auto simp: preserves_def check_node_def bind_def reading_def split: outcome.splits)

lemma check_node_Ok: "f s a = Ok () \<Longrightarrow> check_node f a s = (Ok CIL_TREE_SKIP_NOTHING, s)"
  by (simp add: check_node_def)

lemma check_node_not_Ok: "f s a \<noteq> Ok () \<Longrightarrow> check_node f a s \<noteq> (Ok n, t)"
  by (cases "f s a") (simp_all add: check_node_def)

lemma walk_check_node_Ok:
  "walk_forest (check_node f) ts s = (Ok (), t) \<longleftrightarrow> t = s \<and> (\<forall>a \<in> forest_addrs ts. f s a = Ok ())"
proof (induction ts arbitrary: t rule: ast_forest_induct)
  case Nil
  then show ?case by auto
next
  case (Cons a ts us)
  show ?case
  proof (cases "f s a = Ok ()")
    case True
    have "walk_forest (check_node f) (Ast a ts # us) s = (Ok (), t) \<longleftrightarrow>
        (\<exists>s'. walk_forest (check_node f) ts s = (Ok (), s') \<and> walk_forest (check_node f) us s' = (Ok (), t))"
      using True by (simp add: check_node_Ok [of f s a] bind_eq_Ok)
    with Cons True show ?thesis by auto
  next
    case False
    then show ?thesis by (auto simp: bind_eq_Ok dest: check_node_not_Ok)
  qed
qed

lemma cil_tree_walk_check_node:
  assumes "nodes s a = Some nd" and "forest_at s (node_cl_head nd) ts" and "forest_size ts < fuel"
  shows "cil_tree_walk fuel (check_node f) None None (Some a) s = (Ok (), t) \<longleftrightarrow>
    t = s \<and> (\<forall>a \<in> forest_addrs ts. f s a = Ok ())"
  unfolding checker.walk_is_walk_forest [OF assms] by (rule walk_check_node_Ok)

subsection \<open>Passes that hide subtrees\<close>

lemma for_each_append: "for_each f (xs @ ys) s = bind (for_each f xs) (\<lambda>_. for_each f ys) s"
proof (induction xs arbitrary: s)
  case (Cons x xs)
  have "for_each f ((x # xs) @ ys) s = bind (f x) (\<lambda>_. for_each f (xs @ ys)) s" by simp
  also have "\<dots> = bind (f x) (\<lambda>_. bind (for_each f xs) (\<lambda>_. for_each f ys)) s"
    by (rule bind_cong) (simp_all add: Cons.IH)
  also have "\<dots> = bind (for_each f (x # xs)) (\<lambda>_. for_each f ys) s" by (simp add: bind_assoc)
  finally show ?case .
qed simp

text \<open>The nodes met by a walk that does not descend below the nodes with \<open>hid\<close>.\<close>

fun visited :: "(addr \<Rightarrow> bool) \<Rightarrow> ast list \<Rightarrow> addr list" where
  "visited hid [] = []"
| "visited hid (Ast a ts # us) = a # (if hid a then [] else visited hid ts) @ visited hid us"

text \<open>A callback that does \<open>visit\<close> and then descends unless the node is hidden; \<open>visit\<close> changes neither
  the nodes nor what is hidden. Its walk is a loop over the visited nodes.\<close>

locale skipping_pass =
  fixes process :: "addr \<Rightarrow> (('h, 'b, 'z) cil_store_scheme, nat) cil"
    and visit :: "addr \<Rightarrow> (('h, 'b, 'z) cil_store_scheme, unit) cil"
    and hid :: "('h, 'b, 'z) cil_store_scheme \<Rightarrow> addr \<Rightarrow> bool"
  assumes process_visit: "process a s =
      (case visit a s of
         (Ok _, t) \<Rightarrow> (Ok (if hid s a then CIL_TREE_SKIP_HEAD else CIL_TREE_SKIP_NOTHING), t)
       | (Fail e, t) \<Rightarrow> (Fail e, t) | (Fault, t) \<Rightarrow> (Fault, t) | (Out_of_fuel, t) \<Rightarrow> (Out_of_fuel, t))"
    and visit_nodes: "visit a s = (r, t) \<Longrightarrow> nodes t = nodes s"
    and visit_hid: "visit a s = (r, t) \<Longrightarrow> hid t = hid s"
begin

lemma process_nodes:
  assumes "process a s = (r, t)"
  shows "nodes t = nodes s"
proof (cases "visit a s")
  case (Pair r' t')
  with assms have "t' = t" by (cases r') (simp_all add: process_visit)
  with Pair visit_nodes show ?thesis by blast
qed

sublocale visitor: tree_visitor process
proof
  show "preserves (\<lambda>s. links s = l) (process a)" for l a
  proof (rule preservesI)
    fix s :: "('h, 'b, 'z) cil_store_scheme" assume "links s = l"
    then show "links (snd (process a s)) = l"
      using process_nodes [of a s] by (metis links_nodes_eq prod.collapse)
  qed
qed

lemma for_each_hid: "for_each visit xs s = (r, t) \<Longrightarrow> hid t = hid s"
proof (induction xs arbitrary: s)
  case (Cons x xs)
  obtain r' s' where v: "visit x s = (r', s')" by (cases "visit x s")
  have "hid t = hid s'"
  proof (cases r')
    case (Ok u)
    with v Cons.prems have "for_each visit xs s' = (r, t)" by simp
    then show ?thesis by (rule Cons.IH)
  qed (use v Cons.prems in simp_all)
  with visit_hid [OF v] show ?case by simp
qed simp

lemma walk_visited: "walk_forest process ts s = for_each visit (visited (hid s) ts) s"
proof (induction ts arbitrary: s rule: ast_forest_induct)
  case (Cons a ts us)
  let ?kids = "if hid s a then [] else visited (hid s) ts"
  show ?case
  proof (cases "visit a s")
    case (Pair r t)
    show ?thesis
    proof (cases r)
      case (Ok u)
      have hid: "hid t = hid s" by (rule visit_hid [OF Pair])
      have "walk_forest process (Ast a ts # us) s =
          bind (if hid s a then ret () else walk_forest process ts) (\<lambda>_. walk_forest process us) t"
        using Pair Ok by (simp add: process_visit)
      also have "\<dots> = bind (for_each visit ?kids) (\<lambda>_. walk_forest process us) t"
        by (rule bind_cong) (simp_all add: Cons.IH(1) hid)
      also have "\<dots> = bind (for_each visit ?kids) (\<lambda>_. for_each visit (visited (hid s) us)) t"
      proof (rule bind_cong)
        fix x v assume "for_each visit ?kids t = (Ok x, v)"
        from for_each_hid [OF this] show "walk_forest process us v = for_each visit (visited (hid s) us) v"
          by (simp add: Cons.IH(2) hid)
      qed simp_all
      also have "\<dots> = for_each visit (?kids @ visited (hid s) us) t" by (simp add: for_each_append)
      also have "\<dots> = for_each visit (visited (hid s) (Ast a ts # us)) s" using Pair Ok by simp
      finally show ?thesis .
    qed (use Pair in \<open>simp_all add: process_visit\<close>)
  qed
qed simp

lemma tree_walk_visited:
  assumes "nodes s a = Some nd" and "forest_at s (node_cl_head nd) ts" and "forest_size ts < fuel"
  shows "cil_tree_walk fuel process None None (Some a) s = for_each visit (visited (hid s) ts) s"
  by (simp add: visitor.walk_is_walk_forest [OF assms] walk_visited)

end

end
