(* ===== verification/Cil_Chain.thy ===== *)
theory Cil_Chain
  imports Cil_Store
begin

text \<open>
  The detection of circular bounds in \<open>src/cil_verify.c\<close> and of circular aliases in
  \<open>src/cil_resolve_ast.c\<close>. Both follow a chain of pointers with Brent's algorithm: a second
  pointer stays behind and is moved to the current element after 2, 4, 8, \<open>\<dots>\<close> steps.

  \<open>link a\<close> is what the code reads through the pointer of the struct at \<open>a\<close>. The locale
  \<open>pointer_chain\<close> states the one thing the loop relies on, that such a read succeeds or is a
  fault, and proves that the loop ends with \<open>SEPOL_OK\<close> exactly on the chains that end.
\<close>

subsection \<open>The loop\<close>

fun bounds_loop ::
  "(addr \<Rightarrow> addr option outcome) \<Rightarrow> nat \<Rightarrow> nat \<Rightarrow> nat \<Rightarrow> addr \<Rightarrow> addr option \<Rightarrow> unit outcome"
where
  "bounds_loop link 0 steps limit u1 u2 = Out_of_fuel"
| "bounds_loop link (Suc fuel) steps limit u1 None = Ok ()"
| "bounds_loop link (Suc fuel) steps limit u1 (Some u2) =
     (if u1 = u2 then Fail SEPOL_ERR
      else if steps = limit
        then obind (link u2) (\<lambda>n. bounds_loop link fuel 1 (limit * 2) u2 n)
        else obind (link u2) (\<lambda>n. bounds_loop link fuel (Suc steps) limit u1 n))"

subsection \<open>Chains\<close>

inductive chain_ends :: "(addr \<Rightarrow> addr option outcome) \<Rightarrow> addr \<Rightarrow> bool"
  for link :: "addr \<Rightarrow> addr option outcome"
where
  ends_here: "link a = Ok None \<Longrightarrow> chain_ends link a"
| ends_later: "link a = Ok (Some b) \<Longrightarrow> chain_ends link b \<Longrightarrow> chain_ends link a"

inductive chain_dangles :: "(addr \<Rightarrow> addr option outcome) \<Rightarrow> addr \<Rightarrow> bool"
  for link :: "addr \<Rightarrow> addr option outcome"
where
  dangles_here: "link a = Fault \<Longrightarrow> chain_dangles link a"
| dangles_later: "link a = Ok (Some b) \<Longrightarrow> chain_dangles link b \<Longrightarrow> chain_dangles link a"

inductive_simps chain_ends_simps: "chain_ends link a"
inductive_simps chain_dangles_simps: "chain_dangles link a"

definition chain_next :: "(addr \<Rightarrow> addr option outcome) \<Rightarrow> addr \<Rightarrow> addr" where
  "chain_next link a = (case link a of Ok (Some b) \<Rightarrow> b | _ \<Rightarrow> a)"

fun chain_nth :: "(addr \<Rightarrow> addr option outcome) \<Rightarrow> addr \<Rightarrow> nat \<Rightarrow> addr" where
  "chain_nth link a 0 = a"
| "chain_nth link a (Suc n) = chain_next link (chain_nth link a n)"

definition has_next :: "(addr \<Rightarrow> addr option outcome) \<Rightarrow> addr \<Rightarrow> bool" where
  "has_next link a \<longleftrightarrow> (\<exists>b. link a = Ok (Some b))"

definition stops_at :: "(addr \<Rightarrow> addr option outcome) \<Rightarrow> addr \<Rightarrow> nat \<Rightarrow> bool" where
  "stops_at link a n \<longleftrightarrow>
     \<not> has_next link (chain_nth link a n) \<and> (\<forall>i<n. has_next link (chain_nth link a i))"

lemma has_next_link: "has_next link a \<Longrightarrow> link a = Ok (Some (chain_next link a))"
  by (auto simp: has_next_def chain_next_def)

lemma chain_nth_shift: "chain_nth link (chain_next link a) n = chain_nth link a (Suc n)"
  by (induction n) simp_all

lemma chain_nth_cong_add:
  "chain_nth link a i = chain_nth link a j \<Longrightarrow> chain_nth link a (i + k) = chain_nth link a (j + k)"
  by (induction k) simp_all

lemma stops_at_Suc:
  "stops_at link a (Suc n) \<longleftrightarrow> has_next link a \<and> stops_at link (chain_next link a) n"
  by (auto simp: stops_at_def chain_nth_shift less_Suc_eq_0_disj
      simp del: chain_nth.simps(2))

lemma stops_or_goes_on:
  "(\<exists>n. stops_at link a n) \<or> (\<forall>n. has_next link (chain_nth link a n))"
proof (rule disjCI)
  assume "\<not> (\<forall>n. has_next link (chain_nth link a n))"
  then obtain n where n: "\<not> has_next link (chain_nth link a n)" by blast
  define m where "m = (LEAST n. \<not> has_next link (chain_nth link a n))"
  have "\<not> has_next link (chain_nth link a m)"
    unfolding m_def using n by (rule LeastI)
  moreover have "\<forall>i<m. has_next link (chain_nth link a i)"
    unfolding m_def using not_less_Least by blast
  ultimately show "\<exists>n. stops_at link a n" by (auto simp: stops_at_def)
qed

lemma stops_at_end:
  "stops_at link a n \<Longrightarrow> link (chain_nth link a n) = Ok None \<Longrightarrow> chain_ends link a"
proof (induction n arbitrary: a)
  case 0
  then show ?case by (auto intro: ends_here)
next
  case (Suc n)
  then have "has_next link a" and "chain_ends link (chain_next link a)"
    by (simp_all add: stops_at_Suc chain_nth_shift [symmetric] del: chain_nth.simps(2))
  then show ?case by (blast intro: ends_later has_next_link)
qed

lemma stops_at_dangling:
  "stops_at link a n \<Longrightarrow> link (chain_nth link a n) = Fault \<Longrightarrow> chain_dangles link a"
proof (induction n arbitrary: a)
  case 0
  then show ?case by (auto intro: dangles_here)
next
  case (Suc n)
  then have "has_next link a" and "chain_dangles link (chain_next link a)"
    by (simp_all add: stops_at_Suc chain_nth_shift [symmetric] del: chain_nth.simps(2))
  then show ?case by (blast intro: dangles_later has_next_link)
qed

lemma chain_ends_stops:
  "chain_ends link a \<Longrightarrow> \<exists>n. stops_at link a n \<and> link (chain_nth link a n) = Ok None"
proof (induction rule: chain_ends.induct)
  case (ends_here a)
  then have "stops_at link a 0" by (auto simp: stops_at_def has_next_def)
  with ends_here show ?case by (intro exI [of _ 0]) simp
next
  case (ends_later a b)
  then obtain n where n: "stops_at link b n" "link (chain_nth link b n) = Ok None" by blast
  have "chain_next link a = b" "has_next link a"
    using ends_later.hyps(1) by (auto simp: chain_next_def has_next_def)
  with n show ?case
    by (intro exI [of _ "Suc n"])
       (auto simp: stops_at_Suc chain_nth_shift [symmetric] simp del: chain_nth.simps(2))
qed

lemma chain_dangles_stops:
  "chain_dangles link a \<Longrightarrow> \<exists>n. stops_at link a n \<and> link (chain_nth link a n) = Fault"
proof (induction rule: chain_dangles.induct)
  case (dangles_here a)
  then have "stops_at link a 0" by (auto simp: stops_at_def has_next_def)
  with dangles_here show ?case by (intro exI [of _ 0]) simp
next
  case (dangles_later a b)
  then obtain n where n: "stops_at link b n" "link (chain_nth link b n) = Fault" by blast
  have "chain_next link a = b" "has_next link a"
    using dangles_later.hyps(1) by (auto simp: chain_next_def has_next_def)
  with n show ?case
    by (intro exI [of _ "Suc n"])
       (auto simp: stops_at_Suc chain_nth_shift [symmetric] simp del: chain_nth.simps(2))
qed

lemma stops_at_unique: "stops_at link a m \<Longrightarrow> stops_at link a n \<Longrightarrow> m = n"
  by (metis linorder_neqE_nat stops_at_def)

lemma stops_at_inj:
  assumes "stops_at link a n"
  shows "inj_on (chain_nth link a) {..n}"
proof (rule linorder_inj_onI)
  fix i j assume "i < j" "i \<in> {..n}" "j \<in> {..n}"
  show "chain_nth link a i \<noteq> chain_nth link a j"
  proof
    assume "chain_nth link a i = chain_nth link a j"
    then have "chain_nth link a (i + (n - j)) = chain_nth link a (j + (n - j))"
      by (rule chain_nth_cong_add)
    moreover have "has_next link (chain_nth link a (i + (n - j)))"
      using assms \<open>i < j\<close> \<open>j \<in> {..n}\<close> by (auto simp: stops_at_def)
    ultimately show False
      using assms \<open>j \<in> {..n}\<close> by (auto simp: stops_at_def)
  qed
qed auto

text \<open>A chain that stops is no longer than the number of structs it can visit.\<close>

lemma stops_at_bound:
  assumes "stops_at link a n" and "finite A" and "\<And>a. has_next link a \<Longrightarrow> a \<in> A"
  shows "n \<le> card A"
proof -
  have inj: "inj_on (chain_nth link a) {..<n}"
    by (rule inj_on_subset [OF stops_at_inj [OF assms(1)]]) auto
  have "chain_nth link a ` {..<n} \<subseteq> A"
    using assms(1,3) by (auto simp: stops_at_def)
  from card_inj_on_le [OF inj this assms(2)] show ?thesis by simp
qed

text \<open>A chain that goes on for ever comes back to an element.\<close>

lemma goes_on_repeats:
  assumes "\<forall>n. has_next link (chain_nth link a n)" and "finite A"
    and "\<And>a. has_next link a \<Longrightarrow> a \<in> A"
  obtains i l where "0 < l" "i + l \<le> card A"
    "chain_nth link a (i + l) = chain_nth link a i"
proof -
  let ?f = "chain_nth link a"
  have "?f ` {..card A} \<subseteq> A" using assms(1,3) by auto
  then have "\<not> inj_on ?f {..card A}"
    using card_inj_on_le [of ?f "{..card A}" A] assms(2) by auto
  then obtain i j where "i < j" "j \<le> card A" "?f i = ?f j"
    by (metis (no_types, lifting) linorder_inj_onI' atMost_iff)
  then show ?thesis by (intro that [of "j - i" i]) auto
qed

subsection \<open>Brent's algorithm on a chain\<close>

lemma loop_stops:
  assumes "stops_at link a n" and "p < q" and "q \<le> n" and "n + 2 \<le> q + fuel"
    and "link (chain_nth link a n) = r" and "r = Ok None \<or> r = Fault"
  shows "bounds_loop link fuel steps limit (chain_nth link a p) (Some (chain_nth link a q)) =
    (if r = Fault then Fault else Ok ())"
  using assms
proof (induction fuel arbitrary: p q steps limit)
  case (Suc fuel)
  have neq: "chain_nth link a p \<noteq> chain_nth link a q"
    using inj_onD [OF stops_at_inj [OF Suc.prems(1)], of p q] Suc.prems by auto
  show ?case
  proof (cases "q = n")
    case True
    moreover from True Suc.prems obtain f where "fuel = Suc f" by (cases fuel) auto
    ultimately show ?thesis using neq Suc.prems by auto
  next
    case False
    then have "link (chain_nth link a q) = Ok (Some (chain_nth link a (Suc q)))"
      using Suc.prems by (auto simp: stops_at_def intro!: has_next_link)
    then show ?thesis
      using neq False Suc.prems Suc.IH [of q "Suc q"] Suc.IH [of p "Suc q"] by auto
  qed
qed simp

lemma loop_hits:
  assumes "\<And>n. has_next link (chain_nth link a n)"
    and "chain_nth link a p = chain_nth link a (q + j)" and "steps + j \<le> limit" and "j < fuel"
  shows "bounds_loop link fuel steps limit (chain_nth link a p) (Some (chain_nth link a q)) =
    Fail SEPOL_ERR"
  using assms(2-)
proof (induction j arbitrary: q steps fuel)
  case 0
  then show ?case by (cases fuel) auto
next
  case (Suc j)
  from Suc.prems obtain f where f: "fuel = Suc f" by (cases fuel) auto
  have "link (chain_nth link a q) = Ok (Some (chain_nth link a (Suc q)))"
    using assms(1) by (auto intro!: has_next_link)
  with f Suc.IH [of "Suc q" "Suc steps" f] Suc.prems show ?case by auto
qed

lemma loop_segment:
  assumes "\<And>n. has_next link (chain_nth link a n)" and "steps + k = limit" and "k < fuel"
  shows "bounds_loop link fuel steps limit (chain_nth link a p) (Some (chain_nth link a q)) =
      Fail SEPOL_ERR \<or>
    bounds_loop link fuel steps limit (chain_nth link a p) (Some (chain_nth link a q)) =
      bounds_loop link (fuel - Suc k) 1 (limit * 2)
        (chain_nth link a (q + k)) (Some (chain_nth link a (Suc (q + k))))"
  using assms(2-)
proof (induction k arbitrary: q steps fuel)
  case 0
  have "link (chain_nth link a q) = Ok (Some (chain_nth link a (Suc q)))"
    using assms(1) by (auto intro!: has_next_link)
  with 0 show ?case by (cases fuel) auto
next
  case (Suc k)
  from Suc.prems obtain f where f: "fuel = Suc f" by (cases fuel) auto
  have "link (chain_nth link a q) = Ok (Some (chain_nth link a (Suc q)))"
    using assms(1) by (auto intro!: has_next_link)
  with f Suc.IH [of "Suc steps" f "Suc q"] Suc.prems show ?case by auto
qed

lemma chain_nth_periodic:
  assumes "chain_nth link a (i + l) = chain_nth link a i" and "i \<le> p"
  shows "chain_nth link a (p + l) = chain_nth link a p"
  using chain_nth_cong_add [OF assms(1), of "p - i"] assms(2) by (simp add: add.commute add.left_commute)

lemma loop_phases:
  assumes "\<And>n. has_next link (chain_nth link a n)"
    and "chain_nth link a (i + l) = chain_nth link a i" and "0 < l" and "i \<le> M" and "l \<le> M"
    and "1 \<le> c" "c \<le> 2" "2 * M + 3 + l < p + fuel" and "p \<le> 2 * M + 3"
  shows "bounds_loop link fuel 1 (p + c) (chain_nth link a p) (Some (chain_nth link a (p + 1))) =
    Fail SEPOL_ERR"
  using assms(8-)
proof (induction "M - p" arbitrary: p fuel rule: less_induct)
  case less
  show ?case
  proof (cases "M \<le> p")
    case True
    have "chain_nth link a p = chain_nth link a (p + 1 + (l - 1))"
      using chain_nth_periodic [OF assms(2), of p] True assms(3,4) by simp
    then show ?thesis
      by (rule loop_hits [OF assms(1)]) (use True assms(3-7) less.prems in auto)
  next
    case False
    have fuel: "p + c - 1 < fuel" using False less.prems assms(3,7) by linarith
    have eqs: "p + 1 + (p + c - 1) = 2 * p + c" "(p + c) * 2 = 2 * p + c + c"
        "fuel - Suc (p + c - 1) = fuel - (p + c)" "Suc (2 * p + c) = 2 * p + c + 1"
      using assms(6) by simp_all
    have "1 + (p + c - 1) = p + c" using assms(6) by simp
    from loop_segment [OF assms(1) this fuel, of p "p + 1"]
    have "bounds_loop link fuel 1 (p + c) (chain_nth link a p)
        (Some (chain_nth link a (p + 1))) = Fail SEPOL_ERR \<or>
      bounds_loop link fuel 1 (p + c) (chain_nth link a p) (Some (chain_nth link a (p + 1))) =
      bounds_loop link (fuel - (p + c)) 1 (2 * p + c + c) (chain_nth link a (2 * p + c))
        (Some (chain_nth link a (2 * p + c + 1)))"
      unfolding eqs .
    moreover have "bounds_loop link (fuel - (p + c)) 1 (2 * p + c + c)
        (chain_nth link a (2 * p + c)) (Some (chain_nth link a (2 * p + c + 1))) = Fail SEPOL_ERR"
      by (rule less.hyps) (use False less.prems fuel assms(6,7) in linarith)+
    ultimately show ?thesis by simp
  qed
qed

lemma loop_circular:
  assumes "\<And>n. has_next link (chain_nth link a n)"
    and "finite A" and "\<And>b. has_next link b \<Longrightarrow> b \<in> A" and "3 * card A + 3 < fuel"
    and "steps \<le> 1"
  shows "bounds_loop link fuel steps 2 a (Some (chain_next link a)) = Fail SEPOL_ERR"
proof -
  from assms(1) have all: "\<forall>n. has_next link (chain_nth link a n)" by blast
  obtain i l where il: "0 < l" "i + l \<le> card A" "chain_nth link a (i + l) = chain_nth link a i"
    using all assms(2,3) by (rule goes_on_repeats)
  define p where "p = 3 - steps"
  have p: "p \<le> 3" "2 \<le> p" "steps + (2 - steps) = 2" "1 + (2 - steps) = p"
      "Suc (2 - steps) = p" "2 * 2 = p + (1 + steps)" "Suc p = p + 1"
    using assms(5) by (auto simp: p_def)
  have first: "chain_nth link a 0 = a" "chain_nth link a 1 = chain_next link a" by simp_all
  have "2 - steps < fuel" using assms(4) by linarith
  from loop_segment [OF assms(1) p(3) this, of 0 1]
  have "bounds_loop link fuel steps 2 a (Some (chain_next link a)) = Fail SEPOL_ERR \<or>
    bounds_loop link fuel steps 2 a (Some (chain_next link a)) =
    bounds_loop link (fuel - p) 1 (p + (1 + steps)) (chain_nth link a p)
      (Some (chain_nth link a (p + 1)))"
    unfolding p(4-) first .
  moreover have "bounds_loop link (fuel - p) 1 (p + (1 + steps)) (chain_nth link a p)
      (Some (chain_nth link a (p + 1))) = Fail SEPOL_ERR"
    by (rule loop_phases [OF assms(1) il(3,1), where M = "card A"])
       (use il p assms(4,5) in linarith)+
  ultimately show ?thesis by auto
qed

subsection \<open>The contract of a link\<close>

locale pointer_chain =
  fixes link :: "addr \<Rightarrow> addr option outcome"
  assumes reads_or_faults: "link a \<noteq> Fail e" "link a \<noteq> Out_of_fuel"
begin

lemma not_next: "\<not> has_next link a \<Longrightarrow> link a = Ok None \<or> link a = Fault"
  using reads_or_faults by (cases "link a") (auto simp: has_next_def)

text \<open>The loop decides which of its three fates a chain has.\<close>

lemma bounds_loop_decides:
  assumes "finite A" and "\<And>b. has_next link b \<Longrightarrow> b \<in> A" and "3 * card A + 3 < fuel"
    and "steps \<le> 1"
  shows "obind (link a) (\<lambda>n. bounds_loop link fuel steps 2 a n) =
    (if chain_ends link a then Ok () else if chain_dangles link a then Fault else Fail SEPOL_ERR)"
proof (cases "\<exists>n. stops_at link a n")
  case True
  then obtain n where n: "stops_at link a n" ..
  have le: "n \<le> card A" by (rule stops_at_bound [OF n assms(1,2)])
  obtain f where f: "fuel = Suc f" using assms(3) by (cases fuel) auto
  define r where "r = link (chain_nth link a n)"
  have r: "r = Ok None \<or> r = Fault"
    unfolding r_def using n by (intro not_next) (simp add: stops_at_def)
  have run: "obind (link a) (\<lambda>n. bounds_loop link fuel steps 2 a n) = (if r = Fault then Fault else Ok ())"
  proof (cases n)
    case 0
    with r f show ?thesis by (auto simp: r_def)
  next
    case (Suc m)
    with n have "has_next link a" by (simp add: stops_at_Suc)
    moreover have "bounds_loop link fuel steps 2 (chain_nth link a 0) (Some (chain_nth link a 1)) =
        (if r = Fault then Fault else Ok ())"
      using r Suc le assms(3) by (intro loop_stops [OF n]) (auto simp: r_def)
    ultimately show ?thesis by (simp add: has_next_link)
  qed
  have "chain_ends link a \<longleftrightarrow> r = Ok None" and "chain_dangles link a \<longleftrightarrow> r = Fault"
    using n r stops_at_end [OF n] stops_at_dangling [OF n]
    by (auto simp: r_def dest!: chain_ends_stops chain_dangles_stops dest: stops_at_unique [OF n])
  with run r show ?thesis by auto
next
  case False
  then have on: "has_next link (chain_nth link a n)" for n
    using stops_or_goes_on [of link a] by blast
  then have "bounds_loop link fuel steps 2 a (Some (chain_next link a)) = Fail SEPOL_ERR"
    using assms by (intro loop_circular) auto
  moreover have "\<not> chain_ends link a" "\<not> chain_dangles link a"
    using False by (auto dest: chain_ends_stops chain_dangles_stops)
  ultimately show ?thesis using on [of 0] by (simp add: has_next_link)
qed

end

subsection \<open>Circular bounds of roles and types\<close>

definition user_link :: "('h, 'b, 'z) cil_store_scheme \<Rightarrow> addr \<Rightarrow> addr option outcome" where
  "user_link s a = obind (deref (m_user s) (Some a)) (\<lambda>u. Ok (user_bounds u))"

definition role_link :: "('h, 'b, 'z) cil_store_scheme \<Rightarrow> addr \<Rightarrow> addr option outcome" where
  "role_link s a = obind (deref (m_role s) (Some a)) (\<lambda>r. Ok (role_bounds r))"

definition type_link :: "('h, 'b, 'z) cil_store_scheme \<Rightarrow> addr \<Rightarrow> addr option outcome" where
  "type_link s a = obind (deref (m_type s) (Some a)) (\<lambda>t. Ok (type_bounds t))"

definition cil_verify_role :: "('h, 'b, 'z) cil_store_scheme \<Rightarrow> nat \<Rightarrow> addr \<Rightarrow> unit outcome" where
  "cil_verify_role s fuel node =
     obind (deref (nodes s) (Some node)) (\<lambda>nd.
     obind (not_null (node_data nd)) (\<lambda>role.
     obind (role_link s role) (\<lambda>r2. bounds_loop (role_link s) fuel 0 2 role r2)))"

definition cil_verify_type :: "('h, 'b, 'z) cil_store_scheme \<Rightarrow> nat \<Rightarrow> addr \<Rightarrow> unit outcome" where
  "cil_verify_type s fuel node =
     obind (deref (nodes s) (Some node)) (\<lambda>nd.
     obind (not_null (node_data nd)) (\<lambda>type.
     obind (type_link s type) (\<lambda>t2. bounds_loop (type_link s) fuel 0 2 type t2)))"

interpretation user_chain: pointer_chain "user_link s"
  by unfold_locales (auto simp: user_link_def deref_def split: option.splits)

interpretation role_chain: pointer_chain "role_link s"
  by unfold_locales (auto simp: role_link_def deref_def split: option.splits)

interpretation type_chain: pointer_chain "type_link s"
  by unfold_locales (auto simp: type_link_def deref_def split: option.splits)

lemma has_next_user: "has_next (user_link s) a \<Longrightarrow> a \<in> dom (m_user s)"
  by (auto simp: has_next_def user_link_def)

lemma has_next_role: "has_next (role_link s) a \<Longrightarrow> a \<in> dom (m_role s)"
  by (auto simp: has_next_def role_link_def)

lemma has_next_type: "has_next (type_link s) a \<Longrightarrow> a \<in> dom (m_type s)"
  by (auto simp: has_next_def type_link_def)

subsection \<open>From an alias to the object it stands for\<close>

text \<open>The loop of \<open>cil_resolve_alias_to_actual\<close>: \<open>flavor\<close> is that of the objects an alias may stand
  for. A chain that leaves the aliases at an object of another flavor, or reaches an
  alias without an actual object, reads a field that is not there.\<close>

definition actual_of :: "('h, 'b, 'z) cil_store_scheme \<Rightarrow> addr \<Rightarrow> addr option outcome" where
  "actual_of s a = obind (deref (m_alias s) (Some a)) (\<lambda>al. Ok (alias_actual al))"

fun alias_loop ::
  "('h, 'b, 'z) cil_store_scheme \<Rightarrow> cil_flavor \<Rightarrow> nat \<Rightarrow> nat \<Rightarrow> nat \<Rightarrow> addr \<Rightarrow> addr \<Rightarrow> addr outcome"
where
  "alias_loop s flavor 0 steps limit a1 a2 = Out_of_fuel"
| "alias_loop s flavor (Suc fuel) steps limit a1 a2 =
     obind (FLAVOR s (Some a1)) (\<lambda>a1_flavor.
     if flavor = a1_flavor then Ok a1
     else
       obind (actual_of s a1) (\<lambda>actual.
       obind (not_null actual) (\<lambda>a1'.
       obind (FLAVOR s (Some a1')) (\<lambda>_.
       if a1' = a2 then Fail SEPOL_ERR
       else if steps + 1 = limit then alias_loop s flavor fuel 0 (limit * 2) a1' a1'
       else alias_loop s flavor fuel (steps + 1) limit a1' a2))))"

definition cil_resolve_alias_to_actual ::
  "nat \<Rightarrow> addr \<Rightarrow> cil_flavor \<Rightarrow> (('h, 'b, 'z) cil_store_scheme, unit) cil"
where
  "cil_resolve_alias_to_actual fuel current flavor =
     bind (rd nodes current) (\<lambda>nd.
     bind (lift (not_null (node_data nd))) (\<lambda>alias.
     bind (rd m_alias alias) (\<lambda>al.
     if alias_actual al = None then fail SEPOL_ERR
     else
       bind (reading (\<lambda>s. alias_loop s flavor fuel 0 2 alias alias)) (\<lambda>a1.
       wr m_alias m_alias_update alias (alias_actual_update (\<lambda>_. Some a1))))))"

text \<open>The chain the loop follows.\<close>

definition alias_link :: "('h, 'b, 'z) cil_store_scheme \<Rightarrow> cil_flavor \<Rightarrow> addr \<Rightarrow> addr option outcome"
where
  "alias_link s flavor a =
     obind (FLAVOR s (Some a)) (\<lambda>f.
     if flavor = f then Ok None
     else obind (actual_of s a) (\<lambda>actual. obind (not_null actual) (\<lambda>b. Ok (Some b))))"

inductive chain_leads :: "(addr \<Rightarrow> addr option outcome) \<Rightarrow> addr \<Rightarrow> addr \<Rightarrow> bool"
  for link :: "addr \<Rightarrow> addr option outcome"
where
  leads_here: "link a = Ok None \<Longrightarrow> chain_leads link a a"
| leads_later: "link a = Ok (Some b) \<Longrightarrow> chain_leads link b c \<Longrightarrow> chain_leads link a c"

lemma chain_leads_ends: "chain_ends link a \<longleftrightarrow> (\<exists>c. chain_leads link a c)"
proof
  show "chain_ends link a \<Longrightarrow> \<exists>c. chain_leads link a c"
    by (induction rule: chain_ends.induct) (auto intro: chain_leads.intros)
  have "chain_leads link a c \<Longrightarrow> chain_ends link a" for c
    by (induction rule: chain_leads.induct) (auto intro: chain_ends.intros)
  then show "\<exists>c. chain_leads link a c \<Longrightarrow> chain_ends link a" by blast
qed

lemma chain_leads_det: "chain_leads link a c \<Longrightarrow> chain_leads link a d \<Longrightarrow> c = d"
proof (induction rule: chain_leads.induct)
  case (leads_here a)
  then show ?case by (auto elim: chain_leads.cases)
next
  case (leads_later a b c)
  from leads_later.prems leads_later.hyps(1) have "chain_leads link b d"
    by (auto elim: chain_leads.cases)
  then show ?case by (rule leads_later.IH)
qed

interpretation alias_chain: pointer_chain "alias_link s flavor"
proof unfold_locales
  fix a e
  show "alias_link s flavor a \<noteq> Fail e" "alias_link s flavor a \<noteq> Out_of_fuel"
    by (auto simp: alias_link_def FLAVOR_def NODE_def actual_of_def deref_def not_null_def obind_def
        split: option.splits list.splits outcome.splits)
qed

lemma has_next_alias: "has_next (alias_link s flavor) a \<Longrightarrow> a \<in> dom (m_alias s)"
  by (auto simp: has_next_def alias_link_def actual_of_def split: if_splits)

lemma alias_link_actual:
  "FLAVOR s (Some a) = Ok f \<Longrightarrow> f \<noteq> flavor \<Longrightarrow>
   alias_link s flavor a = obind (actual_of s a) (\<lambda>p. obind (not_null p) (\<lambda>b. Ok (Some b)))"
  by (simp add: alias_link_def)

lemma alias_link_here: "FLAVOR s (Some a) = Ok flavor \<Longrightarrow> alias_link s flavor a = Ok None"
  by (simp add: alias_link_def)

lemma alias_link_fault: "FLAVOR s (Some a) = Fault \<Longrightarrow> alias_link s flavor a = Fault"
  by (simp add: alias_link_def)

lemma FLAVOR_cases:
  obtains f where "FLAVOR s p = Ok f" | "FLAVOR s p = Fault"
  by (cases "FLAVOR s p")
     (auto simp: FLAVOR_def NODE_def deref_def not_null_def obind_def
        split: option.splits list.splits outcome.splits)

lemma alias_loop_leads:
  "alias_loop s flavor fuel steps limit a1 a2 = Ok e \<Longrightarrow> chain_leads (alias_link s flavor) a1 e"
proof (induction fuel arbitrary: steps limit a1 a2)
  case (Suc fuel)
  show ?case
  proof (cases "FLAVOR s (Some a1) = Ok flavor")
    case True
    with Suc.prems show ?thesis by (auto intro: leads_here alias_link_here)
  next
    case False
    with Suc.prems obtain b where "alias_link s flavor a1 = Ok (Some b)"
      and "chain_leads (alias_link s flavor) b e"
      by (cases s "Some a1" rule: FLAVOR_cases) (auto simp: alias_link_actual split: if_splits dest: Suc.IH)
    then show ?thesis by (rule leads_later)
  qed
qed simp

text \<open>Apart from the object it returns, the loop is the one of the bounds on its chain.\<close>

lemma alias_loop_is_bounds_loop:
  assumes "FLAVOR s (Some a2) = Ok f"
    and "obind (alias_link s flavor a1) (bounds_loop (alias_link s flavor) fuel (Suc steps) limit a2)
      \<noteq> Out_of_fuel"
  shows "obind (alias_loop s flavor (Suc fuel) steps limit a1 a2) (\<lambda>_. Ok ()) =
    obind (alias_link s flavor a1) (bounds_loop (alias_link s flavor) fuel (Suc steps) limit a2)"
  using assms
proof (induction fuel arbitrary: steps limit a1 a2 f)
  case 0
  then show ?case
    by (cases s "Some a1" rule: FLAVOR_cases)
       (auto simp: alias_link_def actual_of_def deref_def not_null_def
         split: option.splits if_splits)
next
  case (Suc fuel)
  show ?case
  proof (cases s "Some a1" rule: FLAVOR_cases)
    case (1 f1)
    show ?thesis
    proof (cases "alias_link s flavor a1")
      case (Ok n)
      show ?thesis
      proof (cases n)
        case None
        with 1 Ok have "f1 = flavor" by (auto simp: alias_link_def split: if_splits)
        with 1 Ok None show ?thesis by simp
      next
        case (Some b)
        with 1 Ok have f1: "f1 \<noteq> flavor" and b: "actual_of s a1 = Ok (Some b)"
          by (auto simp: alias_link_def split: if_splits)
        show ?thesis
        proof (cases s "Some b" rule: FLAVOR_cases)
          case (1 fb)
          note b_flavor = this
          have ih: "obind (alias_loop s flavor (Suc fuel) k l b c) (\<lambda>_. Ok ()) =
              obind (alias_link s flavor b) (bounds_loop (alias_link s flavor) fuel (Suc k) l c)"
            if "FLAVOR s (Some c) = Ok g"
              "obind (alias_link s flavor b) (bounds_loop (alias_link s flavor) fuel (Suc k) l c)
               \<noteq> Out_of_fuel" for k l c g
            using that by (rule Suc.IH)
          show ?thesis
            using \<open>FLAVOR s (Some a1) = Ok f1\<close> f1 b b_flavor Ok Some Suc.prems
              ih [OF Suc.prems(1), of "Suc steps" limit] ih [OF b_flavor, of 0 "limit * 2"]
            by (auto simp del: alias_loop.simps(2) simp: alias_loop.simps(2) [of s flavor "Suc fuel"]
                split: if_splits)
        next
          case 2
          with \<open>FLAVOR s (Some a1) = Ok f1\<close> f1 b Ok Some Suc.prems show ?thesis
            by (auto simp: alias_link_fault)
        qed
      qed
    next
      case Fault
      with 1 show ?thesis
        by (auto simp: alias_link_def actual_of_def deref_def not_null_def split: if_splits option.splits)
    qed (simp_all add: alias_chain.reads_or_faults)
  next
    case 2
    then show ?thesis by (simp add: alias_link_fault)
  qed
qed

text \<open>Enough fuel decides the chain of an alias.\<close>

lemma alias_loop_decides:
  assumes fl: "FLAVOR s (Some a) = Ok f" and "finite (dom (m_alias s))"
    and "3 * card (dom (m_alias s)) + 4 < fuel"
  shows "obind (alias_loop s flavor fuel 0 2 a a) (\<lambda>_. Ok ()) =
    (if chain_ends (alias_link s flavor) a then Ok ()
     else if chain_dangles (alias_link s flavor) a then Fault else Fail SEPOL_ERR)"
proof -
  obtain n where n: "fuel = Suc n" "3 * card (dom (m_alias s)) + 3 < n"
    using assms(3) by (cases fuel) auto
  have "obind (alias_link s flavor a) (bounds_loop (alias_link s flavor) n (Suc 0) 2 a) =
    (if chain_ends (alias_link s flavor) a then Ok ()
     else if chain_dangles (alias_link s flavor) a then Fault else Fail SEPOL_ERR)"
    by (rule alias_chain.bounds_loop_decides [OF assms(2) has_next_alias n(2)]) auto
  moreover from this have "obind (alias_loop s flavor (Suc n) 0 2 a a) (\<lambda>_. Ok ()) =
      obind (alias_link s flavor a) (bounds_loop (alias_link s flavor) n (Suc 0) 2 a)"
    by (intro alias_loop_is_bounds_loop [OF fl]) auto
  ultimately show ?thesis unfolding n(1) by simp
qed

subsection \<open>Properties\<close>

text \<open>C5. Circular bounds of roles: with fuel for three times the number of roles the check of a
  role ends; it accepts exactly the roles whose chain of bounds ends, it reports an error
  exactly when the chain is circular, and it can fault only on a dangling pointer.\<close>

theorem role_bounds_decided:
  assumes "nodes s node = Some nd" and "node_data nd = Some role"
    and "finite (dom (m_role s))" and "3 * card (dom (m_role s)) + 3 < fuel"
  shows "cil_verify_role s fuel node =
    (if chain_ends (role_link s) role then Ok ()
     else if chain_dangles (role_link s) role then Fault else Fail SEPOL_ERR)"
proof -
  have "cil_verify_role s fuel node =
      obind (role_link s role) (\<lambda>r2. bounds_loop (role_link s) fuel 0 2 role r2)"
    using assms(1,2) by (simp add: cil_verify_role_def del: obind_eq_Ok)
  also have "\<dots> = (if chain_ends (role_link s) role then Ok ()
      else if chain_dangles (role_link s) role then Fault else Fail SEPOL_ERR)"
    by (rule role_chain.bounds_loop_decides [OF assms(3) has_next_role assms(4)]) auto
  finally show ?thesis .
qed

definition three_roles :: "(unit, unit) cil_store" where
  "three_roles = store0\<lparr>
     nodes := [7 \<mapsto> \<lparr>node_parent = None, node_cl_head = None, node_cl_tail = None, node_next = None,
       node_flavor = CIL_ROLE, node_line = 1, node_path = None, node_data = Some 4\<rparr>],
     m_role := [4 \<mapsto> \<lparr>role_bounds = Some 2, role_types = None, role_value = 0\<rparr>,
       2 \<mapsto> \<lparr>role_bounds = Some 3, role_types = None, role_value = 0\<rparr>,
       3 \<mapsto> \<lparr>role_bounds = Some 2, role_types = None, role_value = 0\<rparr>]\<rparr>"

lemma three_roles_circular:
  "\<not> chain_ends (role_link three_roles) 4 \<and> \<not> chain_dangles (role_link three_roles) 4"
proof -
  have link: "role_link three_roles 4 = Ok (Some 2)" "role_link three_roles 2 = Ok (Some 3)"
    "role_link three_roles 3 = Ok (Some 2)"
    by (simp_all add: role_link_def three_roles_def)
  have "chain_ends (role_link three_roles) a \<Longrightarrow> a \<notin> {4, 2, 3}" for a
    by (induction rule: chain_ends.induct) (auto simp: link)
  moreover have "chain_dangles (role_link three_roles) a \<Longrightarrow> a \<notin> {4, 2, 3}" for a
    by (induction rule: chain_dangles.induct) (auto simp: link)
  ultimately show ?thesis by blast
qed

theorem role_bounds_decided_witness:
  "cil_verify_role three_roles 20 7 = Fail SEPOL_ERR"
proof -
  have "dom (m_role three_roles) = {4, 2, 3}" by (auto simp: three_roles_def)
  then show ?thesis
    using role_bounds_decided [of three_roles 7 _ 4 20] three_roles_circular
    by (simp add: three_roles_def)
qed

text \<open>C6. From an alias to its actual object: with enough fuel the resolution of an alias ends; it
  succeeds exactly when the chain of aliases leads to an object of the wanted flavor, which it
  then records, it reports exactly the circular chains and leaves the memory unchanged, and it
  faults where the chain meets an alias without an actual object or an object of another flavor.\<close>

theorem alias_to_actual_decided:
  assumes "nodes s node = Some nd" and "node_data nd = Some a"
    and "m_alias s a = Some al" and "alias_actual al \<noteq> None" and "FLAVOR s (Some a) = Ok f"
    and "finite (dom (m_alias s))" and "3 * card (dom (m_alias s)) + 4 < fuel"
  shows "case cil_resolve_alias_to_actual fuel node flavor s of
      (Ok u, t) \<Rightarrow> \<exists>e. chain_leads (alias_link s flavor) a e \<and>
        t = s\<lparr>m_alias := (m_alias s)(a \<mapsto> al\<lparr>alias_actual := Some e\<rparr>)\<rparr>
    | (Fail e, t) \<Rightarrow> e = SEPOL_ERR \<and> t = s \<and> \<not> chain_ends (alias_link s flavor) a \<and>
        \<not> chain_dangles (alias_link s flavor) a
    | (Fault, t) \<Rightarrow> t = s \<and> chain_dangles (alias_link s flavor) a
    | (Out_of_fuel, t) \<Rightarrow> False"
proof -
  have run: "cil_resolve_alias_to_actual fuel node flavor s =
      (case alias_loop s flavor fuel 0 2 a a of
         Ok e \<Rightarrow> (Ok (), s\<lparr>m_alias := (m_alias s)(a \<mapsto> al\<lparr>alias_actual := Some e\<rparr>)\<rparr>)
       | Fail e \<Rightarrow> (Fail e, s) | Fault \<Rightarrow> (Fault, s) | Out_of_fuel \<Rightarrow> (Out_of_fuel, s))"
    using assms(1-4)
    by (auto simp: cil_resolve_alias_to_actual_def bind_def split: outcome.splits)
  note decided = alias_loop_decides [OF assms(5-7), of flavor]
  show ?thesis
  proof (cases "alias_loop s flavor fuel 0 2 a a")
    case (Ok e)
    have "\<exists>e'. chain_leads (alias_link s flavor) a e' \<and>
        s\<lparr>m_alias := (m_alias s)(a \<mapsto> al\<lparr>alias_actual := Some e\<rparr>)\<rparr> =
        s\<lparr>m_alias := (m_alias s)(a \<mapsto> al\<lparr>alias_actual := Some e'\<rparr>)\<rparr>"
      using alias_loop_leads [OF Ok] by (intro exI [of _ e] conjI refl)
    then show ?thesis unfolding run Ok outcome.case prod.case .
  next
    case (Fail e)
    from decided have "e = SEPOL_ERR \<and> \<not> chain_ends (alias_link s flavor) a \<and>
        \<not> chain_dangles (alias_link s flavor) a"
      unfolding Fail obind_simps by (auto split: if_splits)
    then show ?thesis unfolding run Fail outcome.case prod.case by blast
  next
    case Fault
    from decided have "chain_dangles (alias_link s flavor) a"
      unfolding Fault obind_simps by (auto split: if_splits)
    then show ?thesis unfolding run Fault outcome.case prod.case by blast
  next
    case Out_of_fuel
    from decided have False unfolding Out_of_fuel obind_simps by (auto split: if_splits)
    then show ?thesis ..
  qed
qed

definition two_aliases :: "(unit, unit) cil_store" where
  "two_aliases = store0\<lparr>
     nodes := [7 \<mapsto> \<lparr>node_parent = None, node_cl_head = None, node_cl_tail = None, node_next = None,
         node_flavor = CIL_TYPEALIAS, node_line = 1, node_path = None, node_data = Some 4\<rparr>,
       9 \<mapsto> \<lparr>node_parent = None, node_cl_head = None, node_cl_tail = None, node_next = None,
         node_flavor = CIL_TYPE, node_line = 1, node_path = None, node_data = Some 3\<rparr>],
     datums := [4 \<mapsto> \<lparr>datum_name = None, datum_fqn = None, datum_symtab = None, datum_nodes = Some [7]\<rparr>,
       2 \<mapsto> \<lparr>datum_name = None, datum_fqn = None, datum_symtab = None, datum_nodes = Some [7]\<rparr>,
       3 \<mapsto> \<lparr>datum_name = None, datum_fqn = None, datum_symtab = None, datum_nodes = Some [9]\<rparr>],
     m_alias := [4 \<mapsto> \<lparr>alias_actual = Some 2\<rparr>, 2 \<mapsto> \<lparr>alias_actual = Some 3\<rparr>]\<rparr>"

theorem alias_to_actual_decided_witness:
  "case cil_resolve_alias_to_actual 20 7 CIL_TYPE two_aliases of
      (Ok u, t) \<Rightarrow> m_alias t 4 = Some \<lparr>alias_actual = Some 3\<rparr> | _ \<Rightarrow> False"
proof -
  have dom: "dom (m_alias two_aliases) = {4, 2}" by (auto simp: two_aliases_def)
  have fl: "FLAVOR two_aliases (Some 4) = Ok CIL_TYPEALIAS"
    by (simp add: two_aliases_def FLAVOR_def NODE_def)
  have link: "alias_link two_aliases CIL_TYPE 4 = Ok (Some 2)"
      "alias_link two_aliases CIL_TYPE 2 = Ok (Some 3)" "alias_link two_aliases CIL_TYPE 3 = Ok None"
    by (simp_all add: alias_link_def actual_of_def two_aliases_def FLAVOR_def NODE_def)
  have leads: "chain_leads (alias_link two_aliases CIL_TYPE) 4 3"
    using link by (blast intro: chain_leads.intros)
  then have only: "chain_leads (alias_link two_aliases CIL_TYPE) 4 e \<longleftrightarrow> e = 3" for e
    by (blast dest: chain_leads_det)
  have "\<not> chain_dangles (alias_link two_aliases CIL_TYPE) 4"
    using link by (simp add: chain_dangles_simps [of _ 4] chain_dangles_simps [of _ 2] chain_dangles_simps [of _ 3])
  moreover have "chain_ends (alias_link two_aliases CIL_TYPE) 4"
    using leads chain_leads_ends by blast
  moreover obtain nd where nd: "nodes two_aliases 7 = Some nd" "node_data nd = Some 4"
    by (simp add: two_aliases_def)
  moreover have al: "m_alias two_aliases 4 = Some \<lparr>alias_actual = Some 2\<rparr>"
    by (simp add: two_aliases_def)
  ultimately show ?thesis
    using alias_to_actual_decided [OF nd al _ fl, of 20 CIL_TYPE] dom
    by (auto simp: only split: prod.splits outcome.splits)
qed

end
