(* ===== verification/Cil_Verify.thy ===== *)
theory Cil_Verify
  imports Cil_Tree Cil_Chain
begin

text \<open>
  The semantic checks of \<open>src/cil_verify.c\<close> on the resolved database. The functions that only
  read it are functions of the memory; those that run as callbacks of the tree walker are
  operations on a memory that is extended with the counters of \<open>struct cil_args_verify\<close>.
\<close>

subsection \<open>Orders\<close>

definition cil_verify_ordered_node_helper ::
  "('h, 'b, 'z) cil_store_scheme \<Rightarrow> cil_flavor \<Rightarrow> addr \<Rightarrow> unit outcome"
where
  "cil_verify_ordered_node_helper s flavor node =
     obind (deref (nodes s) (Some node)) (\<lambda>nd.
     if node_flavor nd = flavor then
       (if node_flavor nd = CIL_SID then
          obind (deref (m_sid s) (node_data nd)) (\<lambda>sid.
          if \<not> sid_ordered sid then Fail SEPOL_ERR else Ok ())
        else if node_flavor nd = CIL_CLASS then
          obind (deref (m_class s) (node_data nd)) (\<lambda>class.
          if \<not> class_ordered class then Fail SEPOL_ERR else Ok ())
        else if node_flavor nd = CIL_CAT then
          obind (deref (m_cat s) (node_data nd)) (\<lambda>cat.
          if \<not> cat_ordered cat then Fail SEPOL_ERR else Ok ())
        else if node_flavor nd = CIL_SENS then
          obind (deref (m_sens s) (node_data nd)) (\<lambda>sens.
          if \<not> sens_ordered sens then Fail SEPOL_ERR else Ok ())
        else Ok ())
     else Ok ())"

definition cil_verify_ordered ::
  "nat \<Rightarrow> addr option \<Rightarrow> cil_flavor \<Rightarrow> (('h, 'b, 'z) cil_store_scheme, unit) cil"
where
  "cil_verify_ordered fuel current flavor =
     cil_tree_walk fuel
       (check_node (\<lambda>s. cil_verify_ordered_node_helper s flavor)) None None current"

text \<open>All initial SIDs are inspected; the result is an error if one has no context.\<close>

fun verify_initsids :: "('h, 'b, 'z) cil_store_scheme \<Rightarrow> addr list \<Rightarrow> bool outcome" where
  "verify_initsids s [] = Ok True"
| "verify_initsids s (i # is) =
     obind (deref (m_sid s) (Some i)) (\<lambda>sid.
     if sid_context sid = None then
       obind (NODE s (Some i)) (\<lambda>_. obind (verify_initsids s is) (\<lambda>_. Ok False))
     else verify_initsids s is)"

definition cil_verify_initsids :: "('h, 'b, 'z) cil_store_scheme \<Rightarrow> addr list option \<Rightarrow> unit outcome" where
  "cil_verify_initsids s sids =
     obind (not_null sids) (\<lambda>l.
     if l = [] then Fail SEPOL_ERR
     else obind (verify_initsids s l) (\<lambda>ok. if ok then Ok () else Fail SEPOL_ERR))"

subsection \<open>Level ranges\<close>

definition cil_is_cat_in_cats :: "('h, 'b, 'z) cil_store_scheme \<Rightarrow> addr \<Rightarrow> addr option \<Rightarrow> bool outcome" where
  "cil_is_cat_in_cats s cat cats =
     obind (deref (m_cats s) cats) (\<lambda>c.
     obind (not_null (cats_datum_expr c)) (\<lambda>l.
     Ok (list_ex (\<lambda>i. item_data i = Some cat) (list_items l))))"

definition cil_verify_cat_in_cats ::
  "('h, 'b, 'z) cil_store_scheme \<Rightarrow> addr \<Rightarrow> addr option \<Rightarrow> unit outcome"
where
  "cil_verify_cat_in_cats s cat cats =
     obind (cil_is_cat_in_cats s cat cats) (\<lambda>found. if \<not> found then Fail SEPOL_ERR else Ok ())"

fun cat_in_some_cats :: "('h, 'b, 'z) cil_store_scheme \<Rightarrow> addr \<Rightarrow> addr list \<Rightarrow> bool outcome" where
  "cat_in_some_cats s cat [] = Ok False"
| "cat_in_some_cats s cat (j # js) =
     obind (cil_is_cat_in_cats s cat (Some j)) (\<lambda>found.
     if found then Ok True else cat_in_some_cats s cat js)"

fun cats_all_associated ::
  "('h, 'b, 'z) cil_store_scheme \<Rightarrow> addr list \<Rightarrow> cil_item list \<Rightarrow> bool outcome"
where
  "cats_all_associated s cats_list [] = Ok True"
| "cats_all_associated s cats_list (i # is) =
     obind (not_null (item_data i)) (\<lambda>cat.
     obind (cat_in_some_cats s cat cats_list) (\<lambda>ok.
     obind (cats_all_associated s cats_list is) (\<lambda>rest. Ok (ok \<and> rest))))"

definition cil_verify_cats_associated_with_sens ::
  "('h, 'b, 'z) cil_store_scheme \<Rightarrow> addr option \<Rightarrow> addr option \<Rightarrow> unit outcome"
where
  "cil_verify_cats_associated_with_sens s sens cats =
     (case cats of
        None \<Rightarrow> Ok ()
      | Some _ \<Rightarrow>
          obind (deref (m_sens s) sens) (\<lambda>se.
          (case sens_cats_list se of
             None \<Rightarrow> Fail SEPOL_ERR
           | Some cats_list \<Rightarrow>
               obind (deref (m_cats s) cats) (\<lambda>c.
               obind (not_null (cats_datum_expr c)) (\<lambda>l.
               obind (cats_all_associated s cats_list (list_items l)) (\<lambda>ok.
               if ok then Ok () else Fail SEPOL_ERR))))))"

fun sensitivity_loop :: "addr option \<Rightarrow> addr option \<Rightarrow> bool \<Rightarrow> addr list \<Rightarrow> unit outcome" where
  "sensitivity_loop low high found [] = Fail SEPOL_ERR"
| "sensitivity_loop low high found (c # cs) =
     (let found' = (found \<or> Some c = low) in
      if found' \<and> Some c = high then Ok () else sensitivity_loop low high found' cs)"

definition cil_verify_levelrange_sensitivity ::
  "('h, 'b, 'z) cil_store_scheme \<Rightarrow> addr option \<Rightarrow> addr option \<Rightarrow> unit outcome"
where
  "cil_verify_levelrange_sensitivity s low high =
     obind (not_null (sensitivityorder s)) (\<lambda>order. sensitivity_loop low high False order)"

definition cil_verify_levelrange_cats ::
  "('h, 'b, 'z) cil_store_scheme \<Rightarrow> addr option \<Rightarrow> addr option \<Rightarrow> unit outcome"
where
  "cil_verify_levelrange_cats s low high =
     (case low of
        None \<Rightarrow> Ok ()
      | Some _ \<Rightarrow>
          if high = None then Fail SEPOL_ERR
          else
            obind (deref (m_cats s) low) (\<lambda>c.
            obind (not_null (cats_datum_expr c)) (\<lambda>l.
            oeach (\<lambda>i. obind (not_null (item_data i)) (\<lambda>cat. cil_verify_cat_in_cats s cat high))
              (list_items l))))"

definition cil_verify_levelrange :: "('h, 'b, 'z) cil_store_scheme \<Rightarrow> addr option \<Rightarrow> unit outcome" where
  "cil_verify_levelrange s lr =
     obind (deref (m_levelrange s) lr) (\<lambda>r.
     obind (deref (m_level s) (levelrange_low r)) (\<lambda>low.
     obind (deref (m_level s) (levelrange_high r)) (\<lambda>high.
     obind (cil_verify_levelrange_sensitivity s (level_sens low) (level_sens high)) (\<lambda>_.
     obind (cil_verify_levelrange_cats s (level_cats low) (level_cats high)) (\<lambda>_.
     obind (cil_verify_cats_associated_with_sens s (level_sens low) (level_cats low)) (\<lambda>_.
     cil_verify_cats_associated_with_sens s (level_sens high) (level_cats high)))))))"

definition cil_verify_named_levelrange :: "('h, 'b, 'z) cil_store_scheme \<Rightarrow> addr \<Rightarrow> unit outcome" where
  "cil_verify_named_levelrange s node =
     obind (deref (nodes s) (Some node)) (\<lambda>nd. cil_verify_levelrange s (node_data nd))"

subsection \<open>Users\<close>

definition cil_verify_user :: "('h, 'b, 'z) cil_store_scheme \<Rightarrow> nat \<Rightarrow> addr \<Rightarrow> unit outcome" where
  "cil_verify_user s fuel node =
     obind (deref (nodes s) (Some node)) (\<lambda>nd.
     obind (not_null (node_data nd)) (\<lambda>user.
     obind (deref (m_user s) (Some user)) (\<lambda>u.
     if user_dftlevel u = None then Fail SEPOL_ERR
     else if user_range u = None then Fail SEPOL_ERR
     else
       obind (bounds_loop (user_link s) fuel 0 2 user (user_bounds u)) (\<lambda>_.
       obind (is_anonymous s (user_range u)) (\<lambda>anonymous.
       if anonymous then cil_verify_levelrange s (user_range u) else Ok ())))))"

subsection \<open>Contexts\<close>

text \<open>The walk along the sensitivity order: the range of the context has to start at or after the
  low level of the user and to end at or before the high level. The levels' sensitivities are
  read when they are compared.\<close>

fun context_range_loop ::
  "addr option outcome \<Rightarrow> addr option outcome \<Rightarrow> addr option outcome \<Rightarrow> addr option outcome
   \<Rightarrow> bool \<Rightarrow> addr list \<Rightarrow> unit outcome"
where
  "context_range_loop user_low user_high ctx_low ctx_high found [] = Ok ()"
| "context_range_loop user_low user_high ctx_low ctx_high found (sens # rest) =
     obind
       (if found then Ok True
        else
          obind user_low (\<lambda>ul.
          if Some sens = ul then Ok True
          else obind ctx_low (\<lambda>cl. if Some sens = cl then Fail SEPOL_ERR else Ok False)))
       (\<lambda>found'.
       if found' then
         obind ctx_high (\<lambda>ch.
         if Some sens = ch then Ok ()
         else
           obind user_high (\<lambda>uh.
           if Some sens = uh then Fail SEPOL_ERR
           else context_range_loop user_low user_high ctx_low ctx_high found' rest))
       else context_range_loop user_low user_high ctx_low ctx_high found' rest)"

definition sens_of :: "('h, 'b, 'z) cil_store_scheme \<Rightarrow> addr option \<Rightarrow> addr option outcome" where
  "sens_of s level = obind (deref (m_level s) level) (\<lambda>l. Ok (level_sens l))"

definition cil_verify_context ::
  "('h, 'b) sepol \<Rightarrow> ('h, 'b, 'z) cil_store_scheme \<Rightarrow> addr option \<Rightarrow> unit outcome"
where
  "cil_verify_context L s ctx =
     obind (deref (m_context s) ctx) (\<lambda>c.
     obind (deref (m_user s) (context_user c)) (\<lambda>user.
     obind (deref (m_levelrange s) (user_range user)) (\<lambda>urange.
     obind (deref (m_levelrange s) (context_range c)) (\<lambda>crange.
     (case user_roles user of
        None \<Rightarrow> Fail SEPOL_ERR
      | Some roles \<Rightarrow>
          if \<not> list_ex (\<lambda>r. Some r = context_role c) roles then Fail SEPOL_ERR
          else
            obind (deref (m_role s) (context_role c)) (\<lambda>role.
            (case role_types role of
               None \<Rightarrow> Fail SEPOL_ERR
             | Some types \<Rightarrow>
                 obind (deref (m_type s) (context_type c)) (\<lambda>type.
                 if \<not> eb_get_bit L types (unsigned_int (type_value type)) then Fail SEPOL_ERR
                 else
                   obind (is_anonymous s (context_range c)) (\<lambda>anonymous.
                   obind (if anonymous then cil_verify_levelrange s (context_range c) else Ok ()) (\<lambda>_.
                   obind (not_null (sensitivityorder s)) (\<lambda>order.
                   context_range_loop
                     (sens_of s (levelrange_low urange)) (sens_of s (levelrange_high urange))
                     (sens_of s (levelrange_low crange)) (sens_of s (levelrange_high crange))
                     False order)))))))))))"

definition cil_verify_named_context ::
  "('h, 'b) sepol \<Rightarrow> ('h, 'b, 'z) cil_store_scheme \<Rightarrow> addr \<Rightarrow> unit outcome"
where
  "cil_verify_named_context L s node =
     obind (deref (nodes s) (Some node)) (\<lambda>nd. cil_verify_context L s (node_data nd))"

text \<open>The object contexts: a context is verified here only when it is anonymous.\<close>

definition verify_anonymous_context ::
  "('h, 'b) sepol \<Rightarrow> ('h, 'b, 'z) cil_store_scheme \<Rightarrow> addr option \<Rightarrow> unit outcome"
where
  "verify_anonymous_context L s ctx =
     obind (is_anonymous s ctx) (\<lambda>anonymous. if anonymous then cil_verify_context L s ctx else Ok ())"

definition cil_verify_netifcon ::
  "('h, 'b) sepol \<Rightarrow> ('h, 'b, 'z) cil_store_scheme \<Rightarrow> addr \<Rightarrow> unit outcome"
where
  "cil_verify_netifcon L s node =
     obind (deref (nodes s) (Some node)) (\<lambda>nd.
     obind (deref (m_netifcon s) (node_data nd)) (\<lambda>netif.
     obind (verify_anonymous_context L s (netifcon_if_context netif)) (\<lambda>_.
     verify_anonymous_context L s (netifcon_packet_context netif))))"

definition cil_verify_genfscon ::
  "('h, 'b) sepol \<Rightarrow> ('h, 'b, 'z) cil_store_scheme \<Rightarrow> addr \<Rightarrow> unit outcome"
where
  "cil_verify_genfscon L s node =
     obind (deref (nodes s) (Some node)) (\<lambda>nd.
     obind (deref (m_genfscon s) (node_data nd)) (\<lambda>genfs.
     verify_anonymous_context L s (genfscon_context genfs)))"

text \<open>A file context may be absent.\<close>

definition cil_verify_filecon ::
  "('h, 'b) sepol \<Rightarrow> ('h, 'b, 'z) cil_store_scheme \<Rightarrow> addr \<Rightarrow> unit outcome"
where
  "cil_verify_filecon L s node =
     obind (deref (nodes s) (Some node)) (\<lambda>nd.
     obind (deref (m_filecon s) (node_data nd)) (\<lambda>file.
     if filecon_context file = None then Ok ()
     else verify_anonymous_context L s (filecon_context file)))"

definition cil_verify_nodecon ::
  "('h, 'b) sepol \<Rightarrow> ('h, 'b, 'z) cil_store_scheme \<Rightarrow> addr \<Rightarrow> unit outcome"
where
  "cil_verify_nodecon L s node =
     obind (deref (nodes s) (Some node)) (\<lambda>nd.
     obind (deref (m_nodecon s) (node_data nd)) (\<lambda>nc.
     verify_anonymous_context L s (nodecon_context nc)))"

definition cil_verify_portcon ::
  "('h, 'b) sepol \<Rightarrow> ('h, 'b, 'z) cil_store_scheme \<Rightarrow> addr \<Rightarrow> unit outcome"
where
  "cil_verify_portcon L s node =
     obind (deref (nodes s) (Some node)) (\<lambda>nd.
     obind (deref (m_portcon s) (node_data nd)) (\<lambda>port.
     verify_anonymous_context L s (portcon_context port)))"

definition cil_verify_pirqcon ::
  "('h, 'b) sepol \<Rightarrow> ('h, 'b, 'z) cil_store_scheme \<Rightarrow> addr \<Rightarrow> unit outcome"
where
  "cil_verify_pirqcon L s node =
     obind (deref (nodes s) (Some node)) (\<lambda>nd.
     obind (deref (m_pirqcon s) (node_data nd)) (\<lambda>pirq.
     verify_anonymous_context L s (pirqcon_context pirq)))"

definition cil_verify_iomemcon ::
  "('h, 'b) sepol \<Rightarrow> ('h, 'b, 'z) cil_store_scheme \<Rightarrow> addr \<Rightarrow> unit outcome"
where
  "cil_verify_iomemcon L s node =
     obind (deref (nodes s) (Some node)) (\<lambda>nd.
     obind (deref (m_iomemcon s) (node_data nd)) (\<lambda>iomem.
     verify_anonymous_context L s (iomemcon_context iomem)))"

definition cil_verify_ioportcon ::
  "('h, 'b) sepol \<Rightarrow> ('h, 'b, 'z) cil_store_scheme \<Rightarrow> addr \<Rightarrow> unit outcome"
where
  "cil_verify_ioportcon L s node =
     obind (deref (nodes s) (Some node)) (\<lambda>nd.
     obind (deref (m_ioportcon s) (node_data nd)) (\<lambda>ioport.
     verify_anonymous_context L s (ioportcon_context ioport)))"

definition cil_verify_pcidevicecon ::
  "('h, 'b) sepol \<Rightarrow> ('h, 'b, 'z) cil_store_scheme \<Rightarrow> addr \<Rightarrow> unit outcome"
where
  "cil_verify_pcidevicecon L s node =
     obind (deref (nodes s) (Some node)) (\<lambda>nd.
     obind (deref (m_pcidevicecon s) (node_data nd)) (\<lambda>pcidev.
     verify_anonymous_context L s (pcidevicecon_context pcidev)))"

definition cil_verify_fsuse ::
  "('h, 'b) sepol \<Rightarrow> ('h, 'b, 'z) cil_store_scheme \<Rightarrow> addr \<Rightarrow> unit outcome"
where
  "cil_verify_fsuse L s node =
     obind (deref (nodes s) (Some node)) (\<lambda>nd.
     obind (deref (m_fsuse s) (node_data nd)) (\<lambda>fsuse.
     verify_anonymous_context L s (fsuse_context fsuse)))"

subsection \<open>Boolean conditionals\<close>

definition cil_verify_booleanif_helper ::
  "('h, 'b, 'z) cil_store_scheme \<Rightarrow> addr \<Rightarrow> unit outcome"
where
  "cil_verify_booleanif_helper s node =
     obind (deref (nodes s) (Some node)) (\<lambda>nd.
     obind (deref (nodes s) (node_parent nd)) (\<lambda>parent.
     obind (deref (nodes s) (node_parent parent)) (\<lambda>grandparent.
     if node_flavor nd = CIL_AVRULE then
       obind (deref (m_avrule s) (node_data nd)) (\<lambda>avrule.
       if avrule_rule_kind avrule = CIL_AVRULE_NEVERALLOW then Fail SEPOL_ERR else Ok ())
     else if node_flavor nd = CIL_TYPE_RULE \<or> node_flavor nd = CIL_CALL \<or>
         node_flavor nd = CIL_TUNABLEIF \<or> node_flavor nd = CIL_NAMETYPETRANSITION then Ok ()
     else Fail SEPOL_ERR)))"

fun verify_cond_blocks :: "nat \<Rightarrow> nat \<Rightarrow> addr option \<Rightarrow> (('h, 'b, 'z) cil_store_scheme, unit) cil" where
  "verify_cond_blocks walk_fuel 0 cond_block = no_fuel"
| "verify_cond_blocks walk_fuel (Suc fuel) None = ret ()"
| "verify_cond_blocks walk_fuel (Suc fuel) (Some cond_block) =
     bind (cil_tree_walk walk_fuel (check_node cil_verify_booleanif_helper) None None (Some cond_block)) (\<lambda>_.
     bind (rd nodes cond_block) (\<lambda>nd.
     verify_cond_blocks walk_fuel fuel (node_next nd)))"

definition cil_verify_booleanif :: "nat \<Rightarrow> addr \<Rightarrow> (('h, 'b, 'z) cil_store_scheme, unit) cil" where
  "cil_verify_booleanif fuel node =
     bind (rd nodes node) (\<lambda>nd. verify_cond_blocks fuel fuel (node_cl_head nd))"

subsection \<open>Classes and policy capabilities\<close>

fun class_perm_loop ::
  "('h, 'b, 'z) cil_store_scheme \<Rightarrow> nat \<Rightarrow> cstring \<Rightarrow> addr option \<Rightarrow> unit outcome"
where
  "class_perm_loop s 0 com_name curr_class_perm = Out_of_fuel"
| "class_perm_loop s (Suc fuel) com_name None = Ok ()"
| "class_perm_loop s (Suc fuel) com_name (Some curr_class_perm) =
     obind (deref (nodes s) (Some curr_class_perm)) (\<lambda>nd.
     obind (deref (datums s) (node_data nd)) (\<lambda>class_perm.
     if com_name = datum_name class_perm then Fail SEPOL_ERR
     else class_perm_loop s fuel com_name (node_next nd)))"

fun common_perm_loop ::
  "('h, 'b, 'z) cil_store_scheme \<Rightarrow> nat \<Rightarrow> nat \<Rightarrow> addr option \<Rightarrow> addr option \<Rightarrow> unit outcome"
where
  "common_perm_loop s inner_fuel 0 class_perms curr_com_perm = Out_of_fuel"
| "common_perm_loop s inner_fuel (Suc fuel) class_perms None = Ok ()"
| "common_perm_loop s inner_fuel (Suc fuel) class_perms (Some curr_com_perm) =
     obind (deref (nodes s) (Some curr_com_perm)) (\<lambda>nd.
     obind (if class_perms = None then Ok () else
       obind (deref (datums s) (node_data nd)) (\<lambda>com_perm.
       class_perm_loop s inner_fuel (datum_name com_perm) class_perms)) (\<lambda>_.
     common_perm_loop s inner_fuel fuel class_perms (node_next nd)))"

definition cil_verify_class :: "('h, 'b, 'z) cil_store_scheme \<Rightarrow> nat \<Rightarrow> addr \<Rightarrow> unit outcome" where
  "cil_verify_class s fuel node =
     obind (deref (nodes s) (Some node)) (\<lambda>nd.
     obind (deref (m_class s) (node_data nd)) (\<lambda>class.
     (case class_common class of
        None \<Rightarrow> Ok ()
      | Some common \<Rightarrow>
          obind (NODE s (Some common)) (\<lambda>common_node.
          obind (deref (nodes s) (Some common_node)) (\<lambda>cnd.
          common_perm_loop s fuel fuel (node_cl_head nd) (node_cl_head cnd))))))"

text \<open>\<open>SEPOL_ERR\<close> is \<open>-1\<close>.\<close>

definition cil_verify_policycap ::
  "('h, 'b) sepol \<Rightarrow> ('h, 'b, 'z) cil_store_scheme \<Rightarrow> addr \<Rightarrow> unit outcome"
where
  "cil_verify_policycap L s node =
     obind (deref (nodes s) (Some node)) (\<lambda>nd.
     obind (deref (datums s) (node_data nd)) (\<lambda>polcap.
     obind (not_null (datum_name polcap)) (\<lambda>name.
     if polcap_getnum L name = -1 then Fail SEPOL_ERR else Ok ())))"

subsection \<open>The callback of the verification passes\<close>

text \<open>\<open>struct cil_args_verify\<close>; the symbol table \<open>csymtab\<close> is not used by the checks that run.\<close>

record ('h, 'b) verify_store = "('h, 'b) cil_store" +
  avrule_cnt :: int
  handleunknown :: int
  mls :: int
  nseuserdflt :: int
  pass :: nat

definition cil_verify_helper ::
  "('h, 'b) sepol \<Rightarrow> nat \<Rightarrow> addr \<Rightarrow> (('h, 'b, 'z) verify_store_scheme, nat) cil"
where
  "cil_verify_helper L fuel node =
     bind (rd nodes node) (\<lambda>nd.
     if node_flavor nd = CIL_MACRO then ret CIL_TREE_SKIP_HEAD
     else if node_flavor nd = CIL_BLOCK then
       bind (reading (\<lambda>s. deref (m_block s) (node_data nd))) (\<lambda>blk.
       ret (if block_is_abstract blk then CIL_TREE_SKIP_HEAD else CIL_TREE_SKIP_NOTHING))
     else
       bind (gets pass) (\<lambda>pass.
       if pass = 0 then
         (if node_flavor nd = CIL_USER then
            bind (reading (\<lambda>s. cil_verify_user s fuel node)) (\<lambda>_. ret CIL_TREE_SKIP_NOTHING)
          else if node_flavor nd = CIL_SELINUXUSERDEFAULT then
            bind (modify (nseuserdflt_update (\<lambda>n. n + 1))) (\<lambda>_. ret CIL_TREE_SKIP_NOTHING)
          else if node_flavor nd = CIL_ROLE then
            bind (reading (\<lambda>s. cil_verify_role s fuel node)) (\<lambda>_. ret CIL_TREE_SKIP_NOTHING)
          else if node_flavor nd = CIL_TYPE then
            bind (reading (\<lambda>s. cil_verify_type s fuel node)) (\<lambda>_. ret CIL_TREE_SKIP_NOTHING)
          else if node_flavor nd = CIL_AVRULE then
            bind (modify (avrule_cnt_update (\<lambda>n. n + 1))) (\<lambda>_. ret CIL_TREE_SKIP_NOTHING)
          else if node_flavor nd = CIL_HANDLEUNKNOWN then
            bind (gets handleunknown) (\<lambda>v.
            if v \<noteq> -1 then fail SEPOL_ERR
            else
              bind (reading (\<lambda>s. deref (m_handleunknown s) (node_data nd))) (\<lambda>hu.
              bind (modify (handleunknown_update (\<lambda>_. handleunknown_handle_unknown hu))) (\<lambda>_.
              ret CIL_TREE_SKIP_NOTHING)))
          else if node_flavor nd = CIL_MLS then
            bind (gets mls) (\<lambda>v.
            if v \<noteq> -1 then fail SEPOL_ERR
            else
              bind (reading (\<lambda>s. deref (m_mls s) (node_data nd))) (\<lambda>m.
              bind (modify (mls_update (\<lambda>_. mls_value m))) (\<lambda>_.
              ret CIL_TREE_SKIP_NOTHING)))
          else if node_flavor nd = CIL_ROLETRANSITION \<or> node_flavor nd = CIL_TYPE_RULE then
            ret CIL_TREE_SKIP_NOTHING
          else if node_flavor nd = CIL_BOOLEANIF then
            bind (cil_verify_booleanif fuel node) (\<lambda>_. ret CIL_TREE_SKIP_HEAD)
          else if node_flavor nd = CIL_LEVELRANGE then
            bind (reading (\<lambda>s. cil_verify_named_levelrange s node)) (\<lambda>_. ret CIL_TREE_SKIP_NOTHING)
          else if node_flavor nd = CIL_CLASS then
            bind (reading (\<lambda>s. cil_verify_class s fuel node)) (\<lambda>_. ret CIL_TREE_SKIP_NOTHING)
          else if node_flavor nd = CIL_POLICYCAP then
            bind (reading (\<lambda>s. cil_verify_policycap L s node)) (\<lambda>_. ret CIL_TREE_SKIP_NOTHING)
          else ret CIL_TREE_SKIP_NOTHING)
       else if pass = 1 then
         bind (reading (\<lambda>s.
           if node_flavor nd = CIL_CONTEXT then cil_verify_named_context L s node
           else if node_flavor nd = CIL_NETIFCON then cil_verify_netifcon L s node
           else if node_flavor nd = CIL_GENFSCON then cil_verify_genfscon L s node
           else if node_flavor nd = CIL_FILECON then cil_verify_filecon L s node
           else if node_flavor nd = CIL_NODECON then cil_verify_nodecon L s node
           else if node_flavor nd = CIL_PORTCON then cil_verify_portcon L s node
           else if node_flavor nd = CIL_PIRQCON then cil_verify_pirqcon L s node
           else if node_flavor nd = CIL_IOMEMCON then cil_verify_iomemcon L s node
           else if node_flavor nd = CIL_IOPORTCON then cil_verify_ioportcon L s node
           else if node_flavor nd = CIL_PCIDEVICECON then cil_verify_pcidevicecon L s node
           else if node_flavor nd = CIL_FSUSE then cil_verify_fsuse L s node
           else Ok ()))
         (\<lambda>_. ret CIL_TREE_SKIP_NOTHING)
       else fail SEPOL_ERR))"

subsection \<open>Loops in class permissions\<close>

text \<open>The recursion through mapped permissions and permission sets has fuel: the code detects the
  loops that come back to \<open>orig\<close> and no others. The first item of flavor \<open>CIL_CLASSPERMS\<close> whose
  class is a kernel class ends the whole check with success.\<close>

function (sequential) cil_verify_classperms ::
  "('h, 'b, 'z) cil_store_scheme \<Rightarrow> nat \<Rightarrow> classperms_list option \<Rightarrow> addr \<Rightarrow> unit outcome"
and verify_classperms_items ::
  "('h, 'b, 'z) cil_store_scheme \<Rightarrow> nat \<Rightarrow> classperms_list \<Rightarrow> addr \<Rightarrow> unit outcome"
and verify_classperms_perms ::
  "('h, 'b, 'z) cil_store_scheme \<Rightarrow> nat \<Rightarrow> cil_item list \<Rightarrow> addr \<Rightarrow> unit outcome"
where
  "cil_verify_classperms s fuel None orig = Fault"
| "cil_verify_classperms s 0 (Some cps) orig = Out_of_fuel"
| "cil_verify_classperms s (Suc fuel) (Some cps) orig = verify_classperms_items s fuel cps orig"
| "verify_classperms_items s fuel [] orig = Ok ()"
| "verify_classperms_items s fuel ((flavor, a) # rest) orig =
     (if flavor = CIL_CLASSPERMS then
        obind (deref (m_classperms s) (Some a)) (\<lambda>cp.
        obind (FLAVOR s (classperms_class cp)) (\<lambda>class_flavor.
        if class_flavor = CIL_CLASS then Ok ()
        else
          obind (not_null (classperms_perms cp)) (\<lambda>perms.
          obind (verify_classperms_perms s fuel (list_items perms) orig) (\<lambda>_.
          verify_classperms_items s fuel rest orig))))
      else
        obind (deref (m_classperms_set s) (Some a)) (\<lambda>cp_set.
        obind (not_null (classperms_set_set cp_set)) (\<lambda>cp.
        if cp = orig then Fail SEPOL_ERR
        else
          obind (deref (m_classpermission s) (Some cp)) (\<lambda>c.
          obind (cil_verify_classperms s fuel (classpermission_classperms c) orig) (\<lambda>_.
          verify_classperms_items s fuel rest orig)))))"
| "verify_classperms_perms s fuel [] orig = Ok ()"
| "verify_classperms_perms s fuel (i # is) orig =
     obind (not_null (item_data i)) (\<lambda>cmp.
     if cmp = orig then Fail SEPOL_ERR
     else
       obind (deref (m_perm s) (Some cmp)) (\<lambda>p.
       obind (cil_verify_classperms s fuel (perm_classperms p) orig) (\<lambda>_.
       verify_classperms_perms s fuel is orig)))"
  by pat_completeness auto

text \<open>Every call of the outer function uses up fuel; the two loops run over their lists.\<close>

termination
  by (relation "measures
      [\<lambda>x. case x of Inl (s, fuel, cps, orig) \<Rightarrow> 2 * fuel
        | Inr (Inl (s, fuel, l, orig)) \<Rightarrow> 2 * fuel + 1
        | Inr (Inr (s, fuel, l, orig)) \<Rightarrow> 2 * fuel + 1,
       \<lambda>x. case x of Inr (Inl _) \<Rightarrow> 1 | _ \<Rightarrow> 0,
       \<lambda>x. case x of Inl _ \<Rightarrow> 0
        | Inr (Inl (s, fuel, l, orig)) \<Rightarrow> length l
        | Inr (Inr (s, fuel, l, orig)) \<Rightarrow> length l]") simp_all

definition cil_verify_classpermission ::
  "('h, 'b, 'z) cil_store_scheme \<Rightarrow> nat \<Rightarrow> addr \<Rightarrow> unit outcome"
where
  "cil_verify_classpermission s fuel node =
     obind (deref (nodes s) (Some node)) (\<lambda>nd.
     obind (not_null (node_data nd)) (\<lambda>cp.
     obind (deref (m_classpermission s) (Some cp)) (\<lambda>c.
     cil_verify_classperms s fuel (classpermission_classperms c) cp)))"

text \<open>The callback of \<open>cil_symtab_map\<close> goes on after an error, which is kept in \<open>map_args.rc\<close>.\<close>

fun verify_map_perms :: "('h, 'b, 'z) cil_store_scheme \<Rightarrow> nat \<Rightarrow> addr list \<Rightarrow> bool outcome" where
  "verify_map_perms s fuel [] = Ok True"
| "verify_map_perms s fuel (cmp # cmps) =
     obind (deref (m_perm s) (Some cmp)) (\<lambda>p.
     obind (case cil_verify_classperms s fuel (perm_classperms p) cmp of
         Ok _ \<Rightarrow> Ok True | Fail _ \<Rightarrow> Ok False | Fault \<Rightarrow> Fault | Out_of_fuel \<Rightarrow> Out_of_fuel) (\<lambda>ok.
     obind (verify_map_perms s fuel cmps) (\<lambda>rest. Ok (ok \<and> rest))))"

definition cil_verify_map_class ::
  "('h, 'b) sepol \<Rightarrow> ('h, 'b, 'z) cil_store_scheme \<Rightarrow> nat \<Rightarrow> addr \<Rightarrow> unit outcome"
where
  "cil_verify_map_class L s fuel node =
     obind (deref (nodes s) (Some node)) (\<lambda>nd.
     obind (not_null (node_data nd)) (\<lambda>mc.
     obind (case symtabs s (SymPerms mc) of None \<Rightarrow> Fault | Some h \<Rightarrow> Ok h) (\<lambda>h.
     obind (verify_map_perms s fuel (map snd (ht_entries L h))) (\<lambda>ok.
     if ok then Ok () else Fail SEPOL_ERR))))"

definition cil_verify_no_classperms_loop_helper ::
  "('h, 'b) sepol \<Rightarrow> nat \<Rightarrow> addr \<Rightarrow> (('h, 'b, 'z) cil_store_scheme, nat) cil"
where
  "cil_verify_no_classperms_loop_helper L fuel node =
     bind (rd nodes node) (\<lambda>nd.
     if node_flavor nd = CIL_MACRO then ret CIL_TREE_SKIP_HEAD
     else if node_flavor nd = CIL_BLOCK then
       bind (reading (\<lambda>s. deref (m_block s) (node_data nd))) (\<lambda>blk.
       ret (if block_is_abstract blk then CIL_TREE_SKIP_HEAD else CIL_TREE_SKIP_NOTHING))
     else
       bind (reading (\<lambda>s.
         if node_flavor nd = CIL_MAP_CLASS then cil_verify_map_class L s fuel node
         else if node_flavor nd = CIL_CLASSPERMISSION then cil_verify_classpermission s fuel node
         else Ok ()))
       (\<lambda>_. ret CIL_TREE_SKIP_NOTHING))"

definition cil_verify_no_classperms_loop ::
  "('h, 'b) sepol \<Rightarrow> nat \<Rightarrow> (('h, 'b, 'z) cil_store_scheme, unit) cil"
where
  "cil_verify_no_classperms_loop L fuel =
     bind (gets ast_root) (\<lambda>root.
     cil_tree_walk fuel (cil_verify_no_classperms_loop_helper L fuel) None None root)"

subsection \<open>What the range checks decide\<close>

text \<open>\<open>low\<close> comes before \<open>high\<close> in the order, or is the same sensitivity.\<close>

definition dominated :: "addr list \<Rightarrow> addr \<Rightarrow> addr \<Rightarrow> bool" where
  "dominated order low high \<longleftrightarrow>
     (\<exists>i j. i \<le> j \<and> j < length order \<and> order ! i = low \<and> order ! j = high)"

lemma dominated_Cons:
  "dominated (c # cs) low high \<longleftrightarrow> c = low \<and> high \<in> set (c # cs) \<or> dominated cs low high"
proof
  assume "dominated (c # cs) low high"
  then obtain i j where ij: "i \<le> j" "j < length (c # cs)" "(c # cs) ! i = low" "(c # cs) ! j = high"
    by (auto simp: dominated_def)
  show "c = low \<and> high \<in> set (c # cs) \<or> dominated cs low high"
  proof (cases i)
    case 0
    with ij show ?thesis by (auto simp: nth_Cons split: nat.splits)
  next
    case (Suc i')
    with ij obtain j' where "j = Suc j'" by (cases j) auto
    with Suc ij have "dominated cs low high" unfolding dominated_def by auto
    then show ?thesis ..
  qed
next
  assume "c = low \<and> high \<in> set (c # cs) \<or> dominated cs low high"
  then show "dominated (c # cs) low high"
  proof
    assume "c = low \<and> high \<in> set (c # cs)"
    then obtain j where "j < length (c # cs)" "(c # cs) ! j = high" by (metis in_set_conv_nth)
    with \<open>c = low \<and> _\<close> show ?thesis
      unfolding dominated_def by (intro exI [of _ 0] exI [of _ j]) simp
  next
    assume "dominated cs low high"
    then obtain i j where "i \<le> j" "j < length cs" "cs ! i = low" "cs ! j = high"
      by (auto simp: dominated_def)
    then show ?thesis
      unfolding dominated_def by (intro exI [of _ "Suc i"] exI [of _ "Suc j"]) simp
  qed
qed

lemma dominated_Nil [simp]: "\<not> dominated [] low high"
  by (simp add: dominated_def)

lemma sensitivity_loop_found:
  "sensitivity_loop low (Some high) True order = (if high \<in> set order then Ok () else Fail SEPOL_ERR)"
  by (induction order) (auto simp: Let_def)

lemma sensitivity_loop_decides:
  "sensitivity_loop (Some low) (Some high) False order =
    (if dominated order low high then Ok () else Fail SEPOL_ERR)"
proof (induction order)
  case (Cons c cs)
  have "\<not> (dominated cs low high \<and> high \<notin> set cs)"
    by (auto simp: dominated_def)
  with Cons show ?case
    by (cases "c = low") (auto simp: dominated_Cons sensitivity_loop_found Let_def)
qed simp

text \<open>The categories of a level; the members of a category set are its resolved items.\<close>

definition cats_set :: "('h, 'b, 'z) cil_store_scheme \<Rightarrow> addr option \<Rightarrow> addr set" where
  "cats_set s cats =
     (case deref (m_cats s) cats of
        Ok c \<Rightarrow> (case cats_datum_expr c of
            Some l \<Rightarrow> {a. Some a \<in> item_data ` set (list_items l)}
          | None \<Rightarrow> {})
      | _ \<Rightarrow> {})"

text \<open>Category sets as \<open>src/cil_post.c\<close> leaves them: a flat list of categories.\<close>

definition cats_flat :: "('h, 'b, 'z) cil_store_scheme \<Rightarrow> addr \<Rightarrow> bool" where
  "cats_flat s a \<longleftrightarrow>
     (case m_cats s a of None \<Rightarrow> False
      | Some c \<Rightarrow> (case cats_datum_expr c of None \<Rightarrow> False
          | Some l \<Rightarrow> None \<notin> item_data ` set (list_items l)))"

lemma is_cat_in_cats_eq:
  "cats_flat s a \<Longrightarrow> cil_is_cat_in_cats s cat (Some a) = Ok (cat \<in> cats_set s (Some a))"
  by (auto simp: cats_flat_def cil_is_cat_in_cats_def cats_set_def list_ex_iff image_iff
      split: option.splits) metis+

lemma cat_in_some_cats_eq:
  "\<forall>a \<in> set js. cats_flat s a \<Longrightarrow>
   cat_in_some_cats s cat js = Ok (\<exists>a \<in> set js. cat \<in> cats_set s (Some a))"
  by (induction js) (auto simp: is_cat_in_cats_eq)

lemma cats_all_associated_eq:
  assumes "\<forall>a \<in> set js. cats_flat s a" and "None \<notin> item_data ` set is"
  shows "cats_all_associated s js is =
    Ok (\<forall>cat. Some cat \<in> item_data ` set is \<longrightarrow> (\<exists>a \<in> set js. cat \<in> cats_set s (Some a)))"
  using assms(2)
proof (induction "is")
  case (Cons i "is")
  then obtain cat where "item_data i = Some cat" by (cases "item_data i") auto
  with Cons assms(1) show ?case by (simp add: cat_in_some_cats_eq) blast
qed simp

text \<open>The categories that may be used with a sensitivity.\<close>

definition allowed_cats :: "('h, 'b, 'z) cil_store_scheme \<Rightarrow> addr list \<Rightarrow> addr set" where
  "allowed_cats s js = (\<Union>a \<in> set js. cats_set s (Some a))"

lemma cats_associated_decides:
  assumes "m_sens s se = Some sens"
    and "\<And>js. sens_cats_list sens = Some js \<Longrightarrow> \<forall>a \<in> set js. cats_flat s a"
    and "\<And>a. cats = Some a \<Longrightarrow> cats_flat s a"
  shows "cil_verify_cats_associated_with_sens s (Some se) cats =
    (if cats = None \<or> (\<exists>js. sens_cats_list sens = Some js \<and> cats_set s cats \<subseteq> allowed_cats s js)
     then Ok () else Fail SEPOL_ERR)"
proof (cases cats)
  case (Some a)
  with assms(3) obtain c l where c: "m_cats s a = Some c" "cats_datum_expr c = Some l"
    and flat: "None \<notin> item_data ` set (list_items l)"
    by (auto simp: cats_flat_def split: option.splits)
  have set: "cats_set s cats = {a. Some a \<in> item_data ` set (list_items l)}"
    using Some c by (simp add: cats_set_def)
  show ?thesis
  proof (cases "sens_cats_list sens")
    case None
    with Some assms(1) show ?thesis by (simp add: cil_verify_cats_associated_with_sens_def)
  next
    case js: (Some js)
    with cats_all_associated_eq [OF assms(2) [OF js] flat] Some c assms(1) set show ?thesis
      by (auto simp: cil_verify_cats_associated_with_sens_def allowed_cats_def subset_eq)
  qed
qed (simp add: cil_verify_cats_associated_with_sens_def)

lemma levelrange_cats_decides:
  assumes "\<And>a. low = Some a \<Longrightarrow> cats_flat s a" and "\<And>a. high = Some a \<Longrightarrow> cats_flat s a"
  shows "cil_verify_levelrange_cats s low high =
    (if low = None \<or> high \<noteq> None \<and> cats_set s low \<subseteq> cats_set s high then Ok () else Fail SEPOL_ERR)"
proof (cases low)
  case (Some a)
  show ?thesis
  proof (cases high)
    case None
    with Some show ?thesis by (simp add: cil_verify_levelrange_cats_def)
  next
    case (Some b)
    note hb = assms(2) [OF Some]
    from assms(1) \<open>low = Some a\<close> obtain c l where c: "m_cats s a = Some c" "cats_datum_expr c = Some l"
      and flat: "None \<notin> item_data ` set (list_items l)"
      by (auto simp: cats_flat_def split: option.splits)
    have set: "cats_set s low = {a. Some a \<in> item_data ` set (list_items l)}"
      using \<open>low = Some a\<close> c by (simp add: cats_set_def)
    have "oeach (\<lambda>i. obind (not_null (item_data i)) (\<lambda>cat. cil_verify_cat_in_cats s cat (Some b))) is =
        (if {a. Some a \<in> item_data ` set is} \<subseteq> cats_set s (Some b) then Ok () else Fail SEPOL_ERR)"
      if "None \<notin> item_data ` set is" for "is"
      using that
    proof (induction "is")
      case (Cons i "is")
      then obtain cat where "item_data i = Some cat" by (cases "item_data i") auto
      with Cons show ?case
        by (auto simp: cil_verify_cat_in_cats_def is_cat_in_cats_eq [OF hb])
    qed simp
    from this [OF flat] show ?thesis
      using \<open>low = Some a\<close> Some c set by (simp add: cil_verify_levelrange_cats_def)
  qed
qed (simp add: cil_verify_levelrange_cats_def)

text \<open>The walk of a context's range through the order.\<close>

lemma range_loop_inside:
  assumes "distinct order" and "ch < length order" and "uh < length order"
  shows "context_range_loop ul (Ok (Some (order ! uh))) cl (Ok (Some (order ! ch))) True order =
    (if ch \<le> uh then Ok () else Fail SEPOL_ERR)"
  using assms
proof (induction order arbitrary: ch uh)
  case (Cons x xs)
  show ?case
  proof (cases ch)
    case 0
    then show ?thesis by simp
  next
    case (Suc c)
    with Cons.prems have c: "c < length xs" "xs ! c \<noteq> x" by auto
    show ?thesis
    proof (cases uh)
      case 0
      with Suc c show ?thesis by auto
    next
      case u: (Suc u)
      with Cons.prems have "u < length xs" "xs ! u \<noteq> x" by auto
      with Suc u c Cons show ?thesis by auto
    qed
  qed
qed simp

lemma range_loop_decides:
  assumes "distinct order" and "ul \<le> uh" and "uh < length order" and "cl \<le> ch" and "ch < length order"
  shows "context_range_loop (Ok (Some (order ! ul))) (Ok (Some (order ! uh)))
      (Ok (Some (order ! cl))) (Ok (Some (order ! ch))) False order =
    (if ul \<le> cl \<and> ch \<le> uh then Ok () else Fail SEPOL_ERR)"
  using assms
proof (induction order arbitrary: ul uh cl ch)
  case (Cons x xs)
  show ?case
  proof (cases ul)
    case 0
    have "context_range_loop (Ok (Some ((x # xs) ! ul))) (Ok (Some ((x # xs) ! uh)))
        (Ok (Some ((x # xs) ! cl))) (Ok (Some ((x # xs) ! ch))) False (x # xs) =
      context_range_loop (Ok (Some ((x # xs) ! ul))) (Ok (Some ((x # xs) ! uh)))
        (Ok (Some ((x # xs) ! cl))) (Ok (Some ((x # xs) ! ch))) True (x # xs)"
      using 0 by simp
    with range_loop_inside [OF Cons.prems(1,5,3)] 0 show ?thesis by simp
  next
    case (Suc u)
    with Cons.prems obtain uh' where uh: "uh = Suc uh'" by (cases uh) auto
    have u: "u < length xs" "xs ! u \<noteq> x" using Suc uh Cons.prems by auto
    show ?thesis
    proof (cases cl)
      case 0
      with Suc u show ?thesis by auto
    next
      case c: (Suc c)
      with Cons.prems obtain ch' where ch: "ch = Suc ch'" by (cases ch) auto
      have "c < length xs" "xs ! c \<noteq> x" using c ch Cons.prems by auto
      with Suc uh ch c u Cons show ?thesis by auto
    qed
  qed
qed simp

subsection \<open>Properties\<close>

text \<open>The struct of a level range with both its levels: their sensitivities and category sets.\<close>

definition range_levels ::
  "('h, 'b, 'z) cil_store_scheme \<Rightarrow> addr \<Rightarrow> addr \<Rightarrow> addr option \<Rightarrow> addr \<Rightarrow> addr option \<Rightarrow> bool"
where
  "range_levels s lr low_sens low_cats high_sens high_cats \<longleftrightarrow>
     (\<exists>r low high l h. m_levelrange s lr = Some r \<and>
        levelrange_low r = Some low \<and> levelrange_high r = Some high \<and>
        m_level s low = Some l \<and> m_level s high = Some h \<and>
        level_sens l = Some low_sens \<and> level_cats l = low_cats \<and>
        level_sens h = Some high_sens \<and> level_cats h = high_cats)"

text \<open>Sensitivities and category sets as post-processing leaves them.\<close>

definition sens_flat :: "('h, 'b, 'z) cil_store_scheme \<Rightarrow> addr \<Rightarrow> bool" where
  "sens_flat s se \<longleftrightarrow>
     (\<exists>sens. m_sens s se = Some sens \<and>
        (\<forall>js. sens_cats_list sens = Some js \<longrightarrow> (\<forall>a \<in> set js. cats_flat s a)))"

definition level_allowed :: "('h, 'b, 'z) cil_store_scheme \<Rightarrow> addr \<Rightarrow> addr option \<Rightarrow> bool" where
  "level_allowed s se cats \<longleftrightarrow>
     cats = None \<or>
     (\<exists>sens js. m_sens s se = Some sens \<and> sens_cats_list sens = Some js \<and>
        cats_set s cats \<subseteq> allowed_cats s js)"

lemma levelrange_decides:
  assumes "range_levels s lr ls lc hs hc" and "sensitivityorder s = Some order"
    and "sens_flat s ls" and "sens_flat s hs"
    and "\<And>a. lc = Some a \<Longrightarrow> cats_flat s a" and "\<And>a. hc = Some a \<Longrightarrow> cats_flat s a"
  shows "cil_verify_levelrange s (Some lr) =
    (if dominated order ls hs \<and> (lc = None \<or> hc \<noteq> None \<and> cats_set s lc \<subseteq> cats_set s hc) \<and>
        level_allowed s ls lc \<and> level_allowed s hs hc
     then Ok () else Fail SEPOL_ERR)"
proof -
  obtain sl where sl: "m_sens s ls = Some sl"
      "\<And>js. sens_cats_list sl = Some js \<Longrightarrow> \<forall>a \<in> set js. cats_flat s a"
    using assms(3) by (auto simp: sens_flat_def)
  obtain sh where sh: "m_sens s hs = Some sh"
      "\<And>js. sens_cats_list sh = Some js \<Longrightarrow> \<forall>a \<in> set js. cats_flat s a"
    using assms(4) by (auto simp: sens_flat_def)
  have al: "level_allowed s ls lc \<longleftrightarrow>
      lc = None \<or> (\<exists>js. sens_cats_list sl = Some js \<and> cats_set s lc \<subseteq> allowed_cats s js)"
    and ah: "level_allowed s hs hc \<longleftrightarrow>
      hc = None \<or> (\<exists>js. sens_cats_list sh = Some js \<and> cats_set s hc \<subseteq> allowed_cats s js)"
    using sl(1) sh(1) by (auto simp: level_allowed_def)
  have "cil_verify_levelrange s (Some lr) =
      obind (sensitivity_loop (Some ls) (Some hs) False order) (\<lambda>_.
      obind (cil_verify_levelrange_cats s lc hc) (\<lambda>_.
      obind (cil_verify_cats_associated_with_sens s (Some ls) lc) (\<lambda>_.
      cil_verify_cats_associated_with_sens s (Some hs) hc)))"
    using assms(1,2)
    by (auto simp: range_levels_def cil_verify_levelrange_def cil_verify_levelrange_sensitivity_def
        simp del: obind_eq_Ok)
  also have "\<dots> = obind (if dominated order ls hs then Ok () else Fail SEPOL_ERR) (\<lambda>_.
      obind (if lc = None \<or> hc \<noteq> None \<and> cats_set s lc \<subseteq> cats_set s hc then Ok () else Fail SEPOL_ERR) (\<lambda>_.
      obind (if level_allowed s ls lc then Ok () else Fail SEPOL_ERR) (\<lambda>_.
      if level_allowed s hs hc then Ok () else Fail SEPOL_ERR)))"
  proof -
    have e1: "cil_verify_levelrange_cats s lc hc =
        (if lc = None \<or> hc \<noteq> None \<and> cats_set s lc \<subseteq> cats_set s hc then Ok () else Fail SEPOL_ERR)"
      by (rule levelrange_cats_decides) (use assms(5,6) in auto)
    have e2: "cil_verify_cats_associated_with_sens s (Some ls) lc =
        (if level_allowed s ls lc then Ok () else Fail SEPOL_ERR)"
      unfolding al by (rule cats_associated_decides [OF sl]) (use assms(5) in auto)
    have e3: "cil_verify_cats_associated_with_sens s (Some hs) hc =
        (if level_allowed s hs hc then Ok () else Fail SEPOL_ERR)"
      unfolding ah by (rule cats_associated_decides [OF sh]) (use assms(6) in auto)
    show ?thesis unfolding e1 e2 e3 sensitivity_loop_decides ..
  qed
  finally show ?thesis by (simp del: obind_eq_Ok)
qed

text \<open>C2. Level ranges: the verification of a range accepts exactly when the low sensitivity comes
  at or before the high one in the sensitivity order, the categories of the low level are among
  those of the high level, and the categories of each level may be used with its sensitivity;
  otherwise it reports an error.\<close>

theorem levelrange_verified:
  assumes "range_levels s lr ls lc hs hc" and "sensitivityorder s = Some order"
    and "sens_flat s ls" and "sens_flat s hs"
    and "\<forall>a. lc = Some a \<longrightarrow> cats_flat s a" and "\<forall>a. hc = Some a \<longrightarrow> cats_flat s a"
  shows "cil_verify_levelrange s (Some lr) =
    (if dominated order ls hs \<and> (lc = None \<or> hc \<noteq> None \<and> cats_set s lc \<subseteq> cats_set s hc) \<and>
        level_allowed s ls lc \<and> level_allowed s hs hc
     then Ok () else Fail SEPOL_ERR)"
  using levelrange_decides [OF assms(1-4)] assms(5,6) by blast

definition two_levels :: "(unit, unit) cil_store" where
  "two_levels = store0\<lparr>
     sensitivityorder := Some [2, 3],
     m_sens := [2 \<mapsto> \<lparr>sens_cats_list = None, sens_ordered = True\<rparr>,
       3 \<mapsto> \<lparr>sens_cats_list = Some [6], sens_ordered = True\<rparr>],
     m_cats := [6 \<mapsto> \<lparr>cats_evaluated = True, cats_str_expr = Cil_List CIL_CAT [],
       cats_datum_expr = Some (Cil_List CIL_CAT [Item_Datum 8])\<rparr>],
     m_level := [4 \<mapsto> \<lparr>level_sens_str = None, level_sens = Some 2, level_cats = None\<rparr>,
       5 \<mapsto> \<lparr>level_sens_str = None, level_sens = Some 3, level_cats = Some 6\<rparr>],
     m_levelrange := [7 \<mapsto> \<lparr>levelrange_low_str = None, levelrange_low = Some 4,
       levelrange_high_str = None, levelrange_high = Some 5\<rparr>]\<rparr>"

theorem levelrange_verified_witness: "cil_verify_levelrange two_levels (Some 7) = Ok ()"
proof -
  have "range_levels two_levels 7 2 None 3 (Some 6)"
    by (simp add: range_levels_def two_levels_def)
  moreover have "sensitivityorder two_levels = Some [2, 3]"
    "sens_flat two_levels 2" "sens_flat two_levels 3" "cats_flat two_levels 6"
    by (simp_all add: two_levels_def sens_flat_def cats_flat_def)
  moreover have "dominated [2, 3] 2 3"
    unfolding dominated_def by (intro exI [of _ 0] exI [of _ 1]) simp
  moreover have "level_allowed two_levels 2 None" "level_allowed two_levels 3 (Some 6)"
    by (simp_all add: level_allowed_def two_levels_def allowed_cats_def)
  ultimately show ?thesis
    using levelrange_verified [of two_levels 7 2 None 3 "Some 6" "[2, 3]"] by simp
qed

text \<open>C1. Contexts: for a context whose parts are resolved and whose own range and that of its user are well
  ordered, the verification returns the error when the role is not among the user's (or the user has none) or the
  type is not among the role's (or the role has none); otherwise, when its range is anonymous and is not verified, the
  result of the verification of that range; otherwise it accepts exactly when the sensitivities of the range lie
  within those of the user's range, by their positions in the order. The categories of the two ranges are not
  compared.\<close>

theorem context_verified:
  assumes "m_context s ctx = Some c" and "context_user c = Some u" and "m_user s u = Some user"
    and "user_range user = Some ur" and "m_levelrange s ur = Some urange"
    and "context_range c = Some cr" and "m_levelrange s cr = Some crange"
    and "context_role c = Some r" and "m_role s r = Some role"
    and "context_type c = Some ty" and "m_type s ty = Some type"
    and "is_anonymous s (Some cr) = Ok anonymous"
    and "sensitivityorder s = Some order" and "distinct order"
    and "sens_of s (levelrange_low urange) = Ok (Some (order ! ul))"
    and "sens_of s (levelrange_high urange) = Ok (Some (order ! uh))"
    and "sens_of s (levelrange_low crange) = Ok (Some (order ! cl))"
    and "sens_of s (levelrange_high crange) = Ok (Some (order ! ch))"
    and "ul \<le> uh" and "uh < length order" and "cl \<le> ch" and "ch < length order"
  shows "cil_verify_context L s (Some ctx) =
    (if \<not> (\<exists>roles. user_roles user = Some roles \<and> r \<in> set roles) \<or>
        \<not> (\<exists>types. role_types role = Some types \<and> eb_get_bit L types (unsigned_int (type_value type)))
     then Fail SEPOL_ERR
     else if anonymous \<and> cil_verify_levelrange s (Some cr) \<noteq> Ok () then cil_verify_levelrange s (Some cr)
     else if ul \<le> cl \<and> ch \<le> uh then Ok () else Fail SEPOL_ERR)"
proof (cases "user_roles user")
  case None
  then show ?thesis using assms(1-7) by (simp add: cil_verify_context_def del: obind_eq_Ok)
next
  case (Some roles)
  have range: "obind v k = v" if "v \<noteq> Ok ()" for v :: "unit outcome" and k :: "unit \<Rightarrow> unit outcome"
    using that by (cases v) auto
  show ?thesis
    using range_loop_decides [OF assms(14,19-22)] assms(1-13,15-18) Some
    by (cases "role_types role")
       (auto simp: cil_verify_context_def list_ex_iff range simp del: obind_eq_Ok)
qed

definition one_context :: "((string \<times> addr) list, nat list) cil_store" where
  "one_context = store0\<lparr>
     sensitivityorder := Some [2, 3],
     m_level := [4 \<mapsto> \<lparr>level_sens_str = None, level_sens = Some 2, level_cats = None\<rparr>,
       5 \<mapsto> \<lparr>level_sens_str = None, level_sens = Some 3, level_cats = None\<rparr>],
     m_levelrange := [7 \<mapsto> \<lparr>levelrange_low_str = None, levelrange_low = Some 4,
         levelrange_high_str = None, levelrange_high = Some 5\<rparr>,
       8 \<mapsto> \<lparr>levelrange_low_str = None, levelrange_low = Some 5,
         levelrange_high_str = None, levelrange_high = Some 5\<rparr>],
     datums := [8 \<mapsto> \<lparr>datum_name = Some ''r'', datum_fqn = None, datum_symtab = None, datum_nodes = None\<rparr>],
     m_user := [9 \<mapsto> \<lparr>user_bounds = None, user_roles = Some [10], user_dftlevel = Some 4, user_range = Some 7\<rparr>],
     m_role := [10 \<mapsto> \<lparr>role_bounds = None, role_types = Some [5], role_value = 0\<rparr>],
     m_type := [11 \<mapsto> \<lparr>type_bounds = None, type_value = 5\<rparr>],
     m_context := [12 \<mapsto> \<lparr>context_user_str = None, context_user = Some 9, context_role_str = None,
       context_role = Some 10, context_type_str = None, context_type = Some 11,
       context_range_str = None, context_range = Some 8\<rparr>]\<rparr>"

theorem context_verified_witness: "cil_verify_context sepol0 one_context (Some 12) = Ok ()"
  using context_verified [where L = sepol0 and s = one_context and ctx = 12 and order = "[2, 3]"
      and ul = 0 and uh = 1 and cl = 1 and ch = 1
      and u = 9 and ur = 7 and cr = 8 and r = 10 and ty = 11 and anonymous = False]
  by (simp add: one_context_def sens_of_def is_anonymous_def sepol0_def unsigned_int_def)

text \<open>Users: a user is accepted exactly when it has a default level and a range, its chain of
  bounds ends, and its range, if it is anonymous, is verified.\<close>

theorem user_verified:
  assumes "nodes s node = Some nd" and "node_data nd = Some a" and "m_user s a = Some u"
    and "finite (dom (m_user s))" and "3 * card (dom (m_user s)) + 3 < fuel"
  shows "cil_verify_user s fuel node = Ok () \<longleftrightarrow>
    user_dftlevel u \<noteq> None \<and> user_range u \<noteq> None \<and> chain_ends (user_link s) a \<and>
    (\<exists>anonymous. is_anonymous s (user_range u) = Ok anonymous \<and>
       (anonymous \<longrightarrow> cil_verify_levelrange s (user_range u) = Ok ()))"
proof -
  have link: "user_link s a = Ok (user_bounds u)" using assms(3) by (simp add: user_link_def)
  have "obind (user_link s a) (\<lambda>u2. bounds_loop (user_link s) fuel 0 2 a u2) =
      (if chain_ends (user_link s) a then Ok ()
       else if chain_dangles (user_link s) a then Fault else Fail SEPOL_ERR)"
    by (rule user_chain.bounds_loop_decides [OF assms(4) has_next_user assms(5)]) auto
  then have "bounds_loop (user_link s) fuel 0 2 a (user_bounds u) = Ok () \<longleftrightarrow> chain_ends (user_link s) a"
    unfolding link obind_simps by simp
  moreover have "cil_verify_user s fuel node =
      (if user_dftlevel u = None then Fail SEPOL_ERR else if user_range u = None then Fail SEPOL_ERR
       else obind (bounds_loop (user_link s) fuel 0 2 a (user_bounds u)) (\<lambda>_.
         obind (is_anonymous s (user_range u)) (\<lambda>anonymous.
         if anonymous then cil_verify_levelrange s (user_range u) else Ok ())))"
    using assms(1-3) by (simp add: cil_verify_user_def del: obind_eq_Ok)
  ultimately show ?thesis by (simp add: ex_bool_eq)
qed

definition one_user :: "((string \<times> addr) list, nat list) cil_store" where
  "one_user = one_context\<lparr>
     datums := [7 \<mapsto> \<lparr>datum_name = Some ''r'', datum_fqn = None, datum_symtab = None, datum_nodes = None\<rparr>],
     nodes := [2 \<mapsto> \<lparr>node_parent = None, node_cl_head = None, node_cl_tail = None, node_next = None,
       node_flavor = CIL_USER, node_line = 1, node_path = None, node_data = Some 9\<rparr>]\<rparr>"

theorem user_verified_witness: "cil_verify_user one_user 20 2 = Ok ()"
proof -
  obtain nd u where "nodes one_user 2 = Some nd" "node_data nd = Some 9" "m_user one_user 9 = Some u"
    and u: "user_dftlevel u = Some 4" "user_range u = Some 7" "user_bounds u = None"
    by (simp add: one_user_def one_context_def)
  moreover have "chain_ends (user_link one_user) 9"
    by (rule ends_here) (simp add: user_link_def one_user_def one_context_def)
  moreover have "dom (m_user one_user) = {9}" by (auto simp: one_user_def one_context_def)
  moreover have "is_anonymous one_user (Some 7) = Ok False"
    by (simp add: is_anonymous_def one_user_def)
  ultimately show ?thesis
    using user_verified [of one_user 2 nd 9 u 20] by auto
qed

text \<open>The walk that verifies an order reaches every node of the tree: it succeeds exactly when
  every node of the given flavor below the root is marked as ordered, and changes nothing.\<close>

theorem ordered_verified:
  assumes "nodes s root = Some nd" and "forest_at s (node_cl_head nd) ts" and "forest_size ts < fuel"
  shows "cil_verify_ordered fuel (Some root) flavor s = (Ok (), t) \<longleftrightarrow>
    t = s \<and> (\<forall>a \<in> forest_addrs ts. cil_verify_ordered_node_helper s flavor a = Ok ())"
  unfolding cil_verify_ordered_def by (rule cil_tree_walk_check_node [OF assms])

definition cat_tree :: "(unit, unit) cil_store" where
  "cat_tree = store0\<lparr>
     m_cat := [6 \<mapsto> \<lparr>cat_ordered = True, cat_value = 0\<rparr>],
     nodes := [2 \<mapsto> \<lparr>node_parent = None, node_cl_head = Some 3, node_cl_tail = Some 4, node_next = None,
         node_flavor = CIL_ROOT, node_line = 1, node_path = None, node_data = None\<rparr>,
       3 \<mapsto> \<lparr>node_parent = Some 2, node_cl_head = None, node_cl_tail = None, node_next = Some 4,
         node_flavor = CIL_TYPE, node_line = 1, node_path = None, node_data = None\<rparr>,
       4 \<mapsto> \<lparr>node_parent = Some 2, node_cl_head = None, node_cl_tail = None, node_next = None,
         node_flavor = CIL_CAT, node_line = 1, node_path = None, node_data = Some 6\<rparr>]\<rparr>"

theorem ordered_verified_witness: "fst (cil_verify_ordered 20 (Some 2) CIL_CAT cat_tree) = Ok ()"
proof -
  obtain nd where nd: "nodes cat_tree 2 = Some nd" by (simp add: cat_tree_def)
  then have "forest_at cat_tree (node_cl_head nd) [Ast 3 [], Ast 4 []]"
    by (auto simp: cat_tree_def)
  then have "cil_verify_ordered 20 (Some 2) CIL_CAT cat_tree = (Ok (), cat_tree)"
    using ordered_verified [OF nd, of _ 20 CIL_CAT cat_tree]
    by (fastforce simp: cil_verify_ordered_node_helper_def cat_tree_def)
  then show ?thesis by simp
qed

end
