(* ===== verification/Cil_Expr.thy ===== *)
theory Cil_Expr
  imports Cil_Store
begin

text \<open>
  The expansion of resolved expressions to bitmaps (\<open>src/cil_post.c\<close>): set expressions over types,
  roles, permissions and categories, and the evaluation of the attributes and category sets
  that expressions mention.

  An expression is a finite tree, so the functions that run over one are structural; the
  recursion from an attribute to the expressions that define it has fuel. They are
  parameterised by the function \<open>ev\<close> that expands a datum of a flavor, and \<open>datum_to_bitmap\<close> ties
  the knot. The bitmaps are those of \<open>libsepol\<close>.
\<close>

subsection \<open>Bitmap operations\<close>

text \<open>The result of a bitmap operation; any non-zero code is an error to the callers.\<close>

definition checked :: "'x option \<Rightarrow> ('s, 'x) cil" where
  "checked r = (case r of None \<Rightarrow> fail SEPOL_ERR | Some b \<Rightarrow> ret b)"

text \<open>\<open>ebitmap_union(dst, e)\<close>: its code is ignored, and on failure \<open>dst\<close> is unchanged.\<close>

definition ebitmap_union :: "('h, 'b) sepol \<Rightarrow> 'b \<Rightarrow> 'b \<Rightarrow> 'b" where
  "ebitmap_union L dst e = (case eb_union L dst e of Some b \<Rightarrow> b | None \<Rightarrow> dst)"

fun verify_is_list ::
  "('h, 'b, 'z) cil_store_scheme \<Rightarrow> cil_flavor \<Rightarrow> cil_item list \<Rightarrow> bool outcome"
where
  "verify_is_list s flavor [] = Ok True"
| "verify_is_list s flavor (i # is) =
     (if item_flavor i = CIL_LIST then Ok False
      else if item_flavor i = CIL_OP then Ok False
      else if flavor = CIL_CAT then
        obind (FLAVOR s (item_data i)) (\<lambda>f.
        if f = CIL_CATSET then Ok False else verify_is_list s flavor is)
      else verify_is_list s flavor is)"

definition cil_verify_is_list ::
  "('h, 'b, 'z) cil_store_scheme \<Rightarrow> cil_list option \<Rightarrow> cil_flavor \<Rightarrow> bool outcome"
where
  "cil_verify_is_list s l flavor =
     obind (not_null l) (\<lambda>l. verify_is_list s flavor (list_items l))"

subsection \<open>Set expressions\<close>

text \<open>A range of categories: both ends are categories or aliases of categories.\<close>

definition range_end :: "('h, 'b, 'z) cil_store_scheme \<Rightarrow> cil_item \<Rightarrow> int outcome" where
  "range_end s i =
     obind (FLAVOR s (item_data i)) (\<lambda>f.
     if f = CIL_CATSET then Fail SEPOL_ERR
     else if f = CIL_CATALIAS then
       obind (deref (m_alias s) (item_data i)) (\<lambda>alias.
       obind (deref (m_cat s) (alias_actual alias)) (\<lambda>c. Ok (cat_value c)))
     else obind (deref (m_cat s) (item_data i)) (\<lambda>c. Ok (cat_value c)))"

fun set_bits :: "('h, 'b) sepol \<Rightarrow> int list \<Rightarrow> 'b \<Rightarrow> 'b option" where
  "set_bits L [] b = Some b"
| "set_bits L (i # is) b =
     (case eb_set_bit L b (unsigned_int i) of None \<Rightarrow> None | Some b' \<Rightarrow> set_bits L is b')"

definition cil_expr_range_to_bitmap_helper ::
  "('h, 'b) sepol \<Rightarrow> cil_item \<Rightarrow> cil_item \<Rightarrow> 'b \<Rightarrow> (('h, 'b, 'z) cil_store_scheme, 'b) cil"
where
  "cil_expr_range_to_bitmap_helper L i1 i2 bitmap =
     bind (reading (\<lambda>s. FLAVOR s (item_data i1))) (\<lambda>_.
     bind (reading (\<lambda>s. FLAVOR s (item_data i2))) (\<lambda>_.
     bind (reading (\<lambda>s. range_end s i1)) (\<lambda>v1.
     bind (reading (\<lambda>s. range_end s i2)) (\<lambda>v2.
     checked (set_bits L [v1..v2] bitmap)))))"

text \<open>\<open>__cil_expr_to_bitmap\<close> and its helper. A missing operand is a null list item.\<close>

function (sequential) cil_expr_to_bitmap_helper ::
  "('h, 'b) sepol \<Rightarrow> (cil_flavor \<Rightarrow> addr \<Rightarrow> (('h, 'b, 'z) cil_store_scheme, 'b) cil) \<Rightarrow> int
   \<Rightarrow> cil_flavor \<Rightarrow> cil_item \<Rightarrow> (('h, 'b, 'z) cil_store_scheme, 'b) cil"
and cil_expr_to_bitmap ::
  "('h, 'b) sepol \<Rightarrow> (cil_flavor \<Rightarrow> addr \<Rightarrow> (('h, 'b, 'z) cil_store_scheme, 'b) cil) \<Rightarrow> int
   \<Rightarrow> cil_list \<Rightarrow> 'b \<Rightarrow> (('h, 'b, 'z) cil_store_scheme, 'b) cil"
and expr_operands ::
  "('h, 'b) sepol \<Rightarrow> (cil_flavor \<Rightarrow> addr \<Rightarrow> (('h, 'b, 'z) cil_store_scheme, 'b) cil) \<Rightarrow> int
   \<Rightarrow> cil_flavor \<Rightarrow> cil_item list \<Rightarrow> 'b \<Rightarrow> (('h, 'b, 'z) cil_store_scheme, 'b) cil"
where
  "cil_expr_to_bitmap_helper L ev maxbit flavor (Item_Datum d) = ev flavor d"
| "cil_expr_to_bitmap_helper L ev maxbit flavor (Item_List l) = cil_expr_to_bitmap L ev maxbit l (eb_init L)"
| "cil_expr_to_bitmap_helper L ev maxbit flavor i = fail SEPOL_ERR"
| "cil_expr_to_bitmap L ev maxbit (Cil_List flavor []) out = ret out"
| "cil_expr_to_bitmap L ev maxbit (Cil_List flavor (Item_Op op # operands)) out =
     bind
       (if op = CIL_ALL then checked (eb_not L (eb_init L) (unsigned_int maxbit))
        else if op = CIL_RANGE then
          (if flavor \<noteq> CIL_CAT then fail SEPOL_ERR
           else
             (case operands of
                i1 # i2 # _ \<Rightarrow> cil_expr_range_to_bitmap_helper L i1 i2 (eb_init L)
              | _ \<Rightarrow> fault))
        else
          (case operands of
             [] \<Rightarrow> fault
           | i1 # operands' \<Rightarrow>
               bind (cil_expr_to_bitmap_helper L ev maxbit flavor i1) (\<lambda>b1.
               if op = CIL_NOT then checked (eb_not L b1 (unsigned_int maxbit))
               else
                 (case operands' of
                    [] \<Rightarrow> fault
                  | i2 # _ \<Rightarrow>
                      bind (cil_expr_to_bitmap_helper L ev maxbit flavor i2) (\<lambda>b2.
                      if op = CIL_OR then checked (eb_or L b1 b2)
                      else if op = CIL_AND then checked (eb_and L b1 b2)
                      else if op = CIL_XOR then checked (eb_xor L b1 b2)
                      else fail SEPOL_ERR)))))
       (\<lambda>tmp. ret (ebitmap_union L out tmp))"
| "cil_expr_to_bitmap L ev maxbit (Cil_List flavor items) out =
     bind (expr_operands L ev maxbit flavor items (eb_init L)) (\<lambda>tmp. ret (ebitmap_union L out tmp))"
| "expr_operands L ev maxbit flavor [] tmp = ret tmp"
| "expr_operands L ev maxbit flavor (i # is) tmp =
     bind (cil_expr_to_bitmap_helper L ev maxbit flavor i) (\<lambda>b2.
     bind (checked (eb_or L tmp b2)) (\<lambda>tmp'.
     expr_operands L ev maxbit flavor is tmp'))"
  by pat_completeness auto

termination
  by (relation "measure (\<lambda>x. case x of
        Inl (L, ev, maxbit, flavor, i) \<Rightarrow> 2 * size i
      | Inr (Inl (L, ev, maxbit, l, out)) \<Rightarrow> Suc (2 * size l)
      | Inr (Inr (L, ev, maxbit, flavor, is, tmp)) \<Rightarrow> Suc (2 * size_list size is))") auto

text \<open>A null or empty expression leaves the bitmap as it is.\<close>

definition expr_opt_to_bitmap ::
  "('h, 'b) sepol \<Rightarrow> (cil_flavor \<Rightarrow> addr \<Rightarrow> (('h, 'b, 'z) cil_store_scheme, 'b) cil) \<Rightarrow> int
   \<Rightarrow> cil_list option \<Rightarrow> 'b \<Rightarrow> (('h, 'b, 'z) cil_store_scheme, 'b) cil"
where
  "expr_opt_to_bitmap L ev maxbit expr out =
     (case expr of None \<Rightarrow> ret out | Some l \<Rightarrow> cil_expr_to_bitmap L ev maxbit l out)"

text \<open>\<open>__cil_expr_list_to_bitmap\<close> writes to a bitmap in memory: \<open>put\<close> stores it. Every error of an
  expression becomes \<open>SEPOL_ERR\<close>.\<close>

fun expr_list_loop ::
  "('h, 'b) sepol \<Rightarrow> (cil_flavor \<Rightarrow> addr \<Rightarrow> (('h, 'b, 'z) cil_store_scheme, 'b) cil) \<Rightarrow> int
   \<Rightarrow> ('b \<Rightarrow> (('h, 'b, 'z) cil_store_scheme, unit) cil) \<Rightarrow> cil_list list \<Rightarrow> 'b
   \<Rightarrow> (('h, 'b, 'z) cil_store_scheme, 'b) cil"
where
  "expr_list_loop L ev maxbit put [] out = ret out"
| "expr_list_loop L ev maxbit put (l # ls) out =
     bind (attempt (cil_expr_to_bitmap L ev maxbit l (eb_init L))) (\<lambda>rc.
     case rc of
       Inl _ \<Rightarrow> fail SEPOL_ERR
     | Inr bitmap \<Rightarrow>
         bind (put (ebitmap_union L out bitmap)) (\<lambda>_.
         expr_list_loop L ev maxbit put ls (ebitmap_union L out bitmap)))"

definition cil_expr_list_to_bitmap ::
  "('h, 'b) sepol \<Rightarrow> (cil_flavor \<Rightarrow> addr \<Rightarrow> (('h, 'b, 'z) cil_store_scheme, 'b) cil) \<Rightarrow> int
   \<Rightarrow> ('b \<Rightarrow> (('h, 'b, 'z) cil_store_scheme, unit) cil) \<Rightarrow> cil_list list option
   \<Rightarrow> (('h, 'b, 'z) cil_store_scheme, 'b) cil"
where
  "cil_expr_list_to_bitmap L ev maxbit put expr_list =
     bind (put (eb_init L)) (\<lambda>_.
     case expr_list of
       None \<Rightarrow> ret (eb_init L)
     | Some ls \<Rightarrow> expr_list_loop L ev maxbit put ls (eb_init L))"

subsection \<open>Data\<close>

definition cil_perm_to_bitmap ::
  "('h, 'b) sepol \<Rightarrow> addr \<Rightarrow> (('h, 'b, 'z) cil_store_scheme, 'b) cil"
where
  "cil_perm_to_bitmap L datum =
     bind (rd m_perm datum) (\<lambda>perm.
     checked (eb_set_bit L (eb_init L) (unat (perm_value perm))))"

text \<open>\<open>__evaluate_type_expression\<close> and \<open>__evaluate_role_expression\<close>: the bitmap is built in place, so
  that an attribute that is defined through itself meets the part built so far.\<close>

definition evaluate_type_expression ::
  "('h, 'b) sepol \<Rightarrow> (cil_flavor \<Rightarrow> addr \<Rightarrow> (('h, 'b, 'z) cil_store_scheme, 'b) cil) \<Rightarrow> addr
   \<Rightarrow> (('h, 'b, 'z) cil_store_scheme, 'b) cil"
where
  "evaluate_type_expression L ev attr =
     (let put = (\<lambda>p. wr m_typeattribute m_typeattribute_update attr (typeattribute_types_update (\<lambda>_. p))) in
      bind (put (Some (eb_init L))) (\<lambda>_.
      bind (rd m_typeattribute attr) (\<lambda>a.
      bind (gets num_types) (\<lambda>n.
      bind (attempt (cil_expr_list_to_bitmap L ev n (\<lambda>b. put (Some b)) (typeattribute_expr_list a))) (\<lambda>rc.
      case rc of
        Inl e \<Rightarrow> bind (put None) (\<lambda>_. fail e)
      | Inr b \<Rightarrow> ret b)))))"

definition evaluate_role_expression ::
  "('h, 'b) sepol \<Rightarrow> (cil_flavor \<Rightarrow> addr \<Rightarrow> (('h, 'b, 'z) cil_store_scheme, 'b) cil) \<Rightarrow> addr
   \<Rightarrow> (('h, 'b, 'z) cil_store_scheme, 'b) cil"
where
  "evaluate_role_expression L ev attr =
     (let put = (\<lambda>p. wr m_roleattribute m_roleattribute_update attr (roleattribute_roles_update (\<lambda>_. p))) in
      bind (put (Some (eb_init L))) (\<lambda>_.
      bind (rd m_roleattribute attr) (\<lambda>a.
      bind (gets num_roles) (\<lambda>n.
      bind (attempt (cil_expr_list_to_bitmap L ev n (\<lambda>b. put (Some b)) (roleattribute_expr_list a))) (\<lambda>rc.
      case rc of
        Inl e \<Rightarrow> bind (put None) (\<lambda>_. fail e)
      | Inr b \<Rightarrow> ret b)))))"

definition cil_type_to_bitmap ::
  "('h, 'b) sepol \<Rightarrow> (cil_flavor \<Rightarrow> addr \<Rightarrow> (('h, 'b, 'z) cil_store_scheme, 'b) cil) \<Rightarrow> addr
   \<Rightarrow> (('h, 'b, 'z) cil_store_scheme, 'b) cil"
where
  "cil_type_to_bitmap L ev datum =
     bind (reading (\<lambda>s. FLAVOR s (Some datum))) (\<lambda>flavor.
     if flavor = CIL_TYPEATTRIBUTE then
       bind (rd m_typeattribute datum) (\<lambda>attr.
       bind (if typeattribute_types attr = None
         then bind (evaluate_type_expression L ev datum) (\<lambda>_. ret ()) else ret ()) (\<lambda>_.
       bind (rd m_typeattribute datum) (\<lambda>attr.
       bind (lift (not_null (typeattribute_types attr))) (\<lambda>types.
       ret (ebitmap_union L (eb_init L) types)))))
     else if flavor = CIL_TYPEALIAS then
       bind (rd m_alias datum) (\<lambda>alias.
       bind (reading (\<lambda>s. deref (m_type s) (alias_actual alias))) (\<lambda>type.
       checked (eb_set_bit L (eb_init L) (unsigned_int (type_value type)))))
     else
       bind (rd m_type datum) (\<lambda>type.
       checked (eb_set_bit L (eb_init L) (unsigned_int (type_value type)))))"

definition cil_role_to_bitmap ::
  "('h, 'b) sepol \<Rightarrow> (cil_flavor \<Rightarrow> addr \<Rightarrow> (('h, 'b, 'z) cil_store_scheme, 'b) cil) \<Rightarrow> addr
   \<Rightarrow> (('h, 'b, 'z) cil_store_scheme, 'b) cil"
where
  "cil_role_to_bitmap L ev datum =
     bind (reading (\<lambda>s. FLAVOR s (Some datum))) (\<lambda>flavor.
     if flavor = CIL_ROLEATTRIBUTE then
       bind (rd m_roleattribute datum) (\<lambda>attr.
       bind (if roleattribute_roles attr = None
         then bind (evaluate_role_expression L ev datum) (\<lambda>_. ret ()) else ret ()) (\<lambda>_.
       bind (rd m_roleattribute datum) (\<lambda>attr.
       bind (lift (not_null (roleattribute_roles attr))) (\<lambda>roles.
       ret (ebitmap_union L (eb_init L) roles)))))
     else
       bind (rd m_role datum) (\<lambda>role.
       checked (eb_set_bit L (eb_init L) (unsigned_int (role_value role)))))"

text \<open>\<open>__evaluate_cat_expression\<close>: the expression of a category set is replaced by the categories of
  its bitmap, in the category order; by a null pointer if there are none.\<close>

fun cats_of_bitmap ::
  "('h, 'b) sepol \<Rightarrow> ('h, 'b, 'z) cil_store_scheme \<Rightarrow> 'b \<Rightarrow> addr list \<Rightarrow> cil_item list outcome"
where
  "cats_of_bitmap L s bitmap [] = Ok []"
| "cats_of_bitmap L s bitmap (a # as) =
     obind (deref (m_cat s) (Some a)) (\<lambda>cat.
     obind (cats_of_bitmap L s bitmap as) (\<lambda>is.
     Ok (if eb_get_bit L bitmap (unsigned_int (cat_value cat)) then Item_Datum a # is else is)))"

definition evaluate_cat_expression ::
  "('h, 'b) sepol \<Rightarrow> (cil_flavor \<Rightarrow> addr \<Rightarrow> (('h, 'b, 'z) cil_store_scheme, 'b) cil) \<Rightarrow> addr
   \<Rightarrow> (('h, 'b, 'z) cil_store_scheme, unit) cil"
where
  "evaluate_cat_expression L ev cats =
     bind (rd m_cats cats) (\<lambda>c.
     if cats_evaluated c then ret ()
     else
       bind (reading (\<lambda>s. cil_verify_is_list s (cats_datum_expr c) CIL_CAT)) (\<lambda>flat.
       if flat then ret ()
       else
         bind (gets num_cats) (\<lambda>n.
         bind (expr_opt_to_bitmap L ev n (cats_datum_expr c) (eb_init L)) (\<lambda>bitmap.
         bind (gets catorder) (\<lambda>order.
         bind (lift (not_null order)) (\<lambda>order.
         bind (reading (\<lambda>s. cats_of_bitmap L s bitmap order)) (\<lambda>new.
         bind (wr m_cats m_cats_update cats (cats_datum_expr_update
           (\<lambda>_. if new \<noteq> [] then Some (Cil_List CIL_CAT new) else None))) (\<lambda>_.
         wr m_cats m_cats_update cats (cats_evaluated_update (\<lambda>_. True))))))))))"

fun cats_bits ::
  "('h, 'b) sepol \<Rightarrow> cil_item list \<Rightarrow> 'b \<Rightarrow> (('h, 'b, 'z) cil_store_scheme, 'b) cil"
where
  "cats_bits L [] bitmap = ret bitmap"
| "cats_bits L (i # is) bitmap =
     bind (reading (\<lambda>s. deref (m_cat s) (item_data i))) (\<lambda>cat.
     bind (checked (eb_set_bit L bitmap (unsigned_int (cat_value cat)))) (\<lambda>bitmap'.
     cats_bits L is bitmap'))"

definition cil_cat_to_bitmap ::
  "('h, 'b) sepol \<Rightarrow> (cil_flavor \<Rightarrow> addr \<Rightarrow> (('h, 'b, 'z) cil_store_scheme, 'b) cil) \<Rightarrow> addr
   \<Rightarrow> (('h, 'b, 'z) cil_store_scheme, 'b) cil"
where
  "cil_cat_to_bitmap L ev datum =
     bind (reading (\<lambda>s. FLAVOR s (Some datum))) (\<lambda>flavor.
     if flavor = CIL_CATSET then
       bind (rd m_catset datum) (\<lambda>catset.
       bind (lift (not_null (catset_cats catset))) (\<lambda>cats.
       bind (rd m_cats cats) (\<lambda>c.
       bind (if \<not> cats_evaluated c then evaluate_cat_expression L ev cats else ret ()) (\<lambda>_.
       bind (rd m_cats cats) (\<lambda>c.
       bind (lift (not_null (cats_datum_expr c))) (\<lambda>l.
       cats_bits L (list_items l) (eb_init L)))))))
     else if flavor = CIL_CATALIAS then
       bind (rd m_alias datum) (\<lambda>alias.
       bind (reading (\<lambda>s. deref (m_cat s) (alias_actual alias))) (\<lambda>cat.
       checked (eb_set_bit L (eb_init L) (unsigned_int (cat_value cat)))))
     else
       bind (rd m_cat datum) (\<lambda>cat.
       checked (eb_set_bit L (eb_init L) (unsigned_int (cat_value cat)))))"

text \<open>The switch on the flavor of the expression, with the recursion through attributes.\<close>

fun datum_to_bitmap ::
  "('h, 'b) sepol \<Rightarrow> nat \<Rightarrow> cil_flavor \<Rightarrow> addr \<Rightarrow> (('h, 'b, 'z) cil_store_scheme, 'b) cil"
where
  "datum_to_bitmap L 0 flavor d = no_fuel"
| "datum_to_bitmap L (Suc fuel) flavor d =
     (if flavor = CIL_TYPE then cil_type_to_bitmap L (datum_to_bitmap L fuel) d
      else if flavor = CIL_ROLE then cil_role_to_bitmap L (datum_to_bitmap L fuel) d
      else if flavor = CIL_PERM then cil_perm_to_bitmap L d
      else if flavor = CIL_CAT then cil_cat_to_bitmap L (datum_to_bitmap L fuel) d
      else fail SEPOL_ERR)"

subsection \<open>The meaning of an expression\<close>

definition bits :: "('h, 'b) sepol \<Rightarrow> 'b \<Rightarrow> nat set" where
  "bits L b = {j. eb_get_bit L b j}"

text \<open>\<open>den f d\<close> is the set a datum stands for, \<open>ends\<close> the value of the end of a range, and \<open>n\<close> the
  number of elements there are.\<close>

fun item_sem ::
  "(cil_flavor \<Rightarrow> addr \<Rightarrow> nat set) \<Rightarrow> (cil_item \<Rightarrow> int) \<Rightarrow> nat \<Rightarrow> cil_flavor \<Rightarrow> cil_item \<Rightarrow> nat set"
and list_sem ::
  "(cil_flavor \<Rightarrow> addr \<Rightarrow> nat set) \<Rightarrow> (cil_item \<Rightarrow> int) \<Rightarrow> nat \<Rightarrow> cil_list \<Rightarrow> nat set"
and items_sem ::
  "(cil_flavor \<Rightarrow> addr \<Rightarrow> nat set) \<Rightarrow> (cil_item \<Rightarrow> int) \<Rightarrow> nat \<Rightarrow> cil_flavor \<Rightarrow> cil_item list \<Rightarrow> nat set"
where
  "item_sem den ends n f (Item_Datum d) = den f d"
| "item_sem den ends n f (Item_List l) = list_sem den ends n l"
| "item_sem den ends n f i = {}"
| "list_sem den ends n (Cil_List f (Item_Op op # operands)) =
     (if op = CIL_ALL then {..<n}
      else if op = CIL_RANGE then
        (case operands of i1 # i2 # _ \<Rightarrow> unsigned_int ` {ends i1..ends i2} | _ \<Rightarrow> {})
      else
        (case operands of
           [] \<Rightarrow> {}
         | i1 # operands' \<Rightarrow>
             if op = CIL_NOT then {..<n} - item_sem den ends n f i1
             else
               (case operands' of
                  [] \<Rightarrow> {}
                | i2 # _ \<Rightarrow>
                    if op = CIL_OR then item_sem den ends n f i1 \<union> item_sem den ends n f i2
                    else if op = CIL_AND then item_sem den ends n f i1 \<inter> item_sem den ends n f i2
                    else (item_sem den ends n f i1 - item_sem den ends n f i2) \<union>
                      (item_sem den ends n f i2 - item_sem den ends n f i1))))"
| "list_sem den ends n (Cil_List f items) = items_sem den ends n f items"
| "items_sem den ends n f [] = {}"
| "items_sem den ends n f (i # is) = item_sem den ends n f i \<union> items_sem den ends n f is"

text \<open>Expressions as \<open>src/cil_build_ast.c\<close> admits them: operators have their operands. \<open>D f d\<close> says
  which data may occur and \<open>R\<close> which ends of ranges.\<close>

fun wf_item ::
  "(cil_flavor \<Rightarrow> addr \<Rightarrow> bool) \<Rightarrow> (cil_item \<Rightarrow> bool) \<Rightarrow> cil_flavor \<Rightarrow> cil_item \<Rightarrow> bool"
and wf_list :: "(cil_flavor \<Rightarrow> addr \<Rightarrow> bool) \<Rightarrow> (cil_item \<Rightarrow> bool) \<Rightarrow> cil_list \<Rightarrow> bool"
and wf_items ::
  "(cil_flavor \<Rightarrow> addr \<Rightarrow> bool) \<Rightarrow> (cil_item \<Rightarrow> bool) \<Rightarrow> cil_flavor \<Rightarrow> cil_item list \<Rightarrow> bool"
where
  "wf_item D R f (Item_Datum d) \<longleftrightarrow> D f d"
| "wf_item D R f (Item_List l) \<longleftrightarrow> wf_list D R l"
| "wf_item D R f i \<longleftrightarrow> False"
| "wf_list D R (Cil_List f (Item_Op op # operands)) \<longleftrightarrow>
     op = CIL_ALL \<or>
     op = CIL_RANGE \<and> f = CIL_CAT \<and>
       (case operands of i1 # i2 # _ \<Rightarrow> R i1 \<and> R i2 | _ \<Rightarrow> False) \<or>
     op = CIL_NOT \<and> (case operands of i1 # _ \<Rightarrow> wf_item D R f i1 | _ \<Rightarrow> False) \<or>
     (op = CIL_OR \<or> op = CIL_AND \<or> op = CIL_XOR) \<and>
       (case operands of i1 # i2 # _ \<Rightarrow> wf_item D R f i1 \<and> wf_item D R f i2 | _ \<Rightarrow> False)"
| "wf_list D R (Cil_List f items) \<longleftrightarrow> wf_items D R f items"
| "wf_items D R f [] \<longleftrightarrow> True"
| "wf_items D R f (i # is) \<longleftrightarrow> wf_item D R f i \<and> wf_items D R f is"

text \<open>The contract of the function that expands a datum, on the states with \<open>I\<close>.\<close>

definition evaluates ::
  "('h, 'b) sepol \<Rightarrow> (cil_flavor \<Rightarrow> addr \<Rightarrow> (('h, 'b, 'z) cil_store_scheme, 'b) cil)
   \<Rightarrow> (('h, 'b, 'z) cil_store_scheme \<Rightarrow> bool) \<Rightarrow> (cil_flavor \<Rightarrow> addr \<Rightarrow> bool)
   \<Rightarrow> (cil_flavor \<Rightarrow> addr \<Rightarrow> nat set) \<Rightarrow> bool"
where
  "evaluates L ev I D den \<longleftrightarrow>
     (\<forall>s f d. I s \<longrightarrow> D f d \<longrightarrow> achieves I (ev f d) (\<lambda>b. bits L b = den f d) s)"

definition range_ends ::
  "(('h, 'b, 'z) cil_store_scheme \<Rightarrow> bool) \<Rightarrow> (cil_item \<Rightarrow> bool) \<Rightarrow> (cil_item \<Rightarrow> int) \<Rightarrow> bool"
where
  "range_ends I R ends \<longleftrightarrow> (\<forall>s i. I s \<longrightarrow> R i \<longrightarrow> range_end s i = Ok (ends i))"

subsection \<open>Bitmap operations compute set operations\<close>

lemma bits_init: "ebitmap_laws L \<Longrightarrow> bits L (eb_init L) = {}"
  by (auto simp: bits_def dest: ebitmap_lawsD)

lemma bits_set_bit: "ebitmap_laws L \<Longrightarrow> eb_set_bit L b i = Some b' \<Longrightarrow> bits L b' = insert i (bits L b)"
  by (auto simp: bits_def ebitmap_lawsD(2))

lemma bits_or: "ebitmap_laws L \<Longrightarrow> eb_or L b c = Some d \<Longrightarrow> bits L d = bits L b \<union> bits L c"
  by (auto simp: bits_def ebitmap_lawsD(3))

lemma bits_and: "ebitmap_laws L \<Longrightarrow> eb_and L b c = Some d \<Longrightarrow> bits L d = bits L b \<inter> bits L c"
  by (auto simp: bits_def ebitmap_lawsD(4))

lemma bits_xor:
  "ebitmap_laws L \<Longrightarrow> eb_xor L b c = Some d \<Longrightarrow>
   bits L d = (bits L b - bits L c) \<union> (bits L c - bits L b)"
  by (auto simp: bits_def ebitmap_lawsD(5))

lemma bits_not: "ebitmap_laws L \<Longrightarrow> eb_not L b n = Some d \<Longrightarrow> bits L d = {..<n} - bits L b"
  by (auto simp: bits_def ebitmap_lawsD(6))

lemma bits_union:
  "ebitmap_laws L \<Longrightarrow> ebitmap_total L \<Longrightarrow> bits L (ebitmap_union L b c) = bits L b \<union> bits L c"
  using ebitmap_totalD(6) [of L b c]
  by (auto simp: bits_def ebitmap_union_def ebitmap_lawsD(7))

lemma bits_set_bits:
  "ebitmap_laws L \<Longrightarrow> ebitmap_total L \<Longrightarrow>
   \<exists>b'. set_bits L is b = Some b' \<and> bits L b' = bits L b \<union> unsigned_int ` set is"
proof (induction "is" arbitrary: b)
  case (Cons i "is")
  obtain c where c: "eb_set_bit L b (unsigned_int i) = Some c"
    using ebitmap_totalD(1) [OF Cons.prems(2)] by blast
  with Cons.IH [OF Cons.prems, of c] bits_set_bit [OF Cons.prems(1) c] show ?case by auto
qed simp

lemma achieves_checked:
  "I s \<Longrightarrow> r \<noteq> None \<Longrightarrow> (\<And>b. r = Some b \<Longrightarrow> Q b) \<Longrightarrow> achieves I (checked r) Q s"
  by (auto simp: checked_def intro: achieves_ret)

subsection \<open>The expansion of an expression\<close>

lemma range_achieves:
  assumes "ebitmap_laws L" and "ebitmap_total L" and "range_ends I R ends" and "I s" "R i1" "R i2"
  shows "achieves I (cil_expr_range_to_bitmap_helper L i1 i2 b)
    (\<lambda>c. bits L c = bits L b \<union> unsigned_int ` {ends i1..ends i2}) s"
proof -
  have e: "range_end s i1 = Ok (ends i1)" "range_end s i2 = Ok (ends i2)"
    using assms(3-6) by (auto simp: range_ends_def)
  then obtain f1 f2 where "FLAVOR s (item_data i1) = Ok f1" "FLAVOR s (item_data i2) = Ok f2"
    by (auto simp: range_end_def)
  moreover obtain c where "set_bits L [ends i1..ends i2] b = Some c"
    "bits L c = bits L b \<union> unsigned_int ` {ends i1..ends i2}"
    using bits_set_bits [OF assms(1,2), of "[ends i1..ends i2]" b] by auto
  ultimately show ?thesis
    using e assms(4)
    by (auto simp: achieves_def cil_expr_range_to_bitmap_helper_def checked_def)
qed

text \<open>A list of operands, given that each of them expands to its meaning.\<close>

lemma operands_achieve:
  assumes laws: "ebitmap_laws L" "ebitmap_total L"
    and each: "\<And>i s. i \<in> set is \<Longrightarrow> I s \<Longrightarrow>
      achieves I (cil_expr_to_bitmap_helper L ev m f i)
        (\<lambda>b. bits L b = item_sem den ends n f i) s"
    and "I s"
  shows "achieves I (expr_operands L ev m f is tmp)
    (\<lambda>b. bits L b = bits L tmp \<union> items_sem den ends n f is) s"
  using each \<open>I s\<close>
proof (induction "is" arbitrary: s tmp)
  case Nil
  then show ?case by (auto intro: achieves_ret)
next
  case (Cons i "is")
  have step: "achieves I (expr_operands L ev m f is c)
      (\<lambda>b. bits L b = bits L c \<union> items_sem den ends n f is) t" if "I t" for c t
    using that Cons.IH Cons.prems(1) by auto
  have "achieves I (checked (eb_or L tmp b2)) (\<lambda>c. bits L c = bits L tmp \<union> bits L b2) t"
    if "I t" for b2 t
    using that ebitmap_totalD(2) [OF laws(2), of tmp b2] bits_or [OF laws(1)]
    by (intro achieves_checked) auto
  note this [THEN achieves_bind]
  with Cons.prems show ?case
    unfolding expr_operands.simps
    by (auto intro!: achieves_bind [OF Cons.prems(1) [of i]] achieves_bind
        [OF \<open>\<And>t b2. I t \<Longrightarrow> achieves I (checked (eb_or L tmp b2)) _ t\<close>]
        achieves_weaken [OF step])
qed

lemma nonempty_operands:
  assumes "\<And>op is. items \<noteq> Item_Op op # is" "items \<noteq> []"
  shows "cil_expr_to_bitmap L ev m (Cil_List f items) out =
      bind (expr_operands L ev m f items (eb_init L)) (\<lambda>tmp. ret (ebitmap_union L out tmp))"
    and "list_sem den ends n (Cil_List f items) = items_sem den ends n f items"
    and "wf_list D R (Cil_List f items) \<longleftrightarrow> wf_items D R f items"
proof -
  obtain i "is" where "items = i # is" using assms(2) by (cases items) auto
  moreover have "i \<noteq> Item_Op op" for op using assms(1) [of op "is"] calculation by simp
  ultimately show "cil_expr_to_bitmap L ev m (Cil_List f items) out =
      bind (expr_operands L ev m f items (eb_init L)) (\<lambda>tmp. ret (ebitmap_union L out tmp))"
    "list_sem den ends n (Cil_List f items) = items_sem den ends n f items"
    "wf_list D R (Cil_List f items) \<longleftrightarrow> wf_items D R f items"
    by (cases i; simp only: cil_expr_to_bitmap.simps list_sem.simps wf_list.simps simp_thms)+
qed

lemma wf_items_member: "wf_items D R f is \<Longrightarrow> i \<in> set is \<Longrightarrow> wf_item D R f i"
  by (induction "is") auto

lemma achieves_union:
  assumes laws: "ebitmap_laws L" "ebitmap_total L" and c: "achieves I c (\<lambda>tmp. bits L tmp = S) s"
  shows "achieves I (bind c (\<lambda>tmp. ret (ebitmap_union L out tmp))) (\<lambda>b. bits L b = bits L out \<union> S) s"
proof (rule achieves_bind [OF c])
  fix tmp t assume "I t" "bits L tmp = S"
  then show "achieves I (ret (ebitmap_union L out tmp)) (\<lambda>b. bits L b = bits L out \<union> S) t"
    using bits_union [OF laws] by (intro achieves_ret) auto
qed

text \<open>The operators with two operands.\<close>

definition binary_bitmap :: "('h, 'b) sepol \<Rightarrow> cil_flavor \<Rightarrow> 'b \<Rightarrow> 'b \<Rightarrow> (('h, 'b, 'z) cil_store_scheme, 'b) cil" where
  "binary_bitmap L op b1 b2 =
     (if op = CIL_OR then checked (eb_or L b1 b2)
      else if op = CIL_AND then checked (eb_and L b1 b2)
      else if op = CIL_XOR then checked (eb_xor L b1 b2) else fail SEPOL_ERR)"

definition binary_set :: "cil_flavor \<Rightarrow> nat set \<Rightarrow> nat set \<Rightarrow> nat set" where
  "binary_set op S T = (if op = CIL_OR then S \<union> T else if op = CIL_AND then S \<inter> T else (S - T) \<union> (T - S))"

lemma binary_achieves:
  assumes "ebitmap_laws L" and "ebitmap_total L" and "op = CIL_OR \<or> op = CIL_AND \<or> op = CIL_XOR"
    and "I t" and "bits L b1 = S" and "bits L b2 = T"
  shows "achieves I (binary_bitmap L op b1 b2) (\<lambda>b. bits L b = binary_set op S T) t"
  using assms(3)
proof (elim disjE)
  assume op: "op = CIL_OR"
  have "achieves I (checked (eb_or L b1 b2)) (\<lambda>b. bits L b = S \<union> T) t"
    by (rule achieves_checked) (use assms(4-6) ebitmap_totalD(2) [OF assms(2)] bits_or [OF assms(1)] in auto)
  then show ?thesis by (simp add: op binary_bitmap_def binary_set_def)
next
  assume op: "op = CIL_AND"
  have "achieves I (checked (eb_and L b1 b2)) (\<lambda>b. bits L b = S \<inter> T) t"
    by (rule achieves_checked) (use assms(4-6) ebitmap_totalD(3) [OF assms(2)] bits_and [OF assms(1)] in auto)
  then show ?thesis by (simp add: op binary_bitmap_def binary_set_def)
next
  assume op: "op = CIL_XOR"
  have "achieves I (checked (eb_xor L b1 b2)) (\<lambda>b. bits L b = (S - T) \<union> (T - S)) t"
    by (rule achieves_checked) (use assms(4-6) ebitmap_totalD(4) [OF assms(2)] bits_xor [OF assms(1)] in auto)
  then show ?thesis by (simp add: op binary_bitmap_def binary_set_def)
qed

text \<open>The operators: the operands are expanded as \<open>sub\<close> says.\<close>

lemma operator_achieves:
  assumes laws: "ebitmap_laws L" "ebitmap_total L" and ends: "range_ends I R ends" and s: "I s"
    and wf: "wf_list D R (Cil_List f (Item_Op op # operands))"
    and sub: "\<And>i t. i \<in> set operands \<Longrightarrow> wf_item D R f i \<Longrightarrow> I t \<Longrightarrow>
      achieves I (cil_expr_to_bitmap_helper L ev m f i) (\<lambda>b. bits L b = item_sem den ends (unsigned_int m) f i) t"
  shows "achieves I (cil_expr_to_bitmap L ev m (Cil_List f (Item_Op op # operands)) out)
    (\<lambda>b. bits L b = bits L out \<union> list_sem den ends (unsigned_int m) (Cil_List f (Item_Op op # operands))) s"
proof -
  note sem = list_sem.simps(1) [of den ends "unsigned_int m" f op operands]
  have nots: "achieves I (checked (eb_not L b (unsigned_int m)))
      (\<lambda>c. bits L c = {..<unsigned_int m} - bits L b) t" if "I t" for b t
    using that ebitmap_totalD(5) [OF laws(2), of b "unsigned_int m"] bits_not [OF laws(1)]
    by (intro achieves_checked) auto
  from wf consider (all) "op = CIL_ALL"
    | (range) i1 i2 rest where "op = CIL_RANGE" "f = CIL_CAT" "operands = i1 # i2 # rest" "R i1" "R i2"
    | (neg) i1 rest where "op = CIL_NOT" "operands = i1 # rest" "wf_item D R f i1"
    | (bin) i1 i2 rest where "op = CIL_OR \<or> op = CIL_AND \<or> op = CIL_XOR"
        "operands = i1 # i2 # rest" "wf_item D R f i1" "wf_item D R f i2"
    by (auto split: list.splits)
  then show ?thesis
  proof cases
    case all
    show ?thesis
      unfolding cil_expr_to_bitmap.simps sem
      using nots [OF s, of "eb_init L"] bits_init [OF laws(1)] all by (intro achieves_union [OF laws]) simp
  next
    case range
    show ?thesis
      unfolding cil_expr_to_bitmap.simps sem
      using range_achieves [OF laws ends s range(4,5), of "eb_init L"] bits_init [OF laws(1)] range
      by (intro achieves_union [OF laws]) simp
  next
    case neg
    have "achieves I (bind (cil_expr_to_bitmap_helper L ev m f i1) (\<lambda>b1.
        checked (eb_not L b1 (unsigned_int m))))
      (\<lambda>b. bits L b = {..<unsigned_int m} - item_sem den ends (unsigned_int m) f i1) s"
      using neg s by (intro achieves_bind [OF sub [of i1]]) (auto intro: achieves_weaken [OF nots])
    then show ?thesis
      unfolding cil_expr_to_bitmap.simps sem using neg by (intro achieves_union [OF laws]) simp
  next
    case bin
    have "achieves I (bind (cil_expr_to_bitmap_helper L ev m f i1) (\<lambda>b1.
        bind (cil_expr_to_bitmap_helper L ev m f i2) (\<lambda>b2. binary_bitmap L op b1 b2)))
      (\<lambda>b. bits L b = binary_set op (item_sem den ends (unsigned_int m) f i1) (item_sem den ends (unsigned_int m) f i2)) s"
      using bin s by (intro achieves_bind [OF sub [of i1]] achieves_bind [OF sub [of i2]] binary_achieves [OF laws]) auto
    moreover have "op \<noteq> CIL_ALL" "op \<noteq> CIL_RANGE" "op \<noteq> CIL_NOT" using bin(1) by auto
    ultimately show ?thesis
      unfolding cil_expr_to_bitmap.simps sem using bin(2) by (intro achieves_union [OF laws]) (simp add: binary_bitmap_def binary_set_def)
  qed
qed

lemma expr_achieves:
  assumes laws: "ebitmap_laws L" "ebitmap_total L"
    and ev: "evaluates L ev I D den" and ends: "range_ends I R ends"
  shows "wf_item D R f i \<Longrightarrow> I s \<Longrightarrow>
      achieves I (cil_expr_to_bitmap_helper L ev m f i)
        (\<lambda>b. bits L b = item_sem den ends (unsigned_int m) f i) s"
    and "wf_list D R l \<Longrightarrow> I s \<Longrightarrow>
      achieves I (cil_expr_to_bitmap L ev m l out)
        (\<lambda>b. bits L b = bits L out \<union> list_sem den ends (unsigned_int m) l) s"
proof (induction i and l arbitrary: f s and s out)
  case (Item_Datum d)
  then show ?case using ev by (simp add: evaluates_def)
next
  case (Item_List l)
  from Item_List.IH [of s "eb_init L"] Item_List.prems show ?case
    unfolding bits_init [OF laws(1)] by simp
next
  case (Cil_List f items)
  show ?case
  proof (cases items)
    case Nil
    with Cil_List.prems show ?thesis by (auto intro: achieves_ret)
  next
    case items: (Cons i0 operands)
    show ?thesis
    proof (cases "\<exists>op. i0 = Item_Op op")
      case False
      have ne: "\<And>op is. items \<noteq> Item_Op op # is" "items \<noteq> []" using items False by auto
      have wf: "wf_items D R f items" using Cil_List.prems(1) nonempty_operands(3) [OF ne] by blast
      have "achieves I (expr_operands L ev m f items (eb_init L))
          (\<lambda>b. bits L b = bits L (eb_init L) \<union> items_sem den ends (unsigned_int m) f items) s"
        using Cil_List.IH wf_items_member [OF wf] Cil_List.prems(2)
        by (intro operands_achieve [OF laws]) auto
      then show ?thesis
        unfolding nonempty_operands(1,2) [OF ne] bits_init [OF laws(1)] Un_empty_left by (rule achieves_union [OF laws])
    next
      case True
      then obtain op where items': "items = Item_Op op # operands" using items by auto
      show ?thesis
        unfolding items'
        by (rule operator_achieves [OF laws ends Cil_List.prems(2) Cil_List.prems(1) [unfolded items']])
          (use Cil_List.IH items in auto)
    qed
  qed
qed simp_all

subsection \<open>The expansion of type attributes\<close>

text \<open>
  \<open>known\<close> is a set of type data that is closed under the expressions that define its attributes,
  \<open>rank\<close> bounds the nesting of these, and \<open>den\<close> solves the equations: a type or an alias stands for
  its value, an attribute for the union of its expressions.
\<close>

definition type_known :: "(addr \<Rightarrow> bool) \<Rightarrow> (addr \<Rightarrow> nat) \<Rightarrow> nat \<Rightarrow> cil_flavor \<Rightarrow> addr \<Rightarrow> bool" where
  "type_known known rank r f d \<longleftrightarrow> f = CIL_TYPE \<and> known d \<and> rank d < r"

definition type_equation ::
  "('h, 'b, 'z) cil_store_scheme \<Rightarrow> (addr \<Rightarrow> bool) \<Rightarrow> (addr \<Rightarrow> nat) \<Rightarrow> (addr \<Rightarrow> nat set) \<Rightarrow> addr \<Rightarrow> bool"
where
  "type_equation s known rank den d \<longleftrightarrow>
     (case FLAVOR s (Some d) of
        Ok f \<Rightarrow>
          if f = CIL_TYPEATTRIBUTE then
            (case m_typeattribute s d of
               None \<Rightarrow> False
             | Some x \<Rightarrow>
                 (case typeattribute_expr_list x of
                    None \<Rightarrow> den d = {}
                  | Some ls \<Rightarrow>
                      list_all (wf_list (type_known known rank (rank d)) (\<lambda>_. False)) ls \<and>
                      den d = (\<Union>l \<in> set ls.
                        list_sem (\<lambda>_. den) (\<lambda>_. 0) (unsigned_int (num_types s)) l)))
          else if f = CIL_TYPEALIAS then
            (\<exists>al a t. m_alias s d = Some al \<and> alias_actual al = Some a \<and> m_type s a = Some t \<and>
               den d = {unsigned_int (type_value t)})
          else (\<exists>t. m_type s d = Some t \<and> den d = {unsigned_int (type_value t)})
      | _ \<Rightarrow> False)"

text \<open>What evaluation keeps: everything but the bitmaps of the attributes below rank \<open>r\<close>, which are
  right when they are there; \<open>M\<close> holds the attributes from rank \<open>r\<close> on.\<close>

definition types_inv ::
  "('h, 'b) sepol \<Rightarrow> ('h, 'b, 'z) cil_store_scheme \<Rightarrow> (addr \<Rightarrow> nat) \<Rightarrow> (addr \<Rightarrow> nat set) \<Rightarrow> nat
   \<Rightarrow> (addr \<rightharpoonup> 'b cil_typeattribute) \<Rightarrow> ('h, 'b, 'z) cil_store_scheme \<Rightarrow> bool"
where
  "types_inv L s0 rank den r M s \<longleftrightarrow>
     nodes s = nodes s0 \<and> datums s = datums s0 \<and> m_type s = m_type s0 \<and> m_alias s = m_alias s0 \<and>
     num_types s = num_types s0 \<and>
     (\<forall>a. map_option typeattribute_expr_list (m_typeattribute s a) =
        map_option typeattribute_expr_list (m_typeattribute s0 a)) \<and>
     (\<forall>a. rank a \<ge> r \<longrightarrow> m_typeattribute s a = M a) \<and>
     (\<forall>a x b. rank a < r \<longrightarrow> m_typeattribute s a = Some x \<longrightarrow> typeattribute_types x = Some b \<longrightarrow>
        bits L b = den a)"

lemma FLAVOR_cong: "nodes s = nodes t \<Longrightarrow> datums s = datums t \<Longrightarrow> FLAVOR s d = FLAVOR t d"
  by (simp add: FLAVOR_def NODE_def)

definition put_types ::
  "addr \<Rightarrow> 'b option \<Rightarrow> (('h, 'b, 'z) cil_store_scheme, unit) cil"
where
  "put_types attr p = wr m_typeattribute m_typeattribute_update attr (typeattribute_types_update (\<lambda>_. p))"

lemma put_types_inv:
  assumes "types_inv L s0 rank den (rank d) M s" and "m_typeattribute s d = Some x"
  obtains t where "put_types d p s = (Ok (), t)"
    and "types_inv L s0 rank den (rank d) (M(d \<mapsto> x\<lparr>typeattribute_types := p\<rparr>)) t"
    and "m_typeattribute t d = Some (x\<lparr>typeattribute_types := p\<rparr>)"
proof -
  let ?t = "m_typeattribute_update (\<lambda>m. m(d \<mapsto> x\<lparr>typeattribute_types := p\<rparr>)) s"
  have "put_types d p s = (Ok (), ?t)"
    using assms(2) by (simp add: put_types_def)
  moreover have "types_inv L s0 rank den (rank d) (M(d \<mapsto> x\<lparr>typeattribute_types := p\<rparr>)) ?t"
    unfolding types_inv_def
  proof (intro conjI allI impI)
    fix a
    show "map_option typeattribute_expr_list (m_typeattribute ?t a) =
        map_option typeattribute_expr_list (m_typeattribute s0 a)"
    proof (cases "a = d")
      case True
      have "map_option typeattribute_expr_list (m_typeattribute s d) =
          map_option typeattribute_expr_list (m_typeattribute s0 d)"
        using assms(1) unfolding types_inv_def by blast
      with True assms(2) show ?thesis by simp
    qed (use assms(1) in \<open>simp add: types_inv_def\<close>)
  next
    fix a assume "rank d \<le> rank a"
    then show "m_typeattribute ?t a = (M(d \<mapsto> x\<lparr>typeattribute_types := p\<rparr>)) a"
      using assms(1) by (cases "a = d") (simp_all add: types_inv_def)
  next
    fix a y b assume "rank a < rank d" "m_typeattribute ?t a = Some y" "typeattribute_types y = Some b"
    then show "bits L b = den a"
      using assms(1) by (cases "a = d") (simp_all add: types_inv_def)
  qed (use assms(1) in \<open>simp_all add: types_inv_def\<close>)
  moreover have "m_typeattribute ?t d = Some (x\<lparr>typeattribute_types := p\<rparr>)" by simp
  ultimately show thesis by (rule that)
qed

lemma types_inv_at: "types_inv L s0 rank den (rank d) M s \<Longrightarrow> m_typeattribute s d = M d"
  by (simp add: types_inv_def)

lemma expr_list_loop_types:
  assumes laws: "ebitmap_laws L" "ebitmap_total L"
    and ev: "\<And>M. evaluates L ev (types_inv L s0 rank den (rank d) M)
      (type_known known rank (rank d)) (\<lambda>_. den)"
    and "types_inv L s0 rank den (rank d) (M(d \<mapsto> x\<lparr>typeattribute_types := Some out\<rparr>)) s"
    and "list_all (wf_list (type_known known rank (rank d)) (\<lambda>_. False)) ls"
  shows "\<exists>b t. expr_list_loop L ev m (\<lambda>b. put_types d (Some b)) ls out s = (Ok b, t) \<and>
    types_inv L s0 rank den (rank d) (M(d \<mapsto> x\<lparr>typeattribute_types := Some b\<rparr>)) t \<and>
    bits L b = bits L out \<union> (\<Union>l \<in> set ls. list_sem (\<lambda>_. den) (\<lambda>_. 0) (unsigned_int m) l)"
  using assms(4,5)
proof (induction ls arbitrary: s out)
  case Nil
  then show ?case by auto
next
  case (Cons l ls)
  let ?I = "types_inv L s0 rank den (rank d) (M(d \<mapsto> x\<lparr>typeattribute_types := Some out\<rparr>))"
  have none: "range_ends ?I (\<lambda>_. False) (\<lambda>_. 0)" by (simp add: range_ends_def)
  have "wf_list (type_known known rank (rank d)) (\<lambda>_. False) l" using Cons.prems(2) by simp
  from expr_achieves(2) [OF laws ev none this Cons.prems(1), of m "eb_init L"]
  obtain b s1 where b: "cil_expr_to_bitmap L ev m l (eb_init L) s = (Ok b, s1)" and inv1: "?I s1"
    and bb: "bits L b = list_sem (\<lambda>_. den) (\<lambda>_. 0) (unsigned_int m) l"
    unfolding bits_init [OF laws(1)] Un_empty_left by (rule achievesE)
  have "m_typeattribute s1 d = Some (x\<lparr>typeattribute_types := Some out\<rparr>)"
    using types_inv_at [OF inv1] by simp
  from put_types_inv [OF inv1 this, where p = "Some (ebitmap_union L out b)"]
  obtain s2 where put: "put_types d (Some (ebitmap_union L out b)) s1 = (Ok (), s2)"
    and inv2: "types_inv L s0 rank den (rank d)
      (M(d \<mapsto> x\<lparr>typeattribute_types := Some (ebitmap_union L out b)\<rparr>)) s2"
    by (metis cil_typeattribute.surjective cil_typeattribute.update_convs(2) fun_upd_upd)
  have "list_all (wf_list (type_known known rank (rank d)) (\<lambda>_. False)) ls"
    using Cons.prems(2) by simp
  from Cons.IH [OF inv2 this] obtain c t where
    c: "expr_list_loop L ev m (\<lambda>b. put_types d (Some b)) ls (ebitmap_union L out b) s2 = (Ok c, t)"
    "types_inv L s0 rank den (rank d) (M(d \<mapsto> x\<lparr>typeattribute_types := Some c\<rparr>)) t"
    "bits L c = bits L (ebitmap_union L out b) \<union>
      (\<Union>l \<in> set ls. list_sem (\<lambda>_. den) (\<lambda>_. 0) (unsigned_int m) l)"
    by blast
  have "expr_list_loop L ev m (\<lambda>b. put_types d (Some b)) (l # ls) out s = (Ok c, t)"
    using b put c(1) by simp
  moreover have "bits L c = bits L out \<union>
      (\<Union>l \<in> set (l # ls). list_sem (\<lambda>_. den) (\<lambda>_. 0) (unsigned_int m) l)"
    by (simp add: c(3) bits_union [OF laws] bb Un_assoc)
  ultimately show ?case using c(2) by blast
qed

text \<open>The evaluation of an attribute whose data are below its rank.\<close>

lemma evaluate_type_attribute:
  assumes laws: "ebitmap_laws L" "ebitmap_total L"
    and ev: "\<And>M. evaluates L ev (types_inv L s0 rank den (rank d) M)
      (type_known known rank (rank d)) (\<lambda>_. den)"
    and inv: "types_inv L s0 rank den (rank d) M s" and x: "M d = Some x"
    and eq: "type_equation s0 known rank den d" "FLAVOR s0 (Some d) = Ok CIL_TYPEATTRIBUTE"
  shows "\<exists>b t. evaluate_type_expression L ev d s = (Ok b, t) \<and>
    types_inv L s0 rank den (rank d) (M(d \<mapsto> x\<lparr>typeattribute_types := Some b\<rparr>)) t \<and> bits L b = den d"
proof -
  have sx: "m_typeattribute s d = Some x" using types_inv_at [OF inv] x by simp
  then have "map_option typeattribute_expr_list (m_typeattribute s0 d) = Some (typeattribute_expr_list x)"
    and n: "num_types s = num_types s0"
    using inv unfolding types_inv_def by (metis option.simps(9), blast)
  then obtain x0 where x0: "m_typeattribute s0 d = Some x0"
    "typeattribute_expr_list x0 = typeattribute_expr_list x" by auto
  from put_types_inv [OF inv sx, where p = "Some (eb_init L)"] obtain s1 where
    put1: "put_types d (Some (eb_init L)) s = (Ok (), s1)"
    and inv1: "types_inv L s0 rank den (rank d) (M(d \<mapsto> x\<lparr>typeattribute_types := Some (eb_init L)\<rparr>)) s1"
    and x1: "m_typeattribute s1 d = Some (x\<lparr>typeattribute_types := Some (eb_init L)\<rparr>)" .
  from put_types_inv [OF inv1 x1, where p = "Some (eb_init L)"] obtain s2 where
    put2: "put_types d (Some (eb_init L)) s1 = (Ok (), s2)"
    and inv2': "types_inv L s0 rank den (rank d) (M(d \<mapsto> x\<lparr>typeattribute_types := Some (eb_init L)\<rparr>,
      d \<mapsto> x\<lparr>typeattribute_types := Some (eb_init L), typeattribute_types := Some (eb_init L)\<rparr>)) s2" .
  have "x\<lparr>typeattribute_types := Some (eb_init L), typeattribute_types := Some (eb_init L)\<rparr> =
      x\<lparr>typeattribute_types := Some (eb_init L)\<rparr>" by simp
  with inv2' have inv2:
    "types_inv L s0 rank den (rank d) (M(d \<mapsto> x\<lparr>typeattribute_types := Some (eb_init L)\<rparr>)) s2"
    by (simp only: fun_upd_upd)
  have n1: "num_types s1 = num_types s0" using inv1 unfolding types_inv_def by blast
  have "\<exists>b t. cil_expr_list_to_bitmap L ev (num_types s0) (\<lambda>b. put_types d (Some b))
        (typeattribute_expr_list x) s1 = (Ok b, t) \<and>
      types_inv L s0 rank den (rank d) (M(d \<mapsto> x\<lparr>typeattribute_types := Some b\<rparr>)) t \<and> bits L b = den d"
  proof (cases "typeattribute_expr_list x")
    case None
    then have "den d = {}" using eq x0 by (simp add: type_equation_def)
    with None put2 inv2 show ?thesis
      unfolding cil_expr_list_to_bitmap_def
      by (intro exI [of _ "eb_init L"] exI [of _ s2] conjI) (simp_all add: bits_init [OF laws(1)])
  next
    case (Some ls)
    then have wf: "list_all (wf_list (type_known known rank (rank d)) (\<lambda>_. False)) ls"
      and den: "den d = (\<Union>l \<in> set ls. list_sem (\<lambda>_. den) (\<lambda>_. 0) (unsigned_int (num_types s0)) l)"
      using eq x0 by (simp_all add: type_equation_def)
    from expr_list_loop_types [OF laws ev inv2 wf, of "num_types s0"] obtain b t where
      "expr_list_loop L ev (num_types s0) (\<lambda>b. put_types d (Some b)) ls (eb_init L) s2 = (Ok b, t)"
      "types_inv L s0 rank den (rank d) (M(d \<mapsto> x\<lparr>typeattribute_types := Some b\<rparr>)) t"
      "bits L b = bits L (eb_init L) \<union>
        (\<Union>l \<in> set ls. list_sem (\<lambda>_. den) (\<lambda>_. 0) (unsigned_int (num_types s0)) l)" by blast
    moreover from this(1) have "cil_expr_list_to_bitmap L ev (num_types s0)
        (\<lambda>b. put_types d (Some b)) (typeattribute_expr_list x) s1 = (Ok b, t)"
      using Some put2 by (simp add: cil_expr_list_to_bitmap_def)
    moreover from calculation(3) have "bits L b = den d"
      unfolding den bits_init [OF laws(1)] Un_empty_left .
    ultimately show ?thesis by blast
  qed
  then obtain b t where b: "cil_expr_list_to_bitmap L ev (num_types s0) (\<lambda>b. put_types d (Some b))
        (typeattribute_expr_list x) s1 = (Ok b, t)"
    and rest: "types_inv L s0 rank den (rank d) (M(d \<mapsto> x\<lparr>typeattribute_types := Some b\<rparr>)) t"
      "bits L b = den d" by blast
  have "evaluate_type_expression L ev d s = (Ok b, t)"
    using put1 x1 n1 b by (simp add: evaluate_type_expression_def put_types_def [symmetric] Let_def)
  with rest show ?thesis by blast
qed

text \<open>With fuel above the ranks, every known datum expands to its denotation.\<close>

text \<open>The invariant of a caller, after an attribute \<open>d\<close> of a lower rank has been expanded.\<close>

lemma types_inv_raise:
  assumes inv: "types_inv L s0 rank den r M s" and d: "rank d < r"
    and t: "types_inv L s0 rank den (rank d) ((m_typeattribute s)(d \<mapsto> x\<lparr>typeattribute_types := Some b\<rparr>)) t"
    and b: "bits L b = den d"
  shows "types_inv L s0 rank den r M t"
  unfolding types_inv_def
proof (intro conjI allI impI)
  have up: "m_typeattribute t a = ((m_typeattribute s)(d \<mapsto> x\<lparr>typeattribute_types := Some b\<rparr>)) a" if "rank d \<le> rank a" for a
    using t that unfolding types_inv_def by blast
  show "m_typeattribute t a = M a" if "r \<le> rank a" for a
  proof -
    have "a \<noteq> d" "rank d \<le> rank a" using that d by auto
    then have "m_typeattribute t a = m_typeattribute s a" using up [of a] by simp
    also have "\<dots> = M a" using inv that unfolding types_inv_def by blast
    finally show ?thesis .
  qed
  fix a y c assume a: "rank a < r" "m_typeattribute t a = Some y" "typeattribute_types y = Some c"
  consider "rank a < rank d" | "a = d" | "rank d \<le> rank a" "a \<noteq> d" by (meson not_le)
  then show "bits L c = den a"
  proof cases
    case 1
    with t a show ?thesis unfolding types_inv_def by blast
  next
    case 2
    have "y = x\<lparr>typeattribute_types := Some b\<rparr>" using up [of d] a(2) unfolding 2 by simp
    then have "c = b" using a(3) by simp
    with b show ?thesis unfolding 2 by simp
  next
    case 3
    then have "m_typeattribute s a = Some y" using up [of a] a by simp
    with inv a show ?thesis unfolding types_inv_def by blast
  qed
qed (use t in \<open>simp_all add: types_inv_def\<close>)

lemma types_evaluate:
  assumes laws: "ebitmap_laws L" "ebitmap_total L"
    and eqs: "\<And>d. known d \<Longrightarrow> type_equation s0 known rank den d"
    and "known d" and "rank d < r" and "rank d < fuel" and "types_inv L s0 rank den r M s"
  shows "achieves (types_inv L s0 rank den r M) (datum_to_bitmap L fuel CIL_TYPE d)
    (\<lambda>b. bits L b = den d) s"
  using assms(4-)
proof (induction fuel arbitrary: d r M s)
  case (Suc fuel)
  let ?ev = "datum_to_bitmap L fuel :: cil_flavor \<Rightarrow> addr \<Rightarrow> (('a, 'b, 'c) cil_store_scheme, 'b) cil"
  note inv = Suc.prems(4)
  have sx: "m_type s = m_type s0" "m_alias s = m_alias s0" "nodes s = nodes s0" "datums s = datums s0"
    "map_option typeattribute_expr_list (m_typeattribute s d) =
      map_option typeattribute_expr_list (m_typeattribute s0 d)"
    using inv unfolding types_inv_def by blast+
  have fl: "FLAVOR s (Some d) = FLAVOR s0 (Some d)" using sx by (intro FLAVOR_cong) auto
  have eq: "type_equation s0 known rank den d" using eqs Suc.prems(1) .
  then obtain f where f: "FLAVOR s0 (Some d) = Ok f"
    by (auto simp: type_equation_def split: outcome.splits)
  have bit: "achieves (types_inv L s0 rank den r M) (checked (eb_set_bit L (eb_init L) v))
      (\<lambda>b. bits L b = {v}) s" for v
    using inv ebitmap_totalD(1) [OF laws(2), of "eb_init L" v] bits_set_bit [OF laws(1), of "eb_init L" v]
      bits_init [OF laws(1)] by (intro achieves_checked) auto
  show ?case
  proof (cases "f = CIL_TYPEATTRIBUTE")
    case True
    with eq f sx(5) obtain x where x: "m_typeattribute s d = Some x"
      by (auto simp: type_equation_def split: option.splits)
    have use: "achieves (types_inv L s0 rank den r M) (ret (ebitmap_union L (eb_init L) b))
        (\<lambda>b. bits L b = den d) t" if "types_inv L s0 rank den r M t" "bits L b = den d" for b t
      using that bits_union [OF laws] bits_init [OF laws(1)] by (intro achieves_ret) auto
    show ?thesis
    proof (cases "typeattribute_types x")
      case (Some b)
      have "bits L b = den d"
        using inv x Some Suc.prems(2) unfolding types_inv_def by blast
      from use [OF inv this] show ?thesis
        using True f fl x Some by (simp add: achieves_def cil_type_to_bitmap_def)
    next
      case None
      let ?M = "\<lambda>a. m_typeattribute s a"
      have evd: "evaluates L ?ev (types_inv L s0 rank den (rank d) N)
          (type_known known rank (rank d)) (\<lambda>_. den)" for N
        using Suc.IH Suc.prems(3) by (auto simp: evaluates_def type_known_def)
      have inv0: "types_inv L s0 rank den (rank d) ?M s"
        using inv Suc.prems(2) unfolding types_inv_def by (meson less_trans order_refl)
      from evaluate_type_attribute [OF laws evd inv0 x eq] True f obtain b t where
        run: "evaluate_type_expression L ?ev d s = (Ok b, t)"
        and invt: "types_inv L s0 rank den (rank d) (?M(d \<mapsto> x\<lparr>typeattribute_types := Some b\<rparr>)) t"
        and b: "bits L b = den d" by blast
      have td: "m_typeattribute t d = Some (x\<lparr>typeattribute_types := Some b\<rparr>)"
        using types_inv_at [OF invt] by simp
      have "types_inv L s0 rank den r M t" by (rule types_inv_raise [OF inv Suc.prems(2) invt b])
      moreover have "datum_to_bitmap L (Suc fuel) CIL_TYPE d s = (Ok (ebitmap_union L (eb_init L) b), t)"
        using True f fl x None run td by (simp add: cil_type_to_bitmap_def)
      moreover have "bits L (ebitmap_union L (eb_init L) b) = den d"
        using b bits_union [OF laws] bits_init [OF laws(1)] by simp
      ultimately show ?thesis by (intro achievesI)
    qed
  next
    case False
    show ?thesis
    proof (cases "f = CIL_TYPEALIAS")
      case True
      with eq f obtain al a ty where "m_alias s0 d = Some al" "alias_actual al = Some a"
        "m_type s0 a = Some ty" "den d = {unsigned_int (type_value ty)}"
        by (auto simp: type_equation_def)
      with True f fl sx bit [of "unsigned_int (type_value ty)"] show ?thesis
        by (simp add: achieves_def cil_type_to_bitmap_def)
    next
      case no_alias: False
      with False eq f obtain ty where "m_type s0 d = Some ty" "den d = {unsigned_int (type_value ty)}"
        by (auto simp: type_equation_def)
      with False no_alias f fl sx bit [of "unsigned_int (type_value ty)"] show ?thesis
        by (simp add: achieves_def cil_type_to_bitmap_def)
    qed
  qed
qed simp

subsection \<open>Category sets\<close>

lemma cats_of_bitmap_Ok:
  assumes "\<forall>a \<in> set as. \<exists>c. m_cat s a = Some c"
  shows "cats_of_bitmap L s b as =
    Ok (map Item_Datum (filter (\<lambda>a. \<exists>c. m_cat s a = Some c \<and> eb_get_bit L b (unsigned_int (cat_value c))) as))"
  using assms by (induction as) auto

subsection \<open>Properties\<close>

text \<open>C8. Set expressions: if the data of an expression expand to the sets they denote, then a
  well-formed expression expands, without an error, to the set that its operators denote: all,
  negation relative to the number of elements, union, intersection, symmetric difference,
  ranges of categories, and the union of a plain list.\<close>

theorem expression_expansion:
  assumes "ebitmap_laws L" and "ebitmap_total L"
    and "evaluates L ev I D den" and "range_ends I R ends"
    and "wf_list D R l" and "I s"
  shows "\<exists>b t. cil_expr_to_bitmap L ev m l (eb_init L) s = (Ok b, t) \<and> I t \<and>
    bits L b = list_sem den ends (unsigned_int m) l"
  using expr_achieves(2) [OF assms, of m "eb_init L"] bits_init [OF assms(1)]
  by (auto simp: achieves_def)

definition two_perms :: "((string \<times> addr) list, nat list) cil_store" where
  "two_perms = store0\<lparr>m_perm := [4 \<mapsto> \<lparr>perm_value = 0, perm_classperms = None\<rparr>,
     5 \<mapsto> \<lparr>perm_value = 2, perm_classperms = None\<rparr>]\<rparr>"

theorem expression_expansion_witness:
  "\<exists>b t. cil_expr_to_bitmap sepol0 (datum_to_bitmap sepol0 1) 3
      (Cil_List CIL_PERM [Item_Op CIL_NOT, Item_List (Cil_List CIL_PERM [Item_Datum 4, Item_Datum 5])])
      [] two_perms = (Ok b, t) \<and> bits sepol0 b = {1}"
proof -
  let ?D = "\<lambda>f d. f = CIL_PERM \<and> d \<in> {4, 5 :: addr}"
  let ?den = "\<lambda>f d. if d = (4 :: addr) then {0} else {2 :: nat}"
  let ?l = "Cil_List CIL_PERM [Item_Op CIL_NOT, Item_List (Cil_List CIL_PERM [Item_Datum 4, Item_Datum 5])]"
  have "evaluates sepol0 (datum_to_bitmap sepol0 1) (\<lambda>s. s = two_perms) ?D ?den"
    by (auto simp: evaluates_def achieves_def cil_perm_to_bitmap_def two_perms_def checked_def
        sepol0_def bits_def)
  moreover have "range_ends (\<lambda>s. s = two_perms) (\<lambda>_. False) (\<lambda>_. 0)" by (simp add: range_ends_def)
  moreover have "wf_list ?D (\<lambda>_. False) ?l" by simp
  moreover have "list_sem ?den (\<lambda>_. 0) (unsigned_int 3) ?l = {1}"
    by (auto simp: unsigned_int_def)
  moreover have "eb_init sepol0 = []" by (simp add: sepol0_def)
  ultimately show ?thesis
    using expression_expansion [OF sepol0_ebitmap sepol0_total, of "datum_to_bitmap sepol0 1"
        "\<lambda>s. s = two_perms" ?D ?den "\<lambda>_. False" "\<lambda>_. 0" ?l two_perms 3] by auto
qed

text \<open>C9. Type attributes: when the expressions that define the attributes are well-formed and not
  circular, every type, alias and attribute expands, without an error, to the set it denotes,
  however the attributes are nested, and the types and aliases are left as they are.\<close>

theorem type_attribute_expansion:
  assumes "ebitmap_laws L" and "ebitmap_total L"
    and "\<forall>d. known d \<longrightarrow> type_equation s known rank den d"
    and "\<forall>a x. m_typeattribute s a = Some x \<longrightarrow> typeattribute_types x = None"
    and "known d" and "rank d < fuel"
  shows "\<exists>b t. datum_to_bitmap L fuel CIL_TYPE d s = (Ok b, t) \<and> bits L b = den d \<and>
    m_type t = m_type s \<and> m_alias t = m_alias s"
proof -
  have inv: "types_inv L s rank den (Suc (rank d)) (m_typeattribute s) s"
    using assms(4) unfolding types_inv_def by (metis option.distinct(1))
  have "achieves (types_inv L s rank den (Suc (rank d)) (m_typeattribute s))
      (datum_to_bitmap L fuel CIL_TYPE d) (\<lambda>b. bits L b = den d) s"
    by (rule types_evaluate [where known = known]) (use assms inv in auto)
  then obtain b t where
    "datum_to_bitmap L fuel CIL_TYPE d s = (Ok b, t)" "bits L b = den d"
    "types_inv L s rank den (Suc (rank d)) (m_typeattribute s) t"
    by (rule achievesE)
  moreover from this(3) have "m_type t = m_type s" "m_alias t = m_alias s"
    unfolding types_inv_def by blast+
  ultimately show ?thesis by blast
qed

definition nested_attributes :: "((string \<times> addr) list, nat list) cil_store" where
  "nested_attributes = store0\<lparr>
     num_types := 2,
     nodes := [14 \<mapsto> \<lparr>node_parent = None, node_cl_head = None, node_cl_tail = None, node_next = None,
         node_flavor = CIL_TYPE, node_line = 1, node_path = None, node_data = None\<rparr>,
       16 \<mapsto> \<lparr>node_parent = None, node_cl_head = None, node_cl_tail = None, node_next = None,
         node_flavor = CIL_TYPEATTRIBUTE, node_line = 1, node_path = None, node_data = None\<rparr>],
     datums := [4 \<mapsto> \<lparr>datum_name = None, datum_fqn = None, datum_symtab = None, datum_nodes = Some [14]\<rparr>,
       6 \<mapsto> \<lparr>datum_name = None, datum_fqn = None, datum_symtab = None, datum_nodes = Some [16]\<rparr>,
       7 \<mapsto> \<lparr>datum_name = None, datum_fqn = None, datum_symtab = None, datum_nodes = Some [16]\<rparr>],
     m_type := [4 \<mapsto> \<lparr>type_bounds = None, type_value = 0\<rparr>],
     m_typeattribute := [
       6 \<mapsto> \<lparr>typeattribute_expr_list = Some [Cil_List CIL_TYPE [Item_Op CIL_NOT, Item_Datum 4]],
         typeattribute_types = None, typeattribute_used = False\<rparr>,
       7 \<mapsto> \<lparr>typeattribute_expr_list = Some [Cil_List CIL_TYPE [Item_Datum 6, Item_Datum 4]],
         typeattribute_types = None, typeattribute_used = False\<rparr>]\<rparr>"

theorem type_attribute_expansion_witness:
  "\<exists>b t. datum_to_bitmap sepol0 5 CIL_TYPE 7 nested_attributes = (Ok b, t) \<and> bits sepol0 b = {0, 1}"
proof -
  let ?known = "\<lambda>d. d \<in> {4, 6, 7 :: addr}"
  let ?rank = "\<lambda>d. if d = (4 :: addr) then 0 else if d = 6 then 1 else (2 :: nat)"
  let ?den = "\<lambda>d. if d = (4 :: addr) then {0} else if d = 6 then {1} else {0, 1 :: nat}"
  have "type_equation nested_attributes ?known ?rank ?den 4"
    "type_equation nested_attributes ?known ?rank ?den 6"
    "type_equation nested_attributes ?known ?rank ?den 7"
    by (auto simp: type_equation_def nested_attributes_def FLAVOR_def NODE_def type_known_def unsigned_int_def)
  then have "\<forall>d. ?known d \<longrightarrow> type_equation nested_attributes ?known ?rank ?den d" by auto
  moreover have "\<forall>a x. m_typeattribute nested_attributes a = Some x \<longrightarrow> typeattribute_types x = None"
    by (auto simp: nested_attributes_def split: if_splits)
  ultimately show ?thesis
    using type_attribute_expansion [OF sepol0_ebitmap sepol0_total, of ?known nested_attributes ?rank ?den 7 5]
    by auto
qed

lemma evaluate_cat_run:
  assumes "m_cats s cats = Some c" and "\<not> cats_evaluated c" and "cats_datum_expr c = Some l"
    and "cil_verify_is_list s (Some l) CIL_CAT = Ok False"
    and "cil_expr_to_bitmap L ev (num_cats s) l (eb_init L) s = (Ok b, t)"
    and "m_cats t cats = Some c" and "catorder t = Some order" and "cats_of_bitmap L t b order = Ok new"
  shows "evaluate_cat_expression L ev cats s = (Ok (), t\<lparr>m_cats := (m_cats t)(cats \<mapsto> c\<lparr>cats_evaluated := True,
    cats_datum_expr := if new \<noteq> [] then Some (Cil_List CIL_CAT new) else None\<rparr>)\<rparr>)"
  using assms
  by (cases c; auto simp: evaluate_cat_expression_def expr_opt_to_bitmap_def bind_def rd_def wr_def intro!: cil_store.equality)

text \<open>C10. Category sets: the evaluation of a set that is an expression replaces it by those
  categories of the category order whose values the expression denotes, in that order, and
  marks the set as evaluated. The function that expands the data of the expression is used by its contract
  \<open>evaluates\<close>; it may change the state, and so evaluate other sets that the expression mentions, as long as the
  set itself, the categories and their order stay.\<close>

theorem category_set_evaluation:
  assumes "ebitmap_laws L" and "ebitmap_total L"
    and "evaluates L ev I D den" and "range_ends I R ends"
    and "I s" and "wf_list D R l"
    and "m_cats s cats = Some c" and "\<not> cats_evaluated c" and "cats_datum_expr c = Some l"
    and "cil_verify_is_list s (Some l) CIL_CAT = Ok False"
    and "\<forall>t. I t \<longrightarrow> m_cats t cats = m_cats s cats \<and> m_cat t = m_cat s \<and> catorder t = Some order"
    and "\<forall>a \<in> set order. \<exists>x. m_cat s a = Some x"
  shows "\<exists>t. I t \<and> evaluate_cat_expression L ev cats s =
    (let sel = filter (\<lambda>a. \<exists>x. m_cat s a = Some x \<and>
           unsigned_int (cat_value x) \<in> list_sem den ends (unsigned_int (num_cats s)) l) order;
         e = (if sel \<noteq> [] then Some (Cil_List CIL_CAT (map Item_Datum sel)) else None)
     in (Ok (), t\<lparr>m_cats := (m_cats t)(cats \<mapsto> c\<lparr>cats_evaluated := True, cats_datum_expr := e\<rparr>)\<rparr>))"
proof -
  from expr_achieves(2) [OF assms(1-4,6,5), of "num_cats s" "eb_init L"] obtain b t where
    run: "cil_expr_to_bitmap L ev (num_cats s) l (eb_init L) s = (Ok b, t)" and t: "I t"
    and b: "bits L b = list_sem den ends (unsigned_int (num_cats s)) l"
    unfolding bits_init [OF assms(1)] Un_empty_left by (rule achievesE)
  have same: "m_cats t cats = m_cats s cats" "m_cat t = m_cat s" "catorder t = Some order"
    using assms(11) t by auto
  let ?sel = "filter (\<lambda>a. \<exists>x. m_cat s a = Some x \<and> eb_get_bit L b (unsigned_int (cat_value x))) order"
  have new: "cats_of_bitmap L t b order = Ok (map Item_Datum ?sel)"
    using cats_of_bitmap_Ok [of order t L b] assms(12) same by simp
  have "eb_get_bit L b v \<longleftrightarrow> v \<in> list_sem den ends (unsigned_int (num_cats s)) l" for v
    using b by (auto simp: bits_def)
  with t show ?thesis
    using evaluate_cat_run [OF assms(7-10) run _ same(3) new] assms(7) same(1)
    by (intro exI [of _ t]) (simp add: Let_def)
qed

text \<open>Three categories; the set \<open>9\<close> of the name \<open>7\<close> is \<open>not 5\<close>, and the set \<open>8\<close> is \<open>7 and not 4\<close>.\<close>

definition not_five :: cil_list where
  "not_five = Cil_List CIL_CAT [Item_Op CIL_NOT, Item_Datum 5]"

definition and_not_four :: cil_list where
  "and_not_four = Cil_List CIL_CAT [Item_Op CIL_AND, Item_Datum 7,
     Item_List (Cil_List CIL_CAT [Item_Op CIL_NOT, Item_Datum 4])]"

definition cat_store :: "((string \<times> addr) list, nat list) cil_store" where
  "cat_store = store0\<lparr>
     num_cats := 3, catorder := Some [4, 5, 6],
     nodes := [14 \<mapsto> \<lparr>node_parent = None, node_cl_head = None, node_cl_tail = None, node_next = None,
         node_flavor = CIL_CAT, node_line = 1, node_path = None, node_data = None\<rparr>,
       17 \<mapsto> \<lparr>node_parent = None, node_cl_head = None, node_cl_tail = None, node_next = None,
         node_flavor = CIL_CATSET, node_line = 1, node_path = None, node_data = None\<rparr>],
     datums := [4 \<mapsto> \<lparr>datum_name = None, datum_fqn = None, datum_symtab = None, datum_nodes = Some [14]\<rparr>,
       5 \<mapsto> \<lparr>datum_name = None, datum_fqn = None, datum_symtab = None, datum_nodes = Some [14]\<rparr>,
       7 \<mapsto> \<lparr>datum_name = None, datum_fqn = None, datum_symtab = None, datum_nodes = Some [17]\<rparr>],
     m_cat := [4 \<mapsto> \<lparr>cat_ordered = True, cat_value = 0\<rparr>, 5 \<mapsto> \<lparr>cat_ordered = True, cat_value = 1\<rparr>,
       6 \<mapsto> \<lparr>cat_ordered = True, cat_value = 2\<rparr>],
     m_catset := [7 \<mapsto> \<lparr>catset_cats = Some 9\<rparr>],
     m_cats := [8 \<mapsto> \<lparr>cats_evaluated = False, cats_str_expr = Cil_List CIL_CAT [], cats_datum_expr = Some and_not_four\<rparr>,
       9 \<mapsto> \<lparr>cats_evaluated = False, cats_str_expr = Cil_List CIL_CAT [], cats_datum_expr = Some not_five\<rparr>]\<rparr>"

definition cat_store_nested :: "((string \<times> addr) list, nat list) cil_store" where
  "cat_store_nested = cat_store\<lparr>m_cats := (m_cats cat_store)(9 \<mapsto> \<lparr>cats_evaluated = True,
     cats_str_expr = Cil_List CIL_CAT [], cats_datum_expr = Some (Cil_List CIL_CAT [Item_Datum 4, Item_Datum 6])\<rparr>)\<rparr>"

lemma cat_fields [simp]:
  "num_cats cat_store = 3" "catorder cat_store = Some [4, 5, 6]"
  "nodes cat_store 14 = Some \<lparr>node_parent = None, node_cl_head = None, node_cl_tail = None, node_next = None,
     node_flavor = CIL_CAT, node_line = 1, node_path = None, node_data = None\<rparr>"
  "nodes cat_store 17 = Some \<lparr>node_parent = None, node_cl_head = None, node_cl_tail = None, node_next = None,
     node_flavor = CIL_CATSET, node_line = 1, node_path = None, node_data = None\<rparr>"
  "datums cat_store 4 = Some \<lparr>datum_name = None, datum_fqn = None, datum_symtab = None, datum_nodes = Some [14]\<rparr>"
  "datums cat_store 5 = Some \<lparr>datum_name = None, datum_fqn = None, datum_symtab = None, datum_nodes = Some [14]\<rparr>"
  "datums cat_store 7 = Some \<lparr>datum_name = None, datum_fqn = None, datum_symtab = None, datum_nodes = Some [17]\<rparr>"
  "m_cat cat_store 4 = Some \<lparr>cat_ordered = True, cat_value = 0\<rparr>"
  "m_cat cat_store 5 = Some \<lparr>cat_ordered = True, cat_value = 1\<rparr>"
  "m_cat cat_store 6 = Some \<lparr>cat_ordered = True, cat_value = 2\<rparr>"
  "m_catset cat_store 7 = Some \<lparr>catset_cats = Some 9\<rparr>"
  "m_cats cat_store 8 = Some \<lparr>cats_evaluated = False, cats_str_expr = Cil_List CIL_CAT [], cats_datum_expr = Some and_not_four\<rparr>"
  "m_cats cat_store 9 = Some \<lparr>cats_evaluated = False, cats_str_expr = Cil_List CIL_CAT [], cats_datum_expr = Some not_five\<rparr>"
  by (simp_all add: cat_store_def)

lemma sepol0_bits [simp]:
  "eb_init sepol0 = []" "eb_get_bit sepol0 b i \<longleftrightarrow> i \<in> set b" "eb_set_bit sepol0 b i = Some (List.insert i b)"
  "eb_not sepol0 b n = Some (filter (\<lambda>i. i \<notin> set b) [0..<n])" "eb_union sepol0 b c = Some (b @ c)"
  by (simp_all add: sepol0_def)

lemma one_cat:
  assumes "s = cat_store \<or> s = cat_store_nested" and "d \<in> {4, 5}"
  shows "datum_to_bitmap sepol0 (Suc n) CIL_CAT d s = (Ok [if d = 4 then 0 else 1], s)"
  using assms by (auto simp: cil_cat_to_bitmap_def cat_store_nested_def FLAVOR_def NODE_def bind_def rd_def checked_def
      unsigned_int_def)

lemma two_steps: "datum_to_bitmap L 2 CIL_CAT d s = cil_cat_to_bitmap L (datum_to_bitmap L (Suc 0)) d s"
  unfolding numeral_2_eq_2 by simp

lemma not_five_bits:
  "cil_expr_to_bitmap sepol0 (datum_to_bitmap sepol0 (Suc 0)) 3 not_five [] cat_store = (Ok [0, 2], cat_store)"
  using one_cat [of cat_store 5 0]
  by (simp add: not_five_def bind_def checked_def unsigned_int_def ebitmap_union_def upt_rec del: datum_to_bitmap.simps(2))

lemma not_five_is_expression: "verify_is_list cat_store CIL_CAT (list_items not_five) = Ok False"
  by (simp add: not_five_def)

lemma nested_evaluation:
  "evaluate_cat_expression sepol0 (datum_to_bitmap sepol0 (Suc 0)) 9 cat_store = (Ok (), cat_store_nested)"
proof -
  have "cats_of_bitmap sepol0 cat_store [0, 2] [4, 5, 6] = Ok [Item_Datum 4, Item_Datum 6]"
    by (simp add: unsigned_int_def)
  from evaluate_cat_run [OF cat_fields(13) _ _ _ _ cat_fields(13,2) this] show ?thesis
    using not_five_bits not_five_is_expression by (simp add: cil_verify_is_list_def cat_store_nested_def)
qed

lemma nested_set:
  "datum_to_bitmap sepol0 2 CIL_CAT 7 cat_store = (Ok [2, 0], cat_store_nested)"
  "datum_to_bitmap sepol0 2 CIL_CAT 7 cat_store_nested = (Ok [2, 0], cat_store_nested)"
  unfolding two_steps using nested_evaluation
  by (simp_all add: cil_cat_to_bitmap_def FLAVOR_def NODE_def bind_def rd_def checked_def unsigned_int_def
      cat_store_nested_def del: datum_to_bitmap.simps)

theorem category_set_evaluation_witness:
  "\<exists>t c'. evaluate_cat_expression sepol0 (datum_to_bitmap sepol0 2) 8 cat_store = (Ok (), t) \<and>
    m_cats t 8 = Some c' \<and> cats_datum_expr c' = Some (Cil_List CIL_CAT [Item_Datum 6])"
proof -
  let ?I = "\<lambda>s. s = cat_store \<or> s = cat_store_nested"
  let ?D = "\<lambda>f d. f = CIL_CAT \<and> d \<in> {4, 7 :: addr}"
  let ?den = "\<lambda>f d. if d = (4 :: addr) then {0} else {0, 2 :: nat}"
  have 1: "evaluates sepol0 (datum_to_bitmap sepol0 2) ?I ?D ?den"
    using one_cat [of _ 4 "Suc 0"] nested_set
    by (auto simp: evaluates_def achieves_def bits_def numeral_2_eq_2 simp del: datum_to_bitmap.simps)
  have 2: "range_ends ?I (\<lambda>_. False) (\<lambda>_. 0)" by (simp add: range_ends_def)
  have 3: "wf_list ?D (\<lambda>_. False) and_not_four" by (simp add: and_not_four_def)
  have 4: "m_cats cat_store 8 = Some \<lparr>cats_evaluated = False, cats_str_expr = Cil_List CIL_CAT [],
      cats_datum_expr = Some and_not_four\<rparr>" by (simp add: cat_store_def)
  have 5: "cil_verify_is_list cat_store (Some and_not_four) CIL_CAT = Ok False"
    by (simp add: cil_verify_is_list_def and_not_four_def)
  have 6: "\<forall>t. ?I t \<longrightarrow> m_cats t 8 = m_cats cat_store 8 \<and> m_cat t = m_cat cat_store \<and> catorder t = Some [4, 5, 6]"
    by (auto simp: cat_store_nested_def cat_store_def)
  have 7: "\<forall>a \<in> set [4, 5, 6]. \<exists>x. m_cat cat_store a = Some x" by (simp add: cat_store_def)
  have 8: "filter (\<lambda>a. \<exists>x. m_cat cat_store a = Some x \<and> unsigned_int (cat_value x) \<in>
      list_sem ?den (\<lambda>_. 0) (unsigned_int (num_cats cat_store)) and_not_four) [4, 5, 6] = [6]"
    by (simp add: cat_store_def and_not_four_def unsigned_int_def)
  show ?thesis
    using category_set_evaluation [OF sepol0_ebitmap sepol0_total 1 2 _ 3 4 _ _ 5 6 7] unfolding 8 Let_def by auto
qed

end
