(* ===== verification/Cil_Post.thy ===== *)
theory Cil_Post
  imports Cil_Tree Cil_Verify Cil_Expr Cil_Compare
begin

text \<open>
  The post processing of a resolved AST (\<open>src/cil_post.c\<close>): the numbering of types and roles, the
  arrays of object contexts, the expansion of attributes, the types of roles, the evaluation of
  class permissions and category sets, the sorting of the arrays, and the final verification.

  Every pass is a walk whose callback skips macros and abstract blocks. \<open>visit_live\<close> is that
  callback, parameterised by what the pass does with the other nodes. What the passes compute is
  the subject of \<open>Cil_Numbering\<close> and \<open>Cil_Post_Verify\<close>.
\<close>

subsection \<open>The common shape of the passes\<close>

definition visit_live ::
  "(addr \<Rightarrow> cil_tree_node \<Rightarrow> (('h, 'b, 'z) cil_store_scheme, unit) cil)
   \<Rightarrow> addr \<Rightarrow> (('h, 'b, 'z) cil_store_scheme, nat) cil"
where
  "visit_live action node =
     bind (rd nodes node) (\<lambda>nd.
     if node_flavor nd = CIL_BLOCK then
       bind (reading (\<lambda>s. deref (m_block s) (node_data nd))) (\<lambda>blk.
       ret (if block_is_abstract blk then CIL_TREE_SKIP_HEAD else CIL_TREE_SKIP_NOTHING))
     else if node_flavor nd = CIL_MACRO then ret CIL_TREE_SKIP_HEAD
     else bind (action node nd) (\<lambda>_. ret CIL_TREE_SKIP_NOTHING))"

subsection \<open>Numbering and counting\<close>

definition object_context_flavors :: "cil_flavor list" where
  "object_context_flavors = [CIL_NETIFCON, CIL_GENFSCON, CIL_FILECON, CIL_NODECON, CIL_PORTCON,
     CIL_PIRQCON, CIL_IOMEMCON, CIL_IOPORTCON, CIL_PCIDEVICECON, CIL_FSUSE]"

definition update_sort ::
  "cil_flavor \<Rightarrow> (cil_sort \<Rightarrow> cil_sort) \<Rightarrow> ('h, 'b, 'z) cil_store_scheme \<Rightarrow> ('h, 'b, 'z) cil_store_scheme"
where
  "update_sort f g = sorts_update (\<lambda>m. m(f := g (m f)))"

text \<open>\<open>__cil_post_db_count_helper\<close>: several nodes may point to one type or role; it is counted at the
  first of its own list of nodes.\<close>

definition count_action ::
  "addr \<Rightarrow> cil_tree_node \<Rightarrow> (('h, 'b, 'z) cil_store_scheme, unit) cil"
where
  "count_action node nd =
     (if node_flavor nd = CIL_TYPE then
        bind (lift (not_null (node_data nd))) (\<lambda>type.
        bind (reading (\<lambda>s. NODE s (Some type))) (\<lambda>first.
        if first = node then
          bind (gets num_types) (\<lambda>n.
          bind (wr m_type m_type_update type (type_value_update (\<lambda>_. n))) (\<lambda>_.
          modify (num_types_update (\<lambda>n. n + 1))))
        else ret ()))
      else if node_flavor nd = CIL_ROLE then
        bind (lift (not_null (node_data nd))) (\<lambda>role.
        bind (reading (\<lambda>s. NODE s (Some role))) (\<lambda>first.
        if first = node then
          bind (gets num_roles) (\<lambda>n.
          bind (wr m_role m_role_update role (role_value_update (\<lambda>_. n))) (\<lambda>_.
          modify (num_roles_update (\<lambda>n. n + 1))))
        else ret ()))
      else if node_flavor nd \<in> set object_context_flavors then
        modify (update_sort (node_flavor nd) (sort_count_update Suc))
      else ret ())"

definition cil_post_db_count_helper :: "addr \<Rightarrow> (('h, 'b, 'z) cil_store_scheme, nat) cil" where
  "cil_post_db_count_helper = visit_live count_action"

subsection \<open>Filling the arrays\<close>

text \<open>An array is allocated when its first element is stored; an index outside of it is a fault.\<close>

definition array_put :: "nat \<Rightarrow> addr option list option \<Rightarrow> int \<Rightarrow> addr option \<Rightarrow> addr option list outcome" where
  "array_put len arr i x =
     (let elems = (case arr of None \<Rightarrow> replicate len None | Some elems \<Rightarrow> elems) in
      if 0 \<le> i \<and> nat i < length elems then Ok (elems[nat i := x]) else Fault)"

definition sort_append :: "cil_sort \<Rightarrow> addr option \<Rightarrow> cil_sort outcome" where
  "sort_append c x =
     obind (array_put (sort_count c) (sort_array c) (int (sort_index c)) x) (\<lambda>elems.
     Ok (c\<lparr>sort_array := Some elems, sort_index := Suc (sort_index c)\<rparr>))"

definition array_action ::
  "addr \<Rightarrow> cil_tree_node \<Rightarrow> (('h, 'b, 'z) cil_store_scheme, unit) cil"
where
  "array_action node nd =
     (if node_flavor nd = CIL_TYPE then
        bind (reading (\<lambda>s. deref (m_type s) (node_data nd))) (\<lambda>type.
        bind (reading (\<lambda>s. array_put (nat (num_types s)) (val_to_type s) (type_value type) (node_data nd))) (\<lambda>elems.
        modify (val_to_type_update (\<lambda>_. Some elems))))
      else if node_flavor nd = CIL_ROLE then
        bind (reading (\<lambda>s. deref (m_role s) (node_data nd))) (\<lambda>role.
        bind (reading (\<lambda>s. array_put (nat (num_roles s)) (val_to_role s) (role_value role) (node_data nd))) (\<lambda>elems.
        modify (val_to_role_update (\<lambda>_. Some elems))))
      else if node_flavor nd = CIL_USERPREFIX then
        bind (lift (not_null (node_data nd))) (\<lambda>d. modify (userprefixes_update (\<lambda>l. l @ [d])))
      else if node_flavor nd = CIL_SELINUXUSER then
        bind (lift (not_null (node_data nd))) (\<lambda>d.
        modify (selinuxusers_update (\<lambda>l. (CIL_SELINUXUSER, d) # l)))
      else if node_flavor nd = CIL_SELINUXUSERDEFAULT then
        bind (lift (not_null (node_data nd))) (\<lambda>d.
        modify (selinuxusers_update (\<lambda>l. l @ [(CIL_SELINUXUSERDEFAULT, d)])))
      else if node_flavor nd \<in> set object_context_flavors then
        bind (reading (\<lambda>s. sort_append (sorts s (node_flavor nd)) (node_data nd))) (\<lambda>c.
        modify (update_sort (node_flavor nd) (\<lambda>_. c)))
      else ret ())"

definition cil_post_db_array_helper :: "addr \<Rightarrow> (('h, 'b, 'z) cil_store_scheme, nat) cil" where
  "cil_post_db_array_helper = visit_live array_action"

subsection \<open>Attributes\<close>

definition attr_action ::
  "('h, 'b) sepol \<Rightarrow> nat \<Rightarrow> addr \<Rightarrow> cil_tree_node \<Rightarrow> (('h, 'b, 'z) cil_store_scheme, unit) cil"
where
  "attr_action L fuel node nd =
     (if node_flavor nd = CIL_TYPEATTRIBUTE then
        bind (lift (not_null (node_data nd))) (\<lambda>attr.
        bind (rd m_typeattribute attr) (\<lambda>a.
        if typeattribute_types a = None
        then bind (evaluate_type_expression L (datum_to_bitmap L fuel) attr) (\<lambda>_. ret ())
        else ret ()))
      else if node_flavor nd = CIL_ROLEATTRIBUTE then
        bind (lift (not_null (node_data nd))) (\<lambda>attr.
        bind (rd m_roleattribute attr) (\<lambda>a.
        if roleattribute_roles a = None
        then bind (evaluate_role_expression L (datum_to_bitmap L fuel) attr) (\<lambda>_. ret ())
        else ret ()))
      else ret ())"

definition cil_post_db_attr_helper ::
  "('h, 'b) sepol \<Rightarrow> nat \<Rightarrow> addr \<Rightarrow> (('h, 'b, 'z) cil_store_scheme, nat) cil"
where
  "cil_post_db_attr_helper L fuel = visit_live (attr_action L fuel)"

subsection \<open>Types of roles\<close>

definition cil_role_assign_types ::
  "('h, 'b) sepol \<Rightarrow> addr \<Rightarrow> addr \<Rightarrow> (('h, 'b, 'z) cil_store_scheme, unit) cil"
where
  "cil_role_assign_types L role datum =
     bind (reading (\<lambda>s. FLAVOR s (Some datum))) (\<lambda>flavor.
     bind (wr m_role m_role_update role (role_types_update (\<lambda>types.
       if types = None then Some (eb_init L) else types))) (\<lambda>_.
     let put = (\<lambda>b. wr m_role m_role_update role (role_types_update (\<lambda>_. Some b))) in
     bind (bind (rd m_role role) (\<lambda>r. lift (not_null (role_types r)))) (\<lambda>types.
     if flavor = CIL_TYPE then
       bind (rd m_type datum) (\<lambda>type.
       bind (checked (eb_set_bit L types (unsigned_int (type_value type)))) put)
     else if flavor = CIL_TYPEALIAS then
       bind (rd m_alias datum) (\<lambda>alias.
       bind (reading (\<lambda>s. deref (m_type s) (alias_actual alias))) (\<lambda>type.
       bind (checked (eb_set_bit L types (unsigned_int (type_value type)))) put))
     else if flavor = CIL_TYPEATTRIBUTE then
       bind (rd m_typeattribute datum) (\<lambda>attr.
       bind (lift (not_null (typeattribute_types attr))) (\<lambda>e.
       put (ebitmap_union L types e)))
     else ret ())))"

text \<open>An element of \<open>val_to_role\<close>, or of another array; past its end is a fault.\<close>

definition array_get :: "addr option list option \<Rightarrow> nat \<Rightarrow> addr option outcome" where
  "array_get arr i = obind (not_null arr) (\<lambda>elems. if i < length elems then Ok (elems ! i) else Fault)"

definition roletype_action ::
  "('h, 'b) sepol \<Rightarrow> addr \<Rightarrow> cil_tree_node \<Rightarrow> (('h, 'b, 'z) cil_store_scheme, unit) cil"
where
  "roletype_action L node nd =
     (if node_flavor nd = CIL_ROLETYPE then
        bind (reading (\<lambda>s. deref (m_roletype s) (node_data nd))) (\<lambda>roletype.
        bind (reading (\<lambda>s. FLAVOR s (roletype_role roletype))) (\<lambda>flavor.
        let assign = (\<lambda>role. bind (lift (not_null (roletype_type roletype))) (cil_role_assign_types L role)) in
        if flavor = CIL_ROLEATTRIBUTE then
          bind (reading (\<lambda>s. deref (m_roleattribute s) (roletype_role roletype))) (\<lambda>attr.
          bind (lift (not_null (roleattribute_roles attr))) (\<lambda>roles.
          for_each (\<lambda>i.
            if \<not> eb_get_bit L roles i then ret ()
            else
              bind (reading (\<lambda>s. array_get (val_to_role s) i)) (\<lambda>role.
              bind (lift (not_null role)) assign))
            (eb_positions L roles)))
        else
          bind (lift (not_null (roletype_role roletype))) assign))
      else ret ())"

definition cil_post_db_roletype_helper ::
  "('h, 'b) sepol \<Rightarrow> addr \<Rightarrow> (('h, 'b, 'z) cil_store_scheme, nat) cil"
where
  "cil_post_db_roletype_helper L = visit_live (roletype_action L)"

subsection \<open>Class permissions\<close>

text \<open>The permissions of a class that are in a bitmap, in the order of its symbol table.\<close>

fun perm_bits_to_list ::
  "('h, 'b) sepol \<Rightarrow> ('h, 'b, 'z) cil_store_scheme \<Rightarrow> 'b \<Rightarrow> addr list \<Rightarrow> cil_item list outcome"
where
  "perm_bits_to_list L s perms [] = Ok []"
| "perm_bits_to_list L s perms (d # ds) =
     obind (deref (m_perm s) (Some d)) (\<lambda>perm.
     obind (perm_bits_to_list L s perms ds) (\<lambda>rest.
     Ok (if \<not> eb_get_bit L perms (unat (perm_value perm)) then rest else Item_Datum d # rest)))"

text \<open>\<open>cil_symtab_map\<close> over the permissions of a class.\<close>

definition class_perms ::
  "('h, 'b) sepol \<Rightarrow> ('h, 'b, 'z) cil_store_scheme \<Rightarrow> addr \<Rightarrow> addr list outcome"
where
  "class_perms L s class =
     (case symtabs s (SymPerms class) of None \<Rightarrow> Fault | Some h \<Rightarrow> Ok (map snd (ht_entries L h)))"

text \<open>\<open>__evaluate_perm_expression\<close>: no new list when the expression is a list of permissions.\<close>

definition evaluate_perm_expression ::
  "('h, 'b) sepol \<Rightarrow> nat \<Rightarrow> cil_list option \<Rightarrow> cil_flavor \<Rightarrow> addr \<Rightarrow> addr option \<Rightarrow> 32 word
   \<Rightarrow> (('h, 'b, 'z) cil_store_scheme, cil_list option) cil"
where
  "evaluate_perm_expression L fuel perms flavor class common n =
     bind (reading (\<lambda>s. cil_verify_is_list s perms CIL_PERM)) (\<lambda>flat.
     if flat then ret None
     else
       bind (expr_opt_to_bitmap L (datum_to_bitmap L fuel) (sint n) perms (eb_init L)) (\<lambda>bitmap.
       bind (reading (\<lambda>s. obind (class_perms L s class) (perm_bits_to_list L s bitmap))) (\<lambda>own.
       bind (case common of
           None \<Rightarrow> ret []
         | Some c \<Rightarrow> reading (\<lambda>s. obind (class_perms L s c) (perm_bits_to_list L s bitmap))) (\<lambda>inherited.
       ret (Some (Cil_List flavor (own @ inherited)))))))"

definition evaluate_classperms ::
  "('h, 'b) sepol \<Rightarrow> nat \<Rightarrow> addr \<Rightarrow> (('h, 'b, 'z) cil_store_scheme, unit) cil"
where
  "evaluate_classperms L fuel cp =
     bind (rd m_classperms cp) (\<lambda>c.
     bind (lift (not_null (classperms_class c))) (\<lambda>class_ptr.
     bind (rd m_class class_ptr) (\<lambda>class.
     bind (evaluate_perm_expression L fuel (classperms_perms c) CIL_PERM class_ptr
       (class_common class) (class_num_perms class)) (\<lambda>new_list.
     if new_list = None then ret ()
     else wr m_classperms m_classperms_update cp (classperms_perms_update (\<lambda>_. new_list))))))"

text \<open>The recursion goes through mapped permissions and permission sets.\<close>

fun evaluate_classperms_list ::
  "('h, 'b) sepol \<Rightarrow> nat \<Rightarrow> classperms_list option \<Rightarrow> (('h, 'b, 'z) cil_store_scheme, unit) cil"
where
  "evaluate_classperms_list L 0 classperms = no_fuel"
| "evaluate_classperms_list L (Suc fuel) classperms =
     bind (lift (not_null classperms)) (\<lambda>items.
     for_each (\<lambda>(flavor, cp).
       if flavor = CIL_CLASSPERMS then
         bind (rd m_classperms cp) (\<lambda>c.
         bind (reading (\<lambda>s. FLAVOR s (classperms_class c))) (\<lambda>kind.
         if kind = CIL_CLASS then evaluate_classperms L fuel cp
         else
           bind (lift (not_null (classperms_perms c))) (\<lambda>perms.
           for_each (\<lambda>i.
             bind (reading (\<lambda>s. deref (m_perm s) (item_data i))) (\<lambda>cmp.
             evaluate_classperms_list L fuel (perm_classperms cmp))) (list_items perms))))
       else
         bind (rd m_classperms_set cp) (\<lambda>cp_set.
         bind (reading (\<lambda>s. deref (m_classpermission s) (classperms_set_set cp_set))) (\<lambda>set.
         evaluate_classperms_list L fuel (classpermission_classperms set)))) items)"

text \<open>\<open>__evaluate_map_class\<close>: the permissions are all evaluated, and the last error is returned.\<close>

fun evaluate_map_perms ::
  "('h, 'b) sepol \<Rightarrow> nat \<Rightarrow> addr list \<Rightarrow> sepol_rc option \<Rightarrow> (('h, 'b, 'z) cil_store_scheme, unit) cil"
where
  "evaluate_map_perms L fuel [] rc = (case rc of None \<Rightarrow> ret () | Some e \<Rightarrow> fail e)"
| "evaluate_map_perms L fuel (d # ds) rc =
     bind (rd m_perm d) (\<lambda>cmp.
     bind (attempt (evaluate_classperms_list L fuel (perm_classperms cmp))) (\<lambda>r.
     evaluate_map_perms L fuel ds (case r of Inl e \<Rightarrow> Some e | Inr _ \<Rightarrow> rc)))"

definition evaluate_map_class ::
  "('h, 'b) sepol \<Rightarrow> nat \<Rightarrow> addr option \<Rightarrow> (('h, 'b, 'z) cil_store_scheme, unit) cil"
where
  "evaluate_map_class L fuel mc =
     bind (reading (\<lambda>s. obind (not_null mc) (class_perms L s))) (\<lambda>ds. evaluate_map_perms L fuel ds None)"

definition classperms_action ::
  "('h, 'b) sepol \<Rightarrow> nat \<Rightarrow> addr \<Rightarrow> cil_tree_node \<Rightarrow> (('h, 'b, 'z) cil_store_scheme, unit) cil"
where
  "classperms_action L fuel node nd =
     (if node_flavor nd = CIL_MAP_CLASS then evaluate_map_class L fuel (node_data nd)
      else if node_flavor nd = CIL_CLASSPERMISSION then
        bind (reading (\<lambda>s. deref (m_classpermission s) (node_data nd))) (\<lambda>cp.
        evaluate_classperms_list L fuel (classpermission_classperms cp))
      else if node_flavor nd = CIL_AVRULE then
        bind (reading (\<lambda>s. deref (m_avrule s) (node_data nd))) (\<lambda>avrule.
        evaluate_classperms_list L fuel (Some (avrule_classperms avrule)))
      else if node_flavor nd = CIL_CONSTRAIN \<or> node_flavor nd = CIL_MLSCONSTRAIN then
        bind (reading (\<lambda>s. deref (m_constrain s) (node_data nd))) (\<lambda>constrain.
        evaluate_classperms_list L fuel (Some (constrain_classperms constrain)))
      else ret ())"

definition cil_post_db_classperms_helper ::
  "('h, 'b) sepol \<Rightarrow> nat \<Rightarrow> addr \<Rightarrow> (('h, 'b, 'z) cil_store_scheme, nat) cil"
where
  "cil_post_db_classperms_helper L fuel = visit_live (classperms_action L fuel)"

subsection \<open>Category sets\<close>

definition evaluate_level_expression ::
  "('h, 'b) sepol \<Rightarrow> nat \<Rightarrow> addr option \<Rightarrow> (('h, 'b, 'z) cil_store_scheme, unit) cil"
where
  "evaluate_level_expression L fuel level =
     bind (reading (\<lambda>s. deref (m_level s) level)) (\<lambda>l.
     case level_cats l of
       None \<Rightarrow> ret ()
     | Some cats \<Rightarrow> evaluate_cat_expression L (datum_to_bitmap L fuel) cats)"

definition evaluate_levelrange_expression ::
  "('h, 'b) sepol \<Rightarrow> nat \<Rightarrow> addr option \<Rightarrow> (('h, 'b, 'z) cil_store_scheme, unit) cil"
where
  "evaluate_levelrange_expression L fuel levelrange =
     bind (reading (\<lambda>s. deref (m_levelrange s) levelrange)) (\<lambda>lr.
     bind (if levelrange_low lr \<noteq> None
       then evaluate_level_expression L fuel (levelrange_low lr) else ret ()) (\<lambda>_.
     bind (reading (\<lambda>s. deref (m_levelrange s) levelrange)) (\<lambda>lr.
     if levelrange_high lr \<noteq> None
     then evaluate_level_expression L fuel (levelrange_high lr) else ret ())))"

definition evaluate_context_range ::
  "('h, 'b) sepol \<Rightarrow> nat \<Rightarrow> addr option \<Rightarrow> (('h, 'b, 'z) cil_store_scheme, unit) cil"
where
  "evaluate_context_range L fuel ctx =
     bind (reading (\<lambda>s. deref (m_context s) ctx)) (\<lambda>c.
     evaluate_levelrange_expression L fuel (context_range c))"

definition cat_action ::
  "('h, 'b) sepol \<Rightarrow> nat \<Rightarrow> addr \<Rightarrow> cil_tree_node \<Rightarrow> (('h, 'b, 'z) cil_store_scheme, unit) cil"
where
  "cat_action L fuel node nd =
     (let d = node_data nd; f = node_flavor nd;
          cats_of = (\<lambda>p. bind (lift (not_null p)) (evaluate_cat_expression L (datum_to_bitmap L fuel)));
          range_of = evaluate_levelrange_expression L fuel;
          context_of = evaluate_context_range L fuel in
      if f = CIL_CATSET then bind (reading (\<lambda>s. deref (m_catset s) d)) (\<lambda>x. cats_of (catset_cats x))
      else if f = CIL_SENSCAT then bind (reading (\<lambda>s. deref (m_senscat s) d)) (\<lambda>x. cats_of (senscat_cats x))
      else if f = CIL_LEVEL then evaluate_level_expression L fuel d
      else if f = CIL_LEVELRANGE then range_of d
      else if f = CIL_USER then
        bind (reading (\<lambda>s. deref (m_user s) d)) (\<lambda>user.
        bind (evaluate_level_expression L fuel (user_dftlevel user)) (\<lambda>_.
        bind (reading (\<lambda>s. deref (m_user s) d)) (\<lambda>user. range_of (user_range user))))
      else if f = CIL_SELINUXUSERDEFAULT \<or> f = CIL_SELINUXUSER then
        bind (reading (\<lambda>s. deref (m_selinuxuser s) d)) (\<lambda>x. range_of (selinuxuser_range x))
      else if f = CIL_RANGETRANSITION then
        bind (reading (\<lambda>s. deref (m_rangetransition s) d)) (\<lambda>x. range_of (rangetransition_range x))
      else if f = CIL_CONTEXT then context_of d
      else if f = CIL_SIDCONTEXT then
        bind (reading (\<lambda>s. deref (m_sidcontext s) d)) (\<lambda>x. context_of (sidcontext_context x))
      else if f = CIL_FILECON then
        bind (reading (\<lambda>s. deref (m_filecon s) d)) (\<lambda>x.
        if filecon_context x \<noteq> None then context_of (filecon_context x) else ret ())
      else if f = CIL_PORTCON then
        bind (reading (\<lambda>s. deref (m_portcon s) d)) (\<lambda>x. context_of (portcon_context x))
      else if f = CIL_NODECON then
        bind (reading (\<lambda>s. deref (m_nodecon s) d)) (\<lambda>x. context_of (nodecon_context x))
      else if f = CIL_GENFSCON then
        bind (reading (\<lambda>s. deref (m_genfscon s) d)) (\<lambda>x. context_of (genfscon_context x))
      else if f = CIL_NETIFCON then
        bind (reading (\<lambda>s. deref (m_netifcon s) d)) (\<lambda>x.
        bind (context_of (netifcon_if_context x)) (\<lambda>_.
        bind (reading (\<lambda>s. deref (m_netifcon s) d)) (\<lambda>x. context_of (netifcon_packet_context x))))
      else if f = CIL_PIRQCON then
        bind (reading (\<lambda>s. deref (m_pirqcon s) d)) (\<lambda>x. context_of (pirqcon_context x))
      else if f = CIL_IOMEMCON then
        bind (reading (\<lambda>s. deref (m_iomemcon s) d)) (\<lambda>x. context_of (iomemcon_context x))
      else if f = CIL_IOPORTCON then
        bind (reading (\<lambda>s. deref (m_ioportcon s) d)) (\<lambda>x. context_of (ioportcon_context x))
      else if f = CIL_PCIDEVICECON then
        bind (reading (\<lambda>s. deref (m_pcidevicecon s) d)) (\<lambda>x. context_of (pcidevicecon_context x))
      else if f = CIL_FSUSE then
        bind (reading (\<lambda>s. deref (m_fsuse s) d)) (\<lambda>x. context_of (fsuse_context x))
      else ret ())"

definition cil_post_db_cat_helper ::
  "('h, 'b) sepol \<Rightarrow> nat \<Rightarrow> addr \<Rightarrow> (('h, 'b, 'z) cil_store_scheme, nat) cil"
where
  "cil_post_db_cat_helper L fuel = visit_live (cat_action L fuel)"

subsection \<open>Post processing\<close>

text \<open>\<open>qsort(db->kind->array, db->kind->count, ..., compare)\<close>.\<close>

type_synonym qsort_fun = "(addr \<Rightarrow> addr \<Rightarrow> int) \<Rightarrow> addr list \<Rightarrow> addr list"

definition sort_contexts ::
  "qsort_fun \<Rightarrow> cil_flavor \<Rightarrow> (('h, 'b, 'z) cil_store_scheme \<Rightarrow> addr \<Rightarrow> addr \<Rightarrow> int outcome)
   \<Rightarrow> (('h, 'b, 'z) cil_store_scheme, unit) cil"
where
  "sort_contexts qsort f cmp =
     bind (gets (\<lambda>s. sorts s f)) (\<lambda>c.
     case sort_array c of
       None \<Rightarrow> if sort_count c = 0 then ret () else fault
     | Some arr \<Rightarrow>
         if sort_count c \<le> length arr then
           bind (reading (\<lambda>s. sort_pointers qsort (cmp s) (take (sort_count c) arr))) (\<lambda>sorted.
           modify (update_sort f (sort_array_update (\<lambda>_. Some (sorted @ drop (sort_count c) arr)))))
         else fault)"

definition cil_post_db ::
  "('h, 'b) sepol \<Rightarrow> qsort_fun \<Rightarrow> nat \<Rightarrow> (('h, 'b, 'z) cil_store_scheme, unit) cil"
where
  "cil_post_db L qsort fuel =
     bind (gets ast_root) (\<lambda>root.
     bind (cil_tree_walk fuel cil_post_db_count_helper None None root) (\<lambda>_.
     bind (cil_tree_walk fuel cil_post_db_array_helper None None root) (\<lambda>_.
     bind (cil_tree_walk fuel (cil_post_db_attr_helper L fuel) None None root) (\<lambda>_.
     bind (cil_tree_walk fuel (cil_post_db_roletype_helper L) None None root) (\<lambda>_.
     bind (cil_tree_walk fuel (cil_post_db_classperms_helper L fuel) None None root) (\<lambda>_.
     bind (cil_tree_walk fuel (cil_post_db_cat_helper L fuel) None None root) (\<lambda>_.
     bind (sort_contexts qsort CIL_NETIFCON (\<lambda>s. compare_at (m_netifcon s) cil_post_netifcon_compare)) (\<lambda>_.
     bind (sort_contexts qsort CIL_GENFSCON (\<lambda>s. compare_at (m_genfscon s) cil_post_genfscon_compare)) (\<lambda>_.
     bind (sort_contexts qsort CIL_PORTCON (\<lambda>s. compare_at (m_portcon s) cil_post_portcon_compare)) (\<lambda>_.
     bind (sort_contexts qsort CIL_NODECON (\<lambda>s. compare_at (m_nodecon s) (cil_post_nodecon_compare s))) (\<lambda>_.
     bind (sort_contexts qsort CIL_FSUSE (\<lambda>s. compare_at (m_fsuse s) cil_post_fsuse_compare)) (\<lambda>_.
     bind (sort_contexts qsort CIL_FILECON (\<lambda>s. compare_at (m_filecon s) cil_post_filecon_compare)) (\<lambda>_.
     bind (sort_contexts qsort CIL_PIRQCON (\<lambda>s. compare_at (m_pirqcon s) cil_post_pirqcon_compare)) (\<lambda>_.
     bind (sort_contexts qsort CIL_IOMEMCON (\<lambda>s. compare_at (m_iomemcon s) cil_post_iomemcon_compare)) (\<lambda>_.
     bind (sort_contexts qsort CIL_IOPORTCON (\<lambda>s. compare_at (m_ioportcon s) cil_post_ioportcon_compare)) (\<lambda>_.
     sort_contexts qsort CIL_PCIDEVICECON (\<lambda>s. compare_at (m_pcidevicecon s) cil_post_pcidevicecon_compare)))))))))))))))))"

text \<open>The local variables of \<open>cil_post_verify\<close> are fields of the store that the callback shares.\<close>

definition start_verify :: "('h, 'b, 'z) verify_store_scheme \<Rightarrow> ('h, 'b, 'z) verify_store_scheme" where
  "start_verify s = s\<lparr>avrule_cnt := 0, handleunknown := -1, mls := -1, nseuserdflt := 0, pass := 0\<rparr>"

text \<open>The settings that the configuration leaves open are taken from the policy, or have defaults.\<close>

definition post_handle_unknown ::
  "('h, 'b) sepol \<Rightarrow> ('h, 'b, 'z) verify_store_scheme \<Rightarrow> ('h, 'b, 'z) verify_store_scheme"
where
  "post_handle_unknown L s =
     (if db_handle_unknown s = -1
      then s\<lparr>db_handle_unknown := if handleunknown s = -1 then deny_unknown L else handleunknown s\<rparr>
      else s)"

definition post_mls :: "('h, 'b, 'z) verify_store_scheme \<Rightarrow> ('h, 'b, 'z) verify_store_scheme" where
  "post_mls s = (if db_mls s = -1 then s\<lparr>db_mls := if mls s = -1 then 0 else mls s\<rparr> else s)"

definition cil_post_verify ::
  "('h, 'b) sepol \<Rightarrow> nat \<Rightarrow> (('h, 'b, 'z) verify_store_scheme, unit) cil"
where
  "cil_post_verify L fuel =
     bind (modify start_verify) (\<lambda>_.
     bind (gets ast_root) (\<lambda>root.
     bind (cil_tree_walk fuel (cil_verify_helper L fuel) None None root) (\<lambda>_.
     bind (modify (pass_update (\<lambda>_. 1))) (\<lambda>_.
     bind (cil_tree_walk fuel (cil_verify_helper L fuel) None None root) (\<lambda>_.
     bind (modify (pass_update (\<lambda>_. 2))) (\<lambda>_.
     bind (modify (post_handle_unknown L)) (\<lambda>_.
     bind (modify post_mls) (\<lambda>_.
     bind (gets avrule_cnt) (\<lambda>n.
     if n = 0 then fail SEPOL_ERR
     else bind (gets nseuserdflt) (\<lambda>m. if m > 1 then fail SEPOL_ERR else ret ()))))))))))"

definition cil_post_process ::
  "('h, 'b) sepol \<Rightarrow> qsort_fun \<Rightarrow> nat \<Rightarrow> (('h, 'b, 'z) verify_store_scheme, unit) cil"
where
  "cil_post_process L qsort fuel =
     bind (cil_verify_no_classperms_loop L fuel) (\<lambda>_.
     bind (cil_post_db L qsort fuel) (\<lambda>_.
     cil_post_verify L fuel))"

end
