(* ===== verification/Cil_Numbering.thy ===== *)
theory Cil_Numbering
  imports Cil_Post
begin

text \<open>
  What the first two passes of the post processing compute (\<open>__cil_post_db_count_helper\<close> and
  \<open>__cil_post_db_array_helper\<close> of \<open>src/cil_post.c\<close>): the numbers of types and roles, the arrays that
  invert the numbering, and the arrays of object contexts.

  The locale \<open>live_pass\<close> is the contract of what a pass does with a node; under it the walk is a
  loop over the nodes outside of macros and abstract blocks. Each of the two passes is then a
  fold of a function on the store.
\<close>

subsection \<open>The nodes a pass meets\<close>

definition hides :: "('h, 'b, 'z) cil_store_scheme \<Rightarrow> addr \<Rightarrow> bool" where
  "hides s a = (case nodes s a of
     None \<Rightarrow> False
   | Some nd \<Rightarrow> node_flavor nd = CIL_MACRO \<or> node_flavor nd = CIL_BLOCK \<and>
       (case deref (m_block s) (node_data nd) of Ok blk \<Rightarrow> block_is_abstract blk | _ \<Rightarrow> False))"

abbreviation live_nodes :: "('h, 'b, 'z) cil_store_scheme \<Rightarrow> ast list \<Rightarrow> addr list" where
  "live_nodes s \<equiv> visited (hides s)"

definition visit_node ::
  "(addr \<Rightarrow> cil_tree_node \<Rightarrow> (('h, 'b, 'z) cil_store_scheme, unit) cil)
   \<Rightarrow> addr \<Rightarrow> (('h, 'b, 'z) cil_store_scheme, unit) cil"
where
  "visit_node action node =
     bind (rd nodes node) (\<lambda>nd.
     if node_flavor nd = CIL_BLOCK then
       bind (reading (\<lambda>s. deref (m_block s) (node_data nd))) (\<lambda>_. ret ())
     else if node_flavor nd = CIL_MACRO then ret ()
     else action node nd)"

lemma hides_cong:
  assumes "nodes t = nodes s" and "m_block t = m_block s"
  shows "hides t = hides s"
  unfolding hides_def assms ..

locale live_pass =
  fixes action :: "addr \<Rightarrow> cil_tree_node \<Rightarrow> (('h, 'b, 'z) cil_store_scheme, unit) cil"
  assumes keeps: "preserves (\<lambda>s. nodes s = n \<and> m_block s = b) (action a nd)"
begin

lemma visit_node_frame:
  assumes "visit_node action a s = (r, t)"
  shows "nodes t = nodes s" and "m_block t = m_block s"
proof -
  have "preserves (\<lambda>u. nodes u = nodes s \<and> m_block u = m_block s) (visit_node action a)"
    unfolding visit_node_def by (intro preserves_bind preserves_if preserves_ret preserves_rd preserves_reading keeps)
  from preservesD [OF this _ assms] show "nodes t = nodes s" "m_block t = m_block s" by simp_all
qed

lemma visit_live_visit_node:
  "visit_live action a s =
     (case visit_node action a s of
        (Ok _, t) \<Rightarrow> (Ok (if hides s a then CIL_TREE_SKIP_HEAD else CIL_TREE_SKIP_NOTHING), t)
      | (Fail e, t) \<Rightarrow> (Fail e, t) | (Fault, t) \<Rightarrow> (Fault, t) | (Out_of_fuel, t) \<Rightarrow> (Out_of_fuel, t))"
proof (cases "nodes s a")
  case (Some nd)
  consider (block) "node_flavor nd = CIL_BLOCK" | (macro) "node_flavor nd = CIL_MACRO"
    | (other) "node_flavor nd \<noteq> CIL_BLOCK" "node_flavor nd \<noteq> CIL_MACRO" by blast
  then show ?thesis
  proof cases
    case block
    with Some show ?thesis
      by (cases "deref (m_block s) (node_data nd)")
         (simp_all add: visit_live_def visit_node_def hides_def del: deref_eq_Ok)
  next
    case macro
    with Some show ?thesis by (simp add: visit_live_def visit_node_def hides_def)
  next
    case other
    with Some show ?thesis
      by (cases "action a nd s" ; cases "fst (action a nd s)")
         (simp_all add: visit_live_def visit_node_def hides_def)
  qed
qed (simp add: visit_live_def visit_node_def)

sublocale skipping_pass "visit_live action" "visit_node action" hides
proof
  fix a s r t
  show "visit_live action a s =
     (case visit_node action a s of
        (Ok _, t) \<Rightarrow> (Ok (if hides s a then CIL_TREE_SKIP_HEAD else CIL_TREE_SKIP_NOTHING), t)
      | (Fail e, t) \<Rightarrow> (Fail e, t) | (Fault, t) \<Rightarrow> (Fault, t) | (Out_of_fuel, t) \<Rightarrow> (Out_of_fuel, t))"
    by (rule visit_live_visit_node)
  assume "visit_node action a s = (r, t)"
  note frame = visit_node_frame [OF this]
  show "nodes t = nodes s" by (rule frame)
  show "hides t = hides s" by (rule hides_cong [OF frame])
qed

end

lemma preserves_wr_other:
  "(\<And>m s. I (upd m s) = I s) \<Longrightarrow> preserves I (wr sel upd a f)"
  by (auto simp: preserves_def wr_def split: option.splits)

interpretation count_pass: live_pass count_action
  by unfold_locales
     (auto simp: count_action_def update_sort_def intro!: cil_pres preserves_wr_other)

interpretation array_pass: live_pass array_action
  by unfold_locales
     (auto simp: array_action_def update_sort_def intro!: cil_pres)

subsection \<open>What the first two passes compute\<close>

definition has_flavor :: "('h, 'b, 'z) cil_store_scheme \<Rightarrow> cil_flavor \<Rightarrow> addr \<Rightarrow> bool" where
  "has_flavor s f a \<longleftrightarrow> (case nodes s a of None \<Rightarrow> False | Some nd \<Rightarrow> node_flavor nd = f)"

lemma has_flavor_node [simp]: "nodes s a = Some nd \<Longrightarrow> has_flavor s f a \<longleftrightarrow> node_flavor nd = f"
  by (simp add: has_flavor_def)

lemma has_flavor_None [simp]: "nodes s a = None \<Longrightarrow> \<not> has_flavor s f a"
  by (simp add: has_flavor_def)

lemma has_flavor_cong: "nodes t = nodes s \<Longrightarrow> has_flavor t f a = has_flavor s f a"
  by (simp add: has_flavor_def)

definition of_flavor :: "('h, 'b, 'z) cil_store_scheme \<Rightarrow> cil_flavor \<Rightarrow> addr list \<Rightarrow> addr list" where
  "of_flavor s f xs = filter (has_flavor s f) xs"

definition data_at :: "('h, 'b, 'z) cil_store_scheme \<Rightarrow> addr \<Rightarrow> addr option" where
  "data_at s a = (case nodes s a of None \<Rightarrow> None | Some nd \<Rightarrow> node_data nd)"

text \<open>The objects of a flavor, each at its first node.\<close>

definition first_of :: "('h, 'b, 'z) cil_store_scheme \<Rightarrow> cil_flavor \<Rightarrow> addr list \<Rightarrow> addr list" where
  "first_of s f xs = map (\<lambda>a. the (data_at s a)) (filter (\<lambda>a. NODE s (data_at s a) = Ok a) (of_flavor s f xs))"

text \<open>A node the passes can visit: blocks, types and roles have their objects.\<close>

definition post_ok :: "('h, 'b, 'z) cil_store_scheme \<Rightarrow> addr \<Rightarrow> bool" where
  "post_ok s a \<longleftrightarrow> (\<exists>nd. nodes s a = Some nd \<and>
     (node_flavor nd = CIL_BLOCK \<longrightarrow> (\<exists>d blk. node_data nd = Some d \<and> m_block s d = Some blk)) \<and>
     (node_flavor nd = CIL_TYPE \<longrightarrow>
        (\<exists>d x n. node_data nd = Some d \<and> m_type s d = Some x \<and> NODE s (Some d) = Ok n)) \<and>
     (node_flavor nd = CIL_ROLE \<longrightarrow>
        (\<exists>d x n. node_data nd = Some d \<and> m_role s d = Some x \<and> NODE s (Some d) = Ok n)) \<and>
     (node_flavor nd \<in> {CIL_USERPREFIX, CIL_SELINUXUSER, CIL_SELINUXUSERDEFAULT} \<longrightarrow> node_data nd \<noteq> None))"

text \<open>The objects of \<open>fs\<close> have the values that follow \<open>n0\<close>, and \<open>n\<close> is the next one.\<close>

definition numbered :: "addr list \<Rightarrow> (addr \<rightharpoonup> int) \<Rightarrow> int \<Rightarrow> int \<Rightarrow> bool" where
  "numbered fs val n0 n \<longleftrightarrow>
     n = n0 + int (length fs) \<and> (\<forall>i < length fs. val (fs ! i) = Some (n0 + int i))"

lemma numbered_Nil: "numbered [] val n0 n0"
  by (simp add: numbered_def)

lemma numbered_snoc:
  "numbered fs val n0 n \<Longrightarrow> d \<notin> set fs \<Longrightarrow> numbered (fs @ [d]) (val(d \<mapsto> n)) n0 (n + 1)"
  by (auto simp: numbered_def nth_append less_Suc_eq)

abbreviation type_values :: "('h, 'b, 'z) cil_store_scheme \<Rightarrow> addr \<rightharpoonup> int" where
  "type_values s \<equiv> (\<lambda>d. map_option type_value (m_type s d))"

abbreviation role_values :: "('h, 'b, 'z) cil_store_scheme \<Rightarrow> addr \<rightharpoonup> int" where
  "role_values s \<equiv> (\<lambda>d. map_option role_value (m_role s d))"

lemma NODE_cong: "datums t = datums s \<Longrightarrow> NODE t d = NODE s d"
  by (simp add: NODE_def)

lemma of_flavor_cong:
  assumes eq: "nodes t = nodes s"
  shows "of_flavor t f xs = of_flavor s f xs"
  unfolding of_flavor_def has_flavor_def eq ..

lemma of_flavor_snoc:
  "of_flavor s f (xs @ [a]) =
     of_flavor s f xs @ (if has_flavor s f a then [a] else [])"
  by (simp add: of_flavor_def)

definition first_node :: "('h, 'b, 'z) cil_store_scheme \<Rightarrow> cil_flavor \<Rightarrow> addr \<Rightarrow> bool" where
  "first_node s f a \<longleftrightarrow> has_flavor s f a \<and> NODE s (data_at s a) = Ok a"

lemma first_of_snoc:
  "first_of s f (xs @ [a]) = first_of s f xs @ (if first_node s f a then [the (data_at s a)] else [])"
  by (simp add: first_of_def of_flavor_snoc first_node_def)

lemma first_of_fresh:
  assumes "first_node s f a" and "a \<notin> set xs"
  shows "the (data_at s a) \<notin> set (first_of s f xs)"
proof
  assume "the (data_at s a) \<in> set (first_of s f xs)"
  then obtain b where b: "b \<in> set xs" "NODE s (data_at s b) = Ok b" "the (data_at s a) = the (data_at s b)"
    by (auto simp: first_of_def of_flavor_def)
  from b(2) assms(1) have "data_at s b \<noteq> None" "data_at s a \<noteq> None"
    by (auto simp: first_node_def NODE_Ok_iff)
  with b(3) have "data_at s a = data_at s b" by auto
  with b assms show False by (simp add: first_node_def)
qed

text \<open>The counting of one node, as a function of the store.\<close>

definition count_one :: "addr \<Rightarrow> ('h, 'b, 'z) cil_store_scheme \<Rightarrow> ('h, 'b, 'z) cil_store_scheme" where
  "count_one a s =
     (if first_node s CIL_TYPE a then
        num_types_update (\<lambda>n. n + 1) (m_type_update (\<lambda>m. m(the (data_at s a) :=
          map_option (type_value_update (\<lambda>_. num_types s)) (m (the (data_at s a))))) s)
      else if first_node s CIL_ROLE a then
        num_roles_update (\<lambda>n. n + 1) (m_role_update (\<lambda>m. m(the (data_at s a) :=
          map_option (role_value_update (\<lambda>_. num_roles s)) (m (the (data_at s a))))) s)
      else
        (case nodes s a of
           None \<Rightarrow> s
         | Some nd \<Rightarrow>
             if node_flavor nd \<in> set object_context_flavors
             then update_sort (node_flavor nd) (sort_count_update Suc) s else s))"

lemma count_one_frame [simp]:
  "nodes (count_one a s) = nodes s" "m_block (count_one a s) = m_block s"
  "datums (count_one a s) = datums s" "val_to_type (count_one a s) = val_to_type s"
  "val_to_role (count_one a s) = val_to_role s"
  by (simp_all add: count_one_def update_sort_def split: option.split)

lemma count_one_dom [simp]:
  "dom (m_type (count_one a s)) = dom (m_type s)" "dom (m_role (count_one a s)) = dom (m_role s)"
  by (auto simp: count_one_def update_sort_def split: option.splits if_splits)

lemma count_one_types:
  assumes "post_ok s a"
  shows "num_types (count_one a s) = num_types s + (if first_node s CIL_TYPE a then 1 else 0)"
    and "type_values (count_one a s) = (if first_node s CIL_TYPE a
      then (type_values s)(the (data_at s a) \<mapsto> num_types s) else type_values s)"
  using assms
  by (auto simp: count_one_def update_sort_def fun_eq_iff post_ok_def first_node_def data_at_def
      split: option.split)

lemma count_one_roles:
  assumes "post_ok s a"
  shows "num_roles (count_one a s) = num_roles s + (if first_node s CIL_ROLE a then 1 else 0)"
    and "role_values (count_one a s) = (if first_node s CIL_ROLE a
      then (role_values s)(the (data_at s a) \<mapsto> num_roles s) else role_values s)"
  using assms
  by (auto simp: count_one_def update_sort_def fun_eq_iff post_ok_def first_node_def data_at_def
      split: option.split)

lemma object_context_flavors_other:
  "CIL_TYPE \<notin> set object_context_flavors" "CIL_ROLE \<notin> set object_context_flavors"
  "CIL_BLOCK \<notin> set object_context_flavors" "CIL_MACRO \<notin> set object_context_flavors"
  "CIL_USERPREFIX \<notin> set object_context_flavors" "CIL_SELINUXUSER \<notin> set object_context_flavors"
  "CIL_SELINUXUSERDEFAULT \<notin> set object_context_flavors"
  by (simp_all add: object_context_flavors_def)

lemma count_one_sorts:
  assumes "f \<in> set object_context_flavors"
  shows "sorts (count_one a s) f = (if has_flavor s f a
    then sort_count_update Suc (sorts s f) else sorts s f)"
  using assms object_context_flavors_other
  by (auto simp: count_one_def update_sort_def first_node_def split: option.split)

lemma post_ok_count_one [simp]: "post_ok (count_one a s) b = post_ok s b"
proof -
  have "(\<exists>x. m_type (count_one a s) d = Some x) = (\<exists>x. m_type s d = Some x)"
    "(\<exists>x. m_role (count_one a s) d = Some x) = (\<exists>x. m_role s d = Some x)" for d
    using count_one_dom [of a s] by blast+
  then show ?thesis by (simp add: post_ok_def NODE_cong [of "count_one a s" s])
qed

lemma visit_count_node:
  assumes "post_ok s a"
  shows "visit_node count_action a s = (Ok (), count_one a s)"
proof -
  from assms obtain nd where nd: "nodes s a = Some nd" by (auto simp: post_ok_def)
  then have da: "data_at s a = node_data nd" by (simp add: data_at_def)
  consider (block) "node_flavor nd = CIL_BLOCK"
    | (type) "node_flavor nd = CIL_TYPE" | (role) "node_flavor nd = CIL_ROLE"
    | (other) "node_flavor nd \<notin> {CIL_BLOCK, CIL_TYPE, CIL_ROLE}" by blast
  then show ?thesis
  proof cases
    case block
    then obtain d blk where "node_data nd = Some d" "m_block s d = Some blk"
      using assms nd by (auto simp: post_ok_def)
    with block nd object_context_flavors_other show ?thesis
      by (simp add: visit_node_def count_one_def first_node_def)
  next
    case type
    then obtain d x n where "node_data nd = Some d" "m_type s d = Some x" "NODE s (Some d) = Ok n"
      using assms nd by (auto simp: post_ok_def)
    with type nd da show ?thesis
      by (simp add: visit_node_def count_action_def count_one_def first_node_def object_context_flavors_other)
  next
    case role
    then obtain d x n where "node_data nd = Some d" "m_role s d = Some x" "NODE s (Some d) = Ok n"
      using assms nd by (auto simp: post_ok_def)
    with role nd da show ?thesis
      by (simp add: visit_node_def count_action_def count_one_def first_node_def object_context_flavors_other)
  next
    case other
    with nd show ?thesis
      using object_context_flavors_other
      by (cases "node_flavor nd = CIL_MACRO")
         (simp_all add: visit_node_def count_action_def count_one_def first_node_def)
  qed
qed

text \<open>The whole counting pass.\<close>

lemma for_each_count:
  "list_all (post_ok s) xs \<Longrightarrow> for_each (visit_node count_action) xs s = (Ok (), fold count_one xs s)"
proof (induction xs arbitrary: s)
  case (Cons a xs)
  then have "list_all (post_ok (count_one a s)) xs" by (simp add: list_all_iff)
  with Cons show ?case by (simp add: visit_count_node)
qed simp

lemma fold_count_frame [simp]:
  "nodes (fold count_one xs s) = nodes s" "m_block (fold count_one xs s) = m_block s"
  "datums (fold count_one xs s) = datums s" "val_to_type (fold count_one xs s) = val_to_type s"
  "val_to_role (fold count_one xs s) = val_to_role s"
  "post_ok (fold count_one xs s) b = post_ok s b"
  by (induction xs arbitrary: s) simp_all

lemma fold_count_same [simp]:
  "data_at (fold count_one xs s) a = data_at s a"
  "has_flavor (fold count_one xs s) f a = has_flavor s f a"
  "first_node (fold count_one xs s) f a = first_node s f a"
  by (simp_all add: data_at_def has_flavor_def first_node_def NODE_cong [of "fold count_one xs s" s])

lemma fold_count_numbered:
  assumes "list_all (post_ok s) xs" and "distinct xs"
  shows "numbered (first_of s CIL_TYPE xs) (type_values (fold count_one xs s)) (num_types s)
      (num_types (fold count_one xs s))"
    and "numbered (first_of s CIL_ROLE xs) (role_values (fold count_one xs s)) (num_roles s)
      (num_roles (fold count_one xs s))"
  using assms
proof (induction xs rule: rev_induct)
  case Nil
  case 1 show ?case by (simp add: numbered_Nil first_of_def of_flavor_def)
  case 2 show ?case by (simp add: numbered_Nil first_of_def of_flavor_def)
next
  case (snoc a xs)
  let ?t = "fold count_one xs s"
  have step: "fold count_one (xs @ [a]) s = count_one a ?t" by simp
  {
    case 1
    then have ok: "post_ok ?t a" and new: "a \<notin> set xs" by simp_all
    have "numbered (first_of s CIL_TYPE xs) (type_values ?t) (num_types s) (num_types ?t)"
      using 1 snoc.IH(1) by simp
    then show ?case
      using numbered_snoc first_of_fresh [of s CIL_TYPE a xs] new
      by (simp add: step count_one_types [OF ok] first_of_snoc)
  next
    case 2
    then have ok: "post_ok ?t a" and new: "a \<notin> set xs" by simp_all
    have "numbered (first_of s CIL_ROLE xs) (role_values ?t) (num_roles s) (num_roles ?t)"
      using 2 snoc.IH(2) by simp
    then show ?case
      using numbered_snoc first_of_fresh [of s CIL_ROLE a xs] new
      by (simp add: step count_one_roles [OF ok] first_of_snoc)
  }
qed

lemma fold_count_sorts:
  assumes "f \<in> set object_context_flavors"
  shows "sorts (fold count_one xs s) f =
    sort_count_update (\<lambda>n. n + length (of_flavor s f xs)) (sorts s f)"
proof (induction xs rule: rev_induct)
  case (snoc a xs)
  have "sorts (fold count_one (xs @ [a]) s) f = sorts (count_one a (fold count_one xs s)) f" by simp
  then show ?case
    unfolding count_one_sorts [OF assms] snoc of_flavor_snoc by auto
qed (simp add: of_flavor_def)

subsection \<open>The arrays\<close>

definition put_at ::
  "nat \<Rightarrow> nat \<Rightarrow> addr option \<Rightarrow> addr option list option \<Rightarrow> addr option list option"
where
  "put_at n i x arr = Some ((case arr of None \<Rightarrow> replicate n None | Some elems \<Rightarrow> elems)[i := x])"

lemma put_at_fold:
  assumes "\<forall>a \<in> set as. ix a < n" and "\<forall>a \<in> set as. \<forall>b \<in> set as. ix a = ix b \<longrightarrow> dat a = dat b"
    and "as \<noteq> []"
  shows "\<exists>e. fold (\<lambda>a. put_at n (ix a) (dat a)) as None = Some e \<and> length e = n \<and>
    (\<forall>a \<in> set as. e ! ix a = dat a)"
  using assms
proof (induction as rule: rev_induct)
  case (snoc b as)
  have step: "fold (\<lambda>a. put_at n (ix a) (dat a)) (as @ [b]) None =
      put_at n (ix b) (dat b) (fold (\<lambda>a. put_at n (ix a) (dat a)) as None)" by simp
  show ?case
  proof (cases "as = []")
    case True
    then show ?thesis using snoc.prems(1) by (simp add: put_at_def)
  next
    case False
    have "\<forall>a \<in> set as. ix a < n" "\<forall>a \<in> set as. \<forall>b \<in> set as. ix a = ix b \<longrightarrow> dat a = dat b"
      using snoc.prems(1,2) unfolding set_append by blast+
    from snoc.IH [OF this False] obtain e where
      e: "fold (\<lambda>a. put_at n (ix a) (dat a)) as None = Some e" "length e = n"
      "\<forall>a \<in> set as. e ! ix a = dat a" by blast
    have "e[ix b := dat b] ! ix a = dat a" if "a \<in> set (as @ [b])" for a
    proof (cases "ix a = ix b")
      case True
      with snoc.prems(1,2) that e(2) show ?thesis by (metis in_set_conv_decomp nth_list_update_eq)
    next
      case False
      with that e(3) show ?thesis by auto
    qed
    moreover have "fold (\<lambda>a. put_at n (ix a) (dat a)) (as @ [b]) None = Some (e[ix b := dat b])"
      unfolding step e(1) by (simp add: put_at_def)
    ultimately show ?thesis using e(2) by (intro exI [of _ "e[ix b := dat b]"]) simp
  qed
qed simp

definition type_index :: "('h, 'b, 'z) cil_store_scheme \<Rightarrow> addr \<Rightarrow> int" where
  "type_index s a = the (type_values s (the (data_at s a)))"

definition role_index :: "('h, 'b, 'z) cil_store_scheme \<Rightarrow> addr \<Rightarrow> int" where
  "role_index s a = the (role_values s (the (data_at s a)))"

text \<open>The storing of one node, as a function of the store.\<close>

definition array_one :: "addr \<Rightarrow> ('h, 'b, 'z) cil_store_scheme \<Rightarrow> ('h, 'b, 'z) cil_store_scheme" where
  "array_one a s = (case nodes s a of None \<Rightarrow> s | Some nd \<Rightarrow>
     if node_flavor nd = CIL_TYPE then
       val_to_type_update (put_at (nat (num_types s)) (nat (type_index s a)) (node_data nd)) s
     else if node_flavor nd = CIL_ROLE then
       val_to_role_update (put_at (nat (num_roles s)) (nat (role_index s a)) (node_data nd)) s
     else if node_flavor nd = CIL_USERPREFIX then
       userprefixes_update (\<lambda>l. l @ [the (node_data nd)]) s
     else if node_flavor nd = CIL_SELINUXUSER then
       selinuxusers_update (\<lambda>l. (CIL_SELINUXUSER, the (node_data nd)) # l) s
     else if node_flavor nd = CIL_SELINUXUSERDEFAULT then
       selinuxusers_update (\<lambda>l. l @ [(CIL_SELINUXUSERDEFAULT, the (node_data nd))]) s
     else if node_flavor nd \<in> set object_context_flavors then
       update_sort (node_flavor nd) (\<lambda>c. c\<lparr>
         sort_array := put_at (sort_count c) (sort_index c) (node_data nd) (sort_array c),
         sort_index := Suc (sort_index c)\<rparr>) s
     else s)"

lemma array_one_frame [simp]:
  "nodes (array_one a s) = nodes s" "m_block (array_one a s) = m_block s"
  "datums (array_one a s) = datums s" "m_type (array_one a s) = m_type s" "m_role (array_one a s) = m_role s"
  "num_types (array_one a s) = num_types s" "num_roles (array_one a s) = num_roles s"
  by (simp_all add: array_one_def update_sort_def split: option.split)

lemma fold_array_frame [simp]:
  "nodes (fold array_one xs s) = nodes s" "m_block (fold array_one xs s) = m_block s"
  "datums (fold array_one xs s) = datums s" "m_type (fold array_one xs s) = m_type s"
  "m_role (fold array_one xs s) = m_role s" "num_types (fold array_one xs s) = num_types s"
  "num_roles (fold array_one xs s) = num_roles s"
  by (induction xs arbitrary: s) simp_all

lemma fold_array_same [simp]:
  "data_at (fold array_one xs s) a = data_at s a"
  "type_index (fold array_one xs s) a = type_index s a" "role_index (fold array_one xs s) a = role_index s a"
  "post_ok (fold array_one xs s) a = post_ok s a" "has_flavor (fold array_one xs s) f a = has_flavor s f a"
  by (simp_all add: data_at_def has_flavor_def type_index_def role_index_def post_ok_def
      NODE_cong [of "fold array_one xs s" s])

lemma array_one_types:
  "val_to_type (array_one a s) = (if has_flavor s CIL_TYPE a
     then put_at (nat (num_types s)) (nat (type_index s a)) (data_at s a) (val_to_type s) else val_to_type s)"
  by (auto simp: array_one_def update_sort_def data_at_def split: option.split)

lemma array_one_roles:
  "val_to_role (array_one a s) = (if has_flavor s CIL_ROLE a
     then put_at (nat (num_roles s)) (nat (role_index s a)) (data_at s a) (val_to_role s) else val_to_role s)"
  by (auto simp: array_one_def update_sort_def data_at_def split: option.split)

lemma array_one_sorts:
  assumes "f \<in> set object_context_flavors"
  shows "sorts (array_one a s) f = (if has_flavor s f a
     then (sorts s f)\<lparr>
       sort_array := put_at (sort_count (sorts s f)) (sort_index (sorts s f)) (data_at s a) (sort_array (sorts s f)),
       sort_index := Suc (sort_index (sorts s f))\<rparr>
     else sorts s f)"
  using assms object_context_flavors_other
  by (auto simp: array_one_def update_sort_def data_at_def split: option.split)

lemma fold_array_types:
  "val_to_type (fold array_one xs s) =
     fold (\<lambda>a. put_at (nat (num_types s)) (nat (type_index s a)) (data_at s a)) (of_flavor s CIL_TYPE xs) (val_to_type s)"
  by (induction xs rule: rev_induct) (simp_all add: of_flavor_def array_one_types)

lemma fold_array_roles:
  "val_to_role (fold array_one xs s) =
     fold (\<lambda>a. put_at (nat (num_roles s)) (nat (role_index s a)) (data_at s a)) (of_flavor s CIL_ROLE xs) (val_to_role s)"
  by (induction xs rule: rev_induct) (simp_all add: of_flavor_def array_one_roles)

text \<open>An array of contexts while it is filled.\<close>

definition partly_filled :: "nat \<Rightarrow> addr option list \<Rightarrow> cil_sort" where
  "partly_filled n ds = \<lparr>sort_count = n, sort_index = length ds,
     sort_array = (if ds = [] then None else Some (ds @ replicate (n - length ds) None))\<rparr>"

lemma put_partly_filled:
  assumes "length ds < n"
  shows "put_at n (length ds) x (if ds = [] then None else Some (ds @ replicate (n - length ds) None)) =
    Some (ds @ [x] @ replicate (n - Suc (length ds)) None)"
proof -
  obtain k where k: "n - length ds = Suc k" using assms by (cases "n - length ds") auto
  show ?thesis
  proof (cases "ds = []")
    case True
    with assms show ?thesis by (cases n) (simp_all add: put_at_def)
  next
    case False
    with k show ?thesis by (auto simp: put_at_def)
  qed
qed

lemma fold_array_sorts:
  assumes "f \<in> set object_context_flavors" and "sorts s f = partly_filled n []"
    and "length (of_flavor s f xs) \<le> n"
  shows "sorts (fold array_one xs s) f = partly_filled n (map (data_at s) (of_flavor s f xs))"
  using assms(3)
proof (induction xs rule: rev_induct)
  case (snoc a xs)
  have step: "sorts (fold array_one (xs @ [a]) s) f = sorts (array_one a (fold array_one xs s)) f" by simp
  have IH: "sorts (fold array_one xs s) f = partly_filled n (map (data_at s) (of_flavor s f xs))"
    using snoc by (simp add: of_flavor_snoc split: if_splits)
  show ?case
  proof (cases "has_flavor s f a")
    case True
    then have "length (map (data_at s) (of_flavor s f xs)) < n" using snoc.prems by (simp add: of_flavor_snoc)
    from put_partly_filled [OF this] True show ?thesis
      unfolding step array_one_sorts [OF assms(1)] by (simp add: IH of_flavor_snoc partly_filled_def)
  next
    case False
    then show ?thesis
      unfolding step array_one_sorts [OF assms(1)] by (simp add: IH of_flavor_snoc)
  qed
qed (use assms(2) in \<open>simp add: of_flavor_def\<close>)

lemma put_at_length:
  "put_at n i x arr = Some e \<Longrightarrow> (\<And>e. arr = Some e \<Longrightarrow> length e = n) \<Longrightarrow> length e = n"
  by (cases arr) (auto simp: put_at_def)

lemma put_at_fold_length:
  "fold (\<lambda>a. put_at n (ix a) (dat a)) as None = Some e \<Longrightarrow> length e = n"
proof (induction as arbitrary: e rule: rev_induct)
  case (snoc b as)
  from snoc.prems have "put_at n (ix b) (dat b) (fold (\<lambda>a. put_at n (ix a) (dat a)) as None) = Some e" by simp
  then show ?case using snoc.IH by (rule put_at_length)
qed simp

lemma array_put_put_at:
  assumes "0 \<le> i" and "nat i < n" and "\<And>e. arr = Some e \<Longrightarrow> length e = n"
  obtains e where "array_put n arr i x = Ok e" and "put_at n (nat i) x arr = Some e"
  using assms by (cases arr) (auto simp: array_put_def put_at_def)

text \<open>A database in which the first pass has made room for the nodes \<open>xs\<close>.\<close>

definition array_ready :: "('h, 'b, 'z) cil_store_scheme \<Rightarrow> addr list \<Rightarrow> bool" where
  "array_ready s xs \<longleftrightarrow>
     list_all (post_ok s) xs \<and> val_to_type s = None \<and> val_to_role s = None \<and>
     (\<forall>a \<in> set (of_flavor s CIL_TYPE xs). 0 \<le> type_index s a \<and> type_index s a < num_types s) \<and>
     (\<forall>a \<in> set (of_flavor s CIL_ROLE xs). 0 \<le> role_index s a \<and> role_index s a < num_roles s) \<and>
     (\<forall>f \<in> set object_context_flavors. sorts s f = partly_filled (length (of_flavor s f xs)) [])"

lemma visit_array_node:
  assumes ready: "array_ready s (ys @ a # zs)"
  shows "visit_node array_action a (fold array_one ys s) = (Ok (), fold array_one (ys @ [a]) s)"
proof -
  let ?t = "fold array_one ys s"
  from ready have ok: "post_ok s a" by (simp add: array_ready_def)
  then obtain nd where nd: "nodes s a = Some nd" by (auto simp: post_ok_def)
  then have da: "data_at s a = node_data nd" by (simp add: data_at_def)
  have res: "fold array_one (ys @ [a]) s = array_one a ?t" by simp
  consider (block) "node_flavor nd = CIL_BLOCK" | (type) "node_flavor nd = CIL_TYPE"
    | (role) "node_flavor nd = CIL_ROLE"
    | (lists) "node_flavor nd \<in> {CIL_USERPREFIX, CIL_SELINUXUSER, CIL_SELINUXUSERDEFAULT}"
    | (object) "node_flavor nd \<in> set object_context_flavors"
    | (other) "node_flavor nd \<notin> {CIL_BLOCK, CIL_TYPE, CIL_ROLE, CIL_USERPREFIX, CIL_SELINUXUSER,
        CIL_SELINUXUSERDEFAULT} \<union> set object_context_flavors"
    by blast
  then show ?thesis
  proof cases
    case block
    then obtain d blk where "node_data nd = Some d" "m_block s d = Some blk"
      using ok nd by (auto simp: post_ok_def)
    with block nd show ?thesis
      unfolding res by (simp add: visit_node_def array_one_def object_context_flavors_other)
  next
    case type
    then obtain d x where d: "node_data nd = Some d" "m_type s d = Some x"
      using ok nd by (auto simp: post_ok_def)
    have ix: "type_index s a = type_value x" using d da by (simp add: type_index_def)
    have "a \<in> set (of_flavor s CIL_TYPE (ys @ a # zs))" using type nd by (simp add: of_flavor_def)
    then have range: "0 \<le> type_value x" "nat (type_value x) < nat (num_types s)"
      using ready ix by (auto simp: array_ready_def)
    have "length e = nat (num_types s)" if "val_to_type ?t = Some e" for e
      using that ready put_at_fold_length unfolding fold_array_types array_ready_def by fastforce
    from array_put_put_at [OF range this] obtain e where
      "array_put (nat (num_types s)) (val_to_type ?t) (type_value x) (Some d) = Ok e"
      "put_at (nat (num_types s)) (nat (type_value x)) (Some d) (val_to_type ?t) = Some e" .
    with type nd d ix show ?thesis
      unfolding res by (simp add: visit_node_def array_action_def array_one_def)
  next
    case role
    then obtain d x where d: "node_data nd = Some d" "m_role s d = Some x"
      using ok nd by (auto simp: post_ok_def)
    have ix: "role_index s a = role_value x" using d da by (simp add: role_index_def)
    have "a \<in> set (of_flavor s CIL_ROLE (ys @ a # zs))" using role nd by (simp add: of_flavor_def)
    then have range: "0 \<le> role_value x" "nat (role_value x) < nat (num_roles s)"
      using ready ix by (auto simp: array_ready_def)
    have "length e = nat (num_roles s)" if "val_to_role ?t = Some e" for e
      using that ready put_at_fold_length unfolding fold_array_roles array_ready_def by fastforce
    from array_put_put_at [OF range this] obtain e where
      "array_put (nat (num_roles s)) (val_to_role ?t) (role_value x) (Some d) = Ok e"
      "put_at (nat (num_roles s)) (nat (role_value x)) (Some d) (val_to_role ?t) = Some e" .
    with role nd d ix show ?thesis
      unfolding res by (simp add: visit_node_def array_action_def array_one_def)
  next
    case lists
    then obtain d where "node_data nd = Some d" using ok nd by (auto simp: post_ok_def)
    with lists nd show ?thesis
      unfolding res by (auto simp: visit_node_def array_action_def array_one_def)
  next
    case object
    let ?f = "node_flavor nd" and ?n = "length (of_flavor s (node_flavor nd) (ys @ a # zs))"
    let ?ds = "map (data_at s) (of_flavor s (node_flavor nd) ys)"
    have len: "length ?ds < ?n" using nd by (simp add: of_flavor_def)
    have c: "sorts ?t ?f = partly_filled ?n ?ds"
      using ready object len by (intro fold_array_sorts) (auto simp: array_ready_def)
    have arr: "length e = ?n" if "sort_array (partly_filled ?n ?ds) = Some e" for e
      using that len by (auto simp: partly_filled_def split: if_splits)
    have "0 \<le> int (length ?ds)" "nat (int (length ?ds)) < ?n" using len by auto
    from array_put_put_at [OF this arr] obtain e where
      "array_put ?n (sort_array (partly_filled ?n ?ds)) (int (length ?ds)) (node_data nd) = Ok e"
      "put_at ?n (nat (int (length ?ds))) (node_data nd) (sort_array (partly_filled ?n ?ds)) = Some e" .
    then have "sort_append (sorts ?t ?f) (node_data nd) = Ok ((sorts ?t ?f)\<lparr>
        sort_array := put_at (sort_count (sorts ?t ?f)) (sort_index (sorts ?t ?f)) (node_data nd)
          (sort_array (sorts ?t ?f)),
        sort_index := Suc (sort_index (sorts ?t ?f))\<rparr>)"
      unfolding c sort_append_def by (simp add: partly_filled_def)
    moreover have "?f \<notin> {CIL_BLOCK, CIL_MACRO, CIL_TYPE, CIL_ROLE, CIL_USERPREFIX, CIL_SELINUXUSER,
        CIL_SELINUXUSERDEFAULT}" using object object_context_flavors_other by auto
    ultimately show ?thesis
      using object nd unfolding res
      by (simp add: visit_node_def array_action_def array_one_def update_sort_def)
  next
    case other
    with nd show ?thesis
      unfolding res by (cases "node_flavor nd = CIL_MACRO")
        (simp_all add: visit_node_def array_action_def array_one_def object_context_flavors_other)
  qed
qed

lemma for_each_array:
  "array_ready s (ys @ zs) \<Longrightarrow> for_each (visit_node array_action) ys s = (Ok (), fold array_one ys s)"
proof (induction ys arbitrary: zs rule: rev_induct)
  case (snoc a ys)
  then have "for_each (visit_node array_action) ys s = (Ok (), fold array_one ys s)" by simp
  moreover have "visit_node array_action a (fold array_one ys s) = (Ok (), fold array_one (ys @ [a]) s)"
    using snoc.prems by (intro visit_array_node) simp
  ultimately show ?case by (simp add: for_each_append)
qed simp

subsection \<open>Numbering and arrays together\<close>

text \<open>Every node of the flavor points to an object whose first node is among \<open>xs\<close>.\<close>

definition firsts_live :: "('h, 'b, 'z) cil_store_scheme \<Rightarrow> cil_flavor \<Rightarrow> addr list \<Rightarrow> bool" where
  "firsts_live s f xs \<longleftrightarrow> (\<forall>a \<in> set xs. has_flavor s f a \<longrightarrow>
     (\<exists>b \<in> set xs. first_node s f b \<and> data_at s b = data_at s a))"

text \<open>A database that has not been numbered.\<close>

definition unnumbered :: "('h, 'b, 'z) cil_store_scheme \<Rightarrow> bool" where
  "unnumbered s \<longleftrightarrow> num_types s = 0 \<and> num_roles s = 0 \<and> val_to_type s = None \<and> val_to_role s = None \<and>
     (\<forall>f \<in> set object_context_flavors. sorts s f = sort0)"

lemma numbered_index:
  "numbered fs val 0 n \<Longrightarrow> d \<in> set fs \<Longrightarrow> \<exists>i < length fs. fs ! i = d \<and> val d = Some (int i)"
  by (auto simp: numbered_def in_set_conv_nth)

lemma first_node_data: "first_node s f a \<Longrightarrow> \<exists>d. data_at s a = Some d"
  by (auto simp: first_node_def NODE_Ok_iff)

lemma numbered_first:
  assumes num: "numbered (first_of s f xs) val 0 n" and live: "firsts_live s f xs"
    and a: "a \<in> set (of_flavor s f xs)"
  shows "\<exists>i < length (first_of s f xs). data_at s a = Some (first_of s f xs ! i) \<and>
    val (the (data_at s a)) = Some (int i)"
proof -
  from a have "a \<in> set xs" "has_flavor s f a" by (auto simp: of_flavor_def)
  with live obtain b where b: "b \<in> set xs" "first_node s f b" "data_at s b = data_at s a"
    unfolding firsts_live_def by blast
  obtain d where d: "data_at s b = Some d" using first_node_data [OF b(2)] by blast
  have "b \<in> set (filter (\<lambda>a. NODE s (data_at s a) = Ok a) (of_flavor s f xs))"
    using b(1,2) by (simp add: of_flavor_def first_node_def)
  then have "d \<in> set (first_of s f xs)" using d by (force simp: first_of_def)
  from numbered_index [OF num this] obtain i where
    "i < length (first_of s f xs)" "first_of s f xs ! i = d" "val d = Some (int i)" by blast
  moreover have "data_at s a = Some d" using b(3) d by simp
  ultimately show ?thesis by (intro exI [of _ i]) simp
qed

lemma numbered_array:
  assumes num: "numbered (first_of s f xs) val 0 n" and live: "firsts_live s f xs"
    and ix: "\<And>a. a \<in> set (of_flavor s f xs) \<Longrightarrow> val (the (data_at s a)) = Some (ix a)"
  shows "fold (\<lambda>a. put_at (nat n) (nat (ix a)) (data_at s a)) (of_flavor s f xs) None =
    (if first_of s f xs = [] then None else Some (map Some (first_of s f xs)))"
proof (cases "of_flavor s f xs = []")
  case True
  then show ?thesis by (simp add: first_of_def)
next
  case False
  let ?fs = "first_of s f xs"
  have n: "nat n = length ?fs" using num by (simp add: numbered_def)
  have pos: "\<exists>i < length ?fs. data_at s a = Some (?fs ! i) \<and> nat (ix a) = i" if "a \<in> set (of_flavor s f xs)" for a
    using numbered_first [OF num live that] ix [OF that] by auto
  then have "\<forall>a \<in> set (of_flavor s f xs). nat (ix a) < nat n"
    and "\<forall>a \<in> set (of_flavor s f xs). \<forall>b \<in> set (of_flavor s f xs).
      nat (ix a) = nat (ix b) \<longrightarrow> data_at s a = data_at s b"
    unfolding n by metis+
  from put_at_fold [OF this False] obtain e where
    e: "fold (\<lambda>a. put_at (nat n) (nat (ix a)) (data_at s a)) (of_flavor s f xs) None = Some e"
      "length e = length ?fs" "\<forall>a \<in> set (of_flavor s f xs). e ! nat (ix a) = data_at s a"
    unfolding n by blast
  have "e = map Some ?fs"
  proof (rule nth_equalityI)
    fix i assume "i < length e"
    then have i: "i < length ?fs" using e(2) by simp
    then have "?fs ! i \<in> set ?fs" by simp
    then obtain a where a: "a \<in> set (of_flavor s f xs)" "?fs ! i = the (data_at s a)"
      by (auto simp: first_of_def simp del: nth_mem)
    have "val (?fs ! i) = Some (int i)" using num i by (simp add: numbered_def)
    with ix [OF a(1)] a(2) have "nat (ix a) = i" by simp
    moreover have "data_at s a = Some (?fs ! i)" using pos [OF a(1)] a(2) by auto
    ultimately show "e ! i = map Some ?fs ! i" using e(3) a(1) i by auto
  qed (simp add: e(2))
  moreover have "?fs \<noteq> []" using pos False by (cases "of_flavor s f xs") fastforce+
  ultimately show ?thesis using e(1) by simp
qed

lemma count_makes_ready:
  assumes ok: "list_all (post_ok s) xs" and "distinct xs" and fresh: "unnumbered s"
    and live: "firsts_live s CIL_TYPE xs" "firsts_live s CIL_ROLE xs"
  shows "array_ready (fold count_one xs s) xs"
proof -
  let ?t = "fold count_one xs s"
  note num = fold_count_numbered [OF ok \<open>distinct xs\<close>]
  have zero: "num_types s = 0" "num_roles s = 0" using fresh by (simp_all add: unnumbered_def)
  have same: "of_flavor ?t f xs = of_flavor s f xs" for f by (simp add: of_flavor_cong [of ?t s])
  have "0 \<le> type_index ?t a \<and> type_index ?t a < num_types ?t" if "a \<in> set (of_flavor s CIL_TYPE xs)" for a
    using numbered_first [OF num(1) [unfolded zero] live(1) that] num(1)
    by (auto simp: type_index_def numbered_def zero)
  moreover have "0 \<le> role_index ?t a \<and> role_index ?t a < num_roles ?t" if "a \<in> set (of_flavor s CIL_ROLE xs)" for a
    using numbered_first [OF num(2) [unfolded zero] live(2) that] num(2)
    by (auto simp: role_index_def numbered_def zero)
  moreover have "sorts ?t f = partly_filled (length (of_flavor s f xs)) []" if "f \<in> set object_context_flavors" for f
    using fold_count_sorts [OF that, of xs s] fresh that
    by (simp add: unnumbered_def sort0_def partly_filled_def)
  moreover have "list_all (post_ok ?t) xs" using ok by (simp add: list_all_iff)
  ultimately show ?thesis using fresh by (simp add: array_ready_def same unnumbered_def)
qed

text \<open>What the two passes leave behind.\<close>

definition numbers_and_arrays ::
  "('h, 'b, 'z) cil_store_scheme \<Rightarrow> addr list \<Rightarrow> ('h, 'b, 'z) cil_store_scheme \<Rightarrow> bool"
where
  "numbers_and_arrays s xs t \<longleftrightarrow>
     (let types = first_of s CIL_TYPE xs; roles = first_of s CIL_ROLE xs in
      num_types t = int (length types) \<and>
      (\<forall>i < length types. type_values t (types ! i) = Some (int i)) \<and>
      val_to_type t = (if types = [] then None else Some (map Some types)) \<and>
      num_roles t = int (length roles) \<and>
      (\<forall>i < length roles. role_values t (roles ! i) = Some (int i)) \<and>
      val_to_role t = (if roles = [] then None else Some (map Some roles)) \<and>
      (\<forall>f \<in> set object_context_flavors.
         let ds = map (data_at s) (of_flavor s f xs) in
         sort_count (sorts t f) = length ds \<and>
         sort_array (sorts t f) = (if ds = [] then None else Some ds)))"

lemma fold_count_then_array:
  assumes ok: "list_all (post_ok s) xs" and "distinct xs" and fresh: "unnumbered s"
    and live: "firsts_live s CIL_TYPE xs" "firsts_live s CIL_ROLE xs"
  shows "numbers_and_arrays s xs (fold array_one xs (fold count_one xs s))"
proof -
  let ?t = "fold count_one xs s"
  let ?u = "fold array_one xs ?t"
  note num = fold_count_numbered [OF ok \<open>distinct xs\<close>]
  have zero: "num_types s = 0" "num_roles s = 0" using fresh by (simp_all add: unnumbered_def)
  have none: "val_to_type ?t = None" "val_to_role ?t = None" using fresh by (simp_all add: unnumbered_def)
  have same: "of_flavor ?t f xs = of_flavor s f xs" for f by (simp add: of_flavor_cong [of ?t s])
  have "type_values ?t (the (data_at s a)) = Some (type_index ?t a)" if "a \<in> set (of_flavor s CIL_TYPE xs)" for a
    using numbered_first [OF num(1) [unfolded zero] live(1) that] by (auto simp: type_index_def)
  from numbered_array [OF num(1) [unfolded zero] live(1) this]
  have types: "val_to_type ?u = (if first_of s CIL_TYPE xs = [] then None else Some (map Some (first_of s CIL_TYPE xs)))"
    by (simp only: fold_array_types same none fold_count_same)
  have "role_values ?t (the (data_at s a)) = Some (role_index ?t a)" if "a \<in> set (of_flavor s CIL_ROLE xs)" for a
    using numbered_first [OF num(2) [unfolded zero] live(2) that] by (auto simp: role_index_def)
  from numbered_array [OF num(2) [unfolded zero] live(2) this]
  have roles: "val_to_role ?u = (if first_of s CIL_ROLE xs = [] then None else Some (map Some (first_of s CIL_ROLE xs)))"
    by (simp only: fold_array_roles same none fold_count_same)
  have sorts: "sorts ?u f = partly_filled (length (of_flavor s f xs)) (map (data_at s) (of_flavor s f xs))"
    if "f \<in> set object_context_flavors" for f
  proof -
    have "sorts ?t f = partly_filled (length (of_flavor s f xs)) []"
      using count_makes_ready [OF assms] that by (simp add: array_ready_def same)
    moreover have "data_at ?t = data_at s" by (simp add: fun_eq_iff)
    ultimately show ?thesis using fold_array_sorts [OF that, of ?t _ xs] by (simp add: same)
  qed
  show ?thesis
    unfolding numbers_and_arrays_def Let_def
    using num types roles sorts by (simp add: numbered_def zero partly_filled_def)
qed

text \<open>C13. The numbering of types and roles and the arrays of object contexts: on a tree whose live
  nodes have their objects, and where the first node of every live type and role is live, the
  first two passes succeed. Types (and roles) are numbered 0, 1, ... in the order of their first
  nodes, \<open>val_to_type\<close> (\<open>val_to_role\<close>) is the inverse of the numbering, and the array of every kind
  of object context holds exactly the contexts of that kind outside of macros and abstract
  blocks, in the order of the tree. No access is outside of an array.\<close>

theorem types_numbered_and_arrays_filled:
  assumes "nodes s root = Some nd" and "forest_at s (node_cl_head nd) ts" and "forest_size ts < fuel"
    and "distinct (live_nodes s ts)" and "list_all (post_ok s) (live_nodes s ts)" and "unnumbered s"
    and "firsts_live s CIL_TYPE (live_nodes s ts)" and "firsts_live s CIL_ROLE (live_nodes s ts)"
  shows "\<exists>t. bind (cil_tree_walk fuel cil_post_db_count_helper None None (Some root))
      (\<lambda>_. cil_tree_walk fuel cil_post_db_array_helper None None (Some root)) s = (Ok (), t) \<and>
    numbers_and_arrays s (live_nodes s ts) t"
proof -
  let ?xs = "live_nodes s ts"
  let ?t = "fold count_one ?xs s"
  have "cil_tree_walk fuel cil_post_db_count_helper None None (Some root) s = (Ok (), ?t)"
    unfolding cil_post_db_count_helper_def count_pass.tree_walk_visited [OF assms(1-3)]
    by (rule for_each_count) (rule assms(5))
  moreover have "cil_tree_walk fuel cil_post_db_array_helper None None (Some root) ?t =
      (Ok (), fold array_one ?xs ?t)"
  proof -
    have "links ?t = links s" by (rule links_nodes_eq) simp
    then have "forest_at ?t (node_cl_head nd) ts" using assms(2) by (rule forest_at_links)
    moreover have "nodes ?t root = Some nd" using assms(1) by simp
    moreover have "hides ?t = hides s" by (rule hides_cong) simp_all
    moreover have "array_ready ?t (?xs @ [])" using count_makes_ready [OF assms(5,4,6-8)] by simp
    ultimately show ?thesis
      unfolding cil_post_db_array_helper_def
      using array_pass.tree_walk_visited [of ?t root nd ts fuel] assms(3) for_each_array [of ?t ?xs "[]"] by simp
  qed
  ultimately show ?thesis using fold_count_then_array [OF assms(5,4,6-8)] by auto
qed

text \<open>A tree with a type, a role, a port context, and a port context inside of a macro.\<close>

definition example_node :: "cil_flavor \<Rightarrow> addr option \<Rightarrow> addr option \<Rightarrow> addr option \<Rightarrow> cil_tree_node" where
  "example_node f d head nxt = \<lparr>node_parent = None, node_cl_head = head, node_cl_tail = None, node_next = nxt,
     node_flavor = f, node_line = 1, node_path = None, node_data = d\<rparr>"

definition example_db :: "((string \<times> addr) list, nat list) cil_store" where
  "example_db = store0\<lparr>
     nodes := [2 \<mapsto> example_node CIL_ROOT None (Some 4) None,
       4 \<mapsto> example_node CIL_TYPE (Some 10) None (Some 5),
       5 \<mapsto> example_node CIL_ROLE (Some 11) None (Some 6),
       6 \<mapsto> example_node CIL_PORTCON (Some 12) None (Some 7),
       7 \<mapsto> example_node CIL_MACRO (Some 13) (Some 8) None,
       8 \<mapsto> example_node CIL_PORTCON (Some 14) None None],
     datums := [10 \<mapsto> \<lparr>datum_name = None, datum_fqn = None, datum_symtab = None, datum_nodes = Some [4]\<rparr>,
       11 \<mapsto> \<lparr>datum_name = None, datum_fqn = None, datum_symtab = None, datum_nodes = Some [5]\<rparr>],
     m_type := [10 \<mapsto> \<lparr>type_bounds = None, type_value = 7\<rparr>],
     m_role := [11 \<mapsto> \<lparr>role_bounds = None, role_types = None, role_value = 7\<rparr>]\<rparr>"

theorem types_numbered_and_arrays_filled_witness:
  "\<exists>t. bind (cil_tree_walk 20 cil_post_db_count_helper None None (Some 2))
      (\<lambda>_. cil_tree_walk 20 cil_post_db_array_helper None None (Some 2)) example_db = (Ok (), t) \<and>
    val_to_type t = Some [Some 10] \<and> sort_array (sorts t CIL_PORTCON) = Some [Some 12]"
proof -
  let ?ts = "[Ast 4 [], Ast 5 [], Ast 6 [], Ast 7 [Ast 8 []]]"
  note node = example_db_def example_node_def
  have live: "live_nodes example_db ?ts = [4, 5, 6, 7]" by (simp add: hides_def node)
  have tree: "nodes example_db 2 = Some (example_node CIL_ROOT None (Some 4) None)"
    "forest_at example_db (node_cl_head (example_node CIL_ROOT None (Some 4) None)) ?ts"
    by (simp_all add: node)
  have ok: "list_all (post_ok example_db) [4, 5, 6, 7]" by (simp add: post_ok_def node NODE_def)
  have "unnumbered example_db" by (simp add: unnumbered_def node)
  moreover have first: "first_node example_db CIL_TYPE 4" "first_node example_db CIL_ROLE 5"
    by (simp_all add: first_node_def has_flavor_def data_at_def node NODE_def)
  then have "firsts_live example_db CIL_TYPE [4, 5, 6, 7]" "firsts_live example_db CIL_ROLE [4, 5, 6, 7]"
    by (simp_all add: firsts_live_def has_flavor_def node)
  ultimately obtain t where
    run: "bind (cil_tree_walk 20 cil_post_db_count_helper None None (Some 2))
      (\<lambda>_. cil_tree_walk 20 cil_post_db_array_helper None None (Some 2)) example_db = (Ok (), t)"
    and res: "numbers_and_arrays example_db [4, 5, 6, 7] t"
    using types_numbered_and_arrays_filled [OF tree, of 20] ok unfolding live by auto
  have "first_of example_db CIL_TYPE [4, 5, 6, 7] = [10]"
    by (simp add: first_of_def of_flavor_def has_flavor_def data_at_def NODE_def node)
  moreover have "map (data_at example_db) (of_flavor example_db CIL_PORTCON [4, 5, 6, 7]) = [Some 12]"
    by (simp add: of_flavor_def has_flavor_def data_at_def node)
  moreover have "CIL_PORTCON \<in> set object_context_flavors" by (simp add: object_context_flavors_def)
  ultimately have "val_to_type t = Some [Some 10]" "sort_array (sorts t CIL_PORTCON) = Some [Some 12]"
    using res unfolding numbers_and_arrays_def Let_def by auto
  with run show ?thesis by blast
qed

end
