(* ===== verification/Cil_Post_Verify.thy ===== *)
theory Cil_Post_Verify
  imports Cil_Numbering
begin

text \<open>
  What \<open>cil_post_verify\<close> of \<open>src/cil_post.c\<close> decides: the two walks of \<open>__cil_verify_helper\<close> are
  loops over the nodes they meet; each node is checked on its own, and the statements that may
  occur once or must occur are counted.

  The walks change only the counters that extend the store, and no check depends on those: the
  checks commute with every update of the extension.
\<close>

subsection \<open>Checks do not depend on the counters\<close>

abbreviation with_more :: "('z \<Rightarrow> 'z) \<Rightarrow> ('h, 'b, 'z) cil_store_scheme \<Rightarrow> ('h, 'b, 'z) cil_store_scheme" where
  "with_more \<equiv> cil_store.more_update"

lemma NODE_extend [simp]: "NODE (with_more g s) = NODE s"
  and is_anonymous_extend [simp]: "is_anonymous (with_more g s) = is_anonymous s"
  and user_link_extend [simp]: "user_link (with_more g s) = user_link s"
  and role_link_extend [simp]: "role_link (with_more g s) = role_link s"
  and type_link_extend [simp]: "type_link (with_more g s) = type_link s"
  by (simp_all add: fun_eq_iff NODE_def is_anonymous_def user_link_def role_link_def type_link_def cong del: if_weak_cong option.case_cong_weak)

lemma cat_in_cats_extend [simp]: "cil_is_cat_in_cats (with_more g s) = cil_is_cat_in_cats s"
  by (simp add: fun_eq_iff cil_is_cat_in_cats_def cong del: if_weak_cong option.case_cong_weak)

lemma cat_in_some_cats_extend [simp]: "cat_in_some_cats (with_more g s) cat js = cat_in_some_cats s cat js"
  by (induction js) (simp_all cong del: if_weak_cong option.case_cong_weak)

lemma cats_all_associated_extend [simp]: "cats_all_associated (with_more g s) cs is = cats_all_associated s cs is"
  by (induction "is") (simp_all cong del: if_weak_cong option.case_cong_weak)

lemma cats_associated_extend [simp]:
  "cil_verify_cats_associated_with_sens (with_more g s) = cil_verify_cats_associated_with_sens s"
  by (simp add: fun_eq_iff cil_verify_cats_associated_with_sens_def cong del: if_weak_cong option.case_cong_weak)

lemma levelrange_parts_extend [simp]:
  "cil_verify_levelrange_sensitivity (with_more g s) = cil_verify_levelrange_sensitivity s"
  "cil_verify_cat_in_cats (with_more g s) = cil_verify_cat_in_cats s"
  by (simp_all add: fun_eq_iff cil_verify_levelrange_sensitivity_def cil_verify_cat_in_cats_def cong del: if_weak_cong option.case_cong_weak)

lemma levelrange_cats_extend [simp]:
  "cil_verify_levelrange_cats (with_more g s) = cil_verify_levelrange_cats s"
  by (simp add: fun_eq_iff cil_verify_levelrange_cats_def cong del: if_weak_cong option.case_cong_weak)

lemma levelrange_extend [simp]:
  "cil_verify_levelrange (with_more g s) = cil_verify_levelrange s"
  by (simp add: fun_eq_iff cil_verify_levelrange_def cong del: if_weak_cong option.case_cong_weak)

lemma named_levelrange_extend [simp]:
  "cil_verify_named_levelrange (with_more g s) = cil_verify_named_levelrange s"
  by (simp add: fun_eq_iff cil_verify_named_levelrange_def cong del: if_weak_cong option.case_cong_weak)

lemma bounds_checks_extend [simp]:
  "cil_verify_user (with_more g s) = cil_verify_user s"
  "cil_verify_role (with_more g s) = cil_verify_role s"
  "cil_verify_type (with_more g s) = cil_verify_type s"
  by (simp_all add: fun_eq_iff cil_verify_user_def cil_verify_role_def cil_verify_type_def cong del: if_weak_cong option.case_cong_weak)

lemma class_perm_loop_extend [simp]: "class_perm_loop (with_more g s) n c p = class_perm_loop s n c p"
proof (induction n arbitrary: p)
  case (Suc n)
  then show ?case by (cases p) (simp_all cong del: if_weak_cong option.case_cong_weak)
qed simp

lemma common_perm_loop_extend [simp]: "common_perm_loop (with_more g s) m n c p = common_perm_loop s m n c p"
proof (induction n arbitrary: p)
  case (Suc n)
  then show ?case by (cases p) (simp_all cong del: if_weak_cong option.case_cong_weak)
qed simp

lemma class_checks_extend [simp]:
  "cil_verify_class (with_more g s) = cil_verify_class s"
  "cil_verify_policycap L (with_more g s) = cil_verify_policycap L s"
  by (simp_all add: fun_eq_iff cil_verify_class_def cil_verify_policycap_def cong del: if_weak_cong option.case_cong_weak)

lemma sens_of_extend [simp]: "sens_of (with_more g s) = sens_of s"
  by (simp add: fun_eq_iff sens_of_def cong del: if_weak_cong option.case_cong_weak)

lemma context_extend [simp]:
  "cil_verify_context L (with_more g s) = cil_verify_context L s"
  by (simp add: fun_eq_iff cil_verify_context_def cong del: if_weak_cong option.case_cong_weak)

lemma contexts_extend [simp]:
  "cil_verify_named_context L (with_more g s) = cil_verify_named_context L s"
  "verify_anonymous_context L (with_more g s) = verify_anonymous_context L s"
  by (simp_all add: fun_eq_iff cil_verify_named_context_def verify_anonymous_context_def cong del: if_weak_cong option.case_cong_weak)

lemma object_contexts_extend [simp]:
  "cil_verify_netifcon L (with_more g s) = cil_verify_netifcon L s"
  "cil_verify_genfscon L (with_more g s) = cil_verify_genfscon L s"
  "cil_verify_filecon L (with_more g s) = cil_verify_filecon L s"
  "cil_verify_nodecon L (with_more g s) = cil_verify_nodecon L s"
  "cil_verify_portcon L (with_more g s) = cil_verify_portcon L s"
  "cil_verify_pirqcon L (with_more g s) = cil_verify_pirqcon L s"
  "cil_verify_iomemcon L (with_more g s) = cil_verify_iomemcon L s"
  "cil_verify_ioportcon L (with_more g s) = cil_verify_ioportcon L s"
  "cil_verify_pcidevicecon L (with_more g s) = cil_verify_pcidevicecon L s"
  "cil_verify_fsuse L (with_more g s) = cil_verify_fsuse L s"
  by (simp_all add: fun_eq_iff cil_verify_netifcon_def cil_verify_genfscon_def cil_verify_filecon_def
      cil_verify_nodecon_def cil_verify_portcon_def cil_verify_pirqcon_def cil_verify_iomemcon_def
      cil_verify_ioportcon_def cil_verify_pcidevicecon_def cil_verify_fsuse_def cong del: if_weak_cong option.case_cong_weak)

lemma booleanif_helper_extend [simp]:
  "cil_verify_booleanif_helper (with_more g s) = cil_verify_booleanif_helper s"
  by (simp add: fun_eq_iff cil_verify_booleanif_helper_def cong del: if_weak_cong option.case_cong_weak)

text \<open>Computations that commute with an update of the state.\<close>

definition commutes :: "('s \<Rightarrow> 's) \<Rightarrow> ('s, 'a) cil \<Rightarrow> bool" where
  "commutes U m \<longleftrightarrow> (\<forall>s. m (U s) = (fst (m s), U (snd (m s))))"

named_theorems cil_commutes \<open>introduction rules for computations that commute with an update\<close>

lemma commutes_ret [cil_commutes]: "commutes U (ret x)"
  and commutes_fail [cil_commutes]: "commutes U (fail e)"
  and commutes_no_fuel [cil_commutes]: "commutes U no_fuel"
  by (simp_all add: commutes_def)

lemma commutes_Pair [simp]: "commutes U (Pair r)"
  by (simp add: commutes_def)

lemma commutes_bind [cil_commutes]:
  assumes "commutes U m" and "\<And>x. commutes U (f x)"
  shows "commutes U (bind m f)"
  unfolding commutes_def
proof
  fix s
  have m: "m (U s) = (fst (m s), U (snd (m s)))" using assms(1) by (simp add: commutes_def)
  show "bind m f (U s) = (fst (bind m f s), U (snd (bind m f s)))"
  proof (cases "m s")
    case (Pair r t)
    with m have mU: "m (U s) = (r, U t)" by simp
    show ?thesis
    proof (cases r)
      case (Ok x)
      then show ?thesis using Pair mU assms(2) [of x] by (simp add: commutes_def)
    qed (use Pair mU in simp_all)
  qed
qed

lemma commutes_rd [cil_commutes]: "(\<And>s. sel (U s) = sel s) \<Longrightarrow> commutes U (rd sel a)"
  by (auto simp: commutes_def rd_def split: option.split)

lemma commutes_reading [cil_commutes]: "(\<And>s. f (U s) = f s) \<Longrightarrow> commutes U (reading f)"
  by (simp add: commutes_def)

lemma commutes_if [cil_commutes]:
  "(b \<Longrightarrow> commutes U m) \<Longrightarrow> (\<not> b \<Longrightarrow> commutes U n) \<Longrightarrow> commutes U (if b then m else n)"
  by simp

lemma commutes_case_option [cil_commutes]:
  "commutes U m \<Longrightarrow> (\<And>x. commutes U (f x)) \<Longrightarrow> commutes U (case p of None \<Rightarrow> m | Some x \<Rightarrow> f x)"
  by (cases p) auto

lemma walk_commutes:
  assumes p: "\<And>a. commutes U (process a)" and n: "\<And>s. nodes (U s) = nodes s"
  shows "commutes U (cil_tree_walk_core n process None None p)"
    and "commutes U (cil_tree_walk n process None None p)"
proof (induction n arbitrary: p)
  case 0
  case 1 show ?case by (simp add: commutes_no_fuel)
  case 2 show ?case by (simp add: commutes_no_fuel)
next
  case (Suc n)
  case 1 show ?case
    by (cases p) (auto simp: commutes_ret intro!: cil_commutes p n Suc.IH simp del: ret_apply)
  case 2 show ?case
  proof (cases p)
    case (Some a)
    show ?thesis
      unfolding Some cil_tree_walk.simps option.case by (intro cil_commutes n Suc.IH)
  qed (simp add: commutes_ret)
qed

lemma check_node_commutes: "(\<And>s. f (U s) = f s) \<Longrightarrow> commutes U (check_node f a)"
  unfolding check_node_def by (intro cil_commutes) (simp add: fun_eq_iff)

lemma booleanif_commutes: "commutes (with_more g) (cil_verify_booleanif fuel node)"
proof -
  have "commutes (with_more g) (verify_cond_blocks m n p)" for m n p
  proof (induction n arbitrary: p)
    case (Suc n)
    show ?case
    proof (cases p)
      case (Some b)
      show ?thesis
        unfolding Some verify_cond_blocks.simps
        by (intro cil_commutes walk_commutes check_node_commutes Suc.IH) simp_all
    qed (simp add: commutes_ret)
  qed (simp add: commutes_no_fuel)
  then show ?thesis
    unfolding cil_verify_booleanif_def by (intro cil_commutes) simp_all
qed

lemma check_node_reads: "preserves (\<lambda>s. s = s0) (check_node f a)"
  unfolding check_node_def by (intro cil_pres)

lemma walk_reads:
  assumes "\<And>a. preserves (\<lambda>s. s = s0) (process a)"
  shows "preserves (\<lambda>s. s = s0) (cil_tree_walk_core n process None None p)"
    and "preserves (\<lambda>s. s = s0) (cil_tree_walk n process None None p)"
proof (induction n arbitrary: p)
  case 0
  case 1 show ?case by simp
  case 2 show ?case by simp
next
  case (Suc n)
  case 1 show ?case
    by (cases p) (auto intro!: cil_pres assms Suc.IH simp del: ret_apply)
  case 2 show ?case
  proof (cases p)
    case (Some a)
    show ?thesis
      unfolding Some cil_tree_walk.simps option.case by (intro cil_pres Suc.IH)
  qed simp
qed

lemma booleanif_reads: "cil_verify_booleanif fuel node s = (r, t) \<Longrightarrow> t = s"
proof -
  assume run: "cil_verify_booleanif fuel node s = (r, t)"
  have "preserves (\<lambda>u. u = s) (verify_cond_blocks m n p)" for m n p
  proof (induction n arbitrary: p)
    case (Suc n)
    show ?case
    proof (cases p)
      case (Some b)
      show ?thesis
        unfolding Some verify_cond_blocks.simps by (intro cil_pres walk_reads check_node_reads Suc.IH)
    qed simp
  qed (simp add: preserves_no_fuel)
  then have "preserves (\<lambda>u. u = s) (cil_verify_booleanif fuel node)"
    unfolding cil_verify_booleanif_def by (intro cil_pres)
  from preservesD [OF this refl run] show ?thesis .
qed

subsection \<open>The check of a node in each pass\<close>

text \<open>The check of the first pass that looks at a node only, and of the second.\<close>

definition first_check ::
  "('h, 'b) sepol \<Rightarrow> nat \<Rightarrow> ('h, 'b, 'z) cil_store_scheme \<Rightarrow> addr \<Rightarrow> unit outcome"
where
  "first_check L fuel s a =
     obind (deref (nodes s) (Some a)) (\<lambda>nd.
     let f = node_flavor nd in
     if f = CIL_BLOCK then obind (deref (m_block s) (node_data nd)) (\<lambda>_. Ok ())
     else if f = CIL_USER then cil_verify_user s fuel a
     else if f = CIL_ROLE then cil_verify_role s fuel a
     else if f = CIL_TYPE then cil_verify_type s fuel a
     else if f = CIL_HANDLEUNKNOWN then obind (deref (m_handleunknown s) (node_data nd)) (\<lambda>_. Ok ())
     else if f = CIL_MLS then obind (deref (m_mls s) (node_data nd)) (\<lambda>_. Ok ())
     else if f = CIL_BOOLEANIF then fst (cil_verify_booleanif fuel a s)
     else if f = CIL_LEVELRANGE then cil_verify_named_levelrange s a
     else if f = CIL_CLASS then cil_verify_class s fuel a
     else if f = CIL_POLICYCAP then cil_verify_policycap L s a
     else Ok ())"

definition second_check ::
  "('h, 'b) sepol \<Rightarrow> ('h, 'b, 'z) cil_store_scheme \<Rightarrow> addr \<Rightarrow> unit outcome"
where
  "second_check L s a =
     obind (deref (nodes s) (Some a)) (\<lambda>nd.
     let f = node_flavor nd in
     if f = CIL_BLOCK then obind (deref (m_block s) (node_data nd)) (\<lambda>_. Ok ())
     else if f = CIL_CONTEXT then cil_verify_named_context L s a
     else if f = CIL_NETIFCON then cil_verify_netifcon L s a
     else if f = CIL_GENFSCON then cil_verify_genfscon L s a
     else if f = CIL_FILECON then cil_verify_filecon L s a
     else if f = CIL_NODECON then cil_verify_nodecon L s a
     else if f = CIL_PORTCON then cil_verify_portcon L s a
     else if f = CIL_PIRQCON then cil_verify_pirqcon L s a
     else if f = CIL_IOMEMCON then cil_verify_iomemcon L s a
     else if f = CIL_IOPORTCON then cil_verify_ioportcon L s a
     else if f = CIL_PCIDEVICECON then cil_verify_pcidevicecon L s a
     else if f = CIL_FSUSE then cil_verify_fsuse L s a
     else Ok ())"

lemma second_check_extend [simp]: "second_check L (with_more g s) = second_check L s"
  by (simp add: fun_eq_iff second_check_def Let_def cong del: if_weak_cong option.case_cong_weak)

lemma first_check_extend [simp]: "first_check L fuel (with_more g s) = first_check L fuel s"
proof -
  have "fst (cil_verify_booleanif fuel a (with_more g s)) = fst (cil_verify_booleanif fuel a s)" for a
    using booleanif_commutes [of g fuel a] unfolding commutes_def by (metis fst_conv)
  then show ?thesis
    by (simp add: fun_eq_iff first_check_def Let_def cong del: if_weak_cong option.case_cong_weak)
qed

text \<open>The effect of a node on the counters.\<close>

definition bump :: "addr \<Rightarrow> ('h, 'b, 'z) verify_store_scheme \<Rightarrow> ('h, 'b, 'z) verify_store_scheme" where
  "bump a s = (case nodes s a of None \<Rightarrow> s | Some nd \<Rightarrow>
     if node_flavor nd = CIL_SELINUXUSERDEFAULT then nseuserdflt_update (\<lambda>n. n + 1) s
     else if node_flavor nd = CIL_AVRULE then avrule_cnt_update (\<lambda>n. n + 1) s
     else if node_flavor nd = CIL_HANDLEUNKNOWN then
       handleunknown_update (\<lambda>_. handleunknown_handle_unknown (the (m_handleunknown s (the (node_data nd))))) s
     else if node_flavor nd = CIL_MLS then
       mls_update (\<lambda>_. mls_value (the (m_mls s (the (node_data nd))))) s
     else s)"

definition verify_visit ::
  "('h, 'b) sepol \<Rightarrow> nat \<Rightarrow> addr \<Rightarrow> (('h, 'b, 'z) verify_store_scheme, unit) cil"
where
  "verify_visit L fuel a = bind (cil_verify_helper L fuel a) (\<lambda>_. ret ())"

definition verify_hides :: "('h, 'b, 'z) verify_store_scheme \<Rightarrow> addr \<Rightarrow> bool" where
  "verify_hides s a \<longleftrightarrow> hides s a \<or> pass s = 0 \<and> has_flavor s CIL_BOOLEANIF a"

lemma booleanif_run: "cil_verify_booleanif fuel node s = (fst (cil_verify_booleanif fuel node s), s)"
  using booleanif_reads [of fuel node s] by (metis prod.collapse)

lemma preserves_booleanif: "preserves I (cil_verify_booleanif fuel node)"
  by (rule preservesI) (metis booleanif_run snd_conv)

lemma verify_helper_frame:
  assumes "cil_verify_helper L fuel a s = (r, t)"
  shows "nodes t = nodes s" and "m_block t = m_block s" and "pass t = pass s"
proof -
  have "preserves (\<lambda>u. nodes u = nodes s \<and> m_block u = m_block s \<and> pass u = pass s) (cil_verify_helper L fuel a)"
    unfolding cil_verify_helper_def by (intro cil_pres preserves_booleanif) simp_all
  from preservesD [OF this _ assms] show "nodes t = nodes s" "m_block t = m_block s" "pass t = pass s"
    by simp_all
qed

lemma verify_hides_cong:
  assumes "nodes t = nodes s" and "m_block t = m_block s" and "pass t = pass s"
  shows "verify_hides t = verify_hides s"
  unfolding verify_hides_def fun_eq_iff has_flavor_def assms hides_cong [OF assms(1,2)] by simp

text \<open>The first pass at a node.\<close>

lemma first_visit:
  assumes "pass s = 0"
  shows "cil_verify_helper L fuel a s = (Ok fin, t) \<longleftrightarrow>
    first_check L fuel s a = Ok () \<and>
    (has_flavor s CIL_HANDLEUNKNOWN a \<longrightarrow> handleunknown s = -1) \<and>
    (has_flavor s CIL_MLS a \<longrightarrow> mls s = -1) \<and>
    t = bump a s \<and> fin = (if verify_hides s a then CIL_TREE_SKIP_HEAD else CIL_TREE_SKIP_NOTHING)"
proof (cases "nodes s a")
  case None
  then show ?thesis by (simp add: cil_verify_helper_def first_check_def)
next
  case (Some nd)
  note defs = cil_verify_helper_def first_check_def verify_hides_def hides_def bump_def has_flavor_def
  consider (block) "node_flavor nd = CIL_BLOCK" | (hu) "node_flavor nd = CIL_HANDLEUNKNOWN"
    | (mls) "node_flavor nd = CIL_MLS" | (bool) "node_flavor nd = CIL_BOOLEANIF"
    | (counted) "node_flavor nd \<in> {CIL_SELINUXUSERDEFAULT, CIL_AVRULE}"
    | (check) "node_flavor nd \<in> {CIL_USER, CIL_ROLE, CIL_TYPE, CIL_LEVELRANGE, CIL_CLASS, CIL_POLICYCAP}"
    | (other) "node_flavor nd \<notin> {CIL_BLOCK, CIL_HANDLEUNKNOWN, CIL_MLS, CIL_BOOLEANIF, CIL_SELINUXUSERDEFAULT,
        CIL_AVRULE, CIL_USER, CIL_ROLE, CIL_TYPE, CIL_LEVELRANGE, CIL_CLASS, CIL_POLICYCAP}" by blast
  then show ?thesis
  proof cases
    case block
    with Some assms show ?thesis by (auto simp: defs bind_eq_Ok)
  next
    case hu
    with Some assms show ?thesis by (auto simp: defs bind_eq_Ok)
  next
    case mls
    with Some assms show ?thesis by (auto simp: defs bind_eq_Ok)
  next
    case bool
    have "cil_verify_booleanif fuel a s = (x, s') \<longleftrightarrow> fst (cil_verify_booleanif fuel a s) = x \<and> s' = s" for x s'
      using booleanif_run [of fuel a s] by (metis fst_conv snd_conv)
    with bool Some assms show ?thesis by (auto simp: defs bind_eq_Ok)
  next
    case counted
    with Some assms show ?thesis by (elim insertE emptyE) (auto simp: defs)
  next
    case check
    with Some assms show ?thesis by (elim insertE emptyE) (auto simp: defs bind_eq_Ok)
  next
    case other
    with Some assms show ?thesis by (cases "node_flavor nd = CIL_MACRO") (auto simp: defs)
  qed
qed

lemma second_visit:
  assumes "pass s = 1"
  shows "cil_verify_helper L fuel a s = (Ok fin, t) \<longleftrightarrow>
    second_check L s a = Ok () \<and> t = s \<and>
    fin = (if verify_hides s a then CIL_TREE_SKIP_HEAD else CIL_TREE_SKIP_NOTHING)"
proof (cases "nodes s a")
  case None
  then show ?thesis by (simp add: cil_verify_helper_def second_check_def)
next
  case (Some nd)
  note defs = cil_verify_helper_def second_check_def verify_hides_def hides_def has_flavor_def
  consider (block) "node_flavor nd = CIL_BLOCK" | (macro) "node_flavor nd = CIL_MACRO"
    | (other) "node_flavor nd \<noteq> CIL_BLOCK" "node_flavor nd \<noteq> CIL_MACRO" by blast
  then show ?thesis
  proof cases
    case block
    with Some assms show ?thesis by (auto simp: defs bind_eq_Ok)
  next
    case macro
    with Some assms show ?thesis by (auto simp: defs bind_eq_Ok)
  next
    case other
    with Some assms show ?thesis by (auto simp: defs bind_eq_Ok Let_def)
  qed
qed

interpretation verify_pass: skipping_pass "cil_verify_helper L fuel" "verify_visit L fuel" verify_hides
proof
  fix a and s :: "('a, 'b, 'c) verify_store_scheme" and r t
  have fin: "fin = (if verify_hides s a then CIL_TREE_SKIP_HEAD else CIL_TREE_SKIP_NOTHING)"
    if run: "cil_verify_helper L fuel a s = (Ok fin, t')" for fin t'
  proof -
    consider "pass s = 0" | "pass s = 1" | "pass s \<noteq> 0" "pass s \<noteq> 1" by blast
    then show ?thesis
    proof cases
      case 3
      with run show ?thesis
        by (cases "nodes s a") (auto simp: cil_verify_helper_def verify_hides_def hides_def bind_eq_Ok
            split: if_splits)
    qed (use run first_visit second_visit in blast)+
  qed
  then show "cil_verify_helper L fuel a s =
     (case verify_visit L fuel a s of
        (Ok _, t) \<Rightarrow> (Ok (if verify_hides s a then CIL_TREE_SKIP_HEAD else CIL_TREE_SKIP_NOTHING), t)
      | (Fail e, t) \<Rightarrow> (Fail e, t) | (Fault, t) \<Rightarrow> (Fault, t) | (Out_of_fuel, t) \<Rightarrow> (Out_of_fuel, t))"
    unfolding verify_visit_def
    by (cases "cil_verify_helper L fuel a s"; cases "fst (cil_verify_helper L fuel a s)") simp_all
  assume "verify_visit L fuel a s = (r, t)"
  then obtain r' where "cil_verify_helper L fuel a s = (r', t)"
    unfolding verify_visit_def
    by (cases "cil_verify_helper L fuel a s"; cases "fst (cil_verify_helper L fuel a s)") simp_all
  note frame = verify_helper_frame [OF this]
  show "nodes t = nodes s" by (rule frame)
  show "verify_hides t = verify_hides s" by (rule verify_hides_cong [OF frame])
qed

subsection \<open>The passes as loops\<close>

lemma bump_extends:
  fixes s :: "('h, 'b, 'z) verify_store_scheme"
  shows "\<exists>g. bump a s = with_more g s"
proof -
  have "t = with_more (\<lambda>_. cil_store.more t) s" if "cil_store.truncate t = cil_store.truncate s"
    for t :: "('h, 'b, 'z) verify_store_scheme"
    using that by (cases s, cases t) (simp add: cil_store.defs)
  moreover have "cil_store.truncate (bump a s) = cil_store.truncate s"
    by (simp add: bump_def cil_store.defs split: option.split)
  ultimately show ?thesis by blast
qed

lemma fold_bump_extends: "\<exists>g. fold bump xs s = with_more g s"
proof (induction xs rule: rev_induct)
  case Nil
  have "fold bump [] s = with_more (\<lambda>x. x) s" by (cases s) simp
  then show ?case by blast
next
  case (snoc a xs)
  from snoc obtain g where g: "fold bump xs s = with_more g s" by blast
  obtain h where h: "bump a (with_more g s) = with_more h (with_more g s)" using bump_extends by blast
  have "with_more h (with_more g s) = with_more (h \<circ> g) s" by simp
  with g h have "fold bump (xs @ [a]) s = with_more (h \<circ> g) s" by simp
  then show ?case by blast
qed

lemma bump_pass [simp]: "pass (bump a s) = pass s"
  by (simp add: bump_def split: option.split)

lemma bump_frame [simp]:
  "nodes (bump a s) = nodes s" "m_block (bump a s) = m_block s"
  "m_handleunknown (bump a s) = m_handleunknown s" "m_mls (bump a s) = m_mls s"
  "db_handle_unknown (bump a s) = db_handle_unknown s" "db_mls (bump a s) = db_mls s"
  "first_check L fuel (bump a s) = first_check L fuel s" "second_check L (bump a s) = second_check L s"
  using bump_extends [of a s] by (elim exE; simp)+

text \<open>What a statement that may occur once sets.\<close>

definition statement_value ::
  "cil_flavor \<Rightarrow> (addr \<Rightarrow> int) \<Rightarrow> ('h, 'b, 'z) cil_store_scheme \<Rightarrow> addr list \<Rightarrow> int"
where
  "statement_value f val s xs = (case of_flavor s f xs of [] \<Rightarrow> -1 | a # _ \<Rightarrow> val a)"

definition hu_value :: "('h, 'b, 'z) cil_store_scheme \<Rightarrow> addr \<Rightarrow> int" where
  "hu_value s a = handleunknown_handle_unknown (the (m_handleunknown s (the (data_at s a))))"

definition mls_setting :: "('h, 'b, 'z) cil_store_scheme \<Rightarrow> addr \<Rightarrow> int" where
  "mls_setting s a = mls_value (the (m_mls s (the (data_at s a))))"

lemma bump_counters:
  "avrule_cnt (bump a s) = avrule_cnt s + (if has_flavor s CIL_AVRULE a then 1 else 0)"
  "nseuserdflt (bump a s) = nseuserdflt s + (if has_flavor s CIL_SELINUXUSERDEFAULT a then 1 else 0)"
  "handleunknown (bump a s) = (if has_flavor s CIL_HANDLEUNKNOWN a then hu_value s a else handleunknown s)"
  "mls (bump a s) = (if has_flavor s CIL_MLS a then mls_setting s a else mls s)"
  by (auto simp: bump_def has_flavor_def hu_value_def mls_setting_def data_at_def split: option.split)

lemma bump_lookups [simp]:
  "has_flavor (bump a s) = has_flavor s" "hu_value (bump a s) = hu_value s" "mls_setting (bump a s) = mls_setting s"
  "of_flavor (bump a s) = of_flavor s"
  by (simp_all add: fun_eq_iff has_flavor_def hu_value_def mls_setting_def data_at_def of_flavor_cong [OF bump_frame(1)])

lemma of_flavor_Cons:
  "of_flavor s f (a # xs) = (if has_flavor s f a then a # of_flavor s f xs else of_flavor s f xs)"
  by (simp add: of_flavor_def)

lemma fold_bump_counts:
  "avrule_cnt (fold bump xs s) = avrule_cnt s + int (length (of_flavor s CIL_AVRULE xs))"
  "nseuserdflt (fold bump xs s) = nseuserdflt s + int (length (of_flavor s CIL_SELINUXUSERDEFAULT xs))"
  by (induction xs arbitrary: s) (simp_all add: bump_counters of_flavor_Cons of_flavor_def)

lemma fold_bump_frame [simp]:
  "nodes (fold bump xs s) = nodes s" "m_block (fold bump xs s) = m_block s" "pass (fold bump xs s) = pass s"
  "db_handle_unknown (fold bump xs s) = db_handle_unknown s" "db_mls (fold bump xs s) = db_mls s"
  "second_check L (fold bump xs s) = second_check L s"
  by (induction xs arbitrary: s) simp_all

lemma fold_bump_settings:
  "length (of_flavor s CIL_HANDLEUNKNOWN xs) \<le> (if handleunknown s = -1 then 1 else 0) \<Longrightarrow>
   handleunknown (fold bump xs s) = (case of_flavor s CIL_HANDLEUNKNOWN xs of [] \<Rightarrow> handleunknown s | a # _ \<Rightarrow> hu_value s a)"
  "length (of_flavor s CIL_MLS xs) \<le> (if mls s = -1 then 1 else 0) \<Longrightarrow>
   mls (fold bump xs s) = (case of_flavor s CIL_MLS xs of [] \<Rightarrow> mls s | a # _ \<Rightarrow> mls_setting s a)"
proof -
  have none: "handleunknown (fold bump ys u) = handleunknown u" if "of_flavor u CIL_HANDLEUNKNOWN ys = []"
    for ys and u :: "('a, 'b, 'c) verify_store_scheme"
    using that by (induction ys arbitrary: u) (auto simp: bump_counters of_flavor_Cons split: if_splits)
  have none': "mls (fold bump ys u) = mls u" if "of_flavor u CIL_MLS ys = []"
    for ys and u :: "('a, 'b, 'c) verify_store_scheme"
    using that by (induction ys arbitrary: u) (auto simp: bump_counters of_flavor_Cons split: if_splits)
  show "length (of_flavor s CIL_HANDLEUNKNOWN xs) \<le> (if handleunknown s = -1 then 1 else 0) \<Longrightarrow>
    handleunknown (fold bump xs s) = (case of_flavor s CIL_HANDLEUNKNOWN xs of [] \<Rightarrow> handleunknown s | a # _ \<Rightarrow> hu_value s a)"
  proof (induction xs arbitrary: s)
    case (Cons a xs)
    show ?case
    proof (cases "has_flavor s CIL_HANDLEUNKNOWN a")
      case True
      with Cons.prems have "of_flavor s CIL_HANDLEUNKNOWN xs = []" by (auto simp: of_flavor_Cons split: if_splits)
      with True show ?thesis using none [of "bump a s" xs] by (simp add: of_flavor_Cons bump_counters)
    next
      case False
      with Cons.prems Cons.IH [of "bump a s"] show ?thesis by (simp add: of_flavor_Cons bump_counters split: list.split)
    qed
  qed (simp add: of_flavor_def)
  show "length (of_flavor s CIL_MLS xs) \<le> (if mls s = -1 then 1 else 0) \<Longrightarrow>
    mls (fold bump xs s) = (case of_flavor s CIL_MLS xs of [] \<Rightarrow> mls s | a # _ \<Rightarrow> mls_setting s a)"
  proof (induction xs arbitrary: s)
    case (Cons a xs)
    show ?case
    proof (cases "has_flavor s CIL_MLS a")
      case True
      with Cons.prems have "of_flavor s CIL_MLS xs = []" by (auto simp: of_flavor_Cons split: if_splits)
      with True show ?thesis using none' [of "bump a s" xs] by (simp add: of_flavor_Cons bump_counters)
    next
      case False
      with Cons.prems Cons.IH [of "bump a s"] show ?thesis by (simp add: of_flavor_Cons bump_counters split: list.split)
    qed
  qed (simp add: of_flavor_def)
qed

text \<open>No statement sets the value that stands for \<open>not set\<close>.\<close>

definition settings_ok :: "('h, 'b, 'z) cil_store_scheme \<Rightarrow> addr list \<Rightarrow> bool" where
  "settings_ok s xs \<longleftrightarrow> (\<forall>a \<in> set (of_flavor s CIL_HANDLEUNKNOWN xs). hu_value s a \<noteq> -1) \<and>
     (\<forall>a \<in> set (of_flavor s CIL_MLS xs). mls_setting s a \<noteq> -1)"

lemma first_loop:
  assumes "pass s = 0" and "settings_ok s xs"
  shows "for_each (verify_visit L fuel) xs s = (Ok (), t) \<longleftrightarrow>
    (\<forall>a \<in> set xs. first_check L fuel s a = Ok ()) \<and>
    length (of_flavor s CIL_HANDLEUNKNOWN xs) \<le> (if handleunknown s = -1 then 1 else 0) \<and>
    length (of_flavor s CIL_MLS xs) \<le> (if mls s = -1 then 1 else 0) \<and>
    t = fold bump xs s"
  using assms
proof (induction xs arbitrary: s)
  case Nil
  then show ?case by (auto simp: of_flavor_def)
next
  case (Cons a xs)
  have ok: "settings_ok (bump a s) xs" and p: "pass (bump a s) = 0"
    using Cons.prems by (auto simp: settings_ok_def of_flavor_Cons split: if_splits)
  have hu: "has_flavor s CIL_HANDLEUNKNOWN a \<Longrightarrow> hu_value s a \<noteq> -1"
    and ms: "has_flavor s CIL_MLS a \<Longrightarrow> mls_setting s a \<noteq> -1"
    using Cons.prems by (auto simp: settings_ok_def of_flavor_Cons)
  have "for_each (verify_visit L fuel) (a # xs) s = (Ok (), t) \<longleftrightarrow>
      first_check L fuel s a = Ok () \<and>
      (has_flavor s CIL_HANDLEUNKNOWN a \<longrightarrow> handleunknown s = -1) \<and>
      (has_flavor s CIL_MLS a \<longrightarrow> mls s = -1) \<and>
      for_each (verify_visit L fuel) xs (bump a s) = (Ok (), t)"
    using first_visit [OF Cons.prems(1), of L fuel a] by (auto simp: bind_eq_Ok verify_visit_def)
  then show ?case
    unfolding Cons.IH [OF p ok] using hu ms by (auto simp: bump_counters of_flavor_Cons split: if_splits)
qed

lemma second_loop:
  assumes "pass s = 1"
  shows "for_each (verify_visit L fuel) xs s = (Ok (), t) \<longleftrightarrow>
    (\<forall>a \<in> set xs. second_check L s a = Ok ()) \<and> t = s"
proof (induction xs)
  case (Cons a xs)
  have "for_each (verify_visit L fuel) (a # xs) s = (Ok (), t) \<longleftrightarrow>
      second_check L s a = Ok () \<and> for_each (verify_visit L fuel) xs s = (Ok (), t)"
    using second_visit [OF assms, of L fuel a] by (auto simp: bind_eq_Ok verify_visit_def)
  with Cons show ?case by auto
qed auto

subsection \<open>What the final verification decides\<close>

text \<open>The nodes of the first pass: boolean blocks are checked as a whole and not entered.\<close>

abbreviation first_nodes :: "('h, 'b, 'z) cil_store_scheme \<Rightarrow> ast list \<Rightarrow> addr list" where
  "first_nodes s \<equiv> visited (\<lambda>a. hides s a \<or> has_flavor s CIL_BOOLEANIF a)"

definition policy_accepted ::
  "('h, 'b) sepol \<Rightarrow> nat \<Rightarrow> ('h, 'b, 'z) cil_store_scheme \<Rightarrow> ast list \<Rightarrow> bool"
where
  "policy_accepted L fuel s ts \<longleftrightarrow>
     (\<forall>a \<in> set (first_nodes s ts). first_check L fuel s a = Ok ()) \<and>
     (\<forall>a \<in> set (live_nodes s ts). second_check L s a = Ok ()) \<and>
     length (of_flavor s CIL_HANDLEUNKNOWN (first_nodes s ts)) \<le> 1 \<and>
     length (of_flavor s CIL_MLS (first_nodes s ts)) \<le> 1 \<and>
     length (of_flavor s CIL_SELINUXUSERDEFAULT (first_nodes s ts)) \<le> 1 \<and>
     1 \<le> length (of_flavor s CIL_AVRULE (first_nodes s ts))"

lemma truncate_extends:
  fixes s t :: "('h, 'b, 'z) verify_store_scheme"
  shows "cil_store.truncate t = cil_store.truncate s \<Longrightarrow> t = with_more (\<lambda>_. cil_store.more t) s"
  by (cases s, cases t) (simp add: cil_store.defs)

lemma start_verify_extends: "\<exists>g. start_verify s = with_more g s"
  by (rule exI, rule truncate_extends) (simp add: start_verify_def cil_store.defs)

lemma pass_update_extends: "\<exists>g. pass_update f s = with_more g s"
  by (rule exI, rule truncate_extends) (simp add: cil_store.defs)

lemma with_more_views [simp]:
  "hides (with_more g s) = hides s" "has_flavor (with_more g s) = has_flavor s"
  "of_flavor (with_more g s) = of_flavor s" "data_at (with_more g s) = data_at s"
  "hu_value (with_more g s) = hu_value s" "mls_setting (with_more g s) = mls_setting s"
proof -
  show "of_flavor (with_more g s) = of_flavor s" by (intro ext of_flavor_cong) simp
  show "hides (with_more g s) = hides s" by (rule hides_cong) simp_all
qed (simp_all add: fun_eq_iff has_flavor_def data_at_def hu_value_def mls_setting_def)

lemma forest_at_nodes: "nodes t = nodes s \<Longrightarrow> forest_at s p ts \<Longrightarrow> forest_at t p ts"
  using forest_at_links links_nodes_eq by blast

lemma first_walk:
  assumes "nodes s root = Some nd" and "forest_at s (node_cl_head nd) ts" and "forest_size ts < fuel"
    and "settings_ok s (first_nodes s ts)"
  shows "cil_tree_walk fuel (cil_verify_helper L fuel) None None (Some root) (start_verify s) = (Ok (), t) \<longleftrightarrow>
    (\<forall>a \<in> set (first_nodes s ts). first_check L fuel s a = Ok ()) \<and>
    length (of_flavor s CIL_HANDLEUNKNOWN (first_nodes s ts)) \<le> 1 \<and>
    length (of_flavor s CIL_MLS (first_nodes s ts)) \<le> 1 \<and>
    t = fold bump (first_nodes s ts) (start_verify s)"
proof -
  let ?s = "start_verify s"
  obtain g where g: "?s = with_more g s" using start_verify_extends by blast
  have init: "pass ?s = 0" "handleunknown ?s = -1" "mls ?s = -1" by (simp_all add: start_verify_def)
  have tree: "nodes ?s root = Some nd" "forest_at ?s (node_cl_head nd) ts"
    using assms(1) forest_at_nodes [OF _ assms(2), of ?s] by (simp_all add: g)
  have hid: "verify_hides ?s = (\<lambda>a. hides s a \<or> has_flavor s CIL_BOOLEANIF a)"
    by (rule ext) (unfold verify_hides_def init, simp add: g)
  have views: "of_flavor ?s = of_flavor s" "hu_value ?s = hu_value s" "mls_setting ?s = mls_setting s"
    "first_check L fuel ?s = first_check L fuel s" by (simp_all add: g)
  have "settings_ok ?s (first_nodes s ts)" using assms(4) by (simp add: settings_ok_def views)
  from first_loop [OF init(1) this, of L fuel t] show ?thesis
    unfolding verify_pass.tree_walk_visited [OF tree assms(3)] hid init views by simp
qed

lemma second_walk:
  assumes "nodes s root = Some nd" and "forest_at s (node_cl_head nd) ts" and "forest_size ts < fuel"
    and "pass s = 1"
  shows "cil_tree_walk fuel (cil_verify_helper L fuel) None None (Some root) s = (Ok (), t) \<longleftrightarrow>
    (\<forall>a \<in> set (live_nodes s ts). second_check L s a = Ok ()) \<and> t = s"
proof -
  have "verify_hides s = hides s" by (rule ext) (simp add: verify_hides_def assms(4))
  then show ?thesis
    unfolding verify_pass.tree_walk_visited [OF assms(1-3)] second_loop [OF assms(4)] by simp
qed

lemma post_settings_counts [simp]:
  "avrule_cnt (post_handle_unknown L s) = avrule_cnt s" "nseuserdflt (post_handle_unknown L s) = nseuserdflt s"
  "avrule_cnt (post_mls s) = avrule_cnt s" "nseuserdflt (post_mls s) = nseuserdflt s"
  by (simp_all add: post_handle_unknown_def post_mls_def)

text \<open>The state after the two passes.\<close>

definition verify_end :: "('h, 'b, 'z) verify_store_scheme \<Rightarrow> ast list \<Rightarrow> ('h, 'b, 'z) verify_store_scheme" where
  "verify_end s ts = pass_update (\<lambda>_. 2) (pass_update (\<lambda>_. 1) (fold bump (first_nodes s ts) (start_verify s)))"

lemma post_verify_run:
  assumes "nodes s root = Some nd" and "forest_at s (node_cl_head nd) ts" and "forest_size ts < fuel"
    and "settings_ok s (first_nodes s ts)" and "ast_root s = Some root"
  shows "cil_post_verify L fuel s = (Ok (), t) \<longleftrightarrow>
    policy_accepted L fuel s ts \<and> t = post_mls (post_handle_unknown L (verify_end s ts))"
proof -
  let ?xs = "first_nodes s ts"
  let ?u = "fold bump ?xs (start_verify s)"
  let ?w = "pass_update (\<lambda>_. 1) ?u"
  obtain g where g: "start_verify s = with_more g s" using start_verify_extends by blast
  obtain h where h: "pass_update (\<lambda>_. 1 :: nat) ?u = with_more h ?u" using pass_update_extends by blast
  have tree: "nodes ?w root = Some nd" "forest_at ?w (node_cl_head nd) ts"
    using assms(1) forest_at_nodes [OF _ assms(2), of ?w] by (simp_all add: g)
  have "hides ?w = hides s" by (rule hides_cong) (simp_all add: g)
  then have live: "live_nodes ?w ts = live_nodes s ts" by simp
  have check: "second_check L ?w = second_check L s" unfolding h by (simp add: g)
  have root: "ast_root (start_verify s) = Some root" using assms(5) by (simp add: g)
  have "of_flavor (start_verify s) = of_flavor s" by (simp add: g)
  moreover have "avrule_cnt (start_verify s) = 0" "nseuserdflt (start_verify s) = 0"
    by (simp_all add: start_verify_def)
  ultimately have counts: "avrule_cnt ?u = int (length (of_flavor s CIL_AVRULE ?xs))"
    "nseuserdflt ?u = int (length (of_flavor s CIL_SELINUXUSERDEFAULT ?xs))"
    by (simp_all add: fold_bump_counts)
  have second: "cil_tree_walk fuel (cil_verify_helper L fuel) None None (Some root) ?w = (Ok (), t') \<longleftrightarrow>
      (\<forall>a \<in> set (live_nodes s ts). second_check L s a = Ok ()) \<and> t' = ?w" for t'
    using second_walk [OF tree assms(3), of L t'] unfolding live check by simp
  let ?fin = "\<lambda>v. bind (modify (pass_update (\<lambda>_. 2))) (\<lambda>_. bind (modify (post_handle_unknown L)) (\<lambda>_.
      bind (modify post_mls) (\<lambda>_. bind (gets avrule_cnt) (\<lambda>n. if n = 0 then fail SEPOL_ERR
      else bind (gets nseuserdflt) (\<lambda>m. if m > 1 then fail SEPOL_ERR else ret ()))))) v"
  have fin: "?fin ?w = (Ok (), t) \<longleftrightarrow>
      1 \<le> length (of_flavor s CIL_AVRULE ?xs) \<and> length (of_flavor s CIL_SELINUXUSERDEFAULT ?xs) \<le> 1 \<and>
      t = post_mls (post_handle_unknown L (verify_end s ts))"
    by (auto simp: counts verify_end_def Suc_le_eq)
  have "cil_post_verify L fuel s = (Ok (), t) \<longleftrightarrow>
      (\<exists>v. cil_tree_walk fuel (cil_verify_helper L fuel) None None (Some root) (start_verify s) = (Ok (), v) \<and>
       (\<exists>v'. cil_tree_walk fuel (cil_verify_helper L fuel) None None (Some root) (pass_update (\<lambda>_. 1) v) = (Ok (), v') \<and>
        ?fin v' = (Ok (), t)))"
    unfolding cil_post_verify_def by (simp add: root bind_eq_Ok)
  also have "\<dots> \<longleftrightarrow> policy_accepted L fuel s ts \<and> t = post_mls (post_handle_unknown L (verify_end s ts))"
    unfolding first_walk [OF assms(1-4)] using second fin by (auto simp: policy_accepted_def)
  finally show ?thesis .
qed

lemma verify_end_fields:
  "db_handle_unknown (verify_end s ts) = db_handle_unknown s" "db_mls (verify_end s ts) = db_mls s"
  "handleunknown (verify_end s ts) = handleunknown (fold bump (first_nodes s ts) (start_verify s))"
  "mls (verify_end s ts) = mls (fold bump (first_nodes s ts) (start_verify s))"
  by (simp_all add: verify_end_def start_verify_def)

lemma verify_end_settings:
  assumes "policy_accepted L fuel s ts"
  shows "handleunknown (verify_end s ts) = statement_value CIL_HANDLEUNKNOWN (hu_value s) s (first_nodes s ts)"
    and "mls (verify_end s ts) = statement_value CIL_MLS (mls_setting s) s (first_nodes s ts)"
proof -
  obtain g where g: "start_verify s = with_more g s" using start_verify_extends by blast
  have views: "of_flavor (start_verify s) = of_flavor s" "hu_value (start_verify s) = hu_value s"
    "mls_setting (start_verify s) = mls_setting s" by (simp_all add: g)
  have init: "handleunknown (start_verify s) = -1" "mls (start_verify s) = -1" by (simp_all add: start_verify_def)
  from assms have "length (of_flavor s CIL_HANDLEUNKNOWN (first_nodes s ts)) \<le> 1"
    "length (of_flavor s CIL_MLS (first_nodes s ts)) \<le> 1" by (simp_all add: policy_accepted_def)
  then show "handleunknown (verify_end s ts) = statement_value CIL_HANDLEUNKNOWN (hu_value s) s (first_nodes s ts)"
    "mls (verify_end s ts) = statement_value CIL_MLS (mls_setting s) s (first_nodes s ts)"
    unfolding verify_end_fields statement_value_def
    by (simp_all add: fold_bump_settings views init split: list.split)
qed

subsection \<open>Properties\<close>

text \<open>C12. The final verification of a policy succeeds exactly when every node of the first pass and
  every live node of the second passes its own check, there is at most one \<open>handleunknown\<close>, one
  \<open>mls\<close> and one \<open>selinuxuserdefault\<close> statement, and at least one access vector rule (outside of
  macros, abstract blocks and boolean blocks). The result of a check does not depend on the order of
  the nodes.\<close>

theorem post_verify_decided:
  assumes "ast_root s = Some root" and "nodes s root = Some nd" and "forest_at s (node_cl_head nd) ts"
    and "forest_size ts < fuel" and "settings_ok s (first_nodes s ts)"
  shows "(\<exists>t. cil_post_verify L fuel s = (Ok (), t)) \<longleftrightarrow>
     (\<forall>a \<in> set (first_nodes s ts). first_check L fuel s a = Ok ()) \<and>
     (\<forall>a \<in> set (live_nodes s ts). second_check L s a = Ok ()) \<and>
     length (of_flavor s CIL_HANDLEUNKNOWN (first_nodes s ts)) \<le> 1 \<and>
     length (of_flavor s CIL_MLS (first_nodes s ts)) \<le> 1 \<and>
     length (of_flavor s CIL_SELINUXUSERDEFAULT (first_nodes s ts)) \<le> 1 \<and>
     1 \<le> length (of_flavor s CIL_AVRULE (first_nodes s ts))"
  unfolding post_verify_run [OF assms(2-5,1)] policy_accepted_def by blast

text \<open>The settings of the policy: after a successful verification, \<open>handle_unknown\<close> is the value of
  the configuration if it gives one, else that of the \<open>handleunknown\<close> statement if there is one, else
  \<open>deny\<close>; likewise \<open>mls\<close>, which is off by default.\<close>

theorem post_verify_settings:
  assumes "ast_root s = Some root" and "nodes s root = Some nd" and "forest_at s (node_cl_head nd) ts"
    and "forest_size ts < fuel" and "settings_ok s (first_nodes s ts)"
    and "cil_post_verify L fuel s = (Ok (), t)"
  shows "db_handle_unknown t =
      (if db_handle_unknown s \<noteq> -1 then db_handle_unknown s
       else case of_flavor s CIL_HANDLEUNKNOWN (first_nodes s ts) of
         [] \<Rightarrow> deny_unknown L | a # _ \<Rightarrow> hu_value s a) \<and>
    db_mls t =
      (if db_mls s \<noteq> -1 then db_mls s
       else case of_flavor s CIL_MLS (first_nodes s ts) of [] \<Rightarrow> 0 | a # _ \<Rightarrow> mls_setting s a)"
proof -
  from assms(6) have ok: "policy_accepted L fuel s ts"
    and t: "t = post_mls (post_handle_unknown L (verify_end s ts))"
    unfolding post_verify_run [OF assms(2-5,1)] by blast+
  note sets = verify_end_settings [OF ok] verify_end_fields(1,2)
  show ?thesis
    using assms(5)
    by (auto simp: t post_mls_def post_handle_unknown_def sets statement_value_def settings_ok_def split: list.splits)
qed

text \<open>A policy with an access vector rule and a \<open>handleunknown\<close> statement; the macro is not looked at.\<close>

definition small_policy :: "((string \<times> addr) list, nat list) verify_store" where
  "small_policy = cil_store.extend (store0\<lparr>
     nodes := [2 \<mapsto> example_node CIL_ROOT None (Some 4) None,
       4 \<mapsto> example_node CIL_AVRULE (Some 10) None (Some 5),
       5 \<mapsto> example_node CIL_HANDLEUNKNOWN (Some 11) None (Some 6),
       6 \<mapsto> example_node CIL_MACRO (Some 12) (Some 7) None,
       7 \<mapsto> example_node CIL_HANDLEUNKNOWN (Some 13) None None],
     m_handleunknown := [11 \<mapsto> \<lparr>handleunknown_handle_unknown = 4\<rparr>],
     ast_root := Some 2, db_handle_unknown := -1, db_mls := -1\<rparr>)
     (verify_store.fields 0 0 0 0 0)"

lemma small_policy_fields:
  "nodes small_policy = [2 \<mapsto> example_node CIL_ROOT None (Some 4) None,
       4 \<mapsto> example_node CIL_AVRULE (Some 10) None (Some 5),
       5 \<mapsto> example_node CIL_HANDLEUNKNOWN (Some 11) None (Some 6),
       6 \<mapsto> example_node CIL_MACRO (Some 12) (Some 7) None,
       7 \<mapsto> example_node CIL_HANDLEUNKNOWN (Some 13) None None]"
  "m_handleunknown small_policy = [11 \<mapsto> \<lparr>handleunknown_handle_unknown = 4\<rparr>]"
  "ast_root small_policy = Some 2" "db_handle_unknown small_policy = -1" "db_mls small_policy = -1"
  by (simp_all add: small_policy_def cil_store.defs)

definition small_forest :: "ast list" where
  "small_forest = [Ast 4 [], Ast 5 [], Ast 6 [Ast 7 []]]"

lemma small_policy_facts:
  "nodes small_policy 2 = Some (example_node CIL_ROOT None (Some 4) None)"
  "forest_at small_policy (node_cl_head (example_node CIL_ROOT None (Some 4) None)) small_forest"
  "forest_size small_forest < 20"
  "first_nodes small_policy small_forest = [4, 5, 6]" "live_nodes small_policy small_forest = [4, 5, 6]"
  "settings_ok small_policy [4, 5, 6]"
  "of_flavor small_policy CIL_HANDLEUNKNOWN [4, 5, 6] = [5]" "of_flavor small_policy CIL_MLS [4, 5, 6] = []"
  "of_flavor small_policy CIL_AVRULE [4, 5, 6] = [4]" "of_flavor small_policy CIL_SELINUXUSERDEFAULT [4, 5, 6] = []"
  "hu_value small_policy 5 = 4"
  by (simp_all add: small_policy_fields small_forest_def example_node_def hides_def has_flavor_def of_flavor_def
      settings_ok_def hu_value_def data_at_def)

lemma small_policy_checks:
  "\<forall>a \<in> set [4, 5, 6]. first_check sepol0 20 small_policy a = Ok ()"
  "\<forall>a \<in> set [4, 5, 6]. second_check sepol0 small_policy a = Ok ()"
  by (simp_all add: first_check_def second_check_def small_policy_fields example_node_def)

theorem post_verify_decided_witness:
  "\<exists>t. cil_post_verify sepol0 20 small_policy = (Ok (), t)"
  using post_verify_decided [OF small_policy_fields(3) small_policy_facts(1-3), of sepol0]
    small_policy_facts small_policy_checks by simp

theorem post_verify_settings_witness:
  "db_handle_unknown (snd (cil_post_verify sepol0 20 small_policy)) = 4"
proof -
  have "policy_accepted sepol0 20 small_policy small_forest"
    using small_policy_facts small_policy_checks by (simp add: policy_accepted_def)
  then obtain t where t: "cil_post_verify sepol0 20 small_policy = (Ok (), t)"
    using post_verify_run [OF small_policy_facts(1-3), of sepol0] small_policy_fields(3) small_policy_facts(4,6)
    by auto
  from post_verify_settings [OF small_policy_fields(3) small_policy_facts(1-3) _ t]
  show ?thesis using t small_policy_facts small_policy_fields(4) by simp
qed

end
