(* ===== verification/Cil_Reset.thy ===== *)
theory Cil_Reset
  imports Cil_Tree Cil_Expr
begin

text \<open>
  The reset of the AST before it is resolved again (\<open>src/cil_reset_ast.c\<close>). When the resolution
  disables an optional block, all that it has written into the AST is undone, and it starts over.

  One operation per function of the file. Destroying a list sets the pointer to it to null. The
  recursion through sets of class permissions has fuel. The lemmas show what the reset clears at
  every node of the tree, and that it writes nothing else.
\<close>

subsection \<open>Classes and class permissions\<close>

definition class_reset_perm_values :: "32 word \<Rightarrow> addr \<Rightarrow> (('h, 'b, 'z) cil_store_scheme, unit) cil" where
  "class_reset_perm_values n d = wr m_perm m_perm_update d (perm_value_update (\<lambda>v. v - n))"

text \<open>The permissions of the common, not those of the class, are changed.\<close>

definition cil_reset_class :: "('h, 'b) sepol \<Rightarrow> addr \<Rightarrow> (('h, 'b, 'z) cil_store_scheme, unit) cil" where
  "cil_reset_class L class =
     bind (rd m_class class) (\<lambda>c.
     bind (case class_common c of
         None \<Rightarrow> ret ()
       | Some common \<Rightarrow>
           bind (rd m_class common) (\<lambda>com.
           bind (reading (\<lambda>s. case symtabs s (SymPerms common) of None \<Rightarrow> Fault | Some h \<Rightarrow> Ok h)) (\<lambda>h.
           bind (for_each (class_reset_perm_values (class_num_perms com)) (map snd (ht_entries L h))) (\<lambda>_.
           bind (wr m_class m_class_update class (class_num_perms_update (\<lambda>n. n - class_num_perms com))) (\<lambda>_.
           wr m_class m_class_update class (class_common_update (\<lambda>_. None))))))) (\<lambda>_.
     wr m_class m_class_update class (class_ordered_update (\<lambda>_. False))))"

definition cil_reset_classperms :: "addr \<Rightarrow> (('h, 'b, 'z) cil_store_scheme, unit) cil" where
  "cil_reset_classperms cp = wr m_classperms m_classperms_update cp (classperms_perms_update (\<lambda>_. None))"

fun cil_reset_classperms_list :: "nat \<Rightarrow> classperms_list option \<Rightarrow> (('h, 'b, 'z) cil_store_scheme, unit) cil"
where
  "cil_reset_classperms_list 0 cp_list = no_fuel"
| "cil_reset_classperms_list (Suc fuel) None = ret ()"
| "cil_reset_classperms_list (Suc fuel) (Some items) =
     for_each (\<lambda>(flavor, cp).
       if flavor = CIL_CLASSPERMS then cil_reset_classperms cp
       else if flavor = CIL_CLASSPERMS_SET then
         bind (rd m_classperms_set cp) (\<lambda>cp_set.
         case classperms_set_set cp_set of
           None \<Rightarrow> ret ()
         | Some cp' \<Rightarrow>
             bind (rd m_classpermission cp') (\<lambda>c. cil_reset_classperms_list fuel (classpermission_classperms c)))
       else ret ()) items"

subsection \<open>Levels and contexts\<close>

definition cil_reset_cats :: "addr option \<Rightarrow> (('h, 'b, 'z) cil_store_scheme, unit) cil" where
  "cil_reset_cats cats =
     (case cats of
        None \<Rightarrow> ret ()
      | Some c \<Rightarrow>
          bind (wr m_cats m_cats_update c (cats_evaluated_update (\<lambda>_. False))) (\<lambda>_.
          wr m_cats m_cats_update c (cats_datum_expr_update (\<lambda>_. None))))"

definition cil_reset_level :: "addr option \<Rightarrow> (('h, 'b, 'z) cil_store_scheme, unit) cil" where
  "cil_reset_level level =
     bind (reading (\<lambda>s. deref (m_level s) level)) (\<lambda>l. cil_reset_cats (level_cats l))"

definition cil_reset_levelrange :: "addr option \<Rightarrow> (('h, 'b, 'z) cil_store_scheme, unit) cil" where
  "cil_reset_levelrange levelrange =
     bind (reading (\<lambda>s. deref (m_levelrange s) levelrange)) (\<lambda>lr.
     bind (if levelrange_low_str lr = None then cil_reset_level (levelrange_low lr) else ret ()) (\<lambda>_.
     if levelrange_high_str lr = None then cil_reset_level (levelrange_high lr) else ret ()))"

definition cil_reset_context :: "addr option \<Rightarrow> (('h, 'b, 'z) cil_store_scheme, unit) cil" where
  "cil_reset_context context =
     bind (reading (\<lambda>s. deref (m_context s) context)) (\<lambda>c.
     if context_range_str c = None then cil_reset_levelrange (context_range c) else ret ())"

definition cil_reset_userlevel :: "addr option \<Rightarrow> (('h, 'b, 'z) cil_store_scheme, unit) cil" where
  "cil_reset_userlevel d =
     bind (reading (\<lambda>s. deref (m_userlevel s) d)) (\<lambda>x.
     if userlevel_level_str x = None then cil_reset_level (userlevel_level x) else ret ())"

definition cil_reset_userrange :: "addr option \<Rightarrow> (('h, 'b, 'z) cil_store_scheme, unit) cil" where
  "cil_reset_userrange d =
     bind (reading (\<lambda>s. deref (m_userrange s) d)) (\<lambda>x.
     if userrange_range_str x = None then cil_reset_levelrange (userrange_range x) else ret ())"

definition cil_reset_selinuxuser :: "addr option \<Rightarrow> (('h, 'b, 'z) cil_store_scheme, unit) cil" where
  "cil_reset_selinuxuser d =
     bind (reading (\<lambda>s. deref (m_selinuxuser s) d)) (\<lambda>x.
     if selinuxuser_range_str x = None then cil_reset_levelrange (selinuxuser_range x) else ret ())"

definition cil_reset_rangetransition :: "addr option \<Rightarrow> (('h, 'b, 'z) cil_store_scheme, unit) cil" where
  "cil_reset_rangetransition d =
     bind (reading (\<lambda>s. deref (m_rangetransition s) d)) (\<lambda>x.
     if rangetransition_range_str x = None then cil_reset_levelrange (rangetransition_range x) else ret ())"

definition cil_reset_senscat :: "addr option \<Rightarrow> (('h, 'b, 'z) cil_store_scheme, unit) cil" where
  "cil_reset_senscat d =
     bind (reading (\<lambda>s. deref (m_senscat s) d)) (\<lambda>x. cil_reset_cats (senscat_cats x))"

definition cil_reset_catset :: "addr option \<Rightarrow> (('h, 'b, 'z) cil_store_scheme, unit) cil" where
  "cil_reset_catset d =
     bind (reading (\<lambda>s. deref (m_catset s) d)) (\<lambda>x. cil_reset_cats (catset_cats x))"

text \<open>The object contexts: a context without a name is reset with the statement.\<close>

definition reset_anonymous_context ::
  "cstring \<Rightarrow> addr option \<Rightarrow> (('h, 'b, 'z) cil_store_scheme, unit) cil"
where
  "reset_anonymous_context context_str context = (if context_str = None then cil_reset_context context else ret ())"

definition cil_reset_sidcontext :: "addr option \<Rightarrow> (('h, 'b, 'z) cil_store_scheme, unit) cil" where
  "cil_reset_sidcontext d =
     bind (reading (\<lambda>s. deref (m_sidcontext s) d)) (\<lambda>x.
     reset_anonymous_context (sidcontext_context_str x) (sidcontext_context x))"

definition cil_reset_filecon :: "addr option \<Rightarrow> (('h, 'b, 'z) cil_store_scheme, unit) cil" where
  "cil_reset_filecon d =
     bind (reading (\<lambda>s. deref (m_filecon s) d)) (\<lambda>x.
     if filecon_context_str x = None \<and> filecon_context x \<noteq> None
     then cil_reset_context (filecon_context x) else ret ())"

definition cil_reset_portcon :: "addr option \<Rightarrow> (('h, 'b, 'z) cil_store_scheme, unit) cil" where
  "cil_reset_portcon d =
     bind (reading (\<lambda>s. deref (m_portcon s) d)) (\<lambda>x.
     reset_anonymous_context (portcon_context_str x) (portcon_context x))"

definition cil_reset_nodecon :: "addr option \<Rightarrow> (('h, 'b, 'z) cil_store_scheme, unit) cil" where
  "cil_reset_nodecon d =
     bind (reading (\<lambda>s. deref (m_nodecon s) d)) (\<lambda>x.
     reset_anonymous_context (nodecon_context_str x) (nodecon_context x))"

definition cil_reset_genfscon :: "addr option \<Rightarrow> (('h, 'b, 'z) cil_store_scheme, unit) cil" where
  "cil_reset_genfscon d =
     bind (reading (\<lambda>s. deref (m_genfscon s) d)) (\<lambda>x.
     reset_anonymous_context (genfscon_context_str x) (genfscon_context x))"

definition cil_reset_netifcon :: "addr option \<Rightarrow> (('h, 'b, 'z) cil_store_scheme, unit) cil" where
  "cil_reset_netifcon d =
     bind (reading (\<lambda>s. deref (m_netifcon s) d)) (\<lambda>x.
     bind (reset_anonymous_context (netifcon_if_context_str x) (netifcon_if_context x)) (\<lambda>_.
     reset_anonymous_context (netifcon_packet_context_str x) (netifcon_packet_context x)))"

definition cil_reset_pirqcon :: "addr option \<Rightarrow> (('h, 'b, 'z) cil_store_scheme, unit) cil" where
  "cil_reset_pirqcon d =
     bind (reading (\<lambda>s. deref (m_pirqcon s) d)) (\<lambda>x.
     reset_anonymous_context (pirqcon_context_str x) (pirqcon_context x))"

definition cil_reset_iomemcon :: "addr option \<Rightarrow> (('h, 'b, 'z) cil_store_scheme, unit) cil" where
  "cil_reset_iomemcon d =
     bind (reading (\<lambda>s. deref (m_iomemcon s) d)) (\<lambda>x.
     reset_anonymous_context (iomemcon_context_str x) (iomemcon_context x))"

definition cil_reset_ioportcon :: "addr option \<Rightarrow> (('h, 'b, 'z) cil_store_scheme, unit) cil" where
  "cil_reset_ioportcon d =
     bind (reading (\<lambda>s. deref (m_ioportcon s) d)) (\<lambda>x.
     reset_anonymous_context (ioportcon_context_str x) (ioportcon_context x))"

definition cil_reset_pcidevicecon :: "addr option \<Rightarrow> (('h, 'b, 'z) cil_store_scheme, unit) cil" where
  "cil_reset_pcidevicecon d =
     bind (reading (\<lambda>s. deref (m_pcidevicecon s) d)) (\<lambda>x.
     reset_anonymous_context (pcidevicecon_context_str x) (pcidevicecon_context x))"

definition cil_reset_fsuse :: "addr option \<Rightarrow> (('h, 'b, 'z) cil_store_scheme, unit) cil" where
  "cil_reset_fsuse d =
     bind (reading (\<lambda>s. deref (m_fsuse s) d)) (\<lambda>x.
     reset_anonymous_context (fsuse_context_str x) (fsuse_context x))"

subsection \<open>Declarations\<close>

definition cil_reset_user :: "addr \<Rightarrow> (('h, 'b, 'z) cil_store_scheme, unit) cil" where
  "cil_reset_user d = wr m_user m_user_update d (\<lambda>u. u\<lparr>user_bounds := None, user_dftlevel := None,
     user_range := None, user_roles := None\<rparr>)"

definition cil_reset_roleattr :: "addr \<Rightarrow> (('h, 'b, 'z) cil_store_scheme, unit) cil" where
  "cil_reset_roleattr d = wr m_roleattribute m_roleattribute_update d (roleattribute_expr_list_update (\<lambda>_. None))"

definition cil_reset_typeattr :: "addr \<Rightarrow> (('h, 'b, 'z) cil_store_scheme, unit) cil" where
  "cil_reset_typeattr d = wr m_typeattribute m_typeattribute_update d
     (\<lambda>x. x\<lparr>typeattribute_expr_list := None, typeattribute_used := False\<rparr>)"

definition cil_reset_sens :: "addr \<Rightarrow> (('h, 'b, 'z) cil_store_scheme, unit) cil" where
  "cil_reset_sens d = wr m_sens m_sens_update d (\<lambda>x. x\<lparr>sens_cats_list := None, sens_ordered := False\<rparr>)"

definition cil_reset_sid :: "addr \<Rightarrow> (('h, 'b, 'z) cil_store_scheme, unit) cil" where
  "cil_reset_sid d = wr m_sid m_sid_update d (\<lambda>x. x\<lparr>sid_context := None, sid_ordered := False\<rparr>)"

definition cil_reset_constrain :: "nat \<Rightarrow> addr \<Rightarrow> (('h, 'b, 'z) cil_store_scheme, unit) cil" where
  "cil_reset_constrain fuel d =
     bind (rd m_constrain d) (\<lambda>con.
     bind (cil_reset_classperms_list fuel (Some (constrain_classperms con))) (\<lambda>_.
     wr m_constrain m_constrain_update d (constrain_datum_expr_update (\<lambda>_. None))))"

subsection \<open>The reset of the AST\<close>

text \<open>The switch of \<open>__cil_reset_node\<close>; \<open>on_data\<close> follows the pointer to the object of the node.\<close>

definition on_data ::
  "addr option \<Rightarrow> (addr \<Rightarrow> (('h, 'b, 'z) cil_store_scheme, unit) cil) \<Rightarrow> (('h, 'b, 'z) cil_store_scheme, unit) cil"
where
  "on_data d f = (case d of None \<Rightarrow> fault | Some a \<Rightarrow> f a)"

definition reset_action ::
  "('h, 'b) sepol \<Rightarrow> nat \<Rightarrow> cil_flavor \<Rightarrow> addr option \<Rightarrow> (('h, 'b, 'z) cil_store_scheme, unit) cil"
where
  "reset_action L fuel f d =
     (if f = CIL_CLASS then on_data d (cil_reset_class L)
      else if f = CIL_PERM \<or> f = CIL_MAP_PERM then
        bind (reading (\<lambda>s. deref (m_perm s) d)) (\<lambda>p. cil_reset_classperms_list fuel (perm_classperms p))
      else if f = CIL_CLASSPERMISSION then
        (case d of None \<Rightarrow> ret ()
         | Some cp \<Rightarrow> bind (rd m_classpermission cp) (\<lambda>c. cil_reset_classperms_list fuel (classpermission_classperms c)))
      else if f = CIL_CLASSPERMISSIONSET then
        bind (reading (\<lambda>s. deref (m_classpermissionset s) d)) (\<lambda>x.
        cil_reset_classperms_list fuel (Some (classpermissionset_classperms x)))
      else if f = CIL_CLASSMAPPING then
        bind (reading (\<lambda>s. deref (m_classmapping s) d)) (\<lambda>x.
        cil_reset_classperms_list fuel (Some (classmapping_classperms x)))
      else if f = CIL_TYPEALIAS \<or> f = CIL_SENSALIAS \<or> f = CIL_CATALIAS then
        on_data d (\<lambda>a. wr m_alias m_alias_update a (alias_actual_update (\<lambda>_. None)))
      else if f = CIL_USERRANGE then cil_reset_userrange d
      else if f = CIL_USERLEVEL then cil_reset_userlevel d
      else if f = CIL_USER then on_data d cil_reset_user
      else if f = CIL_SELINUXUSERDEFAULT \<or> f = CIL_SELINUXUSER then cil_reset_selinuxuser d
      else if f = CIL_ROLE then on_data d (\<lambda>a. wr m_role m_role_update a (role_bounds_update (\<lambda>_. None)))
      else if f = CIL_ROLEATTRIBUTE then on_data d cil_reset_roleattr
      else if f = CIL_ROLEATTRIBUTESET then
        on_data d (\<lambda>a. wr m_roleattributeset m_roleattributeset_update a
          (roleattributeset_datum_expr_update (\<lambda>_. None)))
      else if f = CIL_TYPE then on_data d (\<lambda>a. wr m_type m_type_update a (type_bounds_update (\<lambda>_. None)))
      else if f = CIL_TYPEATTRIBUTE then on_data d cil_reset_typeattr
      else if f = CIL_TYPEATTRIBUTESET then
        on_data d (\<lambda>a. wr m_typeattributeset m_typeattributeset_update a
          (typeattributeset_datum_expr_update (\<lambda>_. None)))
      else if f = CIL_RANGETRANSITION then cil_reset_rangetransition d
      else if f = CIL_AVRULE then
        bind (reading (\<lambda>s. deref (m_avrule s) d)) (\<lambda>x. cil_reset_classperms_list fuel (Some (avrule_classperms x)))
      else if f = CIL_SENS then on_data d cil_reset_sens
      else if f = CIL_CAT then on_data d (\<lambda>a. wr m_cat m_cat_update a (cat_ordered_update (\<lambda>_. False)))
      else if f = CIL_SENSCAT then cil_reset_senscat d
      else if f = CIL_CATSET then cil_reset_catset d
      else if f = CIL_LEVEL then cil_reset_level d
      else if f = CIL_LEVELRANGE then cil_reset_levelrange d
      else if f = CIL_CONTEXT then cil_reset_context d
      else if f = CIL_SIDCONTEXT then cil_reset_sidcontext d
      else if f = CIL_FILECON then cil_reset_filecon d
      else if f = CIL_PORTCON then cil_reset_portcon d
      else if f = CIL_NODECON then cil_reset_nodecon d
      else if f = CIL_GENFSCON then cil_reset_genfscon d
      else if f = CIL_NETIFCON then cil_reset_netifcon d
      else if f = CIL_PIRQCON then cil_reset_pirqcon d
      else if f = CIL_IOMEMCON then cil_reset_iomemcon d
      else if f = CIL_IOPORTCON then cil_reset_ioportcon d
      else if f = CIL_PCIDEVICECON then cil_reset_pcidevicecon d
      else if f = CIL_FSUSE then cil_reset_fsuse d
      else if f = CIL_SID then on_data d cil_reset_sid
      else if f = CIL_CONSTRAIN \<or> f = CIL_MLSCONSTRAIN then on_data d (cil_reset_constrain fuel)
      else if f = CIL_VALIDATETRANS \<or> f = CIL_MLSVALIDATETRANS then
        on_data d (\<lambda>a. wr m_validatetrans m_validatetrans_update a (validatetrans_datum_expr_update (\<lambda>_. None)))
      else if f = CIL_DEFAULTUSER \<or> f = CIL_DEFAULTROLE \<or> f = CIL_DEFAULTTYPE then
        on_data d (\<lambda>a. wr m_default m_default_update a (default_class_datums_update (\<lambda>_. None)))
      else if f = CIL_DEFAULTRANGE then
        on_data d (\<lambda>a. wr m_defaultrange m_defaultrange_update a (defaultrange_class_datums_update (\<lambda>_. None)))
      else if f = CIL_BOOLEANIF then
        on_data d (\<lambda>a. wr m_booleanif m_booleanif_update a (booleanif_datum_expr_update (\<lambda>_. None)))
      else ret ())"

definition cil_reset_node ::
  "('h, 'b) sepol \<Rightarrow> nat \<Rightarrow> addr \<Rightarrow> (('h, 'b, 'z) cil_store_scheme, nat) cil"
where
  "cil_reset_node L fuel node =
     bind (rd nodes node) (\<lambda>nd.
     bind (reset_action L fuel (node_flavor nd) (node_data nd)) (\<lambda>_. ret CIL_TREE_SKIP_NOTHING))"

text \<open>Every error of the walk becomes \<open>SEPOL_ERR\<close>.\<close>

definition cil_reset_ast ::
  "('h, 'b) sepol \<Rightarrow> nat \<Rightarrow> addr option \<Rightarrow> (('h, 'b, 'z) cil_store_scheme, unit) cil"
where
  "cil_reset_ast L fuel current =
     bind (attempt (cil_tree_walk fuel (cil_reset_node L fuel) None None current)) (\<lambda>rc.
     case rc of Inl _ \<Rightarrow> fail SEPOL_ERR | Inr _ \<Rightarrow> ret ())"

subsection \<open>What the reset does not change\<close>

lemma preserves_on_data: "(\<And>a. preserves I (f a)) \<Longrightarrow> preserves I (on_data d f)"
  by (cases d) (auto simp: on_data_def preserves_fault)

lemma preserves_wr_unrelated:
  "(\<And>m s. I (upd m s) = I s) \<Longrightarrow> preserves I (wr sel upd a f)"
  by (auto simp: preserves_def wr_def split: option.splits)

lemmas reset_defs = cil_reset_class_def class_reset_perm_values_def cil_reset_classperms_def cil_reset_cats_def
  cil_reset_level_def cil_reset_levelrange_def cil_reset_context_def cil_reset_userlevel_def
  cil_reset_userrange_def cil_reset_selinuxuser_def cil_reset_rangetransition_def cil_reset_senscat_def
  cil_reset_catset_def reset_anonymous_context_def cil_reset_sidcontext_def cil_reset_filecon_def
  cil_reset_portcon_def cil_reset_nodecon_def cil_reset_genfscon_def cil_reset_netifcon_def
  cil_reset_pirqcon_def cil_reset_iomemcon_def cil_reset_ioportcon_def cil_reset_pcidevicecon_def
  cil_reset_fsuse_def cil_reset_user_def cil_reset_roleattr_def cil_reset_typeattr_def cil_reset_sens_def
  cil_reset_sid_def cil_reset_constrain_def

text \<open>Every write of the reset is one of these; a predicate that they preserve is preserved.\<close>

lemma reset_action_preserves:
  assumes w: "\<And>a n. preserves I (wr m_perm m_perm_update a (perm_value_update (\<lambda>v. v - n)))"
    "\<And>a n. preserves I (wr m_class m_class_update a (class_num_perms_update (\<lambda>v. v - n)))"
    "\<And>a. preserves I (wr m_class m_class_update a (class_common_update (\<lambda>_. None)))"
    "\<And>a. preserves I (wr m_class m_class_update a (class_ordered_update (\<lambda>_. False)))"
    "\<And>a. preserves I (wr m_classperms m_classperms_update a (classperms_perms_update (\<lambda>_. None)))"
    "\<And>a. preserves I (wr m_cats m_cats_update a (cats_evaluated_update (\<lambda>_. False)))"
    "\<And>a. preserves I (wr m_cats m_cats_update a (cats_datum_expr_update (\<lambda>_. None)))"
    "\<And>a. preserves I (wr m_user m_user_update a (\<lambda>u. u\<lparr>user_bounds := None, user_dftlevel := None, user_range := None, user_roles := None\<rparr>))"
    "\<And>a. preserves I (wr m_roleattribute m_roleattribute_update a (roleattribute_expr_list_update (\<lambda>_. None)))"
    "\<And>a. preserves I (wr m_typeattribute m_typeattribute_update a (\<lambda>x. x\<lparr>typeattribute_expr_list := None, typeattribute_used := False\<rparr>))"
    "\<And>a. preserves I (wr m_sens m_sens_update a (\<lambda>x. x\<lparr>sens_cats_list := None, sens_ordered := False\<rparr>))"
    "\<And>a. preserves I (wr m_sid m_sid_update a (\<lambda>x. x\<lparr>sid_context := None, sid_ordered := False\<rparr>))"
    "\<And>a. preserves I (wr m_constrain m_constrain_update a (constrain_datum_expr_update (\<lambda>_. None)))"
    "\<And>a. preserves I (wr m_alias m_alias_update a (alias_actual_update (\<lambda>_. None)))"
    "\<And>a. preserves I (wr m_role m_role_update a (role_bounds_update (\<lambda>_. None)))"
    "\<And>a. preserves I (wr m_roleattributeset m_roleattributeset_update a (roleattributeset_datum_expr_update (\<lambda>_. None)))"
    "\<And>a. preserves I (wr m_type m_type_update a (type_bounds_update (\<lambda>_. None)))"
    "\<And>a. preserves I (wr m_typeattributeset m_typeattributeset_update a (typeattributeset_datum_expr_update (\<lambda>_. None)))"
    "\<And>a. preserves I (wr m_cat m_cat_update a (cat_ordered_update (\<lambda>_. False)))"
    "\<And>a. preserves I (wr m_validatetrans m_validatetrans_update a (validatetrans_datum_expr_update (\<lambda>_. None)))"
    "\<And>a. preserves I (wr m_default m_default_update a (default_class_datums_update (\<lambda>_. None)))"
    "\<And>a. preserves I (wr m_defaultrange m_defaultrange_update a (defaultrange_class_datums_update (\<lambda>_. None)))"
    "\<And>a. preserves I (wr m_booleanif m_booleanif_update a (booleanif_datum_expr_update (\<lambda>_. None)))"
  shows "preserves I (reset_action L fuel f d)"
proof -
  have list: "preserves I (cil_reset_classperms_list n l)" for n l
  proof (induction n arbitrary: l)
    case (Suc n)
    show ?case
      by (cases l) (auto simp: cil_reset_classperms_def split: prod.split intro!: w Suc preserves_for_each
        preserves_bind preserves_rd preserves_if preserves_case_option preserves_ret simp del: ret_apply)
  qed (simp add: preserves_no_fuel)
  show ?thesis
    unfolding reset_action_def reset_defs
    by (intro w list preserves_for_each preserves_bind preserves_rd preserves_reading preserves_if
      preserves_case_option preserves_ret preserves_on_data)
qed

text \<open>The parts of the memory that no reset writes.\<close>

definition reset_keeps ::
  "('h, 'b, 'z) cil_store_scheme \<Rightarrow> ('h, 'b, 'z) cil_store_scheme \<Rightarrow> bool"
where
  "reset_keeps s t \<longleftrightarrow>
    nodes t = nodes s \<and> datums t = datums s \<and> symtabs t = symtabs s \<and> ast_root t = ast_root s \<and>
     m_block t = m_block s \<and> m_blockinherit t = m_blockinherit s \<and>
     m_blockabstract t = m_blockabstract s \<and> m_in t = m_in s \<and> m_optional t = m_optional s \<and>
     m_classorder t = m_classorder s \<and> m_classperms_set t = m_classperms_set s \<and>
     m_classpermission t = m_classpermission s \<and> m_classpermissionset t = m_classpermissionset s \<and>
     m_classmapping t = m_classmapping s \<and> m_classcommon t = m_classcommon s \<and>
     m_aliasactual t = m_aliasactual s \<and> m_sidcontext t = m_sidcontext s \<and> m_sidorder t = m_sidorder s \<and>
     m_userrole t = m_userrole s \<and> m_userlevel t = m_userlevel s \<and> m_userrange t = m_userrange s \<and>
     m_userprefix t = m_userprefix s \<and> m_selinuxuser t = m_selinuxuser s \<and> m_roletype t = m_roletype s \<and>
     m_typepermissive t = m_typepermissive s \<and> m_name t = m_name s \<and>
     m_nametypetransition t = m_nametypetransition s \<and> m_rangetransition t = m_rangetransition s \<and>
     m_bool t = m_bool s \<and> m_tunable t = m_tunable s \<and> m_avrule t = m_avrule s \<and>
     m_type_rule t = m_type_rule s \<and> m_roletransition t = m_roletransition s \<and>
     m_roleallow t = m_roleallow s \<and> m_sensorder t = m_sensorder s \<and> m_catset t = m_catset s \<and>
     m_catorder t = m_catorder s \<and> m_senscat t = m_senscat s \<and> m_level t = m_level s \<and>
     m_levelrange t = m_levelrange s \<and> m_context t = m_context s \<and> m_filecon t = m_filecon s \<and>
     m_portcon t = m_portcon s \<and> m_nodecon t = m_nodecon s \<and> m_ipaddr t = m_ipaddr s \<and>
     m_genfscon t = m_genfscon s \<and> m_netifcon t = m_netifcon s \<and> m_pirqcon t = m_pirqcon s \<and>
     m_iomemcon t = m_iomemcon s \<and> m_ioportcon t = m_ioportcon s \<and> m_pcidevicecon t = m_pcidevicecon s \<and>
     m_fsuse t = m_fsuse s \<and> m_args t = m_args s \<and> m_macro t = m_macro s \<and> m_call t = m_call s \<and>
     m_condblock t = m_condblock s \<and> m_tunableif t = m_tunableif s \<and> m_bounds t = m_bounds s \<and>
     m_handleunknown t = m_handleunknown s \<and> m_mls t = m_mls s"

lemma reset_action_keeps: "preserves (reset_keeps s) (reset_action L fuel f d)"
  by (rule reset_action_preserves) (rule preserves_wr_unrelated, simp add: reset_keeps_def)+

lemma reset_keeps_refl: "reset_keeps s s"
  by (simp add: reset_keeps_def)

lemma reset_keeps_trans: "reset_keeps s t \<Longrightarrow> reset_keeps t u \<Longrightarrow> reset_keeps s u"
  unfolding reset_keeps_def by (elim conjE) (intro conjI; erule (1) trans)

subsection \<open>What the reset removes\<close>

definition cleared :: "('s \<Rightarrow> addr \<rightharpoonup> 'x) \<Rightarrow> ('x \<Rightarrow> bool) \<Rightarrow> addr \<Rightarrow> 's \<Rightarrow> bool" where
  "cleared sel P a s \<longleftrightarrow> (\<forall>x. sel s a = Some x \<longrightarrow> P x)"

text \<open>The category set of a level; the category sets without a name below a range and a context.\<close>

definition level_cats_of :: "('h, 'b, 'z) cil_store_scheme \<Rightarrow> addr option \<Rightarrow> addr set" where
  "level_cats_of s l = {c. \<exists>a x. l = Some a \<and> m_level s a = Some x \<and> level_cats x = Some c}"

definition range_cats_of :: "('h, 'b, 'z) cil_store_scheme \<Rightarrow> addr option \<Rightarrow> addr set" where
  "range_cats_of s r = {c. \<exists>a x. r = Some a \<and> m_levelrange s a = Some x \<and>
     (levelrange_low_str x = None \<and> c \<in> level_cats_of s (levelrange_low x) \<or>
      levelrange_high_str x = None \<and> c \<in> level_cats_of s (levelrange_high x))}"

definition context_cats_of :: "('h, 'b, 'z) cil_store_scheme \<Rightarrow> addr option \<Rightarrow> addr set" where
  "context_cats_of s p = {c. \<exists>a x. p = Some a \<and> m_context s a = Some x \<and> context_range_str x = None \<and>
     c \<in> range_cats_of s (context_range x)}"

definition unnamed :: "cstring \<Rightarrow> addr set \<Rightarrow> addr set" where
  "unnamed str C = (if str = None then C else {})"

definition below ::
  "(('h, 'b, 'z) cil_store_scheme \<Rightarrow> addr \<rightharpoonup> 'x) \<Rightarrow> ('h, 'b, 'z) cil_store_scheme \<Rightarrow> addr \<Rightarrow> ('x \<Rightarrow> addr set) \<Rightarrow> addr set"
where
  "below sel s d C = {c. \<exists>x. sel s d = Some x \<and> c \<in> C x}"

text \<open>The category sets that the resolution fills for a node: those of the declarations, and those of the unnamed
  levels, ranges and contexts of the statements.\<close>

definition node_cats :: "('h, 'b, 'z) cil_store_scheme \<Rightarrow> cil_flavor \<Rightarrow> addr \<Rightarrow> addr set" where
  "node_cats s f d =
     (if f = CIL_CATSET then below m_catset s d (\<lambda>x. set_option (catset_cats x))
      else if f = CIL_SENSCAT then below m_senscat s d (\<lambda>x. set_option (senscat_cats x))
      else if f = CIL_LEVEL then level_cats_of s (Some d)
      else if f = CIL_LEVELRANGE then range_cats_of s (Some d)
      else if f = CIL_CONTEXT then context_cats_of s (Some d)
      else if f = CIL_USERLEVEL then
        below m_userlevel s d (\<lambda>x. unnamed (userlevel_level_str x) (level_cats_of s (userlevel_level x)))
      else if f = CIL_USERRANGE then
        below m_userrange s d (\<lambda>x. unnamed (userrange_range_str x) (range_cats_of s (userrange_range x)))
      else if f = CIL_SELINUXUSER \<or> f = CIL_SELINUXUSERDEFAULT then
        below m_selinuxuser s d (\<lambda>x. unnamed (selinuxuser_range_str x) (range_cats_of s (selinuxuser_range x)))
      else if f = CIL_RANGETRANSITION then
        below m_rangetransition s d (\<lambda>x. unnamed (rangetransition_range_str x) (range_cats_of s (rangetransition_range x)))
      else if f = CIL_SIDCONTEXT then
        below m_sidcontext s d (\<lambda>x. unnamed (sidcontext_context_str x) (context_cats_of s (sidcontext_context x)))
      else if f = CIL_FILECON then
        below m_filecon s d (\<lambda>x. unnamed (filecon_context_str x) (context_cats_of s (filecon_context x)))
      else if f = CIL_PORTCON then
        below m_portcon s d (\<lambda>x. unnamed (portcon_context_str x) (context_cats_of s (portcon_context x)))
      else if f = CIL_NODECON then
        below m_nodecon s d (\<lambda>x. unnamed (nodecon_context_str x) (context_cats_of s (nodecon_context x)))
      else if f = CIL_GENFSCON then
        below m_genfscon s d (\<lambda>x. unnamed (genfscon_context_str x) (context_cats_of s (genfscon_context x)))
      else if f = CIL_NETIFCON then
        below m_netifcon s d (\<lambda>x. unnamed (netifcon_if_context_str x) (context_cats_of s (netifcon_if_context x)) \<union>
          unnamed (netifcon_packet_context_str x) (context_cats_of s (netifcon_packet_context x)))
      else if f = CIL_PIRQCON then
        below m_pirqcon s d (\<lambda>x. unnamed (pirqcon_context_str x) (context_cats_of s (pirqcon_context x)))
      else if f = CIL_IOMEMCON then
        below m_iomemcon s d (\<lambda>x. unnamed (iomemcon_context_str x) (context_cats_of s (iomemcon_context x)))
      else if f = CIL_IOPORTCON then
        below m_ioportcon s d (\<lambda>x. unnamed (ioportcon_context_str x) (context_cats_of s (ioportcon_context x)))
      else if f = CIL_PCIDEVICECON then
        below m_pcidevicecon s d (\<lambda>x. unnamed (pcidevicecon_context_str x) (context_cats_of s (pcidevicecon_context x)))
      else if f = CIL_FSUSE then
        below m_fsuse s d (\<lambda>x. unnamed (fsuse_context_str x) (context_cats_of s (fsuse_context x)))
      else {})"

text \<open>The list of class permissions of a node's object, and the class permissions it reaches through named ones.\<close>

definition node_classperms :: "('h, 'b, 'z) cil_store_scheme \<Rightarrow> cil_flavor \<Rightarrow> addr \<Rightarrow> classperms_list option" where
  "node_classperms s f d =
     (if f = CIL_PERM \<or> f = CIL_MAP_PERM then Option.bind (m_perm s d) perm_classperms
      else if f = CIL_CLASSPERMISSION then Option.bind (m_classpermission s d) classpermission_classperms
      else if f = CIL_CLASSPERMISSIONSET then map_option classpermissionset_classperms (m_classpermissionset s d)
      else if f = CIL_CLASSMAPPING then map_option classmapping_classperms (m_classmapping s d)
      else if f = CIL_AVRULE then map_option avrule_classperms (m_avrule s d)
      else if f = CIL_CONSTRAIN \<or> f = CIL_MLSCONSTRAIN then map_option constrain_classperms (m_constrain s d)
      else None)"

inductive reaches_classperms :: "('h, 'b, 'z) cil_store_scheme \<Rightarrow> classperms_list \<Rightarrow> addr \<Rightarrow> bool" for s where
  itself: "(CIL_CLASSPERMS, c) \<in> set items \<Longrightarrow> reaches_classperms s items c"
| named: "(CIL_CLASSPERMS_SET, k) \<in> set items \<Longrightarrow> m_classperms_set s k = Some st \<Longrightarrow>
    classperms_set_set st = Some p \<Longrightarrow> m_classpermission s p = Some x \<Longrightarrow>
    classpermission_classperms x = Some items' \<Longrightarrow> reaches_classperms s items' c \<Longrightarrow> reaches_classperms s items c"

definition perms_unresolved :: "addr \<Rightarrow> ('h, 'b, 'z) cil_store_scheme \<Rightarrow> bool" where
  "perms_unresolved c = cleared m_classperms (\<lambda>x. classperms_perms x = None) c"

text \<open>The fields of a declaration or statement that the reset clears.\<close>

definition unresolved :: "cil_flavor \<Rightarrow> addr \<Rightarrow> ('h, 'b, 'z) cil_store_scheme \<Rightarrow> bool" where
  "unresolved f d s \<longleftrightarrow>
     (f = CIL_CLASS \<longrightarrow> cleared m_class (\<lambda>x. class_common x = None \<and> \<not> class_ordered x) d s) \<and>
     (f \<in> {CIL_TYPEALIAS, CIL_SENSALIAS, CIL_CATALIAS} \<longrightarrow> cleared m_alias (\<lambda>x. alias_actual x = None) d s) \<and>
     (f = CIL_USER \<longrightarrow> cleared m_user (\<lambda>x. user_bounds x = None \<and> user_dftlevel x = None \<and>
        user_range x = None \<and> user_roles x = None) d s) \<and>
     (f = CIL_ROLE \<longrightarrow> cleared m_role (\<lambda>x. role_bounds x = None) d s) \<and>
     (f = CIL_ROLEATTRIBUTE \<longrightarrow> cleared m_roleattribute (\<lambda>x. roleattribute_expr_list x = None) d s) \<and>
     (f = CIL_ROLEATTRIBUTESET \<longrightarrow> cleared m_roleattributeset (\<lambda>x. roleattributeset_datum_expr x = None) d s) \<and>
     (f = CIL_TYPE \<longrightarrow> cleared m_type (\<lambda>x. type_bounds x = None) d s) \<and>
     (f = CIL_TYPEATTRIBUTE \<longrightarrow> cleared m_typeattribute
        (\<lambda>x. typeattribute_expr_list x = None \<and> \<not> typeattribute_used x) d s) \<and>
     (f = CIL_TYPEATTRIBUTESET \<longrightarrow> cleared m_typeattributeset (\<lambda>x. typeattributeset_datum_expr x = None) d s) \<and>
     (f = CIL_SENS \<longrightarrow> cleared m_sens (\<lambda>x. sens_cats_list x = None \<and> \<not> sens_ordered x) d s) \<and>
     (f = CIL_CAT \<longrightarrow> cleared m_cat (\<lambda>x. \<not> cat_ordered x) d s) \<and>
     (f = CIL_SID \<longrightarrow> cleared m_sid (\<lambda>x. sid_context x = None \<and> \<not> sid_ordered x) d s) \<and>
     (f \<in> {CIL_CONSTRAIN, CIL_MLSCONSTRAIN} \<longrightarrow> cleared m_constrain (\<lambda>x. constrain_datum_expr x = None) d s) \<and>
     (f \<in> {CIL_VALIDATETRANS, CIL_MLSVALIDATETRANS} \<longrightarrow>
        cleared m_validatetrans (\<lambda>x. validatetrans_datum_expr x = None) d s) \<and>
     (f \<in> {CIL_DEFAULTUSER, CIL_DEFAULTROLE, CIL_DEFAULTTYPE} \<longrightarrow>
        cleared m_default (\<lambda>x. default_class_datums x = None) d s) \<and>
     (f = CIL_DEFAULTRANGE \<longrightarrow> cleared m_defaultrange (\<lambda>x. defaultrange_class_datums x = None) d s) \<and>
     (f = CIL_BOOLEANIF \<longrightarrow> cleared m_booleanif (\<lambda>x. booleanif_datum_expr x = None) d s)"

definition cats_unresolved :: "addr \<Rightarrow> ('h, 'b, 'z) cil_store_scheme \<Rightarrow> bool" where
  "cats_unresolved c = cleared m_cats (\<lambda>x. \<not> cats_evaluated x \<and> cats_datum_expr x = None) c"



lemma cleared_wr:
  assumes "\<And>m s. sel (upd m s) = m (sel s)" and "\<And>x. P x \<Longrightarrow> P (f x)"
  shows "preserves (cleared sel P b) (wr sel upd a f)"
  using assms by (auto simp: preserves_def wr_def cleared_def split: option.split)

lemma cleared_wr_other:
  assumes "\<And>m s. sel' (upd m s) = sel' s"
  shows "preserves (cleared sel' P b) (wr sel upd a f)"
  using assms by (auto simp: preserves_def wr_def cleared_def split: option.split)

text \<open>What has been removed once stays removed.\<close>

lemma reset_keeps_cleared:
  "preserves (cleared m_class (\<lambda>x. class_common x = None \<and> \<not> class_ordered x) b) (reset_action L fuel f d)"
  "preserves (cleared m_alias (\<lambda>x. alias_actual x = None) b) (reset_action L fuel f d)"
  "preserves (cleared m_user (\<lambda>x. user_bounds x = None \<and> user_dftlevel x = None \<and> user_range x = None \<and> user_roles x = None) b) (reset_action L fuel f d)"
  "preserves (cleared m_role (\<lambda>x. role_bounds x = None) b) (reset_action L fuel f d)"
  "preserves (cleared m_roleattribute (\<lambda>x. roleattribute_expr_list x = None) b) (reset_action L fuel f d)"
  "preserves (cleared m_roleattributeset (\<lambda>x. roleattributeset_datum_expr x = None) b) (reset_action L fuel f d)"
  "preserves (cleared m_type (\<lambda>x. type_bounds x = None) b) (reset_action L fuel f d)"
  "preserves (cleared m_typeattribute (\<lambda>x. typeattribute_expr_list x = None \<and> \<not> typeattribute_used x) b) (reset_action L fuel f d)"
  "preserves (cleared m_typeattributeset (\<lambda>x. typeattributeset_datum_expr x = None) b) (reset_action L fuel f d)"
  "preserves (cleared m_sens (\<lambda>x. sens_cats_list x = None \<and> \<not> sens_ordered x) b) (reset_action L fuel f d)"
  "preserves (cleared m_cat (\<lambda>x. \<not> cat_ordered x) b) (reset_action L fuel f d)"
  "preserves (cleared m_sid (\<lambda>x. sid_context x = None \<and> \<not> sid_ordered x) b) (reset_action L fuel f d)"
  "preserves (cleared m_constrain (\<lambda>x. constrain_datum_expr x = None) b) (reset_action L fuel f d)"
  "preserves (cleared m_validatetrans (\<lambda>x. validatetrans_datum_expr x = None) b) (reset_action L fuel f d)"
  "preserves (cleared m_default (\<lambda>x. default_class_datums x = None) b) (reset_action L fuel f d)"
  "preserves (cleared m_defaultrange (\<lambda>x. defaultrange_class_datums x = None) b) (reset_action L fuel f d)"
  "preserves (cleared m_booleanif (\<lambda>x. booleanif_datum_expr x = None) b) (reset_action L fuel f d)"
  "preserves (cats_unresolved b) (reset_action L fuel f d)"
  unfolding cats_unresolved_def
  by (rule reset_action_preserves; ((rule cleared_wr_other, simp; fail) | (rule cleared_wr; simp; fail)))+

lemma preserves_conj: "preserves I m \<Longrightarrow> preserves J m \<Longrightarrow> preserves (\<lambda>s. I s \<and> J s) m"
  and preserves_imp: "(P \<Longrightarrow> preserves I m) \<Longrightarrow> preserves (\<lambda>s. P \<longrightarrow> I s) m"
  by (auto simp: preserves_def)

lemma reset_keeps_unresolved: "preserves (unresolved g b) (reset_action L fuel f d)"
  unfolding unresolved_def by (intro preserves_conj preserves_imp reset_keeps_cleared)

text \<open>The reset of a declaration or a statement removes what the resolution has stored there.\<close>

lemma wr_clears:
  assumes "wr sel upd a f s = (Ok u, t)" and "\<And>m s. sel (upd m s) = m (sel s)" and "\<And>x. P (f x)"
  shows "cleared sel P a t"
  using assms by (auto simp: wr_eq_Ok cleared_def)

lemma reset_class_clears:
  assumes "cil_reset_class L d s = (Ok (), t)"
  shows "cleared m_class (\<lambda>x. class_common x = None \<and> \<not> class_ordered x) d t"
proof -
  let ?common = "cleared m_class (\<lambda>x. class_common x = None) d"
  from assms obtain c s' where c: "m_class s d = Some c"
    and t: "wr m_class m_class_update d (class_ordered_update (\<lambda>_. False)) s' = (Ok (), t)"
    and s': "(case class_common c of None \<Rightarrow> ret ()
       | Some common \<Rightarrow>
           bind (rd m_class common) (\<lambda>com.
           bind (reading (\<lambda>s. case symtabs s (SymPerms common) of None \<Rightarrow> Fault | Some h \<Rightarrow> Ok h)) (\<lambda>h.
           bind (for_each (class_reset_perm_values (class_num_perms com)) (map snd (ht_entries L h))) (\<lambda>_.
           bind (wr m_class m_class_update d (class_num_perms_update (\<lambda>n. n - class_num_perms com))) (\<lambda>_.
           wr m_class m_class_update d (class_common_update (\<lambda>_. None))))))) s = (Ok (), s')"
    unfolding cil_reset_class_def by (auto elim!: bind_OkE simp: rd_eq_Ok)
  have "?common s'"
  proof (cases "class_common c")
    case None
    with c s' show ?thesis by (simp add: cleared_def)
  next
    case (Some common)
    then show ?thesis using s' by (auto elim!: bind_OkE wr_clears)
  qed
  with t show ?thesis by (auto simp: wr_eq_Ok cleared_def)
qed

lemma reset_action_clears:
  assumes "reset_action L fuel f (Some d) s = (Ok (), t)"
  shows "unresolved f d t"
proof -
  have "f = CIL_CLASS \<Longrightarrow> ?thesis"
    using assms by (simp add: reset_action_def on_data_def unresolved_def reset_class_clears)
  moreover have "f = CIL_CONSTRAIN \<or> f = CIL_MLSCONSTRAIN \<Longrightarrow> ?thesis"
    using assms by (auto simp: reset_action_def on_data_def unresolved_def cil_reset_constrain_def
      elim!: bind_OkE wr_clears)
  moreover have "f \<notin> {CIL_CLASS, CIL_CONSTRAIN, CIL_MLSCONSTRAIN} \<Longrightarrow> ?thesis"
    using assms unfolding unresolved_def
    by (intro conjI impI; auto simp: reset_action_def on_data_def cil_reset_user_def cil_reset_roleattr_def
      cil_reset_typeattr_def cil_reset_sens_def cil_reset_sid_def elim!: wr_clears)
  ultimately show ?thesis by blast
qed


text \<open>The category sets: \<open>cats_step s t C\<close> says that a reset went from \<open>s\<close> to \<open>t\<close>, wrote category sets
  only, and removed what was stored in those of \<open>C\<close>.\<close>

definition cats_step ::
  "('h, 'b, 'z) cil_store_scheme \<Rightarrow> ('h, 'b, 'z) cil_store_scheme \<Rightarrow> addr set \<Rightarrow> bool"
where
  "cats_step s t C \<longleftrightarrow> (\<exists>m. t = m_cats_update (\<lambda>_. m) s) \<and>
     (\<forall>c \<in> C. cats_unresolved c t) \<and> (\<forall>b. cats_unresolved b s \<longrightarrow> cats_unresolved b t)"

lemma cats_step_refl: "cats_step s s {}"
  unfolding cats_step_def by (auto intro!: exI [of _ "m_cats s"])

lemma cats_step_trans: "cats_step s t C \<Longrightarrow> cats_step t u D \<Longrightarrow> cats_step s u (C \<union> D)"
  by (auto simp: cats_step_def)

lemma cats_step_same:
  assumes "cats_step s t C"
  shows "level_cats_of t = level_cats_of s" "range_cats_of t = range_cats_of s"
  using assms by (auto simp: cats_step_def level_cats_of_def range_cats_of_def)

lemma reset_cats_step:
  assumes "cil_reset_cats p s = (Ok (), t)"
  shows "cats_step s t (set_option p)"
proof (cases p)
  case None
  with assms show ?thesis by (simp add: cil_reset_cats_def cats_step_refl)
next
  case (Some c)
  with assms obtain x where x: "m_cats s c = Some x"
    and t: "t = m_cats_update (\<lambda>m. m(c \<mapsto> x\<lparr>cats_evaluated := False, cats_datum_expr := None\<rparr>)) s"
    by (auto simp: cil_reset_cats_def bind_eq_Ok wr_eq_Ok comp_def)
  show ?thesis
    unfolding cats_step_def t
    by (auto simp: Some cats_unresolved_def cleared_def
      intro!: exI [of _ "(m_cats s)(c \<mapsto> x\<lparr>cats_evaluated := False, cats_datum_expr := None\<rparr>)"])
qed

lemma reset_level_step:
  assumes "cil_reset_level l s = (Ok (), t)"
  shows "cats_step s t (level_cats_of s l)"
proof -
  from assms obtain a x where "l = Some a" "m_level s a = Some x" "cil_reset_cats (level_cats x) s = (Ok (), t)"
    unfolding cil_reset_level_def by (auto elim!: bind_OkE)
  moreover from this have "level_cats_of s l = set_option (level_cats x)"
    by (auto simp: level_cats_of_def)
  ultimately show ?thesis by (simp add: reset_cats_step)
qed

lemma reset_levelrange_step:
  assumes "cil_reset_levelrange r s = (Ok (), t)"
  shows "cats_step s t (range_cats_of s r)"
proof -
  from assms obtain a x u where x: "r = Some a" "m_levelrange s a = Some x"
    and low: "(if levelrange_low_str x = None then cil_reset_level (levelrange_low x) else ret ()) s = (Ok (), u)"
    and high: "(if levelrange_high_str x = None then cil_reset_level (levelrange_high x) else ret ()) u = (Ok (), t)"
    unfolding cil_reset_levelrange_def by (auto elim!: bind_OkE)
  have l: "cats_step s u (if levelrange_low_str x = None then level_cats_of s (levelrange_low x) else {})"
    using low by (auto simp: reset_level_step cats_step_refl split: if_splits)
  have "cats_step u t (if levelrange_high_str x = None then level_cats_of s (levelrange_high x) else {})"
    using high cats_step_same(1) [OF l, symmetric]
    by (auto simp: reset_level_step cats_step_refl split: if_splits)
  from cats_step_trans [OF l this] show ?thesis
    by (rule back_subst [of "cats_step s t"]) (use x in \<open>auto simp: range_cats_of_def\<close>)
qed

lemma reset_context_step:
  assumes "cil_reset_context p s = (Ok (), t)"
  shows "cats_step s t (context_cats_of s p)"
proof -
  from assms obtain a x where x: "p = Some a" "m_context s a = Some x"
    and r: "(if context_range_str x = None then cil_reset_levelrange (context_range x) else ret ()) s = (Ok (), t)"
    unfolding cil_reset_context_def by (auto elim!: bind_OkE)
  have "cats_step s t (if context_range_str x = None then range_cats_of s (context_range x) else {})"
    using r by (auto simp: reset_levelrange_step cats_step_refl split: if_splits)
  then show ?thesis
    by (rule back_subst [of "cats_step s t"]) (use x in \<open>auto simp: context_cats_of_def\<close>)
qed

lemma context_cats_of_None: "context_cats_of s None = {}"
  by (simp add: context_cats_of_def)

lemma cats_step_unnamed:
  "(if str = None then m else ret ()) s = (Ok (), t) \<Longrightarrow> (m s = (Ok (), t) \<Longrightarrow> cats_step s t C) \<Longrightarrow>
   cats_step s t (unnamed str C)"
  by (auto simp: unnamed_def cats_step_refl split: if_splits)

lemma reset_anonymous_context_step:
  "reset_anonymous_context str p s = (Ok (), t) \<Longrightarrow> cats_step s t (unnamed str (context_cats_of s p))"
  unfolding reset_anonymous_context_def by (erule cats_step_unnamed) (rule reset_context_step)

lemma cats_step_below:
  assumes "bind (reading (\<lambda>s. deref (sel s) (Some d))) g s = (Ok (), t)"
    and "\<And>x. g x s = (Ok (), t) \<Longrightarrow> cats_step s t (C x)"
  shows "cats_step s t (below sel s d C)"
proof -
  from assms(1) obtain x where "sel s d = Some x" "g x s = (Ok (), t)" by (auto elim!: bind_OkE)
  moreover from this have "below sel s d C = C x" by (simp add: below_def)
  ultimately show ?thesis using assms(2) by simp
qed

lemma reset_netifcon_step:
  assumes "bind (reset_anonymous_context str p) (\<lambda>_. reset_anonymous_context str' p') s = (Ok (), t)"
  shows "cats_step s t (unnamed str (context_cats_of s p) \<union> unnamed str' (context_cats_of s p'))"
proof -
  from assms obtain u where "reset_anonymous_context str p s = (Ok (), u)" "reset_anonymous_context str' p' u = (Ok (), t)"
    by (auto elim!: bind_OkE)
  from this [THEN reset_anonymous_context_step] have
    steps: "cats_step s u (unnamed str (context_cats_of s p))" "cats_step u t (unnamed str' (context_cats_of u p'))" .
  moreover have "context_cats_of u = context_cats_of s"
    using steps(1) cats_step_same(2) [OF steps(1)] by (auto simp: cats_step_def context_cats_of_def)
  ultimately show ?thesis by (auto intro: cats_step_trans)
qed

lemma reset_filecon_step:
  "(if str = None \<and> p \<noteq> None then cil_reset_context p else ret ()) s = (Ok (), t) \<Longrightarrow>
   cats_step s t (unnamed str (context_cats_of s p))"
  by (auto simp: unnamed_def cats_step_refl context_cats_of_None reset_context_step split: if_splits)

lemmas object_steps = cats_step_below cats_step_unnamed reset_cats_step reset_level_step reset_levelrange_step
  reset_context_step reset_anonymous_context_step reset_netifcon_step reset_filecon_step

lemma reset_object_steps:
  "cil_reset_catset (Some d) s = (Ok (), t) \<Longrightarrow> cats_step s t (node_cats s CIL_CATSET d)"
  "cil_reset_senscat (Some d) s = (Ok (), t) \<Longrightarrow> cats_step s t (node_cats s CIL_SENSCAT d)"
  "cil_reset_userlevel (Some d) s = (Ok (), t) \<Longrightarrow> cats_step s t (node_cats s CIL_USERLEVEL d)"
  "cil_reset_userrange (Some d) s = (Ok (), t) \<Longrightarrow> cats_step s t (node_cats s CIL_USERRANGE d)"
  "cil_reset_selinuxuser (Some d) s = (Ok (), t) \<Longrightarrow> cats_step s t (node_cats s CIL_SELINUXUSER d)"
  "cil_reset_rangetransition (Some d) s = (Ok (), t) \<Longrightarrow> cats_step s t (node_cats s CIL_RANGETRANSITION d)"
  "cil_reset_sidcontext (Some d) s = (Ok (), t) \<Longrightarrow> cats_step s t (node_cats s CIL_SIDCONTEXT d)"
  "cil_reset_filecon (Some d) s = (Ok (), t) \<Longrightarrow> cats_step s t (node_cats s CIL_FILECON d)"
  "cil_reset_portcon (Some d) s = (Ok (), t) \<Longrightarrow> cats_step s t (node_cats s CIL_PORTCON d)"
  "cil_reset_nodecon (Some d) s = (Ok (), t) \<Longrightarrow> cats_step s t (node_cats s CIL_NODECON d)"
  "cil_reset_genfscon (Some d) s = (Ok (), t) \<Longrightarrow> cats_step s t (node_cats s CIL_GENFSCON d)"
  "cil_reset_netifcon (Some d) s = (Ok (), t) \<Longrightarrow> cats_step s t (node_cats s CIL_NETIFCON d)"
  "cil_reset_pirqcon (Some d) s = (Ok (), t) \<Longrightarrow> cats_step s t (node_cats s CIL_PIRQCON d)"
  "cil_reset_iomemcon (Some d) s = (Ok (), t) \<Longrightarrow> cats_step s t (node_cats s CIL_IOMEMCON d)"
  "cil_reset_ioportcon (Some d) s = (Ok (), t) \<Longrightarrow> cats_step s t (node_cats s CIL_IOPORTCON d)"
  "cil_reset_pcidevicecon (Some d) s = (Ok (), t) \<Longrightarrow> cats_step s t (node_cats s CIL_PCIDEVICECON d)"
  "cil_reset_fsuse (Some d) s = (Ok (), t) \<Longrightarrow> cats_step s t (node_cats s CIL_FSUSE d)"
  unfolding cil_reset_catset_def cil_reset_senscat_def cil_reset_userlevel_def cil_reset_userrange_def
    cil_reset_selinuxuser_def cil_reset_rangetransition_def cil_reset_sidcontext_def cil_reset_filecon_def
    cil_reset_portcon_def cil_reset_nodecon_def cil_reset_genfscon_def cil_reset_netifcon_def cil_reset_pirqcon_def
    cil_reset_iomemcon_def cil_reset_ioportcon_def cil_reset_pcidevicecon_def cil_reset_fsuse_def
  by (simp (no_asm) add: node_cats_def, erule cats_step_below,
      (erule object_steps(3,4,5,6,7,8,9) | erule cats_step_unnamed, erule object_steps(4,5)))+

lemma reset_action_clears_cats:
  assumes "reset_action L fuel f (Some d) s = (Ok (), t)" and "c \<in> node_cats s f d"
  shows "cats_unresolved c t"
proof -
  have "f \<in> {CIL_CATSET, CIL_SENSCAT, CIL_LEVEL, CIL_LEVELRANGE, CIL_CONTEXT, CIL_USERLEVEL, CIL_USERRANGE, CIL_SELINUXUSER,
      CIL_SELINUXUSERDEFAULT, CIL_RANGETRANSITION, CIL_SIDCONTEXT, CIL_FILECON, CIL_PORTCON, CIL_NODECON, CIL_GENFSCON,
      CIL_NETIFCON, CIL_PIRQCON, CIL_IOMEMCON, CIL_IOPORTCON, CIL_PCIDEVICECON, CIL_FSUSE}"
    using assms(2) by (auto simp: node_cats_def split: if_splits)
  moreover have "node_cats s CIL_SELINUXUSERDEFAULT = node_cats s CIL_SELINUXUSER"
    by (rule ext) (simp add: node_cats_def)
  moreover have "node_cats s CIL_LEVEL d = level_cats_of s (Some d)"
    "node_cats s CIL_LEVELRANGE d = range_cats_of s (Some d)" "node_cats s CIL_CONTEXT d = context_cats_of s (Some d)"
    by (simp_all add: node_cats_def)
  ultimately have "cats_step s t (node_cats s f d)"
    using assms(1) by (elim insertE emptyE) (simp_all add: reset_action_def reset_object_steps
      reset_level_step reset_levelrange_step reset_context_step)
  with assms(2) show ?thesis by (simp add: cats_step_def)
qed

lemma node_cats_keeps:
  assumes "reset_keeps s t"
  shows "node_cats t f d = node_cats s f d"
proof -
  have "level_cats_of t = level_cats_of s" "range_cats_of t = range_cats_of s" "context_cats_of t = context_cats_of s"
    using assms by (auto simp: reset_keeps_def level_cats_of_def range_cats_of_def context_cats_of_def)
  then show ?thesis using assms by (simp add: node_cats_def reset_keeps_def below_def)
qed

text \<open>The class permissions, which the lists of named ones lead to.\<close>

definition perms_keep :: "('h, 'b, 'z) cil_store_scheme \<Rightarrow> ('h, 'b, 'z) cil_store_scheme \<Rightarrow> bool" where
  "perms_keep s t \<longleftrightarrow> m_classperms_set t = m_classperms_set s \<and> m_classpermission t = m_classpermission s \<and>
     (\<forall>b. perms_unresolved b s \<longrightarrow> perms_unresolved b t)"

lemma perms_keep_refl: "perms_keep s s"
  by (simp add: perms_keep_def)

lemma perms_keep_trans: "perms_keep s t \<Longrightarrow> perms_keep t u \<Longrightarrow> perms_keep s u"
  by (simp add: perms_keep_def)

lemma reaches_classperms_same:
  assumes "m_classperms_set t = m_classperms_set s" and "m_classpermission t = m_classpermission s"
  shows "reaches_classperms t items c \<longleftrightarrow> reaches_classperms s items c"
proof
  show "reaches_classperms t items c \<Longrightarrow> reaches_classperms s items c"
    by (induction rule: reaches_classperms.induct) (auto simp: assms intro: reaches_classperms.intros)
  show "reaches_classperms s items c \<Longrightarrow> reaches_classperms t items c"
    by (induction rule: reaches_classperms.induct) (auto simp: assms intro: reaches_classperms.intros)
qed

lemma for_each_clears:
  assumes "\<And>x s t. x \<in> set xs \<Longrightarrow> f x s = (Ok (), t) \<Longrightarrow> perms_keep s t \<and>
      (\<forall>c. reaches_classperms s [x] c \<longrightarrow> perms_unresolved c t)"
    and "for_each f xs s = (Ok (), t)"
  shows "perms_keep s t \<and> (\<forall>x \<in> set xs. \<forall>c. reaches_classperms s [x] c \<longrightarrow> perms_unresolved c t)"
  using assms
proof (induction xs arbitrary: s)
  case (Cons x xs)
  from Cons.prems(2) obtain u where x: "f x s = (Ok (), u)" and xs: "for_each f xs u = (Ok (), t)"
    by (auto elim!: bind_OkE)
  have 1: "perms_keep s u" "\<And>c. reaches_classperms s [x] c \<Longrightarrow> perms_unresolved c u"
    using Cons.prems(1) [OF _ x] by auto
  have 2: "perms_keep u t" "\<And>y c. y \<in> set xs \<Longrightarrow> reaches_classperms u [y] c \<Longrightarrow> perms_unresolved c t"
    using Cons.IH [OF Cons.prems(1) xs] by auto
  from 1 2 show ?case
    using reaches_classperms_same [of u s] by (auto simp: perms_keep_def)
qed (simp add: perms_keep_refl)

lemma reaches_one: "reaches_classperms s items c \<longleftrightarrow> (\<exists>x \<in> set items. reaches_classperms s [x] c)"
proof
  assume "reaches_classperms s items c"
  then show "\<exists>x \<in> set items. reaches_classperms s [x] c"
    by cases (fastforce intro: reaches_classperms.intros)+
next
  assume "\<exists>x \<in> set items. reaches_classperms s [x] c"
  then obtain x where "x \<in> set items" "reaches_classperms s [x] c" by blast
  from this(2,1) show "reaches_classperms s items c"
    by cases (auto intro: reaches_classperms.intros)
qed

lemma reset_classperms_clears:
  assumes "cil_reset_classperms c s = (Ok (), t)"
  shows "perms_keep s t \<and> perms_unresolved c t"
  using assms by (auto simp: cil_reset_classperms_def wr_eq_Ok perms_keep_def perms_unresolved_def cleared_def split: if_splits)

inductive_cases reaches_itemE: "reaches_classperms s [(f, k)] c"

lemma reset_classperms_list_clears:
  fixes s t :: "('h, 'b, 'z) cil_store_scheme"
  shows "cil_reset_classperms_list n l s = (Ok (), t) \<Longrightarrow> perms_keep s t \<and>
     (\<forall>items c. l = Some items \<longrightarrow> reaches_classperms s items c \<longrightarrow> perms_unresolved c t)"
proof (induction n arbitrary: l s t)
  case (Suc n)
  show ?case
  proof (cases l)
    case None
    with Suc.prems show ?thesis by (simp add: perms_keep_refl)
  next
    case (Some items)
    let ?f = "\<lambda>(flavor, cp).
       if flavor = CIL_CLASSPERMS then cil_reset_classperms cp
       else if flavor = CIL_CLASSPERMS_SET then
         bind (rd m_classperms_set cp) (\<lambda>cp_set.
         case classperms_set_set cp_set of
           None \<Rightarrow> ret ()
         | Some cp' \<Rightarrow>
             bind (rd m_classpermission cp') (\<lambda>c. cil_reset_classperms_list n (classpermission_classperms c)))
       else ret ()"
    have item: "perms_keep s t \<and> (\<forall>c. reaches_classperms s [x] c \<longrightarrow> perms_unresolved c t)"
      if run: "?f x s = (Ok (), t)" for x and s t :: "('h, 'b, 'z) cil_store_scheme"
    proof (cases x)
      case (Pair flavor k)
      consider "flavor = CIL_CLASSPERMS" | "flavor = CIL_CLASSPERMS_SET"
        | "flavor \<noteq> CIL_CLASSPERMS" "flavor \<noteq> CIL_CLASSPERMS_SET" by blast
      then show ?thesis
      proof cases
        case 1
        with run Pair have "cil_reset_classperms k s = (Ok (), t)" by simp
        from reset_classperms_clears [OF this] 1 Pair show ?thesis by (auto elim: reaches_itemE)
      next
        case 2
        with run Pair obtain st where st: "m_classperms_set s k = Some st"
          and sub: "(case classperms_set_set st of
             None \<Rightarrow> ret ()
           | Some cp' \<Rightarrow>
               bind (rd m_classpermission cp') (\<lambda>c. cil_reset_classperms_list n (classpermission_classperms c))) s = (Ok (), t)"
          by (auto elim!: bind_OkE simp: rd_eq_Ok)
        show ?thesis
        proof (cases "classperms_set_set st")
          case None
          with sub st 2 Pair show ?thesis by (auto elim: reaches_itemE simp: perms_keep_refl)
        next
          case (Some p)
          with sub obtain y where y: "m_classpermission s p = Some y"
            and r: "cil_reset_classperms_list n (classpermission_classperms y) s = (Ok (), t)"
            by (auto elim!: bind_OkE simp: rd_eq_Ok)
          from Suc.IH [OF r] st Some y 2 Pair show ?thesis by (auto elim!: reaches_itemE)
        qed
      next
        case 3
        with run Pair show ?thesis by (auto elim: reaches_itemE simp: perms_keep_refl)
      qed
    qed
    have "for_each ?f items s = (Ok (), t)" using Suc.prems Some by simp
    from for_each_clears [OF item this] Some show ?thesis by (auto dest: reaches_one [THEN iffD1])
  qed
qed simp

lemma reset_action_clears_perms:
  assumes "reset_action L fuel f (Some d) s = (Ok (), t)" and "node_classperms s f d = Some items"
    and "reaches_classperms s items c"
  shows "perms_unresolved c t"
proof -
  have con: "perms_unresolved c t" if "f = CIL_CONSTRAIN \<or> f = CIL_MLSCONSTRAIN"
  proof -
    from that assms(1,2) obtain u x where "cil_reset_classperms_list fuel (Some items) s = (Ok (), u)"
      and w: "wr m_constrain m_constrain_update d (constrain_datum_expr_update (\<lambda>_. None)) u = (Ok (), t)"
      by (auto simp: reset_action_def on_data_def cil_reset_constrain_def node_classperms_def rd_eq_Ok elim!: bind_OkE)
    from reset_classperms_list_clears [OF this(1)] assms(3) have "perms_unresolved c u" by blast
    with w show ?thesis by (auto simp: wr_eq_Ok perms_unresolved_def cleared_def)
  qed
  have "cil_reset_classperms_list fuel (Some items) s = (Ok (), t)" if "\<not> (f = CIL_CONSTRAIN \<or> f = CIL_MLSCONSTRAIN)"
    using that assms(1,2)
    by (auto simp: reset_action_def node_classperms_def rd_eq_Ok split: if_splits option.splits bind_splits elim!: bind_OkE)
  with reset_classperms_list_clears assms(3) con show ?thesis by blast
qed

lemma reset_action_perms:
  "preserves (perms_unresolved b) (reset_action L fuel f d)"
  "preserves (\<lambda>t. node_classperms t g b = l) (reset_action L fuel f d)"
  unfolding perms_unresolved_def
  by (rule reset_action_preserves; ((rule cleared_wr_other, simp; fail) | (rule cleared_wr; simp; fail)))
     (rule reset_action_preserves; auto simp: preserves_def wr_def node_classperms_def split: option.splits)

subsection \<open>The whole reset\<close>

definition reset_visit :: "('h, 'b) sepol \<Rightarrow> nat \<Rightarrow> addr \<Rightarrow> (('h, 'b, 'z) cil_store_scheme, unit) cil" where
  "reset_visit L fuel node = bind (rd nodes node) (\<lambda>nd. reset_action L fuel (node_flavor nd) (node_data nd))"

lemma reset_visit_preserves:
  "(\<And>f d. preserves I (reset_action L fuel f d)) \<Longrightarrow> preserves I (reset_visit L fuel a)"
  unfolding reset_visit_def by (intro preserves_bind preserves_rd)

interpretation reset_pass: skipping_pass "cil_reset_node L fuel" "reset_visit L fuel" "\<lambda>_ _. False"
proof
  show "cil_reset_node L fuel a s = (case reset_visit L fuel a s of
      (Ok _, t) \<Rightarrow> (Ok (if False then CIL_TREE_SKIP_HEAD else CIL_TREE_SKIP_NOTHING), t)
    | (Fail e, t) \<Rightarrow> (Fail e, t) | (Fault, t) \<Rightarrow> (Fault, t) | (Out_of_fuel, t) \<Rightarrow> (Out_of_fuel, t))" for a s
    by (auto simp: cil_reset_node_def reset_visit_def bind_def rd_def split: option.split prod.split outcome.split)
  show "reset_visit L fuel a s = (r, t) \<Longrightarrow> nodes t = nodes s" for a s r t
    using preservesD [OF reset_visit_preserves [OF reset_action_keeps [of s]] reset_keeps_refl]
    by (auto simp: reset_keeps_def)
qed simp

text \<open>A node at which everything is cleared that the reset is to clear there.\<close>

definition node_unresolved :: "('h, 'b, 'z) cil_store_scheme \<Rightarrow> addr \<Rightarrow> bool" where
  "node_unresolved s a \<longleftrightarrow> (\<forall>nd d. nodes s a = Some nd \<longrightarrow> node_data nd = Some d \<longrightarrow>
     unresolved (node_flavor nd) d s \<and> (\<forall>c \<in> node_cats s (node_flavor nd) d. cats_unresolved c s) \<and>
     (\<forall>items c. node_classperms s (node_flavor nd) d = Some items \<longrightarrow> reaches_classperms s items c \<longrightarrow>
        perms_unresolved c s))"

lemma reset_visit_unresolved:
  assumes "reset_visit L fuel a s = (Ok (), t)"
  shows "node_unresolved t a \<and> (\<forall>b. node_unresolved s b \<longrightarrow> node_unresolved t b) \<and> reset_keeps s t"
proof -
  from assms obtain nd where nd: "nodes s a = Some nd"
    and act: "reset_action L fuel (node_flavor nd) (node_data nd) s = (Ok (), t)"
    unfolding reset_visit_def by (auto elim!: bind_OkE simp: rd_eq_Ok)
  have keeps: "reset_keeps s t" by (rule preservesD [OF reset_action_keeps reset_keeps_refl act])
  then have same: "nodes t = nodes s" "m_classperms_set t = m_classperms_set s" "m_classpermission t = m_classpermission s"
    by (simp_all add: reset_keeps_def)
  note reach = reaches_classperms_same [OF same(2,3)]
  have lists: "node_classperms t g b = node_classperms s g b" for g b
    by (rule preservesD [OF reset_action_perms(2) refl act])
  have stays: "unresolved g b s \<Longrightarrow> unresolved g b t" "cats_unresolved b s \<Longrightarrow> cats_unresolved b t"
    "perms_unresolved b s \<Longrightarrow> perms_unresolved b t" for g b
    using preservesD [OF reset_keeps_unresolved _ act] preservesD [OF reset_keeps_cleared(18) _ act]
      preservesD [OF reset_action_perms(1) _ act] by blast+
  have "node_unresolved t a"
    unfolding node_unresolved_def same(1) lists reach using nd act
    by (auto simp: node_cats_keeps [OF keeps] intro: reset_action_clears reset_action_clears_cats reset_action_clears_perms)
  moreover have "node_unresolved t b" if "node_unresolved s b" for b
    using that unfolding node_unresolved_def same(1) lists reach
    by (auto simp: node_cats_keeps [OF keeps] intro: stays)
  ultimately show ?thesis using keeps by blast
qed

lemma for_each_reset_visit:
  "for_each (reset_visit L fuel) xs s = (Ok (), t) \<Longrightarrow>
   reset_keeps s t \<and> (\<forall>a \<in> set xs. node_unresolved t a) \<and> (\<forall>b. node_unresolved s b \<longrightarrow> node_unresolved t b)"
proof (induction xs arbitrary: s)
  case (Cons x xs)
  from Cons.prems obtain u where x: "reset_visit L fuel x s = (Ok (), u)"
    and xs: "for_each (reset_visit L fuel) xs u = (Ok (), t)"
    by (auto elim!: bind_OkE)
  from reset_visit_unresolved [OF x] Cons.IH [OF xs] show ?case by (auto intro: reset_keeps_trans)
qed (simp add: reset_keeps_refl)

lemma set_visited: "set (visited (\<lambda>_. False) ts) = forest_addrs ts"
  by (induction ts rule: ast_forest_induct) auto


text \<open>C14. When \<open>cil_reset_ast\<close> succeeds, the following is cleared at every node of the tree: the bounds of users,
  roles and types, what aliases stand for, the common of a class, the default level, range and roles of a user,
  the expressions of attributes, attribute sets, constraints and boolean blocks, the sensitivities' categories, the
  context of a sid, the marks of the orders, the classes of the defaults; the values of the category sets of the
  declarations and of every level, range and context that a statement holds without a name; and the permissions
  of every list of class permissions that a node holds or reaches through named ones. Nothing is written
  but these kinds of objects and the permissions: the tree, the symbol tables and all other objects are as they were.
  So the pointers that the resolution has stored in rules, levels, contexts and calls are kept; the next resolution
  overwrites them.\<close>

theorem reset_ast_clears:
  assumes "nodes s root = Some nd" and "forest_at s (node_cl_head nd) ts" and "forest_size ts < fuel"
    and "cil_reset_ast L fuel (Some root) s = (Ok (), t)"
  shows "reset_keeps s t \<and> (\<forall>a \<in> forest_addrs ts. node_unresolved t a)"
proof -
  let ?walk = "cil_tree_walk fuel (cil_reset_node L fuel) None None (Some root)"
  have walk: "?walk s = for_each (reset_visit L fuel) (visited (\<lambda>_. False) ts) s"
    by (rule reset_pass.tree_walk_visited [OF assms(1-3)])
  have "?walk s = (Ok (), t)"
    using assms(4) unfolding cil_reset_ast_def
    by (cases "?walk s"; cases "fst (?walk s)") (auto simp: bind_def)
  from for_each_reset_visit [OF this [unfolded walk]] show ?thesis by (simp add: set_visited)
qed

text \<open>A type with bounds, a level with an evaluated category set, a rule with a resolved class permission, and the
  context of a port whose unnamed range has that level.\<close>

definition resolved_db :: "((string \<times> addr) list, nat list) cil_store" where
  "resolved_db = store0\<lparr>
     nodes := [2 \<mapsto> \<lparr>node_parent = None, node_cl_head = Some 3, node_cl_tail = Some 5, node_next = None,
         node_flavor = CIL_ROOT, node_line = 0, node_path = None, node_data = None\<rparr>,
       3 \<mapsto> \<lparr>node_parent = Some 2, node_cl_head = None, node_cl_tail = None, node_next = Some 4,
         node_flavor = CIL_TYPE, node_line = 1, node_path = None, node_data = Some 10\<rparr>,
       4 \<mapsto> \<lparr>node_parent = Some 2, node_cl_head = None, node_cl_tail = None, node_next = Some 5,
         node_flavor = CIL_CLASSPERMISSION, node_line = 2, node_path = None, node_data = Some 15\<rparr>,
       5 \<mapsto> \<lparr>node_parent = Some 2, node_cl_head = None, node_cl_tail = None, node_next = None,
         node_flavor = CIL_PORTCON, node_line = 3, node_path = None, node_data = Some 17\<rparr>],
     m_type := [10 \<mapsto> \<lparr>type_bounds = Some 20, type_value = 1\<rparr>],
     m_level := [11 \<mapsto> \<lparr>level_sens_str = None, level_sens = None, level_cats = Some 12\<rparr>],
     m_cats := [12 \<mapsto> \<lparr>cats_evaluated = True, cats_str_expr = Cil_List CIL_CAT [], cats_datum_expr = Some (Cil_List CIL_CAT [])\<rparr>],
     m_levelrange := [13 \<mapsto> \<lparr>levelrange_low_str = None, levelrange_low = Some 11, levelrange_high_str = None,
       levelrange_high = Some 11\<rparr>],
     m_context := [14 \<mapsto> \<lparr>context_user_str = None, context_user = None, context_role_str = None, context_role = None,
       context_type_str = None, context_type = None, context_range_str = None, context_range = Some 13\<rparr>],
     m_classpermission := [15 \<mapsto> \<lparr>classpermission_classperms = Some [(CIL_CLASSPERMS, 16)]\<rparr>],
     m_classperms := [16 \<mapsto> \<lparr>classperms_class_str = None, classperms_class = Some 21, classperms_perm_strs = Cil_List CIL_PERM [],
       classperms_perms = Some (Cil_List CIL_PERM [])\<rparr>],
     m_portcon := [17 \<mapsto> \<lparr>portcon_proto = 1, portcon_port_low = 1, portcon_port_high = 2,
       portcon_context_str = None, portcon_context = Some 14\<rparr>]\<rparr>"

lemma reset_one_classperms:
  "cil_reset_classperms_list (Suc n) (Some [(CIL_CLASSPERMS, c)]) s = cil_reset_classperms c s"
  by (simp add: cil_reset_classperms_def bind_def wr_def split: option.split)

theorem reset_ast_clears_witness:
  "\<exists>t x c y. cil_reset_ast sepol0 20 (Some 2) resolved_db = (Ok (), t) \<and>
     m_type t 10 = Some x \<and> type_bounds x = None \<and> m_cats t 12 = Some c \<and> \<not> cats_evaluated c \<and>
     m_classperms t 16 = Some y \<and> classperms_perms y = None"
proof -
  let ?ts = "[Ast 3 [], Ast 4 [], Ast 5 []]"
  have root: "nodes resolved_db 2 = Some \<lparr>node_parent = None, node_cl_head = Some 3, node_cl_tail = Some 5,
      node_next = None, node_flavor = CIL_ROOT, node_line = 0, node_path = None, node_data = None\<rparr>"
    by (simp add: resolved_db_def)
  have tree: "forest_at resolved_db (Some 3) ?ts" by (simp add: resolved_db_def)
  have walk: "cil_tree_walk 20 (cil_reset_node sepol0 20) None None (Some 2) resolved_db =
      for_each (reset_visit sepol0 20) [3, 4, 5] resolved_db"
    using reset_pass.tree_walk_visited [OF root, of ?ts 20 sepol0 20] tree by simp
  have list: "cil_reset_classperms_list 20 (Some [(CIL_CLASSPERMS, 16)]) s = cil_reset_classperms 16 s"
    for s :: "((string \<times> addr) list, nat list) cil_store"
    using reset_one_classperms [of 19 16 s] by simp
  obtain t x c y where "for_each (reset_visit sepol0 20) [3, 4, 5] resolved_db = (Ok (), t)" and x: "m_type t 10 = Some x"
    and c: "m_cats t 12 = Some c" and y: "m_classperms t 16 = Some y"
    by (simp add: reset_visit_def reset_action_def on_data_def resolved_db_def list reset_defs del: cil_reset_classperms_list.simps)
  with walk have run: "cil_reset_ast sepol0 20 (Some 2) resolved_db = (Ok (), t)"
    by (simp add: cil_reset_ast_def)
  from reset_ast_clears [OF root _ _ run, of ?ts] tree
  have keeps: "reset_keeps resolved_db t" and u: "node_unresolved t 3" "node_unresolved t 4" "node_unresolved t 5" by simp_all
  then have same: "nodes t = nodes resolved_db" "m_level t = m_level resolved_db" "m_levelrange t = m_levelrange resolved_db"
    "m_context t = m_context resolved_db" "m_portcon t = m_portcon resolved_db"
    "m_classpermission t = m_classpermission resolved_db"
    by (simp_all add: reset_keeps_def)
  have "type_bounds x = None"
    using u(1) x same by (simp add: node_unresolved_def unresolved_def cleared_def resolved_db_def)
  moreover have "12 \<in> node_cats t CIL_PORTCON 17"
    using same by (simp add: node_cats_def below_def unnamed_def context_cats_of_def range_cats_of_def
      level_cats_of_def resolved_db_def)
  then have "\<not> cats_evaluated c"
    using u(3) c same by (auto simp: node_unresolved_def cats_unresolved_def cleared_def resolved_db_def)
  moreover have "classperms_perms y = None"
  proof -
    have "node_classperms t CIL_CLASSPERMISSION 15 = Some [(CIL_CLASSPERMS, 16)]"
      using same by (simp add: node_classperms_def resolved_db_def)
    moreover have "reaches_classperms t [(CIL_CLASSPERMS, 16)] 16" by (auto intro: reaches_classperms.intros)
    ultimately show ?thesis
      using u(2) y same by (auto simp: node_unresolved_def perms_unresolved_def cleared_def resolved_db_def)
  qed
  ultimately show ?thesis using run x c y by blast
qed

end
