(* ===== verification/Cil_List.thy ===== *)
theory Cil_List
  imports Cil_Prelude Cil_Flavor
begin

text \<open>
  The linked lists of \<open>src/cil_list.c\<close>, in a memory of list headers and list items.

  The operations follow the pointers \<open>head\<close>, \<open>tail\<close> and \<open>next\<close> as the code does. \<open>path\<close> says which
  items lie between two pointers, \<open>list_at\<close> that a header describes a finite sequence; the lemmas
  show that each operation is its counterpart on HOL lists and leaves every other list alone. The
  locale \<open>sequence\<close> states the interface by which the rest of the compiler uses lists. The other
  theories of this development take lists as HOL lists on these grounds.
\<close>

subsection \<open>The memory of lists\<close>

text \<open>\<open>data\<close> is a pointer of some kind; \<open>list_brk\<close> is an address above all addresses in use.\<close>

record list_header =
  lh_head :: "addr option"
  lh_tail :: "addr option"
  lh_flavor :: cil_flavor

record 'd list_item =
  li_next :: "addr option"
  li_flavor :: cil_flavor
  li_data :: "'d option"

record 'd list_mem =
  headers :: "addr \<rightharpoonup> list_header"
  cells :: "addr \<rightharpoonup> 'd list_item"
  list_brk :: addr

text \<open>\<open>cil_malloc\<close> gives the address of a fresh struct.\<close>

definition new_header :: "list_header \<Rightarrow> ('d list_mem, addr) cil" where
  "new_header x = (\<lambda>m. (Ok (list_brk m), m\<lparr>headers := (headers m)(list_brk m \<mapsto> x), list_brk := Suc (list_brk m)\<rparr>))"

definition new_item :: "'d list_item \<Rightarrow> ('d list_mem, addr) cil" where
  "new_item x = (\<lambda>m. (Ok (list_brk m), m\<lparr>cells := (cells m)(list_brk m \<mapsto> x), list_brk := Suc (list_brk m)\<rparr>))"

text \<open>A null list stops the compiler with a message.\<close>

definition cil_list_error :: "('d list_mem, 'a) cil" where
  "cil_list_error = fail SEPOL_ERR"

subsection \<open>The operations\<close>

definition cil_list_init :: "cil_flavor \<Rightarrow> ('d list_mem, addr) cil" where
  "cil_list_init f = new_header \<lparr>lh_head = None, lh_tail = None, lh_flavor = f\<rparr>"

definition cil_list_item_init :: "('d list_mem, addr) cil" where
  "cil_list_item_init = new_item \<lparr>li_next = None, li_flavor = CIL_NONE, li_data = None\<rparr>"

definition cil_list_item_destroy :: "addr \<Rightarrow> ('d list_mem, unit) cil" where
  "cil_list_item_destroy item = modify (\<lambda>m. m\<lparr>cells := (cells m)(item := None)\<rparr>)"

definition filled_item :: "cil_flavor \<Rightarrow> 'd option \<Rightarrow> ('d list_mem, addr) cil" where
  "filled_item f d =
     bind cil_list_item_init (\<lambda>item.
     bind (wr cells cells_update item (\<lambda>i. i\<lparr>li_flavor := f, li_data := d\<rparr>)) (\<lambda>_. ret item))"

definition cil_list_append :: "addr option \<Rightarrow> cil_flavor \<Rightarrow> 'd option \<Rightarrow> ('d list_mem, unit) cil" where
  "cil_list_append l f d =
     (case l of
        None \<Rightarrow> cil_list_error
      | Some list \<Rightarrow>
          bind (filled_item f d) (\<lambda>item.
          bind (rd headers list) (\<lambda>h.
          case lh_tail h of
            None \<Rightarrow> wr headers headers_update list (\<lambda>h. h\<lparr>lh_head := Some item, lh_tail := Some item\<rparr>)
          | Some t \<Rightarrow>
              bind (wr cells cells_update t (li_next_update (\<lambda>_. Some item))) (\<lambda>_.
              wr headers headers_update list (lh_tail_update (\<lambda>_. Some item))))))"

definition cil_list_prepend :: "addr option \<Rightarrow> cil_flavor \<Rightarrow> 'd option \<Rightarrow> ('d list_mem, unit) cil" where
  "cil_list_prepend l f d =
     (case l of
        None \<Rightarrow> cil_list_error
      | Some list \<Rightarrow>
          bind (filled_item f d) (\<lambda>item.
          bind (rd headers list) (\<lambda>h.
          case lh_tail h of
            None \<Rightarrow> wr headers headers_update list (\<lambda>h. h\<lparr>lh_head := Some item, lh_tail := Some item\<rparr>)
          | Some t \<Rightarrow>
              bind (wr cells cells_update item (li_next_update (\<lambda>_. lh_head h))) (\<lambda>_.
              wr headers headers_update list (lh_head_update (\<lambda>_. Some item))))))"

definition cil_list_insert ::
  "addr option \<Rightarrow> addr option \<Rightarrow> cil_flavor \<Rightarrow> 'd option \<Rightarrow> ('d list_mem, addr option) cil"
where
  "cil_list_insert l cur f d =
     (case l of
        None \<Rightarrow> cil_list_error
      | Some list \<Rightarrow>
          (case cur of
             None \<Rightarrow>
               bind (cil_list_prepend l f d) (\<lambda>_. bind (rd headers list) (\<lambda>h. ret (lh_head h)))
           | Some c \<Rightarrow>
               bind (rd headers list) (\<lambda>h.
               if cur = lh_tail h then
                 bind (cil_list_append l f d) (\<lambda>_. bind (rd headers list) (\<lambda>h. ret (lh_tail h)))
               else
                 bind (filled_item f d) (\<lambda>item.
                 bind (rd cells c) (\<lambda>ci.
                 bind (wr cells cells_update item (li_next_update (\<lambda>_. li_next ci))) (\<lambda>_.
                 bind (wr cells cells_update c (li_next_update (\<lambda>_. Some item))) (\<lambda>_.
                 ret (Some item))))))))"

text \<open>The loop \<open>while (last->next != NULL)\<close>.\<close>

fun last_item :: "nat \<Rightarrow> addr \<Rightarrow> ('d list_mem, addr) cil" where
  "last_item 0 final = no_fuel"
| "last_item (Suc fuel) final =
     bind (rd cells final) (\<lambda>i.
     case li_next i of None \<Rightarrow> ret final | Some n \<Rightarrow> last_item fuel n)"

definition cil_list_append_item :: "nat \<Rightarrow> addr option \<Rightarrow> addr option \<Rightarrow> ('d list_mem, unit) cil" where
  "cil_list_append_item fuel l item =
     (case (l, item) of
        (Some list, Some i) \<Rightarrow>
          bind (last_item fuel i) (\<lambda>final.
          bind (rd headers list) (\<lambda>h.
          case lh_tail h of
            None \<Rightarrow> wr headers headers_update list (\<lambda>h. h\<lparr>lh_head := Some i, lh_tail := Some final\<rparr>)
          | Some t \<Rightarrow>
              bind (wr cells cells_update t (li_next_update (\<lambda>_. Some i))) (\<lambda>_.
              wr headers headers_update list (lh_tail_update (\<lambda>_. Some final)))))
      | _ \<Rightarrow> cil_list_error)"

definition cil_list_prepend_item :: "nat \<Rightarrow> addr option \<Rightarrow> addr option \<Rightarrow> ('d list_mem, unit) cil" where
  "cil_list_prepend_item fuel l item =
     (case (l, item) of
        (Some list, Some i) \<Rightarrow>
          bind (last_item fuel i) (\<lambda>final.
          bind (rd headers list) (\<lambda>h.
          case lh_tail h of
            None \<Rightarrow> wr headers headers_update list (\<lambda>h. h\<lparr>lh_head := Some i, lh_tail := Some final\<rparr>)
          | Some t \<Rightarrow>
              bind (wr cells cells_update final (li_next_update (\<lambda>_. lh_head h))) (\<lambda>_.
              wr headers headers_update list (lh_head_update (\<lambda>_. Some i)))))
      | _ \<Rightarrow> cil_list_error)"

text \<open>The loop of \<open>cil_list_remove\<close>: it ends at the first item with the flavor and the data.\<close>

fun remove_loop ::
  "nat \<Rightarrow> addr \<Rightarrow> cil_flavor \<Rightarrow> 'd option \<Rightarrow> addr option \<Rightarrow> addr option \<Rightarrow> ('d list_mem, unit) cil"
where
  "remove_loop 0 list f d previous item = no_fuel"
| "remove_loop (Suc fuel) list f d previous None = ret ()"
| "remove_loop (Suc fuel) list f d previous (Some item) =
     bind (rd cells item) (\<lambda>i.
     if li_data i = d \<and> li_flavor i = f then
       bind (case previous of
               None \<Rightarrow> wr headers headers_update list (lh_head_update (\<lambda>_. li_next i))
             | Some p \<Rightarrow> wr cells cells_update p (li_next_update (\<lambda>_. li_next i))) (\<lambda>_.
       bind (if li_next i = None then wr headers headers_update list (lh_tail_update (\<lambda>_. previous))
             else ret ()) (\<lambda>_.
       cil_list_item_destroy item))
     else remove_loop fuel list f d (Some item) (li_next i))"

definition cil_list_remove :: "nat \<Rightarrow> addr option \<Rightarrow> cil_flavor \<Rightarrow> 'd option \<Rightarrow> ('d list_mem, unit) cil" where
  "cil_list_remove fuel l f d =
     (case l of
        None \<Rightarrow> cil_list_error
      | Some list \<Rightarrow> bind (rd headers list) (\<lambda>h. remove_loop fuel list f d None (lh_head h)))"

subsection \<open>Paths and lists in memory\<close>

text \<open>\<open>path m p xs q\<close>: following \<open>next\<close> from \<open>p\<close> one meets the items of \<open>xs\<close>, each given by its
  address and content, and arrives at \<open>q\<close>.\<close>

type_synonym 'd cell = "addr \<times> cil_flavor \<times> 'd option"

fun path :: "(addr \<rightharpoonup> 'd list_item) \<Rightarrow> addr option \<Rightarrow> 'd cell list \<Rightarrow> addr option \<Rightarrow> bool" where
  "path m p [] q \<longleftrightarrow> p = q"
| "path m p ((a, f, d) # xs) q \<longleftrightarrow> p = Some a \<and>
     (\<exists>n. m a = Some \<lparr>li_next = n, li_flavor = f, li_data = d\<rparr> \<and> path m n xs q)"

lemma path_append: "path m p (xs @ ys) q \<longleftrightarrow> (\<exists>r. path m p xs r \<and> path m r ys q)"
  by (induction xs arbitrary: p) (auto; blast)+

lemma path_frame:
  "(\<And>a. a \<in> fst ` set xs \<Longrightarrow> m' a = m a) \<Longrightarrow> path m' p xs q = path m p xs q"
  by (induction m p xs q rule: path.induct) auto

lemma path_upd [simp]: "t \<notin> fst ` set xs \<Longrightarrow> path (m(t := c)) p xs q = path m p xs q"
  by (rule path_frame) auto

lemma path_unique: "path m p xs None \<Longrightarrow> path m p ys None \<Longrightarrow> xs = ys"
proof (induction xs arbitrary: p ys)
  case Nil
  then show ?case by (cases ys) auto
next
  case (Cons x xs)
  then show ?case by (cases x; cases ys) auto
qed

lemma path_addrs_distinct: "path m p xs None \<Longrightarrow> distinct (map fst xs)"
proof (induction xs arbitrary: p)
  case (Cons x xs)
  obtain a f d where x: "x = (a, f, d)" by (cases x)
  from Cons.prems x obtain n where n: "m a = Some \<lparr>li_next = n, li_flavor = f, li_data = d\<rparr>"
    and rest: "path m n xs None" by auto
  have "a \<notin> fst ` set xs"
  proof
    assume "a \<in> fst ` set xs"
    then obtain c where "c \<in> set xs" "fst c = a" by auto
    then obtain us vs where xs: "xs = us @ c # vs" by (meson split_list)
    with rest \<open>fst c = a\<close> n have "path m (Some a) (c # vs) None"
      by (cases c) (auto simp: path_append)
    moreover have "path m (Some a) (x # xs) None" using x n rest by simp
    ultimately have "c # vs = x # xs" by (rule path_unique)
    with xs show False by simp
  qed
  with Cons.IH [OF rest] x show ?case by simp
qed simp

lemma path_mem: "path m p xs q \<Longrightarrow> a \<in> fst ` set xs \<Longrightarrow> m a \<noteq> None"
  by (induction m p xs q rule: path.induct) auto

text \<open>\<open>list_at m l f xs\<close>: the header at \<open>l\<close> describes the items of \<open>xs\<close>, null terminated, with \<open>tail\<close> the
  last one.\<close>

definition last_addr :: "'d cell list \<Rightarrow> addr option" where
  "last_addr xs = (if xs = [] then None else Some (fst (last xs)))"

definition list_at :: "'d list_mem \<Rightarrow> addr \<Rightarrow> cil_flavor \<Rightarrow> 'd cell list \<Rightarrow> bool" where
  "list_at m l f xs \<longleftrightarrow> (\<exists>h. headers m l = Some \<lparr>lh_head = h, lh_tail = last_addr xs, lh_flavor = f\<rparr> \<and>
     path (cells m) h xs None)"

text \<open>Every address in use is below \<open>list_brk\<close>.\<close>

definition list_fresh :: "'d list_mem \<Rightarrow> bool" where
  "list_fresh m \<longleftrightarrow> (\<forall>a \<ge> list_brk m. headers m a = None \<and> cells m a = None)"

text \<open>What an operation on the list at \<open>l\<close> with the items \<open>xs\<close> leaves alone: the other headers and
  the items that do not belong to it.\<close>

definition touches_only :: "addr \<Rightarrow> addr set \<Rightarrow> 'd list_mem \<Rightarrow> 'd list_mem \<Rightarrow> bool" where
  "touches_only l A m m' \<longleftrightarrow> list_fresh m' \<and> (\<forall>k. k \<noteq> l \<longrightarrow> headers m' k = headers m k) \<and>
     (\<forall>a. a \<notin> A \<longrightarrow> cells m a \<noteq> None \<longrightarrow> cells m' a = cells m a)"

lemma other_list_kept:
  assumes "touches_only l A m m'" and "list_at m k f ys" and "k \<noteq> l" and "fst ` set ys \<inter> A = {}"
  shows "list_at m' k f ys"
proof -
  from assms(2) obtain h where h: "headers m k = Some \<lparr>lh_head = h, lh_tail = last_addr ys, lh_flavor = f\<rparr>"
    and p: "path (cells m) h ys None" by (auto simp: list_at_def)
  have "cells m' a = cells m a" if "a \<in> fst ` set ys" for a
    using path_mem [OF p that] that assms(1,4) unfolding touches_only_def by blast
  then have "path (cells m') h ys None" using p path_frame [of ys "cells m'"] by simp
  with h assms(1,3) show ?thesis by (auto simp: list_at_def touches_only_def)
qed


subsection \<open>The operations are those of sequences\<close>

lemma filled_item_run:
  "filled_item f d m =
     (Ok (list_brk m), m\<lparr>cells := (cells m)(list_brk m \<mapsto> \<lparr>li_next = None, li_flavor = f, li_data = d\<rparr>),
        list_brk := Suc (list_brk m)\<rparr>)"
  by (simp add: filled_item_def cil_list_item_init_def new_item_def wr_def bind_def)

lemma path_to_tail:
  assumes "path m p (xs @ [(a, f, d)]) None"
  shows "path m p xs (Some a)" "m a = Some \<lparr>li_next = None, li_flavor = f, li_data = d\<rparr>"
    "a \<notin> fst ` set xs"
  using assms path_addrs_distinct [OF assms] by (auto simp: path_append)

text \<open>A path gets a new end, or a new item in front.\<close>

lemma path_snoc:
  assumes "path m p (xs @ [(t, f, d)]) None" and "path m r ys None" and "t \<notin> fst ` set ys"
  shows "path (m(t \<mapsto> \<lparr>li_next = r, li_flavor = f, li_data = d\<rparr>)) p (xs @ (t, f, d) # ys) None"
proof -
  show ?thesis using path_to_tail [OF assms(1)] assms(2,3) by (auto simp: path_append)
qed

lemma list_append:
  assumes "list_fresh m" and "list_at m l f xs"
  shows "\<exists>m'. cil_list_append (Some l) g d m = (Ok (), m') \<and>
    list_at m' l f (xs @ [(list_brk m, g, d)]) \<and> touches_only l (fst ` set xs) m m'"
proof -
  let ?b = "list_brk m"
  let ?new = "\<lparr>li_next = None, li_flavor = g, li_data = d\<rparr>"
  from assms(2) obtain h where h: "headers m l = Some \<lparr>lh_head = h, lh_tail = last_addr xs, lh_flavor = f\<rparr>"
    and p: "path (cells m) h xs None" by (auto simp: list_at_def)
  have b: "cells m ?b = None" using assms(1) by (simp add: list_fresh_def)
  show ?thesis
  proof (cases xs rule: rev_cases)
    case Nil
    then show ?thesis
      using h p assms(1)
      by (auto simp: cil_list_append_def filled_item_run last_addr_def list_at_def touches_only_def list_fresh_def)
  next
    case (snoc ys x)
    obtain t g' d' where x: "x = (t, g', d')" by (cases x)
    have t: "cells m t = Some \<lparr>li_next = None, li_flavor = g', li_data = d'\<rparr>"
      using path_to_tail(2) p snoc x by blast
    with b have "t \<noteq> ?b" by auto
    let ?m = "(cells m)(?b \<mapsto> ?new)"
    have "path ?m h (ys @ [(t, g', d')]) None"
      using p snoc x path_frame [of xs ?m "cells m"] path_mem [OF p] b by fastforce
    then have "path (?m(t \<mapsto> \<lparr>li_next = Some ?b, li_flavor = g', li_data = d'\<rparr>)) h
        (ys @ (t, g', d') # [(?b, g, d)]) None"
      by (rule path_snoc) (use \<open>t \<noteq> ?b\<close> in auto)
    moreover have "last_addr xs = Some t" using snoc x by (simp add: last_addr_def)
    ultimately show ?thesis
      using h t \<open>t \<noteq> ?b\<close> snoc x assms(1)
      by (auto simp: cil_list_append_def filled_item_run list_at_def touches_only_def list_fresh_def
        last_addr_def fun_upd_twist)
  qed
qed

lemma list_prepend:
  assumes "list_fresh m" and "list_at m l f xs"
  shows "\<exists>m'. cil_list_prepend (Some l) g d m = (Ok (), m') \<and>
    list_at m' l f ((list_brk m, g, d) # xs) \<and> touches_only l {} m m'"
proof -
  let ?b = "list_brk m"
  from assms(2) obtain h where h: "headers m l = Some \<lparr>lh_head = h, lh_tail = last_addr xs, lh_flavor = f\<rparr>"
    and p: "path (cells m) h xs None" by (auto simp: list_at_def)
  have b: "cells m ?b = None" using assms(1) by (simp add: list_fresh_def)
  have p': "path ((cells m)(?b \<mapsto> x)) h xs None" for x
    using p path_frame [of xs "(cells m)(?b \<mapsto> x)" "cells m"] path_mem [OF p] b by fastforce
  show ?thesis
  proof (cases "xs = []")
    case True
    then show ?thesis
      using h p assms(1)
      by (auto simp: cil_list_prepend_def filled_item_run last_addr_def list_at_def touches_only_def list_fresh_def)
  next
    case False
    then show ?thesis
      using h p' assms(1)
      by (auto simp: cil_list_prepend_def filled_item_run last_addr_def list_at_def touches_only_def list_fresh_def)
  qed
qed


text \<open>An insertion after an item that is not the last one.\<close>

lemma list_insert:
  assumes "list_fresh m" and "list_at m l f (xs @ (c, g', d') # y # ys)"
  shows "\<exists>m'. cil_list_insert (Some l) (Some c) g d m = (Ok (Some (list_brk m)), m') \<and>
    list_at m' l f (xs @ (c, g', d') # (list_brk m, g, d) # y # ys) \<and> touches_only l {c} m m'"
proof -
  let ?b = "list_brk m" and ?rest = "y # ys"
  from assms(2) obtain h where
      h: "headers m l = Some \<lparr>lh_head = h, lh_tail = last_addr (xs @ (c, g', d') # ?rest), lh_flavor = f\<rparr>"
    and p: "path (cells m) h (xs @ (c, g', d') # ?rest) None" by (auto simp: list_at_def)
  have b: "cells m ?b = None" using assms(1) by (simp add: list_fresh_def)
  from p obtain n where xs: "path (cells m) h xs (Some c)" and n: "path (cells m) n ?rest None"
    and c: "cells m c = Some \<lparr>li_next = n, li_flavor = g', li_data = d'\<rparr>"
    unfolding path_append by auto
  have cb: "c \<noteq> ?b" using b c by auto
  have notin: "c \<notin> fst ` set xs" "c \<notin> fst ` set ?rest" using path_addrs_distinct [OF p] by auto
  have nb: "?b \<notin> fst ` set xs" "?b \<notin> fst ` set ?rest"
    using path_mem [OF xs] path_mem [OF n] b by blast+
  have "last_addr (xs @ (c, g', d') # ?rest) \<noteq> Some c"
    using notin(2) by (auto simp: last_addr_def image_iff)
  let ?m = "(cells m)(?b \<mapsto> \<lparr>li_next = n, li_flavor = g, li_data = d\<rparr>,
      c \<mapsto> \<lparr>li_next = Some ?b, li_flavor = g', li_data = d'\<rparr>)"
  have "path ?m h xs (Some c)" "path ?m n ?rest None"
    using xs n by (simp_all only: path_upd [OF notin(1)] path_upd [OF notin(2)] path_upd [OF nb(1)]
      path_upd [OF nb(2)])
  then have "path ?m h (xs @ (c, g', d') # (?b, g, d) # ?rest) None"
    unfolding path_append using cb by (intro exI [of _ "Some c"]) simp
  moreover have "last_addr (xs @ (c, g', d') # (?b, g, d) # ?rest) = last_addr (xs @ (c, g', d') # ?rest)"
    by (simp add: last_addr_def)
  ultimately have "list_at (m\<lparr>cells := ?m, list_brk := Suc ?b\<rparr>) l f (xs @ (c, g', d') # (?b, g, d) # ?rest)"
    using h by (simp add: list_at_def)
  moreover have "cil_list_insert (Some l) (Some c) g d m =
      (Ok (Some ?b), m\<lparr>cells := ?m, list_brk := Suc ?b\<rparr>)"
    using \<open>last_addr _ \<noteq> Some c\<close> h c cb by (simp add: cil_list_insert_def filled_item_run fun_upd_twist)
  moreover have "touches_only l {c} m (m\<lparr>cells := ?m, list_brk := Suc ?b\<rparr>)"
    using assms(1) c b by (auto simp: touches_only_def list_fresh_def)
  ultimately show ?thesis by blast
qed

text \<open>A chain of items found by its first one.\<close>

lemma last_item_run:
  "path (cells m) (Some i) xs None \<Longrightarrow> length xs \<le> fuel \<Longrightarrow> last_item fuel i m = (Ok (fst (last xs)), m)"
proof (induction xs arbitrary: i fuel)
  case (Cons x xs)
  then obtain k where fuel: "fuel = Suc k" by (cases fuel) auto
  obtain a g d where x: "x = (a, g, d)" by (cases x)
  show ?case
  proof (cases xs)
    case Nil
    with Cons.prems x fuel show ?thesis by auto
  next
    case (Cons y ys)
    with \<open>path _ _ (x # xs) None\<close> x obtain n where
      "cells m i = Some \<lparr>li_next = Some n, li_flavor = g, li_data = d\<rparr>" "path (cells m) (Some n) xs None" "i = a"
      by (cases y) auto
    with Cons.IH [of n k] \<open>length (x # xs) \<le> fuel\<close> fuel Cons show ?thesis by simp
  qed
qed simp

lemma list_append_item:
  assumes "list_fresh m" and "list_at m l f xs" and "path (cells m) (Some i) ys None"
    and "fst ` set xs \<inter> fst ` set ys = {}" and "length ys \<le> fuel"
  shows "\<exists>m'. cil_list_append_item fuel (Some l) (Some i) m = (Ok (), m') \<and>
    list_at m' l f (xs @ ys) \<and> touches_only l (fst ` set xs) m m'"
proof -
  from assms(2) obtain h where h: "headers m l = Some \<lparr>lh_head = h, lh_tail = last_addr xs, lh_flavor = f\<rparr>"
    and p: "path (cells m) h xs None" by (auto simp: list_at_def)
  note run = last_item_run [OF assms(3,5)]
  have ys: "ys \<noteq> []" using assms(3) by auto
  show ?thesis
  proof (cases xs rule: rev_cases)
    case Nil
    then show ?thesis
      using h run ys assms(1,3)
      by (auto simp: cil_list_append_item_def last_addr_def list_at_def touches_only_def list_fresh_def)
  next
    case (snoc zs x)
    obtain t g d where x: "x = (t, g, d)" by (cases x)
    have t: "cells m t = Some \<lparr>li_next = None, li_flavor = g, li_data = d\<rparr>"
      using path_to_tail(2) p snoc x by blast
    have "path ((cells m)(t \<mapsto> \<lparr>li_next = Some i, li_flavor = g, li_data = d\<rparr>)) h (zs @ (t, g, d) # ys) None"
      by (rule path_snoc) (use p snoc x assms(3,4) in auto)
    moreover have "last_addr xs = Some t" using snoc x by (simp add: last_addr_def)
    ultimately show ?thesis
      using h t run ys snoc x assms(1)
      by (auto simp: cil_list_append_item_def list_at_def touches_only_def list_fresh_def last_addr_def)
  qed
qed

lemma list_prepend_item:
  assumes "list_fresh m" and "list_at m l f xs" and "path (cells m) (Some i) ys None"
    and "fst ` set xs \<inter> fst ` set ys = {}" and "length ys \<le> fuel"
  shows "\<exists>m'. cil_list_prepend_item fuel (Some l) (Some i) m = (Ok (), m') \<and>
    list_at m' l f (ys @ xs) \<and> touches_only l (fst ` set ys) m m'"
proof -
  from assms(2) obtain h where h: "headers m l = Some \<lparr>lh_head = h, lh_tail = last_addr xs, lh_flavor = f\<rparr>"
    and p: "path (cells m) h xs None" by (auto simp: list_at_def)
  note run = last_item_run [OF assms(3,5)]
  obtain zs t g d where ys: "ys = zs @ [(t, g, d)]"
    using assms(3) by (cases ys rule: rev_cases) auto
  have t: "cells m t = Some \<lparr>li_next = None, li_flavor = g, li_data = d\<rparr>"
    using path_to_tail(2) assms(3) ys by blast
  show ?thesis
  proof (cases "xs = []")
    case True
    then show ?thesis
      using h run ys assms(1,3)
      by (auto simp: cil_list_prepend_item_def last_addr_def list_at_def touches_only_def list_fresh_def)
  next
    case False
    have "path ((cells m)(t \<mapsto> \<lparr>li_next = h, li_flavor = g, li_data = d\<rparr>)) (Some i) (zs @ (t, g, d) # xs) None"
      by (rule path_snoc) (use p ys assms(3,4) in auto)
    then show ?thesis
      using False h t run ys assms(1)
      by (auto simp: cil_list_prepend_item_def list_at_def touches_only_def list_fresh_def last_addr_def)
  qed
qed


text \<open>The removal of the first item with a flavor and data.\<close>

fun remove_cell :: "cil_flavor \<Rightarrow> 'd option \<Rightarrow> 'd cell list \<Rightarrow> 'd cell list" where
  "remove_cell g d [] = []"
| "remove_cell g d ((a, g', d') # xs) = (if d' = d \<and> g' = g then xs else (a, g', d') # remove_cell g d xs)"

lemma remove_loop_run:
  assumes "list_fresh m" and "headers m l = Some \<lparr>lh_head = h, lh_tail = last_addr (ys @ xs), lh_flavor = f\<rparr>"
    and "path (cells m) h ys p" and "path (cells m) p xs None" and "length xs < fuel"
  shows "\<exists>m'. remove_loop fuel l g d (last_addr ys) p m = (Ok (), m') \<and>
    list_at m' l f (ys @ remove_cell g d xs) \<and> touches_only l (fst ` set (ys @ xs)) m m'"
  using assms(2-)
proof (induction xs arbitrary: ys p fuel)
  case Nil
  then show ?case
    using assms(1) by (cases fuel) (auto simp: list_at_def touches_only_def)
next
  case (Cons x xs)
  obtain a g' d' where x: "x = (a, g', d')" by (cases x)
  obtain k where fuel: "fuel = Suc k" using Cons.prems(4) by (cases fuel) auto
  from Cons.prems(3) x obtain n where p: "p = Some a" and n: "path (cells m) n xs None"
    and a: "cells m a = Some \<lparr>li_next = n, li_flavor = g', li_data = d'\<rparr>" by auto
  have whole: "path (cells m) h (ys @ x # xs) None" using Cons.prems(2,3) by (auto simp: path_append)
  have notin: "a \<notin> fst ` set ys" "a \<notin> fst ` set xs" using path_addrs_distinct [OF whole] x by auto
  show ?case
  proof (cases "d' = d \<and> g' = g")
    case False
    have "path (cells m) h (ys @ [x]) n" using Cons.prems(2) p a x by (auto simp: path_append)
    with Cons.IH [of "ys @ [x]" n k] Cons.prems(1,4) n fuel
    obtain m' where "remove_loop k l g d (Some a) n m = (Ok (), m')"
      "list_at m' l f (ys @ x # remove_cell g d xs)" "touches_only l (fst ` set (ys @ x # xs)) m m'"
      using x by (auto simp: last_addr_def)
    with False p a x fuel show ?thesis by auto
  next
    case True
    have n_None: "n = None \<longleftrightarrow> xs = []" using n by (cases xs) auto
    have last: "xs \<noteq> [] \<Longrightarrow> last_addr (ys @ x # xs) = last_addr (ys @ xs)" by (simp add: last_addr_def)
    show ?thesis
    proof (cases ys rule: rev_cases)
      case Nil
      then show ?thesis
        using True p a x fuel n n_None last notin Cons.prems(1,2) assms(1)
        by (cases "xs = []")
          (auto simp: last_addr_def list_at_def cil_list_item_destroy_def touches_only_def list_fresh_def)
    next
      case (snoc zs z)
      obtain t e c where z: "z = (t, e, c)" by (cases z)
      have ta: "t \<noteq> a" using notin(1) snoc z by auto
      from Cons.prems(2) snoc z p have zs: "path (cells m) h zs (Some t)"
        and t: "cells m t = Some \<lparr>li_next = Some a, li_flavor = e, li_data = c\<rparr>" by (auto simp: path_append)
      have tin: "t \<notin> fst ` set zs" "t \<notin> fst ` set xs" using path_addrs_distinct [OF whole] snoc z by auto
      let ?m = "(cells m)(t \<mapsto> \<lparr>li_next = n, li_flavor = e, li_data = c\<rparr>, a := None)"
      have "path ?m h (zs @ (t, e, c) # xs) None"
        unfolding path_append using zs n tin notin snoc ta by (intro exI [of _ "Some t"]) simp
      moreover have "last_addr ys = Some t" using snoc z by (simp add: last_addr_def)
      ultimately show ?thesis
        using True p a x fuel n_None last Cons.prems(1) assms(1) t ta snoc z
        by (cases "xs = []")
          (auto simp: list_at_def cil_list_item_destroy_def touches_only_def list_fresh_def last_addr_def)
    qed
  qed
qed

lemma list_remove:
  assumes "list_fresh m" and "list_at m l f xs" and "length xs < fuel"
  shows "\<exists>m'. cil_list_remove fuel (Some l) g d m = (Ok (), m') \<and>
    list_at m' l f (remove_cell g d xs) \<and> touches_only l (fst ` set xs) m m'"
proof -
  from assms(2) obtain h where h: "headers m l = Some \<lparr>lh_head = h, lh_tail = last_addr xs, lh_flavor = f\<rparr>"
    and p: "path (cells m) h xs None" by (auto simp: list_at_def)
  with remove_loop_run [of m l h "[]" xs f h fuel g d] assms(1,3)
  show ?thesis by (simp add: cil_list_remove_def last_addr_def)
qed


subsection \<open>The interface of sequences\<close>

datatype 'x seq_op = Push_back 'x | Push_front 'x | Drop_first 'x

fun seq_step :: "'x seq_op \<Rightarrow> 'x list \<Rightarrow> 'x list" where
  "seq_step (Push_back x) xs = xs @ [x]"
| "seq_step (Push_front x) xs = x # xs"
| "seq_step (Drop_first x) xs = remove1 x xs"

lemma seq_step_length: "length (seq_step oper xs) \<le> Suc (length xs)"
  by (cases oper) (auto simp: length_remove1)

text \<open>\<open>repr m l xs\<close>: in the memory \<open>m\<close> the sequence \<open>xs\<close> is at \<open>l\<close>. A removal searches with fuel.\<close>

locale sequence =
  fixes repr :: "'m \<Rightarrow> addr \<Rightarrow> 'x list \<Rightarrow> bool"
    and push_back :: "addr \<Rightarrow> 'x \<Rightarrow> ('m, unit) cil"
    and push_front :: "addr \<Rightarrow> 'x \<Rightarrow> ('m, unit) cil"
    and drop_first :: "nat \<Rightarrow> addr \<Rightarrow> 'x \<Rightarrow> ('m, unit) cil"
  assumes push_back: "repr m l xs \<Longrightarrow> \<exists>m'. push_back l x m = (Ok (), m') \<and> repr m' l (xs @ [x])"
    and push_front: "repr m l xs \<Longrightarrow> \<exists>m'. push_front l x m = (Ok (), m') \<and> repr m' l (x # xs)"
    and drop_first: "repr m l xs \<Longrightarrow> length xs < fuel \<Longrightarrow>
      \<exists>m'. drop_first fuel l x m = (Ok (), m') \<and> repr m' l (remove1 x xs)"
begin

fun run_op :: "nat \<Rightarrow> addr \<Rightarrow> 'x seq_op \<Rightarrow> ('m, unit) cil" where
  "run_op fuel l (Push_back x) = push_back l x"
| "run_op fuel l (Push_front x) = push_front l x"
| "run_op fuel l (Drop_first x) = drop_first fuel l x"

lemma run_op_refines:
  "repr m l xs \<Longrightarrow> length xs < fuel \<Longrightarrow>
   \<exists>m'. run_op fuel l oper m = (Ok (), m') \<and> repr m' l (seq_step oper xs)"
  using push_back push_front drop_first by (cases oper) auto

lemma run_ops_refine:
  "repr m l xs \<Longrightarrow> length xs + length ops \<le> fuel \<Longrightarrow>
   \<exists>m'. for_each (run_op fuel l) ops m = (Ok (), m') \<and> repr m' l (fold seq_step ops xs)"
proof (induction ops arbitrary: m xs)
  case (Cons oper ops)
  from Cons.prems obtain m1 where m1: "run_op fuel l oper m = (Ok (), m1)" "repr m1 l (seq_step oper xs)"
    using run_op_refines [of m l xs fuel oper] by auto
  moreover have "length (seq_step oper xs) + length ops \<le> fuel"
    using Cons.prems(2) seq_step_length [of oper xs] by simp
  ultimately show ?case using Cons.IH [of m1 "seq_step oper xs"] by auto
qed simp

lemma push_back_all:
  assumes "repr m l xs"
  shows "\<exists>m'. for_each (push_back l) ys m = (Ok (), m') \<and> repr m' l (xs @ ys)"
  using assms
proof (induction ys arbitrary: m xs)
  case (Cons y ys)
  from push_back [OF Cons.prems, of y] obtain m1 where "push_back l y m = (Ok (), m1)" "repr m1 l (xs @ [y])"
    by blast
  with Cons.IH [of m1 "xs @ [y]"] show ?case by auto
qed auto

end

definition list_repr :: "cil_flavor \<Rightarrow> 'd list_mem \<Rightarrow> addr \<Rightarrow> (cil_flavor \<times> 'd option) list \<Rightarrow> bool" where
  "list_repr f m l xs \<longleftrightarrow> list_fresh m \<and> (\<exists>cs. list_at m l f cs \<and> map snd cs = xs)"

lemma map_snd_remove_cell: "map snd (remove_cell g d cs) = remove1 (g, d) (map snd cs)"
  by (induction g d cs rule: remove_cell.induct) auto

interpretation linked: sequence "list_repr f" "\<lambda>l (g, d). cil_list_append (Some l) g d"
  "\<lambda>l (g, d). cil_list_prepend (Some l) g d" "\<lambda>fuel l (g, d). cil_list_remove fuel (Some l) g d"
proof
  fix m :: "'d list_mem" and l :: addr and xs :: "(cil_flavor \<times> 'd option) list" and x :: "cil_flavor \<times> 'd option"
  obtain g d where x: "x = (g, d)" by (cases x)
  assume "list_repr f m l xs"
  then obtain cs where fresh: "list_fresh m" and cs: "list_at m l f cs" and xs: "xs = map snd cs"
    by (auto simp: list_repr_def)
  show "\<exists>m'. (case x of (g, d) \<Rightarrow> cil_list_append (Some l) g d) m = (Ok (), m') \<and> list_repr f m' l (xs @ [x])"
    using list_append [OF fresh cs, of g d] x xs by (fastforce simp: list_repr_def touches_only_def)
  show "\<exists>m'. (case x of (g, d) \<Rightarrow> cil_list_prepend (Some l) g d) m = (Ok (), m') \<and> list_repr f m' l (x # xs)"
    using list_prepend [OF fresh cs, of g d] x xs by (fastforce simp: list_repr_def touches_only_def)
  fix fuel assume "length xs < fuel"
  then show "\<exists>m'. (case x of (g, d) \<Rightarrow> cil_list_remove fuel (Some l) g d) m = (Ok (), m') \<and>
      list_repr f m' l (remove1 x xs)"
    using list_remove [OF fresh cs, of fuel g d] x xs
    by (fastforce simp: list_repr_def touches_only_def map_snd_remove_cell)
qed

text \<open>An operation on a list, by its C function.\<close>

fun list_op :: "nat \<Rightarrow> addr \<Rightarrow> (cil_flavor \<times> 'd option) seq_op \<Rightarrow> ('d list_mem, unit) cil" where
  "list_op fuel l (Push_back (g, d)) = cil_list_append (Some l) g d"
| "list_op fuel l (Push_front (g, d)) = cil_list_prepend (Some l) g d"
| "list_op fuel l (Drop_first (g, d)) = cil_list_remove fuel (Some l) g d"

lemma list_op_run_op: "list_op fuel l oper = linked.run_op fuel l oper"
  by (cases "(fuel, l, oper)" rule: list_op.cases) auto

text \<open>C15. Lists refine sequences: whatever appends, prepends and removals are made on a list, in any
  order, they all succeed, and the chain of items then reads as the sequence that the same operations on
  HOL lists give. The fuel of the searches covers the items there can be.\<close>

theorem lists_refine_sequences:
  assumes "list_fresh m" and "list_at m l f cs" and "length cs + length ops \<le> fuel"
  shows "\<exists>m' cs'. for_each (list_op fuel l) ops m = (Ok (), m') \<and> list_at m' l f cs' \<and>
    map snd cs' = fold seq_step ops (map snd cs)"
proof -
  have "list_repr f m l (map snd cs)" using assms(1,2) by (auto simp: list_repr_def)
  then obtain m' where "for_each (linked.run_op fuel l) ops m = (Ok (), m')"
    and "list_repr f m' l (fold seq_step ops (map snd cs))"
    using linked.run_ops_refine [of f m l "map snd cs" ops fuel] assms(3) by auto
  then show ?thesis by (auto simp: list_repr_def list_op_run_op [abs_def])
qed

definition empty_list_mem :: "nat list_mem" where
  "empty_list_mem = \<lparr>headers = [0 \<mapsto> \<lparr>lh_head = None, lh_tail = None, lh_flavor = CIL_LIST\<rparr>],
     cells = Map.empty, list_brk = 1\<rparr>"

theorem lists_refine_sequences_witness:
  "\<exists>m' cs'. for_each (list_op 4 0) [Push_back (CIL_TYPE, Some 7), Push_front (CIL_ROLE, Some 8),
      Push_back (CIL_TYPE, Some 9), Drop_first (CIL_TYPE, Some 7)] empty_list_mem = (Ok (), m') \<and>
    list_at m' 0 CIL_LIST cs' \<and> map snd cs' = [(CIL_ROLE, Some 8), (CIL_TYPE, Some 9)]"
  using lists_refine_sequences [of empty_list_mem 0 CIL_LIST "[]" "[Push_back (CIL_TYPE, Some 7),
    Push_front (CIL_ROLE, Some 8), Push_back (CIL_TYPE, Some 9), Drop_first (CIL_TYPE, Some 7)]" 4]
  by (simp add: empty_list_mem_def list_fresh_def list_at_def last_addr_def)

text \<open>Splicing: \<open>cil_list_append_item\<close> and \<open>cil_list_prepend_item\<close> join a chain of items to the
  back or the front of a list, and no other list changes.\<close>

theorem list_splice:
  assumes "list_fresh m" and "list_at m l f xs" and "path (cells m) (Some i) ys None"
    and "fst ` set xs \<inter> fst ` set ys = {}" and "length ys \<le> fuel"
    and "list_at m k g zs" and "k \<noteq> l" and "fst ` set zs \<inter> (fst ` set xs \<union> fst ` set ys) = {}"
  shows "(\<exists>m'. cil_list_append_item fuel (Some l) (Some i) m = (Ok (), m') \<and>
      list_at m' l f (xs @ ys) \<and> list_at m' k g zs) \<and>
    (\<exists>m'. cil_list_prepend_item fuel (Some l) (Some i) m = (Ok (), m') \<and>
      list_at m' l f (ys @ xs) \<and> list_at m' k g zs)"
  using list_append_item [OF assms(1-5)] list_prepend_item [OF assms(1-5)] assms(6-8)
  by (blast intro: other_list_kept)

definition spliced_mem :: "nat list_mem" where
  "spliced_mem = \<lparr>headers = [0 \<mapsto> \<lparr>lh_head = Some 2, lh_tail = Some 2, lh_flavor = CIL_LIST\<rparr>,
       1 \<mapsto> \<lparr>lh_head = Some 5, lh_tail = Some 5, lh_flavor = CIL_LIST\<rparr>],
     cells = [2 \<mapsto> \<lparr>li_next = None, li_flavor = CIL_TYPE, li_data = Some 10\<rparr>,
       3 \<mapsto> \<lparr>li_next = Some 4, li_flavor = CIL_TYPE, li_data = Some 11\<rparr>,
       4 \<mapsto> \<lparr>li_next = None, li_flavor = CIL_TYPE, li_data = Some 12\<rparr>,
       5 \<mapsto> \<lparr>li_next = None, li_flavor = CIL_TYPE, li_data = Some 13\<rparr>], list_brk = 6\<rparr>"

theorem list_splice_witness:
  "\<exists>m'. cil_list_append_item 9 (Some 0) (Some 3) spliced_mem = (Ok (), m') \<and>
     list_at m' 0 CIL_LIST [(2, CIL_TYPE, Some 10), (3, CIL_TYPE, Some 11), (4, CIL_TYPE, Some 12)] \<and>
     list_at m' 1 CIL_LIST [(5, CIL_TYPE, Some 13)]"
  using list_splice [of spliced_mem 0 CIL_LIST "[(2, CIL_TYPE, Some 10)]" 3
    "[(3, CIL_TYPE, Some 11), (4, CIL_TYPE, Some 12)]" 9 1 CIL_LIST "[(5, CIL_TYPE, Some 13)]"]
  by (simp add: spliced_mem_def list_fresh_def list_at_def last_addr_def)

end
