(* ===== verification/Cil_Complex_Symtab.thy ===== *)
theory Cil_Complex_Symtab
  imports Cil_Prelude
begin

unbundle bit_operations_syntax

text \<open>
  The hash table with keys of four words of \<open>src/cil_symtab.c\<close> (\<open>cil_complex_symtab\<close>).

  A slot holds a chain of nodes; a chain is owned by its slot, so it is a list here. Within a chain the
  nodes with the same first word are kept in the order of the other three, which the search uses to
  stop early. The locale \<open>keyed_table\<close> is the interface of a table; the table of the code is an
  instance of it, so it behaves as a finite map.
\<close>

subsection \<open>The table\<close>

text \<open>The members of a key are of type \<open>intptr_t\<close>, 64 bits with a sign.\<close>

record csym_key =
  key1 :: "64 word"
  key2 :: "64 word"
  key3 :: "64 word"
  key4 :: "64 word"

record 'd csymtab =
  htable :: "(csym_key \<times> 'd) list list"
  nelems :: "32 word"
  nslots :: "32 word"
  slot_mask :: "32 word"

text \<open>The mask is passed as an \<open>int\<close>. The shift of the sum is arithmetic.\<close>

definition cil_complex_symtab_hash :: "csym_key \<Rightarrow> 32 word \<Rightarrow> 64 word" where
  "cil_complex_symtab_hash ckey m =
     (let sum = key1 ckey + key2 ckey + key3 ckey + key4 ckey in signed_drop_bit 2 sum AND scast m)"

definition cil_complex_symtab_init :: "32 word \<Rightarrow> 'd csymtab" where
  "cil_complex_symtab_init slots = \<lparr>htable = replicate (unat slots) [], nelems = 0, nslots = slots, slot_mask = slots - 1\<rparr>"

text \<open>The tests of the loops: the node found has the key, or it comes after where the key would be.\<close>

definition same_key :: "csym_key \<Rightarrow> csym_key \<Rightarrow> bool" where
  "same_key a b \<longleftrightarrow> key1 a = key1 b \<and> key2 a = key2 b \<and> key3 a = key3 b \<and> key4 a = key4 b"

definition stop_before :: "csym_key \<Rightarrow> csym_key \<Rightarrow> bool" where
  "stop_before a b \<longleftrightarrow>
     key1 a = key1 b \<and> sint (key2 a) < sint (key2 b) \<or>
     key1 a = key1 b \<and> key2 a = key2 b \<and> sint (key3 a) < sint (key3 b) \<or>
     key1 a = key1 b \<and> key2 a = key2 b \<and> key3 a = key3 b \<and> sint (key4 a) < sint (key4 b)"

fun insert_chain :: "csym_key \<Rightarrow> 'd \<Rightarrow> (csym_key \<times> 'd) list \<Rightarrow> (csym_key \<times> 'd) list option" where
  "insert_chain ckey datum [] = Some [(ckey, datum)]"
| "insert_chain ckey datum ((k, d) # cur) =
     (if same_key ckey k then None
      else if stop_before ckey k then Some ((ckey, datum) # (k, d) # cur)
      else map_option (Cons (k, d)) (insert_chain ckey datum cur))"

fun search_chain :: "csym_key \<Rightarrow> (csym_key \<times> 'd) list \<Rightarrow> 'd option" where
  "search_chain ckey [] = None"
| "search_chain ckey ((k, d) # cur) =
     (if same_key ckey k then Some d
      else if stop_before ckey k then None
      else search_chain ckey cur)"

text \<open>A slot outside of the table is a fault.\<close>

definition slot_of :: "'d csymtab \<Rightarrow> csym_key \<Rightarrow> nat outcome" where
  "slot_of t ckey =
     (let hash = sint (cil_complex_symtab_hash ckey (slot_mask t))
      in if 0 \<le> hash \<and> hash < int (length (htable t)) then Ok (nat hash) else Fault)"

definition cil_complex_symtab_insert :: "csym_key \<Rightarrow> 'd \<Rightarrow> ('d csymtab, unit) cil" where
  "cil_complex_symtab_insert ckey datum =
     bind (reading (\<lambda>t. slot_of t ckey)) (\<lambda>hash.
     bind (gets htable) (\<lambda>h.
     case insert_chain ckey datum (h ! hash) of
       None \<Rightarrow> fail SEPOL_EEXIST
     | Some chain \<Rightarrow> modify (\<lambda>t. t\<lparr>htable := h[hash := chain], nelems := nelems t + 1\<rparr>)))"

definition cil_complex_symtab_search :: "'d csymtab \<Rightarrow> csym_key \<Rightarrow> 'd option outcome" where
  "cil_complex_symtab_search t ckey =
     obind (slot_of t ckey) (\<lambda>hash. Ok (search_chain ckey (htable t ! hash)))"

definition cil_complex_symtab_destroy :: "'d csymtab \<Rightarrow> 'd csymtab" where
  "cil_complex_symtab_destroy t = \<lparr>htable = [], nelems = 0, nslots = 0, slot_mask = 0\<rparr>"

subsection \<open>Chains\<close>

lemma same_key_eq [simp]: "same_key a b \<longleftrightarrow> a = b"
  by (cases a; cases b) (auto simp: same_key_def)

lemma stop_before_irrefl [simp]: "\<not> stop_before a a"
  by (simp add: stop_before_def)

lemma stop_before_trans: "stop_before a b \<Longrightarrow> stop_before b c \<Longrightarrow> stop_before a c"
  by (auto simp: stop_before_def)

lemma sint_neq: "x \<noteq> y \<Longrightarrow> sint x < sint y \<or> sint y < sint x"
  by (metis linorder_neqE signed_word_eqI)

lemma stop_before_linear: "key1 a = key1 b \<Longrightarrow> a \<noteq> b \<Longrightarrow> stop_before a b \<or> stop_before b a"
  using sint_neq by (cases a; cases b) (fastforce simp: stop_before_def)

lemma stop_before_key1: "stop_before a b \<Longrightarrow> key1 a = key1 b"
  by (auto simp: stop_before_def)

text \<open>No node comes after one that its key would stop at.\<close>

definition chain_ok :: "(csym_key \<times> 'd) list \<Rightarrow> bool" where
  "chain_ok xs \<longleftrightarrow> sorted_wrt (\<lambda>x y. fst x \<noteq> fst y \<and> \<not> stop_before (fst y) (fst x)) xs"

lemma chain_ok_Cons: "chain_ok (x # xs) \<longleftrightarrow>
    (\<forall>y \<in> set xs. fst x \<noteq> fst y \<and> \<not> stop_before (fst y) (fst x)) \<and> chain_ok xs"
  by (simp add: chain_ok_def)

lemma search_chain_map_of:
  assumes "chain_ok xs"
  shows "search_chain k xs = map_of xs k"
  using assms
proof (induction xs)
  case (Cons x xs)
  obtain a d where x: "x = (a, d)" by (cases x)
  show ?case
  proof (cases "stop_before k a")
    case True
    have "map_of xs k = None"
    proof -
      have "fst y \<noteq> k" if "y \<in> set xs" for y
        using Cons.prems that True x by (auto simp: chain_ok_Cons)
      then show ?thesis by (auto simp: map_of_eq_None_iff)
    qed
    with True x show ?thesis by auto
  qed (use Cons x in \<open>auto simp: chain_ok_Cons\<close>)
qed simp

lemma insert_chain_None: "chain_ok xs \<Longrightarrow> insert_chain k d xs = None \<longleftrightarrow> map_of xs k \<noteq> None"
proof (induction xs)
  case (Cons x xs)
  obtain a e where x: "x = (a, e)" by (cases x)
  have "map_of xs k = None" if "stop_before k a"
    using Cons.prems that x by (auto simp: chain_ok_Cons map_of_eq_None_iff)
  with Cons x show ?case by (auto simp: chain_ok_Cons)
qed simp

lemma insert_chain_Some:
  assumes "chain_ok xs" and "insert_chain k d xs = Some ys"
  shows "chain_ok ys \<and> set ys = insert (k, d) (set xs) \<and> map_of ys = (map_of xs)(k \<mapsto> d)
    \<and> length ys = Suc (length xs)"
  using assms
proof (induction xs arbitrary: ys)
  case (Cons x xs)
  obtain a e where x: "x = (a, e)" by (cases x)
  have ka: "k \<noteq> a" using Cons.prems(2) x by (auto split: if_splits)
  show ?case
  proof (cases "stop_before k a")
    case True
    with Cons.prems(2) x ka have ys: "ys = (k, d) # x # xs" by simp
    have before: "\<not> stop_before (fst y) k \<and> fst y \<noteq> k" if "y \<in> set (x # xs)" for y
    proof -
      have "\<not> stop_before (fst y) a" using Cons.prems(1) that x by (auto simp: chain_ok_Cons)
      with True stop_before_trans [of "fst y" k a] show ?thesis by auto
    qed
    then have "chain_ok ys" using Cons.prems(1) unfolding ys chain_ok_Cons [of "(k, d)"] by force
    moreover have "map_of ys = (map_of (x # xs))(k \<mapsto> d)" using ys by simp
    ultimately show ?thesis unfolding ys by auto
  next
    case False
    with Cons.prems(2) x ka obtain zs where zs: "insert_chain k d xs = Some zs" "ys = x # zs" by auto
    with Cons.IH Cons.prems(1) have *: "chain_ok zs" "set zs = insert (k, d) (set xs)"
      "map_of zs = (map_of xs)(k \<mapsto> d)" "length zs = Suc (length xs)" by (auto simp: chain_ok_Cons)
    with Cons.prems(1) zs False ka x show ?thesis by (auto simp: chain_ok_Cons)
  qed
qed (auto simp: chain_ok_def)


subsection \<open>The slots\<close>

text \<open>The slot of a key is inside of the table, whatever the sum of the members, when the table has at
  least one slot and fewer than \<open>2 ^ 31\<close>; the number of slots need not be a power of two.\<close>

lemma sint_small:
  assumes "m < 2 ^ 31"
  shows "sint (m :: 32 word) = uint m"
proof -
  have "uint m < 2 ^ 31" using assms by (simp add: word_less_def)
  moreover have "- (2 ^ 31) \<le> uint m" by (rule order_trans [OF _ uint_ge_0]) simp
  ultimately show ?thesis by (simp add: sint_uint signed_take_bit_int_eq_self)
qed

lemma hash_bounds:
  assumes "0 < slots" and "slots \<le> 2 ^ 31"
  shows "0 \<le> sint (cil_complex_symtab_hash k (slots - 1))"
    and "sint (cil_complex_symtab_hash k (slots - 1)) < int (unat slots)"
proof -
  have pos: "0 < uint slots" and le: "uint slots \<le> 2 ^ 31"
    using assms by (simp_all add: word_less_def word_le_def)
  then have sub: "uint (slots - 1) = uint slots - 1" by (simp add: uint_sub_if')
  then have "slots - 1 < 2 ^ 31" using le by (simp add: word_less_def)
  then have "sint (scast (slots - 1) :: 64 word) = uint slots - 1"
    using sub by (simp add: sint_up_scast is_up sint_small)
  then have "sint (cil_complex_symtab_hash k (slots - 1)) =
      sint (signed_drop_bit 2 (key1 k + key2 k + key3 k + key4 k)) AND (uint slots - 1)"
    by (simp add: cil_complex_symtab_hash_def signed_and_eq)
  moreover have "0 \<le> x AND (uint slots - 1)" "x AND (uint slots - 1) \<le> uint slots - 1" for x :: int
    using pos by (simp_all add: AND_upper2)
  ultimately show "0 \<le> sint (cil_complex_symtab_hash k (slots - 1))"
    and "sint (cil_complex_symtab_hash k (slots - 1)) < int (unat slots)"
    by (simp, smt (verit, best) unat_eq_nat_uint int_nat_eq uint_ge_0)
qed

definition csym_ok :: "'d csymtab \<Rightarrow> bool" where
  "csym_ok t \<longleftrightarrow> 0 < nslots t \<and> nslots t \<le> 2 ^ 31 \<and> slot_mask t = nslots t - 1 \<and>
     length (htable t) = unat (nslots t) \<and> list_all chain_ok (htable t) \<and>
     nelems t = of_nat (length (concat (htable t)))"

definition csym_slot :: "'d csymtab \<Rightarrow> csym_key \<Rightarrow> nat" where
  "csym_slot t k = nat (sint (cil_complex_symtab_hash k (slot_mask t)))"

lemma slot_of_Ok:
  assumes "csym_ok t"
  shows "slot_of t k = Ok (csym_slot t k)" "csym_slot t k < length (htable t)"
proof -
  have n: "0 < nslots t" "nslots t \<le> 2 ^ 31" "slot_mask t = nslots t - 1" "length (htable t) = unat (nslots t)"
    using assms by (simp_all add: csym_ok_def)
  note b = hash_bounds [OF n(1,2), of k]
  then show "slot_of t k = Ok (csym_slot t k)" unfolding slot_of_def csym_slot_def n(3,4) Let_def by presburger
  from b show "csym_slot t k < length (htable t)" unfolding csym_slot_def n(3,4) by linarith
qed

text \<open>The finite map that a table stands for.\<close>

definition csym_map :: "'d csymtab \<Rightarrow> csym_key \<Rightarrow> 'd option" where
  "csym_map t k = map_of (htable t ! csym_slot t k) k"

lemma chain_ok_slot: "csym_ok t \<Longrightarrow> chain_ok (htable t ! csym_slot t k)"
  using slot_of_Ok(2) [of t k] by (simp add: csym_ok_def list_all_length)

lemma csym_search:
  assumes "csym_ok t"
  shows "cil_complex_symtab_search t k = Ok (csym_map t k)"
  using slot_of_Ok [OF assms, of k] chain_ok_slot [OF assms, of k]
  by (simp add: cil_complex_symtab_search_def search_chain_map_of csym_map_def)

lemma csym_insert_new:
  assumes "csym_ok t" and "csym_map t k = None"
  shows "\<exists>t'. cil_complex_symtab_insert k d t = (Ok (), t') \<and> csym_ok t' \<and> csym_map t' = (csym_map t)(k \<mapsto> d)"
proof -
  let ?i = "csym_slot t k"
  let ?c = "htable t ! ?i"
  have ok: "chain_ok ?c" and i: "slot_of t k = Ok ?i" "?i < length (htable t)"
    using chain_ok_slot [OF assms(1)] slot_of_Ok [OF assms(1)] by auto
  obtain ys where ys: "insert_chain k d ?c = Some ys"
    using insert_chain_None [OF ok, of k d] assms(2) by (auto simp: csym_map_def)
  note res = insert_chain_Some [OF ok ys]
  let ?t = "t\<lparr>htable := (htable t)[?i := ys], nelems := nelems t + 1\<rparr>"
  have run: "cil_complex_symtab_insert k d t = (Ok (), ?t)"
    using i ys by (simp add: cil_complex_symtab_insert_def)
  have slot: "csym_slot ?t j = csym_slot t j" for j by (simp add: csym_slot_def)
  have len: "length (concat ((htable t)[?i := ys])) = Suc (length (concat (htable t)))"
  proof -
    have "sum_list ((map length (htable t))[?i := length ys]) = Suc (sum_list (map length (htable t)))"
      using i(2) res elem_le_sum_list [of ?i "map length (htable t)"] by (simp add: sum_list_update)
    then show ?thesis by (simp add: length_concat map_update)
  qed
  have "csym_ok ?t"
    using assms(1) res i(2) len
    by (auto simp: csym_ok_def list_all_length nth_list_update simp del: length_concat)
  moreover have "csym_map ?t = (csym_map t)(k \<mapsto> d)"
  proof
    fix j show "csym_map ?t j = ((csym_map t)(k \<mapsto> d)) j"
      using res i(2) by (auto simp: csym_map_def slot nth_list_update)
  qed
  ultimately show ?thesis using run by blast
qed

lemma csym_insert_old:
  assumes "csym_ok t" and "csym_map t k \<noteq> None"
  shows "cil_complex_symtab_insert k d t = (Fail SEPOL_EEXIST, t)"
  using assms slot_of_Ok [OF assms(1), of k] insert_chain_None [OF chain_ok_slot [OF assms(1), of k], of k d]
  by (simp add: cil_complex_symtab_insert_def csym_map_def)

lemma csym_init:
  assumes "0 < slots" and "slots \<le> 2 ^ 31"
  shows "csym_ok (cil_complex_symtab_init slots :: 'd csymtab)"
    and "csym_map (cil_complex_symtab_init slots :: 'd csymtab) k = None"
proof -
  let ?t = "cil_complex_symtab_init slots :: 'd csymtab"
  show ok: "csym_ok ?t"
    using assms by (simp add: csym_ok_def cil_complex_symtab_init_def chain_ok_def list_all_length)
  have "\<forall>c \<in> set (htable ?t). c = []" by (simp add: cil_complex_symtab_init_def)
  then have "htable ?t ! csym_slot ?t k = []" using slot_of_Ok(2) [OF ok, of k] by (meson nth_mem)
  then show "csym_map ?t k = None" by (simp add: csym_map_def)
qed

subsection \<open>The interface of tables\<close>

text \<open>The laws of a table whose insertion refuses keys that are there.\<close>

locale keyed_table =
  fixes ok :: "'t \<Rightarrow> bool"
    and search :: "'t \<Rightarrow> 'k \<Rightarrow> 'd option outcome"
    and enter :: "'k \<Rightarrow> 'd \<Rightarrow> ('t, unit) cil"
    and content :: "'t \<Rightarrow> 'k \<Rightarrow> 'd option"
  assumes search: "ok t \<Longrightarrow> search t k = Ok (content t k)"
    and enter_new: "ok t \<Longrightarrow> content t k = None \<Longrightarrow>
      \<exists>t'. enter k d t = (Ok (), t') \<and> ok t' \<and> content t' = (content t)(k \<mapsto> d)"
    and enter_old: "ok t \<Longrightarrow> content t k \<noteq> None \<Longrightarrow> enter k d t = (Fail SEPOL_EEXIST, t)"
begin

text \<open>Entering what is not there yet, one entry after the other: the first entry of a key stays.\<close>

definition enter_all :: "('k \<times> 'd) list \<Rightarrow> ('t, unit) cil" where
  "enter_all xs = for_each (\<lambda>(k, d). bind (attempt (enter k d)) (\<lambda>_. ret ())) xs"

lemma enter_all_content:
  "ok t \<Longrightarrow> \<exists>t'. enter_all xs t = (Ok (), t') \<and> ok t' \<and> content t' = map_of xs ++ content t"
proof (induction xs arbitrary: t)
  case (Cons x xs)
  obtain k d where x: "x = (k, d)" by (cases x)
  show ?case
  proof (cases "content t k")
    case None
    with enter_new [OF Cons.prems, of k d] obtain t1 where t1: "enter k d t = (Ok (), t1)" "ok t1"
      "content t1 = (content t)(k \<mapsto> d)" by blast
    have "map_of xs ++ (content t)(k \<mapsto> d) = map_of (x # xs) ++ content t"
      using None x by (auto simp: map_add_def fun_eq_iff split: option.split)
    then have same: "map_of xs ++ content t1 = map_of (x # xs) ++ content t" using t1(3) by simp
    have "enter_all (x # xs) t = enter_all xs t1" using t1(1) x by (simp add: enter_all_def)
    then show ?thesis using Cons.IH [OF t1(2)] unfolding same by (simp only:)
  next
    case (Some e)
    have same: "map_of xs ++ content t = map_of (x # xs) ++ content t"
      using Some x by (auto simp: map_add_def fun_eq_iff split: option.split)
    have "enter_all (x # xs) t = enter_all xs t"
      using x Some enter_old [OF Cons.prems, of k d] by (simp add: enter_all_def)
    then show ?thesis using Cons.IH [OF Cons.prems] unfolding same by (simp only:)
  qed
qed (simp add: enter_all_def)

end

interpretation csym: keyed_table csym_ok cil_complex_symtab_search cil_complex_symtab_insert csym_map
  by unfold_locales (simp_all add: csym_search csym_insert_new csym_insert_old)

text \<open>C16. The table refines a finite map: after any entries have been inserted into a new table, each with
  \<open>cil_complex_symtab_insert\<close> whose return code is ignored, a search finds for every key the datum that
  was inserted first, and nothing for the other keys. The number of slots is any number up to \<open>2 ^ 31\<close>.\<close>

theorem complex_symtab_is_map:
  assumes "0 < slots" and "slots \<le> 2 ^ 31"
  shows "\<exists>t. for_each (\<lambda>(k, d). bind (attempt (cil_complex_symtab_insert k d)) (\<lambda>_. ret ())) xs
      (cil_complex_symtab_init slots) = (Ok (), t) \<and> (\<forall>k. cil_complex_symtab_search t k = Ok (map_of xs k))"
proof -
  from csym.enter_all_content [OF csym_init(1) [OF assms], of xs] obtain t
    where run: "csym.enter_all xs (cil_complex_symtab_init slots) = (Ok (), t)" and ok: "csym_ok t"
      and content: "csym_map t = map_of xs ++ csym_map (cil_complex_symtab_init slots)" by blast
  have "csym_map t k = map_of xs k" for k
    unfolding content map_add_def csym_init(2) [OF assms] by simp
  with run csym.search [OF ok] show ?thesis by (auto simp: csym.enter_all_def)
qed

theorem complex_symtab_is_map_witness:
  "\<exists>t. for_each (\<lambda>(k, d). bind (attempt (cil_complex_symtab_insert k d)) (\<lambda>_. ret ()))
      [(\<lparr>key1 = 1, key2 = 2, key3 = 3, key4 = 4\<rparr>, ''a''), (\<lparr>key1 = 1, key2 = 2, key3 = 3, key4 = 0\<rparr>, ''b''),
       (\<lparr>key1 = 1, key2 = 2, key3 = 3, key4 = 4\<rparr>, ''c'')] (cil_complex_symtab_init 7) = (Ok (), t) \<and>
    cil_complex_symtab_search t \<lparr>key1 = 1, key2 = 2, key3 = 3, key4 = 4\<rparr> = Ok (Some ''a'')"
  using complex_symtab_is_map [of 7 "[(\<lparr>key1 = 1, key2 = 2, key3 = 3, key4 = 4\<rparr>, ''a''),
    (\<lparr>key1 = 1, key2 = 2, key3 = 3, key4 = 0\<rparr>, ''b''), (\<lparr>key1 = 1, key2 = 2, key3 = 3, key4 = 4\<rparr>, ''c'')]"]
  by auto

text \<open>The hash of a key, whatever the overflow of the sum of its members, is the position of a slot of
  the table.\<close>

theorem complex_symtab_hash_in_bounds:
  assumes "0 < slots" and "slots \<le> 2 ^ 31"
  shows "0 \<le> sint (cil_complex_symtab_hash k (slots - 1)) \<and>
    sint (cil_complex_symtab_hash k (slots - 1)) < uint slots"
  using hash_bounds [OF assms, of k] by simp

theorem complex_symtab_hash_in_bounds_witness:
  "sint (cil_complex_symtab_hash \<lparr>key1 = - 1, key2 = - 7, key3 = 2 ^ 63, key4 = 3\<rparr> (3 - 1)) < uint (3 :: 32 word)"
  using complex_symtab_hash_in_bounds [of 3 "\<lparr>key1 = - 1, key2 = - 7, key3 = 2 ^ 63, key4 = 3\<rparr>"] by simp

end
