(* ===== verification/Cil_Symtab.thy ===== *)
theory Cil_Symtab
  imports Cil_Store
begin

text \<open>
  Symbol tables (\<open>src/cil_symtab.c\<close>) over the hash tables of libsepol: what the compiler does with
  the header \<open>cil_symtab_datum\<close> of a declared object and with the list of the nodes that declare it.

  The lemmas follow a declaration from its insertion to the removal of its last node, given the laws of
  hash tables.
\<close>

subsection \<open>Operations\<close>

definition cil_symtab_error :: "(('h, 'b, 'z) cil_store_scheme, 'a) cil" where
  "cil_symtab_error = fail SEPOL_ERR"

definition symtab_of :: "('h, 'b, 'z) cil_store_scheme \<Rightarrow> symtab_ref \<Rightarrow> 'h outcome" where
  "symtab_of s symtab = (case symtabs s symtab of None \<Rightarrow> Fault | Some h \<Rightarrow> Ok h)"

definition cil_symtab_datum_init :: "addr \<Rightarrow> (('h, 'b, 'z) cil_store_scheme, unit) cil" where
  "cil_symtab_datum_init datum = modify (\<lambda>s. s\<lparr>datums := (datums s)(datum \<mapsto>
     \<lparr>datum_name = None, datum_fqn = None, datum_symtab = None, datum_nodes = Some []\<rparr>)\<rparr>)"

definition cil_symtab_get_datum ::
  "('h, 'b) sepol \<Rightarrow> ('h, 'b, 'z) cil_store_scheme \<Rightarrow> symtab_ref \<Rightarrow> string \<Rightarrow> addr outcome"
where
  "cil_symtab_get_datum L s symtab key =
     obind (symtab_of s symtab) (\<lambda>h.
     case ht_search L h key of None \<Rightarrow> Fail SEPOL_ENOENT | Some d \<Rightarrow> Ok d)"

text \<open>\<open>cil_list_append(datum->nodes, CIL_NODE, node)\<close>\<close>

definition append_node :: "addr \<Rightarrow> addr \<Rightarrow> (('h, 'b, 'z) cil_store_scheme, unit) cil" where
  "append_node datum node =
     bind (rd datums datum) (\<lambda>dt.
     case datum_nodes dt of
       None \<Rightarrow> cil_symtab_error
     | Some ns \<Rightarrow> wr datums datums_update datum (datum_nodes_update (\<lambda>_. Some (ns @ [node]))))"

definition cil_symtab_insert ::
  "('h, 'b) sepol \<Rightarrow> symtab_ref \<Rightarrow> string \<Rightarrow> addr \<Rightarrow> addr \<Rightarrow> (('h, 'b, 'z) cil_store_scheme, unit) cil"
where
  "cil_symtab_insert L symtab key datum node =
     bind (reading (\<lambda>s. symtab_of s symtab)) (\<lambda>h.
     let (rc, h') = ht_insert L h key datum in
     bind (modify (\<lambda>s. s\<lparr>symtabs := (symtabs s)(symtab \<mapsto> h')\<rparr>)) (\<lambda>_.
     case rc of
       None \<Rightarrow>
         bind (wr datums datums_update datum (\<lambda>dt. dt\<lparr>datum_name := Some key, datum_fqn := Some key,
           datum_symtab := Some symtab\<rparr>)) (\<lambda>_.
         append_node datum node)
     | Some SEPOL_EEXIST \<Rightarrow> bind (append_node datum node) (\<lambda>_. fail SEPOL_EEXIST)
     | Some e \<Rightarrow> cil_symtab_error))"

definition cil_symtab_remove_datum :: "('h, 'b) sepol \<Rightarrow> addr \<Rightarrow> (('h, 'b, 'z) cil_store_scheme, unit) cil" where
  "cil_symtab_remove_datum L datum =
     bind (rd datums datum) (\<lambda>dt.
     case datum_symtab dt of
       None \<Rightarrow> ret ()
     | Some symtab \<Rightarrow>
         bind (reading (\<lambda>s. symtab_of s symtab)) (\<lambda>h.
         bind (lift (not_null (datum_name dt))) (\<lambda>name.
         bind (modify (\<lambda>s. s\<lparr>symtabs := (symtabs s)(symtab \<mapsto> ht_remove L h name)\<rparr>)) (\<lambda>_.
         wr datums datums_update datum (datum_symtab_update (\<lambda>_. None))))))"

definition cil_symtab_datum_destroy :: "('h, 'b) sepol \<Rightarrow> addr \<Rightarrow> (('h, 'b, 'z) cil_store_scheme, unit) cil" where
  "cil_symtab_datum_destroy L datum =
     bind (wr datums datums_update datum (datum_nodes_update (\<lambda>_. None))) (\<lambda>_.
     cil_symtab_remove_datum L datum)"

text \<open>\<open>cil_list_remove\<close> takes the first item that is the node.\<close>

definition cil_symtab_datum_remove_node ::
  "('h, 'b) sepol \<Rightarrow> addr option \<Rightarrow> addr \<Rightarrow> (('h, 'b, 'z) cil_store_scheme, unit) cil"
where
  "cil_symtab_datum_remove_node L datum node =
     (case datum of
        None \<Rightarrow> ret ()
      | Some d \<Rightarrow>
          bind (rd datums d) (\<lambda>dt.
          case datum_nodes dt of
            None \<Rightarrow> ret ()
          | Some ns \<Rightarrow>
              bind (wr datums datums_update d (datum_nodes_update (\<lambda>_. Some (remove1 node ns)))) (\<lambda>_.
              if remove1 node ns = [] then cil_symtab_datum_destroy L d else ret ())))"

text \<open>\<open>hashtab_map\<close> with a callback; the table of a class, a block or the root is freed after its entries
  have been told.\<close>

definition cil_symtab_map ::
  "('h, 'b) sepol \<Rightarrow> symtab_ref \<Rightarrow> (string \<Rightarrow> addr \<Rightarrow> (('h, 'b, 'z) cil_store_scheme, unit) cil)
   \<Rightarrow> (('h, 'b, 'z) cil_store_scheme, unit) cil"
where
  "cil_symtab_map L symtab apply_to =
     bind (reading (\<lambda>s. symtab_of s symtab)) (\<lambda>h. for_each (\<lambda>(k, d). apply_to k d) (ht_entries L h))"

definition cil_symtab_destroy_helper :: "string \<Rightarrow> addr \<Rightarrow> (('h, 'b, 'z) cil_store_scheme, unit) cil" where
  "cil_symtab_destroy_helper k d = wr datums datums_update d (datum_symtab_update (\<lambda>_. None))"

definition cil_symtab_destroy :: "('h, 'b) sepol \<Rightarrow> symtab_ref \<Rightarrow> (('h, 'b, 'z) cil_store_scheme, unit) cil" where
  "cil_symtab_destroy L symtab =
     bind (gets symtabs) (\<lambda>tabs.
     if tabs symtab = None then ret ()
     else
       bind (cil_symtab_map L symtab cil_symtab_destroy_helper) (\<lambda>_.
       modify (\<lambda>s. s\<lparr>symtabs := (symtabs s)(symtab := None)\<rparr>)))"

subsection \<open>The laws of hash tables\<close>

lemma hashtab_lawsD:
  assumes "hashtab_laws L"
  shows "ht_search L h k = map_of (ht_entries L h) k"
    and "distinct (map fst (ht_entries L h))"
    and "ht_search L h k \<noteq> None \<Longrightarrow> ht_insert L h k d = (Some SEPOL_EEXIST, h)"
    and "ht_insert L h k d = (None, h') \<Longrightarrow> ht_search L h' j = (if j = k then Some d else ht_search L h j)"
    and "ht_search L (ht_remove L h k) j = (if j = k then None else ht_search L h j)"
    and "ht_search L (ht_create L) k = None"
  using assms unfolding hashtab_laws_def by blast+

subsection \<open>The life of a declaration\<close>

text \<open>A symbol table maps a name to a datum.\<close>

definition declares :: "('h, 'b) sepol \<Rightarrow> ('h, 'b, 'z) cil_store_scheme \<Rightarrow> symtab_ref \<Rightarrow> string \<Rightarrow> addr option" where
  "declares L s symtab key = (case symtabs s symtab of None \<Rightarrow> None | Some h \<Rightarrow> ht_search L h key)"

lemma get_datum_declares:
  "symtabs s symtab \<noteq> None \<Longrightarrow> cil_symtab_get_datum L s symtab key =
     (case declares L s symtab key of None \<Rightarrow> Fail SEPOL_ENOENT | Some d \<Rightarrow> Ok d)"
  by (auto simp: cil_symtab_get_datum_def symtab_of_def declares_def)

lemma insert_cases:
  assumes "hashtab_laws L" and "symtabs s symtab = Some h" and "datums s d = Some dt"
    and "datum_nodes dt = Some ns"
  shows "declares L s symtab key \<noteq> None \<Longrightarrow>
      \<exists>t. cil_symtab_insert L symtab key d n s = (Fail SEPOL_EEXIST, t) \<and> declares L t = declares L s \<and>
        datums t = (datums s)(d \<mapsto> dt\<lparr>datum_nodes := Some (ns @ [n])\<rparr>)"
    and "ht_insert L h key d = (None, h') \<Longrightarrow>
      \<exists>t. cil_symtab_insert L symtab key d n s = (Ok (), t) \<and>
        declares L t = (declares L s)(symtab := (declares L s symtab)(key \<mapsto> d)) \<and>
        datums t = (datums s)(d \<mapsto> \<lparr>datum_name = Some key, datum_fqn = Some key, datum_symtab = Some symtab,
          datum_nodes = Some (ns @ [n])\<rparr>)"
proof -
  note laws = hashtab_lawsD [OF assms(1)]
  show "\<exists>t. cil_symtab_insert L symtab key d n s = (Fail SEPOL_EEXIST, t) \<and> declares L t = declares L s \<and>
        datums t = (datums s)(d \<mapsto> dt\<lparr>datum_nodes := Some (ns @ [n])\<rparr>)"
    if "declares L s symtab key \<noteq> None"
  proof -
    from that have "ht_search L h key \<noteq> None" using assms(2) by (simp add: declares_def)
    from laws(3) [OF this] show ?thesis
      using assms(2-4)
      by (auto simp: cil_symtab_insert_def symtab_of_def append_node_def declares_def fun_eq_iff)
  qed
  show "\<exists>t. cil_symtab_insert L symtab key d n s = (Ok (), t) \<and>
        declares L t = (declares L s)(symtab := (declares L s symtab)(key \<mapsto> d)) \<and>
        datums t = (datums s)(d \<mapsto> \<lparr>datum_name = Some key, datum_fqn = Some key, datum_symtab = Some symtab,
          datum_nodes = Some (ns @ [n])\<rparr>)"
    if "ht_insert L h key d = (None, h')"
    using that assms(2-4) laws(4) [OF that]
    by (auto simp: cil_symtab_insert_def symtab_of_def append_node_def declares_def fun_eq_iff)
qed

lemma remove_node_cases:
  assumes "hashtab_laws L" and "datums s d = Some dt" and "datum_nodes dt = Some ns"
    and "datum_symtab dt = Some symtab" and "datum_name dt = Some key" and "symtabs s symtab \<noteq> None"
  shows "remove1 n ns = [] \<Longrightarrow> \<exists>t. cil_symtab_datum_remove_node L (Some d) n s = (Ok (), t) \<and>
      declares L t = (declares L s)(symtab := (declares L s symtab)(key := None)) \<and> symtabs t symtab \<noteq> None \<and>
      datums t = (datums s)(d \<mapsto> dt\<lparr>datum_nodes := None, datum_symtab := None\<rparr>)"
    and "remove1 n ns \<noteq> [] \<Longrightarrow> \<exists>t. cil_symtab_datum_remove_node L (Some d) n s = (Ok (), t) \<and>
      declares L t = declares L s \<and> symtabs t symtab \<noteq> None \<and>
      datums t = (datums s)(d \<mapsto> dt\<lparr>datum_nodes := Some (remove1 n ns)\<rparr>)"
  using assms(2-) hashtab_lawsD(5) [OF assms(1)]
  by (auto simp: cil_symtab_datum_remove_node_def cil_symtab_datum_destroy_def cil_symtab_remove_datum_def
      symtab_of_def declares_def fun_eq_iff)

lemma declares_some_symtab: "declares L s tab key = Some d \<Longrightarrow> symtabs s tab \<noteq> None"
  by (auto simp: declares_def split: option.splits)

text \<open>Further declarations of the same datum, each of which reports \<open>SEPOL_EEXIST\<close>, and removals of its nodes.\<close>

datatype node_op = Declare addr | Undeclare addr

fun run_node_op ::
  "('h, 'b) sepol \<Rightarrow> symtab_ref \<Rightarrow> string \<Rightarrow> addr \<Rightarrow> node_op \<Rightarrow> (('h, 'b, 'z) cil_store_scheme, unit) cil"
where
  "run_node_op L tab key d (Declare m) = bind (attempt (cil_symtab_insert L tab key d m)) (\<lambda>rc.
     if rc = Inl SEPOL_EEXIST then ret () else fail SEPOL_ERR)"
| "run_node_op L tab key d (Undeclare m) = cil_symtab_datum_remove_node L (Some d) m"

fun nodes_after :: "addr list \<Rightarrow> node_op list \<Rightarrow> addr list" where
  "nodes_after ns [] = ns"
| "nodes_after ns (Declare m # ops) = nodes_after (ns @ [m]) ops"
| "nodes_after ns (Undeclare m # ops) = nodes_after (remove1 m ns) ops"

text \<open>The datum \<open>d\<close> with the nodes \<open>ns\<close> is what \<open>key\<close> stands for; nothing else changed from \<open>s0\<close>.\<close>

definition declared_with ::
  "('h, 'b) sepol \<Rightarrow> symtab_ref \<Rightarrow> string \<Rightarrow> addr \<Rightarrow> ('h, 'b, 'z) cil_store_scheme \<Rightarrow> addr list
   \<Rightarrow> ('h, 'b, 'z) cil_store_scheme \<Rightarrow> bool"
where
  "declared_with L tab key d s0 ns s \<longleftrightarrow>
     declares L s = (declares L s0)(tab := (declares L s0 tab)(key \<mapsto> d)) \<and>
     datums s = (datums s0)(d \<mapsto> \<lparr>datum_name = Some key, datum_fqn = Some key, datum_symtab = Some tab,
       datum_nodes = Some ns\<rparr>)"

definition undeclared ::
  "('h, 'b) sepol \<Rightarrow> symtab_ref \<Rightarrow> string \<Rightarrow> addr \<Rightarrow> ('h, 'b, 'z) cil_store_scheme \<Rightarrow> ('h, 'b, 'z) cil_store_scheme \<Rightarrow> bool"
where
  "undeclared L tab key d s0 s \<longleftrightarrow>
     declares L s = (declares L s0)(tab := (declares L s0 tab)(key := None)) \<and> symtabs s tab \<noteq> None \<and>
     datums s = (datums s0)(d \<mapsto> \<lparr>datum_name = Some key, datum_fqn = Some key, datum_symtab = None,
       datum_nodes = None\<rparr>)"

lemma declared_with_step:
  assumes "hashtab_laws L" and "declared_with L tab key d s0 ns s"
  shows "\<exists>t. run_node_op L tab key d op s = (Ok (), t) \<and>
    (if nodes_after ns [op] = [] then undeclared L tab key d s0 t
     else declared_with L tab key d s0 (nodes_after ns [op]) t)"
proof -
  let ?dt = "\<lparr>datum_name = Some key, datum_fqn = Some key, datum_symtab = Some tab, datum_nodes = Some ns\<rparr>"
  from assms(2) have d: "datums s d = Some ?dt" and key: "declares L s tab key = Some d"
    by (simp_all add: declared_with_def)
  then obtain h where h: "symtabs s tab = Some h" by (auto dest: declares_some_symtab)
  show ?thesis
  proof (cases op)
    case (Declare m)
    from insert_cases(1) [OF assms(1) h d, of ns key m] key obtain t
      where "cil_symtab_insert L tab key d m s = (Fail SEPOL_EEXIST, t)" "declares L t = declares L s"
        "datums t = (datums s)(d \<mapsto> ?dt\<lparr>datum_nodes := Some (ns @ [m])\<rparr>)" by auto
    with Declare assms(2) show ?thesis by (simp add: attempt_def bind_def declared_with_def)
  next
    case (Undeclare m)
    show ?thesis
      using remove_node_cases [OF assms(1) d, of ns tab key m] h Undeclare assms(2)
      by (cases "remove1 m ns = []") (auto simp: declared_with_def undeclared_def)
  qed
qed

lemma declared_with_run:
  assumes "hashtab_laws L" and "declared_with L tab key d s0 ns s"
    and "\<forall>k < length ops. nodes_after ns (take k ops) \<noteq> []" and "ns \<noteq> []"
  shows "\<exists>t. for_each (run_node_op L tab key d) ops s = (Ok (), t) \<and>
    (if nodes_after ns ops = [] then undeclared L tab key d s0 t
     else declared_with L tab key d s0 (nodes_after ns ops) t)"
  using assms(2-)
proof (induction ops arbitrary: ns s)
  case (Cons op ops)
  obtain u where u: "run_node_op L tab key d op s = (Ok (), u)"
    and st: "if nodes_after ns [op] = [] then undeclared L tab key d s0 u
      else declared_with L tab key d s0 (nodes_after ns [op]) u"
    using declared_with_step [OF assms(1) Cons.prems(1), of op] by blast
  have step: "nodes_after ns (op # rest) = nodes_after (nodes_after ns [op]) rest" for rest by (cases op) simp_all
  show ?case
  proof (cases "ops = []")
    case True
    with u st show ?thesis by (simp add: bind_def)
  next
    case False
    then have ne: "nodes_after ns [op] \<noteq> []" using Cons.prems(2) [rule_format, of 1] by simp
    have "\<forall>k < length ops. nodes_after (nodes_after ns [op]) (take k ops) \<noteq> []"
    proof (intro allI impI)
      fix k assume "k < length ops"
      then show "nodes_after (nodes_after ns [op]) (take k ops) \<noteq> []"
        using Cons.prems(2) [rule_format, of "Suc k"] unfolding take_Suc_Cons step [of "take k ops"] by simp
    qed
    then obtain t where t: "for_each (run_node_op L tab key d) ops u = (Ok (), t)"
      "if nodes_after (nodes_after ns [op]) ops = [] then undeclared L tab key d s0 t
       else declared_with L tab key d s0 (nodes_after (nodes_after ns [op]) ops) t"
      using Cons.IH [of "nodes_after ns [op]" u] st ne unfolding if_not_P [OF ne] by blast
    have "for_each (run_node_op L tab key d) (op # ops) s = (Ok (), t)" using u t(1) by (simp add: bind_def)
    with t(2) show ?thesis unfolding step [of ops] by blast
  qed
qed simp

text \<open>C17. A declaration's life: when a fresh datum is inserted under a name that the table accepts, the name stands
  for it and insertions under that name, of this or another datum, report \<open>SEPOL_EEXIST\<close> and leave all tables as they
  are. However the datum gets further nodes by such insertions and loses nodes by removals, the name stands for it
  as long as a node is left, and is not found any more once the last one is removed. Other names and
  other data are not affected.\<close>

theorem declaration_life:
  assumes "hashtab_laws L" and "symtabs s tab = Some h" and "ht_insert L h key d = (None, h')"
    and "datums s d = Some dt" and "datum_nodes dt = Some []"
    and "\<forall>k < length ops. nodes_after [n] (take k ops) \<noteq> []"
  shows "\<exists>t u. cil_symtab_insert L tab key d n s = (Ok (), t) \<and>
    cil_symtab_get_datum L t tab key = Ok d \<and>
    (\<forall>e m et. datums t e = Some et \<longrightarrow> datum_nodes et \<noteq> None \<longrightarrow>
       (\<exists>v. cil_symtab_insert L tab key e m t = (Fail SEPOL_EEXIST, v) \<and> declares L v = declares L t)) \<and>
    for_each (run_node_op L tab key d) ops t = (Ok (), u) \<and>
    cil_symtab_get_datum L u tab key = (if nodes_after [n] ops = [] then Fail SEPOL_ENOENT else Ok d) \<and>
    (nodes_after [n] ops \<noteq> [] \<longrightarrow> (\<exists>du. datums u d = Some du \<and> datum_nodes du = Some (nodes_after [n] ops))) \<and>
    (\<forall>j. j \<noteq> key \<longrightarrow> declares L t tab j = declares L s tab j \<and> declares L u tab j = declares L s tab j) \<and>
    (\<forall>e. e \<noteq> d \<longrightarrow> datums u e = datums s e)"
proof -
  from insert_cases(2) [OF assms(1,2,4,5,3)] obtain t where
    ins: "cil_symtab_insert L tab key d n s = (Ok (), t)" and t: "declared_with L tab key d s [n] t"
    by (auto simp: declared_with_def)
  then have there: "declares L t tab key = Some d" by (simp add: declared_with_def)
  then obtain h1 where h1: "symtabs t tab = Some h1" by (auto dest: declares_some_symtab)
  have again: "\<exists>v. cil_symtab_insert L tab key e m t = (Fail SEPOL_EEXIST, v) \<and> declares L v = declares L t"
    if "datums t e = Some et" "datum_nodes et \<noteq> None" for e m et
    using insert_cases(1) [OF assms(1) h1 that(1), of _ key m] that(2) there by auto
  obtain u where run: "for_each (run_node_op L tab key d) ops t = (Ok (), u)"
    and u: "if nodes_after [n] ops = [] then undeclared L tab key d s u
      else declared_with L tab key d s (nodes_after [n] ops) u"
    using declared_with_run [OF assms(1) t assms(6)] by auto
  have "cil_symtab_get_datum L u tab key = (if nodes_after [n] ops = [] then Fail SEPOL_ENOENT else Ok d)"
  proof (cases "nodes_after [n] ops = []")
    case True
    with u show ?thesis by (simp add: undeclared_def get_datum_declares)
  next
    case False
    with u have "declares L u tab key = Some d" by (simp add: declared_with_def)
    with declares_some_symtab [OF this] False show ?thesis by (simp add: get_datum_declares)
  qed
  moreover have "cil_symtab_get_datum L t tab key = Ok d" using there h1 by (simp add: get_datum_declares)
  moreover have "\<forall>j. j \<noteq> key \<longrightarrow> declares L t tab j = declares L s tab j \<and> declares L u tab j = declares L s tab j"
    "\<forall>e. e \<noteq> d \<longrightarrow> datums u e = datums s e"
    using t u by (auto simp: declared_with_def undeclared_def split: if_splits)
  moreover have "nodes_after [n] ops \<noteq> [] \<longrightarrow> (\<exists>du. datums u d = Some du \<and> datum_nodes du = Some (nodes_after [n] ops))"
    using u by (auto simp: declared_with_def)
  ultimately show ?thesis using ins run again by blast
qed

definition fresh_type_db :: "((string \<times> addr) list, nat list) cil_store" where
  "fresh_type_db = store0\<lparr>symtabs := [SymArray 1 3 \<mapsto> [(''staff_t'', 20)]],
     datums := [30 \<mapsto> \<lparr>datum_name = None, datum_fqn = None, datum_symtab = None, datum_nodes = Some []\<rparr>]\<rparr>"

theorem declaration_life_witness:
  "\<exists>t u v. cil_symtab_insert sepol0 (SymArray 1 3) ''user_t'' 30 40 fresh_type_db = (Ok (), t) \<and>
     cil_symtab_get_datum sepol0 t (SymArray 1 3) ''user_t'' = Ok 30 \<and>
     for_each (run_node_op sepol0 (SymArray 1 3) ''user_t'' 30) [Declare 41, Undeclare 40] t = (Ok (), u) \<and>
     cil_symtab_get_datum sepol0 u (SymArray 1 3) ''user_t'' = Ok 30 \<and>
     for_each (run_node_op sepol0 (SymArray 1 3) ''user_t'' 30) [Declare 41, Undeclare 40, Undeclare 41] t = (Ok (), v) \<and>
     cil_symtab_get_datum sepol0 v (SymArray 1 3) ''user_t'' = Fail SEPOL_ENOENT"
proof -
  let ?dt = "\<lparr>datum_name = None, datum_fqn = None, datum_symtab = None, datum_nodes = Some []\<rparr>"
  have s: "symtabs fresh_type_db (SymArray 1 3) = Some [(''staff_t'', 20)]" "datums fresh_type_db 30 = Some ?dt"
    by (simp_all add: fresh_type_db_def)
  have h: "ht_insert sepol0 [(''staff_t'', 20)] ''user_t'' 30 = (None, [(''staff_t'', 20), (''user_t'', 30)])"
    by (simp add: sepol0_def)
  note life = declaration_life [OF sepol0_hashtab s(1) h s(2), of _ 40]
  have 1: "\<forall>k < length [Declare 41, Undeclare 40]. nodes_after [40] (take k [Declare 41, Undeclare 40]) \<noteq> []"
    by (simp add: less_Suc_eq)
  have 2: "\<forall>k < length [Declare 41, Undeclare 40, Undeclare 41].
      nodes_after [40] (take k [Declare 41, Undeclare 40, Undeclare 41]) \<noteq> []"
    by (simp add: less_Suc_eq)
  from life [OF _ 1] life [OF _ 2] show ?thesis by auto
qed

end
