(* ===== verification/Cil_Names.thy ===== *)
theory Cil_Names
  imports Cil_Symtab
begin

text \<open>
  The resolution of names (\<open>cil_resolve_name\<close> and its helpers in \<open>src/cil_resolve_ast.c\<close>).

  A name without a dot is looked up in the scopes around a statement: the symbol tables of the blocks
  and macros above it, and, through \<open>blockinherit\<close> and \<open>call\<close> statements, the arguments of a call and
  the scopes of the block or macro that was copied. The search follows pointers and calls itself, so it
  has fuel. \<open>search_scopes\<close> is the list of the scopes of a statement; the lemmas show that the search is
  the first match in that list, that it ends when no block inherits itself through its own parents, and
  what dotted names stand for.
\<close>

subsection \<open>Single scopes\<close>

text \<open>Names are interned and compared as pointers; a component of a dotted name is a copy, which is
  never the same pointer as a parameter. So a name comes with a flag that it is interned.\<close>

text \<open>\<open>param_index\<close> keeps the table of the parameter before when the kind of a parameter is not that of a declaration.\<close>

fun args_search ::
  "('h, 'b, 'z) cil_store_scheme \<Rightarrow> string \<Rightarrow> bool \<Rightarrow> cil_sym_index \<Rightarrow> cil_sym_index \<Rightarrow> addr list \<Rightarrow> addr option outcome"
where
  "args_search s name interned sym_index param_index [] = Fail SEPOL_ERR"
| "args_search s name interned sym_index param_index (a # items) =
     obind (deref (m_args s) (Some a)) (\<lambda>arg.
     let param_index =
           (if args_kind arg < CIL_MIN_DECLARATIVE then param_index
            else case cil_flavor_to_symtab_index (args_kind arg) of Ok i \<Rightarrow> i | _ \<Rightarrow> CIL_SYM_UNKNOWN)
     in if param_index = sym_index \<and> interned \<and> args_param_str arg = Some name then Ok (args_arg arg)
        else args_search s name interned sym_index param_index items)"

definition cil_resolve_name_call_args ::
  "('h, 'b, 'z) cil_store_scheme \<Rightarrow> addr option \<Rightarrow> string \<Rightarrow> bool \<Rightarrow> cil_sym_index \<Rightarrow> addr option outcome"
where
  "cil_resolve_name_call_args s call name interned sym_index =
     (case call of
        None \<Rightarrow> Fail SEPOL_ERR
      | Some a \<Rightarrow>
          obind (deref (m_call s) (Some a)) (\<lambda>c.
          case call_args c of
            None \<Rightarrow> Fail SEPOL_ERR
          | Some items \<Rightarrow> args_search s name interned sym_index CIL_SYM_UNKNOWN items))"

text \<open>The address of the object of a node, and a table of its array.\<close>

definition table_search ::
  "('h, 'b) sepol \<Rightarrow> ('h, 'b, 'z) cil_store_scheme \<Rightarrow> addr option \<Rightarrow> string \<Rightarrow> cil_sym_index \<Rightarrow> addr outcome"
where
  "table_search L s d name sym_index =
     obind (not_null d) (\<lambda>a. cil_symtab_get_datum L s (SymArray a (sym_num sym_index)) name)"

definition cil_resolve_name_with_root ::
  "('h, 'b) sepol \<Rightarrow> ('h, 'b, 'z) cil_store_scheme \<Rightarrow> string \<Rightarrow> cil_sym_index \<Rightarrow> addr outcome"
where
  "cil_resolve_name_with_root L s name sym_index =
     obind (deref (nodes s) (ast_root s)) (\<lambda>root. table_search L s (node_data root) name sym_index)"

subsection \<open>The search through the parents\<close>

text \<open>\<open>orelse m f\<close>: the value of \<open>m\<close> when its return code is \<open>SEPOL_OK\<close>, else \<open>f\<close> of the return code.\<close>

definition orelse :: "'a outcome \<Rightarrow> (sepol_rc \<Rightarrow> 'a outcome) \<Rightarrow> 'a outcome" where
  "orelse m f = (case m of Fail e \<Rightarrow> f e | _ \<Rightarrow> m)"

lemma orelse_cong [fundef_cong]:
  "m = m' \<Longrightarrow> (\<And>e. m' = Fail e \<Longrightarrow> f e = f' e) \<Longrightarrow> orelse m f = orelse m' f'"
  by (cases m') (simp_all add: orelse_def)

lemma orelse_simps [simp]:
  "orelse (Ok x) f = Ok x" "orelse (Fail e) f = f e" "orelse Fault f = Fault" "orelse Out_of_fuel f = Out_of_fuel"
  by (simp_all add: orelse_def)

text \<open>The node through which a copied statement goes on: the block or macro that was copied.\<close>

definition inherited_node :: "('h, 'b, 'z) cil_store_scheme \<Rightarrow> addr option \<Rightarrow> addr outcome" where
  "inherited_node s d = obind (deref (m_blockinherit s) d) (\<lambda>inherit. NODE s (blockinherit_block inherit))"

definition macro_parent :: "('h, 'b, 'z) cil_store_scheme \<Rightarrow> addr option \<Rightarrow> addr option outcome" where
  "macro_parent s d =
     obind (deref (m_call s) d) (\<lambda>call. obind (NODE s (call_macro call)) (\<lambda>n.
     obind (deref (nodes s) (Some n)) (\<lambda>nd. Ok (node_parent nd))))"

text \<open>The loop of \<open>__cil_resolve_name_with_parents\<close>; \<open>rc\<close> is the return code of the lookup before.\<close>

fun with_parents ::
  "('h, 'b) sepol \<Rightarrow> nat \<Rightarrow> ('h, 'b, 'z) cil_store_scheme \<Rightarrow> addr option \<Rightarrow> string \<Rightarrow> bool \<Rightarrow> cil_sym_index
   \<Rightarrow> sepol_rc \<Rightarrow> addr option outcome"
where
  "with_parents L 0 s node name interned sym_index rc = Out_of_fuel"
| "with_parents L (Suc fuel) s None name interned sym_index rc = Fail rc"
| "with_parents L (Suc fuel) s (Some node) name interned sym_index rc =
     obind (deref (nodes s) (Some node)) (\<lambda>nd.
     let f = node_flavor nd;
         next = with_parents L fuel s (node_parent nd) name interned sym_index in
     if f = CIL_ROOT then Fail rc
     else if f = CIL_BLOCK \<or> f = CIL_MACRO then
       orelse (obind (table_search L s (node_data nd) name sym_index) (\<lambda>d. Ok (Some d))) next
     else if f = CIL_BLOCKINHERIT then
       orelse (next SEPOL_ERR) (\<lambda>_.
       obind (inherited_node s (node_data nd)) (\<lambda>n.
       with_parents L fuel s (Some n) name interned sym_index SEPOL_ERR))
     else if f = CIL_CALL then
       orelse (cil_resolve_name_call_args s (node_data nd) name interned sym_index) (\<lambda>_.
       obind (macro_parent s (node_data nd)) (\<lambda>p.
       orelse (with_parents L fuel s p name interned sym_index SEPOL_ERR) next))
     else next rc)"

definition cil_resolve_name_with_parents where
  "cil_resolve_name_with_parents L fuel s node name interned sym_index =
     with_parents L fuel s node name interned sym_index SEPOL_ERR"

definition cil_resolve_name_helper ::
  "('h, 'b) sepol \<Rightarrow> nat \<Rightarrow> ('h, 'b, 'z) cil_store_scheme \<Rightarrow> addr option \<Rightarrow> string \<Rightarrow> bool \<Rightarrow> cil_sym_index
   \<Rightarrow> addr option outcome"
where
  "cil_resolve_name_helper L fuel s node name interned sym_index =
     orelse (cil_resolve_name_with_parents L fuel s node name interned sym_index) (\<lambda>_.
     obind (cil_resolve_name_with_root L s name sym_index) (\<lambda>d. Ok (Some d)))"

subsection \<open>Dotted names\<close>

text \<open>\<open>strtok_r(name, ".", \<dots>)\<close>: the maximal parts without a dot.\<close>

fun strtok_dot :: "string \<Rightarrow> string \<Rightarrow> string list" where
  "strtok_dot cur [] = (if cur = [] then [] else [rev cur])"
| "strtok_dot cur (c # cs) =
     (if c = CHR ''.'' then (if cur = [] then strtok_dot [] cs else rev cur # strtok_dot [] cs)
      else strtok_dot (c # cur) cs)"

text \<open>\<open>&(symtab[i])\<close>: a pointer into an array of tables, moved.\<close>

definition symtab_offset :: "symtab_ref option \<Rightarrow> nat \<Rightarrow> symtab_ref outcome" where
  "symtab_offset r i = (case r of
       Some (SymArray a k) \<Rightarrow> Ok (SymArray a (k + i))
     | _ \<Rightarrow> Fault)"

text \<open>The loop over the parts of the name; \<open>in_node\<close> is whether the statement is an \<open>in\<close>.\<close>

fun resolve_parts ::
  "('h, 'b) sepol \<Rightarrow> ('h, 'b, 'z) cil_store_scheme \<Rightarrow> bool \<Rightarrow> cil_sym_index \<Rightarrow> symtab_ref option
   \<Rightarrow> string \<Rightarrow> string list \<Rightarrow> addr outcome"
where
  "resolve_parts L s in_node sym_index symtab current [] =
     obind (symtab_offset symtab (sym_num sym_index)) (\<lambda>tab. cil_symtab_get_datum L s tab current)"
| "resolve_parts L s in_node sym_index symtab current (part # parts) =
     obind (not_null symtab) (\<lambda>tab.
     obind (cil_symtab_get_datum L s tab current) (\<lambda>datum.
     obind (NODE s (Some datum)) (\<lambda>n.
     obind (deref (nodes s) (Some n)) (\<lambda>nd.
     if node_flavor nd = CIL_BLOCK then
       obind (not_null (node_data nd)) (\<lambda>block.
       resolve_parts L s in_node sym_index (Some (SymArray block (sym_num CIL_SYM_BLOCKS))) part parts)
     else if \<not> in_node then Fail SEPOL_ERR
     else if node_flavor nd = CIL_MACRO then
       obind (not_null (node_data nd)) (\<lambda>macro.
       resolve_parts L s in_node sym_index (Some (SymArray macro (sym_num sym_index))) part parts)
     else
       obind (deref (datums s) (Some datum)) (\<lambda>dt.
       resolve_parts L s in_node sym_index (datum_symtab dt) part parts)))))"

text \<open>An alias stands for its actual object, once that is known.\<close>

definition skip_alias :: "('h, 'b, 'z) cil_store_scheme \<Rightarrow> addr option \<Rightarrow> addr option outcome" where
  "skip_alias s datum =
     (case datum of
        None \<Rightarrow> Ok None
      | Some d \<Rightarrow>
          obind (FLAVOR s (Some d)) (\<lambda>f.
          if f = CIL_TYPEALIAS \<or> f = CIL_SENSALIAS \<or> f = CIL_CATALIAS then
            obind (deref (m_alias s) (Some d)) (\<lambda>alias.
            Ok (case alias_actual alias of None \<Rightarrow> Some d | Some actual \<Rightarrow> Some actual))
          else Ok (Some d)))"

definition cil_resolve_name ::
  "('h, 'b) sepol \<Rightarrow> nat \<Rightarrow> ('h, 'b, 'z) cil_store_scheme \<Rightarrow> addr \<Rightarrow> cstring \<Rightarrow> cil_sym_index \<Rightarrow> addr option outcome"
where
  "cil_resolve_name L fuel s ast_node name sym_index =
     (case name of
        None \<Rightarrow> Fail SEPOL_ERR
      | Some name \<Rightarrow>
          obind (deref (nodes s) (Some ast_node)) (\<lambda>nd.
          obind
            (if CHR ''.'' \<notin> set name then
               cil_resolve_name_helper L fuel s (node_parent nd) name True sym_index
             else
               (case strtok_dot [] name of
                  [] \<Rightarrow> Fault
                | current # rest \<Rightarrow>
                    obind
                      (if hd name = CHR ''.'' then
                         obind (deref (nodes s) (ast_root s)) (\<lambda>root.
                         obind (not_null (node_data root)) (\<lambda>r.
                         Ok (Some (SymArray r (sym_num CIL_SYM_BLOCKS)))))
                       else
                         obind (cil_resolve_name_helper L fuel s (node_parent nd) current False CIL_SYM_BLOCKS)
                           (\<lambda>datum. obind (deref (datums s) datum) (\<lambda>dt. Ok (datum_symtab dt)))) (\<lambda>symtab.
                    obind (resolve_parts L s (node_flavor nd = CIL_IN) sym_index symtab current rest)
                      (\<lambda>d. Ok (Some d)))))
            (skip_alias s)))"


subsection \<open>The scopes of a statement\<close>

datatype scope = In_tables addr | In_args addr

fun search_scopes :: "nat \<Rightarrow> ('h, 'b, 'z) cil_store_scheme \<Rightarrow> addr option \<Rightarrow> scope list outcome" where
  "search_scopes 0 s node = Out_of_fuel"
| "search_scopes (Suc fuel) s None = Ok []"
| "search_scopes (Suc fuel) s (Some node) =
     obind (deref (nodes s) (Some node)) (\<lambda>nd.
     let f = node_flavor nd; d = node_data nd; above = search_scopes fuel s (node_parent nd) in
     if f = CIL_ROOT then Ok []
     else if f = CIL_BLOCK \<or> f = CIL_MACRO then
       obind (not_null d) (\<lambda>a. obind above (\<lambda>ps. Ok (In_tables a # ps)))
     else if f = CIL_BLOCKINHERIT then
       obind above (\<lambda>ps.
       obind (inherited_node s d) (\<lambda>n.
       obind (search_scopes fuel s (Some n)) (\<lambda>qs. Ok (ps @ qs))))
     else if f = CIL_CALL then
       obind (not_null d) (\<lambda>a.
       obind (macro_parent s d) (\<lambda>p.
       obind (search_scopes fuel s p) (\<lambda>qs.
       obind above (\<lambda>ps. Ok (In_args a # qs @ ps)))))
     else above)"

text \<open>A scope can be searched when its table, or the arguments of its call, are there; a parameter of a macro stands for
  a declaration.\<close>

fun scope_ok :: "('h, 'b, 'z) cil_store_scheme \<Rightarrow> cil_sym_index \<Rightarrow> scope \<Rightarrow> bool" where
  "scope_ok s i (In_tables a) \<longleftrightarrow> symtabs s (SymArray a (sym_num i)) \<noteq> None"
| "scope_ok s i (In_args c) \<longleftrightarrow> (case m_call s c of None \<Rightarrow> False
     | Some call \<Rightarrow> (\<forall>items a. call_args call = Some items \<longrightarrow> a \<in> set items \<longrightarrow>
         (\<exists>arg. m_args s a = Some arg \<and> CIL_MIN_DECLARATIVE \<le> args_kind arg)))"

text \<open>What a scope gives for a name: a declaration of the table, or the argument for the first parameter of
  the kind that has the name.\<close>

definition arg_matches :: "('h, 'b, 'z) cil_store_scheme \<Rightarrow> string \<Rightarrow> cil_sym_index \<Rightarrow> addr \<Rightarrow> bool" where
  "arg_matches s name i a = (case m_args s a of None \<Rightarrow> False
     | Some arg \<Rightarrow> args_param_str arg = Some name \<and>
         (case cil_flavor_to_symtab_index (args_kind arg) of Ok j \<Rightarrow> j | _ \<Rightarrow> CIL_SYM_UNKNOWN) = i)"

fun scope_gives ::
  "('h, 'b) sepol \<Rightarrow> ('h, 'b, 'z) cil_store_scheme \<Rightarrow> string \<Rightarrow> bool \<Rightarrow> cil_sym_index \<Rightarrow> scope \<Rightarrow> addr option option"
where
  "scope_gives L s name interned i (In_tables a) =
     map_option Some (declares L s (SymArray a (sym_num i)) name)"
| "scope_gives L s name interned i (In_args c) =
     (case m_call s c of None \<Rightarrow> None | Some call \<Rightarrow>
        (case call_args call of None \<Rightarrow> None | Some items \<Rightarrow>
           if interned then
             map_option (\<lambda>a. case m_args s a of None \<Rightarrow> None | Some arg \<Rightarrow> args_arg arg)
               (find (arg_matches s name i) items)
           else None))"

fun first_given :: "('x \<Rightarrow> 'y option) \<Rightarrow> 'x list \<Rightarrow> 'y option" where
  "first_given g [] = None"
| "first_given g (x # xs) = (case g x of None \<Rightarrow> first_given g xs | Some y \<Rightarrow> Some y)"

lemma first_given_append: "first_given g (xs @ ys) =
    (case first_given g xs of None \<Rightarrow> first_given g ys | Some y \<Rightarrow> Some y)"
  by (induction xs) (auto split: option.split)

text \<open>\<open>found r v\<close>: the search returned \<open>v\<close>, or an error code where there is nothing.\<close>

definition found :: "'a outcome \<Rightarrow> 'a option \<Rightarrow> bool" where
  "found r v \<longleftrightarrow> (case v of Some x \<Rightarrow> r = Ok x | None \<Rightarrow> (\<exists>e. r = Fail e))"

lemma found_orelse:
  assumes "found r v" and "\<And>e. found (f e) w"
  shows "found (orelse r f) (case v of None \<Rightarrow> w | Some x \<Rightarrow> Some x)"
  using assms by (auto simp: found_def split: option.splits)

lemma found_table:
  assumes "scope_ok s i (In_tables a)"
  shows "found (obind (table_search L s (Some a) name i) (\<lambda>d. Ok (Some d))) (scope_gives L s name interned i (In_tables a))"
  using assms by (auto simp: table_search_def get_datum_declares found_def split: option.split)

lemma found_args_search:
  "(\<And>a. a \<in> set items \<Longrightarrow> \<exists>arg. m_args s a = Some arg \<and> CIL_MIN_DECLARATIVE \<le> args_kind arg) \<Longrightarrow>
   found (args_search s name interned i j items)
     (if interned then map_option (\<lambda>a. case m_args s a of None \<Rightarrow> None | Some arg \<Rightarrow> args_arg arg)
        (find (arg_matches s name i) items) else None)"
proof (induction items arbitrary: j)
  case (Cons a items)
  then obtain arg where "m_args s a = Some arg" "\<not> args_kind arg < CIL_MIN_DECLARATIVE" by fastforce
  with Cons show ?case by (auto simp: arg_matches_def found_def Let_def)
qed (simp add: found_def)

lemma found_args:
  assumes "scope_ok s i (In_args c)"
  shows "found (cil_resolve_name_call_args s (Some c) name interned i) (scope_gives L s name interned i (In_args c))"
proof -
  from assms obtain call where call: "m_call s c = Some call"
    and ok: "\<And>items a. call_args call = Some items \<Longrightarrow> a \<in> set items \<Longrightarrow>
      \<exists>arg. m_args s a = Some arg \<and> CIL_MIN_DECLARATIVE \<le> args_kind arg"
    by (auto split: option.splits)
  show ?thesis
  proof (cases "call_args call")
    case None
    with call show ?thesis by (simp add: cil_resolve_name_call_args_def found_def)
  next
    case (Some items)
    from found_args_search [of items, OF ok [OF Some], of name interned i] call Some
    show ?thesis by (simp add: cil_resolve_name_call_args_def)
  qed
qed

lemma with_parents_found:
  "search_scopes fuel s node = Ok scopes \<Longrightarrow> list_all (scope_ok s i) scopes \<Longrightarrow>
   found (with_parents L fuel s node name interned i rc) (first_given (scope_gives L s name interned i) scopes)"
proof (induction fuel arbitrary: node scopes rc)
  case (Suc fuel)
  show ?case
  proof (cases node)
    case None
    with Suc.prems show ?thesis by (simp add: found_def)
  next
    case (Some n)
    from Suc.prems(1) Some obtain nd where nd: "nodes s n = Some nd" by auto
    let ?f = "node_flavor nd"
    consider "?f = CIL_ROOT" | "?f = CIL_BLOCK \<or> ?f = CIL_MACRO" | "?f = CIL_BLOCKINHERIT" | "?f = CIL_CALL"
      | "?f \<notin> {CIL_ROOT, CIL_BLOCK, CIL_MACRO, CIL_BLOCKINHERIT, CIL_CALL}" by blast
    then show ?thesis
    proof cases
      case 1
      with Suc.prems Some nd show ?thesis by (simp add: found_def)
    next
      case 2
      with Suc.prems Some nd obtain a ps where "node_data nd = Some a"
        and ps: "search_scopes fuel s (node_parent nd) = Ok ps" and "scopes = In_tables a # ps" by (auto simp: Let_def)
      with 2 Suc.prems Some nd show ?thesis
        using found_orelse [OF found_table [of s i a L name interned], where
            f = "with_parents L fuel s (node_parent nd) name interned i", OF _ Suc.IH [OF ps]]
        by (auto simp: Let_def)
    next
      case 3
      with Suc.prems Some nd obtain n' ps qs where "inherited_node s (node_data nd) = Ok n'"
        and ps: "search_scopes fuel s (node_parent nd) = Ok ps" and qs: "search_scopes fuel s (Some n') = Ok qs"
        and "scopes = ps @ qs" by (auto simp: Let_def)
      with 3 Suc.prems Some nd show ?thesis
        using found_orelse [OF Suc.IH [OF ps, of SEPOL_ERR] Suc.IH [OF qs, of SEPOL_ERR]] by (auto simp: Let_def first_given_append)
    next
      case 4
      with Suc.prems Some nd obtain a p ps qs where "node_data nd = Some a" "macro_parent s (Some a) = Ok p"
        and ps: "search_scopes fuel s (node_parent nd) = Ok ps" and qs: "search_scopes fuel s p = Ok qs"
        and "scopes = In_args a # qs @ ps" by (auto simp: Let_def)
      with 4 Suc.prems Some nd show ?thesis
        using found_orelse [OF found_args [of s i a name interned L], where f = "\<lambda>_. orelse
            (with_parents L fuel s p name interned i SEPOL_ERR)
            (with_parents L fuel s (node_parent nd) name interned i)",
            OF _ found_orelse [OF Suc.IH [OF qs, of SEPOL_ERR], where
              f = "with_parents L fuel s (node_parent nd) name interned i", OF _ Suc.IH [OF ps]]]
        by (auto simp: Let_def first_given_append cong del: option.case_cong_weak)
    next
      case 5
      with Suc.prems Some nd Suc.IH [of "node_parent nd" scopes rc] show ?thesis by (simp add: Let_def)
    qed
  qed
qed simp


text \<open>C18. A name without a dot stands for what the innermost scope gives: the search through blocks,
  inherited blocks, macros and calls finds the first scope of the statement that has the name, and the tables
  of the root are searched last. For the content of a call these scopes are the arguments, the scopes around the
  macro, and then also the scopes around the call: the namespace of the caller, of which
  \<open>docs/cil_call_macro_statements.xml\<close> says that it is not checked.\<close>

theorem name_is_first_in_scope:
  assumes "search_scopes fuel s node = Ok scopes" and "list_all (scope_ok s i) scopes"
    and "ast_root s = Some r" and "nodes s r = Some rnode" and "node_data rnode = Some root"
    and "scope_ok s i (In_tables root)"
  shows "cil_resolve_name_helper L fuel s node name interned i =
    (case first_given (scope_gives L s name interned i) scopes of
       Some d \<Rightarrow> Ok d
     | None \<Rightarrow> (case declares L s (SymArray root (sym_num i)) name of
         Some d \<Rightarrow> Ok (Some d) | None \<Rightarrow> Fail SEPOL_ENOENT))"
proof -
  have "cil_resolve_name_with_root L s name i =
      (case declares L s (SymArray root (sym_num i)) name of Some d \<Rightarrow> Ok d | None \<Rightarrow> Fail SEPOL_ENOENT)"
    using assms(3-6)
    by (auto simp: cil_resolve_name_with_root_def table_search_def get_datum_declares split: option.split)
  with with_parents_found [OF assms(1,2), of L name interned SEPOL_ERR] show ?thesis
    by (auto simp: cil_resolve_name_helper_def cil_resolve_name_with_parents_def found_def split: option.splits)
qed

subsection \<open>The end of the search\<close>

text \<open>The nodes that the search goes to from a node.\<close>

definition resolve_next :: "('h, 'b, 'z) cil_store_scheme \<Rightarrow> addr \<Rightarrow> addr \<Rightarrow> bool" where
  "resolve_next s n m \<longleftrightarrow> (\<exists>nd. nodes s n = Some nd \<and>
     (node_flavor nd \<noteq> CIL_ROOT \<and> node_parent nd = Some m \<or>
      node_flavor nd = CIL_BLOCKINHERIT \<and> inherited_node s (node_data nd) = Ok m \<or>
      node_flavor nd = CIL_CALL \<and> macro_parent s (node_data nd) = Ok (Some m)))"

lemma args_search_ends: "args_search s name interned i j items \<noteq> Out_of_fuel"
  by (induction items arbitrary: j) (auto simp: obind_def Let_def split: outcome.splits)

lemma call_args_end: "cil_resolve_name_call_args s c name interned i \<noteq> Out_of_fuel"
  by (auto simp: cil_resolve_name_call_args_def obind_def args_search_ends split: outcome.splits option.splits)

lemma NODE_ends: "NODE s d \<noteq> Out_of_fuel"
  by (auto simp: NODE_def obind_def not_null_def split: outcome.splits option.splits list.splits)

lemma next_nodes_end: "inherited_node s d \<noteq> Out_of_fuel" "macro_parent s d \<noteq> Out_of_fuel"
  by (auto simp: inherited_node_def macro_parent_def obind_def NODE_ends split: outcome.splits)

lemma table_search_ends: "table_search L s d name i \<noteq> Out_of_fuel"
  by (auto simp: table_search_def obind_def not_null_def cil_symtab_get_datum_def symtab_of_def
      split: outcome.splits option.splits)

definition depth_of :: "(addr \<Rightarrow> nat) \<Rightarrow> addr option \<Rightarrow> nat" where
  "depth_of rank p = (case p of None \<Rightarrow> 0 | Some n \<Rightarrow> Suc (rank n))"

lemma orelse_Out_of_fuel: "orelse m f = Out_of_fuel \<longleftrightarrow> m = Out_of_fuel \<or> (\<exists>e. m = Fail e \<and> f e = Out_of_fuel)"
  and obind_Out_of_fuel: "obind n g = Out_of_fuel \<longleftrightarrow> n = Out_of_fuel \<or> (\<exists>x. n = Ok x \<and> g x = Out_of_fuel)"
  by (cases m; simp) (cases n; simp)

lemma with_parents_ends:
  assumes "\<And>n m. resolve_next s n m \<Longrightarrow> rank m < rank n"
  shows "depth_of rank p < fuel \<Longrightarrow> with_parents L fuel s p name interned i rc \<noteq> Out_of_fuel"
proof (induction fuel arbitrary: p rc)
  case (Suc fuel)
  show ?case
  proof (cases p)
    case (Some n)
    with Suc.prems have n: "rank n < fuel" by (simp add: depth_of_def)
    show ?thesis
    proof (cases "nodes s n")
      case nd: (Some nd)
      have step: "depth_of rank q < fuel" if "\<And>m. q = Some m \<Longrightarrow> resolve_next s n m" for q
        using n assms [of n] that by (cases q) (auto simp: depth_of_def intro: order.strict_trans1 Suc_leI)
      have up: "with_parents L fuel s (node_parent nd) name interned i e \<noteq> Out_of_fuel"
        if "node_flavor nd \<noteq> CIL_ROOT" for e
        by (rule Suc.IH, rule step) (use that nd in \<open>auto simp: resolve_next_def\<close>)
      have inh: "with_parents L fuel s (Some m) name interned i e \<noteq> Out_of_fuel"
        if "node_flavor nd = CIL_BLOCKINHERIT" "inherited_node s (node_data nd) = Ok m" for m e
        by (rule Suc.IH, rule step) (use that nd in \<open>auto simp: resolve_next_def\<close>)
      have mac: "with_parents L fuel s q name interned i e \<noteq> Out_of_fuel"
        if "node_flavor nd = CIL_CALL" "macro_parent s (node_data nd) = Ok q" for q e
        by (rule Suc.IH, rule step) (use that nd in \<open>auto simp: resolve_next_def\<close>)
      show ?thesis
        using up inh mac Some nd
        by (auto simp: Let_def orelse_Out_of_fuel obind_Out_of_fuel next_nodes_end call_args_end table_search_ends)
    qed (use Some in simp)
  qed simp
qed simp

text \<open>C19. The search for a name ends: when the nodes it can go to, parents, inherited blocks and the
  parents of called macros, descend in some rank, fuel above the rank of the node is enough, whatever the
  name. The rank exists for every AST in which no block inherits itself and no macro calls itself.\<close>

theorem name_search_ends:
  assumes "\<And>n m. resolve_next s n m \<Longrightarrow> rank m < rank n" and "Suc (rank node) < fuel"
  shows "cil_resolve_name_helper L fuel s (Some node) name interned i \<noteq> Out_of_fuel"
proof -
  have "with_parents L fuel s (Some node) name interned i SEPOL_ERR \<noteq> Out_of_fuel"
    by (rule with_parents_ends [OF assms(1)]) (use assms(2) in \<open>simp_all add: depth_of_def\<close>)
  then show ?thesis
    unfolding cil_resolve_name_helper_def cil_resolve_name_with_parents_def cil_resolve_name_with_root_def
    by (auto simp: orelse_Out_of_fuel obind_Out_of_fuel table_search_ends)
qed

subsection \<open>Absolute names\<close>

text \<open>The tables of blocks as nested name spaces: the declaration of \<open>name\<close> in the block that the names
  \<open>bs\<close> lead to from the array of tables at \<open>a\<close>.\<close>

definition block_of :: "('h, 'b, 'z) cil_store_scheme \<Rightarrow> addr \<Rightarrow> addr option" where
  "block_of s d = (case NODE s (Some d) of
      Ok n \<Rightarrow> (case nodes s n of
          Some nd \<Rightarrow> if node_flavor nd = CIL_BLOCK then node_data nd else None
        | None \<Rightarrow> None)
    | _ \<Rightarrow> None)"

fun lookup_path ::
  "('h, 'b) sepol \<Rightarrow> ('h, 'b, 'z) cil_store_scheme \<Rightarrow> addr \<Rightarrow> string list \<Rightarrow> string \<Rightarrow> cil_sym_index \<Rightarrow> addr option"
where
  "lookup_path L s a [] name i = declares L s (SymArray a (sym_num i)) name"
| "lookup_path L s a (b # bs) name i =
     (case declares L s (SymArray a (sym_num CIL_SYM_BLOCKS)) b of
        None \<Rightarrow> None
      | Some d \<Rightarrow> (case block_of s d of None \<Rightarrow> None | Some block \<Rightarrow> lookup_path L s block bs name i))"

text \<open>The name \<open>.a.b.c\<close> of the parts \<open>a\<close>, \<open>b\<close>, \<open>c\<close>.\<close>

definition dotted :: "string list \<Rightarrow> string" where
  "dotted parts = concat (map (Cons (CHR ''.'')) parts)"

definition plain_part :: "string \<Rightarrow> bool" where
  "plain_part p \<longleftrightarrow> p \<noteq> [] \<and> CHR ''.'' \<notin> set p"

lemma strtok_plain: "CHR ''.'' \<notin> set p \<Longrightarrow> strtok_dot cur (p @ rest) = strtok_dot (rev p @ cur) rest"
  by (induction p arbitrary: cur) auto

lemma strtok_dotted: "list_all plain_part parts \<Longrightarrow> strtok_dot [] (dotted parts) = parts"
proof (induction parts)
  case (Cons p ps)
  then have p: "CHR ''.'' \<notin> set p" "p \<noteq> []" by (simp_all add: plain_part_def)
  have "strtok_dot [] (dotted (p # ps)) = strtok_dot (rev p) (dotted ps)"
    using p strtok_plain [of p "[]" "dotted ps"] by (simp add: dotted_def)
  also have "\<dots> = p # strtok_dot [] (dotted ps)"
    using p by (cases ps) (simp_all add: dotted_def)
  finally show ?case using Cons by simp
qed (simp add: dotted_def)

lemma resolve_parts_path:
  "lookup_path L s a bs x i = Some d \<Longrightarrow>
   resolve_parts L s in_node i (Some (SymArray a (sym_num CIL_SYM_BLOCKS))) (hd (bs @ [x])) (tl (bs @ [x])) = Ok d"
proof (induction bs arbitrary: a)
  case Nil
  then show ?case
    by (simp add: symtab_offset_def get_datum_declares declares_some_symtab)
next
  case (Cons b bs)
  from Cons.prems obtain e block where e: "declares L s (SymArray a (sym_num CIL_SYM_BLOCKS)) b = Some e"
    and block: "block_of s e = Some block" and rest: "lookup_path L s block bs x i = Some d"
    by (auto split: option.splits)
  from block obtain n nd where n: "NODE s (Some e) = Ok n" "nodes s n = Some nd" "node_flavor nd = CIL_BLOCK"
    "node_data nd = Some block" by (auto simp: block_of_def split: outcome.splits option.splits if_splits)
  obtain y ys where y: "bs @ [x] = y # ys" by (cases bs) auto
  have "symtabs s (SymArray a 0) \<noteq> None" using e by (auto dest: declares_some_symtab)
  with e n Cons.IH [OF rest] y show ?case by (simp add: get_datum_declares)
qed

text \<open>An absolute name, one with a leading dot, stands for the declaration that its parts lead to
  from the root through nested blocks, whatever the statement that uses it and however much fuel there is.\<close>

theorem absolute_name:
  assumes "lookup_path L s root bs x i = Some d" and "list_all plain_part (bs @ [x])"
    and "ast_root s = Some r" and "nodes s r = Some rnode" and "node_data rnode = Some root"
    and "nodes s node = Some nd"
  shows "cil_resolve_name L fuel s node (Some (dotted (bs @ [x]))) i = skip_alias s (Some d)"
proof -
  obtain y ys where y: "bs @ [x] = y # ys" by (cases bs) auto
  have dot: "dotted (bs @ [x]) = CHR ''.'' # tl (dotted (bs @ [x]))" unfolding y by (simp add: dotted_def)
  have parts: "strtok_dot [] (dotted (bs @ [x])) = y # ys" using strtok_dotted [OF assms(2)] y by simp
  have mem: "CHR ''.'' \<in> set (dotted (bs @ [x]))" by (subst dot) simp
  have hd: "hd (dotted (bs @ [x])) = CHR ''.''" by (subst dot) simp
  show ?thesis
    unfolding cil_resolve_name_def
    using assms(3-6) mem hd parts resolve_parts_path [OF assms(1), of "node_flavor nd = CIL_IN"] y
    by simp
qed


subsection \<open>An example\<close>

text \<open>A block \<open>b\<close> with a type \<open>t\<close> and a call of the macro \<open>m\<close> with \<open>t\<close> for its parameter \<open>p\<close>.\<close>

definition name_node :: "cil_flavor \<Rightarrow> addr option \<Rightarrow> addr option \<Rightarrow> cil_tree_node" where
  "name_node f d parent = \<lparr>node_parent = parent, node_cl_head = None, node_cl_tail = None, node_next = None,
     node_flavor = f, node_line = 0, node_path = None, node_data = d\<rparr>"

definition name_datum :: "string \<Rightarrow> symtab_ref \<Rightarrow> addr \<Rightarrow> cil_symtab_datum" where
  "name_datum name tab node =
     \<lparr>datum_name = Some name, datum_fqn = Some name, datum_symtab = Some tab, datum_nodes = Some [node]\<rparr>"

definition scope_db :: "((string \<times> addr) list, nat list) cil_store" where
  "scope_db = store0\<lparr>ast_root := Some 1,
     nodes := [1 \<mapsto> name_node CIL_ROOT (Some 100) None, 2 \<mapsto> name_node CIL_BLOCK (Some 110) (Some 1),
       3 \<mapsto> name_node CIL_TYPE (Some 120) (Some 2), 4 \<mapsto> name_node CIL_CALL (Some 130) (Some 2),
       5 \<mapsto> name_node CIL_AVRULE (Some 160) (Some 4), 6 \<mapsto> name_node CIL_MACRO (Some 140) (Some 1)],
     datums := [110 \<mapsto> name_datum ''b'' (SymArray 100 0) 2, 120 \<mapsto> name_datum ''t'' (SymArray 110 3) 3,
       140 \<mapsto> name_datum ''m'' (SymArray 100 0) 6],
     symtabs := [SymArray 100 0 \<mapsto> [(''b'', 110), (''m'', 140)], SymArray 100 3 \<mapsto> [],
       SymArray 110 0 \<mapsto> [], SymArray 110 3 \<mapsto> [(''t'', 120)]],
     m_call := [130 \<mapsto> \<lparr>call_macro_str = Some ''m'', call_macro = Some 140, call_args = Some [150], call_copied = True\<rparr>],
     m_args := [150 \<mapsto> \<lparr>args_arg_str = Some ''t'', args_arg = Some 120, args_param_str = Some ''p'',
       args_kind = CIL_TYPE\<rparr>]\<rparr>"

lemmas scope_db_simps = scope_db_def name_node_def name_datum_def sepol0_def

text \<open>The parameter \<open>p\<close> of the call, and the type \<open>t\<close> of the caller's block, which the macro does not know.\<close>

theorem name_is_first_in_scope_witness:
  "cil_resolve_name_helper sepol0 6 scope_db (Some 4) ''p'' True CIL_SYM_TYPES = Ok (Some 120) \<and>
   cil_resolve_name_helper sepol0 6 scope_db (Some 4) ''t'' True CIL_SYM_TYPES = Ok (Some 120)"
proof -
  have "search_scopes 6 scope_db (Some 4) = Ok [In_args 130, In_tables 110]"
    by (simp add: eval_nat_numeral scope_db_simps macro_parent_def NODE_def Let_def)
  note found = name_is_first_in_scope [OF this, of CIL_SYM_TYPES 1 _ 100 sepol0 _ True]
  show ?thesis
    using found [of _ "''p''"] found [of _ "''t''"]
    by (simp add: scope_db_simps arg_matches_def cil_flavor_to_symtab_index_def declares_def)
qed

theorem name_search_ends_witness:
  "cil_resolve_name_helper sepol0 9 scope_db (Some 5) ''t'' True CIL_SYM_TYPES \<noteq> Out_of_fuel"
proof (rule name_search_ends [of scope_db id])
  show "id m < id n" if "resolve_next scope_db n m" for n m
    using that by (auto simp: resolve_next_def scope_db_simps macro_parent_def NODE_def split: if_splits)
qed simp

theorem absolute_name_witness:
  "cil_resolve_name sepol0 0 scope_db 6 (Some ''.b.t'') CIL_SYM_TYPES = Ok (Some 120)"
  using absolute_name [of sepol0 scope_db 100 "[''b'']" "''t''" CIL_SYM_TYPES 120 1 _ 6 _ 0]
  by (simp add: scope_db_simps declares_def block_of_def NODE_def plain_part_def dotted_def skip_alias_def FLAVOR_def)

end
