(* ===== verification/Cil_Alloc.thy ===== *)
theory Cil_Alloc
  imports Cil_Symtab Cil_Parser
begin

text \<open>
  The constructors \<open>cil_*_init\<close> of \<open>src/cil.c\<close> and the destructors \<open>cil_destroy_*\<close> of \<open>src/cil_build_ast.c\<close>.

  \<open>malloc\<close> hands out the addresses in order, from \<open>brk\<close> on, and never fails (\<open>cil_malloc\<close> exits). A declared
  object has its header, the \<open>datum\<close>, at its own address. A list that belongs to a struct is a part of it
  here: it is freed with the struct. Where a struct of the model has a list that cannot be null, the empty list
  stands for the null pointer that the constructor stores; the builders fill it before the struct can be
  reached. To free an address that holds no such struct is a fault.
\<close>

text \<open>The state of the builder: \<open>args_trees\<close> holds the field \<open>args_tree\<close> of calls, a parse tree.\<close>

record ('h, 'b) build_state = "('h, 'b) cil_store" +
  brk :: addr
  args_trees :: "addr \<rightharpoonup> parse_tree list"

definition fresh :: "(('h, 'b, 'z) build_state_scheme, addr) cil" where
  "fresh = (\<lambda>s. (Ok (brk s), s\<lparr>brk := Suc (brk s)\<rparr>))"

definition new_struct ::
  "(((addr \<rightharpoonup> 'x) \<Rightarrow> addr \<rightharpoonup> 'x) \<Rightarrow> ('h, 'b, 'z) build_state_scheme \<Rightarrow> ('h, 'b, 'z) build_state_scheme)
   \<Rightarrow> 'x \<Rightarrow> (('h, 'b, 'z) build_state_scheme, addr) cil"
where
  "new_struct upd x = bind fresh (\<lambda>a. bind (modify (upd (\<lambda>m. m(a \<mapsto> x)))) (\<lambda>_. ret a))"

text \<open>\<open>cil_symtab_datum_init\<close> on memory that was not initialised.\<close>

definition datum_init :: "addr \<Rightarrow> (('h, 'b, 'z) build_state_scheme, unit) cil" where
  "datum_init a = modify (datums_update (\<lambda>m. m(a \<mapsto>
     \<lparr>datum_name = None, datum_fqn = None, datum_symtab = None, datum_nodes = Some []\<rparr>)))"

definition new_object ::
  "(((addr \<rightharpoonup> 'x) \<Rightarrow> addr \<rightharpoonup> 'x) \<Rightarrow> ('h, 'b, 'z) build_state_scheme \<Rightarrow> ('h, 'b, 'z) build_state_scheme)
   \<Rightarrow> 'x \<Rightarrow> (('h, 'b, 'z) build_state_scheme, addr) cil"
where
  "new_object upd x = bind (new_struct upd x) (\<lambda>a. bind (datum_init a) (\<lambda>_. ret a))"

definition free_struct ::
  "(('h, 'b, 'z) build_state_scheme \<Rightarrow> addr \<rightharpoonup> 'x)
   \<Rightarrow> (((addr \<rightharpoonup> 'x) \<Rightarrow> addr \<rightharpoonup> 'x) \<Rightarrow> ('h, 'b, 'z) build_state_scheme \<Rightarrow> ('h, 'b, 'z) build_state_scheme)
   \<Rightarrow> addr \<Rightarrow> (('h, 'b, 'z) build_state_scheme, unit) cil"
where
  "free_struct sel upd a = bind (rd sel a) (\<lambda>_. modify (upd (\<lambda>m. m(a := None))))"

definition free_object ::
  "(('h, 'b, 'z) build_state_scheme \<Rightarrow> addr \<rightharpoonup> 'x)
   \<Rightarrow> (((addr \<rightharpoonup> 'x) \<Rightarrow> addr \<rightharpoonup> 'x) \<Rightarrow> ('h, 'b, 'z) build_state_scheme \<Rightarrow> ('h, 'b, 'z) build_state_scheme)
   \<Rightarrow> addr \<Rightarrow> (('h, 'b, 'z) build_state_scheme, unit) cil"
where
  "free_object sel upd a = bind (free_struct sel upd a) (\<lambda>_. free_struct datums datums_update a)"

definition unless_null :: "addr option \<Rightarrow> (addr \<Rightarrow> ('s, unit) cil) \<Rightarrow> ('s, unit) cil" where
  "unless_null p body = (case p of None \<Rightarrow> ret () | Some a \<Rightarrow> body a)"

definition null_list :: cil_list where
  "null_list = Cil_List CIL_NONE []"

subsection \<open>Arrays of symbol tables\<close>

definition cil_symtab_init :: "('h, 'b) sepol \<Rightarrow> symtab_ref \<Rightarrow> (('h, 'b, 'z) build_state_scheme, unit) cil" where
  "cil_symtab_init L tab = modify (\<lambda>s. s\<lparr>symtabs := (symtabs s)(tab \<mapsto> ht_create L)\<rparr>)"

definition cil_symtab_array_init :: "('h, 'b) sepol \<Rightarrow> addr \<Rightarrow> (('h, 'b, 'z) build_state_scheme, unit) cil" where
  "cil_symtab_array_init L a = for_each (\<lambda>i. cil_symtab_init L (SymArray a i)) [0..<sym_num CIL_SYM_NUM]"

definition cil_symtab_array_destroy :: "('h, 'b) sepol \<Rightarrow> addr \<Rightarrow> (('h, 'b, 'z) build_state_scheme, unit) cil" where
  "cil_symtab_array_destroy L a = for_each (\<lambda>i. cil_symtab_destroy L (SymArray a i)) [0..<sym_num CIL_SYM_NUM]"

subsection \<open>Constructors\<close>

definition cil_netifcon_init :: "(('h, 'b, 'z) build_state_scheme, addr) cil" where
  "cil_netifcon_init = new_struct m_netifcon_update
     \<lparr>netifcon_interface_str = '''', netifcon_if_context_str = None, netifcon_if_context = None,
       netifcon_packet_context_str = None, netifcon_packet_context = None\<rparr>"

definition cil_blockinherit_init :: "(('h, 'b, 'z) build_state_scheme, addr) cil" where
  "cil_blockinherit_init = new_struct m_blockinherit_update
     \<lparr>blockinherit_block_str = None, blockinherit_block = None\<rparr>"

definition cil_blockabstract_init :: "(('h, 'b, 'z) build_state_scheme, addr) cil" where
  "cil_blockabstract_init = new_struct m_blockabstract_update
     \<lparr>blockabstract_block_str = None\<rparr>"

definition cil_classorder_init :: "(('h, 'b, 'z) build_state_scheme, addr) cil" where
  "cil_classorder_init = new_struct m_classorder_update
     \<lparr>classorder_class_list_str = []\<rparr>"

definition cil_classcommon_init :: "(('h, 'b, 'z) build_state_scheme, addr) cil" where
  "cil_classcommon_init = new_struct m_classcommon_update
     \<lparr>classcommon_class_str = None, classcommon_common_str = None\<rparr>"

definition cil_sidcontext_init :: "(('h, 'b, 'z) build_state_scheme, addr) cil" where
  "cil_sidcontext_init = new_struct m_sidcontext_update
     \<lparr>sidcontext_sid_str = None, sidcontext_context_str = None, sidcontext_context = None\<rparr>"

definition cil_sidorder_init :: "(('h, 'b, 'z) build_state_scheme, addr) cil" where
  "cil_sidorder_init = new_struct m_sidorder_update
     \<lparr>sidorder_sid_list_str = []\<rparr>"

definition cil_userrole_init :: "(('h, 'b, 'z) build_state_scheme, addr) cil" where
  "cil_userrole_init = new_struct m_userrole_update
     \<lparr>userrole_user_str = None, userrole_user = None, userrole_role_str = None,
       userrole_role = None\<rparr>"

definition cil_userprefix_init :: "(('h, 'b, 'z) build_state_scheme, addr) cil" where
  "cil_userprefix_init = new_struct m_userprefix_update
     \<lparr>userprefix_user_str = None, userprefix_user = None, userprefix_prefix_str = None\<rparr>"

definition cil_selinuxuser_init :: "(('h, 'b, 'z) build_state_scheme, addr) cil" where
  "cil_selinuxuser_init = new_struct m_selinuxuser_update
     \<lparr>selinuxuser_name_str = None, selinuxuser_user_str = None, selinuxuser_user = None,
       selinuxuser_range_str = None, selinuxuser_range = None\<rparr>"

definition cil_roletype_init :: "(('h, 'b, 'z) build_state_scheme, addr) cil" where
  "cil_roletype_init = new_struct m_roletype_update
     \<lparr>roletype_role_str = None, roletype_role = None, roletype_type_str = None,
       roletype_type = None\<rparr>"

definition cil_roleattributeset_init :: "(('h, 'b, 'z) build_state_scheme, addr) cil" where
  "cil_roleattributeset_init = new_struct m_roleattributeset_update
     \<lparr>roleattributeset_attr_str = None, roleattributeset_str_expr = null_list,
       roleattributeset_datum_expr = None\<rparr>"

definition cil_typeattributeset_init :: "(('h, 'b, 'z) build_state_scheme, addr) cil" where
  "cil_typeattributeset_init = new_struct m_typeattributeset_update
     \<lparr>typeattributeset_attr_str = None, typeattributeset_str_expr = null_list,
       typeattributeset_datum_expr = None\<rparr>"

definition cil_aliasactual_init :: "(('h, 'b, 'z) build_state_scheme, addr) cil" where
  "cil_aliasactual_init = new_struct m_aliasactual_update
     \<lparr>aliasactual_alias_str = None, aliasactual_actual_str = None\<rparr>"

definition cil_typepermissive_init :: "(('h, 'b, 'z) build_state_scheme, addr) cil" where
  "cil_typepermissive_init = new_struct m_typepermissive_update
     \<lparr>typepermissive_type_str = None, typepermissive_type = None\<rparr>"

definition cil_nametypetransition_init :: "(('h, 'b, 'z) build_state_scheme, addr) cil" where
  "cil_nametypetransition_init = new_struct m_nametypetransition_update
     \<lparr>nametypetransition_src_str = None, nametypetransition_src = None,
       nametypetransition_tgt_str = None, nametypetransition_tgt = None,
       nametypetransition_obj_str = None, nametypetransition_obj = None,
       nametypetransition_name_str = None, nametypetransition_name = None,
       nametypetransition_result_str = None, nametypetransition_result = None\<rparr>"

definition cil_rangetransition_init :: "(('h, 'b, 'z) build_state_scheme, addr) cil" where
  "cil_rangetransition_init = new_struct m_rangetransition_update
     \<lparr>rangetransition_src_str = None, rangetransition_src = None, rangetransition_exec_str = None,
       rangetransition_exec = None, rangetransition_obj_str = None, rangetransition_obj = None,
       rangetransition_range_str = None, rangetransition_range = None\<rparr>"

definition cil_avrule_init :: "(('h, 'b, 'z) build_state_scheme, addr) cil" where
  "cil_avrule_init = new_struct m_avrule_update
     \<lparr>avrule_rule_kind = 0, avrule_src_str = None, avrule_src = None, avrule_tgt_str = None,
       avrule_tgt = None, avrule_classperms = []\<rparr>"

definition cil_type_rule_init :: "(('h, 'b, 'z) build_state_scheme, addr) cil" where
  "cil_type_rule_init = new_struct m_type_rule_update
     \<lparr>type_rule_rule_kind = 0, type_rule_src_str = None, type_rule_src = None,
       type_rule_tgt_str = None, type_rule_tgt = None, type_rule_obj_str = None,
       type_rule_obj = None, type_rule_result_str = None, type_rule_result = None\<rparr>"

definition cil_roletransition_init :: "(('h, 'b, 'z) build_state_scheme, addr) cil" where
  "cil_roletransition_init = new_struct m_roletransition_update
     \<lparr>roletransition_src_str = None, roletransition_src = None, roletransition_tgt_str = None,
       roletransition_tgt = None, roletransition_obj_str = None, roletransition_obj = None,
       roletransition_result_str = None, roletransition_result = None\<rparr>"

definition cil_roleallow_init :: "(('h, 'b, 'z) build_state_scheme, addr) cil" where
  "cil_roleallow_init = new_struct m_roleallow_update
     \<lparr>roleallow_src_str = None, roleallow_src = None, roleallow_tgt_str = None,
       roleallow_tgt = None\<rparr>"

definition cil_senscat_init :: "(('h, 'b, 'z) build_state_scheme, addr) cil" where
  "cil_senscat_init = new_struct m_senscat_update
     \<lparr>senscat_sens_str = None, senscat_cats = None\<rparr>"

definition cil_cats_init :: "(('h, 'b, 'z) build_state_scheme, addr) cil" where
  "cil_cats_init = new_struct m_cats_update
     \<lparr>cats_evaluated = False, cats_str_expr = null_list, cats_datum_expr = None\<rparr>"

definition cil_filecon_init :: "(('h, 'b, 'z) build_state_scheme, addr) cil" where
  "cil_filecon_init = new_struct m_filecon_update
     \<lparr>filecon_path_str = '''', filecon_kind = 0, filecon_context_str = None,
       filecon_context = None\<rparr>"

definition cil_portcon_init :: "(('h, 'b, 'z) build_state_scheme, addr) cil" where
  "cil_portcon_init = new_struct m_portcon_update
     \<lparr>portcon_proto = 0, portcon_port_low = 0, portcon_port_high = 0, portcon_context_str = None,
       portcon_context = None\<rparr>"

definition cil_nodecon_init :: "(('h, 'b, 'z) build_state_scheme, addr) cil" where
  "cil_nodecon_init = new_struct m_nodecon_update
     \<lparr>nodecon_addr_str = None, nodecon_addr = None, nodecon_mask_str = None, nodecon_mask = None,
       nodecon_context_str = None, nodecon_context = None\<rparr>"

definition cil_genfscon_init :: "(('h, 'b, 'z) build_state_scheme, addr) cil" where
  "cil_genfscon_init = new_struct m_genfscon_update
     \<lparr>genfscon_fs_str = '''', genfscon_path_str = '''', genfscon_context_str = None,
       genfscon_context = None\<rparr>"

definition cil_pirqcon_init :: "(('h, 'b, 'z) build_state_scheme, addr) cil" where
  "cil_pirqcon_init = new_struct m_pirqcon_update
     \<lparr>pirqcon_pirq = 0, pirqcon_context_str = None, pirqcon_context = None\<rparr>"

definition cil_iomemcon_init :: "(('h, 'b, 'z) build_state_scheme, addr) cil" where
  "cil_iomemcon_init = new_struct m_iomemcon_update
     \<lparr>iomemcon_iomem_low = 0, iomemcon_iomem_high = 0, iomemcon_context_str = None,
       iomemcon_context = None\<rparr>"

definition cil_ioportcon_init :: "(('h, 'b, 'z) build_state_scheme, addr) cil" where
  "cil_ioportcon_init = new_struct m_ioportcon_update
     \<lparr>ioportcon_ioport_low = 0, ioportcon_ioport_high = 0, ioportcon_context_str = None,
       ioportcon_context = None\<rparr>"

definition cil_pcidevicecon_init :: "(('h, 'b, 'z) build_state_scheme, addr) cil" where
  "cil_pcidevicecon_init = new_struct m_pcidevicecon_update
     \<lparr>pcidevicecon_dev = 0, pcidevicecon_context_str = None, pcidevicecon_context = None\<rparr>"

definition cil_fsuse_init :: "(('h, 'b, 'z) build_state_scheme, addr) cil" where
  "cil_fsuse_init = new_struct m_fsuse_update
     \<lparr>fsuse_kind = 0, fsuse_fs_str = '''', fsuse_context_str = None, fsuse_context = None\<rparr>"

definition cil_constrain_init :: "(('h, 'b, 'z) build_state_scheme, addr) cil" where
  "cil_constrain_init = new_struct m_constrain_update
     \<lparr>constrain_classperms = [], constrain_str_expr = null_list, constrain_datum_expr = None\<rparr>"

definition cil_validatetrans_init :: "(('h, 'b, 'z) build_state_scheme, addr) cil" where
  "cil_validatetrans_init = new_struct m_validatetrans_update
     \<lparr>validatetrans_class_str = None, validatetrans_class = None,
       validatetrans_str_expr = null_list, validatetrans_datum_expr = None\<rparr>"

definition cil_classpermissionset_init :: "(('h, 'b, 'z) build_state_scheme, addr) cil" where
  "cil_classpermissionset_init = new_struct m_classpermissionset_update
     \<lparr>classpermissionset_set_str = None, classpermissionset_classperms = []\<rparr>"

definition cil_classperms_set_init :: "(('h, 'b, 'z) build_state_scheme, addr) cil" where
  "cil_classperms_set_init = new_struct m_classperms_set_update
     \<lparr>classperms_set_set_str = None, classperms_set_set = None\<rparr>"

definition cil_classperms_init :: "(('h, 'b, 'z) build_state_scheme, addr) cil" where
  "cil_classperms_init = new_struct m_classperms_update
     \<lparr>classperms_class_str = None, classperms_class = None, classperms_perm_strs = null_list,
       classperms_perms = None\<rparr>"

definition cil_classmapping_init :: "(('h, 'b, 'z) build_state_scheme, addr) cil" where
  "cil_classmapping_init = new_struct m_classmapping_update
     \<lparr>classmapping_map_class_str = None, classmapping_map_perm_str = None,
       classmapping_classperms = []\<rparr>"

definition cil_userlevel_init :: "(('h, 'b, 'z) build_state_scheme, addr) cil" where
  "cil_userlevel_init = new_struct m_userlevel_update
     \<lparr>userlevel_user_str = None, userlevel_level_str = None, userlevel_level = None\<rparr>"

definition cil_userrange_init :: "(('h, 'b, 'z) build_state_scheme, addr) cil" where
  "cil_userrange_init = new_struct m_userrange_update
     \<lparr>userrange_user_str = None, userrange_range_str = None, userrange_range = None\<rparr>"

definition cil_catorder_init :: "(('h, 'b, 'z) build_state_scheme, addr) cil" where
  "cil_catorder_init = new_struct m_catorder_update
     \<lparr>catorder_cat_list_str = []\<rparr>"

definition cil_sensorder_init :: "(('h, 'b, 'z) build_state_scheme, addr) cil" where
  "cil_sensorder_init = new_struct m_sensorder_update
     \<lparr>sensorder_sens_list_str = []\<rparr>"

definition cil_args_init :: "(('h, 'b, 'z) build_state_scheme, addr) cil" where
  "cil_args_init = new_struct m_args_update
     \<lparr>args_arg_str = None, args_arg = None, args_param_str = None, args_kind = 0\<rparr>"

definition cil_bounds_init :: "(('h, 'b, 'z) build_state_scheme, addr) cil" where
  "cil_bounds_init = new_struct m_bounds_update
     \<lparr>bounds_parent_str = None, bounds_child_str = None\<rparr>"

definition cil_default_init :: "(('h, 'b, 'z) build_state_scheme, addr) cil" where
  "cil_default_init = new_struct m_default_update
     \<lparr>default_kind = 0, default_class_strs = None, default_class_datums = None, default_object = 0\<rparr>"

definition cil_defaultrange_init :: "(('h, 'b, 'z) build_state_scheme, addr) cil" where
  "cil_defaultrange_init = new_struct m_defaultrange_update
     \<lparr>defaultrange_class_strs = None, defaultrange_class_datums = None,
       defaultrange_object_range = 0\<rparr>"

definition cil_handleunknown_init :: "(('h, 'b, 'z) build_state_scheme, addr) cil" where
  "cil_handleunknown_init = new_struct m_handleunknown_update
     \<lparr>handleunknown_handle_unknown = 0\<rparr>"

definition cil_mls_init :: "(('h, 'b, 'z) build_state_scheme, addr) cil" where
  "cil_mls_init = new_struct m_mls_update
     \<lparr>mls_value = 0\<rparr>"

definition cil_boolif_init :: "(('h, 'b, 'z) build_state_scheme, addr) cil" where
  "cil_boolif_init = new_struct m_booleanif_update
     \<lparr>booleanif_str_expr = null_list, booleanif_datum_expr = None,
       booleanif_preserved_tunable = False\<rparr>"

definition cil_tunif_init :: "(('h, 'b, 'z) build_state_scheme, addr) cil" where
  "cil_tunif_init = new_struct m_tunableif_update
     \<lparr>tunableif_str_expr = null_list, tunableif_datum_expr = None\<rparr>"

definition cil_context_init :: "(('h, 'b, 'z) build_state_scheme, addr) cil" where
  "cil_context_init = new_object m_context_update
     \<lparr>context_user_str = None, context_user = None, context_role_str = None, context_role = None,
       context_type_str = None, context_type = None, context_range_str = None,
       context_range = None\<rparr>"

definition cil_level_init :: "(('h, 'b, 'z) build_state_scheme, addr) cil" where
  "cil_level_init = new_object m_level_update
     \<lparr>level_sens_str = None, level_sens = None, level_cats = None\<rparr>"

definition cil_levelrange_init :: "(('h, 'b, 'z) build_state_scheme, addr) cil" where
  "cil_levelrange_init = new_object m_levelrange_update
     \<lparr>levelrange_low_str = None, levelrange_low = None, levelrange_high_str = None,
       levelrange_high = None\<rparr>"

definition cil_sens_init :: "(('h, 'b, 'z) build_state_scheme, addr) cil" where
  "cil_sens_init = new_object m_sens_update
     \<lparr>sens_cats_list = None, sens_ordered = False\<rparr>"

definition cil_sid_init :: "(('h, 'b, 'z) build_state_scheme, addr) cil" where
  "cil_sid_init = new_object m_sid_update
     \<lparr>sid_context = None, sid_ordered = False\<rparr>"

definition cil_roleattribute_init :: "(('h, 'b, 'z) build_state_scheme, addr) cil" where
  "cil_roleattribute_init = new_object m_roleattribute_update
     \<lparr>roleattribute_expr_list = None, roleattribute_roles = None\<rparr>"

definition cil_typeattribute_init :: "(('h, 'b, 'z) build_state_scheme, addr) cil" where
  "cil_typeattribute_init = new_object m_typeattribute_update
     \<lparr>typeattribute_expr_list = None, typeattribute_types = None, typeattribute_used = False\<rparr>"

definition cil_alias_init :: "(('h, 'b, 'z) build_state_scheme, addr) cil" where
  "cil_alias_init = new_object m_alias_update
     \<lparr>alias_actual = None\<rparr>"

definition cil_name_init :: "(('h, 'b, 'z) build_state_scheme, addr) cil" where
  "cil_name_init = new_object m_name_update
     \<lparr>name_name_str = None\<rparr>"

definition cil_bool_init :: "(('h, 'b, 'z) build_state_scheme, addr) cil" where
  "cil_bool_init = new_object m_bool_update
     \<lparr>bool_value = False\<rparr>"

definition cil_tunable_init :: "(('h, 'b, 'z) build_state_scheme, addr) cil" where
  "cil_tunable_init = new_object m_tunable_update
     \<lparr>tunable_value = False\<rparr>"

definition cil_catset_init :: "(('h, 'b, 'z) build_state_scheme, addr) cil" where
  "cil_catset_init = new_object m_catset_update
     \<lparr>catset_cats = None\<rparr>"

definition cil_ipaddr_init :: "(('h, 'b, 'z) build_state_scheme, addr) cil" where
  "cil_ipaddr_init = new_object m_ipaddr_update
     \<lparr>ipaddr_family = 0, ipaddr_bytes = []\<rparr>"

definition cil_perm_init :: "(('h, 'b, 'z) build_state_scheme, addr) cil" where
  "cil_perm_init = new_object m_perm_update
     \<lparr>perm_value = 0, perm_classperms = None\<rparr>"

definition cil_classpermission_init :: "(('h, 'b, 'z) build_state_scheme, addr) cil" where
  "cil_classpermission_init = new_object m_classpermission_update
     \<lparr>classpermission_classperms = None\<rparr>"

definition cil_user_init :: "(('h, 'b, 'z) build_state_scheme, addr) cil" where
  "cil_user_init = new_object m_user_update
     \<lparr>user_bounds = None, user_roles = None, user_dftlevel = None, user_range = None\<rparr>"

definition cil_role_init :: "(('h, 'b, 'z) build_state_scheme, addr) cil" where
  "cil_role_init = new_object m_role_update
     \<lparr>role_bounds = None, role_types = None, role_value = 0\<rparr>"

definition cil_type_init :: "(('h, 'b, 'z) build_state_scheme, addr) cil" where
  "cil_type_init = new_object m_type_update
     \<lparr>type_bounds = None, type_value = 0\<rparr>"

definition cil_cat_init :: "(('h, 'b, 'z) build_state_scheme, addr) cil" where
  "cil_cat_init = new_object m_cat_update
     \<lparr>cat_ordered = False, cat_value = 0\<rparr>"

definition cil_optional_init :: "(('h, 'b, 'z) build_state_scheme, addr) cil" where
  "cil_optional_init = new_object m_optional_update
     \<lparr>optional_enabled = True\<rparr>"

definition cil_call_init :: "(('h, 'b, 'z) build_state_scheme, addr) cil" where
  "cil_call_init = new_struct m_call_update
     \<lparr>call_macro_str = None, call_macro = None, call_args = None, call_copied = False\<rparr>"

definition cil_block_init :: "('h, 'b) sepol \<Rightarrow> (('h, 'b, 'z) build_state_scheme, addr) cil" where
  "cil_block_init L =
     bind (new_object m_block_update \<lparr>block_is_abstract = False, block_bi_nodes = None\<rparr>) (\<lambda>a.
     bind (cil_symtab_array_init L a) (\<lambda>_. ret a))"

definition cil_macro_init :: "('h, 'b) sepol \<Rightarrow> (('h, 'b, 'z) build_state_scheme, addr) cil" where
  "cil_macro_init L =
     bind (new_object m_macro_update \<lparr>macro_params = None\<rparr>) (\<lambda>a.
     bind (cil_symtab_array_init L a) (\<lambda>_. ret a))"

definition cil_in_init :: "('h, 'b) sepol \<Rightarrow> (('h, 'b, 'z) build_state_scheme, addr) cil" where
  "cil_in_init L =
     bind (new_struct m_in_update \<lparr>in_block_str = None\<rparr>) (\<lambda>a.
     bind (cil_symtab_array_init L a) (\<lambda>_. ret a))"

definition cil_condblock_init :: "('h, 'b) sepol \<Rightarrow> (('h, 'b, 'z) build_state_scheme, addr) cil" where
  "cil_condblock_init L =
     bind (new_struct m_condblock_update \<lparr>condblock_kind = 0\<rparr>) (\<lambda>a.
     bind (cil_symtab_array_init L a) (\<lambda>_. ret a))"

definition cil_class_init :: "('h, 'b) sepol \<Rightarrow> (('h, 'b, 'z) build_state_scheme, addr) cil" where
  "cil_class_init L =
     bind (new_object m_class_update \<lparr>class_num_perms = 0, class_common = None, class_ordered = False\<rparr>) (\<lambda>a.
     bind (cil_symtab_init L (SymPerms a)) (\<lambda>_. ret a))"

text \<open>A \<open>policycap\<close> is nothing but its header.\<close>

definition cil_policycap_init :: "(('h, 'b, 'z) build_state_scheme, addr) cil" where
  "cil_policycap_init = bind fresh (\<lambda>a. bind (datum_init a) (\<lambda>_. ret a))"

subsection \<open>Destructors\<close>

definition cil_destroy_blockinherit :: "addr option \<Rightarrow> (('h, 'b, 'z) build_state_scheme, unit) cil" where
  "cil_destroy_blockinherit p = unless_null p (\<lambda>a.
     free_struct m_blockinherit m_blockinherit_update a)"

definition cil_destroy_blockabstract :: "addr option \<Rightarrow> (('h, 'b, 'z) build_state_scheme, unit) cil" where
  "cil_destroy_blockabstract p = unless_null p (\<lambda>a.
     free_struct m_blockabstract m_blockabstract_update a)"

definition cil_destroy_classorder :: "addr option \<Rightarrow> (('h, 'b, 'z) build_state_scheme, unit) cil" where
  "cil_destroy_classorder p = unless_null p (\<lambda>a.
     free_struct m_classorder m_classorder_update a)"

definition cil_destroy_classperms :: "addr option \<Rightarrow> (('h, 'b, 'z) build_state_scheme, unit) cil" where
  "cil_destroy_classperms p = unless_null p (\<lambda>a.
     free_struct m_classperms m_classperms_update a)"

definition cil_destroy_classperms_set :: "addr option \<Rightarrow> (('h, 'b, 'z) build_state_scheme, unit) cil" where
  "cil_destroy_classperms_set p = unless_null p (\<lambda>a.
     free_struct m_classperms_set m_classperms_set_update a)"

definition cil_destroy_classcommon :: "addr option \<Rightarrow> (('h, 'b, 'z) build_state_scheme, unit) cil" where
  "cil_destroy_classcommon p = unless_null p (\<lambda>a.
     free_struct m_classcommon m_classcommon_update a)"

definition cil_destroy_sidorder :: "addr option \<Rightarrow> (('h, 'b, 'z) build_state_scheme, unit) cil" where
  "cil_destroy_sidorder p = unless_null p (\<lambda>a.
     free_struct m_sidorder m_sidorder_update a)"

definition cil_destroy_userprefix :: "addr option \<Rightarrow> (('h, 'b, 'z) build_state_scheme, unit) cil" where
  "cil_destroy_userprefix p = unless_null p (\<lambda>a.
     free_struct m_userprefix m_userprefix_update a)"

definition cil_destroy_roletype :: "addr option \<Rightarrow> (('h, 'b, 'z) build_state_scheme, unit) cil" where
  "cil_destroy_roletype p = unless_null p (\<lambda>a.
     free_struct m_roletype m_roletype_update a)"

definition cil_destroy_userrole :: "addr option \<Rightarrow> (('h, 'b, 'z) build_state_scheme, unit) cil" where
  "cil_destroy_userrole p = unless_null p (\<lambda>a.
     free_struct m_userrole m_userrole_update a)"

definition cil_destroy_roletransition :: "addr option \<Rightarrow> (('h, 'b, 'z) build_state_scheme, unit) cil" where
  "cil_destroy_roletransition p = unless_null p (\<lambda>a.
     free_struct m_roletransition m_roletransition_update a)"

definition cil_destroy_roleallow :: "addr option \<Rightarrow> (('h, 'b, 'z) build_state_scheme, unit) cil" where
  "cil_destroy_roleallow p = unless_null p (\<lambda>a.
     free_struct m_roleallow m_roleallow_update a)"

definition cil_destroy_roleattributeset :: "addr option \<Rightarrow> (('h, 'b, 'z) build_state_scheme, unit) cil" where
  "cil_destroy_roleattributeset p = unless_null p (\<lambda>a.
     free_struct m_roleattributeset m_roleattributeset_update a)"

definition cil_destroy_type_rule :: "addr option \<Rightarrow> (('h, 'b, 'z) build_state_scheme, unit) cil" where
  "cil_destroy_type_rule p = unless_null p (\<lambda>a.
     free_struct m_type_rule m_type_rule_update a)"

definition cil_destroy_aliasactual :: "addr option \<Rightarrow> (('h, 'b, 'z) build_state_scheme, unit) cil" where
  "cil_destroy_aliasactual p = unless_null p (\<lambda>a.
     free_struct m_aliasactual m_aliasactual_update a)"

definition cil_destroy_typeattributeset :: "addr option \<Rightarrow> (('h, 'b, 'z) build_state_scheme, unit) cil" where
  "cil_destroy_typeattributeset p = unless_null p (\<lambda>a.
     free_struct m_typeattributeset m_typeattributeset_update a)"

definition cil_destroy_typepermissive :: "addr option \<Rightarrow> (('h, 'b, 'z) build_state_scheme, unit) cil" where
  "cil_destroy_typepermissive p = unless_null p (\<lambda>a.
     free_struct m_typepermissive m_typepermissive_update a)"

definition cil_destroy_catorder :: "addr option \<Rightarrow> (('h, 'b, 'z) build_state_scheme, unit) cil" where
  "cil_destroy_catorder p = unless_null p (\<lambda>a.
     free_struct m_catorder m_catorder_update a)"

definition cil_destroy_validatetrans :: "addr option \<Rightarrow> (('h, 'b, 'z) build_state_scheme, unit) cil" where
  "cil_destroy_validatetrans p = unless_null p (\<lambda>a.
     free_struct m_validatetrans m_validatetrans_update a)"

definition cil_destroy_cats :: "addr option \<Rightarrow> (('h, 'b, 'z) build_state_scheme, unit) cil" where
  "cil_destroy_cats p = unless_null p (\<lambda>a.
     free_struct m_cats m_cats_update a)"

definition cil_destroy_bounds :: "addr option \<Rightarrow> (('h, 'b, 'z) build_state_scheme, unit) cil" where
  "cil_destroy_bounds p = unless_null p (\<lambda>a.
     free_struct m_bounds m_bounds_update a)"

definition cil_destroy_default :: "addr option \<Rightarrow> (('h, 'b, 'z) build_state_scheme, unit) cil" where
  "cil_destroy_default p = unless_null p (\<lambda>a.
     free_struct m_default m_default_update a)"

definition cil_destroy_defaultrange :: "addr option \<Rightarrow> (('h, 'b, 'z) build_state_scheme, unit) cil" where
  "cil_destroy_defaultrange p = unless_null p (\<lambda>a.
     free_struct m_defaultrange m_defaultrange_update a)"

definition cil_destroy_handleunknown :: "addr option \<Rightarrow> (('h, 'b, 'z) build_state_scheme, unit) cil" where
  "cil_destroy_handleunknown p = unless_null p (\<lambda>a.
     free_struct m_handleunknown m_handleunknown_update a)"

definition cil_destroy_mls :: "addr option \<Rightarrow> (('h, 'b, 'z) build_state_scheme, unit) cil" where
  "cil_destroy_mls p = unless_null p (\<lambda>a.
     free_struct m_mls m_mls_update a)"

definition cil_destroy_typetransition :: "addr option \<Rightarrow> (('h, 'b, 'z) build_state_scheme, unit) cil" where
  "cil_destroy_typetransition p = unless_null p (\<lambda>a.
     free_struct m_nametypetransition m_nametypetransition_update a)"

definition cil_destroy_boolif :: "addr option \<Rightarrow> (('h, 'b, 'z) build_state_scheme, unit) cil" where
  "cil_destroy_boolif p = unless_null p (\<lambda>a.
     free_struct m_booleanif m_booleanif_update a)"

definition cil_destroy_tunif :: "addr option \<Rightarrow> (('h, 'b, 'z) build_state_scheme, unit) cil" where
  "cil_destroy_tunif p = unless_null p (\<lambda>a.
     free_struct m_tunableif m_tunableif_update a)"

definition cil_destroy_sensitivityorder :: "addr option \<Rightarrow> (('h, 'b, 'z) build_state_scheme, unit) cil" where
  "cil_destroy_sensitivityorder p = unless_null p (\<lambda>a.
     free_struct m_sensorder m_sensorder_update a)"

definition cil_destroy_perm :: "('h, 'b) sepol \<Rightarrow> addr option \<Rightarrow> (('h, 'b, 'z) build_state_scheme, unit) cil" where
  "cil_destroy_perm L p = unless_null p (\<lambda>a.
     bind (cil_symtab_datum_destroy L a) (\<lambda>_. free_object m_perm m_perm_update a))"

definition cil_destroy_sid :: "('h, 'b) sepol \<Rightarrow> addr option \<Rightarrow> (('h, 'b, 'z) build_state_scheme, unit) cil" where
  "cil_destroy_sid L p = unless_null p (\<lambda>a.
     bind (cil_symtab_datum_destroy L a) (\<lambda>_. free_object m_sid m_sid_update a))"

definition cil_destroy_user :: "('h, 'b) sepol \<Rightarrow> addr option \<Rightarrow> (('h, 'b, 'z) build_state_scheme, unit) cil" where
  "cil_destroy_user L p = unless_null p (\<lambda>a.
     bind (cil_symtab_datum_destroy L a) (\<lambda>_. free_object m_user m_user_update a))"

definition cil_destroy_role :: "('h, 'b) sepol \<Rightarrow> addr option \<Rightarrow> (('h, 'b, 'z) build_state_scheme, unit) cil" where
  "cil_destroy_role L p = unless_null p (\<lambda>a.
     bind (cil_symtab_datum_destroy L a) (\<lambda>_. free_object m_role m_role_update a))"

definition cil_destroy_roleattribute :: "('h, 'b) sepol \<Rightarrow> addr option \<Rightarrow> (('h, 'b, 'z) build_state_scheme, unit) cil" where
  "cil_destroy_roleattribute L p = unless_null p (\<lambda>a.
     bind (cil_symtab_datum_destroy L a) (\<lambda>_. free_object m_roleattribute m_roleattribute_update a))"

definition cil_destroy_type :: "('h, 'b) sepol \<Rightarrow> addr option \<Rightarrow> (('h, 'b, 'z) build_state_scheme, unit) cil" where
  "cil_destroy_type L p = unless_null p (\<lambda>a.
     bind (cil_symtab_datum_destroy L a) (\<lambda>_. free_object m_type m_type_update a))"

definition cil_destroy_typeattribute :: "('h, 'b) sepol \<Rightarrow> addr option \<Rightarrow> (('h, 'b, 'z) build_state_scheme, unit) cil" where
  "cil_destroy_typeattribute L p = unless_null p (\<lambda>a.
     bind (cil_symtab_datum_destroy L a) (\<lambda>_. free_object m_typeattribute m_typeattribute_update a))"

definition cil_destroy_bool :: "('h, 'b) sepol \<Rightarrow> addr option \<Rightarrow> (('h, 'b, 'z) build_state_scheme, unit) cil" where
  "cil_destroy_bool L p = unless_null p (\<lambda>a.
     bind (cil_symtab_datum_destroy L a) (\<lambda>_. free_object m_bool m_bool_update a))"

definition cil_destroy_tunable :: "('h, 'b) sepol \<Rightarrow> addr option \<Rightarrow> (('h, 'b, 'z) build_state_scheme, unit) cil" where
  "cil_destroy_tunable L p = unless_null p (\<lambda>a.
     bind (cil_symtab_datum_destroy L a) (\<lambda>_. free_object m_tunable m_tunable_update a))"

definition cil_destroy_alias :: "('h, 'b) sepol \<Rightarrow> addr option \<Rightarrow> (('h, 'b, 'z) build_state_scheme, unit) cil" where
  "cil_destroy_alias L p = unless_null p (\<lambda>a.
     bind (cil_symtab_datum_destroy L a) (\<lambda>_. free_object m_alias m_alias_update a))"

definition cil_destroy_name :: "('h, 'b) sepol \<Rightarrow> addr option \<Rightarrow> (('h, 'b, 'z) build_state_scheme, unit) cil" where
  "cil_destroy_name L p = unless_null p (\<lambda>a.
     bind (cil_symtab_datum_destroy L a) (\<lambda>_. free_object m_name m_name_update a))"

definition cil_destroy_optional :: "('h, 'b) sepol \<Rightarrow> addr option \<Rightarrow> (('h, 'b, 'z) build_state_scheme, unit) cil" where
  "cil_destroy_optional L p = unless_null p (\<lambda>a.
     bind (cil_symtab_datum_destroy L a) (\<lambda>_. free_object m_optional m_optional_update a))"

definition cil_destroy_ipaddr :: "('h, 'b) sepol \<Rightarrow> addr option \<Rightarrow> (('h, 'b, 'z) build_state_scheme, unit) cil" where
  "cil_destroy_ipaddr L p = unless_null p (\<lambda>a.
     bind (cil_symtab_datum_destroy L a) (\<lambda>_. free_object m_ipaddr m_ipaddr_update a))"

definition cil_destroy_sensitivity :: "('h, 'b) sepol \<Rightarrow> addr option \<Rightarrow> (('h, 'b, 'z) build_state_scheme, unit) cil" where
  "cil_destroy_sensitivity L p = unless_null p (\<lambda>a.
     bind (cil_symtab_datum_destroy L a) (\<lambda>_. free_object m_sens m_sens_update a))"

definition cil_destroy_category :: "('h, 'b) sepol \<Rightarrow> addr option \<Rightarrow> (('h, 'b, 'z) build_state_scheme, unit) cil" where
  "cil_destroy_category L p = unless_null p (\<lambda>a.
     bind (cil_symtab_datum_destroy L a) (\<lambda>_. free_object m_cat m_cat_update a))"

definition cil_destroy_policycap :: "('h, 'b) sepol \<Rightarrow> addr option \<Rightarrow> (('h, 'b, 'z) build_state_scheme, unit) cil" where
  "cil_destroy_policycap L p = unless_null p (\<lambda>a.
     bind (cil_symtab_datum_destroy L a) (\<lambda>_. free_struct datums datums_update a))"

definition cil_destroy_block :: "('h, 'b) sepol \<Rightarrow> addr option \<Rightarrow> (('h, 'b, 'z) build_state_scheme, unit) cil" where
  "cil_destroy_block L p = unless_null p (\<lambda>a.
     bind (cil_symtab_datum_destroy L a) (\<lambda>_.
     bind (cil_symtab_array_destroy L a) (\<lambda>_. free_object m_block m_block_update a)))"

definition cil_destroy_macro :: "('h, 'b) sepol \<Rightarrow> addr option \<Rightarrow> (('h, 'b, 'z) build_state_scheme, unit) cil" where
  "cil_destroy_macro L p = unless_null p (\<lambda>a.
     bind (cil_symtab_datum_destroy L a) (\<lambda>_.
     bind (cil_symtab_array_destroy L a) (\<lambda>_. free_object m_macro m_macro_update a)))"

definition cil_destroy_in :: "('h, 'b) sepol \<Rightarrow> addr option \<Rightarrow> (('h, 'b, 'z) build_state_scheme, unit) cil" where
  "cil_destroy_in L p = unless_null p (\<lambda>a.
     bind (cil_symtab_array_destroy L a) (\<lambda>_. free_struct m_in m_in_update a))"

definition cil_destroy_condblock :: "('h, 'b) sepol \<Rightarrow> addr option \<Rightarrow> (('h, 'b, 'z) build_state_scheme, unit) cil" where
  "cil_destroy_condblock L p = unless_null p (\<lambda>a.
     bind (cil_symtab_array_destroy L a) (\<lambda>_. free_struct m_condblock m_condblock_update a))"

definition cil_destroy_class :: "('h, 'b) sepol \<Rightarrow> addr option \<Rightarrow> (('h, 'b, 'z) build_state_scheme, unit) cil" where
  "cil_destroy_class L p = unless_null p (\<lambda>a.
     bind (cil_symtab_datum_destroy L a) (\<lambda>_.
     bind (cil_symtab_destroy L (SymPerms a)) (\<lambda>_. free_object m_class m_class_update a)))"

definition cil_destroy_classperms_list :: "classperms_list \<Rightarrow> (('h, 'b, 'z) build_state_scheme, unit) cil" where
  "cil_destroy_classperms_list cp_list =
     for_each (\<lambda>(f, cp). if f = CIL_CLASSPERMS then cil_destroy_classperms (Some cp)
       else cil_destroy_classperms_set (Some cp)) cp_list"

text \<open>The items of a named set belong to the statements that filled it.\<close>

definition cil_destroy_classpermission ::
  "('h, 'b) sepol \<Rightarrow> addr option \<Rightarrow> (('h, 'b, 'z) build_state_scheme, unit) cil"
where
  "cil_destroy_classpermission L p = unless_null p (\<lambda>a.
     bind (rd m_classpermission a) (\<lambda>x.
     bind (reading (\<lambda>s. is_anonymous s (Some a))) (\<lambda>anon.
     bind (if anon then
             (case classpermission_classperms x of None \<Rightarrow> ret () | Some items \<Rightarrow> cil_destroy_classperms_list items)
           else ret ()) (\<lambda>_.
     bind (cil_symtab_datum_destroy L a) (\<lambda>_. free_object m_classpermission m_classpermission_update a)))))"

definition cil_destroy_classpermissionset :: "addr option \<Rightarrow> (('h, 'b, 'z) build_state_scheme, unit) cil" where
  "cil_destroy_classpermissionset p = unless_null p (\<lambda>a.
     bind (rd m_classpermissionset a) (\<lambda>x.
     bind (cil_destroy_classperms_list (classpermissionset_classperms x)) (\<lambda>_. free_struct m_classpermissionset m_classpermissionset_update a)))"

definition cil_destroy_classmapping :: "addr option \<Rightarrow> (('h, 'b, 'z) build_state_scheme, unit) cil" where
  "cil_destroy_classmapping p = unless_null p (\<lambda>a.
     bind (rd m_classmapping a) (\<lambda>x.
     bind (cil_destroy_classperms_list (classmapping_classperms x)) (\<lambda>_. free_struct m_classmapping m_classmapping_update a)))"

definition cil_destroy_avrule :: "addr option \<Rightarrow> (('h, 'b, 'z) build_state_scheme, unit) cil" where
  "cil_destroy_avrule p = unless_null p (\<lambda>a.
     bind (rd m_avrule a) (\<lambda>x.
     bind (cil_destroy_classperms_list (avrule_classperms x)) (\<lambda>_. free_struct m_avrule m_avrule_update a)))"

definition cil_destroy_constrain :: "addr option \<Rightarrow> (('h, 'b, 'z) build_state_scheme, unit) cil" where
  "cil_destroy_constrain p = unless_null p (\<lambda>a.
     bind (rd m_constrain a) (\<lambda>x.
     bind (cil_destroy_classperms_list (constrain_classperms x)) (\<lambda>_. free_struct m_constrain m_constrain_update a)))"

definition cil_destroy_catset :: "('h, 'b) sepol \<Rightarrow> addr option \<Rightarrow> (('h, 'b, 'z) build_state_scheme, unit) cil" where
  "cil_destroy_catset L p = unless_null p (\<lambda>a.
     bind (cil_symtab_datum_destroy L a) (\<lambda>_.
     bind (rd m_catset a) (\<lambda>x.
     bind (cil_destroy_cats (catset_cats x)) (\<lambda>_.
     free_object m_catset m_catset_update a))))"

definition cil_destroy_senscat :: "('h, 'b) sepol \<Rightarrow> addr option \<Rightarrow> (('h, 'b, 'z) build_state_scheme, unit) cil" where
  "cil_destroy_senscat L p = unless_null p (\<lambda>a.
     bind (rd m_senscat a) (\<lambda>x.
     bind (cil_destroy_cats (senscat_cats x)) (\<lambda>_.
     free_struct m_senscat m_senscat_update a)))"

definition cil_destroy_level :: "('h, 'b) sepol \<Rightarrow> addr option \<Rightarrow> (('h, 'b, 'z) build_state_scheme, unit) cil" where
  "cil_destroy_level L p = unless_null p (\<lambda>a.
     bind (cil_symtab_datum_destroy L a) (\<lambda>_.
     bind (rd m_level a) (\<lambda>x.
     bind (cil_destroy_cats (level_cats x)) (\<lambda>_.
     free_object m_level m_level_update a))))"

definition cil_destroy_levelrange :: "('h, 'b) sepol \<Rightarrow> addr option \<Rightarrow> (('h, 'b, 'z) build_state_scheme, unit) cil" where
  "cil_destroy_levelrange L p = unless_null p (\<lambda>a.
     bind (cil_symtab_datum_destroy L a) (\<lambda>_.
     bind (rd m_levelrange a) (\<lambda>x.
     bind (if levelrange_low_str x = None then cil_destroy_level L (levelrange_low x) else ret ()) (\<lambda>_.
     bind (if levelrange_high_str x = None then cil_destroy_level L (levelrange_high x) else ret ()) (\<lambda>_.
     free_object m_levelrange m_levelrange_update a)))))"

definition cil_destroy_context :: "('h, 'b) sepol \<Rightarrow> addr option \<Rightarrow> (('h, 'b, 'z) build_state_scheme, unit) cil" where
  "cil_destroy_context L p = unless_null p (\<lambda>a.
     bind (cil_symtab_datum_destroy L a) (\<lambda>_.
     bind (rd m_context a) (\<lambda>x.
     bind (if context_range_str x = None \<and> context_range x \<noteq> None then cil_destroy_levelrange L (context_range x) else ret ()) (\<lambda>_.
     free_object m_context m_context_update a))))"

definition cil_destroy_sidcontext :: "('h, 'b) sepol \<Rightarrow> addr option \<Rightarrow> (('h, 'b, 'z) build_state_scheme, unit) cil" where
  "cil_destroy_sidcontext L p = unless_null p (\<lambda>a.
     bind (rd m_sidcontext a) (\<lambda>x.
     bind (if sidcontext_context_str x = None \<and> sidcontext_context x \<noteq> None then cil_destroy_context L (sidcontext_context x) else ret ()) (\<lambda>_.
     free_struct m_sidcontext m_sidcontext_update a)))"

definition cil_destroy_userlevel :: "('h, 'b) sepol \<Rightarrow> addr option \<Rightarrow> (('h, 'b, 'z) build_state_scheme, unit) cil" where
  "cil_destroy_userlevel L p = unless_null p (\<lambda>a.
     bind (rd m_userlevel a) (\<lambda>x.
     bind (if userlevel_level_str x = None \<and> userlevel_level x \<noteq> None then cil_destroy_level L (userlevel_level x) else ret ()) (\<lambda>_.
     free_struct m_userlevel m_userlevel_update a)))"

definition cil_destroy_userrange :: "('h, 'b) sepol \<Rightarrow> addr option \<Rightarrow> (('h, 'b, 'z) build_state_scheme, unit) cil" where
  "cil_destroy_userrange L p = unless_null p (\<lambda>a.
     bind (rd m_userrange a) (\<lambda>x.
     bind (if userrange_range_str x = None \<and> userrange_range x \<noteq> None then cil_destroy_levelrange L (userrange_range x) else ret ()) (\<lambda>_.
     free_struct m_userrange m_userrange_update a)))"

definition cil_destroy_selinuxuser :: "('h, 'b) sepol \<Rightarrow> addr option \<Rightarrow> (('h, 'b, 'z) build_state_scheme, unit) cil" where
  "cil_destroy_selinuxuser L p = unless_null p (\<lambda>a.
     bind (rd m_selinuxuser a) (\<lambda>x.
     bind (if selinuxuser_range_str x = None \<and> selinuxuser_range x \<noteq> None then cil_destroy_levelrange L (selinuxuser_range x) else ret ()) (\<lambda>_.
     free_struct m_selinuxuser m_selinuxuser_update a)))"

definition cil_destroy_rangetransition :: "('h, 'b) sepol \<Rightarrow> addr option \<Rightarrow> (('h, 'b, 'z) build_state_scheme, unit) cil" where
  "cil_destroy_rangetransition L p = unless_null p (\<lambda>a.
     bind (rd m_rangetransition a) (\<lambda>x.
     bind (if rangetransition_range_str x = None \<and> rangetransition_range x \<noteq> None then cil_destroy_levelrange L (rangetransition_range x) else ret ()) (\<lambda>_.
     free_struct m_rangetransition m_rangetransition_update a)))"

definition cil_destroy_filecon :: "('h, 'b) sepol \<Rightarrow> addr option \<Rightarrow> (('h, 'b, 'z) build_state_scheme, unit) cil" where
  "cil_destroy_filecon L p = unless_null p (\<lambda>a.
     bind (rd m_filecon a) (\<lambda>x.
     bind (if filecon_context_str x = None \<and> filecon_context x \<noteq> None then cil_destroy_context L (filecon_context x) else ret ()) (\<lambda>_.
     free_struct m_filecon m_filecon_update a)))"

definition cil_destroy_portcon :: "('h, 'b) sepol \<Rightarrow> addr option \<Rightarrow> (('h, 'b, 'z) build_state_scheme, unit) cil" where
  "cil_destroy_portcon L p = unless_null p (\<lambda>a.
     bind (rd m_portcon a) (\<lambda>x.
     bind (if portcon_context_str x = None \<and> portcon_context x \<noteq> None then cil_destroy_context L (portcon_context x) else ret ()) (\<lambda>_.
     free_struct m_portcon m_portcon_update a)))"

definition cil_destroy_genfscon :: "('h, 'b) sepol \<Rightarrow> addr option \<Rightarrow> (('h, 'b, 'z) build_state_scheme, unit) cil" where
  "cil_destroy_genfscon L p = unless_null p (\<lambda>a.
     bind (rd m_genfscon a) (\<lambda>x.
     bind (if genfscon_context_str x = None \<and> genfscon_context x \<noteq> None then cil_destroy_context L (genfscon_context x) else ret ()) (\<lambda>_.
     free_struct m_genfscon m_genfscon_update a)))"

definition cil_destroy_pirqcon :: "('h, 'b) sepol \<Rightarrow> addr option \<Rightarrow> (('h, 'b, 'z) build_state_scheme, unit) cil" where
  "cil_destroy_pirqcon L p = unless_null p (\<lambda>a.
     bind (rd m_pirqcon a) (\<lambda>x.
     bind (if pirqcon_context_str x = None \<and> pirqcon_context x \<noteq> None then cil_destroy_context L (pirqcon_context x) else ret ()) (\<lambda>_.
     free_struct m_pirqcon m_pirqcon_update a)))"

definition cil_destroy_iomemcon :: "('h, 'b) sepol \<Rightarrow> addr option \<Rightarrow> (('h, 'b, 'z) build_state_scheme, unit) cil" where
  "cil_destroy_iomemcon L p = unless_null p (\<lambda>a.
     bind (rd m_iomemcon a) (\<lambda>x.
     bind (if iomemcon_context_str x = None \<and> iomemcon_context x \<noteq> None then cil_destroy_context L (iomemcon_context x) else ret ()) (\<lambda>_.
     free_struct m_iomemcon m_iomemcon_update a)))"

definition cil_destroy_ioportcon :: "('h, 'b) sepol \<Rightarrow> addr option \<Rightarrow> (('h, 'b, 'z) build_state_scheme, unit) cil" where
  "cil_destroy_ioportcon L p = unless_null p (\<lambda>a.
     bind (rd m_ioportcon a) (\<lambda>x.
     bind (if ioportcon_context_str x = None \<and> ioportcon_context x \<noteq> None then cil_destroy_context L (ioportcon_context x) else ret ()) (\<lambda>_.
     free_struct m_ioportcon m_ioportcon_update a)))"

definition cil_destroy_pcidevicecon :: "('h, 'b) sepol \<Rightarrow> addr option \<Rightarrow> (('h, 'b, 'z) build_state_scheme, unit) cil" where
  "cil_destroy_pcidevicecon L p = unless_null p (\<lambda>a.
     bind (rd m_pcidevicecon a) (\<lambda>x.
     bind (if pcidevicecon_context_str x = None \<and> pcidevicecon_context x \<noteq> None then cil_destroy_context L (pcidevicecon_context x) else ret ()) (\<lambda>_.
     free_struct m_pcidevicecon m_pcidevicecon_update a)))"

definition cil_destroy_fsuse :: "('h, 'b) sepol \<Rightarrow> addr option \<Rightarrow> (('h, 'b, 'z) build_state_scheme, unit) cil" where
  "cil_destroy_fsuse L p = unless_null p (\<lambda>a.
     bind (rd m_fsuse a) (\<lambda>x.
     bind (if fsuse_context_str x = None \<and> fsuse_context x \<noteq> None then cil_destroy_context L (fsuse_context x) else ret ()) (\<lambda>_.
     free_struct m_fsuse m_fsuse_update a)))"

definition cil_destroy_nodecon :: "('h, 'b) sepol \<Rightarrow> addr option \<Rightarrow> (('h, 'b, 'z) build_state_scheme, unit) cil" where
  "cil_destroy_nodecon L p = unless_null p (\<lambda>a.
     bind (rd m_nodecon a) (\<lambda>x.
     bind (if nodecon_addr_str x = None \<and> nodecon_addr x \<noteq> None then cil_destroy_ipaddr L (nodecon_addr x) else ret ()) (\<lambda>_.
     bind (if nodecon_mask_str x = None \<and> nodecon_mask x \<noteq> None then cil_destroy_ipaddr L (nodecon_mask x) else ret ()) (\<lambda>_.
     bind (if nodecon_context_str x = None \<and> nodecon_context x \<noteq> None then cil_destroy_context L (nodecon_context x) else ret ()) (\<lambda>_.
     free_struct m_nodecon m_nodecon_update a)))))"

definition cil_destroy_netifcon :: "('h, 'b) sepol \<Rightarrow> addr option \<Rightarrow> (('h, 'b, 'z) build_state_scheme, unit) cil" where
  "cil_destroy_netifcon L p = unless_null p (\<lambda>a.
     bind (rd m_netifcon a) (\<lambda>x.
     bind (if netifcon_if_context_str x = None \<and> netifcon_if_context x \<noteq> None then cil_destroy_context L (netifcon_if_context x) else ret ()) (\<lambda>_.
     bind (if netifcon_packet_context_str x = None \<and> netifcon_packet_context x \<noteq> None then cil_destroy_context L (netifcon_packet_context x) else ret ()) (\<lambda>_.
     free_struct m_netifcon m_netifcon_update a))))"

text \<open>An argument of a call that was given in place is freed with the node made for it.\<close>

definition cil_destroy_args :: "('h, 'b) sepol \<Rightarrow> addr option \<Rightarrow> (('h, 'b, 'z) build_state_scheme, unit) cil" where
  "cil_destroy_args L p = unless_null p (\<lambda>a.
     bind (rd m_args a) (\<lambda>x.
     bind (if args_arg_str x \<noteq> None \<or> args_arg x = None then ret ()
           else
             bind (reading (\<lambda>s. NODE s (args_arg x))) (\<lambda>node.
             let k = args_kind x; also_node = (\<lambda>m. bind m (\<lambda>_. free_struct nodes nodes_update node)) in
             if k = CIL_NAME then ret ()
             else if k = CIL_CATSET then also_node (cil_destroy_catset L (args_arg x))
             else if k = CIL_LEVEL then also_node (cil_destroy_level L (args_arg x))
             else if k = CIL_LEVELRANGE then also_node (cil_destroy_levelrange L (args_arg x))
             else if k = CIL_IPADDR then also_node (cil_destroy_ipaddr L (args_arg x))
             else if k = CIL_CLASSPERMISSION then also_node (cil_destroy_classpermission L (args_arg x))
             else ret ())) (\<lambda>_.
     free_struct m_args m_args_update a)))"

definition cil_destroy_call :: "('h, 'b) sepol \<Rightarrow> addr option \<Rightarrow> (('h, 'b, 'z) build_state_scheme, unit) cil" where
  "cil_destroy_call L p = unless_null p (\<lambda>a.
     bind (rd m_call a) (\<lambda>x.
     bind (modify (args_trees_update (\<lambda>m. m(a := None)))) (\<lambda>_.
     bind (case call_args x of None \<Rightarrow> ret () | Some items \<Rightarrow> for_each (\<lambda>i. cil_destroy_args L (Some i)) items) (\<lambda>_.
     free_struct m_call m_call_update a))))"

end
