(* ===== verification/Cil_Resolve.thy ===== *)
theory Cil_Resolve
  imports Cil_Names Cil_Syntax Cil_Order Cil_Alloc
begin

text \<open>
  The resolution of statements (\<open>cil_resolve_*\<close> of \<open>src/cil_resolve_ast.c\<close>): each looks up the names of a
  statement with \<open>cil_resolve_name\<close> and stores the objects found in the statement, or in the declarations
  the statement is about.

  One operation per function, in the order of the file. An out-parameter that the code fills although
  it fails is returned beside the error code. The statements that copy parts of the tree (\<open>call\<close>, \<open>in\<close>,
  \<open>blockinherit\<close>, \<open>tunableif\<close>) are not here.
\<close>

subsection \<open>Names and objects\<close>

definition resolve ::
  "('h, 'b) sepol \<Rightarrow> nat \<Rightarrow> addr \<Rightarrow> cstring \<Rightarrow> cil_sym_index \<Rightarrow> (('h, 'b, 'z) cil_store_scheme, addr option) cil"
where
  "resolve L fuel current str sym_index = reading (\<lambda>s. cil_resolve_name L fuel s current str sym_index)"

text \<open>\<open>current->data\<close>, which is dereferenced.\<close>

definition node_object :: "addr \<Rightarrow> (('h, 'b, 'z) cil_store_scheme, addr) cil" where
  "node_object current =
     reading (\<lambda>s. obind (deref (nodes s) (Some current)) (\<lambda>nd. not_null (node_data nd)))"

definition flavor_of :: "addr option \<Rightarrow> (('h, 'b, 'z) cil_store_scheme, cil_flavor) cil" where
  "flavor_of datum = reading (\<lambda>s. FLAVOR s datum)"

definition pointer :: "'x option \<Rightarrow> ('s, 'x) cil" where
  "pointer p = lift (not_null p)"

definition anonymous :: "addr option \<Rightarrow> (('h, 'b, 'z) cil_store_scheme, bool) cil" where
  "anonymous p = reading (\<lambda>s. is_anonymous s p)"

text \<open>The return code of a function that also fills a list.\<close>

definition check_rc :: "sepol_rc option \<Rightarrow> ('s, unit) cil" where
  "check_rc rc = (case rc of None \<Rightarrow> ret () | Some e \<Rightarrow> fail e)"

definition cil_type_used :: "addr option \<Rightarrow> (('h, 'b, 'z) cil_store_scheme, unit) cil" where
  "cil_type_used datum =
     bind (flavor_of datum) (\<lambda>f.
     if f = CIL_TYPEATTRIBUTE then
       bind (pointer datum) (\<lambda>d. wr m_typeattribute m_typeattribute_update d (typeattribute_used_update (\<lambda>_. True)))
     else ret ())"

subsection \<open>Class permissions\<close>

fun resolve_perm_items ::
  "('h, 'b) sepol \<Rightarrow> ('h, 'b, 'z) cil_store_scheme \<Rightarrow> symtab_ref \<Rightarrow> symtab_ref option \<Rightarrow> cil_item list
   \<Rightarrow> (sepol_rc option \<times> cil_item list) outcome"
where
  "resolve_perm_items L s class common [] = Ok (None, [])"
| "resolve_perm_items L s class common (Item_List (Cil_List f perm_strs) # rest) =
     obind (resolve_perm_items L s class common perm_strs) (\<lambda>(rc, sub).
     case rc of
       Some e \<Rightarrow> Ok (Some e, [])
     | None \<Rightarrow>
         obind (resolve_perm_items L s class common rest) (\<lambda>(rc, items).
         Ok (rc, Item_List (Cil_List f sub) # items)))"
| "resolve_perm_items L s class common (Item_String str # rest) =
     obind (not_null str) (\<lambda>name.
     case cil_symtab_get_datum L s class name of
       Ok d \<Rightarrow> obind (resolve_perm_items L s class common rest) (\<lambda>(rc, items). Ok (rc, Item_Datum d # items))
     | Fail SEPOL_ENOENT \<Rightarrow>
         (case common of
            None \<Rightarrow> Ok (Some SEPOL_ENOENT, [])
          | Some com \<Rightarrow>
              (case cil_symtab_get_datum L s com name of
                 Ok d \<Rightarrow>
                   obind (resolve_perm_items L s class common rest) (\<lambda>(rc, items). Ok (rc, Item_Datum d # items))
               | Fail e \<Rightarrow> Ok (Some e, [])
               | Fault \<Rightarrow> Fault
               | Out_of_fuel \<Rightarrow> Out_of_fuel))
     | Fail e \<Rightarrow> Ok (Some e, [])
     | Fault \<Rightarrow> Fault
     | Out_of_fuel \<Rightarrow> Out_of_fuel)"
| "resolve_perm_items L s class common (item # rest) =
     obind (resolve_perm_items L s class common rest) (\<lambda>(rc, items). Ok (rc, item # items))"

definition cil_resolve_perms ::
  "('h, 'b) sepol \<Rightarrow> ('h, 'b, 'z) cil_store_scheme \<Rightarrow> symtab_ref \<Rightarrow> symtab_ref option \<Rightarrow> cil_list
   \<Rightarrow> (sepol_rc option \<times> cil_list) outcome"
where
  "cil_resolve_perms L s class common perm_strs =
     obind (resolve_perm_items L s class common (list_items perm_strs)) (\<lambda>(rc, items).
     Ok (rc, Cil_List (list_flavor perm_strs) items))"

definition cil_resolve_classperms ::
  "('h, 'b) sepol \<Rightarrow> nat \<Rightarrow> addr \<Rightarrow> addr \<Rightarrow> (('h, 'b, 'z) cil_store_scheme, unit) cil"
where
  "cil_resolve_classperms L fuel current cp =
     bind (rd m_classperms cp) (\<lambda>x.
     bind (resolve L fuel current (classperms_class_str x) CIL_SYM_CLASSES) (\<lambda>datum.
     bind (pointer datum) (\<lambda>class.
     bind (rd m_class class) (\<lambda>c.
     bind (wr m_classperms m_classperms_update cp (classperms_class_update (\<lambda>_. Some class))) (\<lambda>_.
     bind (reading (\<lambda>s. cil_resolve_perms L s (SymPerms class) (map_option SymPerms (class_common c))
       (classperms_perm_strs x))) (\<lambda>(rc, perms).
     bind (wr m_classperms m_classperms_update cp (classperms_perms_update (\<lambda>_. Some perms))) (\<lambda>_.
     check_rc rc)))))))"

text \<open>The recursion through anonymous sets uses up the fuel as well.\<close>

fun cil_resolve_classperms_set ::
  "('h, 'b) sepol \<Rightarrow> nat \<Rightarrow> addr \<Rightarrow> addr \<Rightarrow> (('h, 'b, 'z) cil_store_scheme, unit) cil"
and cil_resolve_classperms_list ::
  "('h, 'b) sepol \<Rightarrow> nat \<Rightarrow> addr \<Rightarrow> classperms_list \<Rightarrow> (('h, 'b, 'z) cil_store_scheme, unit) cil"
where
  "cil_resolve_classperms_set L 0 current cp_set = no_fuel"
| "cil_resolve_classperms_set L (Suc fuel) current cp_set =
     bind (rd m_classperms_set cp_set) (\<lambda>x.
     bind (resolve L fuel current (classperms_set_set_str x) CIL_SYM_CLASSPERMSETS) (\<lambda>datum.
     bind (wr m_classperms_set m_classperms_set_update cp_set (classperms_set_set_update (\<lambda>_. datum))) (\<lambda>_.
     bind (anonymous datum) (\<lambda>anon.
     if anon then
       bind (pointer datum) (\<lambda>d.
       bind (rd m_classpermission d) (\<lambda>c.
       bind (pointer (classpermission_classperms c)) (\<lambda>items.
       cil_resolve_classperms_list L fuel current items)))
     else ret ()))))"
| "cil_resolve_classperms_list L 0 current cp_list = no_fuel"
| "cil_resolve_classperms_list L (Suc fuel) current cp_list =
     for_each (\<lambda>(flavor, cp).
       if flavor = CIL_CLASSPERMS then cil_resolve_classperms L fuel current cp
       else cil_resolve_classperms_set L fuel current cp) cp_list"

text \<open>The items of a statement are appended to the list of a declaration, which is created when it is null.\<close>

definition extend_list :: "'x list option \<Rightarrow> 'x list \<Rightarrow> 'x list option" where
  "extend_list l items = Some ((case l of None \<Rightarrow> [] | Some xs \<Rightarrow> xs) @ items)"

definition cil_resolve_classpermissionset ::
  "('h, 'b) sepol \<Rightarrow> nat \<Rightarrow> addr \<Rightarrow> addr \<Rightarrow> (('h, 'b, 'z) cil_store_scheme, unit) cil"
where
  "cil_resolve_classpermissionset L fuel current cps =
     bind (rd m_classpermissionset cps) (\<lambda>x.
     bind (resolve L fuel current (classpermissionset_set_str x) CIL_SYM_CLASSPERMSETS) (\<lambda>datum.
     bind (cil_resolve_classperms_list L fuel current (classpermissionset_classperms x)) (\<lambda>_.
     bind (pointer datum) (\<lambda>cp.
     wr m_classpermission m_classpermission_update cp (classpermission_classperms_update
       (\<lambda>l. extend_list l (classpermissionset_classperms x)))))))"

definition cil_resolve_classmapping ::
  "('h, 'b) sepol \<Rightarrow> nat \<Rightarrow> addr \<Rightarrow> (('h, 'b, 'z) cil_store_scheme, unit) cil"
where
  "cil_resolve_classmapping L fuel current =
     bind (node_object current) (\<lambda>mapping.
     bind (rd m_classmapping mapping) (\<lambda>x.
     bind (resolve L fuel current (classmapping_map_class_str x) CIL_SYM_CLASSES) (\<lambda>datum.
     bind (pointer datum) (\<lambda>map_class.
     bind (pointer (classmapping_map_perm_str x)) (\<lambda>perm_str.
     bind (reading (\<lambda>s. cil_symtab_get_datum L s (SymPerms map_class) perm_str)) (\<lambda>mp.
     bind (cil_resolve_classperms_list L fuel current (classmapping_classperms x)) (\<lambda>_.
     wr m_perm m_perm_update mp (perm_classperms_update (\<lambda>l. extend_list l (classmapping_classperms x))))))))))"

text \<open>A class gets the permissions of a common: its own are numbered after them.\<close>

definition class_update_perm_values :: "32 word \<Rightarrow> string \<Rightarrow> addr \<Rightarrow> (('h, 'b, 'z) cil_store_scheme, unit) cil" where
  "class_update_perm_values n k d = wr m_perm m_perm_update d (perm_value_update (\<lambda>v. v + n))"

definition cil_resolve_classcommon ::
  "('h, 'b) sepol \<Rightarrow> nat \<Rightarrow> addr \<Rightarrow> (('h, 'b, 'z) cil_store_scheme, unit) cil"
where
  "cil_resolve_classcommon L fuel current =
     bind (node_object current) (\<lambda>clscom.
     bind (rd m_classcommon clscom) (\<lambda>x.
     bind (resolve L fuel current (classcommon_class_str x) CIL_SYM_CLASSES) (\<lambda>class_datum.
     bind (resolve L fuel current (classcommon_common_str x) CIL_SYM_COMMONS) (\<lambda>common_datum.
     bind (pointer class_datum) (\<lambda>class.
     bind (rd m_class class) (\<lambda>c.
     if class_common c \<noteq> None then fail SEPOL_ERR
     else
       bind (wr m_class m_class_update class (class_common_update (\<lambda>_. common_datum))) (\<lambda>_.
       bind (pointer common_datum) (\<lambda>common.
       bind (rd m_class common) (\<lambda>com.
       bind (cil_symtab_map L (SymPerms class) (class_update_perm_values (class_num_perms com))) (\<lambda>_.
       wr m_class m_class_update class (class_num_perms_update (\<lambda>n. n + class_num_perms com))))))))))))"

subsection \<open>Expressions\<close>

definition expr_sym_index :: "cil_flavor \<Rightarrow> cil_sym_index" where
  "expr_sym_index f =
     (if f = CIL_BOOL then CIL_SYM_BOOLS else if f = CIL_TUNABLE then CIL_SYM_TUNABLES
      else if f = CIL_TYPE then CIL_SYM_TYPES else if f = CIL_ROLE then CIL_SYM_ROLES
      else if f = CIL_USER then CIL_SYM_USERS else if f = CIL_CAT then CIL_SYM_CATS
      else CIL_SYM_UNKNOWN)"

text \<open>The loop of \<open>cil_resolve_expr\<close>; \<open>idx\<close> is given by the flavor of the list, and a sublist has its own.
  A failure leaves the items that were resolved before it.\<close>

fun resolve_expr_items ::
  "('h, 'b) sepol \<Rightarrow> nat \<Rightarrow> cil_flavor \<Rightarrow> addr \<Rightarrow> cil_sym_index \<Rightarrow> cil_item list
   \<Rightarrow> (('h, 'b, 'z) cil_store_scheme, sepol_rc option \<times> cil_item list) cil"
where
  "resolve_expr_items L fuel expr_type parent idx [] = ret (None, [])"
| "resolve_expr_items L fuel expr_type parent idx (Item_String str # rest) =
     bind (attempt (resolve L fuel parent str idx)) (\<lambda>r.
     case r of
       Inl e \<Rightarrow> ret (Some e, [])
     | Inr datum \<Rightarrow>
         bind (if idx = CIL_SYM_TYPES \<and> (expr_type = CIL_CONSTRAIN \<or> expr_type = CIL_VALIDATETRANS)
               then cil_type_used datum else ret ()) (\<lambda>_.
         bind (pointer datum) (\<lambda>d.
         bind (resolve_expr_items L fuel expr_type parent idx rest) (\<lambda>(rc, items).
         ret (rc, Item_Datum d # items)))))"
| "resolve_expr_items L fuel expr_type parent idx (Item_List (Cil_List f sub) # rest) =
     bind (resolve_expr_items L fuel expr_type parent (expr_sym_index f) sub) (\<lambda>(rc, sub_items).
     case rc of
       Some e \<Rightarrow> ret (Some e, [])
     | None \<Rightarrow>
         bind (resolve_expr_items L fuel expr_type parent idx rest) (\<lambda>(rc, items).
         ret (rc, Item_List (Cil_List f sub_items) # items)))"
| "resolve_expr_items L fuel expr_type parent idx (item # rest) =
     bind (resolve_expr_items L fuel expr_type parent idx rest) (\<lambda>(rc, items). ret (rc, item # items))"

definition cil_resolve_expr ::
  "('h, 'b) sepol \<Rightarrow> nat \<Rightarrow> cil_flavor \<Rightarrow> cil_list \<Rightarrow> addr
   \<Rightarrow> (('h, 'b, 'z) cil_store_scheme, sepol_rc option \<times> cil_list) cil"
where
  "cil_resolve_expr L fuel expr_type str_expr parent =
     bind (resolve_expr_items L fuel expr_type parent (expr_sym_index (list_flavor str_expr)) (list_items str_expr))
       (\<lambda>(rc, items). ret (rc, Cil_List (list_flavor str_expr) items))"


subsection \<open>Rules on types\<close>

definition cil_resolve_avrule :: "('h, 'b) sepol \<Rightarrow> nat \<Rightarrow> addr \<Rightarrow> (('h, 'b, 'z) cil_store_scheme, unit) cil" where
  "cil_resolve_avrule L fuel current =
     bind (node_object current) (\<lambda>rule.
     bind (rd m_avrule rule) (\<lambda>x.
     bind (resolve L fuel current (avrule_src_str x) CIL_SYM_TYPES) (\<lambda>src_datum.
     bind (wr m_avrule m_avrule_update rule (avrule_src_update (\<lambda>_. src_datum))) (\<lambda>_.
     bind (if avrule_rule_kind x \<noteq> CIL_AVRULE_NEVERALLOW then cil_type_used src_datum else ret ()) (\<lambda>_.
     bind (if avrule_tgt_str x = Some ''self'' then
             bind (gets selftype) (\<lambda>self. wr m_avrule m_avrule_update rule (avrule_tgt_update (\<lambda>_. self)))
           else
             bind (resolve L fuel current (avrule_tgt_str x) CIL_SYM_TYPES) (\<lambda>tgt_datum.
             bind (wr m_avrule m_avrule_update rule (avrule_tgt_update (\<lambda>_. tgt_datum))) (\<lambda>_.
             if avrule_rule_kind x \<noteq> CIL_AVRULE_NEVERALLOW then cil_type_used tgt_datum else ret ()))) (\<lambda>_.
     cil_resolve_classperms_list L fuel current (avrule_classperms x)))))))"

definition cil_resolve_type_rule :: "('h, 'b) sepol \<Rightarrow> nat \<Rightarrow> addr \<Rightarrow> (('h, 'b, 'z) cil_store_scheme, unit) cil" where
  "cil_resolve_type_rule L fuel current =
     bind (node_object current) (\<lambda>rule.
     bind (rd m_type_rule rule) (\<lambda>x.
     bind (resolve L fuel current (type_rule_src_str x) CIL_SYM_TYPES) (\<lambda>src_datum.
     bind (wr m_type_rule m_type_rule_update rule (type_rule_src_update (\<lambda>_. src_datum))) (\<lambda>_.
     bind (cil_type_used src_datum) (\<lambda>_.
     bind (resolve L fuel current (type_rule_tgt_str x) CIL_SYM_TYPES) (\<lambda>tgt_datum.
     bind (wr m_type_rule m_type_rule_update rule (type_rule_tgt_update (\<lambda>_. tgt_datum))) (\<lambda>_.
     bind (cil_type_used tgt_datum) (\<lambda>_.
     bind (resolve L fuel current (type_rule_obj_str x) CIL_SYM_CLASSES) (\<lambda>obj_datum.
     bind (wr m_type_rule m_type_rule_update rule (type_rule_obj_update (\<lambda>_. obj_datum))) (\<lambda>_.
     bind (resolve L fuel current (type_rule_result_str x) CIL_SYM_TYPES) (\<lambda>result_datum.
     bind (flavor_of result_datum) (\<lambda>f.
     if f \<noteq> CIL_TYPE then fail SEPOL_ERR
     else wr m_type_rule m_type_rule_update rule (type_rule_result_update (\<lambda>_. result_datum))))))))))))))"

definition cil_resolve_typeattributeset ::
  "('h, 'b) sepol \<Rightarrow> nat \<Rightarrow> addr \<Rightarrow> (('h, 'b, 'z) cil_store_scheme, unit) cil"
where
  "cil_resolve_typeattributeset L fuel current =
     bind (node_object current) (\<lambda>attrtypes.
     bind (rd m_typeattributeset attrtypes) (\<lambda>x.
     bind (resolve L fuel current (typeattributeset_attr_str x) CIL_SYM_TYPES) (\<lambda>attr_datum.
     bind (flavor_of attr_datum) (\<lambda>f.
     if f \<noteq> CIL_TYPEATTRIBUTE then fail SEPOL_ERR
     else
       bind (pointer attr_datum) (\<lambda>attr.
       bind (cil_resolve_expr L fuel CIL_TYPEATTRIBUTESET (typeattributeset_str_expr x) current) (\<lambda>(rc, datum_expr).
       bind (wr m_typeattributeset m_typeattributeset_update attrtypes
         (typeattributeset_datum_expr_update (\<lambda>_. Some datum_expr))) (\<lambda>_.
       bind (check_rc rc) (\<lambda>_.
       bind (lift (cil_verify_no_self_reference attr (Some datum_expr))) (\<lambda>_.
       wr m_typeattribute m_typeattribute_update attr
         (typeattribute_expr_list_update (\<lambda>l. extend_list l [datum_expr])))))))))))"

definition cil_resolve_aliasactual ::
  "('h, 'b) sepol \<Rightarrow> nat \<Rightarrow> addr \<Rightarrow> cil_flavor \<Rightarrow> (('h, 'b, 'z) cil_store_scheme, unit) cil"
where
  "cil_resolve_aliasactual L fuel current flavor =
     bind (node_object current) (\<lambda>aliasactual.
     bind (rd m_aliasactual aliasactual) (\<lambda>x.
     bind (lift (cil_flavor_to_symtab_index flavor)) (\<lambda>sym_index.
     bind (resolve L fuel current (aliasactual_alias_str x) sym_index) (\<lambda>alias_datum.
     bind (resolve L fuel current (aliasactual_actual_str x) sym_index) (\<lambda>actual_datum.
     bind (pointer alias_datum) (\<lambda>alias.
     bind (rd m_alias alias) (\<lambda>a.
     if alias_actual a \<noteq> None then fail SEPOL_ERR
     else wr m_alias m_alias_update alias (alias_actual_update (\<lambda>_. actual_datum)))))))))"

definition cil_resolve_typepermissive ::
  "('h, 'b) sepol \<Rightarrow> nat \<Rightarrow> addr \<Rightarrow> (('h, 'b, 'z) cil_store_scheme, unit) cil"
where
  "cil_resolve_typepermissive L fuel current =
     bind (node_object current) (\<lambda>typeperm.
     bind (rd m_typepermissive typeperm) (\<lambda>x.
     bind (resolve L fuel current (typepermissive_type_str x) CIL_SYM_TYPES) (\<lambda>type_datum.
     bind (flavor_of type_datum) (\<lambda>f.
     if f \<noteq> CIL_TYPE \<and> f \<noteq> CIL_TYPEALIAS then fail SEPOL_ERR
     else wr m_typepermissive m_typepermissive_update typeperm (typepermissive_type_update (\<lambda>_. type_datum))))))"

text \<open>\<open>new_name\<close> is the address that \<open>cil_name_init\<close> returns: it holds no struct yet.\<close>

definition cil_insert_name ::
  "('h, 'b) sepol \<Rightarrow> addr \<Rightarrow> string \<Rightarrow> addr \<Rightarrow> (('h, 'b, 'z) cil_store_scheme, addr option) cil"
where
  "cil_insert_name L new_name key ast_node =
     bind (rd nodes ast_node) (\<lambda>nd.
     bind (lift (cil_flavor_to_symtab_index CIL_NAME)) (\<lambda>sym_index.
     bind (reading (\<lambda>s. obind (deref (nodes s) (ast_root s)) (\<lambda>root. not_null (node_data root)))) (\<lambda>root.
     bind (attempt (reading (\<lambda>s. cil_symtab_get_datum L s (SymArray root (sym_num sym_index)) key))) (\<lambda>found.
     case found of
       Inr datum \<Rightarrow> ret (Some datum)
     | Inl _ \<Rightarrow>
         bind (reading (\<lambda>s. deref (nodes s) (node_parent nd))) (\<lambda>parent.
         bind (if node_flavor parent = CIL_CALL then
                 bind (reading (\<lambda>s. deref (m_call s) (node_data parent))) (\<lambda>call. ret (call_macro call))
               else if node_flavor parent = CIL_MACRO then ret (node_data parent)
               else ret None) (\<lambda>macro.
         bind (case macro of
                 None \<Rightarrow> ret False
               | Some m \<Rightarrow>
                   bind (rd m_macro m) (\<lambda>x.
                   bind (pointer (macro_params x)) (\<lambda>params.
                   ret (list_ex (\<lambda>p. fst p = Some key) params)))) (\<lambda>is_param.
         if is_param then ret None
         else
           bind (modify (\<lambda>s. s\<lparr>m_name := (m_name s)(new_name \<mapsto> \<lparr>name_name_str = None\<rparr>)\<rparr>)) (\<lambda>_.
           bind (cil_symtab_datum_init new_name) (\<lambda>_.
           bind (attempt (cil_symtab_insert L (SymArray root (sym_num sym_index)) key new_name ast_node)) (\<lambda>_.
           bind (modify (\<lambda>s. s\<lparr>names := names s @ [new_name]\<rparr>)) (\<lambda>_.
           ret (Some new_name))))))))))))"

definition cil_resolve_nametypetransition ::
  "('h, 'b) sepol \<Rightarrow> nat \<Rightarrow> addr \<Rightarrow> addr \<Rightarrow> (('h, 'b, 'z) cil_store_scheme, unit) cil"
where
  "cil_resolve_nametypetransition L fuel new_name current =
     bind (node_object current) (\<lambda>nt.
     bind (rd m_nametypetransition nt) (\<lambda>x.
     bind (resolve L fuel current (nametypetransition_src_str x) CIL_SYM_TYPES) (\<lambda>src_datum.
     bind (wr m_nametypetransition m_nametypetransition_update nt (nametypetransition_src_update (\<lambda>_. src_datum))) (\<lambda>_.
     bind (cil_type_used src_datum) (\<lambda>_.
     bind (resolve L fuel current (nametypetransition_tgt_str x) CIL_SYM_TYPES) (\<lambda>tgt_datum.
     bind (wr m_nametypetransition m_nametypetransition_update nt (nametypetransition_tgt_update (\<lambda>_. tgt_datum))) (\<lambda>_.
     bind (cil_type_used tgt_datum) (\<lambda>_.
     bind (resolve L fuel current (nametypetransition_obj_str x) CIL_SYM_CLASSES) (\<lambda>obj_datum.
     bind (wr m_nametypetransition m_nametypetransition_update nt (nametypetransition_obj_update (\<lambda>_. obj_datum))) (\<lambda>_.
     bind (pointer (nametypetransition_name_str x)) (\<lambda>key.
     bind (cil_insert_name L new_name key current) (\<lambda>name.
     bind (wr m_nametypetransition m_nametypetransition_update nt (nametypetransition_name_update (\<lambda>_. name))) (\<lambda>_.
     bind (if name = None then
             bind (resolve L fuel current (nametypetransition_name_str x) CIL_SYM_NAMES) (\<lambda>name_datum.
             wr m_nametypetransition m_nametypetransition_update nt (nametypetransition_name_update (\<lambda>_. name_datum)))
           else ret ()) (\<lambda>_.
     bind (resolve L fuel current (nametypetransition_result_str x) CIL_SYM_TYPES) (\<lambda>result_datum.
     bind (flavor_of result_datum) (\<lambda>f.
     if f \<noteq> CIL_TYPE \<and> f \<noteq> CIL_TYPEALIAS then fail SEPOL_ERR
     else wr m_nametypetransition m_nametypetransition_update nt
       (nametypetransition_result_update (\<lambda>_. result_datum))))))))))))))))))"

subsection \<open>Levels\<close>

definition cil_resolve_cats :: "('h, 'b) sepol \<Rightarrow> nat \<Rightarrow> addr \<Rightarrow> addr \<Rightarrow> (('h, 'b, 'z) cil_store_scheme, unit) cil" where
  "cil_resolve_cats L fuel current cats =
     bind (rd m_cats cats) (\<lambda>x.
     bind (cil_resolve_expr L fuel CIL_CATSET (cats_str_expr x) current) (\<lambda>(rc, datum_expr).
     bind (wr m_cats m_cats_update cats (cats_datum_expr_update (\<lambda>_. Some datum_expr))) (\<lambda>_.
     check_rc rc)))"

definition cil_resolve_catset :: "('h, 'b) sepol \<Rightarrow> nat \<Rightarrow> addr \<Rightarrow> addr \<Rightarrow> (('h, 'b, 'z) cil_store_scheme, unit) cil" where
  "cil_resolve_catset L fuel current catset =
     bind (rd m_catset catset) (\<lambda>x.
     bind (pointer (catset_cats x)) (\<lambda>cats.
     bind (cil_resolve_cats L fuel current cats) (\<lambda>_.
     bind (rd m_cats cats) (\<lambda>c.
     bind (attempt (lift (cil_verify_no_self_reference catset (cats_datum_expr c)))) (\<lambda>r.
     case r of
       Inl e \<Rightarrow> bind (wr m_cats m_cats_update cats (cats_datum_expr_update (\<lambda>_. None))) (\<lambda>_. fail e)
     | Inr _ \<Rightarrow> ret ())))))"

definition cil_resolve_senscat :: "('h, 'b) sepol \<Rightarrow> nat \<Rightarrow> addr \<Rightarrow> (('h, 'b, 'z) cil_store_scheme, unit) cil" where
  "cil_resolve_senscat L fuel current =
     bind (node_object current) (\<lambda>senscat.
     bind (rd m_senscat senscat) (\<lambda>x.
     bind (resolve L fuel current (senscat_sens_str x) CIL_SYM_SENS) (\<lambda>sens_datum.
     bind (pointer (senscat_cats x)) (\<lambda>cats.
     bind (cil_resolve_cats L fuel current cats) (\<lambda>_.
     bind (pointer sens_datum) (\<lambda>sens.
     wr m_sens m_sens_update sens (sens_cats_list_update (\<lambda>l. extend_list l [cats]))))))))"

definition cil_resolve_level :: "('h, 'b) sepol \<Rightarrow> nat \<Rightarrow> addr \<Rightarrow> addr \<Rightarrow> (('h, 'b, 'z) cil_store_scheme, unit) cil" where
  "cil_resolve_level L fuel current level =
     bind (rd m_level level) (\<lambda>x.
     bind (resolve L fuel current (level_sens_str x) CIL_SYM_SENS) (\<lambda>sens_datum.
     bind (wr m_level m_level_update level (level_sens_update (\<lambda>_. sens_datum))) (\<lambda>_.
     case level_cats x of None \<Rightarrow> ret () | Some cats \<Rightarrow> cil_resolve_cats L fuel current cats)))"

text \<open>The pattern of a named or anonymous part: a name is resolved and stored, and what it stands for is
  resolved when it has no name itself (it is then the argument of a macro); otherwise the anonymous part
  is resolved.\<close>

definition resolve_part ::
  "('h, 'b) sepol \<Rightarrow> nat \<Rightarrow> addr \<Rightarrow> cil_sym_index \<Rightarrow> cstring \<Rightarrow> addr option
   \<Rightarrow> (addr option \<Rightarrow> (('h, 'b, 'z) cil_store_scheme, unit) cil)
   \<Rightarrow> (addr \<Rightarrow> (('h, 'b, 'z) cil_store_scheme, unit) cil) \<Rightarrow> (('h, 'b, 'z) cil_store_scheme, unit) cil"
where
  "resolve_part L fuel current idx str part store_part resolve_it =
     (if str \<noteq> None then
        bind (resolve L fuel current str idx) (\<lambda>datum.
        bind (store_part datum) (\<lambda>_.
        bind (anonymous datum) (\<lambda>anon.
        if anon then bind (pointer datum) resolve_it else ret ())))
      else if part \<noteq> None then bind (pointer part) resolve_it
      else ret ())"

definition cil_resolve_levelrange ::
  "('h, 'b) sepol \<Rightarrow> nat \<Rightarrow> addr \<Rightarrow> addr \<Rightarrow> (('h, 'b, 'z) cil_store_scheme, unit) cil"
where
  "cil_resolve_levelrange L fuel current lvlrange =
     bind (rd m_levelrange lvlrange) (\<lambda>x.
     bind (resolve_part L fuel current CIL_SYM_LEVELS (levelrange_low_str x) (levelrange_low x)
       (\<lambda>d. wr m_levelrange m_levelrange_update lvlrange (levelrange_low_update (\<lambda>_. d)))
       (cil_resolve_level L fuel current)) (\<lambda>_.
     resolve_part L fuel current CIL_SYM_LEVELS (levelrange_high_str x) (levelrange_high x)
       (\<lambda>d. wr m_levelrange m_levelrange_update lvlrange (levelrange_high_update (\<lambda>_. d)))
       (cil_resolve_level L fuel current)))"

definition cil_resolve_rangetransition ::
  "('h, 'b) sepol \<Rightarrow> nat \<Rightarrow> addr \<Rightarrow> (('h, 'b, 'z) cil_store_scheme, unit) cil"
where
  "cil_resolve_rangetransition L fuel current =
     bind (node_object current) (\<lambda>rt.
     bind (rd m_rangetransition rt) (\<lambda>x.
     bind (resolve L fuel current (rangetransition_src_str x) CIL_SYM_TYPES) (\<lambda>src_datum.
     bind (wr m_rangetransition m_rangetransition_update rt (rangetransition_src_update (\<lambda>_. src_datum))) (\<lambda>_.
     bind (cil_type_used src_datum) (\<lambda>_.
     bind (resolve L fuel current (rangetransition_exec_str x) CIL_SYM_TYPES) (\<lambda>exec_datum.
     bind (wr m_rangetransition m_rangetransition_update rt (rangetransition_exec_update (\<lambda>_. exec_datum))) (\<lambda>_.
     bind (cil_type_used exec_datum) (\<lambda>_.
     bind (resolve L fuel current (rangetransition_obj_str x) CIL_SYM_CLASSES) (\<lambda>obj_datum.
     bind (wr m_rangetransition m_rangetransition_update rt (rangetransition_obj_update (\<lambda>_. obj_datum))) (\<lambda>_.
     if rangetransition_range_str x \<noteq> None then
       resolve_part L fuel current CIL_SYM_LEVELRANGES (rangetransition_range_str x) (rangetransition_range x)
         (\<lambda>d. wr m_rangetransition m_rangetransition_update rt (rangetransition_range_update (\<lambda>_. d)))
         (cil_resolve_levelrange L fuel current)
     else bind (pointer (rangetransition_range x)) (cil_resolve_levelrange L fuel current)))))))))))"


subsection \<open>Users and roles\<close>

definition cil_resolve_userrole :: "('h, 'b) sepol \<Rightarrow> nat \<Rightarrow> addr \<Rightarrow> (('h, 'b, 'z) cil_store_scheme, unit) cil" where
  "cil_resolve_userrole L fuel current =
     bind (node_object current) (\<lambda>userrole.
     bind (rd m_userrole userrole) (\<lambda>x.
     bind (resolve L fuel current (userrole_user_str x) CIL_SYM_USERS) (\<lambda>user_datum.
     bind (wr m_userrole m_userrole_update userrole (userrole_user_update (\<lambda>_. user_datum))) (\<lambda>_.
     bind (resolve L fuel current (userrole_role_str x) CIL_SYM_ROLES) (\<lambda>role_datum.
     bind (wr m_userrole m_userrole_update userrole (userrole_role_update (\<lambda>_. role_datum))) (\<lambda>_.
     bind (pointer user_datum) (\<lambda>user.
     bind (pointer role_datum) (\<lambda>role.
     wr m_user m_user_update user (user_roles_update (\<lambda>l. extend_list l [role]))))))))))"

text \<open>The default level and the range of a user.\<close>

definition cil_resolve_userlevel :: "('h, 'b) sepol \<Rightarrow> nat \<Rightarrow> addr \<Rightarrow> (('h, 'b, 'z) cil_store_scheme, unit) cil" where
  "cil_resolve_userlevel L fuel current =
     bind (node_object current) (\<lambda>usrlvl.
     bind (rd m_userlevel usrlvl) (\<lambda>x.
     bind (resolve L fuel current (userlevel_user_str x) CIL_SYM_USERS) (\<lambda>user_datum.
     if userlevel_level_str x \<noteq> None then
       resolve_part L fuel current CIL_SYM_LEVELS (userlevel_level_str x) None
         (\<lambda>d. bind (wr m_userlevel m_userlevel_update usrlvl (userlevel_level_update (\<lambda>_. d))) (\<lambda>_.
              bind (pointer user_datum) (\<lambda>user. wr m_user m_user_update user (user_dftlevel_update (\<lambda>_. d)))))
         (cil_resolve_level L fuel current)
     else
       (case userlevel_level x of
          None \<Rightarrow> ret ()
        | Some level \<Rightarrow>
            bind (cil_resolve_level L fuel current level) (\<lambda>_.
            bind (pointer user_datum) (\<lambda>user. wr m_user m_user_update user (user_dftlevel_update (\<lambda>_. Some level))))))))"

definition cil_resolve_userrange :: "('h, 'b) sepol \<Rightarrow> nat \<Rightarrow> addr \<Rightarrow> (('h, 'b, 'z) cil_store_scheme, unit) cil" where
  "cil_resolve_userrange L fuel current =
     bind (node_object current) (\<lambda>userrange.
     bind (rd m_userrange userrange) (\<lambda>x.
     bind (resolve L fuel current (userrange_user_str x) CIL_SYM_USERS) (\<lambda>user_datum.
     if userrange_range_str x \<noteq> None then
       resolve_part L fuel current CIL_SYM_LEVELRANGES (userrange_range_str x) None
         (\<lambda>d. bind (wr m_userrange m_userrange_update userrange (userrange_range_update (\<lambda>_. d))) (\<lambda>_.
              bind (pointer user_datum) (\<lambda>user. wr m_user m_user_update user (user_range_update (\<lambda>_. d)))))
         (cil_resolve_levelrange L fuel current)
     else
       (case userrange_range x of
          None \<Rightarrow> ret ()
        | Some lr \<Rightarrow>
            bind (cil_resolve_levelrange L fuel current lr) (\<lambda>_.
            bind (pointer user_datum) (\<lambda>user. wr m_user m_user_update user (user_range_update (\<lambda>_. Some lr))))))))"

definition cil_resolve_userprefix :: "('h, 'b) sepol \<Rightarrow> nat \<Rightarrow> addr \<Rightarrow> (('h, 'b, 'z) cil_store_scheme, unit) cil" where
  "cil_resolve_userprefix L fuel current =
     bind (node_object current) (\<lambda>userprefix.
     bind (rd m_userprefix userprefix) (\<lambda>x.
     bind (resolve L fuel current (userprefix_user_str x) CIL_SYM_USERS) (\<lambda>user_datum.
     wr m_userprefix m_userprefix_update userprefix (userprefix_user_update (\<lambda>_. user_datum)))))"

definition cil_resolve_selinuxuser :: "('h, 'b) sepol \<Rightarrow> nat \<Rightarrow> addr \<Rightarrow> (('h, 'b, 'z) cil_store_scheme, unit) cil" where
  "cil_resolve_selinuxuser L fuel current =
     bind (node_object current) (\<lambda>su.
     bind (rd m_selinuxuser su) (\<lambda>x.
     bind (resolve L fuel current (selinuxuser_user_str x) CIL_SYM_USERS) (\<lambda>user_datum.
     bind (wr m_selinuxuser m_selinuxuser_update su (selinuxuser_user_update (\<lambda>_. user_datum))) (\<lambda>_.
     resolve_part L fuel current CIL_SYM_LEVELRANGES (selinuxuser_range_str x) (selinuxuser_range x)
       (\<lambda>d. wr m_selinuxuser m_selinuxuser_update su (selinuxuser_range_update (\<lambda>_. d)))
       (cil_resolve_levelrange L fuel current)))))"

definition cil_resolve_roletype :: "('h, 'b) sepol \<Rightarrow> nat \<Rightarrow> addr \<Rightarrow> (('h, 'b, 'z) cil_store_scheme, unit) cil" where
  "cil_resolve_roletype L fuel current =
     bind (node_object current) (\<lambda>roletype.
     bind (rd m_roletype roletype) (\<lambda>x.
     bind (resolve L fuel current (roletype_role_str x) CIL_SYM_ROLES) (\<lambda>role_datum.
     bind (wr m_roletype m_roletype_update roletype (roletype_role_update (\<lambda>_. role_datum))) (\<lambda>_.
     bind (resolve L fuel current (roletype_type_str x) CIL_SYM_TYPES) (\<lambda>type_datum.
     bind (wr m_roletype m_roletype_update roletype (roletype_type_update (\<lambda>_. type_datum))) (\<lambda>_.
     cil_type_used type_datum))))))"

definition cil_resolve_roletransition ::
  "('h, 'b) sepol \<Rightarrow> nat \<Rightarrow> addr \<Rightarrow> (('h, 'b, 'z) cil_store_scheme, unit) cil"
where
  "cil_resolve_roletransition L fuel current =
     bind (node_object current) (\<lambda>rt.
     bind (rd m_roletransition rt) (\<lambda>x.
     bind (resolve L fuel current (roletransition_src_str x) CIL_SYM_ROLES) (\<lambda>src_datum.
     bind (wr m_roletransition m_roletransition_update rt (roletransition_src_update (\<lambda>_. src_datum))) (\<lambda>_.
     bind (resolve L fuel current (roletransition_tgt_str x) CIL_SYM_TYPES) (\<lambda>tgt_datum.
     bind (wr m_roletransition m_roletransition_update rt (roletransition_tgt_update (\<lambda>_. tgt_datum))) (\<lambda>_.
     bind (cil_type_used tgt_datum) (\<lambda>_.
     bind (resolve L fuel current (roletransition_obj_str x) CIL_SYM_CLASSES) (\<lambda>obj_datum.
     bind (wr m_roletransition m_roletransition_update rt (roletransition_obj_update (\<lambda>_. obj_datum))) (\<lambda>_.
     bind (resolve L fuel current (roletransition_result_str x) CIL_SYM_ROLES) (\<lambda>result_datum.
     bind (flavor_of result_datum) (\<lambda>f.
     if f \<noteq> CIL_ROLE then fail SEPOL_ERR
     else wr m_roletransition m_roletransition_update rt (roletransition_result_update (\<lambda>_. result_datum)))))))))))))"

definition cil_resolve_roleallow :: "('h, 'b) sepol \<Rightarrow> nat \<Rightarrow> addr \<Rightarrow> (('h, 'b, 'z) cil_store_scheme, unit) cil" where
  "cil_resolve_roleallow L fuel current =
     bind (node_object current) (\<lambda>roleallow.
     bind (rd m_roleallow roleallow) (\<lambda>x.
     bind (resolve L fuel current (roleallow_src_str x) CIL_SYM_ROLES) (\<lambda>src_datum.
     bind (wr m_roleallow m_roleallow_update roleallow (roleallow_src_update (\<lambda>_. src_datum))) (\<lambda>_.
     bind (resolve L fuel current (roleallow_tgt_str x) CIL_SYM_ROLES) (\<lambda>tgt_datum.
     wr m_roleallow m_roleallow_update roleallow (roleallow_tgt_update (\<lambda>_. tgt_datum)))))))"

definition cil_resolve_roleattributeset ::
  "('h, 'b) sepol \<Rightarrow> nat \<Rightarrow> addr \<Rightarrow> (('h, 'b, 'z) cil_store_scheme, unit) cil"
where
  "cil_resolve_roleattributeset L fuel current =
     bind (node_object current) (\<lambda>attrroles.
     bind (rd m_roleattributeset attrroles) (\<lambda>x.
     bind (resolve L fuel current (roleattributeset_attr_str x) CIL_SYM_ROLES) (\<lambda>attr_datum.
     bind (flavor_of attr_datum) (\<lambda>f.
     if f \<noteq> CIL_ROLEATTRIBUTE then fail SEPOL_ERR
     else
       bind (pointer attr_datum) (\<lambda>attr.
       bind (cil_resolve_expr L fuel CIL_ROLEATTRIBUTESET (roleattributeset_str_expr x) current) (\<lambda>(rc, datum_expr).
       bind (wr m_roleattributeset m_roleattributeset_update attrroles
         (roleattributeset_datum_expr_update (\<lambda>_. Some datum_expr))) (\<lambda>_.
       bind (check_rc rc) (\<lambda>_.
       bind (lift (cil_verify_no_self_reference attr (Some datum_expr))) (\<lambda>_.
       wr m_roleattribute m_roleattribute_update attr
         (roleattribute_expr_list_update (\<lambda>l. extend_list l [datum_expr])))))))))))"

subsection \<open>Constraints and contexts\<close>

definition cil_resolve_constrain :: "('h, 'b) sepol \<Rightarrow> nat \<Rightarrow> addr \<Rightarrow> (('h, 'b, 'z) cil_store_scheme, unit) cil" where
  "cil_resolve_constrain L fuel current =
     bind (node_object current) (\<lambda>cons.
     bind (rd m_constrain cons) (\<lambda>x.
     bind (cil_resolve_classperms_list L fuel current (constrain_classperms x)) (\<lambda>_.
     bind (cil_resolve_expr L fuel CIL_CONSTRAIN (constrain_str_expr x) current) (\<lambda>(rc, datum_expr).
     bind (wr m_constrain m_constrain_update cons (constrain_datum_expr_update (\<lambda>_. Some datum_expr))) (\<lambda>_.
     check_rc rc)))))"

definition cil_resolve_validatetrans ::
  "('h, 'b) sepol \<Rightarrow> nat \<Rightarrow> addr \<Rightarrow> (('h, 'b, 'z) cil_store_scheme, unit) cil"
where
  "cil_resolve_validatetrans L fuel current =
     bind (node_object current) (\<lambda>vt.
     bind (rd m_validatetrans vt) (\<lambda>x.
     bind (resolve L fuel current (validatetrans_class_str x) CIL_SYM_CLASSES) (\<lambda>class_datum.
     bind (wr m_validatetrans m_validatetrans_update vt (validatetrans_class_update (\<lambda>_. class_datum))) (\<lambda>_.
     bind (cil_resolve_expr L fuel CIL_VALIDATETRANS (validatetrans_str_expr x) current) (\<lambda>(rc, datum_expr).
     bind (wr m_validatetrans m_validatetrans_update vt (validatetrans_datum_expr_update (\<lambda>_. Some datum_expr))) (\<lambda>_.
     check_rc rc))))))"

definition cil_resolve_context :: "('h, 'b) sepol \<Rightarrow> nat \<Rightarrow> addr \<Rightarrow> addr \<Rightarrow> (('h, 'b, 'z) cil_store_scheme, unit) cil" where
  "cil_resolve_context L fuel current context =
     bind (rd m_context context) (\<lambda>x.
     bind (resolve L fuel current (context_user_str x) CIL_SYM_USERS) (\<lambda>user_datum.
     bind (wr m_context m_context_update context (context_user_update (\<lambda>_. user_datum))) (\<lambda>_.
     bind (resolve L fuel current (context_role_str x) CIL_SYM_ROLES) (\<lambda>role_datum.
     bind (wr m_context m_context_update context (context_role_update (\<lambda>_. role_datum))) (\<lambda>_.
     bind (resolve L fuel current (context_type_str x) CIL_SYM_TYPES) (\<lambda>type_datum.
     bind (flavor_of type_datum) (\<lambda>f.
     if f \<noteq> CIL_TYPE \<and> f \<noteq> CIL_TYPEALIAS then fail SEPOL_ERR
     else
       bind (wr m_context m_context_update context (context_type_update (\<lambda>_. type_datum))) (\<lambda>_.
       resolve_part L fuel current CIL_SYM_LEVELRANGES (context_range_str x) (context_range x)
         (\<lambda>d. wr m_context m_context_update context (context_range_update (\<lambda>_. d)))
         (cil_resolve_levelrange L fuel current)))))))))"

text \<open>A named context is stored; an anonymous one is resolved, through a pointer that is not tested.\<close>

definition resolve_con ::
  "('h, 'b) sepol \<Rightarrow> nat \<Rightarrow> addr \<Rightarrow> cstring \<Rightarrow> addr option
   \<Rightarrow> (addr option \<Rightarrow> (('h, 'b, 'z) cil_store_scheme, unit) cil) \<Rightarrow> (('h, 'b, 'z) cil_store_scheme, unit) cil"
where
  "resolve_con L fuel current context_str context store_context =
     (if context_str \<noteq> None then
        bind (resolve L fuel current context_str CIL_SYM_CONTEXTS) store_context
      else bind (pointer context) (cil_resolve_context L fuel current))"

definition cil_resolve_filecon :: "('h, 'b) sepol \<Rightarrow> nat \<Rightarrow> addr \<Rightarrow> (('h, 'b, 'z) cil_store_scheme, unit) cil" where
  "cil_resolve_filecon L fuel current =
     bind (node_object current) (\<lambda>con.
     bind (rd m_filecon con) (\<lambda>x.
     if filecon_context_str x = None \<and> filecon_context x = None then ret ()
     else resolve_con L fuel current (filecon_context_str x) (filecon_context x)
       (\<lambda>d. wr m_filecon m_filecon_update con (filecon_context_update (\<lambda>_. d)))))"

definition cil_resolve_portcon :: "('h, 'b) sepol \<Rightarrow> nat \<Rightarrow> addr \<Rightarrow> (('h, 'b, 'z) cil_store_scheme, unit) cil" where
  "cil_resolve_portcon L fuel current =
     bind (node_object current) (\<lambda>con.
     bind (rd m_portcon con) (\<lambda>x.
     resolve_con L fuel current (portcon_context_str x) (portcon_context x)
       (\<lambda>d. wr m_portcon m_portcon_update con (portcon_context_update (\<lambda>_. d)))))"

definition cil_resolve_genfscon :: "('h, 'b) sepol \<Rightarrow> nat \<Rightarrow> addr \<Rightarrow> (('h, 'b, 'z) cil_store_scheme, unit) cil" where
  "cil_resolve_genfscon L fuel current =
     bind (node_object current) (\<lambda>con.
     bind (rd m_genfscon con) (\<lambda>x.
     resolve_con L fuel current (genfscon_context_str x) (genfscon_context x)
       (\<lambda>d. wr m_genfscon m_genfscon_update con (genfscon_context_update (\<lambda>_. d)))))"

definition cil_resolve_nodecon :: "('h, 'b) sepol \<Rightarrow> nat \<Rightarrow> addr \<Rightarrow> (('h, 'b, 'z) cil_store_scheme, unit) cil" where
  "cil_resolve_nodecon L fuel current =
     bind (node_object current) (\<lambda>con.
     bind (rd m_nodecon con) (\<lambda>x.
     bind (if nodecon_addr_str x \<noteq> None then
             bind (resolve L fuel current (nodecon_addr_str x) CIL_SYM_IPADDRS) (\<lambda>d.
             wr m_nodecon m_nodecon_update con (nodecon_addr_update (\<lambda>_. d)))
           else ret ()) (\<lambda>_.
     bind (if nodecon_mask_str x \<noteq> None then
             bind (resolve L fuel current (nodecon_mask_str x) CIL_SYM_IPADDRS) (\<lambda>d.
             wr m_nodecon m_nodecon_update con (nodecon_mask_update (\<lambda>_. d)))
           else ret ()) (\<lambda>_.
     bind (resolve_con L fuel current (nodecon_context_str x) (nodecon_context x)
       (\<lambda>d. wr m_nodecon m_nodecon_update con (nodecon_context_update (\<lambda>_. d)))) (\<lambda>_.
     bind (rd m_nodecon con) (\<lambda>y.
     bind (reading (\<lambda>s. deref (m_ipaddr s) (nodecon_addr y))) (\<lambda>addr.
     bind (reading (\<lambda>s. deref (m_ipaddr s) (nodecon_mask y))) (\<lambda>msk.
     if ipaddr_family addr \<noteq> ipaddr_family msk then fail SEPOL_ERR else ret ()))))))))"

definition cil_resolve_netifcon :: "('h, 'b) sepol \<Rightarrow> nat \<Rightarrow> addr \<Rightarrow> (('h, 'b, 'z) cil_store_scheme, unit) cil" where
  "cil_resolve_netifcon L fuel current =
     bind (node_object current) (\<lambda>con.
     bind (rd m_netifcon con) (\<lambda>x.
     bind (resolve_con L fuel current (netifcon_if_context_str x) (netifcon_if_context x)
       (\<lambda>d. wr m_netifcon m_netifcon_update con (netifcon_if_context_update (\<lambda>_. d)))) (\<lambda>_.
     resolve_con L fuel current (netifcon_packet_context_str x) (netifcon_packet_context x)
       (\<lambda>d. wr m_netifcon m_netifcon_update con (netifcon_packet_context_update (\<lambda>_. d))))))"

definition cil_resolve_pirqcon :: "('h, 'b) sepol \<Rightarrow> nat \<Rightarrow> addr \<Rightarrow> (('h, 'b, 'z) cil_store_scheme, unit) cil" where
  "cil_resolve_pirqcon L fuel current =
     bind (node_object current) (\<lambda>con.
     bind (rd m_pirqcon con) (\<lambda>x.
     resolve_con L fuel current (pirqcon_context_str x) (pirqcon_context x)
       (\<lambda>d. wr m_pirqcon m_pirqcon_update con (pirqcon_context_update (\<lambda>_. d)))))"

definition cil_resolve_iomemcon :: "('h, 'b) sepol \<Rightarrow> nat \<Rightarrow> addr \<Rightarrow> (('h, 'b, 'z) cil_store_scheme, unit) cil" where
  "cil_resolve_iomemcon L fuel current =
     bind (node_object current) (\<lambda>con.
     bind (rd m_iomemcon con) (\<lambda>x.
     resolve_con L fuel current (iomemcon_context_str x) (iomemcon_context x)
       (\<lambda>d. wr m_iomemcon m_iomemcon_update con (iomemcon_context_update (\<lambda>_. d)))))"

definition cil_resolve_ioportcon :: "('h, 'b) sepol \<Rightarrow> nat \<Rightarrow> addr \<Rightarrow> (('h, 'b, 'z) cil_store_scheme, unit) cil" where
  "cil_resolve_ioportcon L fuel current =
     bind (node_object current) (\<lambda>con.
     bind (rd m_ioportcon con) (\<lambda>x.
     resolve_con L fuel current (ioportcon_context_str x) (ioportcon_context x)
       (\<lambda>d. wr m_ioportcon m_ioportcon_update con (ioportcon_context_update (\<lambda>_. d)))))"

definition cil_resolve_pcidevicecon :: "('h, 'b) sepol \<Rightarrow> nat \<Rightarrow> addr \<Rightarrow> (('h, 'b, 'z) cil_store_scheme, unit) cil" where
  "cil_resolve_pcidevicecon L fuel current =
     bind (node_object current) (\<lambda>con.
     bind (rd m_pcidevicecon con) (\<lambda>x.
     resolve_con L fuel current (pcidevicecon_context_str x) (pcidevicecon_context x)
       (\<lambda>d. wr m_pcidevicecon m_pcidevicecon_update con (pcidevicecon_context_update (\<lambda>_. d)))))"

definition cil_resolve_fsuse :: "('h, 'b) sepol \<Rightarrow> nat \<Rightarrow> addr \<Rightarrow> (('h, 'b, 'z) cil_store_scheme, unit) cil" where
  "cil_resolve_fsuse L fuel current =
     bind (node_object current) (\<lambda>con.
     bind (rd m_fsuse con) (\<lambda>x.
     resolve_con L fuel current (fsuse_context_str x) (fsuse_context x)
       (\<lambda>d. wr m_fsuse m_fsuse_update con (fsuse_context_update (\<lambda>_. d)))))"

definition cil_resolve_sidcontext :: "('h, 'b) sepol \<Rightarrow> nat \<Rightarrow> addr \<Rightarrow> (('h, 'b, 'z) cil_store_scheme, unit) cil" where
  "cil_resolve_sidcontext L fuel current =
     bind (node_object current) (\<lambda>sidcon.
     bind (rd m_sidcontext sidcon) (\<lambda>x.
     bind (resolve L fuel current (sidcontext_sid_str x) CIL_SYM_SIDS) (\<lambda>sid_datum.
     bind (if sidcontext_context_str x = None \<and> sidcontext_context x = None then ret ()
           else resolve_con L fuel current (sidcontext_context_str x) (sidcontext_context x)
             (\<lambda>d. wr m_sidcontext m_sidcontext_update sidcon (sidcontext_context_update (\<lambda>_. d)))) (\<lambda>_.
     bind (pointer sid_datum) (\<lambda>sid.
     bind (rd m_sid sid) (\<lambda>sd.
     if sid_context sd \<noteq> None then fail SEPOL_ERR
     else
       bind (rd m_sidcontext sidcon) (\<lambda>y.
       wr m_sid m_sid_update sid (sid_context_update (\<lambda>_. sidcontext_context y)))))))))"


subsection \<open>Blocks and bounds\<close>

definition cil_resolve_blockinherit_link ::
  "('h, 'b) sepol \<Rightarrow> nat \<Rightarrow> addr \<Rightarrow> (('h, 'b, 'z) cil_store_scheme, unit) cil"
where
  "cil_resolve_blockinherit_link L fuel current =
     bind (node_object current) (\<lambda>inherit.
     bind (rd m_blockinherit inherit) (\<lambda>x.
     bind (resolve L fuel current (blockinherit_block_str x) CIL_SYM_BLOCKS) (\<lambda>block_datum.
     bind (flavor_of block_datum) (\<lambda>f.
     if f \<noteq> CIL_BLOCK then fail SEPOL_ERR
     else
       bind (wr m_blockinherit m_blockinherit_update inherit (blockinherit_block_update (\<lambda>_. block_datum))) (\<lambda>_.
       bind (pointer block_datum) (\<lambda>block.
       wr m_block m_block_update block (block_bi_nodes_update (\<lambda>l. extend_list l [current]))))))))"

text \<open>A datum that is not a block is reported, and the return code is that of the lookup, \<open>SEPOL_OK\<close>.\<close>

definition cil_resolve_blockabstract ::
  "('h, 'b) sepol \<Rightarrow> nat \<Rightarrow> addr \<Rightarrow> (('h, 'b, 'z) cil_store_scheme, unit) cil"
where
  "cil_resolve_blockabstract L fuel current =
     bind (node_object current) (\<lambda>abstract.
     bind (rd m_blockabstract abstract) (\<lambda>x.
     bind (resolve L fuel current (blockabstract_block_str x) CIL_SYM_BLOCKS) (\<lambda>block_datum.
     bind (flavor_of block_datum) (\<lambda>f.
     if f \<noteq> CIL_BLOCK then ret ()
     else bind (pointer block_datum) (\<lambda>block. wr m_block m_block_update block (block_is_abstract_update (\<lambda>_. True)))))))"

text \<open>The field \<open>bounds\<close> of a child that is read as a type. Where an attribute has its list of expressions,
  a type has its bounds; a list is not a datum.\<close>

definition read_type_bounds :: "addr \<Rightarrow> (('h, 'b, 'z) cil_store_scheme, addr option) cil" where
  "read_type_bounds child = reading (\<lambda>s.
     case m_type s child of
       Some t \<Rightarrow> Ok (type_bounds t)
     | None \<Rightarrow>
         (case m_typeattribute s child of
            Some a \<Rightarrow> if typeattribute_expr_list a = None then Ok None else Fault
          | None \<Rightarrow> Fault))"

text \<open>The node of the bounds is read for the error message.\<close>

definition already_bound :: "addr option \<Rightarrow> (('h, 'b, 'z) cil_store_scheme, unit) cil" where
  "already_bound bounds = bind (flavor_of bounds) (\<lambda>_. fail SEPOL_ERR)"

definition cil_resolve_bounds ::
  "('h, 'b) sepol \<Rightarrow> nat \<Rightarrow> addr \<Rightarrow> cil_flavor \<Rightarrow> (('h, 'b, 'z) cil_store_scheme, unit) cil"
where
  "cil_resolve_bounds L fuel current flavor =
     bind (node_object current) (\<lambda>bounds.
     bind (reading (\<lambda>s. deref (m_bounds s) (Some bounds))) (\<lambda>x.
     bind (lift (cil_flavor_to_symtab_index flavor)) (\<lambda>idx.
     bind (resolve L fuel current (bounds_parent_str x) idx) (\<lambda>parent_datum.
     bind (resolve L fuel current (bounds_child_str x) idx) (\<lambda>child_datum.
     if flavor = CIL_USER then
       bind (pointer child_datum) (\<lambda>user.
       bind (rd m_user user) (\<lambda>u.
       if user_bounds u \<noteq> None then already_bound (user_bounds u)
       else wr m_user m_user_update user (user_bounds_update (\<lambda>_. parent_datum))))
     else if flavor = CIL_ROLE then
       bind (pointer child_datum) (\<lambda>role.
       bind (rd m_role role) (\<lambda>r.
       if role_bounds r \<noteq> None then already_bound (role_bounds r)
       else wr m_role m_role_update role (role_bounds_update (\<lambda>_. parent_datum))))
     else if flavor = CIL_TYPE then
       bind (pointer child_datum) (\<lambda>type.
       bind (read_type_bounds type) (\<lambda>old.
       if old \<noteq> None then already_bound old
       else
         bind (flavor_of parent_datum) (\<lambda>pf.
         if pf = CIL_TYPEATTRIBUTE then fail SEPOL_ERR
         else
           bind (flavor_of child_datum) (\<lambda>cf.
           if cf = CIL_TYPEATTRIBUTE then fail SEPOL_ERR
           else wr m_type m_type_update type (type_bounds_update (\<lambda>_. parent_datum))))))
     else ret ())))))"

subsection \<open>Lists of names\<close>

text \<open>The loop that resolves a list of names; a failure leaves what was found before it.\<close>

fun resolve_names ::
  "('h, 'b) sepol \<Rightarrow> nat \<Rightarrow> addr \<Rightarrow> cil_sym_index \<Rightarrow> cstring list
   \<Rightarrow> (('h, 'b, 'z) cil_store_scheme, sepol_rc option \<times> addr list) cil"
where
  "resolve_names L fuel current idx [] = ret (None, [])"
| "resolve_names L fuel current idx (str # strs) =
     bind (attempt (resolve L fuel current str idx)) (\<lambda>r.
     case r of
       Inl e \<Rightarrow> ret (Some e, [])
     | Inr datum \<Rightarrow>
         bind (pointer datum) (\<lambda>d.
         bind (resolve_names L fuel current idx strs) (\<lambda>(rc, ds). ret (rc, d # ds))))"

definition cil_resolve_default :: "('h, 'b) sepol \<Rightarrow> nat \<Rightarrow> addr \<Rightarrow> (('h, 'b, 'z) cil_store_scheme, unit) cil" where
  "cil_resolve_default L fuel current =
     bind (node_object current) (\<lambda>def.
     bind (rd m_default def) (\<lambda>x.
     bind (lift (not_null (default_class_strs x))) (\<lambda>class_strs.
     bind (resolve_names L fuel current CIL_SYM_CLASSES class_strs) (\<lambda>(rc, data).
     bind (wr m_default m_default_update def (default_class_datums_update (\<lambda>_. Some data))) (\<lambda>_.
     check_rc rc)))))"

definition cil_resolve_defaultrange ::
  "('h, 'b) sepol \<Rightarrow> nat \<Rightarrow> addr \<Rightarrow> (('h, 'b, 'z) cil_store_scheme, unit) cil"
where
  "cil_resolve_defaultrange L fuel current =
     bind (node_object current) (\<lambda>def.
     bind (rd m_defaultrange def) (\<lambda>x.
     bind (lift (not_null (defaultrange_class_strs x))) (\<lambda>class_strs.
     bind (resolve_names L fuel current CIL_SYM_CLASSES class_strs) (\<lambda>(rc, data).
     bind (wr m_defaultrange m_defaultrange_update def (defaultrange_class_datums_update (\<lambda>_. Some data))) (\<lambda>_.
     check_rc rc)))))"

text \<open>The arguments of the resolver, \<open>struct cil_args_resolve\<close>, are part of its state. The stacks of calls and
  optionals hold the objects of their nodes.\<close>

record ('h, 'b) resolve_state = "('h, 'b) build_state" +
  ar_pass :: cil_pass
  ar_changed :: bool
  ar_callstack :: "addr list"
  ar_optstack :: "addr list"
  ar_boolif :: "addr option"
  ar_macro :: "addr option"
  ar_sidorder_lists :: "cil_ordered_list list"
  ar_classorder_lists :: "cil_ordered_list list"
  ar_catorder_lists :: "cil_ordered_list list"
  ar_sensitivityorder_lists :: "cil_ordered_list list"
  ar_in_list :: "addr list"

definition new_ordered :: "cil_flavor \<Rightarrow> addr list \<Rightarrow> addr \<Rightarrow> cil_ordered_list" where
  "new_ordered f data node = \<lparr>ordered_merged = False, ordered_list = map (Pair f) data, ordered_node = node\<rparr>"

definition cil_resolve_classorder ::
  "('h, 'b) sepol \<Rightarrow> nat \<Rightarrow> addr \<Rightarrow> (('h, 'b, 'z) resolve_state_scheme, unit) cil"
where
  "cil_resolve_classorder L fuel current =
     bind (node_object current) (\<lambda>a.
     bind (rd m_classorder a) (\<lambda>x.
     bind (resolve_names L fuel current CIL_SYM_CLASSES (classorder_class_list_str x)) (\<lambda>(rc, data).
     bind (check_rc rc) (\<lambda>_.
     modify (ar_classorder_lists_update (\<lambda>ls. ls @ [new_ordered CIL_CLASS data current]))))))"

definition cil_resolve_sidorder ::
  "('h, 'b) sepol \<Rightarrow> nat \<Rightarrow> addr \<Rightarrow> (('h, 'b, 'z) resolve_state_scheme, unit) cil"
where
  "cil_resolve_sidorder L fuel current =
     bind (node_object current) (\<lambda>a.
     bind (rd m_sidorder a) (\<lambda>x.
     bind (resolve_names L fuel current CIL_SYM_SIDS (sidorder_sid_list_str x)) (\<lambda>(rc, data).
     bind (check_rc rc) (\<lambda>_.
     modify (ar_sidorder_lists_update (\<lambda>ls. ls @ [new_ordered CIL_SID data current]))))))"

definition cil_resolve_sensitivityorder ::
  "('h, 'b) sepol \<Rightarrow> nat \<Rightarrow> addr \<Rightarrow> (('h, 'b, 'z) resolve_state_scheme, unit) cil"
where
  "cil_resolve_sensitivityorder L fuel current =
     bind (node_object current) (\<lambda>a.
     bind (rd m_sensorder a) (\<lambda>x.
     bind (resolve_names L fuel current CIL_SYM_SENS (sensorder_sens_list_str x)) (\<lambda>(rc, data).
     bind (check_rc rc) (\<lambda>_.
     modify (ar_sensitivityorder_lists_update (\<lambda>ls. ls @ [new_ordered CIL_SENS data current]))))))"

text \<open>Only categories are allowed in a \<open>categoryorder\<close>.\<close>

fun resolve_cat_names ::
  "('h, 'b) sepol \<Rightarrow> nat \<Rightarrow> addr \<Rightarrow> cstring list \<Rightarrow> (('h, 'b, 'z) cil_store_scheme, addr list) cil"
where
  "resolve_cat_names L fuel current [] = ret []"
| "resolve_cat_names L fuel current (str # strs) =
     bind (resolve L fuel current str CIL_SYM_CATS) (\<lambda>cat_datum.
     bind (flavor_of cat_datum) (\<lambda>f.
     if f \<noteq> CIL_CAT then fail SEPOL_ERR
     else
       bind (pointer cat_datum) (\<lambda>cat.
       bind (resolve_cat_names L fuel current strs) (\<lambda>cats. ret (cat # cats)))))"

definition cil_resolve_catorder ::
  "('h, 'b) sepol \<Rightarrow> nat \<Rightarrow> addr \<Rightarrow> (('h, 'b, 'z) resolve_state_scheme, unit) cil"
where
  "cil_resolve_catorder L fuel current =
     bind (node_object current) (\<lambda>a.
     bind (rd m_catorder a) (\<lambda>x.
     bind (resolve_cat_names L fuel current (catorder_cat_list_str x)) (\<lambda>cats.
     modify (ar_catorder_lists_update (\<lambda>ls. ls @ [new_ordered CIL_CAT cats current])))))"

subsection \<open>The arguments of calls\<close>

text \<open>The table of an argument, by the flavor of the parameter, and whether it is resolved at all.\<close>

definition arg_sym_index :: "cil_args \<Rightarrow> cil_sym_index option outcome" where
  "arg_sym_index arg =
     (let f = args_kind arg;
          given = args_arg_str arg = None \<and> args_arg arg \<noteq> None;
          unless_given = (\<lambda>i. Ok (if given then None else Some i))
      in if f = CIL_NAME then Ok (if args_arg arg \<noteq> None then None else Some CIL_SYM_NAMES)
         else if f = CIL_LEVEL then unless_given CIL_SYM_LEVELS
         else if f = CIL_LEVELRANGE then unless_given CIL_SYM_LEVELRANGES
         else if f = CIL_CATSET then unless_given CIL_SYM_CATS
         else if f = CIL_IPADDR then unless_given CIL_SYM_IPADDRS
         else if f = CIL_CLASSPERMISSION then unless_given CIL_SYM_CLASSPERMSETS
         else if f = CIL_TYPE then unless_given CIL_SYM_TYPES
         else if f = CIL_ROLE then Ok (Some CIL_SYM_ROLES)
         else if f = CIL_USER then Ok (Some CIL_SYM_USERS)
         else if f = CIL_SENS then Ok (Some CIL_SYM_SENS)
         else if f = CIL_CAT then Ok (Some CIL_SYM_CATS)
         else if f = CIL_CLASS \<or> f = CIL_MAP_CLASS then Ok (Some CIL_SYM_CLASSES)
         else if f = CIL_BOOL then Ok (Some CIL_SYM_BOOLS)
         else Fail SEPOL_ERR)"

text \<open>The object is stored in the argument itself; it is null after a failure.\<close>

definition resolve_arg :: "('h, 'b) sepol \<Rightarrow> nat \<Rightarrow> addr \<Rightarrow> addr \<Rightarrow> (('h, 'b, 'z) cil_store_scheme, unit) cil" where
  "resolve_arg L fuel current a =
     bind (rd m_args a) (\<lambda>arg.
     if args_arg arg = None \<and> args_arg_str arg = None then fail SEPOL_ERR
     else
       bind (lift (arg_sym_index arg)) (\<lambda>idx.
       case idx of
         None \<Rightarrow> ret ()
       | Some i \<Rightarrow>
           bind (attempt (resolve L fuel current (args_arg_str arg) i)) (\<lambda>r.
           case r of
             Inl e \<Rightarrow> bind (wr m_args m_args_update a (args_arg_update (\<lambda>_. None))) (\<lambda>_. fail e)
           | Inr d \<Rightarrow> wr m_args m_args_update a (args_arg_update (\<lambda>_. d)))))"

definition cil_resolve_call2 :: "('h, 'b) sepol \<Rightarrow> nat \<Rightarrow> addr \<Rightarrow> (('h, 'b, 'z) cil_store_scheme, unit) cil" where
  "cil_resolve_call2 L fuel current =
     bind (node_object current) (\<lambda>new_call.
     bind (rd m_call new_call) (\<lambda>x.
     case call_args x of None \<Rightarrow> ret () | Some items \<Rightarrow> for_each (resolve_arg L fuel current) items))"

subsection \<open>Conditions\<close>

definition cil_resolve_boolif :: "('h, 'b) sepol \<Rightarrow> nat \<Rightarrow> addr \<Rightarrow> (('h, 'b, 'z) cil_store_scheme, unit) cil" where
  "cil_resolve_boolif L fuel current =
     bind (node_object current) (\<lambda>bif.
     bind (rd m_booleanif bif) (\<lambda>x.
     bind (cil_resolve_expr L fuel CIL_BOOLEANIF (booleanif_str_expr x) current) (\<lambda>(rc, datum_expr).
     bind (wr m_booleanif m_booleanif_update bif (booleanif_datum_expr_update (\<lambda>_. Some datum_expr))) (\<lambda>_.
     check_rc rc))))"

text \<open>The value of a tunable expression. An operator without an operand reads through a null pointer.\<close>

definition tunable_op :: "cil_flavor \<Rightarrow> bool \<Rightarrow> bool \<Rightarrow> bool" where
  "tunable_op f v1 v2 =
     (if f = CIL_AND then v1 \<and> v2 else if f = CIL_OR then v1 \<or> v2 else if f = CIL_XOR then v1 \<noteq> v2
      else if f = CIL_EQ then v1 = v2 else if f = CIL_NEQ then v1 \<noteq> v2 else False)"

lemma list_items_size: "3 * size_list size (list_items l) < 4 + (3 * size l + k)"
  by (cases l) simp

function cil_evaluate_tunable_expr :: "('h, 'b, 'z) cil_store_scheme \<Rightarrow> cil_item list \<Rightarrow> bool outcome"
and cil_evaluate_tunable_expr_helper :: "('h, 'b, 'z) cil_store_scheme \<Rightarrow> cil_item list \<Rightarrow> bool outcome"
and tunable_loop :: "('h, 'b, 'z) cil_store_scheme \<Rightarrow> cil_item list \<Rightarrow> bool outcome"
where
  "cil_evaluate_tunable_expr s [] = Ok False"
| "cil_evaluate_tunable_expr s (i # rest) =
     (case i of
        Item_Op f \<Rightarrow>
          obind (cil_evaluate_tunable_expr_helper s rest) (\<lambda>v1.
          if f = CIL_NOT then Ok (\<not> v1)
          else (case rest of
              [] \<Rightarrow> Fault
            | _ # rest' \<Rightarrow> obind (cil_evaluate_tunable_expr_helper s rest') (\<lambda>v2. Ok (tunable_op f v1 v2))))
      | _ \<Rightarrow> tunable_loop s (i # rest))"
| "cil_evaluate_tunable_expr_helper s [] = Ok False"
| "cil_evaluate_tunable_expr_helper s (i # rest) =
     (case i of
        Item_Datum d \<Rightarrow> obind (deref (m_tunable s) (Some d)) (\<lambda>tun. Ok (tunable_value tun))
      | Item_List l \<Rightarrow> cil_evaluate_tunable_expr s (list_items l)
      | _ \<Rightarrow> Ok False)"
| "tunable_loop s [] = Ok False"
| "tunable_loop s (i # rest) =
     obind (cil_evaluate_tunable_expr_helper s (i # rest)) (\<lambda>v. if v then Ok True else tunable_loop s rest)"
  by pat_completeness auto

termination
  by (relation "measure (\<lambda>x. case x of
      Inl (s, is) \<Rightarrow> 3 * size_list size is + 2
    | Inr (Inl (s, is)) \<Rightarrow> 3 * size_list size is
    | Inr (Inr (s, is)) \<Rightarrow> 3 * size_list size is + 1)") (auto simp: list_items_size)

end
