(* ===== verification/Cil_Resolve_Pass.thy ===== *)
theory Cil_Resolve_Pass
  imports Cil_Resolve Cil_Chain
begin

text \<open>
  What each pass of the resolution does with a node (the switch of \<open>__cil_resolve_ast_node\<close> in
  \<open>src/cil_resolve_ast.c\<close>), for the passes that copy nothing, and what the resolution of statements
  leaves alone.

  The lemmas show that these statements change nothing that names are looked up in. So the order in which
  the walk meets the statements of a pass does not matter for what their names stand for, and the fields a
  statement gets are given by lookups in the memory before the pass.
\<close>

subsection \<open>The passes\<close>

definition resolve_alias1 :: "('h, 'b) sepol \<Rightarrow> nat \<Rightarrow> addr \<Rightarrow> (('h, 'b, 'z) cil_store_scheme, unit) cil" where
  "resolve_alias1 L fuel node =
     bind (rd nodes node) (\<lambda>nd.
     let f = node_flavor nd in
     if f = CIL_TYPEALIASACTUAL then cil_resolve_aliasactual L fuel node CIL_TYPE
     else if f = CIL_SENSALIASACTUAL then cil_resolve_aliasactual L fuel node CIL_SENS
     else if f = CIL_CATALIASACTUAL then cil_resolve_aliasactual L fuel node CIL_CAT
     else ret ())"

definition resolve_alias2 :: "nat \<Rightarrow> addr \<Rightarrow> (('h, 'b, 'z) cil_store_scheme, unit) cil" where
  "resolve_alias2 fuel node =
     bind (rd nodes node) (\<lambda>nd.
     let f = node_flavor nd in
     if f = CIL_TYPEALIAS then cil_resolve_alias_to_actual fuel node CIL_TYPE
     else if f = CIL_SENSALIAS then cil_resolve_alias_to_actual fuel node CIL_SENS
     else if f = CIL_CATALIAS then cil_resolve_alias_to_actual fuel node CIL_CAT
     else ret ())"

definition resolve_misc1 ::
  "('h, 'b) sepol \<Rightarrow> nat \<Rightarrow> addr \<Rightarrow> (('h, 'b, 'z) resolve_state_scheme, unit) cil"
where
  "resolve_misc1 L fuel node =
     bind (rd nodes node) (\<lambda>nd.
     let f = node_flavor nd in
     if f = CIL_SIDORDER then cil_resolve_sidorder L fuel node
     else if f = CIL_CLASSORDER then cil_resolve_classorder L fuel node
     else if f = CIL_CATORDER then cil_resolve_catorder L fuel node
     else if f = CIL_SENSITIVITYORDER then cil_resolve_sensitivityorder L fuel node
     else if f = CIL_BOOLEANIF then cil_resolve_boolif L fuel node
     else ret ())"

definition resolve_mls :: "('h, 'b) sepol \<Rightarrow> nat \<Rightarrow> addr \<Rightarrow> (('h, 'b, 'z) cil_store_scheme, unit) cil" where
  "resolve_mls L fuel node =
     bind (rd nodes node) (\<lambda>nd.
     if node_flavor nd = CIL_CATSET then bind (pointer (node_data nd)) (cil_resolve_catset L fuel node)
     else ret ())"

definition resolve_misc2 :: "('h, 'b) sepol \<Rightarrow> nat \<Rightarrow> addr \<Rightarrow> (('h, 'b, 'z) cil_store_scheme, unit) cil" where
  "resolve_misc2 L fuel node =
     bind (rd nodes node) (\<lambda>nd.
     if node_flavor nd = CIL_SENSCAT then cil_resolve_senscat L fuel node
     else if node_flavor nd = CIL_CLASSCOMMON then cil_resolve_classcommon L fuel node
     else ret ())"

definition misc3_action ::
  "('h, 'b) sepol \<Rightarrow> nat \<Rightarrow> addr \<Rightarrow> addr \<Rightarrow> cil_tree_node \<Rightarrow> (('h, 'b, 'z) cil_store_scheme, unit) cil"
where
  "misc3_action L fuel new_name node nd =
    (let f = node_flavor nd; at_data = (\<lambda>g. bind (pointer (node_data nd)) g) in
     if f = CIL_TYPEATTRIBUTESET then cil_resolve_typeattributeset L fuel node
     else if f = CIL_TYPEBOUNDS then cil_resolve_bounds L fuel node CIL_TYPE
     else if f = CIL_TYPEPERMISSIVE then cil_resolve_typepermissive L fuel node
     else if f = CIL_NAMETYPETRANSITION then cil_resolve_nametypetransition L fuel new_name node
     else if f = CIL_RANGETRANSITION then cil_resolve_rangetransition L fuel node
     else if f = CIL_CLASSPERMISSIONSET then at_data (cil_resolve_classpermissionset L fuel node)
     else if f = CIL_CLASSMAPPING then cil_resolve_classmapping L fuel node
     else if f = CIL_AVRULE then cil_resolve_avrule L fuel node
     else if f = CIL_TYPE_RULE then cil_resolve_type_rule L fuel node
     else if f = CIL_USERROLE then cil_resolve_userrole L fuel node
     else if f = CIL_USERLEVEL then cil_resolve_userlevel L fuel node
     else if f = CIL_USERRANGE then cil_resolve_userrange L fuel node
     else if f = CIL_USERBOUNDS then cil_resolve_bounds L fuel node CIL_USER
     else if f = CIL_USERPREFIX then cil_resolve_userprefix L fuel node
     else if f = CIL_SELINUXUSER \<or> f = CIL_SELINUXUSERDEFAULT then cil_resolve_selinuxuser L fuel node
     else if f = CIL_ROLEATTRIBUTESET then cil_resolve_roleattributeset L fuel node
     else if f = CIL_ROLETYPE then cil_resolve_roletype L fuel node
     else if f = CIL_ROLETRANSITION then cil_resolve_roletransition L fuel node
     else if f = CIL_ROLEALLOW then cil_resolve_roleallow L fuel node
     else if f = CIL_ROLEBOUNDS then cil_resolve_bounds L fuel node CIL_ROLE
     else if f = CIL_LEVEL then at_data (cil_resolve_level L fuel node)
     else if f = CIL_LEVELRANGE then at_data (cil_resolve_levelrange L fuel node)
     else if f = CIL_CONSTRAIN \<or> f = CIL_MLSCONSTRAIN then cil_resolve_constrain L fuel node
     else if f = CIL_VALIDATETRANS \<or> f = CIL_MLSVALIDATETRANS then cil_resolve_validatetrans L fuel node
     else if f = CIL_CONTEXT then at_data (cil_resolve_context L fuel node)
     else if f = CIL_FILECON then cil_resolve_filecon L fuel node
     else if f = CIL_PORTCON then cil_resolve_portcon L fuel node
     else if f = CIL_NODECON then cil_resolve_nodecon L fuel node
     else if f = CIL_GENFSCON then cil_resolve_genfscon L fuel node
     else if f = CIL_NETIFCON then cil_resolve_netifcon L fuel node
     else if f = CIL_PIRQCON then cil_resolve_pirqcon L fuel node
     else if f = CIL_IOMEMCON then cil_resolve_iomemcon L fuel node
     else if f = CIL_IOPORTCON then cil_resolve_ioportcon L fuel node
     else if f = CIL_PCIDEVICECON then cil_resolve_pcidevicecon L fuel node
     else if f = CIL_FSUSE then cil_resolve_fsuse L fuel node
     else if f = CIL_SIDCONTEXT then cil_resolve_sidcontext L fuel node
     else if f = CIL_DEFAULTUSER \<or> f = CIL_DEFAULTROLE \<or> f = CIL_DEFAULTTYPE then cil_resolve_default L fuel node
     else if f = CIL_DEFAULTRANGE then cil_resolve_defaultrange L fuel node
     else ret ())"

definition resolve_misc3 ::
  "('h, 'b) sepol \<Rightarrow> nat \<Rightarrow> addr \<Rightarrow> addr \<Rightarrow> (('h, 'b, 'z) cil_store_scheme, unit) cil"
where
  "resolve_misc3 L fuel new_name node = bind (rd nodes node) (misc3_action L fuel new_name node)"

subsection \<open>What names are looked up in\<close>

definition same_names :: "('h, 'b, 'z) cil_store_scheme \<Rightarrow> ('h, 'b, 'z) cil_store_scheme \<Rightarrow> bool" where
  "same_names s t \<longleftrightarrow> nodes t = nodes s \<and> datums t = datums s \<and> symtabs t = symtabs s \<and> ast_root t = ast_root s \<and>
     m_blockinherit t = m_blockinherit s \<and> m_call t = m_call s \<and> m_args t = m_args s \<and> m_alias t = m_alias s"

lemma same_names_refl: "same_names s s"
  by (simp add: same_names_def)

lemma same_names_trans: "same_names s t \<Longrightarrow> same_names t u \<Longrightarrow> same_names s u"
  by (simp add: same_names_def)

lemma same_fields:
  assumes "same_names s t"
  shows "nodes t = nodes s" "datums t = datums s" "symtabs t = symtabs s" "ast_root t = ast_root s"
    "m_blockinherit t = m_blockinherit s" "m_call t = m_call s" "m_args t = m_args s" "m_alias t = m_alias s"
  using assms by (simp_all add: same_names_def)

lemma same_NODE: "same_names s t \<Longrightarrow> NODE t = NODE s"
  by (simp add: NODE_def same_fields fun_eq_iff)

lemma same_FLAVOR: "same_names s t \<Longrightarrow> FLAVOR t = FLAVOR s"
  by (simp add: FLAVOR_def same_NODE same_fields fun_eq_iff)

lemma same_get_datum: "same_names s t \<Longrightarrow> cil_symtab_get_datum L t = cil_symtab_get_datum L s"
  by (simp add: cil_symtab_get_datum_def symtab_of_def same_fields fun_eq_iff)

lemma same_table_search: "same_names s t \<Longrightarrow> table_search L t = table_search L s"
  by (simp add: table_search_def same_get_datum fun_eq_iff)

lemma same_args_search:
  assumes "same_names s t"
  shows "args_search t name interned i j items = args_search s name interned i j items"
proof (induction items arbitrary: j)
  case (Cons a items)
  show ?case unfolding args_search.simps same_fields [OF assms] Cons.IH ..
qed simp

lemma same_call_args:
  assumes "same_names s t"
  shows "cil_resolve_name_call_args t c name interned i = cil_resolve_name_call_args s c name interned i"
  unfolding cil_resolve_name_call_args_def same_fields [OF assms] same_args_search [OF assms] ..

lemma same_next_nodes:
  assumes "same_names s t"
  shows "inherited_node t d = inherited_node s d" "macro_parent t d = macro_parent s d"
  using assms by (simp_all add: inherited_node_def macro_parent_def same_NODE same_fields)

lemma same_with_parents:
  assumes "same_names s t"
  shows "with_parents L fuel t p name interned i = with_parents L fuel s p name interned i"
proof (induction fuel arbitrary: p)
  case (Suc fuel)
  show ?case
    by (rule ext, cases p) (simp_all only: with_parents.simps same_fields [OF assms] same_table_search [OF assms]
      same_call_args [OF assms] same_next_nodes [OF assms] Suc.IH)
qed (simp add: fun_eq_iff)

lemma same_resolve_parts:
  assumes "same_names s t"
  shows "resolve_parts L t in_node i tab part parts = resolve_parts L s in_node i tab part parts"
proof (induction parts arbitrary: tab part)
  case Nil
  show ?case unfolding resolve_parts.simps same_get_datum [OF assms] ..
next
  case (Cons p ps)
  show ?case
    unfolding resolve_parts.simps same_get_datum [OF assms] same_NODE [OF assms] same_fields [OF assms] Cons.IH ..
qed

lemma same_resolve_name:
  assumes "same_names s t"
  shows "cil_resolve_name L fuel t = cil_resolve_name L fuel s"
proof -
  have helper: "cil_resolve_name_helper L fuel t p name interned i = cil_resolve_name_helper L fuel s p name interned i"
    for p name interned i
    by (simp add: cil_resolve_name_helper_def cil_resolve_name_with_parents_def same_with_parents [OF assms]
      cil_resolve_name_with_root_def same_table_search [OF assms] same_fields [OF assms])
  have skip: "skip_alias t = skip_alias s"
    unfolding skip_alias_def same_FLAVOR [OF assms] same_fields [OF assms] ..
  show ?thesis
    unfolding fun_eq_iff cil_resolve_name_def skip helper same_fields [OF assms] same_resolve_parts [OF assms]
    by (intro allI refl)
qed

subsection \<open>Statements leave the name spaces alone\<close>

lemma preserves_pointer: "preserves I (pointer p)"
  and preserves_resolve: "preserves I (resolve L fuel current str i)"
  and preserves_flavor_of: "preserves I (flavor_of d)"
  and preserves_anonymous: "preserves I (anonymous d)"
  and preserves_node_object: "preserves I (node_object n)"
  and preserves_check_rc: "preserves I (check_rc rc)"
  and preserves_read_type_bounds: "preserves I (read_type_bounds c)"
  by (auto simp: pointer_def resolve_def flavor_of_def anonymous_def node_object_def check_rc_def
      read_type_bounds_def preserves_def split: option.split)

lemma preserves_already_bound: "preserves I (already_bound b)"
  by (simp add: already_bound_def preserves_bind preserves_flavor_of preserves_fail)

lemma preserves_case_prod: "(\<And>x y. preserves I (f x y)) \<Longrightarrow> preserves I (case p of (x, y) \<Rightarrow> f x y)"
  by (cases p) simp

named_theorems stmt_pres \<open>preservation rules of the resolution of statements\<close>

lemmas [stmt_pres] = preserves_bind preserves_ret preserves_fail preserves_rd preserves_reading preserves_gets
  preserves_lift preserves_attempt preserves_if preserves_case_option preserves_case_sum preserves_for_each
  preserves_pointer preserves_resolve preserves_flavor_of preserves_anonymous preserves_node_object
  preserves_check_rc preserves_read_type_bounds preserves_already_bound preserves_case_prod

text \<open>\<open>leads J m I\<close>: whatever \<open>m\<close> returns, it takes a state with \<open>J\<close> to one with \<open>I\<close>. It is used where a
  write comes after a test.\<close>

definition leads :: "('s \<Rightarrow> bool) \<Rightarrow> ('s, 'a) cil \<Rightarrow> ('s \<Rightarrow> bool) \<Rightarrow> bool" where
  "leads J m I \<longleftrightarrow> (\<forall>s. J s \<longrightarrow> I (snd (m s)))"

lemma leads_bind: "leads J m I \<Longrightarrow> (\<And>x. preserves I (k x)) \<Longrightarrow> leads J (bind m k) I"
proof -
  assume m: "leads J m I" and k: "\<And>x. preserves I (k x)"
  show ?thesis
    unfolding leads_def
  proof (intro allI impI)
    fix s assume "J s"
    then have "I (snd (m s))" using m by (simp add: leads_def)
    then show "I (snd (bind m k s))"
      by (cases m s k rule: bind_cases) (use k in \<open>auto simp: preserves_def\<close>)
  qed
qed

lemma leads_if: "(b \<Longrightarrow> leads J m I) \<Longrightarrow> (\<not> b \<Longrightarrow> leads J n I) \<Longrightarrow> leads J (if b then m else n) I"
  by simp

lemma leads_fail: "leads (\<lambda>s. I s \<and> P s) (fail e) I"
  by (simp add: leads_def)

lemma leads_flavor: "(\<And>f. leads (\<lambda>s. I s \<and> P s) (g f) I) \<Longrightarrow> leads (\<lambda>s. I s \<and> P s) (bind (flavor_of d) g) I"
  by (auto simp: leads_def flavor_of_def bind_def split: outcome.split)

lemma preserves_flavor_test:
  "(\<And>f. leads (\<lambda>s. I s \<and> FLAVOR s d = Ok f) (g f) I) \<Longrightarrow> preserves I (bind (flavor_of d) g)"
  by (auto simp: leads_def preserves_def flavor_of_def bind_def split: outcome.split)

text \<open>What the resolution of statements may write. Five fields are written after a test of the flavor of
  the object only; the other writes are arbitrary.\<close>

locale statement_frame =
  fixes I :: "('h, 'b, 'z) cil_store_scheme \<Rightarrow> bool"
  assumes writes: "\<And>a f0. preserves I (wr m_typeattribute m_typeattribute_update a f0)"
      "\<And>a f1. preserves I (wr m_classperms m_classperms_update a f1)"
      "\<And>a f2. preserves I (wr m_classperms_set m_classperms_set_update a f2)"
      "\<And>a f3. preserves I (wr m_classpermission m_classpermission_update a f3)"
      "\<And>a f4. preserves I (wr m_perm m_perm_update a f4)"
      "\<And>a f5. preserves I (wr m_class m_class_update a f5)"
      "\<And>a f6. preserves I (wr m_avrule m_avrule_update a f6)"
      "\<And>a f7. preserves I (wr m_typeattributeset m_typeattributeset_update a f7)"
      "\<And>a f8. preserves I (wr m_cats m_cats_update a f8)"
      "\<And>a f9. preserves I (wr m_sens m_sens_update a f9)"
      "\<And>a f10. preserves I (wr m_level m_level_update a f10)"
      "\<And>a f11. preserves I (wr m_levelrange m_levelrange_update a f11)"
      "\<And>a f12. preserves I (wr m_rangetransition m_rangetransition_update a f12)"
      "\<And>a f13. preserves I (wr m_userrole m_userrole_update a f13)"
      "\<And>a f14. preserves I (wr m_user m_user_update a f14)"
      "\<And>a f15. preserves I (wr m_userlevel m_userlevel_update a f15)"
      "\<And>a f16. preserves I (wr m_userrange m_userrange_update a f16)"
      "\<And>a f17. preserves I (wr m_userprefix m_userprefix_update a f17)"
      "\<And>a f18. preserves I (wr m_selinuxuser m_selinuxuser_update a f18)"
      "\<And>a f19. preserves I (wr m_roletype m_roletype_update a f19)"
      "\<And>a f20. preserves I (wr m_roleallow m_roleallow_update a f20)"
      "\<And>a f21. preserves I (wr m_roleattributeset m_roleattributeset_update a f21)"
      "\<And>a f22. preserves I (wr m_roleattribute m_roleattribute_update a f22)"
      "\<And>a f23. preserves I (wr m_constrain m_constrain_update a f23)"
      "\<And>a f24. preserves I (wr m_validatetrans m_validatetrans_update a f24)"
      "\<And>a f25. preserves I (wr m_filecon m_filecon_update a f25)"
      "\<And>a f26. preserves I (wr m_portcon m_portcon_update a f26)"
      "\<And>a f27. preserves I (wr m_genfscon m_genfscon_update a f27)"
      "\<And>a f28. preserves I (wr m_nodecon m_nodecon_update a f28)"
      "\<And>a f29. preserves I (wr m_netifcon m_netifcon_update a f29)"
      "\<And>a f30. preserves I (wr m_pirqcon m_pirqcon_update a f30)"
      "\<And>a f31. preserves I (wr m_iomemcon m_iomemcon_update a f31)"
      "\<And>a f32. preserves I (wr m_ioportcon m_ioportcon_update a f32)"
      "\<And>a f33. preserves I (wr m_pcidevicecon m_pcidevicecon_update a f33)"
      "\<And>a f34. preserves I (wr m_fsuse m_fsuse_update a f34)"
      "\<And>a f35. preserves I (wr m_sidcontext m_sidcontext_update a f35)"
      "\<And>a f36. preserves I (wr m_sid m_sid_update a f36)"
      "\<And>a f37. preserves I (wr m_role m_role_update a f37)"
      "\<And>a f38. preserves I (wr m_default m_default_update a f38)"
      "\<And>a f39. preserves I (wr m_defaultrange m_defaultrange_update a f39)"
      "\<And>a f40. preserves I (wr m_booleanif m_booleanif_update a f40)"
      "\<And>a d. preserves I (wr m_type_rule m_type_rule_update a (type_rule_src_update (\<lambda>_. d)))"
      "\<And>a d. preserves I (wr m_type_rule m_type_rule_update a (type_rule_tgt_update (\<lambda>_. d)))"
      "\<And>a d. preserves I (wr m_type_rule m_type_rule_update a (type_rule_obj_update (\<lambda>_. d)))"
      "\<And>a d. preserves I (wr m_roletransition m_roletransition_update a (roletransition_src_update (\<lambda>_. d)))"
      "\<And>a d. preserves I (wr m_roletransition m_roletransition_update a (roletransition_tgt_update (\<lambda>_. d)))"
      "\<And>a d. preserves I (wr m_roletransition m_roletransition_update a (roletransition_obj_update (\<lambda>_. d)))"
      "\<And>a d. preserves I (wr m_context m_context_update a (context_user_update (\<lambda>_. d)))"
      "\<And>a d. preserves I (wr m_context m_context_update a (context_role_update (\<lambda>_. d)))"
      "\<And>a d. preserves I (wr m_context m_context_update a (context_range_update (\<lambda>_. d)))"
    and tested_writes: "\<And>a d f. f = CIL_TYPE \<Longrightarrow>
      leads (\<lambda>s. I s \<and> FLAVOR s d = Ok f) (wr m_type_rule m_type_rule_update a (type_rule_result_update (\<lambda>_. d))) I"
      "\<And>a d f. f = CIL_ROLE \<Longrightarrow>
      leads (\<lambda>s. I s \<and> FLAVOR s d = Ok f) (wr m_roletransition m_roletransition_update a (roletransition_result_update (\<lambda>_. d))) I"
      "\<And>a d f. f = CIL_TYPE \<or> f = CIL_TYPEALIAS \<Longrightarrow>
      leads (\<lambda>s. I s \<and> FLAVOR s d = Ok f) (wr m_typepermissive m_typepermissive_update a (typepermissive_type_update (\<lambda>_. d))) I"
      "\<And>a d f. f = CIL_TYPE \<or> f = CIL_TYPEALIAS \<Longrightarrow>
      leads (\<lambda>s. I s \<and> FLAVOR s d = Ok f) (wr m_context m_context_update a (context_type_update (\<lambda>_. d))) I"
      "\<And>a d f. f \<noteq> CIL_TYPEATTRIBUTE \<Longrightarrow>
      leads (\<lambda>s. I s \<and> FLAVOR s d = Ok f) (wr m_type m_type_update a (type_bounds_update (\<lambda>_. d))) I"
begin

lemmas [stmt_pres] = writes

lemma type_used_pres [stmt_pres]: "preserves I (cil_type_used d)"
  unfolding cil_type_used_def by (intro stmt_pres)

lemma classperms_pres [stmt_pres]: "preserves I (cil_resolve_classperms L fuel n cp)"
  unfolding cil_resolve_classperms_def by (intro stmt_pres)

lemma classperms_list_pres [stmt_pres]:
  "preserves I (cil_resolve_classperms_set L fuel n cp)"
  "preserves I (cil_resolve_classperms_list L fuel n items)"
  by (induction L fuel n cp and L fuel n items rule: cil_resolve_classperms_set_cil_resolve_classperms_list.induct)
    (simp_all only: cil_resolve_classperms_set.simps cil_resolve_classperms_list.simps preserves_no_fuel,
      (intro stmt_pres; assumption)+)

lemma expr_items_pres [stmt_pres]: "preserves I (resolve_expr_items L fuel ty n idx items)"
proof (induction L fuel ty n idx items rule: resolve_expr_items.induct)
qed (unfold resolve_expr_items.simps; intro stmt_pres; (assumption | blast))+

lemma expr_pres [stmt_pres]: "preserves I (cil_resolve_expr L fuel ty e n)"
  unfolding cil_resolve_expr_def by (intro stmt_pres)

lemma symtab_map_pres [stmt_pres]:
  "(\<And>k d. preserves I (g k d)) \<Longrightarrow> preserves I (cil_symtab_map L tab g)"
  unfolding cil_symtab_map_def by (intro stmt_pres)

lemma perm_values_pres [stmt_pres]: "preserves I (class_update_perm_values v k d)"
  unfolding class_update_perm_values_def by (intro stmt_pres)

lemma names_pres [stmt_pres]: "preserves I (resolve_names L fuel n idx strs)"
  by (induction strs) (unfold resolve_names.simps, (intro stmt_pres; assumption)+)

lemma cats_pres [stmt_pres]: "preserves I (cil_resolve_cats L fuel n c)"
  unfolding cil_resolve_cats_def by (intro stmt_pres)

lemma catset_pres [stmt_pres]: "preserves I (cil_resolve_catset L fuel n c)"
  unfolding cil_resolve_catset_def by (intro stmt_pres)

lemma senscat_pres [stmt_pres]: "preserves I (cil_resolve_senscat L fuel n)"
  unfolding cil_resolve_senscat_def by (intro stmt_pres)

lemma level_pres [stmt_pres]: "preserves I (cil_resolve_level L fuel n l)"
  unfolding cil_resolve_level_def by (intro stmt_pres)

lemma part_pres [stmt_pres]:
  "(\<And>d. preserves I (store d)) \<Longrightarrow> (\<And>a. preserves I (g a)) \<Longrightarrow>
   preserves I (resolve_part L fuel n i str p store g)"
  unfolding resolve_part_def by (intro stmt_pres)

lemma levelrange_pres [stmt_pres]: "preserves I (cil_resolve_levelrange L fuel n l)"
  unfolding cil_resolve_levelrange_def by (intro stmt_pres)

lemma context_pres [stmt_pres]: "preserves I (cil_resolve_context L fuel n c)"
  unfolding cil_resolve_context_def
  by (intro preserves_flavor_test leads_if leads_bind leads_fail tested_writes stmt_pres) blast

lemma con_pres [stmt_pres]:
  "(\<And>d. preserves I (store d)) \<Longrightarrow> preserves I (resolve_con L fuel n str c store)"
  unfolding resolve_con_def by (intro stmt_pres)

lemma bounds_pres [stmt_pres]: "preserves I (cil_resolve_bounds L fuel n f)"
  unfolding cil_resolve_bounds_def
  by (intro preserves_flavor_test leads_if leads_flavor leads_fail tested_writes stmt_pres)

lemma tested_pres [stmt_pres]:
  "preserves I (cil_resolve_type_rule L fuel n)"
  "preserves I (cil_resolve_roletransition L fuel n)"
  "preserves I (cil_resolve_typepermissive L fuel n)"
  unfolding cil_resolve_type_rule_def cil_resolve_roletransition_def cil_resolve_typepermissive_def
  by ((intro preserves_flavor_test leads_if leads_fail tested_writes stmt_pres; blast)+)

lemma classpermissionset_pres [stmt_pres]: "preserves I (cil_resolve_classpermissionset L fuel n c)"
  unfolding cil_resolve_classpermissionset_def by (intro stmt_pres)

lemma statement_pres [stmt_pres]:
  "preserves I (cil_resolve_classmapping L fuel n)"
  "preserves I (cil_resolve_classcommon L fuel n)"
  "preserves I (cil_resolve_avrule L fuel n)"
  "preserves I (cil_resolve_typeattributeset L fuel n)"
  "preserves I (cil_resolve_rangetransition L fuel n)"
  "preserves I (cil_resolve_userrole L fuel n)"
  "preserves I (cil_resolve_userlevel L fuel n)"
  "preserves I (cil_resolve_userrange L fuel n)"
  "preserves I (cil_resolve_userprefix L fuel n)"
  "preserves I (cil_resolve_selinuxuser L fuel n)"
  "preserves I (cil_resolve_roletype L fuel n)"
  "preserves I (cil_resolve_roleallow L fuel n)"
  "preserves I (cil_resolve_roleattributeset L fuel n)"
  "preserves I (cil_resolve_constrain L fuel n)"
  "preserves I (cil_resolve_validatetrans L fuel n)"
  "preserves I (cil_resolve_filecon L fuel n)"
  "preserves I (cil_resolve_portcon L fuel n)"
  "preserves I (cil_resolve_genfscon L fuel n)"
  "preserves I (cil_resolve_nodecon L fuel n)"
  "preserves I (cil_resolve_netifcon L fuel n)"
  "preserves I (cil_resolve_pirqcon L fuel n)"
  "preserves I (cil_resolve_iomemcon L fuel n)"
  "preserves I (cil_resolve_ioportcon L fuel n)"
  "preserves I (cil_resolve_pcidevicecon L fuel n)"
  "preserves I (cil_resolve_fsuse L fuel n)"
  "preserves I (cil_resolve_sidcontext L fuel n)"
  "preserves I (cil_resolve_default L fuel n)"
  "preserves I (cil_resolve_defaultrange L fuel n)"
  "preserves I (cil_resolve_boolif L fuel n)"
  unfolding cil_resolve_classmapping_def cil_resolve_classcommon_def cil_resolve_avrule_def
    cil_resolve_typeattributeset_def cil_resolve_rangetransition_def cil_resolve_userrole_def
    cil_resolve_userlevel_def cil_resolve_userrange_def cil_resolve_userprefix_def
    cil_resolve_selinuxuser_def cil_resolve_roletype_def cil_resolve_roleallow_def
    cil_resolve_roleattributeset_def cil_resolve_constrain_def cil_resolve_validatetrans_def
    cil_resolve_filecon_def cil_resolve_portcon_def cil_resolve_genfscon_def cil_resolve_nodecon_def
    cil_resolve_netifcon_def cil_resolve_pirqcon_def cil_resolve_iomemcon_def cil_resolve_ioportcon_def
    cil_resolve_pcidevicecon_def cil_resolve_fsuse_def cil_resolve_sidcontext_def cil_resolve_default_def
    cil_resolve_defaultrange_def cil_resolve_boolif_def
  by (intro stmt_pres)+

text \<open>A node of the passes for categories, the second and the third for statements; the statement that may
  declare a name is left out.\<close>

lemma late_pass_pres:
  "preserves I (resolve_mls L fuel n)"
  "preserves I (resolve_misc2 L fuel n)"
  unfolding resolve_mls_def resolve_misc2_def by (intro stmt_pres)+

lemma misc3_pres:
  assumes "node_flavor nd \<noteq> CIL_NAMETYPETRANSITION"
  shows "preserves I (misc3_action L fuel nn n nd)"
proof -
  have "(node_flavor nd = CIL_NAMETYPETRANSITION) = False" using assms by simp
  then show ?thesis
    unfolding misc3_action_def Let_def
    by (simp only: if_False) (intro stmt_pres)
qed

end

subsection \<open>Names and kinds of objects\<close>

lemma preserves_wr_always: "(\<And>m s. I s \<Longrightarrow> I (upd m s)) \<Longrightarrow> preserves I (wr sel upd a f)"
  by (auto simp: preserves_def wr_def split: option.split)

lemma leads_wr_always: "(\<And>m s. I s \<Longrightarrow> I (upd m s)) \<Longrightarrow> leads (\<lambda>s. I s \<and> P s) (wr sel upd a f) I"
  by (auto simp: leads_def wr_def split: option.split)

interpretation naming: statement_frame "same_names s0" for s0
  by unfold_locales (rule preserves_wr_always leads_wr_always; simp add: same_names_def)+

text \<open>The objects that later passes read without a test of their flavor: the result of a type rule is a type, that
  of a role transition a role, the result of a transition by name and the type of a context or of a
  \<open>typepermissive\<close> a type or an alias of one, and no type is bounded by an attribute.\<close>

definition of_kind :: "('h, 'b, 'z) cil_store_scheme \<Rightarrow> (cil_flavor \<Rightarrow> bool) \<Rightarrow> addr option \<Rightarrow> bool" where
  "of_kind s K d \<longleftrightarrow> d = None \<or> (\<exists>f. FLAVOR s d = Ok f \<and> K f)"

definition kinds_ok :: "('h, 'b, 'z) cil_store_scheme \<Rightarrow> bool" where
  "kinds_ok s \<longleftrightarrow>
     (\<forall>a r. m_type_rule s a = Some r \<longrightarrow> of_kind s (\<lambda>f. f = CIL_TYPE) (type_rule_result r)) \<and>
     (\<forall>a r. m_roletransition s a = Some r \<longrightarrow> of_kind s (\<lambda>f. f = CIL_ROLE) (roletransition_result r)) \<and>
     (\<forall>a r. m_nametypetransition s a = Some r \<longrightarrow>
        of_kind s (\<lambda>f. f = CIL_TYPE \<or> f = CIL_TYPEALIAS) (nametypetransition_result r)) \<and>
     (\<forall>a r. m_typepermissive s a = Some r \<longrightarrow>
        of_kind s (\<lambda>f. f = CIL_TYPE \<or> f = CIL_TYPEALIAS) (typepermissive_type r)) \<and>
     (\<forall>a r. m_context s a = Some r \<longrightarrow> of_kind s (\<lambda>f. f = CIL_TYPE \<or> f = CIL_TYPEALIAS) (context_type r)) \<and>
     (\<forall>a r. m_type s a = Some r \<longrightarrow> of_kind s (\<lambda>f. f \<noteq> CIL_TYPEATTRIBUTE) (type_bounds r))"

lemma of_kind_update:
  "of_kind (m_typeattribute_update g1 s) = of_kind s"
  "of_kind (m_classperms_update g2 s) = of_kind s"
  "of_kind (m_classperms_set_update g3 s) = of_kind s"
  "of_kind (m_classpermission_update g4 s) = of_kind s"
  "of_kind (m_perm_update g5 s) = of_kind s"
  "of_kind (m_class_update g6 s) = of_kind s"
  "of_kind (m_avrule_update g7 s) = of_kind s"
  "of_kind (m_typeattributeset_update g8 s) = of_kind s"
  "of_kind (m_cats_update g9 s) = of_kind s"
  "of_kind (m_sens_update g10 s) = of_kind s"
  "of_kind (m_level_update g11 s) = of_kind s"
  "of_kind (m_levelrange_update g12 s) = of_kind s"
  "of_kind (m_rangetransition_update g13 s) = of_kind s"
  "of_kind (m_userrole_update g14 s) = of_kind s"
  "of_kind (m_user_update g15 s) = of_kind s"
  "of_kind (m_userlevel_update g16 s) = of_kind s"
  "of_kind (m_userrange_update g17 s) = of_kind s"
  "of_kind (m_userprefix_update g18 s) = of_kind s"
  "of_kind (m_selinuxuser_update g19 s) = of_kind s"
  "of_kind (m_roletype_update g20 s) = of_kind s"
  "of_kind (m_roleallow_update g21 s) = of_kind s"
  "of_kind (m_roleattributeset_update g22 s) = of_kind s"
  "of_kind (m_roleattribute_update g23 s) = of_kind s"
  "of_kind (m_constrain_update g24 s) = of_kind s"
  "of_kind (m_validatetrans_update g25 s) = of_kind s"
  "of_kind (m_filecon_update g26 s) = of_kind s"
  "of_kind (m_portcon_update g27 s) = of_kind s"
  "of_kind (m_genfscon_update g28 s) = of_kind s"
  "of_kind (m_nodecon_update g29 s) = of_kind s"
  "of_kind (m_netifcon_update g30 s) = of_kind s"
  "of_kind (m_pirqcon_update g31 s) = of_kind s"
  "of_kind (m_iomemcon_update g32 s) = of_kind s"
  "of_kind (m_ioportcon_update g33 s) = of_kind s"
  "of_kind (m_pcidevicecon_update g34 s) = of_kind s"
  "of_kind (m_fsuse_update g35 s) = of_kind s"
  "of_kind (m_sidcontext_update g36 s) = of_kind s"
  "of_kind (m_sid_update g37 s) = of_kind s"
  "of_kind (m_role_update g38 s) = of_kind s"
  "of_kind (m_default_update g39 s) = of_kind s"
  "of_kind (m_defaultrange_update g40 s) = of_kind s"
  "of_kind (m_booleanif_update g41 s) = of_kind s"
  "of_kind (m_type_rule_update g42 s) = of_kind s"
  "of_kind (m_roletransition_update g43 s) = of_kind s"
  "of_kind (m_context_update g44 s) = of_kind s"
  "of_kind (m_typepermissive_update g45 s) = of_kind s"
  "of_kind (m_type_update g46 s) = of_kind s"
  "of_kind (m_nametypetransition_update g47 s) = of_kind s"
  "of_kind (m_name_update g48 s) = of_kind s"
  "of_kind (names_update g49 s) = of_kind s"
  "of_kind (symtabs_update g50 s) = of_kind s"
  by (simp_all add: of_kind_def FLAVOR_def NODE_def fun_eq_iff)

lemma preserves_wr_at:
  "(\<And>s x. I s \<Longrightarrow> sel s a = Some x \<Longrightarrow> I (upd (\<lambda>m. m(a \<mapsto> f x)) s)) \<Longrightarrow> preserves I (wr sel upd a f)"
  by (auto simp: preserves_def wr_def split: option.split)

lemma leads_wr_at:
  "(\<And>s x. I s \<Longrightarrow> P s \<Longrightarrow> sel s a = Some x \<Longrightarrow> I (upd (\<lambda>m. m(a \<mapsto> f x)) s)) \<Longrightarrow>
   leads (\<lambda>s. I s \<and> P s) (wr sel upd a f) I"
  by (auto simp: leads_def wr_def split: option.split)

interpretation kinds: statement_frame "\<lambda>s. same_names s0 s \<and> kinds_ok s" for s0
proof (unfold_locales; (rule preserves_wr_at leads_wr_at))
qed (simp_all add: same_names_def kinds_ok_def of_kind_update, auto simp: of_kind_def)

lemma for_each_keeps:
  assumes "\<And>x s. x \<in> set xs \<Longrightarrow> I s \<Longrightarrow> I (snd (f x s))" and "I s"
  shows "I (snd (for_each f xs s))"
  using assms
proof (induction xs arbitrary: s)
  case (Cons x xs)
  then show ?case by (cases "f x" s "\<lambda>_ :: unit. for_each f xs" rule: bind_cases) force+
qed simp

lemma misc3_statement:
  assumes "\<And>nd. node_flavor nd \<noteq> CIL_NAMETYPETRANSITION \<Longrightarrow> preserves I (misc3_action L fuel nn n nd)"
    and "\<And>nd. nodes s n = Some nd \<Longrightarrow> node_flavor nd \<noteq> CIL_NAMETYPETRANSITION" and "I s"
  shows "I (snd (resolve_misc3 L fuel nn n s))"
  using assms by (cases "nodes s n") (auto simp: resolve_misc3_def preserves_def)

lemma statements_invariant:
  assumes "\<And>s0 nd n. node_flavor nd \<noteq> CIL_NAMETYPETRANSITION \<Longrightarrow>
      preserves (\<lambda>s. same_names s0 s \<and> J s) (misc3_action L fuel nn n nd)"
    and "\<And>n nd. n \<in> set ns \<Longrightarrow> nodes s n = Some nd \<Longrightarrow> node_flavor nd \<noteq> CIL_NAMETYPETRANSITION" and "J s"
  shows "same_names s (snd (for_each (resolve_misc3 L fuel nn) ns s)) \<and> J (snd (for_each (resolve_misc3 L fuel nn) ns s))"
proof (rule for_each_keeps [where I = "\<lambda>t. same_names s t \<and> J t"])
  fix n t assume n: "n \<in> set ns" and t: "same_names s t \<and> J t"
  show "same_names s (snd (resolve_misc3 L fuel nn n t)) \<and> J (snd (resolve_misc3 L fuel nn n t))"
    by (rule misc3_statement [where I = "\<lambda>t. same_names s t \<and> J t", OF assms(1)])
      (use n t assms(2) in \<open>auto simp: same_fields\<close>)
qed (use assms(3) in \<open>simp add: same_names_refl\<close>)

text \<open>C21. Whatever statements of the last pass are resolved before it, and in whatever order, a name stands for
  what it stood for when the pass began: a rule may come before the declarations of what it mentions. The
  statement that may declare a name, \<open>nametypetransition\<close>, is excepted.\<close>

theorem statements_keep_names:
  assumes "\<And>n nd. n \<in> set ns \<Longrightarrow> nodes s n = Some nd \<Longrightarrow> node_flavor nd \<noteq> CIL_NAMETYPETRANSITION"
  shows "cil_resolve_name L fuel' (snd (for_each (resolve_misc3 L fuel nn) ns s)) = cil_resolve_name L fuel' s"
proof -
  have "same_names s (snd (for_each (resolve_misc3 L fuel nn) ns s))"
    by (rule statements_invariant [where J = "\<lambda>_. True", simplified, OF naming.misc3_pres assms])
  then show ?thesis by (rule same_resolve_name)
qed

text \<open>The statement that may declare a name: the datum of the new name, at an address that holds none, is not what
  any of these pointers stands for.\<close>

definition avoids :: "addr \<Rightarrow> ('h, 'b, 'z) cil_store_scheme \<Rightarrow> bool" where
  "avoids nn s \<longleftrightarrow>
     (\<forall>a r. m_type_rule s a = Some r \<longrightarrow> type_rule_result r \<noteq> Some nn) \<and>
     (\<forall>a r. m_roletransition s a = Some r \<longrightarrow> roletransition_result r \<noteq> Some nn) \<and>
     (\<forall>a r. m_nametypetransition s a = Some r \<longrightarrow> nametypetransition_result r \<noteq> Some nn) \<and>
     (\<forall>a r. m_typepermissive s a = Some r \<longrightarrow> typepermissive_type r \<noteq> Some nn) \<and>
     (\<forall>a r. m_context s a = Some r \<longrightarrow> context_type r \<noteq> Some nn) \<and>
     (\<forall>a r. m_type s a = Some r \<longrightarrow> type_bounds r \<noteq> Some nn)"

lemma of_kind_free: "of_kind s K d \<Longrightarrow> datums s nn = None \<Longrightarrow> d \<noteq> Some nn"
  by (auto simp: of_kind_def FLAVOR_def NODE_def)

lemma avoids_free: "kinds_ok s \<Longrightarrow> datums s nn = None \<Longrightarrow> avoids nn s"
  unfolding kinds_ok_def avoids_def using of_kind_free by blast

lemma of_kind_datum:
  "of_kind s K d \<Longrightarrow> d \<noteq> Some nn \<Longrightarrow> of_kind (datums_update (\<lambda>m. m(nn := x)) s) K d"
  "of_kind s K d \<Longrightarrow> d \<noteq> Some nn \<Longrightarrow> of_kind (s\<lparr>datums := (datums s)(nn := x)\<rparr>) K d"
  by (cases d; auto simp: of_kind_def FLAVOR_def NODE_def)+

lemma kinds_datum:
  assumes "kinds_ok s" and "avoids nn s"
  shows "kinds_ok (datums_update (\<lambda>m. m(nn := x)) s)" and "kinds_ok (s\<lparr>datums := (datums s)(nn := x)\<rparr>)"
  using assms by (auto simp: kinds_ok_def avoids_def intro: of_kind_datum)

definition kinds_frame :: "addr \<Rightarrow> ('h, 'b, 'z) cil_store_scheme \<Rightarrow> ('h, 'b, 'z) cil_store_scheme \<Rightarrow> bool" where
  "kinds_frame nn s t \<longleftrightarrow> nodes t = nodes s \<and> (\<forall>a. a \<noteq> nn \<longrightarrow> datums t a = datums s a) \<and> kinds_ok t"

definition kinds_before :: "addr \<Rightarrow> ('h, 'b, 'z) cil_store_scheme \<Rightarrow> ('h, 'b, 'z) cil_store_scheme \<Rightarrow> bool" where
  "kinds_before nn s t \<longleftrightarrow> kinds_frame nn s t \<and> avoids nn t"

lemma before_datum:
  assumes "kinds_before nn s t"
  shows "kinds_before nn s (datums_update (\<lambda>m. m(nn := x)) t)" and "kinds_before nn s (t\<lparr>datums := (datums t)(nn := x)\<rparr>)"
  using assms kinds_datum [of t nn x] by (simp_all add: kinds_before_def kinds_frame_def avoids_def)

lemma before_updates:
  "kinds_before nn s t \<Longrightarrow> kinds_before nn s (m_name_update g1 t)"
  "kinds_before nn s t \<Longrightarrow> kinds_before nn s (names_update g2 t)"
  "kinds_before nn s t \<Longrightarrow> kinds_before nn s (symtabs_update g3 t)"
  "kinds_before nn s t \<Longrightarrow> kinds_before nn s (m_typeattribute_update g4 t)"
  "kinds_frame nn s t \<Longrightarrow> kinds_frame nn s (m_typeattribute_update g4 t)"
  by (simp_all add: kinds_before_def kinds_frame_def kinds_ok_def avoids_def of_kind_update)

lemma nametype_write:
  "(\<And>x. nametypetransition_result (f x) = nametypetransition_result x) \<Longrightarrow>
   preserves (kinds_before nn s) (wr m_nametypetransition m_nametypetransition_update a f)"
  "(\<And>x. nametypetransition_result (f x) = nametypetransition_result x) \<Longrightarrow>
   preserves (kinds_frame nn s) (wr m_nametypetransition m_nametypetransition_update a f)"
  by (rule preserves_wr_at; auto simp: kinds_before_def kinds_frame_def kinds_ok_def avoids_def of_kind_update
    split: if_splits)+

lemma preserves_case_rc:
  "preserves I m \<Longrightarrow> preserves I n \<Longrightarrow> preserves I (case rc of SEPOL_EEXIST \<Rightarrow> m | _ \<Rightarrow> n)"
  by (cases rc) simp_all

lemma insert_name_kinds: "preserves (kinds_before nn s) (cil_insert_name L nn key n)"
  unfolding cil_insert_name_def cil_symtab_datum_init_def cil_symtab_insert_def append_node_def cil_symtab_error_def Let_def
  by (intro stmt_pres preserves_case_rc preserves_modify preserves_wr_at before_updates before_datum) assumption+

lemma leads_after: "preserves J m \<Longrightarrow> (\<And>s. J s \<Longrightarrow> I s) \<Longrightarrow> (\<And>x. leads J (k x) I) \<Longrightarrow> leads J (bind m k) I"
  by (auto simp: leads_def preserves_def bind_def split: prod.splits outcome.splits)

lemma leads_preserves: "preserves I m \<Longrightarrow> (\<And>s. J s \<Longrightarrow> I s) \<Longrightarrow> leads J m I"
  by (auto simp: leads_def preserves_def)

lemma nametype_kinds: "leads (kinds_before nn s) (cil_resolve_nametypetransition L fuel nn n) (kinds_frame nn s)"
proof -
  have le: "kinds_before nn s t \<Longrightarrow> kinds_frame nn s t" for t by (simp add: kinds_before_def)
  have used: "preserves (kinds_before nn s) (cil_type_used d)" "preserves (kinds_frame nn s) (cil_type_used d)" for d
    unfolding cil_type_used_def by (intro stmt_pres preserves_wr_at before_updates; assumption)+
  have result: "leads (\<lambda>t. kinds_before nn s t \<and> FLAVOR t d = Ok f)
      (wr m_nametypetransition m_nametypetransition_update a (nametypetransition_result_update (\<lambda>_. d))) (kinds_frame nn s)"
    if "f = CIL_TYPE \<or> f = CIL_TYPEALIAS" for d a f
  proof -
    have "kinds_frame nn s (m_nametypetransition_update (\<lambda>m. m(a \<mapsto> nametypetransition_result_update (\<lambda>_. d) x)) t)"
      if "kinds_frame nn s t" and "FLAVOR t d = Ok f" for t x
      using that \<open>f = CIL_TYPE \<or> f = CIL_TYPEALIAS\<close>
      by (simp add: kinds_frame_def kinds_ok_def of_kind_update) (auto simp: of_kind_def)
    with le show ?thesis by (auto simp: leads_def wr_def split: option.split)
  qed
  have test: "leads (kinds_before nn s) (bind (flavor_of d) (\<lambda>f.
      if f \<noteq> CIL_TYPE \<and> f \<noteq> CIL_TYPEALIAS then fail SEPOL_ERR
      else wr m_nametypetransition m_nametypetransition_update a (nametypetransition_result_update (\<lambda>_. d)))) (kinds_frame nn s)"
    for d a
    using result [of _ d a] le
    by (auto simp: leads_def flavor_of_def bind_def split: outcome.split)
  show ?thesis
    unfolding cil_resolve_nametypetransition_def
    by (rule leads_after, rule stmt_pres, erule le)+
      (intro leads_after le stmt_pres used nametype_write insert_name_kinds test; simp)
qed

lemma misc3_kinds:
  assumes "kinds_ok s" and "datums s nn = None"
  shows "kinds_frame nn s (snd (resolve_misc3 L fuel nn n s))"
proof (cases "nodes s n")
  case None
  then show ?thesis using assms by (simp add: resolve_misc3_def kinds_frame_def)
next
  case (Some nd)
  show ?thesis
  proof (cases "node_flavor nd = CIL_NAMETYPETRANSITION")
    case True
    have "kinds_before nn s s" using assms avoids_free by (simp add: kinds_before_def kinds_frame_def)
    with nametype_kinds [of nn s L fuel n] have "kinds_frame nn s (snd (cil_resolve_nametypetransition L fuel nn n s))"
      by (simp add: leads_def)
    with True Some show ?thesis by (simp add: resolve_misc3_def misc3_action_def)
  next
    case False
    from kinds.misc3_pres [OF this, of s L fuel nn n] assms(1) Some show ?thesis
      by (auto simp: resolve_misc3_def preserves_def kinds_frame_def same_names_def)
  qed
qed

text \<open>C22. The resolution of any sequence of statements of the last pass is well typed: the result of a type rule is a
  type and not an attribute or an alias, that of a transition by name a type or an alias of one, that of a role
  transition a role, the type of a context or of a \<open>typepermissive\<close> a type or an alias of one, and no type is bounded
  by an attribute. Each statement comes with the address that \<open>cil_name_init\<close> is to return when it declares a name;
  these hold no object yet.\<close>

theorem resolution_keeps_kinds:
  assumes "kinds_ok s" and "distinct (map fst ps)" and "\<forall>p \<in> set ps. datums s (fst p) = None"
  shows "kinds_ok (snd (for_each (\<lambda>(nn, n). resolve_misc3 L fuel nn n) ps s))"
  using assms
proof (induction ps arbitrary: s)
  case (Cons p ps)
  obtain nn n where p: "p = (nn, n)" by (cases p)
  let ?t = "snd (resolve_misc3 L fuel nn n s)"
  have f: "kinds_frame nn s ?t" by (rule misc3_kinds) (use Cons.prems p in auto)
  have "kinds_ok (snd (for_each (\<lambda>(nn, n). resolve_misc3 L fuel nn n) ps ?t))"
  proof (rule Cons.IH)
    show "\<forall>q \<in> set ps. datums ?t (fst q) = None"
    proof
      fix q assume q: "q \<in> set ps"
      then have "fst q \<noteq> nn" using Cons.prems(2) p by force
      with f q Cons.prems(3) show "datums ?t (fst q) = None" by (simp add: kinds_frame_def)
    qed
  qed (use f Cons.prems in \<open>auto simp: kinds_frame_def\<close>)
  with f show ?case
    unfolding p by (cases "resolve_misc3 L fuel nn n s") (auto simp: bind_def kinds_frame_def split: outcome.split)
qed simp

subsection \<open>What a statement is resolved to\<close>

text \<open>\<open>cil_type_used\<close> marks attributes and nothing else.\<close>

definition marks_used :: "('h, 'b, 'z) cil_store_scheme \<Rightarrow> addr option \<Rightarrow> ('h, 'b, 'z) cil_store_scheme \<Rightarrow> bool" where
  "marks_used s d t \<longleftrightarrow> (\<exists>f. FLAVOR s d = Ok f \<and>
     (if f = CIL_TYPEATTRIBUTE then \<exists>a x. d = Some a \<and> m_typeattribute s a = Some x \<and>
        t = s\<lparr>m_typeattribute := (m_typeattribute s)(a \<mapsto> x\<lparr>typeattribute_used := True\<rparr>)\<rparr>
      else t = s))"

lemma type_used_Ok: "cil_type_used d s = (Ok (), t) \<longleftrightarrow> marks_used s d t"
  by (cases "FLAVOR s d") (auto simp: cil_type_used_def marks_used_def flavor_of_def pointer_def bind_eq_Ok wr_eq_Ok
    fun_upd_def)

lemma marks_used_same: "marks_used s d t \<Longrightarrow> same_names s t \<and> m_type_rule t = m_type_rule s"
  by (auto simp: marks_used_def same_names_def split: if_splits)

definition is_marked :: "('h, 'b, 'z) cil_store_scheme \<Rightarrow> addr option \<Rightarrow> bool" where
  "is_marked s d \<longleftrightarrow> (\<exists>a x. d = Some a \<and> m_typeattribute s a = Some x \<and> typeattribute_used x)"

lemma marks_used_marked: "marks_used s d t \<Longrightarrow> FLAVOR s d = Ok CIL_TYPEATTRIBUTE \<Longrightarrow> is_marked t d"
  by (auto simp: marks_used_def is_marked_def)

lemma marks_used_keeps: "marks_used s d t \<Longrightarrow> is_marked s e \<Longrightarrow> is_marked t e"
  by (auto simp: marks_used_def is_marked_def split: if_splits)

lemma wr_same_rule: "wr m_type_rule m_type_rule_update a g s = (Ok (), t) \<Longrightarrow> same_names s t"
  by (auto simp: wr_eq_Ok same_names_def)

text \<open>C20. The resolution of a type rule stores in the rule what its four names stood for before it, in this order:
  the source, the target, the class and a result that is a type; it changes no other rule, and marks the
  attributes among source and target as used.\<close>

theorem type_rule_resolved:
  assumes "cil_resolve_type_rule L fuel n s = (Ok (), t)"
  shows "\<exists>nd a x src tgt obj res. nodes s n = Some nd \<and> node_data nd = Some a \<and> m_type_rule s a = Some x \<and>
    cil_resolve_name L fuel s n (type_rule_src_str x) CIL_SYM_TYPES = Ok src \<and>
    cil_resolve_name L fuel s n (type_rule_tgt_str x) CIL_SYM_TYPES = Ok tgt \<and>
    cil_resolve_name L fuel s n (type_rule_obj_str x) CIL_SYM_CLASSES = Ok obj \<and>
    cil_resolve_name L fuel s n (type_rule_result_str x) CIL_SYM_TYPES = Ok res \<and> FLAVOR s res = Ok CIL_TYPE \<and>
    m_type_rule t = (m_type_rule s)(a \<mapsto> x\<lparr>type_rule_src := src, type_rule_tgt := tgt, type_rule_obj := obj,
      type_rule_result := res\<rparr>) \<and> same_names s t \<and>
    (\<forall>d. d = src \<or> d = tgt \<longrightarrow> FLAVOR s d = Ok CIL_TYPEATTRIBUTE \<longrightarrow> is_marked t d)"
proof -
  from assms obtain nd a x src tgt obj res s1 s2 s3 s4 s5
    where a: "nodes s n = Some nd" "node_data nd = Some a" "m_type_rule s a = Some x"
    and src: "cil_resolve_name L fuel s n (type_rule_src_str x) CIL_SYM_TYPES = Ok src"
    and s1: "wr m_type_rule m_type_rule_update a (type_rule_src_update (\<lambda>_. src)) s = (Ok (), s1)"
    and s2: "marks_used s1 src s2"
    and tgt: "cil_resolve_name L fuel s2 n (type_rule_tgt_str x) CIL_SYM_TYPES = Ok tgt"
    and s3: "wr m_type_rule m_type_rule_update a (type_rule_tgt_update (\<lambda>_. tgt)) s2 = (Ok (), s3)"
    and s4: "marks_used s3 tgt s4"
    and obj: "cil_resolve_name L fuel s4 n (type_rule_obj_str x) CIL_SYM_CLASSES = Ok obj"
    and s5: "wr m_type_rule m_type_rule_update a (type_rule_obj_update (\<lambda>_. obj)) s4 = (Ok (), s5)"
    and res: "cil_resolve_name L fuel s5 n (type_rule_result_str x) CIL_SYM_TYPES = Ok res" "FLAVOR s5 res = Ok CIL_TYPE"
    and t: "wr m_type_rule m_type_rule_update a (type_rule_result_update (\<lambda>_. res)) s5 = (Ok (), t)"
    unfolding cil_resolve_type_rule_def node_object_def resolve_def flavor_of_def
    by (auto simp: bind_eq_Ok rd_eq_Ok type_used_Ok simp del: wr_apply split: if_splits)
  note same1 = wr_same_rule [OF s1]
  note same2 = same_names_trans [OF same1 marks_used_same [OF s2, THEN conjunct1]]
  note same3 = same_names_trans [OF same2 wr_same_rule [OF s3]]
  note same4 = same_names_trans [OF same3 marks_used_same [OF s4, THEN conjunct1]]
  note same5 = same_names_trans [OF same4 wr_same_rule [OF s5]]
  note same6 = same_names_trans [OF same5 wr_same_rule [OF t]]
  have rules: "m_type_rule t = (m_type_rule s)(a \<mapsto> x\<lparr>type_rule_src := src, type_rule_tgt := tgt, type_rule_obj := obj,
      type_rule_result := res\<rparr>)"
    using a s1 s3 s5 t marks_used_same [OF s2] marks_used_same [OF s4] by (auto simp: wr_eq_Ok fun_upd_def)
  have attrs: "m_typeattribute t = m_typeattribute s4"
    using s5 t by (auto simp: wr_eq_Ok)
  have marked: "is_marked t d" if "d = src \<or> d = tgt" "FLAVOR s d = Ok CIL_TYPEATTRIBUTE" for d
    using that marks_used_marked [OF s2] marks_used_marked [OF s4] marks_used_keeps [OF s4, of d] s3
    by (auto simp: same_FLAVOR [OF same1] same_FLAVOR [OF same3] is_marked_def attrs wr_eq_Ok)
  show ?thesis
    using a src tgt obj res rules same6 marked
    by (auto simp: same_resolve_name [OF same2] same_resolve_name [OF same4] same_resolve_name [OF same5]
      same_FLAVOR [OF same5])
qed

subsection \<open>An example\<close>

text \<open>A policy with a type, an attribute, a class and a type rule at the root.\<close>

definition rule_db :: "((string \<times> addr) list, nat list) cil_store" where
  "rule_db = store0\<lparr>ast_root := Some 1,
     nodes := [1 \<mapsto> name_node CIL_ROOT (Some 100) None, 2 \<mapsto> name_node CIL_TYPE (Some 120) (Some 1),
       3 \<mapsto> name_node CIL_CLASS (Some 121) (Some 1), 4 \<mapsto> name_node CIL_TYPEATTRIBUTE (Some 122) (Some 1),
       5 \<mapsto> name_node CIL_TYPE_RULE (Some 160) (Some 1)],
     datums := [120 \<mapsto> name_datum ''t'' (SymArray 100 3) 2, 121 \<mapsto> name_datum ''c'' (SymArray 100 5) 3,
       122 \<mapsto> name_datum ''a'' (SymArray 100 3) 4],
     symtabs := [SymArray 100 3 \<mapsto> [(''t'', 120), (''a'', 122)], SymArray 100 5 \<mapsto> [(''c'', 121)]],
     m_typeattribute := [122 \<mapsto> \<lparr>typeattribute_expr_list = None, typeattribute_types = None,
       typeattribute_used = False\<rparr>],
     m_type_rule := [160 \<mapsto> \<lparr>type_rule_rule_kind = 16, type_rule_src_str = Some ''a'', type_rule_src = None,
       type_rule_tgt_str = Some ''t'', type_rule_tgt = None, type_rule_obj_str = Some ''c'', type_rule_obj = None,
       type_rule_result_str = Some ''t'', type_rule_result = None\<rparr>]\<rparr>"

lemmas rule_db_simps = rule_db_def name_node_def name_datum_def sepol0_def

lemma rule_db_names:
  "cil_resolve_name sepol0 3 rule_db 5 (Some ''a'') CIL_SYM_TYPES = Ok (Some 122)"
  "cil_resolve_name sepol0 3 rule_db 5 (Some ''t'') CIL_SYM_TYPES = Ok (Some 120)"
  "cil_resolve_name sepol0 3 rule_db 5 (Some ''c'') CIL_SYM_CLASSES = Ok (Some 121)"
  by (simp_all add: rule_db_simps cil_resolve_name_def cil_resolve_name_helper_def cil_resolve_name_with_parents_def
    cil_resolve_name_with_root_def eval_nat_numeral table_search_def cil_symtab_get_datum_def symtab_of_def orelse_def
    skip_alias_def FLAVOR_def NODE_def Let_def)

lemma updated_names:
  "cil_resolve_name L fuel (m_type_rule_update g1 s) = cil_resolve_name L fuel s"
  "cil_resolve_name L fuel (m_typeattribute_update g2 s) = cil_resolve_name L fuel s"
  by (rule same_resolve_name; simp add: same_names_def)+

lemma updated_FLAVOR:
  "FLAVOR (m_type_rule_update g1 s) = FLAVOR s"
  "FLAVOR (m_typeattribute_update g2 s) = FLAVOR s"
  by (rule same_FLAVOR; simp add: same_names_def)+

lemma rule_db_fields:
  "nodes rule_db 5 = Some (name_node CIL_TYPE_RULE (Some 160) (Some 1))"
  "m_type_rule rule_db 160 = Some \<lparr>type_rule_rule_kind = 16, type_rule_src_str = Some ''a'', type_rule_src = None,
     type_rule_tgt_str = Some ''t'', type_rule_tgt = None, type_rule_obj_str = Some ''c'', type_rule_obj = None,
     type_rule_result_str = Some ''t'', type_rule_result = None\<rparr>"
  "FLAVOR rule_db (Some 120) = Ok CIL_TYPE" "FLAVOR rule_db (Some 122) = Ok CIL_TYPEATTRIBUTE"
  "m_typeattribute rule_db 122 = Some \<lparr>typeattribute_expr_list = None, typeattribute_types = None,
     typeattribute_used = False\<rparr>"
  by (simp_all add: rule_db_simps FLAVOR_def NODE_def)

lemma rule_db_runs: "fst (cil_resolve_type_rule sepol0 3 5 rule_db) = Ok ()"
  by (simp add: cil_resolve_type_rule_def node_object_def resolve_def flavor_of_def cil_type_used_def pointer_def
    rule_db_fields rule_db_names updated_names updated_FLAVOR name_node_def)

theorem type_rule_resolved_witness:
  "\<exists>x. m_type_rule (snd (cil_resolve_type_rule sepol0 3 5 rule_db)) 160 = Some x \<and> type_rule_src x = Some 122 \<and>
     type_rule_tgt x = Some 120 \<and> type_rule_obj x = Some 121 \<and> type_rule_result x = Some 120 \<and>
     is_marked (snd (cil_resolve_type_rule sepol0 3 5 rule_db)) (Some 122)"
proof -
  have "cil_resolve_type_rule sepol0 3 5 rule_db = (Ok (), snd (cil_resolve_type_rule sepol0 3 5 rule_db))"
    using rule_db_runs by (simp add: prod_eq_iff)
  from type_rule_resolved [OF this] show ?thesis
    by (auto simp: rule_db_fields rule_db_names name_node_def)
qed

lemma rule_db_statements:
  "n \<in> set [5, 5] \<Longrightarrow> nodes rule_db n = Some nd \<Longrightarrow> node_flavor nd \<noteq> CIL_NAMETYPETRANSITION"
  by (auto simp: rule_db_fields name_node_def)

theorem statements_keep_names_witness:
  "cil_resolve_name sepol0 3 (snd (for_each (resolve_misc3 sepol0 3 9) [5, 5] rule_db)) 5 (Some ''t'') CIL_SYM_TYPES
     = Ok (Some 120)"
proof -
  have "cil_resolve_name sepol0 3 (snd (for_each (resolve_misc3 sepol0 3 9) [5, 5] rule_db)) =
      cil_resolve_name sepol0 3 rule_db"
    by (rule statements_keep_names) (rule rule_db_statements)
  then show ?thesis by (simp add: rule_db_names)
qed

text \<open>The same policy with a transition by name, whose name is not declared yet.\<close>

definition name_db :: "((string \<times> addr) list, nat list) cil_store" where
  "name_db = rule_db\<lparr>nodes := (nodes rule_db)(6 \<mapsto> name_node CIL_NAMETYPETRANSITION (Some 161) (Some 1)),
     symtabs := (symtabs rule_db)(SymArray 100 (sym_num CIL_SYM_NAMES) \<mapsto> []),
     m_nametypetransition := [161 \<mapsto> \<lparr>nametypetransition_src_str = Some ''t'', nametypetransition_src = None,
       nametypetransition_tgt_str = Some ''t'', nametypetransition_tgt = None, nametypetransition_obj_str = Some ''c'',
       nametypetransition_obj = None, nametypetransition_name_str = Some ''f'', nametypetransition_name = None,
       nametypetransition_result_str = Some ''t'', nametypetransition_result = None\<rparr>]\<rparr>"

theorem resolution_keeps_kinds_witness:
  "kinds_ok (snd (for_each (\<lambda>(nn, n). resolve_misc3 sepol0 3 nn n) [(9, 5), (10, 6)] name_db))"
proof (rule resolution_keeps_kinds)
  show "kinds_ok name_db" by (simp add: kinds_ok_def of_kind_def name_db_def rule_db_def)
qed (simp_all add: name_db_def rule_db_def)

end
