(* ===== verification/Cil_Resolve_Expr.thy ===== *)
theory Cil_Resolve_Expr
  imports Cil_Resolve_Pass
begin

text \<open>
  What the resolution makes of an expression (\<open>cil_resolve_expr\<close> of \<open>src/cil_resolve_ast.c\<close>), and the value of
  a tunable expression (\<open>cil_evaluate_tunable_expr\<close>) as that of a boolean formula.
\<close>

subsection \<open>Resolved expressions\<close>

declare list.rel_cong [fundef_cong]

fun stands_for ::
  "(cil_sym_index \<Rightarrow> cstring \<Rightarrow> addr option outcome) \<Rightarrow> cil_sym_index \<Rightarrow> cil_item \<Rightarrow> cil_item \<Rightarrow> bool"
where
  "stands_for look i (Item_String str) y \<longleftrightarrow> (\<exists>d. look i str = Ok (Some d) \<and> y = Item_Datum d)"
| "stands_for look i (Item_List (Cil_List f xs)) y \<longleftrightarrow>
     (\<exists>ys. y = Item_List (Cil_List f ys) \<and> list_all2 (stands_for look (expr_sym_index f)) xs ys)"
| "stands_for look i x y \<longleftrightarrow> y = x"

lemma expr_items_resolved:
  "resolve_expr_items L fuel ty n idx items s = (Ok (None, items'), t) \<Longrightarrow>
   same_names s0 s \<Longrightarrow>
   list_all2 (stands_for (\<lambda>i str. cil_resolve_name L fuel s0 n str i) idx) items items' \<and> same_names s0 t"
proof (induction L fuel ty n idx items arbitrary: s t items' rule: resolve_expr_items.induct)
  case (2 L fuel ty n idx str rest)
  have look: "cil_resolve_name L fuel s n str idx = cil_resolve_name L fuel s0 n str idx"
    using same_resolve_name [OF 2(3)] by simp
  show ?case
  proof (cases "cil_resolve_name L fuel s n str idx")
    case (Ok d)
    with 2(2) obtain u where u: "(if idx = CIL_SYM_TYPES \<and> (ty = CIL_CONSTRAIN \<or> ty = CIL_VALIDATETRANS)
          then cil_type_used d else ret ()) s = (Ok (), u)"
      and rest: "bind (pointer d) (\<lambda>d. bind (resolve_expr_items L fuel ty n idx rest)
        (\<lambda>(rc, items). ret (rc, Item_Datum d # items))) u = (Ok (None, items'), t)"
      by (auto simp: resolve_def bind_eq_Ok simp del: bind_Ok)
    have same: "same_names s0 u"
      using u 2(3) type_used_Ok [of d s u] marks_used_same [of s d u] same_names_trans [of s0 s u]
      by (auto split: if_splits)
    from rest obtain a its where a: "d = Some a" and its: "items' = Item_Datum a # its"
      and run: "resolve_expr_items L fuel ty n idx rest u = (Ok (None, its), t)"
      by (auto simp: pointer_def bind_eq_Ok)
    from 2(1) run same Ok a show ?thesis unfolding its by (simp add: look)
  qed (use 2(2) in \<open>simp_all add: resolve_def bind_def\<close>)
next
  case (3 L fuel ty n idx f sub rest)
  then show ?case by (fastforce simp: bind_eq_Ok split: option.splits)
qed (auto simp: bind_eq_Ok)

lemma expr_items_complete:
  assumes "ty \<noteq> CIL_CONSTRAIN" and "ty \<noteq> CIL_VALIDATETRANS"
    and "list_all2 (stands_for (\<lambda>i str. cil_resolve_name L fuel s n str i) idx) items items'"
  shows "resolve_expr_items L fuel ty n idx items s = (Ok (None, items'), s)"
  using assms
  by (induction L fuel ty n idx items arbitrary: items' rule: resolve_expr_items.induct)
    (auto simp: list_all2_Cons1 resolve_def pointer_def)

text \<open>The expressions of constraints mark the attributes they mention as used.\<close>

definition markable :: "('h, 'b, 'z) cil_store_scheme \<Rightarrow> addr \<Rightarrow> bool" where
  "markable s d \<longleftrightarrow> (\<exists>f. FLAVOR s (Some d) = Ok f \<and> (f = CIL_TYPEATTRIBUTE \<longrightarrow> m_typeattribute s d \<noteq> None))"

definition same_marks :: "('h, 'b, 'z) cil_store_scheme \<Rightarrow> ('h, 'b, 'z) cil_store_scheme \<Rightarrow> bool" where
  "same_marks s t \<longleftrightarrow> same_names s t \<and> dom (m_typeattribute t) = dom (m_typeattribute s)"

lemma same_marks_refl: "same_marks s s"
  by (simp add: same_marks_def same_names_refl)

lemma type_used_total:
  assumes "same_marks s0 s" and "markable s0 d"
  shows "\<exists>t. cil_type_used (Some d) s = (Ok (), t) \<and> same_marks s0 t"
proof -
  from assms(2) obtain f where f: "FLAVOR s0 (Some d) = Ok f" "f = CIL_TYPEATTRIBUTE \<longrightarrow> m_typeattribute s0 d \<noteq> None"
    by (auto simp: markable_def)
  have s: "FLAVOR s (Some d) = Ok f" "f = CIL_TYPEATTRIBUTE \<longrightarrow> m_typeattribute s d \<noteq> None"
    using f assms(1) same_FLAVOR [of s0 s] unfolding same_marks_def by (auto simp: dom_def)
  then show ?thesis
    using assms(1) f(2) unfolding same_marks_def same_names_def
    by (cases "f = CIL_TYPEATTRIBUTE") (auto simp: cil_type_used_def flavor_of_def pointer_def)
qed

lemma expr_items_complete_constraint:
  assumes "\<forall>str d. cil_resolve_name L fuel s0 n str CIL_SYM_TYPES = Ok (Some d) \<longrightarrow> markable s0 d"
    and "same_marks s0 s"
    and "list_all2 (stands_for (\<lambda>i str. cil_resolve_name L fuel s0 n str i) idx) items items'"
  shows "\<exists>t. resolve_expr_items L fuel ty n idx items s = (Ok (None, items'), t) \<and> same_marks s0 t"
  using assms
proof (induction L fuel ty n idx items arbitrary: s items' rule: resolve_expr_items.induct)
  case (1 L fuel ty n idx)
  then show ?case by simp
next
  case (2 L fuel ty n idx str rest)
  then obtain d its where d: "cil_resolve_name L fuel s0 n str idx = Ok (Some d)" and its: "items' = Item_Datum d # its"
    and rest: "list_all2 (stands_for (\<lambda>i str. cil_resolve_name L fuel s0 n str i) idx) rest its"
    by (auto simp: list_all2_Cons1)
  have look: "cil_resolve_name L fuel s n str idx = Ok (Some d)"
    using d same_resolve_name [of s0 s] "2.prems"(2) by (simp add: same_marks_def)
  obtain u where u: "(if idx = CIL_SYM_TYPES \<and> (ty = CIL_CONSTRAIN \<or> ty = CIL_VALIDATETRANS)
      then cil_type_used (Some d) else ret ()) s = (Ok (), u)" and same: "same_marks s0 u"
  proof (cases "idx = CIL_SYM_TYPES \<and> (ty = CIL_CONSTRAIN \<or> ty = CIL_VALIDATETRANS)")
    case True
    then have "markable s0 d" using d "2.prems"(1) by blast
    from type_used_total [OF "2.prems"(2) this] True that show ?thesis by auto
  next
    case False
    with "2.prems"(2) that show ?thesis by simp
  qed
  obtain t where t: "resolve_expr_items L fuel ty n idx rest u = (Ok (None, its), t)" "same_marks s0 t"
    using "2.IH" [OF "2.prems"(1) same rest] by blast
  have "resolve_expr_items L fuel ty n idx (Item_String str # rest) s = (Ok (None, items'), t)"
    using look u t(1) by (simp add: its resolve_def pointer_def bind_def attempt_def del: if_split)
  with t(2) show ?case by blast
next
  case (3 L fuel ty n idx f sub rest)
  then obtain ys its where its: "items' = Item_List (Cil_List f ys) # its"
    and sub: "list_all2 (stands_for (\<lambda>i str. cil_resolve_name L fuel s0 n str i) (expr_sym_index f)) sub ys"
    and rest: "list_all2 (stands_for (\<lambda>i str. cil_resolve_name L fuel s0 n str i) idx) rest its"
    by (auto simp: list_all2_Cons1)
  obtain u where u: "resolve_expr_items L fuel ty n (expr_sym_index f) sub s = (Ok (None, ys), u)" "same_marks s0 u"
    using "3.IH"(1) [OF "3.prems"(1,2) sub] by blast
  obtain t where t: "resolve_expr_items L fuel ty n idx rest u = (Ok (None, its), t)" "same_marks s0 t"
    using "3.IH"(2) [OF refl "3.prems"(1) u(2) rest] by blast
  from u t show ?case by (simp add: its bind_def)
qed (fastforce simp: list_all2_Cons1 bind_def)+

text \<open>C23. A resolved expression has the shape and the operators of the expression of the statement; each name in it
  is replaced by what it stood for before the resolution, in the table that the flavor of the list around it
  selects. Conversely, of a statement other than a constraint, every expression whose names stand for objects is
  resolved, and the memory is left as it was. The same holds for a constraint, which marks attributes as used, when
  every object that a type name stands for has a node, and an object where it is an attribute.\<close>

theorem expression_resolved:
  "(cil_resolve_expr L fuel ty e n s = (Ok (None, e'), t) \<longrightarrow>
      list_flavor e' = list_flavor e \<and> same_names s t \<and>
      list_all2 (stands_for (\<lambda>i str. cil_resolve_name L fuel s n str i) (expr_sym_index (list_flavor e)))
        (list_items e) (list_items e')) \<and>
   (list_flavor e' = list_flavor e \<and>
      list_all2 (stands_for (\<lambda>i str. cil_resolve_name L fuel s n str i) (expr_sym_index (list_flavor e)))
        (list_items e) (list_items e') \<longrightarrow>
      (ty \<noteq> CIL_CONSTRAIN \<and> ty \<noteq> CIL_VALIDATETRANS \<longrightarrow> cil_resolve_expr L fuel ty e n s = (Ok (None, e'), s)) \<and>
      ((\<forall>str d. cil_resolve_name L fuel s n str CIL_SYM_TYPES = Ok (Some d) \<longrightarrow> markable s d) \<longrightarrow>
         (\<exists>u. cil_resolve_expr L fuel ty e n s = (Ok (None, e'), u))))"
proof (intro conjI impI)
  assume "cil_resolve_expr L fuel ty e n s = (Ok (None, e'), t)"
  then obtain its where e': "e' = Cil_List (list_flavor e) its"
    and run: "resolve_expr_items L fuel ty n (expr_sym_index (list_flavor e)) (list_items e) s = (Ok (None, its), t)"
    by (auto simp: cil_resolve_expr_def bind_eq_Ok)
  from expr_items_resolved [OF run same_names_refl]
  show "list_flavor e' = list_flavor e" "same_names s t"
    "list_all2 (stands_for (\<lambda>i str. cil_resolve_name L fuel s n str i) (expr_sym_index (list_flavor e)))
      (list_items e) (list_items e')"
    by (simp_all add: e')
next
  assume e': "list_flavor e' = list_flavor e \<and>
      list_all2 (stands_for (\<lambda>i str. cil_resolve_name L fuel s n str i) (expr_sym_index (list_flavor e)))
        (list_items e) (list_items e')"
  then show "cil_resolve_expr L fuel ty e n s = (Ok (None, e'), s)" if "ty \<noteq> CIL_CONSTRAIN \<and> ty \<noteq> CIL_VALIDATETRANS"
    using expr_items_complete [of ty L fuel s n "expr_sym_index (list_flavor e)" "list_items e" "list_items e'"] that
    by (cases e') (simp add: cil_resolve_expr_def)
  show "\<exists>u. cil_resolve_expr L fuel ty e n s = (Ok (None, e'), u)"
    if "\<forall>str d. cil_resolve_name L fuel s n str CIL_SYM_TYPES = Ok (Some d) \<longrightarrow> markable s d"
    using expr_items_complete_constraint [OF that same_marks_refl, of
      "expr_sym_index (list_flavor e)" "list_items e" "list_items e'" ty] e'
    by (cases e') (auto simp: cil_resolve_expr_def)
qed

theorem expression_resolved_witness:
  "cil_resolve_expr sepol0 3 CIL_TYPEATTRIBUTESET
      (Cil_List CIL_TYPE [Item_Op CIL_AND, Item_String (Some ''t''),
         Item_List (Cil_List CIL_TYPE [Item_Op CIL_NOT, Item_String (Some ''a'')])]) 5 rule_db =
    (Ok (None, Cil_List CIL_TYPE [Item_Op CIL_AND, Item_Datum 120,
         Item_List (Cil_List CIL_TYPE [Item_Op CIL_NOT, Item_Datum 122])]), rule_db)"
  using expression_resolved [of sepol0 3 CIL_TYPEATTRIBUTESET
      "Cil_List CIL_TYPE [Item_Op CIL_AND, Item_String (Some ''t''),
         Item_List (Cil_List CIL_TYPE [Item_Op CIL_NOT, Item_String (Some ''a'')])]" 5 rule_db
      "Cil_List CIL_TYPE [Item_Op CIL_AND, Item_Datum 120,
         Item_List (Cil_List CIL_TYPE [Item_Op CIL_NOT, Item_Datum 122])]" rule_db]
  by (simp add: rule_db_names expr_sym_index_def)

subsection \<open>Tunable expressions\<close>

text \<open>Formulas over tunables, and the expression that the builder and the resolution make of one: an operator comes
  first in its list, and an operand that is not a tunable is a list of its own.\<close>

datatype formula = Tunable addr | Negation formula | Binary cil_flavor formula formula

fun operand :: "cil_flavor \<Rightarrow> formula \<Rightarrow> cil_item" and expression :: "cil_flavor \<Rightarrow> formula \<Rightarrow> cil_item list" where
  "operand f (Tunable d) = Item_Datum d"
| "operand f (Negation p) = Item_List (Cil_List f [Item_Op CIL_NOT, operand f p])"
| "operand f (Binary g p q) = Item_List (Cil_List f [Item_Op g, operand f p, operand f q])"
| "expression f (Tunable d) = [Item_Datum d]"
| "expression f (Negation p) = [Item_Op CIL_NOT, operand f p]"
| "expression f (Binary g p q) = [Item_Op g, operand f p, operand f q]"

fun truth :: "(addr \<Rightarrow> bool) \<Rightarrow> formula \<Rightarrow> bool" where
  "truth v (Tunable d) \<longleftrightarrow> v d"
| "truth v (Negation p) \<longleftrightarrow> \<not> truth v p"
| "truth v (Binary f p q) \<longleftrightarrow> (if f = CIL_AND then truth v p \<and> truth v q
     else if f = CIL_OR then truth v p \<or> truth v q
     else if f = CIL_XOR \<or> f = CIL_NEQ then truth v p \<noteq> truth v q
     else truth v p = truth v q)"

fun formula_ok :: "(addr \<rightharpoonup> bool) \<Rightarrow> formula \<Rightarrow> bool" where
  "formula_ok v (Tunable d) \<longleftrightarrow> v d \<noteq> None"
| "formula_ok v (Negation p) \<longleftrightarrow> formula_ok v p"
| "formula_ok v (Binary f p q) \<longleftrightarrow>
     f \<in> {CIL_AND, CIL_OR, CIL_XOR, CIL_EQ, CIL_NEQ} \<and> formula_ok v p \<and> formula_ok v q"

definition tunable_values :: "('h, 'b, 'z) cil_store_scheme \<Rightarrow> addr \<rightharpoonup> bool" where
  "tunable_values s d = map_option tunable_value (m_tunable s d)"

lemma operand_value:
  assumes "formula_ok (tunable_values s) p"
  shows "cil_evaluate_tunable_expr_helper s (operand f p # rest) = Ok (truth (the \<circ> tunable_values s) p)"
  using assms
proof (induction p arbitrary: rest)
  case (Tunable d)
  then show ?case by (auto simp: tunable_values_def)
qed (auto simp: tunable_op_def)

text \<open>C24. A tunable expression has the truth value of its formula under the values of the
  tunables.\<close>

theorem tunable_expression_value:
  assumes "formula_ok (tunable_values s) p"
  shows "cil_evaluate_tunable_expr s (expression f p) = Ok (truth (the \<circ> tunable_values s) p)"
  using assms operand_value [of s _ f]
  by (cases p) (auto simp: tunable_op_def tunable_values_def)

theorem tunable_expression_value_witness:
  "cil_evaluate_tunable_expr
      (store0\<lparr>m_tunable := [1 \<mapsto> \<lparr>tunable_value = True\<rparr>, 2 \<mapsto> \<lparr>tunable_value = False\<rparr>]\<rparr> :: (unit, unit) cil_store)
      [Item_Op CIL_XOR, Item_Datum 1, Item_List (Cil_List CIL_TUNABLE [Item_Op CIL_NOT, Item_Datum 2])] = Ok False"
  using tunable_expression_value [of "store0\<lparr>m_tunable := [1 \<mapsto> \<lparr>tunable_value = True\<rparr>, 2 \<mapsto> \<lparr>tunable_value = False\<rparr>]\<rparr>
      :: (unit, unit) cil_store" "Binary CIL_XOR (Tunable 1) (Negation (Tunable 2))" CIL_TUNABLE]
  by (simp add: tunable_values_def)

end
