(* ===== verification/Cil_Keys.thy ===== *)
theory Cil_Keys
  imports Cil_Prelude
begin

text \<open>
  The keywords of the language (\<open>cil_init_keys\<close> of \<open>src/cil.c\<close>). Strings are interned, so that the code compares
  them as pointers; here they are strings that are not null.
\<close>

abbreviation (input) CIL_KEY_CONS_T1 :: cstring where "CIL_KEY_CONS_T1 \<equiv> Some ''t1''"
abbreviation (input) CIL_KEY_CONS_T2 :: cstring where "CIL_KEY_CONS_T2 \<equiv> Some ''t2''"
abbreviation (input) CIL_KEY_CONS_T3 :: cstring where "CIL_KEY_CONS_T3 \<equiv> Some ''t3''"
abbreviation (input) CIL_KEY_CONS_R1 :: cstring where "CIL_KEY_CONS_R1 \<equiv> Some ''r1''"
abbreviation (input) CIL_KEY_CONS_R2 :: cstring where "CIL_KEY_CONS_R2 \<equiv> Some ''r2''"
abbreviation (input) CIL_KEY_CONS_R3 :: cstring where "CIL_KEY_CONS_R3 \<equiv> Some ''r3''"
abbreviation (input) CIL_KEY_CONS_U1 :: cstring where "CIL_KEY_CONS_U1 \<equiv> Some ''u1''"
abbreviation (input) CIL_KEY_CONS_U2 :: cstring where "CIL_KEY_CONS_U2 \<equiv> Some ''u2''"
abbreviation (input) CIL_KEY_CONS_U3 :: cstring where "CIL_KEY_CONS_U3 \<equiv> Some ''u3''"
abbreviation (input) CIL_KEY_CONS_L1 :: cstring where "CIL_KEY_CONS_L1 \<equiv> Some ''l1''"
abbreviation (input) CIL_KEY_CONS_L2 :: cstring where "CIL_KEY_CONS_L2 \<equiv> Some ''l2''"
abbreviation (input) CIL_KEY_CONS_H1 :: cstring where "CIL_KEY_CONS_H1 \<equiv> Some ''h1''"
abbreviation (input) CIL_KEY_CONS_H2 :: cstring where "CIL_KEY_CONS_H2 \<equiv> Some ''h2''"
abbreviation (input) CIL_KEY_AND :: cstring where "CIL_KEY_AND \<equiv> Some ''and''"
abbreviation (input) CIL_KEY_OR :: cstring where "CIL_KEY_OR \<equiv> Some ''or''"
abbreviation (input) CIL_KEY_NOT :: cstring where "CIL_KEY_NOT \<equiv> Some ''not''"
abbreviation (input) CIL_KEY_EQ :: cstring where "CIL_KEY_EQ \<equiv> Some ''eq''"
abbreviation (input) CIL_KEY_NEQ :: cstring where "CIL_KEY_NEQ \<equiv> Some ''neq''"
abbreviation (input) CIL_KEY_CONS_DOM :: cstring where "CIL_KEY_CONS_DOM \<equiv> Some ''dom''"
abbreviation (input) CIL_KEY_CONS_DOMBY :: cstring where "CIL_KEY_CONS_DOMBY \<equiv> Some ''domby''"
abbreviation (input) CIL_KEY_CONS_INCOMP :: cstring where "CIL_KEY_CONS_INCOMP \<equiv> Some ''incomp''"
abbreviation (input) CIL_KEY_CONDTRUE :: cstring where "CIL_KEY_CONDTRUE \<equiv> Some ''true''"
abbreviation (input) CIL_KEY_CONDFALSE :: cstring where "CIL_KEY_CONDFALSE \<equiv> Some ''false''"
abbreviation (input) CIL_KEY_SELF :: cstring where "CIL_KEY_SELF \<equiv> Some ''self''"
abbreviation (input) CIL_KEY_STAR :: cstring where "CIL_KEY_STAR \<equiv> Some ''*''"
abbreviation (input) CIL_KEY_UDP :: cstring where "CIL_KEY_UDP \<equiv> Some ''udp''"
abbreviation (input) CIL_KEY_TCP :: cstring where "CIL_KEY_TCP \<equiv> Some ''tcp''"
abbreviation (input) CIL_KEY_AUDITALLOW :: cstring where "CIL_KEY_AUDITALLOW \<equiv> Some ''auditallow''"
abbreviation (input) CIL_KEY_TUNABLEIF :: cstring where "CIL_KEY_TUNABLEIF \<equiv> Some ''tunableif''"
abbreviation (input) CIL_KEY_ALLOW :: cstring where "CIL_KEY_ALLOW \<equiv> Some ''allow''"
abbreviation (input) CIL_KEY_DONTAUDIT :: cstring where "CIL_KEY_DONTAUDIT \<equiv> Some ''dontaudit''"
abbreviation (input) CIL_KEY_TYPETRANSITION :: cstring where "CIL_KEY_TYPETRANSITION \<equiv> Some ''typetransition''"
abbreviation (input) CIL_KEY_TYPECHANGE :: cstring where "CIL_KEY_TYPECHANGE \<equiv> Some ''typechange''"
abbreviation (input) CIL_KEY_CALL :: cstring where "CIL_KEY_CALL \<equiv> Some ''call''"
abbreviation (input) CIL_KEY_TUNABLE :: cstring where "CIL_KEY_TUNABLE \<equiv> Some ''tunable''"
abbreviation (input) CIL_KEY_XOR :: cstring where "CIL_KEY_XOR \<equiv> Some ''xor''"
abbreviation (input) CIL_KEY_ALL :: cstring where "CIL_KEY_ALL \<equiv> Some ''all''"
abbreviation (input) CIL_KEY_RANGE :: cstring where "CIL_KEY_RANGE \<equiv> Some ''range''"
abbreviation (input) CIL_KEY_TYPE :: cstring where "CIL_KEY_TYPE \<equiv> Some ''type''"
abbreviation (input) CIL_KEY_ROLE :: cstring where "CIL_KEY_ROLE \<equiv> Some ''role''"
abbreviation (input) CIL_KEY_USER :: cstring where "CIL_KEY_USER \<equiv> Some ''user''"
abbreviation (input) CIL_KEY_SENSITIVITY :: cstring where "CIL_KEY_SENSITIVITY \<equiv> Some ''sensitivity''"
abbreviation (input) CIL_KEY_CATEGORY :: cstring where "CIL_KEY_CATEGORY \<equiv> Some ''category''"
abbreviation (input) CIL_KEY_CATSET :: cstring where "CIL_KEY_CATSET \<equiv> Some ''categoryset''"
abbreviation (input) CIL_KEY_LEVEL :: cstring where "CIL_KEY_LEVEL \<equiv> Some ''level''"
abbreviation (input) CIL_KEY_LEVELRANGE :: cstring where "CIL_KEY_LEVELRANGE \<equiv> Some ''levelrange''"
abbreviation (input) CIL_KEY_CLASS :: cstring where "CIL_KEY_CLASS \<equiv> Some ''class''"
abbreviation (input) CIL_KEY_IPADDR :: cstring where "CIL_KEY_IPADDR \<equiv> Some ''ipaddr''"
abbreviation (input) CIL_KEY_MAP_CLASS :: cstring where "CIL_KEY_MAP_CLASS \<equiv> Some ''classmap''"
abbreviation (input) CIL_KEY_CLASSPERMISSION :: cstring where "CIL_KEY_CLASSPERMISSION \<equiv> Some ''classpermission''"
abbreviation (input) CIL_KEY_BOOL :: cstring where "CIL_KEY_BOOL \<equiv> Some ''boolean''"
abbreviation (input) CIL_KEY_STRING :: cstring where "CIL_KEY_STRING \<equiv> Some ''string''"
abbreviation (input) CIL_KEY_NAME :: cstring where "CIL_KEY_NAME \<equiv> Some ''name''"
abbreviation (input) CIL_KEY_HANDLEUNKNOWN :: cstring where "CIL_KEY_HANDLEUNKNOWN \<equiv> Some ''handleunknown''"
abbreviation (input) CIL_KEY_HANDLEUNKNOWN_ALLOW :: cstring where "CIL_KEY_HANDLEUNKNOWN_ALLOW \<equiv> Some ''allow''"
abbreviation (input) CIL_KEY_HANDLEUNKNOWN_DENY :: cstring where "CIL_KEY_HANDLEUNKNOWN_DENY \<equiv> Some ''deny''"
abbreviation (input) CIL_KEY_HANDLEUNKNOWN_REJECT :: cstring where "CIL_KEY_HANDLEUNKNOWN_REJECT \<equiv> Some ''reject''"
abbreviation (input) CIL_KEY_BLOCKINHERIT :: cstring where "CIL_KEY_BLOCKINHERIT \<equiv> Some ''blockinherit''"
abbreviation (input) CIL_KEY_BLOCKABSTRACT :: cstring where "CIL_KEY_BLOCKABSTRACT \<equiv> Some ''blockabstract''"
abbreviation (input) CIL_KEY_CLASSORDER :: cstring where "CIL_KEY_CLASSORDER \<equiv> Some ''classorder''"
abbreviation (input) CIL_KEY_CLASSMAPPING :: cstring where "CIL_KEY_CLASSMAPPING \<equiv> Some ''classmapping''"
abbreviation (input) CIL_KEY_CLASSPERMISSIONSET :: cstring where "CIL_KEY_CLASSPERMISSIONSET \<equiv> Some ''classpermissionset''"
abbreviation (input) CIL_KEY_COMMON :: cstring where "CIL_KEY_COMMON \<equiv> Some ''common''"
abbreviation (input) CIL_KEY_CLASSCOMMON :: cstring where "CIL_KEY_CLASSCOMMON \<equiv> Some ''classcommon''"
abbreviation (input) CIL_KEY_SID :: cstring where "CIL_KEY_SID \<equiv> Some ''sid''"
abbreviation (input) CIL_KEY_SIDCONTEXT :: cstring where "CIL_KEY_SIDCONTEXT \<equiv> Some ''sidcontext''"
abbreviation (input) CIL_KEY_SIDORDER :: cstring where "CIL_KEY_SIDORDER \<equiv> Some ''sidorder''"
abbreviation (input) CIL_KEY_USERLEVEL :: cstring where "CIL_KEY_USERLEVEL \<equiv> Some ''userlevel''"
abbreviation (input) CIL_KEY_USERRANGE :: cstring where "CIL_KEY_USERRANGE \<equiv> Some ''userrange''"
abbreviation (input) CIL_KEY_USERBOUNDS :: cstring where "CIL_KEY_USERBOUNDS \<equiv> Some ''userbounds''"
abbreviation (input) CIL_KEY_USERPREFIX :: cstring where "CIL_KEY_USERPREFIX \<equiv> Some ''userprefix''"
abbreviation (input) CIL_KEY_SELINUXUSER :: cstring where "CIL_KEY_SELINUXUSER \<equiv> Some ''selinuxuser''"
abbreviation (input) CIL_KEY_SELINUXUSERDEFAULT :: cstring where "CIL_KEY_SELINUXUSERDEFAULT \<equiv> Some ''selinuxuserdefault''"
abbreviation (input) CIL_KEY_TYPEATTRIBUTE :: cstring where "CIL_KEY_TYPEATTRIBUTE \<equiv> Some ''typeattribute''"
abbreviation (input) CIL_KEY_TYPEATTRIBUTESET :: cstring where "CIL_KEY_TYPEATTRIBUTESET \<equiv> Some ''typeattributeset''"
abbreviation (input) CIL_KEY_TYPEALIAS :: cstring where "CIL_KEY_TYPEALIAS \<equiv> Some ''typealias''"
abbreviation (input) CIL_KEY_TYPEALIASACTUAL :: cstring where "CIL_KEY_TYPEALIASACTUAL \<equiv> Some ''typealiasactual''"
abbreviation (input) CIL_KEY_TYPEBOUNDS :: cstring where "CIL_KEY_TYPEBOUNDS \<equiv> Some ''typebounds''"
abbreviation (input) CIL_KEY_TYPEPERMISSIVE :: cstring where "CIL_KEY_TYPEPERMISSIVE \<equiv> Some ''typepermissive''"
abbreviation (input) CIL_KEY_RANGETRANSITION :: cstring where "CIL_KEY_RANGETRANSITION \<equiv> Some ''rangetransition''"
abbreviation (input) CIL_KEY_USERROLE :: cstring where "CIL_KEY_USERROLE \<equiv> Some ''userrole''"
abbreviation (input) CIL_KEY_ROLETYPE :: cstring where "CIL_KEY_ROLETYPE \<equiv> Some ''roletype''"
abbreviation (input) CIL_KEY_ROLETRANSITION :: cstring where "CIL_KEY_ROLETRANSITION \<equiv> Some ''roletransition''"
abbreviation (input) CIL_KEY_ROLEALLOW :: cstring where "CIL_KEY_ROLEALLOW \<equiv> Some ''roleallow''"
abbreviation (input) CIL_KEY_ROLEATTRIBUTE :: cstring where "CIL_KEY_ROLEATTRIBUTE \<equiv> Some ''roleattribute''"
abbreviation (input) CIL_KEY_ROLEATTRIBUTESET :: cstring where "CIL_KEY_ROLEATTRIBUTESET \<equiv> Some ''roleattributeset''"
abbreviation (input) CIL_KEY_ROLEBOUNDS :: cstring where "CIL_KEY_ROLEBOUNDS \<equiv> Some ''rolebounds''"
abbreviation (input) CIL_KEY_BOOLEANIF :: cstring where "CIL_KEY_BOOLEANIF \<equiv> Some ''booleanif''"
abbreviation (input) CIL_KEY_NEVERALLOW :: cstring where "CIL_KEY_NEVERALLOW \<equiv> Some ''neverallow''"
abbreviation (input) CIL_KEY_TYPEMEMBER :: cstring where "CIL_KEY_TYPEMEMBER \<equiv> Some ''typemember''"
abbreviation (input) CIL_KEY_SENSALIAS :: cstring where "CIL_KEY_SENSALIAS \<equiv> Some ''sensitivityalias''"
abbreviation (input) CIL_KEY_SENSALIASACTUAL :: cstring where "CIL_KEY_SENSALIASACTUAL \<equiv> Some ''sensitivityaliasactual''"
abbreviation (input) CIL_KEY_CATALIAS :: cstring where "CIL_KEY_CATALIAS \<equiv> Some ''categoryalias''"
abbreviation (input) CIL_KEY_CATALIASACTUAL :: cstring where "CIL_KEY_CATALIASACTUAL \<equiv> Some ''categoryaliasactual''"
abbreviation (input) CIL_KEY_CATORDER :: cstring where "CIL_KEY_CATORDER \<equiv> Some ''categoryorder''"
abbreviation (input) CIL_KEY_SENSITIVITYORDER :: cstring where "CIL_KEY_SENSITIVITYORDER \<equiv> Some ''sensitivityorder''"
abbreviation (input) CIL_KEY_SENSCAT :: cstring where "CIL_KEY_SENSCAT \<equiv> Some ''sensitivitycategory''"
abbreviation (input) CIL_KEY_CONSTRAIN :: cstring where "CIL_KEY_CONSTRAIN \<equiv> Some ''constrain''"
abbreviation (input) CIL_KEY_MLSCONSTRAIN :: cstring where "CIL_KEY_MLSCONSTRAIN \<equiv> Some ''mlsconstrain''"
abbreviation (input) CIL_KEY_VALIDATETRANS :: cstring where "CIL_KEY_VALIDATETRANS \<equiv> Some ''validatetrans''"
abbreviation (input) CIL_KEY_MLSVALIDATETRANS :: cstring where "CIL_KEY_MLSVALIDATETRANS \<equiv> Some ''mlsvalidatetrans''"
abbreviation (input) CIL_KEY_CONTEXT :: cstring where "CIL_KEY_CONTEXT \<equiv> Some ''context''"
abbreviation (input) CIL_KEY_FILECON :: cstring where "CIL_KEY_FILECON \<equiv> Some ''filecon''"
abbreviation (input) CIL_KEY_PORTCON :: cstring where "CIL_KEY_PORTCON \<equiv> Some ''portcon''"
abbreviation (input) CIL_KEY_NODECON :: cstring where "CIL_KEY_NODECON \<equiv> Some ''nodecon''"
abbreviation (input) CIL_KEY_GENFSCON :: cstring where "CIL_KEY_GENFSCON \<equiv> Some ''genfscon''"
abbreviation (input) CIL_KEY_NETIFCON :: cstring where "CIL_KEY_NETIFCON \<equiv> Some ''netifcon''"
abbreviation (input) CIL_KEY_PIRQCON :: cstring where "CIL_KEY_PIRQCON \<equiv> Some ''pirqcon''"
abbreviation (input) CIL_KEY_IOMEMCON :: cstring where "CIL_KEY_IOMEMCON \<equiv> Some ''iomemcon''"
abbreviation (input) CIL_KEY_IOPORTCON :: cstring where "CIL_KEY_IOPORTCON \<equiv> Some ''ioportcon''"
abbreviation (input) CIL_KEY_PCIDEVICECON :: cstring where "CIL_KEY_PCIDEVICECON \<equiv> Some ''pcidevicecon''"
abbreviation (input) CIL_KEY_FSUSE :: cstring where "CIL_KEY_FSUSE \<equiv> Some ''fsuse''"
abbreviation (input) CIL_KEY_POLICYCAP :: cstring where "CIL_KEY_POLICYCAP \<equiv> Some ''policycap''"
abbreviation (input) CIL_KEY_OPTIONAL :: cstring where "CIL_KEY_OPTIONAL \<equiv> Some ''optional''"
abbreviation (input) CIL_KEY_DEFAULTUSER :: cstring where "CIL_KEY_DEFAULTUSER \<equiv> Some ''defaultuser''"
abbreviation (input) CIL_KEY_DEFAULTROLE :: cstring where "CIL_KEY_DEFAULTROLE \<equiv> Some ''defaultrole''"
abbreviation (input) CIL_KEY_DEFAULTTYPE :: cstring where "CIL_KEY_DEFAULTTYPE \<equiv> Some ''defaulttype''"
abbreviation (input) CIL_KEY_MACRO :: cstring where "CIL_KEY_MACRO \<equiv> Some ''macro''"
abbreviation (input) CIL_KEY_IN :: cstring where "CIL_KEY_IN \<equiv> Some ''in''"
abbreviation (input) CIL_KEY_MLS :: cstring where "CIL_KEY_MLS \<equiv> Some ''mls''"
abbreviation (input) CIL_KEY_DEFAULTRANGE :: cstring where "CIL_KEY_DEFAULTRANGE \<equiv> Some ''defaultrange''"
abbreviation (input) CIL_KEY_FILE :: cstring where "CIL_KEY_FILE \<equiv> Some ''file''"
abbreviation (input) CIL_KEY_DIR :: cstring where "CIL_KEY_DIR \<equiv> Some ''dir''"
abbreviation (input) CIL_KEY_CHAR :: cstring where "CIL_KEY_CHAR \<equiv> Some ''char''"
abbreviation (input) CIL_KEY_BLOCK :: cstring where "CIL_KEY_BLOCK \<equiv> Some ''block''"
abbreviation (input) CIL_KEY_SOCKET :: cstring where "CIL_KEY_SOCKET \<equiv> Some ''socket''"
abbreviation (input) CIL_KEY_PIPE :: cstring where "CIL_KEY_PIPE \<equiv> Some ''pipe''"
abbreviation (input) CIL_KEY_SYMLINK :: cstring where "CIL_KEY_SYMLINK \<equiv> Some ''symlink''"
abbreviation (input) CIL_KEY_ANY :: cstring where "CIL_KEY_ANY \<equiv> Some ''any''"
abbreviation (input) CIL_KEY_XATTR :: cstring where "CIL_KEY_XATTR \<equiv> Some ''xattr''"
abbreviation (input) CIL_KEY_TASK :: cstring where "CIL_KEY_TASK \<equiv> Some ''task''"
abbreviation (input) CIL_KEY_TRANS :: cstring where "CIL_KEY_TRANS \<equiv> Some ''trans''"
abbreviation (input) CIL_KEY_SOURCE :: cstring where "CIL_KEY_SOURCE \<equiv> Some ''source''"
abbreviation (input) CIL_KEY_TARGET :: cstring where "CIL_KEY_TARGET \<equiv> Some ''target''"
abbreviation (input) CIL_KEY_LOW :: cstring where "CIL_KEY_LOW \<equiv> Some ''low''"
abbreviation (input) CIL_KEY_HIGH :: cstring where "CIL_KEY_HIGH \<equiv> Some ''high''"
abbreviation (input) CIL_KEY_LOW_HIGH :: cstring where "CIL_KEY_LOW_HIGH \<equiv> Some ''low-high''"

end
