(* ===== verification/Cil_Fill.thy ===== *)
theory Cil_Fill
  imports Cil_Alloc Cil_Keys Cil_Syntax Cil_Compare
begin

text \<open>
  The parts of statements (\<open>cil_fill_*\<close> and \<open>cil_gen_expr\<close> of \<open>src/cil_build_ast.c\<close>): numbers, addresses,
  lists of names, expressions, class permissions, levels, ranges and contexts are made from parse trees.

  A pointer to a node of the parse tree is the list of the node and its later siblings; the null pointer is
  the empty list. What needs no memory of its own is a function into \<open>outcome\<close>, the rest is in the monad of the
  builder.
\<close>

subsection \<open>Parse nodes\<close>

definition nth_node :: "parse_tree list \<Rightarrow> nat \<Rightarrow> parse_tree outcome" where
  "nth_node ps n = (if n < length ps then Ok (ps ! n) else Fault)"

definition nth_data :: "parse_tree list \<Rightarrow> nat \<Rightarrow> cstring outcome" where
  "nth_data ps n = obind (nth_node ps n) (\<lambda>t. Ok (p_data t))"

definition nth_list :: "parse_tree list \<Rightarrow> nat \<Rightarrow> parse_tree list outcome" where
  "nth_list ps n = obind (nth_node ps n) (\<lambda>t. Ok (p_children t))"

text \<open>What the builder takes from libsepol and the system: the limits and numbers of the headers, and
  \<open>inet_pton\<close>, which gives the bytes of an address of a family.\<close>

record sepol_env =
  cond_expr_maxdepth :: int
  cexpr_maxdepth :: int
  fs_use_xattr :: nat
  fs_use_trans :: nat
  fs_use_task :: nat
  default_source :: int
  default_target :: int
  default_source_low :: int
  default_source_high :: int
  default_source_low_high :: int
  default_target_low :: int
  default_target_high :: int
  default_target_low_high :: int
  allow_unknown :: int
  deny_unknown_c :: int
  reject_unknown :: int
  inet_pton :: "nat \<Rightarrow> string \<Rightarrow> 8 word list option"

subsection \<open>Lists of names\<close>

definition cil_fill_list :: "parse_tree list \<Rightarrow> cstring list outcome" where
  "cil_fill_list current =
     obind (cil_verify_syntax current [CIL_SYN_N_STRINGS, CIL_SYN_END]) (\<lambda>_. Ok (map p_data current))"

subsection \<open>Numbers\<close>

text \<open>\<open>strtol\<close> with base 10: leading white space, a sign, digits. The result is the value, and the rest of the
  string from \<open>endptr\<close> on; \<open>None\<close> when there are no digits.\<close>

definition is_c_space :: "char \<Rightarrow> bool" where
  "is_c_space c \<longleftrightarrow> c = CHR 0x20 \<or> 9 \<le> (of_char c :: nat) \<and> (of_char c :: nat) \<le> 13"

definition digit_value :: "char \<Rightarrow> int" where
  "digit_value c = of_char c - 48"

definition decimal :: "string \<Rightarrow> int" where
  "decimal ds = foldl (\<lambda>n c. 10 * n + digit_value c) 0 ds"

definition strtol10 :: "string \<Rightarrow> (int \<times> string) option" where
  "strtol10 s =
     (let t = dropWhile is_c_space s;
          negative = (t \<noteq> [] \<and> hd t = CHR ''-'');
          u = (if t \<noteq> [] \<and> (hd t = CHR ''-'' \<or> hd t = CHR ''+'') then tl t else t);
          ds = takeWhile is_digit u
      in if ds = [] then None
         else Some (if negative then - decimal ds else decimal ds, dropWhile is_digit u))"

text \<open>\<open>errno\<close> is \<open>ERANGE\<close> when the value is not a \<open>long\<close> of 64 bits; the value goes through an \<open>int\<close> into the
  unsigned result.\<close>

definition cil_fill_integer :: "parse_tree list \<Rightarrow> 32 word outcome" where
  "cil_fill_integer int_node =
     (case int_node of
        [] \<Rightarrow> Fail SEPOL_ERR
      | t # _ \<Rightarrow>
          obind (not_null (p_data t)) (\<lambda>s.
          case strtol10 s of
            None \<Rightarrow> Fail SEPOL_ERR
          | Some (v, rest) \<Rightarrow>
              if v < - (2 ^ 63) \<or> 2 ^ 63 \<le> v \<or> rest \<noteq> [] then Fail SEPOL_ERR else Ok (word_of_int v)))"

subsection \<open>Addresses\<close>

definition fill_ipaddr :: "sepol_env \<Rightarrow> parse_tree list \<Rightarrow> (nat \<times> 8 word list) outcome" where
  "fill_ipaddr E addr_node =
     (case addr_node of
        [] \<Rightarrow> Fail SEPOL_ERR
      | t # next \<Rightarrow>
          if p_children t \<noteq> [] \<or> next \<noteq> [] then Fail SEPOL_ERR
          else
            obind (not_null (p_data t)) (\<lambda>s.
            let family = (if CHR ''.'' \<in> set s then AF_INET else AF_INET6) in
            case inet_pton E family s of None \<Rightarrow> Fail SEPOL_ERR | Some bytes \<Rightarrow> Ok (family, bytes)))"

definition cil_fill_ipaddr :: "sepol_env \<Rightarrow> parse_tree list \<Rightarrow> addr \<Rightarrow> (('h, 'b, 'z) build_state_scheme, unit) cil" where
  "cil_fill_ipaddr E addr_node ipaddr =
     bind (lift (fill_ipaddr E addr_node)) (\<lambda>(family, bytes).
     wr m_ipaddr m_ipaddr_update ipaddr (\<lambda>x. x\<lparr>ipaddr_family := family, ipaddr_bytes := bytes\<rparr>))"

subsection \<open>Expressions\<close>

definition cil_get_expr_operator_flavor :: "cstring \<Rightarrow> cil_flavor" where
  "cil_get_expr_operator_flavor op =
     (if op = None then CIL_NONE
      else if op = CIL_KEY_AND then CIL_AND
      else if op = CIL_KEY_OR then CIL_OR
      else if op = CIL_KEY_NOT then CIL_NOT
      else if op = CIL_KEY_EQ then CIL_EQ
      else if op = CIL_KEY_NEQ then CIL_NEQ
      else if op = CIL_KEY_XOR then CIL_XOR
      else if op = CIL_KEY_ALL then CIL_ALL
      else if op = CIL_KEY_RANGE then CIL_RANGE
      else CIL_NONE)"

text \<open>An expression, with the counter \<open>depth\<close>. \<open>fill_exprs\<close> is the loop over the operands.\<close>

function cil_fill_expr_helper ::
  "sepol_env \<Rightarrow> parse_tree list \<Rightarrow> cil_flavor \<Rightarrow> int \<Rightarrow> (cil_item list \<times> int) outcome"
and fill_exprs :: "sepol_env \<Rightarrow> parse_tree list \<Rightarrow> cil_flavor \<Rightarrow> int \<Rightarrow> (cil_item list \<times> int) outcome"
and cil_fill_expr :: "sepol_env \<Rightarrow> parse_tree \<Rightarrow> cil_flavor \<Rightarrow> int \<Rightarrow> (cil_item \<times> int) outcome"
where
  "cil_fill_expr_helper E [] flavor depth = Fault"
| "cil_fill_expr_helper E (c # cs) flavor depth =
     (if flavor = CIL_BOOL \<and> depth > cond_expr_maxdepth E then Fail SEPOL_ERR
      else
        let op = cil_get_expr_operator_flavor (p_data c) in
        obind (cil_verify_expr_syntax (c # cs) op flavor) (\<lambda>_.
        obind (fill_exprs E (if op \<noteq> CIL_NONE then cs else c # cs) flavor
          (if op = CIL_NONE \<or> op = CIL_ALL then depth + 1 else depth)) (\<lambda>(items, depth).
        Ok (if op \<noteq> CIL_NONE then Item_Op op # items else items, depth - 1))))"
| "fill_exprs E [] flavor depth = Ok ([], depth)"
| "fill_exprs E (c # cs) flavor depth =
     obind (cil_fill_expr E c flavor depth) (\<lambda>(item, depth).
     obind (fill_exprs E cs flavor depth) (\<lambda>(items, depth). Ok (item # items, depth)))"
| "cil_fill_expr E (PNode d kids l p) flavor depth =
     (if kids = [] then
        if cil_get_expr_operator_flavor d \<noteq> CIL_NONE then Fail SEPOL_ERR else Ok (Item_String d, depth)
      else
        obind (cil_fill_expr_helper E kids flavor depth) (\<lambda>(sub_expr, depth).
        Ok (Item_List (Cil_List flavor sub_expr), depth)))"
  by pat_completeness auto

termination
  by (relation "measure (\<lambda>x. case x of
      Inl (E, ps, f, d) \<Rightarrow> 3 * size_list size ps + 1
    | Inr (Inl (E, ps, f, d)) \<Rightarrow> 3 * size_list size ps
    | Inr (Inr (E, t, f, d)) \<Rightarrow> 3 * size t)") auto

definition cil_gen_expr :: "sepol_env \<Rightarrow> parse_tree list \<Rightarrow> cil_flavor \<Rightarrow> cil_list outcome" where
  "cil_gen_expr E current flavor =
     obind (nth_node current 0) (\<lambda>c.
     if p_children c = [] then
       obind (cil_fill_expr E c flavor 0) (\<lambda>(item, depth). Ok (Cil_List flavor [item]))
     else
       obind (cil_fill_expr_helper E (p_children c) flavor 0) (\<lambda>(items, depth). Ok (Cil_List flavor items)))"

subsection \<open>Constraint expressions\<close>

definition cil_get_constraint_operator_flavor :: "cstring \<Rightarrow> cil_flavor" where
  "cil_get_constraint_operator_flavor op =
     (if op = CIL_KEY_AND then CIL_AND
      else if op = CIL_KEY_OR then CIL_OR
      else if op = CIL_KEY_NOT then CIL_NOT
      else if op = CIL_KEY_EQ then CIL_EQ
      else if op = CIL_KEY_NEQ then CIL_NEQ
      else if op = CIL_KEY_CONS_DOM then CIL_CONS_DOM
      else if op = CIL_KEY_CONS_DOMBY then CIL_CONS_DOMBY
      else if op = CIL_KEY_CONS_INCOMP then CIL_CONS_INCOMP
      else CIL_NONE)"

definition cil_get_constraint_operand_flavor :: "cstring \<Rightarrow> cil_flavor" where
  "cil_get_constraint_operand_flavor op =
     (if op = None then CIL_LIST
      else if op = CIL_KEY_CONS_T1 then CIL_CONS_T1
      else if op = CIL_KEY_CONS_T2 then CIL_CONS_T2
      else if op = CIL_KEY_CONS_T3 then CIL_CONS_T3
      else if op = CIL_KEY_CONS_R1 then CIL_CONS_R1
      else if op = CIL_KEY_CONS_R2 then CIL_CONS_R2
      else if op = CIL_KEY_CONS_R3 then CIL_CONS_R3
      else if op = CIL_KEY_CONS_U1 then CIL_CONS_U1
      else if op = CIL_KEY_CONS_U2 then CIL_CONS_U2
      else if op = CIL_KEY_CONS_U3 then CIL_CONS_U3
      else if op = CIL_KEY_CONS_L1 then CIL_CONS_L1
      else if op = CIL_KEY_CONS_L2 then CIL_CONS_L2
      else if op = CIL_KEY_CONS_H1 then CIL_CONS_H1
      else if op = CIL_KEY_CONS_H2 then CIL_CONS_H2
      else CIL_STRING)"

definition leaf_flavor :: "cil_flavor \<Rightarrow> cil_flavor outcome" where
  "leaf_flavor l_flavor =
     (if l_flavor = CIL_CONS_U1 \<or> l_flavor = CIL_CONS_U2 \<or> l_flavor = CIL_CONS_U3 then Ok CIL_USER
      else if l_flavor = CIL_CONS_R1 \<or> l_flavor = CIL_CONS_R2 \<or> l_flavor = CIL_CONS_R3 then Ok CIL_ROLE
      else if l_flavor = CIL_CONS_T1 \<or> l_flavor = CIL_CONS_T2 \<or> l_flavor = CIL_CONS_T3 then Ok CIL_TYPE
      else if l_flavor = CIL_CONS_L1 \<or> l_flavor = CIL_CONS_L2 \<or> l_flavor = CIL_CONS_H1 \<or> l_flavor = CIL_CONS_H2
        then Ok CIL_LEVEL
      else Fail SEPOL_ERR)"

text \<open>A list of names on the right is appended as the address of the local variable that holds the list: the
  pointer dangles when the function returns, and any use of the expression reads through it. The model faults
  here, at the origin.\<close>

definition cil_fill_constraint_leaf_expr ::
  "parse_tree list \<Rightarrow> cil_flavor \<Rightarrow> cil_flavor \<Rightarrow> cil_list outcome"
where
  "cil_fill_constraint_leaf_expr current expr_flavor op =
     obind (nth_data current 1) (\<lambda>l.
     obind (nth_data current 2) (\<lambda>r.
     let l_flavor = cil_get_constraint_operand_flavor l;
         r_flavor = cil_get_constraint_operand_flavor r
     in
     obind (leaf_flavor l_flavor) (\<lambda>leaf_expr_flavor.
     obind (cil_verify_constraint_leaf_expr_syntax l_flavor r_flavor op expr_flavor) (\<lambda>_.
     if r_flavor = CIL_LIST then Fault
     else
       Ok (Cil_List leaf_expr_flavor [Item_Op op, Item_Operand l_flavor,
         if r_flavor = CIL_STRING then Item_String r else Item_Operand r_flavor])))))"

text \<open>The recursion descends into the operands; the fuel is the height of the tree.\<close>

fun cil_fill_constraint_expr ::
  "nat \<Rightarrow> sepol_env \<Rightarrow> parse_tree list \<Rightarrow> cil_flavor \<Rightarrow> int \<Rightarrow> (cil_list \<times> int) outcome"
where
  "cil_fill_constraint_expr 0 E current flavor depth = Out_of_fuel"
| "cil_fill_constraint_expr (Suc fuel) E current flavor depth =
     obind (nth_node current 0) (\<lambda>c.
     if p_data c = None \<or> p_children c \<noteq> [] then Fail SEPOL_ERR
     else if depth > cexpr_maxdepth E then Fail SEPOL_ERR
     else
       let op = cil_get_constraint_operator_flavor (p_data c) in
       obind (cil_verify_constraint_expr_syntax current op) (\<lambda>_.
       if op = CIL_EQ \<or> op = CIL_NEQ \<or> op = CIL_CONS_DOM \<or> op = CIL_CONS_DOMBY \<or> op = CIL_CONS_INCOMP then
         obind (cil_fill_constraint_leaf_expr current flavor op) (\<lambda>leaf. Ok (leaf, depth + 1 - 1))
       else if op = CIL_NOT then
         obind (nth_list current 1) (\<lambda>l.
         obind (cil_fill_constraint_expr fuel E l flavor depth) (\<lambda>(lexpr, depth).
         Ok (Cil_List flavor [Item_Op op, Item_List lexpr], depth - 1)))
       else
         obind (nth_list current 1) (\<lambda>l.
         obind (cil_fill_constraint_expr fuel E l flavor depth) (\<lambda>(lexpr, depth).
         obind (nth_list current 2) (\<lambda>r.
         obind (cil_fill_constraint_expr fuel E r flavor depth) (\<lambda>(rexpr, depth).
         Ok (Cil_List flavor [Item_Op op, Item_List lexpr, Item_List rexpr], depth - 1)))))))"

fun height :: "parse_tree \<Rightarrow> nat" where
  "height (PNode d kids l p) = Suc (fold max (map height kids) 0)"

definition cil_gen_constraint_expr :: "sepol_env \<Rightarrow> parse_tree list \<Rightarrow> cil_flavor \<Rightarrow> cil_list outcome" where
  "cil_gen_constraint_expr E current flavor =
     obind (nth_node current 0) (\<lambda>c.
     if p_children c = [] then Fail SEPOL_ERR
     else
       obind (cil_fill_constraint_expr (height c) E (p_children c) flavor 0) (\<lambda>(expr, depth). Ok expr))"

subsection \<open>Class permissions\<close>

text \<open>\<open>on_error m c\<close>: the code after the label \<open>exit\<close> runs \<open>c\<close> when \<open>m\<close> has failed.\<close>

definition on_error :: "('s, 'a) cil \<Rightarrow> ('s, unit) cil \<Rightarrow> ('s, 'a) cil" where
  "on_error m c = bind (attempt m) (\<lambda>r. case r of Inr x \<Rightarrow> ret x | Inl e \<Rightarrow> bind c (\<lambda>_. fail e))"

definition cil_fill_perms :: "sepol_env \<Rightarrow> parse_tree list \<Rightarrow> cil_list outcome" where
  "cil_fill_perms E start_perm =
     obind (nth_list start_perm 0) (\<lambda>perms.
     obind (cil_verify_syntax perms [CIL_SYN_N_STRINGS OR CIL_SYN_N_LISTS, CIL_SYN_END]) (\<lambda>_.
     cil_gen_expr E start_perm CIL_PERM))"

definition cil_fill_classperms ::
  "sepol_env \<Rightarrow> parse_tree list \<Rightarrow> (('h, 'b, 'z) build_state_scheme, addr) cil"
where
  "cil_fill_classperms E ps =
     bind (lift (cil_verify_syntax ps [CIL_SYN_STRING, CIL_SYN_LIST, CIL_SYN_END])) (\<lambda>_.
     bind cil_classperms_init (\<lambda>cp.
     bind (lift (nth_data ps 0)) (\<lambda>class_str.
     bind (wr m_classperms m_classperms_update cp (classperms_class_str_update (\<lambda>_. class_str))) (\<lambda>_.
     bind (on_error (lift (cil_fill_perms E (tl ps))) (cil_destroy_classperms (Some cp))) (\<lambda>perms.
     bind (wr m_classperms m_classperms_update cp (classperms_perm_strs_update (\<lambda>_. perms))) (\<lambda>_.
     ret cp))))))"

definition cil_fill_classperms_set :: "parse_tree list \<Rightarrow> (('h, 'b, 'z) build_state_scheme, addr) cil" where
  "cil_fill_classperms_set ps =
     bind cil_classperms_set_init (\<lambda>cp_set.
     bind (lift (nth_data ps 0)) (\<lambda>set_str.
     bind (wr m_classperms_set m_classperms_set_update cp_set (classperms_set_set_str_update (\<lambda>_. set_str))) (\<lambda>_.
     ret cp_set)))"

text \<open>The array of \<open>cil_fill_classperms_list\<close> has one entry and no end mark: it accepts later siblings.\<close>

definition cil_fill_classperms_list ::
  "sepol_env \<Rightarrow> parse_tree list \<Rightarrow> (('h, 'b, 'z) build_state_scheme, classperms_list) cil"
where
  "cil_fill_classperms_list E ps =
     (case ps of
        [] \<Rightarrow> fail SEPOL_ERR
      | c # _ \<Rightarrow>
          bind (lift (cil_verify_syntax ps [CIL_SYN_STRING OR CIL_SYN_LIST])) (\<lambda>_.
          case p_children c of
            [] \<Rightarrow> bind (cil_fill_classperms_set ps) (\<lambda>cp_set. ret [(CIL_CLASSPERMS_SET, cp_set)])
          | k # kids \<Rightarrow>
              if p_children k = [] then
                bind (cil_fill_classperms E (k # kids)) (\<lambda>cp. ret [(CIL_CLASSPERMS, cp)])
              else fail SEPOL_ERR))"

subsection \<open>Categories, levels, ranges and contexts\<close>

text \<open>\<open>cil_fill_cats\<close> stores the new struct before it fills it; a failure frees the struct and leaves the pointer
  to it where it was stored.\<close>

definition cil_fill_cats ::
  "sepol_env \<Rightarrow> parse_tree list \<Rightarrow> (addr \<Rightarrow> (('h, 'b, 'z) build_state_scheme, unit) cil)
   \<Rightarrow> (('h, 'b, 'z) build_state_scheme, unit) cil"
where
  "cil_fill_cats E ps store =
     bind cil_cats_init (\<lambda>cats.
     bind (store cats) (\<lambda>_.
     bind (on_error (lift (cil_gen_expr E ps CIL_CAT)) (cil_destroy_cats (Some cats))) (\<lambda>e.
     wr m_cats m_cats_update cats (cats_str_expr_update (\<lambda>_. e)))))"

definition cil_fill_level :: "sepol_env \<Rightarrow> parse_tree list \<Rightarrow> addr \<Rightarrow> (('h, 'b, 'z) build_state_scheme, unit) cil" where
  "cil_fill_level E ps level =
     (if ps = [] then fail SEPOL_ERR
      else
        bind (lift (cil_verify_syntax ps
          [CIL_SYN_STRING, CIL_SYN_STRING OR CIL_SYN_LIST OR CIL_SYN_END, CIL_SYN_END])) (\<lambda>_.
        bind (lift (nth_data ps 0)) (\<lambda>sens_str.
        bind (wr m_level m_level_update level (level_sens_str_update (\<lambda>_. sens_str))) (\<lambda>_.
        if tl ps \<noteq> [] then
          cil_fill_cats E (tl ps) (\<lambda>c. wr m_level m_level_update level (level_cats_update (\<lambda>_. Some c)))
        else ret ()))))"

text \<open>A name is stored as such; a list is filled into a new struct, whose address is stored first.\<close>

definition name_or_new ::
  "parse_tree list \<Rightarrow> (cstring \<Rightarrow> (('h, 'b, 'z) build_state_scheme, unit) cil)
   \<Rightarrow> (('h, 'b, 'z) build_state_scheme, addr) cil \<Rightarrow> (addr \<Rightarrow> (('h, 'b, 'z) build_state_scheme, unit) cil)
   \<Rightarrow> (parse_tree list \<Rightarrow> addr \<Rightarrow> (('h, 'b, 'z) build_state_scheme, unit) cil)
   \<Rightarrow> (('h, 'b, 'z) build_state_scheme, unit) cil"
where
  "name_or_new ps set_name init set_new fill =
     bind (lift (nth_node ps 0)) (\<lambda>c.
     if p_children c = [] then set_name (p_data c)
     else bind init (\<lambda>a. bind (set_new a) (\<lambda>_. fill (p_children c) a)))"

definition cil_fill_levelrange ::
  "sepol_env \<Rightarrow> parse_tree list \<Rightarrow> addr \<Rightarrow> (('h, 'b, 'z) build_state_scheme, unit) cil"
where
  "cil_fill_levelrange E ps lvlrange =
     (if ps = [] then fail SEPOL_ERR
      else
        bind (lift (cil_verify_syntax ps
          [CIL_SYN_STRING OR CIL_SYN_LIST, CIL_SYN_STRING OR CIL_SYN_LIST, CIL_SYN_END])) (\<lambda>_.
        bind (name_or_new ps
            (\<lambda>str. wr m_levelrange m_levelrange_update lvlrange (levelrange_low_str_update (\<lambda>_. str)))
            cil_level_init
            (\<lambda>a. wr m_levelrange m_levelrange_update lvlrange (levelrange_low_update (\<lambda>_. Some a)))
            (cil_fill_level E)) (\<lambda>_.
        name_or_new (tl ps)
            (\<lambda>str. wr m_levelrange m_levelrange_update lvlrange (levelrange_high_str_update (\<lambda>_. str)))
            cil_level_init
            (\<lambda>a. wr m_levelrange m_levelrange_update lvlrange (levelrange_high_update (\<lambda>_. Some a)))
            (cil_fill_level E))))"

definition cil_fill_context ::
  "sepol_env \<Rightarrow> parse_tree list \<Rightarrow> addr \<Rightarrow> (('h, 'b, 'z) build_state_scheme, unit) cil"
where
  "cil_fill_context E user_node context =
     (if user_node = [] then fail SEPOL_ERR
      else
        bind (lift (cil_verify_syntax user_node
          [CIL_SYN_STRING, CIL_SYN_STRING, CIL_SYN_STRING, CIL_SYN_STRING OR CIL_SYN_LIST, CIL_SYN_END])) (\<lambda>_.
        bind (lift (nth_data user_node 0)) (\<lambda>user.
        bind (lift (nth_data user_node 1)) (\<lambda>role.
        bind (lift (nth_data user_node 2)) (\<lambda>type.
        bind (wr m_context m_context_update context (\<lambda>x. x\<lparr>context_user_str := user, context_role_str := role,
          context_type_str := type, context_range_str := None\<rparr>)) (\<lambda>_.
        name_or_new (drop 3 user_node)
          (\<lambda>str. wr m_context m_context_update context (context_range_str_update (\<lambda>_. str)))
          cil_levelrange_init
          (\<lambda>a. wr m_context m_context_update context (context_range_update (\<lambda>_. Some a)))
          (cil_fill_levelrange E)))))))"

end
