(* ===== verification/Cil_Build_Gen.thy ===== *)
theory Cil_Build_Gen
  imports Cil_Fill
begin

text \<open>
  The statements
    (\<open>cil_gen_*\<close> of \<open>src/cil_build_ast.c\<close>): each takes the node of the keyword,
      that is the list
  of that node and its later siblings, checks the syntax, makes the struct of the statement, fills it from the
  arguments and puts it into a node of the AST. A declaration is also entered into the symbol table of
  the block it stands in.

  The two patterns of these functions are \<open>gen_statement\<close> and \<open>gen_declaration\<close>: what follows the label
  \<open>exit\<close> in the code is their error path.
\<close>

type_synonym ('h, 'b, 'z) builder = "(('h, 'b, 'z) build_state_scheme, unit) cil"

subsection \<open>Nodes of the AST\<close>

definition cil_tree_node_init :: "(('h, 'b, 'z) build_state_scheme, addr) cil" where
  "cil_tree_node_init = new_struct nodes_update
     \<lparr>node_parent = None, node_cl_head = None, node_cl_tail = None, node_next = None, node_flavor = CIL_ROOT,
       node_line = 0, node_path = None, node_data = None\<rparr>"

definition set_node :: "addr \<Rightarrow> cil_flavor \<Rightarrow> addr \<Rightarrow> ('h, 'b, 'z) builder" where
  "set_node ast_node flavor a =
     wr nodes nodes_update ast_node (\<lambda>nd. nd\<lparr>node_data := Some a, node_flavor := flavor\<rparr>)"

definition cil_clear_node :: "addr \<Rightarrow> ('h, 'b, 'z) builder" where
  "cil_clear_node ast_node =
     wr nodes nodes_update ast_node (\<lambda>nd. nd\<lparr>node_data := None, node_flavor := CIL_NONE\<rparr>)"

text \<open>A new node of the AST for a node of the parse tree, and its place as the last child of its parent.\<close>

definition new_child :: "addr \<Rightarrow> parse_tree \<Rightarrow> (('h, 'b, 'z) build_state_scheme,
  addr) cil" where
  "new_child parent t =
     bind cil_tree_node_init (\<lambda>n.
     bind (wr nodes nodes_update n (\<lambda>nd. nd\<lparr>node_parent := Some parent, node_line := p_line t,
       node_path := Some (p_path t)\<rparr>)) (\<lambda>_. ret n))"

definition append_child :: "addr \<Rightarrow> addr \<Rightarrow> ('h, 'b, 'z) builder" where
  "append_child parent n =
     bind (rd nodes parent) (\<lambda>nd.
     bind (case node_cl_head nd of
         None \<Rightarrow> wr nodes nodes_update parent (node_cl_head_update (\<lambda>_. Some n))
       | Some _ \<Rightarrow>
           bind (lift (not_null (node_cl_tail nd))) (\<lambda>tail.
           wr nodes nodes_update tail (node_next_update (\<lambda>_. Some n)))) (\<lambda>_.
     wr nodes nodes_update parent (node_cl_tail_update (\<lambda>_. Some n))))"

subsection \<open>The symbol table of a node\<close>

text \<open>The loop of \<open>cil_get_symtab\<close> up the parents. A \<open>CIL_CONDBLOCK\<close> under neither kind of conditional is not
  left by the code: the loop runs forever, here until the fuel is used up.\<close>

fun enclosing_symtab :: "nat \<Rightarrow> ('h, 'b,
  'z) cil_store_scheme \<Rightarrow> addr option \<Rightarrow> nat \<Rightarrow> symtab_ref outcome" where
  "enclosing_symtab 0 s node i = Out_of_fuel"
| "enclosing_symtab (Suc fuel) s node i =
     (if node = None then Fail SEPOL_ERR
      else
        obind (deref (nodes s) node) (\<lambda>nd.
        let f = node_flavor nd in
        if f = CIL_ROOT \<or> f = CIL_BLOCK \<or> f = CIL_MACRO \<or> f = CIL_IN then
          obind (not_null (node_data nd)) (\<lambda>d. Ok (SymArray d i))
        else if f = CIL_CONDBLOCK then
          obind (deref (nodes s) (node_parent nd)) (\<lambda>p.
          if node_flavor p = CIL_TUNABLEIF then obind (not_null (node_data nd)) (\<lambda>d. Ok (SymArray d i))
          else if node_flavor p = CIL_BOOLEANIF then enclosing_symtab fuel s (node_parent p) i
          else enclosing_symtab fuel s node i)
        else enclosing_symtab fuel s (node_parent nd) i))"

definition cil_get_symtab ::
  "nat \<Rightarrow> ('h, 'b,
    'z) cil_store_scheme \<Rightarrow> addr option \<Rightarrow> cil_sym_index \<Rightarrow> symtab_ref outcome"
where
  "cil_get_symtab fuel s ast_node sym_index =
     (if sym_index = CIL_SYM_PERMS then
        obind (deref (nodes s) ast_node) (\<lambda>nd.
        if node_flavor nd = CIL_CLASS \<or> node_flavor nd = CIL_MAP_CLASS \<or> node_flavor nd = CIL_COMMON
        then obind (not_null (node_data nd)) (\<lambda>d. Ok (SymPerms d))
        else Fail SEPOL_ERR)
      else if sym_num sym_index \<ge> sym_num CIL_SYM_NUM then obind (deref (nodes s) ast_node)
        (\<lambda>_. Fail SEPOL_ERR)
      else if ast_node = None then Fault
      else enclosing_symtab fuel s ast_node (sym_num sym_index))"

text \<open>A name of a macro's parameter may not be declared again in the macro as an object of the same kind.\<close>

definition shadows_parameter ::
  "('h, 'b,
    'z) cil_store_scheme \<Rightarrow> addr option \<Rightarrow> string \<Rightarrow> cil_flavor \<Rightarrow> bool outcome"
where
  "shadows_parameter s parent key nflavor =
     (if nflavor < CIL_MIN_DECLARATIVE then Ok False
      else
        obind (deref (nodes s) parent) (\<lambda>p.
        if node_flavor p \<noteq> CIL_MACRO then Ok False
        else
          obind (deref (m_macro s) (node_data p)) (\<lambda>m.
          Ok (case macro_params m of None \<Rightarrow> False | Some params \<Rightarrow> (Some key,
            nflavor) \<in> set params))))"

text \<open>When the name of a block is taken, the message names the place of the first declaration.\<close>

definition report_block ::
  "('h, 'b) sepol \<Rightarrow> symtab_ref \<Rightarrow> string \<Rightarrow> cil_sym_index \<Rightarrow> ('h,
    'b, 'z) cil_store_scheme \<Rightarrow> unit outcome"
where
  "report_block L symtab key sflavor s =
     (case cil_symtab_get_datum L s symtab key of
        Ok d \<Rightarrow> if sflavor = CIL_SYM_BLOCKS then obind (NODE s (Some d)) (\<lambda>_. Ok ()) else Ok ()
      | Fail _ \<Rightarrow> Ok ()
      | Fault \<Rightarrow> Fault
      | Out_of_fuel \<Rightarrow> Out_of_fuel)"

text \<open>Every node of the AST was allocated below \<open>brk\<close>, which bounds the number of parents.\<close>

definition cil_gen_node ::
  "('h, 'b) sepol \<Rightarrow> addr \<Rightarrow> addr \<Rightarrow> cstring \<Rightarrow> cil_sym_index \<Rightarrow> cil_flavor \<Rightarrow> ('h, 'b, 'z) builder"
where
  "cil_gen_node L ast_node datum key sflavor nflavor =
     bind (lift (not_null key)) (\<lambda>key.
     bind (lift (cil_verify_name key)) (\<lambda>_.
     bind (rd nodes ast_node) (\<lambda>nd.
     bind (reading (\<lambda>s. cil_get_symtab (Suc (brk s)) s (node_parent nd) sflavor)) (\<lambda>symtab.
     bind (set_node ast_node nflavor datum) (\<lambda>_.
     bind (attempt (cil_symtab_insert L symtab key datum ast_node)) (\<lambda>rc.
     case rc of
       Inl SEPOL_EEXIST \<Rightarrow>
         bind (reading (report_block L symtab key sflavor)) (\<lambda>_. fail SEPOL_EEXIST)
     | Inl e \<Rightarrow> fail e
     | Inr _ \<Rightarrow>
         bind (reading (\<lambda>s. shadows_parameter s (node_parent nd) key nflavor)) (\<lambda>shadows.
         if shadows then fail SEPOL_ERR else ret ())))))))"

subsection \<open>The patterns of statements\<close>

text \<open>The data of the \<open>n\<close>-th node after the keyword,
  and code that returns \<open>SEPOL_ERR\<close> for any error.\<close>

definition arg :: "parse_tree list \<Rightarrow> nat \<Rightarrow> ('s, cstring) cil" where
  "arg ps n = lift (nth_data ps n)"

definition string_arg :: "parse_tree list \<Rightarrow> nat \<Rightarrow> ('s, string) cil" where
  "string_arg ps n = lift (obind (nth_data ps n) not_null)"

definition or_err :: "('s, 'a) cil \<Rightarrow> ('s, 'a) cil" where
  "or_err m = bind (attempt m) (\<lambda>r. case r of Inl _ \<Rightarrow> fail SEPOL_ERR | Inr x \<Rightarrow> ret x)"

definition gen_statement ::
  "unit outcome \<Rightarrow> (('h, 'b, 'z) build_state_scheme, addr) cil \<Rightarrow> (addr \<Rightarrow> ('h,
    'b, 'z) builder)
   \<Rightarrow> (addr option \<Rightarrow> ('h, 'b,
     'z) builder) \<Rightarrow> cil_flavor \<Rightarrow> addr \<Rightarrow> ('h, 'b, 'z) builder"
where
  "gen_statement check init fill destroy flavor ast_node =
     bind (lift check) (\<lambda>_.
     bind init (\<lambda>a.
     bind (on_error (fill a) (destroy (Some a))) (\<lambda>_.
     set_node ast_node flavor a)))"

definition gen_declaration ::
  "unit outcome \<Rightarrow> (('h, 'b, 'z) build_state_scheme, addr) cil \<Rightarrow> (addr \<Rightarrow> ('h,
    'b, 'z) builder)
   \<Rightarrow> (addr option \<Rightarrow> ('h, 'b, 'z) builder) \<Rightarrow> addr \<Rightarrow> ('h, 'b,
     'z) builder"
where
  "gen_declaration check init fill destroy ast_node =
     bind (on_error (lift check) (cil_clear_node ast_node)) (\<lambda>_.
     bind init (\<lambda>a.
     on_error (fill a) (bind (destroy (Some a)) (\<lambda>_. cil_clear_node ast_node))))"

subsection \<open>Blocks\<close>

definition cil_gen_block ::
  "('h, 'b) sepol \<Rightarrow> parse_tree list \<Rightarrow> addr \<Rightarrow> bool \<Rightarrow> ('h, 'b,
    'z) builder"
where
  "cil_gen_block L ps ast_node is_abstract =
     gen_declaration (cil_verify_syntax ps [CIL_SYN_STRING, CIL_SYN_STRING, CIL_SYN_N_LISTS OR CIL_SYN_END,
       CIL_SYN_END])
       (cil_block_init L)
       (\<lambda>a. bind (arg ps 1) (\<lambda>key.
        bind (wr m_block m_block_update a (block_is_abstract_update (\<lambda>_. is_abstract))) (\<lambda>_.
        cil_gen_node L ast_node a key CIL_SYM_BLOCKS CIL_BLOCK)))
       (cil_destroy_block L) ast_node"

definition cil_gen_blockinherit ::
  "parse_tree list \<Rightarrow> addr \<Rightarrow> ('h, 'b, 'z) builder"
where
  "cil_gen_blockinherit ps ast_node =
     gen_statement (cil_verify_syntax ps [CIL_SYN_STRING, CIL_SYN_STRING, CIL_SYN_END])
       cil_blockinherit_init
       (\<lambda>a. bind (arg ps 1) (\<lambda>block.
        wr m_blockinherit m_blockinherit_update a (\<lambda>x. x\<lparr>blockinherit_block_str := block\<rparr>)))
       cil_destroy_blockinherit CIL_BLOCKINHERIT ast_node"

definition cil_gen_blockabstract ::
  "parse_tree list \<Rightarrow> addr \<Rightarrow> ('h, 'b, 'z) builder"
where
  "cil_gen_blockabstract ps ast_node =
     gen_statement (cil_verify_syntax ps [CIL_SYN_STRING, CIL_SYN_STRING, CIL_SYN_END])
       cil_blockabstract_init
       (\<lambda>a. bind (arg ps 1) (\<lambda>block.
        wr m_blockabstract m_blockabstract_update a (\<lambda>x. x\<lparr>blockabstract_block_str := block\<rparr>)))
       cil_destroy_blockabstract CIL_BLOCKABSTRACT ast_node"

definition cil_gen_in ::
  "('h, 'b) sepol \<Rightarrow> parse_tree list \<Rightarrow> addr \<Rightarrow> ('h, 'b, 'z) builder"
where
  "cil_gen_in L ps ast_node =
     gen_statement (cil_verify_syntax ps [CIL_SYN_STRING, CIL_SYN_STRING, CIL_SYN_N_LISTS, CIL_SYN_END])
       (cil_in_init L)
       (\<lambda>a. bind (arg ps 1) (\<lambda>block.
        wr m_in m_in_update a (\<lambda>x. x\<lparr>in_block_str := block\<rparr>)))
       (cil_destroy_in L) CIL_IN ast_node"

subsection \<open>Classes and permissions\<close>

text \<open>\<open>cls\<close> is the class whose counter \<open>num_perms\<close> points to.\<close>

definition cil_gen_perm ::
  "('h, 'b) sepol \<Rightarrow> parse_tree list \<Rightarrow> addr \<Rightarrow> cil_flavor \<Rightarrow> addr \<Rightarrow> ('h, 'b, 'z) builder"
where
  "cil_gen_perm L ps ast_node flavor cls =
     bind cil_perm_init (\<lambda>perm.
     bind (on_error
       (bind (arg ps 0) (\<lambda>key. cil_gen_node L ast_node perm key CIL_SYM_PERMS flavor))
       (bind (cil_destroy_perm L (Some perm)) (\<lambda>_. cil_clear_node ast_node))) (\<lambda>_.
     bind (rd m_class cls) (\<lambda>c.
     bind (wr m_perm m_perm_update perm (perm_value_update (\<lambda>_. class_num_perms c))) (\<lambda>_.
     wr m_class m_class_update cls (class_num_perms_update (\<lambda>n. n + 1))))))"

fun cil_gen_perm_nodes ::
  "('h, 'b) sepol \<Rightarrow> parse_tree list \<Rightarrow> addr \<Rightarrow> cil_flavor \<Rightarrow> addr \<Rightarrow> ('h, 'b, 'z) builder"
where
  "cil_gen_perm_nodes L [] ast_node flavor cls = ret ()"
| "cil_gen_perm_nodes L (c # cs) ast_node flavor cls =
     (if p_children c \<noteq> [] then fail SEPOL_ERR
      else
        bind (new_child ast_node c) (\<lambda>n.
        bind (cil_gen_perm L (c # cs) n flavor cls) (\<lambda>_.
        bind (append_child ast_node n) (\<lambda>_.
        cil_gen_perm_nodes L cs ast_node flavor cls))))"

definition cil_gen_class ::
  "('h, 'b) sepol \<Rightarrow> parse_tree list \<Rightarrow> addr \<Rightarrow> ('h, 'b, 'z) builder"
where
  "cil_gen_class L ps ast_node =
     gen_declaration (cil_verify_syntax ps [CIL_SYN_STRING, CIL_SYN_STRING, CIL_SYN_LIST OR CIL_SYN_EMPTY_LIST,
       CIL_SYN_END])
       (cil_class_init L)
       (\<lambda>a. bind (arg ps 1) (\<lambda>key.
        bind (cil_gen_node L ast_node a key CIL_SYM_CLASSES CIL_CLASS) (\<lambda>_.
        if drop 2 ps \<noteq> [] then
          bind (lift (nth_list ps 2)) (\<lambda>perms. cil_gen_perm_nodes L perms ast_node CIL_PERM a)
        else ret ())))
       (cil_destroy_class L) ast_node"

definition cil_gen_classorder ::
  "parse_tree list \<Rightarrow> addr \<Rightarrow> ('h, 'b, 'z) builder"
where
  "cil_gen_classorder ps ast_node =
     gen_statement (cil_verify_syntax ps [CIL_SYN_STRING, CIL_SYN_LIST, CIL_SYN_END])
       cil_classorder_init
       (\<lambda>a. bind (lift (obind (nth_list ps 1) cil_fill_list)) (\<lambda>strs.
        wr m_classorder m_classorder_update a (classorder_class_list_str_update (\<lambda>_. strs))))
       cil_destroy_classorder CIL_CLASSORDER ast_node"

definition cil_gen_classpermission ::
  "('h, 'b) sepol \<Rightarrow> parse_tree list \<Rightarrow> addr \<Rightarrow> ('h, 'b, 'z) builder"
where
  "cil_gen_classpermission L ps ast_node =
     gen_declaration (cil_verify_syntax ps [CIL_SYN_STRING, CIL_SYN_STRING, CIL_SYN_END])
       cil_classpermission_init
       (\<lambda>a. bind (arg ps 1) (\<lambda>key.
        cil_gen_node L ast_node a key CIL_SYM_CLASSPERMSETS CIL_CLASSPERMISSION))
       (cil_destroy_classpermission L) ast_node"

definition cil_gen_classpermissionset ::
  "sepol_env \<Rightarrow> parse_tree list \<Rightarrow> addr \<Rightarrow> ('h, 'b, 'z) builder"
where
  "cil_gen_classpermissionset E ps ast_node =
     gen_statement (cil_verify_syntax ps [CIL_SYN_STRING, CIL_SYN_STRING, CIL_SYN_STRING OR CIL_SYN_LIST,
       CIL_SYN_END])
       cil_classpermissionset_init
       (\<lambda>a. bind (arg ps 1) (\<lambda>set_str.
        bind (wr m_classpermissionset m_classpermissionset_update a
          (\<lambda>x. x\<lparr>classpermissionset_set_str := set_str\<rparr>)) (\<lambda>_.
        bind (cil_fill_classperms_list E (drop 2 ps)) (\<lambda>cps.
        wr m_classpermissionset m_classpermissionset_update a (classpermissionset_classperms_update
          (\<lambda>_. cps))))))
       cil_destroy_classpermissionset CIL_CLASSPERMISSIONSET ast_node"

definition cil_gen_map_class ::
  "('h, 'b) sepol \<Rightarrow> parse_tree list \<Rightarrow> addr \<Rightarrow> ('h, 'b, 'z) builder"
where
  "cil_gen_map_class L ps ast_node =
     gen_declaration (cil_verify_syntax ps [CIL_SYN_STRING, CIL_SYN_STRING, CIL_SYN_LIST, CIL_SYN_END])
       (cil_class_init L)
       (\<lambda>a. bind (arg ps 1) (\<lambda>key.
        bind (cil_gen_node L ast_node a key CIL_SYM_CLASSES CIL_MAP_CLASS) (\<lambda>_.
        bind (lift (nth_list ps 2)) (\<lambda>perms. cil_gen_perm_nodes L perms ast_node CIL_MAP_PERM a))))
       (cil_destroy_class L) ast_node"

definition cil_gen_classmapping ::
  "sepol_env \<Rightarrow> parse_tree list \<Rightarrow> addr \<Rightarrow> ('h, 'b, 'z) builder"
where
  "cil_gen_classmapping E ps ast_node =
     gen_statement (cil_verify_syntax ps [CIL_SYN_STRING, CIL_SYN_STRING, CIL_SYN_STRING,
       CIL_SYN_STRING OR CIL_SYN_LIST, CIL_SYN_END])
       cil_classmapping_init
       (\<lambda>a. bind (arg ps 1) (\<lambda>map_class.
        bind (arg ps 2) (\<lambda>map_perm.
        bind (wr m_classmapping m_classmapping_update a
          (\<lambda>x. x\<lparr>classmapping_map_class_str := map_class,
            classmapping_map_perm_str := map_perm\<rparr>)) (\<lambda>_.
        bind (cil_fill_classperms_list E (drop 3 ps)) (\<lambda>cps.
        wr m_classmapping m_classmapping_update a (classmapping_classperms_update (\<lambda>_. cps)))))))
       cil_destroy_classmapping CIL_CLASSMAPPING ast_node"

definition cil_gen_common ::
  "('h, 'b) sepol \<Rightarrow> parse_tree list \<Rightarrow> addr \<Rightarrow> ('h, 'b, 'z) builder"
where
  "cil_gen_common L ps ast_node =
     gen_declaration (cil_verify_syntax ps [CIL_SYN_STRING, CIL_SYN_STRING, CIL_SYN_LIST, CIL_SYN_END])
       (cil_class_init L)
       (\<lambda>a. bind (arg ps 1) (\<lambda>key.
        bind (cil_gen_node L ast_node a key CIL_SYM_COMMONS CIL_COMMON) (\<lambda>_.
        bind (lift (nth_list ps 2)) (\<lambda>perms. cil_gen_perm_nodes L perms ast_node CIL_PERM a))))
       (cil_destroy_class L) ast_node"

definition cil_gen_classcommon ::
  "parse_tree list \<Rightarrow> addr \<Rightarrow> ('h, 'b, 'z) builder"
where
  "cil_gen_classcommon ps ast_node =
     gen_statement (cil_verify_syntax ps [CIL_SYN_STRING, CIL_SYN_STRING, CIL_SYN_STRING, CIL_SYN_END])
       cil_classcommon_init
       (\<lambda>a. bind (arg ps 1) (\<lambda>class_str.
        bind (arg ps 2) (\<lambda>common_str.
        wr m_classcommon m_classcommon_update a (\<lambda>x. x\<lparr>classcommon_class_str := class_str,
          classcommon_common_str := common_str\<rparr>))))
       cil_destroy_classcommon CIL_CLASSCOMMON ast_node"

subsection \<open>Initial SIDs\<close>

definition cil_gen_sid ::
  "('h, 'b) sepol \<Rightarrow> parse_tree list \<Rightarrow> addr \<Rightarrow> ('h, 'b, 'z) builder"
where
  "cil_gen_sid L ps ast_node =
     gen_declaration (cil_verify_syntax ps [CIL_SYN_STRING, CIL_SYN_STRING, CIL_SYN_END])
       cil_sid_init
       (\<lambda>a. bind (arg ps 1) (\<lambda>key.
        cil_gen_node L ast_node a key CIL_SYM_SIDS CIL_SID))
       (cil_destroy_sid L) ast_node"

definition cil_gen_sidcontext ::
  "('h, 'b) sepol \<Rightarrow> sepol_env \<Rightarrow> parse_tree list \<Rightarrow> addr \<Rightarrow> ('h, 'b,
    'z) builder"
where
  "cil_gen_sidcontext L E ps ast_node =
     gen_statement (cil_verify_syntax ps [CIL_SYN_STRING, CIL_SYN_STRING, CIL_SYN_STRING OR CIL_SYN_LIST,
       CIL_SYN_END])
       cil_sidcontext_init
       (\<lambda>a. bind (arg ps 1) (\<lambda>sid.
        bind (wr m_sidcontext m_sidcontext_update a (\<lambda>x. x\<lparr>sidcontext_sid_str := sid\<rparr>))
          (\<lambda>_.
        name_or_new (drop 2 ps)
          (\<lambda>str. wr m_sidcontext m_sidcontext_update a (sidcontext_context_str_update (\<lambda>_. str)))
          cil_context_init
          (\<lambda>new. wr m_sidcontext m_sidcontext_update a (sidcontext_context_update (\<lambda>_. Some new)))
          (cil_fill_context E))))
       (cil_destroy_sidcontext L) CIL_SIDCONTEXT ast_node"

definition cil_gen_sidorder ::
  "parse_tree list \<Rightarrow> addr \<Rightarrow> ('h, 'b, 'z) builder"
where
  "cil_gen_sidorder ps ast_node =
     gen_statement (cil_verify_syntax ps [CIL_SYN_STRING, CIL_SYN_LIST, CIL_SYN_END])
       cil_sidorder_init
       (\<lambda>a. bind (lift (obind (nth_list ps 1) cil_fill_list)) (\<lambda>strs.
        wr m_sidorder m_sidorder_update a (sidorder_sid_list_str_update (\<lambda>_. strs))))
       cil_destroy_sidorder CIL_SIDORDER ast_node"

subsection \<open>Users and roles\<close>

definition cil_gen_user ::
  "('h, 'b) sepol \<Rightarrow> parse_tree list \<Rightarrow> addr \<Rightarrow> ('h, 'b, 'z) builder"
where
  "cil_gen_user L ps ast_node =
     gen_declaration (cil_verify_syntax ps [CIL_SYN_STRING, CIL_SYN_STRING, CIL_SYN_END])
       cil_user_init
       (\<lambda>a. bind (arg ps 1) (\<lambda>key.
        cil_gen_node L ast_node a key CIL_SYM_USERS CIL_USER))
       (cil_destroy_user L) ast_node"

definition cil_gen_userlevel ::
  "('h, 'b) sepol \<Rightarrow> sepol_env \<Rightarrow> parse_tree list \<Rightarrow> addr \<Rightarrow> ('h, 'b,
    'z) builder"
where
  "cil_gen_userlevel L E ps ast_node =
     gen_statement (cil_verify_syntax ps [CIL_SYN_STRING, CIL_SYN_STRING, CIL_SYN_STRING OR CIL_SYN_LIST,
       CIL_SYN_END])
       cil_userlevel_init
       (\<lambda>a. bind (arg ps 1) (\<lambda>user.
        bind (wr m_userlevel m_userlevel_update a (\<lambda>x. x\<lparr>userlevel_user_str := user\<rparr>))
          (\<lambda>_.
        name_or_new (drop 2 ps)
          (\<lambda>str. wr m_userlevel m_userlevel_update a (userlevel_level_str_update (\<lambda>_. str)))
          cil_level_init
          (\<lambda>new. wr m_userlevel m_userlevel_update a (userlevel_level_update (\<lambda>_. Some new)))
          (cil_fill_level E))))
       (cil_destroy_userlevel L) CIL_USERLEVEL ast_node"

definition cil_gen_userrange ::
  "('h, 'b) sepol \<Rightarrow> sepol_env \<Rightarrow> parse_tree list \<Rightarrow> addr \<Rightarrow> ('h, 'b,
    'z) builder"
where
  "cil_gen_userrange L E ps ast_node =
     gen_statement (cil_verify_syntax ps [CIL_SYN_STRING, CIL_SYN_STRING, CIL_SYN_STRING OR CIL_SYN_LIST,
       CIL_SYN_END])
       cil_userrange_init
       (\<lambda>a. bind (arg ps 1) (\<lambda>user.
        bind (wr m_userrange m_userrange_update a (\<lambda>x. x\<lparr>userrange_user_str := user\<rparr>))
          (\<lambda>_.
        name_or_new (drop 2 ps)
          (\<lambda>str. wr m_userrange m_userrange_update a (userrange_range_str_update (\<lambda>_. str)))
          cil_levelrange_init
          (\<lambda>new. wr m_userrange m_userrange_update a (userrange_range_update (\<lambda>_. Some new)))
          (cil_fill_levelrange E))))
       (cil_destroy_userrange L) CIL_USERRANGE ast_node"

definition cil_gen_userprefix ::
  "parse_tree list \<Rightarrow> addr \<Rightarrow> ('h, 'b, 'z) builder"
where
  "cil_gen_userprefix ps ast_node =
     gen_statement (cil_verify_syntax ps [CIL_SYN_STRING, CIL_SYN_STRING, CIL_SYN_STRING, CIL_SYN_END])
       cil_userprefix_init
       (\<lambda>a. bind (arg ps 1) (\<lambda>user.
        bind (arg ps 2) (\<lambda>prefix.
        wr m_userprefix m_userprefix_update a (\<lambda>x. x\<lparr>userprefix_user_str := user,
          userprefix_prefix_str := prefix\<rparr>))))
       cil_destroy_userprefix CIL_USERPREFIX ast_node"

definition cil_gen_selinuxuser ::
  "('h, 'b) sepol \<Rightarrow> sepol_env \<Rightarrow> parse_tree list \<Rightarrow> addr \<Rightarrow> ('h, 'b,
    'z) builder"
where
  "cil_gen_selinuxuser L E ps ast_node =
     gen_statement (cil_verify_syntax ps [CIL_SYN_STRING, CIL_SYN_STRING, CIL_SYN_STRING,
       CIL_SYN_STRING OR CIL_SYN_LIST, CIL_SYN_END])
       cil_selinuxuser_init
       (\<lambda>a. bind (arg ps 1) (\<lambda>name.
        bind (arg ps 2) (\<lambda>user.
        bind (wr m_selinuxuser m_selinuxuser_update a (\<lambda>x. x\<lparr>selinuxuser_name_str := name,
          selinuxuser_user_str := user\<rparr>)) (\<lambda>_.
        name_or_new (drop 3 ps)
          (\<lambda>str. wr m_selinuxuser m_selinuxuser_update a (selinuxuser_range_str_update (\<lambda>_. str)))
          cil_levelrange_init
          (\<lambda>new. wr m_selinuxuser m_selinuxuser_update a (selinuxuser_range_update (\<lambda>_. Some new)))
          (cil_fill_levelrange E)))))
       (cil_destroy_selinuxuser L) CIL_SELINUXUSER ast_node"

definition cil_gen_selinuxuserdefault ::
  "('h, 'b) sepol \<Rightarrow> sepol_env \<Rightarrow> parse_tree list \<Rightarrow> addr \<Rightarrow> ('h, 'b,
    'z) builder"
where
  "cil_gen_selinuxuserdefault L E ps ast_node =
     gen_statement (cil_verify_syntax ps [CIL_SYN_STRING, CIL_SYN_STRING, CIL_SYN_STRING OR CIL_SYN_LIST,
       CIL_SYN_END])
       cil_selinuxuser_init
       (\<lambda>a. bind (arg ps 1) (\<lambda>user.
        bind (wr m_selinuxuser m_selinuxuser_update a (\<lambda>x. x\<lparr>selinuxuser_user_str := user,
          selinuxuser_name_str := Some ''__default__''\<rparr>)) (\<lambda>_.
        name_or_new (drop 2 ps)
          (\<lambda>str. wr m_selinuxuser m_selinuxuser_update a (selinuxuser_range_str_update (\<lambda>_. str)))
          cil_levelrange_init
          (\<lambda>new. wr m_selinuxuser m_selinuxuser_update a (selinuxuser_range_update (\<lambda>_. Some new)))
          (cil_fill_levelrange E))))
       (cil_destroy_selinuxuser L) CIL_SELINUXUSERDEFAULT ast_node"

definition cil_gen_role ::
  "('h, 'b) sepol \<Rightarrow> parse_tree list \<Rightarrow> addr \<Rightarrow> ('h, 'b, 'z) builder"
where
  "cil_gen_role L ps ast_node =
     gen_declaration (cil_verify_syntax ps [CIL_SYN_STRING, CIL_SYN_STRING, CIL_SYN_END])
       cil_role_init
       (\<lambda>a. bind (arg ps 1) (\<lambda>key.
        cil_gen_node L ast_node a key CIL_SYM_ROLES CIL_ROLE))
       (cil_destroy_role L) ast_node"

definition cil_gen_roletype ::
  "parse_tree list \<Rightarrow> addr \<Rightarrow> ('h, 'b, 'z) builder"
where
  "cil_gen_roletype ps ast_node =
     gen_statement (cil_verify_syntax ps [CIL_SYN_STRING, CIL_SYN_STRING, CIL_SYN_STRING, CIL_SYN_END])
       cil_roletype_init
       (\<lambda>a. bind (arg ps 1) (\<lambda>role.
        bind (arg ps 2) (\<lambda>type.
        wr m_roletype m_roletype_update a (\<lambda>x. x\<lparr>roletype_role_str := role,
          roletype_type_str := type\<rparr>))))
       cil_destroy_roletype CIL_ROLETYPE ast_node"

definition cil_gen_userrole ::
  "parse_tree list \<Rightarrow> addr \<Rightarrow> ('h, 'b, 'z) builder"
where
  "cil_gen_userrole ps ast_node =
     gen_statement (cil_verify_syntax ps [CIL_SYN_STRING, CIL_SYN_STRING, CIL_SYN_STRING, CIL_SYN_END])
       cil_userrole_init
       (\<lambda>a. bind (arg ps 1) (\<lambda>user.
        bind (arg ps 2) (\<lambda>role.
        wr m_userrole m_userrole_update a (\<lambda>x. x\<lparr>userrole_user_str := user,
          userrole_role_str := role\<rparr>))))
       cil_destroy_userrole CIL_USERROLE ast_node"

definition cil_gen_roletransition ::
  "parse_tree list \<Rightarrow> addr \<Rightarrow> ('h, 'b, 'z) builder"
where
  "cil_gen_roletransition ps ast_node =
     gen_statement (cil_verify_syntax ps [CIL_SYN_STRING, CIL_SYN_STRING, CIL_SYN_STRING, CIL_SYN_STRING,
       CIL_SYN_STRING, CIL_SYN_END])
       cil_roletransition_init
       (\<lambda>a. bind (arg ps 1) (\<lambda>src.
        bind (arg ps 2) (\<lambda>tgt.
        bind (arg ps 3) (\<lambda>obj.
        bind (arg ps 4) (\<lambda>result.
        wr m_roletransition m_roletransition_update a (\<lambda>x. x\<lparr>roletransition_src_str := src,
          roletransition_tgt_str := tgt, roletransition_obj_str := obj,
            roletransition_result_str := result\<rparr>))))))
       cil_destroy_roletransition CIL_ROLETRANSITION ast_node"

definition cil_gen_roleallow ::
  "parse_tree list \<Rightarrow> addr \<Rightarrow> ('h, 'b, 'z) builder"
where
  "cil_gen_roleallow ps ast_node =
     gen_statement (cil_verify_syntax ps [CIL_SYN_STRING, CIL_SYN_STRING, CIL_SYN_STRING, CIL_SYN_END])
       cil_roleallow_init
       (\<lambda>a. bind (arg ps 1) (\<lambda>src.
        bind (arg ps 2) (\<lambda>tgt.
        wr m_roleallow m_roleallow_update a (\<lambda>x. x\<lparr>roleallow_src_str := src,
          roleallow_tgt_str := tgt\<rparr>))))
       cil_destroy_roleallow CIL_ROLEALLOW ast_node"

definition cil_gen_roleattribute ::
  "('h, 'b) sepol \<Rightarrow> parse_tree list \<Rightarrow> addr \<Rightarrow> ('h, 'b, 'z) builder"
where
  "cil_gen_roleattribute L ps ast_node =
     gen_declaration (obind (cil_verify_syntax ps [CIL_SYN_STRING, CIL_SYN_STRING, CIL_SYN_END]) (\<lambda>_.
       obind (nth_data ps 1) (\<lambda>name. if name = CIL_KEY_SELF then Fail SEPOL_ERR else Ok ())))
       cil_roleattribute_init
       (\<lambda>a. bind (arg ps 1) (\<lambda>key.
        cil_gen_node L ast_node a key CIL_SYM_ROLES CIL_ROLEATTRIBUTE))
       (cil_destroy_roleattribute L) ast_node"

definition cil_gen_roleattributeset ::
  "sepol_env \<Rightarrow> parse_tree list \<Rightarrow> addr \<Rightarrow> ('h, 'b, 'z) builder"
where
  "cil_gen_roleattributeset E ps ast_node =
     gen_statement (cil_verify_syntax ps [CIL_SYN_STRING, CIL_SYN_STRING, CIL_SYN_STRING OR CIL_SYN_LIST,
       CIL_SYN_END])
       cil_roleattributeset_init
       (\<lambda>a. bind (arg ps 1) (\<lambda>attr.
        bind (wr m_roleattributeset m_roleattributeset_update a
          (\<lambda>x. x\<lparr>roleattributeset_attr_str := attr\<rparr>)) (\<lambda>_.
        bind (lift (cil_gen_expr E (drop 2 ps) CIL_ROLE)) (\<lambda>e.
        wr m_roleattributeset m_roleattributeset_update a (roleattributeset_str_expr_update (\<lambda>_. e))))))
       cil_destroy_roleattributeset CIL_ROLEATTRIBUTESET ast_node"

subsection \<open>Rules and types\<close>

definition cil_gen_avrule ::
  "sepol_env \<Rightarrow> parse_tree list \<Rightarrow> addr \<Rightarrow> nat \<Rightarrow> ('h, 'b, 'z) builder"
where
  "cil_gen_avrule E ps ast_node rule_kind =
     gen_statement (cil_verify_syntax ps [CIL_SYN_STRING, CIL_SYN_STRING, CIL_SYN_STRING,
       CIL_SYN_STRING OR CIL_SYN_LIST, CIL_SYN_END])
       cil_avrule_init
       (\<lambda>a. bind (arg ps 1) (\<lambda>src.
        bind (arg ps 2) (\<lambda>tgt.
        bind (wr m_avrule m_avrule_update a (\<lambda>x. x\<lparr>avrule_src_str := src, avrule_tgt_str := tgt,
          avrule_rule_kind := rule_kind\<rparr>)) (\<lambda>_.
        bind (cil_fill_classperms_list E (drop 3 ps)) (\<lambda>cps.
        wr m_avrule m_avrule_update a (avrule_classperms_update (\<lambda>_. cps)))))))
       cil_destroy_avrule CIL_AVRULE ast_node"

definition cil_gen_type_rule ::
  "parse_tree list \<Rightarrow> addr \<Rightarrow> nat \<Rightarrow> ('h, 'b, 'z) builder"
where
  "cil_gen_type_rule ps ast_node rule_kind =
     gen_statement (cil_verify_syntax ps [CIL_SYN_STRING, CIL_SYN_STRING, CIL_SYN_STRING, CIL_SYN_STRING,
       CIL_SYN_STRING, CIL_SYN_END])
       cil_type_rule_init
       (\<lambda>a. bind (arg ps 1) (\<lambda>src.
        bind (arg ps 2) (\<lambda>tgt.
        bind (arg ps 3) (\<lambda>obj.
        bind (arg ps 4) (\<lambda>result.
        wr m_type_rule m_type_rule_update a (\<lambda>x. x\<lparr>type_rule_src_str := src,
          type_rule_tgt_str := tgt, type_rule_obj_str := obj, type_rule_result_str := result,
            type_rule_rule_kind := rule_kind\<rparr>))))))
       cil_destroy_type_rule CIL_TYPE_RULE ast_node"

definition cil_gen_type ::
  "('h, 'b) sepol \<Rightarrow> parse_tree list \<Rightarrow> addr \<Rightarrow> ('h, 'b, 'z) builder"
where
  "cil_gen_type L ps ast_node =
     gen_declaration (obind (cil_verify_syntax ps [CIL_SYN_STRING, CIL_SYN_STRING, CIL_SYN_END]) (\<lambda>_.
       obind (nth_data ps 1) (\<lambda>name. if name = CIL_KEY_SELF then Fail SEPOL_ERR else Ok ())))
       cil_type_init
       (\<lambda>a. bind (arg ps 1) (\<lambda>key.
        cil_gen_node L ast_node a key CIL_SYM_TYPES CIL_TYPE))
       (cil_destroy_type L) ast_node"

definition cil_gen_typeattribute ::
  "('h, 'b) sepol \<Rightarrow> parse_tree list \<Rightarrow> addr \<Rightarrow> ('h, 'b, 'z) builder"
where
  "cil_gen_typeattribute L ps ast_node =
     gen_declaration (obind (cil_verify_syntax ps [CIL_SYN_STRING, CIL_SYN_STRING, CIL_SYN_END]) (\<lambda>_.
       obind (nth_data ps 1) (\<lambda>name. if name = CIL_KEY_SELF then Fail SEPOL_ERR else Ok ())))
       cil_typeattribute_init
       (\<lambda>a. bind (arg ps 1) (\<lambda>key.
        cil_gen_node L ast_node a key CIL_SYM_TYPES CIL_TYPEATTRIBUTE))
       (cil_destroy_typeattribute L) ast_node"

text \<open>The words \<open>true\<close> and \<open>false\<close>.\<close>

definition truth_value :: "cstring \<Rightarrow> bool outcome" where
  "truth_value str =
     (if str = CIL_KEY_CONDTRUE then Ok True else if str = CIL_KEY_CONDFALSE then Ok False else Fail SEPOL_ERR)"

definition cil_gen_bool ::
  "('h, 'b) sepol \<Rightarrow> parse_tree list \<Rightarrow> addr \<Rightarrow> ('h, 'b, 'z) builder"
where
  "cil_gen_bool L ps ast_node =
     gen_declaration (cil_verify_syntax ps [CIL_SYN_STRING, CIL_SYN_STRING, CIL_SYN_STRING, CIL_SYN_END])
       cil_bool_init
       (\<lambda>a. bind (arg ps 1) (\<lambda>key.
        bind (bind (lift (obind (nth_data ps 2) truth_value)) (\<lambda>v.
        wr m_bool m_bool_update a (bool_value_update (\<lambda>_. v)))) (\<lambda>_.
        cil_gen_node L ast_node a key CIL_SYM_BOOLS CIL_BOOL)))
       (cil_destroy_bool L) ast_node"

definition cil_gen_tunable ::
  "('h, 'b) sepol \<Rightarrow> parse_tree list \<Rightarrow> addr \<Rightarrow> ('h, 'b, 'z) builder"
where
  "cil_gen_tunable L ps ast_node =
     gen_declaration (cil_verify_syntax ps [CIL_SYN_STRING, CIL_SYN_STRING, CIL_SYN_STRING, CIL_SYN_END])
       cil_tunable_init
       (\<lambda>a. bind (arg ps 1) (\<lambda>key.
        bind (bind (lift (obind (nth_data ps 2) truth_value)) (\<lambda>v.
        wr m_tunable m_tunable_update a (tunable_value_update (\<lambda>_. v)))) (\<lambda>_.
        cil_gen_node L ast_node a key CIL_SYM_TUNABLES CIL_TUNABLE)))
       (cil_destroy_tunable L) ast_node"

subsection \<open>Conditionals\<close>

text \<open>The first word of a branch.\<close>

definition check_branch :: "parse_tree list \<Rightarrow> unit outcome" where
  "check_branch cond =
     obind (nth_list cond 0) (\<lambda>branch.
     obind (nth_data branch 0) (\<lambda>word.
     if word \<noteq> CIL_KEY_CONDTRUE \<and> word \<noteq> CIL_KEY_CONDFALSE then Fail SEPOL_ERR else Ok ()))"

text \<open>The condition is taken out of the parse tree: the result is the list of the keyword and the branches.\<close>

definition cil_gen_boolif ::
  "sepol_env \<Rightarrow> parse_tree list \<Rightarrow> addr \<Rightarrow> bool \<Rightarrow> (('h, 'b,
    'z) build_state_scheme, parse_tree list) cil"
where
  "cil_gen_boolif E ps ast_node tunableif =
     bind (gen_statement (cil_verify_syntax ps [CIL_SYN_STRING, CIL_SYN_STRING OR CIL_SYN_LIST, CIL_SYN_LIST,
       CIL_SYN_LIST OR CIL_SYN_END, CIL_SYN_END])
       cil_boolif_init
       (\<lambda>a. bind (wr m_booleanif m_booleanif_update a (booleanif_preserved_tunable_update
         (\<lambda>_. tunableif))) (\<lambda>_.
        bind (lift (cil_gen_expr E (drop 1 ps) CIL_BOOL)) (\<lambda>e.
        bind (wr m_booleanif m_booleanif_update a (booleanif_str_expr_update (\<lambda>_. e))) (\<lambda>_.
        bind (lift (check_branch (drop 2 ps))) (\<lambda>_.
        lift (if drop 3 ps \<noteq> [] then check_branch (drop 3 ps) else Ok ()))))))
       cil_destroy_boolif CIL_BOOLEANIF ast_node) (\<lambda>_.
     ret (take 1 ps @ drop 2 ps))"

definition cil_gen_tunif ::
  "sepol_env \<Rightarrow> parse_tree list \<Rightarrow> addr \<Rightarrow> (('h, 'b, 'z) build_state_scheme,
    parse_tree list) cil"
where
  "cil_gen_tunif E ps ast_node =
     bind (gen_statement (cil_verify_syntax ps [CIL_SYN_STRING, CIL_SYN_STRING OR CIL_SYN_LIST, CIL_SYN_LIST,
       CIL_SYN_LIST OR CIL_SYN_END, CIL_SYN_END])
       cil_tunif_init
       (\<lambda>a. bind (lift (cil_gen_expr E (drop 1 ps) CIL_TUNABLE)) (\<lambda>e.
        bind (wr m_tunableif m_tunableif_update a (tunableif_str_expr_update (\<lambda>_. e))) (\<lambda>_.
        bind (lift (check_branch (drop 2 ps))) (\<lambda>_.
        lift (if drop 3 ps \<noteq> [] then check_branch (drop 3 ps) else Ok ())))))
       cil_destroy_tunif CIL_TUNABLEIF ast_node) (\<lambda>_.
     ret (take 1 ps @ drop 2 ps))"

text \<open>The parent is checked before anything is made.\<close>

definition cil_gen_condblock :: "('h,
  'b) sepol \<Rightarrow> parse_tree list \<Rightarrow> addr \<Rightarrow> cil_flavor \<Rightarrow> ('h, 'b,
    'z) builder" where
  "cil_gen_condblock L ps ast_node flavor =
     bind (lift (cil_verify_syntax ps [CIL_SYN_STRING, CIL_SYN_N_LISTS, CIL_SYN_END])) (\<lambda>_.
     bind (rd nodes ast_node) (\<lambda>nd.
     bind (reading (\<lambda>s. deref (nodes s) (node_parent nd))) (\<lambda>p.
     if node_flavor p \<noteq> CIL_BOOLEANIF \<and> node_flavor p \<noteq> CIL_TUNABLEIF then fail SEPOL_ERR
     else
       bind (cil_condblock_init L) (\<lambda>cb.
       bind (wr m_condblock m_condblock_update cb (condblock_kind_update (\<lambda>_. flavor))) (\<lambda>_.
       set_node ast_node CIL_CONDBLOCK cb)))))"

subsection \<open>Aliases, attributes and transitions\<close>

definition cil_gen_alias :: "('h,
  'b) sepol \<Rightarrow> parse_tree list \<Rightarrow> addr \<Rightarrow> cil_flavor \<Rightarrow> ('h, 'b,
    'z) builder" where
  "cil_gen_alias L ps ast_node flavor =
     gen_declaration
       (obind (cil_verify_syntax ps [CIL_SYN_STRING, CIL_SYN_STRING, CIL_SYN_END]) (\<lambda>_.
        obind (nth_data ps 1) (\<lambda>name.
        if flavor = CIL_TYPEALIAS \<and> name = CIL_KEY_SELF then Fail SEPOL_ERR else Ok ())))
       cil_alias_init
       (\<lambda>a. bind (arg ps 1) (\<lambda>key.
        bind (lift (cil_flavor_to_symtab_index flavor)) (\<lambda>sym_index.
        cil_gen_node L ast_node a key sym_index flavor)))
       (cil_destroy_alias L) ast_node"

text \<open>Nothing has been made when an alias is refused.\<close>

definition cil_gen_aliasactual :: "parse_tree list \<Rightarrow> addr \<Rightarrow> cil_flavor \<Rightarrow> ('h,
  'b, 'z) builder" where
  "cil_gen_aliasactual ps ast_node flavor =
     bind (on_error
       (lift (obind (cil_verify_syntax ps [CIL_SYN_STRING, CIL_SYN_STRING, CIL_SYN_STRING, CIL_SYN_END]) (\<lambda>_.
        obind (nth_data ps 1) (\<lambda>name.
        obind (nth_data ps 2) (\<lambda>actual.
        if flavor = CIL_TYPEALIAS \<and> name = CIL_KEY_SELF \<or> actual = CIL_KEY_SELF then Fail SEPOL_ERR
        else Ok ())))))
       (cil_clear_node ast_node)) (\<lambda>_.
     bind cil_aliasactual_init (\<lambda>a.
     bind (arg ps 1) (\<lambda>name.
     bind (arg ps 2) (\<lambda>actual.
     bind (wr m_aliasactual m_aliasactual_update a (\<lambda>x. x\<lparr>aliasactual_alias_str := name,
       aliasactual_actual_str := actual\<rparr>)) (\<lambda>_.
     set_node ast_node flavor a)))))"

definition cil_gen_typeattributeset ::
  "sepol_env \<Rightarrow> parse_tree list \<Rightarrow> addr \<Rightarrow> ('h, 'b, 'z) builder"
where
  "cil_gen_typeattributeset E ps ast_node =
     gen_statement (cil_verify_syntax ps [CIL_SYN_STRING, CIL_SYN_STRING, CIL_SYN_STRING OR CIL_SYN_LIST,
       CIL_SYN_END])
       cil_typeattributeset_init
       (\<lambda>a. bind (arg ps 1) (\<lambda>attr.
        bind (wr m_typeattributeset m_typeattributeset_update a
          (\<lambda>x. x\<lparr>typeattributeset_attr_str := attr\<rparr>)) (\<lambda>_.
        bind (lift (cil_gen_expr E (drop 2 ps) CIL_TYPE)) (\<lambda>e.
        wr m_typeattributeset m_typeattributeset_update a (typeattributeset_str_expr_update (\<lambda>_. e))))))
       cil_destroy_typeattributeset CIL_TYPEATTRIBUTESET ast_node"

definition cil_gen_typepermissive ::
  "parse_tree list \<Rightarrow> addr \<Rightarrow> ('h, 'b, 'z) builder"
where
  "cil_gen_typepermissive ps ast_node =
     gen_statement (cil_verify_syntax ps [CIL_SYN_STRING, CIL_SYN_STRING, CIL_SYN_END])
       cil_typepermissive_init
       (\<lambda>a. bind (arg ps 1) (\<lambda>type.
        wr m_typepermissive m_typepermissive_update a (\<lambda>x. x\<lparr>typepermissive_type_str := type\<rparr>)))
       cil_destroy_typepermissive CIL_TYPEPERMISSIVE ast_node"

text \<open>With a sixth word, the fifth is a name, unless it is \<open>*\<close>, which stands for any name.\<close>

definition cil_gen_typetransition :: "parse_tree list \<Rightarrow> addr \<Rightarrow> ('h, 'b, 'z) builder" where
  "cil_gen_typetransition ps ast_node =
     bind (lift (cil_verify_syntax ps [CIL_SYN_STRING, CIL_SYN_STRING, CIL_SYN_STRING, CIL_SYN_STRING,
       CIL_SYN_STRING, CIL_SYN_STRING OR CIL_SYN_END, CIL_SYN_END])) (\<lambda>_.
     bind (arg ps 1) (\<lambda>s1.
     bind (arg ps 2) (\<lambda>s2.
     bind (arg ps 3) (\<lambda>s3.
     bind (arg ps 4) (\<lambda>s4.
     bind (if drop 5 ps \<noteq> [] then
             bind (arg ps 5) (\<lambda>last. ret (if s4 = CIL_KEY_STAR then (last, None) else (s4, last)))
           else ret (s4, None)) (\<lambda>(s4, s5).
     if s5 \<noteq> None then
       bind cil_nametypetransition_init (\<lambda>a.
       bind (wr m_nametypetransition m_nametypetransition_update a
         (\<lambda>x. x\<lparr>nametypetransition_src_str := s1,
         nametypetransition_tgt_str := s2, nametypetransition_obj_str := s3, nametypetransition_result_str := s5,
         nametypetransition_name_str := s4\<rparr>)) (\<lambda>_.
       set_node ast_node CIL_NAMETYPETRANSITION a))
     else
       bind cil_type_rule_init (\<lambda>a.
       bind (wr m_type_rule m_type_rule_update a (\<lambda>x. x\<lparr>type_rule_rule_kind := CIL_TYPE_TRANSITION,
         type_rule_src_str := s1, type_rule_tgt_str := s2, type_rule_obj_str := s3,
           type_rule_result_str := s4\<rparr>)) (\<lambda>_.
       set_node ast_node CIL_TYPE_RULE a))))))))"

definition cil_gen_rangetransition ::
  "('h, 'b) sepol \<Rightarrow> sepol_env \<Rightarrow> parse_tree list \<Rightarrow> addr \<Rightarrow> ('h, 'b,
    'z) builder"
where
  "cil_gen_rangetransition L E ps ast_node =
     gen_statement (cil_verify_syntax ps [CIL_SYN_STRING, CIL_SYN_STRING, CIL_SYN_STRING, CIL_SYN_STRING,
       CIL_SYN_STRING OR CIL_SYN_LIST, CIL_SYN_END])
       cil_rangetransition_init
       (\<lambda>a. bind (arg ps 1) (\<lambda>src.
        bind (arg ps 2) (\<lambda>exec.
        bind (arg ps 3) (\<lambda>obj.
        bind (wr m_rangetransition m_rangetransition_update a
          (\<lambda>x. x\<lparr>rangetransition_src_str := src, rangetransition_exec_str := exec,
            rangetransition_obj_str := obj, rangetransition_range_str := None\<rparr>)) (\<lambda>_.
        name_or_new (drop 4 ps)
          (\<lambda>str. wr m_rangetransition m_rangetransition_update a (rangetransition_range_str_update
            (\<lambda>_. str)))
          cil_levelrange_init
          (\<lambda>new. wr m_rangetransition m_rangetransition_update a (rangetransition_range_update
            (\<lambda>_. Some new)))
          (cil_fill_levelrange E))))))
       (cil_destroy_rangetransition L) CIL_RANGETRANSITION ast_node"

subsection \<open>Sensitivities, categories and levels\<close>

definition cil_gen_sensitivity ::
  "('h, 'b) sepol \<Rightarrow> parse_tree list \<Rightarrow> addr \<Rightarrow> ('h, 'b, 'z) builder"
where
  "cil_gen_sensitivity L ps ast_node =
     gen_declaration (cil_verify_syntax ps [CIL_SYN_STRING, CIL_SYN_STRING, CIL_SYN_END])
       cil_sens_init
       (\<lambda>a. bind (arg ps 1) (\<lambda>key.
        cil_gen_node L ast_node a key CIL_SYM_SENS CIL_SENS))
       (cil_destroy_sensitivity L) ast_node"

definition cil_gen_category ::
  "('h, 'b) sepol \<Rightarrow> parse_tree list \<Rightarrow> addr \<Rightarrow> ('h, 'b, 'z) builder"
where
  "cil_gen_category L ps ast_node =
     gen_declaration (cil_verify_syntax ps [CIL_SYN_STRING, CIL_SYN_STRING, CIL_SYN_END])
       cil_cat_init
       (\<lambda>a. bind (arg ps 1) (\<lambda>key.
        cil_gen_node L ast_node a key CIL_SYM_CATS CIL_CAT))
       (cil_destroy_category L) ast_node"

definition cil_gen_catset ::
  "('h, 'b) sepol \<Rightarrow> sepol_env \<Rightarrow> parse_tree list \<Rightarrow> addr \<Rightarrow> ('h, 'b,
    'z) builder"
where
  "cil_gen_catset L E ps ast_node =
     gen_declaration (cil_verify_syntax ps [CIL_SYN_STRING, CIL_SYN_STRING, CIL_SYN_LIST, CIL_SYN_END])
       cil_catset_init
       (\<lambda>a. bind (arg ps 1) (\<lambda>key.
        bind (cil_gen_node L ast_node a key CIL_SYM_CATS CIL_CATSET) (\<lambda>_.
        cil_fill_cats E (drop 2 ps) (\<lambda>c. wr m_catset m_catset_update a (catset_cats_update
          (\<lambda>_. Some c))))))
       (cil_destroy_catset L) ast_node"

definition cil_gen_catorder ::
  "parse_tree list \<Rightarrow> addr \<Rightarrow> ('h, 'b, 'z) builder"
where
  "cil_gen_catorder ps ast_node =
     gen_statement (cil_verify_syntax ps [CIL_SYN_STRING, CIL_SYN_LIST, CIL_SYN_END])
       cil_catorder_init
       (\<lambda>a. bind (lift (obind (nth_list ps 1) cil_fill_list)) (\<lambda>strs.
        wr m_catorder m_catorder_update a (catorder_cat_list_str_update (\<lambda>_. strs))))
       cil_destroy_catorder CIL_CATORDER ast_node"

definition cil_gen_sensitivityorder ::
  "parse_tree list \<Rightarrow> addr \<Rightarrow> ('h, 'b, 'z) builder"
where
  "cil_gen_sensitivityorder ps ast_node =
     gen_statement (cil_verify_syntax ps [CIL_SYN_STRING, CIL_SYN_LIST, CIL_SYN_END])
       cil_sensorder_init
       (\<lambda>a. bind (lift (obind (nth_list ps 1) cil_fill_list)) (\<lambda>strs.
        wr m_sensorder m_sensorder_update a (sensorder_sens_list_str_update (\<lambda>_. strs))))
       cil_destroy_sensitivityorder CIL_SENSITIVITYORDER ast_node"

definition cil_gen_senscat ::
  "('h, 'b) sepol \<Rightarrow> sepol_env \<Rightarrow> parse_tree list \<Rightarrow> addr \<Rightarrow> ('h, 'b,
    'z) builder"
where
  "cil_gen_senscat L E ps ast_node =
     gen_statement (cil_verify_syntax ps [CIL_SYN_STRING, CIL_SYN_STRING, CIL_SYN_STRING OR CIL_SYN_LIST,
       CIL_SYN_END])
       cil_senscat_init
       (\<lambda>a. bind (arg ps 1) (\<lambda>sens.
        bind (wr m_senscat m_senscat_update a (\<lambda>x. x\<lparr>senscat_sens_str := sens\<rparr>)) (\<lambda>_.
        cil_fill_cats E (drop 2 ps) (\<lambda>c. wr m_senscat m_senscat_update a (senscat_cats_update
          (\<lambda>_. Some c))))))
       (cil_destroy_senscat L) CIL_SENSCAT ast_node"

definition cil_gen_level ::
  "('h, 'b) sepol \<Rightarrow> sepol_env \<Rightarrow> parse_tree list \<Rightarrow> addr \<Rightarrow> ('h, 'b,
    'z) builder"
where
  "cil_gen_level L E ps ast_node =
     gen_declaration (cil_verify_syntax ps [CIL_SYN_STRING, CIL_SYN_STRING, CIL_SYN_LIST, CIL_SYN_END])
       cil_level_init
       (\<lambda>a. bind (arg ps 1) (\<lambda>key.
        bind (cil_gen_node L ast_node a key CIL_SYM_LEVELS CIL_LEVEL) (\<lambda>_.
        bind (lift (nth_list ps 2)) (\<lambda>l. cil_fill_level E l a))))
       (cil_destroy_level L) ast_node"

definition cil_gen_levelrange ::
  "('h, 'b) sepol \<Rightarrow> sepol_env \<Rightarrow> parse_tree list \<Rightarrow> addr \<Rightarrow> ('h, 'b,
    'z) builder"
where
  "cil_gen_levelrange L E ps ast_node =
     gen_declaration (cil_verify_syntax ps [CIL_SYN_STRING, CIL_SYN_STRING, CIL_SYN_LIST, CIL_SYN_END])
       cil_levelrange_init
       (\<lambda>a. bind (arg ps 1) (\<lambda>key.
        bind (cil_gen_node L ast_node a key CIL_SYM_LEVELRANGES CIL_LEVELRANGE) (\<lambda>_.
        bind (lift (nth_list ps 2)) (\<lambda>l. cil_fill_levelrange E l a))))
       (cil_destroy_levelrange L) ast_node"

subsection \<open>Constraints\<close>

definition cil_gen_constrain ::
  "sepol_env \<Rightarrow> parse_tree list \<Rightarrow> addr \<Rightarrow> cil_flavor \<Rightarrow> ('h, 'b,
    'z) builder"
where
  "cil_gen_constrain E ps ast_node flavor =
     gen_statement (cil_verify_syntax ps [CIL_SYN_STRING, CIL_SYN_STRING OR CIL_SYN_LIST, CIL_SYN_LIST, CIL_SYN_END])
       cil_constrain_init
       (\<lambda>a. bind (bind (cil_fill_classperms_list E (drop 1 ps)) (\<lambda>cps.
        wr m_constrain m_constrain_update a (constrain_classperms_update (\<lambda>_. cps)))) (\<lambda>_.
        bind (lift (cil_gen_constraint_expr E (drop 2 ps) flavor)) (\<lambda>e.
        wr m_constrain m_constrain_update a (constrain_str_expr_update (\<lambda>_. e)))))
       cil_destroy_constrain flavor ast_node"

definition cil_gen_validatetrans ::
  "sepol_env \<Rightarrow> parse_tree list \<Rightarrow> addr \<Rightarrow> cil_flavor \<Rightarrow> ('h, 'b,
    'z) builder"
where
  "cil_gen_validatetrans E ps ast_node flavor =
     gen_statement (cil_verify_syntax ps [CIL_SYN_STRING, CIL_SYN_STRING, CIL_SYN_LIST, CIL_SYN_END])
       cil_validatetrans_init
       (\<lambda>a. bind (arg ps 1) (\<lambda>class_str.
        bind (wr m_validatetrans m_validatetrans_update a
          (\<lambda>x. x\<lparr>validatetrans_class_str := class_str\<rparr>)) (\<lambda>_.
        bind (lift (cil_gen_constraint_expr E (drop 2 ps) flavor)) (\<lambda>e.
        wr m_validatetrans m_validatetrans_update a (validatetrans_str_expr_update (\<lambda>_. e))))))
       cil_destroy_validatetrans flavor ast_node"

subsection \<open>Contexts of objects\<close>

definition cil_gen_context ::
  "('h, 'b) sepol \<Rightarrow> sepol_env \<Rightarrow> parse_tree list \<Rightarrow> addr \<Rightarrow> ('h, 'b,
    'z) builder"
where
  "cil_gen_context L E ps ast_node =
     or_err (gen_declaration (cil_verify_syntax ps [CIL_SYN_STRING, CIL_SYN_STRING, CIL_SYN_LIST, CIL_SYN_END])
       cil_context_init
       (\<lambda>a. bind (arg ps 1) (\<lambda>key.
        bind (cil_gen_node L ast_node a key CIL_SYM_CONTEXTS CIL_CONTEXT) (\<lambda>_.
        bind (lift (nth_list ps 2)) (\<lambda>l. cil_fill_context E l a))))
       (cil_destroy_context L) ast_node)"

text \<open>The enumerations of \<open>src/cil_internal.h\<close>.\<close>

definition filecon_type :: "cstring \<Rightarrow> nat outcome" where
  "filecon_type str =
     (if str = CIL_KEY_FILE then Ok 1 else if str = CIL_KEY_DIR then Ok 2 else if str = CIL_KEY_CHAR then Ok 3
      else if str = CIL_KEY_BLOCK then Ok 4 else if str = CIL_KEY_SOCKET then Ok 5
      else if str = CIL_KEY_PIPE then Ok 6 else if str = CIL_KEY_SYMLINK then Ok 7
      else if str = CIL_KEY_ANY then Ok 8 else Fail SEPOL_ERR)"

definition protocol :: "cstring \<Rightarrow> nat outcome" where
  "protocol str = (if str = CIL_KEY_UDP then Ok 1 else if str = CIL_KEY_TCP then Ok 2 else Fail SEPOL_ERR)"

definition fsuse_type :: "sepol_env \<Rightarrow> cstring \<Rightarrow> nat outcome" where
  "fsuse_type E str =
     (if str = CIL_KEY_XATTR then Ok (fs_use_xattr E) else if str = CIL_KEY_TASK then Ok (fs_use_task E)
      else if str = CIL_KEY_TRANS then Ok (fs_use_trans E) else Fail SEPOL_ERR)"

text \<open>A list in the place of the context: nothing when it has a single item, whatever that is.\<close>

definition filecon_context_of :: "sepol_env \<Rightarrow> parse_tree list \<Rightarrow> addr \<Rightarrow> ('h,
  'b, 'z) builder" where
  "filecon_context_of E ps a =
     bind (lift (nth_list ps 0)) (\<lambda>l.
     if length l = 1 then wr m_filecon m_filecon_update a (filecon_context_update (\<lambda>_. None))
     else
       name_or_new ps (\<lambda>str. wr m_filecon m_filecon_update a (filecon_context_str_update (\<lambda>_. str)))
         cil_context_init (\<lambda>new. wr m_filecon m_filecon_update a (filecon_context_update
           (\<lambda>_. Some new)))
         (cil_fill_context E))"

definition cil_gen_filecon :: "('h,
  'b) sepol \<Rightarrow> sepol_env \<Rightarrow> parse_tree list \<Rightarrow> addr \<Rightarrow> ('h, 'b,
    'z) builder" where
  "cil_gen_filecon L E ps ast_node =
     gen_statement (cil_verify_syntax ps [CIL_SYN_STRING, CIL_SYN_STRING, CIL_SYN_STRING,
       CIL_SYN_STRING OR CIL_SYN_LIST OR CIL_SYN_EMPTY_LIST, CIL_SYN_END])
       cil_filecon_init
       (\<lambda>a. bind (string_arg ps 1) (\<lambda>path.
        bind (wr m_filecon m_filecon_update a (filecon_path_str_update (\<lambda>_. path))) (\<lambda>_.
        bind (lift (obind (nth_data ps 2) filecon_type)) (\<lambda>kind.
        bind (wr m_filecon m_filecon_update a (filecon_kind_update (\<lambda>_. kind))) (\<lambda>_.
        filecon_context_of E (drop 3 ps) a)))))
       (cil_destroy_filecon L) CIL_FILECON ast_node"

text \<open>One number for both ends of a range, or a list of two.\<close>

definition fill_number_range ::
  "parse_tree list \<Rightarrow> (32 word \<Rightarrow> ('h, 'b, 'z) builder) \<Rightarrow>
    (32 word \<Rightarrow> ('h, 'b, 'z) builder) \<Rightarrow> ('h, 'b, 'z) builder"
where
  "fill_number_range ps set_low set_high =
     bind (lift (nth_node ps 0)) (\<lambda>c.
     if p_children c \<noteq> [] then
       if length (p_children c) = 2 then
         bind (lift (cil_fill_integer (p_children c))) (\<lambda>low.
         bind (set_low low) (\<lambda>_.
         bind (lift (cil_fill_integer (tl (p_children c)))) (\<lambda>high. set_high high)))
       else fail SEPOL_ERR
     else
       bind (lift (cil_fill_integer ps)) (\<lambda>low.
       bind (set_low low) (\<lambda>_. set_high low)))"

definition cil_gen_portcon ::
  "('h, 'b) sepol \<Rightarrow> sepol_env \<Rightarrow> parse_tree list \<Rightarrow> addr \<Rightarrow> ('h, 'b,
    'z) builder"
where
  "cil_gen_portcon L E ps ast_node =
     gen_statement (cil_verify_syntax ps [CIL_SYN_STRING, CIL_SYN_STRING, CIL_SYN_STRING OR CIL_SYN_LIST,
       CIL_SYN_STRING OR CIL_SYN_LIST, CIL_SYN_END])
       cil_portcon_init
       (\<lambda>a. bind (bind (lift (obind (nth_data ps 1) protocol)) (\<lambda>proto.
        wr m_portcon m_portcon_update a (portcon_proto_update (\<lambda>_. proto)))) (\<lambda>_.
        bind (fill_number_range (drop 2 ps)
          (\<lambda>n. wr m_portcon m_portcon_update a (portcon_port_low_update (\<lambda>_. n)))
          (\<lambda>n. wr m_portcon m_portcon_update a (portcon_port_high_update (\<lambda>_. n)))) (\<lambda>_.
        name_or_new (drop 3 ps)
          (\<lambda>str. wr m_portcon m_portcon_update a (portcon_context_str_update (\<lambda>_. str)))
          cil_context_init
          (\<lambda>new. wr m_portcon m_portcon_update a (portcon_context_update (\<lambda>_. Some new)))
          (cil_fill_context E))))
       (cil_destroy_portcon L) CIL_PORTCON ast_node"

definition cil_gen_nodecon ::
  "('h, 'b) sepol \<Rightarrow> sepol_env \<Rightarrow> parse_tree list \<Rightarrow> addr \<Rightarrow> ('h, 'b,
    'z) builder"
where
  "cil_gen_nodecon L E ps ast_node =
     gen_statement (cil_verify_syntax ps [CIL_SYN_STRING, CIL_SYN_STRING OR CIL_SYN_LIST,
       CIL_SYN_STRING OR CIL_SYN_LIST, CIL_SYN_STRING OR CIL_SYN_LIST, CIL_SYN_END])
       cil_nodecon_init
       (\<lambda>a. bind (name_or_new (drop 1 ps)
          (\<lambda>str. wr m_nodecon m_nodecon_update a (nodecon_addr_str_update (\<lambda>_. str)))
          cil_ipaddr_init
          (\<lambda>new. wr m_nodecon m_nodecon_update a (nodecon_addr_update (\<lambda>_. Some new)))
          (cil_fill_ipaddr E)) (\<lambda>_.
        bind (name_or_new (drop 2 ps)
          (\<lambda>str. wr m_nodecon m_nodecon_update a (nodecon_mask_str_update (\<lambda>_. str)))
          cil_ipaddr_init
          (\<lambda>new. wr m_nodecon m_nodecon_update a (nodecon_mask_update (\<lambda>_. Some new)))
          (cil_fill_ipaddr E)) (\<lambda>_.
        name_or_new (drop 3 ps)
          (\<lambda>str. wr m_nodecon m_nodecon_update a (nodecon_context_str_update (\<lambda>_. str)))
          cil_context_init
          (\<lambda>new. wr m_nodecon m_nodecon_update a (nodecon_context_update (\<lambda>_. Some new)))
          (cil_fill_context E))))
       (cil_destroy_nodecon L) CIL_NODECON ast_node"

definition cil_gen_genfscon ::
  "('h, 'b) sepol \<Rightarrow> sepol_env \<Rightarrow> parse_tree list \<Rightarrow> addr \<Rightarrow> ('h, 'b,
    'z) builder"
where
  "cil_gen_genfscon L E ps ast_node =
     or_err (gen_statement (cil_verify_syntax ps [CIL_SYN_STRING, CIL_SYN_STRING, CIL_SYN_STRING,
       CIL_SYN_STRING OR CIL_SYN_LIST, CIL_SYN_END])
       cil_genfscon_init
       (\<lambda>a. bind (bind (string_arg ps 1) (\<lambda>str. wr m_genfscon m_genfscon_update a
         (genfscon_fs_str_update (\<lambda>_. str)))) (\<lambda>_.
        bind (bind (string_arg ps 2) (\<lambda>str. wr m_genfscon m_genfscon_update a (genfscon_path_str_update
          (\<lambda>_. str)))) (\<lambda>_.
        name_or_new (drop 3 ps)
          (\<lambda>str. wr m_genfscon m_genfscon_update a (genfscon_context_str_update (\<lambda>_. str)))
          cil_context_init
          (\<lambda>new. wr m_genfscon m_genfscon_update a (genfscon_context_update (\<lambda>_. Some new)))
          (cil_fill_context E))))
       (cil_destroy_genfscon L) CIL_GENFSCON ast_node)"

definition cil_gen_netifcon ::
  "('h, 'b) sepol \<Rightarrow> sepol_env \<Rightarrow> parse_tree list \<Rightarrow> addr \<Rightarrow> ('h, 'b,
    'z) builder"
where
  "cil_gen_netifcon L E ps ast_node =
     or_err (gen_statement (cil_verify_syntax ps [CIL_SYN_STRING, CIL_SYN_STRING, CIL_SYN_STRING OR CIL_SYN_LIST,
       CIL_SYN_STRING OR CIL_SYN_LIST, CIL_SYN_END])
       cil_netifcon_init
       (\<lambda>a. bind (bind (string_arg ps 1) (\<lambda>str. wr m_netifcon m_netifcon_update a
         (netifcon_interface_str_update (\<lambda>_. str)))) (\<lambda>_.
        bind (name_or_new (drop 2 ps)
          (\<lambda>str. wr m_netifcon m_netifcon_update a (netifcon_if_context_str_update (\<lambda>_. str)))
          cil_context_init
          (\<lambda>new. wr m_netifcon m_netifcon_update a (netifcon_if_context_update (\<lambda>_. Some new)))
          (cil_fill_context E)) (\<lambda>_.
        name_or_new (drop 3 ps)
          (\<lambda>str. wr m_netifcon m_netifcon_update a (netifcon_packet_context_str_update (\<lambda>_. str)))
          cil_context_init
          (\<lambda>new. wr m_netifcon m_netifcon_update a (netifcon_packet_context_update (\<lambda>_. Some new)))
          (cil_fill_context E))))
       (cil_destroy_netifcon L) CIL_NETIFCON ast_node)"

definition cil_gen_pirqcon ::
  "('h, 'b) sepol \<Rightarrow> sepol_env \<Rightarrow> parse_tree list \<Rightarrow> addr \<Rightarrow> ('h, 'b,
    'z) builder"
where
  "cil_gen_pirqcon L E ps ast_node =
     gen_statement (cil_verify_syntax ps [CIL_SYN_STRING, CIL_SYN_STRING, CIL_SYN_STRING OR CIL_SYN_LIST,
       CIL_SYN_END])
       cil_pirqcon_init
       (\<lambda>a. bind (bind (lift (cil_fill_integer (drop 1 ps))) (\<lambda>n. wr m_pirqcon m_pirqcon_update a
         (pirqcon_pirq_update (\<lambda>_. n)))) (\<lambda>_.
        name_or_new (drop 2 ps)
          (\<lambda>str. wr m_pirqcon m_pirqcon_update a (pirqcon_context_str_update (\<lambda>_. str)))
          cil_context_init
          (\<lambda>new. wr m_pirqcon m_pirqcon_update a (pirqcon_context_update (\<lambda>_. Some new)))
          (cil_fill_context E)))
       (cil_destroy_pirqcon L) CIL_PIRQCON ast_node"

definition cil_gen_iomemcon ::
  "('h, 'b) sepol \<Rightarrow> sepol_env \<Rightarrow> parse_tree list \<Rightarrow> addr \<Rightarrow> ('h, 'b,
    'z) builder"
where
  "cil_gen_iomemcon L E ps ast_node =
     gen_statement (cil_verify_syntax ps [CIL_SYN_STRING, CIL_SYN_STRING OR CIL_SYN_LIST,
       CIL_SYN_STRING OR CIL_SYN_LIST, CIL_SYN_END])
       cil_iomemcon_init
       (\<lambda>a. bind (fill_number_range (drop 1 ps)
          (\<lambda>n. wr m_iomemcon m_iomemcon_update a (iomemcon_iomem_low_update (\<lambda>_. n)))
          (\<lambda>n. wr m_iomemcon m_iomemcon_update a (iomemcon_iomem_high_update (\<lambda>_. n)))) (\<lambda>_.
        name_or_new (drop 2 ps)
          (\<lambda>str. wr m_iomemcon m_iomemcon_update a (iomemcon_context_str_update (\<lambda>_. str)))
          cil_context_init
          (\<lambda>new. wr m_iomemcon m_iomemcon_update a (iomemcon_context_update (\<lambda>_. Some new)))
          (cil_fill_context E)))
       (cil_destroy_iomemcon L) CIL_IOMEMCON ast_node"

definition cil_gen_ioportcon ::
  "('h, 'b) sepol \<Rightarrow> sepol_env \<Rightarrow> parse_tree list \<Rightarrow> addr \<Rightarrow> ('h, 'b,
    'z) builder"
where
  "cil_gen_ioportcon L E ps ast_node =
     gen_statement (cil_verify_syntax ps [CIL_SYN_STRING, CIL_SYN_STRING OR CIL_SYN_LIST,
       CIL_SYN_STRING OR CIL_SYN_LIST, CIL_SYN_END])
       cil_ioportcon_init
       (\<lambda>a. bind (fill_number_range (drop 1 ps)
          (\<lambda>n. wr m_ioportcon m_ioportcon_update a (ioportcon_ioport_low_update (\<lambda>_. n)))
          (\<lambda>n. wr m_ioportcon m_ioportcon_update a (ioportcon_ioport_high_update (\<lambda>_. n))))
            (\<lambda>_.
        name_or_new (drop 2 ps)
          (\<lambda>str. wr m_ioportcon m_ioportcon_update a (ioportcon_context_str_update (\<lambda>_. str)))
          cil_context_init
          (\<lambda>new. wr m_ioportcon m_ioportcon_update a (ioportcon_context_update (\<lambda>_. Some new)))
          (cil_fill_context E)))
       (cil_destroy_ioportcon L) CIL_IOPORTCON ast_node"

definition cil_gen_pcidevicecon ::
  "('h, 'b) sepol \<Rightarrow> sepol_env \<Rightarrow> parse_tree list \<Rightarrow> addr \<Rightarrow> ('h, 'b,
    'z) builder"
where
  "cil_gen_pcidevicecon L E ps ast_node =
     gen_statement (cil_verify_syntax ps [CIL_SYN_STRING, CIL_SYN_STRING, CIL_SYN_STRING OR CIL_SYN_LIST,
       CIL_SYN_END])
       cil_pcidevicecon_init
       (\<lambda>a. bind (bind (lift (cil_fill_integer (drop 1 ps)))
         (\<lambda>n. wr m_pcidevicecon m_pcidevicecon_update a (pcidevicecon_dev_update (\<lambda>_. n))))
           (\<lambda>_.
        name_or_new (drop 2 ps)
          (\<lambda>str. wr m_pcidevicecon m_pcidevicecon_update a (pcidevicecon_context_str_update
            (\<lambda>_. str)))
          cil_context_init
          (\<lambda>new. wr m_pcidevicecon m_pcidevicecon_update a (pcidevicecon_context_update
            (\<lambda>_. Some new)))
          (cil_fill_context E)))
       (cil_destroy_pcidevicecon L) CIL_PCIDEVICECON ast_node"

definition cil_gen_fsuse ::
  "('h, 'b) sepol \<Rightarrow> sepol_env \<Rightarrow> parse_tree list \<Rightarrow> addr \<Rightarrow> ('h, 'b,
    'z) builder"
where
  "cil_gen_fsuse L E ps ast_node =
     or_err (gen_statement (cil_verify_syntax ps [CIL_SYN_STRING, CIL_SYN_STRING, CIL_SYN_STRING,
       CIL_SYN_STRING OR CIL_SYN_LIST, CIL_SYN_END])
       cil_fsuse_init
       (\<lambda>a. bind (bind (lift (obind (nth_data ps 1) (fsuse_type E))) (\<lambda>kind.
        wr m_fsuse m_fsuse_update a (fsuse_kind_update (\<lambda>_. kind)))) (\<lambda>_.
        bind (bind (string_arg ps 2) (\<lambda>str. wr m_fsuse m_fsuse_update a (fsuse_fs_str_update
          (\<lambda>_. str)))) (\<lambda>_.
        name_or_new (drop 3 ps)
          (\<lambda>str. wr m_fsuse m_fsuse_update a (fsuse_context_str_update (\<lambda>_. str)))
          cil_context_init
          (\<lambda>new. wr m_fsuse m_fsuse_update a (fsuse_context_update (\<lambda>_. Some new)))
          (cil_fill_context E))))
       (cil_destroy_fsuse L) CIL_FSUSE ast_node)"

subsection \<open>Macros and calls\<close>

definition param_flavor :: "cstring \<Rightarrow> cil_flavor outcome" where
  "param_flavor kind =
     (if kind = CIL_KEY_TYPE then Ok CIL_TYPE
      else if kind = CIL_KEY_ROLE then Ok CIL_ROLE
      else if kind = CIL_KEY_USER then Ok CIL_USER
      else if kind = CIL_KEY_SENSITIVITY then Ok CIL_SENS
      else if kind = CIL_KEY_CATEGORY then Ok CIL_CAT
      else if kind = CIL_KEY_CATSET then Ok CIL_CATSET
      else if kind = CIL_KEY_LEVEL then Ok CIL_LEVEL
      else if kind = CIL_KEY_LEVELRANGE then Ok CIL_LEVELRANGE
      else if kind = CIL_KEY_CLASS then Ok CIL_CLASS
      else if kind = CIL_KEY_IPADDR then Ok CIL_IPADDR
      else if kind = CIL_KEY_MAP_CLASS then Ok CIL_MAP_CLASS
      else if kind = CIL_KEY_CLASSPERMISSION then Ok CIL_CLASSPERMISSION
      else if kind = CIL_KEY_BOOL then Ok CIL_BOOL
      else if kind = CIL_KEY_STRING then Ok CIL_NAME
      else if kind = CIL_KEY_NAME then Ok CIL_NAME
      else Fail SEPOL_ERR)"

text \<open>The loop over the parameters; \<open>params\<close> are those taken so far,
  without two of one name and kind.\<close>

fun macro_parameters ::
  "(cstring \<times> cil_flavor) list \<Rightarrow> parse_tree list \<Rightarrow>
    (cstring \<times> cil_flavor) list outcome"
where
  "macro_parameters params [] = Ok params"
| "macro_parameters params (c # cs) =
     obind (cil_verify_syntax (p_children c) [CIL_SYN_STRING, CIL_SYN_STRING, CIL_SYN_END]) (\<lambda>_.
     obind (nth_data (p_children c) 0) (\<lambda>kind.
     obind (param_flavor kind) (\<lambda>flavor.
     obind (nth_data (p_children c) 1) (\<lambda>str.
     obind (not_null str) (\<lambda>name.
     obind (cil_verify_name name) (\<lambda>_.
     if (str, flavor) \<in> set params then Fail SEPOL_ERR
     else macro_parameters (params @ [(str, flavor)]) cs))))))"

text \<open>The list of the parameters is taken out of the parse tree before the macro is declared.\<close>

definition cil_gen_macro ::
  "('h, 'b) sepol \<Rightarrow> parse_tree list \<Rightarrow> addr \<Rightarrow> (('h, 'b,
    'z) build_state_scheme, parse_tree list) cil"
where
  "cil_gen_macro L ps ast_node =
     bind (or_err (gen_declaration (cil_verify_syntax ps [CIL_SYN_STRING, CIL_SYN_STRING,
       CIL_SYN_LIST OR CIL_SYN_EMPTY_LIST, CIL_SYN_N_LISTS OR CIL_SYN_END, CIL_SYN_END])
       (cil_macro_init L)
       (\<lambda>a. bind (arg ps 1) (\<lambda>key.
        bind (lift (nth_list ps 2)) (\<lambda>items.
        bind (lift (macro_parameters [] items)) (\<lambda>params.
        bind (wr m_macro m_macro_update a
          (macro_params_update (\<lambda>_. if params = [] then None else Some params))) (\<lambda>_.
        cil_gen_node L ast_node a key CIL_SYM_BLOCKS CIL_MACRO)))))
       (cil_destroy_macro L) ast_node)) (\<lambda>_.
     ret (take 2 ps @ drop 3 ps))"

text \<open>The arguments are kept as a copy of their parse tree.\<close>

definition cil_gen_call :: "('h, 'b) sepol \<Rightarrow> parse_tree list \<Rightarrow> addr \<Rightarrow> ('h,
  'b, 'z) builder" where
  "cil_gen_call L ps ast_node =
     gen_statement (cil_verify_syntax ps [CIL_SYN_STRING, CIL_SYN_STRING,
       CIL_SYN_LIST OR CIL_SYN_EMPTY_LIST OR CIL_SYN_END, CIL_SYN_END])
       cil_call_init
       (\<lambda>a. bind (arg ps 1) (\<lambda>macro.
        bind (wr m_call m_call_update a (call_macro_str_update (\<lambda>_. macro))) (\<lambda>_.
        if drop 2 ps \<noteq> [] then
          bind (lift (nth_list ps 2)) (\<lambda>items. modify (args_trees_update (\<lambda>m. m(a \<mapsto> items))))
        else ret ())))
       (cil_destroy_call L) CIL_CALL ast_node"

subsection \<open>Other statements\<close>

definition cil_gen_optional ::
  "('h, 'b) sepol \<Rightarrow> parse_tree list \<Rightarrow> addr \<Rightarrow> ('h, 'b, 'z) builder"
where
  "cil_gen_optional L ps ast_node =
     gen_declaration (cil_verify_syntax ps [CIL_SYN_STRING, CIL_SYN_STRING, CIL_SYN_N_LISTS OR CIL_SYN_END,
       CIL_SYN_END])
       cil_optional_init
       (\<lambda>a. bind (arg ps 1) (\<lambda>key.
        cil_gen_node L ast_node a key CIL_SYM_BLOCKS CIL_OPTIONAL))
       (cil_destroy_optional L) ast_node"

definition cil_gen_policycap ::
  "('h, 'b) sepol \<Rightarrow> parse_tree list \<Rightarrow> addr \<Rightarrow> ('h, 'b, 'z) builder"
where
  "cil_gen_policycap L ps ast_node =
     gen_declaration (cil_verify_syntax ps [CIL_SYN_STRING, CIL_SYN_STRING, CIL_SYN_END])
       cil_policycap_init
       (\<lambda>a. bind (arg ps 1) (\<lambda>key.
        cil_gen_node L ast_node a key CIL_SYM_POLICYCAPS CIL_POLICYCAP))
       (cil_destroy_policycap L) ast_node"

definition cil_gen_ipaddr ::
  "('h, 'b) sepol \<Rightarrow> sepol_env \<Rightarrow> parse_tree list \<Rightarrow> addr \<Rightarrow> ('h, 'b,
    'z) builder"
where
  "cil_gen_ipaddr L E ps ast_node =
     gen_declaration (cil_verify_syntax ps [CIL_SYN_STRING, CIL_SYN_STRING, CIL_SYN_STRING, CIL_SYN_END])
       cil_ipaddr_init
       (\<lambda>a. bind (arg ps 1) (\<lambda>key.
        bind (cil_fill_ipaddr E (drop 2 ps) a) (\<lambda>_.
        cil_gen_node L ast_node a key CIL_SYM_IPADDRS CIL_IPADDR)))
       (cil_destroy_ipaddr L) ast_node"

text \<open>Other flavors leave the flavor of the node as it is.\<close>

definition cil_gen_bounds :: "parse_tree list \<Rightarrow> addr \<Rightarrow> cil_flavor \<Rightarrow> ('h, 'b,
  'z) builder" where
  "cil_gen_bounds ps ast_node flavor =
     bind (rd nodes ast_node) (\<lambda>nd.
     gen_statement (cil_verify_syntax ps [CIL_SYN_STRING, CIL_SYN_STRING, CIL_SYN_STRING, CIL_SYN_END])
       cil_bounds_init
       (\<lambda>a. bind (arg ps 1) (\<lambda>parent.
        bind (arg ps 2) (\<lambda>child.
        wr m_bounds m_bounds_update a (\<lambda>x. x\<lparr>bounds_parent_str := parent,
          bounds_child_str := child\<rparr>))))
       cil_destroy_bounds
       (if flavor = CIL_USER then CIL_USERBOUNDS else if flavor = CIL_ROLE then CIL_ROLEBOUNDS
        else if flavor = CIL_TYPE then CIL_TYPEBOUNDS else node_flavor nd) ast_node)"

text \<open>The names of the classes of a default: what \<open>cil_fill_list\<close> returns is not looked at,
  so that a list that
  has another list in it leaves the null pointer.\<close>

definition default_classes :: "parse_tree list \<Rightarrow> cstring list option outcome" where
  "default_classes ps =
     obind (nth_node ps 0) (\<lambda>c.
     if p_children c = [] then Ok (Some [p_data c])
     else
       case cil_fill_list (p_children c) of
         Ok strs \<Rightarrow> Ok (Some strs)
       | Fail _ \<Rightarrow> Ok None
       | Fault \<Rightarrow> Fault
       | Out_of_fuel \<Rightarrow> Out_of_fuel)"

definition default_object_of :: "sepol_env \<Rightarrow> cstring \<Rightarrow> int outcome" where
  "default_object_of E str =
     (if str = CIL_KEY_SOURCE then Ok (default_source E)
      else if str = CIL_KEY_TARGET then Ok (default_target E) else Fail SEPOL_ERR)"

definition default_range_of :: "sepol_env \<Rightarrow> cstring \<Rightarrow> cstring \<Rightarrow> int outcome" where
  "default_range_of E str range_str =
     (if str = CIL_KEY_SOURCE then
        if range_str = CIL_KEY_LOW then Ok (default_source_low E)
        else if range_str = CIL_KEY_HIGH then Ok (default_source_high E)
        else if range_str = CIL_KEY_LOW_HIGH then Ok (default_source_low_high E) else Fail SEPOL_ERR
      else if str = CIL_KEY_TARGET then
        if range_str = CIL_KEY_LOW then Ok (default_target_low E)
        else if range_str = CIL_KEY_HIGH then Ok (default_target_high E)
        else if range_str = CIL_KEY_LOW_HIGH then Ok (default_target_low_high E) else Fail SEPOL_ERR
      else Fail SEPOL_ERR)"

definition cil_gen_default ::
  "sepol_env \<Rightarrow> parse_tree list \<Rightarrow> addr \<Rightarrow> cil_flavor \<Rightarrow> ('h, 'b,
    'z) builder"
where
  "cil_gen_default E ps ast_node flavor =
     gen_statement (cil_verify_syntax ps [CIL_SYN_STRING, CIL_SYN_STRING OR CIL_SYN_LIST, CIL_SYN_STRING,
       CIL_SYN_END])
       cil_default_init
       (\<lambda>a. bind (wr m_default m_default_update a (default_kind_update (\<lambda>_. flavor))) (\<lambda>_.
        bind (bind (lift (default_classes (drop 1 ps))) (\<lambda>strs.
        wr m_default m_default_update a (default_class_strs_update (\<lambda>_. strs)))) (\<lambda>_.
        bind (lift (obind (nth_data ps 2) (default_object_of E))) (\<lambda>v.
        wr m_default m_default_update a (default_object_update (\<lambda>_. v))))))
       cil_destroy_default flavor ast_node"

definition cil_gen_defaultrange ::
  "sepol_env \<Rightarrow> parse_tree list \<Rightarrow> addr \<Rightarrow> ('h, 'b, 'z) builder"
where
  "cil_gen_defaultrange E ps ast_node =
     gen_statement (cil_verify_syntax ps [CIL_SYN_STRING, CIL_SYN_STRING OR CIL_SYN_LIST, CIL_SYN_STRING,
       CIL_SYN_STRING, CIL_SYN_END])
       cil_defaultrange_init
       (\<lambda>a. bind (bind (lift (default_classes (drop 1 ps))) (\<lambda>strs.
        wr m_defaultrange m_defaultrange_update a (defaultrange_class_strs_update (\<lambda>_. strs)))) (\<lambda>_.
        bind (arg ps 2) (\<lambda>str.
        bind (arg ps 3) (\<lambda>range_str.
        bind (lift (default_range_of E str range_str)) (\<lambda>v.
        wr m_defaultrange m_defaultrange_update a (defaultrange_object_range_update (\<lambda>_. v)))))))
       cil_destroy_defaultrange CIL_DEFAULTRANGE ast_node"

definition unknown_handling :: "sepol_env \<Rightarrow> cstring \<Rightarrow> int outcome" where
  "unknown_handling E str =
     (if str = CIL_KEY_HANDLEUNKNOWN_ALLOW then Ok (allow_unknown E)
      else if str = CIL_KEY_HANDLEUNKNOWN_DENY then Ok (deny_unknown_c E)
      else if str = CIL_KEY_HANDLEUNKNOWN_REJECT then Ok (reject_unknown E) else Fail SEPOL_ERR)"

definition cil_gen_handleunknown ::
  "sepol_env \<Rightarrow> parse_tree list \<Rightarrow> addr \<Rightarrow> ('h, 'b, 'z) builder"
where
  "cil_gen_handleunknown E ps ast_node =
     gen_statement (cil_verify_syntax ps [CIL_SYN_STRING, CIL_SYN_STRING, CIL_SYN_END])
       cil_handleunknown_init
       (\<lambda>a. bind (lift (obind (nth_data ps 1) (unknown_handling E))) (\<lambda>v.
        wr m_handleunknown m_handleunknown_update a (handleunknown_handle_unknown_update (\<lambda>_. v))))
       cil_destroy_handleunknown CIL_HANDLEUNKNOWN ast_node"

definition cil_gen_mls ::
  "parse_tree list \<Rightarrow> addr \<Rightarrow> ('h, 'b, 'z) builder"
where
  "cil_gen_mls ps ast_node =
     gen_statement (cil_verify_syntax ps [CIL_SYN_STRING, CIL_SYN_STRING, CIL_SYN_END])
       cil_mls_init
       (\<lambda>a. bind (lift (obind (nth_data ps 1) truth_value)) (\<lambda>v.
        wr m_mls m_mls_update a (mls_value_update (\<lambda>_. if v then 1 else 0))))
       cil_destroy_mls CIL_MLS ast_node"

end
