(* ===== verification/Cil_Build.thy ===== *)
theory Cil_Build
  imports Cil_Build_Gen Cil_Tree
begin

text \<open>
  The construction of the AST (\<open>cil_build_ast\<close> of \<open>src/cil_build_ast.c\<close>) and the destructors of nodes it needs
  (\<open>cil_destroy_data\<close> of \<open>src/cil.c\<close>, \<open>src/cil_tree.c\<close>).

  The walk is over the parse tree. A function that is called on a node of it gets the list of that node and
  its later siblings; a statement may take a node out of that list, so it returns what is left. The parts of the
  parse tree that have been converted are freed by the code; here they are values that nothing refers to.
\<close>

subsection \<open>Destroying nodes\<close>

text \<open>The data of the root is an array of symbol tables.\<close>

definition cil_root_destroy :: "('h, 'b) sepol \<Rightarrow> addr option \<Rightarrow> ('h, 'b, 'z) builder" where
  "cil_root_destroy L root = unless_null root (cil_symtab_array_destroy L)"

text \<open>Lists and parameters of macros are values of the model: no address stands for one.\<close>

definition cil_destroy_data :: "('h, 'b) sepol \<Rightarrow> addr option \<Rightarrow> cil_flavor \<Rightarrow> ('h, 'b, 'z) builder" where
  "cil_destroy_data L data f =
     unless_null data (\<lambda>a.
      if f = CIL_ROOT then cil_root_destroy L (Some a)
      else if f = CIL_ARGS then cil_destroy_args L (Some a)
      else if f = CIL_BLOCK then cil_destroy_block L (Some a)
      else if f = CIL_BLOCKINHERIT then cil_destroy_blockinherit (Some a)
      else if f = CIL_BLOCKABSTRACT then cil_destroy_blockabstract (Some a)
      else if f = CIL_IN then cil_destroy_in L (Some a)
      else if f = CIL_MACRO then cil_destroy_macro L (Some a)
      else if f = CIL_CALL then cil_destroy_call L (Some a)
      else if f = CIL_OPTIONAL then cil_destroy_optional L (Some a)
      else if f = CIL_BOOL then cil_destroy_bool L (Some a)
      else if f = CIL_BOOLEANIF then cil_destroy_boolif (Some a)
      else if f = CIL_TUNABLE then cil_destroy_tunable L (Some a)
      else if f = CIL_TUNABLEIF then cil_destroy_tunif (Some a)
      else if f = CIL_CONDBLOCK then cil_destroy_condblock L (Some a)
      else if f = CIL_PERM \<or> f = CIL_MAP_PERM then cil_destroy_perm L (Some a)
      else if f = CIL_COMMON \<or> f = CIL_CLASS \<or> f = CIL_MAP_CLASS then cil_destroy_class L (Some a)
      else if f = CIL_CLASSORDER then cil_destroy_classorder (Some a)
      else if f = CIL_CLASSPERMISSION then cil_destroy_classpermission L (Some a)
      else if f = CIL_CLASSCOMMON then cil_destroy_classcommon (Some a)
      else if f = CIL_CLASSMAPPING then cil_destroy_classmapping (Some a)
      else if f = CIL_CLASSPERMS then cil_destroy_classperms (Some a)
      else if f = CIL_CLASSPERMS_SET then cil_destroy_classperms_set (Some a)
      else if f = CIL_CLASSPERMISSIONSET then cil_destroy_classpermissionset (Some a)
      else if f = CIL_USER then cil_destroy_user L (Some a)
      else if f = CIL_USERPREFIX then cil_destroy_userprefix (Some a)
      else if f = CIL_USERROLE then cil_destroy_userrole (Some a)
      else if f = CIL_USERLEVEL then cil_destroy_userlevel L (Some a)
      else if f = CIL_USERRANGE then cil_destroy_userrange L (Some a)
      else if f = CIL_USERBOUNDS then cil_destroy_bounds (Some a)
      else if f = CIL_SELINUXUSER \<or> f = CIL_SELINUXUSERDEFAULT then cil_destroy_selinuxuser L (Some a)
      else if f = CIL_ROLE then cil_destroy_role L (Some a)
      else if f = CIL_ROLEATTRIBUTE then cil_destroy_roleattribute L (Some a)
      else if f = CIL_ROLEATTRIBUTESET then cil_destroy_roleattributeset (Some a)
      else if f = CIL_ROLETYPE then cil_destroy_roletype (Some a)
      else if f = CIL_ROLEBOUNDS then cil_destroy_bounds (Some a)
      else if f = CIL_TYPE then cil_destroy_type L (Some a)
      else if f = CIL_TYPEATTRIBUTE then cil_destroy_typeattribute L (Some a)
      else if f = CIL_TYPEALIAS then cil_destroy_alias L (Some a)
      else if f = CIL_TYPEATTRIBUTESET then cil_destroy_typeattributeset (Some a)
      else if f = CIL_TYPEALIASACTUAL then cil_destroy_aliasactual (Some a)
      else if f = CIL_TYPEBOUNDS then cil_destroy_bounds (Some a)
      else if f = CIL_TYPEPERMISSIVE then cil_destroy_typepermissive (Some a)
      else if f = CIL_SENS then cil_destroy_sensitivity L (Some a)
      else if f = CIL_SENSALIAS then cil_destroy_alias L (Some a)
      else if f = CIL_SENSALIASACTUAL then cil_destroy_aliasactual (Some a)
      else if f = CIL_SENSITIVITYORDER then cil_destroy_sensitivityorder (Some a)
      else if f = CIL_SENSCAT then cil_destroy_senscat L (Some a)
      else if f = CIL_CAT then cil_destroy_category L (Some a)
      else if f = CIL_CATSET then cil_destroy_catset L (Some a)
      else if f = CIL_CATALIAS then cil_destroy_alias L (Some a)
      else if f = CIL_CATALIASACTUAL then cil_destroy_aliasactual (Some a)
      else if f = CIL_CATORDER then cil_destroy_catorder (Some a)
      else if f = CIL_LEVEL then cil_destroy_level L (Some a)
      else if f = CIL_LEVELRANGE then cil_destroy_levelrange L (Some a)
      else if f = CIL_SID then cil_destroy_sid L (Some a)
      else if f = CIL_SIDORDER then cil_destroy_sidorder (Some a)
      else if f = CIL_NAME then cil_destroy_name L (Some a)
      else if f = CIL_ROLEALLOW then cil_destroy_roleallow (Some a)
      else if f = CIL_AVRULE then cil_destroy_avrule (Some a)
      else if f = CIL_ROLETRANSITION then cil_destroy_roletransition (Some a)
      else if f = CIL_TYPE_RULE then cil_destroy_type_rule (Some a)
      else if f = CIL_NAMETYPETRANSITION then cil_destroy_typetransition (Some a)
      else if f = CIL_RANGETRANSITION then cil_destroy_rangetransition L (Some a)
      else if f = CIL_CONSTRAIN then cil_destroy_constrain (Some a)
      else if f = CIL_MLSCONSTRAIN then cil_destroy_constrain (Some a)
      else if f = CIL_VALIDATETRANS \<or> f = CIL_MLSVALIDATETRANS then cil_destroy_validatetrans (Some a)
      else if f = CIL_CONTEXT then cil_destroy_context L (Some a)
      else if f = CIL_IPADDR then cil_destroy_ipaddr L (Some a)
      else if f = CIL_SIDCONTEXT then cil_destroy_sidcontext L (Some a)
      else if f = CIL_FSUSE then cil_destroy_fsuse L (Some a)
      else if f = CIL_FILECON then cil_destroy_filecon L (Some a)
      else if f = CIL_PORTCON then cil_destroy_portcon L (Some a)
      else if f = CIL_NODECON then cil_destroy_nodecon L (Some a)
      else if f = CIL_GENFSCON then cil_destroy_genfscon L (Some a)
      else if f = CIL_NETIFCON then cil_destroy_netifcon L (Some a)
      else if f = CIL_PIRQCON then cil_destroy_pirqcon L (Some a)
      else if f = CIL_IOMEMCON then cil_destroy_iomemcon L (Some a)
      else if f = CIL_IOPORTCON then cil_destroy_ioportcon L (Some a)
      else if f = CIL_PCIDEVICECON then cil_destroy_pcidevicecon L (Some a)
      else if f = CIL_POLICYCAP then cil_destroy_policycap L (Some a)
      else if f = CIL_DEFAULTUSER \<or> f = CIL_DEFAULTROLE \<or> f = CIL_DEFAULTTYPE then cil_destroy_default (Some a)
      else if f = CIL_DEFAULTRANGE then cil_destroy_defaultrange (Some a)
      else if f = CIL_HANDLEUNKNOWN then cil_destroy_handleunknown (Some a)
      else if f = CIL_MLS then cil_destroy_mls (Some a)
      else if f = CIL_LIST \<or> f = CIL_PARAM then fault
      else ret ())"

definition cil_tree_node_destroy :: "('h, 'b) sepol \<Rightarrow> addr \<Rightarrow> ('h, 'b, 'z) builder" where
  "cil_tree_node_destroy L n =
     bind (rd nodes n) (\<lambda>nd.
     bind (if node_flavor nd \<ge> CIL_MIN_DECLARATIVE then
             bind (cil_symtab_datum_remove_node L (node_data nd) n) (\<lambda>_.
             bind (reading (\<lambda>s. deref (datums s) (node_data nd))) (\<lambda>datum.
             if datum_nodes datum = None then cil_destroy_data L (node_data nd) (node_flavor nd) else ret ()))
           else cil_destroy_data L (node_data nd) (node_flavor nd)) (\<lambda>_.
     free_struct nodes nodes_update n))"

text \<open>The loop goes down to a leaf, frees it, and on to the next sibling or back to the parent, which is a leaf
  then.\<close>

fun children_destroy_loop :: "nat \<Rightarrow> ('h, 'b) sepol \<Rightarrow> addr \<Rightarrow> addr option \<Rightarrow> ('h, 'b, 'z) builder" where
  "children_destroy_loop 0 L start_node node = no_fuel"
| "children_destroy_loop (Suc fuel) L start_node node =
     (if node = Some start_node then ret ()
      else
        bind (lift (not_null node)) (\<lambda>n.
        bind (rd nodes n) (\<lambda>nd.
        if node_cl_head nd \<noteq> None then children_destroy_loop fuel L start_node (node_cl_head nd)
        else if node_next nd = None then
          bind (case node_parent nd of
              None \<Rightarrow> ret ()
            | Some p \<Rightarrow> wr nodes nodes_update p (node_cl_head_update (\<lambda>_. None))) (\<lambda>_.
          bind (cil_tree_node_destroy L n) (\<lambda>_.
          children_destroy_loop fuel L start_node (node_parent nd)))
        else
          bind (cil_tree_node_destroy L n) (\<lambda>_.
          children_destroy_loop fuel L start_node (node_next nd)))))"

definition cil_tree_children_destroy :: "nat \<Rightarrow> ('h, 'b) sepol \<Rightarrow> addr option \<Rightarrow> ('h, 'b, 'z) builder" where
  "cil_tree_children_destroy fuel L node =
     unless_null node (\<lambda>n.
     bind (rd nodes n) (\<lambda>nd.
     children_destroy_loop fuel L n (if node_cl_head nd \<noteq> None then node_cl_head nd else Some n)))"

definition cil_tree_subtree_destroy :: "nat \<Rightarrow> ('h, 'b) sepol \<Rightarrow> addr option \<Rightarrow> ('h, 'b, 'z) builder" where
  "cil_tree_subtree_destroy fuel L node =
     bind (cil_tree_children_destroy fuel L node) (\<lambda>_. unless_null node (cil_tree_node_destroy L))"

subsection \<open>The dispatch on the keyword\<close>

text \<open>What a statement tells the walk: whether the rest of it is walked, and the list of its nodes.\<close>

definition enter ::
  "parse_tree list \<Rightarrow> ('s, unit) cil \<Rightarrow> ('s, nat \<times> parse_tree list) cil"
where
  "enter ps m = bind m (\<lambda>_. ret (CIL_TREE_SKIP_NOTHING, ps))"

definition enter_changed :: "('s, parse_tree list) cil \<Rightarrow> ('s, nat \<times> parse_tree list) cil" where
  "enter_changed m = bind m (\<lambda>ps. ret (CIL_TREE_SKIP_NOTHING, ps))"

definition skip ::
  "parse_tree list \<Rightarrow> ('s, unit) cil \<Rightarrow> ('s, nat \<times> parse_tree list) cil"
where
  "skip ps m = bind m (\<lambda>_. ret (CIL_TREE_SKIP_NEXT, ps))"

definition build_statement ::
  "('h, 'b) sepol \<Rightarrow> sepol_env \<Rightarrow> cstring \<Rightarrow> parse_tree list \<Rightarrow> addr
   \<Rightarrow> (('h, 'b, 'z) build_state_scheme, nat \<times> parse_tree list) cil"
where
  "build_statement L E key ps n =
     bind (gets (\<lambda>s. s)) (\<lambda>s.
      if key = CIL_KEY_BLOCK then enter ps (cil_gen_block L ps n False)
      else if key = CIL_KEY_BLOCKINHERIT then enter ps (cil_gen_blockinherit ps n)
      else if key = CIL_KEY_BLOCKABSTRACT then enter ps (cil_gen_blockabstract ps n)
      else if key = CIL_KEY_IN then enter ps (cil_gen_in L ps n)
      else if key = CIL_KEY_CLASS then skip ps (cil_gen_class L ps n)
      else if key = CIL_KEY_CLASSORDER then skip ps (cil_gen_classorder ps n)
      else if key = CIL_KEY_MAP_CLASS then skip ps (cil_gen_map_class L ps n)
      else if key = CIL_KEY_CLASSMAPPING then skip ps (cil_gen_classmapping E ps n)
      else if key = CIL_KEY_CLASSPERMISSION then skip ps (cil_gen_classpermission L ps n)
      else if key = CIL_KEY_CLASSPERMISSIONSET then skip ps (cil_gen_classpermissionset E ps n)
      else if key = CIL_KEY_COMMON then skip ps (cil_gen_common L ps n)
      else if key = CIL_KEY_CLASSCOMMON then enter ps (cil_gen_classcommon ps n)
      else if key = CIL_KEY_SID then skip ps (cil_gen_sid L ps n)
      else if key = CIL_KEY_SIDCONTEXT then skip ps (cil_gen_sidcontext L E ps n)
      else if key = CIL_KEY_SIDORDER then skip ps (cil_gen_sidorder ps n)
      else if key = CIL_KEY_USER then enter ps (cil_gen_user L ps n)
      else if key = CIL_KEY_USERLEVEL then skip ps (cil_gen_userlevel L E ps n)
      else if key = CIL_KEY_USERRANGE then skip ps (cil_gen_userrange L E ps n)
      else if key = CIL_KEY_USERBOUNDS then enter ps (cil_gen_bounds ps n CIL_USER)
      else if key = CIL_KEY_USERPREFIX then enter ps (cil_gen_userprefix ps n)
      else if key = CIL_KEY_SELINUXUSER then skip ps (cil_gen_selinuxuser L E ps n)
      else if key = CIL_KEY_SELINUXUSERDEFAULT then skip ps (cil_gen_selinuxuserdefault L E ps n)
      else if key = CIL_KEY_TYPE then enter ps (cil_gen_type L ps n)
      else if key = CIL_KEY_TYPEATTRIBUTE then enter ps (cil_gen_typeattribute L ps n)
      else if key = CIL_KEY_TYPEATTRIBUTESET then skip ps (cil_gen_typeattributeset E ps n)
      else if key = CIL_KEY_TYPEALIAS then enter ps (cil_gen_alias L ps n CIL_TYPEALIAS)
      else if key = CIL_KEY_TYPEALIASACTUAL then enter ps (cil_gen_aliasactual ps n CIL_TYPEALIASACTUAL)
      else if key = CIL_KEY_TYPEBOUNDS then enter ps (cil_gen_bounds ps n CIL_TYPE)
      else if key = CIL_KEY_TYPEPERMISSIVE then enter ps (cil_gen_typepermissive ps n)
      else if key = CIL_KEY_RANGETRANSITION then skip ps (cil_gen_rangetransition L E ps n)
      else if key = CIL_KEY_ROLE then enter ps (cil_gen_role L ps n)
      else if key = CIL_KEY_USERROLE then enter ps (cil_gen_userrole ps n)
      else if key = CIL_KEY_ROLETYPE then enter ps (cil_gen_roletype ps n)
      else if key = CIL_KEY_ROLETRANSITION then enter ps (cil_gen_roletransition ps n)
      else if key = CIL_KEY_ROLEALLOW then enter ps (cil_gen_roleallow ps n)
      else if key = CIL_KEY_ROLEATTRIBUTE then enter ps (cil_gen_roleattribute L ps n)
      else if key = CIL_KEY_ROLEATTRIBUTESET then skip ps (cil_gen_roleattributeset E ps n)
      else if key = CIL_KEY_ROLEBOUNDS then enter ps (cil_gen_bounds ps n CIL_ROLE)
      else if key = CIL_KEY_BOOL then enter ps (cil_gen_bool L ps n)
      else if key = CIL_KEY_BOOLEANIF then enter_changed (cil_gen_boolif E ps n False)
      else if key = CIL_KEY_TUNABLE then enter ps (if preserve_tunables s then cil_gen_bool L ps n else cil_gen_tunable L ps n)
      else if key = CIL_KEY_TUNABLEIF then enter_changed (if preserve_tunables s then cil_gen_boolif E ps n True else cil_gen_tunif E ps n)
      else if key = CIL_KEY_CONDTRUE then enter ps (cil_gen_condblock L ps n CIL_CONDTRUE)
      else if key = CIL_KEY_CONDFALSE then enter ps (cil_gen_condblock L ps n CIL_CONDFALSE)
      else if key = CIL_KEY_ALLOW then skip ps (cil_gen_avrule E ps n CIL_AVRULE_ALLOWED)
      else if key = CIL_KEY_AUDITALLOW then skip ps (cil_gen_avrule E ps n CIL_AVRULE_AUDITALLOW)
      else if key = CIL_KEY_DONTAUDIT then skip ps (cil_gen_avrule E ps n CIL_AVRULE_DONTAUDIT)
      else if key = CIL_KEY_NEVERALLOW then skip ps (cil_gen_avrule E ps n CIL_AVRULE_NEVERALLOW)
      else if key = CIL_KEY_TYPETRANSITION then enter ps (cil_gen_typetransition ps n)
      else if key = CIL_KEY_TYPECHANGE then enter ps (cil_gen_type_rule ps n CIL_TYPE_CHANGE)
      else if key = CIL_KEY_TYPEMEMBER then enter ps (cil_gen_type_rule ps n CIL_TYPE_MEMBER)
      else if key = CIL_KEY_SENSITIVITY then enter ps (cil_gen_sensitivity L ps n)
      else if key = CIL_KEY_SENSALIAS then enter ps (cil_gen_alias L ps n CIL_SENSALIAS)
      else if key = CIL_KEY_SENSALIASACTUAL then enter ps (cil_gen_aliasactual ps n CIL_SENSALIASACTUAL)
      else if key = CIL_KEY_CATEGORY then enter ps (cil_gen_category L ps n)
      else if key = CIL_KEY_CATALIAS then enter ps (cil_gen_alias L ps n CIL_CATALIAS)
      else if key = CIL_KEY_CATALIASACTUAL then enter ps (cil_gen_aliasactual ps n CIL_CATALIASACTUAL)
      else if key = CIL_KEY_CATSET then skip ps (cil_gen_catset L E ps n)
      else if key = CIL_KEY_CATORDER then skip ps (cil_gen_catorder ps n)
      else if key = CIL_KEY_SENSITIVITYORDER then skip ps (cil_gen_sensitivityorder ps n)
      else if key = CIL_KEY_SENSCAT then skip ps (cil_gen_senscat L E ps n)
      else if key = CIL_KEY_LEVEL then skip ps (cil_gen_level L E ps n)
      else if key = CIL_KEY_LEVELRANGE then skip ps (cil_gen_levelrange L E ps n)
      else if key = CIL_KEY_CONSTRAIN then skip ps (cil_gen_constrain E ps n CIL_CONSTRAIN)
      else if key = CIL_KEY_MLSCONSTRAIN then skip ps (cil_gen_constrain E ps n CIL_MLSCONSTRAIN)
      else if key = CIL_KEY_VALIDATETRANS then skip ps (cil_gen_validatetrans E ps n CIL_VALIDATETRANS)
      else if key = CIL_KEY_MLSVALIDATETRANS then skip ps (cil_gen_validatetrans E ps n CIL_MLSVALIDATETRANS)
      else if key = CIL_KEY_CONTEXT then skip ps (cil_gen_context L E ps n)
      else if key = CIL_KEY_FILECON then skip ps (cil_gen_filecon L E ps n)
      else if key = CIL_KEY_PORTCON then skip ps (cil_gen_portcon L E ps n)
      else if key = CIL_KEY_NODECON then skip ps (cil_gen_nodecon L E ps n)
      else if key = CIL_KEY_GENFSCON then skip ps (cil_gen_genfscon L E ps n)
      else if key = CIL_KEY_NETIFCON then skip ps (cil_gen_netifcon L E ps n)
      else if key = CIL_KEY_PIRQCON then skip ps (cil_gen_pirqcon L E ps n)
      else if key = CIL_KEY_IOMEMCON then skip ps (cil_gen_iomemcon L E ps n)
      else if key = CIL_KEY_IOPORTCON then skip ps (cil_gen_ioportcon L E ps n)
      else if key = CIL_KEY_PCIDEVICECON then skip ps (cil_gen_pcidevicecon L E ps n)
      else if key = CIL_KEY_FSUSE then skip ps (cil_gen_fsuse L E ps n)
      else if key = CIL_KEY_MACRO then enter_changed (cil_gen_macro L ps n)
      else if key = CIL_KEY_CALL then skip ps (cil_gen_call L ps n)
      else if key = CIL_KEY_POLICYCAP then skip ps (cil_gen_policycap L ps n)
      else if key = CIL_KEY_OPTIONAL then enter ps (cil_gen_optional L ps n)
      else if key = CIL_KEY_IPADDR then enter ps (cil_gen_ipaddr L E ps n)
      else if key = CIL_KEY_DEFAULTUSER then skip ps (cil_gen_default E ps n CIL_DEFAULTUSER)
      else if key = CIL_KEY_DEFAULTROLE then skip ps (cil_gen_default E ps n CIL_DEFAULTROLE)
      else if key = CIL_KEY_DEFAULTTYPE then skip ps (cil_gen_default E ps n CIL_DEFAULTTYPE)
      else if key = CIL_KEY_DEFAULTRANGE then skip ps (cil_gen_defaultrange E ps n)
      else if key = CIL_KEY_HANDLEUNKNOWN then skip ps (cil_gen_handleunknown E ps n)
      else if key = CIL_KEY_MLS then skip ps (cil_gen_mls ps n)
      else fail SEPOL_ERR)"

subsection \<open>The walk\<close>

text \<open>\<open>struct cil_args_build\<close>: the node that is being filled and the enclosing statements that restrict what may
  stand in them.\<close>

record build_args =
  ba_ast :: addr
  ba_macro :: "addr option"
  ba_boolif :: "addr option"
  ba_tunif :: "addr option"
  ba_in :: "addr option"

definition allowed_here :: "build_args \<Rightarrow> cstring \<Rightarrow> bool" where
  "allowed_here args key \<longleftrightarrow>
     \<not> (ba_macro args \<noteq> None \<and> (key = CIL_KEY_MACRO \<or> key = CIL_KEY_TUNABLE \<or> key = CIL_KEY_IN)) \<and>
     \<not> (ba_boolif args \<noteq> None \<and> key \<noteq> CIL_KEY_CONDTRUE \<and> key \<noteq> CIL_KEY_CONDFALSE \<and>
        key \<noteq> CIL_KEY_AUDITALLOW \<and> key \<noteq> CIL_KEY_TUNABLEIF \<and> key \<noteq> CIL_KEY_ALLOW \<and>
        key \<noteq> CIL_KEY_DONTAUDIT \<and> key \<noteq> CIL_KEY_TYPETRANSITION \<and> key \<noteq> CIL_KEY_TYPECHANGE \<and>
        key \<noteq> CIL_KEY_CALL) \<and>
     \<not> (ba_tunif args \<noteq> None \<and> key = CIL_KEY_TUNABLE) \<and>
     \<not> (ba_in args \<noteq> None \<and> key = CIL_KEY_IN)"

text \<open>The first child of a macro, a conditional or an \<open>in\<close> is what turns its restrictions on.\<close>

definition enter_block :: "cil_tree_node \<Rightarrow> build_args \<Rightarrow> build_args" where
  "enter_block nd args =
     (if node_cl_head nd \<noteq> None then args
      else if node_flavor nd = CIL_MACRO then args\<lparr>ba_macro := Some (ba_ast args)\<rparr>
      else if node_flavor nd = CIL_BOOLEANIF then args\<lparr>ba_boolif := Some (ba_ast args)\<rparr>
      else if node_flavor nd = CIL_TUNABLEIF then args\<lparr>ba_tunif := Some (ba_ast args)\<rparr>
      else if node_flavor nd = CIL_IN then args\<lparr>ba_in := Some (ba_ast args)\<rparr>
      else args)"

text \<open>\<open>first\<close>: the node is the first child of its parent; \<open>at_root\<close>: its parent is the root. The result holds the later
  siblings that are still to be visited.\<close>

definition cil_build_ast_node_helper ::
  "('h, 'b) sepol \<Rightarrow> sepol_env \<Rightarrow> bool \<Rightarrow> bool \<Rightarrow> parse_tree list \<Rightarrow> build_args
   \<Rightarrow> (('h, 'b, 'z) build_state_scheme, nat \<times> parse_tree list \<times> build_args) cil"
where
  "cil_build_ast_node_helper L E first at_root ps args =
     bind (lift (nth_node ps 0)) (\<lambda>t.
     if \<not> first then ret (CIL_TREE_SKIP_NOTHING, tl ps, args)
     else if p_data t = None then
       if at_root then ret (CIL_TREE_SKIP_NOTHING, tl ps, args) else fail SEPOL_ERR
     else if \<not> allowed_here args (p_data t) then fail SEPOL_ERR
     else
       bind (new_child (ba_ast args) t) (\<lambda>n.
       bind (on_error (build_statement L E (p_data t) ps n) (cil_tree_node_destroy L n)) (\<lambda>(finished, ps').
       bind (rd nodes (ba_ast args)) (\<lambda>nd.
       bind (append_child (ba_ast args) n) (\<lambda>_.
       ret (finished, tl ps', (enter_block nd args)\<lparr>ba_ast := n\<rparr>))))))"

definition leave_block :: "cil_flavor \<Rightarrow> build_args \<Rightarrow> build_args" where
  "leave_block f args =
     (if f = CIL_MACRO then args\<lparr>ba_macro := None\<rparr>
      else if f = CIL_BOOLEANIF then args\<lparr>ba_boolif := None\<rparr>
      else if f = CIL_TUNABLEIF then args\<lparr>ba_tunif := None\<rparr>
      else if f = CIL_IN then args\<lparr>ba_in := None\<rparr>
      else args)"

definition cil_build_ast_last_child_helper ::
  "build_args \<Rightarrow> (('h, 'b, 'z) build_state_scheme, build_args) cil"
where
  "cil_build_ast_last_child_helper args =
     bind (rd nodes (ba_ast args)) (\<lambda>nd.
     if node_flavor nd = CIL_ROOT then ret args
     else
       bind (lift (not_null (node_parent nd))) (\<lambda>p.
       ret (leave_block (node_flavor nd) (args\<lparr>ba_ast := p\<rparr>))))"

text \<open>\<open>cil_tree_walk_core\<close> and \<open>cil_tree_walk\<close> with these helpers.\<close>

fun build_walk_core ::
  "nat \<Rightarrow> ('h, 'b) sepol \<Rightarrow> sepol_env \<Rightarrow> bool \<Rightarrow> bool \<Rightarrow> parse_tree list \<Rightarrow> build_args
   \<Rightarrow> (('h, 'b, 'z) build_state_scheme, build_args) cil"
and build_walk ::
  "nat \<Rightarrow> ('h, 'b) sepol \<Rightarrow> sepol_env \<Rightarrow> bool \<Rightarrow> parse_tree list \<Rightarrow> build_args
   \<Rightarrow> (('h, 'b, 'z) build_state_scheme, build_args) cil"
where
  "build_walk_core 0 L E first at_root ps args = no_fuel"
| "build_walk_core (Suc fuel) L E first at_root ps args =
     (case ps of
        [] \<Rightarrow> ret args
      | t # ts \<Rightarrow>
          bind (cil_build_ast_node_helper L E first at_root ps args) (\<lambda>(finished, next_nodes, args).
          if finished AND CIL_TREE_SKIP_NEXT \<noteq> 0 then ret args
          else
            bind (if p_children t \<noteq> [] \<and> finished AND CIL_TREE_SKIP_HEAD = 0
                  then build_walk fuel L E False (p_children t) args
                  else ret args) (\<lambda>args.
            build_walk_core fuel L E False at_root next_nodes args)))"
| "build_walk 0 L E at_root children args = no_fuel"
| "build_walk (Suc fuel) L E at_root children args =
     (if children = [] then ret args
      else
        bind (build_walk_core fuel L E True at_root children args) cil_build_ast_last_child_helper)"

text \<open>The fuel is above the number of nodes of the parse tree.\<close>

definition cil_build_ast ::
  "('h, 'b) sepol \<Rightarrow> sepol_env \<Rightarrow> parse_tree list \<Rightarrow> addr \<Rightarrow> ('h, 'b, 'z) builder"
where
  "cil_build_ast L E parse_tree ast =
     bind (build_walk (2 * size_list size parse_tree + 2) L E True parse_tree
       \<lparr>ba_ast = ast, ba_macro = None, ba_boolif = None, ba_tunif = None, ba_in = None\<rparr>) (\<lambda>_. ret ())"

end
