(* ===== verification/Cil_Build_Inv.thy ===== *)
theory Cil_Build_Inv
  imports Cil_Build
begin

text \<open>
  Invariants of the construction of the AST: every statement ends, and builds at the node it was given, in
  memory that is new, leaving the rest of the AST as it was; so the AST stays linked, the walk comes back to the
  node it started from, and the whole construction ends.
\<close>

subsection \<open>Partial correctness with termination\<close>

text \<open>\<open>spec P m Q\<close>: from a state with \<open>P\<close>, \<open>m\<close> does not run out of fuel, and when it succeeds its result and
  final state are in \<open>Q\<close>. \<open>keeps K m\<close> is the case of an invariant.\<close>

definition spec :: "('s \<Rightarrow> bool) \<Rightarrow> ('s, 'a) cil \<Rightarrow> ('a \<Rightarrow> 's \<Rightarrow> bool) \<Rightarrow> bool" where
  "spec P m Q \<longleftrightarrow> (\<forall>s. P s \<longrightarrow> (\<forall>t. m s \<noteq> (Out_of_fuel, t)) \<and> (\<forall>x t. m s = (Ok x, t) \<longrightarrow> Q x t))"

abbreviation keeps :: "('s \<Rightarrow> bool) \<Rightarrow> ('s, 'a) cil \<Rightarrow> bool" where
  "keeps K m \<equiv> spec K m (\<lambda>_. K)"

abbreviation ends :: "('s, 'a) cil \<Rightarrow> bool" where
  "ends m \<equiv> spec (\<lambda>_. True) m (\<lambda>_ _. True)"

named_theorems spec_rules \<open>rules of the calculus of spec\<close>

lemma specI:
  "(\<And>s t. P s \<Longrightarrow> m s \<noteq> (Out_of_fuel, t)) \<Longrightarrow> (\<And>s x t. P s \<Longrightarrow> m s = (Ok x, t) \<Longrightarrow> Q x t) \<Longrightarrow> spec P m Q"
  by (auto simp: spec_def)

lemma specD:
  assumes "spec P m Q" and "P s"
  shows "m s \<noteq> (Out_of_fuel, t)" and "m s = (Ok x, t) \<Longrightarrow> Q x t"
  using assms by (auto simp: spec_def)

lemma spec_pre: "spec P m Q \<Longrightarrow> (\<And>s. P' s \<Longrightarrow> P s) \<Longrightarrow> spec P' m Q"
  by (auto simp: spec_def)

lemma spec_post: "spec P m Q \<Longrightarrow> (\<And>x s. Q x s \<Longrightarrow> Q' x s) \<Longrightarrow> spec P m Q'"
  by (auto simp: spec_def)

lemma spec_ends: "spec P m Q \<Longrightarrow> spec P m (\<lambda>_ _. True)"
  by (auto simp: spec_def)

lemma spec_bind:
  assumes "spec P m R" and "\<And>x. spec (R x) (f x) Q"
  shows "spec P (bind m f) Q"
proof (rule specI)
  fix s t assume P: "P s"
  show "bind m f s \<noteq> (Out_of_fuel, t)"
    by (rule bind_cases [of m s f]) (use P assms in \<open>auto simp: spec_def\<close>)
next
  fix s y t assume P: "P s" and eq: "bind m f s = (Ok y, t)"
  then obtain x s' where "m s = (Ok x, s')" "f x s' = (Ok y, t)" by (auto elim: bind_OkE)
  with P assms show "Q y t" by (metis specD(2))
qed

lemma keeps_bind [spec_rules]:
  "keeps K m \<Longrightarrow> (\<And>x. spec K (f x) Q) \<Longrightarrow> spec K (bind m f) Q"
  by (rule spec_bind)

lemma spec_ret [spec_rules]: "(\<And>s. P s \<Longrightarrow> Q x s) \<Longrightarrow> spec P (ret x) Q"
  and spec_fail [spec_rules]: "spec P (fail e) Q"
  and spec_fault [spec_rules]: "spec P fault Q"
  and spec_gets [spec_rules]: "(\<And>s. P s \<Longrightarrow> Q (g s) s) \<Longrightarrow> spec P (gets g) Q"
  and spec_lift: "r \<noteq> Out_of_fuel \<Longrightarrow> (\<And>x s. r = Ok x \<Longrightarrow> P s \<Longrightarrow> Q x s) \<Longrightarrow> spec P (lift r) Q"
  and spec_reading:
    "(\<And>s. P s \<Longrightarrow> k s \<noteq> Out_of_fuel) \<Longrightarrow> (\<And>s x. P s \<Longrightarrow> k s = Ok x \<Longrightarrow> Q x s) \<Longrightarrow> spec P (reading k) Q"
  by (auto simp: spec_def)

lemma spec_modify: "(\<And>s. P s \<Longrightarrow> Q () (h s)) \<Longrightarrow> spec P (modify h) Q"
  by (auto simp: spec_def)

lemma keeps_lift [spec_rules]: "r \<noteq> Out_of_fuel \<Longrightarrow> keeps K (lift r)"
  and keeps_reading: "(\<And>s. K s \<Longrightarrow> k s \<noteq> Out_of_fuel) \<Longrightarrow> keeps K (reading k)"
  by (auto simp: spec_def)

lemma spec_rd: "(\<And>s x. P s \<Longrightarrow> sel s a = Some x \<Longrightarrow> Q x s) \<Longrightarrow> spec P (rd sel a) Q"
  by (auto simp: spec_def rd_def split: option.splits)

lemma keeps_rd [spec_rules]: "keeps K (rd sel a)"
  by (rule spec_rd)

lemma spec_wr:
  "(\<And>s x. P s \<Longrightarrow> sel s a = Some x \<Longrightarrow> Q () (upd (\<lambda>m. m(a \<mapsto> f x)) s)) \<Longrightarrow> spec P (wr sel upd a f) Q"
  by (auto simp: spec_def wr_def split: option.splits)

lemma spec_if [spec_rules]: "(b \<Longrightarrow> spec P m Q) \<Longrightarrow> (\<not> b \<Longrightarrow> spec P m' Q) \<Longrightarrow> spec P (if b then m else m') Q"
  by simp

lemma spec_case_option [spec_rules]:
  "spec P m Q \<Longrightarrow> (\<And>x. spec P (f x) Q) \<Longrightarrow> spec P (case p of None \<Rightarrow> m | Some x \<Rightarrow> f x) Q"
  by (cases p) auto

lemma spec_case_list [spec_rules]:
  "spec P m Q \<Longrightarrow> (\<And>x xs. spec P (f x xs) Q) \<Longrightarrow> spec P (case p of [] \<Rightarrow> m | x # xs \<Rightarrow> f x xs) Q"
  by (cases p) auto

lemma spec_case_prod [spec_rules]: "(\<And>x y. spec P (f x y) Q) \<Longrightarrow> spec P (case p of (x, y) \<Rightarrow> f x y) Q"
  by (cases p) auto

text \<open>After a failure nothing is known of the state; what cleans up only has to end.\<close>

lemma spec_on_error [spec_rules]:
  assumes "spec P m Q" and "ends c"
  shows "spec P (on_error m c) Q"
proof (rule specI)
  fix s t assume P: "P s"
  obtain r s' where m: "m s = (r, s')" by (cases "m s")
  have "\<And>u. c s' \<noteq> (Out_of_fuel, u)" using assms(2) by (auto simp: spec_def)
  then show "on_error m c s \<noteq> (Out_of_fuel, t)"
    using m specD(1) [OF assms(1) P] by (cases r; cases "c s'"; cases "fst (c s')") (auto simp: on_error_def)
next
  fix s x t assume P: "P s" and eq: "on_error m c s = (Ok x, t)"
  obtain r s' where m: "m s = (r, s')" by (cases "m s")
  show "Q x t"
    using m eq specD [OF assms(1) P]
    by (cases r; cases "c s'"; cases "fst (c s')") (auto simp: on_error_def)
qed

lemma spec_or_err [spec_rules]:
  assumes "spec P m Q"
  shows "spec P (or_err m) Q"
proof (rule specI)
  fix s t assume P: "P s"
  obtain r s' where m: "m s = (r, s')" by (cases "m s")
  then show "or_err m s \<noteq> (Out_of_fuel, t)"
    using specD(1) [OF assms P] by (cases r) (auto simp: or_err_def)
next
  fix s x t assume P: "P s" and eq: "or_err m s = (Ok x, t)"
  obtain r s' where m: "m s = (r, s')" by (cases "m s")
  with eq show "Q x t"
    using specD [OF assms P] by (cases r) (auto simp: or_err_def)
qed

lemma ends_wr [spec_rules]: "ends (wr sel upd a f)" and ends_modify [spec_rules]: "ends (modify h)"
  by (auto intro: spec_wr spec_modify)

lemma ends_for_each [spec_rules]: "(\<And>x. ends (f x)) \<Longrightarrow> ends (for_each f xs)"
  by (induction xs) (auto intro: spec_rules)

lemma spec_unless_null [spec_rules]: "(\<And>a. ends (f a)) \<Longrightarrow> ends (unless_null p f)"
  by (auto simp: unless_null_def intro: spec_rules)

lemma not_out_of_fuel [simp]:
  "not_null p \<noteq> Out_of_fuel" "symtab_of s tab \<noteq> Out_of_fuel" "is_anonymous s d \<noteq> Out_of_fuel"
  "NODE s d \<noteq> Out_of_fuel"
  by (auto simp: not_null_def symtab_of_def is_anonymous_def NODE_def obind_def deref_def
      split: option.splits list.splits outcome.splits)

lemma ends_reading [spec_rules]: "(\<And>s. k s \<noteq> Out_of_fuel) \<Longrightarrow> ends (reading k)"
  by (rule spec_reading)

subsection \<open>Destructors end\<close>

lemma ends_free [spec_rules]: "ends (free_struct sel upd a)" "ends (free_object sel upd a)"
  by (auto simp: free_struct_def free_object_def intro!: spec_rules)

lemma ends_symtab_destroy [spec_rules]:
  "ends (cil_symtab_datum_destroy L a)" "ends (cil_symtab_destroy L tab)" "ends (cil_symtab_array_destroy L a)"
  "ends (cil_symtab_datum_remove_node L p n)"
  by (auto simp: cil_symtab_datum_destroy_def cil_symtab_remove_datum_def cil_symtab_destroy_def
      cil_symtab_map_def cil_symtab_destroy_helper_def cil_symtab_array_destroy_def
      cil_symtab_datum_remove_node_def intro!: spec_rules)
lemma ends_destroy_simple_0 [spec_rules]:
  "ends (cil_destroy_blockinherit p)"
  "ends (cil_destroy_blockabstract p)"
  "ends (cil_destroy_classorder p)"
  "ends (cil_destroy_classperms p)"
  "ends (cil_destroy_classperms_set p)"
  "ends (cil_destroy_classcommon p)"
  "ends (cil_destroy_sidorder p)"
  "ends (cil_destroy_userprefix p)"
  "ends (cil_destroy_roletype p)"
  "ends (cil_destroy_userrole p)"
  "ends (cil_destroy_roletransition p)"
  "ends (cil_destroy_roleallow p)"
  "ends (cil_destroy_roleattributeset p)"
  "ends (cil_destroy_type_rule p)"
  by (auto simp: cil_destroy_blockinherit_def cil_destroy_blockabstract_def cil_destroy_classorder_def cil_destroy_classperms_def cil_destroy_classperms_set_def cil_destroy_classcommon_def cil_destroy_sidorder_def cil_destroy_userprefix_def cil_destroy_roletype_def cil_destroy_userrole_def cil_destroy_roletransition_def cil_destroy_roleallow_def cil_destroy_roleattributeset_def cil_destroy_type_rule_def intro!: spec_rules)

lemma ends_destroy_simple_1 [spec_rules]:
  "ends (cil_destroy_aliasactual p)"
  "ends (cil_destroy_typeattributeset p)"
  "ends (cil_destroy_typepermissive p)"
  "ends (cil_destroy_catorder p)"
  "ends (cil_destroy_validatetrans p)"
  "ends (cil_destroy_cats p)"
  "ends (cil_destroy_bounds p)"
  "ends (cil_destroy_default p)"
  "ends (cil_destroy_defaultrange p)"
  "ends (cil_destroy_handleunknown p)"
  "ends (cil_destroy_mls p)"
  "ends (cil_destroy_typetransition p)"
  "ends (cil_destroy_boolif p)"
  "ends (cil_destroy_tunif p)"
  by (auto simp: cil_destroy_aliasactual_def cil_destroy_typeattributeset_def cil_destroy_typepermissive_def cil_destroy_catorder_def cil_destroy_validatetrans_def cil_destroy_cats_def cil_destroy_bounds_def cil_destroy_default_def cil_destroy_defaultrange_def cil_destroy_handleunknown_def cil_destroy_mls_def cil_destroy_typetransition_def cil_destroy_boolif_def cil_destroy_tunif_def intro!: spec_rules)

lemma ends_destroy_simple_2 [spec_rules]:
  "ends (cil_destroy_sensitivityorder p)"
  "ends (cil_destroy_perm L p)"
  "ends (cil_destroy_sid L p)"
  "ends (cil_destroy_user L p)"
  "ends (cil_destroy_role L p)"
  "ends (cil_destroy_roleattribute L p)"
  "ends (cil_destroy_type L p)"
  "ends (cil_destroy_typeattribute L p)"
  "ends (cil_destroy_bool L p)"
  "ends (cil_destroy_tunable L p)"
  "ends (cil_destroy_alias L p)"
  "ends (cil_destroy_name L p)"
  "ends (cil_destroy_optional L p)"
  "ends (cil_destroy_ipaddr L p)"
  by (auto simp: cil_destroy_sensitivityorder_def cil_destroy_perm_def cil_destroy_sid_def cil_destroy_user_def cil_destroy_role_def cil_destroy_roleattribute_def cil_destroy_type_def cil_destroy_typeattribute_def cil_destroy_bool_def cil_destroy_tunable_def cil_destroy_alias_def cil_destroy_name_def cil_destroy_optional_def cil_destroy_ipaddr_def intro!: spec_rules)

lemma ends_destroy_simple_3 [spec_rules]:
  "ends (cil_destroy_sensitivity L p)"
  "ends (cil_destroy_category L p)"
  "ends (cil_destroy_policycap L p)"
  "ends (cil_destroy_block L p)"
  "ends (cil_destroy_macro L p)"
  "ends (cil_destroy_in L p)"
  "ends (cil_destroy_condblock L p)"
  "ends (cil_destroy_class L p)"
  by (auto simp: cil_destroy_sensitivity_def cil_destroy_category_def cil_destroy_policycap_def cil_destroy_block_def cil_destroy_macro_def cil_destroy_in_def cil_destroy_condblock_def cil_destroy_class_def intro!: spec_rules)

lemma ends_destroy_list_0 [spec_rules]:
  "ends (cil_destroy_classperms_list ps)"
  by (auto simp: cil_destroy_classperms_list_def intro!: spec_rules)

lemma ends_destroy_cp_0 [spec_rules]:
  "ends (cil_destroy_classpermission L p)"
  "ends (cil_destroy_classpermissionset p)"
  "ends (cil_destroy_classmapping p)"
  "ends (cil_destroy_avrule p)"
  "ends (cil_destroy_constrain p)"
  by (auto simp: cil_destroy_classpermission_def cil_destroy_classpermissionset_def cil_destroy_classmapping_def cil_destroy_avrule_def cil_destroy_constrain_def intro!: spec_rules)

lemma ends_destroy_cats_0 [spec_rules]:
  "ends (cil_destroy_catset L p)"
  "ends (cil_destroy_senscat L p)"
  by (auto simp: cil_destroy_catset_def cil_destroy_senscat_def intro!: spec_rules)

lemma ends_destroy_level_0 [spec_rules]:
  "ends (cil_destroy_level L p)"
  by (auto simp: cil_destroy_level_def intro!: spec_rules)

lemma ends_destroy_levelrange_0 [spec_rules]:
  "ends (cil_destroy_levelrange L p)"
  by (auto simp: cil_destroy_levelrange_def intro!: spec_rules)

lemma ends_destroy_context_0 [spec_rules]:
  "ends (cil_destroy_context L p)"
  by (auto simp: cil_destroy_context_def intro!: spec_rules)

lemma ends_destroy_contexts_0 [spec_rules]:
  "ends (cil_destroy_sidcontext L p)"
  "ends (cil_destroy_userlevel L p)"
  "ends (cil_destroy_userrange L p)"
  "ends (cil_destroy_selinuxuser L p)"
  "ends (cil_destroy_rangetransition L p)"
  "ends (cil_destroy_filecon L p)"
  "ends (cil_destroy_portcon L p)"
  "ends (cil_destroy_genfscon L p)"
  "ends (cil_destroy_pirqcon L p)"
  "ends (cil_destroy_iomemcon L p)"
  "ends (cil_destroy_ioportcon L p)"
  "ends (cil_destroy_pcidevicecon L p)"
  "ends (cil_destroy_fsuse L p)"
  "ends (cil_destroy_nodecon L p)"
  by (auto simp: cil_destroy_sidcontext_def cil_destroy_userlevel_def cil_destroy_userrange_def cil_destroy_selinuxuser_def cil_destroy_rangetransition_def cil_destroy_filecon_def cil_destroy_portcon_def cil_destroy_genfscon_def cil_destroy_pirqcon_def cil_destroy_iomemcon_def cil_destroy_ioportcon_def cil_destroy_pcidevicecon_def cil_destroy_fsuse_def cil_destroy_nodecon_def intro!: spec_rules)

lemma ends_destroy_contexts_1 [spec_rules]:
  "ends (cil_destroy_netifcon L p)"
  by (auto simp: cil_destroy_netifcon_def intro!: spec_rules)

lemma ends_destroy_args_0 [spec_rules]:
  "ends (cil_destroy_args L p)"
  by (auto simp: cil_destroy_args_def Let_def intro!: spec_rules)

lemma ends_destroy_call_0 [spec_rules]:
  "ends (cil_destroy_call L p)"
  by (auto simp: cil_destroy_call_def intro!: spec_rules)


subsection \<open>Functions on parse trees end\<close>

lemma obind_eq_fuel [simp]:
  "obind m f = Out_of_fuel \<longleftrightarrow> m = Out_of_fuel \<or> (\<exists>x. m = Ok x \<and> f x = Out_of_fuel)"
  by (cases m) auto

lemma verify_syntax_ends: "verify_syntax s n ps \<noteq> Out_of_fuel"
  by (induction s n ps rule: verify_syntax.induct) auto

lemma cil_verify_syntax_ends [simp]: "cil_verify_syntax ps s \<noteq> Out_of_fuel"
  by (simp add: cil_verify_syntax_def verify_syntax_ends)

lemma parse_node_ends [simp]:
  "nth_node ps i \<noteq> Out_of_fuel" "nth_data ps i \<noteq> Out_of_fuel" "nth_list ps i \<noteq> Out_of_fuel"
  "cil_fill_list ps \<noteq> Out_of_fuel" "cil_verify_expr_syntax ps op f \<noteq> Out_of_fuel"
  "cil_verify_constraint_expr_syntax ps op \<noteq> Out_of_fuel"
  "cil_verify_constraint_leaf_expr_syntax lf rf op f \<noteq> Out_of_fuel"
  by (auto simp: nth_node_def nth_data_def nth_list_def cil_fill_list_def cil_verify_expr_syntax_def
      cil_verify_constraint_expr_syntax_def cil_verify_constraint_leaf_expr_syntax_def Let_def
      split: outcome.split)

lemma cil_verify_name_ends [simp]: "cil_verify_name s \<noteq> Out_of_fuel"
proof -
  have "verify_name_chars r \<noteq> Out_of_fuel" for r by (induction r rule: verify_name_chars.induct) auto
  then show ?thesis by (auto simp: cil_verify_name_def split: list.splits)
qed

lemma cil_fill_integer_ends [simp]: "cil_fill_integer ps \<noteq> Out_of_fuel"
  by (auto simp: cil_fill_integer_def split: list.splits option.splits)

lemma fill_ipaddr_ends [simp]: "fill_ipaddr E ps \<noteq> Out_of_fuel"
  by (auto simp: fill_ipaddr_def Let_def split: list.splits option.splits)

lemma fill_expr_ends:
  "cil_fill_expr_helper E ps f d \<noteq> Out_of_fuel" "fill_exprs E ps f d \<noteq> Out_of_fuel"
  "cil_fill_expr E t f d \<noteq> Out_of_fuel"
  by (induction E ps f d and E ps f d and E t f d rule: cil_fill_expr_helper_fill_exprs_cil_fill_expr.induct)
    (auto simp: Let_def)

lemma cil_gen_expr_ends [simp]: "cil_gen_expr E ps f \<noteq> Out_of_fuel"
  by (auto simp: cil_gen_expr_def fill_expr_ends)

lemma fold_max_le: "m \<le> fold max xs m" and fold_max_in: "x \<in> set xs \<Longrightarrow> x \<le> fold max xs (m :: nat)"
proof -
  show le: "m \<le> fold max xs m" for xs and m :: nat
    by (induction xs arbitrary: m) (auto, metis max.bounded_iff)
  show "x \<in> set xs \<Longrightarrow> x \<le> fold max xs m"
  proof (induction xs arbitrary: m)
    case (Cons y ys)
    then show ?case using le [of "max y m" ys] by auto
  qed simp
qed

lemma height_child: "t \<in> set (p_children c) \<Longrightarrow> height t < height c"
  by (cases c) (auto intro!: le_imp_less_Suc fold_max_in)

lemma leaf_flavor_ends [simp]: "leaf_flavor f \<noteq> Out_of_fuel"
  by (simp add: leaf_flavor_def)

lemma fill_constraint_expr_ends:
  "0 < fuel \<Longrightarrow> (\<And>t. t \<in> set ps \<Longrightarrow> height t < fuel) \<Longrightarrow> cil_fill_constraint_expr fuel E ps f d \<noteq> Out_of_fuel"
proof (induction fuel arbitrary: ps d)
  case (Suc fuel)
  have sub: "cil_fill_constraint_expr fuel E (p_children (ps ! i)) f d' \<noteq> Out_of_fuel" if "i < length ps" for i d'
  proof (rule Suc.IH)
    from Suc.prems(2) that have h: "height (ps ! i) \<le> fuel" by (simp add: less_Suc_eq_le)
    then show "0 < fuel" by (cases "ps ! i") simp
    show "height t < fuel" if "t \<in> set (p_children (ps ! i))" for t
      using height_child [OF that] h by simp
  qed
  show ?case
    by (auto simp: Let_def cil_fill_constraint_leaf_expr_def nth_list_def nth_node_def sub split: if_splits)
qed simp

lemma cil_gen_constraint_expr_ends [simp]: "cil_gen_constraint_expr E ps f \<noteq> Out_of_fuel"
proof -
  have "cil_fill_constraint_expr (height c) E (p_children c) f 0 \<noteq> Out_of_fuel" for c
    by (rule fill_constraint_expr_ends) (auto intro: height_child, cases c, simp)
  then show ?thesis by (auto simp: cil_gen_constraint_expr_def)
qed

lemma cil_fill_perms_ends [simp]: "cil_fill_perms E ps \<noteq> Out_of_fuel"
  by (auto simp: cil_fill_perms_def)

subsection \<open>What does not touch the AST\<close>

text \<open>Predicates on the nodes and the bound of the allocated memory, which only grows.\<close>

definition frame :: "(('h, 'b, 'z) build_state_scheme \<Rightarrow> bool) \<Rightarrow> bool" where
  "frame K \<longleftrightarrow> (\<forall>s t. nodes s = nodes t \<longrightarrow> brk s \<le> brk t \<longrightarrow> K s \<longrightarrow> K t)"

lemma frameD: "frame K \<Longrightarrow> K s \<Longrightarrow> nodes t = nodes s \<Longrightarrow> brk s \<le> brk t \<Longrightarrow> K t"
  by (simp add: frame_def)

named_theorems frame_rules \<open>rules for what does not touch the AST\<close>

lemma frame_wr [frame_rules]:
  "frame K \<Longrightarrow> (\<And>g s. nodes (upd g s) = nodes s) \<Longrightarrow> (\<And>g s. brk (upd g s) = brk s) \<Longrightarrow> keeps K (wr sel upd a f)"
  by (rule spec_wr) (auto elim: frameD)

lemma frame_modify [frame_rules]:
  "frame K \<Longrightarrow> (\<And>s. nodes (h s) = nodes s) \<Longrightarrow> (\<And>s. brk (h s) = brk s) \<Longrightarrow> keeps K (modify h)"
  by (rule spec_modify) (auto elim: frameD)

lemma frame_fresh [frame_rules]: "frame K \<Longrightarrow> keeps K fresh"
  by (rule specI) (auto simp: fresh_def elim: frameD)

lemma frame_new_struct [frame_rules]:
  "frame K \<Longrightarrow> (\<And>g s. nodes (upd g s) = nodes s) \<Longrightarrow> (\<And>g s. brk (upd g s) = brk s) \<Longrightarrow> keeps K (new_struct upd x)"
  unfolding new_struct_def by (intro spec_rules frame_rules) auto

lemma frame_datum_init [frame_rules]: "frame K \<Longrightarrow> keeps K (datum_init a)"
  unfolding datum_init_def by (intro spec_rules frame_rules) auto

lemma frame_new_object [frame_rules]:
  "frame K \<Longrightarrow> (\<And>g s. nodes (upd g s) = nodes s) \<Longrightarrow> (\<And>g s. brk (upd g s) = brk s) \<Longrightarrow> keeps K (new_object upd x)"
  unfolding new_object_def by (intro spec_rules frame_rules) auto

lemma keeps_for_each: "(\<And>x. keeps K (f x)) \<Longrightarrow> keeps K (for_each f xs)"
  by (induction xs) (auto intro: spec_rules)

lemma frame_symtab [frame_rules]: "frame K \<Longrightarrow> keeps K (cil_symtab_init L tab)"
  unfolding cil_symtab_init_def by (intro spec_rules frame_rules) auto

lemma frame_symtab_array [frame_rules]: "frame K \<Longrightarrow> keeps K (cil_symtab_array_init L a)"
  unfolding cil_symtab_array_init_def by (intro keeps_for_each frame_rules)

lemma frame_inits_0 [frame_rules]:
  assumes "frame K"
  shows "keeps K cil_netifcon_init"
    "keeps K cil_blockinherit_init"
    "keeps K cil_blockabstract_init"
    "keeps K cil_classorder_init"
    "keeps K cil_classcommon_init"
    "keeps K cil_sidcontext_init"
    "keeps K cil_sidorder_init"
    "keeps K cil_userrole_init"
    "keeps K cil_userprefix_init"
    "keeps K cil_selinuxuser_init"
    "keeps K cil_roletype_init"
    "keeps K cil_roleattributeset_init"
    "keeps K cil_typeattributeset_init"
    "keeps K cil_aliasactual_init"
    "keeps K cil_typepermissive_init"
    "keeps K cil_nametypetransition_init"
  unfolding cil_netifcon_init_def cil_blockinherit_init_def cil_blockabstract_init_def cil_classorder_init_def cil_classcommon_init_def cil_sidcontext_init_def cil_sidorder_init_def cil_userrole_init_def cil_userprefix_init_def cil_selinuxuser_init_def cil_roletype_init_def cil_roleattributeset_init_def cil_typeattributeset_init_def cil_aliasactual_init_def cil_typepermissive_init_def cil_nametypetransition_init_def
  by (intro spec_rules frame_rules assms; simp)+

lemma frame_inits_1 [frame_rules]:
  assumes "frame K"
  shows "keeps K cil_rangetransition_init"
    "keeps K cil_avrule_init"
    "keeps K cil_type_rule_init"
    "keeps K cil_roletransition_init"
    "keeps K cil_roleallow_init"
    "keeps K cil_senscat_init"
    "keeps K cil_cats_init"
    "keeps K cil_filecon_init"
    "keeps K cil_portcon_init"
    "keeps K cil_nodecon_init"
    "keeps K cil_genfscon_init"
    "keeps K cil_pirqcon_init"
    "keeps K cil_iomemcon_init"
    "keeps K cil_ioportcon_init"
    "keeps K cil_pcidevicecon_init"
    "keeps K cil_fsuse_init"
  unfolding cil_rangetransition_init_def cil_avrule_init_def cil_type_rule_init_def cil_roletransition_init_def cil_roleallow_init_def cil_senscat_init_def cil_cats_init_def cil_filecon_init_def cil_portcon_init_def cil_nodecon_init_def cil_genfscon_init_def cil_pirqcon_init_def cil_iomemcon_init_def cil_ioportcon_init_def cil_pcidevicecon_init_def cil_fsuse_init_def
  by (intro spec_rules frame_rules assms; simp)+

lemma frame_inits_2 [frame_rules]:
  assumes "frame K"
  shows "keeps K cil_constrain_init"
    "keeps K cil_validatetrans_init"
    "keeps K cil_classpermissionset_init"
    "keeps K cil_classperms_set_init"
    "keeps K cil_classperms_init"
    "keeps K cil_classmapping_init"
    "keeps K cil_userlevel_init"
    "keeps K cil_userrange_init"
    "keeps K cil_catorder_init"
    "keeps K cil_sensorder_init"
    "keeps K cil_args_init"
    "keeps K cil_bounds_init"
    "keeps K cil_default_init"
    "keeps K cil_defaultrange_init"
    "keeps K cil_handleunknown_init"
    "keeps K cil_mls_init"
  unfolding cil_constrain_init_def cil_validatetrans_init_def cil_classpermissionset_init_def cil_classperms_set_init_def cil_classperms_init_def cil_classmapping_init_def cil_userlevel_init_def cil_userrange_init_def cil_catorder_init_def cil_sensorder_init_def cil_args_init_def cil_bounds_init_def cil_default_init_def cil_defaultrange_init_def cil_handleunknown_init_def cil_mls_init_def
  by (intro spec_rules frame_rules assms; simp)+

lemma frame_inits_3 [frame_rules]:
  assumes "frame K"
  shows "keeps K cil_boolif_init"
    "keeps K cil_tunif_init"
    "keeps K cil_context_init"
    "keeps K cil_level_init"
    "keeps K cil_levelrange_init"
    "keeps K cil_sens_init"
    "keeps K cil_sid_init"
    "keeps K cil_roleattribute_init"
    "keeps K cil_typeattribute_init"
    "keeps K cil_alias_init"
    "keeps K cil_name_init"
    "keeps K cil_bool_init"
    "keeps K cil_tunable_init"
    "keeps K cil_catset_init"
    "keeps K cil_ipaddr_init"
    "keeps K cil_perm_init"
  unfolding cil_boolif_init_def cil_tunif_init_def cil_context_init_def cil_level_init_def cil_levelrange_init_def cil_sens_init_def cil_sid_init_def cil_roleattribute_init_def cil_typeattribute_init_def cil_alias_init_def cil_name_init_def cil_bool_init_def cil_tunable_init_def cil_catset_init_def cil_ipaddr_init_def cil_perm_init_def
  by (intro spec_rules frame_rules assms; simp)+

lemma frame_inits_4 [frame_rules]:
  assumes "frame K"
  shows "keeps K cil_classpermission_init"
    "keeps K cil_user_init"
    "keeps K cil_role_init"
    "keeps K cil_type_init"
    "keeps K cil_cat_init"
    "keeps K cil_optional_init"
    "keeps K cil_call_init"
    "keeps K (cil_block_init L)"
    "keeps K (cil_macro_init L)"
    "keeps K (cil_in_init L)"
    "keeps K (cil_condblock_init L)"
    "keeps K (cil_class_init L)"
    "keeps K cil_policycap_init"
  unfolding cil_classpermission_init_def cil_user_init_def cil_role_init_def cil_type_init_def cil_cat_init_def cil_optional_init_def cil_call_init_def cil_block_init_def cil_macro_init_def cil_in_init_def cil_condblock_init_def cil_class_init_def cil_policycap_init_def
  by (intro spec_rules frame_rules assms; simp)+


lemma keeps_case_prod [spec_rules]: "(\<And>x y. keeps K (f x y)) \<Longrightarrow> keeps K (case p of (x, y) \<Rightarrow> f x y)"
  by (cases p) auto

lemma arg_keeps [spec_rules]: "keeps K (arg ps i)" "keeps K (string_arg ps i)"
  unfolding arg_def string_arg_def by (rule keeps_lift; simp)+

lemma frame_fill_classperms [frame_rules]:
  assumes "frame K"
  shows "keeps K (cil_fill_ipaddr E ps a)" "keeps K (cil_fill_classperms E ps)" "keeps K (cil_fill_classperms_set ps)"
  unfolding cil_fill_ipaddr_def cil_fill_classperms_def cil_fill_classperms_set_def
  by ((intro spec_rules frame_rules assms; simp)+)

lemma frame_fill_classperms_list [frame_rules]:
  assumes "frame K"
  shows "keeps K (cil_fill_classperms_list E ps)"
  unfolding cil_fill_classperms_list_def by (intro spec_rules frame_rules assms; simp)

lemma frame_fill_cats [frame_rules]:
  assumes "frame K" and "\<And>a. keeps K (store a)"
  shows "keeps K (cil_fill_cats E ps store)"
  unfolding cil_fill_cats_def by (intro spec_rules frame_rules assms; simp)

lemma frame_name_or_new [frame_rules]:
  assumes "\<And>str. keeps K (set_name str)" and "keeps K init" and "\<And>a. keeps K (set_new a)"
    and "\<And>ps a. keeps K (fill ps a)"
  shows "keeps K (name_or_new ps set_name init set_new fill)"
  unfolding name_or_new_def by (intro spec_rules assms; simp)

lemma frame_fill_level [frame_rules]: "frame K \<Longrightarrow> keeps K (cil_fill_level E ps a)"
  unfolding cil_fill_level_def by (intro spec_rules frame_rules; simp)

lemma frame_fill_levelrange [frame_rules]: "frame K \<Longrightarrow> keeps K (cil_fill_levelrange E ps a)"
  unfolding cil_fill_levelrange_def by (intro spec_rules frame_rules; simp)

lemma frame_fill_context [frame_rules]: "frame K \<Longrightarrow> keeps K (cil_fill_context E ps a)"
  unfolding cil_fill_context_def by (intro spec_rules frame_rules; simp)

lemma frame_fill_number_range [frame_rules]:
  "(\<And>w. keeps K (set_low w)) \<Longrightarrow> (\<And>w. keeps K (set_high w)) \<Longrightarrow> keeps K (fill_number_range ps set_low set_high)"
  unfolding fill_number_range_def by (intro spec_rules; simp)

lemma frame_filecon_context [frame_rules]: "frame K \<Longrightarrow> keeps K (filecon_context_of E ps a)"
  unfolding filecon_context_of_def by (intro spec_rules frame_rules; simp)

lemma words_end [simp]:
  "truth_value str \<noteq> Out_of_fuel" "check_branch ps \<noteq> Out_of_fuel" "filecon_type str \<noteq> Out_of_fuel"
  "protocol str \<noteq> Out_of_fuel" "fsuse_type E str \<noteq> Out_of_fuel" "param_flavor str \<noteq> Out_of_fuel"
  "default_classes ps \<noteq> Out_of_fuel" "default_object_of E str \<noteq> Out_of_fuel"
  "default_range_of E str str' \<noteq> Out_of_fuel" "unknown_handling E str \<noteq> Out_of_fuel"
  "cil_flavor_to_symtab_index f \<noteq> Out_of_fuel"
  by (auto simp: truth_value_def check_branch_def filecon_type_def protocol_def fsuse_type_def param_flavor_def
      default_classes_def default_object_of_def default_range_of_def unknown_handling_def
      cil_flavor_to_symtab_index_def split: outcome.splits)

lemma macro_parameters_ends [simp]: "macro_parameters params ps \<noteq> Out_of_fuel"
  by (induction params ps rule: macro_parameters.induct) (auto split: if_splits)

lemma ends_clear_node [spec_rules]: "ends (cil_clear_node n)"
  unfolding cil_clear_node_def by (rule ends_wr)

lemma spec_branch: "spec P m' Q \<Longrightarrow> (b \<Longrightarrow> spec P m Q) \<Longrightarrow> spec P (if b then m else m') Q"
  by simp

subsection \<open>Statements\<close>

text \<open>The contract of the operations on the node \<open>n\<close> of a statement: what holds before it has its data, \<open>I\<close>, and
  after, \<open>J\<close>. Neither looks at anything but the nodes. \<open>A\<close> are the flavors that \<open>n\<close> may get.\<close>

locale statement_build =
  fixes I J :: "('h, 'b, 'z) build_state_scheme \<Rightarrow> bool" and n :: addr and A :: "cil_flavor set"
    and L :: "('h, 'b) sepol"
  assumes I: "frame I" and J: "frame J"
    and set_node: "f \<in> A \<Longrightarrow> spec I (set_node n f a) (\<lambda>_. J)"
    and gen_node: "f \<in> A \<Longrightarrow> spec I (cil_gen_node L n a key i f) (\<lambda>_. J)"
    and perm_nodes: "f = CIL_PERM \<or> f = CIL_MAP_PERM \<Longrightarrow> keeps J (cil_gen_perm_nodes L ps n f cls)"
    and condblock: "spec I (cil_gen_condblock L ps n f) (\<lambda>_. J)"
begin

lemma gen_statement_spec:
  assumes "check \<noteq> Out_of_fuel" and "keeps I init" and "\<And>a. keeps I (fill a)" and "\<And>p. ends (destroy p)"
    and "f \<in> A"
  shows "spec I (gen_statement check init fill destroy f n) (\<lambda>_. J)"
  unfolding gen_statement_def by (intro spec_rules set_node assms)

lemma gen_declaration_spec:
  assumes "check \<noteq> Out_of_fuel" and "keeps I init" and "\<And>a. spec I (fill a) (\<lambda>_. J)" and "\<And>p. ends (destroy p)"
  shows "spec I (gen_declaration check init fill destroy n) (\<lambda>_. J)"
  unfolding gen_declaration_def by (intro spec_rules assms)

lemma gen_node_bind:
  "f \<in> A \<Longrightarrow> (\<And>x. keeps J (g x)) \<Longrightarrow> spec I (bind (cil_gen_node L n a key i f) g) (\<lambda>_. J)"
  by (rule spec_bind [OF gen_node])

lemma gen_block_spec: "CIL_BLOCK \<in> A \<Longrightarrow> spec I (cil_gen_block L ps n is_abstract) (\<lambda>_. J)"
  unfolding cil_gen_block_def
  by (rule gen_declaration_spec; (simp; fail)?; (rule gen_node_bind gen_node perm_nodes spec_rules frame_rules I J | assumption | simp)+)

lemma gen_blockinherit_spec: "CIL_BLOCKINHERIT \<in> A \<Longrightarrow> spec I (cil_gen_blockinherit ps n) (\<lambda>_. J)"
  unfolding cil_gen_blockinherit_def
  by (rule gen_statement_spec; (simp; fail)?; (rule gen_node_bind gen_node perm_nodes spec_rules frame_rules I J | assumption | simp)+)

lemma gen_blockabstract_spec: "CIL_BLOCKABSTRACT \<in> A \<Longrightarrow> spec I (cil_gen_blockabstract ps n) (\<lambda>_. J)"
  unfolding cil_gen_blockabstract_def
  by (rule gen_statement_spec; (simp; fail)?; (rule gen_node_bind gen_node perm_nodes spec_rules frame_rules I J | assumption | simp)+)

lemma gen_in_spec: "CIL_IN \<in> A \<Longrightarrow> spec I (cil_gen_in L ps n) (\<lambda>_. J)"
  unfolding cil_gen_in_def
  by (rule gen_statement_spec; (simp; fail)?; (rule gen_node_bind gen_node perm_nodes spec_rules frame_rules I J | assumption | simp)+)

lemma gen_class_spec: "CIL_CLASS \<in> A \<Longrightarrow> spec I (cil_gen_class L ps n) (\<lambda>_. J)"
  unfolding cil_gen_class_def
  by (rule gen_declaration_spec; (simp; fail)?; (rule gen_node_bind gen_node perm_nodes spec_rules frame_rules I J | assumption | simp)+)

lemma gen_classorder_spec: "CIL_CLASSORDER \<in> A \<Longrightarrow> spec I (cil_gen_classorder ps n) (\<lambda>_. J)"
  unfolding cil_gen_classorder_def
  by (rule gen_statement_spec; (simp; fail)?; (rule gen_node_bind gen_node perm_nodes spec_rules frame_rules I J | assumption | simp)+)

lemma gen_classpermission_spec: "CIL_CLASSPERMISSION \<in> A \<Longrightarrow> spec I (cil_gen_classpermission L ps n) (\<lambda>_. J)"
  unfolding cil_gen_classpermission_def
  by (rule gen_declaration_spec; (simp; fail)?; (rule gen_node_bind gen_node perm_nodes spec_rules frame_rules I J | assumption | simp)+)

lemma gen_classpermissionset_spec: "CIL_CLASSPERMISSIONSET \<in> A \<Longrightarrow> spec I (cil_gen_classpermissionset E ps n) (\<lambda>_. J)"
  unfolding cil_gen_classpermissionset_def
  by (rule gen_statement_spec; (simp; fail)?; (rule gen_node_bind gen_node perm_nodes spec_rules frame_rules I J | assumption | simp)+)

lemma gen_map_class_spec: "CIL_MAP_CLASS \<in> A \<Longrightarrow> spec I (cil_gen_map_class L ps n) (\<lambda>_. J)"
  unfolding cil_gen_map_class_def
  by (rule gen_declaration_spec; (simp; fail)?; (rule gen_node_bind gen_node perm_nodes spec_rules frame_rules I J | assumption | simp)+)

lemma gen_classmapping_spec: "CIL_CLASSMAPPING \<in> A \<Longrightarrow> spec I (cil_gen_classmapping E ps n) (\<lambda>_. J)"
  unfolding cil_gen_classmapping_def
  by (rule gen_statement_spec; (simp; fail)?; (rule gen_node_bind gen_node perm_nodes spec_rules frame_rules I J | assumption | simp)+)

lemma gen_common_spec: "CIL_COMMON \<in> A \<Longrightarrow> spec I (cil_gen_common L ps n) (\<lambda>_. J)"
  unfolding cil_gen_common_def
  by (rule gen_declaration_spec; (simp; fail)?; (rule gen_node_bind gen_node perm_nodes spec_rules frame_rules I J | assumption | simp)+)

lemma gen_classcommon_spec: "CIL_CLASSCOMMON \<in> A \<Longrightarrow> spec I (cil_gen_classcommon ps n) (\<lambda>_. J)"
  unfolding cil_gen_classcommon_def
  by (rule gen_statement_spec; (simp; fail)?; (rule gen_node_bind gen_node perm_nodes spec_rules frame_rules I J | assumption | simp)+)

lemma gen_sid_spec: "CIL_SID \<in> A \<Longrightarrow> spec I (cil_gen_sid L ps n) (\<lambda>_. J)"
  unfolding cil_gen_sid_def
  by (rule gen_declaration_spec; (simp; fail)?; (rule gen_node_bind gen_node perm_nodes spec_rules frame_rules I J | assumption | simp)+)

lemma gen_sidcontext_spec: "CIL_SIDCONTEXT \<in> A \<Longrightarrow> spec I (cil_gen_sidcontext L E ps n) (\<lambda>_. J)"
  unfolding cil_gen_sidcontext_def
  by (rule gen_statement_spec; (simp; fail)?; (rule gen_node_bind gen_node perm_nodes spec_rules frame_rules I J | assumption | simp)+)

lemma gen_sidorder_spec: "CIL_SIDORDER \<in> A \<Longrightarrow> spec I (cil_gen_sidorder ps n) (\<lambda>_. J)"
  unfolding cil_gen_sidorder_def
  by (rule gen_statement_spec; (simp; fail)?; (rule gen_node_bind gen_node perm_nodes spec_rules frame_rules I J | assumption | simp)+)

lemma gen_user_spec: "CIL_USER \<in> A \<Longrightarrow> spec I (cil_gen_user L ps n) (\<lambda>_. J)"
  unfolding cil_gen_user_def
  by (rule gen_declaration_spec; (simp; fail)?; (rule gen_node_bind gen_node perm_nodes spec_rules frame_rules I J | assumption | simp)+)

lemma gen_userlevel_spec: "CIL_USERLEVEL \<in> A \<Longrightarrow> spec I (cil_gen_userlevel L E ps n) (\<lambda>_. J)"
  unfolding cil_gen_userlevel_def
  by (rule gen_statement_spec; (simp; fail)?; (rule gen_node_bind gen_node perm_nodes spec_rules frame_rules I J | assumption | simp)+)

lemma gen_userrange_spec: "CIL_USERRANGE \<in> A \<Longrightarrow> spec I (cil_gen_userrange L E ps n) (\<lambda>_. J)"
  unfolding cil_gen_userrange_def
  by (rule gen_statement_spec; (simp; fail)?; (rule gen_node_bind gen_node perm_nodes spec_rules frame_rules I J | assumption | simp)+)

lemma gen_userprefix_spec: "CIL_USERPREFIX \<in> A \<Longrightarrow> spec I (cil_gen_userprefix ps n) (\<lambda>_. J)"
  unfolding cil_gen_userprefix_def
  by (rule gen_statement_spec; (simp; fail)?; (rule gen_node_bind gen_node perm_nodes spec_rules frame_rules I J | assumption | simp)+)

lemma gen_selinuxuser_spec: "CIL_SELINUXUSER \<in> A \<Longrightarrow> spec I (cil_gen_selinuxuser L E ps n) (\<lambda>_. J)"
  unfolding cil_gen_selinuxuser_def
  by (rule gen_statement_spec; (simp; fail)?; (rule gen_node_bind gen_node perm_nodes spec_rules frame_rules I J | assumption | simp)+)

lemma gen_selinuxuserdefault_spec: "CIL_SELINUXUSERDEFAULT \<in> A \<Longrightarrow> spec I (cil_gen_selinuxuserdefault L E ps n) (\<lambda>_. J)"
  unfolding cil_gen_selinuxuserdefault_def
  by (rule gen_statement_spec; (simp; fail)?; (rule gen_node_bind gen_node perm_nodes spec_rules frame_rules I J | assumption | simp)+)

lemma gen_role_spec: "CIL_ROLE \<in> A \<Longrightarrow> spec I (cil_gen_role L ps n) (\<lambda>_. J)"
  unfolding cil_gen_role_def
  by (rule gen_declaration_spec; (simp; fail)?; (rule gen_node_bind gen_node perm_nodes spec_rules frame_rules I J | assumption | simp)+)

lemma gen_roletype_spec: "CIL_ROLETYPE \<in> A \<Longrightarrow> spec I (cil_gen_roletype ps n) (\<lambda>_. J)"
  unfolding cil_gen_roletype_def
  by (rule gen_statement_spec; (simp; fail)?; (rule gen_node_bind gen_node perm_nodes spec_rules frame_rules I J | assumption | simp)+)

lemma gen_userrole_spec: "CIL_USERROLE \<in> A \<Longrightarrow> spec I (cil_gen_userrole ps n) (\<lambda>_. J)"
  unfolding cil_gen_userrole_def
  by (rule gen_statement_spec; (simp; fail)?; (rule gen_node_bind gen_node perm_nodes spec_rules frame_rules I J | assumption | simp)+)

lemma gen_roletransition_spec: "CIL_ROLETRANSITION \<in> A \<Longrightarrow> spec I (cil_gen_roletransition ps n) (\<lambda>_. J)"
  unfolding cil_gen_roletransition_def
  by (rule gen_statement_spec; (simp; fail)?; (rule gen_node_bind gen_node perm_nodes spec_rules frame_rules I J | assumption | simp)+)

lemma gen_roleallow_spec: "CIL_ROLEALLOW \<in> A \<Longrightarrow> spec I (cil_gen_roleallow ps n) (\<lambda>_. J)"
  unfolding cil_gen_roleallow_def
  by (rule gen_statement_spec; (simp; fail)?; (rule gen_node_bind gen_node perm_nodes spec_rules frame_rules I J | assumption | simp)+)

lemma gen_roleattribute_spec: "CIL_ROLEATTRIBUTE \<in> A \<Longrightarrow> spec I (cil_gen_roleattribute L ps n) (\<lambda>_. J)"
  unfolding cil_gen_roleattribute_def
  by (rule gen_declaration_spec; (simp; fail)?; (rule gen_node_bind gen_node perm_nodes spec_rules frame_rules I J | assumption | simp)+)

lemma gen_roleattributeset_spec: "CIL_ROLEATTRIBUTESET \<in> A \<Longrightarrow> spec I (cil_gen_roleattributeset E ps n) (\<lambda>_. J)"
  unfolding cil_gen_roleattributeset_def
  by (rule gen_statement_spec; (simp; fail)?; (rule gen_node_bind gen_node perm_nodes spec_rules frame_rules I J | assumption | simp)+)

lemma gen_avrule_spec: "CIL_AVRULE \<in> A \<Longrightarrow> spec I (cil_gen_avrule E ps n rule_kind) (\<lambda>_. J)"
  unfolding cil_gen_avrule_def
  by (rule gen_statement_spec; (simp; fail)?; (rule gen_node_bind gen_node perm_nodes spec_rules frame_rules I J | assumption | simp)+)

lemma gen_type_rule_spec: "CIL_TYPE_RULE \<in> A \<Longrightarrow> spec I (cil_gen_type_rule ps n rule_kind) (\<lambda>_. J)"
  unfolding cil_gen_type_rule_def
  by (rule gen_statement_spec; (simp; fail)?; (rule gen_node_bind gen_node perm_nodes spec_rules frame_rules I J | assumption | simp)+)

lemma gen_type_spec: "CIL_TYPE \<in> A \<Longrightarrow> spec I (cil_gen_type L ps n) (\<lambda>_. J)"
  unfolding cil_gen_type_def
  by (rule gen_declaration_spec; (simp; fail)?; (rule gen_node_bind gen_node perm_nodes spec_rules frame_rules I J | assumption | simp)+)

lemma gen_typeattribute_spec: "CIL_TYPEATTRIBUTE \<in> A \<Longrightarrow> spec I (cil_gen_typeattribute L ps n) (\<lambda>_. J)"
  unfolding cil_gen_typeattribute_def
  by (rule gen_declaration_spec; (simp; fail)?; (rule gen_node_bind gen_node perm_nodes spec_rules frame_rules I J | assumption | simp)+)

lemma gen_bool_spec: "CIL_BOOL \<in> A \<Longrightarrow> spec I (cil_gen_bool L ps n) (\<lambda>_. J)"
  unfolding cil_gen_bool_def
  by (rule gen_declaration_spec; (simp; fail)?; (rule gen_node_bind gen_node perm_nodes spec_rules frame_rules I J | assumption | simp)+)

lemma gen_tunable_spec: "CIL_TUNABLE \<in> A \<Longrightarrow> spec I (cil_gen_tunable L ps n) (\<lambda>_. J)"
  unfolding cil_gen_tunable_def
  by (rule gen_declaration_spec; (simp; fail)?; (rule gen_node_bind gen_node perm_nodes spec_rules frame_rules I J | assumption | simp)+)

lemma gen_typeattributeset_spec: "CIL_TYPEATTRIBUTESET \<in> A \<Longrightarrow> spec I (cil_gen_typeattributeset E ps n) (\<lambda>_. J)"
  unfolding cil_gen_typeattributeset_def
  by (rule gen_statement_spec; (simp; fail)?; (rule gen_node_bind gen_node perm_nodes spec_rules frame_rules I J | assumption | simp)+)

lemma gen_typepermissive_spec: "CIL_TYPEPERMISSIVE \<in> A \<Longrightarrow> spec I (cil_gen_typepermissive ps n) (\<lambda>_. J)"
  unfolding cil_gen_typepermissive_def
  by (rule gen_statement_spec; (simp; fail)?; (rule gen_node_bind gen_node perm_nodes spec_rules frame_rules I J | assumption | simp)+)

lemma gen_rangetransition_spec: "CIL_RANGETRANSITION \<in> A \<Longrightarrow> spec I (cil_gen_rangetransition L E ps n) (\<lambda>_. J)"
  unfolding cil_gen_rangetransition_def
  by (rule gen_statement_spec; (simp; fail)?; (rule gen_node_bind gen_node perm_nodes spec_rules frame_rules I J | assumption | simp)+)

lemma gen_sensitivity_spec: "CIL_SENS \<in> A \<Longrightarrow> spec I (cil_gen_sensitivity L ps n) (\<lambda>_. J)"
  unfolding cil_gen_sensitivity_def
  by (rule gen_declaration_spec; (simp; fail)?; (rule gen_node_bind gen_node perm_nodes spec_rules frame_rules I J | assumption | simp)+)

lemma gen_category_spec: "CIL_CAT \<in> A \<Longrightarrow> spec I (cil_gen_category L ps n) (\<lambda>_. J)"
  unfolding cil_gen_category_def
  by (rule gen_declaration_spec; (simp; fail)?; (rule gen_node_bind gen_node perm_nodes spec_rules frame_rules I J | assumption | simp)+)

lemma gen_catset_spec: "CIL_CATSET \<in> A \<Longrightarrow> spec I (cil_gen_catset L E ps n) (\<lambda>_. J)"
  unfolding cil_gen_catset_def
  by (rule gen_declaration_spec; (simp; fail)?; (rule gen_node_bind gen_node perm_nodes spec_rules frame_rules I J | assumption | simp)+)

lemma gen_catorder_spec: "CIL_CATORDER \<in> A \<Longrightarrow> spec I (cil_gen_catorder ps n) (\<lambda>_. J)"
  unfolding cil_gen_catorder_def
  by (rule gen_statement_spec; (simp; fail)?; (rule gen_node_bind gen_node perm_nodes spec_rules frame_rules I J | assumption | simp)+)

lemma gen_sensitivityorder_spec: "CIL_SENSITIVITYORDER \<in> A \<Longrightarrow> spec I (cil_gen_sensitivityorder ps n) (\<lambda>_. J)"
  unfolding cil_gen_sensitivityorder_def
  by (rule gen_statement_spec; (simp; fail)?; (rule gen_node_bind gen_node perm_nodes spec_rules frame_rules I J | assumption | simp)+)

lemma gen_senscat_spec: "CIL_SENSCAT \<in> A \<Longrightarrow> spec I (cil_gen_senscat L E ps n) (\<lambda>_. J)"
  unfolding cil_gen_senscat_def
  by (rule gen_statement_spec; (simp; fail)?; (rule gen_node_bind gen_node perm_nodes spec_rules frame_rules I J | assumption | simp)+)

lemma gen_level_spec: "CIL_LEVEL \<in> A \<Longrightarrow> spec I (cil_gen_level L E ps n) (\<lambda>_. J)"
  unfolding cil_gen_level_def
  by (rule gen_declaration_spec; (simp; fail)?; (rule gen_node_bind gen_node perm_nodes spec_rules frame_rules I J | assumption | simp)+)

lemma gen_levelrange_spec: "CIL_LEVELRANGE \<in> A \<Longrightarrow> spec I (cil_gen_levelrange L E ps n) (\<lambda>_. J)"
  unfolding cil_gen_levelrange_def
  by (rule gen_declaration_spec; (simp; fail)?; (rule gen_node_bind gen_node perm_nodes spec_rules frame_rules I J | assumption | simp)+)

lemma gen_constrain_spec: "flavor \<in> A \<Longrightarrow> spec I (cil_gen_constrain E ps n flavor) (\<lambda>_. J)"
  unfolding cil_gen_constrain_def
  by (rule gen_statement_spec; (simp; fail)?; (rule gen_node_bind gen_node perm_nodes spec_rules frame_rules I J | assumption | simp)+)

lemma gen_validatetrans_spec: "flavor \<in> A \<Longrightarrow> spec I (cil_gen_validatetrans E ps n flavor) (\<lambda>_. J)"
  unfolding cil_gen_validatetrans_def
  by (rule gen_statement_spec; (simp; fail)?; (rule gen_node_bind gen_node perm_nodes spec_rules frame_rules I J | assumption | simp)+)

lemma gen_context_spec: "CIL_CONTEXT \<in> A \<Longrightarrow> spec I (cil_gen_context L E ps n) (\<lambda>_. J)"
  unfolding cil_gen_context_def
  by (rule spec_or_err, rule gen_declaration_spec; (simp; fail)?; (rule gen_node_bind gen_node perm_nodes spec_rules frame_rules I J | assumption | simp)+)

lemma gen_filecon_spec: "CIL_FILECON \<in> A \<Longrightarrow> spec I (cil_gen_filecon L E ps n) (\<lambda>_. J)"
  unfolding cil_gen_filecon_def
  by (rule gen_statement_spec; (simp; fail)?; (rule gen_node_bind gen_node perm_nodes spec_rules frame_rules I J | assumption | simp)+)

lemma gen_portcon_spec: "CIL_PORTCON \<in> A \<Longrightarrow> spec I (cil_gen_portcon L E ps n) (\<lambda>_. J)"
  unfolding cil_gen_portcon_def
  by (rule gen_statement_spec; (simp; fail)?; (rule gen_node_bind gen_node perm_nodes spec_rules frame_rules I J | assumption | simp)+)

lemma gen_nodecon_spec: "CIL_NODECON \<in> A \<Longrightarrow> spec I (cil_gen_nodecon L E ps n) (\<lambda>_. J)"
  unfolding cil_gen_nodecon_def
  by (rule gen_statement_spec; (simp; fail)?; (rule gen_node_bind gen_node perm_nodes spec_rules frame_rules I J | assumption | simp)+)

lemma gen_genfscon_spec: "CIL_GENFSCON \<in> A \<Longrightarrow> spec I (cil_gen_genfscon L E ps n) (\<lambda>_. J)"
  unfolding cil_gen_genfscon_def
  by (rule spec_or_err, rule gen_statement_spec; (simp; fail)?; (rule gen_node_bind gen_node perm_nodes spec_rules frame_rules I J | assumption | simp)+)

lemma gen_netifcon_spec: "CIL_NETIFCON \<in> A \<Longrightarrow> spec I (cil_gen_netifcon L E ps n) (\<lambda>_. J)"
  unfolding cil_gen_netifcon_def
  by (rule spec_or_err, rule gen_statement_spec; (simp; fail)?; (rule gen_node_bind gen_node perm_nodes spec_rules frame_rules I J | assumption | simp)+)

lemma gen_pirqcon_spec: "CIL_PIRQCON \<in> A \<Longrightarrow> spec I (cil_gen_pirqcon L E ps n) (\<lambda>_. J)"
  unfolding cil_gen_pirqcon_def
  by (rule gen_statement_spec; (simp; fail)?; (rule gen_node_bind gen_node perm_nodes spec_rules frame_rules I J | assumption | simp)+)

lemma gen_iomemcon_spec: "CIL_IOMEMCON \<in> A \<Longrightarrow> spec I (cil_gen_iomemcon L E ps n) (\<lambda>_. J)"
  unfolding cil_gen_iomemcon_def
  by (rule gen_statement_spec; (simp; fail)?; (rule gen_node_bind gen_node perm_nodes spec_rules frame_rules I J | assumption | simp)+)

lemma gen_ioportcon_spec: "CIL_IOPORTCON \<in> A \<Longrightarrow> spec I (cil_gen_ioportcon L E ps n) (\<lambda>_. J)"
  unfolding cil_gen_ioportcon_def
  by (rule gen_statement_spec; (simp; fail)?; (rule gen_node_bind gen_node perm_nodes spec_rules frame_rules I J | assumption | simp)+)

lemma gen_pcidevicecon_spec: "CIL_PCIDEVICECON \<in> A \<Longrightarrow> spec I (cil_gen_pcidevicecon L E ps n) (\<lambda>_. J)"
  unfolding cil_gen_pcidevicecon_def
  by (rule gen_statement_spec; (simp; fail)?; (rule gen_node_bind gen_node perm_nodes spec_rules frame_rules I J | assumption | simp)+)

lemma gen_fsuse_spec: "CIL_FSUSE \<in> A \<Longrightarrow> spec I (cil_gen_fsuse L E ps n) (\<lambda>_. J)"
  unfolding cil_gen_fsuse_def
  by (rule spec_or_err, rule gen_statement_spec; (simp; fail)?; (rule gen_node_bind gen_node perm_nodes spec_rules frame_rules I J | assumption | simp)+)

lemma gen_optional_spec: "CIL_OPTIONAL \<in> A \<Longrightarrow> spec I (cil_gen_optional L ps n) (\<lambda>_. J)"
  unfolding cil_gen_optional_def
  by (rule gen_declaration_spec; (simp; fail)?; (rule gen_node_bind gen_node perm_nodes spec_rules frame_rules I J | assumption | simp)+)

lemma gen_policycap_spec: "CIL_POLICYCAP \<in> A \<Longrightarrow> spec I (cil_gen_policycap L ps n) (\<lambda>_. J)"
  unfolding cil_gen_policycap_def
  by (rule gen_declaration_spec; (simp; fail)?; (rule gen_node_bind gen_node perm_nodes spec_rules frame_rules I J | assumption | simp)+)

lemma gen_ipaddr_spec: "CIL_IPADDR \<in> A \<Longrightarrow> spec I (cil_gen_ipaddr L E ps n) (\<lambda>_. J)"
  unfolding cil_gen_ipaddr_def
  by (rule gen_declaration_spec; (simp; fail)?; (rule gen_node_bind gen_node perm_nodes spec_rules frame_rules I J | assumption | simp)+)

lemma gen_default_spec: "flavor \<in> A \<Longrightarrow> spec I (cil_gen_default E ps n flavor) (\<lambda>_. J)"
  unfolding cil_gen_default_def
  by (rule gen_statement_spec; (simp; fail)?; (rule gen_node_bind gen_node perm_nodes spec_rules frame_rules I J | assumption | simp)+)

lemma gen_defaultrange_spec: "CIL_DEFAULTRANGE \<in> A \<Longrightarrow> spec I (cil_gen_defaultrange E ps n) (\<lambda>_. J)"
  unfolding cil_gen_defaultrange_def
  by (rule gen_statement_spec; (simp; fail)?; (rule gen_node_bind gen_node perm_nodes spec_rules frame_rules I J | assumption | simp)+)

lemma gen_handleunknown_spec: "CIL_HANDLEUNKNOWN \<in> A \<Longrightarrow> spec I (cil_gen_handleunknown E ps n) (\<lambda>_. J)"
  unfolding cil_gen_handleunknown_def
  by (rule gen_statement_spec; (simp; fail)?; (rule gen_node_bind gen_node perm_nodes spec_rules frame_rules I J | assumption | simp)+)

lemma gen_mls_spec: "CIL_MLS \<in> A \<Longrightarrow> spec I (cil_gen_mls ps n) (\<lambda>_. J)"
  unfolding cil_gen_mls_def
  by (rule gen_statement_spec; (simp; fail)?; (rule gen_node_bind gen_node perm_nodes spec_rules frame_rules I J | assumption | simp)+)



lemma gen_call_spec: "CIL_CALL \<in> A \<Longrightarrow> spec I (cil_gen_call L ps n) (\<lambda>_. J)"
  unfolding cil_gen_call_def
  by (rule gen_statement_spec; (simp; fail)?; (rule spec_rules frame_rules I J | assumption | simp)+)

lemma gen_bounds_spec:
  "{CIL_USERBOUNDS, CIL_ROLEBOUNDS, CIL_TYPEBOUNDS} \<subseteq> A \<Longrightarrow> f = CIL_USER \<or> f = CIL_ROLE \<or> f = CIL_TYPE \<Longrightarrow>
   spec I (cil_gen_bounds ps n f) (\<lambda>_. J)"
  unfolding cil_gen_bounds_def
  by (rule spec_bind [OF keeps_rd], rule gen_statement_spec; (simp; fail)?;
      (rule spec_rules frame_rules I J | assumption | auto)+)

lemma gen_boolif_spec:
  assumes "CIL_BOOLEANIF \<in> A"
  shows "spec I (cil_gen_boolif E ps n b) (\<lambda>_. J)"
  unfolding cil_gen_boolif_def
  by (rule spec_bind [where R = "\<lambda>_. J"], rule gen_statement_spec; (rule spec_rules frame_rules I J assms | simp)+)

lemma gen_tunif_spec:
  assumes "CIL_TUNABLEIF \<in> A"
  shows "spec I (cil_gen_tunif E ps n) (\<lambda>_. J)"
  unfolding cil_gen_tunif_def
  by (rule spec_bind [where R = "\<lambda>_. J"], rule gen_statement_spec; (rule spec_rules frame_rules I J assms | simp)+)

lemma gen_macro_spec:
  assumes "CIL_MACRO \<in> A"
  shows "spec I (cil_gen_macro L ps n) (\<lambda>_. J)"
  unfolding cil_gen_macro_def
  by (rule spec_bind [where R = "\<lambda>_. J"], rule spec_or_err, rule gen_declaration_spec;
      (rule gen_node spec_rules frame_rules I J assms | simp)+)

lemma gen_alias_spec: "f \<in> A \<Longrightarrow> spec I (cil_gen_alias L ps n f) (\<lambda>_. J)"
  unfolding cil_gen_alias_def
  by (rule gen_declaration_spec; (rule gen_node spec_rules frame_rules I J | assumption | simp)+)

lemma gen_aliasactual_spec: "f \<in> A \<Longrightarrow> spec I (cil_gen_aliasactual ps n f) (\<lambda>_. J)"
  unfolding cil_gen_aliasactual_def
  by (rule set_node spec_rules frame_rules I J | assumption | simp)+

lemma gen_typetransition_spec:
  "CIL_NAMETYPETRANSITION \<in> A \<Longrightarrow> CIL_TYPE_RULE \<in> A \<Longrightarrow> spec I (cil_gen_typetransition ps n) (\<lambda>_. J)"
  unfolding cil_gen_typetransition_def
  by (rule set_node keeps_case_prod spec_rules frame_rules I J | assumption | simp)+

lemma enter_spec:
  "spec I m (\<lambda>_. J) \<Longrightarrow> spec I (enter ps m) (\<lambda>_. J)" "spec I m (\<lambda>_. J) \<Longrightarrow> spec I (skip ps m) (\<lambda>_. J)"
  "spec I m' (\<lambda>_. J) \<Longrightarrow> spec I (enter_changed m') (\<lambda>_. J)"
  by (auto simp: enter_def skip_def enter_changed_def intro: spec_bind spec_ret)

lemmas gen_specs = 
  gen_block_spec gen_blockinherit_spec gen_blockabstract_spec gen_in_spec gen_class_spec gen_classorder_spec 
  gen_classpermission_spec gen_classpermissionset_spec gen_map_class_spec gen_classmapping_spec 
  gen_common_spec gen_classcommon_spec gen_sid_spec gen_sidcontext_spec gen_sidorder_spec gen_user_spec 
  gen_userlevel_spec gen_userrange_spec gen_userprefix_spec gen_selinuxuser_spec gen_selinuxuserdefault_spec 
  gen_role_spec gen_roletype_spec gen_userrole_spec gen_roletransition_spec gen_roleallow_spec 
  gen_roleattribute_spec gen_roleattributeset_spec gen_avrule_spec gen_type_rule_spec gen_type_spec 
  gen_typeattribute_spec gen_bool_spec gen_tunable_spec gen_typeattributeset_spec gen_typepermissive_spec 
  gen_rangetransition_spec gen_sensitivity_spec gen_category_spec gen_catset_spec gen_catorder_spec 
  gen_sensitivityorder_spec gen_senscat_spec gen_level_spec gen_levelrange_spec gen_constrain_spec 
  gen_validatetrans_spec gen_context_spec gen_filecon_spec gen_portcon_spec gen_nodecon_spec gen_genfscon_spec 
  gen_netifcon_spec gen_pirqcon_spec gen_iomemcon_spec gen_ioportcon_spec gen_pcidevicecon_spec gen_fsuse_spec 
  gen_optional_spec gen_policycap_spec gen_ipaddr_spec gen_default_spec gen_defaultrange_spec 
  gen_handleunknown_spec gen_mls_spec gen_call_spec gen_bounds_spec gen_boolif_spec gen_tunif_spec 
  gen_macro_spec gen_alias_spec gen_aliasactual_spec gen_typetransition_spec

lemma build_statement_spec:
  assumes "- {CIL_ROOT, CIL_NONE, CIL_CONDBLOCK} \<subseteq> A"
  shows "spec I (build_statement L E key ps n) (\<lambda>_. J)"
proof -
  have A: "f \<in> A" if "f \<noteq> CIL_ROOT" "f \<noteq> CIL_NONE" "f \<noteq> CIL_CONDBLOCK" for f using that assms(1) by auto
  show ?thesis
    unfolding build_statement_def
    apply (rule spec_bind [OF spec_gets [where Q = "\<lambda>_. I"]], assumption)
    apply (rule spec_branch)+
    apply (rule spec_fail)
    apply (rule enter_spec; (rule spec_if)?; rule gen_specs condblock; simp add: A)+
    done
qed

end

end
