(* ===== verification/Cil_Build_Links.thy ===== *)
theory Cil_Build_Links
  imports Cil_Build_Inv
begin

text \<open>
  The AST stays linked while it is built, every list of the parse tree leaves the walk at the node it was entered
  from, and the construction ends.
\<close>

subsection \<open>Linked nodes\<close>

text \<open>Nodes are allocated, the parent of a node was allocated before it, and a branch stands in a conditional.\<close>

definition conditional :: "('h, 'b, 'z) build_state_scheme \<Rightarrow> addr option \<Rightarrow> bool" where
  "conditional s p \<longleftrightarrow> (\<exists>q qd. p = Some q \<and> nodes s q = Some qd \<and>
     (node_flavor qd = CIL_BOOLEANIF \<or> node_flavor qd = CIL_TUNABLEIF))"

definition linked :: "('h, 'b, 'z) build_state_scheme \<Rightarrow> bool" where
  "linked s \<longleftrightarrow> (\<forall>m nd. nodes s m = Some nd \<longrightarrow>
     m < brk s \<and> (\<forall>p. node_parent nd = Some p \<longrightarrow> p < m \<and> nodes s p \<noteq> None) \<and>
     (node_flavor nd = CIL_CONDBLOCK \<longrightarrow> conditional s (node_parent nd)))"

lemma linkedD:
  assumes "linked s" and "nodes s m = Some nd"
  shows "m < brk s" and "node_parent nd = Some p \<Longrightarrow> p < m" and "node_parent nd = Some p \<Longrightarrow> nodes s p \<noteq> None"
    and "node_flavor nd = CIL_CONDBLOCK \<Longrightarrow> conditional s (node_parent nd)"
  using assms by (auto simp: linked_def)

lemma enclosing_symtab_ends:
  assumes "linked s" and "0 < fuel" and "\<And>m nd. node = Some m \<Longrightarrow> nodes s m = Some nd \<Longrightarrow> Suc m < fuel"
  shows "enclosing_symtab fuel s node i \<noteq> Out_of_fuel"
  using assms(2,3)
proof (induction fuel arbitrary: node rule: less_induct)
  case (less fuel)
  then obtain k where k: "fuel = Suc k" by (cases fuel) auto
  have up: "enclosing_symtab k s (node_parent nd) i \<noteq> Out_of_fuel"
    if "nodes s m = Some nd" "Suc m < fuel" for m nd
  proof (rule less.IH)
    show "k < fuel" "0 < k" using k that(2) by auto
    show "Suc p < k" if "node_parent nd = Some p" "nodes s p = Some pd" for p pd
      using linkedD(2) [OF assms(1) \<open>nodes s m = Some nd\<close> that(1)] \<open>Suc m < fuel\<close> k by auto
  qed
  show ?case
  proof (cases node)
    case (Some m)
    show ?thesis
    proof (cases "nodes s m")
      case None
      with Some k show ?thesis by simp
    next
      case nd: (Some nd)
      have m: "Suc m < fuel" using less.prems(2) Some nd by blast
      show ?thesis
      proof (cases "node_flavor nd = CIL_CONDBLOCK")
        case True
        then obtain q qd where q: "node_parent nd = Some q" "nodes s q = Some qd"
          "node_flavor qd = CIL_BOOLEANIF \<or> node_flavor qd = CIL_TUNABLEIF"
          using linkedD(4) [OF assms(1) nd] by (auto simp: conditional_def)
        have "q < m" using linkedD(2) [OF assms(1) nd q(1)] .
        then have "enclosing_symtab k s (node_parent qd) i \<noteq> Out_of_fuel" using up [OF q(2)] m by simp
        with k Some nd True q show ?thesis by (auto simp: Let_def)
      next
        case False
        with k Some nd up [OF nd m] show ?thesis by (auto simp: Let_def)
      qed
    qed
  qed (use k in simp)
qed

lemma get_symtab_ends:
  assumes "linked s"
  shows "cil_get_symtab (Suc (brk s)) s p i \<noteq> Out_of_fuel"
proof -
  have "enclosing_symtab (Suc (brk s)) s p (sym_num i) \<noteq> Out_of_fuel"
    by (rule enclosing_symtab_ends [OF assms]) (auto dest: linkedD(1) [OF assms])
  then show ?thesis by (auto simp: cil_get_symtab_def)
qed

subsection \<open>Declaring an object\<close>

lemma spec_attempt: "spec P m Q \<Longrightarrow> spec P (attempt m) (\<lambda>r s. case r of Inl e \<Rightarrow> True | Inr x \<Rightarrow> Q x s)"
  by (auto simp: spec_def attempt_def split: prod.splits outcome.splits)

lemma report_block_ends: "report_block L tab key i s \<noteq> Out_of_fuel"
  by (auto simp: report_block_def cil_symtab_get_datum_def split: outcome.splits option.splits)

lemma shadows_parameter_ends: "shadows_parameter s p key f \<noteq> Out_of_fuel"
  by (auto simp: shadows_parameter_def)

lemma frame_symtab_insert [frame_rules]: "frame K \<Longrightarrow> keeps K (cil_symtab_insert L tab key d m)"
  unfolding cil_symtab_insert_def append_node_def cil_symtab_error_def Let_def
  by (intro spec_rules frame_rules; auto intro!: keeps_reading spec_rules frame_rules split: option.split sepol_rc.split)

lemma gen_node_spec:
  assumes "\<And>s. K s \<Longrightarrow> linked s" and "spec K (set_node m f a) (\<lambda>_. K')" and "frame K'"
  shows "spec K (cil_gen_node L m a key i f) (\<lambda>_. K')"
proof -
  have fails: "spec (\<lambda>_. True) (bind (reading (report_block L tab k i)) (\<lambda>_. fail e)) (\<lambda>_. K')" for tab k e
    by (rule spec_bind [where R = "\<lambda>_ _. True"]) (auto intro: spec_reading spec_fail simp: report_block_ends)
  have insert: "spec K' (bind (attempt (cil_symtab_insert L tab k a m)) (\<lambda>rc.
      case rc of
        Inl SEPOL_EEXIST \<Rightarrow> bind (reading (report_block L tab k i)) (\<lambda>_. fail SEPOL_EEXIST)
      | Inl e \<Rightarrow> fail e
      | Inr _ \<Rightarrow>
          bind (reading (\<lambda>s. shadows_parameter s p k f)) (\<lambda>shadows.
          if shadows then fail SEPOL_ERR else ret ()))) (\<lambda>_. K')" for tab k p
  proof (rule spec_bind [OF spec_attempt [OF frame_symtab_insert [OF assms(3)]]])
    fix rc :: "sepol_rc + unit"
    show "spec (\<lambda>s. case rc of Inl e \<Rightarrow> True | Inr x \<Rightarrow> K' s) (case rc of
        Inl SEPOL_EEXIST \<Rightarrow> bind (reading (report_block L tab k i)) (\<lambda>_. fail SEPOL_EEXIST)
      | Inl e \<Rightarrow> fail e
      | Inr _ \<Rightarrow>
          bind (reading (\<lambda>s. shadows_parameter s p k f)) (\<lambda>shadows.
          if shadows then fail SEPOL_ERR else ret ())) (\<lambda>_. K')"
    proof (cases rc)
      case (Inl e)
      then show ?thesis using fails by (cases e) (auto intro: spec_fail)
    next
      case (Inr u)
      have "spec K' (bind (reading (\<lambda>s. shadows_parameter s p k f)) (\<lambda>shadows.
          if shadows then fail SEPOL_ERR else ret ())) (\<lambda>_. K')"
        by (intro spec_rules keeps_reading shadows_parameter_ends)
      with Inr show ?thesis by simp
    qed
  qed
  show ?thesis
    unfolding cil_gen_node_def
    apply (rule keeps_bind, rule keeps_lift, simp)
    apply (rule keeps_bind, rule keeps_lift, simp)
    apply (rule keeps_bind, rule keeps_rd)
    apply (rule keeps_bind, rule keeps_reading, rule get_symtab_ends, erule assms(1))
    apply (rule spec_bind [OF assms(2)])
    apply (rule insert)
    done
qed

subsection \<open>What a statement leaves alone\<close>

text \<open>\<open>base s n\<close>: the node \<open>n\<close> is new, without children. \<open>built s0 n P s\<close>: since \<open>s0\<close>, only \<open>n\<close> and new nodes below
  it have changed; \<open>P\<close> holds of \<open>n\<close>.\<close>

definition base :: "('h, 'b, 'z) build_state_scheme \<Rightarrow> addr \<Rightarrow> bool" where
  "base s n \<longleftrightarrow> linked s \<and> (\<exists>nd. nodes s n = Some nd \<and> node_cl_tail nd = None) \<and>
     (\<forall>m nd. nodes s m = Some nd \<longrightarrow> node_parent nd \<noteq> Some n)"

definition built ::
  "('h, 'b, 'z) build_state_scheme \<Rightarrow> addr \<Rightarrow> (cil_tree_node \<Rightarrow> bool) \<Rightarrow> ('h, 'b, 'z) build_state_scheme \<Rightarrow> bool"
where
  "built s0 n P s \<longleftrightarrow>
     base s0 n \<and> brk s0 \<le> brk s \<and> (\<forall>m < brk s0. m \<noteq> n \<longrightarrow> nodes s m = nodes s0 m) \<and>
     (\<exists>nd nd0. nodes s0 n = Some nd0 \<and> nodes s n = Some nd \<and> node_parent nd = node_parent nd0 \<and>
        (\<forall>c. node_cl_tail nd = Some c \<longrightarrow> brk s0 \<le> c) \<and>
        (node_flavor nd = CIL_CONDBLOCK \<longrightarrow> conditional s0 (node_parent nd0)) \<and> P nd) \<and>
     (\<forall>m nd. brk s0 \<le> m \<longrightarrow> nodes s m = Some nd \<longrightarrow>
        m < brk s \<and> node_parent nd = Some n \<and> node_flavor nd \<noteq> CIL_CONDBLOCK)"

lemma built_frame [intro]: "frame (built s0 n P)"
  by (auto simp: frame_def built_def)

lemma built_linked:
  assumes "built s0 n P s"
  shows "linked s"
proof -
  from assms have s0: "linked s0" "\<And>m nd. nodes s0 m = Some nd \<Longrightarrow> node_parent nd \<noteq> Some n"
    and brk: "brk s0 \<le> brk s" and old: "\<And>m. m < brk s0 \<Longrightarrow> m \<noteq> n \<Longrightarrow> nodes s m = nodes s0 m"
    and new: "\<And>m nd. brk s0 \<le> m \<Longrightarrow> nodes s m = Some nd \<Longrightarrow>
        m < brk s \<and> node_parent nd = Some n \<and> node_flavor nd \<noteq> CIL_CONDBLOCK"
    unfolding built_def base_def by blast+
  from assms obtain nd nd0 where n: "nodes s0 n = Some nd0" "nodes s n = Some nd" "node_parent nd = node_parent nd0"
      "node_flavor nd = CIL_CONDBLOCK \<longrightarrow> conditional s0 (node_parent nd0)"
    unfolding built_def by blast
  have parent: "p < m \<and> nodes s p = nodes s0 p \<and> nodes s p \<noteq> None"
    if "nodes s0 m = Some md" "node_parent md = Some p" for m md p
  proof -
    from linkedD(2,3) [OF s0(1) that(1) that(2)] linkedD(1) [OF s0(1) that(1)] s0(2) [OF that(1)] that(2)
    show ?thesis by (auto simp: old)
  qed
  have cond: "conditional s p" if "nodes s0 m = Some md" "node_parent md = p" "conditional s0 p" for m md p
    using that parent [OF that(1)] by (auto simp: conditional_def)
  have n_lt: "n < brk s0" using linkedD(1) [OF s0(1) n(1)] .
  show ?thesis
    unfolding linked_def
  proof (intro allI impI)
    fix m md assume m: "nodes s m = Some md"
    show "m < brk s \<and> (\<forall>p. node_parent md = Some p \<longrightarrow> p < m \<and> nodes s p \<noteq> None) \<and>
      (node_flavor md = CIL_CONDBLOCK \<longrightarrow> conditional s (node_parent md))"
    proof (cases "m < brk s0")
      case False
      with new [of m md] m n n_lt show ?thesis by auto
    next
      case lt: True
      show ?thesis
      proof (cases "m = n")
        case True
        with m n have md: "md = nd" by simp
        have pn: "p < n \<and> nodes s p \<noteq> None" if "node_parent nd = Some p" for p
          using parent [OF n(1), of p] that n(3) by metis
        have cn: "conditional s (node_parent nd)" if "node_flavor nd = CIL_CONDBLOCK"
          using cond [OF n(1)] n(3,4) that by auto
        show ?thesis using True md pn cn lt brk by auto
      next
        case False
        then have m0: "nodes s0 m = Some md" using old [OF lt] m by simp
        have cm: "conditional s (node_parent md)" if "node_flavor md = CIL_CONDBLOCK"
          using cond [OF m0 refl] linkedD(4) [OF s0(1) m0] that by auto
        have pm: "p < m \<and> nodes s p \<noteq> None" if "node_parent md = Some p" for p using parent [OF m0 that] by metis
        show ?thesis using pm cm lt brk by simp
      qed
    qed
  qed
qed

lemma builtE:
  assumes "built s0 n P s"
  obtains nd nd0 where "base s0 n" "n < brk s0" "brk s0 \<le> brk s" "nodes s0 n = Some nd0" "nodes s n = Some nd"
    "node_parent nd = node_parent nd0" "\<And>c. node_cl_tail nd = Some c \<Longrightarrow> brk s0 \<le> c"
    "node_flavor nd = CIL_CONDBLOCK \<Longrightarrow> conditional s0 (node_parent nd0)" "P nd"
    "\<And>m. m < brk s0 \<Longrightarrow> m \<noteq> n \<Longrightarrow> nodes s m = nodes s0 m"
    "\<And>m md. brk s0 \<le> m \<Longrightarrow> nodes s m = Some md \<Longrightarrow>
       m < brk s \<and> node_parent md = Some n \<and> node_flavor md \<noteq> CIL_CONDBLOCK"
proof -
  from assms have "base s0 n" by (simp add: built_def)
  then have "n < brk s0" by (auto simp: base_def dest: linkedD(1))
  with assms that show thesis unfolding built_def by blast
qed

lemma builtI:
  assumes "base s0 n" "brk s0 \<le> brk s" "nodes s0 n = Some nd0" "nodes s n = Some nd"
    "node_parent nd = node_parent nd0" "\<And>c. node_cl_tail nd = Some c \<Longrightarrow> brk s0 \<le> c"
    "node_flavor nd = CIL_CONDBLOCK \<Longrightarrow> conditional s0 (node_parent nd0)" "P nd"
    "\<And>m. m < brk s0 \<Longrightarrow> m \<noteq> n \<Longrightarrow> nodes s m = nodes s0 m"
    "\<And>m md. brk s0 \<le> m \<Longrightarrow> nodes s m = Some md \<Longrightarrow>
       m < brk s \<and> node_parent md = Some n \<and> node_flavor md \<noteq> CIL_CONDBLOCK"
  shows "built s0 n P s"
  using assms unfolding built_def by blast

lemma built_refl:
  assumes "base s n" and "\<And>nd. nodes s n = Some nd \<Longrightarrow> P nd"
  shows "built s n P s"
proof -
  from assms(1) obtain nd where l: "linked s" and nd: "nodes s n = Some nd" "node_cl_tail nd = None"
    by (auto simp: base_def)
  have "m < brk s" if "nodes s m = Some md" for m md using linkedD(1) [OF l that] .
  with nd assms linkedD(4) [OF l nd(1)] show ?thesis
    by (intro builtI [where nd = nd and nd0 = nd]) (auto simp: linorder_not_le [symmetric])
qed

text \<open>\<open>n\<close> changes, or a new node below it.\<close>

lemma built_update_n:
  assumes "built s0 n P s" and "nodes s n = Some nd" and "nodes t = (nodes s)(n \<mapsto> nd')" and "brk t = brk s"
    and "node_parent nd' = node_parent nd" and "\<And>c. node_cl_tail nd' = Some c \<Longrightarrow> node_cl_tail nd = Some c \<or> brk s0 \<le> c"
    and "node_flavor nd' = CIL_CONDBLOCK \<Longrightarrow> node_flavor nd = CIL_CONDBLOCK \<or> conditional s0 (node_parent nd)"
    and "P nd \<Longrightarrow> P' nd'"
  shows "built s0 n P' t"
  using assms(1)
proof (cases rule: builtE)
  case (1 nd1 nd0)
  then have "nd1 = nd" using assms(2) by simp
  with 1 show ?thesis
    by (intro builtI [where nd = nd' and nd0 = nd0]) (use assms in \<open>auto split: if_splits\<close>)
qed

lemma built_update_below:
  assumes "built s0 n P s" and "brk s0 \<le> c" and "nodes t = (nodes s)(c \<mapsto> cd)" and "brk s \<le> brk t" and "c < brk t"
    and "node_parent cd = Some n" and "node_flavor cd \<noteq> CIL_CONDBLOCK"
  shows "built s0 n P t"
  using assms(1)
proof (cases rule: builtE)
  case (1 nd nd0)
  then show ?thesis
    by (intro builtI [where nd = nd and nd0 = nd0]) (use assms in \<open>force split: if_splits\<close>)+
qed

lemma set_node_spec:
  assumes "f \<noteq> CIL_CONDBLOCK" and "\<And>nd. P nd \<Longrightarrow> P' (nd\<lparr>node_data := Some a, node_flavor := f\<rparr>)"
  shows "spec (built s0 n P) (set_node n f a) (\<lambda>_. built s0 n P')"
  unfolding set_node_def
proof (rule spec_wr)
  fix s nd assume s: "built s0 n P s" "nodes s n = Some nd"
  show "built s0 n P' (nodes_update (\<lambda>m. m(n \<mapsto> nd\<lparr>node_data := Some a, node_flavor := f\<rparr>)) s)"
    by (rule built_update_n [OF s, where nd' = "nd\<lparr>node_data := Some a, node_flavor := f\<rparr>"])
      (simp_all add: assms)
qed

definition below ::
  "('h, 'b, 'z) build_state_scheme \<Rightarrow> addr \<Rightarrow> (cil_tree_node \<Rightarrow> bool) \<Rightarrow> addr \<Rightarrow> ('h, 'b, 'z) build_state_scheme \<Rightarrow> bool"
where
  "below s0 n P c s \<longleftrightarrow> built s0 n P s \<and> brk s0 \<le> c \<and> nodes s c \<noteq> None"

lemma below_frame: "frame (below s0 n P c)"
  using built_frame [of s0 n P] unfolding frame_def below_def by simp

lemma new_child_apply:
  "new_child p t s = (Ok (brk s), s\<lparr>brk := Suc (brk s), nodes := (nodes s)(brk s \<mapsto>
     \<lparr>node_parent = Some p, node_cl_head = None, node_cl_tail = None, node_next = None, node_flavor = CIL_ROOT,
      node_line = p_line t, node_path = Some (p_path t), node_data = None\<rparr>)\<rparr>)"
  by (simp add: new_child_def cil_tree_node_init_def new_struct_def fresh_def bind_def wr_def)

lemma new_child_spec: "spec (built s0 n P) (new_child n t) (\<lambda>c. below s0 n P c)"
proof (rule specI)
  fix s c u assume s: "built s0 n P s" and eq: "new_child n t s = (Ok c, u)"
  from s have "brk s0 \<le> brk s" by (simp add: built_def)
  then show "below s0 n P c u"
    unfolding below_def
    by (intro conjI built_update_below [OF s, of "brk s"]) (use eq in \<open>auto simp: new_child_apply\<close>)
qed (simp add: new_child_apply)

lemma wr_below:
  assumes "\<And>nd. node_parent (f nd) = node_parent nd"
    and "\<And>nd. node_flavor (f nd) = CIL_CONDBLOCK \<Longrightarrow> node_flavor nd = CIL_CONDBLOCK"
  shows "spec (below s0 n P c) (wr nodes nodes_update c f) (\<lambda>_. below s0 n P c)"
proof (rule spec_wr)
  fix s nd assume s: "below s0 n P c s" and nd: "nodes s c = Some nd"
  have b: "built s0 n P s" "brk s0 \<le> c" using s by (simp_all add: below_def)
  from b(1) have c: "c < brk s \<and> node_parent nd = Some n \<and> node_flavor nd \<noteq> CIL_CONDBLOCK"
    by (rule builtE) (use b(2) nd in blast)
  show "below s0 n P c (nodes_update (\<lambda>m. m(c \<mapsto> f nd)) s)"
    unfolding below_def
    by (intro conjI built_update_below [OF b, of _ "f nd"]) (use b c assms(2) [of nd] in \<open>auto simp: assms(1)\<close>)
qed

lemma wr_n_below:
  assumes "\<And>nd. P nd \<Longrightarrow> P (f nd)" and "\<And>nd. node_parent (f nd) = node_parent nd"
    and "\<And>nd c'. node_cl_tail (f nd) = Some c' \<Longrightarrow> node_cl_tail nd = Some c' \<or> c' = c"
    and "\<And>nd. node_flavor (f nd) = node_flavor nd"
  shows "spec (below s0 n P c) (wr nodes nodes_update n f) (\<lambda>_. below s0 n P c)"
proof (rule spec_wr)
  fix s nd assume s: "below s0 n P c s" and nd: "nodes s n = Some nd"
  have b: "built s0 n P s" "brk s0 \<le> c" "nodes s c \<noteq> None" using s by (simp_all add: below_def)
  have "built s0 n P (nodes_update (\<lambda>m. m(n \<mapsto> f nd)) s)"
    by (rule built_update_n [OF b(1) nd, where nd' = "f nd"])
      (use assms(2,4) assms(1) [of nd] assms(3) [of nd] b(2) in \<open>auto\<close>)
  with b show "below s0 n P c (nodes_update (\<lambda>m. m(n \<mapsto> f nd)) s)" by (simp add: below_def)
qed

lemma append_below:
  assumes "\<And>nd h. P nd \<Longrightarrow> P (nd\<lparr>node_cl_head := h\<rparr>)" and "\<And>nd h. P nd \<Longrightarrow> P (nd\<lparr>node_cl_tail := h\<rparr>)"
  shows "spec (below s0 n P c) (append_child n c) (\<lambda>_. below s0 n P c)"
  unfolding append_child_def
proof (rule spec_bind [OF spec_rd [where Q = "\<lambda>nd s. below s0 n P c s \<and> nodes s n = Some nd"]], simp, rule spec_bind)
  fix nd
  show "spec (\<lambda>s. below s0 n P c s \<and> nodes s n = Some nd) (case node_cl_head nd of
         None \<Rightarrow> wr nodes nodes_update n (node_cl_head_update (\<lambda>_. Some c))
       | Some _ \<Rightarrow>
           bind (lift (not_null (node_cl_tail nd))) (\<lambda>tail.
           wr nodes nodes_update tail (node_next_update (\<lambda>_. Some c)))) (\<lambda>_. below s0 n P c)"
  proof (cases "node_cl_head nd")
    case None
    have "spec (below s0 n P c) (wr nodes nodes_update n (node_cl_head_update (\<lambda>_. Some c))) (\<lambda>_. below s0 n P c)"
      by (rule wr_n_below) (use assms(1) in auto)
    with None show ?thesis by (auto intro: spec_pre)
  next
    case (Some h)
    have link: "spec (\<lambda>s. below s0 n P c s \<and> nodes s n = Some nd)
        (wr nodes nodes_update tail (node_next_update (\<lambda>_. Some c))) (\<lambda>_. below s0 n P c)"
      if "node_cl_tail nd = Some tail" for tail
    proof (rule spec_wr)
      fix s td assume s: "below s0 n P c s \<and> nodes s n = Some nd" and td: "nodes s tail = Some td"
      then have b: "built s0 n P s" "brk s0 \<le> c" "nodes s c \<noteq> None" by (simp_all add: below_def)
      from b(1) have tail: "brk s0 \<le> tail" by (rule builtE) (use s that in auto)
      have "below s0 n P tail s" using b tail td by (simp add: below_def)
      from specD(2) [OF wr_below [where f = "node_next_update (\<lambda>_. Some c)"] this, of "()"] td
      have "built s0 n P (nodes_update (\<lambda>m. m(tail \<mapsto> td\<lparr>node_next := Some c\<rparr>)) s)"
        by (simp add: below_def)
      with b show "below s0 n P c (nodes_update (\<lambda>m. m(tail \<mapsto> td\<lparr>node_next := Some c\<rparr>)) s)"
        by (simp add: below_def)
    qed
    show ?thesis
      using Some link by (cases "node_cl_tail nd") (auto simp: spec_def bind_def)
  qed
next
  show "spec (below s0 n P c) (wr nodes nodes_update n (node_cl_tail_update (\<lambda>_. Some c))) (\<lambda>_. below s0 n P c)"
    by (rule wr_n_below) (use assms(2) in auto)
qed

text \<open>\<open>J\<close>: the node has got a flavor.\<close>

abbreviation filled :: "cil_tree_node \<Rightarrow> bool" where
  "filled nd \<equiv> node_flavor nd \<noteq> CIL_ROOT \<and> node_flavor nd \<noteq> CIL_NONE"

lemma below_set_node:
  "f \<noteq> CIL_CONDBLOCK \<Longrightarrow> spec (below s0 n P c) (set_node c f a) (\<lambda>_. below s0 n P c)"
  unfolding set_node_def by (rule wr_below) auto

lemma gen_perm_spec:
  assumes "f \<noteq> CIL_CONDBLOCK"
  shows "spec (below s0 n P c) (cil_gen_perm L ps c f cls) (\<lambda>_. below s0 n P c)"
proof -
  have gen: "spec (below s0 n P c) (cil_gen_node L c a key i f) (\<lambda>_. below s0 n P c)" for a key i
    by (rule gen_node_spec [OF _ below_set_node [OF assms] below_frame]) (auto simp: below_def intro: built_linked)
  show ?thesis
    unfolding cil_gen_perm_def by (intro spec_rules frame_rules below_frame gen; simp)
qed

lemma perm_nodes_spec:
  assumes "f \<noteq> CIL_CONDBLOCK"
    and "\<And>nd h. P nd \<Longrightarrow> P (nd\<lparr>node_cl_head := h\<rparr>)" and "\<And>nd h. P nd \<Longrightarrow> P (nd\<lparr>node_cl_tail := h\<rparr>)"
  shows "keeps (built s0 n P) (cil_gen_perm_nodes L ps n f cls)"
proof (induction ps)
  case (Cons c cs)
  have "spec (below s0 n P m) (bind (cil_gen_perm L (c # cs) m f cls) (\<lambda>_.
      bind (append_child n m) (\<lambda>_. cil_gen_perm_nodes L cs n f cls))) (\<lambda>_. built s0 n P)" for m
    by (rule spec_bind [OF gen_perm_spec [OF assms(1)]], rule spec_bind [OF append_below [OF assms(2,3)]],
        assumption, assumption, rule spec_pre [OF Cons.IH]) (simp add: below_def)
  then show ?case by (auto intro!: spec_if spec_fail spec_bind [OF new_child_spec])
next
  case Nil
  show ?case unfolding cil_gen_perm_nodes.simps by (rule spec_ret)
qed

text \<open>A branch is only made under a conditional.\<close>

lemma condblock_spec: "spec (built s0 n (\<lambda>_. True)) (cil_gen_condblock L ps n f) (\<lambda>_. built s0 n filled)"
proof -
  define K where "K nd p s \<longleftrightarrow> built s0 n (\<lambda>_. True) s \<and> nodes s n = Some nd \<and>
    deref (nodes s) (node_parent nd) = Ok p" for nd p and s :: "('a, 'b, 'c) build_state_scheme"
  have rest: "spec (K nd p) (bind (cil_condblock_init L) (\<lambda>cb.
      bind (wr m_condblock m_condblock_update cb (condblock_kind_update (\<lambda>_. f))) (\<lambda>_.
      set_node n CIL_CONDBLOCK cb))) (\<lambda>_. built s0 n filled)"
    if "node_flavor p = CIL_BOOLEANIF \<or> node_flavor p = CIL_TUNABLEIF" for nd p
  proof -
    have frame: "frame (K nd p)"
      using built_frame [of s0 n "\<lambda>_. True"] unfolding frame_def K_def by metis
    have set: "spec (K nd p) (set_node n CIL_CONDBLOCK cb) (\<lambda>_. built s0 n filled)" for cb
      unfolding set_node_def
    proof (rule spec_wr)
      fix s x assume s: "K nd p s" and x: "nodes s n = Some x"
      then have b: "built s0 n (\<lambda>_. True) s" and d: "deref (nodes s) (node_parent x) = Ok p" by (auto simp: K_def)
      from d obtain q where q: "node_parent x = Some q" "nodes s q = Some p" by auto
      have "q < n" using linkedD(2) [OF built_linked [OF b] x q(1)] .
      with b q that have "conditional s0 (node_parent x)"
        by (auto elim!: builtE simp: conditional_def)
      then show "built s0 n filled (nodes_update (\<lambda>m. m(n \<mapsto> x\<lparr>node_data := Some cb, node_flavor := CIL_CONDBLOCK\<rparr>)) s)"
        by (intro built_update_n [OF b x, where nd' = "x\<lparr>node_data := Some cb, node_flavor := CIL_CONDBLOCK\<rparr>"])
          simp_all
    qed
    show ?thesis by (intro spec_rules frame_rules frame set; simp)
  qed
  show ?thesis
    unfolding cil_gen_condblock_def
    apply (rule keeps_bind, rule keeps_lift, simp)
    apply (rule spec_bind [OF spec_rd [where Q = "\<lambda>nd s. built s0 n (\<lambda>_. True) s \<and> nodes s n = Some nd"]], simp)
    apply (rule spec_bind [OF spec_reading [where Q = "\<lambda>p s. K _ p s"]], simp, simp add: K_def)
    apply (rule spec_if, rule spec_fail, rule rest, auto)
    done
qed

interpretation linking: statement_build "built s0 n (\<lambda>_. True)" "built s0 n filled" n
  "- {CIL_ROOT, CIL_NONE, CIL_CONDBLOCK}" L for s0 n L
proof (unfold_locales, rule built_frame, rule built_frame)
  fix f a assume "f \<in> - {CIL_ROOT, CIL_NONE, CIL_CONDBLOCK}"
  then have f: "f \<noteq> CIL_ROOT" "f \<noteq> CIL_NONE" "f \<noteq> CIL_CONDBLOCK" by auto
  show set: "spec (built s0 n (\<lambda>_. True)) (set_node n f a) (\<lambda>_. built s0 n filled)" for a
    by (rule set_node_spec) (use f in auto)
  show "spec (built s0 n (\<lambda>_. True)) (cil_gen_node L n a key i f) (\<lambda>_. built s0 n filled)" for key i
    by (rule gen_node_spec [OF _ set built_frame]) (auto intro: built_linked)
next
  fix f ps cls assume "f = CIL_PERM \<or> f = CIL_MAP_PERM"
  then show "keeps (built s0 n filled) (cil_gen_perm_nodes L ps n f cls)"
    by (intro perm_nodes_spec) auto
qed (rule condblock_spec)

end
