(* ===== verification/Cil_Fill_Exact.thy ===== *)
theory Cil_Fill_Exact
  imports Cil_Fill
begin

text \<open>
  What the parts of statements are: the number that \<open>cil_fill_integer\<close> reads, and the list that \<open>cil_gen_expr\<close>
  makes of an expression, as functions of the parse tree.
\<close>

subsection \<open>Numbers\<close>

text \<open>The decimal digits of a number.\<close>

definition digit_char :: "nat \<Rightarrow> char" where
  "digit_char d = char_of (48 + d)"

fun digits :: "nat \<Rightarrow> string" where
  "digits n = (if n < 10 then [digit_char n] else digits (n div 10) @ [digit_char (n mod 10)])"

declare digits.simps [simp del]

definition print_int :: "int \<Rightarrow> string" where
  "print_int v = (if v < 0 then CHR ''-'' # digits (nat (- v)) else digits (nat v))"

lemma of_char_digit: "d < 10 \<Longrightarrow> (of_char (digit_char d) :: nat) = 48 + d"
  by (simp add: digit_char_def)

lemma of_char_digit_int: "d < 10 \<Longrightarrow> (of_char (digit_char d) :: int) = 48 + int d"
  using of_char_digit [of d] by (metis of_nat_of_char of_nat_add of_nat_numeral)

lemma digit_value_digit: "d < 10 \<Longrightarrow> digit_value (digit_char d) = int d"
  by (simp add: digit_value_def of_char_digit_int)

lemma is_digit_digit: "d < 10 \<Longrightarrow> is_digit (digit_char d)"
  by (simp add: is_digit_def of_char_digit)

lemma digits_are_digits: "c \<in> set (digits n) \<Longrightarrow> is_digit c"
proof (induction n rule: digits.induct)
  case (1 n)
  then show ?case by (subst (asm) (2) digits.simps) (auto simp: is_digit_digit split: if_splits)
qed

lemma digits_nonempty: "digits n \<noteq> []"
  by (subst digits.simps) simp

lemma decimal_append: "decimal (ds @ [c]) = 10 * decimal ds + digit_value c"
  by (simp add: decimal_def)

lemma decimal_digits: "decimal (digits n) = int n"
proof (induction n rule: digits.induct)
  case (1 n)
  show ?case
  proof (cases "n < 10")
    case True
    then show ?thesis by (subst digits.simps) (simp add: decimal_def digit_value_digit)
  next
    case False
    have "10 * int (n div 10) + int (n mod 10) = int n"
      by (metis mult_div_mod_eq of_nat_add of_nat_mult of_nat_numeral)
    with False 1 show ?thesis
      by (subst digits.simps) (simp add: decimal_append digit_value_digit del: of_nat_mod of_nat_div zdiv_int zmod_int)
  qed
qed

lemma digit_first: "is_digit c \<Longrightarrow> \<not> is_c_space c \<and> c \<noteq> CHR ''-'' \<and> c \<noteq> CHR ''+''"
  by (auto simp: is_digit_def is_c_space_def)

lemma span_digits: "takeWhile is_digit (digits n) = digits n" "dropWhile is_digit (digits n) = []"
  by (auto simp: digits_are_digits takeWhile_eq_all_conv)

lemma hd_digits: "digits n = c # cs \<Longrightarrow> is_digit c"
  using digits_are_digits [of c n] by simp

lemma strtol10_digits: "strtol10 (digits n) = Some (int n, [])"
proof (cases "digits n")
  case (Cons c cs)
  then have c: "\<not> is_c_space c" "c \<noteq> CHR ''-''" "c \<noteq> CHR ''+''" using digit_first [OF hd_digits] by auto
  have "dropWhile is_c_space (digits n) = digits n" using Cons c by simp
  then show ?thesis
    using c Cons span_digits [of n] decimal_digits [of n] digits_nonempty [of n]
    by (simp add: strtol10_def Let_def)
qed (simp add: digits_nonempty)

lemma strtol10_print: "strtol10 (print_int v) = Some (v, [])"
proof (cases "v < 0")
  case True
  have "\<not> is_c_space (CHR ''-'')" by (simp add: is_c_space_def)
  with True show ?thesis
    by (simp add: print_int_def strtol10_def Let_def span_digits decimal_digits digits_nonempty)
qed (simp add: print_int_def strtol10_digits)

text \<open>C28. Reading a number: the decimal representation of an integer is read as that integer modulo \<open>2 ^ 32\<close> when
  it fits into a \<open>long\<close> of 64 bits, and is an error otherwise. So numbers below \<open>2 ^ 32\<close> are read exactly, and the
  code accepts negative numbers and numbers of more than 32 bits, of which it keeps the low 32 bits.\<close>

theorem fill_integer_print:
  "cil_fill_integer (PNode (Some (print_int v)) kids l p # ps) =
     (if - (2 ^ 63) \<le> v \<and> v < 2 ^ 63 then Ok (word_of_int v) else Fail SEPOL_ERR)"
  by (simp add: cil_fill_integer_def strtol10_print)

subsection \<open>Expressions\<close>

text \<open>An expression as a list, without the checks and the counter: an operator in front stands for itself, the
  operands are names or lists.\<close>

abbreviation operator_of :: "parse_tree list \<Rightarrow> cil_flavor" where
  "operator_of ps \<equiv> cil_get_expr_operator_flavor (p_data (hd ps))"

definition operands :: "parse_tree list \<Rightarrow> parse_tree list" where
  "operands ps = (if operator_of ps \<noteq> CIL_NONE then tl ps else ps)"

lemma operands_in: "t \<in> set (operands ps) \<Longrightarrow> t \<in> set ps"
  by (cases ps) (auto simp: operands_def split: if_splits)

lemma operands_size [termination_simp]: "t \<in> set (operands ps) \<Longrightarrow> size t < Suc (size_list size ps)"
  by (drule operands_in) (simp add: size_list_estimation' less_Suc_eq_le)

fun operand_item :: "cil_flavor \<Rightarrow> parse_tree \<Rightarrow> cil_item" where
  "operand_item f (PNode d kids l p) =
     (if kids = [] then Item_String d
      else Item_List (Cil_List f ((if operator_of kids \<noteq> CIL_NONE then [Item_Op (operator_of kids)] else [])
        @ map (operand_item f) (operands kids))))"

definition expr_items :: "cil_flavor \<Rightarrow> parse_tree list \<Rightarrow> cil_item list" where
  "expr_items f ps = (if operator_of ps \<noteq> CIL_NONE then [Item_Op (operator_of ps)] else [])
     @ map (operand_item f) (operands ps)"

definition expr_list :: "cil_flavor \<Rightarrow> parse_tree \<Rightarrow> cil_list" where
  "expr_list f t = Cil_List f (if p_children t = [] then [Item_String (p_data t)] else expr_items f (p_children t))"

text \<open>The operands that the code accepts: no operators among them, and lists in the syntax of their operator.\<close>

fun operand_ok :: "cil_flavor \<Rightarrow> parse_tree \<Rightarrow> bool" where
  "operand_ok f (PNode d kids l p) \<longleftrightarrow>
     (if kids = [] then cil_get_expr_operator_flavor d = CIL_NONE
      else cil_verify_expr_syntax kids (operator_of kids) f = Ok () \<and> list_all (operand_ok f) (operands kids))"

text \<open>\<open>within n t\<close>: every list in \<open>t\<close> stands inside of at most \<open>n\<close> lists that do not begin with an operator.\<close>

fun within :: "int \<Rightarrow> parse_tree \<Rightarrow> bool" where
  "within n (PNode d kids l p) \<longleftrightarrow> kids = [] \<or>
     0 \<le> n \<and> list_all (within (if operator_of kids = CIL_NONE then n - 1 else n)) (operands kids)"

lemma within_mono: "within n t \<Longrightarrow> n \<le> m \<Longrightarrow> within m t"
proof (induction n t arbitrary: m rule: within.induct)
  case (1 n d kids l p)
  have "within (if operator_of kids = CIL_NONE then m - 1 else m) u" if "u \<in> set (operands kids)" "kids \<noteq> []" for u
    by (rule "1.IH" [OF that(1)]) (use "1.prems" that in \<open>auto simp: list_all_iff split: if_splits\<close>)
  then show ?case using "1.prems" by (auto simp: list_all_iff)
qed

lemma verify_syntax_result: "verify_syntax s n ps = Ok () \<or> verify_syntax s n ps = Fail SEPOL_ERR"
  by (induction s n ps rule: verify_syntax.induct) auto

lemma expr_syntax_result:
  "cil_verify_expr_syntax ps op f = Ok () \<or> cil_verify_expr_syntax ps op f = Fail SEPOL_ERR"
proof -
  have "(case cil_verify_syntax ps s of Ok _ \<Rightarrow> Ok () | Fail _ \<Rightarrow> Fail SEPOL_ERR | r \<Rightarrow> r) \<in> {Ok (), Fail SEPOL_ERR}" for s
    using verify_syntax_result [of s 0 ps] by (auto simp: cil_verify_syntax_def)
  moreover have "Fail SEPOL_ERR \<in> {Ok (), Fail SEPOL_ERR :: unit outcome}" by simp
  ultimately have "cil_verify_expr_syntax ps op f \<in> {Ok (), Fail SEPOL_ERR}"
    unfolding cil_verify_expr_syntax_def Let_def by presburger
  then show ?thesis by blast
qed

lemma all_not_in_bool: "cil_verify_expr_syntax ps CIL_ALL CIL_BOOL = Fail SEPOL_ERR"
  by (simp add: cil_verify_expr_syntax_def)

text \<open>\<open>shallow E f d ts\<close>: with a counter of \<open>d\<close>, the limit is not reached in \<open>ts\<close>.\<close>

definition shallow :: "sepol_env \<Rightarrow> cil_flavor \<Rightarrow> int \<Rightarrow> parse_tree list \<Rightarrow> bool" where
  "shallow E f d ts \<longleftrightarrow> (f = CIL_BOOL \<longrightarrow> list_all (within (cond_expr_maxdepth E - d)) ts)"

definition shallow_list :: "sepol_env \<Rightarrow> cil_flavor \<Rightarrow> int \<Rightarrow> parse_tree list \<Rightarrow> bool" where
  "shallow_list E f d ps \<longleftrightarrow> (f = CIL_BOOL \<longrightarrow> d \<le> cond_expr_maxdepth E) \<and>
     shallow E f (if operator_of ps = CIL_NONE then d + 1 else d) (operands ps)"

lemma shallow_le: "shallow E f d ts \<Longrightarrow> (f = CIL_BOOL \<longrightarrow> d' \<le> d) \<Longrightarrow> shallow E f d' ts"
  by (auto simp: shallow_def list_all_iff intro: within_mono)

lemma shallow_inside: "kids \<noteq> [] \<Longrightarrow> shallow E f d [PNode v kids l p] \<Longrightarrow> shallow_list E f d kids"
  by (auto simp: shallow_def shallow_list_def algebra_simps)

text \<open>\<open>exact c x r f d\<close>: the result is \<open>x\<close> when \<open>c\<close> holds and an error otherwise, and the counter of a conditional
  expression has not grown.\<close>

definition exact :: "bool \<Rightarrow> 'a \<Rightarrow> cil_flavor \<Rightarrow> int \<Rightarrow> ('a \<times> int) outcome \<Rightarrow> bool" where
  "exact c x f d r \<longleftrightarrow> (\<exists>d'. (f = CIL_BOOL \<longrightarrow> d' \<le> d) \<and> r = (if c then Ok (x, d') else Fail SEPOL_ERR))"

lemma fill_exact:
  "ps \<noteq> [] \<Longrightarrow> shallow_list E f d ps \<Longrightarrow>
     exact (cil_verify_expr_syntax ps (operator_of ps) f = Ok () \<and> list_all (operand_ok f) (operands ps))
       (expr_items f ps) f d (cil_fill_expr_helper E ps f d)"
  "shallow E f d ps \<Longrightarrow>
     exact (list_all (operand_ok f) ps) (map (operand_item f) ps) f d (fill_exprs E ps f d)"
  "shallow E f d [t] \<Longrightarrow>
     exact (operand_ok f t) (operand_item f t) f d (cil_fill_expr E t f d)"
proof (induction E ps f d and E ps f d and E t f d rule: cil_fill_expr_helper_fill_exprs_cil_fill_expr.induct)
  case (2 E c cs f d)
  let ?op = "operator_of (c # cs)"
  let ?d = "if ?op = CIL_NONE \<or> ?op = CIL_ALL then d + 1 else d"
  have ops: "operands (c # cs) = (if ?op \<noteq> CIL_NONE then cs else c # cs)" by (simp add: operands_def)
  have deep: "\<not> (f = CIL_BOOL \<and> d > cond_expr_maxdepth E)" using 2(3) by (auto simp: shallow_list_def)
  show ?case
  proof (cases "cil_verify_expr_syntax (c # cs) ?op f = Ok ()")
    case True
    then have d: "?d = (if ?op = CIL_NONE then d + 1 else d)" if "f = CIL_BOOL" using that all_not_in_bool by auto
    then have "shallow E f ?d (operands (c # cs))" using 2(3) by (auto simp: shallow_list_def shallow_def)
    then have "exact (list_all (operand_ok f) (operands (c # cs))) (map (operand_item f) (operands (c # cs))) f ?d
        (fill_exprs E (operands (c # cs)) f ?d)"
      unfolding ops using 2(1) [OF deep refl] True by (simp only: list.sel)
    then obtain d' where d': "f = CIL_BOOL \<longrightarrow> d' \<le> ?d"
      "fill_exprs E (operands (c # cs)) f ?d = (if list_all (operand_ok f) (operands (c # cs))
         then Ok (map (operand_item f) (operands (c # cs)), d') else Fail SEPOL_ERR)"
      unfolding exact_def by blast
    have "cil_fill_expr_helper E (c # cs) f d = (if list_all (operand_ok f) (operands (c # cs))
        then Ok (expr_items f (c # cs), d' - 1) else Fail SEPOL_ERR)"
      using deep True d'(2) unfolding cil_fill_expr_helper.simps expr_items_def ops list.sel Let_def
      by (simp only: if_False obind_simps simp_thms) auto
    moreover have "f = CIL_BOOL \<longrightarrow> d' - 1 \<le> d" using d'(1) d by (auto split: if_splits)
    ultimately show ?thesis using True unfolding exact_def by auto
  next
    case False
    then have "cil_verify_expr_syntax (c # cs) ?op f = Fail SEPOL_ERR" using expr_syntax_result by blast
    then show ?thesis using deep by (auto simp: exact_def Let_def)
  qed
next
  case (4 E c cs f d)
  then obtain d1 where d1: "f = CIL_BOOL \<longrightarrow> d1 \<le> d"
    "cil_fill_expr E c f d = (if operand_ok f c then Ok (operand_item f c, d1) else Fail SEPOL_ERR)"
    by (auto simp: exact_def shallow_def)
  show ?case
  proof (cases "operand_ok f c")
    case True
    have "shallow E f d1 cs" by (rule shallow_le [of E f d]) (use 4(3) d1(1) in \<open>auto simp: shallow_def\<close>)
    with True d1(2) 4(2) [of "(operand_item f c, d1)"]
    have "exact (list_all (operand_ok f) cs) (map (operand_item f) cs) f d1 (fill_exprs E cs f d1)" by simp
    then obtain d2 where "f = CIL_BOOL \<longrightarrow> d2 \<le> d1"
      "fill_exprs E cs f d1 = (if list_all (operand_ok f) cs then Ok (map (operand_item f) cs, d2) else Fail SEPOL_ERR)"
      unfolding exact_def by blast
    with True d1 show ?thesis unfolding exact_def by (intro exI [of _ d2]) auto
  next
    case False
    with d1 show ?thesis by (auto simp: exact_def)
  qed
next
  case (5 E d kids l p f n)
  show ?case
  proof (cases "kids = []")
    case True
    then show ?thesis by (auto simp: exact_def)
  next
    case False
    from shallow_inside [OF this 5(2)] have "shallow_list E f n kids" .
    from 5(1) [OF False False this] show ?thesis
      using False by (auto simp: exact_def expr_items_def split: if_splits)
  qed
qed (auto simp: exact_def)

text \<open>C27. Expressions: \<open>cil_gen_expr\<close> accepts exactly the expressions whose lists have the syntax of their operator
  and no operator among their operands, and its result is the expression as a list, without loss. For a
  conditional expression this is so as long as no list stands inside of more than \<open>COND_EXPR_MAXDEPTH\<close> lists that
  do not begin with an operator: lists that begin with one, however deep they are, never reach the limit.\<close>

theorem gen_expr_exact:
  assumes "f \<noteq> CIL_BOOL \<or> within (cond_expr_maxdepth E) t"
  shows "cil_gen_expr E (t # ts) f = (if operand_ok f t then Ok (expr_list f t) else Fail SEPOL_ERR)"
proof (cases t)
  case (PNode d kids l p)
  have t: "shallow E f 0 [t]" using assms by (auto simp: shallow_def)
  show ?thesis
  proof (cases "kids = []")
    case True
    then show ?thesis using PNode by (auto simp: cil_gen_expr_def nth_node_def expr_list_def)
  next
    case False
    from fill_exact(1) [OF False shallow_inside [OF False t [unfolded PNode]]] show ?thesis
      using False PNode by (auto simp: cil_gen_expr_def nth_node_def expr_list_def exact_def)
  qed
qed

text \<open>The operands \<open>(and a (not b))\<close>, with a limit of 0; and \<open>((a))\<close>, with a limit of 10.\<close>

definition env0 :: sepol_env where
  "env0 = \<lparr>cond_expr_maxdepth = 10, cexpr_maxdepth = 5, fs_use_xattr = 1, fs_use_trans = 2, fs_use_task = 3,
     default_source = 1, default_target = 2, default_source_low = 1, default_source_high = 2,
     default_source_low_high = 3, default_target_low = 4, default_target_high = 5, default_target_low_high = 6,
     allow_unknown = 4, deny_unknown_c = 0, reject_unknown = 2, inet_pton = (\<lambda>f s. None)\<rparr>"

definition limits0 :: sepol_env where
  "limits0 = env0\<lparr>cond_expr_maxdepth := 0\<rparr>"

definition expr0 :: parse_tree where
  "expr0 = PNode None [PNode (Some ''and'') [] 1 [], PNode (Some ''a'') [] 1 [],
     PNode None [PNode (Some ''not'') [] 1 [], PNode (Some ''b'') [] 1 []] 1 []] 1 []"

definition nested0 :: parse_tree where
  "nested0 = PNode None [PNode None [PNode (Some ''a'') [] 1 []] 1 []] 1 []"

theorem gen_expr_exact_witness:
  "cil_gen_expr limits0 [expr0] CIL_BOOL = Ok (Cil_List CIL_BOOL [Item_Op CIL_AND, Item_String (Some ''a''),
     Item_List (Cil_List CIL_BOOL [Item_Op CIL_NOT, Item_String (Some ''b'')])]) \<and>
   cil_gen_expr env0 [nested0] CIL_BOOL = Ok (Cil_List CIL_BOOL [Item_List (Cil_List CIL_BOOL [Item_String (Some ''a'')])])"
proof -
  have "within 0 expr0" by code_simp
  then have "within (cond_expr_maxdepth limits0) expr0" by (simp add: limits0_def)
  moreover have "operand_ok CIL_BOOL expr0" by code_simp
  ultimately have "cil_gen_expr limits0 [expr0] CIL_BOOL = Ok (expr_list CIL_BOOL expr0)"
    by (simp add: gen_expr_exact)
  also have "expr_list CIL_BOOL expr0 = Cil_List CIL_BOOL [Item_Op CIL_AND, Item_String (Some ''a''),
     Item_List (Cil_List CIL_BOOL [Item_Op CIL_NOT, Item_String (Some ''b'')])]" by code_simp
  finally have 1: "cil_gen_expr limits0 [expr0] CIL_BOOL = Ok (Cil_List CIL_BOOL [Item_Op CIL_AND, Item_String (Some ''a''),
     Item_List (Cil_List CIL_BOOL [Item_Op CIL_NOT, Item_String (Some ''b'')])])" .
  have "within 10 nested0" by code_simp
  then have "within (cond_expr_maxdepth env0) nested0" by (simp add: env0_def)
  moreover have "operand_ok CIL_BOOL nested0" by code_simp
  ultimately have "cil_gen_expr env0 [nested0] CIL_BOOL = Ok (expr_list CIL_BOOL nested0)" by (simp add: gen_expr_exact)
  also have "expr_list CIL_BOOL nested0 = Cil_List CIL_BOOL [Item_List (Cil_List CIL_BOOL [Item_String (Some ''a'')])]"
    by code_simp
  finally show ?thesis using 1 by simp
qed

subsection \<open>The limit on constraint expressions\<close>

text \<open>The counter only ever decreases, so the limit is never reached.\<close>

definition without_limit :: "sepol_env \<Rightarrow> sepol_env" where
  "without_limit E = E\<lparr>cexpr_maxdepth := 0\<rparr>"

definition counts_down :: "int \<Rightarrow> ('a \<times> int) outcome \<Rightarrow> bool" where
  "counts_down d r \<longleftrightarrow> (case r of Ok (x, d') \<Rightarrow> d' \<le> d | _ \<Rightarrow> True)"

lemma constraint_counts_down: "counts_down d (cil_fill_constraint_expr n E ps f d)"
proof (induction n arbitrary: ps d)
  case (Suc n)
  have IH: "d' \<le> d" if "cil_fill_constraint_expr n E ps f d = Ok (x, d')" for ps d x d'
    using Suc [of d ps] that by (simp add: counts_down_def)
  have "d' \<le> d" if "cil_fill_constraint_expr (Suc n) E ps f d = Ok (x, d')" for x d'
    using that by (force simp: Let_def split: if_splits dest: IH)
  then show ?case by (auto simp: counts_down_def split: outcome.split)
qed (simp add: counts_down_def)

lemma obind_fun: "(\<And>x. g x = h x) \<Longrightarrow> obind m g = obind m h"
  by (simp add: obind_def split: outcome.split)

lemma constraint_limit:
  assumes "d \<le> 0" and "0 \<le> cexpr_maxdepth E"
  shows "cil_fill_constraint_expr n E ps f d = cil_fill_constraint_expr n (without_limit E) ps f d"
  using assms(1)
proof (induction n arbitrary: ps d)
  case (Suc n)
  have step: "obind (cil_fill_constraint_expr n E l f d) (case_prod g) =
      obind (cil_fill_constraint_expr n (without_limit E) l f d) (case_prod h)"
    if "\<And>x d'. d' \<le> 0 \<Longrightarrow> g x d' = h x d'" "d \<le> 0" for l d and g h :: "cil_list \<Rightarrow> int \<Rightarrow> (cil_list \<times> int) outcome"
    using Suc.IH [OF that(2), of l] constraint_counts_down [of d n "without_limit E" l f] that
    by (cases "cil_fill_constraint_expr n (without_limit E) l f d") (auto simp: counts_down_def)
  have "\<not> d > cexpr_maxdepth E" "\<not> d > cexpr_maxdepth (without_limit E)"
    using Suc.prems assms(2) by (auto simp: without_limit_def)
  then show ?case
    unfolding cil_fill_constraint_expr.simps Let_def
    by (simp only: if_False) (rule Suc.prems step obind_fun if_cong refl | assumption)+
qed simp

text \<open>The limit on the depth of constraint expressions has no effect: the counter, which starts at 0, goes down and
  never up, so the code builds the same expression for every limit, however deep the expression is.\<close>

theorem constraint_depth_unlimited:
  assumes "0 \<le> cexpr_maxdepth E"
  shows "cil_gen_constraint_expr E ps f = cil_gen_constraint_expr (without_limit E) ps f"
  unfolding cil_gen_constraint_expr_def constraint_limit [OF order_refl assms] ..

theorem constraint_depth_unlimited_witness:
  "cil_gen_constraint_expr env0 [expr0] CIL_CONSTRAIN = cil_gen_constraint_expr (without_limit env0) [expr0] CIL_CONSTRAIN"
  by (rule constraint_depth_unlimited) (simp add: env0_def)

end
