(* ===== verification/Cil_Build_Walk.thy ===== *)
theory Cil_Build_Walk
  imports Cil_Build_Links Cil_Fill_Exact
begin

text \<open>
  The walk over the parse tree that builds the AST: it ends, it keeps the AST linked and what was there, and it
  leaves every list at the node it was entered from.
\<close>

subsection \<open>What is left of a statement\<close>

text \<open>\<open>results m Q\<close>: what \<open>m\<close> returns is in \<open>Q\<close>.\<close>

definition results :: "('s, 'a) cil \<Rightarrow> ('a \<Rightarrow> bool) \<Rightarrow> bool" where
  "results m Q \<longleftrightarrow> (\<forall>s x t. m s = (Ok x, t) \<longrightarrow> Q x)"

lemma results_bind: "(\<And>x. results (f x) Q) \<Longrightarrow> results (bind m f) Q"
  by (auto simp: results_def bind_eq_Ok)

lemma results_branch: "results m' Q \<Longrightarrow> results m Q \<Longrightarrow> results (if b then m else m') Q"
  by simp

lemma results_fail: "results (fail e) Q"
  by (simp add: results_def)

lemma results_ret: "Q x \<Longrightarrow> results (ret x) Q"
  by (simp add: results_def)

lemma results_enter:
  "Q (CIL_TREE_SKIP_NOTHING, ps) \<Longrightarrow> results (enter ps m) Q"
  "Q (CIL_TREE_SKIP_NEXT, ps) \<Longrightarrow> results (skip ps m) Q"
  by (auto simp: enter_def skip_def intro: results_bind results_ret)

definition left_of :: "parse_tree list \<Rightarrow> nat \<times> parse_tree list \<Rightarrow> bool" where
  "left_of ps = (\<lambda>(finished, ps'). size_list size (tl ps') \<le> size_list size (tl ps))"

lemma size_take_drop: "size_list f (take k xs @ drop m (drop k xs)) \<le> size_list f xs"
proof -
  have "size_list f (drop m ys) \<le> size_list f ys" for ys
    by (induction ys arbitrary: m) (auto simp: drop_Cons split: nat.splits intro: le_SucI order_trans trans_le_add2)
  then have "size_list f (take k xs) + size_list f (drop m (drop k xs)) \<le> size_list f (take k xs) + size_list f (drop k xs)"
    by (simp del: drop_drop)
  also have "\<dots> = size_list f (take k xs @ drop k xs)" by (simp only: size_list_append)
  finally show ?thesis by (simp add: size_list_append)
qed

lemma left_of_changed: "left_of ps (f, take 1 ps @ drop 2 ps)" "left_of ps (f, take 2 ps @ drop 3 ps)"
proof -
  show "left_of ps (f, take 1 ps @ drop 2 ps)"
    using size_take_drop [of size 0 "tl ps" 1] by (cases ps) (auto simp: left_of_def drop_Suc numeral_2_eq_2)
  show "left_of ps (f, take 2 ps @ drop 3 ps)"
    using size_take_drop [of size 1 "tl ps" 1]
    by (cases ps) (auto simp: left_of_def numeral_2_eq_2 numeral_3_eq_3 drop_Suc)
qed

lemma results_changed:
  "results (enter_changed (cil_gen_boolif E ps n b)) (left_of ps)"
  "results (enter_changed (cil_gen_tunif E ps n)) (left_of ps)"
  "results (enter_changed (cil_gen_macro L ps n)) (left_of ps)"
  by (auto simp: enter_changed_def cil_gen_boolif_def cil_gen_tunif_def cil_gen_macro_def results_def bind_eq_Ok
      left_of_changed simp del: One_nat_def)

lemma build_statement_left: "results (build_statement L E key ps n) (left_of ps)"
proof -
  have enter: "results (enter ps m) (left_of ps)" "results (skip ps m) (left_of ps)"
    for m :: "(('a, 'b, 'c) build_state_scheme, unit) cil"
    by (rule results_enter; simp add: left_of_def)+
  show ?thesis
    unfolding build_statement_def
    apply (rule results_bind)
    apply (rule results_branch)+
    apply (rule results_fail)
    apply (rule enter results_changed | (subst if_distrib [of enter_changed], rule results_branch))+
    done
qed

subsection \<open>One node of the parse tree\<close>

lemma destroy_data_ends: "ends (cil_destroy_data L p f)"
  unfolding cil_destroy_data_def cil_root_destroy_def
  by (rule spec_unless_null) (rule spec_branch spec_rules TrueI)+

lemma tree_node_destroy_ends: "ends (cil_tree_node_destroy L n)"
  unfolding cil_tree_node_destroy_def
  by (intro spec_rules destroy_data_ends ends_free; auto simp: deref_def split: option.split)

text \<open>What was in the AST stays in it: \<open>t\<close> extends \<open>s\<close>.\<close>

definition extends :: "('h, 'b, 'z) build_state_scheme \<Rightarrow> ('h, 'b, 'z) build_state_scheme \<Rightarrow> bool" where
  "extends s t \<longleftrightarrow> (\<forall>m nd. nodes s m = Some nd \<longrightarrow> (\<exists>nd'. nodes t m = Some nd' \<and>
     node_parent nd' = node_parent nd \<and> node_flavor nd' = node_flavor nd \<and> node_data nd' = node_data nd))"

lemma extends_refl [simp]: "extends s s"
  by (simp add: extends_def)

lemma extends_trans: "extends s t \<Longrightarrow> extends t u \<Longrightarrow> extends s u"
  unfolding extends_def by metis

lemma extends_alive: "extends s t \<Longrightarrow> nodes s m \<noteq> None \<Longrightarrow> nodes t m \<noteq> None"
  by (auto simp: extends_def)

text \<open>A node below \<open>p\<close>.\<close>

definition child_at :: "('h, 'b, 'z) build_state_scheme \<Rightarrow> addr \<Rightarrow> addr \<Rightarrow> bool" where
  "child_at s p c \<longleftrightarrow> (\<exists>nd. nodes s c = Some nd \<and> node_parent nd = Some p \<and> filled nd)"

lemma child_at_extends: "extends s t \<Longrightarrow> child_at s p c \<Longrightarrow> child_at t p c"
  unfolding extends_def child_at_def by (metis (no_types, lifting))

lemma conditional_extends: "extends s t \<Longrightarrow> conditional s p \<Longrightarrow> conditional t p"
  unfolding extends_def conditional_def by metis

lemma linked_same_shape:
  assumes s: "linked s" and m: "nodes s m = Some nd" and t: "nodes t = (nodes s)(m \<mapsto> nd')" and "brk t = brk s"
    and nd': "node_parent nd' = node_parent nd" "node_flavor nd' = node_flavor nd" and ext: "extends s t"
  shows "linked t"
  unfolding linked_def
proof (intro allI impI)
  fix k kd assume "nodes t k = Some kd"
  then obtain kd0 where k: "nodes s k = Some kd0" "node_parent kd0 = node_parent kd" "node_flavor kd0 = node_flavor kd"
    using m t nd' by (cases "k = m") auto
  show "k < brk t \<and> (\<forall>p. node_parent kd = Some p \<longrightarrow> p < k \<and> nodes t p \<noteq> None) \<and>
      (node_flavor kd = CIL_CONDBLOCK \<longrightarrow> conditional t (node_parent kd))"
    using linkedD [OF s k(1)] k(2,3) assms(4) extends_alive [OF ext] conditional_extends [OF ext] by metis
qed

definition walking :: "('h, 'b, 'z) build_state_scheme \<Rightarrow> addr \<Rightarrow> addr \<Rightarrow> ('h, 'b, 'z) build_state_scheme \<Rightarrow> bool" where
  "walking s p c u \<longleftrightarrow> linked u \<and> extends s u \<and> child_at u p c"

lemma walking_wr:
  assumes "\<And>nd. node_parent (f nd) = node_parent nd \<and> node_flavor (f nd) = node_flavor nd \<and> node_data (f nd) = node_data nd"
  shows "keeps (walking s p c) (wr nodes nodes_update m f)"
proof (rule spec_wr)
  fix u nd assume u: "walking s p c u" and nd: "nodes u m = Some nd"
  let ?v = "nodes_update (\<lambda>h. h(m \<mapsto> f nd)) u"
  have "extends u ?v" unfolding extends_def using nd assms by auto
  moreover have "linked ?v" using u nd assms \<open>extends u ?v\<close>
    by (intro linked_same_shape [of u m nd ?v "f nd"]) (auto simp: walking_def)
  ultimately show "walking s p c ?v"
    using u by (auto simp: walking_def intro: extends_trans child_at_extends)
qed

lemma walking_append: "keeps (walking s p c) (append_child q d)"
  unfolding append_child_def by (intro spec_rules walking_wr; simp)

lemma spec_pure: "(C \<Longrightarrow> spec P m Q) \<Longrightarrow> spec (\<lambda>s. P s \<and> C) m Q"
  by (cases C) (auto simp: spec_def)

lemma spec_results: "spec P m Q \<Longrightarrow> results m R \<Longrightarrow> spec P m (\<lambda>x s. Q x s \<and> R x)"
  by (auto simp: spec_def results_def)

lemma new_child_base:
  assumes "linked s" and "nodes s p \<noteq> None" and "new_child p t s = (Ok n, u)"
  shows "base u n" and "extends s u" and "nodes s n = None"
    and "\<exists>nd. nodes u n = Some nd \<and> node_parent nd = Some p"
proof -
  let ?nd = "\<lparr>node_parent = Some p, node_cl_head = None, node_cl_tail = None, node_next = None,
      node_flavor = CIL_ROOT, node_line = p_line t, node_path = Some (p_path t), node_data = None\<rparr>"
  from assms(3) have u: "n = brk s" "brk u = Suc (brk s)" "nodes u = (nodes s)(brk s \<mapsto> ?nd)"
    by (auto simp: new_child_apply)
  have fresh: "nodes s (brk s) = None" using linkedD(1) [OF assms(1)] by fastforce
  have ext: "extends s u" using fresh u by (auto simp: extends_def)
  have p: "p < brk s" using assms(1,2) by (auto dest: linkedD(1))
  have link: "linked u"
    unfolding linked_def
  proof (intro allI impI)
    fix m md assume m: "nodes u m = Some md"
    show "m < brk u \<and> (\<forall>q. node_parent md = Some q \<longrightarrow> q < m \<and> nodes u q \<noteq> None) \<and>
      (node_flavor md = CIL_CONDBLOCK \<longrightarrow> conditional u (node_parent md))"
    proof (cases "m = brk s")
      case True
      with m u p assms(2) show ?thesis by auto
    next
      case False
      then have old: "nodes s m = Some md" using m u by simp
      show ?thesis
        using linkedD [OF assms(1) old] u(2) extends_alive [OF ext] conditional_extends [OF ext]
        by (metis less_SucI)
    qed
  qed
  have "node_parent md \<noteq> Some (brk s)" if "nodes s m = Some md" for m md
    using linkedD(1,2) [OF assms(1) that] by fastforce
  then show "base u n" using link u p by (auto simp: base_def)
  show "extends s u" by (rule ext)
  show "nodes s n = None" "\<exists>nd. nodes u n = Some nd \<and> node_parent nd = Some p" using fresh u by auto
qed

lemma built_child:
  assumes b: "built u n filled v" and "nodes s n = None" and "extends s u"
    and "\<exists>nd. nodes u n = Some nd \<and> node_parent nd = Some p"
  shows "walking s p n v"
proof -
  from b show ?thesis
  proof (cases rule: builtE)
    case (1 nd nd0)
    have "extends s v"
      unfolding extends_def
    proof (intro allI impI)
      fix m md assume m: "nodes s m = Some md"
      then obtain md' where md': "nodes u m = Some md'" "node_parent md' = node_parent md"
        "node_flavor md' = node_flavor md" "node_data md' = node_data md"
        using assms(3) unfolding extends_def by blast
      have "linked u" using 1(1) by (simp add: base_def)
      then have "m < brk u" using md'(1) linkedD(1) by blast
      moreover have "m \<noteq> n" using m assms(2) by auto
      ultimately show "\<exists>nd'. nodes v m = Some nd' \<and> node_parent nd' = node_parent md \<and>
          node_flavor nd' = node_flavor md \<and> node_data nd' = node_data md"
        using 1(10) md' by auto
    qed
    then show ?thesis
      using 1 assms(4) built_linked [OF b] unfolding walking_def child_at_def by auto
  qed
qed

text \<open>The helper at one node: the later siblings do not grow, and the walk is at a new node below the one it was at,
  unless nothing was built.\<close>

definition helped ::
  "('h, 'b, 'z) build_state_scheme \<Rightarrow> bool \<Rightarrow> bool \<Rightarrow> parse_tree list \<Rightarrow> build_args
   \<Rightarrow> nat \<times> parse_tree list \<times> build_args \<Rightarrow> ('h, 'b, 'z) build_state_scheme \<Rightarrow> bool"
where
  "helped s first at_root ps args = (\<lambda>(finished, ps', args') t.
     linked t \<and> extends s t \<and> size_list size ps' \<le> size_list size (tl ps) \<and>
     (if first then at_root \<and> args' = args \<or> child_at t (ba_ast args) (ba_ast args') else args' = args))"

lemma helper_spec:
  assumes "linked s" and "nodes s (ba_ast args) \<noteq> None"
  shows "spec (\<lambda>u. u = s) (cil_build_ast_node_helper L E first at_root ps args) (helped s first at_root ps args)"
proof -
  have build: "spec (\<lambda>u. u = s)
      (bind (new_child (ba_ast args) t) (\<lambda>n.
       bind (on_error (build_statement L E (p_data t) ps n) (cil_tree_node_destroy L n)) (\<lambda>(finished, ps').
       bind (rd nodes (ba_ast args)) (\<lambda>nd.
       bind (append_child (ba_ast args) n) (\<lambda>_.
       ret (finished, tl ps', (enter_block nd args)\<lparr>ba_ast := n\<rparr>)))))) (helped s True at_root ps args)" for t
  proof (rule spec_bind)
    show "spec (\<lambda>u. u = s) (new_child (ba_ast args) t) (\<lambda>n u. new_child (ba_ast args) t s = (Ok n, u))"
      by (rule specI) (auto simp: new_child_apply)
  next
    fix n
    have stmt: "spec (\<lambda>u. new_child (ba_ast args) t s = (Ok n, u))
        (on_error (build_statement L E (p_data t) ps n) (cil_tree_node_destroy L n))
        (\<lambda>r v. walking s (ba_ast args) n v \<and> left_of ps r)"
    proof (rule spec_on_error [OF spec_results [OF _ build_statement_left] tree_node_destroy_ends], rule specI)
      fix u v assume "new_child (ba_ast args) t s = (Ok n, u)"
      note new = new_child_base [OF assms this]
      have b: "built u n (\<lambda>_. True) u" by (rule built_refl [OF new(1)]) simp
      from linking.build_statement_spec [of u n L E "p_data t" ps]
      have sp: "spec (built u n (\<lambda>_. True)) (build_statement L E (p_data t) ps n) (\<lambda>_. built u n filled)" by simp
      show "build_statement L E (p_data t) ps n u \<noteq> (Out_of_fuel, v)" by (rule specD(1) [OF sp b])
      show "walking s (ba_ast args) n v" if "build_statement L E (p_data t) ps n u = (Ok r, v)" for r
        using built_child [OF specD(2) [OF sp b that] new(3,2,4)] .
    qed
    show "spec (\<lambda>u. new_child (ba_ast args) t s = (Ok n, u))
      (bind (on_error (build_statement L E (p_data t) ps n) (cil_tree_node_destroy L n)) (\<lambda>(finished, ps').
       bind (rd nodes (ba_ast args)) (\<lambda>nd.
       bind (append_child (ba_ast args) n) (\<lambda>_.
       ret (finished, tl ps', (enter_block nd args)\<lparr>ba_ast := n\<rparr>))))) (helped s True at_root ps args)"
    proof (rule spec_bind [OF stmt])
      fix r :: "nat \<times> parse_tree list"
      obtain fin ps' where r: "r = (fin, ps')" by (cases r)
      have "spec (\<lambda>v. walking s (ba_ast args) n v \<and> left_of ps (fin, ps'))
        (bind (rd nodes (ba_ast args)) (\<lambda>nd.
         bind (append_child (ba_ast args) n) (\<lambda>_.
         ret (fin, tl ps', (enter_block nd args)\<lparr>ba_ast := n\<rparr>)))) (helped s True at_root ps args)"
      proof (rule spec_pure)
        assume left: "left_of ps (fin, ps')"
        have "helped s True at_root ps args (fin, tl ps', (enter_block nd args)\<lparr>ba_ast := n\<rparr>) v"
          if "walking s (ba_ast args) n v" for nd v
          using that left by (simp add: helped_def walking_def left_of_def)
        then show "spec (walking s (ba_ast args) n)
          (bind (rd nodes (ba_ast args)) (\<lambda>nd.
           bind (append_child (ba_ast args) n) (\<lambda>_.
           ret (fin, tl ps', (enter_block nd args)\<lparr>ba_ast := n\<rparr>)))) (helped s True at_root ps args)"
          by (intro spec_rules walking_append)
      qed
      then show "spec (\<lambda>v. walking s (ba_ast args) n v \<and> left_of ps r) (case r of (finished, ps') \<Rightarrow>
         bind (rd nodes (ba_ast args)) (\<lambda>nd.
         bind (append_child (ba_ast args) n) (\<lambda>_.
         ret (finished, tl ps', (enter_block nd args)\<lparr>ba_ast := n\<rparr>)))) (helped s True at_root ps args)"
        by (simp only: r prod.case)
    qed
  qed
  have stay: "helped s first at_root ps args (CIL_TREE_SKIP_NOTHING, tl ps, args) s" if "first \<Longrightarrow> at_root"
    using that assms(1) by (simp add: helped_def)
  show ?thesis
    unfolding cil_build_ast_node_helper_def
  proof (rule spec_bind [OF keeps_lift])
    fix t
    have ret: "spec (\<lambda>u. u = s) (ret (CIL_TREE_SKIP_NOTHING, tl ps, args)) (helped s first at_root ps args)"
      if "first \<Longrightarrow> at_root"
      using stay [OF that] by (intro spec_ret) simp
    show "spec (\<lambda>u. u = s)
      (if \<not> first then ret (CIL_TREE_SKIP_NOTHING, tl ps, args)
       else if p_data t = None then
         if at_root then ret (CIL_TREE_SKIP_NOTHING, tl ps, args) else fail SEPOL_ERR
       else if \<not> allowed_here args (p_data t) then fail SEPOL_ERR
       else
         bind (new_child (ba_ast args) t) (\<lambda>n.
         bind (on_error (build_statement L E (p_data t) ps n) (cil_tree_node_destroy L n)) (\<lambda>(finished, ps').
         bind (rd nodes (ba_ast args)) (\<lambda>nd.
         bind (append_child (ba_ast args) n) (\<lambda>_.
         ret (finished, tl ps', (enter_block nd args)\<lparr>ba_ast := n\<rparr>)))))) (helped s first at_root ps args)"
      using ret build [of t] by (cases first) (auto intro: spec_fail)
  qed simp
qed

subsection \<open>The walk\<close>

text \<open>Where the walk over a list is at its end: at a new node below the one it was entered from, when the list began
  with a statement.\<close>

definition walked ::
  "('h, 'b, 'z) build_state_scheme \<Rightarrow> bool \<Rightarrow> bool \<Rightarrow> build_args \<Rightarrow> build_args \<Rightarrow> ('h, 'b, 'z) build_state_scheme \<Rightarrow> bool"
where
  "walked s first at_root args args' t \<longleftrightarrow> linked t \<and> extends s t \<and>
     (if first then at_root \<and> ba_ast args' = ba_ast args \<or> child_at t (ba_ast args) (ba_ast args')
      else ba_ast args' = ba_ast args)"

lemma last_child_spec:
  assumes "walked s True False args args' t"
  shows "spec (\<lambda>u. u = t) (cil_build_ast_last_child_helper args') (\<lambda>args'' u. walked s False False args args'' u)"
proof -
  from assms obtain nd where nd: "nodes t (ba_ast args') = Some nd" "node_parent nd = Some (ba_ast args)"
      "node_flavor nd \<noteq> CIL_ROOT" by (auto simp: walked_def child_at_def)
  have leave: "ba_ast (leave_block f a) = ba_ast a" for f a by (simp add: leave_block_def)
  show ?thesis
    using assms nd by (auto simp: spec_def cil_build_ast_last_child_helper_def bind_def rd_def walked_def leave
        split: option.splits)
qed

lemma spec_states: "(\<And>u. P u \<Longrightarrow> spec (\<lambda>v. v = u) m Q) \<Longrightarrow> spec P m Q"
  by (auto simp: spec_def)

lemma helped_walked:
  "helped s first at_root ps args (fin, ps', args') t \<Longrightarrow> walked s first at_root args args' t"
  by (auto simp: helped_def walked_def)

lemma walked_alive: "walked s first at_root args args' t \<Longrightarrow> nodes s (ba_ast args) \<noteq> None \<Longrightarrow> nodes t (ba_ast args') \<noteq> None"
  by (auto simp: walked_def child_at_def dest: extends_alive split: if_splits)

lemma walked_trans:
  "walked s first at_root args args1 t \<Longrightarrow> walked t False r args1 args2 u \<Longrightarrow> walked s first at_root args args2 u"
  by (auto simp: walked_def intro: extends_trans child_at_extends split: if_splits)

lemma walk_spec:
  "2 * size_list size ps < fuel \<Longrightarrow> linked s \<Longrightarrow> nodes s (ba_ast args) \<noteq> None \<Longrightarrow> ps \<noteq> [] \<or> \<not> first \<Longrightarrow>
     spec (\<lambda>u. u = s) (build_walk_core fuel L E first at_root ps args) (walked s first at_root args)"
  "2 * size_list size ps + 1 < fuel \<Longrightarrow> linked s \<Longrightarrow> nodes s (ba_ast args) \<noteq> None \<Longrightarrow>
     spec (\<lambda>u. u = s) (build_walk fuel L E False ps args) (walked s False False args)"
proof (induction fuel arbitrary: ps s args first at_root rule: less_induct)
  case (less fuel)
  {
    case 1
    then obtain k where k: "fuel = Suc k" by (cases fuel) auto
    show ?case
    proof (cases ps)
      case Nil
      with 1 k show ?thesis by (auto simp: spec_def walked_def)
    next
      case ps: (Cons t ts)
      have size: "2 * size_list size (p_children t) + 1 < k" "2 * size_list size ts < k"
        using 1(1) k ps by (cases t; simp)+
      have rest: "spec (\<lambda>v. v = u)
          (bind (if p_children t \<noteq> [] \<and> fin AND CIL_TREE_SKIP_HEAD = 0
                 then build_walk k L E False (p_children t) args1 else ret args1)
            (\<lambda>args2. build_walk_core k L E False at_root ps' args2))
          (walked s first at_root args)"
        if h: "helped s first at_root ps args (fin, ps', args1) u" for fin ps' args1 u
      proof (rule spec_bind [where R = "\<lambda>args2. walked s first at_root args args2"])
        have w: "walked s first at_root args args1 u" by (rule helped_walked [OF h])
        have u: "linked u" "nodes u (ba_ast args1) \<noteq> None"
          using w walked_alive [OF w 1(3)] by (auto simp: walked_def)
        have "spec (\<lambda>v. v = u) (build_walk k L E False (p_children t) args1) (walked u False False args1)"
          using less.IH(2) [of k "p_children t" u args1] k size(1) u by simp
        then show "spec (\<lambda>v. v = u)
            (if p_children t \<noteq> [] \<and> fin AND CIL_TREE_SKIP_HEAD = 0
             then build_walk k L E False (p_children t) args1 else ret args1)
            (\<lambda>args2. walked s first at_root args args2)"
          using w by (auto intro: spec_post walked_trans spec_ret)
        fix args2
        show "spec (walked s first at_root args args2) (build_walk_core k L E False at_root ps' args2)
            (walked s first at_root args)"
        proof (rule spec_states)
          fix v assume v: "walked s first at_root args args2 v"
          have "size_list size ps' \<le> size_list size ts" using h ps by (simp add: helped_def)
          moreover have "linked v" "nodes v (ba_ast args2) \<noteq> None"
            using v walked_alive [OF v 1(3)] by (auto simp: walked_def)
          ultimately have "spec (\<lambda>w. w = v) (build_walk_core k L E False at_root ps' args2) (walked v False at_root args2)"
            using less.IH(1) [of k ps' v args2 False at_root] k size(2) by simp
          then show "spec (\<lambda>w. w = v) (build_walk_core k L E False at_root ps' args2) (walked s first at_root args)"
            by (rule spec_post) (rule walked_trans [OF v])
        qed
      qed
      show ?thesis
        unfolding k build_walk_core.simps
      proof (simp only: ps list.case, rule spec_bind [OF helper_spec [OF 1(2,3)]], rule spec_states)
        fix x u assume h: "helped s first at_root (t # ts) args x u"
        obtain fin ps' args1 where x: "x = (fin, ps', args1)" by (cases x) auto
        show "spec (\<lambda>v. v = u) (case x of (finished, next_nodes, args) \<Rightarrow>
            if finished AND CIL_TREE_SKIP_NEXT \<noteq> 0 then ret args
            else
              bind (if p_children t \<noteq> [] \<and> finished AND CIL_TREE_SKIP_HEAD = 0
                    then build_walk k L E False (p_children t) args else ret args)
                (\<lambda>args. build_walk_core k L E False at_root next_nodes args))
            (walked s first at_root args)"
          using rest [of fin ps' args1 u] h helped_walked [of s first at_root ps args fin ps' args1 u]
          unfolding x ps by (auto intro: spec_ret)
      qed
    qed
  next
    case 2
    then obtain k where k: "fuel = Suc k" by (cases fuel) auto
    show ?case
    proof (cases "ps = []")
      case True
      with 2 k show ?thesis by (auto simp: spec_def walked_def)
    next
      case False
      have core: "spec (\<lambda>u. u = s) (build_walk_core k L E True False ps args) (walked s True False args)"
        using less.IH(1) [of k ps s args True False] 2 k False by auto
      show ?thesis
        using False k
        by (simp, intro spec_bind [OF core] specI) (auto dest: specD [OF last_child_spec])
    qed
  }
qed

lemma build_ast_spec:
  assumes "linked s" and "nodes s ast \<noteq> None"
  shows "spec (\<lambda>u. u = s) (cil_build_ast L E ps ast) (\<lambda>_ t. linked t \<and> extends s t)"
proof -
  let ?args = "\<lparr>ba_ast = ast, ba_macro = None, ba_boolif = None, ba_tunif = None, ba_in = None\<rparr>"
  have "spec (\<lambda>u. u = s) (build_walk (Suc (2 * size_list size ps + 1)) L E True ps ?args)
      (\<lambda>_ t. linked t \<and> extends s t)"
  proof (cases "ps = []")
    case True
    with assms show ?thesis by (auto simp: spec_def)
  next
    case False
    then have core: "spec (\<lambda>u. u = s) (build_walk_core (2 * size_list size ps + 1) L E True True ps ?args)
        (walked s True True ?args)"
      using walk_spec(1) [of ps "2 * size_list size ps + 1" s ?args True L E True] assms by simp
    have last: "keeps (\<lambda>t. linked t \<and> extends s t) (cil_build_ast_last_child_helper args)" for args
      unfolding cil_build_ast_last_child_helper_def by (intro spec_rules; simp)
    have finish: "spec (walked s True True ?args args) (cil_build_ast_last_child_helper args)
        (\<lambda>_ t. linked t \<and> extends s t)" for args
      by (rule spec_pre [OF last]) (simp add: walked_def)
    show ?thesis
      unfolding build_walk.simps(2) by (subst if_not_P [OF False]) (rule spec_bind [OF core finish])
  qed
  then show ?thesis
    unfolding cil_build_ast_def by (auto intro: spec_bind spec_ret)
qed

subsection \<open>The construction\<close>

text \<open>C25. The construction of the AST ends: on every parse tree, and from every linked AST, it succeeds, reports
  an error or stops at a fault, and never runs out of the fuel it gives to the walk and to the search for the
  symbol table of a node. In particular the loop of \<open>cil_get_symtab\<close> always leaves a branch, because branches are
  only ever made under a conditional.\<close>

theorem build_ast_ends:
  assumes "linked s" and "nodes s ast \<noteq> None"
  shows "fst (cil_build_ast L E ps ast s) \<noteq> Out_of_fuel"
  using specD(1) [OF build_ast_spec [OF assms]] by (metis prod.collapse)

text \<open>C26. A successful construction leaves a linked AST, in which every node has a live parent that is older than it
  and every branch stands in a conditional, and it only adds to the AST: the nodes that were there keep their
  parents, their flavors and their data.\<close>

theorem build_ast_linked:
  assumes "linked s" and "nodes s ast \<noteq> None" and "cil_build_ast L E ps ast s = (Ok (), t)"
  shows "linked t \<and> extends s t"
  using specD(2) [OF build_ast_spec [OF assms(1,2)] refl assms(3)] .

text \<open>The walk leaves a list at the node it was entered from: after the children of a list have been built, the node
  that is being filled is the one it was before, whatever statements the list contains, although the code only
  goes up one parent at the end of a list.\<close>

theorem walk_returns:
  assumes "2 * size_list size children + 1 < fuel" and "linked s" and "nodes s (ba_ast args) \<noteq> None"
    and "build_walk fuel L E False children args s = (Ok args', t)"
  shows "ba_ast args' = ba_ast args \<and> linked t \<and> extends s t"
  using specD(2) [OF walk_spec(2) [OF assms(1-3)] refl assms(4)] by (simp add: walked_def)

subsection \<open>Examples\<close>

definition words :: "string list \<Rightarrow> parse_tree list" where
  "words = map (\<lambda>w. PNode (Some w) [] 1 ''p.cil'')"

definition listed :: "parse_tree list \<Rightarrow> parse_tree" where
  "listed ps = PNode None ps 1 ''p.cil''"

fun empty_tables :: "symtab_ref \<Rightarrow> (string \<times> addr) list option" where
  "empty_tables (SymArray a i) = (if a = 1 \<and> i < 18 then Some [] else None)"
| "empty_tables (SymPerms a) = None"

definition root_only :: "((string \<times> addr) list, nat list) build_state" where
  "root_only = cil_store.extend (store0\<lparr>nodes := [0 \<mapsto>
       \<lparr>node_parent = None, node_cl_head = None, node_cl_tail = None, node_next = None, node_flavor = CIL_ROOT,
        node_line = 0, node_path = None, node_data = Some 1\<rparr>],
     symtabs := empty_tables\<rparr>)
     (build_state.fields 2 Map.empty)"

lemma root_only_simps [simp]:
  "nodes root_only = [0 \<mapsto> \<lparr>node_parent = None, node_cl_head = None, node_cl_tail = None, node_next = None,
     node_flavor = CIL_ROOT, node_line = 0, node_path = None, node_data = Some 1\<rparr>]"
  "brk root_only = 2" "preserve_tunables root_only = False"
  "symtabs root_only = empty_tables"
  by (simp_all add: root_only_def cil_store.defs build_state.defs store0_def)

lemma root_only_linked: "linked root_only" "nodes root_only 0 \<noteq> None"
  by (auto simp: linked_def)

theorem build_ast_ends_witness:
  "fst (cil_build_ast sepol0 env0 [listed (words [''type'', ''user_t''])] 0 root_only) \<noteq> Out_of_fuel"
  using build_ast_ends [OF root_only_linked] .

lemma fuel_numeral:
  "build_walk_core (numeral k) L E first at_root ps args = (case ps of [] \<Rightarrow> ret args | t # ts \<Rightarrow>
     bind (cil_build_ast_node_helper L E first at_root ps args) (\<lambda>(finished, next_nodes, args).
     if finished AND CIL_TREE_SKIP_NEXT \<noteq> 0 then ret args
     else
       bind (if p_children t \<noteq> [] \<and> finished AND CIL_TREE_SKIP_HEAD = 0
             then build_walk (pred_numeral k) L E False (p_children t) args
             else ret args) (\<lambda>args.
       build_walk_core (pred_numeral k) L E False at_root next_nodes args)))"
  "build_walk (numeral k) L E at_root ps args = (if ps = [] then ret args
     else bind (build_walk_core (pred_numeral k) L E True at_root ps args) cil_build_ast_last_child_helper)"
  by (simp_all add: numeral_eq_Suc)

text \<open>Evaluation in the order of the program: what follows is not simplified before it is reached.\<close>

lemma eval_congs:
  "s = s' \<Longrightarrow> bind m f s = bind m f s'" "r = r' \<Longrightarrow> obind r g = obind r' g"
  "s = s' \<Longrightarrow> attempt m s = attempt m s'" "s = s' \<Longrightarrow> on_error m c s = on_error m c s'"
  "s = s' \<Longrightarrow> or_err m s = or_err m s'"
  by simp_all

lemmas weak_congs = eval_congs option.case_cong_weak list.case_cong_weak prod.case_cong_weak sum.case_cong_weak
  outcome.case_cong_weak sepol_rc.case_cong_weak

lemma eval_steps:
  "bind m f s = (case m s of (r, s') \<Rightarrow> (case r of Ok x \<Rightarrow> f x s' | Fail e \<Rightarrow> (Fail e, s') | Fault \<Rightarrow> (Fault, s')
     | Out_of_fuel \<Rightarrow> (Out_of_fuel, s')))"
  "attempt m s = (case m s of (r, s') \<Rightarrow> (case r of Ok x \<Rightarrow> (Ok (Inr x), s') | Fail e \<Rightarrow> (Ok (Inl e), s') | Fault \<Rightarrow> (Fault, s')
     | Out_of_fuel \<Rightarrow> (Out_of_fuel, s')))"
  "on_error m c s = (case m s of (r, s') \<Rightarrow> (case r of Ok x \<Rightarrow> (Ok x, s') | Fail e \<Rightarrow> (bind c (\<lambda>_. fail e) s') | Fault \<Rightarrow> (Fault, s')
     | Out_of_fuel \<Rightarrow> (Out_of_fuel, s')))"
  "or_err m s = (case m s of (r, s') \<Rightarrow> (case r of Ok x \<Rightarrow> (Ok x, s') | Fail e \<Rightarrow> (Fail SEPOL_ERR, s') | Fault \<Rightarrow> (Fault, s')
     | Out_of_fuel \<Rightarrow> (Out_of_fuel, s')))"
  by (cases "m s"; cases "fst (m s)"; auto simp: bind_def attempt_def on_error_def or_err_def)+

lemmas run_simps = eval_steps fuel_numeral cil_build_ast_def listed_def words_def cil_build_ast_node_helper_def nth_node_def
  allowed_here_def new_child_apply build_statement_def enter_def skip_def enter_changed_def gen_declaration_def
  gen_statement_def cil_verify_syntax_def syn_more_def syn_many_def syn_fits_def is_string_node_def is_list_node_def
  is_empty_list_node_def nth_data_def nth_list_def arg_def cil_gen_node_def
  cil_get_symtab_def set_node_def cil_symtab_insert_def symtab_of_def append_node_def shadows_parameter_def
  append_child_def enter_block_def leave_block_def cil_build_ast_last_child_helper_def new_object_def new_struct_def
  fresh_def datum_init_def rd_def wr_def




lemma names_ok: "cil_verify_name ''m'' = Ok ()" "cil_verify_name ''n'' = Ok ()" "cil_verify_name ''t'' = Ok ()"
  "cil_verify_name ''b'' = Ok ()"
  by code_simp+

lemma upt_numeral: "[0..<18] = [0,1,2,3,4,5,6,7,8,9,10,11,12,13,14,15,16,17]"
  by code_simp

lemmas macro_simps = run_simps names_ok upt_numeral cil_gen_macro_def cil_macro_init_def cil_symtab_array_init_def cil_symtab_init_def
  sepol0_def cil_gen_type_def cil_type_init_def cil_gen_tunable_def cil_tunable_init_def truth_value_def

lemmas one_step = bind_Ok bind_Fail bind_Fault bind_Out_of_fuel attempt_Ok attempt_Fail attempt_Fault
  attempt_Out_of_fuel rd_apply wr_apply

text \<open>A program that declares one type.\<close>

lemma one_type: "fst (cil_build_ast sepol0 env0 [listed (words [''type'', ''t''])] 0 root_only) = Ok ()"
  by (simp add: macro_simps del: one_step cong: weak_congs)

theorem build_ast_linked_witness:
  "linked (snd (cil_build_ast sepol0 env0 [listed (words [''type'', ''t''])] 0 root_only)) \<and>
   extends root_only (snd (cil_build_ast sepol0 env0 [listed (words [''type'', ''t''])] 0 root_only))"
  using build_ast_linked [OF root_only_linked, of sepol0 env0 "[listed (words [''type'', ''t''])]"] one_type
  by (metis prod.collapse)

definition args0 :: build_args where
  "args0 = \<lparr>ba_ast = 0, ba_macro = None, ba_boolif = None, ba_tunif = None, ba_in = None\<rparr>"

lemma one_type_walk: "fst (build_walk 20 sepol0 env0 False (words [''type'', ''t'']) args0 root_only) = Ok args0"
  by (simp add: macro_simps args0_def del: one_step cong: weak_congs)

theorem walk_returns_witness:
  "linked (snd (build_walk 20 sepol0 env0 False (words [''type'', ''t'']) args0 root_only))"
proof -
  have "2 * size_list size (words [''type'', ''t'']) + 1 < 20" by (simp add: words_def)
  moreover have "nodes root_only (ba_ast args0) \<noteq> None" by (simp add: args0_def)
  moreover have "build_walk 20 sepol0 env0 False (words [''type'', ''t'']) args0 root_only =
      (Ok args0, snd (build_walk 20 sepol0 env0 False (words [''type'', ''t'']) args0 root_only))"
    by (simp add: prod_eq_iff one_type_walk)
  ultimately show ?thesis using walk_returns root_only_linked(1) by blast
qed

subsection \<open>Restrictions inside macros\<close>

text \<open>The program \<open>(macro m () ...)\<close> with the given statements.\<close>

definition macro_of :: "parse_tree list \<Rightarrow> parse_tree list" where
  "macro_of body = [listed (words [''macro'', ''m''] @ [listed []] @ body)]"

definition inner_macro :: parse_tree where
  "inner_macro = listed (words [''macro'', ''n''] @ [listed []])"

definition tunable_b :: parse_tree where
  "tunable_b = listed (words [''tunable'', ''b'', ''true''])"

definition type_t :: parse_tree where
  "type_t = listed (words [''type'', ''t''])"

lemma macro_first: "fst (cil_build_ast sepol0 env0 (macro_of [inner_macro]) 0 root_only) = Ok ()"
  by (simp add: macro_of_def inner_macro_def macro_simps del: one_step cong: weak_congs)

lemma macro_second: "fst (cil_build_ast sepol0 env0 (macro_of [type_t, inner_macro]) 0 root_only) = Fail SEPOL_ERR"
  by (simp add: macro_of_def inner_macro_def type_t_def macro_simps del: one_step cong: weak_congs)

lemma macro_lifted: "fst (cil_build_ast sepol0 env0 (macro_of [inner_macro, tunable_b]) 0 root_only) = Ok ()"
  by (simp add: macro_of_def inner_macro_def tunable_b_def macro_simps del: one_step cong: weak_congs)

lemma macro_tunable:
  "fst (cil_build_ast sepol0 env0 (macro_of [type_t, tunable_b]) 0 root_only) = Fail SEPOL_ERR"
  by (simp add: macro_of_def type_t_def tunable_b_def macro_simps del: one_step cong: weak_congs)

text \<open>The ban on macros and tunables inside a macro holds from the second statement on and only until a nested
  macro has been left: a macro is rejected after another statement, and accepted as the first statement; a tunable
  is rejected after another statement, and accepted after a nested macro.\<close>

theorem macro_restriction:
  "(\<lambda>body. fst (cil_build_ast sepol0 env0 (macro_of body) 0 root_only)) `
     {[type_t, inner_macro], [type_t, tunable_b]} = {Fail SEPOL_ERR} \<and>
   (\<lambda>body. fst (cil_build_ast sepol0 env0 (macro_of body) 0 root_only)) `
     {[inner_macro], [inner_macro, tunable_b]} = {Ok ()}"
  by (simp add: macro_first macro_second macro_lifted macro_tunable)

end
