(* ===== verification/Cil_Copy.thy ===== *)
theory Cil_Copy
  imports Cil_Build
begin

text \<open>
  The copy of parts of the AST (\<open>src/cil_copy_ast.c\<close>): a function per kind of statement, which makes a struct with
  the names of the original and none of what the resolution has stored in it, and the walk that copies a list
  of statements to the end of the children of another node.

  A declaration is looked up first in the symbol table it is copied to. Some kinds may be declared again: the copy is
  then another node of the object that is there. The others must not be declared yet.
\<close>

subsection \<open>Lists\<close>

fun copy_list_items :: "cil_item list \<Rightarrow> cil_item list" where
  "copy_list_items [] = []"
| "copy_list_items (Item_List (Cil_List f sub) # rest) = Item_List (Cil_List f (copy_list_items sub)) # copy_list_items rest"
| "copy_list_items (orig_item # rest) = orig_item # copy_list_items rest"

definition cil_copy_list :: "cil_list \<Rightarrow> cil_list" where
  "cil_copy_list data = Cil_List (list_flavor data) (copy_list_items (list_items data))"

text \<open>The cases of lists of strings and of lists of parameters.\<close>

definition copy_strings :: "cstring list \<Rightarrow> cstring list" where
  "copy_strings = map (\<lambda>str. str)"

definition copy_params :: "(cstring \<times> cil_flavor) list \<Rightarrow> (cstring \<times> cil_flavor) list" where
  "copy_params = map (\<lambda>po. (fst po, snd po))"

fun copy_expr_items :: "cil_item list \<Rightarrow> cil_item list" where
  "copy_expr_items [] = []"
| "copy_expr_items (Item_List (Cil_List f sub) # rest) = Item_List (Cil_List f (copy_expr_items sub)) # copy_expr_items rest"
| "copy_expr_items (Item_String str # rest) = Item_String str # copy_expr_items rest"
| "copy_expr_items (Item_Datum a # rest) = Item_Datum a # copy_expr_items rest"
| "copy_expr_items (Item_Op f # rest) = Item_Op f # copy_expr_items rest"
| "copy_expr_items (Item_Operand f # rest) = Item_Operand f # copy_expr_items rest"
| "copy_expr_items (Item_Ref f a # rest) = Item_Ref f a # copy_expr_items rest"

definition copy_expr :: "cil_list \<Rightarrow> cil_list" where
  "copy_expr orig = Cil_List (list_flavor orig) (copy_expr_items (list_items orig))"

definition cil_copy_expr :: "cil_list option \<Rightarrow> cil_list option" where
  "cil_copy_expr orig = (case orig of None \<Rightarrow> None | Some l \<Rightarrow> Some (copy_expr l))"

subsection \<open>Declarations\<close>

text \<open>The declaration of that name in the table, if there is one.\<close>

definition existing ::
  "('h, 'b) sepol \<Rightarrow> symtab_ref option \<Rightarrow> cstring \<Rightarrow> (('h, 'b, 'z) build_state_scheme, addr option) cil"
where
  "existing L symtab key =
     bind (lift (not_null symtab)) (\<lambda>symtab.
     bind (lift (not_null key)) (\<lambda>key.
     reading (\<lambda>s. case cil_symtab_get_datum L s symtab key of
         Ok datum \<Rightarrow> Ok (Some datum)
       | Fail _ \<Rightarrow> Ok None
       | Fault \<Rightarrow> Fault
       | Out_of_fuel \<Rightarrow> Out_of_fuel)))"

text \<open>The two patterns of declarations.\<close>

definition copy_shared ::
  "('h, 'b) sepol \<Rightarrow> symtab_ref option \<Rightarrow> addr \<Rightarrow> (('h, 'b, 'z) build_state_scheme, addr) cil
   \<Rightarrow> (('h, 'b, 'z) build_state_scheme, addr) cil"
where
  "copy_shared L symtab data init =
     bind (rd datums data) (\<lambda>orig.
     bind (existing L symtab (datum_name orig)) (\<lambda>datum.
     case datum of None \<Rightarrow> init | Some d \<Rightarrow> ret d))"

definition copy_unique ::
  "('h, 'b) sepol \<Rightarrow> symtab_ref option \<Rightarrow> addr \<Rightarrow> (('h, 'b, 'z) build_state_scheme, addr) cil
   \<Rightarrow> (('h, 'b, 'z) build_state_scheme, addr) cil"
where
  "copy_unique L symtab data copy =
     bind (rd datums data) (\<lambda>orig.
     bind (existing L symtab (datum_name orig)) (\<lambda>datum.
     case datum of None \<Rightarrow> copy | Some d \<Rightarrow> fail SEPOL_ERR))"

text \<open>As \<open>copy_unique\<close> for objects that may be without a name.\<close>

definition copy_unique_named ::
  "('h, 'b) sepol \<Rightarrow> symtab_ref option \<Rightarrow> addr \<Rightarrow> (('h, 'b, 'z) build_state_scheme, addr option) cil
   \<Rightarrow> (('h, 'b, 'z) build_state_scheme, addr option) cil"
where
  "copy_unique_named L symtab data copy =
     bind (rd datums data) (\<lambda>orig.
     bind (if datum_name orig = None then ret None else existing L symtab (datum_name orig)) (\<lambda>datum.
     case datum of None \<Rightarrow> copy | Some d \<Rightarrow> fail SEPOL_ERR))"

text \<open>A part that is a name or an anonymous object.\<close>

definition name_or_copy ::
  "cstring \<Rightarrow> ('s, unit) cil \<Rightarrow> ('s, addr) cil \<Rightarrow> (addr \<Rightarrow> ('s, unit) cil) \<Rightarrow> (addr \<Rightarrow> ('s, unit) cil) \<Rightarrow> ('s, unit) cil"
where
  "name_or_copy str set_name init set_new fill =
     (if str \<noteq> None then set_name else bind init (\<lambda>new. bind (set_new new) (\<lambda>_. fill new)))"

subsection \<open>Statements\<close>

definition cil_copy_block :: "('h, 'b) sepol \<Rightarrow> symtab_ref option \<Rightarrow> addr \<Rightarrow> (('h, 'b, 'z) build_state_scheme, addr) cil" where
  "cil_copy_block L symtab data = copy_shared L symtab data (cil_block_init L)"

definition cil_copy_blockabstract :: "addr \<Rightarrow> (('h, 'b, 'z) build_state_scheme, addr) cil" where
  "cil_copy_blockabstract data =
     bind (rd m_blockabstract data) (\<lambda>orig.
     bind cil_blockabstract_init (\<lambda>new.
     bind (wr m_blockabstract m_blockabstract_update new (\<lambda>x. x\<lparr>blockabstract_block_str := blockabstract_block_str orig\<rparr>)) (\<lambda>_.
     ret new)))"

definition cil_copy_blockinherit :: "addr \<Rightarrow> (('h, 'b, 'z) build_state_scheme, addr) cil" where
  "cil_copy_blockinherit data =
     bind (rd m_blockinherit data) (\<lambda>orig.
     bind cil_blockinherit_init (\<lambda>new.
     bind (wr m_blockinherit m_blockinherit_update new (\<lambda>x. x\<lparr>blockinherit_block_str := blockinherit_block_str orig,
         blockinherit_block := blockinherit_block orig\<rparr>)) (\<lambda>_.
     ret new)))"

definition cil_copy_policycap :: "('h, 'b) sepol \<Rightarrow> symtab_ref option \<Rightarrow> addr \<Rightarrow> (('h, 'b, 'z) build_state_scheme, addr) cil" where
  "cil_copy_policycap L symtab data = copy_shared L symtab data cil_policycap_init"

definition cil_copy_perm :: "('h, 'b) sepol \<Rightarrow> symtab_ref option \<Rightarrow> addr \<Rightarrow> (('h, 'b, 'z) build_state_scheme, addr) cil" where
  "cil_copy_perm L symtab data = copy_shared L symtab data cil_perm_init"

definition cil_copy_classperms :: "addr \<Rightarrow> (('h, 'b, 'z) build_state_scheme, addr) cil" where
  "cil_copy_classperms data =
     bind (rd m_classperms data) (\<lambda>orig.
     bind cil_classperms_init (\<lambda>new.
     bind (wr m_classperms m_classperms_update new (\<lambda>x. x\<lparr>classperms_class_str := classperms_class_str orig,
         classperms_perm_strs := cil_copy_list (classperms_perm_strs orig)\<rparr>)) (\<lambda>_.
     ret new)))"

definition cil_copy_classperms_set :: "addr \<Rightarrow> (('h, 'b, 'z) build_state_scheme, addr) cil" where
  "cil_copy_classperms_set data =
     bind (rd m_classperms_set data) (\<lambda>orig.
     bind cil_classperms_set_init (\<lambda>new.
     bind (wr m_classperms_set m_classperms_set_update new (\<lambda>x. x\<lparr>classperms_set_set_str := classperms_set_set_str orig\<rparr>)) (\<lambda>_.
     ret new)))"

fun cil_copy_classperms_list :: "classperms_list \<Rightarrow> (('h, 'b, 'z) build_state_scheme, classperms_list) cil" where
  "cil_copy_classperms_list [] = ret []"
| "cil_copy_classperms_list ((flavor, item) # rest) =
     bind (if flavor = CIL_CLASSPERMS then bind (cil_copy_classperms item) (\<lambda>cp. ret (CIL_CLASSPERMS, cp))
           else bind (cil_copy_classperms_set item) (\<lambda>cp_set. ret (CIL_CLASSPERMS_SET, cp_set))) (\<lambda>new.
     bind (cil_copy_classperms_list rest) (\<lambda>news. ret (new # news)))"

definition cil_copy_classmapping :: "addr \<Rightarrow> (('h, 'b, 'z) build_state_scheme, addr) cil" where
  "cil_copy_classmapping data =
     bind (rd m_classmapping data) (\<lambda>orig.
     bind cil_classmapping_init (\<lambda>new.
     bind (cil_copy_classperms_list (classmapping_classperms orig)) (\<lambda>cps.
     bind (wr m_classmapping m_classmapping_update new (\<lambda>x. x\<lparr>classmapping_map_class_str := classmapping_map_class_str orig,
         classmapping_map_perm_str := classmapping_map_perm_str orig,
         classmapping_classperms := cps\<rparr>)) (\<lambda>_.
     ret new))))"

definition cil_copy_class :: "('h, 'b) sepol \<Rightarrow> symtab_ref option \<Rightarrow> addr \<Rightarrow> (('h, 'b, 'z) build_state_scheme, addr) cil" where
  "cil_copy_class L symtab data =
     copy_unique L symtab data (
        bind (rd m_class data) (\<lambda>orig.
        bind (cil_class_init L) (\<lambda>new.
        bind (wr m_class m_class_update new (\<lambda>x. x\<lparr>class_common := None\<rparr>)) (\<lambda>_.
        ret new))))"

definition cil_copy_classorder :: "addr \<Rightarrow> (('h, 'b, 'z) build_state_scheme, addr) cil" where
  "cil_copy_classorder data =
     bind (rd m_classorder data) (\<lambda>orig.
     bind cil_classorder_init (\<lambda>new.
     bind (wr m_classorder m_classorder_update new (\<lambda>x. x\<lparr>classorder_class_list_str := copy_strings (classorder_class_list_str orig)\<rparr>)) (\<lambda>_.
     ret new)))"

text \<open>The copy of a class permission is never allocated: its list is written through a null pointer, and without a
  list the result is null.\<close>

definition cil_copy_classpermission ::
  "('h, 'b) sepol \<Rightarrow> symtab_ref option \<Rightarrow> addr \<Rightarrow> (('h, 'b, 'z) build_state_scheme, addr option) cil"
where
  "cil_copy_classpermission L symtab data =
     copy_unique_named L symtab data (
        bind (rd m_classpermission data) (\<lambda>orig.
        if classpermission_classperms orig = None then ret None else fault))"

text \<open>Nor is that of a class permission set.\<close>

definition cil_copy_classpermissionset :: "addr \<Rightarrow> (('h, 'b, 'z) build_state_scheme, addr) cil" where
  "cil_copy_classpermissionset data = bind (rd m_classpermissionset data) (\<lambda>orig. fault)"

definition cil_copy_classcommon :: "addr \<Rightarrow> (('h, 'b, 'z) build_state_scheme, addr) cil" where
  "cil_copy_classcommon data =
     bind (rd m_classcommon data) (\<lambda>orig.
     bind cil_classcommon_init (\<lambda>new.
     bind (wr m_classcommon m_classcommon_update new (\<lambda>x. x\<lparr>classcommon_class_str := classcommon_class_str orig,
         classcommon_common_str := classcommon_common_str orig\<rparr>)) (\<lambda>_.
     ret new)))"

definition cil_copy_sid :: "('h, 'b) sepol \<Rightarrow> symtab_ref option \<Rightarrow> addr \<Rightarrow> (('h, 'b, 'z) build_state_scheme, addr) cil" where
  "cil_copy_sid L symtab data = copy_shared L symtab data cil_sid_init"

definition cil_copy_cats :: "addr option \<Rightarrow> (('h, 'b, 'z) build_state_scheme, addr) cil" where
  "cil_copy_cats data =
     bind (lift (not_null data)) (\<lambda>data.
     bind (rd m_cats data) (\<lambda>orig.
     bind cil_cats_init (\<lambda>new.
     bind (wr m_cats m_cats_update new (\<lambda>x. x\<lparr>cats_str_expr := copy_expr (cats_str_expr orig),
       cats_datum_expr := cil_copy_expr (cats_datum_expr orig)\<rparr>)) (\<lambda>_.
     ret new))))"

definition cil_copy_fill_level :: "addr option \<Rightarrow> (('h, 'b, 'z) build_state_scheme, addr) cil" where
  "cil_copy_fill_level data =
     bind (lift (not_null data)) (\<lambda>data.
     bind cil_level_init (\<lambda>new.
     bind (rd m_level data) (\<lambda>orig.
     bind (wr m_level m_level_update new (level_sens_str_update (\<lambda>_. level_sens_str orig))) (\<lambda>_.
     bind (if level_cats orig \<noteq> None then
             bind (cil_copy_cats (level_cats orig)) (\<lambda>cats.
             wr m_level m_level_update new (level_cats_update (\<lambda>_. Some cats)))
           else ret ()) (\<lambda>_.
     ret new)))))"

definition cil_copy_fill_levelrange :: "addr option \<Rightarrow> addr \<Rightarrow> (('h, 'b, 'z) build_state_scheme, unit) cil" where
  "cil_copy_fill_levelrange data new =
     bind (lift (not_null data)) (\<lambda>data.
     bind (rd m_levelrange data) (\<lambda>orig.
     bind (if levelrange_low_str orig \<noteq> None then
             wr m_levelrange m_levelrange_update new (levelrange_low_str_update (\<lambda>_. levelrange_low_str orig))
           else
             bind (cil_copy_fill_level (levelrange_low orig)) (\<lambda>low.
             wr m_levelrange m_levelrange_update new (levelrange_low_update (\<lambda>_. Some low)))) (\<lambda>_.
     if levelrange_high_str orig \<noteq> None then
       wr m_levelrange m_levelrange_update new (levelrange_high_str_update (\<lambda>_. levelrange_high_str orig))
     else
       bind (cil_copy_fill_level (levelrange_high orig)) (\<lambda>high.
       wr m_levelrange m_levelrange_update new (levelrange_high_update (\<lambda>_. Some high))))))"

definition cil_copy_fill_context :: "addr option \<Rightarrow> addr \<Rightarrow> (('h, 'b, 'z) build_state_scheme, unit) cil" where
  "cil_copy_fill_context data new =
     bind (lift (not_null data)) (\<lambda>data.
     bind (rd m_context data) (\<lambda>orig.
     bind (wr m_context m_context_update new (\<lambda>x. x\<lparr>context_user_str := context_user_str orig,
       context_role_str := context_role_str orig, context_type_str := context_type_str orig\<rparr>)) (\<lambda>_.
     name_or_copy (context_range_str orig)
       (wr m_context m_context_update new (context_range_str_update (\<lambda>_. context_range_str orig)))
       cil_levelrange_init (\<lambda>a. wr m_context m_context_update new (context_range_update (\<lambda>_. Some a)))
       (cil_copy_fill_levelrange (context_range orig)))))"

definition cil_copy_fill_ipaddr :: "addr option \<Rightarrow> addr \<Rightarrow> (('h, 'b, 'z) build_state_scheme, unit) cil" where
  "cil_copy_fill_ipaddr data new =
     bind (lift (not_null data)) (\<lambda>data.
     bind (rd m_ipaddr data) (\<lambda>orig.
     wr m_ipaddr m_ipaddr_update new (\<lambda>x. x\<lparr>ipaddr_family := ipaddr_family orig, ipaddr_bytes := ipaddr_bytes orig\<rparr>)))"

definition cil_copy_sidcontext :: "addr \<Rightarrow> (('h, 'b, 'z) build_state_scheme, addr) cil" where
  "cil_copy_sidcontext data =
     bind (rd m_sidcontext data) (\<lambda>orig.
     bind cil_sidcontext_init (\<lambda>new.
     bind (name_or_copy (sidcontext_context_str orig)
       (wr m_sidcontext m_sidcontext_update new (sidcontext_context_str_update (\<lambda>_. sidcontext_context_str orig)))
       cil_context_init (\<lambda>a. wr m_sidcontext m_sidcontext_update new (sidcontext_context_update (\<lambda>_. Some a)))
       (cil_copy_fill_context (sidcontext_context orig))) (\<lambda>_.
     ret new)))"

definition cil_copy_sidorder :: "addr \<Rightarrow> (('h, 'b, 'z) build_state_scheme, addr) cil" where
  "cil_copy_sidorder data =
     bind (rd m_sidorder data) (\<lambda>orig.
     bind cil_sidorder_init (\<lambda>new.
     bind (wr m_sidorder m_sidorder_update new (\<lambda>x. x\<lparr>sidorder_sid_list_str := copy_strings (sidorder_sid_list_str orig)\<rparr>)) (\<lambda>_.
     ret new)))"

definition cil_copy_user :: "('h, 'b) sepol \<Rightarrow> symtab_ref option \<Rightarrow> addr \<Rightarrow> (('h, 'b, 'z) build_state_scheme, addr) cil" where
  "cil_copy_user L symtab data = copy_shared L symtab data cil_user_init"

definition cil_copy_userrole :: "addr \<Rightarrow> (('h, 'b, 'z) build_state_scheme, addr) cil" where
  "cil_copy_userrole data =
     bind (rd m_userrole data) (\<lambda>orig.
     bind cil_userrole_init (\<lambda>new.
     bind (wr m_userrole m_userrole_update new (\<lambda>x. x\<lparr>userrole_user_str := userrole_user_str orig,
         userrole_role_str := userrole_role_str orig\<rparr>)) (\<lambda>_.
     ret new)))"

definition cil_copy_userlevel :: "addr \<Rightarrow> (('h, 'b, 'z) build_state_scheme, addr) cil" where
  "cil_copy_userlevel data =
     bind (rd m_userlevel data) (\<lambda>orig.
     bind cil_userlevel_init (\<lambda>new.
     bind (wr m_userlevel m_userlevel_update new (\<lambda>x. x\<lparr>userlevel_user_str := userlevel_user_str orig\<rparr>)) (\<lambda>_.
     bind (if userlevel_level_str orig \<noteq> None then
             wr m_userlevel m_userlevel_update new (userlevel_level_str_update (\<lambda>_. userlevel_level_str orig))
           else
             bind (cil_copy_fill_level (userlevel_level orig)) (\<lambda>level.
             wr m_userlevel m_userlevel_update new (userlevel_level_update (\<lambda>_. Some level)))) (\<lambda>_.
     ret new))))"

definition cil_copy_userrange :: "addr \<Rightarrow> (('h, 'b, 'z) build_state_scheme, addr) cil" where
  "cil_copy_userrange data =
     bind (rd m_userrange data) (\<lambda>orig.
     bind cil_userrange_init (\<lambda>new.
     bind (wr m_userrange m_userrange_update new (\<lambda>x. x\<lparr>userrange_user_str := userrange_user_str orig\<rparr>)) (\<lambda>_.
     bind (name_or_copy (userrange_range_str orig)
       (wr m_userrange m_userrange_update new (userrange_range_str_update (\<lambda>_. userrange_range_str orig)))
       cil_levelrange_init (\<lambda>a. wr m_userrange m_userrange_update new (userrange_range_update (\<lambda>_. Some a)))
       (cil_copy_fill_levelrange (userrange_range orig))) (\<lambda>_.
     ret new))))"

definition cil_copy_userprefix :: "addr \<Rightarrow> (('h, 'b, 'z) build_state_scheme, addr) cil" where
  "cil_copy_userprefix data =
     bind (rd m_userprefix data) (\<lambda>orig.
     bind cil_userprefix_init (\<lambda>new.
     bind (wr m_userprefix m_userprefix_update new (\<lambda>x. x\<lparr>userprefix_user_str := userprefix_user_str orig,
         userprefix_prefix_str := userprefix_prefix_str orig\<rparr>)) (\<lambda>_.
     ret new)))"

definition cil_copy_role :: "('h, 'b) sepol \<Rightarrow> symtab_ref option \<Rightarrow> addr \<Rightarrow> (('h, 'b, 'z) build_state_scheme, addr) cil" where
  "cil_copy_role L symtab data = copy_shared L symtab data cil_role_init"

definition cil_copy_roletype :: "addr \<Rightarrow> (('h, 'b, 'z) build_state_scheme, addr) cil" where
  "cil_copy_roletype data =
     bind (rd m_roletype data) (\<lambda>orig.
     bind cil_roletype_init (\<lambda>new.
     bind (wr m_roletype m_roletype_update new (\<lambda>x. x\<lparr>roletype_role_str := roletype_role_str orig,
         roletype_type_str := roletype_type_str orig\<rparr>)) (\<lambda>_.
     ret new)))"

definition cil_copy_roleattribute :: "('h, 'b) sepol \<Rightarrow> symtab_ref option \<Rightarrow> addr \<Rightarrow> (('h, 'b, 'z) build_state_scheme, addr) cil" where
  "cil_copy_roleattribute L symtab data = copy_shared L symtab data cil_roleattribute_init"

definition cil_copy_roleattributeset :: "addr \<Rightarrow> (('h, 'b, 'z) build_state_scheme, addr) cil" where
  "cil_copy_roleattributeset data =
     bind (rd m_roleattributeset data) (\<lambda>orig.
     bind cil_roleattributeset_init (\<lambda>new.
     bind (wr m_roleattributeset m_roleattributeset_update new (\<lambda>x. x\<lparr>roleattributeset_attr_str := roleattributeset_attr_str orig,
         roleattributeset_str_expr := copy_expr (roleattributeset_str_expr orig),
         roleattributeset_datum_expr := cil_copy_expr (roleattributeset_datum_expr orig)\<rparr>)) (\<lambda>_.
     ret new)))"

definition cil_copy_roleallow :: "addr \<Rightarrow> (('h, 'b, 'z) build_state_scheme, addr) cil" where
  "cil_copy_roleallow data =
     bind (rd m_roleallow data) (\<lambda>orig.
     bind cil_roleallow_init (\<lambda>new.
     bind (wr m_roleallow m_roleallow_update new (\<lambda>x. x\<lparr>roleallow_src_str := roleallow_src_str orig,
         roleallow_tgt_str := roleallow_tgt_str orig\<rparr>)) (\<lambda>_.
     ret new)))"

definition cil_copy_type :: "('h, 'b) sepol \<Rightarrow> symtab_ref option \<Rightarrow> addr \<Rightarrow> (('h, 'b, 'z) build_state_scheme, addr) cil" where
  "cil_copy_type L symtab data = copy_shared L symtab data cil_type_init"

definition cil_copy_typepermissive :: "addr \<Rightarrow> (('h, 'b, 'z) build_state_scheme, addr) cil" where
  "cil_copy_typepermissive data =
     bind (rd m_typepermissive data) (\<lambda>orig.
     bind cil_typepermissive_init (\<lambda>new.
     bind (wr m_typepermissive m_typepermissive_update new (\<lambda>x. x\<lparr>typepermissive_type_str := typepermissive_type_str orig\<rparr>)) (\<lambda>_.
     ret new)))"

definition cil_copy_typeattribute :: "('h, 'b) sepol \<Rightarrow> symtab_ref option \<Rightarrow> addr \<Rightarrow> (('h, 'b, 'z) build_state_scheme, addr) cil" where
  "cil_copy_typeattribute L symtab data = copy_shared L symtab data cil_typeattribute_init"

definition cil_copy_typeattributeset :: "addr \<Rightarrow> (('h, 'b, 'z) build_state_scheme, addr) cil" where
  "cil_copy_typeattributeset data =
     bind (rd m_typeattributeset data) (\<lambda>orig.
     bind cil_typeattributeset_init (\<lambda>new.
     bind (wr m_typeattributeset m_typeattributeset_update new (\<lambda>x. x\<lparr>typeattributeset_attr_str := typeattributeset_attr_str orig,
         typeattributeset_str_expr := copy_expr (typeattributeset_str_expr orig),
         typeattributeset_datum_expr := cil_copy_expr (typeattributeset_datum_expr orig)\<rparr>)) (\<lambda>_.
     ret new)))"

definition cil_copy_alias :: "('h, 'b) sepol \<Rightarrow> symtab_ref option \<Rightarrow> addr \<Rightarrow> (('h, 'b, 'z) build_state_scheme, addr) cil" where
  "cil_copy_alias L symtab data = copy_unique L symtab data cil_alias_init"

definition cil_copy_aliasactual :: "addr \<Rightarrow> (('h, 'b, 'z) build_state_scheme, addr) cil" where
  "cil_copy_aliasactual data =
     bind (rd m_aliasactual data) (\<lambda>orig.
     bind cil_aliasactual_init (\<lambda>new.
     bind (wr m_aliasactual m_aliasactual_update new (\<lambda>x. x\<lparr>aliasactual_alias_str := aliasactual_alias_str orig,
         aliasactual_actual_str := aliasactual_actual_str orig\<rparr>)) (\<lambda>_.
     ret new)))"

definition cil_copy_roletransition :: "addr \<Rightarrow> (('h, 'b, 'z) build_state_scheme, addr) cil" where
  "cil_copy_roletransition data =
     bind (rd m_roletransition data) (\<lambda>orig.
     bind cil_roletransition_init (\<lambda>new.
     bind (wr m_roletransition m_roletransition_update new (\<lambda>x. x\<lparr>roletransition_src_str := roletransition_src_str orig,
         roletransition_tgt_str := roletransition_tgt_str orig,
         roletransition_obj_str := roletransition_obj_str orig,
         roletransition_result_str := roletransition_result_str orig\<rparr>)) (\<lambda>_.
     ret new)))"

definition cil_copy_nametypetransition :: "addr \<Rightarrow> (('h, 'b, 'z) build_state_scheme, addr) cil" where
  "cil_copy_nametypetransition data =
     bind (rd m_nametypetransition data) (\<lambda>orig.
     bind cil_nametypetransition_init (\<lambda>new.
     bind (wr m_nametypetransition m_nametypetransition_update new (\<lambda>x. x\<lparr>nametypetransition_src_str := nametypetransition_src_str orig,
         nametypetransition_tgt_str := nametypetransition_tgt_str orig,
         nametypetransition_obj_str := nametypetransition_obj_str orig,
         nametypetransition_name_str := nametypetransition_name_str orig,
         nametypetransition_result_str := nametypetransition_result_str orig\<rparr>)) (\<lambda>_.
     ret new)))"

definition cil_copy_rangetransition :: "addr \<Rightarrow> (('h, 'b, 'z) build_state_scheme, addr) cil" where
  "cil_copy_rangetransition data =
     bind (rd m_rangetransition data) (\<lambda>orig.
     bind cil_rangetransition_init (\<lambda>new.
     bind (wr m_rangetransition m_rangetransition_update new (\<lambda>x. x\<lparr>rangetransition_src_str := rangetransition_src_str orig,
         rangetransition_exec_str := rangetransition_exec_str orig,
         rangetransition_obj_str := rangetransition_obj_str orig\<rparr>)) (\<lambda>_.
     bind (name_or_copy (rangetransition_range_str orig)
       (wr m_rangetransition m_rangetransition_update new (rangetransition_range_str_update (\<lambda>_. rangetransition_range_str orig)))
       cil_levelrange_init (\<lambda>a. wr m_rangetransition m_rangetransition_update new (rangetransition_range_update (\<lambda>_. Some a)))
       (cil_copy_fill_levelrange (rangetransition_range orig))) (\<lambda>_.
     ret new))))"

definition cil_copy_bool :: "('h, 'b) sepol \<Rightarrow> symtab_ref option \<Rightarrow> addr \<Rightarrow> (('h, 'b, 'z) build_state_scheme, addr) cil" where
  "cil_copy_bool L symtab data =
     copy_unique L symtab data (
        bind (rd m_bool data) (\<lambda>orig.
        bind cil_bool_init (\<lambda>new.
        bind (wr m_bool m_bool_update new (\<lambda>x. x\<lparr>bool_value := bool_value orig\<rparr>)) (\<lambda>_.
        ret new))))"

definition cil_copy_tunable :: "('h, 'b) sepol \<Rightarrow> symtab_ref option \<Rightarrow> addr \<Rightarrow> (('h, 'b, 'z) build_state_scheme, addr) cil" where
  "cil_copy_tunable L symtab data =
     copy_unique L symtab data (
        bind (rd m_tunable data) (\<lambda>orig.
        bind cil_tunable_init (\<lambda>new.
        bind (wr m_tunable m_tunable_update new (\<lambda>x. x\<lparr>tunable_value := tunable_value orig\<rparr>)) (\<lambda>_.
        ret new))))"

definition cil_copy_avrule :: "addr \<Rightarrow> (('h, 'b, 'z) build_state_scheme, addr) cil" where
  "cil_copy_avrule data =
     bind (rd m_avrule data) (\<lambda>orig.
     bind cil_avrule_init (\<lambda>new.
     bind (cil_copy_classperms_list (avrule_classperms orig)) (\<lambda>cps.
     bind (wr m_avrule m_avrule_update new (\<lambda>x. x\<lparr>avrule_rule_kind := avrule_rule_kind orig,
         avrule_src_str := avrule_src_str orig, avrule_tgt_str := avrule_tgt_str orig,
         avrule_classperms := cps\<rparr>)) (\<lambda>_.
     ret new))))"

definition cil_copy_type_rule :: "addr \<Rightarrow> (('h, 'b, 'z) build_state_scheme, addr) cil" where
  "cil_copy_type_rule data =
     bind (rd m_type_rule data) (\<lambda>orig.
     bind cil_type_rule_init (\<lambda>new.
     bind (wr m_type_rule m_type_rule_update new (\<lambda>x. x\<lparr>type_rule_rule_kind := type_rule_rule_kind orig,
         type_rule_src_str := type_rule_src_str orig, type_rule_tgt_str := type_rule_tgt_str orig,
         type_rule_obj_str := type_rule_obj_str orig,
         type_rule_result_str := type_rule_result_str orig\<rparr>)) (\<lambda>_.
     ret new)))"

definition cil_copy_sens :: "('h, 'b) sepol \<Rightarrow> symtab_ref option \<Rightarrow> addr \<Rightarrow> (('h, 'b, 'z) build_state_scheme, addr) cil" where
  "cil_copy_sens L symtab data = copy_shared L symtab data cil_sens_init"

definition cil_copy_cat :: "('h, 'b) sepol \<Rightarrow> symtab_ref option \<Rightarrow> addr \<Rightarrow> (('h, 'b, 'z) build_state_scheme, addr) cil" where
  "cil_copy_cat L symtab data = copy_shared L symtab data cil_cat_init"

definition cil_copy_catset :: "('h, 'b) sepol \<Rightarrow> symtab_ref option \<Rightarrow> addr \<Rightarrow> (('h, 'b, 'z) build_state_scheme, addr) cil" where
  "cil_copy_catset L symtab data =
     copy_unique L symtab data (
        bind (rd m_catset data) (\<lambda>orig.
        bind cil_catset_init (\<lambda>new.
        bind (cil_copy_cats (catset_cats orig)) (\<lambda>cats.
        bind (wr m_catset m_catset_update new (\<lambda>x. x\<lparr>catset_cats := Some cats\<rparr>)) (\<lambda>_.
        ret new)))))"

definition cil_copy_senscat :: "addr \<Rightarrow> (('h, 'b, 'z) build_state_scheme, addr) cil" where
  "cil_copy_senscat data =
     bind (rd m_senscat data) (\<lambda>orig.
     bind cil_senscat_init (\<lambda>new.
     bind (cil_copy_cats (senscat_cats orig)) (\<lambda>cats.
     bind (wr m_senscat m_senscat_update new (\<lambda>x. x\<lparr>senscat_sens_str := senscat_sens_str orig,
         senscat_cats := Some cats\<rparr>)) (\<lambda>_.
     ret new))))"

definition cil_copy_catorder :: "addr \<Rightarrow> (('h, 'b, 'z) build_state_scheme, addr) cil" where
  "cil_copy_catorder data =
     bind (rd m_catorder data) (\<lambda>orig.
     bind cil_catorder_init (\<lambda>new.
     bind (wr m_catorder m_catorder_update new (\<lambda>x. x\<lparr>catorder_cat_list_str := copy_strings (catorder_cat_list_str orig)\<rparr>)) (\<lambda>_.
     ret new)))"

definition cil_copy_sensitivityorder :: "addr \<Rightarrow> (('h, 'b, 'z) build_state_scheme, addr) cil" where
  "cil_copy_sensitivityorder data =
     bind (rd m_sensorder data) (\<lambda>orig.
     bind cil_sensorder_init (\<lambda>new.
     bind (wr m_sensorder m_sensorder_update new (\<lambda>x. x\<lparr>sensorder_sens_list_str := copy_strings (sensorder_sens_list_str orig)\<rparr>)) (\<lambda>_.
     ret new)))"

definition cil_copy_level ::
  "('h, 'b) sepol \<Rightarrow> symtab_ref option \<Rightarrow> addr \<Rightarrow> (('h, 'b, 'z) build_state_scheme, addr option) cil"
where
  "cil_copy_level L symtab data =
     copy_unique_named L symtab data (bind (cil_copy_fill_level (Some data)) (\<lambda>new. ret (Some new)))"

definition cil_copy_levelrange ::
  "('h, 'b) sepol \<Rightarrow> symtab_ref option \<Rightarrow> addr \<Rightarrow> (('h, 'b, 'z) build_state_scheme, addr option) cil"
where
  "cil_copy_levelrange L symtab data =
     copy_unique_named L symtab data (
        bind cil_levelrange_init (\<lambda>new. bind (cil_copy_fill_levelrange (Some data) new) (\<lambda>_. ret (Some new))))"

definition cil_copy_context ::
  "('h, 'b) sepol \<Rightarrow> symtab_ref option \<Rightarrow> addr \<Rightarrow> (('h, 'b, 'z) build_state_scheme, addr option) cil"
where
  "cil_copy_context L symtab data =
     copy_unique_named L symtab data (
        bind cil_context_init (\<lambda>new. bind (cil_copy_fill_context (Some data) new) (\<lambda>_. ret (Some new))))"

definition cil_copy_netifcon :: "addr \<Rightarrow> (('h, 'b, 'z) build_state_scheme, addr) cil" where
  "cil_copy_netifcon data =
     bind (rd m_netifcon data) (\<lambda>orig.
     bind cil_netifcon_init (\<lambda>new.
     bind (wr m_netifcon m_netifcon_update new (\<lambda>x. x\<lparr>netifcon_interface_str := netifcon_interface_str orig\<rparr>)) (\<lambda>_.
     bind (name_or_copy (netifcon_if_context_str orig)
       (wr m_netifcon m_netifcon_update new (netifcon_if_context_str_update (\<lambda>_. netifcon_if_context_str orig)))
       cil_context_init (\<lambda>a. wr m_netifcon m_netifcon_update new (netifcon_if_context_update (\<lambda>_. Some a)))
       (cil_copy_fill_context (netifcon_if_context orig))) (\<lambda>_.
     bind (name_or_copy (netifcon_packet_context_str orig)
       (wr m_netifcon m_netifcon_update new (netifcon_packet_context_str_update (\<lambda>_. netifcon_packet_context_str orig)))
       cil_context_init (\<lambda>a. wr m_netifcon m_netifcon_update new (netifcon_packet_context_update (\<lambda>_. Some a)))
       (cil_copy_fill_context (netifcon_packet_context orig))) (\<lambda>_.
     ret new)))))"

definition cil_copy_genfscon :: "addr \<Rightarrow> (('h, 'b, 'z) build_state_scheme, addr) cil" where
  "cil_copy_genfscon data =
     bind (rd m_genfscon data) (\<lambda>orig.
     bind cil_genfscon_init (\<lambda>new.
     bind (wr m_genfscon m_genfscon_update new (\<lambda>x. x\<lparr>genfscon_fs_str := genfscon_fs_str orig,
         genfscon_path_str := genfscon_path_str orig\<rparr>)) (\<lambda>_.
     bind (name_or_copy (genfscon_context_str orig)
       (wr m_genfscon m_genfscon_update new (genfscon_context_str_update (\<lambda>_. genfscon_context_str orig)))
       cil_context_init (\<lambda>a. wr m_genfscon m_genfscon_update new (genfscon_context_update (\<lambda>_. Some a)))
       (cil_copy_fill_context (genfscon_context orig))) (\<lambda>_.
     ret new))))"

definition cil_copy_filecon :: "addr \<Rightarrow> (('h, 'b, 'z) build_state_scheme, addr) cil" where
  "cil_copy_filecon data =
     bind (rd m_filecon data) (\<lambda>orig.
     bind cil_filecon_init (\<lambda>new.
     bind (wr m_filecon m_filecon_update new (\<lambda>x. x\<lparr>filecon_path_str := filecon_path_str orig,
         filecon_kind := filecon_kind orig\<rparr>)) (\<lambda>_.
     bind (if filecon_context_str orig = None \<and> filecon_context orig = None then ret ()
           else
     name_or_copy (filecon_context_str orig)
       (wr m_filecon m_filecon_update new (filecon_context_str_update (\<lambda>_. filecon_context_str orig)))
       cil_context_init (\<lambda>a. wr m_filecon m_filecon_update new (filecon_context_update (\<lambda>_. Some a)))
       (cil_copy_fill_context (filecon_context orig))) (\<lambda>_.
     ret new))))"

definition cil_copy_nodecon :: "addr \<Rightarrow> (('h, 'b, 'z) build_state_scheme, addr) cil" where
  "cil_copy_nodecon data =
     bind (rd m_nodecon data) (\<lambda>orig.
     bind cil_nodecon_init (\<lambda>new.
     bind (name_or_copy (nodecon_addr_str orig)
       (wr m_nodecon m_nodecon_update new (nodecon_addr_str_update (\<lambda>_. nodecon_addr_str orig)))
       cil_ipaddr_init (\<lambda>a. wr m_nodecon m_nodecon_update new (nodecon_addr_update (\<lambda>_. Some a)))
       (cil_copy_fill_ipaddr (nodecon_addr orig))) (\<lambda>_.
     bind (name_or_copy (nodecon_mask_str orig)
       (wr m_nodecon m_nodecon_update new (nodecon_mask_str_update (\<lambda>_. nodecon_mask_str orig)))
       cil_ipaddr_init (\<lambda>a. wr m_nodecon m_nodecon_update new (nodecon_mask_update (\<lambda>_. Some a)))
       (cil_copy_fill_ipaddr (nodecon_mask orig))) (\<lambda>_.
     bind (name_or_copy (nodecon_context_str orig)
       (wr m_nodecon m_nodecon_update new (nodecon_context_str_update (\<lambda>_. nodecon_context_str orig)))
       cil_context_init (\<lambda>a. wr m_nodecon m_nodecon_update new (nodecon_context_update (\<lambda>_. Some a)))
       (cil_copy_fill_context (nodecon_context orig))) (\<lambda>_.
     ret new)))))"

definition cil_copy_portcon :: "addr \<Rightarrow> (('h, 'b, 'z) build_state_scheme, addr) cil" where
  "cil_copy_portcon data =
     bind (rd m_portcon data) (\<lambda>orig.
     bind cil_portcon_init (\<lambda>new.
     bind (wr m_portcon m_portcon_update new (\<lambda>x. x\<lparr>portcon_proto := portcon_proto orig,
         portcon_port_low := portcon_port_low orig, portcon_port_high := portcon_port_high orig\<rparr>)) (\<lambda>_.
     bind (name_or_copy (portcon_context_str orig)
       (wr m_portcon m_portcon_update new (portcon_context_str_update (\<lambda>_. portcon_context_str orig)))
       cil_context_init (\<lambda>a. wr m_portcon m_portcon_update new (portcon_context_update (\<lambda>_. Some a)))
       (cil_copy_fill_context (portcon_context orig))) (\<lambda>_.
     ret new))))"

definition cil_copy_pirqcon :: "addr \<Rightarrow> (('h, 'b, 'z) build_state_scheme, addr) cil" where
  "cil_copy_pirqcon data =
     bind (rd m_pirqcon data) (\<lambda>orig.
     bind cil_pirqcon_init (\<lambda>new.
     bind (wr m_pirqcon m_pirqcon_update new (\<lambda>x. x\<lparr>pirqcon_pirq := pirqcon_pirq orig\<rparr>)) (\<lambda>_.
     bind (name_or_copy (pirqcon_context_str orig)
       (wr m_pirqcon m_pirqcon_update new (pirqcon_context_str_update (\<lambda>_. pirqcon_context_str orig)))
       cil_context_init (\<lambda>a. wr m_pirqcon m_pirqcon_update new (pirqcon_context_update (\<lambda>_. Some a)))
       (cil_copy_fill_context (pirqcon_context orig))) (\<lambda>_.
     ret new))))"

definition cil_copy_iomemcon :: "addr \<Rightarrow> (('h, 'b, 'z) build_state_scheme, addr) cil" where
  "cil_copy_iomemcon data =
     bind (rd m_iomemcon data) (\<lambda>orig.
     bind cil_iomemcon_init (\<lambda>new.
     bind (wr m_iomemcon m_iomemcon_update new (\<lambda>x. x\<lparr>iomemcon_iomem_low := iomemcon_iomem_low orig,
         iomemcon_iomem_high := iomemcon_iomem_high orig\<rparr>)) (\<lambda>_.
     bind (name_or_copy (iomemcon_context_str orig)
       (wr m_iomemcon m_iomemcon_update new (iomemcon_context_str_update (\<lambda>_. iomemcon_context_str orig)))
       cil_context_init (\<lambda>a. wr m_iomemcon m_iomemcon_update new (iomemcon_context_update (\<lambda>_. Some a)))
       (cil_copy_fill_context (iomemcon_context orig))) (\<lambda>_.
     ret new))))"

definition cil_copy_ioportcon :: "addr \<Rightarrow> (('h, 'b, 'z) build_state_scheme, addr) cil" where
  "cil_copy_ioportcon data =
     bind (rd m_ioportcon data) (\<lambda>orig.
     bind cil_ioportcon_init (\<lambda>new.
     bind (wr m_ioportcon m_ioportcon_update new (\<lambda>x. x\<lparr>ioportcon_ioport_low := ioportcon_ioport_low orig,
         ioportcon_ioport_high := ioportcon_ioport_high orig\<rparr>)) (\<lambda>_.
     bind (name_or_copy (ioportcon_context_str orig)
       (wr m_ioportcon m_ioportcon_update new (ioportcon_context_str_update (\<lambda>_. ioportcon_context_str orig)))
       cil_context_init (\<lambda>a. wr m_ioportcon m_ioportcon_update new (ioportcon_context_update (\<lambda>_. Some a)))
       (cil_copy_fill_context (ioportcon_context orig))) (\<lambda>_.
     ret new))))"

definition cil_copy_pcidevicecon :: "addr \<Rightarrow> (('h, 'b, 'z) build_state_scheme, addr) cil" where
  "cil_copy_pcidevicecon data =
     bind (rd m_pcidevicecon data) (\<lambda>orig.
     bind cil_pcidevicecon_init (\<lambda>new.
     bind (wr m_pcidevicecon m_pcidevicecon_update new (\<lambda>x. x\<lparr>pcidevicecon_dev := pcidevicecon_dev orig\<rparr>)) (\<lambda>_.
     bind (name_or_copy (pcidevicecon_context_str orig)
       (wr m_pcidevicecon m_pcidevicecon_update new (pcidevicecon_context_str_update (\<lambda>_. pcidevicecon_context_str orig)))
       cil_context_init (\<lambda>a. wr m_pcidevicecon m_pcidevicecon_update new (pcidevicecon_context_update (\<lambda>_. Some a)))
       (cil_copy_fill_context (pcidevicecon_context orig))) (\<lambda>_.
     ret new))))"

definition cil_copy_fsuse :: "addr \<Rightarrow> (('h, 'b, 'z) build_state_scheme, addr) cil" where
  "cil_copy_fsuse data =
     bind (rd m_fsuse data) (\<lambda>orig.
     bind cil_fsuse_init (\<lambda>new.
     bind (wr m_fsuse m_fsuse_update new (\<lambda>x. x\<lparr>fsuse_kind := fsuse_kind orig,
         fsuse_fs_str := fsuse_fs_str orig\<rparr>)) (\<lambda>_.
     bind (name_or_copy (fsuse_context_str orig)
       (wr m_fsuse m_fsuse_update new (fsuse_context_str_update (\<lambda>_. fsuse_context_str orig)))
       cil_context_init (\<lambda>a. wr m_fsuse m_fsuse_update new (fsuse_context_update (\<lambda>_. Some a)))
       (cil_copy_fill_context (fsuse_context orig))) (\<lambda>_.
     ret new))))"

definition cil_copy_constrain :: "addr \<Rightarrow> (('h, 'b, 'z) build_state_scheme, addr) cil" where
  "cil_copy_constrain data =
     bind (rd m_constrain data) (\<lambda>orig.
     bind cil_constrain_init (\<lambda>new.
     bind (cil_copy_classperms_list (constrain_classperms orig)) (\<lambda>cps.
     bind (wr m_constrain m_constrain_update new (\<lambda>x. x\<lparr>constrain_classperms := cps,
         constrain_str_expr := copy_expr (constrain_str_expr orig),
         constrain_datum_expr := cil_copy_expr (constrain_datum_expr orig)\<rparr>)) (\<lambda>_.
     ret new))))"

definition cil_copy_validatetrans :: "addr \<Rightarrow> (('h, 'b, 'z) build_state_scheme, addr) cil" where
  "cil_copy_validatetrans data =
     bind (rd m_validatetrans data) (\<lambda>orig.
     bind cil_validatetrans_init (\<lambda>new.
     bind (wr m_validatetrans m_validatetrans_update new (\<lambda>x. x\<lparr>validatetrans_class_str := validatetrans_class_str orig,
         validatetrans_str_expr := copy_expr (validatetrans_str_expr orig),
         validatetrans_datum_expr := cil_copy_expr (validatetrans_datum_expr orig)\<rparr>)) (\<lambda>_.
     ret new)))"

text \<open>The arguments of a call are a parse tree, which is a value here: its copy by \<open>cil_copy_ast\<close> is the same value.\<close>

definition cil_copy_call :: "addr \<Rightarrow> (('h, 'b, 'z) build_state_scheme, addr) cil" where
  "cil_copy_call data =
     bind (rd m_call data) (\<lambda>orig.
     bind cil_call_init (\<lambda>new.
     bind (wr m_call m_call_update new (\<lambda>x. x\<lparr>call_macro_str := call_macro_str orig, call_macro := call_macro orig\<rparr>)) (\<lambda>_.
     bind (gets (\<lambda>s. args_trees s data)) (\<lambda>args_tree.
     bind (if args_tree \<noteq> None then modify (args_trees_update (\<lambda>m. m(new := args_tree))) else ret ()) (\<lambda>_.
     bind (wr m_call m_call_update new (call_copied_update (\<lambda>_. call_copied orig))) (\<lambda>_.
     ret new))))))"

text \<open>A macro may be declared again with the same parameters.\<close>

fun same_params :: "(cstring \<times> cil_flavor) list \<Rightarrow> (cstring \<times> cil_flavor) list \<Rightarrow> bool" where
  "same_params [] curr_new \<longleftrightarrow> curr_new = []"
| "same_params (param_orig # rest) [] \<longleftrightarrow> False"
| "same_params (param_orig # rest) (param_new # rest') \<longleftrightarrow>
     fst param_orig = fst param_new \<and> snd param_orig = snd param_new \<and> same_params rest rest'"

definition cil_copy_macro :: "('h, 'b) sepol \<Rightarrow> symtab_ref option \<Rightarrow> addr \<Rightarrow> (('h, 'b, 'z) build_state_scheme, addr) cil" where
  "cil_copy_macro L symtab data =
     bind (rd datums data) (\<lambda>d.
     bind (existing L symtab (datum_name d)) (\<lambda>datum.
     bind (rd m_macro data) (\<lambda>orig.
     case datum of
       None \<Rightarrow>
         bind (cil_macro_init L) (\<lambda>new.
         bind (wr m_macro m_macro_update new (macro_params_update (\<lambda>_. map_option copy_params (macro_params orig)))) (\<lambda>_.
         ret new))
     | Some d \<Rightarrow>
         bind (rd m_macro d) (\<lambda>found.
         let curr_new = (case macro_params found of None \<Rightarrow> [] | Some ps \<Rightarrow> ps);
             curr_orig = (case macro_params orig of None \<Rightarrow> [] | Some ps \<Rightarrow> ps)
         in if (if curr_orig \<noteq> [] \<and> curr_new \<noteq> [] then same_params curr_orig curr_new
                else curr_orig = [] \<and> curr_new = [])
            then ret d else fail SEPOL_ERR))))"

definition cil_copy_optional :: "('h, 'b) sepol \<Rightarrow> symtab_ref option \<Rightarrow> addr \<Rightarrow> (('h, 'b, 'z) build_state_scheme, addr) cil" where
  "cil_copy_optional L symtab data = copy_shared L symtab data cil_optional_init"

definition cil_copy_ipaddr :: "('h, 'b) sepol \<Rightarrow> symtab_ref option \<Rightarrow> addr \<Rightarrow> (('h, 'b, 'z) build_state_scheme, addr) cil" where
  "cil_copy_ipaddr L symtab data =
     copy_unique L symtab data (
        bind cil_ipaddr_init (\<lambda>new. bind (cil_copy_fill_ipaddr (Some data) new) (\<lambda>_. ret new)))"

definition cil_copy_condblock :: "('h, 'b) sepol \<Rightarrow> addr \<Rightarrow> (('h, 'b, 'z) build_state_scheme, addr) cil" where
  "cil_copy_condblock L data =
     bind (cil_condblock_init L) (\<lambda>new.
     bind (rd m_condblock data) (\<lambda>orig.
     bind (wr m_condblock m_condblock_update new (condblock_kind_update (\<lambda>_. condblock_kind orig))) (\<lambda>_.
     ret new)))"

definition cil_copy_boolif :: "addr \<Rightarrow> (('h, 'b, 'z) build_state_scheme, addr) cil" where
  "cil_copy_boolif data =
     bind (rd m_booleanif data) (\<lambda>orig.
     bind cil_boolif_init (\<lambda>new.
     bind (wr m_booleanif m_booleanif_update new (\<lambda>x. x\<lparr>booleanif_str_expr := copy_expr (booleanif_str_expr orig),
         booleanif_datum_expr := cil_copy_expr (booleanif_datum_expr orig),
         booleanif_preserved_tunable := booleanif_preserved_tunable orig\<rparr>)) (\<lambda>_.
     ret new)))"

definition cil_copy_tunif :: "addr \<Rightarrow> (('h, 'b, 'z) build_state_scheme, addr) cil" where
  "cil_copy_tunif data =
     bind (rd m_tunableif data) (\<lambda>orig.
     bind cil_tunif_init (\<lambda>new.
     bind (wr m_tunableif m_tunableif_update new (\<lambda>x. x\<lparr>tunableif_str_expr := copy_expr (tunableif_str_expr orig),
         tunableif_datum_expr := cil_copy_expr (tunableif_datum_expr orig)\<rparr>)) (\<lambda>_.
     ret new)))"

definition cil_copy_default :: "addr \<Rightarrow> (('h, 'b, 'z) build_state_scheme, addr) cil" where
  "cil_copy_default data =
     bind (rd m_default data) (\<lambda>orig.
     bind cil_default_init (\<lambda>new.
     bind (wr m_default m_default_update new (\<lambda>x. x\<lparr>default_kind := default_kind orig,
         default_object := default_object orig,
         default_class_strs := map_option copy_strings (default_class_strs orig)\<rparr>)) (\<lambda>_.
     ret new)))"

definition cil_copy_defaultrange :: "addr \<Rightarrow> (('h, 'b, 'z) build_state_scheme, addr) cil" where
  "cil_copy_defaultrange data =
     bind (rd m_defaultrange data) (\<lambda>orig.
     bind cil_defaultrange_init (\<lambda>new.
     bind (wr m_defaultrange m_defaultrange_update new (\<lambda>x. x\<lparr>defaultrange_object_range := defaultrange_object_range orig,
         defaultrange_class_strs := map_option copy_strings (defaultrange_class_strs orig)\<rparr>)) (\<lambda>_.
     ret new)))"

definition cil_copy_handleunknown :: "addr \<Rightarrow> (('h, 'b, 'z) build_state_scheme, addr) cil" where
  "cil_copy_handleunknown data =
     bind (rd m_handleunknown data) (\<lambda>orig.
     bind cil_handleunknown_init (\<lambda>new.
     bind (wr m_handleunknown m_handleunknown_update new (\<lambda>x. x\<lparr>handleunknown_handle_unknown := handleunknown_handle_unknown orig\<rparr>)) (\<lambda>_.
     ret new)))"

definition cil_copy_mls :: "addr \<Rightarrow> (('h, 'b, 'z) build_state_scheme, addr) cil" where
  "cil_copy_mls data =
     bind (rd m_mls data) (\<lambda>orig.
     bind cil_mls_init (\<lambda>new.
     bind (wr m_mls m_mls_update new (\<lambda>x. x\<lparr>mls_value := mls_value orig\<rparr>)) (\<lambda>_.
     ret new)))"

definition cil_copy_bounds :: "addr \<Rightarrow> (('h, 'b, 'z) build_state_scheme, addr) cil" where
  "cil_copy_bounds data =
     bind (rd m_bounds data) (\<lambda>orig.
     bind cil_bounds_init (\<lambda>new.
     bind (wr m_bounds m_bounds_update new (\<lambda>x. x\<lparr>bounds_parent_str := bounds_parent_str orig,
         bounds_child_str := bounds_child_str orig\<rparr>)) (\<lambda>_.
     ret new)))"

subsection \<open>The dispatch on the flavor\<close>

definition some :: "('s, addr) cil \<Rightarrow> ('s, addr option) cil" where
  "some m = bind m (\<lambda>a. ret (Some a))"

text \<open>The choice of the copy function, in two halves.\<close>

definition copy_func2 ::
  "('h, 'b) sepol \<Rightarrow> cil_flavor \<Rightarrow> addr \<Rightarrow> symtab_ref option \<Rightarrow> (('h, 'b, 'z) build_state_scheme, addr option) cil"
where
  "copy_func2 L f a symtab =
    (if f = CIL_AVRULE then some (cil_copy_avrule a)
     else if f = CIL_TYPE_RULE then some (cil_copy_type_rule a)
     else if f = CIL_SENS then some (cil_copy_sens L symtab a)
     else if f = CIL_SENSALIAS then some (cil_copy_alias L symtab a)
     else if f = CIL_SENSALIASACTUAL then some (cil_copy_aliasactual a)
     else if f = CIL_CAT then some (cil_copy_cat L symtab a)
     else if f = CIL_CATALIAS then some (cil_copy_alias L symtab a)
     else if f = CIL_CATALIASACTUAL then some (cil_copy_aliasactual a)
     else if f = CIL_CATSET then some (cil_copy_catset L symtab a)
     else if f = CIL_SENSCAT then some (cil_copy_senscat a)
     else if f = CIL_CATORDER then some (cil_copy_catorder a)
     else if f = CIL_SENSITIVITYORDER then some (cil_copy_sensitivityorder a)
     else if f = CIL_LEVEL then cil_copy_level L symtab a
     else if f = CIL_LEVELRANGE then cil_copy_levelrange L symtab a
     else if f = CIL_CONTEXT then cil_copy_context L symtab a
     else if f = CIL_NETIFCON then some (cil_copy_netifcon a)
     else if f = CIL_GENFSCON then some (cil_copy_genfscon a)
     else if f = CIL_FILECON then some (cil_copy_filecon a)
     else if f = CIL_NODECON then some (cil_copy_nodecon a)
     else if f = CIL_PORTCON then some (cil_copy_portcon a)
     else if f = CIL_PIRQCON then some (cil_copy_pirqcon a)
     else if f = CIL_IOMEMCON then some (cil_copy_iomemcon a)
     else if f = CIL_IOPORTCON then some (cil_copy_ioportcon a)
     else if f = CIL_PCIDEVICECON then some (cil_copy_pcidevicecon a)
     else if f = CIL_FSUSE then some (cil_copy_fsuse a)
     else if f = CIL_CONSTRAIN \<or> f = CIL_MLSCONSTRAIN then some (cil_copy_constrain a)
     else if f = CIL_VALIDATETRANS \<or> f = CIL_MLSVALIDATETRANS then some (cil_copy_validatetrans a)
     else if f = CIL_CALL then some (cil_copy_call a)
     else if f = CIL_MACRO then some (cil_copy_macro L symtab a)
     else if f = CIL_OPTIONAL then some (cil_copy_optional L symtab a)
     else if f = CIL_IPADDR then some (cil_copy_ipaddr L symtab a)
     else if f = CIL_CONDBLOCK then some (cil_copy_condblock L a)
     else if f = CIL_BOOLEANIF then some (cil_copy_boolif a)
     else if f = CIL_TUNABLEIF then some (cil_copy_tunif a)
     else if f = CIL_DEFAULTUSER \<or> f = CIL_DEFAULTROLE \<or> f = CIL_DEFAULTTYPE then some (cil_copy_default a)
     else if f = CIL_DEFAULTRANGE then some (cil_copy_defaultrange a)
     else if f = CIL_HANDLEUNKNOWN then some (cil_copy_handleunknown a)
     else if f = CIL_MLS then some (cil_copy_mls a)
     else fail SEPOL_ERR)"

text \<open>The first half.\<close>

definition copy_func1 ::
  "('h, 'b) sepol \<Rightarrow> cil_flavor \<Rightarrow> addr \<Rightarrow> symtab_ref option \<Rightarrow> (('h, 'b, 'z) build_state_scheme, addr option) cil"
where
  "copy_func1 L f a symtab =
    (if f = CIL_BLOCK then some (cil_copy_block L symtab a)
     else if f = CIL_BLOCKABSTRACT then some (cil_copy_blockabstract a)
     else if f = CIL_BLOCKINHERIT then some (cil_copy_blockinherit a)
     else if f = CIL_POLICYCAP then some (cil_copy_policycap L symtab a)
     else if f = CIL_PERM \<or> f = CIL_MAP_PERM then some (cil_copy_perm L symtab a)
     else if f = CIL_CLASSMAPPING then some (cil_copy_classmapping a)
     else if f = CIL_CLASS \<or> f = CIL_COMMON \<or> f = CIL_MAP_CLASS then some (cil_copy_class L symtab a)
     else if f = CIL_CLASSORDER then some (cil_copy_classorder a)
     else if f = CIL_CLASSPERMISSION then cil_copy_classpermission L symtab a
     else if f = CIL_CLASSPERMISSIONSET then some (cil_copy_classpermissionset a)
     else if f = CIL_CLASSCOMMON then some (cil_copy_classcommon a)
     else if f = CIL_SID then some (cil_copy_sid L symtab a)
     else if f = CIL_SIDCONTEXT then some (cil_copy_sidcontext a)
     else if f = CIL_SIDORDER then some (cil_copy_sidorder a)
     else if f = CIL_USER then some (cil_copy_user L symtab a)
     else if f = CIL_USERROLE then some (cil_copy_userrole a)
     else if f = CIL_USERLEVEL then some (cil_copy_userlevel a)
     else if f = CIL_USERRANGE then some (cil_copy_userrange a)
     else if f = CIL_USERBOUNDS then some (cil_copy_bounds a)
     else if f = CIL_USERPREFIX then some (cil_copy_userprefix a)
     else if f = CIL_ROLE then some (cil_copy_role L symtab a)
     else if f = CIL_ROLETYPE then some (cil_copy_roletype a)
     else if f = CIL_ROLEBOUNDS then some (cil_copy_bounds a)
     else if f = CIL_ROLEATTRIBUTE then some (cil_copy_roleattribute L symtab a)
     else if f = CIL_ROLEATTRIBUTESET then some (cil_copy_roleattributeset a)
     else if f = CIL_ROLEALLOW then some (cil_copy_roleallow a)
     else if f = CIL_TYPE then some (cil_copy_type L symtab a)
     else if f = CIL_TYPEBOUNDS then some (cil_copy_bounds a)
     else if f = CIL_TYPEPERMISSIVE then some (cil_copy_typepermissive a)
     else if f = CIL_TYPEATTRIBUTE then some (cil_copy_typeattribute L symtab a)
     else if f = CIL_TYPEATTRIBUTESET then some (cil_copy_typeattributeset a)
     else if f = CIL_TYPEALIAS then some (cil_copy_alias L symtab a)
     else if f = CIL_TYPEALIASACTUAL then some (cil_copy_aliasactual a)
     else if f = CIL_ROLETRANSITION then some (cil_copy_roletransition a)
     else if f = CIL_NAMETYPETRANSITION then some (cil_copy_nametypetransition a)
     else if f = CIL_RANGETRANSITION then some (cil_copy_rangetransition a)
     else if f = CIL_TUNABLE then some (cil_copy_tunable L symtab a)
     else if f = CIL_BOOL then some (cil_copy_bool L symtab a)
     else copy_func2 L f a symtab)"

text \<open>The flavors that can be copied.\<close>

definition copied_flavors :: "cil_flavor list" where
  "copied_flavors = [CIL_NODE, CIL_BLOCK, CIL_BLOCKABSTRACT, CIL_BLOCKINHERIT, CIL_POLICYCAP, CIL_PERM, CIL_MAP_PERM, CIL_CLASSMAPPING, CIL_CLASS,
     CIL_COMMON, CIL_MAP_CLASS, CIL_CLASSORDER, CIL_CLASSPERMISSION, CIL_CLASSPERMISSIONSET, CIL_CLASSCOMMON,
     CIL_SID, CIL_SIDCONTEXT, CIL_SIDORDER, CIL_USER, CIL_USERROLE, CIL_USERLEVEL, CIL_USERRANGE, CIL_USERBOUNDS,
     CIL_USERPREFIX, CIL_ROLE, CIL_ROLETYPE, CIL_ROLEBOUNDS, CIL_ROLEATTRIBUTE, CIL_ROLEATTRIBUTESET, CIL_ROLEALLOW,
     CIL_TYPE, CIL_TYPEBOUNDS, CIL_TYPEPERMISSIVE, CIL_TYPEATTRIBUTE, CIL_TYPEATTRIBUTESET, CIL_TYPEALIAS,
     CIL_TYPEALIASACTUAL, CIL_ROLETRANSITION, CIL_NAMETYPETRANSITION, CIL_RANGETRANSITION, CIL_TUNABLE, CIL_BOOL,
     CIL_AVRULE, CIL_TYPE_RULE, CIL_SENS, CIL_SENSALIAS, CIL_SENSALIASACTUAL, CIL_CAT, CIL_CATALIAS,
     CIL_CATALIASACTUAL, CIL_CATSET, CIL_SENSCAT, CIL_CATORDER, CIL_SENSITIVITYORDER, CIL_LEVEL, CIL_LEVELRANGE,
     CIL_CONTEXT, CIL_NETIFCON, CIL_GENFSCON, CIL_FILECON, CIL_NODECON, CIL_PORTCON, CIL_PIRQCON, CIL_IOMEMCON,
     CIL_IOPORTCON, CIL_PCIDEVICECON, CIL_FSUSE, CIL_CONSTRAIN, CIL_MLSCONSTRAIN, CIL_VALIDATETRANS,
     CIL_MLSVALIDATETRANS, CIL_CALL, CIL_MACRO, CIL_OPTIONAL, CIL_IPADDR, CIL_CONDBLOCK, CIL_BOOLEANIF,
     CIL_TUNABLEIF, CIL_DEFAULTUSER, CIL_DEFAULTROLE, CIL_DEFAULTTYPE, CIL_DEFAULTRANGE, CIL_HANDLEUNKNOWN, CIL_MLS]"

text \<open>\<open>cil_copy_node\<close> copies nothing but the pointer, which is a string of a parse tree.\<close>

definition cil_copy_data ::
  "('h, 'b) sepol \<Rightarrow> cil_flavor \<Rightarrow> addr option \<Rightarrow> symtab_ref option \<Rightarrow> (('h, 'b, 'z) build_state_scheme, addr option) cil"
where
  "cil_copy_data L f data symtab =
     (if f = CIL_NODE then ret data
      else bind (lift (not_null data)) (\<lambda>a. copy_func1 L f a symtab))"

subsection \<open>The copy of a node\<close>

text \<open>Up from the new node to the macro, block or root it is in.\<close>

fun enclosing_namespace :: "nat \<Rightarrow> ('h, 'b, 'z) cil_store_scheme \<Rightarrow> addr option \<Rightarrow> cil_tree_node outcome" where
  "enclosing_namespace 0 s namespace = Out_of_fuel"
| "enclosing_namespace (Suc fuel) s namespace =
     obind (deref (nodes s) namespace) (\<lambda>nd.
     if node_flavor nd \<noteq> CIL_MACRO \<and> node_flavor nd \<noteq> CIL_BLOCK \<and> node_flavor nd \<noteq> CIL_ROOT
     then enclosing_namespace fuel s (node_parent nd)
     else Ok nd)"

text \<open>Every node was allocated below \<open>brk\<close>, which bounds the number of parents.\<close>

definition copy_shadows :: "('h, 'b, 'z) build_state_scheme \<Rightarrow> addr \<Rightarrow> cil_flavor \<Rightarrow> addr \<Rightarrow> bool outcome" where
  "copy_shadows s new flavor data =
     obind (enclosing_namespace (Suc (brk s)) s (Some new)) (\<lambda>namespace.
     if node_flavor namespace \<noteq> CIL_MACRO then Ok False
     else
       obind (deref (m_macro s) (node_data namespace)) (\<lambda>m.
       case macro_params m of
         None \<Rightarrow> Ok False
       | Some params \<Rightarrow>
           obind (deref (datums s) (Some data)) (\<lambda>d. Ok (list_ex (\<lambda>param. snd param = flavor \<and> fst param = datum_name d) params))))"

text \<open>The return code of \<open>cil_symtab_insert\<close> is not looked at: an object that is there already has got another
  node.\<close>

definition copy_declare ::
  "('h, 'b) sepol \<Rightarrow> symtab_ref option \<Rightarrow> addr option \<Rightarrow> addr option \<Rightarrow> addr \<Rightarrow> cil_flavor \<Rightarrow> ('h, 'b, 'z) builder"
where
  "copy_declare L symtab orig_data data new flavor =
     bind (lift (not_null symtab)) (\<lambda>tab.
     bind (reading (\<lambda>s. deref (datums s) orig_data)) (\<lambda>od.
     bind (lift (not_null (datum_name od))) (\<lambda>key.
     bind (lift (not_null data)) (\<lambda>d.
     bind (attempt (cil_symtab_insert L tab key d new)) (\<lambda>rc.
     bind (case rc of Inl SEPOL_EEXIST \<Rightarrow> ret () | Inl e \<Rightarrow> fail e | Inr _ \<Rightarrow> ret ()) (\<lambda>_.
     bind (reading (\<lambda>s. copy_shadows s new flavor d)) (\<lambda>shadows.
     if shadows then bind (cil_tree_node_destroy L new) (\<lambda>_. fail SEPOL_ERR) else ret ())))))))"

text \<open>A copied \<open>blockinherit\<close> is entered into the list of its block, which must have been found already.\<close>

definition copy_inherit :: "addr option \<Rightarrow> addr \<Rightarrow> ('h, 'b, 'z) builder" where
  "copy_inherit data new =
     bind (lift (not_null data)) (\<lambda>d.
     bind (rd m_blockinherit d) (\<lambda>blockinherit.
     bind (lift (not_null (blockinherit_block blockinherit))) (\<lambda>block.
     bind (rd m_block block) (\<lambda>x.
     case block_bi_nodes x of
       None \<Rightarrow> fail SEPOL_ERR
     | Some ns \<Rightarrow> wr m_block m_block_update block (block_bi_nodes_update (\<lambda>_. Some (ns @ [new])))))))"

text \<open>\<open>dest\<close> is the node that is copied into; the result is the next such node.\<close>

definition cil_copy_node_helper ::
  "('h, 'b) sepol \<Rightarrow> addr \<Rightarrow> addr option \<Rightarrow> (('h, 'b, 'z) build_state_scheme, addr option) cil"
where
  "cil_copy_node_helper L node dest =
     bind (rd nodes node) (\<lambda>orig.
     let f = node_flavor orig in
     if f \<notin> set copied_flavors then fail SEPOL_ERR
     else
       bind (if f \<ge> CIL_MIN_DECLARATIVE then
               bind (lift (cil_flavor_to_symtab_index f)) (\<lambda>sym_index.
               bind (reading (\<lambda>s. cil_get_symtab (Suc (brk s)) s dest sym_index)) (\<lambda>symtab. ret (Some symtab)))
             else ret None) (\<lambda>symtab.
       bind (cil_copy_data L f (node_data orig) symtab) (\<lambda>data.
       bind cil_tree_node_init (\<lambda>new.
       bind (wr nodes nodes_update new (\<lambda>nd. nd\<lparr>node_parent := dest, node_line := node_line orig,
         node_path := node_path orig, node_flavor := f, node_data := data\<rparr>)) (\<lambda>_.
       bind (if f \<ge> CIL_MIN_DECLARATIVE then copy_declare L symtab (node_data orig) data new f else ret ()) (\<lambda>_.
       bind (if f = CIL_BLOCKINHERIT then copy_inherit data new else ret ()) (\<lambda>_.
       bind (lift (not_null dest)) (\<lambda>parent.
       bind (append_child parent new) (\<lambda>_.
       bind (rd nodes node) (\<lambda>orig.
       ret (if node_cl_head orig \<noteq> None then Some new else dest)))))))))))"

definition cil_copy_last_child_helper :: "addr option \<Rightarrow> (('h, 'b, 'z) build_state_scheme, addr option) cil" where
  "cil_copy_last_child_helper dest =
     bind (reading (\<lambda>s. deref (nodes s) dest)) (\<lambda>node.
     ret (if node_flavor node \<noteq> CIL_ROOT then node_parent node else dest))"

subsection \<open>The walk\<close>

text \<open>\<open>cil_tree_walk_core\<close> and \<open>cil_tree_walk\<close> with these helpers, which skip nothing.\<close>

fun copy_walk_core ::
  "nat \<Rightarrow> ('h, 'b) sepol \<Rightarrow> addr option \<Rightarrow> addr option \<Rightarrow> (('h, 'b, 'z) build_state_scheme, addr option) cil"
and copy_walk ::
  "nat \<Rightarrow> ('h, 'b) sepol \<Rightarrow> addr \<Rightarrow> addr option \<Rightarrow> (('h, 'b, 'z) build_state_scheme, addr option) cil"
where
  "copy_walk_core 0 L node dest = no_fuel"
| "copy_walk_core (Suc fuel) L None dest = ret dest"
| "copy_walk_core (Suc fuel) L (Some node) dest =
     bind (cil_copy_node_helper L node dest) (\<lambda>dest.
     bind (rd nodes node) (\<lambda>nd.
     bind (if node_cl_head nd \<noteq> None then copy_walk fuel L node dest else ret dest) (\<lambda>dest.
     bind (rd nodes node) (\<lambda>nd'.
     copy_walk_core fuel L (node_next nd') dest))))"
| "copy_walk 0 L node dest = no_fuel"
| "copy_walk (Suc fuel) L node dest =
     bind (rd nodes node) (\<lambda>nd.
     if node_cl_head nd = None then ret dest
     else bind (copy_walk_core fuel L (node_cl_head nd) dest) cil_copy_last_child_helper)"

text \<open>The children of \<open>orig\<close> become children of \<open>dest\<close>.\<close>

definition cil_copy_ast :: "nat \<Rightarrow> ('h, 'b) sepol \<Rightarrow> addr \<Rightarrow> addr \<Rightarrow> ('h, 'b, 'z) builder" where
  "cil_copy_ast fuel L orig dest = bind (copy_walk fuel L orig (Some dest)) (\<lambda>_. ret ())"

end
