(* ===== verification/Cil_Resolve_Copy.thy ===== *)
theory Cil_Resolve_Copy
  imports Cil_Resolve_Pass Cil_Copy Cil_Build
begin

text \<open>
  The statements whose resolution copies parts of the AST (\<open>src/cil_resolve_ast.c\<close>): the content of an inherited
  block is copied into the \<open>blockinherit\<close>, that of an \<open>in\<close> into its block, that of a macro into the call, and the
  branch of a \<open>tunableif\<close> that is taken into the scope the conditional is in.

  One number is the fuel of the search for names, of the copies and of the removal of nodes.
\<close>

subsection \<open>Inherited blocks\<close>

text \<open>The walk over \<open>bi_nodes\<close> sees the nodes that the copies append to the list.\<close>

fun copy_to_inheritors ::
  "nat \<Rightarrow> nat \<Rightarrow> ('h, 'b) sepol \<Rightarrow> addr \<Rightarrow> addr \<Rightarrow> nat \<Rightarrow> ('h, 'b, 'z) builder"
where
  "copy_to_inheritors 0 fuel L current block i = no_fuel"
| "copy_to_inheritors (Suc rounds) fuel L current block i =
     bind (rd m_block block) (\<lambda>x.
     bind (lift (not_null (block_bi_nodes x))) (\<lambda>bi_nodes.
     if i < length bi_nodes then
       bind (cil_copy_ast fuel L current (bi_nodes ! i)) (\<lambda>_.
       copy_to_inheritors rounds fuel L current block (Suc i))
     else ret ()))"

definition cil_resolve_blockinherit_copy :: "('h, 'b) sepol \<Rightarrow> nat \<Rightarrow> addr \<Rightarrow> ('h, 'b, 'z) builder" where
  "cil_resolve_blockinherit_copy L fuel current =
     bind (node_object current) (\<lambda>block.
     bind (rd m_block block) (\<lambda>x.
     if block_bi_nodes x = None then ret ()
     else
       bind (reading (\<lambda>s. NODE s (Some block))) (\<lambda>original.
       if current \<noteq> original then ret ()
       else copy_to_inheritors fuel fuel L current block 0)))"

subsection \<open>Additions to blocks\<close>

definition cil_resolve_in :: "('h, 'b) sepol \<Rightarrow> nat \<Rightarrow> addr \<Rightarrow> ('h, 'b, 'z) builder" where
  "cil_resolve_in L fuel current =
     bind (node_object current) (\<lambda>a.
     bind (rd m_in a) (\<lambda>x.
     bind (resolve L fuel current (in_block_str x) CIL_SYM_BLOCKS) (\<lambda>block_datum.
     bind (reading (\<lambda>s. NODE s block_datum)) (\<lambda>block_node.
     bind (cil_copy_ast fuel L current block_node) (\<lambda>_.
     bind (cil_tree_children_destroy fuel L (Some current)) (\<lambda>_.
     wr nodes nodes_update current (\<lambda>nd. nd\<lparr>node_cl_head := None, node_cl_tail := None\<rparr>)))))))"

text \<open>One round over the list: the statements whose block is not found yet, and whether any was resolved.\<close>

fun resolve_in_round ::
  "('h, 'b) sepol \<Rightarrow> nat \<Rightarrow> addr list \<Rightarrow> (('h, 'b, 'z) build_state_scheme, addr list \<times> bool) cil"
where
  "resolve_in_round L fuel [] = ret ([], False)"
| "resolve_in_round L fuel (node # ins) =
     bind (node_object node) (\<lambda>a.
     bind (rd m_in a) (\<lambda>x.
     bind (attempt (resolve L fuel node (in_block_str x) CIL_SYM_BLOCKS)) (\<lambda>r.
     case r of
       Inl _ \<Rightarrow> bind (resolve_in_round L fuel ins) (\<lambda>(unresolved, resolved). ret (node # unresolved, resolved))
     | Inr _ \<Rightarrow>
         bind (cil_resolve_in L fuel node) (\<lambda>_.
         bind (resolve_in_round L fuel ins) (\<lambda>(unresolved, _). ret (unresolved, True))))))"

text \<open>The rounds go on as long as they resolve something.\<close>

fun resolve_in_rounds :: "nat \<Rightarrow> ('h, 'b) sepol \<Rightarrow> nat \<Rightarrow> addr list \<Rightarrow> ('h, 'b, 'z) builder" where
  "resolve_in_rounds 0 L fuel ins = no_fuel"
| "resolve_in_rounds (Suc rounds) L fuel ins =
     bind (resolve_in_round L fuel ins) (\<lambda>(unresolved, resolved).
     if unresolved \<noteq> [] \<and> \<not> resolved then fail SEPOL_ERR
     else if unresolved \<noteq> [] then resolve_in_rounds rounds L fuel unresolved
     else ret ())"

definition cil_resolve_in_list :: "('h, 'b) sepol \<Rightarrow> nat \<Rightarrow> (('h, 'b, 'z) resolve_state_scheme, unit) cil" where
  "cil_resolve_in_list L fuel =
     bind (gets ar_in_list) (\<lambda>ins. resolve_in_rounds (Suc (length ins)) L fuel ins)"

subsection \<open>Calls of macros\<close>

text \<open>An argument that is a list becomes an anonymous object, with a node of its own that is not in the tree.\<close>

definition anonymous_argument ::
  "cil_flavor \<Rightarrow> (('h, 'b, 'z) build_state_scheme, addr) cil \<Rightarrow> (addr \<Rightarrow> ('h, 'b, 'z) builder)
   \<Rightarrow> (addr \<Rightarrow> ('h, 'b, 'z) builder) \<Rightarrow> (('h, 'b, 'z) build_state_scheme, addr) cil"
where
  "anonymous_argument flavor init fill destroy =
     bind init (\<lambda>a.
     bind (on_error (fill a) (destroy a)) (\<lambda>_.
     bind cil_tree_node_init (\<lambda>n.
     bind (wr nodes nodes_update n (\<lambda>nd. nd\<lparr>node_flavor := flavor, node_data := Some a\<rparr>)) (\<lambda>_.
     bind (append_node a n) (\<lambda>_. ret a)))))"

text \<open>\<open>pcs\<close> are the parse trees from the argument \<open>pc\<close> on; the result is \<open>arg_str\<close> and \<open>arg\<close>.\<close>

definition call_argument ::
  "('h, 'b) sepol \<Rightarrow> sepol_env \<Rightarrow> addr \<Rightarrow> cil_flavor \<Rightarrow> parse_tree list
   \<Rightarrow> (('h, 'b, 'z) build_state_scheme, cstring \<times> addr option) cil"
where
  "call_argument L E current flavor pcs =
     bind (lift (nth_data pcs 0)) (\<lambda>str.
     bind (lift (nth_list pcs 0)) (\<lambda>kids.
     let by_name = ret (str, None);
         anonymous_or_name = (\<lambda>m. if kids \<noteq> [] then bind m (\<lambda>a. ret (None, Some a)) else by_name)
     in
       if flavor = CIL_NAME then
         bind (pointer str) (\<lambda>key.
         bind fresh (\<lambda>new_name.
         bind (cil_insert_name L new_name key current) (\<lambda>name.
         case name of Some a \<Rightarrow> ret (None, Some a) | None \<Rightarrow> by_name)))
       else if flavor = CIL_TYPE \<or> flavor = CIL_ROLE \<or> flavor = CIL_USER \<or> flavor = CIL_SENS \<or> flavor = CIL_CAT \<or>
           flavor = CIL_BOOL \<or> flavor = CIL_CLASS \<or> flavor = CIL_MAP_CLASS then by_name
       else if flavor = CIL_CATSET then
         anonymous_or_name (anonymous_argument CIL_CATSET cil_catset_init
           (\<lambda>a. cil_fill_cats E pcs (\<lambda>c. wr m_catset m_catset_update a (catset_cats_update (\<lambda>_. Some c))))
           (\<lambda>a. cil_destroy_catset L (Some a)))
       else if flavor = CIL_LEVEL then
         anonymous_or_name (anonymous_argument CIL_LEVEL cil_level_init (cil_fill_level E kids)
           (\<lambda>a. cil_destroy_level L (Some a)))
       else if flavor = CIL_LEVELRANGE then
         anonymous_or_name (anonymous_argument CIL_LEVELRANGE cil_levelrange_init (cil_fill_levelrange E kids)
           (\<lambda>a. cil_destroy_levelrange L (Some a)))
       else if flavor = CIL_IPADDR then
         anonymous_or_name (anonymous_argument CIL_IPADDR cil_ipaddr_init (cil_fill_ipaddr E kids)
           (\<lambda>a. cil_destroy_ipaddr L (Some a)))
       else if flavor = CIL_CLASSPERMISSION then
         anonymous_or_name (anonymous_argument CIL_CLASSPERMISSION cil_classpermission_init
           (\<lambda>a. bind (cil_fill_classperms_list E pcs) (\<lambda>cps.
              wr m_classpermission m_classpermission_update a (classpermission_classperms_update (\<lambda>_. Some cps))))
           (\<lambda>a. cil_destroy_classpermission L (Some a)))
       else fail SEPOL_ERR))"

text \<open>The parameters and the arguments, side by side.\<close>

fun call_arguments ::
  "('h, 'b) sepol \<Rightarrow> sepol_env \<Rightarrow> addr \<Rightarrow> addr \<Rightarrow> (cstring \<times> cil_flavor) list \<Rightarrow> parse_tree list \<Rightarrow> ('h, 'b, 'z) builder"
where
  "call_arguments L E current call [] pcs = (if pcs \<noteq> [] then fail SEPOL_ERR else ret ())"
| "call_arguments L E current call ((param_str, flavor) # params) pcs =
     (if pcs = [] then fail SEPOL_ERR
      else
        bind (new_struct m_args_update \<lparr>args_arg_str = None, args_arg = None, args_param_str = None, args_kind = CIL_NONE\<rparr>) (\<lambda>new_arg.
        bind (call_argument L E current flavor pcs) (\<lambda>(arg_str, arg).
        bind (wr m_args m_args_update new_arg (\<lambda>_. \<lparr>args_arg_str = arg_str, args_arg = arg,
          args_param_str = param_str, args_kind = flavor\<rparr>)) (\<lambda>_.
        bind (wr m_call m_call_update call (call_args_update (map_option (\<lambda>l. l @ [new_arg])))) (\<lambda>_.
        call_arguments L E current call params (tl pcs))))))"

definition cil_resolve_call1 :: "('h, 'b) sepol \<Rightarrow> sepol_env \<Rightarrow> nat \<Rightarrow> addr \<Rightarrow> ('h, 'b, 'z) builder" where
  "cil_resolve_call1 L E fuel current =
     bind (node_object current) (\<lambda>new_call.
     bind (rd m_call new_call) (\<lambda>x.
     bind (resolve L fuel current (call_macro_str x) CIL_SYM_BLOCKS) (\<lambda>macro_datum.
     bind (reading (\<lambda>s. NODE s macro_datum)) (\<lambda>macro_node.
     bind (rd nodes macro_node) (\<lambda>nd.
     if node_flavor nd \<noteq> CIL_MACRO then fail SEPOL_ERR
     else
       bind (pointer macro_datum) (\<lambda>macro.
       bind (wr m_call m_call_update new_call (call_macro_update (\<lambda>_. Some macro))) (\<lambda>_.
       bind (rd m_macro macro) (\<lambda>m.
       bind (gets (\<lambda>s. args_trees s new_call)) (\<lambda>args_tree.
       bind (case macro_params m of
               Some params \<Rightarrow>
                 (case args_tree of
                    None \<Rightarrow> fail SEPOL_ERR
                  | Some pcs \<Rightarrow>
                      bind (wr m_call m_call_update new_call (call_args_update (\<lambda>_. Some []))) (\<lambda>_.
                      call_arguments L E current new_call params pcs))
             | None \<Rightarrow> if args_tree \<noteq> None then fail SEPOL_ERR else ret ()) (\<lambda>_.
       bind (rd m_call new_call) (\<lambda>x.
       if call_copied x then ret ()
       else
         bind (wr m_call m_call_update new_call (call_copied_update (\<lambda>_. True))) (\<lambda>_.
         cil_copy_ast fuel L macro_node current))))))))))))"

subsection \<open>Conditionals on tunables\<close>

text \<open>The branch of the given kind among the first two children; the second one wins.\<close>

definition branch_node ::
  "('h, 'b, 'z) cil_store_scheme \<Rightarrow> cil_tree_node \<Rightarrow> cil_flavor \<Rightarrow> addr option outcome"
where
  "branch_node s nd kind =
     (case node_cl_head nd of
        None \<Rightarrow> Ok None
      | Some n1 \<Rightarrow>
          obind (deref (nodes s) (Some n1)) (\<lambda>nd1.
          obind (if node_flavor nd1 = CIL_CONDBLOCK then
                   obind (deref (m_condblock s) (node_data nd1)) (\<lambda>cb. Ok (if condblock_kind cb = kind then Some n1 else None))
                 else Ok None) (\<lambda>first.
          case node_next nd1 of
            None \<Rightarrow> Ok first
          | Some n2 \<Rightarrow>
              obind (deref (nodes s) (Some n2)) (\<lambda>nd2.
              if node_flavor nd2 = CIL_CONDBLOCK then
                obind (deref (m_condblock s) (node_data nd2)) (\<lambda>cb. Ok (if condblock_kind cb = kind then Some n2 else first))
              else Ok first))))"

definition cil_resolve_tunif :: "('h, 'b) sepol \<Rightarrow> nat \<Rightarrow> addr \<Rightarrow> ('h, 'b, 'z) builder" where
  "cil_resolve_tunif L fuel current =
     bind (node_object current) (\<lambda>tif.
     bind (rd m_tunableif tif) (\<lambda>x.
     bind (cil_resolve_expr L fuel CIL_TUNABLEIF (tunableif_str_expr x) current) (\<lambda>(rc, datum_expr).
     bind (wr m_tunableif m_tunableif_update tif (tunableif_datum_expr_update (\<lambda>_. Some datum_expr))) (\<lambda>_.
     bind (check_rc rc) (\<lambda>_.
     bind (reading (\<lambda>s. cil_evaluate_tunable_expr s (list_items datum_expr))) (\<lambda>result.
     bind (rd nodes current) (\<lambda>nd.
     bind (reading (\<lambda>s. branch_node s nd CIL_CONDTRUE)) (\<lambda>true_node.
     bind (reading (\<lambda>s. branch_node s nd CIL_CONDFALSE)) (\<lambda>false_node.
     bind (case (if result then true_node else false_node) of
             None \<Rightarrow> ret ()
           | Some branch \<Rightarrow> bind (pointer (node_parent nd)) (cil_copy_ast fuel L branch)) (\<lambda>_.
     bind (cil_tree_children_destroy fuel L (Some current)) (\<lambda>_.
     wr nodes nodes_update current (\<lambda>nd. nd\<lparr>node_cl_head := None, node_cl_tail := None\<rparr>))))))))))))"

end
