(* ===== verification/Cil_Resolve_Ast.thy ===== *)
theory Cil_Resolve_Ast
  imports Cil_Resolve_Copy Cil_Reset Cil_Verify
begin

text \<open>
  The resolution of the AST (\<open>cil_resolve_ast\<close> of \<open>src/cil_resolve_ast.c\<close>): a walk over the tree for every pass, with
  a stack of the calls and a stack of the optionals that the walk is in. A statement in an optional that names
  something unknown disables the optional; when its end is reached its content is removed, and after the pass
  the resolution starts again behind the pass that copies macros.
\<close>

subsection \<open>One node\<close>

fun pass_num :: "cil_pass \<Rightarrow> nat" where
  "pass_num CIL_PASS_INIT = 0"
| "pass_num CIL_PASS_TIF = 1"
| "pass_num CIL_PASS_IN = 2"
| "pass_num CIL_PASS_BLKIN_LINK = 3"
| "pass_num CIL_PASS_BLKIN_COPY = 4"
| "pass_num CIL_PASS_BLKABS = 5"
| "pass_num CIL_PASS_MACRO = 6"
| "pass_num CIL_PASS_CALL1 = 7"
| "pass_num CIL_PASS_CALL2 = 8"
| "pass_num CIL_PASS_ALIAS1 = 9"
| "pass_num CIL_PASS_ALIAS2 = 10"
| "pass_num CIL_PASS_MISC1 = 11"
| "pass_num CIL_PASS_MLS = 12"
| "pass_num CIL_PASS_MISC2 = 13"
| "pass_num CIL_PASS_MISC3 = 14"
| "pass_num CIL_PASS_NUM = 15"

definition cil_resolve_ast_node ::
  "('h, 'b) sepol \<Rightarrow> sepol_env \<Rightarrow> nat \<Rightarrow> addr \<Rightarrow> (('h, 'b, 'z) resolve_state_scheme, unit) cil"
where
  "cil_resolve_ast_node L E fuel node =
     bind (gets ar_pass) (\<lambda>phase.
     bind (rd nodes node) (\<lambda>nd.
     let f = node_flavor nd in
     case phase of
       CIL_PASS_TIF \<Rightarrow> if f = CIL_TUNABLEIF then cil_resolve_tunif L fuel node else ret ()
     | CIL_PASS_IN \<Rightarrow> if f = CIL_IN then modify (ar_in_list_update (\<lambda>ins. node # ins)) else ret ()
     | CIL_PASS_BLKIN_LINK \<Rightarrow> if f = CIL_BLOCKINHERIT then cil_resolve_blockinherit_link L fuel node else ret ()
     | CIL_PASS_BLKIN_COPY \<Rightarrow> if f = CIL_BLOCK then cil_resolve_blockinherit_copy L fuel node else ret ()
     | CIL_PASS_BLKABS \<Rightarrow> if f = CIL_BLOCKABSTRACT then cil_resolve_blockabstract L fuel node else ret ()
     | CIL_PASS_MACRO \<Rightarrow>
         bind (gets ar_macro) (\<lambda>macro.
         if f = CIL_CALL \<and> macro \<noteq> None then cil_resolve_call1 L E fuel node else ret ())
     | CIL_PASS_CALL1 \<Rightarrow> if f = CIL_CALL then cil_resolve_call1 L E fuel node else ret ()
     | CIL_PASS_CALL2 \<Rightarrow> if f = CIL_CALL then cil_resolve_call2 L fuel node else ret ()
     | CIL_PASS_ALIAS1 \<Rightarrow> resolve_alias1 L fuel node
     | CIL_PASS_ALIAS2 \<Rightarrow> resolve_alias2 fuel node
     | CIL_PASS_MISC1 \<Rightarrow> resolve_misc1 L fuel node
     | CIL_PASS_MLS \<Rightarrow> resolve_mls L fuel node
     | CIL_PASS_MISC2 \<Rightarrow> resolve_misc2 L fuel node
     | CIL_PASS_MISC3 \<Rightarrow> bind fresh (\<lambda>new_name. resolve_misc3 L fuel new_name node)
     | _ \<Rightarrow> ret ()))"

text \<open>The statements that may stand in a conditional on booleans.\<close>

definition in_conditionals :: "cil_flavor list" where
  "in_conditionals = [CIL_CONDBLOCK, CIL_AVRULE, CIL_TYPE_RULE, CIL_CALL, CIL_TUNABLEIF, CIL_NAMETYPETRANSITION]"

text \<open>The result is what the walk is told to skip.\<close>

definition cil_resolve_ast_node_helper ::
  "('h, 'b) sepol \<Rightarrow> sepol_env \<Rightarrow> nat \<Rightarrow> addr \<Rightarrow> (('h, 'b, 'z) resolve_state_scheme, nat) cil"
where
  "cil_resolve_ast_node_helper L E fuel node =
     bind (gets ar_pass) (\<lambda>phase.
     bind (gets ar_optstack) (\<lambda>optstack.
     bind (gets ar_boolif) (\<lambda>boolif.
     bind (rd nodes node) (\<lambda>nd.
     let f = node_flavor nd in
     if optstack \<noteq> [] \<and> (f = CIL_TUNABLE \<or> f = CIL_MACRO) then fail SEPOL_ERR
     else if boolif \<noteq> None \<and> f \<notin> set in_conditionals then fail SEPOL_ERR
     else if f = CIL_MACRO \<and> phase \<noteq> CIL_PASS_TIF \<and> phase \<noteq> CIL_PASS_MACRO then ret CIL_TREE_SKIP_HEAD
     else
       bind (if f = CIL_BLOCK then
               bind (reading (\<lambda>s. deref (m_block s) (node_data nd))) (\<lambda>block. ret (block_is_abstract block))
             else ret False) (\<lambda>abstract.
       if abstract \<and> pass_num phase > pass_num CIL_PASS_BLKABS then ret CIL_TREE_SKIP_HEAD
       else
         bind (attempt (cil_resolve_ast_node L E fuel node)) (\<lambda>rc.
         case rc of
           Inr _ \<Rightarrow> ret CIL_TREE_SKIP_NOTHING
         | Inl e \<Rightarrow>
             (case optstack of
                opt # _ \<Rightarrow>
                  if e = SEPOL_ENOENT then
                    bind (reading (\<lambda>s. deref (nodes s) (node_parent nd))) (\<lambda>_.
                    bind (wr m_optional m_optional_update opt (optional_enabled_update (\<lambda>_. False))) (\<lambda>_.
                    ret CIL_TREE_SKIP_NOTHING))
                  else fail e
              | [] \<Rightarrow> fail e)))))))"

subsection \<open>Entering and leaving lists\<close>

fun macro_on_stack :: "('h, 'b, 'z) cil_store_scheme \<Rightarrow> addr option \<Rightarrow> addr list \<Rightarrow> bool outcome" where
  "macro_on_stack s macro [] = Ok False"
| "macro_on_stack s macro (call # calls) =
     obind (deref (m_call s) (Some call)) (\<lambda>x.
     if call_macro x = macro then Ok True else macro_on_stack s macro calls)"

text \<open>The search for a recursive call begins behind the innermost call.\<close>

definition cil_resolve_ast_first_child_helper :: "addr \<Rightarrow> (('h, 'b, 'z) resolve_state_scheme, unit) cil" where
  "cil_resolve_ast_first_child_helper current =
     bind (rd nodes current) (\<lambda>nd.
     bind (reading (\<lambda>s. deref (nodes s) (node_parent nd))) (\<lambda>parent.
     if node_flavor parent = CIL_CALL then
       bind (pointer (node_data parent)) (\<lambda>new_call.
       bind (gets ar_callstack) (\<lambda>callstack.
       bind (if tl callstack = [] then ret False
             else bind (rd m_call new_call) (\<lambda>x. reading (\<lambda>s. macro_on_stack s (call_macro x) (tl callstack)))) (\<lambda>recursive.
       if recursive then fail SEPOL_ERR
       else modify (ar_callstack_update (\<lambda>calls. new_call # calls)))))
     else if node_flavor parent = CIL_OPTIONAL then
       bind (pointer (node_data parent)) (\<lambda>opt. modify (ar_optstack_update (\<lambda>opts. opt # opts)))
     else if node_flavor parent = CIL_BOOLEANIF then modify (ar_boolif_update (\<lambda>_. node_parent nd))
     else if node_flavor parent = CIL_MACRO then modify (ar_macro_update (\<lambda>_. node_parent nd))
     else ret ()))"

definition cil_resolve_ast_last_child_helper ::
  "('h, 'b) sepol \<Rightarrow> nat \<Rightarrow> addr option \<Rightarrow> (('h, 'b, 'z) resolve_state_scheme, unit) cil"
where
  "cil_resolve_ast_last_child_helper L fuel current =
     (case current of
        None \<Rightarrow> fail SEPOL_ERR
      | Some c \<Rightarrow>
          bind (rd nodes c) (\<lambda>nd.
          bind (reading (\<lambda>s. deref (nodes s) (node_parent nd))) (\<lambda>parent.
          if node_flavor parent = CIL_CALL then
            bind (gets ar_callstack) (\<lambda>callstack.
            case callstack of [] \<Rightarrow> fault | _ # calls \<Rightarrow> modify (ar_callstack_update (\<lambda>_. calls)))
          else if node_flavor parent = CIL_MACRO then modify (ar_macro_update (\<lambda>_. None))
          else if node_flavor parent = CIL_OPTIONAL then
            bind (reading (\<lambda>s. deref (m_optional s) (node_data parent))) (\<lambda>opt.
            bind (if \<not> optional_enabled opt then
                    bind (modify (ar_changed_update (\<lambda>_. True))) (\<lambda>_.
                    cil_tree_children_destroy fuel L (node_parent nd))
                  else ret ()) (\<lambda>_.
            bind (gets ar_optstack) (\<lambda>optstack.
            case optstack of [] \<Rightarrow> fault | _ # opts \<Rightarrow> modify (ar_optstack_update (\<lambda>_. opts)))))
          else if node_flavor parent = CIL_BOOLEANIF then modify (ar_boolif_update (\<lambda>_. None))
          else ret ())))"

subsection \<open>The passes\<close>

definition merge_lists ::
  "(('h, 'b, 'z) resolve_state_scheme \<Rightarrow> cil_ordered_list list)
   \<Rightarrow> ((cil_ordered_list list \<Rightarrow> cil_ordered_list list) \<Rightarrow> ('h, 'b, 'z) resolve_state_scheme \<Rightarrow> ('h, 'b, 'z) resolve_state_scheme)
   \<Rightarrow> (('h, 'b, 'z) resolve_state_scheme, order_items option) cil"
where
  "merge_lists sel upd =
     bind (gets sel) (\<lambda>lists.
     bind (cil_ordered_lists_merge_all lists) (\<lambda>composite.
     bind (if composite \<noteq> None then modify (upd (\<lambda>_. [])) else ret ()) (\<lambda>_.
     ret composite)))"

definition merge_orders :: "nat \<Rightarrow> addr \<Rightarrow> (('h, 'b, 'z) resolve_state_scheme, unit) cil" where
  "merge_orders fuel current =
     bind (merge_lists ar_sidorder_lists ar_sidorder_lists_update) (\<lambda>sids.
     bind (modify (\<lambda>s. s\<lparr>sidorder := map_option (map snd) sids\<rparr>)) (\<lambda>_.
     bind (merge_lists ar_classorder_lists ar_classorder_lists_update) (\<lambda>classes.
     bind (modify (\<lambda>s. s\<lparr>classorder := map_option (map snd) classes\<rparr>)) (\<lambda>_.
     bind (merge_lists ar_catorder_lists ar_catorder_lists_update) (\<lambda>cats.
     bind (modify (\<lambda>s. s\<lparr>catorder := map_option (map snd) cats\<rparr>)) (\<lambda>_.
     bind (cil_set_cat_values cats) (\<lambda>_.
     bind (merge_lists ar_sensitivityorder_lists ar_sensitivityorder_lists_update) (\<lambda>sens.
     bind (modify (\<lambda>s. s\<lparr>sensitivityorder := map_option (map snd) sens\<rparr>)) (\<lambda>_.
     bind (cil_verify_ordered fuel (Some current) CIL_SID) (\<lambda>_.
     bind (cil_verify_ordered fuel (Some current) CIL_CLASS) (\<lambda>_.
     bind (cil_verify_ordered fuel (Some current) CIL_CAT) (\<lambda>_.
     cil_verify_ordered fuel (Some current) CIL_SENS))))))))))))"

text \<open>Back to the pass behind \<open>CIL_PASS_CALL1\<close>.\<close>

definition restart :: "('h, 'b) sepol \<Rightarrow> nat \<Rightarrow> addr \<Rightarrow> cil_pass \<Rightarrow> (('h, 'b, 'z) resolve_state_scheme, unit) cil" where
  "restart L fuel current phase =
     bind (if pass_num phase \<ge> pass_num CIL_PASS_MISC1 then
             modify (\<lambda>s. s\<lparr>sidorder := None, classorder := None, catorder := None, sensitivityorder := None,
               ar_sidorder_lists := [], ar_classorder_lists := [], ar_catorder_lists := [],
               ar_sensitivityorder_lists := []\<rparr>)
           else ret ()) (\<lambda>_.
     cil_reset_ast L fuel (Some current))"

text \<open>One iteration of the loop over the passes; the result is the pass to go on from.\<close>

definition resolve_walk ::
  "('h, 'b) sepol \<Rightarrow> sepol_env \<Rightarrow> nat \<Rightarrow> addr \<Rightarrow> (('h, 'b, 'z) resolve_state_scheme, unit) cil"
where
  "resolve_walk L E fuel current =
     cil_tree_walk fuel (cil_resolve_ast_node_helper L E fuel) (Some cil_resolve_ast_first_child_helper)
       (Some (cil_resolve_ast_last_child_helper L fuel)) (Some current)"

definition resolve_pass ::
  "('h, 'b) sepol \<Rightarrow> sepol_env \<Rightarrow> nat \<Rightarrow> addr \<Rightarrow> cil_pass \<Rightarrow> (('h, 'b, 'z) resolve_state_scheme, cil_pass) cil"
where
  "resolve_pass L E fuel current phase =
     bind (modify (ar_pass_update (\<lambda>_. phase))) (\<lambda>_.
     bind (resolve_walk L E fuel current) (\<lambda>_.
     bind (if phase = CIL_PASS_IN then
             bind (cil_resolve_in_list L fuel) (\<lambda>_. modify (ar_in_list_update (\<lambda>_. [])))
           else ret ()) (\<lambda>_.
     bind (if phase = CIL_PASS_MISC1 then merge_orders fuel current else ret ()) (\<lambda>_.
     bind (gets ar_changed) (\<lambda>changed.
     bind (if changed \<and> pass_num phase > pass_num CIL_PASS_CALL1 then
             bind (restart L fuel current phase) (\<lambda>_. ret CIL_PASS_CALL1)
           else ret phase) (\<lambda>phase.
     bind (modify (\<lambda>s. s\<lparr>ar_changed := False, ar_callstack := [], ar_optstack := []\<rparr>)) (\<lambda>_.
     ret phase)))))))"

fun next_pass :: "cil_pass \<Rightarrow> cil_pass" where
  "next_pass CIL_PASS_INIT = CIL_PASS_TIF"
| "next_pass CIL_PASS_TIF = CIL_PASS_IN"
| "next_pass CIL_PASS_IN = CIL_PASS_BLKIN_LINK"
| "next_pass CIL_PASS_BLKIN_LINK = CIL_PASS_BLKIN_COPY"
| "next_pass CIL_PASS_BLKIN_COPY = CIL_PASS_BLKABS"
| "next_pass CIL_PASS_BLKABS = CIL_PASS_MACRO"
| "next_pass CIL_PASS_MACRO = CIL_PASS_CALL1"
| "next_pass CIL_PASS_CALL1 = CIL_PASS_CALL2"
| "next_pass CIL_PASS_CALL2 = CIL_PASS_ALIAS1"
| "next_pass CIL_PASS_ALIAS1 = CIL_PASS_ALIAS2"
| "next_pass CIL_PASS_ALIAS2 = CIL_PASS_MISC1"
| "next_pass CIL_PASS_MISC1 = CIL_PASS_MLS"
| "next_pass CIL_PASS_MLS = CIL_PASS_MISC2"
| "next_pass CIL_PASS_MISC2 = CIL_PASS_MISC3"
| "next_pass CIL_PASS_MISC3 = CIL_PASS_NUM"
| "next_pass CIL_PASS_NUM = CIL_PASS_NUM"

fun resolve_passes ::
  "nat \<Rightarrow> ('h, 'b) sepol \<Rightarrow> sepol_env \<Rightarrow> nat \<Rightarrow> addr \<Rightarrow> cil_pass \<Rightarrow> (('h, 'b, 'z) resolve_state_scheme, unit) cil"
where
  "resolve_passes 0 L E fuel current phase = no_fuel"
| "resolve_passes (Suc rounds) L E fuel current phase =
     (if phase = CIL_PASS_NUM then ret ()
      else bind (resolve_pass L E fuel current phase) (\<lambda>p. resolve_passes rounds L E fuel current (next_pass p)))"

definition cil_resolve_ast ::
  "nat \<Rightarrow> ('h, 'b) sepol \<Rightarrow> sepol_env \<Rightarrow> nat \<Rightarrow> addr option \<Rightarrow> (('h, 'b, 'z) resolve_state_scheme, unit) cil"
where
  "cil_resolve_ast rounds L E fuel current =
     (case current of
        None \<Rightarrow> fail SEPOL_ERR
      | Some root \<Rightarrow>
          bind (modify (\<lambda>s. s\<lparr>ar_changed := False, ar_callstack := [], ar_optstack := [], ar_boolif := None,
            ar_macro := None, ar_sidorder_lists := [], ar_classorder_lists := [], ar_catorder_lists := [],
            ar_sensitivityorder_lists := [], ar_in_list := []\<rparr>)) (\<lambda>_.
          bind (resolve_passes rounds L E fuel root CIL_PASS_TIF) (\<lambda>_.
          reading (\<lambda>s. cil_verify_initsids s (sidorder s)))))"

end
