(* ===== verification/Cil_Copy_Tree.thy ===== *)
theory Cil_Copy_Tree
  imports Cil_Copy Cil_Build_Walk
begin

text \<open>
  The copy of a part of the AST is a tree of the same shape: every node of the original has one copy, in the same
  order, of the same flavor and from the same line, and the rest of the AST is as it was.
\<close>

subsection \<open>Lists\<close>

lemma copy_items [simp]: "copy_list_items is = is" "copy_expr_items is = is"
  by (induction "is" rule: copy_list_items.induct) simp_all

text \<open>Copies of lists and of expressions are equal to them.\<close>

lemma copies_are_equal [simp]:
  "cil_copy_list l = l" "copy_expr l = l" "cil_copy_expr e = e" "copy_strings strs = strs" "copy_params ps = ps"
  by (simp_all add: cil_copy_list_def copy_expr_def cil_copy_expr_def copy_strings_def copy_params_def
      split: option.split)

subsection \<open>The copy functions do not touch the AST\<close>

lemma get_datum_ends [simp]: "cil_symtab_get_datum L s tab key \<noteq> Out_of_fuel"
  by (auto simp: cil_symtab_get_datum_def split: option.splits)

lemma existing_keeps [frame_rules]: "keeps K (existing L symtab key)"
  unfolding existing_def by (intro spec_rules keeps_reading) (auto split: outcome.split)

lemma copy_patterns_keep [frame_rules]:
  "keeps K init \<Longrightarrow> keeps K (copy_shared L symtab a init)"
  "keeps K init \<Longrightarrow> keeps K (copy_unique L symtab a init)"
  "keeps K init' \<Longrightarrow> keeps K (copy_unique_named L symtab a init')"
  unfolding copy_shared_def copy_unique_def copy_unique_named_def by (intro spec_rules frame_rules; simp)+

lemma name_or_copy_keeps [frame_rules]:
  assumes "keeps K set_name" and "keeps K init" and "\<And>a. keeps K (set_new a)" and "\<And>a. keeps K (fill a)"
  shows "keeps K (name_or_copy str set_name init set_new fill)"
  unfolding name_or_copy_def by (intro spec_rules assms)

lemma frame_copy_plain_0 [frame_rules]:
  assumes "frame K"
  shows "keeps K (cil_copy_blockabstract a)"
    "keeps K (cil_copy_blockinherit a)"
    "keeps K (cil_copy_classperms a)"
    "keeps K (cil_copy_classperms_set a)"
    "keeps K (cil_copy_classorder a)"
    "keeps K (cil_copy_classpermissionset a)"
    "keeps K (cil_copy_classcommon a)"
    "keeps K (cil_copy_sidorder a)"
  unfolding cil_copy_blockabstract_def cil_copy_blockinherit_def cil_copy_classperms_def cil_copy_classperms_set_def cil_copy_classorder_def cil_copy_classpermissionset_def cil_copy_classcommon_def cil_copy_sidorder_def
  by (intro spec_rules frame_rules assms; simp)+

lemma frame_copy_plain_1 [frame_rules]:
  assumes "frame K"
  shows "keeps K (cil_copy_userrole a)"
    "keeps K (cil_copy_userprefix a)"
    "keeps K (cil_copy_roletype a)"
    "keeps K (cil_copy_roleattributeset a)"
    "keeps K (cil_copy_roleallow a)"
    "keeps K (cil_copy_typepermissive a)"
    "keeps K (cil_copy_typeattributeset a)"
    "keeps K (cil_copy_aliasactual a)"
  unfolding cil_copy_userrole_def cil_copy_userprefix_def cil_copy_roletype_def cil_copy_roleattributeset_def cil_copy_roleallow_def cil_copy_typepermissive_def cil_copy_typeattributeset_def cil_copy_aliasactual_def
  by (intro spec_rules frame_rules assms; simp)+

lemma frame_copy_plain_2 [frame_rules]:
  assumes "frame K"
  shows "keeps K (cil_copy_roletransition a)"
    "keeps K (cil_copy_nametypetransition a)"
    "keeps K (cil_copy_type_rule a)"
    "keeps K (cil_copy_catorder a)"
    "keeps K (cil_copy_sensitivityorder a)"
    "keeps K (cil_copy_validatetrans a)"
    "keeps K (cil_copy_boolif a)"
    "keeps K (cil_copy_tunif a)"
  unfolding cil_copy_roletransition_def cil_copy_nametypetransition_def cil_copy_type_rule_def cil_copy_catorder_def cil_copy_sensitivityorder_def cil_copy_validatetrans_def cil_copy_boolif_def cil_copy_tunif_def
  by (intro spec_rules frame_rules assms; simp)+

lemma frame_copy_plain_3 [frame_rules]:
  assumes "frame K"
  shows "keeps K (cil_copy_default a)"
    "keeps K (cil_copy_defaultrange a)"
    "keeps K (cil_copy_handleunknown a)"
    "keeps K (cil_copy_mls a)"
    "keeps K (cil_copy_bounds a)"
  unfolding cil_copy_default_def cil_copy_defaultrange_def cil_copy_handleunknown_def cil_copy_mls_def cil_copy_bounds_def
  by (intro spec_rules frame_rules assms; simp)+

lemma frame_copy_shared_0 [frame_rules]:
  assumes "frame K"
  shows "keeps K (cil_copy_block L tab a)"
    "keeps K (cil_copy_policycap L tab a)"
    "keeps K (cil_copy_perm L tab a)"
    "keeps K (cil_copy_sid L tab a)"
    "keeps K (cil_copy_user L tab a)"
    "keeps K (cil_copy_role L tab a)"
    "keeps K (cil_copy_roleattribute L tab a)"
    "keeps K (cil_copy_type L tab a)"
  unfolding cil_copy_block_def cil_copy_policycap_def cil_copy_perm_def cil_copy_sid_def cil_copy_user_def cil_copy_role_def cil_copy_roleattribute_def cil_copy_type_def
  by (intro spec_rules frame_rules assms; simp)+

lemma frame_copy_shared_1 [frame_rules]:
  assumes "frame K"
  shows "keeps K (cil_copy_typeattribute L tab a)"
    "keeps K (cil_copy_sens L tab a)"
    "keeps K (cil_copy_cat L tab a)"
    "keeps K (cil_copy_optional L tab a)"
    "keeps K (cil_copy_class L tab a)"
    "keeps K (cil_copy_alias L tab a)"
    "keeps K (cil_copy_bool L tab a)"
    "keeps K (cil_copy_tunable L tab a)"
  unfolding cil_copy_typeattribute_def cil_copy_sens_def cil_copy_cat_def cil_copy_optional_def cil_copy_class_def cil_copy_alias_def cil_copy_bool_def cil_copy_tunable_def
  by (intro spec_rules frame_rules assms; simp)+

lemma frame_copy_classperms_list [frame_rules]:
  "frame K \<Longrightarrow> keeps K (cil_copy_classperms_list ps)"
  by (induction ps rule: cil_copy_classperms_list.induct) (auto intro!: spec_rules frame_rules)

lemma frame_copy_cats [frame_rules]:
  assumes "frame K"
  shows "keeps K (cil_copy_cats p)" "keeps K (cil_copy_fill_ipaddr p new)"
  unfolding cil_copy_cats_def cil_copy_fill_ipaddr_def by (intro spec_rules frame_rules assms; simp)+

lemma frame_copy_fill_level [frame_rules]: "frame K \<Longrightarrow> keeps K (cil_copy_fill_level p)"
  unfolding cil_copy_fill_level_def by (intro spec_rules frame_rules; simp)

lemma frame_copy_fill_levelrange [frame_rules]: "frame K \<Longrightarrow> keeps K (cil_copy_fill_levelrange p new)"
  unfolding cil_copy_fill_levelrange_def by (intro spec_rules frame_rules; simp)

lemma frame_copy_fill_context [frame_rules]: "frame K \<Longrightarrow> keeps K (cil_copy_fill_context p new)"
  unfolding cil_copy_fill_context_def by (intro spec_rules frame_rules; simp)

lemma frame_copy_parts_0 [frame_rules]:
  assumes "frame K"
  shows "keeps K (cil_copy_sidcontext a)"
    "keeps K (cil_copy_userrange a)"
    "keeps K (cil_copy_rangetransition a)"
    "keeps K (cil_copy_netifcon a)"
    "keeps K (cil_copy_genfscon a)"
    "keeps K (cil_copy_filecon a)"
    "keeps K (cil_copy_nodecon a)"
    "keeps K (cil_copy_portcon a)"
  unfolding cil_copy_sidcontext_def cil_copy_userrange_def cil_copy_rangetransition_def cil_copy_netifcon_def cil_copy_genfscon_def cil_copy_filecon_def cil_copy_nodecon_def cil_copy_portcon_def
  by (intro spec_rules frame_rules assms; simp)+

lemma frame_copy_parts_1 [frame_rules]:
  assumes "frame K"
  shows "keeps K (cil_copy_pirqcon a)"
    "keeps K (cil_copy_iomemcon a)"
    "keeps K (cil_copy_ioportcon a)"
    "keeps K (cil_copy_pcidevicecon a)"
    "keeps K (cil_copy_fsuse a)"
  unfolding cil_copy_pirqcon_def cil_copy_iomemcon_def cil_copy_ioportcon_def cil_copy_pcidevicecon_def cil_copy_fsuse_def
  by (intro spec_rules frame_rules assms; simp)+

lemma frame_copy_lists_0 [frame_rules]:
  assumes "frame K"
  shows "keeps K (cil_copy_classmapping a)"
    "keeps K (cil_copy_avrule a)"
    "keeps K (cil_copy_constrain a)"
  unfolding cil_copy_classmapping_def cil_copy_avrule_def cil_copy_constrain_def
  by (intro spec_rules frame_rules assms; simp)+

lemma frame_copy_rest [frame_rules]:
  assumes "frame K"
  shows "keeps K (cil_copy_classpermission L tab a)" "keeps K (cil_copy_userlevel a)" "keeps K (cil_copy_catset L tab a)"
    "keeps K (cil_copy_senscat a)" "keeps K (cil_copy_level L tab a)" "keeps K (cil_copy_levelrange L tab a)"
    "keeps K (cil_copy_context L tab a)" "keeps K (cil_copy_call a)" "keeps K (cil_copy_macro L tab a)"
    "keeps K (cil_copy_ipaddr L tab a)" "keeps K (cil_copy_condblock L a)"
  unfolding cil_copy_classpermission_def cil_copy_userlevel_def cil_copy_catset_def cil_copy_senscat_def
    cil_copy_level_def cil_copy_levelrange_def cil_copy_context_def cil_copy_call_def cil_copy_macro_def
    cil_copy_ipaddr_def cil_copy_condblock_def Let_def
  by (intro spec_rules frame_rules assms; simp)+

lemma some_keeps [spec_rules]: "keeps K m \<Longrightarrow> keeps K (some m)"
  unfolding some_def by (intro spec_rules)

lemma frame_copy_func [frame_rules]:
  assumes "frame K"
  shows "keeps K (copy_func2 L f a tab)" "keeps K (copy_func1 L f a tab)"
proof -
  show 2: "keeps K (copy_func2 L f a tab)"
    unfolding copy_func2_def by (rule spec_branch spec_rules frame_rules assms)+
  show "keeps K (copy_func1 L f a tab)"
    unfolding copy_func1_def by (rule spec_branch 2 spec_rules frame_rules assms)+
qed

lemma frame_copy_data: "frame K \<Longrightarrow> keeps K (cil_copy_data L f p tab)"
  unfolding cil_copy_data_def by (intro spec_rules frame_rules; simp)

subsection \<open>The copy of a node\<close>

lemma frame_linked: "frame linked"
  by (fastforce simp: frame_def linked_def conditional_def)

lemma namespace_ends:
  assumes "linked s" and "0 < fuel" and "\<And>m nd. p = Some m \<Longrightarrow> nodes s m = Some nd \<Longrightarrow> Suc m < fuel"
  shows "enclosing_namespace fuel s p \<noteq> Out_of_fuel"
  using assms(2,3)
proof (induction fuel arbitrary: p)
  case (Suc fuel)
  have "enclosing_namespace fuel s (node_parent nd) \<noteq> Out_of_fuel" if "p = Some m" "nodes s m = Some nd" for m nd
  proof (rule Suc.IH)
    show "0 < fuel" using Suc.prems(2) [OF that] by simp
    show "Suc q < fuel" if "node_parent nd = Some q" "nodes s q = Some qd" for q qd
      using linkedD(2) [OF assms(1) \<open>nodes s m = Some nd\<close> that(1)] Suc.prems(2) [OF \<open>p = Some m\<close> \<open>nodes s m = Some nd\<close>]
      by simp
  qed
  then show ?case by auto
qed simp

lemma copy_shadows_ends:
  assumes "linked s"
  shows "copy_shadows s new f d \<noteq> Out_of_fuel"
proof -
  have "enclosing_namespace (Suc (brk s)) s (Some new) \<noteq> Out_of_fuel"
    by (rule namespace_ends [OF assms]) (auto dest: linkedD(1) [OF assms])
  then show ?thesis by (auto simp: copy_shadows_def split: option.splits)
qed

lemma symtab_insert_nodes:
  assumes "cil_symtab_insert L tab key d n s = (r, t)"
  shows "r \<noteq> Out_of_fuel \<and> nodes t = nodes s \<and> brk t = brk s"
  using assms
  by (cases "ht_insert L (the (symtabs s tab)) key d")
    (auto simp: cil_symtab_insert_def bind_def symtab_of_def append_node_def cil_symtab_error_def rd_def wr_def Let_def
      split: option.splits outcome.splits prod.splits sepol_rc.splits)

lemma attempt_insert_keeps: "frame K \<Longrightarrow> keeps K (attempt (cil_symtab_insert L tab key d n))"
  by (rule specI) (auto simp: attempt_def dest!: symtab_insert_nodes elim!: frameD
      split: prod.splits outcome.splits)

lemma copy_declare_keeps:
  assumes "frame K" and "\<And>s. K s \<Longrightarrow> linked s"
  shows "keeps K (copy_declare L tab od data new f)"
proof -
  have cleanup: "keeps K (bind (cil_tree_node_destroy L new) (\<lambda>_. fail SEPOL_ERR))"
    by (rule spec_bind [where R = "\<lambda>_ _. True"]) (rule spec_pre [OF tree_node_destroy_ends], simp, rule spec_fail)
  have code: "keeps K (case rc of Inl SEPOL_EEXIST \<Rightarrow> ret () | Inl e \<Rightarrow> fail e | Inr _ \<Rightarrow> ret ())"
    for rc :: "sepol_rc + unit"
    by (auto split: sum.split sepol_rc.split intro: spec_ret spec_fail)
  show ?thesis
    unfolding copy_declare_def
    by (intro spec_rules keeps_reading attempt_insert_keeps code cleanup copy_shadows_ends assms;
        auto simp: deref_def split: option.split)
qed

lemma copy_inherit_keeps: "frame K \<Longrightarrow> keeps K (copy_inherit data new)"
  unfolding copy_inherit_def by (intro spec_rules frame_rules; simp)

subsection \<open>Children\<close>

text \<open>\<open>kids s d as\<close>: the children of the node \<open>d\<close> are the nodes \<open>as\<close>, and the last is the one \<open>cl_tail\<close> points to.\<close>

fun chain :: "('h, 'b, 'z) cil_store_scheme \<Rightarrow> addr option \<Rightarrow> addr list \<Rightarrow> bool" where
  "chain s p [] \<longleftrightarrow> p = None"
| "chain s p (a # as) \<longleftrightarrow> p = Some a \<and> (\<exists>nd. nodes s a = Some nd \<and> chain s (node_next nd) as)"

definition tail_of :: "addr list \<Rightarrow> addr option" where
  "tail_of as = (if as = [] then None else Some (last as))"

definition kids :: "('h, 'b, 'z) cil_store_scheme \<Rightarrow> addr \<Rightarrow> addr list \<Rightarrow> bool" where
  "kids s d as \<longleftrightarrow> (\<exists>nd. nodes s d = Some nd \<and> chain s (node_cl_head nd) as \<and>
     (as \<noteq> [] \<longrightarrow> node_cl_tail nd = Some (last as))) \<and> distinct as \<and> d \<notin> set as"

lemma chain_agree:
  "chain s p as \<Longrightarrow> (\<And>m. m \<in> set as \<Longrightarrow> nodes t m = nodes s m) \<Longrightarrow> chain t p as"
  by (induction as arbitrary: p) auto

lemma chain_exists: "chain s p as \<Longrightarrow> m \<in> set as \<Longrightarrow> nodes s m \<noteq> None"
  by (induction as arbitrary: p) auto

lemma chain_snoc:
  assumes "chain s p as" and "as \<noteq> []" and "distinct as" and "nodes s (last as) = Some ld"
    and "nodes t (last as) = Some (ld\<lparr>node_next := Some b\<rparr>)" and "nodes t b = Some bd" and "node_next bd = None"
    and "\<And>m. m \<in> set as \<Longrightarrow> m \<noteq> last as \<Longrightarrow> nodes t m = nodes s m"
  shows "chain t p (as @ [b])"
  using assms(1-5,8)
proof (induction as arbitrary: p)
  case (Cons a as)
  show ?case
  proof (cases "as = []")
    case True
    with Cons.prems assms(6,7) show ?thesis by auto
  next
    case False
    with Cons.prems obtain nd where "p = Some a" "nodes s a = Some nd" "chain s (node_next nd) as" by auto
    moreover have "a \<noteq> last as" using Cons.prems(3) False by auto
    ultimately show ?thesis using Cons.IH [of "node_next nd"] Cons.prems False by (auto simp: last_ConsR)
  qed
qed simp

text \<open>\<open>relinked s t d q\<close>: from \<open>s\<close> to \<open>t\<close>, nothing changes in the nodes that were there but the list of the children of
  \<open>d\<close> and what follows \<open>q\<close>.\<close>

definition relinked ::
  "('h, 'b, 'z) build_state_scheme \<Rightarrow> ('h, 'b, 'z) build_state_scheme \<Rightarrow> addr \<Rightarrow> addr option \<Rightarrow> bool"
where
  "relinked s t d q \<longleftrightarrow> brk s \<le> brk t \<and> (\<forall>m nd. nodes s m = Some nd \<longrightarrow> (\<exists>nd'. nodes t m = Some nd' \<and>
     node_parent nd' = node_parent nd \<and> node_flavor nd' = node_flavor nd \<and> node_data nd' = node_data nd \<and>
     node_line nd' = node_line nd \<and> node_path nd' = node_path nd \<and>
     (m \<noteq> d \<longrightarrow> node_cl_head nd' = node_cl_head nd \<and> node_cl_tail nd' = node_cl_tail nd) \<and>
     (q \<noteq> Some m \<longrightarrow> node_next nd' = node_next nd)))"

lemma relinked_refl [simp]: "relinked s s d q"
  by (simp add: relinked_def)

lemma relinkedE:
  assumes "relinked s t d q" and "nodes s m = Some nd"
  obtains nd' where "nodes t m = Some nd'" "node_parent nd' = node_parent nd" "node_flavor nd' = node_flavor nd"
    "node_data nd' = node_data nd" "node_line nd' = node_line nd" "node_path nd' = node_path nd"
    "m \<noteq> d \<Longrightarrow> node_cl_head nd' = node_cl_head nd" "m \<noteq> d \<Longrightarrow> node_cl_tail nd' = node_cl_tail nd"
    "q \<noteq> Some m \<Longrightarrow> node_next nd' = node_next nd"
  using assms unfolding relinked_def by blast

lemma relinkedI:
  assumes "brk s \<le> brk t"
    and "\<And>m nd. nodes s m = Some nd \<Longrightarrow> \<exists>nd'. nodes t m = Some nd' \<and> node_parent nd' = node_parent nd \<and>
      node_flavor nd' = node_flavor nd \<and> node_data nd' = node_data nd \<and>
      node_line nd' = node_line nd \<and> node_path nd' = node_path nd \<and>
      (m \<noteq> d \<longrightarrow> node_cl_head nd' = node_cl_head nd \<and> node_cl_tail nd' = node_cl_tail nd) \<and>
      (q \<noteq> Some m \<longrightarrow> node_next nd' = node_next nd)"
  shows "relinked s t d q"
  using assms unfolding relinked_def by blast

lemma relinked_same:
  assumes "relinked s t d q" and "nodes s m = Some nd" and "m \<noteq> d" and "q \<noteq> Some m"
  shows "nodes t m = Some nd"
  using assms(1,2) by (rule relinkedE) (use assms(3,4) in \<open>simp add: cil_tree_node.equality\<close>)

lemma relinked_trans:
  assumes "relinked s t d q" and "relinked t u d' q'"
    and "\<And>m. nodes s m \<noteq> None \<Longrightarrow> m \<noteq> d \<Longrightarrow> m \<noteq> d'" and "\<And>m. nodes s m \<noteq> None \<Longrightarrow> q \<noteq> Some m \<Longrightarrow> q' \<noteq> Some m"
  shows "relinked s u d q"
proof (rule relinkedI)
  show "brk s \<le> brk u" using assms(1,2) by (simp add: relinked_def)
  fix m nd assume m: "nodes s m = Some nd"
  obtain nd1 where "nodes t m = Some nd1" "node_parent nd1 = node_parent nd"
    "node_flavor nd1 = node_flavor nd" "node_data nd1 = node_data nd" "node_line nd1 = node_line nd"
    "node_path nd1 = node_path nd" "m \<noteq> d \<Longrightarrow> node_cl_head nd1 = node_cl_head nd"
    "m \<noteq> d \<Longrightarrow> node_cl_tail nd1 = node_cl_tail nd" "q \<noteq> Some m \<Longrightarrow> node_next nd1 = node_next nd"
    using relinkedE [OF assms(1) m] by blast
  note 1 = this
  from assms(2) 1(1) show "\<exists>nd'. nodes u m = Some nd' \<and> node_parent nd' = node_parent nd \<and>
      node_flavor nd' = node_flavor nd \<and> node_data nd' = node_data nd \<and>
      node_line nd' = node_line nd \<and> node_path nd' = node_path nd \<and>
      (m \<noteq> d \<longrightarrow> node_cl_head nd' = node_cl_head nd \<and> node_cl_tail nd' = node_cl_tail nd) \<and>
      (q \<noteq> Some m \<longrightarrow> node_next nd' = node_next nd)"
  proof (rule relinkedE)
    fix nd2 assume 2: "nodes u m = Some nd2" "node_parent nd2 = node_parent nd1" "node_flavor nd2 = node_flavor nd1"
      "node_data nd2 = node_data nd1" "node_line nd2 = node_line nd1" "node_path nd2 = node_path nd1"
      "m \<noteq> d' \<Longrightarrow> node_cl_head nd2 = node_cl_head nd1" "m \<noteq> d' \<Longrightarrow> node_cl_tail nd2 = node_cl_tail nd1"
      "q' \<noteq> Some m \<Longrightarrow> node_next nd2 = node_next nd1"
    have "m \<noteq> d \<Longrightarrow> m \<noteq> d'" "q \<noteq> Some m \<Longrightarrow> q' \<noteq> Some m" using assms(3,4) m by auto
    with 1 2 show ?thesis by (intro exI [of _ nd2]) simp
  qed
qed

lemma append_child_kids:
  assumes "kids s d as" and "nodes s b = Some bd" and "node_next bd = None" and "b \<notin> set as" and "b \<noteq> d"
  obtains t where "append_child d b s = (Ok (), t)" and "kids t d (as @ [b])" and "brk t = brk s"
    and "relinked s t d (tail_of as)" and "nodes t b = Some bd" and "\<And>m. nodes s m = None \<Longrightarrow> nodes t m = None"
proof -
  from assms(1) obtain nd where d: "nodes s d = Some nd" "chain s (node_cl_head nd) as"
    "as \<noteq> [] \<Longrightarrow> node_cl_tail nd = Some (last as)" "distinct as" "d \<notin> set as"
    by (auto simp: kids_def)
  show thesis
  proof (cases "as = []")
    case True
    let ?t = "s\<lparr>nodes := (nodes s)(d \<mapsto> nd\<lparr>node_cl_head := Some b, node_cl_tail := Some b\<rparr>)\<rparr>"
    have "append_child d b s = (Ok (), ?t)" using d True by (simp add: append_child_def bind_def rd_def wr_def)
    then show thesis
      by (rule that) (use True d assms in \<open>auto simp: kids_def relinked_def tail_of_def\<close>)
  next
    case False
    then have q: "last as \<in> set as" by simp
    with d chain_exists [OF d(2)] obtain ld where l: "nodes s (last as) = Some ld" by blast
    have ne: "last as \<noteq> d" "last as \<noteq> b" using q d(5) assms(4) by auto
    let ?t = "s\<lparr>nodes := (nodes s)(last as \<mapsto> ld\<lparr>node_next := Some b\<rparr>, d \<mapsto> nd\<lparr>node_cl_tail := Some b\<rparr>)\<rparr>"
    have head: "node_cl_head nd \<noteq> None" using d(2) False by (cases as) auto
    have run: "append_child d b s = (Ok (), ?t)"
      using d(1) d(3) [OF False] head l ne by (auto simp: append_child_def bind_def rd_def wr_def fun_upd_twist)
    have "chain ?t (node_cl_head nd) (as @ [b])"
      by (rule chain_snoc [OF d(2) False d(4) l]) (use ne assms(2,3,5) d(5) in auto)
    then have "kids ?t d (as @ [b])" using d assms(4,5) by (auto simp: kids_def)
    from run this show thesis
      by (rule that) (use False d assms l ne in \<open>auto simp: relinked_def tail_of_def\<close>)
  qed
qed

subsection \<open>Copies of trees\<close>

text \<open>\<open>copy_of lo o t p x b\<close>: the tree at \<open>b\<close> in the memory \<open>t\<close> is a copy of \<open>x\<close>, whose nodes are those of \<open>o\<close>; its
  parent is \<open>p\<close> and its nodes are in memory from \<open>lo\<close> on.\<close>

fun copy_of ::
  "addr \<Rightarrow> (addr \<rightharpoonup> cil_tree_node) \<Rightarrow> ('h, 'b, 'z) cil_store_scheme \<Rightarrow> addr option \<Rightarrow> ast \<Rightarrow> addr \<Rightarrow> bool"
where
  "copy_of lo old t p (Ast a us) b \<longleftrightarrow> lo \<le> b \<and>
     (\<exists>nd nd'. old a = Some nd \<and> nodes t b = Some nd' \<and> node_flavor nd' = node_flavor nd \<and>
       node_line nd' = node_line nd \<and> node_path nd' = node_path nd \<and> node_parent nd' = p) \<and>
     (\<exists>bs. kids t b bs \<and> list_all2 (copy_of (Suc b) old t (Some b)) us bs)"

lemma copy_of_lo: "copy_of lo old t p x b \<Longrightarrow> lo' \<le> lo \<Longrightarrow> copy_of lo' old t p x b"
  by (cases x) auto

lemma copy_of_at: "copy_of lo old t p x b \<Longrightarrow> lo \<le> b \<and> nodes t b \<noteq> None"
  by (cases x) auto

lemma copies_at:
  assumes "list_all2 (copy_of lo old t p) us bs" and "m \<in> set bs"
  shows "lo \<le> m \<and> nodes t m \<noteq> None"
  using assms by (induction rule: list_all2_induct) (auto dest: copy_of_at)

lemma kids_agree:
  assumes "kids s b bs" and "nodes s b = Some nd" and "nodes t b = Some nd'" and "node_cl_head nd' = node_cl_head nd"
    and "node_cl_tail nd' = node_cl_tail nd" and "\<And>m. m \<in> set bs \<Longrightarrow> nodes t m = nodes s m"
  shows "kids t b bs"
  using assms chain_agree [of s "node_cl_head nd" bs t] by (auto simp: kids_def)

lemma copy_of_same:
  assumes "\<And>m. lo \<le> m \<Longrightarrow> nodes t m \<noteq> None \<Longrightarrow> nodes t' m = nodes t m"
  shows "copy_of lo old t p x b \<Longrightarrow> copy_of lo old t' p x b"
  using assms
proof (induction lo old t p x b rule: copy_of.induct)
  case (1 lo old t p a us b)
  from "1.prems"(1) obtain nd nd' bs where b: "lo \<le> b" "old a = Some nd" "nodes t b = Some nd'"
    "node_flavor nd' = node_flavor nd" "node_line nd' = node_line nd" "node_path nd' = node_path nd" "node_parent nd' = p"
    and kids: "kids t b bs" and us: "list_all2 (copy_of (Suc b) old t (Some b)) us bs"
    by auto
  have same: "nodes t' m = nodes t m" if "Suc b \<le> m" "nodes t m \<noteq> None" for m
    using "1.prems"(2) that b(1) by simp
  have "nodes t' b = Some nd'" using "1.prems"(2) [of b] b(1,3) by simp
  moreover have "kids t' b bs"
    by (rule kids_agree [OF kids b(3) \<open>nodes t' b = Some nd'\<close> refl refl]) (use copies_at [OF us] same in auto)
  moreover have "list_all2 (copy_of (Suc b) old t' (Some b)) us bs"
    by (rule list.rel_mono_strong [OF us]) (use "1.IH" same in auto)
  ultimately show ?case using b by auto
qed

text \<open>The next node may change.\<close>

lemma copy_of_next:
  assumes "copy_of lo old t p x b" and "nodes t b = Some nd" and "nodes t' b = Some nd'"
    and "node_parent nd' = node_parent nd" "node_flavor nd' = node_flavor nd" "node_line nd' = node_line nd"
    "node_path nd' = node_path nd" "node_cl_head nd' = node_cl_head nd" "node_cl_tail nd' = node_cl_tail nd"
    and "\<And>m. Suc b \<le> m \<Longrightarrow> nodes t m \<noteq> None \<Longrightarrow> nodes t' m = nodes t m"
  shows "copy_of lo old t' p x b"
proof (cases x)
  case (Ast a us)
  with assms(1) obtain bs where kids: "kids t b bs" and us: "list_all2 (copy_of (Suc b) old t (Some b)) us bs" by auto
  have "kids t' b bs"
    by (rule kids_agree [OF kids assms(2,3,8,9)]) (use copies_at [OF us] assms(10) in auto)
  moreover have "list_all2 (copy_of (Suc b) old t' (Some b)) us bs"
    using us by (rule list_all2_mono) (use copy_of_same assms(10) in blast)
  ultimately show ?thesis using assms Ast by auto
qed

subsection \<open>The step of the walk\<close>

lemma tree_node_init_apply:
  "cil_tree_node_init s = (Ok (brk s), s\<lparr>brk := Suc (brk s), nodes := (nodes s)(brk s \<mapsto>
     \<lparr>node_parent = None, node_cl_head = None, node_cl_tail = None, node_next = None, node_flavor = CIL_ROOT,
      node_line = 0, node_path = None, node_data = None\<rparr>)\<rparr>)"
  by (simp add: cil_tree_node_init_def new_struct_def fresh_def bind_def)

text \<open>The memory after the new node \<open>b\<close> has been filled, before it is entered into the children of \<open>d\<close>.\<close>

definition filled :: "('h, 'b, 'z) build_state_scheme \<Rightarrow> addr \<Rightarrow> cil_tree_node \<Rightarrow> addr \<Rightarrow> ('h, 'b, 'z) build_state_scheme \<Rightarrow> bool"
where
  "filled s d orig b t \<longleftrightarrow> brk s \<le> b \<and> b < brk t \<and> (\<exists>data. nodes t = (nodes s)(b \<mapsto>
     \<lparr>node_parent = Some d, node_cl_head = None, node_cl_tail = None, node_next = None, node_flavor = node_flavor orig,
      node_line = node_line orig, node_path = node_path orig, node_data = data\<rparr>))"

lemma frame_filled: "frame (filled s d orig b)"
  by (auto simp: frame_def filled_def)

definition fits :: "('h, 'b, 'z) build_state_scheme \<Rightarrow> addr \<Rightarrow> cil_flavor \<Rightarrow> bool" where
  "fits s d f \<longleftrightarrow> (f = CIL_CONDBLOCK \<longrightarrow> conditional s (Some d))"

lemma filled_linked:
  assumes "linked s" and "nodes s d \<noteq> None" and "fits s d (node_flavor orig)" and "filled s d orig b t"
  shows "linked t"
proof -
  from assms(4) obtain data where b: "brk s \<le> b" "b < brk t" and t: "nodes t = (nodes s)(b \<mapsto>
     \<lparr>node_parent = Some d, node_cl_head = None, node_cl_tail = None, node_next = None, node_flavor = node_flavor orig,
      node_line = node_line orig, node_path = node_path orig, node_data = data\<rparr>)"
    by (auto simp: filled_def)
  have old: "m < brk s" if "nodes s m \<noteq> None" for m using linkedD(1) [OF assms(1)] that by auto
  have cond: "conditional t p" if "conditional s p" for p using that old b by (fastforce simp: conditional_def t)
  show ?thesis
    unfolding linked_def
  proof (intro allI impI)
    fix m nd assume m: "nodes t m = Some nd"
    show "m < brk t \<and> (\<forall>p. node_parent nd = Some p \<longrightarrow> p < m \<and> nodes t p \<noteq> None) \<and>
      (node_flavor nd = CIL_CONDBLOCK \<longrightarrow> conditional t (node_parent nd))"
    proof (cases "m = b")
      case True
      then show ?thesis using m b old [OF assms(2)] assms(2,3) cond by (auto simp: t fits_def)
    next
      case False
      with m have "nodes s m = Some nd" by (simp add: t)
      with linkedD [OF assms(1) this] cond old b show ?thesis by (fastforce simp: t)
    qed
  qed
qed

text \<open>What the step does: \<open>b\<close> is the new last child of \<open>d\<close>.\<close>

definition added ::
  "('h, 'b, 'z) build_state_scheme \<Rightarrow> addr \<Rightarrow> addr list \<Rightarrow> cil_tree_node \<Rightarrow> addr \<Rightarrow> ('h, 'b, 'z) build_state_scheme \<Rightarrow> bool"
where
  "added s d as orig b t \<longleftrightarrow> brk s \<le> b \<and> b < brk t \<and> linked t \<and> kids t d (as @ [b]) \<and> kids t b [] \<and>
     relinked s t d (tail_of as) \<and> (\<exists>nd. nodes t b = Some nd \<and> node_parent nd = Some d \<and>
       node_flavor nd = node_flavor orig \<and> node_line nd = node_line orig \<and> node_path nd = node_path orig \<and>
       node_next nd = None)"

lemma chain_cong: "nodes s = nodes t \<Longrightarrow> chain s p l = chain t p l"
  by (induction l arbitrary: p) simp_all

lemma kids_cong: "nodes s = nodes t \<Longrightarrow> kids s c l = kids t c l"
  using chain_cong [of s t] by (simp add: kids_def)

lemma frame_added: "frame (added s d as orig b)"
  unfolding frame_def
proof (intro allI impI)
  fix t u :: "('a, 'b, 'c) build_state_scheme"
  assume eq: "nodes t = nodes u" and brk: "brk t \<le> brk u" and t: "added s d as orig b t"
  have "linked u" using t frameD [OF frame_linked, of t u] eq brk by (simp add: added_def)
  then show "added s d as orig b u" using t eq brk kids_cong [OF eq] by (auto simp: added_def relinked_def)
qed

lemma append_filled:
  assumes "linked s" and "kids s d as" and "fits s d (node_flavor orig)"
  shows "spec (filled s d orig b) (append_child d b) (\<lambda>_. added s d as orig b)"
proof (rule specI)
  fix t u and x :: unit assume f: "filled s d orig b t"
  from assms(2) have d: "nodes s d \<noteq> None" by (auto simp: kids_def)
  from f obtain data where b: "brk s \<le> b" "b < brk t" and t: "nodes t = (nodes s)(b \<mapsto>
     \<lparr>node_parent = Some d, node_cl_head = None, node_cl_tail = None, node_next = None, node_flavor = node_flavor orig,
      node_line = node_line orig, node_path = node_path orig, node_data = data\<rparr>)"
    by (auto simp: filled_def)
  have old: "m < brk s" if "nodes s m \<noteq> None" for m using linkedD(1) [OF assms(1)] that by auto
  have ch: "chain s p as \<Longrightarrow> m \<in> set as \<Longrightarrow> m < b" for p m using chain_exists [of s p as m] old b by fastforce
  have fresh: "b \<notin> set as" "b \<noteq> d" using assms(2) ch old [OF d] b by (auto simp: kids_def)
  have kids: "kids t d as"
    using assms(2) chain_agree [of s _ as t] fresh by (fastforce simp: kids_def t)
  obtain v where v: "append_child d b t = (Ok (), v)" "kids v d (as @ [b])" "brk v = brk t"
    "relinked t v d (tail_of as)" "nodes v b = nodes t b" "\<And>m. nodes t m = None \<Longrightarrow> nodes v m = None"
    by (rule append_child_kids [OF kids _ _ fresh]) (auto simp: t)
  show "append_child d b t \<noteq> (Out_of_fuel, u)" using v(1) by simp
  assume "append_child d b t = (Ok x, u)"
  with v(1) have u: "u = v" by simp
  have st: "relinked s t d (tail_of as)" using b old by (fastforce simp: relinked_def t)
  have "relinked s v d (tail_of as)" by (rule relinked_trans [OF st v(4)])
  moreover have "linked v"
  proof -
    note lt = filled_linked [OF assms(1) d assms(3) f]
    have origin: "\<exists>nd. nodes t m = Some nd \<and> node_parent nd' = node_parent nd \<and> node_flavor nd' = node_flavor nd"
      if "nodes v m = Some nd'" for m nd'
      using that v(6) [of m] relinkedE [OF v(4), of m] by (cases "nodes t m") force+
    have cond: "conditional v p" if "conditional t p" for p
      using that relinkedE [OF v(4)] by (fastforce simp: conditional_def)
    have alive: "nodes v p \<noteq> None" if "nodes t p \<noteq> None" for p using that relinkedE [OF v(4)] by fastforce
    show ?thesis
      unfolding linked_def
    proof (intro allI impI)
      fix m nd' assume m: "nodes v m = Some nd'"
      from origin [OF m] obtain nd where nd: "nodes t m = Some nd" "node_parent nd' = node_parent nd"
        "node_flavor nd' = node_flavor nd" by blast
      show "m < brk v \<and> (\<forall>p. node_parent nd' = Some p \<longrightarrow> p < m \<and> nodes v p \<noteq> None) \<and>
        (node_flavor nd' = CIL_CONDBLOCK \<longrightarrow> conditional v (node_parent nd'))"
        using linkedD [OF lt nd(1)] nd(2,3) v(3) cond alive by auto
    qed
  qed
  ultimately show "added s d as orig b u"
    using b v(2,3,5) by (auto simp: added_def u t kids_def)
qed

end
