(* ===== verification/Cil_Copy_Walk.thy ===== *)
theory Cil_Copy_Walk
  imports Cil_Copy_Tree
begin

text \<open>
  The walk of \<open>src/cil_copy_ast.c\<close>: each step adds one node, and the whole walk adds a copy of every tree below the
  node it is given, in the same order, and ends.
\<close>

subsection \<open>One node\<close>

lemma bind_lift_not_null [simp]: "bind (lift (not_null (Some a))) f = f a"
  by (simp add: fun_eq_iff not_null_def bind_def)

lemma spec_fact: "(A \<Longrightarrow> spec P m Q) \<Longrightarrow> spec (\<lambda>s. A \<and> P s) m Q"
  by (auto simp: spec_def)

text \<open>Up to the new node, the nodes are as they were.\<close>

definition unmoved :: "('h, 'b, 'z) build_state_scheme \<Rightarrow> ('h, 'b, 'z) build_state_scheme \<Rightarrow> bool" where
  "unmoved s t \<longleftrightarrow> nodes t = nodes s \<and> brk s \<le> brk t"

lemma frame_unmoved: "frame (unmoved s)"
  by (simp add: frame_def unmoved_def)

lemma unmoved_linked: "linked s \<Longrightarrow> unmoved s t \<Longrightarrow> linked t"
  using frameD [OF frame_linked, of s t] by (simp add: unmoved_def)

text \<open>The new node, before it is entered among the children.\<close>

lemma spec_new_node:
  assumes "\<And>b. spec (filled s d orig b) (f b) Q"
  shows "spec (unmoved s) (bind cil_tree_node_init (\<lambda>b.
      bind (wr nodes nodes_update b (\<lambda>nd. nd\<lparr>node_parent := Some d, node_line := node_line orig,
         node_path := node_path orig, node_flavor := node_flavor orig, node_data := data\<rparr>)) (\<lambda>_. f b))) Q"
proof (rule spec_states, rule specI)
  fix u v t x assume "unmoved s u"
  then have u: "nodes u = nodes s" "brk s \<le> brk u" by (simp_all add: unmoved_def)
  let ?t = "u\<lparr>brk := Suc (brk u), nodes := (nodes s)(brk u \<mapsto>
      \<lparr>node_parent = Some d, node_cl_head = None, node_cl_tail = None, node_next = None, node_flavor = node_flavor orig,
       node_line = node_line orig, node_path = node_path orig, node_data = data\<rparr>)\<rparr>"
  have "bind cil_tree_node_init (\<lambda>b.
      bind (wr nodes nodes_update b (\<lambda>nd. nd\<lparr>node_parent := Some d, node_line := node_line orig,
         node_path := node_path orig, node_flavor := node_flavor orig, node_data := data\<rparr>)) (\<lambda>_. f b)) u = f (brk u) ?t"
    using u by (simp add: tree_node_init_apply bind_def wr_def comp_def)
  moreover have "filled s d orig (brk u) ?t" using u by (auto simp: filled_def)
  moreover assume "v = u"
  ultimately show
    "bind cil_tree_node_init (\<lambda>b.
      bind (wr nodes nodes_update b (\<lambda>nd. nd\<lparr>node_parent := Some d, node_line := node_line orig,
         node_path := node_path orig, node_flavor := node_flavor orig, node_data := data\<rparr>)) (\<lambda>_. f b)) v \<noteq> (Out_of_fuel, t)"
    "bind cil_tree_node_init (\<lambda>b.
      bind (wr nodes nodes_update b (\<lambda>nd. nd\<lparr>node_parent := Some d, node_line := node_line orig,
         node_path := node_path orig, node_flavor := node_flavor orig, node_data := data\<rparr>)) (\<lambda>_. f b)) v = (Ok x, t) \<Longrightarrow> Q x t"
    using specD [OF assms, of "brk u" ?t] by auto
qed

lemma node_helper_spec:
  assumes s: "linked s" and kids: "kids s d as" and fits: "fits s d (node_flavor orig)"
    and a: "nodes s a = Some orig" and ne: "a \<noteq> d" "tail_of as \<noteq> Some a"
  shows "spec (\<lambda>x. x = s) (cil_copy_node_helper L a (Some d)) (\<lambda>dest t.
    node_flavor orig \<in> set copied_flavors \<and>
    (\<exists>b. added s d as orig b t \<and> dest = (if node_cl_head orig \<noteq> None then Some b else Some d)))"
    (is "spec _ _ ?Q")
proof -
  have d: "nodes s d \<noteq> None" using kids by (auto simp: kids_def)
  have fl: "linked x" if "filled s d orig b x" for b x by (rule filled_linked [OF s d fits that])
  have last: "spec (added s d as orig b) (bind (rd nodes a) (\<lambda>orig.
      ret (if node_cl_head orig \<noteq> None then Some b else Some d))) ?Q"
    if "node_flavor orig \<in> set copied_flavors" for b
  proof (rule spec_bind)
    show "spec (added s d as orig b) (rd nodes a) (\<lambda>x t. x = orig \<and> added s d as orig b t)"
      by (rule spec_rd) (use relinked_same [OF _ a ne] in \<open>auto simp: added_def\<close>)
    show "spec (\<lambda>t. x = orig \<and> added s d as orig b t) (ret (if node_cl_head x \<noteq> None then Some b else Some d)) ?Q" for x
      by (rule spec_ret) (use that in auto)
  qed
  have rest: "spec (filled s d orig b) (bind (if node_flavor orig \<ge> CIL_MIN_DECLARATIVE
      then copy_declare L symtab (node_data orig) data b (node_flavor orig) else ret ()) (\<lambda>_.
      bind (if node_flavor orig = CIL_BLOCKINHERIT then copy_inherit data b else ret ()) (\<lambda>_.
      bind (lift (not_null (Some d))) (\<lambda>parent.
      bind (append_child parent b) (\<lambda>_.
      bind (rd nodes a) (\<lambda>orig.
      ret (if node_cl_head orig \<noteq> None then Some b else Some d))))))) ?Q"
    if "node_flavor orig \<in> set copied_flavors" for b symtab data
  proof (rule keeps_bind [OF _ keeps_bind])
    show "keeps (filled s d orig b) (if node_flavor orig \<ge> CIL_MIN_DECLARATIVE
        then copy_declare L symtab (node_data orig) data b (node_flavor orig) else ret ())"
      "keeps (filled s d orig b) (if node_flavor orig = CIL_BLOCKINHERIT then copy_inherit data b else ret ())"
      by (intro spec_rules copy_declare_keeps copy_inherit_keeps frame_filled fl; simp)+
    show "spec (filled s d orig b) (bind (lift (not_null (Some d))) (\<lambda>parent.
      bind (append_child parent b) (\<lambda>_.
      bind (rd nodes a) (\<lambda>orig.
      ret (if node_cl_head orig \<noteq> None then Some b else Some d))))) ?Q"
      unfolding bind_lift_not_null by (rule spec_bind [OF append_filled [OF s kids fits] last [OF that]])
  qed
  show ?thesis
    unfolding cil_copy_node_helper_def
  proof (rule spec_bind [where R = "\<lambda>x t. x = orig \<and> unmoved s t"])
    show "spec (\<lambda>x. x = s) (rd nodes a) (\<lambda>x t. x = orig \<and> unmoved s t)"
      by (rule spec_rd) (use a in \<open>auto simp: unmoved_def\<close>)
  next
    fix x
    show "spec (\<lambda>t. x = orig \<and> unmoved s t) (let f = node_flavor x in
      if f \<notin> set copied_flavors then fail SEPOL_ERR
      else
       bind (if f \<ge> CIL_MIN_DECLARATIVE then
               bind (lift (cil_flavor_to_symtab_index f)) (\<lambda>sym_index.
               bind (reading (\<lambda>s. cil_get_symtab (Suc (brk s)) s (Some d) sym_index)) (\<lambda>symtab. ret (Some symtab)))
             else ret None) (\<lambda>symtab.
       bind (cil_copy_data L f (node_data x) symtab) (\<lambda>data.
       bind cil_tree_node_init (\<lambda>new.
       bind (wr nodes nodes_update new (\<lambda>nd. nd\<lparr>node_parent := Some d, node_line := node_line x,
         node_path := node_path x, node_flavor := f, node_data := data\<rparr>)) (\<lambda>_.
       bind (if f \<ge> CIL_MIN_DECLARATIVE then copy_declare L symtab (node_data x) data new f else ret ()) (\<lambda>_.
       bind (if f = CIL_BLOCKINHERIT then copy_inherit data new else ret ()) (\<lambda>_.
       bind (lift (not_null (Some d))) (\<lambda>parent.
       bind (append_child parent new) (\<lambda>_.
       bind (rd nodes a) (\<lambda>orig.
       ret (if node_cl_head orig \<noteq> None then Some new else Some d))))))))))) ?Q"
      unfolding Let_def
    proof (rule spec_fact, rule spec_if [OF spec_fail], rule keeps_bind [OF _ keeps_bind [OF frame_copy_data [OF frame_unmoved]]])
      show "keeps (unmoved s) (if node_flavor x \<ge> CIL_MIN_DECLARATIVE then
           bind (lift (cil_flavor_to_symtab_index (node_flavor x))) (\<lambda>sym_index.
           bind (reading (\<lambda>s. cil_get_symtab (Suc (brk s)) s (Some d) sym_index)) (\<lambda>symtab. ret (Some symtab)))
         else ret None)"
        by (intro spec_rules keeps_reading get_symtab_ends; auto intro: unmoved_linked [OF s])
    qed (hypsubst, rule spec_new_node, rule rest, simp)
  qed
qed

subsection \<open>The walk\<close>

text \<open>\<open>branched old c ts\<close>: the branches of conditionals stand in a conditional, as the construction of the AST leaves
  them; \<open>c\<close> says that the trees \<open>ts\<close> are themselves in one.\<close>

fun branched :: "(addr \<rightharpoonup> cil_tree_node) \<Rightarrow> bool \<Rightarrow> ast list \<Rightarrow> bool" where
  "branched old c [] \<longleftrightarrow> True"
| "branched old c (Ast a ts # us) \<longleftrightarrow>
     (case old a of
        None \<Rightarrow> False
      | Some nd \<Rightarrow> (node_flavor nd = CIL_CONDBLOCK \<longrightarrow> c) \<and>
          branched old (node_flavor nd = CIL_BOOLEANIF \<or> node_flavor nd = CIL_TUNABLEIF) ts) \<and> branched old c us"

text \<open>What the copy of the trees \<open>ts\<close> into \<open>d\<close>, which has the children \<open>as\<close>, leaves.\<close>

definition copied ::
  "('h, 'b, 'z) build_state_scheme \<Rightarrow> (addr \<rightharpoonup> cil_tree_node) \<Rightarrow> addr \<Rightarrow> addr list \<Rightarrow> ast list \<Rightarrow>
   ('h, 'b, 'z) build_state_scheme \<Rightarrow> bool"
where
  "copied s old d as ts t \<longleftrightarrow> linked t \<and> relinked s t d (tail_of as) \<and>
     (\<exists>bs. kids t d (as @ bs) \<and> list_all2 (copy_of (brk s) old t (Some d)) ts bs)"

lemma copiedE:
  assumes "copied s old d as ts t"
  obtains bs where "linked t" "relinked s t d (tail_of as)" "kids t d (as @ bs)"
    "list_all2 (copy_of (brk s) old t (Some d)) ts bs"
  using assms by (auto simp: copied_def)

lemma copied_Nil: "linked s \<Longrightarrow> kids s d as \<Longrightarrow> copied s old d as [] s"
  by (simp add: copied_def)

lemma kids_relinked:
  assumes "kids s d as" and r: "relinked s t d' q" and "d \<noteq> d'" and "\<And>m. m \<in> set as \<Longrightarrow> q \<noteq> Some m"
  shows "kids t d as"
proof -
  have follows: "\<exists>nd'. nodes t m = Some nd' \<and> node_next nd' = node_next nd" if "nodes s m = Some nd" "q \<noteq> Some m" for m nd
    using relinkedE [OF r that(1)] that(2) by metis
  have "chain s p as \<Longrightarrow> (\<And>m. m \<in> set as \<Longrightarrow> q \<noteq> Some m) \<Longrightarrow> chain t p as" for p as
    by (induction as arbitrary: p) (use follows in fastforce)+
  note chain = this
  from assms(1) obtain nd where nd: "nodes s d = Some nd" "chain s (node_cl_head nd) as"
    "as \<noteq> [] \<Longrightarrow> node_cl_tail nd = Some (last as)" "distinct as" "d \<notin> set as" by (auto simp: kids_def)
  from r nd(1) obtain nd' where "nodes t d = Some nd'" "node_cl_head nd' = node_cl_head nd" "node_cl_tail nd' = node_cl_tail nd"
    by (rule relinkedE) (use assms(3) in auto)
  with nd chain [OF nd(2) assms(4)] show ?thesis by (simp add: kids_def)
qed

lemma tail_of_snoc [simp]: "tail_of (as @ [b]) = Some b" and tail_of_Nil [simp]: "tail_of [] = None"
  by (simp_all add: tail_of_def)

lemma forest_exists: "forest_at s p ts \<Longrightarrow> m \<in> forest_addrs ts \<Longrightarrow> nodes s m \<noteq> None"
  by (induction ts arbitrary: p rule: ast_forest_induct) (auto split: option.splits)

lemma conditional_relinked:
  assumes "conditional s p" and "relinked s t d q"
  shows "conditional t p"
proof -
  from assms(1) obtain m nd where m: "p = Some m" "nodes s m = Some nd"
    "node_flavor nd = CIL_BOOLEANIF \<or> node_flavor nd = CIL_TUNABLEIF" by (auto simp: conditional_def)
  from assms(2) m(2) show ?thesis by (rule relinkedE) (use m in \<open>auto simp: conditional_def\<close>)
qed

text \<open>The copy of one tree and then of the others.\<close>

lemma copied_Cons:
  assumes "linked s" and added: "added s d as orig b t" and sub: "copied t old b [] ts t1"
    and rest: "copied t1 old d (as @ [b]) us u" and "old a = Some orig" and "nodes s d \<noteq> None"
  shows "copied s old d as (Ast a ts # us) u"
proof -
  from added have b: "brk s \<le> b" "b < brk t" and st: "relinked s t d (tail_of as)" by (auto simp: added_def)
  from added obtain bd where bd: "nodes t b = Some bd" "node_parent bd = Some d" "node_flavor bd = node_flavor orig"
    "node_line bd = node_line orig" "node_path bd = node_path orig" by (auto simp: added_def)
  from sub obtain cs where t1: "relinked t t1 b None" and kids1: "kids t1 b cs"
    and copies1: "list_all2 (copy_of (brk t) old t1 (Some b)) ts cs" by (auto elim: copiedE)
  from rest obtain bs where u: "linked u" "relinked t1 u d (Some b)" and kids: "kids u d (as @ b # bs)"
    and copies: "list_all2 (copy_of (brk t1) old u (Some d)) us bs" by (auto elim: copiedE)
  have old: "m < brk s" if "nodes s m \<noteq> None" for m using linkedD(1) [OF assms(1)] that by auto
  have lower: "brk s \<le> brk t" "brk t \<le> brk t1" using st t1 by (simp_all add: relinked_def)
  from t1 bd(1) obtain bd1 where bd1: "nodes t1 b = Some bd1" "node_parent bd1 = node_parent bd" "node_flavor bd1 = node_flavor bd"
    "node_line bd1 = node_line bd" "node_path bd1 = node_path bd" by (rule relinkedE)
  have ne: "b \<noteq> d" using old [OF assms(6)] b by simp
  from u(2) bd1(1) obtain bd2 where bd2: "nodes u b = Some bd2" "node_parent bd2 = node_parent bd1" "node_flavor bd2 = node_flavor bd1"
    "node_line bd2 = node_line bd1" "node_path bd2 = node_path bd1" "node_cl_head bd2 = node_cl_head bd1"
    "node_cl_tail bd2 = node_cl_tail bd1" by (rule relinkedE) (use ne in auto)
  have "copy_of (brk s) old t1 (Some d) (Ast a ts) b"
  proof -
    have "list_all2 (copy_of (Suc b) old t1 (Some b)) ts cs"
      using copies1 by (rule list_all2_mono) (use b copy_of_lo in fastforce)
    with kids1 show ?thesis using b bd bd1 assms(5) by auto
  qed
  then have first: "copy_of (brk s) old u (Some d) (Ast a ts) b"
  proof (rule copy_of_next [OF _ bd1(1) bd2])
    fix m assume m: "Suc b \<le> m" "nodes t1 m \<noteq> None"
    then have "m \<noteq> d" using old [OF assms(6)] b by simp
    then show "nodes u m = nodes t1 m" using relinked_same [OF u(2), of m] m by auto
  qed
  have others: "list_all2 (copy_of (brk s) old u (Some d)) us bs"
    using copies by (rule list_all2_mono) (use lower copy_of_lo in fastforce)
  have "relinked s t1 d (tail_of as)"
    by (rule relinked_trans [OF st t1]) (use old b in fastforce)+
  then have "relinked s u d (tail_of as)"
    by (rule relinked_trans [OF _ u(2)]) (use old b in fastforce)+
  with u(1) kids first others show ?thesis
    unfolding copied_def by (intro conjI exI [of _ "b # bs"]) (simp_all del: copy_of.simps)
qed

lemma copy_core_spec:
  assumes "forest_at s0 p ts" and "branched (nodes s0) c ts" and "forest_size ts \<le> fuel"
    and "linked s" and "kids s d as" and "c \<Longrightarrow> conditional s (Some d)"
    and "\<And>m. m \<in> forest_addrs ts \<Longrightarrow> nodes s m = nodes s0 m \<and> m \<noteq> d \<and> tail_of as \<noteq> Some m"
  shows "spec (\<lambda>x. x = s) (copy_walk_core fuel L p (Some d)) (\<lambda>dest t. dest = Some d \<and> copied s (nodes s0) d as ts t)"
  using assms
proof (induction ts arbitrary: p c fuel s d as rule: ast_forest_induct)
  case Nil
  then obtain k where "fuel = Suc k" by (cases fuel) auto
  with Nil show ?case by (auto simp: spec_def copied_Nil)
next
  case (Cons a ts us)
  obtain k where k: "fuel = Suc (Suc k)" using Cons.prems(3) by (cases fuel; cases "fuel - 1") auto
  from Cons.prems(1) obtain orig where p: "p = Some a" and orig: "nodes s0 a = Some orig"
    and kids: "forest_at s0 (node_cl_head orig) ts" and rest: "forest_at s0 (node_next orig) us"
    by (auto split: option.splits)
  let ?c = "node_flavor orig = CIL_BOOLEANIF \<or> node_flavor orig = CIL_TUNABLEIF"
  from Cons.prems(2) orig have cond: "node_flavor orig = CIL_CONDBLOCK \<Longrightarrow> c" "branched (nodes s0) ?c ts" "branched (nodes s0) c us"
    by auto
  have d: "nodes s d \<noteq> None" using Cons.prems(5) by (auto simp: kids_def)
  have old: "m < brk s" if "nodes s m \<noteq> None" for m using linkedD(1) [OF Cons.prems(4)] that by auto
  have a: "nodes s a = Some orig" "a \<noteq> d" "tail_of as \<noteq> Some a" using Cons.prems(7) [of a] orig by auto
  have fits: "fits s d (node_flavor orig)" using Cons.prems(6) cond(1) by (auto simp: fits_def)
  have tree: "nodes s m = nodes s0 m" "m \<noteq> d" "tail_of as \<noteq> Some m" "m < brk s" if "m \<in> forest_addrs (Ast a ts # us)" for m
    using Cons.prems(7) [OF that] old [of m] forest_exists [OF Cons.prems(1) that] by auto
  show ?case
    unfolding k p copy_walk_core.simps
  proof (rule spec_bind [OF node_helper_spec [OF Cons.prems(4,5) fits a]], rule spec_states)
    fix dest t assume "node_flavor orig \<in> set copied_flavors \<and> (\<exists>b. added s d as orig b t \<and>
      dest = (if node_cl_head orig \<noteq> None then Some b else Some d))"
    then obtain b where flavor: "node_flavor orig \<noteq> CIL_ROOT" and t: "added s d as orig b t"
      and dest: "dest = (if node_cl_head orig \<noteq> None then Some b else Some d)"
      by (auto simp: copied_flavors_def)
    from t have b: "brk s \<le> b" "linked t" "kids t d (as @ [b])" "kids t b []" "relinked s t d (tail_of as)"
      by (auto simp: added_def)
    have same: "nodes t m = nodes s0 m" if "m \<in> forest_addrs (Ast a ts # us)" for m
      using relinked_same [OF b(5), of m] tree [OF that] forest_exists [OF Cons.prems(1) that] by auto
    have kids_step: "spec (\<lambda>x. x = t) (if node_cl_head orig \<noteq> None then copy_walk (Suc k) L a dest else ret dest)
        (\<lambda>dest u. dest = Some d \<and> copied t (nodes s0) b [] ts u)"
    proof (cases "node_cl_head orig = None")
      case True
      then have "ts = []" using kids by simp
      with True dest b(2,4) show ?thesis by (auto simp: spec_def copied_Nil)
    next
      case False
      have core: "spec (\<lambda>x. x = t) (copy_walk_core k L (node_cl_head orig) (Some b))
          (\<lambda>dest u. dest = Some b \<and> copied t (nodes s0) b [] ts u)"
      proof (rule Cons.IH(1) [OF kids cond(2) _ b(2,4)])
        show "forest_size ts \<le> k" using Cons.prems(3) k by (cases us) auto
        show "conditional t (Some b)" if ?c using that t by (auto simp: added_def conditional_def)
        fix m assume "m \<in> forest_addrs ts"
        then show "nodes t m = nodes s0 m \<and> m \<noteq> b \<and> tail_of [] \<noteq> Some m" using same [of m] tree(4) [of m] b(1) by auto
      qed
      have back_up: "spec (\<lambda>u. dest' = Some b \<and> copied t (nodes s0) b [] ts u) (cil_copy_last_child_helper dest')
          (\<lambda>dest u. dest = Some d \<and> copied t (nodes s0) b [] ts u)" for dest'
      proof (rule spec_fact, hypsubst, rule spec_states)
        fix u assume u: "copied t (nodes s0) b [] ts u"
        then have "relinked t u b None" by (auto elim: copiedE)
        then obtain bd where "nodes u b = Some bd" "node_parent bd = Some d" "node_flavor bd = node_flavor orig"
          using t by (fastforce simp: added_def elim: relinkedE)
        with u flavor show "spec (\<lambda>v. v = u) (cil_copy_last_child_helper (Some b))
            (\<lambda>dest v. dest = Some d \<and> copied t (nodes s0) b [] ts v)"
          by (simp add: spec_def cil_copy_last_child_helper_def bind_def deref_def)
      qed
      have "spec (\<lambda>x. x = t) (copy_walk (Suc k) L a (Some b)) (\<lambda>dest u. dest = Some d \<and> copied t (nodes s0) b [] ts u)"
        unfolding copy_walk.simps
      proof (rule spec_bind [where R = "\<lambda>nd x. nd = orig \<and> x = t"])
        show "spec (\<lambda>x. x = t) (rd nodes a) (\<lambda>nd x. nd = orig \<and> x = t)"
          by (rule spec_rd) (use same [of a] orig in auto)
      qed (rule spec_fact, hypsubst, simp only: False if_False spec_bind [OF core back_up])
      with False dest show ?thesis by simp
    qed
    have others: "spec (\<lambda>x. x = t1) (bind (rd nodes a) (\<lambda>nd'. copy_walk_core (Suc k) L (node_next nd') (Some d)))
        (\<lambda>dest u. dest = Some d \<and> copied s (nodes s0) d as (Ast a ts # us) u)"
      if t1: "copied t (nodes s0) b [] ts t1" for t1
    proof (rule spec_bind [where R = "\<lambda>nd x. nd = orig \<and> x = t1"])
      from t1 have r: "relinked t t1 b None" "linked t1" by (auto elim: copiedE)
      have same1: "nodes t1 m = nodes s0 m \<and> m \<noteq> b" if "m \<in> forest_addrs (Ast a ts # us)" for m
        using relinked_same [OF r(1), of m] same [OF that] tree(4) [OF that] b(1) forest_exists [OF Cons.prems(1) that] by auto
      show "spec (\<lambda>x. x = t1) (rd nodes a) (\<lambda>nd x. nd = orig \<and> x = t1)"
        by (rule spec_rd) (use same1 [of a] orig in auto)
      have ne: "d \<noteq> b" using old [OF d] b(1) by simp
      have alive: "conditional t1 (Some d)" if "c"
        using conditional_relinked [OF conditional_relinked [OF Cons.prems(6) [OF that] b(5)] r(1)] .
      have "spec (\<lambda>x. x = t1) (copy_walk_core (Suc k) L (node_next orig) (Some d))
          (\<lambda>dest u. dest = Some d \<and> copied t1 (nodes s0) d (as @ [b]) us u)"
      proof (rule Cons.IH(2) [OF rest cond(3) _ r(2)])
        show "forest_size us \<le> Suc k" using Cons.prems(3) k by simp
        show "kids t1 d (as @ [b])" by (rule kids_relinked [OF b(3) r(1) ne]) simp
        show "conditional t1 (Some d)" if "c" using alive [OF that] .
        fix m assume m: "m \<in> forest_addrs us"
        then show "nodes t1 m = nodes s0 m \<and> m \<noteq> d \<and> tail_of (as @ [b]) \<noteq> Some m"
          using same1 [of m] tree(2) [of m] by auto
      qed
      then have "spec (\<lambda>x. x = t1) (copy_walk_core (Suc k) L (node_next orig) (Some d))
          (\<lambda>dest u. dest = Some d \<and> copied s (nodes s0) d as (Ast a ts # us) u)"
        by (rule spec_post) (use copied_Cons [OF Cons.prems(4) t t1 _ orig d] in auto)
      then show "spec (\<lambda>x. nd = orig \<and> x = t1) (copy_walk_core (Suc k) L (node_next nd) (Some d))
          (\<lambda>dest u. dest = Some d \<and> copied s (nodes s0) d as (Ast a ts # us) u)" for nd
        by (intro spec_fact) simp
    qed
    show "spec (\<lambda>x. x = t) (bind (rd nodes a) (\<lambda>nd.
        bind (if node_cl_head nd \<noteq> None then copy_walk (Suc k) L a dest else ret dest) (\<lambda>dest.
        bind (rd nodes a) (\<lambda>nd'. copy_walk_core (Suc k) L (node_next nd') dest))))
      (\<lambda>dest u. dest = Some d \<and> copied s (nodes s0) d as (Ast a ts # us) u)"
    proof (rule spec_bind [where R = "\<lambda>nd x. nd = orig \<and> x = t"])
      show "spec (\<lambda>x. x = t) (rd nodes a) (\<lambda>nd x. nd = orig \<and> x = t)"
        by (rule spec_rd) (use same [of a] orig in auto)
    qed (rule spec_fact, hypsubst, rule spec_bind [OF kids_step],
        rule spec_fact, hypsubst, rule spec_states, rule others)
  qed
qed

subsection \<open>The copy\<close>

lemma copy_ast_spec:
  assumes "linked s" and "nodes s orig = Some nd" and "forest_at s (node_cl_head nd) ts" and "forest_size ts < fuel"
    and "branched (nodes s) (conditional s (Some dest)) ts" and "kids s dest as"
    and "dest \<notin> forest_addrs ts" and "\<forall>m. tail_of as = Some m \<longrightarrow> m \<notin> forest_addrs ts"
  shows "spec (\<lambda>x. x = s) (cil_copy_ast fuel L orig dest) (\<lambda>_ t. copied s (nodes s) dest as ts t)"
proof -
  obtain k where k: "fuel = Suc k" using assms(4) by (cases fuel) auto
  have core: "spec (\<lambda>x. x = s) (copy_walk_core k L (node_cl_head nd) (Some dest))
      (\<lambda>r t. r = Some dest \<and> copied s (nodes s) dest as ts t)"
    by (rule copy_core_spec [OF assms(3,5) _ assms(1,6)]) (use assms(4,7,8) k in auto)
  have helper: "spec (\<lambda>t. r = Some dest \<and> copied s (nodes s) dest as ts t) (cil_copy_last_child_helper r)
      (\<lambda>_ t. copied s (nodes s) dest as ts t)" for r
    unfolding cil_copy_last_child_helper_def
    by (rule spec_fact, intro spec_rules keeps_reading) (auto simp: deref_def split: option.split)
  have walk: "spec (\<lambda>x. x = s) (copy_walk fuel L orig (Some dest)) (\<lambda>_ t. copied s (nodes s) dest as ts t)"
    unfolding k copy_walk.simps
  proof (rule spec_bind [where R = "\<lambda>x t. x = nd \<and> t = s"])
    show "spec (\<lambda>x. x = s) (rd nodes orig) (\<lambda>x t. x = nd \<and> t = s)" by (rule spec_rd) (use assms(2) in auto)
    show "spec (\<lambda>t. x = nd \<and> t = s) (if node_cl_head x = None then ret (Some dest)
        else bind (copy_walk_core k L (node_cl_head x) (Some dest)) cil_copy_last_child_helper)
        (\<lambda>_ t. copied s (nodes s) dest as ts t)" for x
    proof (rule spec_fact, hypsubst, rule spec_if)
      assume "node_cl_head nd = None"
      then have "ts = []" using assms(3) by simp
      then show "spec (\<lambda>t. t = s) (ret (Some dest)) (\<lambda>_ t. copied s (nodes s) dest as ts t)"
        by (intro spec_ret) (simp add: copied_Nil assms(1,6))
    qed (rule spec_bind [OF core helper])
  qed
  show ?thesis
    unfolding cil_copy_ast_def by (rule spec_bind [OF walk]) (intro spec_ret)
qed

text \<open>C29. The copy of a part of the AST, which the inheritance of a block and the call of a macro make, is faithful: when
  it succeeds, the destination has got, after the children it had, one child for each child of the original in the
  same order, and each is the root of a tree of the same shape as the original, with the flavors, lines and paths
  of the original, in new nodes; and nothing else of the AST has changed but the list of the children of the
  destination and the link of its last child.\<close>

theorem copy_ast_is_copy:
  assumes "linked s" and "nodes s orig = Some nd" and "forest_at s (node_cl_head nd) ts" and "forest_size ts < fuel"
    and "branched (nodes s) (conditional s (Some dest)) ts" and "kids s dest as"
    and "dest \<notin> forest_addrs ts" and "\<forall>m. tail_of as = Some m \<longrightarrow> m \<notin> forest_addrs ts"
    and "cil_copy_ast fuel L orig dest s = (Ok (), t)"
  shows "linked t \<and> relinked s t dest (tail_of as) \<and>
    (\<exists>bs. kids t dest (as @ bs) \<and> list_all2 (copy_of (brk s) (nodes s) t (Some dest)) ts bs)"
  using specD(2) [OF copy_ast_spec [OF assms(1-8)] refl assms(9)] unfolding copied_def .

text \<open>C30. A copy ends when the tree that is copied has neither its destination nor the destination's last node, and
  a branch at its top stands in a conditional: whatever is copied, \<open>cil_copy_ast\<close> succeeds, reports an error or stops at
  a fault within the fuel. Then the nodes that it adds are never among those that it has still to visit; a copy into
  the tree itself need not end.\<close>

theorem copy_ast_ends:
  assumes "linked s" and "nodes s orig = Some nd" and "forest_at s (node_cl_head nd) ts" and "forest_size ts < fuel"
    and "branched (nodes s) (conditional s (Some dest)) ts" and "kids s dest as"
    and "dest \<notin> forest_addrs ts" and "\<forall>m. tail_of as = Some m \<longrightarrow> m \<notin> forest_addrs ts"
  shows "fst (cil_copy_ast fuel L orig dest s) \<noteq> Out_of_fuel"
  using specD(1) [OF copy_ast_spec [OF assms] refl] by (metis prod.collapse)

subsection \<open>An example\<close>

text \<open>The children of the block \<open>1\<close>, a conditional with one branch and one statement in it, and another statement,
  are copied into the block \<open>8\<close>.\<close>

definition tree_node :: "addr option \<Rightarrow> addr option \<Rightarrow> addr option \<Rightarrow> addr option \<Rightarrow> cil_flavor \<Rightarrow> addr \<Rightarrow> cil_tree_node" where
  "tree_node parent head tail next_node flavor data = \<lparr>node_parent = parent, node_cl_head = head, node_cl_tail = tail,
     node_next = next_node, node_flavor = flavor, node_line = 1, node_path = Some ''p.cil'', node_data = Some data\<rparr>"

lemma tree_node_simps [simp]:
  "node_parent (tree_node p h l n f a) = p" "node_cl_head (tree_node p h l n f a) = h"
  "node_cl_tail (tree_node p h l n f a) = l" "node_next (tree_node p h l n f a) = n"
  "node_flavor (tree_node p h l n f a) = f" "node_data (tree_node p h l n f a) = Some a"
  by (simp_all add: tree_node_def)

definition two_blocks :: "((string \<times> addr) list, nat list) build_state" where
  "two_blocks = cil_store.extend (store0\<lparr>
     nodes := [0 \<mapsto> tree_node None (Some 1) (Some 8) None CIL_ROOT 9,
       1 \<mapsto> tree_node (Some 0) (Some 2) (Some 5) (Some 8) CIL_BLOCK 10,
       2 \<mapsto> tree_node (Some 1) (Some 3) (Some 3) (Some 5) CIL_BOOLEANIF 11,
       3 \<mapsto> tree_node (Some 2) (Some 4) (Some 4) None CIL_CONDBLOCK 12,
       4 \<mapsto> tree_node (Some 3) None None None CIL_TYPEPERMISSIVE 13,
       5 \<mapsto> tree_node (Some 1) None None None CIL_TYPEPERMISSIVE 13,
       8 \<mapsto> tree_node (Some 0) None None None CIL_BLOCK 14],
     m_booleanif := [11 \<mapsto> \<lparr>booleanif_str_expr = null_list, booleanif_datum_expr = None, booleanif_preserved_tunable = False\<rparr>],
     m_condblock := [12 \<mapsto> \<lparr>condblock_kind = CIL_CONDTRUE\<rparr>],
     m_typepermissive := [13 \<mapsto> \<lparr>typepermissive_type_str = Some ''t'', typepermissive_type = None\<rparr>],
     symtabs := empty_tables\<rparr>)
     (build_state.fields 15 Map.empty)"

lemma two_blocks_simps [simp]:
  "nodes two_blocks = [0 \<mapsto> tree_node None (Some 1) (Some 8) None CIL_ROOT 9,
       1 \<mapsto> tree_node (Some 0) (Some 2) (Some 5) (Some 8) CIL_BLOCK 10,
       2 \<mapsto> tree_node (Some 1) (Some 3) (Some 3) (Some 5) CIL_BOOLEANIF 11,
       3 \<mapsto> tree_node (Some 2) (Some 4) (Some 4) None CIL_CONDBLOCK 12,
       4 \<mapsto> tree_node (Some 3) None None None CIL_TYPEPERMISSIVE 13,
       5 \<mapsto> tree_node (Some 1) None None None CIL_TYPEPERMISSIVE 13,
       8 \<mapsto> tree_node (Some 0) None None None CIL_BLOCK 14]"
  "brk two_blocks = 15"
  "m_booleanif two_blocks = [11 \<mapsto> \<lparr>booleanif_str_expr = null_list, booleanif_datum_expr = None, booleanif_preserved_tunable = False\<rparr>]"
  "m_condblock two_blocks = [12 \<mapsto> \<lparr>condblock_kind = CIL_CONDTRUE\<rparr>]"
  "m_typepermissive two_blocks = [13 \<mapsto> \<lparr>typepermissive_type_str = Some ''t'', typepermissive_type = None\<rparr>]"
  by (simp_all add: two_blocks_def cil_store.defs build_state.defs store0_def)

definition block_content :: "ast list" where
  "block_content = [Ast 2 [Ast 3 [Ast 4 []]], Ast 5 []]"

lemma two_blocks_linked: "linked two_blocks"
  unfolding linked_def
proof (intro allI impI)
  fix m nd assume "nodes two_blocks m = Some nd"
  then show "m < brk two_blocks \<and> (\<forall>p. node_parent nd = Some p \<longrightarrow> p < m \<and> nodes two_blocks p \<noteq> None) \<and>
      (node_flavor nd = CIL_CONDBLOCK \<longrightarrow> conditional two_blocks (node_parent nd))"
    by (simp split: if_splits) (hypsubst, simp add: conditional_def)+
qed

lemma two_blocks_ok:
  "nodes two_blocks 1 = Some (tree_node (Some 0) (Some 2) (Some 5) (Some 8) CIL_BLOCK 10)"
  "forest_at two_blocks (node_cl_head (tree_node (Some 0) (Some 2) (Some 5) (Some 8) CIL_BLOCK 10)) block_content"
  "forest_size block_content < 20" "branched (nodes two_blocks) (conditional two_blocks (Some 8)) block_content"
  "kids two_blocks 8 []" "8 \<notin> forest_addrs block_content"
  by (simp_all add: block_content_def kids_def)

lemma copy_numeral:
  "copy_walk_core (numeral k) L None dest = ret dest"
  "copy_walk_core (numeral k) L (Some node) dest =
     bind (cil_copy_node_helper L node dest) (\<lambda>dest.
     bind (rd nodes node) (\<lambda>nd.
     bind (if node_cl_head nd \<noteq> None then copy_walk (pred_numeral k) L node dest else ret dest) (\<lambda>dest.
     bind (rd nodes node) (\<lambda>nd'.
     copy_walk_core (pred_numeral k) L (node_next nd') dest))))"
  "copy_walk (numeral k) L node dest =
     bind (rd nodes node) (\<lambda>nd.
     if node_cl_head nd = None then ret dest
     else bind (copy_walk_core (pred_numeral k) L (node_cl_head nd) dest) cil_copy_last_child_helper)"
  by (simp_all add: numeral_eq_Suc)

lemma two_blocks_copied: "fst (cil_copy_ast 20 sepol0 1 8 two_blocks) = Ok ()"
  by (simp add: macro_simps cil_copy_ast_def copy_numeral cil_copy_node_helper_def copied_flavors_def cil_copy_data_def copy_func1_def copy_func2_def
      some_def cil_copy_boolif_def cil_copy_condblock_def cil_copy_typepermissive_def cil_boolif_init_def cil_condblock_init_def
      cil_typepermissive_init_def cil_tree_node_init_def cil_copy_last_child_helper_def not_null_def deref_def
      del: one_step cong: weak_congs)

theorem copy_ast_ends_witness: "fst (cil_copy_ast 20 sepol0 1 8 two_blocks) \<noteq> Out_of_fuel"
  by (rule copy_ast_ends [OF two_blocks_linked two_blocks_ok]) (simp only: tail_of_Nil, simp)

theorem copy_ast_is_copy_witness:
  "\<exists>bs. kids (snd (cil_copy_ast 20 sepol0 1 8 two_blocks)) 8 bs \<and>
     list_all2 (copy_of 15 (nodes two_blocks) (snd (cil_copy_ast 20 sepol0 1 8 two_blocks)) (Some 8)) block_content bs"
proof -
  have run: "cil_copy_ast 20 sepol0 1 8 two_blocks = (Ok (), snd (cil_copy_ast 20 sepol0 1 8 two_blocks))"
    using two_blocks_copied by (metis prod.collapse)
  have "\<forall>m. tail_of [] = Some m \<longrightarrow> m \<notin> forest_addrs block_content" by simp
  from copy_ast_is_copy [OF two_blocks_linked two_blocks_ok this run] show ?thesis
    by (simp only: append_Nil two_blocks_simps(2))
qed

end
