(* ===== verification/Cil_Resolve_Recursion.thy ===== *)
theory Cil_Resolve_Recursion
  imports Cil_Resolve_Ast Cil_Copy_Walk
begin

text \<open>
  Recursion in the resolution: that of macros is found, that of inherited blocks is not.
\<close>

subsection \<open>Macros that call themselves\<close>

definition stack_macros :: "('h, 'b, 'z) resolve_state_scheme \<Rightarrow> addr option option list" where
  "stack_macros s = map (\<lambda>c. map_option call_macro (m_call s c)) (ar_callstack s)"

lemma macro_on_stack_iff:
  "(\<And>c. c \<in> set cs \<Longrightarrow> m_call s c \<noteq> None) \<Longrightarrow>
   macro_on_stack s macro cs = Ok (Some macro \<in> set (map (\<lambda>c. map_option call_macro (m_call s c)) cs))"
proof (induction cs)
  case (Cons c cs)
  then obtain x where "m_call s c = Some x" by fastforce
  with Cons show ?case by (auto simp: deref_def)
qed simp

text \<open>On a stack of macros, each differs from all but the next one.\<close>

fun macros_apart :: "'x list \<Rightarrow> bool" where
  "macros_apart [] \<longleftrightarrow> True"
| "macros_apart (m # ms) \<longleftrightarrow> m \<notin> set (tl ms) \<and> macros_apart ms"

lemma macros_apart_count: "macros_apart ms \<Longrightarrow> count_list ms m \<le> 2"
proof (induction ms)
  case (Cons n ms)
  then have "count_list ms n \<le> 1" by (cases ms) (auto simp: count_notin)
  with Cons show ?case by (auto split: if_splits)
qed simp

lemma macros_apart_length:
  assumes "macros_apart ms"
  shows "length ms \<le> 2 * card (set ms)"
proof -
  have "length ms = (\<Sum>m \<in> set ms. count_list ms m)" by (simp add: sum_count_set)
  also have "\<dots> \<le> (\<Sum>m \<in> set ms. 2)" using macros_apart_count [OF assms] by (rule sum_mono)
  finally show ?thesis by simp
qed

text \<open>C31. The content of a call is entered unless its macro is that of a call that the walk is in, other than the innermost;
  then the resolution fails. So every macro occurs at most twice among the calls that the walk is in, and calls are
  never nested deeper than twice the number of their macros: the expansion of recursive macros ends.\<close>

theorem recursive_call_found:
  assumes "nodes s c = Some nd" and "node_parent nd = Some p" and "nodes s p = Some pd" and "node_flavor pd = CIL_CALL"
    and "node_data pd = Some call" and "m_call s call = Some x"
    and "\<forall>c \<in> set (ar_callstack s). m_call s c \<noteq> None" and "macros_apart (stack_macros s)"
  shows "if Some (call_macro x) \<in> set (tl (stack_macros s))
    then cil_resolve_ast_first_child_helper c s = (Fail SEPOL_ERR, s)
    else \<exists>t. cil_resolve_ast_first_child_helper c s = (Ok (), t) \<and> ar_callstack t = call # ar_callstack s \<and>
      macros_apart (stack_macros t) \<and> length (ar_callstack t) \<le> 2 * card (set (stack_macros t))"
proof -
  let ?t = "ar_callstack_update (\<lambda>calls. call # calls) s"
  have "\<forall>c \<in> set (tl (ar_callstack s)). m_call s c \<noteq> None" using assms(7) by (cases "ar_callstack s") auto
  then have search: "macro_on_stack s (call_macro x) (tl (ar_callstack s)) =
      Ok (Some (call_macro x) \<in> set (tl (stack_macros s)))"
    using macro_on_stack_iff [of "tl (ar_callstack s)" s] by (simp add: stack_macros_def map_tl)
  have run: "cil_resolve_ast_first_child_helper c s =
      (if Some (call_macro x) \<in> set (tl (stack_macros s)) then (Fail SEPOL_ERR, s) else (Ok (), ?t))"
    using assms(1-6) search
    by (cases "tl (ar_callstack s) = []")
      (simp_all add: cil_resolve_ast_first_child_helper_def bind_def rd_def deref_def pointer_def not_null_def
        stack_macros_def map_tl)
  have "macros_apart (stack_macros ?t)" if "Some (call_macro x) \<notin> set (tl (stack_macros s))"
    using that assms(6,8) by (simp add: stack_macros_def)
  with macros_apart_length [of "stack_macros ?t"] show ?thesis by (auto simp: run stack_macros_def)
qed

subsection \<open>Blocks that inherit from themselves\<close>

text \<open>The node \<open>x\<close> is a \<open>blockinherit\<close> without children, the last child of its parent, and its block has inheritors.\<close>

definition inheriting :: "('h, 'b, 'z) build_state_scheme \<Rightarrow> addr \<Rightarrow> bool" where
  "inheriting s x \<longleftrightarrow> x < brk s \<and> (\<exists>nd d bi b blk ns. nodes s x = Some nd \<and> node_flavor nd = CIL_BLOCKINHERIT \<and>
     node_cl_head nd = None \<and> node_next nd = None \<and> node_data nd = Some d \<and> m_blockinherit s d = Some bi \<and>
     blockinherit_block bi = Some b \<and> m_block s b = Some blk \<and> block_bi_nodes blk = Some ns)"

text \<open>The copy of such a node into itself is again such a node.\<close>

lemma copy_into_itself:
  assumes "inheriting s x"
  obtains b t nd where "cil_copy_node_helper L x (Some x) s = (Ok (Some b), t)" and "inheriting t b"
    and "nodes t x = Some nd" and "node_cl_head nd = Some b"
proof -
  from assms obtain nd d bi blk xb ns where x: "x < brk s" "nodes s x = Some nd" "node_flavor nd = CIL_BLOCKINHERIT"
    "node_cl_head nd = None" "node_next nd = None" "node_data nd = Some d" "m_blockinherit s d = Some bi"
    "blockinherit_block bi = Some blk" "m_block s blk = Some xb" "block_bi_nodes xb = Some ns"
    by (auto simp: inheriting_def)
  let ?d = "brk s" and ?b = "Suc (brk s)"
  let ?bi = "\<lparr>blockinherit_block_str = blockinherit_block_str bi, blockinherit_block = Some blk\<rparr>"
  let ?nd = "\<lparr>node_parent = Some x, node_cl_head = None, node_cl_tail = None, node_next = None,
    node_flavor = CIL_BLOCKINHERIT, node_line = node_line nd, node_path = node_path nd, node_data = Some ?d\<rparr>"
  let ?t = "s\<lparr>brk := Suc ?b, m_blockinherit := (m_blockinherit s)(?d \<mapsto> ?bi),
    m_block := (m_block s)(blk \<mapsto> block_bi_nodes_update (\<lambda>_. Some (ns @ [?b])) xb),
    nodes := (nodes s)(?b \<mapsto> ?nd, x \<mapsto> nd\<lparr>node_cl_head := Some ?b, node_cl_tail := Some ?b\<rparr>)\<rparr>"
  have "cil_copy_node_helper L x (Some x) s = (Ok (Some ?b), ?t)"
    using x by (simp add: cil_copy_node_helper_def bind_def rd_def wr_def copied_flavors_def cil_copy_data_def copy_func1_def
        some_def not_null_def cil_copy_blockinherit_def cil_blockinherit_init_def new_struct_def fresh_def
        cil_tree_node_init_def copy_inherit_def append_child_def comp_def)
  moreover have "inheriting ?t ?b" using x by (auto simp: inheriting_def)
  ultimately show thesis by (rule that) (use x(1) in \<open>auto intro: cil_tree_node.simps\<close>)
qed

lemma copy_into_itself_diverges:
  "inheriting s x \<Longrightarrow> fst (copy_walk_core fuel L (Some x) (Some x) s) = Out_of_fuel"
proof (induction fuel arbitrary: s x rule: less_induct)
  case (less fuel)
  obtain b t nd where step: "cil_copy_node_helper L x (Some x) s = (Ok (Some b), t)" and b: "inheriting t b"
    and x: "nodes t x = Some nd" "node_cl_head nd = Some b"
    by (rule copy_into_itself [OF less.prems])
  consider "fuel = 0" | "fuel = 1" | k where "fuel = Suc (Suc k)" by (metis One_nat_def not0_implies_Suc)
  then show ?case
  proof cases
    case 1
    then show ?thesis by simp
  next
    case 2
    then show ?thesis using step x by (simp add: bind_def rd_def)
  next
    case 3
    then have "fst (copy_walk_core k L (Some b) (Some b) t) = Out_of_fuel" using less.IH [of k t b] b by simp
    then obtain u where "copy_walk_core k L (Some b) (Some b) t = (Out_of_fuel, u)" by (metis prod.collapse)
    then show ?thesis using 3 step x by (simp add: bind_def rd_def)
  qed
qed

text \<open>C32. For a block whose only statement is a \<open>blockinherit\<close> that the pass before has linked to the block itself, and
  that is the first in the list of the block's inheritors, \<open>cil_resolve_blockinherit_copy\<close> runs forever: with no
  amount of fuel it ends, because the walk over the block comes to the copies that it has just made. Nothing in this
  function finds this kind of recursion.\<close>

theorem self_inheritance_diverges:
  assumes "nodes s a = Some nd" and "node_data nd = Some block" and "node_cl_head nd = Some x"
    and "m_block s block = Some blk" and "block_bi_nodes blk = Some (x # ns)" and "NODE s (Some block) = Ok a"
    and "nodes s x = Some xd" and "node_flavor xd = CIL_BLOCKINHERIT" and "node_cl_head xd = None"
    and "node_next xd = None" and "node_data xd = Some d" and "m_blockinherit s d = Some bi"
    and "blockinherit_block bi = Some block" and "x < brk s"
  shows "fst (cil_resolve_blockinherit_copy L fuel a s) = Out_of_fuel"
proof -
  have "inheriting s x" using assms by (auto simp: inheriting_def)
  then have "fst (copy_walk_core k L (Some x) (Some x) s) = Out_of_fuel" for k by (rule copy_into_itself_diverges)
  then have core: "\<exists>u. copy_walk_core k L (Some x) (Some x) s = (Out_of_fuel, u)" for k by (metis prod.collapse)
  have walk: "\<exists>u. cil_copy_ast fuel L a x s = (Out_of_fuel, u)"
    using core [of "fuel - 1"] assms(1,3)
    by (cases fuel) (auto simp: cil_copy_ast_def bind_def rd_def)
  then have "fst (copy_to_inheritors fuel fuel L a block 0 s) = Out_of_fuel"
    using assms(4,5) by (cases fuel) (auto simp: bind_def rd_def not_null_def)
  then show ?thesis
    using assms(1,2,4,5,6) by (simp add: cil_resolve_blockinherit_copy_def node_object_def bind_def deref_def not_null_def rd_def)
qed

subsection \<open>Examples\<close>

text \<open>The program \<open>(block a (blockinherit a))\<close> after the pass that links blocks.\<close>

definition self_inherit :: "((string \<times> addr) list, nat list) build_state" where
  "self_inherit = cil_store.extend (store0\<lparr>
     nodes := [0 \<mapsto> tree_node None (Some 1) (Some 1) None CIL_ROOT 9,
       1 \<mapsto> tree_node (Some 0) (Some 2) (Some 2) None CIL_BLOCK 10,
       2 \<mapsto> tree_node (Some 1) None None None CIL_BLOCKINHERIT 11],
     datums := [10 \<mapsto> \<lparr>datum_name = Some ''a'', datum_fqn = None, datum_symtab = None, datum_nodes = Some [1]\<rparr>],
     m_block := [10 \<mapsto> \<lparr>block_is_abstract = False, block_bi_nodes = Some [2]\<rparr>],
     m_blockinherit := [11 \<mapsto> \<lparr>blockinherit_block_str = Some ''a'', blockinherit_block = Some 10\<rparr>]\<rparr>)
     (build_state.fields 12 Map.empty)"

theorem self_inheritance_diverges_witness: "fst (cil_resolve_blockinherit_copy sepol0 1000 1 self_inherit) = Out_of_fuel"
  by (rule self_inheritance_diverges [of self_inherit 1 "tree_node (Some 0) (Some 2) (Some 2) None CIL_BLOCK 10" 10 2
      "\<lparr>block_is_abstract = False, block_bi_nodes = Some [2]\<rparr>" "[]" "tree_node (Some 1) None None None CIL_BLOCKINHERIT 11" 11
      "\<lparr>blockinherit_block_str = Some ''a'', blockinherit_block = Some 10\<rparr>"])
    (simp_all add: self_inherit_def cil_store.defs build_state.defs store0_def NODE_def deref_def obind_def)

text \<open>Three nested calls: the walk is in the calls of \<open>21\<close> and \<open>20\<close> and comes to a call of \<open>macro\<close>.\<close>

definition nested_calls :: "addr \<Rightarrow> ((string \<times> addr) list, nat list) resolve_state" where
  "nested_calls macro = build_state.extend (cil_store.extend (store0\<lparr>
     nodes := [3 \<mapsto> tree_node (Some 2) (Some 4) (Some 4) None CIL_CALL 13,
       4 \<mapsto> tree_node (Some 3) None None None CIL_TYPEPERMISSIVE 14],
     m_call := [11 \<mapsto> \<lparr>call_macro_str = None, call_macro = Some 20, call_args = None, call_copied = True\<rparr>,
       12 \<mapsto> \<lparr>call_macro_str = None, call_macro = Some 21, call_args = None, call_copied = True\<rparr>,
       13 \<mapsto> \<lparr>call_macro_str = None, call_macro = Some macro, call_args = None, call_copied = True\<rparr>]\<rparr>)
     (build_state.fields 30 Map.empty))
     (resolve_state.fields CIL_PASS_CALL1 False [12, 11] [] None None [] [] [] [] [])"

lemma nested_calls_simps:
  "nodes (nested_calls macro) = [3 \<mapsto> tree_node (Some 2) (Some 4) (Some 4) None CIL_CALL 13,
       4 \<mapsto> tree_node (Some 3) None None None CIL_TYPEPERMISSIVE 14]"
  "m_call (nested_calls macro) = [11 \<mapsto> \<lparr>call_macro_str = None, call_macro = Some 20, call_args = None, call_copied = True\<rparr>,
       12 \<mapsto> \<lparr>call_macro_str = None, call_macro = Some 21, call_args = None, call_copied = True\<rparr>,
       13 \<mapsto> \<lparr>call_macro_str = None, call_macro = Some macro, call_args = None, call_copied = True\<rparr>]"
  "ar_callstack (nested_calls macro) = [12, 11]"
  by (simp_all add: nested_calls_def cil_store.defs build_state.defs resolve_state.defs store0_def)

theorem recursive_call_found_witness:
  "cil_resolve_ast_first_child_helper 4 (nested_calls 20) = (Fail SEPOL_ERR, nested_calls 20) \<and>
   fst (cil_resolve_ast_first_child_helper 4 (nested_calls 21)) = Ok ()"
  using recursive_call_found [of "nested_calls 20" 4 "tree_node (Some 3) None None None CIL_TYPEPERMISSIVE 14" 3
      "tree_node (Some 2) (Some 4) (Some 4) None CIL_CALL 13" 13
      "\<lparr>call_macro_str = None, call_macro = Some 20, call_args = None, call_copied = True\<rparr>"]
    recursive_call_found [of "nested_calls 21" 4 "tree_node (Some 3) None None None CIL_TYPEPERMISSIVE 14" 3
      "tree_node (Some 2) (Some 4) (Some 4) None CIL_CALL 13" 13
      "\<lparr>call_macro_str = None, call_macro = Some 21, call_args = None, call_copied = True\<rparr>"]
  by (auto simp: nested_calls_simps stack_macros_def)

end
