(* ===== verification/Cil_Output.thy ===== *)
theory Cil_Output
  imports Cil_Symtab
begin

text \<open>
  The text files that the compiler makes from the database (\<open>cil_userprefixes_to_string\<close>,
  \<open>cil_selinuxusers_to_string\<close> and \<open>cil_filecons_to_string\<close> of \<open>src/cil.c\<close>).

  Each function goes through its list twice: it computes the length of the text, allocates a buffer, and prints
  into it. A call of \<open>sprintf\<close> that would write past the end of the buffer is a fault here. The lengths are natural
  numbers: the text of a policy is shorter than \<open>2\<^sup>3\<^sup>1\<close> characters.

  \<open>mls\<close> is the field of the policy database of libsepol, and \<open>level_eq\<close> the comparison of two levels in it
  (\<open>cil_level_equals\<close>).
\<close>

subsection \<open>Buffers\<close>

text \<open>\<open>cap\<close> bytes are allocated, \<open>text\<close> has been written, and the terminating null needs a byte.\<close>

definition sprintf :: "nat \<Rightarrow> string \<Rightarrow> string \<Rightarrow> string outcome" where
  "sprintf cap text str = (if length text + length str < cap then Ok (text @ str) else Fault)"

definition strlen :: "cstring \<Rightarrow> nat outcome" where
  "strlen str = obind (not_null str) (\<lambda>x. Ok (length x))"

definition fqn_of :: "('h, 'b, 'z) cil_store_scheme \<Rightarrow> addr option \<Rightarrow> cstring outcome" where
  "fqn_of s d = obind (deref (datums s) d) (\<lambda>x. Ok (datum_fqn x))"

subsection \<open>The prefixes of users\<close>

fun userprefixes_size :: "('h, 'b, 'z) cil_store_scheme \<Rightarrow> addr list \<Rightarrow> nat outcome" where
  "userprefixes_size s [] = Ok 0"
| "userprefixes_size s (a # as) =
     obind (deref (m_userprefix s) (Some a)) (\<lambda>userprefix.
     obind (fqn_of s (userprefix_user userprefix)) (\<lambda>user.
     obind (strlen user) (\<lambda>n.
     obind (strlen (userprefix_prefix_str userprefix)) (\<lambda>m.
     obind (userprefixes_size s as) (\<lambda>rest.
     Ok (length ''user '' + n + length '' prefix '' + m + 2 + rest))))))"

text \<open>\<open>snprintf\<close> cuts off what does not fit, but returns the full length, so that \<open>str_tmp\<close> would then be outside
  of the buffer.\<close>

fun userprefixes_print :: "('h, 'b, 'z) cil_store_scheme \<Rightarrow> addr list \<Rightarrow> nat \<Rightarrow> string \<Rightarrow> string outcome" where
  "userprefixes_print s [] str_len text = Ok text"
| "userprefixes_print s (a # as) str_len text =
     obind (deref (m_userprefix s) (Some a)) (\<lambda>userprefix.
     obind (fqn_of s (userprefix_user userprefix)) (\<lambda>user.
     obind (not_null user) (\<lambda>u.
     obind (not_null (userprefix_prefix_str userprefix)) (\<lambda>p.
     let line = ''user '' @ u @ '' prefix '' @ p @ '';'' @ [CHR 0x0A] in
     if length line < str_len then userprefixes_print s as (str_len - length line) (text @ line)
     else Fault))))"

text \<open>The result is \<open>*out\<close> and \<open>*size\<close>.\<close>

definition cil_userprefixes_to_string :: "('h, 'b, 'z) cil_store_scheme \<Rightarrow> (cstring \<times> nat) outcome" where
  "cil_userprefixes_to_string s =
     (if userprefixes s = [] then Ok (None, 0)
      else
        obind (userprefixes_size s (userprefixes s)) (\<lambda>str_len.
        obind (userprefixes_print s (userprefixes s) (Suc str_len) []) (\<lambda>text.
        Ok (Some text, str_len))))"

subsection \<open>Levels\<close>

text \<open>The loop over the categories; \<open>-1\<close> stands for no category in \<open>first\<close> and \<open>last\<close>.\<close>

fun level_strlen_loop ::
  "('h, 'b, 'z) cil_store_scheme \<Rightarrow> cil_item list \<Rightarrow> cstring \<Rightarrow> cstring \<Rightarrow> int \<Rightarrow> int \<Rightarrow> nat
   \<Rightarrow> (nat \<times> cstring \<times> cstring \<times> int \<times> int) outcome"
where
  "level_strlen_loop s [] str1 str2 fst_val lst_val str_len = Ok (str_len, str1, str2, fst_val, lst_val)"
| "level_strlen_loop s (item # rest) str1 str2 fst_val lst_val str_len =
     obind (deref (m_cat s) (item_data item)) (\<lambda>cat.
     obind (fqn_of s (item_data item)) (\<lambda>fqn.
     if fst_val = -1 then level_strlen_loop s rest fqn str2 (cat_value cat) (cat_value cat) str_len
     else if cat_value cat = lst_val + 1 then level_strlen_loop s rest str1 fqn fst_val (lst_val + 1) str_len
     else
       obind (strlen str1) (\<lambda>n1.
       obind (strlen fqn) (\<lambda>n3.
       obind (if fst_val = lst_val then Ok (n1 + n3 + 1)
              else obind (strlen str2) (\<lambda>n2. Ok (n1 + n2 + n3 + 2))) (\<lambda>n.
       level_strlen_loop s rest str1 str2 (-1) (-1) (str_len + n + (if rest \<noteq> [] then 1 else 0)))))))"

definition cil_level_strlen :: "('h, 'b, 'z) cil_store_scheme \<Rightarrow> addr option \<Rightarrow> nat outcome" where
  "cil_level_strlen s lvl =
     obind (deref (m_level s) lvl) (\<lambda>l.
     obind (fqn_of s (level_sens l)) (\<lambda>sens.
     obind (strlen sens) (\<lambda>n.
     case level_cats l of
       None \<Rightarrow> Ok n
     | Some c \<Rightarrow>
         obind (deref (m_cats s) (Some c)) (\<lambda>cats.
         case cats_datum_expr cats of
           None \<Rightarrow> Ok n
         | Some expr \<Rightarrow>
             obind (level_strlen_loop s (list_items expr) None None (-1) (-1) (n + 1)) (\<lambda>(str_len, str1, str2, fst_val, lst_val).
             if fst_val \<noteq> -1 then
               if fst_val = lst_val then obind (strlen str1) (\<lambda>n1. Ok (str_len + n1))
               else obind (strlen str1) (\<lambda>n1. obind (strlen str2) (\<lambda>n2. Ok (str_len + n1 + n2 + 1)))
             else Ok str_len)))))"

fun level_string_loop ::
  "nat \<Rightarrow> ('h, 'b, 'z) cil_store_scheme \<Rightarrow> cil_item list \<Rightarrow> cstring \<Rightarrow> cstring \<Rightarrow> int \<Rightarrow> int \<Rightarrow> string
   \<Rightarrow> (string \<times> cstring \<times> cstring \<times> int \<times> int) outcome"
where
  "level_string_loop cap s [] str1 str2 fst_val lst_val text = Ok (text, str1, str2, fst_val, lst_val)"
| "level_string_loop cap s (item # rest) str1 str2 fst_val lst_val text =
     obind (deref (m_cat s) (item_data item)) (\<lambda>cat.
     obind (fqn_of s (item_data item)) (\<lambda>fqn.
     if fst_val = -1 then level_string_loop cap s rest fqn str2 (cat_value cat) (cat_value cat) text
     else if cat_value cat = lst_val + 1 then level_string_loop cap s rest str1 fqn fst_val (lst_val + 1) text
     else
       obind (not_null str1) (\<lambda>x1.
       obind (not_null fqn) (\<lambda>x3.
       obind (if fst_val = lst_val then sprintf cap text (x1 @ '','' @ x3)
              else obind (not_null str2) (\<lambda>x2.
                if lst_val = fst_val + 1 then sprintf cap text (x1 @ '','' @ x2 @ '','' @ x3)
                else sprintf cap text (x1 @ ''.'' @ x2 @ '','' @ x3))) (\<lambda>text.
       obind (if rest \<noteq> [] then sprintf cap text '','' else Ok text) (\<lambda>text.
       level_string_loop cap s rest str1 str2 (-1) (-1) text))))))"

text \<open>\<open>cap\<close> bytes are left of the buffer at \<open>out\<close>; the result is what is written there.\<close>

definition cil_level_to_string :: "nat \<Rightarrow> ('h, 'b, 'z) cil_store_scheme \<Rightarrow> addr option \<Rightarrow> string outcome" where
  "cil_level_to_string cap s lvl =
     obind (deref (m_level s) lvl) (\<lambda>l.
     obind (fqn_of s (level_sens l)) (\<lambda>sens.
     obind (not_null sens) (\<lambda>x.
     obind (sprintf cap [] x) (\<lambda>text.
     case level_cats l of
       None \<Rightarrow> Ok text
     | Some c \<Rightarrow>
         obind (deref (m_cats s) (Some c)) (\<lambda>cats.
         case cats_datum_expr cats of
           None \<Rightarrow> Ok text
         | Some expr \<Rightarrow>
             obind (sprintf cap text '':'') (\<lambda>text.
             obind (level_string_loop cap s (list_items expr) None None (-1) (-1) text) (\<lambda>(text, str1, str2, fst_val, lst_val).
             if fst_val \<noteq> -1 then
               obind (not_null str1) (\<lambda>x1.
               if fst_val = lst_val then sprintf cap text x1
               else obind (not_null str2) (\<lambda>x2.
                 if lst_val = fst_val + 1 then sprintf cap text (x1 @ '','' @ x2)
                 else sprintf cap text (x1 @ ''.'' @ x2)))
             else Ok text)))))))"

text \<open>Printing a level behind \<open>text\<close>.\<close>

definition print_level :: "nat \<Rightarrow> ('h, 'b, 'z) cil_store_scheme \<Rightarrow> string \<Rightarrow> addr option \<Rightarrow> string outcome" where
  "print_level cap s text lvl = obind (cil_level_to_string (cap - length text) s lvl) (\<lambda>x. Ok (text @ x))"

subsection \<open>SELinux users\<close>

fun selinuxusers_size :: "bool \<Rightarrow> ('h, 'b, 'z) cil_store_scheme \<Rightarrow> addr list \<Rightarrow> nat outcome" where
  "selinuxusers_size mls s [] = Ok 0"
| "selinuxusers_size mls s (a # as) =
     obind (deref (m_selinuxuser s) (Some a)) (\<lambda>selinuxuser.
     obind (strlen (selinuxuser_name_str selinuxuser)) (\<lambda>n.
     obind (fqn_of s (selinuxuser_user selinuxuser)) (\<lambda>user.
     obind (strlen user) (\<lambda>m.
     obind (if mls then
              obind (deref (m_levelrange s) (selinuxuser_range selinuxuser)) (\<lambda>range.
              obind (cil_level_strlen s (levelrange_low range)) (\<lambda>low.
              obind (cil_level_strlen s (levelrange_high range)) (\<lambda>high. Ok (low + high + 2))))
            else Ok 0) (\<lambda>r.
     obind (selinuxusers_size mls s as) (\<lambda>rest. Ok (n + m + 1 + r + 1 + rest)))))))"

fun selinuxusers_print ::
  "bool \<Rightarrow> nat \<Rightarrow> ('h, 'b, 'z) cil_store_scheme \<Rightarrow> addr list \<Rightarrow> string \<Rightarrow> string outcome"
where
  "selinuxusers_print mls cap s [] text = Ok text"
| "selinuxusers_print mls cap s (a # as) text =
     obind (deref (m_selinuxuser s) (Some a)) (\<lambda>selinuxuser.
     obind (not_null (selinuxuser_name_str selinuxuser)) (\<lambda>name.
     obind (fqn_of s (selinuxuser_user selinuxuser)) (\<lambda>user.
     obind (not_null user) (\<lambda>u.
     obind (sprintf cap text (name @ '':'' @ u)) (\<lambda>text.
     obind (if mls then
              obind (deref (m_levelrange s) (selinuxuser_range selinuxuser)) (\<lambda>range.
              obind (sprintf cap text '':'') (\<lambda>text.
              obind (print_level cap s text (levelrange_low range)) (\<lambda>text.
              obind (sprintf cap text ''-'') (\<lambda>text.
              print_level cap s text (levelrange_high range)))))
            else Ok text) (\<lambda>text.
     obind (sprintf cap text [CHR 0x0A]) (\<lambda>text.
     selinuxusers_print mls cap s as text)))))))"

definition cil_selinuxusers_to_string ::
  "int \<Rightarrow> ('h, 'b, 'z) cil_store_scheme \<Rightarrow> (cstring \<times> nat) outcome"
where
  "cil_selinuxusers_to_string mls s =
     (let users = map snd (selinuxusers s)
      in if users = [] then Ok (None, 0)
         else
           obind (selinuxusers_size (mls = 1) s users) (\<lambda>str_len.
           obind (selinuxusers_print (mls = 1) (str_len + 1) s users []) (\<lambda>text.
           Ok (Some text, str_len))))"

subsection \<open>File contexts\<close>

text \<open>The names of the user, the role and the type of a context.\<close>

definition context_fqns :: "('h, 'b, 'z) cil_store_scheme \<Rightarrow> cil_context \<Rightarrow> (string \<times> string \<times> string) outcome" where
  "context_fqns s ctx =
     obind (obind (fqn_of s (context_user ctx)) not_null) (\<lambda>user.
     obind (obind (fqn_of s (context_role ctx)) not_null) (\<lambda>role.
     obind (obind (fqn_of s (context_type ctx)) not_null) (\<lambda>type.
     Ok (user, role, type))))"

text \<open>The range at the end of a context, and the context of a file.\<close>

definition file_range_size ::
  "(addr option \<Rightarrow> addr option \<Rightarrow> bool) \<Rightarrow> ('h, 'b, 'z) cil_store_scheme \<Rightarrow> cil_levelrange \<Rightarrow> nat outcome"
where
  "file_range_size level_eq s rng =
     (if level_eq (levelrange_low rng) (levelrange_high rng) then
        obind (cil_level_strlen s (levelrange_low rng)) (\<lambda>low. Ok (low + 1))
      else
        obind (cil_level_strlen s (levelrange_low rng)) (\<lambda>low.
        obind (cil_level_strlen s (levelrange_high rng)) (\<lambda>high. Ok (low + high + 2))))"

definition file_context_size ::
  "bool \<Rightarrow> (addr option \<Rightarrow> addr option \<Rightarrow> bool) \<Rightarrow> ('h, 'b, 'z) cil_store_scheme \<Rightarrow> addr option \<Rightarrow> nat outcome"
where
  "file_context_size mls level_eq s context =
     (case context of
        None \<Rightarrow> Ok (length (CHR 0x09 # ''<<none>>''))
      | Some c \<Rightarrow>
          obind (deref (m_context s) (Some c)) (\<lambda>ctx.
          obind (context_fqns s ctx) (\<lambda>(user, role, type).
          obind (if mls then obind (deref (m_levelrange s) (context_range ctx)) (file_range_size level_eq s)
                 else Ok 0) (\<lambda>r.
          Ok (length user + length role + length type + 3 + r)))))"

fun filecons_size ::
  "bool \<Rightarrow> (addr option \<Rightarrow> addr option \<Rightarrow> bool) \<Rightarrow> ('h, 'b, 'z) cil_store_scheme \<Rightarrow> addr list \<Rightarrow> nat outcome"
where
  "filecons_size mls level_eq s [] = Ok 0"
| "filecons_size mls level_eq s (a # as) =
     obind (deref (m_filecon s) (Some a)) (\<lambda>filecon.
     obind (file_context_size mls level_eq s (filecon_context filecon)) (\<lambda>c.
     obind (filecons_size mls level_eq s as) (\<lambda>rest.
     Ok (length (filecon_path_str filecon) + (if filecon_kind filecon \<noteq> 8 then 3 else 0) + c + 1 + rest))))"

definition filecon_type_text :: "nat \<Rightarrow> string" where
  "filecon_type_text k =
     (if k = 1 then CHR 0x09 # ''--'' else if k = 2 then CHR 0x09 # ''-d'' else if k = 3 then CHR 0x09 # ''-c''
      else if k = 4 then CHR 0x09 # ''-b'' else if k = 5 then CHR 0x09 # ''-s'' else if k = 6 then CHR 0x09 # ''-p''
      else if k = 7 then CHR 0x09 # ''-l'' else [])"

definition file_range_print ::
  "(addr option \<Rightarrow> addr option \<Rightarrow> bool) \<Rightarrow> nat \<Rightarrow> ('h, 'b, 'z) cil_store_scheme \<Rightarrow> string \<Rightarrow> cil_levelrange
   \<Rightarrow> string outcome"
where
  "file_range_print level_eq cap s text rng =
     obind (sprintf cap text '':'') (\<lambda>text.
     obind (print_level cap s text (levelrange_low rng)) (\<lambda>text.
     if level_eq (levelrange_low rng) (levelrange_high rng) then Ok text
     else obind (sprintf cap text ''-'') (\<lambda>text. print_level cap s text (levelrange_high rng))))"

definition file_context_print ::
  "bool \<Rightarrow> (addr option \<Rightarrow> addr option \<Rightarrow> bool) \<Rightarrow> nat \<Rightarrow> ('h, 'b, 'z) cil_store_scheme \<Rightarrow> addr option \<Rightarrow> string
   \<Rightarrow> string outcome"
where
  "file_context_print mls level_eq cap s context text =
     (case context of
        None \<Rightarrow> sprintf cap text (CHR 0x09 # ''<<none>>'')
      | Some c \<Rightarrow>
          obind (deref (m_context s) (Some c)) (\<lambda>ctx.
          obind (context_fqns s ctx) (\<lambda>(user, role, type).
          obind (sprintf cap text (CHR 0x09 # user @ '':'' @ role @ '':'' @ type)) (\<lambda>text.
          if mls then obind (deref (m_levelrange s) (context_range ctx)) (file_range_print level_eq cap s text)
          else Ok text))))"

fun filecons_print ::
  "bool \<Rightarrow> (addr option \<Rightarrow> addr option \<Rightarrow> bool) \<Rightarrow> nat \<Rightarrow> ('h, 'b, 'z) cil_store_scheme \<Rightarrow> addr list \<Rightarrow> string
   \<Rightarrow> string outcome"
where
  "filecons_print mls level_eq cap s [] text = Ok text"
| "filecons_print mls level_eq cap s (a # as) text =
     obind (deref (m_filecon s) (Some a)) (\<lambda>filecon.
     obind (sprintf cap text (filecon_path_str filecon)) (\<lambda>text.
     obind (sprintf cap text (filecon_type_text (filecon_kind filecon))) (\<lambda>text.
     obind (file_context_print mls level_eq cap s (filecon_context filecon) text) (\<lambda>text.
     obind (sprintf cap text [CHR 0x0A]) (\<lambda>text.
     filecons_print mls level_eq cap s as text)))))"

text \<open>The elements of the array, which are not null.\<close>

definition sort_elements :: "cil_sort \<Rightarrow> addr list outcome" where
  "sort_elements arr =
     (if sort_count arr = 0 then Ok []
      else
        obind (not_null (sort_array arr)) (\<lambda>elements.
        if length elements < sort_count arr \<or> None \<in> set (take (sort_count arr) elements) then Fault
        else Ok (map the (take (sort_count arr) elements))))"

definition cil_filecons_to_string ::
  "int \<Rightarrow> (addr option \<Rightarrow> addr option \<Rightarrow> bool) \<Rightarrow> ('h, 'b, 'z) cil_store_scheme \<Rightarrow> (string \<times> nat) outcome"
where
  "cil_filecons_to_string mls level_eq s =
     obind (sort_elements (sorts s CIL_FILECON)) (\<lambda>filecons.
     obind (filecons_size (mls = 1) level_eq s filecons) (\<lambda>str_len.
     obind (filecons_print (mls = 1) level_eq (str_len + 1) s filecons []) (\<lambda>text.
     Ok (text, str_len))))"

subsection \<open>The text fits into the buffer\<close>

lemma sprintf_fits [simp]: "length text + length str < cap \<Longrightarrow> sprintf cap text str = Ok (text @ str)"
  by (simp add: sprintf_def)

lemma strlen_Ok [simp]: "strlen str = Ok n \<longleftrightarrow> (\<exists>x. str = Some x \<and> n = length x)"
  by (cases str) (auto simp: strlen_def)

text \<open>The printing loop is the length loop with the text for its length, as long as the buffer is not full.\<close>

lemma level_loop_fits:
  assumes "level_strlen_loop s items str1 str2 f l (length buf) = Ok (n', a, b, c, d)"
  shows "length buf \<le> n' \<and> (\<forall>cap. n' < cap \<longrightarrow>
    (\<exists>buf'. level_string_loop cap s items str1 str2 f l buf = Ok (buf', a, b, c, d) \<and> length buf' = n'))"
  using assms
proof (induction items arbitrary: str1 str2 f l buf)
  case (Cons item rest)
  from Cons.prems obtain i cat fqn where cat: "item_data item = Some i" "m_cat s i = Some cat" "fqn_of s (Some i) = Ok fqn"
    by (auto split: if_splits)
  consider "f = -1" | "f \<noteq> -1" "cat_value cat = l + 1" | "f \<noteq> -1" "cat_value cat \<noteq> l + 1" by blast
  then show ?case
  proof cases
    case 3
    let ?comma = "if rest \<noteq> [] then '','' else []"
    have "\<exists>x1 x3. str1 = Some x1 \<and> fqn = Some x3 \<and> (f \<noteq> l \<longrightarrow> str2 \<noteq> None)"
      using 3 Cons.prems cat by (auto split: if_splits)
    then obtain x1 x2 x3 where x: "str1 = Some x1" "fqn = Some x3" "f \<noteq> l \<Longrightarrow> str2 = Some x2" by (cases str2) auto
    define y where "y = (if f = l then x1 @ '','' @ x3
      else if l = f + 1 then x1 @ '','' @ x2 @ '','' @ x3 else x1 @ ''.'' @ x2 @ '','' @ x3)"
    define u where "u = buf @ y @ ?comma"
    have y: "(if f = l then sprintf cap buf (x1 @ '','' @ x3)
              else obind (not_null str2) (\<lambda>x2.
                if l = f + 1 then sprintf cap buf (x1 @ '','' @ x2 @ '','' @ x3)
                else sprintf cap buf (x1 @ ''.'' @ x2 @ '','' @ x3))) = sprintf cap buf y" for cap
      using x(3) by (simp add: y_def)
    have rest: "level_strlen_loop s rest str1 str2 (-1) (-1) (length u) = Ok (n', a, b, c, d)"
      using 3 Cons.prems cat x by (cases "f = l") (auto simp: u_def y_def add.assoc split: if_splits)
    note IH = Cons.IH [OF rest]
    show ?thesis
    proof (intro conjI allI impI)
      show "length buf \<le> n'" using IH by (simp add: u_def)
      fix cap assume cap: "n' < cap"
      then obtain buf' where loop: "level_string_loop cap s rest str1 str2 (-1) (-1) u = Ok (buf', a, b, c, d)" "length buf' = n'"
        using IH by blast
      have "length u < cap" using IH cap by simp
      then have run: "level_string_loop cap s (item # rest) str1 str2 f l buf = level_string_loop cap s rest str1 str2 (-1) (-1) u"
        unfolding level_string_loop.simps y using 3 cat x(1,2) by (cases "rest = []") (simp_all add: u_def y)
      show "\<exists>buf'. level_string_loop cap s (item # rest) str1 str2 f l buf = Ok (buf', a, b, c, d) \<and> length buf' = n'"
        by (intro exI [of _ buf'] conjI) (simp_all only: run loop)
    qed
  qed (use Cons.prems Cons.IH cat in simp_all)
qed simp

lemma level_fits:
  assumes "cil_level_strlen s lvl = Ok n" and "n < cap"
  shows "\<exists>buf. cil_level_to_string cap s lvl = Ok buf \<and> length buf = n"
proof -
  from assms(1) obtain k l sens where l: "lvl = Some k" "m_level s k = Some l" "fqn_of s (level_sens l) = Ok (Some sens)"
    by (auto simp: cil_level_strlen_def)
  show ?thesis
  proof (cases "level_cats l")
    case None
    with l assms show ?thesis by (simp add: cil_level_strlen_def cil_level_to_string_def)
  next
    case (Some c)
    with assms(1) l obtain cats where c: "m_cats s c = Some cats" by (auto simp: cil_level_strlen_def)
    show ?thesis
    proof (cases "cats_datum_expr cats")
      case None
      with Some c l assms show ?thesis by (simp add: cil_level_strlen_def cil_level_to_string_def)
    next
      case expr: (Some expr)
      let ?u = "sens @ '':''"
      from assms(1) Some c l expr obtain n1 x1 x2 f t where
        loop: "level_strlen_loop s (list_items expr) None None (-1) (-1) (length ?u) = Ok (n1, x1, x2, f, t)" and
        n: "(if f \<noteq> -1 then if f = t then obind (strlen x1) (\<lambda>n2. Ok (n1 + n2))
          else obind (strlen x1) (\<lambda>n2. obind (strlen x2) (\<lambda>n3. Ok (n1 + n2 + n3 + 1))) else Ok n1) = Ok n"
        by (auto simp: cil_level_strlen_def)
      have le: "n1 \<le> n" using n by (auto split: if_splits)
      have "n1 < cap" using le assms(2) by simp
      with level_loop_fits [OF loop] obtain buf where
        buf: "level_string_loop cap s (list_items expr) None None (-1) (-1) ?u = Ok (buf, x1, x2, f, t)" "length buf = n1"
        "length ?u \<le> n1" by blast
      have "cil_level_to_string cap s lvl = (if f \<noteq> -1 then
               obind (not_null x1) (\<lambda>x1.
               if f = t then sprintf cap buf x1
               else obind (not_null x2) (\<lambda>x2.
                 if t = f + 1 then sprintf cap buf (x1 @ '','' @ x2)
                 else sprintf cap buf (x1 @ ''.'' @ x2)))
             else Ok buf)"
        using Some c l expr buf le assms(2) by (simp add: cil_level_to_string_def)
      with n buf(2) assms(2) show ?thesis by (auto split: if_splits)
    qed
  qed
qed

lemma print_level_fits:
  assumes "cil_level_strlen s lvl = Ok n" and "length buf + n < cap"
  shows "\<exists>buf'. print_level cap s buf lvl = Ok buf' \<and> length buf' = length buf + n"
proof -
  from assms have "n < cap - length buf" by simp
  from level_fits [OF assms(1) this] show ?thesis by (auto simp: print_level_def)
qed

lemma userprefixes_fit:
  assumes "userprefixes_size s as = Ok n" and "n < cap"
  shows "\<exists>buf'. userprefixes_print s as cap buf = Ok buf' \<and> length buf' = length buf + n"
  using assms
proof (induction as arbitrary: n cap buf)
  case (Cons a as)
  from Cons.prems(1) obtain x u p m where a: "m_userprefix s a = Some x" "fqn_of s (userprefix_user x) = Ok (Some u)"
    "userprefix_prefix_str x = Some p" "userprefixes_size s as = Ok m"
    and n: "n = length ''user '' + length u + length '' prefix '' + length p + 2 + m"
    by auto
  let ?line = "''user '' @ u @ '' prefix '' @ p @ '';'' @ [CHR 0x0A]"
  have "m < cap - length ?line" using Cons.prems(2) n by simp
  from Cons.IH [OF a(4) this, of "buf @ ?line"] show ?case using a n Cons.prems(2) by (auto simp: Let_def)
qed simp

lemma selinuxusers_fit:
  assumes "selinuxusers_size mls s as = Ok n" and "length buf + n < cap"
  shows "\<exists>buf'. selinuxusers_print mls cap s as buf = Ok buf' \<and> length buf' = length buf + n"
  using assms
proof (induction as arbitrary: n buf)
  case (Cons a as)
  from Cons.prems(1) obtain x name u r m where a: "m_selinuxuser s a = Some x" "selinuxuser_name_str x = Some name"
    "fqn_of s (selinuxuser_user x) = Ok (Some u)" "selinuxusers_size mls s as = Ok m"
    and r: "(if mls then obind (deref (m_levelrange s) (selinuxuser_range x)) (\<lambda>range.
              obind (cil_level_strlen s (levelrange_low range)) (\<lambda>low.
              obind (cil_level_strlen s (levelrange_high range)) (\<lambda>high. Ok (low + high + 2))))
            else Ok 0) = Ok r"
    and n: "n = length name + length u + 1 + r + 1 + m"
    by auto
  let ?buf = "buf @ name @ '':'' @ u"
  have "\<exists>out. (if mls then obind (deref (m_levelrange s) (selinuxuser_range x)) (\<lambda>range.
              obind (sprintf cap ?buf '':'') (\<lambda>text.
              obind (print_level cap s text (levelrange_low range)) (\<lambda>text.
              obind (sprintf cap text ''-'') (\<lambda>text.
              print_level cap s text (levelrange_high range)))))
            else Ok ?buf) = Ok out \<and> length out = length ?buf + r"
  proof (cases mls)
    case True
    with r obtain k rng l h where rng: "selinuxuser_range x = Some k" "m_levelrange s k = Some rng"
      "cil_level_strlen s (levelrange_low rng) = Ok l" "cil_level_strlen s (levelrange_high rng) = Ok h" "r = l + h + 2"
      by auto
    have "length (?buf @ '':'') + l < cap" using Cons.prems(2) n rng(5) by simp
    from print_level_fits [OF rng(3) this] obtain b1 where
      b1: "print_level cap s (?buf @ '':'') (levelrange_low rng) = Ok b1" "length b1 = length (?buf @ '':'') + l" by blast
    have "length (b1 @ ''-'') + h < cap" using Cons.prems(2) n rng(5) b1(2) by simp
    from print_level_fits [OF rng(4) this] obtain b2 where
      b2: "print_level cap s (b1 @ ''-'') (levelrange_high rng) = Ok b2" "length b2 = length (b1 @ ''-'') + h" by blast
    show ?thesis using True rng b1 b2 Cons.prems(2) n by simp
  qed (use r in simp)
  then obtain out where out: "(if mls then obind (deref (m_levelrange s) (selinuxuser_range x)) (\<lambda>range.
              obind (sprintf cap ?buf '':'') (\<lambda>text.
              obind (print_level cap s text (levelrange_low range)) (\<lambda>text.
              obind (sprintf cap text ''-'') (\<lambda>text.
              print_level cap s text (levelrange_high range)))))
            else Ok ?buf) = Ok out" "length out = length ?buf + r" by blast
  have "length (out @ [CHR 0x0A]) + m < cap" using out(2) Cons.prems(2) n by simp
  from Cons.IH [OF a(4) this] obtain buf' where
    buf': "selinuxusers_print mls cap s as (out @ [CHR 0x0A]) = Ok buf'" "length buf' = length out + 1 + m" by auto
  have "selinuxusers_print mls cap s (a # as) buf = Ok buf'"
    unfolding selinuxusers_print.simps using a out buf'(1) Cons.prems(2) n by (simp del: append_assoc append_Cons append.simps)
  then show ?case by (rule exI [of _ buf', OF conjI]) (use buf'(2) out(2) n in simp)
qed simp

lemma filecon_type_length: "k \<in> {1..8} \<Longrightarrow> length (filecon_type_text k) = (if k \<noteq> 8 then 3 else 0)"
  by (auto simp: filecon_type_text_def)

lemma file_range_fits:
  assumes "file_range_size leq s rng = Ok r" and "length buf + r < cap"
  shows "\<exists>out. file_range_print leq cap s buf rng = Ok out \<and> length out = length buf + r"
proof (cases "leq (levelrange_low rng) (levelrange_high rng)")
  case eq: True
  with assms(1) obtain l where l: "cil_level_strlen s (levelrange_low rng) = Ok l" "r = l + 1"
    by (auto simp: file_range_size_def)
  have "length (buf @ '':'') + l < cap" using assms(2) l(2) by simp
  from print_level_fits [OF l(1) this] show ?thesis using assms(2) eq l(2) by (auto simp: file_range_print_def)
next
  case ne: False
  with assms(1) obtain l h where l: "cil_level_strlen s (levelrange_low rng) = Ok l"
    "cil_level_strlen s (levelrange_high rng) = Ok h" "r = l + h + 2" by (auto simp: file_range_size_def)
  have "length (buf @ '':'') + l < cap" using assms(2) l(3) by simp
  from print_level_fits [OF l(1) this] obtain b where
    b: "print_level cap s (buf @ '':'') (levelrange_low rng) = Ok b" "length b = length (buf @ '':'') + l" by blast
  have "length (b @ ''-'') + h < cap" using assms(2) l(3) b(2) by simp
  from print_level_fits [OF l(2) this] obtain out where
    out: "print_level cap s (b @ ''-'') (levelrange_high rng) = Ok out" "length out = length (b @ ''-'') + h" by blast
  have "length buf + 1 < cap" "length b + 1 < cap" using assms(2) l(3) b(2) by simp_all
  then show ?thesis using ne b out l(3) by (simp add: file_range_print_def)
qed

lemma file_context_fits:
  assumes "file_context_size mls leq s context = Ok c" and "length buf + c < cap"
  shows "\<exists>out. file_context_print mls leq cap s context buf = Ok out \<and> length out = length buf + c"
proof (cases "context")
  case None
  with assms show ?thesis by (auto simp: file_context_size_def file_context_print_def)
next
  case (Some k)
  with assms(1) obtain ctx user role type r where ctx: "m_context s k = Some ctx" "context_fqns s ctx = Ok (user, role, type)"
    and cr: "c = length user + length role + length type + 3 + r"
    and r: "(if mls then obind (deref (m_levelrange s) (context_range ctx)) (file_range_size leq s) else Ok 0) = Ok r"
    unfolding file_context_size_def option.case obind_eq_Ok deref_eq_Ok by auto
  define b where "b = buf @ CHR 0x09 # user @ '':'' @ role @ '':'' @ type"
  have b: "sprintf cap buf (CHR 0x09 # user @ '':'' @ role @ '':'' @ type) = Ok b" "length b + r = length buf + c"
    using assms(2) cr by (simp_all add: b_def)
  show ?thesis
  proof (cases mls)
    case False
    with r ctx Some b show ?thesis by (simp add: file_context_print_def)
  next
    case True
    with r obtain kr rng where rng: "context_range ctx = Some kr" "m_levelrange s kr = Some rng"
      "file_range_size leq s rng = Ok r" by auto
    have "length b + r < cap" using b(2) assms(2) by simp
    from file_range_fits [OF rng(3) this] show ?thesis using True rng ctx Some b by (auto simp: file_context_print_def)
  qed
qed

lemma filecons_fit:
  assumes "filecons_size mls leq s as = Ok n" and "length buf + n < cap"
    and "\<forall>a \<in> set as. \<forall>x. m_filecon s a = Some x \<longrightarrow> filecon_kind x \<in> {1..8}"
  shows "\<exists>buf'. filecons_print mls leq cap s as buf = Ok buf' \<and> length buf' = length buf + n"
  using assms
proof (induction as arbitrary: n buf)
  case (Cons a as)
  from Cons.prems(1) obtain x c m where a: "m_filecon s a = Some x" "filecons_size mls leq s as = Ok m"
    and c: "file_context_size mls leq s (filecon_context x) = Ok c"
    and n: "n = length (filecon_path_str x) + (if filecon_kind x \<noteq> 8 then 3 else 0) + c + 1 + m"
    unfolding filecons_size.simps obind_eq_Ok deref_eq_Ok by auto
  define b where "b = buf @ filecon_path_str x @ filecon_type_text (filecon_kind x)"
  have b: "length b + c + 1 + m < cap" "length b + c + 1 + m = length buf + n"
    using Cons.prems(2,3) a(1) n filecon_type_length [of "filecon_kind x"] by (auto simp: b_def)
  then have "length b + c < cap" by simp
  from file_context_fits [OF c this] obtain out where
    out: "file_context_print mls leq cap s (filecon_context x) b = Ok out" "length out = length b + c" by blast
  have "length (out @ [CHR 0x0A]) + m < cap" using out(2) b(1) by simp
  from Cons.IH [OF a(2) this] Cons.prems(3) obtain buf' where
    buf': "filecons_print mls leq cap s as (out @ [CHR 0x0A]) = Ok buf'" "length buf' = length out + 1 + m" by auto
  have start: "sprintf cap buf (filecon_path_str x) = Ok (buf @ filecon_path_str x)"
    "sprintf cap (buf @ filecon_path_str x) (filecon_type_text (filecon_kind x)) = Ok b"
    "sprintf cap out [CHR 0x0A] = Ok (out @ [CHR 0x0A])"
    using b(1) out(2) by (simp_all add: b_def)
  have "filecons_print mls leq cap s (a # as) buf = Ok buf'"
    unfolding filecons_print.simps using a(1) by (simp only: deref_simps start obind_simps out(1) buf'(1))
  then show ?case by (rule exI [of _ buf', OF conjI]) (use buf'(2) out(2) b(2) in simp)
qed simp

subsection \<open>What a level says\<close>

text \<open>Ranges of values: two that follow each other are written with a comma, more with a dot.\<close>

definition show_range :: "(int \<Rightarrow> string) \<Rightarrow> int \<times> int \<Rightarrow> string" where
  "show_range name r = (case r of (a, b) \<Rightarrow>
     if a = b then name a else if b = a + 1 then name a @ '','' @ name b else name a @ ''.'' @ name b)"

fun commas :: "string list \<Rightarrow> string" where
  "commas [] = []"
| "commas [x] = x"
| "commas (x # y # zs) = x @ '','' @ commas (y # zs)"

text \<open>The ranges of a list of values, with an open range before it. A value that ends a range is written by itself.\<close>

fun ranges :: "(int \<times> int) option \<Rightarrow> int list \<Rightarrow> (int \<times> int) list" where
  "ranges None [] = []"
| "ranges (Some r) [] = [r]"
| "ranges None (v # vs) = ranges (Some (v, v)) vs"
| "ranges (Some (a, b)) (v # vs) = (if v = b + 1 then ranges (Some (a, v)) vs else (a, b) # (v, v) # ranges None vs)"

definition range_values :: "(int \<times> int) list \<Rightarrow> int list" where
  "range_values rs = concat (map (\<lambda>(a, b). [a..b]) rs)"

lemma ranges_values:
  "(case cur of None \<Rightarrow> True | Some (a, b) \<Rightarrow> a \<le> b) \<Longrightarrow>
   range_values (ranges cur vs) = (case cur of None \<Rightarrow> [] | Some (a, b) \<Rightarrow> [a..b]) @ vs"
proof (induction cur vs rule: ranges.induct)
  case (4 a b v vs)
  show ?case
  proof (cases "v = b + 1")
    case True
    have "[a..b + 1] = [a..b] @ [b + 1]" using 4(3) upto_rec2 [of a "b + 1"] by simp
    with 4(1) [OF True] 4(3) True show ?thesis by simp
  next
    case False
    with 4 show ?thesis by (simp add: range_values_def)
  qed
qed (auto simp: range_values_def)

lemma ranges_None_Nil [simp]: "ranges None vs = [] \<longleftrightarrow> vs = []"
proof -
  have "ranges (Some r) vs \<noteq> []" for r vs by (induction "Some r" vs arbitrary: r rule: ranges.induct) auto
  then show ?thesis by (cases vs) auto
qed

lemma commas_Cons: "commas (x # xs) = x @ (if xs = [] then [] else '','' @ commas xs)"
  by (cases xs) auto

text \<open>The items are the categories with these values and names.\<close>

definition cat_named :: "('h, 'b, 'z) cil_store_scheme \<Rightarrow> (int \<Rightarrow> string) \<Rightarrow> cil_item \<Rightarrow> int \<Rightarrow> bool" where
  "cat_named s name item v \<longleftrightarrow> 0 \<le> v \<and> (\<exists>i cat. item_data item = Some i \<and> m_cat s i = Some cat \<and> cat_value cat = v \<and>
     fqn_of s (Some i) = Ok (Some (name v)))"

text \<open>The state of the loop and the range that is open.\<close>

definition open_range :: "(int \<Rightarrow> string) \<Rightarrow> (int \<times> int) option \<Rightarrow> cstring \<Rightarrow> cstring \<Rightarrow> int \<Rightarrow> int \<Rightarrow> bool" where
  "open_range name cur str1 str2 f l \<longleftrightarrow> (case cur of None \<Rightarrow> f = -1
     | Some (a, b) \<Rightarrow> f = a \<and> l = b \<and> 0 \<le> a \<and> a \<le> b \<and> str1 = Some (name a) \<and> (a \<noteq> b \<longrightarrow> str2 = Some (name b)))"

lemma level_loop_denotes:
  assumes "level_string_loop cap s items str1 str2 f l buf = Ok (buf', a, b, c, d)"
    and "list_all2 (cat_named s name) items vs" and "open_range name cur str1 str2 f l"
  shows "\<exists>last. open_range name last a b c d \<and> buf @ commas (map (show_range name) (ranges cur vs)) =
    buf' @ (case last of None \<Rightarrow> [] | Some r \<Rightarrow> show_range name r)"
  using assms
proof (induction items arbitrary: str1 str2 f l buf vs cur)
  case Nil
  then show ?case by (cases cur) (auto intro: exI [of _ cur])
next
  case (Cons item rest)
  from Cons.prems(2) obtain v ws where vs: "vs = v # ws" "list_all2 (cat_named s name) rest ws" and named: "cat_named s name item v"
    by (auto simp: list_all2_Cons1)
  from named obtain i cat where v: "0 \<le> v"
    and cat: "item_data item = Some i" "m_cat s i = Some cat" "cat_value cat = v" "fqn_of s (Some i) = Ok (Some (name v))"
    unfolding cat_named_def by blast
  show ?case
  proof (cases cur)
    case None
    then have "level_string_loop cap s rest (Some (name v)) str2 v v buf = Ok (buf', a, b, c, d)"
      using Cons.prems(1,3) cat by (simp add: open_range_def)
    from Cons.IH [OF this vs(2), of "Some (v, v)"] show ?thesis
      using None v by (simp add: open_range_def vs(1))
  next
    case (Some r)
    then obtain x y where r: "cur = Some (x, y)" "f = x" "l = y" "0 \<le> x" "x \<le> y" "str1 = Some (name x)"
      "x \<noteq> y \<Longrightarrow> str2 = Some (name y)" using Cons.prems(3) by (cases r) (auto simp: open_range_def)
    show ?thesis
    proof (cases "v = y + 1")
      case True
      then have "level_string_loop cap s rest str1 (Some (name v)) x v buf = Ok (buf', a, b, c, d)"
        using Cons.prems(1) cat r by simp
      from Cons.IH [OF this vs(2), of "Some (x, v)"] show ?thesis
        using True r by (simp add: open_range_def vs(1))
    next
      case False
      let ?u = "buf @ show_range name (x, y) @ '','' @ name v @ (if rest \<noteq> [] then '','' else [])"
      have "level_string_loop cap s rest str1 str2 (-1) (-1) ?u = Ok (buf', a, b, c, d)"
      proof -
        have ne: "x \<noteq> -1" using r(4) by simp
        consider "x = y" | "y = x + 1" "str2 = Some (name y)" | "x \<noteq> y" "y \<noteq> x + 1" "str2 = Some (name y)" using r(7) by force
        then show ?thesis
        proof cases
          case 1
          then show ?thesis using Cons.prems(1) False r(2,3,6) ne
            by (simp add: cat sprintf_def show_range_def split: if_split_asm)
        next
          case 2
          then show ?thesis using Cons.prems(1) False r(2,3,6) ne
            by (simp add: cat sprintf_def show_range_def split: if_split_asm)
        next
          case 3
          then show ?thesis using Cons.prems(1) False r(2,3,6) ne
            by (simp add: cat sprintf_def show_range_def split: if_split_asm)
        qed
      qed
      from Cons.IH [OF this vs(2), of None] obtain last where last: "open_range name last a b c d"
        "?u @ commas (map (show_range name) (ranges None ws)) = buf' @ (case last of None \<Rightarrow> [] | Some r \<Rightarrow> show_range name r)"
        by (auto simp: open_range_def)
      have "rest = [] \<longleftrightarrow> ws = []" using vs(2) by auto
      then have "buf @ commas (map (show_range name) (ranges cur vs)) = ?u @ commas (map (show_range name) (ranges None ws))"
        using False r(1) by (simp add: vs(1) commas_Cons show_range_def)
      with last show ?thesis by (intro exI [of _ last]) simp
    qed
  qed
qed

text \<open>C33. The text of a level with categories names exactly its categories in their order: it is the name of the
  sensitivity, a colon, and ranges of categories separated by commas, where a range of three or more is written as its
  first and last category with a dot between them, and the values in these ranges, one range after the other, are the
  values of the categories.\<close>

theorem level_text_denotes:
  assumes "m_level s k = Some lvl" and "fqn_of s (level_sens lvl) = Ok (Some sens)" and "level_cats lvl = Some c"
    and "m_cats s c = Some cats" and "cats_datum_expr cats = Some expr"
    and "list_all2 (cat_named s name) (list_items expr) vs" and "cil_level_to_string cap s (Some k) = Ok out"
  shows "\<exists>rs. out = sens @ '':'' @ commas (map (show_range name) rs) \<and> range_values rs = vs"
proof -
  let ?u = "sens @ '':''"
  from assms(1-5,7) obtain buf a b f l where
    loop: "level_string_loop cap s (list_items expr) None None (-1) (-1) ?u = Ok (buf, a, b, f, l)" and
    final: "(if f \<noteq> -1 then
               obind (not_null a) (\<lambda>x1.
               if f = l then sprintf cap buf x1
               else obind (not_null b) (\<lambda>x2.
                 if l = f + 1 then sprintf cap buf (x1 @ '','' @ x2)
                 else sprintf cap buf (x1 @ ''.'' @ x2)))
             else Ok buf) = Ok out"
    by (auto simp: cil_level_to_string_def sprintf_def split: if_splits)
  obtain last where last: "open_range name last a b f l"
    "?u @ commas (map (show_range name) (ranges None vs)) = buf @ (case last of None \<Rightarrow> [] | Some r \<Rightarrow> show_range name r)"
    using level_loop_denotes [OF loop assms(6), of None] by (auto simp: open_range_def)
  have "out = buf @ (case last of None \<Rightarrow> [] | Some r \<Rightarrow> show_range name r)"
    using final last(1)
    by (cases last) (auto simp: open_range_def sprintf_def show_range_def split: if_splits prod.splits)
  with last(2) have "out = ?u @ commas (map (show_range name) (ranges None vs))" by simp
  then show ?thesis using ranges_values [of None vs] by (intro exI [of _ "ranges None vs"]) simp
qed

text \<open>C34. The three texts fill their buffers exactly: when the computation of the length succeeds, the printing writes that
  many characters, so it never writes past the end of the buffer and cuts nothing off. For file contexts this needs
  that their types are those of the enumeration.\<close>

theorem texts_fill_buffers:
  assumes "userprefixes_size s (userprefixes s) = Ok n1"
    and "selinuxusers_size (mls = 1) s (map snd (selinuxusers s)) = Ok n2"
    and "sort_elements (sorts s CIL_FILECON) = Ok as" and "filecons_size (mls = 1) leq s as = Ok n3"
    and "\<forall>a \<in> set as. \<forall>x. m_filecon s a = Some x \<longrightarrow> filecon_kind x \<in> {1..8}"
  shows "(if userprefixes s = [] then cil_userprefixes_to_string s = Ok (None, 0)
      else \<exists>out. cil_userprefixes_to_string s = Ok (Some out, n1) \<and> length out = n1) \<and>
    (if selinuxusers s = [] then cil_selinuxusers_to_string mls s = Ok (None, 0)
      else \<exists>out. cil_selinuxusers_to_string mls s = Ok (Some out, n2) \<and> length out = n2) \<and>
    (\<exists>out. cil_filecons_to_string mls leq s = Ok (out, n3) \<and> length out = n3)"
  using userprefixes_fit [OF assms(1), of "Suc n1" "[]"] selinuxusers_fit [OF assms(2), of "[]" "n2 + 1"]
    filecons_fit [OF assms(4), of "[]" "n3 + 1"] assms
  by (auto simp: cil_userprefixes_to_string_def cil_selinuxusers_to_string_def cil_filecons_to_string_def Let_def)

subsection \<open>An example\<close>

text \<open>A user with a prefix, a login and a file context at the level \<open>s0:c0.c2,c5\<close>.\<close>

definition named :: "string \<Rightarrow> cil_symtab_datum" where
  "named name = \<lparr>datum_name = Some name, datum_fqn = Some name, datum_symtab = None, datum_nodes = Some []\<rparr>"

lemma named_fqn [simp]: "datum_fqn (named name) = Some name"
  by (simp add: named_def)

definition labelled :: "(unit, unit) cil_store" where
  "labelled = store0\<lparr>
     datums := [1 \<mapsto> named ''u'', 2 \<mapsto> named ''r'', 3 \<mapsto> named ''t'', 4 \<mapsto> named ''s0'',
       5 \<mapsto> named ''c0'', 6 \<mapsto> named ''c1'', 7 \<mapsto> named ''c2'', 8 \<mapsto> named ''c5''],
     m_cat := [5 \<mapsto> \<lparr>cat_ordered = True, cat_value = 0\<rparr>, 6 \<mapsto> \<lparr>cat_ordered = True, cat_value = 1\<rparr>,
       7 \<mapsto> \<lparr>cat_ordered = True, cat_value = 2\<rparr>, 8 \<mapsto> \<lparr>cat_ordered = True, cat_value = 5\<rparr>],
     m_cats := [9 \<mapsto> \<lparr>cats_evaluated = True, cats_str_expr = Cil_List CIL_CAT [],
       cats_datum_expr = Some (Cil_List CIL_CAT [Item_Datum 5, Item_Datum 6, Item_Datum 7, Item_Datum 8])\<rparr>],
     m_level := [10 \<mapsto> \<lparr>level_sens_str = Some ''s0'', level_sens = Some 4, level_cats = None\<rparr>,
       11 \<mapsto> \<lparr>level_sens_str = Some ''s0'', level_sens = Some 4, level_cats = Some 9\<rparr>],
     m_levelrange := [12 \<mapsto> \<lparr>levelrange_low_str = None, levelrange_low = Some 10,
       levelrange_high_str = None, levelrange_high = Some 11\<rparr>],
     m_userprefix := [13 \<mapsto> \<lparr>userprefix_user_str = Some ''u'', userprefix_user = Some 1, userprefix_prefix_str = Some ''p''\<rparr>],
     m_selinuxuser := [14 \<mapsto> \<lparr>selinuxuser_name_str = Some ''root'', selinuxuser_user_str = Some ''u'',
       selinuxuser_user = Some 1, selinuxuser_range_str = None, selinuxuser_range = Some 12\<rparr>],
     m_context := [15 \<mapsto> \<lparr>context_user_str = Some ''u'', context_user = Some 1, context_role_str = Some ''r'',
       context_role = Some 2, context_type_str = Some ''t'', context_type = Some 3, context_range_str = None,
       context_range = Some 12\<rparr>],
     m_filecon := [16 \<mapsto> \<lparr>filecon_path_str = ''/etc'', filecon_kind = 2, filecon_context_str = None,
       filecon_context = Some 15\<rparr>],
     userprefixes := [13], selinuxusers := [(CIL_SELINUXUSER, 14)],
     sorts := (sorts (store0 :: (unit, unit) cil_store))(CIL_FILECON := \<lparr>sort_count = 1, sort_index = 1, sort_array = Some [Some 16]\<rparr>)\<rparr>"

lemma labelled_fields [simp]:
  "datums labelled = [1 \<mapsto> named ''u'', 2 \<mapsto> named ''r'', 3 \<mapsto> named ''t'', 4 \<mapsto> named ''s0'',
       5 \<mapsto> named ''c0'', 6 \<mapsto> named ''c1'', 7 \<mapsto> named ''c2'', 8 \<mapsto> named ''c5'']"
  "m_cat labelled = [5 \<mapsto> \<lparr>cat_ordered = True, cat_value = 0\<rparr>, 6 \<mapsto> \<lparr>cat_ordered = True, cat_value = 1\<rparr>,
       7 \<mapsto> \<lparr>cat_ordered = True, cat_value = 2\<rparr>, 8 \<mapsto> \<lparr>cat_ordered = True, cat_value = 5\<rparr>]"
  "m_cats labelled = [9 \<mapsto> \<lparr>cats_evaluated = True, cats_str_expr = Cil_List CIL_CAT [],
       cats_datum_expr = Some (Cil_List CIL_CAT [Item_Datum 5, Item_Datum 6, Item_Datum 7, Item_Datum 8])\<rparr>]"
  "m_level labelled = [10 \<mapsto> \<lparr>level_sens_str = Some ''s0'', level_sens = Some 4, level_cats = None\<rparr>,
       11 \<mapsto> \<lparr>level_sens_str = Some ''s0'', level_sens = Some 4, level_cats = Some 9\<rparr>]"
  "m_levelrange labelled = [12 \<mapsto> \<lparr>levelrange_low_str = None, levelrange_low = Some 10,
       levelrange_high_str = None, levelrange_high = Some 11\<rparr>]"
  "m_userprefix labelled = [13 \<mapsto> \<lparr>userprefix_user_str = Some ''u'', userprefix_user = Some 1, userprefix_prefix_str = Some ''p''\<rparr>]"
  "m_selinuxuser labelled = [14 \<mapsto> \<lparr>selinuxuser_name_str = Some ''root'', selinuxuser_user_str = Some ''u'',
       selinuxuser_user = Some 1, selinuxuser_range_str = None, selinuxuser_range = Some 12\<rparr>]"
  "m_context labelled = [15 \<mapsto> \<lparr>context_user_str = Some ''u'', context_user = Some 1, context_role_str = Some ''r'',
       context_role = Some 2, context_type_str = Some ''t'', context_type = Some 3, context_range_str = None,
       context_range = Some 12\<rparr>]"
  "m_filecon labelled = [16 \<mapsto> \<lparr>filecon_path_str = ''/etc'', filecon_kind = 2, filecon_context_str = None,
       filecon_context = Some 15\<rparr>]"
  "userprefixes labelled = [13]" "selinuxusers labelled = [(CIL_SELINUXUSER, 14)]"
  "sorts labelled CIL_FILECON = \<lparr>sort_count = 1, sort_index = 1, sort_array = Some [Some 16]\<rparr>"
  by (simp_all add: labelled_def)

definition cat_names :: "int \<Rightarrow> string" where
  "cat_names v = (if v = 0 then ''c0'' else if v = 1 then ''c1'' else if v = 2 then ''c2'' else ''c5'')"

lemma labelled_fqns [simp]: "fqn_of labelled (Some 4) = Ok (Some ''s0'')" "fqn_of labelled (Some 5) = Ok (Some ''c0'')"
  "fqn_of labelled (Some 6) = Ok (Some ''c1'')" "fqn_of labelled (Some 7) = Ok (Some ''c2'')"
  "fqn_of labelled (Some 8) = Ok (Some ''c5'')" "fqn_of labelled (Some (Suc 0)) = Ok (Some ''u'')"
  "fqn_of labelled (Some 1) = Ok (Some ''u'')" "fqn_of labelled (Some 2) = Ok (Some ''r'')" "fqn_of labelled (Some 3) = Ok (Some ''t'')"
  by (simp_all add: fqn_of_def deref_def)

lemma labelled_level: "cil_level_to_string 12 labelled (Some 11) = Ok ''s0:c0.c2,c5''"
  by (simp add: cil_level_to_string_def deref_def)

theorem level_text_denotes_witness:
  "\<exists>rs. ''s0:c0.c2,c5'' = ''s0'' @ '':'' @ commas (map (show_range cat_names) rs) \<and> range_values rs = [0, 1, 2, 5]"
proof -
  let ?cats = "Cil_List CIL_CAT [Item_Datum 5, Item_Datum 6, Item_Datum 7, Item_Datum 8]"
  show ?thesis
    by (rule level_text_denotes [of labelled 11 "\<lparr>level_sens_str = Some ''s0'', level_sens = Some 4, level_cats = Some 9\<rparr>"
        "''s0''" 9 "\<lparr>cats_evaluated = True, cats_str_expr = Cil_List CIL_CAT [], cats_datum_expr = Some ?cats\<rparr>"
        ?cats cat_names _ 12])
      (simp_all add: labelled_level cat_named_def cat_names_def)
qed

theorem texts_fill_buffers_witness:
  "cil_userprefixes_to_string labelled = Ok (Some (''user u prefix p;'' @ [CHR 0x0A]), 17) \<and>
   (\<exists>out. cil_selinuxusers_to_string 1 labelled = Ok (Some out, 22) \<and> length out = 22) \<and>
   (\<exists>out. cil_filecons_to_string 1 (=) labelled = Ok (out, 29) \<and> length out = 29)"
proof -
  have levels: "cil_level_strlen labelled (Some 10) = Ok 2" "cil_level_strlen labelled (Some 11) = Ok 11"
    by (simp_all add: cil_level_strlen_def deref_def)
  have 1: "userprefixes_size labelled (userprefixes labelled) = Ok 17"
    "selinuxusers_size True labelled (map snd (selinuxusers labelled)) = Ok 22"
    "sort_elements (sorts labelled CIL_FILECON) = Ok [16]" "filecons_size True (=) labelled [16] = Ok 29"
    by (simp_all add: deref_def levels sort_elements_def file_context_size_def file_range_size_def context_fqns_def)
  have 2: "cil_userprefixes_to_string labelled = Ok (Some (''user u prefix p;'' @ [CHR 0x0A]), 17)"
    using 1(1) by (simp add: cil_userprefixes_to_string_def deref_def)
  show ?thesis
    using texts_fill_buffers [of labelled 17 1 22 "[16]" "(=)" 29] 1 2 by simp
qed

end
