(* ===== verification/Cil_Policydb.thy ===== *)
theory Cil_Policydb
  imports Cil_Post Cil_Build_Gen Cil_Output
begin

text \<open>
  The policy database of libsepol as \<open>src/cil_binary.c\<close> uses it, and the declarations that the compiler enters:
  classes with their permissions, roles, types, attributes, users, booleans, categories and sensitivities, and
  the arrays from values to names.

  libsepol is not part of the repository. Its structs appear here with the fields that the compiler reads and
  writes, one record per struct; a map from addresses holds the structs of each kind, as for the structs of the
  compiler. Its functions are the components of the record \<open>policy_lib\<close>, which the definitions take as an
  argument; hash tables and bitmaps are those of \<open>sepol\<close>. A failure that \<open>free\<close>s what it has built is modelled
  up to the memory that is given back.
\<close>

abbreviation (input) CIL_KEY_OBJECT_R :: cstring where "CIL_KEY_OBJECT_R \<equiv> Some ''object_r''"

subsection \<open>Structs of libsepol\<close>

text \<open>The numbers of the symbol tables: \<open>pdb->p_types\<close> is \<open>p_symtab s SYM_TYPES\<close>, and so on.\<close>

datatype policy_symbol = SYM_COMMONS | SYM_CLASSES | SYM_ROLES | SYM_TYPES | SYM_USERS | SYM_BOOLS | SYM_LEVELS | SYM_CATS

record 'h policy_symtab =
  symtab_table :: 'h
  symtab_nprim :: "32 word"

record perm_datum =
  perm_datum_value :: "32 word"

record 'h common_datum =
  common_datum_value :: "32 word"
  common_datum_permissions :: "'h policy_symtab"

text \<open>An element of a constraint expression; the expression is the list of its elements in postfix order.\<close>

record 'b constraint_expr =
  cexpr_kind :: nat
  cexpr_attr :: "32 word"
  cexpr_op :: nat
  cexpr_names :: 'b
  cexpr_type_names :: 'b

record 'b constraint_node =
  constraint_permissions :: "32 word"
  constraint_postfix :: "'b constraint_expr list"

record ('h, 'b) class_datum =
  class_datum_value :: "32 word"
  class_datum_permissions :: "'h policy_symtab"
  class_datum_comdatum :: "addr option"
  class_datum_comkey :: cstring
  class_datum_constraints :: "'b constraint_node list"
  class_datum_validatetrans :: "'b constraint_node list"
  class_datum_default_user :: int
  class_datum_default_role :: int
  class_datum_default_type :: int
  class_datum_default_range :: int

record 'b role_datum =
  role_datum_value :: "32 word"
  role_datum_dominates :: 'b
  role_datum_types :: 'b
  role_datum_bounds :: "32 word"

record type_datum =
  type_datum_value :: "32 word"
  type_datum_primary :: nat
  type_datum_flavor :: nat
  type_datum_bounds :: "32 word"

record 'b mls_level =
  mls_sens :: "32 word"
  mls_cat :: 'b

type_synonym 'b mls_range = "'b mls_level \<times> 'b mls_level"

record 'b user_datum =
  user_datum_value :: "32 word"
  user_datum_roles :: 'b
  user_datum_bounds :: "32 word"
  user_datum_exp_dfltlevel :: "'b mls_level"
  user_datum_exp_range :: "'b mls_range"

record bool_datum =
  bool_datum_value :: "32 word"
  bool_datum_state :: bool

record 'b level_datum =
  level_datum_level :: "'b mls_level option"
  level_datum_defined :: bool
  level_datum_isalias :: bool

record cat_datum =
  cat_datum_value :: "32 word"
  cat_datum_isalias :: bool

text \<open>\<open>avtab_key_t\<close>: its fields have 16 bits. A node of an access vector table is a key and a datum.\<close>

record avtab_key =
  key_source_type :: "16 word"
  key_target_type :: "16 word"
  key_target_class :: "16 word"
  key_specified :: "16 word"

record avtab_node =
  avtab_node_key :: avtab_key
  avtab_node_data :: "32 word"
  avtab_node_parse_context :: bool

record cond_expr =
  cond_expr_type :: nat
  cond_expr_bool :: "32 word"

text \<open>The lists of a conditional hold addresses of nodes of the conditional table.\<close>

record cond_node =
  cond_node_expr :: "cond_expr list"
  cond_node_true_list :: "addr list"
  cond_node_false_list :: "addr list"
  cond_node_cur_state :: int

record filename_trans =
  ft_stype :: "32 word"
  ft_ttype :: "32 word"
  ft_tclass :: "32 word"
  ft_otype :: "32 word"
  ft_name :: string

record role_trans =
  rt_role :: "32 word"
  rt_type :: "32 word"
  rt_tclass :: "32 word"
  rt_new_role :: "32 word"

record 'b range_trans =
  rg_source_type :: "32 word"
  rg_target_type :: "32 word"
  rg_target_class :: "32 word"
  rg_target_range :: "'b mls_range"

text \<open>The three tables that find duplicate transitions share their functions; their keys are pointers to these structs.\<close>

datatype 'b transition = Filename_Trans filename_trans | Role_Trans role_trans | Range_Trans "'b range_trans"

record 'b sepol_context =
  context_struct_user :: "32 word"
  context_struct_role :: "32 word"
  context_struct_type :: "32 word"
  context_struct_range :: "'b mls_range option"

text \<open>The union \<open>u\<close> of an object context.\<close>

datatype ocontext_object =
    No_Object
  | Object_Name string
  | Object_Port "8 word" "16 word" "16 word"
  | Object_Node "8 word list" "8 word list"
  | Object_Node6 "8 word list" "8 word list"
  | Object_Pirq "16 word"
  | Object_Iomem "32 word" "32 word"
  | Object_Ioport "32 word" "32 word"
  | Object_Device "32 word"

text \<open>A context that has not been filled in is all zero: \<open>None\<close>.\<close>

record 'b ocontext =
  ocontext_object :: ocontext_object
  ocontext_behavior :: nat
  ocontext_context0 :: "'b sepol_context option"
  ocontext_context1 :: "'b sepol_context option"
  ocontext_sid :: "32 word"

record 'b genfs =
  genfs_fstype :: string
  genfs_head :: "'b ocontext list"

text \<open>A rule of a neverallow statement, and the statement with its node and its rules.\<close>

record cil_neverallow_rule =
  neverallow_rule_src :: addr
  neverallow_rule_tgt :: addr
  neverallow_rule_class :: "32 word"
  neverallow_rule_perms :: "32 word"

record cil_neverallow =
  neverallow_node :: addr
  neverallow_rules :: "cil_neverallow_rule list"

subsection \<open>Functions and constants of libsepol\<close>

text \<open>
  \<^item> \<open>symtab_insert\<close> enters a key with the address of its datum; when it is given a pointer to a value
    (the fourth argument), it assigns the next value of the table and returns it.
  \<^item> \<open>avtab_node_at\<close> reads a node of a table, \<open>avtab_set_node\<close> writes it; the searches return addresses of nodes.
  \<^item> \<open>cond_node_find\<close> returns the position of an equal conditional in the list, or a new one.
  \<^item> \<open>trans_insert\<close> and \<open>trans_search\<close> are \<open>hashtab_insert\<close> and \<open>hashtab_search\<close> on the tables of transitions, whose
    datum lies in the struct that is the key. \<open>trans_create\<close> gets the functions for hashing and comparing.
  \<^item> \<open>eb_nodes\<close> are the nodes of a bitmap: its position and the 64 bits from there on.
\<close>

record ('h, 'b, 't, 'k) policy_lib =
  symtab_init :: "'h policy_symtab option"
  symtab_insert :: "policy_symbol \<Rightarrow> string \<Rightarrow> addr \<Rightarrow> bool \<Rightarrow> 'h policy_symtab
    \<Rightarrow> sepol_rc option \<times> 32 word \<times> 'h policy_symtab"
  eb_cpy :: "'b \<Rightarrow> 'b option"
  eb_nodes :: "'b \<Rightarrow> (nat \<times> 64 word) list"
  avtab_alloc :: "'t \<Rightarrow> sepol_rc option \<times> 't"
  avtab_search :: "'t \<Rightarrow> avtab_key \<Rightarrow> addr option"
  avtab_search_node :: "'t \<Rightarrow> avtab_key \<Rightarrow> addr option"
  avtab_insert :: "'t \<Rightarrow> avtab_key \<Rightarrow> 32 word \<Rightarrow> sepol_rc option \<times> 't"
  avtab_insert_nonunique :: "'t \<Rightarrow> avtab_key \<Rightarrow> 32 word \<Rightarrow> (addr \<times> 't) option"
  avtab_node_at :: "'t \<Rightarrow> addr \<rightharpoonup> avtab_node"
  avtab_set_node :: "'t \<Rightarrow> addr \<Rightarrow> avtab_node \<Rightarrow> 't"
  cond_node_create :: "cond_node option"
  cond_normalize_expr :: "cond_node \<Rightarrow> sepol_rc option \<times> cond_node"
  cond_node_find :: "cond_node \<Rightarrow> cond_node list \<Rightarrow> (nat + cond_node) option"
  cond_evaluate_expr :: "(32 word \<Rightarrow> bool) \<Rightarrow> cond_expr list \<Rightarrow> int"
  cond_optimize_list :: "addr list \<Rightarrow> addr list"
  trans_create :: "(32 word \<Rightarrow> 'b transition \<Rightarrow> 32 word) \<Rightarrow> ('b transition \<Rightarrow> 'b transition \<Rightarrow> bool) \<Rightarrow> 32 word \<Rightarrow> 'k option"
  trans_insert :: "'k \<Rightarrow> 'b transition \<Rightarrow> sepol_rc option \<times> 'k"
  trans_search :: "'k \<Rightarrow> 'b transition \<Rightarrow> 'b transition option"
  mls_range_eq :: "'b mls_range \<Rightarrow> 'b mls_range \<Rightarrow> bool"
  mls_level_cpy :: "'b mls_level \<Rightarrow> 'b mls_level option"
  constraint_expr_init :: "'b constraint_expr option"

record policy_consts =
  avtab_allowed :: "16 word"
  avtab_auditallow :: "16 word"
  avtab_auditdeny :: "16 word"
  avtab_transition :: "16 word"
  avtab_member :: "16 word"
  avtab_change :: "16 word"
  avtab_enabled :: "16 word"
  cond_bool :: nat
  cond_not :: nat
  cond_or :: nat
  cond_and :: nat
  cond_xor :: nat
  cond_eq :: nat
  cond_neq :: nat
  cexpr_not :: nat
  cexpr_and :: nat
  cexpr_or :: nat
  cexpr_attribute :: nat
  cexpr_named :: nat
  cexpr_eq :: nat
  cexpr_neq :: nat
  cexpr_dom :: nat
  cexpr_domby :: nat
  cexpr_incomp :: nat
  cexpr_user :: "32 word"
  cexpr_role :: "32 word"
  cexpr_type :: "32 word"
  cexpr_target :: "32 word"
  cexpr_xtarget :: "32 word"
  cexpr_l1l2 :: "32 word"
  cexpr_l1h2 :: "32 word"
  cexpr_h1l2 :: "32 word"
  cexpr_h1h2 :: "32 word"
  cexpr_l1h1 :: "32 word"
  cexpr_l2h2 :: "32 word"
  type_type :: nat
  type_attrib :: nat
  constraint_names_version :: nat
  target_xen :: nat
  ipproto_udp :: "8 word"
  ipproto_tcp :: "8 word"

subsection \<open>The state\<close>

datatype ocontext_kind =
  OCON_ISID | OCON_PORT | OCON_NETIF | OCON_NODE | OCON_NODE6 | OCON_FSUSE | OCON_XEN_PIRQ | OCON_XEN_IOMEM |
  OCON_XEN_IOPORT | OCON_XEN_PCIDEVICE

text \<open>The structs of libsepol at their addresses, of which \<open>p_brk\<close> is the next free one, the fields of
  \<open>policydb_t\<close>, and what \<open>struct cil_args_binary\<close> points to. The arrays \<open>p_type_val_to_name\<close> and
  \<open>type_val_to_struct\<close> are \<open>val_to_name p SYM_TYPES\<close> and \<open>val_to_struct p SYM_TYPES\<close>, and so on.

  The database of the compiler is \<open>const\<close> in this file: the memory \<open>s\<close> is an argument of the operations, and the
  state that they change is the policy.\<close>

record ('h, 'b, 't, 'k) policydb =
  p_brk :: addr
  d_perm :: "addr \<rightharpoonup> perm_datum"
  d_common :: "addr \<rightharpoonup> 'h common_datum"
  d_class :: "addr \<rightharpoonup> ('h, 'b) class_datum"
  d_role :: "addr \<rightharpoonup> 'b role_datum"
  d_type :: "addr \<rightharpoonup> type_datum"
  d_user :: "addr \<rightharpoonup> 'b user_datum"
  d_bool :: "addr \<rightharpoonup> bool_datum"
  d_level :: "addr \<rightharpoonup> 'b level_datum"
  d_cat :: "addr \<rightharpoonup> cat_datum"
  d_cond :: "addr \<rightharpoonup> cond_node"
  p_symtab :: "policy_symbol \<Rightarrow> 'h policy_symtab"
  val_to_name :: "policy_symbol \<Rightarrow> cstring list option"
  val_to_struct :: "policy_symbol \<Rightarrow> addr option list option"
  te_avtab :: 't
  te_cond_avtab :: 't
  cond_list :: "addr list"
  p_role_tr :: "role_trans list"
  p_role_allow :: "(32 word \<times> 32 word) list"
  p_range_tr :: "'b range_trans list"
  p_filename_trans :: "filename_trans list"
  p_ocontexts :: "ocontext_kind \<Rightarrow> 'b ocontext list"
  p_genfs :: "'b genfs list"
  p_permissive_map :: 'b
  p_policycaps :: 'b
  p_type_attr_map :: "'b list option"
  p_handle_unknown :: int
  p_mls :: int
  p_policyvers :: nat
  p_target_platform :: nat
  neverallows :: "cil_neverallow list"
  filename_trans_table :: "'k option"
  range_trans_table :: "'k option"
  role_trans_table :: "'k option"

type_synonym ('h, 'b, 't, 'k, 'a) policy = "(('h, 'b, 't, 'k) policydb, 'a) cil"

text \<open>\<open>cil_malloc\<close> for a struct of libsepol.\<close>

definition new_datum ::
  "(((addr \<rightharpoonup> 'x) \<Rightarrow> addr \<rightharpoonup> 'x) \<Rightarrow> ('h, 'b, 't, 'k) policydb \<Rightarrow> ('h, 'b, 't, 'k) policydb) \<Rightarrow> 'x
   \<Rightarrow> ('h, 'b, 't, 'k, addr) policy"
where
  "new_datum upd x = (\<lambda>p. (Ok (p_brk p), upd (\<lambda>m. m(p_brk p \<mapsto> x)) (p\<lparr>p_brk := Suc (p_brk p)\<rparr>)))"

definition free_datum ::
  "(((addr \<rightharpoonup> 'x) \<Rightarrow> addr \<rightharpoonup> 'x) \<Rightarrow> ('h, 'b, 't, 'k) policydb \<Rightarrow> ('h, 'b, 't, 'k) policydb) \<Rightarrow> addr
   \<Rightarrow> ('h, 'b, 't, 'k, unit) policy"
where
  "free_datum upd a = modify (upd (\<lambda>m. m(a := None)))"

text \<open>The return code of a function of libsepol.\<close>

definition return_code :: "sepol_rc option \<Rightarrow> 'a \<Rightarrow> 'a outcome" where
  "return_code rc x = (case rc of None \<Rightarrow> Ok x | Some e \<Rightarrow> Fail e)"

definition insert_symbol ::
  "('h, 'b, 't, 'k) policy_lib \<Rightarrow> policy_symbol \<Rightarrow> string \<Rightarrow> addr \<Rightarrow> bool \<Rightarrow> ('h, 'b, 't, 'k, 32 word) policy"
where
  "insert_symbol P symbol key datum counted = (\<lambda>p.
     case symtab_insert P symbol key datum counted (p_symtab p symbol) of (rc, value, tab) \<Rightarrow>
       (return_code rc value, p\<lparr>p_symtab := (p_symtab p)(symbol := tab)\<rparr>))"

text \<open>The key of a datum, \<open>datum->fqn\<close>; looking up a null key is a fault.\<close>

definition datum_key :: "('h, 'b, 'z) cil_store_scheme \<Rightarrow> addr option \<Rightarrow> string outcome" where
  "datum_key s datum = obind (fqn_of s datum) not_null"

subsection \<open>Looking up what has been declared\<close>

definition get_sepol_datum ::
  "('h, 'b) sepol \<Rightarrow> ('h, 'b, 'z) cil_store_scheme \<Rightarrow> policy_symbol \<Rightarrow> addr option \<Rightarrow> ('h, 'b, 't, 'k) policydb
   \<Rightarrow> addr outcome"
where
  "get_sepol_datum L s symbol datum p =
     obind (datum_key s datum) (\<lambda>key.
     case ht_search L (symtab_table (p_symtab p symbol)) key of
       None \<Rightarrow> Fail SEPOL_ERR
     | Some a \<Rightarrow> Ok a)"

definition cil_get_sepol_user_datum ::
  "('h, 'b) sepol \<Rightarrow> ('h, 'b, 'z) cil_store_scheme \<Rightarrow> addr option \<Rightarrow> ('h, 'b, 't, 'k) policydb \<Rightarrow> addr outcome"
where "cil_get_sepol_user_datum L s = get_sepol_datum L s SYM_USERS"

definition cil_get_sepol_role_datum ::
  "('h, 'b) sepol \<Rightarrow> ('h, 'b, 'z) cil_store_scheme \<Rightarrow> addr option \<Rightarrow> ('h, 'b, 't, 'k) policydb \<Rightarrow> addr outcome"
where "cil_get_sepol_role_datum L s = get_sepol_datum L s SYM_ROLES"

definition cil_get_sepol_type_datum ::
  "('h, 'b) sepol \<Rightarrow> ('h, 'b, 'z) cil_store_scheme \<Rightarrow> addr option \<Rightarrow> ('h, 'b, 't, 'k) policydb \<Rightarrow> addr outcome"
where "cil_get_sepol_type_datum L s = get_sepol_datum L s SYM_TYPES"

definition cil_get_sepol_class_datum ::
  "('h, 'b) sepol \<Rightarrow> ('h, 'b, 'z) cil_store_scheme \<Rightarrow> addr option \<Rightarrow> ('h, 'b, 't, 'k) policydb \<Rightarrow> addr outcome"
where "cil_get_sepol_class_datum L s = get_sepol_datum L s SYM_CLASSES"

definition cil_get_sepol_cat_datum ::
  "('h, 'b) sepol \<Rightarrow> ('h, 'b, 'z) cil_store_scheme \<Rightarrow> addr option \<Rightarrow> ('h, 'b, 't, 'k) policydb \<Rightarrow> addr outcome"
where "cil_get_sepol_cat_datum L s = get_sepol_datum L s SYM_CATS"

definition cil_get_sepol_level_datum ::
  "('h, 'b) sepol \<Rightarrow> ('h, 'b, 'z) cil_store_scheme \<Rightarrow> addr option \<Rightarrow> ('h, 'b, 't, 'k) policydb \<Rightarrow> addr outcome"
where "cil_get_sepol_level_datum L s = get_sepol_datum L s SYM_LEVELS"

text \<open>The values of the types, roles, users and classes that names stand for.\<close>

definition type_value_of :: "('h, 'b, 't, 'k) policydb \<Rightarrow> addr \<Rightarrow> 32 word outcome" where
  "type_value_of p a = obind (deref (d_type p) (Some a)) (\<lambda>d. Ok (type_datum_value d))"

definition role_value_of :: "('h, 'b, 't, 'k) policydb \<Rightarrow> addr \<Rightarrow> 32 word outcome" where
  "role_value_of p a = obind (deref (d_role p) (Some a)) (\<lambda>d. Ok (role_datum_value d))"

definition class_value_of :: "('h, 'b, 't, 'k) policydb \<Rightarrow> addr \<Rightarrow> 32 word outcome" where
  "class_value_of p a = obind (deref (d_class p) (Some a)) (\<lambda>d. Ok (class_datum_value d))"

definition cat_value_of :: "('h, 'b, 't, 'k) policydb \<Rightarrow> addr \<Rightarrow> 32 word outcome" where
  "cat_value_of p a = obind (deref (d_cat p) (Some a)) (\<lambda>d. Ok (cat_datum_value d))"

definition user_value_of :: "('h, 'b, 't, 'k) policydb \<Rightarrow> addr \<Rightarrow> 32 word outcome" where
  "user_value_of p a = obind (deref (d_user p) (Some a)) (\<lambda>d. Ok (user_datum_value d))"

subsection \<open>Expanding attributes and class maps\<close>

definition eb_set :: "('h, 'b) sepol \<Rightarrow> 'b \<Rightarrow> nat \<Rightarrow> 'b outcome" where
  "eb_set L b i = (case eb_set_bit L b i of None \<Rightarrow> Fail SEPOL_ERR | Some b' \<Rightarrow> Ok b')"

definition cil_expand_role ::
  "('h, 'b) sepol \<Rightarrow> ('h, 'b, 't, 'k) policy_lib \<Rightarrow> ('h, 'b, 'z) cil_store_scheme \<Rightarrow> addr option \<Rightarrow> 'b outcome"
where
  "cil_expand_role L P s datum =
     obind (FLAVOR s datum) (\<lambda>flavor.
     if flavor = CIL_ROLEATTRIBUTE then
       obind (deref (m_roleattribute s) datum) (\<lambda>attr.
       obind (not_null (roleattribute_roles attr)) (\<lambda>roles.
       case eb_cpy P roles of None \<Rightarrow> Fail SEPOL_ERR | Some b \<Rightarrow> Ok b))
     else
       obind (deref (m_role s) datum) (\<lambda>role.
       eb_set L (eb_init L) (unsigned_int (role_value role))))"

definition cil_expand_type ::
  "('h, 'b) sepol \<Rightarrow> ('h, 'b, 't, 'k) policy_lib \<Rightarrow> ('h, 'b, 'z) cil_store_scheme \<Rightarrow> addr option \<Rightarrow> 'b outcome"
where
  "cil_expand_type L P s datum =
     obind (FLAVOR s datum) (\<lambda>flavor.
     if flavor = CIL_TYPEATTRIBUTE then
       obind (deref (m_typeattribute s) datum) (\<lambda>attr.
       obind (not_null (typeattribute_types attr)) (\<lambda>types.
       case eb_cpy P types of None \<Rightarrow> Fail SEPOL_ERR | Some b \<Rightarrow> Ok b))
     else
       obind (deref (m_type s) datum) (\<lambda>type.
       eb_set L (eb_init L) (unsigned_int (type_value type))))"

text \<open>\<open>ebitmap_for_each_bit\<close> with the test of the bit.\<close>

definition set_bits :: "('h, 'b) sepol \<Rightarrow> 'b \<Rightarrow> nat list" where
  "set_bits L b = filter (eb_get_bit L b) (eb_positions L b)"

text \<open>Where the cleanup of a failing function reads variables that have not been initialised yet.\<close>

definition or_fault :: "'a outcome \<Rightarrow> 'a outcome" where
  "or_fault m = (case m of Fail e \<Rightarrow> Fault | _ \<Rightarrow> m)"

fun add_classes_from_classperms_list ::
  "nat \<Rightarrow> ('h, 'b, 'z) cil_store_scheme \<Rightarrow> classperms_list option \<Rightarrow> addr list outcome"
and add_classes_from_classperms ::
  "nat \<Rightarrow> ('h, 'b, 'z) cil_store_scheme \<Rightarrow> classperms_list \<Rightarrow> addr list outcome"
and add_classes_from_perms ::
  "nat \<Rightarrow> ('h, 'b, 'z) cil_store_scheme \<Rightarrow> addr option list \<Rightarrow> addr list outcome"
where
  "add_classes_from_classperms_list 0 s classperms = Out_of_fuel"
| "add_classes_from_classperms_list (Suc fuel) s classperms =
     obind (not_null classperms) (add_classes_from_classperms fuel s)"
| "add_classes_from_classperms fuel s [] = Ok []"
| "add_classes_from_classperms fuel s ((flavor, a) # rest) =
     obind (if flavor = CIL_CLASSPERMS then
              obind (deref (m_classperms s) (Some a)) (\<lambda>cp.
              obind (FLAVOR s (classperms_class cp)) (\<lambda>kind.
              if kind = CIL_CLASS then obind (not_null (classperms_class cp)) (\<lambda>c. Ok [c])
              else
                obind (not_null (classperms_perms cp)) (\<lambda>perms.
                add_classes_from_perms fuel s (map item_data (list_items perms)))))
            else
              obind (deref (m_classperms_set s) (Some a)) (\<lambda>cp_set.
              obind (deref (m_classpermission s) (classperms_set_set cp_set)) (\<lambda>cp.
              add_classes_from_classperms_list fuel s (classpermission_classperms cp)))) (\<lambda>classes.
     obind (add_classes_from_classperms fuel s rest) (\<lambda>more. Ok (classes @ more)))"
| "add_classes_from_perms fuel s [] = Ok []"
| "add_classes_from_perms fuel s (i # rest) =
     obind (deref (m_perm s) i) (\<lambda>cmp.
     obind (add_classes_from_classperms_list fuel s (perm_classperms cmp)) (\<lambda>classes.
     obind (add_classes_from_perms fuel s rest) (\<lambda>more. Ok (classes @ more))))"

definition cil_expand_class ::
  "nat \<Rightarrow> ('h, 'b) sepol \<Rightarrow> ('h, 'b, 'z) cil_store_scheme \<Rightarrow> addr option \<Rightarrow> addr list outcome"
where
  "cil_expand_class fuel L s class =
     obind (FLAVOR s class) (\<lambda>flavor.
     obind (not_null class) (\<lambda>c.
     if flavor = CIL_CLASS then Ok [c]
     else
       obind (class_perms L s c) (\<lambda>perms.
       add_classes_from_perms fuel s (map Some perms))))"

end
