(* ===== verification/Cil_Policy_Decl.thy ===== *)
theory Cil_Policy_Decl
  imports Cil_Policydb
begin

text \<open>
  The declarations of \<open>src/cil_binary.c\<close>: what the compiler enters into the symbol tables of the policy database.

  A struct of libsepol that is being filled in when an operation fails is given up with the whole policy; only
  the structs that a failing function frees are followed.
\<close>

definition zero_symtab :: "('h, 'b) sepol \<Rightarrow> 'h policy_symtab" where
  "zero_symtab L = \<lparr>symtab_table = ht_create L, symtab_nprim = 0\<rparr>"

text \<open>Entering the datum \<open>d\<close> under the name of the declaration \<open>a\<close>; it is freed when the table refuses it.\<close>

definition declare_symbol ::
  "('h, 'b, 't, 'k) policy_lib \<Rightarrow> ('h, 'b, 'z) cil_store_scheme \<Rightarrow> policy_symbol
   \<Rightarrow> (((addr \<rightharpoonup> 'x) \<Rightarrow> addr \<rightharpoonup> 'x) \<Rightarrow> ('h, 'b, 't, 'k) policydb \<Rightarrow> ('h, 'b, 't, 'k) policydb)
   \<Rightarrow> addr \<Rightarrow> addr \<Rightarrow> bool \<Rightarrow> ('h, 'b, 't, 'k, 32 word) policy"
where
  "declare_symbol P s symbol upd a d counted =
     bind (lift (datum_key s (Some a))) (\<lambda>key.
     on_error (insert_symbol P symbol key d counted) (free_datum upd d))"

subsection \<open>Commons and classes\<close>

text \<open>The permissions below the node of a common and of a class: each gets the next value of its table.\<close>

fun common_perm_loop ::
  "nat \<Rightarrow> ('h, 'b) sepol \<Rightarrow> ('h, 'b, 'z) cil_store_scheme \<Rightarrow> addr \<Rightarrow> addr option \<Rightarrow> ('h, 'b, 't, 'k, unit) policy"
where
  "common_perm_loop 0 L s sepol_common cil_perm = no_fuel"
| "common_perm_loop (Suc fuel) L s sepol_common None = ret ()"
| "common_perm_loop (Suc fuel) L s sepol_common (Some node) =
     bind (lift (deref (nodes s) (Some node))) (\<lambda>nd.
     bind (new_datum d_perm_update \<lparr>perm_datum_value = 0\<rparr>) (\<lambda>sepol_perm.
     bind (lift (datum_key s (node_data nd))) (\<lambda>key.
     bind (rd d_common sepol_common) (\<lambda>com.
     let tab = common_datum_permissions com in
     case ht_insert L (symtab_table tab) key sepol_perm of
       (Some e, _) \<Rightarrow> bind (free_datum d_perm_update sepol_perm) (\<lambda>_. fail e)
     | (None, h) \<Rightarrow>
         bind (wr d_perm d_perm_update sepol_perm (perm_datum_value_update (\<lambda>_. symtab_nprim tab + 1))) (\<lambda>_.
         bind (wr d_common d_common_update sepol_common (common_datum_permissions_update
           (\<lambda>_. \<lparr>symtab_table = h, symtab_nprim = symtab_nprim tab + 1\<rparr>))) (\<lambda>_.
         common_perm_loop fuel L s sepol_common (node_next nd)))))))"

definition cil_common_to_policydb ::
  "nat \<Rightarrow> ('h, 'b) sepol \<Rightarrow> ('h, 'b, 't, 'k) policy_lib \<Rightarrow> ('h, 'b, 'z) cil_store_scheme \<Rightarrow> addr
   \<Rightarrow> ('h, 'b, 't, 'k, addr) policy"
where
  "cil_common_to_policydb fuel L P s cil_common =
     bind (lift (obind (NODE s (Some cil_common)) (\<lambda>n. deref (nodes s) (Some n)))) (\<lambda>node.
     bind (new_datum d_common_update
       \<lparr>common_datum_value = 0, common_datum_permissions = zero_symtab L\<rparr>) (\<lambda>sepol_common.
     bind (declare_symbol P s SYM_COMMONS d_common_update cil_common sepol_common True) (\<lambda>value.
     bind (wr d_common d_common_update sepol_common (common_datum_value_update (\<lambda>_. value))) (\<lambda>_.
     case symtab_init P of
       None \<Rightarrow> fail SEPOL_ERR
     | Some tab \<Rightarrow>
         bind (wr d_common d_common_update sepol_common (common_datum_permissions_update (\<lambda>_. tab))) (\<lambda>_.
         bind (common_perm_loop fuel L s sepol_common (node_cl_head node)) (\<lambda>_.
         ret sepol_common))))))"

fun class_perm_loop ::
  "nat \<Rightarrow> ('h, 'b) sepol \<Rightarrow> ('h, 'b, 'z) cil_store_scheme \<Rightarrow> addr \<Rightarrow> addr option \<Rightarrow> ('h, 'b, 't, 'k, unit) policy"
where
  "class_perm_loop 0 L s sepol_class cil_perm = no_fuel"
| "class_perm_loop (Suc fuel) L s sepol_class None = ret ()"
| "class_perm_loop (Suc fuel) L s sepol_class (Some node) =
     bind (lift (deref (nodes s) (Some node))) (\<lambda>nd.
     bind (new_datum d_perm_update \<lparr>perm_datum_value = 0\<rparr>) (\<lambda>sepol_perm.
     bind (lift (datum_key s (node_data nd))) (\<lambda>key.
     bind (rd d_class sepol_class) (\<lambda>class.
     let tab = class_datum_permissions class in
     case ht_insert L (symtab_table tab) key sepol_perm of
       (Some e, _) \<Rightarrow> bind (free_datum d_perm_update sepol_perm) (\<lambda>_. fail e)
     | (None, h) \<Rightarrow>
         bind (wr d_perm d_perm_update sepol_perm (perm_datum_value_update (\<lambda>_. symtab_nprim tab + 1))) (\<lambda>_.
         bind (wr d_class d_class_update sepol_class (class_datum_permissions_update
           (\<lambda>_. \<lparr>symtab_table = h, symtab_nprim = symtab_nprim tab + 1\<rparr>))) (\<lambda>_.
         class_perm_loop fuel L s sepol_class (node_next nd)))))))"

text \<open>The common of a class is entered with the first class that has it.\<close>

definition class_common_to_policydb ::
  "nat \<Rightarrow> ('h, 'b) sepol \<Rightarrow> ('h, 'b, 't, 'k) policy_lib \<Rightarrow> ('h, 'b, 'z) cil_store_scheme \<Rightarrow> addr \<Rightarrow> addr
   \<Rightarrow> ('h, 'b, 't, 'k, unit) policy"
where
  "class_common_to_policydb fuel L P s sepol_class cil_common =
     bind (lift (datum_key s (Some cil_common))) (\<lambda>key.
     bind (gets (\<lambda>p. ht_search L (symtab_table (p_symtab p SYM_COMMONS)) key)) (\<lambda>found.
     bind (case found of
             None \<Rightarrow> cil_common_to_policydb fuel L P s cil_common
           | Some sepol_common \<Rightarrow> ret sepol_common) (\<lambda>sepol_common.
     bind (rd d_common sepol_common) (\<lambda>com.
     wr d_class d_class_update sepol_class (\<lambda>class. class\<lparr>class_datum_comdatum := Some sepol_common,
       class_datum_comkey := Some key,
       class_datum_permissions := symtab_nprim_update
         (\<lambda>n. n + symtab_nprim (common_datum_permissions com)) (class_datum_permissions class)\<rparr>)))))"

definition class_to_policydb ::
  "nat \<Rightarrow> ('h, 'b) sepol \<Rightarrow> ('h, 'b, 't, 'k) policy_lib \<Rightarrow> ('h, 'b, 'z) cil_store_scheme \<Rightarrow> addr
   \<Rightarrow> ('h, 'b, 't, 'k, unit) policy"
where
  "class_to_policydb fuel L P s cil_class =
     bind (lift (deref (m_class s) (Some cil_class))) (\<lambda>class.
     bind (lift (obind (NODE s (Some cil_class)) (\<lambda>n. deref (nodes s) (Some n)))) (\<lambda>node.
     bind (new_datum d_class_update
       \<lparr>class_datum_value = 0, class_datum_permissions = zero_symtab L, class_datum_comdatum = None,
         class_datum_comkey = None, class_datum_constraints = [], class_datum_validatetrans = [],
         class_datum_default_user = 0, class_datum_default_role = 0, class_datum_default_type = 0,
         class_datum_default_range = 0\<rparr>) (\<lambda>sepol_class.
     bind (declare_symbol P s SYM_CLASSES d_class_update cil_class sepol_class True) (\<lambda>value.
     bind (wr d_class d_class_update sepol_class (class_datum_value_update (\<lambda>_. value))) (\<lambda>_.
     case symtab_init P of
       None \<Rightarrow> fail SEPOL_ERR
     | Some tab \<Rightarrow>
         bind (wr d_class d_class_update sepol_class (class_datum_permissions_update (\<lambda>_. tab))) (\<lambda>_.
         bind (case class_common class of
                 None \<Rightarrow> ret ()
               | Some cil_common \<Rightarrow> class_common_to_policydb fuel L P s sepol_class cil_common) (\<lambda>_.
         class_perm_loop fuel L s sepol_class (node_cl_head node))))))))"

definition cil_classorder_to_policydb ::
  "nat \<Rightarrow> ('h, 'b) sepol \<Rightarrow> ('h, 'b, 't, 'k) policy_lib \<Rightarrow> ('h, 'b, 'z) cil_store_scheme \<Rightarrow> ('h, 'b, 't, 'k, unit) policy"
where
  "cil_classorder_to_policydb fuel L P s =
     bind (lift (not_null (classorder s))) (for_each (class_to_policydb fuel L P s))"

subsection \<open>Roles\<close>

definition cil_role_to_policydb ::
  "('h, 'b) sepol \<Rightarrow> ('h, 'b, 't, 'k) policy_lib \<Rightarrow> ('h, 'b, 'z) cil_store_scheme \<Rightarrow> addr \<Rightarrow> ('h, 'b, 't, 'k, unit) policy"
where
  "cil_role_to_policydb L P s cil_role =
     bind (lift (fqn_of s (Some cil_role))) (\<lambda>fqn.
     if fqn = CIL_KEY_OBJECT_R then ret ()
     else
       bind (new_datum d_role_update
         \<lparr>role_datum_value = 0, role_datum_dominates = eb_init L, role_datum_types = eb_init L,
           role_datum_bounds = 0\<rparr>) (\<lambda>sepol_role.
       bind (declare_symbol P s SYM_ROLES d_role_update cil_role sepol_role True) (\<lambda>value.
       case eb_set_bit L (eb_init L) (unat (value - 1)) of
         None \<Rightarrow> bind (free_datum d_role_update sepol_role) (\<lambda>_. fail SEPOL_ERR)
       | Some b \<Rightarrow>
           wr d_role d_role_update sepol_role (\<lambda>x. x\<lparr>role_datum_dominates := b, role_datum_value := value\<rparr>))))"

definition cil_role_bounds_to_policydb ::
  "('h, 'b) sepol \<Rightarrow> ('h, 'b, 'z) cil_store_scheme \<Rightarrow> addr \<Rightarrow> ('h, 'b, 't, 'k, unit) policy"
where
  "cil_role_bounds_to_policydb L s cil_role =
     bind (lift (deref (m_role s) (Some cil_role))) (\<lambda>role.
     if role_bounds role = None then ret ()
     else
       bind (reading (cil_get_sepol_role_datum L s (Some cil_role))) (\<lambda>sepol_role.
       bind (reading (cil_get_sepol_role_datum L s (role_bounds role))) (\<lambda>sepol_parent.
       bind (reading (\<lambda>p. role_value_of p sepol_parent)) (\<lambda>value.
       wr d_role d_role_update sepol_role (role_datum_bounds_update (\<lambda>_. value))))))"

definition cil_roletype_to_policydb ::
  "('h, 'b) sepol \<Rightarrow> ('h, 'b, 'z) cil_store_scheme \<Rightarrow> addr \<Rightarrow> ('h, 'b, 't, 'k, unit) policy"
where
  "cil_roletype_to_policydb L s cil_role =
     bind (lift (deref (m_role s) (Some cil_role))) (\<lambda>role.
     case role_types role of
       None \<Rightarrow> ret ()
     | Some types \<Rightarrow>
         bind (reading (cil_get_sepol_role_datum L s (Some cil_role))) (\<lambda>sepol_role.
         for_each (\<lambda>i.
           bind (lift (array_get (val_to_type s) i)) (\<lambda>type.
           bind (reading (cil_get_sepol_type_datum L s type)) (\<lambda>sepol_type.
           bind (reading (\<lambda>p. type_value_of p sepol_type)) (\<lambda>value.
           bind (rd d_role sepol_role) (\<lambda>x.
           bind (lift (eb_set L (role_datum_types x) (unat (value - 1)))) (\<lambda>b.
           wr d_role d_role_update sepol_role (role_datum_types_update (\<lambda>_. b))))))))
         (set_bits L types)))"

subsection \<open>Types\<close>

definition cil_type_to_policydb ::
  "('h, 'b, 't, 'k) policy_lib \<Rightarrow> policy_consts \<Rightarrow> ('h, 'b, 'z) cil_store_scheme \<Rightarrow> addr \<Rightarrow> ('h, 'b, 't, 'k, unit) policy"
where
  "cil_type_to_policydb P C s cil_type =
     bind (new_datum d_type_update
       \<lparr>type_datum_value = 0, type_datum_primary = 0, type_datum_flavor = type_type C, type_datum_bounds = 0\<rparr>) (\<lambda>sepol_type.
     bind (declare_symbol P s SYM_TYPES d_type_update cil_type sepol_type True) (\<lambda>value.
     wr d_type d_type_update sepol_type (\<lambda>x. x\<lparr>type_datum_value := value, type_datum_primary := 1\<rparr>)))"

definition cil_type_bounds_to_policydb ::
  "('h, 'b) sepol \<Rightarrow> ('h, 'b, 'z) cil_store_scheme \<Rightarrow> addr \<Rightarrow> ('h, 'b, 't, 'k, unit) policy"
where
  "cil_type_bounds_to_policydb L s cil_type =
     bind (lift (deref (m_type s) (Some cil_type))) (\<lambda>type.
     if type_bounds type = None then ret ()
     else
       bind (reading (cil_get_sepol_type_datum L s (Some cil_type))) (\<lambda>sepol_type.
       bind (reading (cil_get_sepol_type_datum L s (type_bounds type))) (\<lambda>sepol_parent.
       bind (reading (\<lambda>p. type_value_of p sepol_parent)) (\<lambda>value.
       wr d_type d_type_update sepol_type (type_datum_bounds_update (\<lambda>_. value))))))"

definition cil_typealias_to_policydb ::
  "('h, 'b) sepol \<Rightarrow> ('h, 'b, 't, 'k) policy_lib \<Rightarrow> policy_consts \<Rightarrow> ('h, 'b, 'z) cil_store_scheme \<Rightarrow> addr
   \<Rightarrow> ('h, 'b, 't, 'k, unit) policy"
where
  "cil_typealias_to_policydb L P C s cil_alias =
     bind (lift (deref (m_alias s) (Some cil_alias))) (\<lambda>alias'.
     bind (reading (cil_get_sepol_type_datum L s (alias_actual alias'))) (\<lambda>sepol_type.
     bind (new_datum d_type_update
       \<lparr>type_datum_value = 0, type_datum_primary = 0, type_datum_flavor = type_type C, type_datum_bounds = 0\<rparr>) (\<lambda>sepol_alias.
     bind (declare_symbol P s SYM_TYPES d_type_update cil_alias sepol_alias False) (\<lambda>_.
     bind (reading (\<lambda>p. type_value_of p sepol_type)) (\<lambda>value.
     wr d_type d_type_update sepol_alias (\<lambda>x. x\<lparr>type_datum_value := value, type_datum_primary := 0\<rparr>))))))"

text \<open>When the bit cannot be set the datum of the type is freed, and the return code is that of the search
  before: success.\<close>

definition cil_typepermissive_to_policydb ::
  "('h, 'b) sepol \<Rightarrow> ('h, 'b, 'z) cil_store_scheme \<Rightarrow> addr \<Rightarrow> ('h, 'b, 't, 'k, unit) policy"
where
  "cil_typepermissive_to_policydb L s cil_typeperm =
     bind (lift (deref (m_typepermissive s) (Some cil_typeperm))) (\<lambda>typeperm.
     bind (reading (cil_get_sepol_type_datum L s (typepermissive_type typeperm))) (\<lambda>sepol_type.
     bind (reading (\<lambda>p. type_value_of p sepol_type)) (\<lambda>value.
     bind (gets (\<lambda>p. eb_set_bit L (p_permissive_map p) (unat value))) (\<lambda>b.
     case b of
       None \<Rightarrow> free_datum d_type_update sepol_type
     | Some b \<Rightarrow> modify (p_permissive_map_update (\<lambda>_. b))))))"

definition cil_typeattribute_to_policydb ::
  "('h, 'b, 't, 'k) policy_lib \<Rightarrow> policy_consts \<Rightarrow> ('h, 'b, 'z) cil_store_scheme \<Rightarrow> addr \<Rightarrow> ('h, 'b, 't, 'k, unit) policy"
where
  "cil_typeattribute_to_policydb P C s cil_attr =
     bind (lift (deref (m_typeattribute s) (Some cil_attr))) (\<lambda>attr.
     if \<not> typeattribute_used attr then ret ()
     else
       bind (new_datum d_type_update
         \<lparr>type_datum_value = 0, type_datum_primary = 0, type_datum_flavor = type_attrib C, type_datum_bounds = 0\<rparr>) (\<lambda>sepol_attr.
       bind (declare_symbol P s SYM_TYPES d_type_update cil_attr sepol_attr True) (\<lambda>value.
       wr d_type d_type_update sepol_attr (\<lambda>x. x\<lparr>type_datum_value := value, type_datum_primary := 1\<rparr>))))"

definition cil_typeattr_bitmap_init :: "('h, 'b) sepol \<Rightarrow> ('h, 'b, 't, 'k, unit) policy" where
  "cil_typeattr_bitmap_init L =
     bind (modify (p_type_attr_map_update (\<lambda>_. Some []))) (\<lambda>_.
     bind (gets (\<lambda>p. unat (symtab_nprim (p_symtab p SYM_TYPES)))) (\<lambda>n.
     for_each (\<lambda>i.
       bind (lift (eb_set L (eb_init L) i)) (\<lambda>b.
       modify (p_type_attr_map_update (map_option (\<lambda>maps. maps @ [b])))))
     [0..<n]))"

text \<open>The attribute is added to the map of each of its types; a bit that cannot be set is passed over.\<close>

definition cil_typeattribute_to_bitmap ::
  "('h, 'b) sepol \<Rightarrow> ('h, 'b, 'z) cil_store_scheme \<Rightarrow> addr \<Rightarrow> ('h, 'b, 't, 'k, unit) policy"
where
  "cil_typeattribute_to_bitmap L s cil_attr =
     bind (lift (deref (m_typeattribute s) (Some cil_attr))) (\<lambda>attr.
     if \<not> typeattribute_used attr then ret ()
     else
       bind (gets p_type_attr_map) (\<lambda>maps.
       bind (if maps = None then cil_typeattr_bitmap_init L else ret ()) (\<lambda>_.
       bind (reading (cil_get_sepol_type_datum L s (Some cil_attr))) (\<lambda>sepol_attr.
       bind (reading (\<lambda>p. type_value_of p sepol_attr)) (\<lambda>value.
       bind (lift (not_null (typeattribute_types attr))) (\<lambda>types.
       for_each (\<lambda>i.
         bind (lift (array_get (val_to_type s) i)) (\<lambda>type.
         bind (reading (cil_get_sepol_type_datum L s type)) (\<lambda>sepol_type.
         bind (reading (\<lambda>p. type_value_of p sepol_type)) (\<lambda>v.
         bind (gets p_type_attr_map) (\<lambda>maps.
         bind (lift (not_null maps)) (\<lambda>maps.
         let k = unat (v - 1) in
         if length maps \<le> k then fault
         else
           case eb_set_bit L (maps ! k) (unat (value - 1)) of
             None \<Rightarrow> ret ()
           | Some b \<Rightarrow> modify (p_type_attr_map_update (\<lambda>_. Some (maps[k := b])))))))))
       (set_bits L types)))))))"

subsection \<open>Capabilities and booleans\<close>

definition cil_policycap_to_policydb ::
  "('h, 'b) sepol \<Rightarrow> ('h, 'b, 'z) cil_store_scheme \<Rightarrow> addr \<Rightarrow> ('h, 'b, 't, 'k, unit) policy"
where
  "cil_policycap_to_policydb L s cil_polcap =
     bind (lift (datum_key s (Some cil_polcap))) (\<lambda>fqn.
     let capnum = polcap_getnum L fqn in
     if capnum = -1 then fail SEPOL_ERR
     else
       bind (gets p_policycaps) (\<lambda>caps.
       bind (lift (eb_set L caps (unsigned_int capnum))) (\<lambda>b.
       modify (p_policycaps_update (\<lambda>_. b)))))"

definition cil_bool_to_policydb ::
  "('h, 'b, 't, 'k) policy_lib \<Rightarrow> ('h, 'b, 'z) cil_store_scheme \<Rightarrow> addr \<Rightarrow> ('h, 'b, 't, 'k, unit) policy"
where
  "cil_bool_to_policydb P s cil_bool =
     bind (lift (deref (m_bool s) (Some cil_bool))) (\<lambda>boolean.
     bind (new_datum d_bool_update \<lparr>bool_datum_value = 0, bool_datum_state = False\<rparr>) (\<lambda>sepol_bool.
     bind (declare_symbol P s SYM_BOOLS d_bool_update cil_bool sepol_bool True) (\<lambda>value.
     wr d_bool d_bool_update sepol_bool (\<lambda>x. x\<lparr>bool_datum_value := value, bool_datum_state := bool_value boolean\<rparr>))))"

subsection \<open>Users\<close>

definition zero_level :: "('h, 'b) sepol \<Rightarrow> 'b mls_level" where
  "zero_level L = \<lparr>mls_sens = 0, mls_cat = eb_init L\<rparr>"

definition cil_user_to_policydb ::
  "('h, 'b) sepol \<Rightarrow> ('h, 'b, 't, 'k) policy_lib \<Rightarrow> ('h, 'b, 'z) cil_store_scheme \<Rightarrow> addr \<Rightarrow> ('h, 'b, 't, 'k, unit) policy"
where
  "cil_user_to_policydb L P s cil_user =
     bind (new_datum d_user_update
       \<lparr>user_datum_value = 0, user_datum_roles = eb_init L, user_datum_bounds = 0,
         user_datum_exp_dfltlevel = zero_level L, user_datum_exp_range = (zero_level L, zero_level L)\<rparr>) (\<lambda>sepol_user.
     bind (declare_symbol P s SYM_USERS d_user_update cil_user sepol_user True) (\<lambda>value.
     wr d_user d_user_update sepol_user (user_datum_value_update (\<lambda>_. value))))"

definition cil_user_bounds_to_policydb ::
  "('h, 'b) sepol \<Rightarrow> ('h, 'b, 'z) cil_store_scheme \<Rightarrow> addr \<Rightarrow> ('h, 'b, 't, 'k, unit) policy"
where
  "cil_user_bounds_to_policydb L s cil_user =
     bind (lift (deref (m_user s) (Some cil_user))) (\<lambda>user.
     if user_bounds user = None then ret ()
     else
       bind (reading (cil_get_sepol_user_datum L s (Some cil_user))) (\<lambda>sepol_user.
       bind (reading (cil_get_sepol_user_datum L s (user_bounds user))) (\<lambda>sepol_parent.
       bind (reading (\<lambda>p. user_value_of p sepol_parent)) (\<lambda>value.
       wr d_user d_user_update sepol_user (user_datum_bounds_update (\<lambda>_. value))))))"

text \<open>A bit that cannot be set ends the loop, and the return code is that of the search before: success.\<close>

fun userrole_loop ::
  "('h, 'b) sepol \<Rightarrow> ('h, 'b, 'z) cil_store_scheme \<Rightarrow> addr \<Rightarrow> nat list \<Rightarrow> ('h, 'b, 't, 'k, unit) policy"
where
  "userrole_loop L s sepol_user [] = ret ()"
| "userrole_loop L s sepol_user (i # rest) =
     bind (lift (array_get (val_to_role s) i)) (\<lambda>role.
     bind (reading (cil_get_sepol_role_datum L s role)) (\<lambda>sepol_role.
     bind (reading (\<lambda>p. role_value_of p sepol_role)) (\<lambda>value.
     if value = 1 then userrole_loop L s sepol_user rest
     else
       bind (rd d_user sepol_user) (\<lambda>x.
       case eb_set_bit L (user_datum_roles x) (unat (value - 1)) of
         None \<Rightarrow> ret ()
       | Some b \<Rightarrow>
           bind (wr d_user d_user_update sepol_user (user_datum_roles_update (\<lambda>_. b))) (\<lambda>_.
           userrole_loop L s sepol_user rest)))))"

definition cil_userrole_to_policydb ::
  "('h, 'b) sepol \<Rightarrow> ('h, 'b, 't, 'k) policy_lib \<Rightarrow> ('h, 'b, 'z) cil_store_scheme \<Rightarrow> addr \<Rightarrow> ('h, 'b, 't, 'k, unit) policy"
where
  "cil_userrole_to_policydb L P s userrole =
     bind (lift (deref (m_userrole s) (Some userrole))) (\<lambda>ur.
     bind (reading (\<lambda>p. or_fault (cil_get_sepol_user_datum L s (userrole_user ur) p))) (\<lambda>sepol_user.
     bind (lift (cil_expand_role L P s (userrole_role ur))) (\<lambda>role_bitmap.
     userrole_loop L s sepol_user (set_bits L role_bitmap))))"

subsection \<open>Categories and sensitivities\<close>

definition cil_catorder_to_policydb ::
  "('h, 'b, 't, 'k) policy_lib \<Rightarrow> ('h, 'b, 'z) cil_store_scheme \<Rightarrow> ('h, 'b, 't, 'k, unit) policy"
where
  "cil_catorder_to_policydb P s =
     bind (lift (not_null (catorder s))) (for_each (\<lambda>cil_cat.
       bind (new_datum d_cat_update \<lparr>cat_datum_value = 0, cat_datum_isalias = False\<rparr>) (\<lambda>sepol_cat.
       bind (declare_symbol P s SYM_CATS d_cat_update cil_cat sepol_cat True) (\<lambda>value.
       wr d_cat d_cat_update sepol_cat (cat_datum_value_update (\<lambda>_. value))))))"

text \<open>When the table refuses the alias its key is freed twice.\<close>

definition cil_catalias_to_policydb ::
  "('h, 'b) sepol \<Rightarrow> ('h, 'b, 't, 'k) policy_lib \<Rightarrow> ('h, 'b, 'z) cil_store_scheme \<Rightarrow> addr \<Rightarrow> ('h, 'b, 't, 'k, unit) policy"
where
  "cil_catalias_to_policydb L P s cil_alias =
     bind (lift (deref (m_alias s) (Some cil_alias))) (\<lambda>alias'.
     bind (reading (cil_get_sepol_cat_datum L s (alias_actual alias'))) (\<lambda>sepol_cat.
     bind (new_datum d_cat_update \<lparr>cat_datum_value = 0, cat_datum_isalias = False\<rparr>) (\<lambda>sepol_alias.
     bind (lift (datum_key s (Some cil_alias))) (\<lambda>key.
     bind (on_error (insert_symbol P SYM_CATS key sepol_alias False) fault) (\<lambda>_.
     bind (reading (\<lambda>p. cat_value_of p sepol_cat)) (\<lambda>value.
     wr d_cat d_cat_update sepol_alias (\<lambda>x. x\<lparr>cat_datum_value := value, cat_datum_isalias := True\<rparr>)))))))"

definition cil_sensitivityorder_to_policydb ::
  "('h, 'b) sepol \<Rightarrow> ('h, 'b, 't, 'k) policy_lib \<Rightarrow> ('h, 'b, 'z) cil_store_scheme \<Rightarrow> ('h, 'b, 't, 'k, unit) policy"
where
  "cil_sensitivityorder_to_policydb L P s =
     bind (lift (not_null (sensitivityorder s))) (for_each (\<lambda>cil_sens.
       bind (new_datum d_level_update
         \<lparr>level_datum_level = None, level_datum_defined = False, level_datum_isalias = False\<rparr>) (\<lambda>sepol_level.
       bind (declare_symbol P s SYM_LEVELS d_level_update cil_sens sepol_level True) (\<lambda>value.
       wr d_level d_level_update sepol_level (level_datum_level_update
         (\<lambda>_. Some \<lparr>mls_sens = value, mls_cat = eb_init L\<rparr>))))))"

text \<open>A failure after the sensitivity has been found frees the datum of the sensitivity, and not that of the alias.\<close>

definition cil_sensalias_to_policydb ::
  "('h, 'b) sepol \<Rightarrow> ('h, 'b, 't, 'k) policy_lib \<Rightarrow> ('h, 'b, 'z) cil_store_scheme \<Rightarrow> addr \<Rightarrow> ('h, 'b, 't, 'k, unit) policy"
where
  "cil_sensalias_to_policydb L P s cil_alias =
     bind (lift (deref (m_alias s) (Some cil_alias))) (\<lambda>alias'.
     bind (reading (cil_get_sepol_level_datum L s (alias_actual alias'))) (\<lambda>sepol_level.
     bind (new_datum d_level_update
       \<lparr>level_datum_level = None, level_datum_defined = False, level_datum_isalias = False\<rparr>) (\<lambda>sepol_alias.
     bind (lift (datum_key s (Some cil_alias))) (\<lambda>key.
     bind (on_error (insert_symbol P SYM_LEVELS key sepol_alias False) (free_datum d_level_update sepol_level)) (\<lambda>_.
     bind (rd d_level sepol_level) (\<lambda>lvl.
     bind (lift (not_null (level_datum_level lvl))) (\<lambda>level.
     case mls_level_cpy P level of
       None \<Rightarrow> bind (free_datum d_level_update sepol_level) (\<lambda>_. fail SEPOL_ERR)
     | Some copy \<Rightarrow>
         wr d_level d_level_update sepol_alias (\<lambda>x. x\<lparr>level_datum_level := Some copy,
           level_datum_defined := True, level_datum_isalias := True\<rparr>))))))))"

subsection \<open>The arrays from values to names\<close>

text \<open>A value that is not one of its table is an error (\<open>-EINVAL\<close>, which its callers treat as any other).\<close>

definition val_slot :: "policy_symbol \<Rightarrow> 32 word \<Rightarrow> ('h, 'b, 't, 'k) policydb \<Rightarrow> nat outcome" where
  "val_slot symbol value p =
     (if value < 1 \<or> symtab_nprim (p_symtab p symbol) < value then Fail SEPOL_ERR else Ok (unat (value - 1)))"

definition put_name :: "policy_symbol \<Rightarrow> nat \<Rightarrow> string \<Rightarrow> ('h, 'b, 't, 'k, unit) policy" where
  "put_name symbol i key = modify (\<lambda>p. p\<lparr>val_to_name := (val_to_name p)
     (symbol := map_option (\<lambda>names. names[i := Some key]) (val_to_name p symbol))\<rparr>)"

definition put_struct :: "policy_symbol \<Rightarrow> nat \<Rightarrow> addr \<Rightarrow> ('h, 'b, 't, 'k, unit) policy" where
  "put_struct symbol i datum = modify (\<lambda>p. p\<lparr>val_to_struct := (val_to_struct p)
     (symbol := map_option (\<lambda>structs. structs[i := Some datum]) (val_to_struct p symbol))\<rparr>)"

definition cil_common_val_array_insert :: "string \<Rightarrow> addr \<Rightarrow> ('h, 'b, 't, 'k, unit) policy" where
  "cil_common_val_array_insert key datum =
     bind (rd d_common datum) (\<lambda>d.
     bind (reading (val_slot SYM_COMMONS (common_datum_value d))) (\<lambda>i.
     put_name SYM_COMMONS i key))"

definition cil_class_val_array_insert :: "string \<Rightarrow> addr \<Rightarrow> ('h, 'b, 't, 'k, unit) policy" where
  "cil_class_val_array_insert key datum =
     bind (rd d_class datum) (\<lambda>d.
     bind (reading (val_slot SYM_CLASSES (class_datum_value d))) (\<lambda>i.
     bind (put_name SYM_CLASSES i key) (\<lambda>_. put_struct SYM_CLASSES i datum)))"

definition cil_role_val_array_insert :: "string \<Rightarrow> addr \<Rightarrow> ('h, 'b, 't, 'k, unit) policy" where
  "cil_role_val_array_insert key datum =
     bind (rd d_role datum) (\<lambda>d.
     bind (reading (val_slot SYM_ROLES (role_datum_value d))) (\<lambda>i.
     bind (put_name SYM_ROLES i key) (\<lambda>_. put_struct SYM_ROLES i datum)))"

definition cil_type_val_array_insert :: "string \<Rightarrow> addr \<Rightarrow> ('h, 'b, 't, 'k, unit) policy" where
  "cil_type_val_array_insert key datum =
     bind (rd d_type datum) (\<lambda>d.
     bind (reading (val_slot SYM_TYPES (type_datum_value d))) (\<lambda>i.
     bind (put_name SYM_TYPES i key) (\<lambda>_. put_struct SYM_TYPES i datum)))"

definition cil_user_val_array_insert :: "string \<Rightarrow> addr \<Rightarrow> ('h, 'b, 't, 'k, unit) policy" where
  "cil_user_val_array_insert key datum =
     bind (rd d_user datum) (\<lambda>d.
     bind (reading (val_slot SYM_USERS (user_datum_value d))) (\<lambda>i.
     bind (put_name SYM_USERS i key) (\<lambda>_. put_struct SYM_USERS i datum)))"

definition cil_bool_val_array_insert :: "string \<Rightarrow> addr \<Rightarrow> ('h, 'b, 't, 'k, unit) policy" where
  "cil_bool_val_array_insert key datum =
     bind (rd d_bool datum) (\<lambda>d.
     bind (reading (val_slot SYM_BOOLS (bool_datum_value d))) (\<lambda>i.
     bind (put_name SYM_BOOLS i key) (\<lambda>_. put_struct SYM_BOOLS i datum)))"

definition cil_level_val_array_insert :: "string \<Rightarrow> addr \<Rightarrow> ('h, 'b, 't, 'k, unit) policy" where
  "cil_level_val_array_insert key datum =
     bind (rd d_level datum) (\<lambda>d.
     bind (lift (not_null (level_datum_level d))) (\<lambda>level.
     bind (reading (val_slot SYM_LEVELS (mls_sens level))) (\<lambda>i.
     put_name SYM_LEVELS i key)))"

definition cil_cat_val_array_insert :: "string \<Rightarrow> addr \<Rightarrow> ('h, 'b, 't, 'k, unit) policy" where
  "cil_cat_val_array_insert key datum =
     bind (rd d_cat datum) (\<lambda>d.
     bind (reading (val_slot SYM_CATS (cat_datum_value d))) (\<lambda>i.
     put_name SYM_CATS i key))"

text \<open>The arrays of a table, before they are filled, and the walk over its entries.\<close>

definition new_arrays :: "policy_symbol \<Rightarrow> ('h, 'b, 't, 'k, unit) policy" where
  "new_arrays symbol = modify (\<lambda>p.
     let n = unat (symtab_nprim (p_symtab p symbol)) in
     p\<lparr>val_to_name := (val_to_name p)(symbol := Some (replicate n None)),
       val_to_struct := (val_to_struct p)(symbol := Some (replicate n None))\<rparr>)"

definition fill_arrays ::
  "('h, 'b) sepol \<Rightarrow> policy_symbol \<Rightarrow> (string \<Rightarrow> addr \<Rightarrow> ('h, 'b, 't, 'k, unit) policy) \<Rightarrow> ('h, 'b, 't, 'k, unit) policy"
where
  "fill_arrays L symbol put =
     bind (new_arrays symbol) (\<lambda>_.
     bind (gets (\<lambda>p. ht_entries L (symtab_table (p_symtab p symbol)))) (for_each (\<lambda>(key, datum). put key datum)))"

definition cil_policydb_val_arrays_create :: "('h, 'b) sepol \<Rightarrow> ('h, 'b, 't, 'k, unit) policy" where
  "cil_policydb_val_arrays_create L =
     bind (fill_arrays L SYM_COMMONS cil_common_val_array_insert) (\<lambda>_.
     bind (fill_arrays L SYM_CLASSES cil_class_val_array_insert) (\<lambda>_.
     bind (fill_arrays L SYM_ROLES cil_role_val_array_insert) (\<lambda>_.
     bind (fill_arrays L SYM_TYPES cil_type_val_array_insert) (\<lambda>_.
     bind (fill_arrays L SYM_USERS cil_user_val_array_insert) (\<lambda>_.
     bind (fill_arrays L SYM_BOOLS cil_bool_val_array_insert) (\<lambda>_.
     bind (fill_arrays L SYM_LEVELS cil_level_val_array_insert) (\<lambda>_.
     fill_arrays L SYM_CATS cil_cat_val_array_insert)))))))"

end
