(* ===== verification/Cil_Policy_Rules.thy ===== *)
theory Cil_Policy_Rules
  imports Cil_Policydb
begin

unbundle bit_operations_syntax

text \<open>
  The rules of \<open>src/cil_binary.c\<close>: access vector rules, neverallow rules, type rules, transitions by name, roles
  and conditional blocks, as the compiler enters them into the policy database.

  \<open>fuel\<close> bounds the nesting of permission sets and class maps, and the length of chains of nodes.
\<close>

subsection \<open>Loops over expanded types, roles and classes\<close>

definition each_type ::
  "('h, 'b) sepol \<Rightarrow> ('h, 'b, 'z) cil_store_scheme \<Rightarrow> 'b \<Rightarrow> (addr \<Rightarrow> ('h, 'b, 't, 'k, unit) policy)
   \<Rightarrow> ('h, 'b, 't, 'k, unit) policy"
where
  "each_type L s bitmap body =
     for_each (\<lambda>i.
       bind (lift (array_get (val_to_type s) i)) (\<lambda>type.
       bind (reading (cil_get_sepol_type_datum L s type)) body))
     (set_bits L bitmap)"

definition each_role ::
  "('h, 'b) sepol \<Rightarrow> ('h, 'b, 'z) cil_store_scheme \<Rightarrow> 'b \<Rightarrow> (addr \<Rightarrow> ('h, 'b, 't, 'k, unit) policy)
   \<Rightarrow> ('h, 'b, 't, 'k, unit) policy"
where
  "each_role L s bitmap body =
     for_each (\<lambda>i.
       bind (lift (array_get (val_to_role s) i)) (\<lambda>role.
       bind (reading (cil_get_sepol_role_datum L s role)) body))
     (set_bits L bitmap)"

definition each_class ::
  "('h, 'b) sepol \<Rightarrow> ('h, 'b, 'z) cil_store_scheme \<Rightarrow> addr list \<Rightarrow> (addr \<Rightarrow> ('h, 'b, 't, 'k, unit) policy)
   \<Rightarrow> ('h, 'b, 't, 'k, unit) policy"
where
  "each_class L s class_list body =
     for_each (\<lambda>c. bind (reading (cil_get_sepol_class_datum L s (Some c))) body) class_list"

subsection \<open>Access vector tables\<close>

definition avtab_key_of :: "32 word \<Rightarrow> 32 word \<Rightarrow> 32 word \<Rightarrow> 16 word \<Rightarrow> avtab_key" where
  "avtab_key_of src tgt obj specified =
     \<lparr>key_source_type = ucast src, key_target_type = ucast tgt, key_target_class = ucast obj, key_specified = specified\<rparr>"

definition avtab_node :: "('h, 'b, 't, 'k) policy_lib \<Rightarrow> 't \<Rightarrow> addr \<Rightarrow> avtab_node outcome" where
  "avtab_node P t n = deref (avtab_node_at P t) (Some n)"

definition insert_te :: "('h, 'b, 't, 'k) policy_lib \<Rightarrow> avtab_key \<Rightarrow> 32 word \<Rightarrow> ('h, 'b, 't, 'k, unit) policy" where
  "insert_te P key data = (\<lambda>p.
     case avtab_insert P (te_avtab p) key data of (rc, t) \<Rightarrow> (return_code rc (), p\<lparr>te_avtab := t\<rparr>))"

definition cil_cond_insert_rule ::
  "('h, 'b, 't, 'k) policy_lib \<Rightarrow> avtab_key \<Rightarrow> 32 word \<Rightarrow> addr \<Rightarrow> cil_flavor \<Rightarrow> ('h, 'b, 't, 'k, unit) policy"
where
  "cil_cond_insert_rule P key data cond_node cond_flavor =
     bind (gets te_cond_avtab) (\<lambda>t.
     case avtab_insert_nonunique P t key data of
       None \<Rightarrow> fail SEPOL_ERR
     | Some (n, t) \<Rightarrow>
         bind (lift (avtab_node P t n)) (\<lambda>nd.
         bind (modify (te_cond_avtab_update (\<lambda>_. avtab_set_node P t n (nd\<lparr>avtab_node_parse_context := True\<rparr>)))) (\<lambda>_.
         wr d_cond d_cond_update cond_node
           (if cond_flavor = CIL_CONDTRUE then cond_node_true_list_update (\<lambda>ns. n # ns)
            else cond_node_false_list_update (\<lambda>ns. n # ns)))))"

text \<open>The datum that is found is that of a node; the result is the node's address.\<close>

fun cil_cond_av_list_search ::
  "('h, 'b, 't, 'k) policy_lib \<Rightarrow> 't \<Rightarrow> avtab_key \<Rightarrow> addr list \<Rightarrow> addr option outcome"
where
  "cil_cond_av_list_search P t key [] = Ok None"
| "cil_cond_av_list_search P t key (n # ns) =
     obind (avtab_node P t n) (\<lambda>cur.
     let k = avtab_node_key cur in
     if key_source_type k = key_source_type key \<and> key_target_type k = key_target_type key \<and>
        key_target_class k = key_target_class key \<and> key_specified k AND key_specified key \<noteq> 0
     then Ok (Some n)
     else cil_cond_av_list_search P t key ns)"

definition type_rule_specified :: "policy_consts \<Rightarrow> nat \<Rightarrow> 16 word option" where
  "type_rule_specified C kind =
     (if kind = CIL_TYPE_TRANSITION then Some (avtab_transition C)
      else if kind = CIL_TYPE_CHANGE then Some (avtab_change C)
      else if kind = CIL_TYPE_MEMBER then Some (avtab_member C)
      else None)"

text \<open>Whether a type rule of a conditional block is added: not when its own branch has it already; a different
  result is a conflict unless the other branch has a rule for the key.\<close>

definition cond_type_rule_new ::
  "('h, 'b, 't, 'k) policy_lib \<Rightarrow> avtab_key \<Rightarrow> 32 word \<Rightarrow> addr \<Rightarrow> cil_flavor \<Rightarrow> ('h, 'b, 't, 'k, bool) policy"
where
  "cond_type_rule_new P key res cond_node cond_flavor =
     bind (gets te_cond_avtab) (\<lambda>t.
     case avtab_search_node P t key of
       None \<Rightarrow> ret True
     | Some n \<Rightarrow>
         bind (lift (avtab_node P t n)) (\<lambda>existing.
         bind (rd d_cond cond_node) (\<lambda>c.
         let this_list = (if cond_flavor = CIL_CONDTRUE then cond_node_true_list c else cond_node_false_list c);
             other_list = (if cond_flavor = CIL_CONDTRUE then cond_node_false_list c else cond_node_true_list c) in
         bind (lift (cil_cond_av_list_search P t key other_list)) (\<lambda>other.
         if other \<noteq> None then ret True
         else if avtab_node_data existing \<noteq> res then fail SEPOL_ERR
         else bind (lift (cil_cond_av_list_search P t key this_list)) (\<lambda>this. ret (this = None))))))"

definition cil_insert_type_rule ::
  "('h, 'b, 't, 'k) policy_lib \<Rightarrow> policy_consts \<Rightarrow> nat \<Rightarrow> 32 word \<Rightarrow> 32 word \<Rightarrow> 32 word \<Rightarrow> 32 word
   \<Rightarrow> addr option \<Rightarrow> cil_flavor \<Rightarrow> ('h, 'b, 't, 'k, unit) policy"
where
  "cil_insert_type_rule P C kind src tgt obj res cond_node cond_flavor =
     (case type_rule_specified C kind of
       None \<Rightarrow> fail SEPOL_ERR
     | Some specified \<Rightarrow>
         let key = avtab_key_of src tgt obj specified in
         bind (gets te_avtab) (\<lambda>t.
         case avtab_search_node P t key of
           Some n \<Rightarrow>
             bind (lift (avtab_node P t n)) (\<lambda>existing.
             if avtab_node_data existing \<noteq> res then fail SEPOL_ERR else ret ())
         | None \<Rightarrow>
             (case cond_node of
               None \<Rightarrow> insert_te P key res
             | Some c \<Rightarrow>
                 bind (cond_type_rule_new P key res c cond_flavor) (\<lambda>new.
                 if new then cil_cond_insert_rule P key res c cond_flavor else ret ()))))"

subsection \<open>Type rules and transitions by name\<close>

text \<open>A failure before the list of classes exists makes the cleanup free an uninitialised pointer.\<close>

definition cil_type_rule_to_avtab ::
  "nat \<Rightarrow> ('h, 'b) sepol \<Rightarrow> ('h, 'b, 't, 'k) policy_lib \<Rightarrow> policy_consts \<Rightarrow> ('h, 'b, 'z) cil_store_scheme
   \<Rightarrow> cil_type_rule \<Rightarrow> addr option \<Rightarrow> cil_flavor \<Rightarrow> ('h, 'b, 't, 'k, unit) policy"
where
  "cil_type_rule_to_avtab fuel L P C s rule cond_node cond_flavor =
     bind (lift (or_fault (cil_expand_type L P s (type_rule_src rule)))) (\<lambda>src_bitmap.
     bind (lift (or_fault (cil_expand_type L P s (type_rule_tgt rule)))) (\<lambda>tgt_bitmap.
     bind (lift (cil_expand_class fuel L s (type_rule_obj rule))) (\<lambda>class_list.
     bind (reading (cil_get_sepol_type_datum L s (type_rule_result rule))) (\<lambda>sepol_result.
     each_type L s src_bitmap (\<lambda>sepol_src.
     each_type L s tgt_bitmap (\<lambda>sepol_tgt.
     each_class L s class_list (\<lambda>sepol_obj.
     bind (reading (\<lambda>p. type_value_of p sepol_src)) (\<lambda>src.
     bind (reading (\<lambda>p. type_value_of p sepol_tgt)) (\<lambda>tgt.
     bind (reading (\<lambda>p. class_value_of p sepol_obj)) (\<lambda>obj.
     bind (reading (\<lambda>p. type_value_of p sepol_result)) (\<lambda>res.
     cil_insert_type_rule P C (type_rule_rule_kind rule) src tgt obj res cond_node cond_flavor)))))))))))"

definition cil_type_rule_to_policydb ::
  "nat \<Rightarrow> ('h, 'b) sepol \<Rightarrow> ('h, 'b, 't, 'k) policy_lib \<Rightarrow> policy_consts \<Rightarrow> ('h, 'b, 'z) cil_store_scheme \<Rightarrow> addr
   \<Rightarrow> ('h, 'b, 't, 'k, unit) policy"
where
  "cil_type_rule_to_policydb fuel L P C s cil_rule =
     bind (lift (deref (m_type_rule s) (Some cil_rule))) (\<lambda>rule.
     cil_type_rule_to_avtab fuel L P C s rule None 0)"

text \<open>Entering a transition into its table and, when it is new, into the list of the policy. A transition that
  exists already must have the same result. Any other error of the table adds the transition and is forgotten.\<close>

definition add_transition ::
  "('h, 'b, 't, 'k) policy_lib \<Rightarrow> (('h, 'b, 't, 'k) policydb \<Rightarrow> 'k option)
   \<Rightarrow> (('k option \<Rightarrow> 'k option) \<Rightarrow> ('h, 'b, 't, 'k) policydb \<Rightarrow> ('h, 'b, 't, 'k) policydb)
   \<Rightarrow> ('b transition \<Rightarrow> 'b transition \<Rightarrow> bool) \<Rightarrow> 'b transition \<Rightarrow> ('h, 'b, 't, 'k, unit) policy
   \<Rightarrow> ('h, 'b, 't, 'k, unit) policy"
where
  "add_transition P tab tab_update same_result new prepend =
     bind (gets tab) (\<lambda>t.
     bind (lift (not_null t)) (\<lambda>t.
     case trans_insert P t new of (rc, t) \<Rightarrow>
       bind (modify (tab_update (\<lambda>_. Some t))) (\<lambda>_.
       if rc = Some SEPOL_EEXIST then
         bind (lift (not_null (trans_search P t new))) (\<lambda>other.
         if same_result new other then ret () else fail SEPOL_EEXIST)
       else prepend)))"

fun same_otype :: "'b transition \<Rightarrow> 'b transition \<Rightarrow> bool" where
  "same_otype (Filename_Trans x) (Filename_Trans y) = (ft_otype x = ft_otype y)"
| "same_otype x y = False"

fun same_new_role :: "'b transition \<Rightarrow> 'b transition \<Rightarrow> bool" where
  "same_new_role (Role_Trans x) (Role_Trans y) = (rt_new_role x = rt_new_role y)"
| "same_new_role x y = False"

definition cil_typetransition_to_avtab ::
  "nat \<Rightarrow> ('h, 'b) sepol \<Rightarrow> ('h, 'b, 't, 'k) policy_lib \<Rightarrow> policy_consts \<Rightarrow> ('h, 'b, 'z) cil_store_scheme
   \<Rightarrow> cil_nametypetransition \<Rightarrow> addr option \<Rightarrow> cil_flavor \<Rightarrow> ('h, 'b, 't, 'k, unit) policy"
where
  "cil_typetransition_to_avtab fuel L P C s rule cond_node cond_flavor =
     bind (lift (deref (datums s) (nametypetransition_name rule))) (\<lambda>name.
     if datum_name name = CIL_KEY_STAR then
       cil_type_rule_to_avtab fuel L P C s
         \<lparr>type_rule_rule_kind = CIL_TYPE_TRANSITION,
           type_rule_src_str = None, type_rule_src = nametypetransition_src rule,
           type_rule_tgt_str = None, type_rule_tgt = nametypetransition_tgt rule,
           type_rule_obj_str = None, type_rule_obj = nametypetransition_obj rule,
           type_rule_result_str = None, type_rule_result = nametypetransition_result rule\<rparr> cond_node cond_flavor
     else
       bind (lift (or_fault (cil_expand_type L P s (nametypetransition_src rule)))) (\<lambda>src_bitmap.
       bind (lift (or_fault (cil_expand_type L P s (nametypetransition_tgt rule)))) (\<lambda>tgt_bitmap.
       bind (lift (cil_expand_class fuel L s (nametypetransition_obj rule))) (\<lambda>class_list.
       bind (reading (cil_get_sepol_type_datum L s (nametypetransition_result rule))) (\<lambda>sepol_result.
       each_type L s src_bitmap (\<lambda>sepol_src.
       each_type L s tgt_bitmap (\<lambda>sepol_tgt.
       each_class L s class_list (\<lambda>sepol_obj.
       bind (reading (\<lambda>p. type_value_of p sepol_src)) (\<lambda>src.
       bind (reading (\<lambda>p. type_value_of p sepol_tgt)) (\<lambda>tgt.
       bind (reading (\<lambda>p. class_value_of p sepol_obj)) (\<lambda>obj.
       bind (reading (\<lambda>p. type_value_of p sepol_result)) (\<lambda>res.
       bind (lift (not_null (datum_name name))) (\<lambda>str.
       let new = \<lparr>ft_stype = src, ft_ttype = tgt, ft_tclass = obj, ft_otype = res, ft_name = str\<rparr> in
       add_transition P filename_trans_table filename_trans_table_update same_otype (Filename_Trans new)
         (modify (p_filename_trans_update (\<lambda>l. new # l))))))))))))))))"

definition cil_typetransition_to_policydb ::
  "nat \<Rightarrow> ('h, 'b) sepol \<Rightarrow> ('h, 'b, 't, 'k) policy_lib \<Rightarrow> policy_consts \<Rightarrow> ('h, 'b, 'z) cil_store_scheme \<Rightarrow> addr
   \<Rightarrow> ('h, 'b, 't, 'k, unit) policy"
where
  "cil_typetransition_to_policydb fuel L P C s typetrans =
     bind (lift (deref (m_nametypetransition s) (Some typetrans))) (\<lambda>rule.
     cil_typetransition_to_avtab fuel L P C s rule None 0)"

text \<open>The functions that hash and compare the keys of the three tables; a comparison tells whether two keys differ.\<close>

fun filename_trans_hash :: "32 word \<Rightarrow> 'b transition \<Rightarrow> 32 word" where
  "filename_trans_hash h_size (Filename_Trans k) =
     (ft_tclass k + push_bit 2 (ft_ttype k) + push_bit 9 (ft_stype k)) AND (h_size - 1)"
| "filename_trans_hash h_size k = 0"

fun filename_trans_compare :: "'b transition \<Rightarrow> 'b transition \<Rightarrow> bool" where
  "filename_trans_compare (Filename_Trans a) (Filename_Trans b) \<longleftrightarrow>
     ft_stype a \<noteq> ft_stype b \<or> ft_ttype a \<noteq> ft_ttype b \<or> ft_tclass a \<noteq> ft_tclass b \<or> ft_name a \<noteq> ft_name b"
| "filename_trans_compare a b \<longleftrightarrow> True"

fun range_trans_hash :: "32 word \<Rightarrow> 'b transition \<Rightarrow> 32 word" where
  "range_trans_hash h_size (Range_Trans k) =
     (rg_target_class k + push_bit 2 (rg_target_type k) + push_bit 5 (rg_source_type k)) AND (h_size - 1)"
| "range_trans_hash h_size k = 0"

fun range_trans_compare :: "'b transition \<Rightarrow> 'b transition \<Rightarrow> bool" where
  "range_trans_compare (Range_Trans a) (Range_Trans b) \<longleftrightarrow>
     rg_source_type a \<noteq> rg_source_type b \<or> rg_target_type a \<noteq> rg_target_type b \<or> rg_target_class a \<noteq> rg_target_class b"
| "range_trans_compare a b \<longleftrightarrow> True"

fun role_trans_hash :: "32 word \<Rightarrow> 'b transition \<Rightarrow> 32 word" where
  "role_trans_hash h_size (Role_Trans k) = (rt_role k + push_bit 2 (rt_type k) + push_bit 5 (rt_tclass k)) AND (h_size - 1)"
| "role_trans_hash h_size k = 0"

fun role_trans_compare :: "'b transition \<Rightarrow> 'b transition \<Rightarrow> bool" where
  "role_trans_compare (Role_Trans a) (Role_Trans b) \<longleftrightarrow>
     rt_role a \<noteq> rt_role b \<or> rt_type a \<noteq> rt_type b \<or> rt_tclass a \<noteq> rt_tclass b"
| "role_trans_compare a b \<longleftrightarrow> True"

subsection \<open>Permissions as a vector\<close>

definition perm_datum_of ::
  "('h, 'b) sepol \<Rightarrow> addr \<Rightarrow> string \<Rightarrow> ('h, 'b, 't, 'k) policydb \<Rightarrow> perm_datum outcome"
where
  "perm_datum_of L sepol_class key p =
     obind (deref (d_class p) (Some sepol_class)) (\<lambda>class.
     case ht_search L (symtab_table (class_datum_permissions class)) key of
       Some a \<Rightarrow> deref (d_perm p) (Some a)
     | None \<Rightarrow>
         obind (deref (d_common p) (class_datum_comdatum class)) (\<lambda>com.
         case ht_search L (symtab_table (common_datum_permissions com)) key of
           None \<Rightarrow> Fail SEPOL_ERR
         | Some a \<Rightarrow> deref (d_perm p) (Some a)))"

text \<open>A shift by 32 or more is not defined.\<close>

fun perms_to_datum_loop ::
  "('h, 'b) sepol \<Rightarrow> ('h, 'b, 'z) cil_store_scheme \<Rightarrow> addr \<Rightarrow> ('h, 'b, 't, 'k) policydb \<Rightarrow> cil_item list \<Rightarrow> 32 word
   \<Rightarrow> 32 word outcome"
where
  "perms_to_datum_loop L s sepol_class p [] data = Ok data"
| "perms_to_datum_loop L s sepol_class p (item # rest) data =
     obind (datum_key s (item_data item)) (\<lambda>key.
     obind (perm_datum_of L sepol_class key p) (\<lambda>sepol_perm.
     let n = unat (perm_datum_value sepol_perm - 1) in
     if 32 \<le> n then Fault
     else perms_to_datum_loop L s sepol_class p rest (data OR push_bit n 1)))"

definition cil_perms_to_datum ::
  "('h, 'b) sepol \<Rightarrow> ('h, 'b, 'z) cil_store_scheme \<Rightarrow> cil_list option \<Rightarrow> addr \<Rightarrow> ('h, 'b, 't, 'k) policydb
   \<Rightarrow> 32 word outcome"
where
  "cil_perms_to_datum L s perms sepol_class p =
     obind (not_null perms) (\<lambda>l. perms_to_datum_loop L s sepol_class p (list_items l) 0)"

subsection \<open>Access vector rules\<close>

definition avrule_specified :: "policy_consts \<Rightarrow> nat \<Rightarrow> 16 word option" where
  "avrule_specified C kind =
     (if kind = CIL_AVRULE_ALLOWED then Some (avtab_allowed C)
      else if kind = CIL_AVRULE_AUDITALLOW then Some (avtab_auditallow C)
      else if kind = CIL_AVRULE_DONTAUDIT then Some (avtab_auditdeny C)
      else None)"

definition cil_insert_avrule ::
  "('h, 'b, 't, 'k) policy_lib \<Rightarrow> policy_consts \<Rightarrow> nat \<Rightarrow> 32 word \<Rightarrow> 32 word \<Rightarrow> 32 word \<Rightarrow> 32 word
   \<Rightarrow> addr option \<Rightarrow> cil_flavor \<Rightarrow> ('h, 'b, 't, 'k, unit) policy"
where
  "cil_insert_avrule P C kind src tgt obj data cond_node cond_flavor =
     (case avrule_specified C kind of
       None \<Rightarrow> fail SEPOL_ERR
     | Some specified \<Rightarrow>
         let key = avtab_key_of src tgt obj specified in
         (case cond_node of
           None \<Rightarrow>
             bind (gets te_avtab) (\<lambda>t.
             case avtab_search P t key of
               None \<Rightarrow> insert_te P key data
             | Some n \<Rightarrow>
                 bind (lift (avtab_node P t n)) (\<lambda>dup.
                 modify (te_avtab_update (\<lambda>_. avtab_set_node P t n
                   (avtab_node_data_update
                     (\<lambda>old. if kind = CIL_AVRULE_DONTAUDIT then old AND data else old OR data) dup)))))
         | Some c \<Rightarrow> cil_cond_insert_rule P key data c cond_flavor))"

text \<open>The rules belong to the neverallow statement that was entered last.\<close>

definition cil_neverallow_handle :: "addr \<Rightarrow> addr \<Rightarrow> 32 word \<Rightarrow> 32 word \<Rightarrow> ('h, 'b, 't, 'k, unit) policy" where
  "cil_neverallow_handle src tgt class perms = (\<lambda>p.
     case neverallows p of
       [] \<Rightarrow> (Fault, p)
     | n # ns \<Rightarrow> (Ok (), p\<lparr>neverallows := neverallow_rules_update (\<lambda>rules. rules @
         [\<lparr>neverallow_rule_src = src, neverallow_rule_tgt = tgt, neverallow_rule_class = class,
           neverallow_rule_perms = perms\<rparr>]) n # ns\<rparr>))"

text \<open>The walk over the nodes of two bitmaps.\<close>

fun nodes_meet :: "(nat \<times> 64 word) list \<Rightarrow> (nat \<times> 64 word) list \<Rightarrow> bool" where
  "nodes_meet [] ns = False"
| "nodes_meet ms [] = False"
| "nodes_meet ((i, m) # ms) ((j, n) # ns) =
     (if i < j then nodes_meet ms ((j, n) # ns)
      else if j < i then nodes_meet ((i, m) # ms) ns
      else m AND n \<noteq> 0 \<or> nodes_meet ms ns)"

definition attribute_bits :: "('h, 'b, 'z) cil_store_scheme \<Rightarrow> addr \<Rightarrow> 'b outcome" where
  "attribute_bits s a = obind (deref (m_typeattribute s) (Some a)) (\<lambda>attr. not_null (typeattribute_types attr))"

definition cil_is_type_match ::
  "('h, 'b) sepol \<Rightarrow> ('h, 'b, 't, 'k) policy_lib \<Rightarrow> ('h, 'b, 'z) cil_store_scheme
   \<Rightarrow> cil_flavor \<Rightarrow> addr \<Rightarrow> cil_flavor \<Rightarrow> addr \<Rightarrow> bool outcome"
where
  "cil_is_type_match L P s f1 t1 f2 t2 =
     obind (fqn_of s (Some t1)) (\<lambda>n1.
     obind (fqn_of s (Some t2)) (\<lambda>n2.
     if n1 = n2 then Ok True
     else if f1 = CIL_TYPEATTRIBUTE \<and> f2 \<noteq> CIL_TYPEATTRIBUTE then
       obind (deref (m_type s) (Some t2)) (\<lambda>t.
       obind (attribute_bits s t1) (\<lambda>types. Ok (eb_get_bit L types (unsigned_int (type_value t)))))
     else if f1 \<noteq> CIL_TYPEATTRIBUTE \<and> f2 = CIL_TYPEATTRIBUTE then
       obind (deref (m_type s) (Some t1)) (\<lambda>t.
       obind (attribute_bits s t2) (\<lambda>types. Ok (eb_get_bit L types (unsigned_int (type_value t)))))
     else if f1 = CIL_TYPEATTRIBUTE \<and> f2 = CIL_TYPEATTRIBUTE then
       obind (attribute_bits s t2) (\<lambda>types2.
       obind (attribute_bits s t1) (\<lambda>types1. Ok (nodes_meet (eb_nodes P types2) (eb_nodes P types1))))
     else Ok False))"

text \<open>Whether a rule of a neverallow statement forbids an access vector.\<close>

definition neverallow_rule_matches ::
  "('h, 'b) sepol \<Rightarrow> ('h, 'b, 't, 'k) policy_lib \<Rightarrow> ('h, 'b, 'z) cil_store_scheme
   \<Rightarrow> addr \<Rightarrow> addr \<Rightarrow> 32 word \<Rightarrow> 32 word \<Rightarrow> cil_neverallow_rule \<Rightarrow> bool outcome"
where
  "neverallow_rule_matches L P s src tgt class perms rule =
     obind (FLAVOR s (Some src)) (\<lambda>al_src_flavor.
     obind (FLAVOR s (Some tgt)) (\<lambda>al_tgt_flavor.
     obind (FLAVOR s (Some (neverallow_rule_src rule))) (\<lambda>nv_src_flavor.
     obind (FLAVOR s (Some (neverallow_rule_tgt rule))) (\<lambda>nv_tgt_flavor.
     if neverallow_rule_perms rule AND perms \<noteq> 0 \<and> class = neverallow_rule_class rule then
       obind (cil_is_type_match L P s al_src_flavor src nv_src_flavor (neverallow_rule_src rule)) (\<lambda>src_match.
       if src_match then cil_is_type_match L P s al_tgt_flavor tgt nv_tgt_flavor (neverallow_rule_tgt rule)
       else Ok False)
     else Ok False))))"

definition cil_check_neverallows ::
  "('h, 'b) sepol \<Rightarrow> ('h, 'b, 't, 'k) policy_lib \<Rightarrow> ('h, 'b, 'z) cil_store_scheme
   \<Rightarrow> cil_neverallow list \<Rightarrow> addr \<Rightarrow> addr \<Rightarrow> 32 word \<Rightarrow> 32 word \<Rightarrow> unit outcome"
where
  "cil_check_neverallows L P s neverallow_list src tgt class perms =
     obind (FLAVOR s (Some src)) (\<lambda>_.
     obind (FLAVOR s (Some tgt)) (\<lambda>_.
     oeach (\<lambda>rule.
       obind (neverallow_rule_matches L P s src tgt class perms rule) (\<lambda>found.
       if found then Fail SEPOL_ERR else Ok ()))
     (concat (map neverallow_rules neverallow_list))))"

definition cil_avrule_expand_helper ::
  "('h, 'b) sepol \<Rightarrow> ('h, 'b, 't, 'k) policy_lib \<Rightarrow> policy_consts \<Rightarrow> ('h, 'b, 'z) cil_store_scheme
   \<Rightarrow> nat \<Rightarrow> addr \<Rightarrow> addr \<Rightarrow> cil_classperms \<Rightarrow> addr option \<Rightarrow> cil_flavor \<Rightarrow> ('h, 'b, 't, 'k, unit) policy"
where
  "cil_avrule_expand_helper L P C s kind src tgt cp cond_node cond_flavor =
     bind (reading (cil_get_sepol_class_datum L s (classperms_class cp))) (\<lambda>sepol_class.
     bind (reading (cil_perms_to_datum L s (classperms_perms cp) sepol_class)) (\<lambda>data.
     bind (reading (\<lambda>p. class_value_of p sepol_class)) (\<lambda>class.
     if data = 0 then ret ()
     else if kind = CIL_AVRULE_NEVERALLOW then cil_neverallow_handle src tgt class data
     else
       bind (if kind = CIL_AVRULE_ALLOWED
             then reading (\<lambda>p. cil_check_neverallows L P s (neverallows p) src tgt class data)
             else ret ()) (\<lambda>_.
       bind (reading (cil_get_sepol_type_datum L s (Some src))) (\<lambda>sepol_src.
       bind (reading (cil_get_sepol_type_datum L s (Some tgt))) (\<lambda>sepol_tgt.
       bind (reading (\<lambda>p. type_value_of p sepol_src)) (\<lambda>src_value.
       bind (reading (\<lambda>p. type_value_of p sepol_tgt)) (\<lambda>tgt_value.
       cil_insert_avrule P C kind src_value tgt_value class
         (if kind = CIL_AVRULE_DONTAUDIT then NOT data else data) cond_node cond_flavor))))))))"

fun cil_avrule_expand ::
  "nat \<Rightarrow> ('h, 'b) sepol \<Rightarrow> ('h, 'b, 't, 'k) policy_lib \<Rightarrow> policy_consts \<Rightarrow> ('h, 'b, 'z) cil_store_scheme
   \<Rightarrow> nat \<Rightarrow> addr \<Rightarrow> addr \<Rightarrow> classperms_list option \<Rightarrow> addr option \<Rightarrow> cil_flavor \<Rightarrow> ('h, 'b, 't, 'k, unit) policy"
where
  "cil_avrule_expand 0 L P C s kind src tgt classperms cond_node cond_flavor = no_fuel"
| "cil_avrule_expand (Suc fuel) L P C s kind src tgt classperms cond_node cond_flavor =
     bind (lift (not_null classperms)) (for_each (\<lambda>(flavor, a).
       if flavor = CIL_CLASSPERMS then
         bind (lift (deref (m_classperms s) (Some a))) (\<lambda>cp.
         bind (lift (FLAVOR s (classperms_class cp))) (\<lambda>class_flavor.
         if class_flavor = CIL_CLASS then
           cil_avrule_expand_helper L P C s kind src tgt cp cond_node cond_flavor
         else
           bind (lift (not_null (classperms_perms cp))) (\<lambda>perms.
           for_each (\<lambda>i.
             bind (lift (deref (m_perm s) (item_data i))) (\<lambda>cmp.
             cil_avrule_expand fuel L P C s kind src tgt (perm_classperms cmp) cond_node cond_flavor))
           (list_items perms))))
       else
         bind (lift (deref (m_classperms_set s) (Some a))) (\<lambda>cp_set.
         bind (lift (deref (m_classpermission s) (classperms_set_set cp_set))) (\<lambda>cp.
         cil_avrule_expand fuel L P C s kind src tgt (classpermission_classperms cp) cond_node cond_flavor))))"

definition cil_avrule_to_avtab ::
  "nat \<Rightarrow> ('h, 'b) sepol \<Rightarrow> ('h, 'b, 't, 'k) policy_lib \<Rightarrow> policy_consts \<Rightarrow> ('h, 'b, 'z) cil_store_scheme
   \<Rightarrow> cil_avrule \<Rightarrow> addr option \<Rightarrow> cil_flavor \<Rightarrow> ('h, 'b, 't, 'k, unit) policy"
where
  "cil_avrule_to_avtab fuel L P C s rule cond_node cond_flavor =
     (let kind = avrule_rule_kind rule; classperms = Some (avrule_classperms rule) in
      if kind = CIL_AVRULE_DONTAUDIT \<and> disable_dontaudit s then ret ()
      else if kind = CIL_AVRULE_NEVERALLOW \<and> disable_neverallow s then ret ()
      else
        bind (lift (fqn_of s (avrule_tgt rule))) (\<lambda>tgt_fqn.
        if tgt_fqn = CIL_KEY_SELF then
          bind (lift (cil_expand_type L P s (avrule_src rule))) (\<lambda>type_bitmap.
          for_each (\<lambda>i.
            bind (lift (obind (array_get (val_to_type s) i) not_null)) (\<lambda>src.
            cil_avrule_expand fuel L P C s kind src src classperms cond_node cond_flavor))
          (set_bits L type_bitmap))
        else
          bind (lift (not_null (avrule_src rule))) (\<lambda>src.
          bind (lift (not_null (avrule_tgt rule))) (\<lambda>tgt.
          cil_avrule_expand fuel L P C s kind src tgt classperms cond_node cond_flavor))))"

definition cil_avrule_to_policydb ::
  "nat \<Rightarrow> ('h, 'b) sepol \<Rightarrow> ('h, 'b, 't, 'k) policy_lib \<Rightarrow> policy_consts \<Rightarrow> ('h, 'b, 'z) cil_store_scheme \<Rightarrow> addr
   \<Rightarrow> ('h, 'b, 't, 'k, unit) policy"
where
  "cil_avrule_to_policydb fuel L P C s cil_avrule =
     bind (lift (deref (m_avrule s) (Some cil_avrule))) (\<lambda>rule.
     cil_avrule_to_avtab fuel L P C s rule None 0)"

subsection \<open>Roles\<close>

definition cil_roletrans_to_policydb ::
  "nat \<Rightarrow> ('h, 'b) sepol \<Rightarrow> ('h, 'b, 't, 'k) policy_lib \<Rightarrow> ('h, 'b, 'z) cil_store_scheme \<Rightarrow> addr
   \<Rightarrow> ('h, 'b, 't, 'k, unit) policy"
where
  "cil_roletrans_to_policydb fuel L P s roletrans =
     bind (lift (deref (m_roletransition s) (Some roletrans))) (\<lambda>rule.
     bind (lift (or_fault (cil_expand_role L P s (roletransition_src rule)))) (\<lambda>role_bitmap.
     bind (lift (or_fault (cil_expand_type L P s (roletransition_tgt rule)))) (\<lambda>type_bitmap.
     bind (lift (cil_expand_class fuel L s (roletransition_obj rule))) (\<lambda>class_list.
     bind (reading (cil_get_sepol_role_datum L s (roletransition_result rule))) (\<lambda>sepol_result.
     each_role L s role_bitmap (\<lambda>sepol_src.
     each_type L s type_bitmap (\<lambda>sepol_tgt.
     each_class L s class_list (\<lambda>sepol_obj.
     bind (reading (\<lambda>p. role_value_of p sepol_src)) (\<lambda>src.
     bind (reading (\<lambda>p. type_value_of p sepol_tgt)) (\<lambda>tgt.
     bind (reading (\<lambda>p. class_value_of p sepol_obj)) (\<lambda>obj.
     bind (reading (\<lambda>p. role_value_of p sepol_result)) (\<lambda>res.
     let new = \<lparr>rt_role = src, rt_type = tgt, rt_tclass = obj, rt_new_role = res\<rparr> in
     add_transition P role_trans_table role_trans_table_update same_new_role (Role_Trans new)
       (modify (p_role_tr_update (\<lambda>l. new # l)))))))))))))))"

definition cil_roleallow_to_policydb ::
  "('h, 'b) sepol \<Rightarrow> ('h, 'b, 't, 'k) policy_lib \<Rightarrow> ('h, 'b, 'z) cil_store_scheme \<Rightarrow> addr \<Rightarrow> ('h, 'b, 't, 'k, unit) policy"
where
  "cil_roleallow_to_policydb L P s roleallow =
     bind (lift (deref (m_roleallow s) (Some roleallow))) (\<lambda>rule.
     bind (lift (or_fault (cil_expand_role L P s (roleallow_src rule)))) (\<lambda>src_bitmap.
     bind (lift (cil_expand_role L P s (roleallow_tgt rule))) (\<lambda>tgt_bitmap.
     each_role L s src_bitmap (\<lambda>sepol_src.
     each_role L s tgt_bitmap (\<lambda>sepol_tgt.
     bind (reading (\<lambda>p. role_value_of p sepol_src)) (\<lambda>src.
     bind (reading (\<lambda>p. role_value_of p sepol_tgt)) (\<lambda>tgt.
     modify (p_role_allow_update (\<lambda>l. (src, tgt) # l)))))))))"

subsection \<open>Conditional expressions\<close>

definition cond_operator_type :: "policy_consts \<Rightarrow> cil_flavor \<Rightarrow> nat option" where
  "cond_operator_type C op =
     (if op = CIL_NOT then Some (cond_not C) else if op = CIL_OR then Some (cond_or C)
      else if op = CIL_AND then Some (cond_and C) else if op = CIL_XOR then Some (cond_xor C)
      else if op = CIL_EQ then Some (cond_eq C) else if op = CIL_NEQ then Some (cond_neq C) else None)"

definition cond_op :: "nat \<Rightarrow> cond_expr" where
  "cond_op k = \<lparr>cond_expr_type = k, cond_expr_bool = 0\<rparr>"

definition cond_operand :: "cond_expr list outcome list \<Rightarrow> nat \<Rightarrow> cond_expr list outcome" where
  "cond_operand rs i = (if i < length rs then rs ! i else Fail SEPOL_ERR)"

text \<open>An operator behind its operands, which \<open>rs\<close> has converted.\<close>

definition cond_operation :: "policy_consts \<Rightarrow> cil_flavor \<Rightarrow> cond_expr list outcome list \<Rightarrow> cond_expr list outcome" where
  "cond_operation C op rs =
     (case cond_operator_type C op of
       None \<Rightarrow> Fail SEPOL_ERR
     | Some k \<Rightarrow>
         obind (cond_operand rs 0) (\<lambda>h1.
         if op = CIL_NOT then Ok (h1 @ [cond_op k])
         else obind (cond_operand rs 1) (\<lambda>h2. Ok (h1 @ h2 @ [cond_op k]))))"

text \<open>A list without operator is the disjunction of its items.\<close>

fun cond_disjunction :: "policy_consts \<Rightarrow> cond_expr list \<Rightarrow> cond_expr list outcome list \<Rightarrow> cond_expr list outcome" where
  "cond_disjunction C h1 [] = Ok h1"
| "cond_disjunction C h1 (r # rs) = obind r (\<lambda>h2. cond_disjunction C (h1 @ h2 @ [cond_op (cond_or C)]) rs)"

definition sepol_bool_of ::
  "('h, 'b) sepol \<Rightarrow> ('h, 'b, 'z) cil_store_scheme \<Rightarrow> ('h, 'b, 't, 'k) policydb \<Rightarrow> addr \<Rightarrow> 32 word outcome"
where
  "sepol_bool_of L s p a =
     obind (get_sepol_datum L s SYM_BOOLS (Some a) p) (\<lambda>d.
     obind (deref (d_bool p) (Some d)) (\<lambda>b. Ok (bool_datum_value b)))"

fun cil_cond_item_to_sepol_expr ::
  "('h, 'b) sepol \<Rightarrow> policy_consts \<Rightarrow> ('h, 'b, 'z) cil_store_scheme \<Rightarrow> ('h, 'b, 't, 'k) policydb \<Rightarrow> cil_item
   \<Rightarrow> cond_expr list outcome"
and cil_cond_expr_to_sepol_expr_helper ::
  "('h, 'b) sepol \<Rightarrow> policy_consts \<Rightarrow> ('h, 'b, 'z) cil_store_scheme \<Rightarrow> ('h, 'b, 't, 'k) policydb \<Rightarrow> cil_list
   \<Rightarrow> cond_expr list outcome"
where
  "cil_cond_item_to_sepol_expr L C s p (Item_Datum a) =
     obind (sepol_bool_of L s p a) (\<lambda>v. Ok [\<lparr>cond_expr_type = cond_bool C, cond_expr_bool = v\<rparr>])"
| "cil_cond_item_to_sepol_expr L C s p (Item_List l) = cil_cond_expr_to_sepol_expr_helper L C s p l"
| "cil_cond_item_to_sepol_expr L C s p (Item_String x) = Fail SEPOL_ERR"
| "cil_cond_item_to_sepol_expr L C s p (Item_Op op) = Fail SEPOL_ERR"
| "cil_cond_item_to_sepol_expr L C s p (Item_Operand op) = Fail SEPOL_ERR"
| "cil_cond_item_to_sepol_expr L C s p (Item_Ref f a) = Fail SEPOL_ERR"
| "cil_cond_expr_to_sepol_expr_helper L C s p (Cil_List flavor items) =
     (let rs = map (cil_cond_item_to_sepol_expr L C s p) items in
      if flavor \<noteq> CIL_BOOL then Fail SEPOL_ERR
      else
        (case items of
          [] \<Rightarrow> Fail SEPOL_ERR
        | Item_Op op # _ \<Rightarrow> cond_operation C op (tl rs)
        | _ \<Rightarrow> obind (hd rs) (\<lambda>h1. cond_disjunction C h1 (tl rs))))"

definition cil_cond_expr_to_sepol_expr ::
  "('h, 'b) sepol \<Rightarrow> policy_consts \<Rightarrow> ('h, 'b, 'z) cil_store_scheme \<Rightarrow> cil_list option \<Rightarrow> ('h, 'b, 't, 'k) policydb
   \<Rightarrow> cond_expr list outcome"
where
  "cil_cond_expr_to_sepol_expr L C s expr p = obind (not_null expr) (cil_cond_expr_to_sepol_expr_helper L C s p)"

subsection \<open>Conditional blocks\<close>

text \<open>\<open>cil_tree_walk\<close> over the AST with a function that changes the policy.\<close>

definition policy_walk ::
  "nat \<Rightarrow> ('h, 'b, 'z) cil_store_scheme \<Rightarrow> (addr \<Rightarrow> ('h, 'b, 't, 'k, nat) policy) \<Rightarrow> addr option
   \<Rightarrow> ('h, 'b, 't, 'k, unit) policy"
where
  "policy_walk fuel s process_node node = (\<lambda>p.
     case cil_tree_walk fuel
       (\<lambda>n st. case process_node n (cil_store.more st) of (r, p) \<Rightarrow> (r, cil_store.more_update (\<lambda>_. p) st))
       None None node (cil_store.extend (cil_store.truncate s) p) of
       (r, st) \<Rightarrow> (r, cil_store.more st))"

definition cil_cond_to_policydb_helper ::
  "nat \<Rightarrow> ('h, 'b) sepol \<Rightarrow> ('h, 'b, 't, 'k) policy_lib \<Rightarrow> policy_consts \<Rightarrow> ('h, 'b, 'z) cil_store_scheme
   \<Rightarrow> addr \<Rightarrow> cil_flavor \<Rightarrow> addr \<Rightarrow> ('h, 'b, 't, 'k, nat) policy"
where
  "cil_cond_to_policydb_helper fuel L P C s cond_node cond_flavor node =
     bind (lift (deref (nodes s) (Some node))) (\<lambda>nd.
     let flavor = node_flavor nd in
     bind
      (if flavor = CIL_NAMETYPETRANSITION then
         bind (lift (deref (m_nametypetransition s) (node_data nd))) (\<lambda>rule.
         bind (lift (fqn_of s (nametypetransition_name rule))) (\<lambda>fqn.
         if fqn \<noteq> CIL_KEY_STAR then fail SEPOL_ERR
         else or_err (cil_typetransition_to_avtab fuel L P C s rule (Some cond_node) cond_flavor)))
       else if flavor = CIL_TYPE_RULE then
         bind (lift (deref (m_type_rule s) (node_data nd))) (\<lambda>rule.
         or_err (cil_type_rule_to_avtab fuel L P C s rule (Some cond_node) cond_flavor))
       else if flavor = CIL_AVRULE then
         bind (lift (deref (m_avrule s) (node_data nd))) (\<lambda>rule.
         or_err (cil_avrule_to_avtab fuel L P C s rule (Some cond_node) cond_flavor))
       else if flavor = CIL_CALL \<or> flavor = CIL_TUNABLEIF then ret ()
       else fail SEPOL_ERR)
      (\<lambda>_. ret CIL_TREE_SKIP_NOTHING))"

text \<open>The branches of a conditional: the last one of each kind.\<close>

fun condblock_loop ::
  "nat \<Rightarrow> ('h, 'b, 'z) cil_store_scheme \<Rightarrow> addr option \<Rightarrow> addr option \<Rightarrow> addr option
   \<Rightarrow> (addr option \<times> addr option) outcome"
where
  "condblock_loop 0 s cb_node true_node false_node = Out_of_fuel"
| "condblock_loop (Suc fuel) s None true_node false_node = Ok (true_node, false_node)"
| "condblock_loop (Suc fuel) s (Some n) true_node false_node =
     obind (deref (nodes s) (Some n)) (\<lambda>nd.
     if node_flavor nd = CIL_CONDBLOCK then
       obind (deref (m_condblock s) (node_data nd)) (\<lambda>cb.
       if condblock_kind cb = CIL_CONDTRUE then condblock_loop fuel s (node_next nd) (Some n) false_node
       else if condblock_kind cb = CIL_CONDFALSE then condblock_loop fuel s (node_next nd) true_node (Some n)
       else condblock_loop fuel s (node_next nd) true_node false_node)
     else condblock_loop fuel s (node_next nd) true_node false_node)"

text \<open>The conditional for an expression, and whether it is the negation that is in the policy. The list with
  the only element 0 stands for the pointer to \<open>tmp_cl\<close>, by which the swap of the branches is seen.\<close>

definition cond_node_for ::
  "('h, 'b) sepol \<Rightarrow> ('h, 'b, 't, 'k) policy_lib \<Rightarrow> policy_consts \<Rightarrow> ('h, 'b, 'z) cil_store_scheme \<Rightarrow> cil_list option
   \<Rightarrow> ('h, 'b, 't, 'k, addr \<times> bool) policy"
where
  "cond_node_for L P C s expr =
     (case cond_node_create P of
       None \<Rightarrow> fail SEPOL_ERR
     | Some tmp_cond \<Rightarrow>
         bind (or_err (reading (cil_cond_expr_to_sepol_expr L C s expr))) (\<lambda>sepol_expr.
         case cond_normalize_expr P (tmp_cond\<lparr>cond_node_expr := sepol_expr, cond_node_true_list := [0]\<rparr>) of
           (Some e, _) \<Rightarrow> fail e
         | (None, tmp_cond) \<Rightarrow>
             let swapped = (cond_node_false_list tmp_cond \<noteq> []);
                 tmp_cond = (if swapped then tmp_cond\<lparr>cond_node_true_list := []\<rparr> else tmp_cond) in
             bind (gets cond_list) (\<lambda>as.
             bind (gets (\<lambda>p. map (d_cond p) as)) (\<lambda>cs.
             if None \<in> set cs then fault
             else
               (case cond_node_find P tmp_cond (map the cs) of
                 None \<Rightarrow> fail SEPOL_ERR
               | Some (Inl i) \<Rightarrow> if i < length as then ret (as ! i, swapped) else fault
               | Some (Inr new) \<Rightarrow>
                   bind (new_datum d_cond_update new) (\<lambda>a.
                   bind (modify (cond_list_update (\<lambda>l. a # l))) (\<lambda>_. ret (a, swapped))))))))"

definition cil_booleanif_to_policydb ::
  "nat \<Rightarrow> ('h, 'b) sepol \<Rightarrow> ('h, 'b, 't, 'k) policy_lib \<Rightarrow> policy_consts \<Rightarrow> ('h, 'b, 'z) cil_store_scheme \<Rightarrow> addr
   \<Rightarrow> ('h, 'b, 't, 'k, unit) policy"
where
  "cil_booleanif_to_policydb fuel L P C s node =
     bind (lift (deref (nodes s) (Some node))) (\<lambda>nd.
     bind (lift (deref (m_booleanif s) (node_data nd))) (\<lambda>boolif.
     bind (cond_node_for L P C s (booleanif_datum_expr boolif)) (\<lambda>(cond_node, swapped).
     bind (lift (condblock_loop fuel s (node_cl_head nd) None None)) (\<lambda>(t, f).
     let true_node = (if swapped then f else t); false_node = (if swapped then t else f) in
     bind (policy_walk fuel s (cil_cond_to_policydb_helper fuel L P C s cond_node CIL_CONDTRUE) true_node) (\<lambda>_.
     policy_walk fuel s (cil_cond_to_policydb_helper fuel L P C s cond_node CIL_CONDFALSE) false_node)))))"

end
