(* ===== verification/Cil_Policy_Contexts.thy ===== *)
theory Cil_Policy_Contexts
  imports Cil_Policy_Rules
begin

unbundle bit_operations_syntax

text \<open>
  Constraints, levels, security contexts, object contexts and defaults of \<open>src/cil_binary.c\<close>.
\<close>

subsection \<open>Constraint expressions\<close>

text \<open>The data of an item as a number: a pointer is none of the operators and operands.\<close>

fun item_enum :: "cil_item \<Rightarrow> cil_flavor" where
  "item_enum (Item_Op f) = f"
| "item_enum (Item_Operand f) = f"
| "item_enum i = CIL_NONE"

definition add_name :: "('h, 'b) sepol \<Rightarrow> 32 word \<Rightarrow> 'b constraint_expr \<Rightarrow> 'b constraint_expr outcome" where
  "add_name L value x = obind (eb_set L (cexpr_names x) (unat (value - 1))) (\<lambda>b. Ok (x\<lparr>cexpr_names := b\<rparr>))"

fun add_names ::
  "('h, 'b) sepol \<Rightarrow> (nat \<Rightarrow> 32 word outcome) \<Rightarrow> nat list \<Rightarrow> 'b constraint_expr \<Rightarrow> 'b constraint_expr outcome"
where
  "add_names L value_of [] x = Ok x"
| "add_names L value_of (i # is) x =
     obind (value_of i) (\<lambda>v. obind (add_name L v x) (\<lambda>x. add_names L value_of is x))"

definition role_value_at ::
  "('h, 'b) sepol \<Rightarrow> ('h, 'b, 'z) cil_store_scheme \<Rightarrow> ('h, 'b, 't, 'k) policydb \<Rightarrow> nat \<Rightarrow> 32 word outcome"
where
  "role_value_at L s p i =
     obind (array_get (val_to_role s) i) (\<lambda>role.
     obind (cil_get_sepol_role_datum L s role p) (role_value_of p))"

definition type_value_at ::
  "('h, 'b) sepol \<Rightarrow> ('h, 'b, 'z) cil_store_scheme \<Rightarrow> ('h, 'b, 't, 'k) policydb \<Rightarrow> nat \<Rightarrow> 32 word outcome"
where
  "type_value_at L s p i =
     obind (array_get (val_to_type s) i) (\<lambda>type.
     obind (cil_get_sepol_type_datum L s type p) (type_value_of p))"

text \<open>The type itself, for policies that keep the names of constraints. Its failure makes the cleanup free a
  bitmap that has not been initialised.\<close>

definition add_type_name ::
  "('h, 'b) sepol \<Rightarrow> policy_consts \<Rightarrow> ('h, 'b, 'z) cil_store_scheme \<Rightarrow> ('h, 'b, 't, 'k) policydb \<Rightarrow> addr option
   \<Rightarrow> 'b constraint_expr \<Rightarrow> 'b constraint_expr outcome"
where
  "add_type_name L C s p datum x =
     (if p_policyvers p < constraint_names_version C then Ok x
      else or_fault
        (obind (cil_get_sepol_type_datum L s datum p) (\<lambda>sepol_type.
         obind (type_value_of p sepol_type) (\<lambda>v.
         obind (eb_set L (cexpr_type_names x) (unat (v - 1))) (\<lambda>b. Ok (x\<lparr>cexpr_type_names := b\<rparr>))))))"

definition cil_constrain_expr_datum_to_sepol_expr ::
  "('h, 'b) sepol \<Rightarrow> ('h, 'b, 't, 'k) policy_lib \<Rightarrow> policy_consts \<Rightarrow> ('h, 'b, 'z) cil_store_scheme \<Rightarrow> ('h, 'b, 't, 'k) policydb
   \<Rightarrow> cil_flavor \<Rightarrow> cil_item \<Rightarrow> 'b constraint_expr \<Rightarrow> 'b constraint_expr outcome"
where
  "cil_constrain_expr_datum_to_sepol_expr L P C s p expr_flavor item expr =
     (if expr_flavor = CIL_USER then
        obind (cil_get_sepol_user_datum L s (item_data item) p) (\<lambda>sepol_user.
        obind (user_value_of p sepol_user) (\<lambda>v. add_name L v expr))
      else if expr_flavor = CIL_ROLE then
        obind (cil_expand_role L P s (item_data item)) (\<lambda>role_bitmap.
        add_names L (role_value_at L s p) (set_bits L role_bitmap) expr)
      else if expr_flavor = CIL_TYPE then
        obind (add_type_name L C s p (item_data item) expr) (\<lambda>expr.
        obind (cil_expand_type L P s (item_data item)) (\<lambda>type_bitmap.
        add_names L (type_value_at L s p) (set_bits L type_bitmap) expr))
      else Fail SEPOL_ERR)"

fun constrain_expr_data ::
  "('h, 'b) sepol \<Rightarrow> ('h, 'b, 't, 'k) policy_lib \<Rightarrow> policy_consts \<Rightarrow> ('h, 'b, 'z) cil_store_scheme \<Rightarrow> ('h, 'b, 't, 'k) policydb
   \<Rightarrow> cil_flavor \<Rightarrow> cil_item list \<Rightarrow> 'b constraint_expr \<Rightarrow> 'b constraint_expr outcome"
where
  "constrain_expr_data L P C s p expr_flavor [] expr = Ok expr"
| "constrain_expr_data L P C s p expr_flavor (item # rest) expr =
     obind (cil_constrain_expr_datum_to_sepol_expr L P C s p expr_flavor item expr) (\<lambda>expr.
     constrain_expr_data L P C s p expr_flavor rest expr)"

text \<open>The attribute of a leaf, from its left operand, and for levels from both.\<close>

definition constrain_attr :: "policy_consts \<Rightarrow> cil_flavor \<Rightarrow> cil_flavor \<Rightarrow> 32 word option" where
  "constrain_attr C l_operand r_operand =
     (if l_operand = CIL_CONS_U1 then Some (cexpr_user C)
      else if l_operand = CIL_CONS_U2 then Some (cexpr_user C OR cexpr_target C)
      else if l_operand = CIL_CONS_U3 then Some (cexpr_user C OR cexpr_xtarget C)
      else if l_operand = CIL_CONS_R1 then Some (cexpr_role C)
      else if l_operand = CIL_CONS_R2 then Some (cexpr_role C OR cexpr_target C)
      else if l_operand = CIL_CONS_R3 then Some (cexpr_role C OR cexpr_xtarget C)
      else if l_operand = CIL_CONS_T1 then Some (cexpr_type C)
      else if l_operand = CIL_CONS_T2 then Some (cexpr_type C OR cexpr_target C)
      else if l_operand = CIL_CONS_T3 then Some (cexpr_type C OR cexpr_xtarget C)
      else if l_operand = CIL_CONS_L1 then
        Some (if r_operand = CIL_CONS_L2 then cexpr_l1l2 C
          else if r_operand = CIL_CONS_H1 then cexpr_l1h1 C else cexpr_l1h2 C)
      else if l_operand = CIL_CONS_L2 then Some (cexpr_l2h2 C)
      else if l_operand = CIL_CONS_H1 then
        Some (if r_operand = CIL_CONS_L2 then cexpr_h1l2 C else cexpr_h1h2 C)
      else None)"

definition cil_constrain_expr_leaf_to_sepol_expr ::
  "('h, 'b) sepol \<Rightarrow> ('h, 'b, 't, 'k) policy_lib \<Rightarrow> policy_consts \<Rightarrow> ('h, 'b, 'z) cil_store_scheme \<Rightarrow> ('h, 'b, 't, 'k) policydb
   \<Rightarrow> cil_flavor \<Rightarrow> cil_item list \<Rightarrow> 'b constraint_expr \<Rightarrow> 'b constraint_expr outcome"
where
  "cil_constrain_expr_leaf_to_sepol_expr L P C s p expr_flavor operands expr =
     (case operands of
       l_item # r_item # _ \<Rightarrow>
         (case constrain_attr C (item_enum l_item) (item_enum r_item) of
           None \<Rightarrow> Fail SEPOL_ERR
         | Some attr \<Rightarrow>
             let expr = expr\<lparr>cexpr_attr := attr\<rparr> in
             (case r_item of
               Item_Operand _ \<Rightarrow> Ok (expr\<lparr>cexpr_kind := cexpr_attribute C\<rparr>)
             | Item_Datum _ \<Rightarrow>
                 cil_constrain_expr_datum_to_sepol_expr L P C s p expr_flavor r_item (expr\<lparr>cexpr_kind := cexpr_named C\<rparr>)
             | Item_List r_expr \<Rightarrow>
                 constrain_expr_data L P C s p expr_flavor (list_items r_expr) (expr\<lparr>cexpr_kind := cexpr_named C\<rparr>)
             | _ \<Rightarrow> Fail SEPOL_ERR))
     | _ \<Rightarrow> Fault)"

text \<open>The operators: whether they make a leaf, and their number.\<close>

definition constraint_operator :: "policy_consts \<Rightarrow> cil_flavor \<Rightarrow> (bool \<times> nat) option" where
  "constraint_operator C cil_op =
     (if cil_op = CIL_NOT then Some (False, cexpr_not C) else if cil_op = CIL_AND then Some (False, cexpr_and C)
      else if cil_op = CIL_OR then Some (False, cexpr_or C) else if cil_op = CIL_EQ then Some (True, cexpr_eq C)
      else if cil_op = CIL_NEQ then Some (True, cexpr_neq C) else if cil_op = CIL_CONS_DOM then Some (True, cexpr_dom C)
      else if cil_op = CIL_CONS_DOMBY then Some (True, cexpr_domby C)
      else if cil_op = CIL_CONS_INCOMP then Some (True, cexpr_incomp C) else None)"

definition nth_result :: "'x outcome list \<Rightarrow> nat \<Rightarrow> 'x outcome" where
  "nth_result rs i = (if i < length rs then rs ! i else Fault)"

fun cil_constrain_expr_to_sepol_expr_helper ::
  "('h, 'b) sepol \<Rightarrow> ('h, 'b, 't, 'k) policy_lib \<Rightarrow> policy_consts \<Rightarrow> ('h, 'b, 'z) cil_store_scheme \<Rightarrow> ('h, 'b, 't, 'k) policydb
   \<Rightarrow> cil_list \<Rightarrow> 'b constraint_expr list outcome"
and constrain_operand ::
  "('h, 'b) sepol \<Rightarrow> ('h, 'b, 't, 'k) policy_lib \<Rightarrow> policy_consts \<Rightarrow> ('h, 'b, 'z) cil_store_scheme \<Rightarrow> ('h, 'b, 't, 'k) policydb
   \<Rightarrow> cil_item \<Rightarrow> 'b constraint_expr list outcome"
where
  "cil_constrain_expr_to_sepol_expr_helper L P C s p (Cil_List flavor items) =
     (let rs = map (constrain_operand L P C s p) items in
      case items of
        [] \<Rightarrow> Fault
      | item # operands \<Rightarrow>
          (case constraint_expr_init P of
            None \<Rightarrow> Fail SEPOL_ERR
          | Some op \<Rightarrow>
              (case constraint_operator C (item_enum item) of
                None \<Rightarrow> Fail SEPOL_ERR
              | Some (is_leaf, k) \<Rightarrow>
                  if is_leaf then
                    obind (cil_constrain_expr_leaf_to_sepol_expr L P C s p flavor operands (op\<lparr>cexpr_op := k\<rparr>))
                      (\<lambda>op. Ok [op])
                  else if item_enum item = CIL_NOT then
                    obind (nth_result rs 1) (\<lambda>h1. Ok (h1 @ [op\<lparr>cexpr_kind := k\<rparr>]))
                  else
                    obind (nth_result rs 1) (\<lambda>h1.
                    obind (nth_result rs 2) (\<lambda>h2. Ok (h1 @ h2 @ [op\<lparr>cexpr_kind := k\<rparr>]))))))"
| "constrain_operand L P C s p (Item_List l) = cil_constrain_expr_to_sepol_expr_helper L P C s p l"
| "constrain_operand L P C s p (Item_String x) = Fault"
| "constrain_operand L P C s p (Item_Datum a) = Fault"
| "constrain_operand L P C s p (Item_Op f) = Fault"
| "constrain_operand L P C s p (Item_Operand f) = Fault"
| "constrain_operand L P C s p (Item_Ref f a) = Fault"

definition cil_constrain_expr_to_sepol_expr ::
  "('h, 'b) sepol \<Rightarrow> ('h, 'b, 't, 'k) policy_lib \<Rightarrow> policy_consts \<Rightarrow> ('h, 'b, 'z) cil_store_scheme \<Rightarrow> cil_list option
   \<Rightarrow> ('h, 'b, 't, 'k) policydb \<Rightarrow> 'b constraint_expr list outcome"
where
  "cil_constrain_expr_to_sepol_expr L P C s expr p =
     (case expr of None \<Rightarrow> Fail SEPOL_ERR | Some l \<Rightarrow> cil_constrain_expr_to_sepol_expr_helper L P C s p l)"

subsection \<open>Constraints\<close>

definition cil_constrain_to_policydb_helper ::
  "('h, 'b) sepol \<Rightarrow> ('h, 'b, 't, 'k) policy_lib \<Rightarrow> policy_consts \<Rightarrow> ('h, 'b, 'z) cil_store_scheme \<Rightarrow> addr option
   \<Rightarrow> cil_list option \<Rightarrow> cil_list option \<Rightarrow> ('h, 'b, 't, 'k, unit) policy"
where
  "cil_constrain_to_policydb_helper L P C s class perms expr =
     bind (reading (cil_get_sepol_class_datum L s class)) (\<lambda>sepol_class.
     bind (reading (cil_perms_to_datum L s perms sepol_class)) (\<lambda>permissions.
     bind (or_err (reading (cil_constrain_expr_to_sepol_expr L P C s expr))) (\<lambda>sepol_expr.
     wr d_class d_class_update sepol_class (class_datum_constraints_update (\<lambda>l.
       \<lparr>constraint_permissions = permissions, constraint_postfix = sepol_expr\<rparr> # l)))))"

fun cil_constrain_expand ::
  "nat \<Rightarrow> ('h, 'b) sepol \<Rightarrow> ('h, 'b, 't, 'k) policy_lib \<Rightarrow> policy_consts \<Rightarrow> ('h, 'b, 'z) cil_store_scheme
   \<Rightarrow> classperms_list option \<Rightarrow> cil_list option \<Rightarrow> ('h, 'b, 't, 'k, unit) policy"
where
  "cil_constrain_expand 0 L P C s classperms expr = no_fuel"
| "cil_constrain_expand (Suc fuel) L P C s classperms expr =
     bind (lift (not_null classperms)) (for_each (\<lambda>(flavor, a).
       if flavor = CIL_CLASSPERMS then
         bind (lift (deref (m_classperms s) (Some a))) (\<lambda>cp.
         bind (lift (FLAVOR s (classperms_class cp))) (\<lambda>class_flavor.
         if class_flavor = CIL_CLASS then
           cil_constrain_to_policydb_helper L P C s (classperms_class cp) (classperms_perms cp) expr
         else
           bind (lift (not_null (classperms_perms cp))) (\<lambda>perms.
           for_each (\<lambda>i.
             bind (lift (deref (m_perm s) (item_data i))) (\<lambda>cmp.
             cil_constrain_expand fuel L P C s (perm_classperms cmp) expr))
           (list_items perms))))
       else
         bind (lift (deref (m_classperms_set s) (Some a))) (\<lambda>cp_set.
         bind (lift (deref (m_classpermission s) (classperms_set_set cp_set))) (\<lambda>cp.
         cil_constrain_expand fuel L P C s (classpermission_classperms cp) expr))))"

definition cil_constrain_to_policydb ::
  "nat \<Rightarrow> ('h, 'b) sepol \<Rightarrow> ('h, 'b, 't, 'k) policy_lib \<Rightarrow> policy_consts \<Rightarrow> ('h, 'b, 'z) cil_store_scheme \<Rightarrow> addr
   \<Rightarrow> ('h, 'b, 't, 'k, unit) policy"
where
  "cil_constrain_to_policydb fuel L P C s cil_constrain =
     bind (lift (deref (m_constrain s) (Some cil_constrain))) (\<lambda>cons.
     cil_constrain_expand fuel L P C s (Some (constrain_classperms cons)) (constrain_datum_expr cons))"

definition cil_validatetrans_to_policydb ::
  "nat \<Rightarrow> ('h, 'b) sepol \<Rightarrow> ('h, 'b, 't, 'k) policy_lib \<Rightarrow> policy_consts \<Rightarrow> ('h, 'b, 'z) cil_store_scheme \<Rightarrow> addr
   \<Rightarrow> ('h, 'b, 't, 'k, unit) policy"
where
  "cil_validatetrans_to_policydb fuel L P C s cil_validatetrans =
     bind (lift (deref (m_validatetrans s) (Some cil_validatetrans))) (\<lambda>vt.
     bind (lift (cil_expand_class fuel L s (validatetrans_class vt))) (for_each (\<lambda>c.
       bind (reading (cil_get_sepol_class_datum L s (Some c))) (\<lambda>sepol_class.
       bind (or_err (reading (cil_constrain_expr_to_sepol_expr L P C s (validatetrans_datum_expr vt)))) (\<lambda>sepol_expr.
       wr d_class d_class_update sepol_class (class_datum_validatetrans_update (\<lambda>l.
         \<lparr>constraint_permissions = 0, constraint_postfix = sepol_expr\<rparr> # l)))))))"

subsection \<open>Levels and ranges\<close>

definition add_cat ::
  "('h, 'b) sepol \<Rightarrow> ('h, 'b, 'z) cil_store_scheme \<Rightarrow> ('h, 'b, 't, 'k) policydb \<Rightarrow> addr option \<Rightarrow> 'b \<Rightarrow> 'b outcome"
where
  "add_cat L s p datum b =
     obind (cil_get_sepol_cat_datum L s datum p) (\<lambda>sepol_cat.
     obind (cat_value_of p sepol_cat) (\<lambda>v. eb_set L b (unat (v - 1))))"

fun add_cats ::
  "('h, 'b) sepol \<Rightarrow> ('h, 'b, 'z) cil_store_scheme \<Rightarrow> ('h, 'b, 't, 'k) policydb \<Rightarrow> cil_item list \<Rightarrow> 'b \<Rightarrow> 'b outcome"
where
  "add_cats L s p [] b = Ok b"
| "add_cats L s p (j # rest) b = obind (add_cat L s p (item_data j) b) (add_cats L s p rest)"

fun cats_to_mls_level_loop ::
  "('h, 'b) sepol \<Rightarrow> ('h, 'b, 'z) cil_store_scheme \<Rightarrow> ('h, 'b, 't, 'k) policydb \<Rightarrow> cil_item list \<Rightarrow> 'b \<Rightarrow> 'b outcome"
where
  "cats_to_mls_level_loop L s p [] b = Ok b"
| "cats_to_mls_level_loop L s p (i # rest) b =
     obind (FLAVOR s (item_data i)) (\<lambda>flavor.
     obind (if flavor = CIL_CATSET then
              obind (deref (m_catset s) (item_data i)) (\<lambda>cs.
              obind (deref (m_cats s) (catset_cats cs)) (\<lambda>cats.
              obind (not_null (cats_datum_expr cats)) (\<lambda>expr. add_cats L s p (list_items expr) b)))
            else add_cat L s p (item_data i) b) (\<lambda>b.
     cats_to_mls_level_loop L s p rest b))"

definition cil_cats_to_mls_level ::
  "('h, 'b) sepol \<Rightarrow> ('h, 'b, 'z) cil_store_scheme \<Rightarrow> ('h, 'b, 't, 'k) policydb \<Rightarrow> addr option \<Rightarrow> 'b \<Rightarrow> 'b outcome"
where
  "cil_cats_to_mls_level L s p cats b =
     obind (deref (m_cats s) cats) (\<lambda>c.
     obind (not_null (cats_datum_expr c)) (\<lambda>expr. cats_to_mls_level_loop L s p (list_items expr) b))"

fun sens_cats_loop ::
  "('h, 'b) sepol \<Rightarrow> ('h, 'b, 'z) cil_store_scheme \<Rightarrow> ('h, 'b, 't, 'k) policydb \<Rightarrow> addr list \<Rightarrow> 'b \<Rightarrow> 'b outcome"
where
  "sens_cats_loop L s p [] b = Ok b"
| "sens_cats_loop L s p (c # rest) b =
     obind (cil_cats_to_mls_level L s p (Some c) b) (sens_cats_loop L s p rest)"

definition cil_sepol_level_define ::
  "('h, 'b) sepol \<Rightarrow> ('h, 'b, 'z) cil_store_scheme \<Rightarrow> addr \<Rightarrow> ('h, 'b, 't, 'k, unit) policy"
where
  "cil_sepol_level_define L s cil_sens =
     bind (lift (deref (m_sens s) (Some cil_sens))) (\<lambda>sens.
     bind (reading (cil_get_sepol_level_datum L s (Some cil_sens))) (\<lambda>sepol_level.
     bind (rd d_level sepol_level) (\<lambda>lvl.
     bind (lift (not_null (level_datum_level lvl))) (\<lambda>level.
     bind (reading (\<lambda>p. sens_cats_loop L s p (case sens_cats_list sens of None \<Rightarrow> [] | Some l \<Rightarrow> l) (eb_init L))) (\<lambda>b.
     wr d_level d_level_update sepol_level (\<lambda>x. x\<lparr>level_datum_level := Some (level\<lparr>mls_cat := b\<rparr>),
       level_datum_defined := True\<rparr>))))))"

definition cil_level_to_mls_level ::
  "('h, 'b) sepol \<Rightarrow> ('h, 'b, 'z) cil_store_scheme \<Rightarrow> addr option \<Rightarrow> ('h, 'b, 't, 'k) policydb \<Rightarrow> 'b mls_level outcome"
where
  "cil_level_to_mls_level L s cil_level p =
     obind (deref (m_level s) cil_level) (\<lambda>level.
     obind (cil_get_sepol_level_datum L s (level_sens level) p) (\<lambda>sepol_level.
     obind (deref (d_level p) (Some sepol_level)) (\<lambda>lvl.
     obind (not_null (level_datum_level lvl)) (\<lambda>l.
     obind (if level_cats level = None then Ok (eb_init L)
            else cil_cats_to_mls_level L s p (level_cats level) (eb_init L)) (\<lambda>b.
     Ok \<lparr>mls_sens = mls_sens l, mls_cat = b\<rparr>)))))"

definition cil_levelrange_to_mls_range ::
  "('h, 'b) sepol \<Rightarrow> ('h, 'b, 'z) cil_store_scheme \<Rightarrow> addr option \<Rightarrow> ('h, 'b, 't, 'k) policydb \<Rightarrow> 'b mls_range outcome"
where
  "cil_levelrange_to_mls_range L s cil_lvlrange p =
     obind (deref (m_levelrange s) cil_lvlrange) (\<lambda>range.
     obind (cil_level_to_mls_level L s (levelrange_low range) p) (\<lambda>low.
     obind (cil_level_to_mls_level L s (levelrange_high range) p) (\<lambda>high. Ok (low, high))))"

definition cil_userlevel_userrange_to_policydb ::
  "('h, 'b) sepol \<Rightarrow> ('h, 'b, 'z) cil_store_scheme \<Rightarrow> addr \<Rightarrow> ('h, 'b, 't, 'k, unit) policy"
where
  "cil_userlevel_userrange_to_policydb L s cil_user =
     bind (lift (deref (m_user s) (Some cil_user))) (\<lambda>user.
     bind (reading (cil_get_sepol_user_datum L s (Some cil_user))) (\<lambda>sepol_user.
     bind (reading (cil_level_to_mls_level L s (user_dftlevel user))) (\<lambda>level.
     bind (wr d_user d_user_update sepol_user (user_datum_exp_dfltlevel_update (\<lambda>_. level))) (\<lambda>_.
     bind (reading (cil_levelrange_to_mls_range L s (user_range user))) (\<lambda>range.
     wr d_user d_user_update sepol_user (user_datum_exp_range_update (\<lambda>_. range)))))))"

subsection \<open>Range transitions\<close>

fun same_target_range :: "('h, 'b, 't, 'k) policy_lib \<Rightarrow> 'b transition \<Rightarrow> 'b transition \<Rightarrow> bool" where
  "same_target_range P (Range_Trans x) (Range_Trans y) = mls_range_eq P (rg_target_range x) (rg_target_range y)"
| "same_target_range P x y = False"

definition cil_rangetransition_to_policydb ::
  "nat \<Rightarrow> ('h, 'b) sepol \<Rightarrow> ('h, 'b, 't, 'k) policy_lib \<Rightarrow> ('h, 'b, 'z) cil_store_scheme \<Rightarrow> addr
   \<Rightarrow> ('h, 'b, 't, 'k, unit) policy"
where
  "cil_rangetransition_to_policydb fuel L P s rangetrans =
     bind (lift (deref (m_rangetransition s) (Some rangetrans))) (\<lambda>rule.
     bind (lift (or_fault (cil_expand_type L P s (rangetransition_src rule)))) (\<lambda>src_bitmap.
     bind (lift (or_fault (cil_expand_type L P s (rangetransition_exec rule)))) (\<lambda>tgt_bitmap.
     bind (lift (cil_expand_class fuel L s (rangetransition_obj rule))) (\<lambda>class_list.
     each_type L s src_bitmap (\<lambda>sepol_src.
     each_type L s tgt_bitmap (\<lambda>sepol_tgt.
     each_class L s class_list (\<lambda>sepol_class.
     bind (reading (\<lambda>p. type_value_of p sepol_src)) (\<lambda>src.
     bind (reading (\<lambda>p. type_value_of p sepol_tgt)) (\<lambda>tgt.
     bind (reading (\<lambda>p. class_value_of p sepol_class)) (\<lambda>class.
     bind (reading (cil_levelrange_to_mls_range L s (rangetransition_range rule))) (\<lambda>range.
     let new = \<lparr>rg_source_type = src, rg_target_type = tgt, rg_target_class = class, rg_target_range = range\<rparr> in
     add_transition P range_trans_table range_trans_table_update (same_target_range P) (Range_Trans new)
       (modify (p_range_tr_update (\<lambda>l. new # l))))))))))))))"

subsection \<open>Security contexts\<close>

definition cil_context_to_sepol_context ::
  "('h, 'b) sepol \<Rightarrow> ('h, 'b, 'z) cil_store_scheme \<Rightarrow> addr option \<Rightarrow> ('h, 'b, 't, 'k) policydb \<Rightarrow> 'b sepol_context outcome"
where
  "cil_context_to_sepol_context L s cil_context p =
     obind (deref (m_context s) cil_context) (\<lambda>ctx.
     obind (cil_get_sepol_user_datum L s (context_user ctx) p) (\<lambda>sepol_user.
     obind (cil_get_sepol_role_datum L s (context_role ctx) p) (\<lambda>sepol_role.
     obind (cil_get_sepol_type_datum L s (context_type ctx) p) (\<lambda>sepol_type.
     obind (user_value_of p sepol_user) (\<lambda>user.
     obind (role_value_of p sepol_role) (\<lambda>role.
     obind (type_value_of p sepol_type) (\<lambda>type.
     obind (if p_mls p = 1 then
              obind (cil_levelrange_to_mls_range L s (context_range ctx) p) (\<lambda>range. Ok (Some range))
            else Ok None) (\<lambda>range.
     Ok \<lparr>context_struct_user = user, context_struct_role = role, context_struct_type = type,
       context_struct_range = range\<rparr>))))))))"

subsection \<open>Object contexts\<close>

text \<open>\<open>cil_add_ocontext\<close>: every function starts with a null \<open>tail\<close>, and then the new context becomes the head of
  the list.\<close>

definition cil_add_ocontext :: "ocontext_kind \<Rightarrow> bool \<Rightarrow> ('h, 'b, 't, 'k, unit) policy" where
  "cil_add_ocontext kind first = modify (p_ocontexts_update (\<lambda>oc. oc(kind :=
     (if first then [] else oc kind) @
     [\<lparr>ocontext_object = No_Object, ocontext_behavior = 0, ocontext_context0 = None, ocontext_context1 = None,
       ocontext_sid = 0\<rparr>])))"

definition update_last :: "('a \<Rightarrow> 'a) \<Rightarrow> 'a list \<Rightarrow> 'a list" where
  "update_last f xs = (if xs = [] then [] else butlast xs @ [f (last xs)])"

definition set_ocontext :: "ocontext_kind \<Rightarrow> ('b ocontext \<Rightarrow> 'b ocontext) \<Rightarrow> ('h, 'b, 't, 'k, unit) policy" where
  "set_ocontext kind f = modify (p_ocontexts_update (\<lambda>oc. oc(kind := update_last f (oc kind))))"

definition set_context0 ::
  "('h, 'b) sepol \<Rightarrow> ('h, 'b, 'z) cil_store_scheme \<Rightarrow> ocontext_kind \<Rightarrow> addr option \<Rightarrow> ('h, 'b, 't, 'k, unit) policy"
where
  "set_context0 L s kind context =
     bind (reading (cil_context_to_sepol_context L s context)) (\<lambda>c.
     set_ocontext kind (ocontext_context0_update (\<lambda>_. Some c)))"

text \<open>The loop over a sorted array, with whether the element is the first.\<close>

definition each_element :: "cil_sort \<Rightarrow> (bool \<Rightarrow> addr \<Rightarrow> ('h, 'b, 't, 'k, unit) policy) \<Rightarrow> ('h, 'b, 't, 'k, unit) policy" where
  "each_element arr body =
     bind (lift (sort_elements arr)) (\<lambda>elements.
     for_each (\<lambda>(i, a). body (i = 0) a) (zip [0..<length elements] elements))"

text \<open>Only a sid with a context is counted.\<close>

fun sidorder_loop ::
  "('h, 'b) sepol \<Rightarrow> ('h, 'b, 'z) cil_store_scheme \<Rightarrow> nat \<Rightarrow> addr list \<Rightarrow> ('h, 'b, 't, 'k, unit) policy"
where
  "sidorder_loop L s n [] = ret ()"
| "sidorder_loop L s n (a # rest) =
     bind (lift (deref (m_sid s) (Some a))) (\<lambda>sid.
     if sid_context sid = None then sidorder_loop L s n rest
     else
       bind (cil_add_ocontext OCON_ISID (n = 0)) (\<lambda>_.
       bind (lift (datum_key s (Some a))) (\<lambda>fqn.
       bind (set_ocontext OCON_ISID
         (\<lambda>oc. oc\<lparr>ocontext_sid := of_nat (Suc n), ocontext_object := Object_Name fqn\<rparr>)) (\<lambda>_.
       bind (set_context0 L s OCON_ISID (sid_context sid)) (\<lambda>_.
       sidorder_loop L s (Suc n) rest)))))"

definition cil_sidorder_to_policydb ::
  "('h, 'b) sepol \<Rightarrow> ('h, 'b, 'z) cil_store_scheme \<Rightarrow> ('h, 'b, 't, 'k, unit) policy"
where
  "cil_sidorder_to_policydb L s = (case sidorder s of None \<Rightarrow> ret () | Some sids \<Rightarrow> sidorder_loop L s 0 sids)"

text \<open>\<open>CIL_PROTOCOL_UDP\<close> is 1 and \<open>CIL_PROTOCOL_TCP\<close> 2.\<close>

definition cil_portcon_to_policydb ::
  "('h, 'b) sepol \<Rightarrow> policy_consts \<Rightarrow> ('h, 'b, 'z) cil_store_scheme \<Rightarrow> cil_sort \<Rightarrow> ('h, 'b, 't, 'k, unit) policy"
where
  "cil_portcon_to_policydb L C s portcons =
     each_element portcons (\<lambda>first a.
       bind (lift (deref (m_portcon s) (Some a))) (\<lambda>portcon.
       bind (cil_add_ocontext OCON_PORT first) (\<lambda>_.
       bind (if portcon_proto portcon = 1 then ret (ipproto_udp C)
             else if portcon_proto portcon = 2 then ret (ipproto_tcp C)
             else fail SEPOL_ERR) (\<lambda>proto.
       bind (set_ocontext OCON_PORT (ocontext_object_update (\<lambda>_.
         Object_Port proto (ucast (portcon_port_low portcon)) (ucast (portcon_port_high portcon))))) (\<lambda>_.
       set_context0 L s OCON_PORT (portcon_context portcon))))))"

definition cil_netifcon_to_policydb ::
  "('h, 'b) sepol \<Rightarrow> ('h, 'b, 'z) cil_store_scheme \<Rightarrow> cil_sort \<Rightarrow> ('h, 'b, 't, 'k, unit) policy"
where
  "cil_netifcon_to_policydb L s netifcons =
     each_element netifcons (\<lambda>first a.
       bind (cil_add_ocontext OCON_NETIF first) (\<lambda>_.
       bind (lift (deref (m_netifcon s) (Some a))) (\<lambda>netifcon.
       bind (set_ocontext OCON_NETIF (ocontext_object_update (\<lambda>_. Object_Name (netifcon_interface_str netifcon)))) (\<lambda>_.
       bind (set_context0 L s OCON_NETIF (netifcon_if_context netifcon)) (\<lambda>_.
       bind (reading (cil_context_to_sepol_context L s (netifcon_packet_context netifcon))) (\<lambda>c.
       set_ocontext OCON_NETIF (ocontext_context1_update (\<lambda>_. Some c))))))))"

text \<open>Addresses of the two families go to two lists; \<open>first\<close> and \<open>first6\<close> tell which tails are null.\<close>

fun nodecon_loop ::
  "('h, 'b) sepol \<Rightarrow> ('h, 'b, 'z) cil_store_scheme \<Rightarrow> bool \<Rightarrow> bool \<Rightarrow> addr list \<Rightarrow> ('h, 'b, 't, 'k, unit) policy"
where
  "nodecon_loop L s first first6 [] = ret ()"
| "nodecon_loop L s first first6 (a # rest) =
     bind (lift (deref (m_nodecon s) (Some a))) (\<lambda>nodecon.
     bind (lift (deref (m_ipaddr s) (nodecon_addr nodecon))) (\<lambda>address.
     if ipaddr_family address = AF_INET then
       bind (cil_add_ocontext OCON_NODE first) (\<lambda>_.
       bind (lift (deref (m_ipaddr s) (nodecon_mask nodecon))) (\<lambda>mask.
       bind (set_ocontext OCON_NODE (ocontext_object_update (\<lambda>_.
         Object_Node (take 4 (ipaddr_bytes address)) (take 4 (ipaddr_bytes mask))))) (\<lambda>_.
       bind (set_context0 L s OCON_NODE (nodecon_context nodecon)) (\<lambda>_.
       nodecon_loop L s False first6 rest))))
     else if ipaddr_family address = AF_INET6 then
       bind (cil_add_ocontext OCON_NODE6 first6) (\<lambda>_.
       bind (lift (deref (m_ipaddr s) (nodecon_mask nodecon))) (\<lambda>mask.
       bind (set_ocontext OCON_NODE6 (ocontext_object_update (\<lambda>_.
         Object_Node6 (take 16 (ipaddr_bytes address)) (take 16 (ipaddr_bytes mask))))) (\<lambda>_.
       bind (set_context0 L s OCON_NODE6 (nodecon_context nodecon)) (\<lambda>_.
       nodecon_loop L s first False rest))))
     else fail SEPOL_ERR))"

definition cil_nodecon_to_policydb ::
  "('h, 'b) sepol \<Rightarrow> ('h, 'b, 'z) cil_store_scheme \<Rightarrow> cil_sort \<Rightarrow> ('h, 'b, 't, 'k, unit) policy"
where
  "cil_nodecon_to_policydb L s nodecons = bind (lift (sort_elements nodecons)) (nodecon_loop L s True True)"

definition cil_fsuse_to_policydb ::
  "('h, 'b) sepol \<Rightarrow> ('h, 'b, 'z) cil_store_scheme \<Rightarrow> cil_sort \<Rightarrow> ('h, 'b, 't, 'k, unit) policy"
where
  "cil_fsuse_to_policydb L s fsuses =
     each_element fsuses (\<lambda>first a.
       bind (cil_add_ocontext OCON_FSUSE first) (\<lambda>_.
       bind (lift (deref (m_fsuse s) (Some a))) (\<lambda>fsuse.
       bind (set_ocontext OCON_FSUSE (\<lambda>oc. oc\<lparr>ocontext_object := Object_Name (fsuse_fs_str fsuse),
         ocontext_behavior := fsuse_kind fsuse\<rparr>)) (\<lambda>_.
       set_context0 L s OCON_FSUSE (fsuse_context fsuse)))))"

text \<open>File systems of one type that follow each other share an entry of the list.\<close>

definition add_genfs :: "bool \<Rightarrow> string \<Rightarrow> 'b ocontext \<Rightarrow> 'b genfs list \<Rightarrow> 'b genfs list" where
  "add_genfs first fs oc gs =
     (if \<not> first \<and> gs \<noteq> [] \<and> genfs_fstype (last gs) = fs then update_last (genfs_head_update (\<lambda>l. l @ [oc])) gs
      else (if first then [] else gs) @ [\<lparr>genfs_fstype = fs, genfs_head = [oc]\<rparr>])"

definition cil_genfscon_to_policydb ::
  "('h, 'b) sepol \<Rightarrow> ('h, 'b, 'z) cil_store_scheme \<Rightarrow> cil_sort \<Rightarrow> ('h, 'b, 't, 'k, unit) policy"
where
  "cil_genfscon_to_policydb L s genfscons =
     each_element genfscons (\<lambda>first a.
       bind (lift (deref (m_genfscon s) (Some a))) (\<lambda>genfscon.
       bind (modify (p_genfs_update (add_genfs first (genfscon_fs_str genfscon)
         \<lparr>ocontext_object = Object_Name (genfscon_path_str genfscon), ocontext_behavior = 0,
           ocontext_context0 = None, ocontext_context1 = None, ocontext_sid = 0\<rparr>))) (\<lambda>_.
       bind (reading (cil_context_to_sepol_context L s (genfscon_context genfscon))) (\<lambda>c.
       modify (p_genfs_update (update_last (genfs_head_update (update_last
         (ocontext_context0_update (\<lambda>_. Some c))))))))))"

definition cil_pirqcon_to_policydb ::
  "('h, 'b) sepol \<Rightarrow> ('h, 'b, 'z) cil_store_scheme \<Rightarrow> cil_sort \<Rightarrow> ('h, 'b, 't, 'k, unit) policy"
where
  "cil_pirqcon_to_policydb L s pirqcons =
     each_element pirqcons (\<lambda>first a.
       bind (cil_add_ocontext OCON_XEN_PIRQ first) (\<lambda>_.
       bind (lift (deref (m_pirqcon s) (Some a))) (\<lambda>pirqcon.
       bind (set_ocontext OCON_XEN_PIRQ (ocontext_object_update (\<lambda>_. Object_Pirq (ucast (pirqcon_pirq pirqcon))))) (\<lambda>_.
       set_context0 L s OCON_XEN_PIRQ (pirqcon_context pirqcon)))))"

definition cil_iomemcon_to_policydb ::
  "('h, 'b) sepol \<Rightarrow> ('h, 'b, 'z) cil_store_scheme \<Rightarrow> cil_sort \<Rightarrow> ('h, 'b, 't, 'k, unit) policy"
where
  "cil_iomemcon_to_policydb L s iomemcons =
     each_element iomemcons (\<lambda>first a.
       bind (cil_add_ocontext OCON_XEN_IOMEM first) (\<lambda>_.
       bind (lift (deref (m_iomemcon s) (Some a))) (\<lambda>iomemcon.
       bind (set_ocontext OCON_XEN_IOMEM (ocontext_object_update (\<lambda>_.
         Object_Iomem (iomemcon_iomem_low iomemcon) (iomemcon_iomem_high iomemcon)))) (\<lambda>_.
       set_context0 L s OCON_XEN_IOMEM (iomemcon_context iomemcon)))))"

definition cil_ioportcon_to_policydb ::
  "('h, 'b) sepol \<Rightarrow> ('h, 'b, 'z) cil_store_scheme \<Rightarrow> cil_sort \<Rightarrow> ('h, 'b, 't, 'k, unit) policy"
where
  "cil_ioportcon_to_policydb L s ioportcons =
     each_element ioportcons (\<lambda>first a.
       bind (cil_add_ocontext OCON_XEN_IOPORT first) (\<lambda>_.
       bind (lift (deref (m_ioportcon s) (Some a))) (\<lambda>ioportcon.
       bind (set_ocontext OCON_XEN_IOPORT (ocontext_object_update (\<lambda>_.
         Object_Ioport (ioportcon_ioport_low ioportcon) (ioportcon_ioport_high ioportcon)))) (\<lambda>_.
       set_context0 L s OCON_XEN_IOPORT (ioportcon_context ioportcon)))))"

definition cil_pcidevicecon_to_policydb ::
  "('h, 'b) sepol \<Rightarrow> ('h, 'b, 'z) cil_store_scheme \<Rightarrow> cil_sort \<Rightarrow> ('h, 'b, 't, 'k, unit) policy"
where
  "cil_pcidevicecon_to_policydb L s pcidevicecons =
     each_element pcidevicecons (\<lambda>first a.
       bind (cil_add_ocontext OCON_XEN_PCIDEVICE first) (\<lambda>_.
       bind (lift (deref (m_pcidevicecon s) (Some a))) (\<lambda>pcidevicecon.
       bind (set_ocontext OCON_XEN_PCIDEVICE (ocontext_object_update (\<lambda>_. Object_Device (pcidevicecon_dev pcidevicecon)))) (\<lambda>_.
       set_context0 L s OCON_XEN_PCIDEVICE (pcidevicecon_context pcidevicecon)))))"

definition cil_contexts_to_policydb ::
  "('h, 'b) sepol \<Rightarrow> policy_consts \<Rightarrow> ('h, 'b, 'z) cil_store_scheme \<Rightarrow> ('h, 'b, 't, 'k, unit) policy"
where
  "cil_contexts_to_policydb L C s =
     bind (cil_portcon_to_policydb L C s (sorts s CIL_PORTCON)) (\<lambda>_.
     bind (cil_netifcon_to_policydb L s (sorts s CIL_NETIFCON)) (\<lambda>_.
     bind (cil_nodecon_to_policydb L s (sorts s CIL_NODECON)) (\<lambda>_.
     bind (cil_fsuse_to_policydb L s (sorts s CIL_FSUSE)) (\<lambda>_.
     bind (cil_genfscon_to_policydb L s (sorts s CIL_GENFSCON)) (\<lambda>_.
     bind (gets p_target_platform) (\<lambda>platform.
     if platform = target_xen C then
       bind (cil_pirqcon_to_policydb L s (sorts s CIL_PIRQCON)) (\<lambda>_.
       bind (cil_iomemcon_to_policydb L s (sorts s CIL_IOMEMCON)) (\<lambda>_.
       bind (cil_ioportcon_to_policydb L s (sorts s CIL_IOPORTCON)) (\<lambda>_.
       cil_pcidevicecon_to_policydb L s (sorts s CIL_PCIDEVICECON))))
     else ret ()))))))"

subsection \<open>Defaults of classes\<close>

text \<open>A \<open>char\<close> field: zero is no default, and a different default is an error.\<close>

definition to_char :: "int \<Rightarrow> int" where
  "to_char v = sint (word_of_int v :: 8 word)"

definition set_default ::
  "(('h, 'b) class_datum \<Rightarrow> int) \<Rightarrow> ((int \<Rightarrow> int) \<Rightarrow> ('h, 'b) class_datum \<Rightarrow> ('h, 'b) class_datum) \<Rightarrow> int \<Rightarrow> addr
   \<Rightarrow> ('h, 'b, 't, 'k, unit) policy"
where
  "set_default field field_update object sepol_class =
     bind (rd d_class sepol_class) (\<lambda>class.
     if field class = 0 then wr d_class d_class_update sepol_class (field_update (\<lambda>_. to_char object))
     else if field class \<noteq> to_char object then fail SEPOL_ERR
     else ret ())"

definition cil_default_to_policydb ::
  "nat \<Rightarrow> ('h, 'b) sepol \<Rightarrow> ('h, 'b, 'z) cil_store_scheme \<Rightarrow> addr \<Rightarrow> ('h, 'b, 't, 'k, unit) policy"
where
  "cil_default_to_policydb fuel L s def' =
     bind (lift (deref (m_default s) (Some def'))) (\<lambda>def.
     bind (lift (not_null (default_class_datums def))) (for_each (\<lambda>curr.
       bind (lift (cil_expand_class fuel L s (Some curr))) (for_each (\<lambda>c.
         or_err
          (bind (reading (cil_get_sepol_class_datum L s (Some c))) (\<lambda>sepol_class.
           if default_kind def = CIL_DEFAULTUSER then
             set_default class_datum_default_user class_datum_default_user_update (default_object def) sepol_class
           else if default_kind def = CIL_DEFAULTROLE then
             set_default class_datum_default_role class_datum_default_role_update (default_object def) sepol_class
           else if default_kind def = CIL_DEFAULTTYPE then
             set_default class_datum_default_type class_datum_default_type_update (default_object def) sepol_class
           else fail SEPOL_ERR)))))))"

definition cil_defaultrange_to_policydb ::
  "nat \<Rightarrow> ('h, 'b) sepol \<Rightarrow> ('h, 'b, 'z) cil_store_scheme \<Rightarrow> addr \<Rightarrow> ('h, 'b, 't, 'k, unit) policy"
where
  "cil_defaultrange_to_policydb fuel L s def' =
     bind (lift (deref (m_defaultrange s) (Some def'))) (\<lambda>def.
     bind (lift (not_null (defaultrange_class_datums def))) (for_each (\<lambda>curr.
       bind (lift (cil_expand_class fuel L s (Some curr))) (for_each (\<lambda>c.
         or_err
          (bind (reading (cil_get_sepol_class_datum L s (Some c))) (\<lambda>sepol_class.
           set_default class_datum_default_range class_datum_default_range_update
             (defaultrange_object_range def) sepol_class)))))))"

end
