(* ===== verification/Cil_Binary.thy ===== *)
theory Cil_Binary
  imports Cil_Policy_Decl Cil_Policy_Contexts
begin

unbundle bit_operations_syntax

text \<open>
  \<open>cil_binary_create\<close> of \<open>src/cil_binary.c\<close>: three walks over the AST that enter its declarations and statements
  into the policy database, then the initial sids, the object contexts and the state of the conditionals.
\<close>

subsection \<open>One node\<close>

definition neverallow_to_policydb ::
  "nat \<Rightarrow> ('h, 'b) sepol \<Rightarrow> ('h, 'b, 't, 'k) policy_lib \<Rightarrow> policy_consts \<Rightarrow> ('h, 'b, 'z) cil_store_scheme \<Rightarrow> addr \<Rightarrow> addr
   \<Rightarrow> ('h, 'b, 't, 'k, unit) policy"
where
  "neverallow_to_policydb fuel L P C s node a =
     bind (modify (neverallows_update (\<lambda>l. \<lparr>neverallow_node = node, neverallow_rules = []\<rparr> # l))) (\<lambda>_.
     cil_avrule_to_policydb fuel L P C s a)"

definition node_to_policydb_1 ::
  "('h, 'b) sepol \<Rightarrow> ('h, 'b, 't, 'k) policy_lib \<Rightarrow> policy_consts \<Rightarrow> ('h, 'b, 'z) cil_store_scheme \<Rightarrow> bool
   \<Rightarrow> cil_flavor \<Rightarrow> addr \<Rightarrow> ('h, 'b, 't, 'k, unit) policy"
where
  "node_to_policydb_1 L P C s with_mls flavor a =
     (if flavor = CIL_ROLE then cil_role_to_policydb L P s a
      else if flavor = CIL_TYPE then cil_type_to_policydb P C s a
      else if flavor = CIL_TYPEATTRIBUTE then cil_typeattribute_to_policydb P C s a
      else if flavor = CIL_POLICYCAP then cil_policycap_to_policydb L s a
      else if flavor = CIL_USER then cil_user_to_policydb L P s a
      else if flavor = CIL_BOOL then cil_bool_to_policydb P s a
      else if flavor = CIL_CATALIAS then (if with_mls then cil_catalias_to_policydb L P s a else ret ())
      else if flavor = CIL_SENS then (if with_mls then cil_sepol_level_define L s a else ret ())
      else ret ())"

definition node_to_policydb_2 ::
  "nat \<Rightarrow> ('h, 'b) sepol \<Rightarrow> ('h, 'b, 't, 'k) policy_lib \<Rightarrow> policy_consts \<Rightarrow> ('h, 'b, 'z) cil_store_scheme \<Rightarrow> bool
   \<Rightarrow> cil_flavor \<Rightarrow> addr \<Rightarrow> addr \<Rightarrow> ('h, 'b, 't, 'k, unit) policy"
where
  "node_to_policydb_2 fuel L P C s with_mls flavor node a =
     (if flavor = CIL_TYPE then cil_type_bounds_to_policydb L s a
      else if flavor = CIL_TYPEALIAS then cil_typealias_to_policydb L P C s a
      else if flavor = CIL_TYPEPERMISSIVE then cil_typepermissive_to_policydb L s a
      else if flavor = CIL_TYPEATTRIBUTE then cil_typeattribute_to_bitmap L s a
      else if flavor = CIL_SENSALIAS then (if with_mls then cil_sensalias_to_policydb L P s a else ret ())
      else if flavor = CIL_ROLE then
        bind (cil_role_bounds_to_policydb L s a) (\<lambda>_. cil_roletype_to_policydb L s a)
      else if flavor = CIL_USER then
        bind (cil_user_bounds_to_policydb L s a) (\<lambda>_.
        if with_mls then cil_userlevel_userrange_to_policydb L s a else ret ())
      else if flavor = CIL_USERROLE then cil_userrole_to_policydb L P s a
      else if flavor = CIL_TYPE_RULE then cil_type_rule_to_policydb fuel L P C s a
      else if flavor = CIL_AVRULE then
        bind (lift (deref (m_avrule s) (Some a))) (\<lambda>rule.
        if avrule_rule_kind rule = CIL_AVRULE_NEVERALLOW then neverallow_to_policydb fuel L P C s node a else ret ())
      else if flavor = CIL_ROLETRANSITION then cil_roletrans_to_policydb fuel L P s a
      else if flavor = CIL_NAMETYPETRANSITION then cil_typetransition_to_policydb fuel L P C s a
      else if flavor = CIL_CONSTRAIN then cil_constrain_to_policydb fuel L P C s a
      else if flavor = CIL_MLSCONSTRAIN then (if with_mls then cil_constrain_to_policydb fuel L P C s a else ret ())
      else if flavor = CIL_VALIDATETRANS then cil_validatetrans_to_policydb fuel L P C s a
      else if flavor = CIL_MLSVALIDATETRANS then (if with_mls then cil_validatetrans_to_policydb fuel L P C s a else ret ())
      else if flavor = CIL_RANGETRANSITION then (if with_mls then cil_rangetransition_to_policydb fuel L P s a else ret ())
      else if flavor = CIL_DEFAULTUSER \<or> flavor = CIL_DEFAULTROLE \<or> flavor = CIL_DEFAULTTYPE then
        cil_default_to_policydb fuel L s a
      else if flavor = CIL_DEFAULTRANGE then cil_defaultrange_to_policydb fuel L s a
      else ret ())"

definition node_to_policydb_3 ::
  "nat \<Rightarrow> ('h, 'b) sepol \<Rightarrow> ('h, 'b, 't, 'k) policy_lib \<Rightarrow> policy_consts \<Rightarrow> ('h, 'b, 'z) cil_store_scheme
   \<Rightarrow> cil_flavor \<Rightarrow> addr \<Rightarrow> addr \<Rightarrow> ('h, 'b, 't, 'k, unit) policy"
where
  "node_to_policydb_3 fuel L P C s flavor node a =
     (if flavor = CIL_BOOLEANIF then cil_booleanif_to_policydb fuel L P C s node
      else if flavor = CIL_AVRULE then
        bind (lift (deref (m_avrule s) (Some a))) (\<lambda>rule.
        if avrule_rule_kind rule \<noteq> CIL_AVRULE_NEVERALLOW then cil_avrule_to_policydb fuel L P C s a else ret ())
      else if flavor = CIL_ROLEALLOW then cil_roleallow_to_policydb L P s a
      else ret ())"

text \<open>Of the nodes of a declaration only the first one counts.\<close>

definition cil_node_to_policydb ::
  "nat \<Rightarrow> ('h, 'b) sepol \<Rightarrow> ('h, 'b, 't, 'k) policy_lib \<Rightarrow> policy_consts \<Rightarrow> ('h, 'b, 'z) cil_store_scheme \<Rightarrow> nat \<Rightarrow> addr
   \<Rightarrow> ('h, 'b, 't, 'k, unit) policy"
where
  "cil_node_to_policydb fuel L P C s pass_number node =
     bind (lift (deref (nodes s) (Some node))) (\<lambda>nd.
     bind (lift (if CIL_MIN_DECLARATIVE \<le> node_flavor nd then obind (NODE s (node_data nd)) (\<lambda>first. Ok (first = node))
                 else Ok True)) (\<lambda>live.
     if \<not> live then ret ()
     else
       bind (gets (\<lambda>p. p_mls p = 1)) (\<lambda>with_mls.
       case node_data nd of
         None \<Rightarrow> ret ()
       | Some a \<Rightarrow>
           if pass_number = 1 then node_to_policydb_1 L P C s with_mls (node_flavor nd) a
           else if pass_number = 2 then node_to_policydb_2 fuel L P C s with_mls (node_flavor nd) node a
           else if pass_number = 3 then node_to_policydb_3 fuel L P C s (node_flavor nd) node a
           else ret ())))"

definition cil_binary_create_helper ::
  "nat \<Rightarrow> ('h, 'b) sepol \<Rightarrow> ('h, 'b, 't, 'k) policy_lib \<Rightarrow> policy_consts \<Rightarrow> ('h, 'b, 'z) cil_store_scheme \<Rightarrow> nat \<Rightarrow> addr
   \<Rightarrow> ('h, 'b, 't, 'k, nat) policy"
where
  "cil_binary_create_helper fuel L P C s pass_number node =
     bind (lift (deref (nodes s) (Some node))) (\<lambda>nd.
     let convert = (\<lambda>finished. bind (cil_node_to_policydb fuel L P C s pass_number node) (\<lambda>_. ret finished)) in
     if node_flavor nd = CIL_BLOCK then
       bind (lift (deref (m_block s) (node_data nd))) (\<lambda>blk.
       if block_is_abstract blk then ret CIL_TREE_SKIP_HEAD else convert CIL_TREE_SKIP_NOTHING)
     else if node_flavor nd = CIL_MACRO then ret CIL_TREE_SKIP_HEAD
     else if node_flavor nd = CIL_BOOLEANIF then convert CIL_TREE_SKIP_HEAD
     else convert CIL_TREE_SKIP_NOTHING)"

subsection \<open>The state of the conditionals\<close>

definition bool_state :: "('h, 'b, 't, 'k) policydb \<Rightarrow> 32 word \<Rightarrow> bool" where
  "bool_state p v =
     (case array_get (val_to_struct p SYM_BOOLS) (unat (v - 1)) of
       Ok (Some a) \<Rightarrow> (case d_bool p a of Some b \<Rightarrow> bool_datum_state b | None \<Rightarrow> False)
     | _ \<Rightarrow> False)"

definition set_enabled ::
  "('h, 'b, 't, 'k) policy_lib \<Rightarrow> policy_consts \<Rightarrow> bool \<Rightarrow> addr \<Rightarrow> ('h, 'b, 't, 'k, unit) policy"
where
  "set_enabled P C enabled n =
     bind (gets te_cond_avtab) (\<lambda>t.
     bind (lift (avtab_node P t n)) (\<lambda>nd.
     modify (te_cond_avtab_update (\<lambda>_. avtab_set_node P t n
       (nd\<lparr>avtab_node_key := key_specified_update
         (\<lambda>sp. if enabled then sp OR avtab_enabled C else sp AND NOT (avtab_enabled C)) (avtab_node_key nd)\<rparr>)))))"

text \<open>\<open>new_state\<close> is 1, 0, or \<open>-1\<close> when the expression has no value, which disables the rules of both branches.\<close>

definition set_conditional_state ::
  "('h, 'b, 't, 'k) policy_lib \<Rightarrow> policy_consts \<Rightarrow> addr \<Rightarrow> ('h, 'b, 't, 'k, unit) policy"
where
  "set_conditional_state P C cur =
     bind (rd d_cond cur) (\<lambda>c.
     bind (gets (\<lambda>p. cond_evaluate_expr P (bool_state p) (cond_node_expr c))) (\<lambda>new_state.
     bind (wr d_cond d_cond_update cur (cond_node_cur_state_update (\<lambda>_. new_state))) (\<lambda>_.
     bind (for_each (set_enabled P C (\<not> new_state \<le> 0)) (cond_node_true_list c)) (\<lambda>_.
     for_each (set_enabled P C (new_state = 0)) (cond_node_false_list c)))))"

definition cil_set_conditional_state_and_flags ::
  "('h, 'b, 't, 'k) policy_lib \<Rightarrow> policy_consts \<Rightarrow> ('h, 'b, 't, 'k, unit) policy"
where
  "cil_set_conditional_state_and_flags P C = bind (gets cond_list) (for_each (set_conditional_state P C))"

text \<open>\<open>cond_optimize_lists\<close> works on the two lists of every conditional.\<close>

definition cond_optimize_lists :: "('h, 'b, 't, 'k) policy_lib \<Rightarrow> ('h, 'b, 't, 'k, unit) policy" where
  "cond_optimize_lists P =
     bind (gets cond_list) (for_each (\<lambda>a. wr d_cond d_cond_update a
       (\<lambda>c. c\<lparr>cond_node_true_list := cond_optimize_list P (cond_node_true_list c),
         cond_node_false_list := cond_optimize_list P (cond_node_false_list c)\<rparr>)))"

subsection \<open>The whole policy\<close>

definition alloc_avtab ::
  "('h, 'b, 't, 'k) policy_lib \<Rightarrow> (('h, 'b, 't, 'k) policydb \<Rightarrow> 't)
   \<Rightarrow> (('t \<Rightarrow> 't) \<Rightarrow> ('h, 'b, 't, 'k) policydb \<Rightarrow> ('h, 'b, 't, 'k) policydb) \<Rightarrow> ('h, 'b, 't, 'k, unit) policy"
where
  "alloc_avtab P field field_update = (\<lambda>p. case avtab_alloc P (field p) of (rc, t) \<Rightarrow> (return_code rc (), field_update (\<lambda>_. t) p))"

definition cil_policydb_init ::
  "nat \<Rightarrow> ('h, 'b) sepol \<Rightarrow> ('h, 'b, 't, 'k) policy_lib \<Rightarrow> ('h, 'b, 'z) cil_store_scheme \<Rightarrow> ('h, 'b, 't, 'k, unit) policy"
where
  "cil_policydb_init fuel L P s =
     bind (modify (\<lambda>p. p\<lparr>p_handle_unknown := db_handle_unknown s, p_mls := db_mls s\<rparr>)) (\<lambda>_.
     bind (cil_classorder_to_policydb fuel L P s) (\<lambda>_.
     bind (if db_mls s = 1 then
             bind (cil_catorder_to_policydb P s) (\<lambda>_. cil_sensitivityorder_to_policydb L P s)
           else ret ()) (\<lambda>_.
     bind (alloc_avtab P te_avtab te_avtab_update) (\<lambda>_.
     alloc_avtab P te_cond_avtab te_cond_avtab_update))))"

text \<open>The tables that find duplicates. When one cannot be made, the cleanup destroys the list of neverallows, which
  is still null.\<close>

definition create_tables :: "('h, 'b, 't, 'k) policy_lib \<Rightarrow> ('h, 'b, 't, 'k, unit) policy" where
  "create_tables P =
     bind (lift (not_null (trans_create P filename_trans_hash filename_trans_compare (push_bit 16 1)))) (\<lambda>f.
     bind (lift (not_null (trans_create P range_trans_hash range_trans_compare (push_bit 13 1)))) (\<lambda>g.
     bind (lift (not_null (trans_create P role_trans_hash role_trans_compare (push_bit 10 1)))) (\<lambda>h.
     modify (\<lambda>p. p\<lparr>filename_trans_table := Some f, range_trans_table := Some g, role_trans_table := Some h,
       neverallows := []\<rparr>))))"

definition binary_pass ::
  "nat \<Rightarrow> ('h, 'b) sepol \<Rightarrow> ('h, 'b, 't, 'k) policy_lib \<Rightarrow> policy_consts \<Rightarrow> ('h, 'b, 'z) cil_store_scheme \<Rightarrow> nat
   \<Rightarrow> ('h, 'b, 't, 'k, unit) policy"
where
  "binary_pass fuel L P C s i =
     bind (policy_walk fuel s (cil_binary_create_helper fuel L P C s i) (ast_root s)) (\<lambda>_.
     if i = 1 then cil_policydb_val_arrays_create L else ret ())"

text \<open>The tables and the list of \<open>neverallow\<close> rules are freed at the end, also after an error.\<close>

definition destroy_tables :: "('h, 'b, 't, 'k, unit) policy" where
  "destroy_tables = modify (\<lambda>p. p\<lparr>filename_trans_table := None, range_trans_table := None, role_trans_table := None,
     neverallows := []\<rparr>)"

definition cil_binary_create ::
  "nat \<Rightarrow> ('h, 'b) sepol \<Rightarrow> ('h, 'b, 't, 'k) policy_lib \<Rightarrow> policy_consts \<Rightarrow> ('h, 'b, 'z) cil_store_scheme
   \<Rightarrow> ('h, 'b, 't, 'k, unit) policy"
where
  "cil_binary_create fuel L P C s =
     bind (or_err (cil_policydb_init fuel L P s)) (\<lambda>_.
     bind (create_tables P) (\<lambda>_.
     bind (attempt (
       bind (for_each (binary_pass fuel L P C s) [1, 2, 3]) (\<lambda>_.
       bind (cil_sidorder_to_policydb L s) (\<lambda>_.
       bind (cil_contexts_to_policydb L C s) (\<lambda>_.
       bind (gets p_type_attr_map) (\<lambda>maps.
       bind (if maps = None then cil_typeattr_bitmap_init L else ret ()) (\<lambda>_.
       bind (cond_optimize_lists P) (\<lambda>_.
       cil_set_conditional_state_and_flags P C)))))))) (\<lambda>rc.
     bind destroy_tables (\<lambda>_.
     case rc of Inl e \<Rightarrow> fail e | Inr _ \<Rightarrow> ret ()))))"

end
