(* ===== verification/Cil_Policy_Laws.thy ===== *)
theory Cil_Policy_Laws
  imports Cil_Policy_Rules
begin

unbundle bit_operations_syntax

text \<open>
  What the compiler relies on in the access vector tables and bitmaps of libsepol, an instance of its interface that
  keeps these laws, and what a table says about a key.
\<close>

subsection \<open>Access vector tables\<close>

text \<open>\<open>avtab_search\<close> finds a node with the types and the class of the key and a kind in common with it.\<close>

definition key_match :: "avtab_key \<Rightarrow> avtab_key \<Rightarrow> bool" where
  "key_match k k' \<longleftrightarrow> key_source_type k = key_source_type k' \<and> key_target_type k = key_target_type k' \<and>
     key_target_class k = key_target_class k' \<and> key_specified k AND key_specified k' \<noteq> 0"

text \<open>The kinds are single bits: they have no bit in common.\<close>

definition avtab_kinds :: "policy_consts \<Rightarrow> 16 word list" where
  "avtab_kinds C = [avtab_allowed C, avtab_auditallow C, avtab_auditdeny C, avtab_transition C, avtab_member C, avtab_change C]"

definition avtab_codes :: "policy_consts \<Rightarrow> bool" where
  "avtab_codes C \<longleftrightarrow> (\<forall>x \<in> set (avtab_kinds C). \<forall>y \<in> set (avtab_kinds C). (x AND y \<noteq> 0) = (x = y)) \<and> distinct (avtab_kinds C)"

text \<open>The laws are about keys of one of the kinds. An insertion of a new key takes a new node.\<close>

definition avtab_laws :: "('h, 'b, 't, 'k) policy_lib \<Rightarrow> policy_consts \<Rightarrow> bool" where
  "avtab_laws P C \<longleftrightarrow>
     (\<forall>t k. key_specified k \<in> set (avtab_kinds C) \<longrightarrow> (case avtab_search_node P t k of
         Some n \<Rightarrow> \<exists>nd. avtab_node_at P t n = Some nd \<and> key_match (avtab_node_key nd) k
       | None \<Rightarrow> \<forall>n nd. avtab_node_at P t n = Some nd \<longrightarrow> \<not> key_match (avtab_node_key nd) k)) \<and>
     (\<forall>t k. key_specified k \<in> set (avtab_kinds C) \<longrightarrow> avtab_search P t k = avtab_search_node P t k) \<and>
     (\<forall>t k d. key_specified k \<in> set (avtab_kinds C) \<longrightarrow> avtab_search_node P t k = None \<longrightarrow> (\<exists>n t'. avtab_insert P t k d = (None, t') \<and> avtab_node_at P t n = None \<and>
       avtab_node_at P t' = (avtab_node_at P t)
         (n \<mapsto> \<lparr>avtab_node_key = k, avtab_node_data = d, avtab_node_parse_context = False\<rparr>))) \<and>
     (\<forall>t k d. \<exists>n t'. avtab_insert_nonunique P t k d = Some (n, t') \<and> avtab_node_at P t n = None \<and>
       avtab_node_at P t' = (avtab_node_at P t)
         (n \<mapsto> \<lparr>avtab_node_key = k, avtab_node_data = d, avtab_node_parse_context = False\<rparr>)) \<and>
     (\<forall>t n nd. avtab_node_at P t n \<noteq> None \<longrightarrow> avtab_node_at P (avtab_set_node P t n nd) = (avtab_node_at P t)(n \<mapsto> nd))"

lemma avtab_search_Some:
  assumes "avtab_laws P C" and "key_specified k \<in> set (avtab_kinds C)" and "avtab_search_node P t k = Some n"
  obtains nd where "avtab_node_at P t n = Some nd" "key_match (avtab_node_key nd) k"
proof -
  from assms(1,2) have "case avtab_search_node P t k of
         Some n \<Rightarrow> \<exists>nd. avtab_node_at P t n = Some nd \<and> key_match (avtab_node_key nd) k
       | None \<Rightarrow> \<forall>n nd. avtab_node_at P t n = Some nd \<longrightarrow> \<not> key_match (avtab_node_key nd) k"
    unfolding avtab_laws_def by blast
  with assms(3) that show ?thesis by auto
qed

lemma avtab_search_None:
  assumes "avtab_laws P C" and "key_specified k \<in> set (avtab_kinds C)" and "avtab_search_node P t k = None" and "avtab_node_at P t n = Some nd"
  shows "\<not> key_match (avtab_node_key nd) k"
proof -
  from assms(1,2) have "case avtab_search_node P t k of
         Some n \<Rightarrow> \<exists>nd. avtab_node_at P t n = Some nd \<and> key_match (avtab_node_key nd) k
       | None \<Rightarrow> \<forall>n nd. avtab_node_at P t n = Some nd \<longrightarrow> \<not> key_match (avtab_node_key nd) k"
    unfolding avtab_laws_def by blast
  with assms(3,4) show ?thesis by simp
qed

lemma avtab_search_eq: "avtab_laws P C \<Longrightarrow> key_specified k \<in> set (avtab_kinds C) \<Longrightarrow> avtab_search P t k = avtab_search_node P t k"
  unfolding avtab_laws_def by blast

lemma avtab_insert_new:
  assumes "avtab_laws P C" and "key_specified k \<in> set (avtab_kinds C)" and "avtab_search_node P t k = None"
  obtains n t' where "avtab_insert P t k d = (None, t')" "avtab_node_at P t n = None"
    "avtab_node_at P t' = (avtab_node_at P t)
       (n \<mapsto> \<lparr>avtab_node_key = k, avtab_node_data = d, avtab_node_parse_context = False\<rparr>)"
  using assms unfolding avtab_laws_def by blast

lemma avtab_set_known:
  "avtab_laws P C \<Longrightarrow> avtab_node_at P t n = Some x \<Longrightarrow> avtab_node_at P (avtab_set_node P t n nd) = (avtab_node_at P t)(n \<mapsto> nd)"
  unfolding avtab_laws_def by blast

text \<open>In the table of unconditional rules there is one node for a key, of one kind.\<close>

definition unique_keys :: "('h, 'b, 't, 'k) policy_lib \<Rightarrow> policy_consts \<Rightarrow> 't \<Rightarrow> bool" where
  "unique_keys P C t \<longleftrightarrow>
     (\<forall>n nd. avtab_node_at P t n = Some nd \<longrightarrow> key_specified (avtab_node_key nd) \<in> set (avtab_kinds C)) \<and>
     (\<forall>m n x y. avtab_node_at P t m = Some x \<longrightarrow> avtab_node_at P t n = Some y \<longrightarrow>
       avtab_node_key x = avtab_node_key y \<longrightarrow> m = n)"

definition te_data :: "('h, 'b, 't, 'k) policy_lib \<Rightarrow> 't \<Rightarrow> avtab_key \<Rightarrow> 32 word option" where
  "te_data P t k =
     (case avtab_search_node P t k of None \<Rightarrow> None | Some n \<Rightarrow> map_option avtab_node_data (avtab_node_at P t n))"

lemma key_match_eq:
  assumes "avtab_codes C" and "key_specified k \<in> set (avtab_kinds C)" and "key_specified k' \<in> set (avtab_kinds C)"
  shows "key_match k k' \<longleftrightarrow> k = k'"
  using assms by (auto simp: avtab_codes_def key_match_def)

lemma unique_keysD:
  assumes "unique_keys P C t"
  shows "avtab_node_at P t n = Some nd \<Longrightarrow> key_specified (avtab_node_key nd) \<in> set (avtab_kinds C)"
    and "avtab_node_at P t m = Some x \<Longrightarrow> avtab_node_at P t n = Some y \<Longrightarrow> avtab_node_key x = avtab_node_key y \<Longrightarrow> m = n"
  using assms unfolding unique_keys_def by blast+

definition nodes_for :: "('h, 'b, 't, 'k) policy_lib \<Rightarrow> 't \<Rightarrow> avtab_key \<Rightarrow> addr \<Rightarrow> avtab_node \<Rightarrow> bool" where
  "nodes_for P t k n nd \<longleftrightarrow> avtab_node_at P t n = Some nd \<and> avtab_node_key nd = k"

lemma search_key:
  assumes laws: "avtab_laws P C" "avtab_codes C" and t: "unique_keys P C t" and k: "key_specified k \<in> set (avtab_kinds C)"
    and n: "avtab_search_node P t k = Some n"
  obtains nd where "avtab_node_at P t n = Some nd" "avtab_node_key nd = k" "te_data P t k = Some (avtab_node_data nd)"
proof -
  obtain nd where nd: "avtab_node_at P t n = Some nd" "key_match (avtab_node_key nd) k"
    using avtab_search_Some [OF laws(1) k n] .
  have "avtab_node_key nd = k" using key_match_eq [OF laws(2) unique_keysD(1) [OF t nd(1)] k] nd(2) by blast
  moreover have "te_data P t k = Some (avtab_node_data nd)" by (simp add: te_data_def n nd(1))
  ultimately show ?thesis using nd(1) that by blast
qed

lemma search_none:
  assumes laws: "avtab_laws P C" "avtab_codes C" and t: "unique_keys P C t" and k: "key_specified k \<in> set (avtab_kinds C)"
    and n: "avtab_search_node P t k = None"
  shows "\<not> nodes_for P t k m nd" and "te_data P t k = None"
proof -
  show "\<not> nodes_for P t k m nd"
  proof
    assume nd: "nodes_for P t k m nd"
    then have "\<not> key_match (avtab_node_key nd) k" using avtab_search_None [OF laws(1) k n, of m nd] by (auto simp: nodes_for_def)
    then show False using nd key_match_eq [OF laws(2) k k] by (auto simp: nodes_for_def)
  qed
  show "te_data P t k = None" by (simp add: te_data_def n)
qed

lemma te_data_iff:
  assumes laws: "avtab_laws P C" "avtab_codes C" and t: "unique_keys P C t" and k: "key_specified k \<in> set (avtab_kinds C)"
  shows "te_data P t k = Some d \<longleftrightarrow> (\<exists>n nd. nodes_for P t k n nd \<and> avtab_node_data nd = d)"
proof (cases "avtab_search_node P t k")
  case None
  with search_none [OF assms None] show ?thesis by simp
next
  case (Some n)
  obtain nd where nd: "nodes_for P t k n nd" "te_data P t k = Some (avtab_node_data nd)"
    using search_key [OF assms Some] by (auto simp: nodes_for_def)
  have "x = nd" if "nodes_for P t k m x" for m x
    using that nd(1) unique_keysD(2) [OF t, of m x n nd] by (auto simp: nodes_for_def)
  with nd show ?thesis by (metis option.inject)
qed

lemma option_eqI: "(\<And>d. x = Some d \<longleftrightarrow> y = Some d) \<Longrightarrow> x = y"
  by (cases x; cases y) auto

text \<open>The two ways in which a table of unconditional rules changes.\<close>

lemma te_data_insert:
  assumes laws: "avtab_laws P C" "avtab_codes C" and t: "unique_keys P C t" and k: "key_specified k \<in> set (avtab_kinds C)"
    and none: "avtab_search_node P t k = None"
  obtains t' where "avtab_insert P t k d = (None, t')" "unique_keys P C t'"
    "\<And>k'. key_specified k' \<in> set (avtab_kinds C) \<Longrightarrow> te_data P t' k' = (if k' = k then Some d else te_data P t k')"
proof -
  obtain n t' where t': "avtab_insert P t k d = (None, t')" "avtab_node_at P t n = None"
    "avtab_node_at P t' = (avtab_node_at P t)
         (n \<mapsto> \<lparr>avtab_node_key = k, avtab_node_data = d, avtab_node_parse_context = False\<rparr>)"
    using avtab_insert_new [OF laws(1) k none] .
  let ?nd = "\<lparr>avtab_node_key = k, avtab_node_data = d, avtab_node_parse_context = False\<rparr>"
  have fresh: "avtab_node_key nd \<noteq> k" if "avtab_node_at P t m = Some nd" for m nd
    using search_none(1) [OF laws t k none, of m nd] that by (simp add: nodes_for_def)
  have at: "avtab_node_at P t' m = Some x \<longleftrightarrow> (if m = n then x = ?nd else avtab_node_at P t m = Some x)" for m x
    unfolding t'(3) by auto
  have unique: "unique_keys P C t'"
    unfolding unique_keys_def at
  proof (intro conjI allI impI)
    fix m x assume "if m = n then x = ?nd else avtab_node_at P t m = Some x"
    then show "key_specified (avtab_node_key x) \<in> set (avtab_kinds C)"
      using k unique_keysD(1) [OF t] by (auto split: if_split_asm)
  next
    fix m m' x y
    assume "if m = n then x = ?nd else avtab_node_at P t m = Some x" "if m' = n then y = ?nd else avtab_node_at P t m' = Some y"
      "avtab_node_key x = avtab_node_key y"
    then show "m = m'" using fresh unique_keysD(2) [OF t] by (auto split: if_split_asm)
  qed
  have nodes: "nodes_for P t' k' m x \<longleftrightarrow> (if k' = k then m = n \<and> x = ?nd else nodes_for P t k' m x)" for k' m x
    using fresh t'(2) by (auto simp: nodes_for_def at split: if_split_asm)
  have "te_data P t' k' = (if k' = k then Some d else te_data P t k')" if k': "key_specified k' \<in> set (avtab_kinds C)" for k'
    by (rule option_eqI) (auto simp: te_data_iff [OF laws unique k'] te_data_iff [OF laws t k'] nodes)
  with t'(1) unique show ?thesis by (rule that)
qed

lemma te_data_set:
  assumes laws: "avtab_laws P C" "avtab_codes C" and t: "unique_keys P C t" and k: "key_specified k \<in> set (avtab_kinds C)"
    and some: "avtab_search_node P t k = Some n"
  obtains nd where "avtab_node_at P t n = Some nd" "te_data P t k = Some (avtab_node_data nd)"
    "\<And>f. unique_keys P C (avtab_set_node P t n (avtab_node_data_update f nd))"
    "\<And>f k'. key_specified k' \<in> set (avtab_kinds C) \<Longrightarrow> te_data P (avtab_set_node P t n (avtab_node_data_update f nd)) k' =
      (if k' = k then Some (f (avtab_node_data nd)) else te_data P t k')"
proof -
  obtain nd where nd: "avtab_node_at P t n = Some nd" "avtab_node_key nd = k" "te_data P t k = Some (avtab_node_data nd)"
    using search_key [OF assms] .
  define t' where "t' f = avtab_set_node P t n (avtab_node_data_update f nd)" for f
  have at: "avtab_node_at P (t' f) m = Some x \<longleftrightarrow>
      (if m = n then x = avtab_node_data_update f nd else avtab_node_at P t m = Some x)" for f m x
    unfolding t'_def avtab_set_known [OF laws(1) nd(1)] by auto
  have other: "m = n" if "avtab_node_at P t m = Some x" "avtab_node_key x = k" for m x
    using unique_keysD(2) [OF t that(1) nd(1)] that(2) nd(2) by simp
  have unique: "unique_keys P C (t' f)" for f
    unfolding unique_keys_def at
  proof (intro conjI allI impI)
    fix m x assume "if m = n then x = avtab_node_data_update f nd else avtab_node_at P t m = Some x"
    then show "key_specified (avtab_node_key x) \<in> set (avtab_kinds C)"
      using unique_keysD(1) [OF t] nd(1) by (auto split: if_split_asm)
  next
    fix m m' x y
    assume "if m = n then x = avtab_node_data_update f nd else avtab_node_at P t m = Some x"
      "if m' = n then y = avtab_node_data_update f nd else avtab_node_at P t m' = Some y"
      "avtab_node_key x = avtab_node_key y"
    note xy = this
    have "\<exists>x'. avtab_node_at P t m = Some x' \<and> avtab_node_key x' = avtab_node_key x"
      using xy(1) nd(1) by (cases "m = n") auto
    moreover have "\<exists>y'. avtab_node_at P t m' = Some y' \<and> avtab_node_key y' = avtab_node_key y"
      using xy(2) nd(1) by (cases "m' = n") auto
    ultimately show "m = m'" using unique_keysD(2) [OF t] xy(3) by metis
  qed
  have here: "nodes_for P (t' f) k m x \<longleftrightarrow> m = n \<and> x = avtab_node_data_update f nd" for f m x
    unfolding nodes_for_def at using other nd(2) by (cases "m = n") auto
  have others: "nodes_for P (t' f) k' m x \<longleftrightarrow> nodes_for P t k' m x" if "k' \<noteq> k" for f k' m x
    unfolding nodes_for_def at using that nd(1,2) by (cases "m = n") auto
  have "te_data P (t' f) k' = (if k' = k then Some (f (avtab_node_data nd)) else te_data P t k')"
    if k': "key_specified k' \<in> set (avtab_kinds C)" for f k'
  proof (cases "k' = k")
    case True
    have "te_data P (t' f) k = Some (f (avtab_node_data nd))"
      unfolding te_data_iff [OF laws unique k]
      by (intro exI [of _ n] exI [of _ "avtab_node_data_update f nd"]) (simp add: here)
    with True show ?thesis by simp
  next
    case False
    have "te_data P (t' f) k' = te_data P t k'"
      by (rule option_eqI) (simp only: te_data_iff [OF laws unique k'] te_data_iff [OF laws t k'] others [OF False])
    with False show ?thesis by simp
  qed
  with nd(1,3) unique show ?thesis unfolding t'_def by (intro that)
qed

end
