(* ===== verification/Cil_Policy_Avtab.thy ===== *)
theory Cil_Policy_Avtab
  imports Cil_Policy_Laws
begin

unbundle bit_operations_syntax

text \<open>
  What the tables of rules contain after a sequence of unconditional access vector rules or type rules, and a small
  instance of libsepol on which the compiler runs in examples.
\<close>

subsection \<open>An instance of the library\<close>

definition consts0 :: policy_consts where
  "consts0 =
    \<lparr>avtab_allowed = 1, avtab_auditallow = 2, avtab_auditdeny = 4, avtab_transition = 16, avtab_member = 32,
     avtab_change = 64, avtab_enabled = 0x8000,
     cond_bool = 1, cond_not = 2, cond_or = 3, cond_and = 4, cond_xor = 5, cond_eq = 6, cond_neq = 7,
     cexpr_not = 1, cexpr_and = 2, cexpr_or = 3, cexpr_attribute = 4, cexpr_named = 5,
     cexpr_eq = 1, cexpr_neq = 2, cexpr_dom = 3, cexpr_domby = 4, cexpr_incomp = 5,
     cexpr_user = 1, cexpr_role = 2, cexpr_type = 4, cexpr_target = 8, cexpr_xtarget = 16, cexpr_l1l2 = 32,
     cexpr_l1h2 = 64, cexpr_h1l2 = 128, cexpr_h1h2 = 256, cexpr_l1h1 = 512, cexpr_l2h2 = 1024,
     type_type = 0, type_attrib = 1, constraint_names_version = 29, target_xen = 1, ipproto_udp = 17, ipproto_tcp = 6\<rparr>"

definition table_search :: "avtab_node list \<Rightarrow> avtab_key \<Rightarrow> addr option" where
  "table_search t k = (case filter (\<lambda>n. key_match (avtab_node_key (t ! n)) k) [0..<length t] of [] \<Rightarrow> None | n # _ \<Rightarrow> Some n)"

definition table_node :: "avtab_key \<Rightarrow> 32 word \<Rightarrow> avtab_node" where
  "table_node k d = \<lparr>avtab_node_key = k, avtab_node_data = d, avtab_node_parse_context = False\<rparr>"

definition word_of_bits :: "nat list \<Rightarrow> nat \<Rightarrow> 64 word" where
  "word_of_bits b n = foldr (\<lambda>i w. w OR push_bit i 1) (map (\<lambda>i. i - n) (filter (\<lambda>i. n \<le> i \<and> i < n + 64) b)) 0"

definition lib0 :: "((string \<times> addr) list, nat list, avtab_node list, nat list transition list) policy_lib" where
  "lib0 =
    \<lparr>symtab_init = Some \<lparr>symtab_table = [], symtab_nprim = 0\<rparr>,
     symtab_insert = (\<lambda>symbol k a counted tab.
       if map_of (symtab_table tab) k \<noteq> None then (Some SEPOL_EEXIST, 0, tab)
       else let v = (if counted then symtab_nprim tab + 1 else symtab_nprim tab) in
         (None, v, \<lparr>symtab_table = (k, a) # symtab_table tab, symtab_nprim = v\<rparr>)),
     eb_cpy = Some,
     eb_nodes = (\<lambda>b. map (\<lambda>n. (n, word_of_bits b n)) (remdups (sort (map (\<lambda>i. 64 * (i div 64)) b)))),
     avtab_alloc = (\<lambda>t. (None, t)),
     avtab_search = table_search,
     avtab_search_node = table_search,
     avtab_insert = (\<lambda>t k d. if table_search t k \<noteq> None then (Some SEPOL_EEXIST, t) else (None, t @ [table_node k d])),
     avtab_insert_nonunique = (\<lambda>t k d. Some (length t, t @ [table_node k d])),
     avtab_node_at = (\<lambda>t n. if n < length t then Some (t ! n) else None),
     avtab_set_node = (\<lambda>t n nd. t[n := nd]),
     cond_node_create = Some \<lparr>cond_node_expr = [], cond_node_true_list = [], cond_node_false_list = [], cond_node_cur_state = -1\<rparr>,
     cond_normalize_expr = (\<lambda>c. (None, c)),
     cond_node_find = (\<lambda>c cs. Some (Inr c)),
     cond_evaluate_expr = (\<lambda>val es. -1),
     cond_optimize_list = (\<lambda>ns. ns),
     trans_create = (\<lambda>hash compare n. Some []),
     trans_insert = (\<lambda>t x. (None, x # t)),
     trans_search = (\<lambda>t x. if x \<in> set t then Some x else None),
     mls_range_eq = (\<lambda>x y. x = y),
     mls_level_cpy = Some,
     constraint_expr_init = Some \<lparr>cexpr_kind = 0, cexpr_attr = 0, cexpr_op = 0, cexpr_names = [], cexpr_type_names = []\<rparr>\<rparr>"

lemma table_search_Some: "table_search t k = Some n \<Longrightarrow> n < length t \<and> key_match (avtab_node_key (t ! n)) k"
proof -
  assume "table_search t k = Some n"
  then have "n \<in> set (filter (\<lambda>n. key_match (avtab_node_key (t ! n)) k) [0..<length t])"
    unfolding table_search_def by (cases "filter (\<lambda>n. key_match (avtab_node_key (t ! n)) k) [0..<length t]") simp_all
  then show ?thesis by simp
qed

lemma table_search_None: "table_search t k = None \<Longrightarrow> n < length t \<Longrightarrow> \<not> key_match (avtab_node_key (t ! n)) k"
  unfolding table_search_def by (auto split: list.splits simp: filter_empty_conv)

lemma lib0_simps [simp]:
  "avtab_search lib0 = table_search" "avtab_search_node lib0 = table_search"
  "avtab_insert lib0 t k d = (if table_search t k \<noteq> None then (Some SEPOL_EEXIST, t) else (None, t @ [table_node k d]))"
  "avtab_insert_nonunique lib0 t k d = Some (length t, t @ [table_node k d])"
  "avtab_node_at lib0 t n = (if n < length t then Some (t ! n) else None)"
  "avtab_set_node lib0 t n nd = t[n := nd]"
  by (simp_all add: lib0_def)

lemma table_append: "avtab_node_at lib0 (t @ [x]) = (avtab_node_at lib0 t)(length t \<mapsto> x)"
  by (auto simp: fun_eq_iff nth_append)

lemma lib0_avtab: "avtab_laws lib0 C"
  unfolding avtab_laws_def
proof (intro conjI allI impI)
  fix t k
  show "case avtab_search_node lib0 t k of
      None \<Rightarrow> \<forall>n nd. avtab_node_at lib0 t n = Some nd \<longrightarrow> \<not> key_match (avtab_node_key nd) k
    | Some n \<Rightarrow> \<exists>nd. avtab_node_at lib0 t n = Some nd \<and> key_match (avtab_node_key nd) k"
    using table_search_Some table_search_None by (auto split: option.split if_split_asm)
next
  fix t k d assume "avtab_search_node lib0 t k = None"
  then have "avtab_insert lib0 t k d = (None, t @ [table_node k d])" "avtab_node_at lib0 t (length t) = None" by simp_all
  then show "\<exists>n t'. avtab_insert lib0 t k d = (None, t') \<and> avtab_node_at lib0 t n = None \<and>
      avtab_node_at lib0 t' = (avtab_node_at lib0 t)
        (n \<mapsto> \<lparr>avtab_node_key = k, avtab_node_data = d, avtab_node_parse_context = False\<rparr>)"
    by (metis table_append table_node_def)
next
  fix t k d
  have "avtab_insert_nonunique lib0 t k d = Some (length t, t @ [table_node k d])" "avtab_node_at lib0 t (length t) = None"
    by simp_all
  then show "\<exists>n t'. avtab_insert_nonunique lib0 t k d = Some (n, t') \<and> avtab_node_at lib0 t n = None \<and>
      avtab_node_at lib0 t' = (avtab_node_at lib0 t)
        (n \<mapsto> \<lparr>avtab_node_key = k, avtab_node_data = d, avtab_node_parse_context = False\<rparr>)"
    by (metis table_append table_node_def)
next
  fix t n nd assume "avtab_node_at lib0 t n \<noteq> None"
  then have "n < length t" by (simp split: if_split_asm)
  then show "avtab_node_at lib0 (avtab_set_node lib0 t n nd) = (avtab_node_at lib0 t)(n \<mapsto> nd)"
    by (auto simp: fun_eq_iff)
qed simp

lemma consts0_codes: "avtab_codes consts0"
  by (auto simp: avtab_codes_def avtab_kinds_def consts0_def)

definition policy0 :: "((string \<times> addr) list, nat list, avtab_node list, nat list transition list) policydb" where
  "policy0 =
    \<lparr>p_brk = 0, d_perm = Map.empty, d_common = Map.empty, d_class = Map.empty, d_role = Map.empty, d_type = Map.empty,
     d_user = Map.empty, d_bool = Map.empty, d_level = Map.empty, d_cat = Map.empty, d_cond = Map.empty,
     p_symtab = (\<lambda>_. \<lparr>symtab_table = [], symtab_nprim = 0\<rparr>), val_to_name = (\<lambda>_. None), val_to_struct = (\<lambda>_. None),
     te_avtab = [], te_cond_avtab = [], cond_list = [], p_role_tr = [], p_role_allow = [], p_range_tr = [],
     p_filename_trans = [], p_ocontexts = (\<lambda>_. []), p_genfs = [], p_permissive_map = [], p_policycaps = [],
     p_type_attr_map = None, p_handle_unknown = 0, p_mls = 1, p_policyvers = 29, p_target_platform = 0,
     neverallows = [], filename_trans_table = None, range_trans_table = None, role_trans_table = None\<rparr>"

lemma policy0_avtab: "te_avtab policy0 = []" "unique_keys lib0 C (te_avtab policy0)"
  by (simp_all add: policy0_def unique_keys_def)

subsection \<open>Access vector rules\<close>

text \<open>A rule is its kind, the values of the source type, the target type and the class, and the permissions
  that the code passes on (for \<open>dontaudit\<close> their complement) or the value of the result.\<close>

type_synonym te_rule = "nat \<times> 32 word \<times> 32 word \<times> 32 word \<times> 32 word"

definition vector_key :: "policy_consts \<Rightarrow> te_rule \<Rightarrow> avtab_key option" where
  "vector_key C rule = (case rule of (kind, src, tgt, obj, data) \<Rightarrow>
     map_option (avtab_key_of src tgt obj) (avrule_specified C kind))"

definition rule_data :: "te_rule \<Rightarrow> 32 word" where
  "rule_data rule = snd (snd (snd (snd rule)))"

definition insert_avrules :: "('h, 'b, 't, 'k) policy_lib \<Rightarrow> policy_consts \<Rightarrow> te_rule list \<Rightarrow> ('h, 'b, 't, 'k, unit) policy" where
  "insert_avrules P C = for_each (\<lambda>(kind, src, tgt, obj, data). cil_insert_avrule P C kind src tgt obj data None 0)"

text \<open>The meet of the vectors of \<open>dontaudit\<close>, which are complements, and the join of all others.\<close>

definition merge_vectors :: "policy_consts \<Rightarrow> avtab_key \<Rightarrow> 32 word list \<Rightarrow> 32 word option" where
  "merge_vectors C k ds =
     (case ds of [] \<Rightarrow> None
      | d # rest \<Rightarrow> Some (if key_specified k = avtab_auditdeny C then fold (\<lambda>x y. y AND x) rest d else fold (\<lambda>x y. y OR x) rest d))"

definition vectors_for :: "policy_consts \<Rightarrow> avtab_key \<Rightarrow> te_rule list \<Rightarrow> 32 word list" where
  "vectors_for C k rules = map rule_data (filter (\<lambda>r. vector_key C r = Some k) rules)"

lemma merge_vectors_snoc:
  "merge_vectors C k (ds @ [d]) = Some (case merge_vectors C k ds of None \<Rightarrow> d
     | Some x \<Rightarrow> if key_specified k = avtab_auditdeny C then x AND d else x OR d)"
  by (cases ds) (auto simp: merge_vectors_def)

lemma vector_key_kind:
  assumes "avtab_codes C" and "vector_key C (kind, src, tgt, obj, data) = Some k"
  shows "key_specified k \<in> set (avtab_kinds C)" and "key_specified k = avtab_auditdeny C \<longleftrightarrow> kind = CIL_AVRULE_DONTAUDIT"
  using assms by (auto simp: vector_key_def avrule_specified_def avtab_key_of_def avtab_kinds_def avtab_codes_def
      split: if_split_asm)

lemma insert_avrule_step:
  assumes laws: "avtab_laws P C" "avtab_codes C" and t: "unique_keys P C (te_avtab p)"
    and key: "vector_key C (kind, src, tgt, obj, data) = Some k"
  obtains t' where "cil_insert_avrule P C kind src tgt obj data None 0 p = (Ok (), p\<lparr>te_avtab := t'\<rparr>)" "unique_keys P C t'"
    "\<And>k'. key_specified k' \<in> set (avtab_kinds C) \<Longrightarrow> te_data P t' k' =
       (if k' = k then Some (case te_data P (te_avtab p) k of None \<Rightarrow> data
          | Some x \<Rightarrow> if key_specified k = avtab_auditdeny C then x AND data else x OR data)
        else te_data P (te_avtab p) k')"
proof -
  note kind = vector_key_kind [OF laws(2) key]
  obtain specified where sp: "avrule_specified C kind = Some specified" "k = avtab_key_of src tgt obj specified"
    using key by (auto simp: vector_key_def)
  show ?thesis
  proof (cases "avtab_search_node P (te_avtab p) k")
    case None
    obtain t' where t': "avtab_insert P (te_avtab p) k data = (None, t')" "unique_keys P C t'"
      "\<And>k'. key_specified k' \<in> set (avtab_kinds C) \<Longrightarrow> te_data P t' k' = (if k' = k then Some data else te_data P (te_avtab p) k')"
      using te_data_insert [OF laws t kind(1) None] by blast
    have "cil_insert_avrule P C kind src tgt obj data None 0 p = (Ok (), p\<lparr>te_avtab := t'\<rparr>)"
      using t'(1) None sp avtab_search_eq [OF laws(1) kind(1)]
      by (simp add: cil_insert_avrule_def Let_def bind_def insert_te_def return_code_def)
    then show ?thesis using t'(2,3) search_none(2) [OF laws t kind(1) None] by (intro that) auto
  next
    case (Some n)
    obtain nd where nd: "avtab_node_at P (te_avtab p) n = Some nd" "te_data P (te_avtab p) k = Some (avtab_node_data nd)"
      "\<And>f. unique_keys P C (avtab_set_node P (te_avtab p) n (avtab_node_data_update f nd))"
      "\<And>f k'. key_specified k' \<in> set (avtab_kinds C) \<Longrightarrow>
        te_data P (avtab_set_node P (te_avtab p) n (avtab_node_data_update f nd)) k' =
        (if k' = k then Some (f (avtab_node_data nd)) else te_data P (te_avtab p) k')"
      using te_data_set [OF laws t kind(1) Some] by blast
    let ?t = "avtab_set_node P (te_avtab p) n
      (avtab_node_data_update (\<lambda>old. if kind = CIL_AVRULE_DONTAUDIT then old AND data else old OR data) nd)"
    have "cil_insert_avrule P C kind src tgt obj data None 0 p = (Ok (), p\<lparr>te_avtab := ?t\<rparr>)"
      using nd(1) Some sp avtab_search_eq [OF laws(1) kind(1)]
      by (simp add: cil_insert_avrule_def Let_def bind_def avtab_node_def)
    then show ?thesis using nd(2-4) kind(2) by (intro that) auto
  qed
qed

lemma insert_avrules_data:
  assumes laws: "avtab_laws P C" "avtab_codes C" and t: "unique_keys P C (te_avtab p)"
    and rules: "\<And>r. r \<in> set rules \<Longrightarrow> vector_key C r \<noteq> None"
  shows "\<exists>t'. insert_avrules P C rules p = (Ok (), p\<lparr>te_avtab := t'\<rparr>) \<and> unique_keys P C t' \<and>
    (\<forall>k. key_specified k \<in> set (avtab_kinds C) \<longrightarrow> (\<forall>ds. te_data P (te_avtab p) k = merge_vectors C k ds \<longrightarrow>
      te_data P t' k = merge_vectors C k (ds @ vectors_for C k rules)))"
  using t rules
proof (induction rules arbitrary: p)
  case Nil
  then show ?case by (intro exI [of _ "te_avtab p"]) (simp add: insert_avrules_def vectors_for_def)
next
  case (Cons r rules)
  obtain kind src tgt obj data where r: "r = (kind, src, tgt, obj, data)" by (cases r)
  obtain k where k: "vector_key C (kind, src, tgt, obj, data) = Some k" using Cons.prems(2) [of r] r by auto
  obtain t1 where t1: "cil_insert_avrule P C kind src tgt obj data None 0 p = (Ok (), p\<lparr>te_avtab := t1\<rparr>)" "unique_keys P C t1"
    "\<And>k'. key_specified k' \<in> set (avtab_kinds C) \<Longrightarrow> te_data P t1 k' =
       (if k' = k then Some (case te_data P (te_avtab p) k of None \<Rightarrow> data
          | Some x \<Rightarrow> if key_specified k = avtab_auditdeny C then x AND data else x OR data)
        else te_data P (te_avtab p) k')"
    using insert_avrule_step [OF laws Cons.prems(1) k] by blast
  obtain t' where t': "insert_avrules P C rules (p\<lparr>te_avtab := t1\<rparr>) = (Ok (), p\<lparr>te_avtab := t'\<rparr>)" "unique_keys P C t'"
    "\<And>k ds. key_specified k \<in> set (avtab_kinds C) \<Longrightarrow> te_data P t1 k = merge_vectors C k ds \<Longrightarrow>
      te_data P t' k = merge_vectors C k (ds @ vectors_for C k rules)"
    using Cons.IH [of "p\<lparr>te_avtab := t1\<rparr>"] t1(2) Cons.prems(2) by auto
  have "insert_avrules P C (r # rules) p = (Ok (), p\<lparr>te_avtab := t'\<rparr>)"
    using t1(1) t'(1) by (simp add: insert_avrules_def r)
  moreover have "te_data P t' k' = merge_vectors C k' (ds @ vectors_for C k' (r # rules))"
    if k': "key_specified k' \<in> set (avtab_kinds C)" and ds: "te_data P (te_avtab p) k' = merge_vectors C k' ds" for k' ds
  proof (cases "k' = k")
    case True
    have "te_data P t1 k' = merge_vectors C k' (ds @ [data])"
      using t1(3) [OF k'] ds True by (simp add: merge_vectors_snoc)
    from t'(3) [OF k' this] show ?thesis using True k by (simp add: vectors_for_def r rule_data_def)
  next
    case False
    then have "te_data P t1 k' = merge_vectors C k' ds" using t1(3) [OF k'] ds by simp
    from t'(3) [OF k' this] show ?thesis using False k by (simp add: vectors_for_def r)
  qed
  ultimately show ?case using t'(2) by blast
qed

text \<open>C36. Access vector rules accumulate: a sequence of unconditional rules always succeeds, changes nothing but the
  table, and leaves for every key the join of the permission vectors of all its rules, or for \<open>dontaudit\<close> the meet of
  the complements, whatever their order; a key without rules keeps what it had.\<close>

theorem avrules_accumulate:
  assumes "avtab_laws P C" and "avtab_codes C" and "unique_keys P C (te_avtab p)"
    and "\<And>r. r \<in> set rules \<Longrightarrow> fst r \<in> {CIL_AVRULE_ALLOWED, CIL_AVRULE_AUDITALLOW, CIL_AVRULE_DONTAUDIT}"
  shows "\<exists>t'. insert_avrules P C rules p = (Ok (), p\<lparr>te_avtab := t'\<rparr>) \<and> unique_keys P C t' \<and>
    (\<forall>k. key_specified k \<in> set (avtab_kinds C) \<longrightarrow>
      te_data P t' k = merge_vectors C k
        ((case te_data P (te_avtab p) k of None \<Rightarrow> [] | Some d \<Rightarrow> [d]) @ vectors_for C k rules))"
proof -
  have "vector_key C r \<noteq> None" if "r \<in> set rules" for r
    using assms(4) [OF that] by (cases r) (auto simp: vector_key_def avrule_specified_def)
  from insert_avrules_data [OF assms(1-3) this] obtain t' where t': "insert_avrules P C rules p = (Ok (), p\<lparr>te_avtab := t'\<rparr>)"
    "unique_keys P C t'"
    "\<And>k ds. key_specified k \<in> set (avtab_kinds C) \<Longrightarrow> te_data P (te_avtab p) k = merge_vectors C k ds \<Longrightarrow>
      te_data P t' k = merge_vectors C k (ds @ vectors_for C k rules)" by blast
  have "te_data P (te_avtab p) k = merge_vectors C k (case te_data P (te_avtab p) k of None \<Rightarrow> [] | Some d \<Rightarrow> [d])" for k
    by (simp add: merge_vectors_def split: option.split)
  with t' show ?thesis by blast
qed

lemma avrules_accumulate_witness:
  "\<exists>t'. insert_avrules lib0 consts0 [(CIL_AVRULE_ALLOWED, 1, 2, 3, 5), (CIL_AVRULE_ALLOWED, 1, 2, 3, 2)] policy0 =
      (Ok (), policy0\<lparr>te_avtab := t'\<rparr>) \<and> te_data lib0 t' (avtab_key_of 1 2 3 1) = Some 7"
proof -
  let ?rules = "[(CIL_AVRULE_ALLOWED, 1, 2, 3, 5), (CIL_AVRULE_ALLOWED, 1, 2, 3, 2)] :: te_rule list"
  have none: "te_data lib0 [] k = None" for k by (simp add: te_data_def table_search_def)
  have key: "avtab_allowed consts0 = 1" "avtab_auditdeny consts0 = 4" "(1 :: 16 word) \<in> set (avtab_kinds consts0)"
    by (simp_all add: consts0_def avtab_kinds_def)
  have "vectors_for consts0 (avtab_key_of 1 2 3 1) ?rules = [5, 2]"
    by (simp add: vectors_for_def vector_key_def avrule_specified_def key rule_data_def)
  then have "merge_vectors consts0 (avtab_key_of 1 2 3 1) ([] @ vectors_for consts0 (avtab_key_of 1 2 3 1) ?rules) = Some 7"
    by (simp add: merge_vectors_def avtab_key_of_def key)
  moreover have "key_specified (avtab_key_of 1 2 3 1) \<in> set (avtab_kinds consts0)" using key by (simp add: avtab_key_of_def)
  moreover have rules: "r \<in> set ?rules \<Longrightarrow> fst r \<in> {CIL_AVRULE_ALLOWED, CIL_AVRULE_AUDITALLOW, CIL_AVRULE_DONTAUDIT}"
    for r by auto
  obtain t' where "insert_avrules lib0 consts0 ?rules policy0 = (Ok (), policy0\<lparr>te_avtab := t'\<rparr>)"
    "\<And>k. key_specified k \<in> set (avtab_kinds consts0) \<Longrightarrow> te_data lib0 t' k = merge_vectors consts0 k
      ((case te_data lib0 (te_avtab policy0) k of None \<Rightarrow> [] | Some d \<Rightarrow> [d]) @ vectors_for consts0 k ?rules)"
    using avrules_accumulate [OF lib0_avtab consts0_codes policy0_avtab(2) rules] by blast
  ultimately show ?thesis using none policy0_avtab(1) by fastforce
qed

subsection \<open>Type rules\<close>

definition type_rule_key :: "policy_consts \<Rightarrow> te_rule \<Rightarrow> avtab_key option" where
  "type_rule_key C rule = (case rule of (kind, src, tgt, obj, res) \<Rightarrow>
     map_option (avtab_key_of src tgt obj) (type_rule_specified C kind))"

definition insert_type_rules :: "('h, 'b, 't, 'k) policy_lib \<Rightarrow> policy_consts \<Rightarrow> te_rule list \<Rightarrow> ('h, 'b, 't, 'k, unit) policy" where
  "insert_type_rules P C = for_each (\<lambda>(kind, src, tgt, obj, res). cil_insert_type_rule P C kind src tgt obj res None 0)"

text \<open>The results for a key: that in the table and those of the rules.\<close>

definition results :: "('h, 'b, 't, 'k) policy_lib \<Rightarrow> policy_consts \<Rightarrow> 't \<Rightarrow> te_rule list \<Rightarrow> avtab_key \<Rightarrow> 32 word list" where
  "results P C t rules k = (case te_data P t k of None \<Rightarrow> [] | Some d \<Rightarrow> [d]) @
     map rule_data (filter (\<lambda>r. type_rule_key C r = Some k) rules)"

definition no_conflict :: "('h, 'b, 't, 'k) policy_lib \<Rightarrow> policy_consts \<Rightarrow> 't \<Rightarrow> te_rule list \<Rightarrow> bool" where
  "no_conflict P C t rules \<longleftrightarrow> (\<forall>k. key_specified k \<in> set (avtab_kinds C) \<longrightarrow>
     (\<forall>x \<in> set (results P C t rules k). \<forall>y \<in> set (results P C t rules k). x = y))"

definition first_result :: "32 word list \<Rightarrow> 32 word option" where
  "first_result ds = (case ds of [] \<Rightarrow> None | d # _ \<Rightarrow> Some d)"

lemma type_rule_key_kind:
  assumes "type_rule_key C (kind, src, tgt, obj, res) = Some k"
  shows "key_specified k \<in> set (avtab_kinds C)"
  using assms by (auto simp: type_rule_key_def type_rule_specified_def avtab_key_of_def avtab_kinds_def split: if_split_asm)

lemma type_rule_step:
  assumes laws: "avtab_laws P C" "avtab_codes C" and t: "unique_keys P C (te_avtab p)"
    and key: "type_rule_key C (kind, src, tgt, obj, res) = Some k"
  shows "case te_data P (te_avtab p) k of
      Some d \<Rightarrow> cil_insert_type_rule P C kind src tgt obj res None 0 p = (if d = res then Ok () else Fail SEPOL_ERR, p)
    | None \<Rightarrow> \<exists>t'. cil_insert_type_rule P C kind src tgt obj res None 0 p = (Ok (), p\<lparr>te_avtab := t'\<rparr>) \<and>
        unique_keys P C t' \<and> (\<forall>k'. key_specified k' \<in> set (avtab_kinds C) \<longrightarrow>
          te_data P t' k' = (if k' = k then Some res else te_data P (te_avtab p) k'))"
proof -
  note kind = type_rule_key_kind [OF key]
  obtain specified where sp: "type_rule_specified C kind = Some specified" "k = avtab_key_of src tgt obj specified"
    using key by (auto simp: type_rule_key_def)
  show ?thesis
  proof (cases "avtab_search_node P (te_avtab p) k")
    case None
    obtain t' where t': "avtab_insert P (te_avtab p) k res = (None, t')" "unique_keys P C t'"
      "\<And>k'. key_specified k' \<in> set (avtab_kinds C) \<Longrightarrow> te_data P t' k' = (if k' = k then Some res else te_data P (te_avtab p) k')"
      using te_data_insert [OF laws t kind None] by blast
    have "cil_insert_type_rule P C kind src tgt obj res None 0 p = (Ok (), p\<lparr>te_avtab := t'\<rparr>)"
      using t'(1) None sp by (simp add: cil_insert_type_rule_def Let_def bind_def insert_te_def return_code_def)
    then show ?thesis using t'(2,3) search_none(2) [OF laws t kind None] by auto
  next
    case (Some n)
    obtain nd where nd: "avtab_node_at P (te_avtab p) n = Some nd" "te_data P (te_avtab p) k = Some (avtab_node_data nd)"
      using search_key [OF laws t kind Some] by blast
    have "cil_insert_type_rule P C kind src tgt obj res None 0 p =
        (if avtab_node_data nd = res then Ok () else Fail SEPOL_ERR, p)"
      using nd(1) Some sp by (simp add: cil_insert_type_rule_def Let_def bind_def avtab_node_def)
    then show ?thesis using nd(2) by simp
  qed
qed

lemma results_Cons:
  assumes "type_rule_key C r = Some k"
  shows "results P C t (r # rules) k' = (case te_data P t k' of None \<Rightarrow> [] | Some d \<Rightarrow> [d]) @
    (if k' = k then [rule_data r] else []) @ map rule_data (filter (\<lambda>r. type_rule_key C r = Some k') rules)"
  using assms by (simp add: results_def)

lemma no_conflict_Nil: "no_conflict P C t []"
  unfolding no_conflict_def
proof (intro allI impI ballI)
  fix k x y assume "x \<in> set (results P C t [] k)" "y \<in> set (results P C t [] k)"
  then show "x = y" by (cases "te_data P t k") (simp_all add: results_def)
qed

text \<open>A rule that repeats the result of its key changes nothing; one with another result is a conflict.\<close>

lemma repeated_result:
  assumes "type_rule_key C r = Some k" and "te_data P t k = Some (rule_data r)"
  shows "first_result (results P C t (r # rules) k') = first_result (results P C t rules k')"
    and "no_conflict P C t (r # rules) = no_conflict P C t rules"
proof -
  have "set (results P C t (r # rules) k') = set (results P C t rules k')" for k'
    using assms by (cases "k' = k"; simp add: results_def)
  then show "no_conflict P C t (r # rules) = no_conflict P C t rules" by (simp add: no_conflict_def)
  show "first_result (results P C t (r # rules) k') = first_result (results P C t rules k')"
    using assms by (cases "k' = k"; simp add: results_def first_result_def)
qed

lemma second_result:
  assumes "type_rule_key C r = Some k" and "te_data P t k = Some d" and "d \<noteq> rule_data r"
    and "key_specified k \<in> set (avtab_kinds C)"
  shows "\<not> no_conflict P C t (r # rules)"
proof -
  have "{d, rule_data r} \<subseteq> set (results P C t (r # rules) k)" using assms(2) by (auto simp: results_Cons [OF assms(1)])
  then show ?thesis using assms(3,4) unfolding no_conflict_def by blast
qed

text \<open>C37. Type rules are functional: a sequence of unconditional \<open>typetransition\<close>, \<open>typechange\<close> and \<open>typemember\<close> rules is
  refused exactly when some key gets two results, counting what the table has already; otherwise the table has
  for every key the result of its rules.\<close>

theorem type_rules_functional:
  assumes laws: "avtab_laws P C" "avtab_codes C" and t: "unique_keys P C (te_avtab p)"
    and rules: "\<And>r. r \<in> set rules \<Longrightarrow> fst r \<in> {CIL_TYPE_TRANSITION, CIL_TYPE_CHANGE, CIL_TYPE_MEMBER}"
  shows "\<exists>t'. insert_type_rules P C rules p =
      (if no_conflict P C (te_avtab p) rules then Ok () else Fail SEPOL_ERR, p\<lparr>te_avtab := t'\<rparr>) \<and> unique_keys P C t' \<and>
    (no_conflict P C (te_avtab p) rules \<longrightarrow> (\<forall>k. key_specified k \<in> set (avtab_kinds C) \<longrightarrow>
      te_data P t' k = first_result (results P C (te_avtab p) rules k)))"
  using t rules
proof (induction rules arbitrary: p)
  case Nil
  show ?case using Nil(1) no_conflict_Nil [of P C "te_avtab p"] by (intro exI [of _ "te_avtab p"])
      (simp add: insert_type_rules_def results_def first_result_def split: option.split)
next
  case (Cons r rules)
  obtain kind src tgt obj res where r: "r = (kind, src, tgt, obj, res)" by (cases r)
  obtain k where k: "type_rule_key C r = Some k"
    using Cons.prems(2) [of r] by (auto simp: r type_rule_key_def type_rule_specified_def)
  note step = type_rule_step [OF laws Cons.prems(1) k [unfolded r]]
  have res: "rule_data r = res" by (simp add: r rule_data_def)
  have kind: "key_specified k \<in> set (avtab_kinds C)" using type_rule_key_kind k r by blast
  show ?case
  proof (cases "te_data P (te_avtab p) k")
    case None
    with step obtain t1 where t1: "cil_insert_type_rule P C kind src tgt obj res None 0 p = (Ok (), p\<lparr>te_avtab := t1\<rparr>)"
      "unique_keys P C t1" "\<And>k'. key_specified k' \<in> set (avtab_kinds C) \<Longrightarrow>
        te_data P t1 k' = (if k' = k then Some res else te_data P (te_avtab p) k')" by auto
    have same: "results P C t1 rules k' = results P C (te_avtab p) (r # rules) k'"
      if "key_specified k' \<in> set (avtab_kinds C)" for k'
      using t1(3) [OF that] None by (cases "k' = k") (simp_all add: k res results_def)
    then have "no_conflict P C t1 rules = no_conflict P C (te_avtab p) (r # rules)" by (simp add: no_conflict_def)
    with Cons.IH [of "p\<lparr>te_avtab := t1\<rparr>"] t1(1,2) Cons.prems(2) same show ?thesis
      by (simp add: insert_type_rules_def r)
  next
    case (Some d)
    show ?thesis
    proof (cases "d = res")
      case True
      then have rd: "te_data P (te_avtab p) k = Some (rule_data r)" using Some res by simp
      show ?thesis using Cons.IH [OF Cons.prems(1)] Cons.prems(2) step Some True repeated_result [OF k rd]
        by (simp add: insert_type_rules_def r)
    next
      case False
      then have "\<not> no_conflict P C (te_avtab p) (r # rules)" using second_result [OF k Some _ kind] res by simp
      with step Some False Cons.prems(1) show ?thesis
        by (intro exI [of _ "te_avtab p"]) (simp add: insert_type_rules_def r)
    qed
  qed
qed

lemma type_rules_functional_witness:
  "fst (insert_type_rules lib0 consts0 [(CIL_TYPE_TRANSITION, 1, 2, 3, 5), (CIL_TYPE_TRANSITION, 1, 2, 3, 6)] policy0) =
     Fail SEPOL_ERR"
proof -
  let ?rules = "[(CIL_TYPE_TRANSITION, 1, 2, 3, 5), (CIL_TYPE_TRANSITION, 1, 2, 3, 6)] :: te_rule list"
  have key: "avtab_transition consts0 = 16" "(16 :: 16 word) \<in> set (avtab_kinds consts0)"
    by (simp_all add: consts0_def avtab_kinds_def)
  have "{5, 6} \<subseteq> set (results lib0 consts0 (te_avtab policy0) ?rules (avtab_key_of 1 2 3 16))"
    by (simp add: results_def type_rule_key_def type_rule_specified_def key rule_data_def)
  moreover have "key_specified (avtab_key_of 1 2 3 16) \<in> set (avtab_kinds consts0)" using key by (simp add: avtab_key_of_def)
  moreover have "(5 :: 32 word) \<noteq> 6" by simp
  ultimately have "\<not> no_conflict lib0 consts0 (te_avtab policy0) ?rules" unfolding no_conflict_def by blast
  moreover have rules: "r \<in> set ?rules \<Longrightarrow> fst r \<in> {CIL_TYPE_TRANSITION, CIL_TYPE_CHANGE, CIL_TYPE_MEMBER}"
    for r by auto
  moreover obtain t' where "insert_type_rules lib0 consts0 ?rules policy0 =
      (if no_conflict lib0 consts0 (te_avtab policy0) ?rules then Ok () else Fail SEPOL_ERR, policy0\<lparr>te_avtab := t'\<rparr>)"
    using type_rules_functional [OF lib0_avtab consts0_codes policy0_avtab(2) rules] by blast
  ultimately show ?thesis by (simp only: if_False fst_conv)
qed

end
