(* ===== verification/Cil_Policy_Neverallow.thy ===== *)
theory Cil_Policy_Neverallow
  imports Cil_Policy_Avtab
begin

unbundle bit_operations_syntax

text \<open>
  The check of an \<open>allow\<close> rule against the recorded \<open>neverallow\<close> statements is decided by the sets of types that
  their names stand for.
\<close>

subsection \<open>Nodes of bitmaps\<close>

text \<open>The nodes of a bitmap are sorted, start at multiples of 64, and hold exactly the bits that are set.\<close>

definition nodes_laws :: "('h, 'b) sepol \<Rightarrow> ('h, 'b, 't, 'k) policy_lib \<Rightarrow> bool" where
  "nodes_laws L P \<longleftrightarrow> (\<forall>b.
     sorted_wrt (<) (map fst (eb_nodes P b)) \<and> (\<forall>n \<in> fst ` set (eb_nodes P b). 64 dvd n) \<and>
     (\<forall>i. eb_get_bit L b i \<longleftrightarrow> (\<exists>(n, w) \<in> set (eb_nodes P b). n \<le> i \<and> i < n + 64 \<and> bit w (i - n))))"

lemma nodes_meet_iff:
  "sorted_wrt (<) (map fst ms) \<Longrightarrow> sorted_wrt (<) (map fst ns) \<Longrightarrow>
     nodes_meet ms ns \<longleftrightarrow> (\<exists>(i, m) \<in> set ms. \<exists>(j, n) \<in> set ns. i = j \<and> m AND n \<noteq> 0)"
proof (induction ms ns rule: nodes_meet.induct)
  case (3 i m ms j n ns)
  have ms: "i < fst x" if "x \<in> set ms" for x using 3(4) that by auto
  have ns: "j < fst x" if "x \<in> set ns" for x using 3(5) that by auto
  consider "i < j" | "j < i" | "i = j" by linarith
  then show ?case
  proof cases
    case 1
    then show ?thesis using 3(1) 3(4,5) ns by fastforce
  next
    case 2
    then show ?thesis using 3(2) 3(4,5) ms by fastforce
  next
    case 3
    then show ?thesis using "3.IH"(3) "3.prems" ms ns by fastforce
  qed
qed auto

lemma word_meet: "(x AND y :: 64 word) \<noteq> 0 \<longleftrightarrow> (\<exists>i < 64. bit x i \<and> bit y i)"
  by (auto simp: bit_eq_iff bit_and_iff dest: bit_imp_le_length)

lemma nodes_meet_bits:
  assumes "nodes_laws L P"
  shows "nodes_meet (eb_nodes P b) (eb_nodes P c) \<longleftrightarrow> (\<exists>i. eb_get_bit L b i \<and> eb_get_bit L c i)"
proof -
  have laws: "sorted_wrt (<) (map fst (eb_nodes P b))" "\<And>n w. (n, w) \<in> set (eb_nodes P b) \<Longrightarrow> 64 dvd n"
    "\<And>i. eb_get_bit L b i \<longleftrightarrow> (\<exists>(n, w) \<in> set (eb_nodes P b). n \<le> i \<and> i < n + 64 \<and> bit w (i - n))" for b
    using assms unfolding nodes_laws_def by (blast, force, blast)
  have "(\<exists>(i, m) \<in> set (eb_nodes P b). \<exists>(j, n) \<in> set (eb_nodes P c). i = j \<and> m AND n \<noteq> 0) \<longleftrightarrow>
      (\<exists>i. eb_get_bit L b i \<and> eb_get_bit L c i)" (is "?nodes \<longleftrightarrow> ?bits")
  proof
    assume ?nodes
    then obtain n m m' j where "(n, m) \<in> set (eb_nodes P b)" "(n, m') \<in> set (eb_nodes P c)" "j < 64" "bit m j" "bit m' j"
      unfolding word_meet by auto
    then have "eb_get_bit L b (n + j)" "eb_get_bit L c (n + j)"
      using laws(3) [of b "n + j"] laws(3) [of c "n + j"] by force+
    then show ?bits by blast
  next
    assume ?bits
    then obtain i n m n' m' where i: "(n, m) \<in> set (eb_nodes P b)" "n \<le> i" "i < n + 64" "bit m (i - n)"
      "(n', m') \<in> set (eb_nodes P c)" "n' \<le> i" "i < n' + 64" "bit m' (i - n')"
      unfolding laws(3) by auto
    have "n = n'" using laws(2) [OF i(1)] laws(2) [OF i(5)] i(2,3,6,7) by (auto elim!: dvdE)
    then have "m AND m' \<noteq> 0" unfolding word_meet using i by (intro exI [of _ "i - n"]) auto
    then show ?nodes using i(1,5) \<open>n = n'\<close> by auto
  qed
  with nodes_meet_iff [OF laws(1) laws(1)] show ?thesis by simp
qed

subsection \<open>The types that a name stands for\<close>

definition types_of :: "('h, 'b) sepol \<Rightarrow> ('h, 'b, 'z) cil_store_scheme \<Rightarrow> addr \<Rightarrow> nat set" where
  "types_of L s a =
     (case m_typeattribute s a of
       Some attr \<Rightarrow> (case typeattribute_types attr of None \<Rightarrow> {} | Some b \<Rightarrow> {i. eb_get_bit L b i})
     | None \<Rightarrow> (case m_type s a of None \<Rightarrow> {} | Some t \<Rightarrow> {unsigned_int (type_value t)}))"

text \<open>An attribute that has been expanded, or a type.\<close>

definition stands_for_types :: "('h, 'b, 'z) cil_store_scheme \<Rightarrow> addr \<Rightarrow> bool" where
  "stands_for_types s a \<longleftrightarrow>
     (\<exists>attr b. FLAVOR s (Some a) = Ok CIL_TYPEATTRIBUTE \<and> m_typeattribute s a = Some attr \<and> typeattribute_types attr = Some b) \<or>
     (\<exists>f t. FLAVOR s (Some a) = Ok f \<and> f \<noteq> CIL_TYPEATTRIBUTE \<and> m_typeattribute s a = None \<and> m_type s a = Some t)"

text \<open>Types with the same number have the same name.\<close>

definition numbered_once :: "('h, 'b, 'z) cil_store_scheme \<Rightarrow> bool" where
  "numbered_once s \<longleftrightarrow> (\<forall>a b t u. m_type s a = Some t \<longrightarrow> m_type s b = Some u \<longrightarrow>
     unsigned_int (type_value t) = unsigned_int (type_value u) \<longrightarrow> fqn_of s (Some a) = fqn_of s (Some b))"

definition same_or_meet :: "('h, 'b) sepol \<Rightarrow> ('h, 'b, 'z) cil_store_scheme \<Rightarrow> addr \<Rightarrow> addr \<Rightarrow> bool" where
  "same_or_meet L s a b \<longleftrightarrow> fqn_of s (Some a) = fqn_of s (Some b) \<or> types_of L s a \<inter> types_of L s b \<noteq> {}"

definition forbids ::
  "('h, 'b) sepol \<Rightarrow> ('h, 'b, 'z) cil_store_scheme \<Rightarrow> addr \<Rightarrow> addr \<Rightarrow> 32 word \<Rightarrow> 32 word \<Rightarrow> cil_neverallow_rule \<Rightarrow> bool"
where
  "forbids L s src tgt class perms rule \<longleftrightarrow>
     neverallow_rule_class rule = class \<and> neverallow_rule_perms rule AND perms \<noteq> 0 \<and>
     same_or_meet L s src (neverallow_rule_src rule) \<and> same_or_meet L s tgt (neverallow_rule_tgt rule)"

lemma FLAVOR_fqn: "FLAVOR s (Some a) = Ok f \<Longrightarrow> \<exists>n. fqn_of s (Some a) = Ok n"
  by (auto simp: FLAVOR_def NODE_def fqn_of_def)

lemma type_match:
  assumes laws: "nodes_laws L P" and numbers: "numbered_once s" and a: "stands_for_types s a" and b: "stands_for_types s b"
    and f: "FLAVOR s (Some a) = Ok f" and g: "FLAVOR s (Some b) = Ok g"
  shows "cil_is_type_match L P s f a g b = Ok (same_or_meet L s a b)"
proof -
  obtain n m where names: "fqn_of s (Some a) = Ok n" "fqn_of s (Some b) = Ok m" using FLAVOR_fqn f g by metis
  show ?thesis
  proof (cases "n = m")
    case True
    then show ?thesis by (simp add: cil_is_type_match_def names same_or_meet_def)
  next
    case False
    have same: "same_or_meet L s a b \<longleftrightarrow> types_of L s a \<inter> types_of L s b \<noteq> {}"
      using False names by (simp add: same_or_meet_def)
    consider (attributes) x c y d where "f = CIL_TYPEATTRIBUTE" "g = CIL_TYPEATTRIBUTE" "m_typeattribute s a = Some x"
        "typeattribute_types x = Some c" "m_typeattribute s b = Some y" "typeattribute_types y = Some d"
      | (left) x c u where "f = CIL_TYPEATTRIBUTE" "g \<noteq> CIL_TYPEATTRIBUTE" "m_typeattribute s a = Some x"
        "typeattribute_types x = Some c" "m_typeattribute s b = None" "m_type s b = Some u"
      | (right) t y d where "f \<noteq> CIL_TYPEATTRIBUTE" "g = CIL_TYPEATTRIBUTE" "m_typeattribute s a = None" "m_type s a = Some t"
        "m_typeattribute s b = Some y" "typeattribute_types y = Some d"
      | (types) t u where "f \<noteq> CIL_TYPEATTRIBUTE" "g \<noteq> CIL_TYPEATTRIBUTE" "m_typeattribute s a = None" "m_type s a = Some t"
        "m_typeattribute s b = None" "m_type s b = Some u"
      using a b f g unfolding stands_for_types_def by auto
    then show ?thesis
    proof cases
      case attributes
      have "types_of L s a \<inter> types_of L s b \<noteq> {} \<longleftrightarrow> (\<exists>i. eb_get_bit L d i \<and> eb_get_bit L c i)"
        using attributes by (auto simp: types_of_def)
      with attributes names False show ?thesis
        by (simp add: cil_is_type_match_def same attribute_bits_def nodes_meet_bits [OF laws])
    next
      case left
      then have "types_of L s a \<inter> types_of L s b \<noteq> {} \<longleftrightarrow> eb_get_bit L c (unsigned_int (type_value u))"
        by (simp add: types_of_def)
      with left names False show ?thesis by (simp add: cil_is_type_match_def same attribute_bits_def)
    next
      case right
      then have "types_of L s a \<inter> types_of L s b \<noteq> {} \<longleftrightarrow> eb_get_bit L d (unsigned_int (type_value t))"
        by (simp add: types_of_def)
      with right names False show ?thesis by (simp add: cil_is_type_match_def same attribute_bits_def)
    next
      case types
      then have "unsigned_int (type_value t) \<noteq> unsigned_int (type_value u)"
        using numbers names False unfolding numbered_once_def by (metis outcome.inject(1))
      then have "types_of L s a \<inter> types_of L s b = {}" using types by (simp add: types_of_def)
      with types names False show ?thesis by (simp add: cil_is_type_match_def same)
    qed
  qed
qed

lemma stands_FLAVOR: "stands_for_types s a \<Longrightarrow> \<exists>f. FLAVOR s (Some a) = Ok f"
  by (auto simp: stands_for_types_def)

lemma rule_matches:
  assumes "nodes_laws L P" and "numbered_once s" and "stands_for_types s src" and "stands_for_types s tgt"
    and "stands_for_types s (neverallow_rule_src rule)" and "stands_for_types s (neverallow_rule_tgt rule)"
  shows "neverallow_rule_matches L P s src tgt class perms rule = Ok (forbids L s src tgt class perms rule)"
proof -
  obtain f g h k where flavors: "FLAVOR s (Some src) = Ok f" "FLAVOR s (Some tgt) = Ok g"
    "FLAVOR s (Some (neverallow_rule_src rule)) = Ok h" "FLAVOR s (Some (neverallow_rule_tgt rule)) = Ok k"
    using stands_FLAVOR assms(3-6) by meson
  show ?thesis
    by (auto simp: neverallow_rule_matches_def flavors forbids_def type_match [OF assms(1,2,3,5) flavors(1,3)]
        type_match [OF assms(1,2,4,6) flavors(2,4)])
qed

text \<open>C35. The check against \<open>neverallow\<close>: an access vector is refused exactly when some recorded rule has the same class,
  a permission in common, and a source and a target that name the same or share a type with those of the access
  vector, whether these are types or attributes.\<close>

theorem neverallow_decided:
  assumes "nodes_laws L P" and "numbered_once s" and "stands_for_types s src" and "stands_for_types s tgt"
    and rules: "\<And>nv rule. nv \<in> set nvs \<Longrightarrow> rule \<in> set (neverallow_rules nv) \<Longrightarrow>
      stands_for_types s (neverallow_rule_src rule) \<and> stands_for_types s (neverallow_rule_tgt rule)"
  shows "cil_check_neverallows L P s nvs src tgt class perms =
    (if \<exists>nv \<in> set nvs. \<exists>rule \<in> set (neverallow_rules nv). forbids L s src tgt class perms rule
     then Fail SEPOL_ERR else Ok ())"
proof -
  have each: "oeach (\<lambda>rule. obind (neverallow_rule_matches L P s src tgt class perms rule)
        (\<lambda>found. if found then Fail SEPOL_ERR else Ok ())) rs =
      (if \<exists>rule \<in> set rs. forbids L s src tgt class perms rule then Fail SEPOL_ERR else Ok ())"
    if "\<And>rule. rule \<in> set rs \<Longrightarrow> stands_for_types s (neverallow_rule_src rule) \<and> stands_for_types s (neverallow_rule_tgt rule)"
    for rs
    using that by (induction rs) (simp_all add: rule_matches [OF assms(1-4)])
  obtain f g where "FLAVOR s (Some src) = Ok f" "FLAVOR s (Some tgt) = Ok g" using stands_FLAVOR assms(3,4) by meson
  moreover have "stands_for_types s (neverallow_rule_src rule) \<and> stands_for_types s (neverallow_rule_tgt rule)"
    if "rule \<in> set (concat (map neverallow_rules nvs))" for rule
    using that rules by auto
  ultimately show ?thesis using each [of "concat (map neverallow_rules nvs)"] by (simp add: cil_check_neverallows_def)
qed

subsection \<open>An example\<close>

lemma bit_word_of_bits: "bit (word_of_bits b n) j \<longleftrightarrow> j < 64 \<and> n + j \<in> set b"
proof -
  have "bit (foldr (\<lambda>i w. w OR push_bit i 1) is (0 :: 64 word)) j \<longleftrightarrow> j < 64 \<and> j \<in> set is" for "is"
    by (induction "is") (auto simp: bit_or_iff bit_exp_iff)
  then have "bit (word_of_bits b n) j \<longleftrightarrow> j < 64 \<and> (\<exists>i \<in> set b. n \<le> i \<and> i < n + 64 \<and> j = i - n)"
    by (simp add: word_of_bits_def image_iff) blast
  also have "\<dots> \<longleftrightarrow> j < 64 \<and> n + j \<in> set b"
    by (metis add_diff_cancel_left' le_add1 le_add_diff_inverse nat_add_left_cancel_less)
  finally show ?thesis .
qed

lemma lib0_nodes: "nodes_laws sepol0 lib0"
proof -
  have nodes: "eb_nodes lib0 b = map (\<lambda>n. (n, word_of_bits b n)) (remdups (sort (map (\<lambda>i. 64 * (i div 64)) b)))" for b
    by (simp add: lib0_def)
  have "sorted_wrt (<) (map fst (eb_nodes lib0 b))" for b
    by (simp add: nodes comp_def sorted_remdups strict_sorted_iff)
  moreover have "64 dvd n" if "n \<in> fst ` set (eb_nodes lib0 b)" for n b using that by (auto simp: nodes)
  moreover have "eb_get_bit sepol0 b i \<longleftrightarrow> (\<exists>(n, w) \<in> set (eb_nodes lib0 b). n \<le> i \<and> i < n + 64 \<and> bit w (i - n))" for b i
  proof -
    have "64 * (i div 64) \<le> i" "i < 64 * (i div 64) + 64" by linarith+
    then show ?thesis by (force simp: nodes bit_word_of_bits sepol0_def)
  qed
  ultimately show ?thesis unfolding nodes_laws_def by blast
qed

text \<open>The type \<open>t\<close> with the number 3 and the attribute \<open>a\<close> that holds it.\<close>

definition type_and_attribute :: "((string \<times> addr) list, nat list) cil_store" where
  "type_and_attribute = store0\<lparr>
     nodes := [14 \<mapsto> \<lparr>node_parent = None, node_cl_head = None, node_cl_tail = None, node_next = None,
         node_flavor = CIL_TYPE, node_line = 1, node_path = None, node_data = None\<rparr>,
       16 \<mapsto> \<lparr>node_parent = None, node_cl_head = None, node_cl_tail = None, node_next = None,
         node_flavor = CIL_TYPEATTRIBUTE, node_line = 1, node_path = None, node_data = None\<rparr>],
     datums := [4 \<mapsto> \<lparr>datum_name = Some ''t'', datum_fqn = Some ''t'', datum_symtab = None, datum_nodes = Some [14]\<rparr>,
       6 \<mapsto> \<lparr>datum_name = Some ''a'', datum_fqn = Some ''a'', datum_symtab = None, datum_nodes = Some [16]\<rparr>],
     m_type := [4 \<mapsto> \<lparr>type_bounds = None, type_value = 3\<rparr>],
     m_typeattribute := [6 \<mapsto> \<lparr>typeattribute_expr_list = None, typeattribute_types = Some [3], typeattribute_used = True\<rparr>]\<rparr>"

lemma neverallow_decided_witness:
  "cil_check_neverallows sepol0 lib0 type_and_attribute
     [\<lparr>neverallow_node = 0, neverallow_rules = [\<lparr>neverallow_rule_src = 6, neverallow_rule_tgt = 4,
        neverallow_rule_class = 1, neverallow_rule_perms = 6\<rparr>]\<rparr>] 4 4 1 2 = Fail SEPOL_ERR"
proof -
  have known: "stands_for_types type_and_attribute 4" "stands_for_types type_and_attribute 6"
    by (simp_all add: stands_for_types_def FLAVOR_def NODE_def type_and_attribute_def)
  have "numbered_once type_and_attribute" by (simp add: numbered_once_def type_and_attribute_def)
  moreover have "forbids sepol0 type_and_attribute 4 4 1 2 \<lparr>neverallow_rule_src = 6, neverallow_rule_tgt = 4,
      neverallow_rule_class = 1, neverallow_rule_perms = 6\<rparr>"
    by (simp add: forbids_def same_or_meet_def types_of_def type_and_attribute_def sepol0_def unsigned_int_def)
  ultimately show ?thesis
    using neverallow_decided [OF lib0_nodes _ known(1) known(1), of "[\<lparr>neverallow_node = 0, neverallow_rules =
        [\<lparr>neverallow_rule_src = 6, neverallow_rule_tgt = 4, neverallow_rule_class = 1, neverallow_rule_perms = 6\<rparr>]\<rparr>]" 1 2]
      known by simp
qed

end
