(* ===== verification/Cil_Policy_Cond.thy ===== *)
theory Cil_Policy_Cond
  imports Cil_Policy_Avtab
begin

text \<open>
  The conversion of conditional expressions to the postfix form of libsepol is right: running the result on a
  stack gives the value of the expression, and exactly the expressions of the language are converted.
\<close>

subsection \<open>Values of expressions\<close>

definition bool_op_value :: "cil_flavor \<Rightarrow> bool list \<Rightarrow> bool" where
  "bool_op_value op vs =
     (if op = CIL_NOT then \<not> vs ! 0 else if op = CIL_OR then vs ! 0 \<or> vs ! 1
      else if op = CIL_AND then vs ! 0 \<and> vs ! 1 else if op = CIL_EQ then vs ! 0 = vs ! 1 else vs ! 0 \<noteq> vs ! 1)"

fun bool_item_value :: "(addr \<Rightarrow> bool) \<Rightarrow> cil_item \<Rightarrow> bool" and bool_expr_value :: "(addr \<Rightarrow> bool) \<Rightarrow> cil_list \<Rightarrow> bool" where
  "bool_item_value val (Item_Datum a) = val a"
| "bool_item_value val (Item_List l) = bool_expr_value val l"
| "bool_item_value val (Item_String x) = False"
| "bool_item_value val (Item_Op op) = False"
| "bool_item_value val (Item_Operand op) = False"
| "bool_item_value val (Item_Ref f a) = False"
| "bool_expr_value val (Cil_List flavor items) =
     (let vs = map (bool_item_value val) items in
      case items of Item_Op op # _ \<Rightarrow> bool_op_value op (tl vs) | _ \<Rightarrow> \<exists>v \<in> set vs. v)"

text \<open>The expressions of the language: operators with their operands, or a list of operands.\<close>

fun bool_item_ok :: "(addr \<Rightarrow> bool) \<Rightarrow> cil_item \<Rightarrow> bool" and bool_expr_ok :: "(addr \<Rightarrow> bool) \<Rightarrow> cil_list \<Rightarrow> bool" where
  "bool_item_ok known (Item_Datum a) = known a"
| "bool_item_ok known (Item_List l) = bool_expr_ok known l"
| "bool_item_ok known (Item_String x) = False"
| "bool_item_ok known (Item_Op op) = False"
| "bool_item_ok known (Item_Operand op) = False"
| "bool_item_ok known (Item_Ref f a) = False"
| "bool_expr_ok known (Cil_List flavor items) \<longleftrightarrow> flavor = CIL_BOOL \<and>
     (let oks = map (bool_item_ok known) items in
      case items of
        [] \<Rightarrow> False
      | Item_Op op # _ \<Rightarrow> op \<in> {CIL_NOT, CIL_OR, CIL_AND, CIL_XOR, CIL_EQ, CIL_NEQ} \<and>
          (let n = (if op = CIL_NOT then 1 else 2) in n < length oks \<and> list_all id (take n (tl oks)))
      | _ \<Rightarrow> list_all id oks)"

subsection \<open>The postfix form on a stack\<close>

definition cond_binary :: "policy_consts \<Rightarrow> nat \<Rightarrow> bool \<Rightarrow> bool \<Rightarrow> bool option" where
  "cond_binary C k x y =
     (if k = cond_or C then Some (x \<or> y) else if k = cond_and C then Some (x \<and> y)
      else if k = cond_xor C then Some (x \<noteq> y) else if k = cond_eq C then Some (x = y)
      else if k = cond_neq C then Some (x \<noteq> y) else None)"

definition cond_step :: "policy_consts \<Rightarrow> (32 word \<Rightarrow> bool) \<Rightarrow> cond_expr \<Rightarrow> bool list \<Rightarrow> bool list option" where
  "cond_step C val e stack =
     (if cond_expr_type e = cond_bool C then Some (val (cond_expr_bool e) # stack)
      else if cond_expr_type e = cond_not C then (case stack of x # rest \<Rightarrow> Some ((\<not> x) # rest) | _ \<Rightarrow> None)
      else
        (case stack of
          y # x # rest \<Rightarrow> map_option (\<lambda>v. v # rest) (cond_binary C (cond_expr_type e) x y)
        | _ \<Rightarrow> None))"

fun cond_run :: "policy_consts \<Rightarrow> (32 word \<Rightarrow> bool) \<Rightarrow> cond_expr list \<Rightarrow> bool list \<Rightarrow> bool list option" where
  "cond_run C val [] stack = Some stack"
| "cond_run C val (e # es) stack = Option.bind (cond_step C val e stack) (cond_run C val es)"

lemma cond_run_append: "cond_run C val (es @ fs) stack = Option.bind (cond_run C val es stack) (cond_run C val fs)"
  by (induction es arbitrary: stack) (auto simp: bind_assoc split: bind_splits)

text \<open>The numbers of the operators differ.\<close>

definition cond_codes :: "policy_consts \<Rightarrow> bool" where
  "cond_codes C \<longleftrightarrow> distinct [cond_bool C, cond_not C, cond_or C, cond_and C, cond_xor C, cond_eq C, cond_neq C]"

text \<open>\<open>r\<close> is code for the value \<open>v\<close>, or an error when the expression is not \<open>ok\<close>.\<close>

definition code_for :: "policy_consts \<Rightarrow> (32 word \<Rightarrow> bool) \<Rightarrow> cond_expr list outcome \<Rightarrow> bool \<Rightarrow> bool \<Rightarrow> bool" where
  "code_for C val r ok v \<longleftrightarrow> (if ok then \<exists>es. r = Ok es \<and> (\<forall>stack. cond_run C val es stack = Some (v # stack))
     else \<forall>es. r \<noteq> Ok es)"

lemma code_for_operator:
  assumes codes: "cond_codes C" and op: "cond_operator_type C op = Some k" "op \<noteq> CIL_NOT"
    and "code_for C val r1 True x" "code_for C val r2 True y"
  obtains h1 h2 where "r1 = Ok h1" "r2 = Ok h2"
    "\<And>stack. cond_run C val (h1 @ h2 @ [cond_op k]) stack = Some (bool_op_value op [x, y] # stack)"
proof -
  from assms(4,5) obtain h1 h2 where h: "r1 = Ok h1" "r2 = Ok h2"
    "\<And>stack. cond_run C val h1 stack = Some (x # stack)" "\<And>stack. cond_run C val h2 stack = Some (y # stack)"
    by (auto simp: code_for_def)
  have step: "cond_step C val (cond_op k) (y # x # stack) = Some (bool_op_value op [x, y] # stack)" for stack
    using codes op by (auto simp: cond_codes_def cond_operator_type_def cond_step_def cond_op_def cond_binary_def
      bool_op_value_def split: if_split_asm)
  have "cond_run C val (h1 @ h2 @ [cond_op k]) stack = Some (bool_op_value op [x, y] # stack)" for stack
    by (simp add: cond_run_append h step)
  with h(1,2) show ?thesis by (rule that)
qed

lemma code_for_negation:
  assumes codes: "cond_codes C" and "code_for C val r True x"
  shows "\<exists>h. r = Ok h \<and> (\<forall>stack. cond_run C val (h @ [cond_op (cond_not C)]) stack = Some ((\<not> x) # stack))"
  using assms by (auto simp: code_for_def cond_run_append cond_codes_def cond_step_def cond_op_def)

lemma disjunction_code:
  assumes codes: "cond_codes C" and "\<And>stack. cond_run C val h stack = Some (x # stack)"
    and "list_all2 (\<lambda>r (ok, v). code_for C val r ok v) rs oks"
  shows "code_for C val (cond_disjunction C h rs) (list_all fst oks) (x \<or> (\<exists>v \<in> set (map snd oks). v))"
  using assms(3,2)
proof (induction rs oks arbitrary: h x rule: list_all2_induct)
  case Nil
  then show ?case by (simp add: code_for_def)
next
  case (Cons r rs ok oks)
  obtain o' y where ok: "ok = (o', y)" by (cases ok)
  show ?case
  proof (cases o')
    case False
    then show ?thesis using Cons(1) ok by (auto simp: code_for_def)
  next
    case True
    then obtain h2 where h2: "r = Ok h2" "\<And>stack. cond_run C val h2 stack = Some (y # stack)"
      using Cons(1) ok by (auto simp: code_for_def)
    have "cond_step C val (cond_op (cond_or C)) (y # x # stack) = Some ((x \<or> y) # stack)" for stack
      using codes by (auto simp: cond_codes_def cond_step_def cond_op_def cond_binary_def)
    then have "cond_run C val (h @ h2 @ [cond_op (cond_or C)]) stack = Some ((x \<or> y) # stack)" for stack
      by (simp add: cond_run_append Cons.prems h2(2))
    from Cons.IH [OF this] show ?thesis using h2(1) ok True by (simp add: disj_assoc)
  qed
qed

lemma operation_code:
  assumes codes: "cond_codes C" and rs: "list_all2 (\<lambda>r (ok, v). code_for C val r ok v) rs oks"
  shows "code_for C val (cond_operation C op rs)
    (op \<in> {CIL_NOT, CIL_OR, CIL_AND, CIL_XOR, CIL_EQ, CIL_NEQ} \<and>
      (let n = (if op = CIL_NOT then 1 else 2) in n \<le> length oks \<and> list_all fst (take n oks)))
    (bool_op_value op (map snd oks))"
proof (cases "cond_operator_type C op")
  case None
  then show ?thesis by (auto simp: code_for_def cond_operation_def cond_operator_type_def split: if_split_asm)
next
  case (Some k)
  then have op: "op \<in> {CIL_NOT, CIL_OR, CIL_AND, CIL_XOR, CIL_EQ, CIL_NEQ}"
    by (auto simp: cond_operator_type_def split: if_split_asm)
  have len: "length rs = length oks" using rs by (rule list_all2_lengthD)
  have at: "code_for C val (rs ! i) (fst (oks ! i)) (snd (oks ! i))" if "i < length oks" for i
    using list_all2_nthD2 [OF rs that] by (simp add: case_prod_beta)
  show ?thesis
  proof (cases "op = CIL_NOT")
    case True
    then have k: "k = cond_not C" using Some by (simp add: cond_operator_type_def)
    show ?thesis
    proof (cases oks)
      case Nil
      then show ?thesis using len Some by (auto simp: code_for_def cond_operation_def cond_operand_def)
    next
      case (Cons o' oks')
      then have r: "code_for C val (rs ! 0) (fst o') (snd o')" "rs \<noteq> []" using at [of 0] len by auto
      show ?thesis
      proof (cases "fst o'")
        case True
        then show ?thesis using code_for_negation [OF codes, of val "rs ! 0" "snd o'"] r \<open>op = CIL_NOT\<close> k Some Cons len
          by (auto simp: code_for_def cond_operation_def cond_operand_def bool_op_value_def)
      next
        case False
        then show ?thesis using r \<open>op = CIL_NOT\<close> Some Cons
          by (auto simp: code_for_def cond_operation_def cond_operand_def)
      qed
    qed
  next
    case False
    show ?thesis
    proof (cases "2 \<le> length oks \<and> fst (oks ! 0) \<and> fst (oks ! 1)")
      case True
      then obtain o1 o2 os where oks: "oks = o1 # o2 # os" by (metis Suc_le_length_iff numeral_2_eq_2)
      obtain h1 h2 where h: "rs ! 0 = Ok h1" "rs ! 1 = Ok h2"
        "\<And>stack. cond_run C val (h1 @ h2 @ [cond_op k]) stack = Some (bool_op_value op [snd o1, snd o2] # stack)"
        using code_for_operator [OF codes Some False, of val "rs ! 0" "snd o1" "rs ! 1" "snd o2"] at [of 0] at [of 1] True oks
        by auto
      have "bool_op_value op [snd o1, snd o2] = bool_op_value op (map snd oks)" by (simp add: bool_op_value_def oks)
      then show ?thesis using h True len False op Some oks
        by (auto simp: code_for_def cond_operation_def cond_operand_def)
    next
      case bad: False
      then have "\<not> (2 \<le> length oks \<and> list_all fst (take 2 oks))"
        by (cases oks; cases "tl oks") (auto simp: numeral_2_eq_2)
      moreover have "cond_operation C op rs \<noteq> Ok es" for es
        using bad at [of 0] at [of 1] len False Some by (auto simp: cond_operation_def cond_operand_def code_for_def split: if_splits)
      ultimately show ?thesis using False by (simp add: code_for_def)
    qed
  qed
qed

lemma without_operator:
  assumes "\<nexists>op. i = Item_Op op"
  shows "cil_cond_expr_to_sepol_expr_helper L C s p (Cil_List flavor (i # rest)) =
      (if flavor \<noteq> CIL_BOOL then Fail SEPOL_ERR
       else obind (cil_cond_item_to_sepol_expr L C s p i)
         (\<lambda>h. cond_disjunction C h (map (cil_cond_item_to_sepol_expr L C s p) rest)))"
    and "bool_expr_ok known (Cil_List flavor (i # rest)) \<longleftrightarrow>
      flavor = CIL_BOOL \<and> bool_item_ok known i \<and> list_all (bool_item_ok known) rest"
    and "bool_expr_value cv (Cil_List flavor (i # rest)) \<longleftrightarrow>
      bool_item_value cv i \<or> (\<exists>r \<in> set rest. bool_item_value cv r)"
  using assms by (cases i; simp add: Let_def list.pred_map comp_def)+

lemma cond_converted:
  assumes codes: "cond_codes C" and vals: "\<And>a v. sepol_bool_of L s p a = Ok v \<Longrightarrow> val v = cv a"
  defines "known \<equiv> \<lambda>a. \<exists>v. sepol_bool_of L s p a = Ok v"
  shows "code_for C val (cil_cond_item_to_sepol_expr L C s p item) (bool_item_ok known item) (bool_item_value cv item)"
    and "code_for C val (cil_cond_expr_to_sepol_expr_helper L C s p l) (bool_expr_ok known l) (bool_expr_value cv l)"
proof (induction item and l rule: cil_item.induct cil_list.induct)
  case (Item_Datum a)
  show ?case
  proof (cases "known a")
    case True
    then obtain v where "sepol_bool_of L s p a = Ok v" by (auto simp: known_def)
    then show ?thesis using True vals by (auto simp: code_for_def cond_step_def)
  next
    case False
    then show ?thesis by (auto simp: code_for_def known_def)
  qed
next
  case (Cil_List flavor items)
  have each: "list_all2 (\<lambda>r (ok, v). code_for C val r ok v) (map (cil_cond_item_to_sepol_expr L C s p) xs)
    (map (\<lambda>i. (bool_item_ok known i, bool_item_value cv i)) xs)" if "set xs \<subseteq> set items" for xs
    using Cil_List that by (auto simp: list_all2_map1 list_all2_map2 intro!: list.rel_refl_strong)
  show ?case
  proof (cases items)
    case Nil
    then show ?thesis by (simp add: code_for_def)
  next
    case (Cons i rest)
    let ?pair = "\<lambda>i. (bool_item_ok known i, bool_item_value cv i)"
    have rest: "list_all fst (take n (map ?pair rest)) = list_all id (take n (map (bool_item_ok known) rest))"
      "map snd (map ?pair rest) = map (bool_item_value cv) rest" for n
      by (simp_all add: take_map list.pred_map comp_def)
    have subset: "set rest \<subseteq> set items" using Cons by auto
    show ?thesis
    proof (cases "\<exists>op. i = Item_Op op")
      case True
      then obtain op where op: "i = Item_Op op" by blast
      have "code_for C val (cond_operation C op (map (cil_cond_item_to_sepol_expr L C s p) rest))
        (op \<in> {CIL_NOT, CIL_OR, CIL_AND, CIL_XOR, CIL_EQ, CIL_NEQ} \<and> (let n = (if op = CIL_NOT then 1 else 2) in
          n \<le> length rest \<and> list_all id (take n (map (bool_item_ok known) rest))))
        (bool_op_value op (map (bool_item_value cv) rest))"
        using operation_code [OF codes each [OF subset], of op] by (simp only: rest length_map)
      moreover have "(n < length (map (bool_item_ok known) items)) = (n \<le> length rest)" for n
        using Cons by (simp add: less_Suc_eq_le)
      ultimately show ?thesis
        by (cases "flavor = CIL_BOOL") (simp_all add: op Cons code_for_def Let_def)
    next
      case False
      have i: "code_for C val (cil_cond_item_to_sepol_expr L C s p i) (bool_item_ok known i) (bool_item_value cv i)"
        using Cil_List Cons by simp
      show ?thesis
      proof (cases "bool_item_ok known i")
        case True
        then obtain h where h: "cil_cond_item_to_sepol_expr L C s p i = Ok h"
          "\<And>stack. cond_run C val h stack = Some (bool_item_value cv i # stack)" using i by (auto simp: code_for_def)
        from disjunction_code [OF codes h(2) each [OF subset]] show ?thesis
          using True by (simp add: Cons without_operator [OF False] h(1) code_for_def list.pred_map comp_def
            del: cil_cond_expr_to_sepol_expr_helper.simps bool_expr_ok.simps bool_expr_value.simps)
      next
        case bad: False
        then show ?thesis using i by (auto simp: Cons without_operator [OF False] code_for_def
            simp del: cil_cond_expr_to_sepol_expr_helper.simps bool_expr_ok.simps bool_expr_value.simps)
      qed
    qed
  qed
qed (simp_all add: code_for_def)

text \<open>C38. Conditional expressions: the conversion to the postfix form of libsepol succeeds exactly on the expressions of
  the language whose booleans are in the policy, and running its result on a stack pushes the value of the
  expression.\<close>

theorem cond_expr_converted:
  assumes "cond_codes C" and "\<And>a v. sepol_bool_of L s p a = Ok v \<Longrightarrow> val v = cv a"
  shows "if bool_expr_ok (\<lambda>a. \<exists>v. sepol_bool_of L s p a = Ok v) l
    then \<exists>es. cil_cond_expr_to_sepol_expr L C s (Some l) p = Ok es \<and>
      (\<forall>stack. cond_run C val es stack = Some (bool_expr_value cv l # stack))
    else \<forall>es. cil_cond_expr_to_sepol_expr L C s (Some l) p \<noteq> Ok es"
  using cond_converted(2) [of C L s p val cv l] assms by (simp add: code_for_def cil_cond_expr_to_sepol_expr_def)

subsection \<open>An example\<close>

text \<open>The boolean \<open>b\<close> of the compiler at 4, and of the policy at 1 with the value 3.\<close>

definition one_bool :: "((string \<times> addr) list, nat list) cil_store" where
  "one_bool = store0\<lparr>datums := [4 \<mapsto> \<lparr>datum_name = Some ''b'', datum_fqn = Some ''b'', datum_symtab = None,
     datum_nodes = None\<rparr>]\<rparr>"

definition bool_policy :: "((string \<times> addr) list, nat list, avtab_node list, nat list transition list) policydb" where
  "bool_policy = policy0\<lparr>d_bool := [1 \<mapsto> \<lparr>bool_datum_value = 3, bool_datum_state = True\<rparr>],
     p_symtab := (\<lambda>_. \<lparr>symtab_table = [(''b'', 1)], symtab_nprim = 3\<rparr>)\<rparr>"

lemma sepol_bool_b: "sepol_bool_of sepol0 one_bool bool_policy a = Ok v \<Longrightarrow> a = 4 \<and> v = 3"
  by (auto simp: sepol_bool_of_def get_sepol_datum_def datum_key_def fqn_of_def one_bool_def bool_policy_def policy0_def
      sepol0_def split: if_split_asm)

lemma sepol_bool_4: "sepol_bool_of sepol0 one_bool bool_policy 4 = Ok 3"
  by (simp add: sepol_bool_of_def get_sepol_datum_def datum_key_def fqn_of_def one_bool_def bool_policy_def policy0_def
      sepol0_def)

lemma consts0_cond: "cond_codes consts0"
  by (simp add: cond_codes_def consts0_def)

lemma cond_expr_converted_witness:
  "\<exists>es. cil_cond_expr_to_sepol_expr sepol0 consts0 one_bool (Some (Cil_List CIL_BOOL [Item_Op CIL_NOT, Item_Datum 4])) bool_policy = Ok es \<and>
     (\<forall>stack. cond_run consts0 (\<lambda>v. v = 3) es stack = Some (False # stack))"
proof -
  let ?l = "Cil_List CIL_BOOL [Item_Op CIL_NOT, Item_Datum 4]"
  have vals: "(v = 3) = (a = 4)" if "sepol_bool_of sepol0 one_bool bool_policy a = Ok v" for a v
    using sepol_bool_b [OF that] by simp
  have ok: "bool_expr_ok (\<lambda>a. \<exists>v. sepol_bool_of sepol0 one_bool bool_policy a = Ok v) ?l"
    using sepol_bool_4 by simp
  have no: "bool_expr_value (\<lambda>a. a = 4) ?l = False" by (simp add: bool_op_value_def)
  have "\<exists>es. cil_cond_expr_to_sepol_expr sepol0 consts0 one_bool (Some ?l) bool_policy = Ok es \<and>
      (\<forall>stack. cond_run consts0 (\<lambda>v. v = 3) es stack = Some (bool_expr_value (\<lambda>a. a = 4) ?l # stack))"
    using cond_expr_converted [where L = sepol0 and s = one_bool and p = bool_policy and val = "\<lambda>v. v = 3" and cv = "\<lambda>a. a = 4" and l = ?l, OF consts0_cond vals] ok
    by (simp only: if_True)
  then show ?thesis unfolding no .
qed

end
