(* ===== verification/Cil_Fqn.thy ===== *)
theory Cil_Fqn
  imports Cil_Symtab
begin

text \<open>
  The qualification of names (\<open>src/cil_fqn.c\<close>): a declaration in a block gets the names of the blocks around it
  in front of its own name.

  \<open>fuel\<close> bounds the nesting of blocks.
\<close>

subsection \<open>Operations\<close>

abbreviation (input) CIL_MAX_NAME_LENGTH :: nat where "CIL_MAX_NAME_LENGTH \<equiv> 2048"

text \<open>\<open>struct cil_fqn_args\<close>: the prefix is a buffer of \<open>CIL_MAX_NAME_LENGTH\<close> bytes, of which \<open>len\<close> are in use.\<close>

record cil_fqn_args =
  fqn_prefix :: string
  fqn_len :: nat
  fqn_node :: addr

definition cil_fqn_qualify_decls :: "cil_fqn_args \<Rightarrow> string \<Rightarrow> addr \<Rightarrow> (('h, 'b, 'z) cil_store_scheme, unit) cil" where
  "cil_fqn_qualify_decls fqn_args k d =
     (if fqn_len fqn_args = 0 then ret ()
      else
        bind (rd datums d) (\<lambda>datum.
        bind (lift (not_null (datum_name datum))) (\<lambda>name.
        if CIL_MAX_NAME_LENGTH \<le> fqn_len fqn_args + length name then fail SEPOL_ERR
        else wr datums datums_update d (datum_fqn_update (\<lambda>_. Some (fqn_prefix fqn_args @ name))))))"

text \<open>The kinds of declarations that do not show up in the kernel policy, and policy capabilities, keep their names.\<close>

definition kernel_tables :: "nat list" where
  "kernel_tables = filter (\<lambda>i. i \<notin> sym_num ` {CIL_SYM_CLASSPERMSETS, CIL_SYM_CONTEXTS, CIL_SYM_LEVELRANGES,
     CIL_SYM_IPADDRS, CIL_SYM_NAMES, CIL_SYM_POLICYCAPS}) [1..<sym_num CIL_SYM_NUM]"

text \<open>A prefix that is too long ends in a message that reads the node of \<open>child_args\<close>, which is not set yet.\<close>

fun cil_fqn_qualify_blocks ::
  "nat \<Rightarrow> ('h, 'b) sepol \<Rightarrow> cil_fqn_args \<Rightarrow> string \<Rightarrow> addr \<Rightarrow> (('h, 'b, 'z) cil_store_scheme, unit) cil"
where
  "cil_fqn_qualify_blocks 0 L fqn_args k d = no_fuel"
| "cil_fqn_qualify_blocks (Suc fuel) L fqn_args k d =
     bind (reading (\<lambda>s. NODE s (Some d))) (\<lambda>node.
     bind (rd nodes node) (\<lambda>nd.
     if node_flavor nd \<noteq> CIL_BLOCK then ret ()
     else
       bind (rd datums d) (\<lambda>datum.
       bind (lift (not_null (datum_name datum))) (\<lambda>name.
       let newlen = fqn_len fqn_args + length name + 1 in
       if CIL_MAX_NAME_LENGTH \<le> newlen then fault
       else
         let child_args = \<lparr>fqn_prefix = fqn_prefix fqn_args @ name @ ''.'', fqn_len = newlen, fqn_node = node\<rparr> in
         bind (for_each (\<lambda>i. cil_symtab_map L (SymArray d i) (cil_fqn_qualify_decls child_args)) kernel_tables) (\<lambda>_.
         cil_symtab_map L (SymArray d (sym_num CIL_SYM_BLOCKS)) (cil_fqn_qualify_blocks fuel L child_args))))))"

definition cil_fqn_qualify :: "nat \<Rightarrow> ('h, 'b) sepol \<Rightarrow> addr \<Rightarrow> (('h, 'b, 'z) cil_store_scheme, unit) cil" where
  "cil_fqn_qualify fuel L root_node =
     bind (rd nodes root_node) (\<lambda>nd.
     bind (lift (not_null (node_data nd))) (\<lambda>root.
     cil_symtab_map L (SymArray root (sym_num CIL_SYM_BLOCKS))
       (cil_fqn_qualify_blocks fuel L \<lparr>fqn_prefix = '''', fqn_len = 0, fqn_node = root_node\<rparr>)))"

subsection \<open>The full names\<close>

definition entries_of :: "('h, 'b) sepol \<Rightarrow> ('h, 'b, 'z) cil_store_scheme \<Rightarrow> symtab_ref \<Rightarrow> (string \<times> addr) set" where
  "entries_of L s tab = (case symtabs s tab of None \<Rightarrow> {} | Some h \<Rightarrow> set (ht_entries L h))"

definition name_of :: "('h, 'b, 'z) cil_store_scheme \<Rightarrow> addr \<Rightarrow> string option" where
  "name_of s d = (case datums s d of None \<Rightarrow> None | Some dt \<Rightarrow> datum_name dt)"

definition is_block :: "('h, 'b, 'z) cil_store_scheme \<Rightarrow> addr \<Rightarrow> bool" where
  "is_block s b \<longleftrightarrow> FLAVOR s (Some b) = Ok CIL_BLOCK"

text \<open>\<open>qualifies L s p b d f\<close>: the block \<open>b\<close>, whose own prefix is \<open>p\<close>, or a block in it declares \<open>d\<close>, with the full name
  \<open>f\<close>.\<close>

inductive qualifies ::
  "('h, 'b) sepol \<Rightarrow> ('h, 'b, 'z) cil_store_scheme \<Rightarrow> string \<Rightarrow> addr \<Rightarrow> addr \<Rightarrow> string \<Rightarrow> bool"
for L :: "('h, 'b) sepol" and s :: "('h, 'b, 'z) cil_store_scheme"
where
  here: "is_block s b \<Longrightarrow> name_of s b = Some m \<Longrightarrow> i \<in> set kernel_tables \<Longrightarrow> (k, d) \<in> entries_of L s (SymArray b i)
    \<Longrightarrow> name_of s d = Some n \<Longrightarrow> qualifies L s p b d (p @ m @ ''.'' @ n)"
| deeper: "is_block s b \<Longrightarrow> name_of s b = Some m \<Longrightarrow> (k, c) \<in> entries_of L s (SymArray b (sym_num CIL_SYM_BLOCKS))
    \<Longrightarrow> qualifies L s (p @ m @ ''.'') c d f \<Longrightarrow> qualifies L s p b d f"

text \<open>The blocks inside of the block \<open>b\<close> with the prefixes of their contents.\<close>

inductive block_prefix ::
  "('h, 'b) sepol \<Rightarrow> ('h, 'b, 'z) cil_store_scheme \<Rightarrow> string \<Rightarrow> addr \<Rightarrow> string \<Rightarrow> bool"
for L :: "('h, 'b) sepol" and s :: "('h, 'b, 'z) cil_store_scheme"
where
  own: "is_block s b \<Longrightarrow> name_of s b = Some m \<Longrightarrow> block_prefix L s p b (p @ m @ ''.'')"
| inner: "is_block s b \<Longrightarrow> name_of s b = Some m \<Longrightarrow> (k, c) \<in> entries_of L s (SymArray b (sym_num CIL_SYM_BLOCKS))
    \<Longrightarrow> block_prefix L s (p @ m @ ''.'') c f \<Longrightarrow> block_prefix L s p b f"

definition full_name :: "('h, 'b) sepol \<Rightarrow> ('h, 'b, 'z) cil_store_scheme \<Rightarrow> addr \<Rightarrow> addr \<Rightarrow> string \<Rightarrow> bool" where
  "full_name L s root d f \<longleftrightarrow> (\<exists>k b. (k, b) \<in> entries_of L s (SymArray root (sym_num CIL_SYM_BLOCKS)) \<and> qualifies L s '''' b d f)"

text \<open>What the tables of blocks must be: their declarations have names and nodes, blocks have tables, and blocks are
  nested, which \<open>rank\<close> measures.\<close>

definition block_tables :: "('h, 'b) sepol \<Rightarrow> ('h, 'b, 'z) cil_store_scheme \<Rightarrow> (addr \<Rightarrow> nat) \<Rightarrow> addr set \<Rightarrow> bool" where
  "block_tables L s rank blocks \<longleftrightarrow> (\<forall>b \<in> blocks.
     name_of s b \<noteq> None \<and> (\<exists>f. FLAVOR s (Some b) = Ok f) \<and>
     (is_block s b \<longrightarrow>
       (\<forall>i \<in> insert (sym_num CIL_SYM_BLOCKS) (set kernel_tables). symtabs s (SymArray b i) \<noteq> None) \<and>
       (\<forall>i \<in> set kernel_tables. \<forall>(k, d) \<in> entries_of L s (SymArray b i). name_of s d \<noteq> None) \<and>
       (\<forall>(k, c) \<in> entries_of L s (SymArray b (sym_num CIL_SYM_BLOCKS)). c \<in> blocks \<and> rank c < rank b)))"

text \<open>All names fit into the buffer: the full names, and the prefixes of the blocks.\<close>

definition names_fit :: "('h, 'b) sepol \<Rightarrow> ('h, 'b, 'z) cil_store_scheme \<Rightarrow> string \<Rightarrow> addr \<Rightarrow> bool" where
  "names_fit L s p b \<longleftrightarrow> (\<forall>d f. qualifies L s p b d f \<longrightarrow> length f < CIL_MAX_NAME_LENGTH) \<and>
     (\<forall>f. block_prefix L s p b f \<longrightarrow> length f < CIL_MAX_NAME_LENGTH)"

lemma names_fit_block:
  assumes "is_block s b" and "name_of s b = Some m"
  shows "names_fit L s p b \<longleftrightarrow> length (p @ m @ ''.'') < CIL_MAX_NAME_LENGTH \<and>
    (\<forall>i \<in> set kernel_tables. \<forall>(k, d) \<in> entries_of L s (SymArray b i). \<forall>n. name_of s d = Some n \<longrightarrow>
       length ((p @ m @ ''.'') @ n) < CIL_MAX_NAME_LENGTH) \<and>
    (\<forall>(k, c) \<in> entries_of L s (SymArray b (sym_num CIL_SYM_BLOCKS)). names_fit L s (p @ m @ ''.'') c)"
  (is "_ = ?rhs")
proof
  assume fit: "names_fit L s p b"
  have "length f < CIL_MAX_NAME_LENGTH" if "qualifies L s p b d f" for d f using fit that by (simp add: names_fit_def)
  moreover have "length f < CIL_MAX_NAME_LENGTH" if "block_prefix L s p b f" for f using fit that by (simp add: names_fit_def)
  ultimately show ?rhs
    using qualifies.here [OF assms, of _ _ _ L _ p] qualifies.deeper [OF assms, of _ _ L p]
      block_prefix.own [OF assms, of L p] block_prefix.inner [OF assms, of _ _ L p]
    unfolding names_fit_def append_assoc by (intro conjI ballI) blast+
next
  assume rhs: ?rhs
  have "length f < CIL_MAX_NAME_LENGTH" if "qualifies L s p b d f" for d f
    using that
  proof (cases rule: qualifies.cases)
    case (here m' i k n)
    then show ?thesis using rhs assms by fastforce
  next
    case (deeper m' k c)
    then have "names_fit L s (p @ m @ ''.'') c" "qualifies L s (p @ m @ ''.'') c d f" using rhs assms by auto
    then show ?thesis by (simp add: names_fit_def)
  qed
  moreover have "length f < CIL_MAX_NAME_LENGTH" if "block_prefix L s p b f" for f
    using that
  proof (cases rule: block_prefix.cases)
    case (own m')
    then show ?thesis using rhs assms by simp
  next
    case (inner m' k c)
    then have "names_fit L s (p @ m @ ''.'') c" "block_prefix L s (p @ m @ ''.'') c f" using rhs assms by auto
    then show ?thesis by (simp add: names_fit_def)
  qed
  ultimately show "names_fit L s p b" by (simp add: names_fit_def)
qed

subsection \<open>The walk\<close>

text \<open>A state of the walk that began in \<open>s\<close>: only names of \<open>F\<close> have been stored. \<open>has_full\<close>: the declaration has one.\<close>

definition has_full ::
  "(addr \<Rightarrow> string set) \<Rightarrow> ('h, 'b, 'z) cil_store_scheme \<Rightarrow> ('h, 'b, 'z) cil_store_scheme \<Rightarrow> addr \<Rightarrow> bool"
where
  "has_full F s t d \<longleftrightarrow> (\<exists>dt f. datums s d = Some dt \<and> f \<in> F d \<and> datums t d = Some (dt\<lparr>datum_fqn := Some f\<rparr>))"

definition renamed ::
  "(addr \<Rightarrow> string set) \<Rightarrow> ('h, 'b, 'z) cil_store_scheme \<Rightarrow> ('h, 'b, 'z) cil_store_scheme \<Rightarrow> bool"
where
  "renamed F s t \<longleftrightarrow> t\<lparr>datums := datums s\<rparr> = s \<and> (\<forall>d. datums t d = datums s d \<or> has_full F s t d)"

text \<open>\<open>qualifying F s m ds C\<close>: when \<open>C\<close> holds, the walk goes on, keeps what it has named, and names what is in \<open>ds\<close>;
  otherwise it does not succeed.\<close>

definition qualifying ::
  "(addr \<Rightarrow> string set) \<Rightarrow> ('h, 'b, 'z) cil_store_scheme \<Rightarrow> (('h, 'b, 'z) cil_store_scheme, unit) cil \<Rightarrow> addr set \<Rightarrow> bool
   \<Rightarrow> bool"
where
  "qualifying F s m ds C \<longleftrightarrow> (\<forall>t. renamed F s t \<longrightarrow> (\<exists>r u. m t = (r, u) \<and>
     (if C then r = Ok () \<and> renamed F s u \<and> (\<forall>d. has_full F s t d \<or> d \<in> ds \<longrightarrow> has_full F s u d)
      else r = Fail SEPOL_ERR \<or> r = Fault)))"

lemma qualifyingE:
  assumes "qualifying F s m ds C" and "renamed F s t"
  obtains (fits) u where "C" "m t = (Ok (), u)" "renamed F s u" "\<And>d. has_full F s t d \<or> d \<in> ds \<Longrightarrow> has_full F s u d"
    | (long) r u where "\<not> C" "m t = (r, u)" "r = Fail SEPOL_ERR \<or> r = Fault"
  using assms unfolding qualifying_def by (metis (full_types))

lemma qualifying_ret: "qualifying F s (ret ()) {} True"
  by (simp add: qualifying_def)

lemma qualifying_bind:
  assumes "qualifying F s m ds C" and "qualifying F s n es D"
  shows "qualifying F s (bind m (\<lambda>_. n)) (ds \<union> es) (C \<and> D)"
  unfolding qualifying_def
proof (intro allI impI)
  fix t assume "renamed F s t"
  note t = this
  show "\<exists>r u. bind m (\<lambda>_. n) t = (r, u) \<and> (if C \<and> D
      then r = Ok () \<and> renamed F s u \<and> (\<forall>d. has_full F s t d \<or> d \<in> ds \<union> es \<longrightarrow> has_full F s u d)
      else r = Fail SEPOL_ERR \<or> r = Fault)"
    using assms(1) t
  proof (cases rule: qualifyingE)
    case (fits u)
    from assms(2) fits(3) show ?thesis by (cases rule: qualifyingE) (use fits in auto)
  next
    case (long r u)
    then show ?thesis by auto
  qed
qed

lemma qualifying_cong:
  assumes m: "qualifying F s m ds C" and eq: "\<And>t. renamed F s t \<Longrightarrow> n t = m t" and "es \<subseteq> ds" and "C = D"
  shows "qualifying F s n es D"
  using m assms(3,4) unfolding qualifying_def by (simp add: eq) (meson subsetD)

lemma qualifying_for_each:
  assumes "\<And>x. x \<in> set xs \<Longrightarrow> qualifying F s (f x) (ds x) (C x)"
  shows "qualifying F s (for_each f xs) (\<Union>x \<in> set xs. ds x) (\<forall>x \<in> set xs. C x)"
  using assms
proof (induction xs)
  case (Cons x xs)
  then show ?case using qualifying_bind [of F s "f x" "ds x" "C x" "for_each f xs"] by simp
qed (simp add: qualifying_ret)

text \<open>What the walk reads is as it was.\<close>

lemma renamed_reads:
  assumes "renamed F s t"
  shows "symtabs t = symtabs s" "nodes t = nodes s" "NODE t d = NODE s d" "FLAVOR t d = FLAVOR s d"
    "name_of t a = name_of s a"
proof -
  have t: "t\<lparr>datums := datums s\<rparr> = s" "datums t a = datums s a \<or> has_full F s t a" for a
    using assms by (simp_all add: renamed_def)
  have "symtabs (t\<lparr>datums := datums s\<rparr>) = symtabs t" "nodes (t\<lparr>datums := datums s\<rparr>) = nodes t" by simp_all
  then show reads: "symtabs t = symtabs s" "nodes t = nodes s" by (simp_all add: t(1))
  show "name_of t a = name_of s a" using t(2) [of a] by (auto simp: has_full_def name_of_def)
  show "NODE t d = NODE s d"
  proof (cases d)
    case (Some x)
    then show ?thesis using t(2) [of x] by (auto simp: has_full_def NODE_def deref_def)
  qed (simp add: NODE_def)
  then show "FLAVOR t d = FLAVOR s d" by (simp add: FLAVOR_def reads)
qed

lemma renamed_refl: "renamed F s s"
  by (simp add: renamed_def)

lemma qualifying_map:
  assumes "symtabs s tab = Some h" and "\<And>k d. (k, d) \<in> entries_of L s tab \<Longrightarrow> qualifying F s (f k d) (ds d) (C d)"
  shows "qualifying F s (cil_symtab_map L tab f) (\<Union>(k, d) \<in> entries_of L s tab. ds d) (\<forall>(k, d) \<in> entries_of L s tab. C d)"
proof -
  have entries: "entries_of L s tab = set (ht_entries L h)" using assms(1) by (simp add: entries_of_def)
  have "qualifying F s (for_each (\<lambda>(k, d). f k d) (ht_entries L h)) (\<Union>x \<in> set (ht_entries L h). ds (snd x))
      (\<forall>x \<in> set (ht_entries L h). C (snd x))"
    by (rule qualifying_for_each) (use assms(2) entries in auto)
  then show ?thesis
    by (rule qualifying_cong)
      (auto simp: renamed_reads(1) assms(1) cil_symtab_map_def symtab_of_def entries)
qed

text \<open>A declaration with the name \<open>n\<close>.\<close>

lemma qualifying_decl:
  assumes "name_of s d = Some n" and "fqn_prefix a @ n \<in> F d" and "fqn_len a = length (fqn_prefix a)" and "fqn_prefix a \<noteq> []"
  shows "qualifying F s (cil_fqn_qualify_decls a k d) {d} (length (fqn_prefix a @ n) < CIL_MAX_NAME_LENGTH)"
  unfolding qualifying_def
proof (intro allI impI)
  fix t assume t: "renamed F s t"
  obtain dt where dt: "datums t d = Some dt" "datum_name dt = Some n"
    using renamed_reads(5) [OF t, of d] assms(1) by (auto simp: name_of_def split: option.splits)
  obtain ds where ds: "datums s d = Some ds" "dt\<lparr>datum_fqn := Some (fqn_prefix a @ n)\<rparr> = ds\<lparr>datum_fqn := Some (fqn_prefix a @ n)\<rparr>"
  proof (cases "has_full F s t d")
    case True
    then show thesis using that dt(1) by (auto simp: has_full_def)
  next
    case False
    then have "datums s d = Some dt" using t dt(1) unfolding renamed_def by metis
    then show thesis using that by blast
  qed
  let ?u = "t\<lparr>datums := (datums t)(d \<mapsto> dt\<lparr>datum_fqn := Some (fqn_prefix a @ n)\<rparr>)\<rparr>"
  have named: "has_full F s ?u d" using ds assms(2) by (auto simp: has_full_def)
  moreover have "has_full F s ?u e" if "has_full F s t e" for e
    using named that by (cases "e = d") (auto simp: has_full_def)
  moreover from this named have "renamed F s ?u" using t by (auto simp: renamed_def)
  moreover have "cil_fqn_qualify_decls a k d t =
      (if length (fqn_prefix a @ n) < CIL_MAX_NAME_LENGTH then (Ok (), ?u) else (Fail SEPOL_ERR, t))"
    using assms(3,4) dt by (simp add: cil_fqn_qualify_decls_def)
  ultimately show "\<exists>r u. cil_fqn_qualify_decls a k d t = (r, u) \<and>
     (if length (fqn_prefix a @ n) < CIL_MAX_NAME_LENGTH
      then r = Ok () \<and> renamed F s u \<and> (\<forall>e. has_full F s t e \<or> e \<in> {d} \<longrightarrow> has_full F s u e)
      else r = Fail SEPOL_ERR \<or> r = Fault)" by auto
qed

lemma qualifying_table:
  assumes "symtabs s (SymArray b i) = Some h" and "fqn_len a = length (fqn_prefix a)" and "fqn_prefix a \<noteq> []"
    and "\<And>k d. (k, d) \<in> entries_of L s (SymArray b i) \<Longrightarrow> \<exists>n. name_of s d = Some n \<and> fqn_prefix a @ n \<in> F d"
  shows "qualifying F s (cil_symtab_map L (SymArray b i) (cil_fqn_qualify_decls a))
    (\<Union>(k, d) \<in> entries_of L s (SymArray b i). {d})
    (\<forall>(k, d) \<in> entries_of L s (SymArray b i). \<forall>n. name_of s d = Some n \<longrightarrow> length (fqn_prefix a @ n) < CIL_MAX_NAME_LENGTH)"
proof (rule qualifying_map [OF assms(1)])
  fix k d assume "(k, d) \<in> entries_of L s (SymArray b i)"
  from assms(4) [OF this] obtain n where n: "name_of s d = Some n" "fqn_prefix a @ n \<in> F d" by blast
  from qualifying_decl [of s d n a F, OF n assms(2,3)]
  show "qualifying F s (cil_fqn_qualify_decls a k d) {d}
      (\<forall>n. name_of s d = Some n \<longrightarrow> length (fqn_prefix a @ n) < CIL_MAX_NAME_LENGTH)"
    using n(1) by simp
qed

text \<open>A block is a walk over its tables with a longer prefix, once the prefix fits.\<close>

lemma block_body:
  assumes "is_block s b" and "name_of s b = Some m" and "renamed F s t" and "fqn_len a = length (fqn_prefix a)"
  shows "\<exists>node. cil_fqn_qualify_blocks (Suc fuel) L a k b t =
    (let a' = \<lparr>fqn_prefix = fqn_prefix a @ m @ ''.'', fqn_len = length (fqn_prefix a @ m @ ''.''), fqn_node = node\<rparr> in
     if length (fqn_prefix a @ m @ ''.'') < CIL_MAX_NAME_LENGTH
     then bind (for_each (\<lambda>i. cil_symtab_map L (SymArray b i) (cil_fqn_qualify_decls a')) kernel_tables)
       (\<lambda>_. cil_symtab_map L (SymArray b (sym_num CIL_SYM_BLOCKS)) (cil_fqn_qualify_blocks fuel L a')) t
     else (Fault, t)) \<and> NODE s (Some b) = Ok node"
proof -
  obtain node nd where node: "NODE s (Some b) = Ok node" "nodes s node = Some nd" "node_flavor nd = CIL_BLOCK"
    using assms(1) by (auto simp: is_block_def FLAVOR_def)
  obtain dt where "datums t b = Some dt" "datum_name dt = Some m"
    using renamed_reads(5) [OF assms(3), of b] assms(2) by (auto simp: name_of_def split: option.splits)
  then show ?thesis using renamed_reads(2,3) [OF assms(3)] node assms(4) by (simp add: Let_def fault_def)
qed

lemma qualifying_blocks:
  assumes "block_tables L s rank blocks" and "b \<in> blocks" and "rank b < fuel"
    and "fqn_len a = length (fqn_prefix a)" and "\<And>d f. qualifies L s (fqn_prefix a) b d f \<Longrightarrow> f \<in> F d"
  shows "qualifying F s (cil_fqn_qualify_blocks fuel L a k b) {d. \<exists>f. qualifies L s (fqn_prefix a) b d f}
    (names_fit L s (fqn_prefix a) b)"
  using assms(2-)
proof (induction fuel arbitrary: a b k)
  case 0
  then show ?case by simp
next
  case (Suc fuel)
  obtain m f where m: "name_of s b = Some m" and f: "FLAVOR s (Some b) = Ok f"
    using assms(1) Suc.prems(1) unfolding block_tables_def by blast
  show ?case
  proof (cases "is_block s b")
    case False
    then have "{d. \<exists>f. qualifies L s (fqn_prefix a) b d f} = {}" "names_fit L s (fqn_prefix a) b"
      by (auto elim: qualifies.cases block_prefix.cases simp: names_fit_def)
    moreover have "cil_fqn_qualify_blocks (Suc fuel) L a k b t = ret () t" if "renamed F s t" for t
      using renamed_reads(2,3) [OF that] f False by (auto simp: is_block_def FLAVOR_def)
    ultimately show ?thesis
      using qualifying_cong [OF qualifying_ret, of F s "cil_fqn_qualify_blocks (Suc fuel) L a k b"]
      by (simp del: cil_fqn_qualify_blocks.simps)
  next
    case True
    let ?p = "fqn_prefix a @ m @ ''.''"
    obtain node where node: "NODE s (Some b) = Ok node" using True by (auto simp: is_block_def FLAVOR_def)
    let ?a = "\<lparr>fqn_prefix = ?p, fqn_len = length ?p, fqn_node = node\<rparr>"
    have tables: "\<And>i. i \<in> insert (sym_num CIL_SYM_BLOCKS) (set kernel_tables) \<Longrightarrow> \<exists>h. symtabs s (SymArray b i) = Some h"
      "\<And>i k d. i \<in> set kernel_tables \<Longrightarrow> (k, d) \<in> entries_of L s (SymArray b i) \<Longrightarrow> \<exists>n. name_of s d = Some n"
      "\<And>k c. (k, c) \<in> entries_of L s (SymArray b (sym_num CIL_SYM_BLOCKS)) \<Longrightarrow> c \<in> blocks \<and> rank c < rank b"
      using assms(1) Suc.prems(1) True unfolding block_tables_def by fastforce+
    let ?table = "\<lambda>i. \<forall>(k, d) \<in> entries_of L s (SymArray b i). \<forall>n. name_of s d = Some n \<longrightarrow>
        length (?p @ n) < CIL_MAX_NAME_LENGTH"
    have table: "qualifying F s (cil_symtab_map L (SymArray b i) (cil_fqn_qualify_decls ?a))
        (\<Union>(k, d) \<in> entries_of L s (SymArray b i). {d}) (?table i)" if i: "i \<in> set kernel_tables" for i
    proof -
      obtain h where h: "symtabs s (SymArray b i) = Some h" using tables(1) i by blast
      have "\<exists>n. name_of s d = Some n \<and> ?p @ n \<in> F d" if "(k, d) \<in> entries_of L s (SymArray b i)" for k d
        using tables(2) [OF i that] Suc.prems(4) [OF here [OF True m i that]] by auto
      with qualifying_table [OF h, of ?a L F] show ?thesis by simp
    qed
    note decls = qualifying_for_each [OF table]
    obtain h where h: "symtabs s (SymArray b (sym_num CIL_SYM_BLOCKS)) = Some h" using tables(1) by blast
    have inner: "qualifying F s (cil_symtab_map L (SymArray b (sym_num CIL_SYM_BLOCKS)) (cil_fqn_qualify_blocks fuel L ?a))
        (\<Union>(k, c) \<in> entries_of L s (SymArray b (sym_num CIL_SYM_BLOCKS)). {d. \<exists>f. qualifies L s ?p c d f})
        (\<forall>(k, c) \<in> entries_of L s (SymArray b (sym_num CIL_SYM_BLOCKS)). names_fit L s ?p c)"
    proof (rule qualifying_map [OF h])
      fix k c assume c: "(k, c) \<in> entries_of L s (SymArray b (sym_num CIL_SYM_BLOCKS))"
      show "qualifying F s (cil_fqn_qualify_blocks fuel L ?a k c) {d. \<exists>f. qualifies L s ?p c d f} (names_fit L s ?p c)"
        using Suc.IH [of c ?a k] tables(3) [OF c] Suc.prems(2) Suc.prems(4) [OF deeper [OF True m c]] by simp
    qed
    have reached: "{d. \<exists>f. qualifies L s (fqn_prefix a) b d f} \<subseteq>
        (\<Union>i \<in> set kernel_tables. \<Union>(k, d) \<in> entries_of L s (SymArray b i). {d}) \<union>
        (\<Union>(k, c) \<in> entries_of L s (SymArray b (sym_num CIL_SYM_BLOCKS)). {d. \<exists>f. qualifies L s ?p c d f})"
      using m by (auto elim!: qualifies.cases [of L s "fqn_prefix a" b]) fast+
    show ?thesis
    proof (cases "length ?p < CIL_MAX_NAME_LENGTH")
      case short: True
      show ?thesis
      proof (rule qualifying_cong [OF qualifying_bind [OF decls inner] _ reached])
        show "((\<forall>i \<in> set kernel_tables. ?table i) \<and>
            (\<forall>(k, c) \<in> entries_of L s (SymArray b (sym_num CIL_SYM_BLOCKS)). names_fit L s ?p c)) =
          names_fit L s (fqn_prefix a) b"
          unfolding names_fit_block [OF True m] using short by simp
        fix t assume "renamed F s t"
        from block_body [OF True m this Suc.prems(3), of fuel L k] node short
        show "cil_fqn_qualify_blocks (Suc fuel) L a k b t =
          bind (for_each (\<lambda>i. cil_symtab_map L (SymArray b i) (cil_fqn_qualify_decls ?a)) kernel_tables)
            (\<lambda>_. cil_symtab_map L (SymArray b (sym_num CIL_SYM_BLOCKS)) (cil_fqn_qualify_blocks fuel L ?a)) t"
          by (auto simp: Let_def)
      qed
    next
      case long: False
      then have "\<not> names_fit L s (fqn_prefix a) b" unfolding names_fit_block [OF True m] by blast
      then show ?thesis
        using block_body [OF True m _ Suc.prems(3), of F _ fuel L k] long unfolding qualifying_def Let_def by auto
    qed
  qed
qed

text \<open>C39. Qualified names: in tables of nested blocks the qualification always ends. It succeeds exactly when every full
  name and every prefix of a block fits into the buffer of 2048 bytes; then every declaration in a block that shows
  up in the kernel policy has a full name, the names of the blocks around it and its own joined by dots, and
  nothing else has changed. Otherwise it is an error, or a read of the node that is not set.\<close>

theorem fqn_qualified:
  assumes "block_tables L s rank (snd ` entries_of L s (SymArray root (sym_num CIL_SYM_BLOCKS)) \<union> blocks)"
    and "nodes s root_node = Some nd" and "node_data nd = Some root"
    and "symtabs s (SymArray root (sym_num CIL_SYM_BLOCKS)) \<noteq> None"
    and "\<And>k b. (k, b) \<in> entries_of L s (SymArray root (sym_num CIL_SYM_BLOCKS)) \<Longrightarrow> rank b < fuel"
  shows "\<exists>r t. cil_fqn_qualify fuel L root_node s = (r, t) \<and>
    (if \<forall>(k, b) \<in> entries_of L s (SymArray root (sym_num CIL_SYM_BLOCKS)). names_fit L s '''' b
     then r = Ok () \<and> t\<lparr>datums := datums s\<rparr> = s \<and>
       (\<forall>d dt. datums s d = Some dt \<longrightarrow> (\<exists>f. full_name L s root d f) \<longrightarrow>
          (\<exists>f. full_name L s root d f \<and> datums t d = Some (dt\<lparr>datum_fqn := Some f\<rparr>))) \<and>
       (\<forall>d. (\<nexists>f. full_name L s root d f) \<longrightarrow> datums t d = datums s d)
     else r = Fail SEPOL_ERR \<or> r = Fault)"
proof -
  let ?tab = "SymArray root (sym_num CIL_SYM_BLOCKS)"
  let ?F = "\<lambda>d. {f. full_name L s root d f}"
  let ?a = "\<lparr>fqn_prefix = '''', fqn_len = 0, fqn_node = root_node\<rparr>"
  obtain h where h: "symtabs s ?tab = Some h" using assms(4) by blast
  have "qualifying ?F s (cil_symtab_map L ?tab (cil_fqn_qualify_blocks fuel L ?a))
      (\<Union>(k, b) \<in> entries_of L s ?tab. {d. \<exists>f. qualifies L s '''' b d f}) (\<forall>(k, b) \<in> entries_of L s ?tab. names_fit L s '''' b)"
  proof (rule qualifying_map [OF h])
    fix k b assume b: "(k, b) \<in> entries_of L s ?tab"
    then have "f \<in> ?F d" if "qualifies L s '''' b d f" for d f using that by (auto simp: full_name_def)
    then show "qualifying ?F s (cil_fqn_qualify_blocks fuel L ?a k b) {d. \<exists>f. qualifies L s '''' b d f} (names_fit L s '''' b)"
      using qualifying_blocks [OF assms(1) _ assms(5) [OF b], of ?a ?F k] b by (simp add: rev_image_eqI)
  qed
  moreover have run: "cil_fqn_qualify fuel L root_node s = cil_symtab_map L ?tab (cil_fqn_qualify_blocks fuel L ?a) s"
    using assms(2,3) by (simp add: cil_fqn_qualify_def)
  moreover have "d \<in> (\<Union>(k, b) \<in> entries_of L s ?tab. {d. \<exists>f. qualifies L s '''' b d f}) \<longleftrightarrow> (\<exists>f. full_name L s root d f)" for d
    by (auto simp: full_name_def)
  ultimately obtain r t where run: "cil_fqn_qualify fuel L root_node s = (r, t)"
    and res: "if \<forall>(k, b) \<in> entries_of L s ?tab. names_fit L s '''' b
      then r = Ok () \<and> renamed ?F s t \<and> (\<forall>d. (\<exists>f. full_name L s root d f) \<longrightarrow> has_full ?F s t d)
      else r = Fail SEPOL_ERR \<or> r = Fault"
    using renamed_refl [of ?F s] unfolding qualifying_def by (metis (no_types, lifting))
  have named: "\<exists>f. full_name L s root d f \<and> datums t d = Some (dt\<lparr>datum_fqn := Some f\<rparr>)"
    if "has_full ?F s t d" "datums s d = Some dt" for d dt using that by (auto simp: has_full_def)
  have others: "t\<lparr>datums := datums s\<rparr> = s" "(\<nexists>f. full_name L s root d f) \<Longrightarrow> datums t d = datums s d"
    if "renamed ?F s t" for d using that by (auto simp: renamed_def has_full_def)
  show ?thesis
    by (intro exI [of _ r] exI [of _ t]) (use named run res others in \<open>auto split: if_splits\<close>)
qed

subsection \<open>An example\<close>

text \<open>The type \<open>t\<close> in the block \<open>b\<close>.\<close>

definition one_block :: "((string \<times> addr) list, nat list) cil_store" where
  "one_block = store0\<lparr>
     nodes := [0 \<mapsto> \<lparr>node_parent = None, node_cl_head = Some 20, node_cl_tail = Some 20, node_next = None,
         node_flavor = CIL_ROOT, node_line = 0, node_path = None, node_data = Some 9\<rparr>,
       20 \<mapsto> \<lparr>node_parent = Some 0, node_cl_head = None, node_cl_tail = None, node_next = None,
         node_flavor = CIL_BLOCK, node_line = 1, node_path = None, node_data = Some 10\<rparr>],
     datums := [10 \<mapsto> \<lparr>datum_name = Some ''b'', datum_fqn = Some ''b'', datum_symtab = None, datum_nodes = Some [20]\<rparr>,
       11 \<mapsto> \<lparr>datum_name = Some ''t'', datum_fqn = Some ''t'', datum_symtab = None, datum_nodes = None\<rparr>],
     symtabs := (\<lambda>r. Some (if r = SymArray 9 0 then [(''b'', 10)] else if r = SymArray 10 3 then [(''t'', 11)] else []))\<rparr>"

lemma one_block_facts:
  "entries_of sepol0 one_block tab = (if tab = SymArray 9 0 then {(''b'', 10)} else if tab = SymArray 10 3 then {(''t'', 11)} else {})"
  "is_block one_block 10" "name_of one_block 10 = Some ''b''" "name_of one_block 11 = Some ''t''"
  "FLAVOR one_block (Some 10) = Ok CIL_BLOCK" "symtabs one_block tab \<noteq> None"
  by (simp_all add: entries_of_def is_block_def name_of_def FLAVOR_def NODE_def one_block_def sepol0_def)

lemma one_block_names: "full_name sepol0 one_block 9 d f \<longleftrightarrow> d = 11 \<and> f = ''b.t''"
proof -
  have "qualifies sepol0 one_block '''' 10 d f \<longleftrightarrow> d = 11 \<and> f = ''b.t''"
  proof
    assume "qualifies sepol0 one_block '''' 10 d f"
    then show "d = 11 \<and> f = ''b.t''"
      by cases (auto simp: one_block_facts split: if_split_asm)
  next
    have "(3 :: nat) \<in> set kernel_tables" by (simp add: kernel_tables_def)
    from qualifies.here [where L = sepol0 and p = "''''" and k = "''t''" and d = 11 and n = "''t''", OF one_block_facts(2,3) this]
    show "qualifies sepol0 one_block '''' 10 d f" if "d = 11 \<and> f = ''b.t''" using that by (simp add: one_block_facts)
  qed
  then show ?thesis by (simp add: full_name_def one_block_facts)
qed

text \<open>A block whose name is as long as the buffer.\<close>

definition long_block :: "((string \<times> addr) list, nat list) cil_store" where
  "long_block = one_block\<lparr>datums := (datums one_block)(10 \<mapsto> \<lparr>datum_name = Some (replicate 2048 (CHR ''b'')),
     datum_fqn = None, datum_symtab = None, datum_nodes = Some [20]\<rparr>)\<rparr>"

lemma long_block_facts:
  "entries_of sepol0 long_block tab = (if tab = SymArray 9 0 then {(''b'', 10)} else if tab = SymArray 10 3 then {(''t'', 11)} else {})"
  "is_block long_block 10" "name_of long_block 10 = Some (replicate 2048 (CHR ''b''))" "name_of long_block 11 = Some ''t''"
  "FLAVOR long_block (Some 10) = Ok CIL_BLOCK" "symtabs long_block tab \<noteq> None" "nodes long_block = nodes one_block"
  by (simp_all add: entries_of_def is_block_def name_of_def FLAVOR_def NODE_def long_block_def one_block_def sepol0_def)

lemma fqn_qualified_witness:
  "(\<exists>t. cil_fqn_qualify 2 sepol0 0 one_block = (Ok (), t) \<and>
      datums t 11 = Some \<lparr>datum_name = Some ''t'', datum_fqn = Some ''b.t'', datum_symtab = None, datum_nodes = None\<rparr>) \<and>
   (\<exists>r t. cil_fqn_qualify 2 sepol0 0 long_block = (r, t) \<and> (r = Fail SEPOL_ERR \<or> r = Fault))"
proof
  let ?tab = "SymArray 9 (sym_num CIL_SYM_BLOCKS)"
  let ?root = "\<lparr>node_parent = None, node_cl_head = Some 20, node_cl_tail = Some 20, node_next = None,
         node_flavor = CIL_ROOT, node_line = 0, node_path = None, node_data = Some 9\<rparr>"
  have root: "nodes one_block 0 = Some ?root" by (simp add: one_block_def)
  have "block_tables sepol0 one_block (\<lambda>_. 0) (snd ` entries_of sepol0 one_block ?tab \<union> {})"
    unfolding block_tables_def using one_block_facts(6) by (auto simp: one_block_facts(1-5) split: if_split_asm)
  note one = fqn_qualified [OF this root, of 2]
  have prefix: "length p < CIL_MAX_NAME_LENGTH" if "block_prefix sepol0 one_block '''' 10 p" for p
    using that by cases (auto simp: one_block_facts split: if_split_asm)
  have "length f < CIL_MAX_NAME_LENGTH" if "qualifies sepol0 one_block '''' 10 d f" for d f
  proof -
    have "full_name sepol0 one_block 9 d f" using that by (simp add: full_name_def one_block_facts)
    then show ?thesis by (simp add: one_block_names)
  qed
  then have "names_fit sepol0 one_block '''' 10" using prefix by (simp add: names_fit_def)
  moreover have "datums one_block 11 = Some \<lparr>datum_name = Some ''t'', datum_fqn = Some ''t'', datum_symtab = None, datum_nodes = None\<rparr>"
    by (simp add: one_block_def)
  ultimately show "\<exists>t. cil_fqn_qualify 2 sepol0 0 one_block = (Ok (), t) \<and>
      datums t 11 = Some \<lparr>datum_name = Some ''t'', datum_fqn = Some ''b.t'', datum_symtab = None, datum_nodes = None\<rparr>"
    using one one_block_facts(6) one_block_names by (auto simp: one_block_facts(1) dest!: spec [of _ 11])
  have "block_tables sepol0 long_block (\<lambda>_. 0) (snd ` entries_of sepol0 long_block ?tab \<union> {})"
    unfolding block_tables_def using long_block_facts(6) by (auto simp: long_block_facts(1-5) split: if_split_asm)
  note long = fqn_qualified [OF this, of 0 ?root 2]
  have "block_prefix sepol0 long_block '''' 10 ('''' @ replicate 2048 (CHR ''b'') @ ''.'')"
    by (rule own [OF long_block_facts(2,3)])
  then have "\<not> names_fit sepol0 long_block '''' 10" by (force simp: names_fit_def)
  then show "\<exists>r t. cil_fqn_qualify 2 sepol0 0 long_block = (r, t) \<and> (r = Fail SEPOL_ERR \<or> r = Fault)"
    using long root long_block_facts(6) by (auto simp: long_block_facts(1,7))
qed

end
