(* ===== verification/Cil_Compile.thy ===== *)
theory Cil_Compile
  imports Cil_Build_Walk Cil_Resolve_Ast Cil_Post Cil_Fqn Cil_Binary
begin

text \<open>
  The driver (\<open>src/cil.c\<close>): the database of the compiler, the options, the files, and the passes in their order.
\<close>

subsection \<open>The database\<close>

text \<open>The state of the compiler: the memory with the fields of the resolver, and the parse tree.\<close>

record ('h, 'b) compiler = "('h, 'b) resolve_state" +
  db_parse :: "parse_tree list"

definition cil_sort_init :: cil_sort where
  "cil_sort_init = \<lparr>sort_count = 0, sort_index = 0, sort_array = None\<rparr>"

text \<open>The data of the root is an array of symbol tables.\<close>

definition cil_root_init :: "('h, 'b) sepol \<Rightarrow> (('h, 'b, 'z) build_state_scheme, addr) cil" where
  "cil_root_init L = bind fresh (\<lambda>root. bind (cil_symtab_array_init L root) (\<lambda>_. ret root))"

definition cil_db_init :: "('h, 'b) sepol \<Rightarrow> (('h, 'b, 'z) compiler_scheme, unit) cil" where
  "cil_db_init L =
     bind cil_tree_node_init (\<lambda>ast.
     bind (cil_root_init L) (\<lambda>root.
     bind (wr nodes nodes_update ast (node_data_update (\<lambda>_. Some root))) (\<lambda>_.
     bind (modify (\<lambda>s. s\<lparr>db_parse := [], ast_root := Some ast, sidorder := None, classorder := None, catorder := None,
       sensitivityorder := None, sorts := (\<lambda>_. cil_sort_init), userprefixes := [], selinuxusers := [], names := []\<rparr>)) (\<lambda>_.
     bind cil_type_init (\<lambda>self.
     bind (wr datums datums_update self (\<lambda>d. d\<lparr>datum_name := CIL_KEY_SELF, datum_fqn := CIL_KEY_SELF\<rparr>)) (\<lambda>_.
     modify (\<lambda>s. s\<lparr>selftype := Some self, num_types := 0, num_roles := 0, num_cats := 0, val_to_type := None,
       val_to_role := None, disable_dontaudit := False, disable_neverallow := False, preserve_tunables := False,
       db_handle_unknown := -1, db_mls := -1\<rparr>)))))))"

text \<open>The arrays of the sorted contexts and of the values are freed with the database.\<close>

definition cil_tree_destroy :: "nat \<Rightarrow> ('h, 'b) sepol \<Rightarrow> ('h, 'b, 'z) builder" where
  "cil_tree_destroy fuel L =
     bind (gets ast_root) (\<lambda>root.
     bind (cil_tree_subtree_destroy fuel L root) (\<lambda>_.
     modify (\<lambda>s. s\<lparr>ast_root := None\<rparr>)))"

definition cil_db_destroy :: "nat \<Rightarrow> ('h, 'b) sepol \<Rightarrow> (('h, 'b, 'z) compiler_scheme, unit) cil" where
  "cil_db_destroy fuel L =
     bind (modify (\<lambda>s. s\<lparr>db_parse := []\<rparr>)) (\<lambda>_.
     bind (cil_tree_destroy fuel L) (\<lambda>_.
     bind (modify (\<lambda>s. s\<lparr>sidorder := None, classorder := None, catorder := None, sensitivityorder := None,
       sorts := (\<lambda>_. cil_sort_init), userprefixes := [], selinuxusers := []\<rparr>)) (\<lambda>_.
     bind (gets names) (\<lambda>ns.
     bind (for_each (\<lambda>a. cil_destroy_name L (Some a)) ns) (\<lambda>_.
     bind (gets selftype) (\<lambda>self.
     bind (cil_destroy_type L self) (\<lambda>_.
     modify (\<lambda>s. s\<lparr>names := [], selftype := None, val_to_type := None, val_to_role := None\<rparr>))))))))"

text \<open>\<open>cil_destroy_ast_symtabs\<close>: the tables of a node, of its children, and of the nodes behind it.\<close>

definition destroy_node_symtabs :: "('h, 'b) sepol \<Rightarrow> cil_tree_node \<Rightarrow> ('h, 'b, 'z) builder" where
  "destroy_node_symtabs L nd =
     (let f = node_flavor nd in
      if f = CIL_BLOCK \<or> f = CIL_IN \<or> f = CIL_MACRO \<or> f = CIL_CONDBLOCK then
        bind (lift (not_null (node_data nd))) (cil_symtab_array_destroy L)
      else if f = CIL_CLASS \<or> f = CIL_COMMON \<or> f = CIL_MAP_CLASS then
        bind (lift (not_null (node_data nd))) (\<lambda>a. cil_symtab_destroy L (SymPerms a))
      else ret ())"

fun cil_destroy_ast_symtabs :: "nat \<Rightarrow> ('h, 'b) sepol \<Rightarrow> addr option \<Rightarrow> ('h, 'b, 'z) builder" where
  "cil_destroy_ast_symtabs 0 L node = no_fuel"
| "cil_destroy_ast_symtabs (Suc fuel) L None = ret ()"
| "cil_destroy_ast_symtabs (Suc fuel) L (Some n) =
     bind (rd nodes n) (\<lambda>nd.
     bind (destroy_node_symtabs L nd) (\<lambda>_.
     bind (if node_cl_head nd \<noteq> None then cil_destroy_ast_symtabs fuel L (node_cl_head nd) else ret ()) (\<lambda>_.
     cil_destroy_ast_symtabs fuel L (node_next nd))))"

subsection \<open>Options\<close>

definition cil_set_disable_dontaudit :: "bool \<Rightarrow> (('h, 'b, 'z) cil_store_scheme, unit) cil" where
  "cil_set_disable_dontaudit b = modify (\<lambda>s. s\<lparr>disable_dontaudit := b\<rparr>)"

definition cil_set_disable_neverallow :: "bool \<Rightarrow> (('h, 'b, 'z) cil_store_scheme, unit) cil" where
  "cil_set_disable_neverallow b = modify (\<lambda>s. s\<lparr>disable_neverallow := b\<rparr>)"

definition cil_set_preserve_tunables :: "bool \<Rightarrow> (('h, 'b, 'z) cil_store_scheme, unit) cil" where
  "cil_set_preserve_tunables b = modify (\<lambda>s. s\<lparr>preserve_tunables := b\<rparr>)"

definition cil_set_handle_unknown :: "sepol_env \<Rightarrow> int \<Rightarrow> (('h, 'b, 'z) cil_store_scheme, unit) cil" where
  "cil_set_handle_unknown E v =
     (if v \<in> {deny_unknown_c E, reject_unknown E, allow_unknown E} then modify (\<lambda>s. s\<lparr>db_handle_unknown := v\<rparr>)
      else fail SEPOL_ERR)"

definition cil_set_mls :: "int \<Rightarrow> (('h, 'b, 'z) cil_store_scheme, unit) cil" where
  "cil_set_mls v = modify (\<lambda>s. s\<lparr>db_mls := v\<rparr>)"

subsection \<open>Files and passes\<close>

text \<open>The trees of all files stand under one root.\<close>

definition cil_add_file :: "string \<Rightarrow> string \<Rightarrow> (('h, 'b, 'z) compiler_scheme, unit) cil" where
  "cil_add_file name data =
     bind (reading (\<lambda>s. cil_parser name data (db_parse s))) (\<lambda>trees.
     modify (\<lambda>s. s\<lparr>db_parse := trees\<rparr>))"

text \<open>The post processing has counters of its own beside the memory.\<close>

definition with_counters ::
  "(('h, 'b) verify_store, 'a) cil \<Rightarrow> (('h, 'b, 'z) cil_store_scheme, 'a) cil"
where
  "with_counters m = (\<lambda>s.
     case m (cil_store.extend (cil_store.truncate s)
       \<lparr>avrule_cnt = 0, handleunknown = 0, mls = 0, nseuserdflt = 0, pass = 0\<rparr>) of
       (r, v) \<Rightarrow> (r, cil_store.extend (cil_store.truncate v) (cil_store.more s)))"

definition build_pass :: "('h, 'b) sepol \<Rightarrow> sepol_env \<Rightarrow> (('h, 'b, 'z) compiler_scheme, unit) cil" where
  "build_pass L E =
     bind (gets db_parse) (\<lambda>trees.
     bind (gets ast_root) (\<lambda>root.
     bind (lift (not_null root)) (\<lambda>ast.
     bind (cil_build_ast L E trees ast) (\<lambda>_.
     modify (\<lambda>s. s\<lparr>db_parse := []\<rparr>)))))"

definition cil_compile ::
  "nat \<Rightarrow> nat \<Rightarrow> ('h, 'b) sepol \<Rightarrow> sepol_env \<Rightarrow> qsort_fun \<Rightarrow> (('h, 'b, 'z) compiler_scheme, unit) cil"
where
  "cil_compile rounds fuel L E qsort =
     bind (build_pass L E) (\<lambda>_.
     bind (gets ast_root) (\<lambda>root.
     bind (cil_resolve_ast rounds L E fuel root) (\<lambda>_.
     bind (lift (not_null root)) (\<lambda>ast.
     bind (cil_fqn_qualify fuel L ast) (\<lambda>_.
     with_counters (cil_post_process L qsort fuel))))))"

definition cil_build_policydb ::
  "nat \<Rightarrow> ('h, 'b) sepol \<Rightarrow> ('h, 'b, 't, 'k) policy_lib \<Rightarrow> policy_consts \<Rightarrow> ('h, 'b, 'z) compiler_scheme
   \<Rightarrow> ('h, 'b, 't, 'k, unit) policy"
where
  "cil_build_policydb fuel L P C s = cil_binary_create fuel L P C s"

subsection \<open>From the files to the AST\<close>

definition add_files :: "(string \<times> string) list \<Rightarrow> (('h, 'b, 'z) compiler_scheme, unit) cil" where
  "add_files = for_each (\<lambda>(name, data). cil_add_file name data)"

definition front_end ::
  "('h, 'b) sepol \<Rightarrow> sepol_env \<Rightarrow> (string \<times> string) list \<Rightarrow> (('h, 'b, 'z) compiler_scheme, unit) cil"
where
  "front_end L E files =
     bind (cil_db_init L) (\<lambda>_. bind (add_files files) (\<lambda>_. build_pass L E))"

text \<open>The files that the parser accepts, and their parentheses and texts.\<close>

definition accepted :: "string \<Rightarrow> bool" where
  "accepted data = (case buffer_marks data 1 of None \<Rightarrow> False | Some ms \<Rightarrow> well_nested 0 ms)"

definition marks_of :: "string \<Rightarrow> mark list" where
  "marks_of data = (case buffer_marks data 1 of None \<Rightarrow> [] | Some ms \<Rightarrow> ms)"

lemma parser_decided:
  "if accepted data then \<exists>ts. cil_parser name data root = Ok ts \<and> forest_marks ts = forest_marks root @ marks_of data
   else cil_parser name data root = Fail SEPOL_ERR"
  using parser_loop_marks [where paren_count = 0 and fs = "[]" and buf = data and line = 1
      and path = name and kids = root]
  by (auto simp: cil_parser_def accepted_def marks_of_def split: option.splits if_splits)

lemma add_file_result:
  "\<exists>ts. cil_add_file name data s = (if accepted data then Ok () else Fail SEPOL_ERR, s\<lparr>db_parse := ts\<rparr>) \<and>
     (accepted data \<longrightarrow> forest_marks ts = forest_marks (db_parse s) @ marks_of data)"
proof (cases "accepted data")
  case True
  then obtain ts where "cil_parser name data (db_parse s) = Ok ts"
    and "forest_marks ts = forest_marks (db_parse s) @ marks_of data"
    using parser_decided by metis
  then have "cil_add_file name data s = (Ok (), s\<lparr>db_parse := ts\<rparr>) \<and>
      forest_marks ts = forest_marks (db_parse s) @ marks_of data" by (simp add: cil_add_file_def)
  then show ?thesis using True by auto
next
  case False
  then have "cil_parser name data (db_parse s) = Fail SEPOL_ERR" using parser_decided by metis
  then have "cil_add_file name data s = (Fail SEPOL_ERR, s)" by (simp add: cil_add_file_def)
  then show ?thesis using False by (intro exI [of _ "db_parse s"]) simp
qed

abbreviation all_accepted :: "(string \<times> string) list \<Rightarrow> bool" where
  "all_accepted files \<equiv> \<forall>file \<in> set files. accepted (snd file)"

lemma files_added:
  "\<exists>ts. add_files files s = (if all_accepted files then Ok () else Fail SEPOL_ERR, s\<lparr>db_parse := ts\<rparr>) \<and>
     (all_accepted files \<longrightarrow> forest_marks ts = forest_marks (db_parse s) @ concat (map (marks_of \<circ> snd) files))"
proof (induction files arbitrary: s)
  case Nil
  then show ?case by (intro exI [of _ "db_parse s"]) (simp add: add_files_def)
next
  case (Cons fd files)
  obtain name data where fd: "fd = (name, data)" by (cases fd)
  obtain ts where one: "cil_add_file name data s = (if accepted data then Ok () else Fail SEPOL_ERR, s\<lparr>db_parse := ts\<rparr>)"
    and marks: "accepted data \<longrightarrow> forest_marks ts = forest_marks (db_parse s) @ marks_of data"
    using add_file_result by blast
  obtain us where us: "add_files files (s\<lparr>db_parse := ts\<rparr>) =
      (if all_accepted files then Ok () else Fail SEPOL_ERR, s\<lparr>db_parse := us\<rparr>)"
    "all_accepted files \<longrightarrow> forest_marks us = forest_marks ts @ concat (map (marks_of \<circ> snd) files)"
  proof -
    from Cons.IH [of "s\<lparr>db_parse := ts\<rparr>"] obtain us where
      "add_files files (s\<lparr>db_parse := ts\<rparr>) =
        (if all_accepted files then Ok () else Fail SEPOL_ERR, s\<lparr>db_parse := ts\<rparr>\<lparr>db_parse := us\<rparr>)"
      "all_accepted files \<longrightarrow> forest_marks us = forest_marks (db_parse (s\<lparr>db_parse := ts\<rparr>)) @ concat (map (marks_of \<circ> snd) files)"
      by blast
    then show thesis by (intro that [of us]) simp_all
  qed
  have step: "add_files ((name, data) # files) = bind (cil_add_file name data) (\<lambda>_. add_files files)"
    by (simp add: add_files_def)
  show ?case
  proof (cases "accepted data")
    case True
    then show ?thesis using one us marks by (intro exI [of _ us]) (simp add: step fd comp_def)
  next
    case False
    then show ?thesis using one by (intro exI [of _ ts]) (simp add: step fd)
  qed
qed

lemma array_init_effect: "\<exists>tabs. cil_symtab_array_init L a s = (Ok (), s\<lparr>symtabs := tabs\<rparr>)"
proof -
  have "\<exists>tabs. for_each (\<lambda>i. cil_symtab_init L (SymArray a i)) xs s = (Ok (), s\<lparr>symtabs := tabs\<rparr>)" for xs
  proof (induction xs arbitrary: s)
    case Nil
    then show ?case by (intro exI [of _ "symtabs s"]) simp
  next
    case (Cons i xs)
    let ?s = "s\<lparr>symtabs := (symtabs s)(SymArray a i \<mapsto> ht_create L)\<rparr>"
    obtain tabs where "for_each (\<lambda>i. cil_symtab_init L (SymArray a i)) xs ?s = (Ok (), ?s\<lparr>symtabs := tabs\<rparr>)"
      using Cons.IH by blast
    moreover have "cil_symtab_init L (SymArray a i) s = (Ok (), ?s)" by (simp add: cil_symtab_init_def)
    ultimately have "for_each (\<lambda>i. cil_symtab_init L (SymArray a i)) (i # xs) s = (Ok (), s\<lparr>symtabs := tabs\<rparr>)" by simp
    then show ?case by blast
  qed
  then show ?thesis by (simp add: cil_symtab_array_init_def)
qed

lemma db_init_linked:
  fixes s :: "('a, 'b, 'c) compiler_scheme"
  assumes "linked s"
  shows "\<exists>t ast. cil_db_init L s = (Ok (), t) \<and> linked t \<and> ast_root t = Some ast \<and> nodes t ast \<noteq> None \<and> db_parse t = []"
proof -
  let ?nd = "\<lparr>node_parent = None, node_cl_head = None, node_cl_tail = None, node_next = None, node_flavor = CIL_ROOT,
       node_line = 0, node_path = None, node_data = Some (Suc (brk s))\<rparr>"
  obtain tabs where tabs: "\<And>a (s :: ('a, 'b, 'c) compiler_scheme).
      cil_symtab_array_init L a s = (Ok (), s\<lparr>symtabs := tabs a s\<rparr>)"
    using array_init_effect [where L = L] by metis
  obtain t where t: "cil_db_init L s = (Ok (), t)" "nodes t = (nodes s)(brk s \<mapsto> ?nd)" "brk t = Suc (Suc (Suc (brk s)))"
    "ast_root t = Some (brk s)" "db_parse t = []"
    by (simp add: cil_db_init_def cil_root_init_def cil_tree_node_init_def cil_type_init_def new_object_def
        new_struct_def fresh_def datum_init_def bind_def tabs wr_def)
  have old: "nodes s (brk s) = None" using linkedD(1) [OF assms] by (cases "nodes s (brk s)") auto
  have "linked t" unfolding linked_def
  proof (intro allI impI)
    fix m nd assume nd: "nodes t m = Some nd"
    show "m < brk t \<and> (\<forall>p. node_parent nd = Some p \<longrightarrow> p < m \<and> nodes t p \<noteq> None) \<and>
      (node_flavor nd = CIL_CONDBLOCK \<longrightarrow> conditional t (node_parent nd))"
    proof (cases "m = brk s")
      case True
      then show ?thesis using nd t by auto
    next
      case False
      then have "nodes s m = Some nd" using nd t(2) by simp
      note nd_old = linkedD [OF assms this]
      have cond: "conditional t (node_parent nd)" if c: "conditional s (node_parent nd)"
      proof -
        obtain q qd where q: "node_parent nd = Some q" "nodes s q = Some qd"
            "node_flavor qd = CIL_BOOLEANIF \<or> node_flavor qd = CIL_TUNABLEIF"
          using c unfolding conditional_def by blast
        then have "nodes t q = Some qd" using old t(2) by auto
        then show ?thesis using q unfolding conditional_def by blast
      qed
      show ?thesis using nd_old cond t(2,3) by (auto simp: less_SucI)
    qed
  qed
  with t show ?thesis by auto
qed

text \<open>C40. From the files to the AST: after \<open>cil_db_init\<close>, files of which one has an invalid token or parentheses that do
  not match are refused with \<open>SEPOL_ERR\<close>. All others are accepted: one parse tree has the parentheses and texts of all
  of them, in order, and the result and the memory are those of the construction of the AST from this tree on the new
  database. The construction ends, and when it succeeds the parse tree is gone and every node of the AST has a live
  parent that is older than it.\<close>

theorem front_end_decided:
  assumes "linked s"
  shows "if all_accepted files
    then \<exists>s1 ast ts r t. cil_db_init L s = (Ok (), s1) \<and> ast_root s1 = Some ast \<and>
      forest_marks ts = concat (map (marks_of \<circ> snd) files) \<and>
      cil_build_ast L E ts ast (s1\<lparr>db_parse := ts\<rparr>) = (r, t) \<and> r \<noteq> Out_of_fuel \<and>
      (if r = Ok () then front_end L E files s = (r, t\<lparr>db_parse := []\<rparr>) \<and> linked t \<and> extends s1 t
       else front_end L E files s = (r, t))
    else fst (front_end L E files s) = Fail SEPOL_ERR"
proof -
  obtain s1 ast where s1: "cil_db_init L s = (Ok (), s1)" "linked s1" "ast_root s1 = Some ast" "nodes s1 ast \<noteq> None"
    "db_parse s1 = []"
    using db_init_linked [OF assms] by blast
  show ?thesis
  proof (cases "all_accepted files")
    case False
    then obtain ts where "add_files files s1 = (Fail SEPOL_ERR, s1\<lparr>db_parse := ts\<rparr>)"
      using files_added [of files s1] unfolding if_not_P [OF False] by blast
    then have "fst (front_end L E files s) = Fail SEPOL_ERR" using s1(1) by (simp add: front_end_def)
    then show ?thesis unfolding if_not_P [OF False] .
  next
    case True
    then obtain ts where ts: "add_files files s1 = (Ok (), s1\<lparr>db_parse := ts\<rparr>)"
      and marks: "forest_marks ts = concat (map (marks_of \<circ> snd) files)"
      using files_added [of files s1] s1(5) by auto
    let ?s = "s1\<lparr>db_parse := ts\<rparr>"
    have "linked ?s" using s1(2) by (simp add: linked_def conditional_def)
    then have build: "spec (\<lambda>u. u = ?s) (cil_build_ast L E ts ast) (\<lambda>_ t. linked t \<and> extends ?s t)"
      using s1(4) by (intro build_ast_spec) simp_all
    obtain r t where t: "cil_build_ast L E ts ast ?s = (r, t)" by (cases "cil_build_ast L E ts ast ?s")
    have run: "front_end L E files s = bind (cil_build_ast L E ts ast) (\<lambda>_. modify (\<lambda>s. s\<lparr>db_parse := []\<rparr>)) ?s"
      using s1(1,3) ts by (simp add: front_end_def build_pass_def)
    have fuel: "r \<noteq> Out_of_fuel" using specD(1) [OF build refl] t by blast
    have fine: "linked t \<and> extends s1 t" if "r = Ok ()"
      using specD(2) [OF build refl] t that by (auto simp: extends_def)
    have result: "front_end L E files s = (r, if r = Ok () then t\<lparr>db_parse := []\<rparr> else t)"
      using run t by (cases r) simp_all
    show ?thesis unfolding if_P [OF True]
      by (intro exI conjI, rule s1(1), rule s1(3), rule marks, rule t, rule fuel) (use result fine in simp)
  qed
qed

subsection \<open>An example\<close>

definition no_database :: "((string \<times> addr) list, nat list) compiler" where
  "no_database = resolve_state.extend (build_state.extend (cil_store.extend store0 (build_state.fields 0 Map.empty))
     (resolve_state.fields CIL_PASS_TIF False [] [] None None [] [] [] [] [])) (compiler.fields [])"

lemma no_database_linked: "linked no_database"
  by (simp add: linked_def no_database_def cil_store.defs build_state.defs resolve_state.defs compiler.defs store0_def)

lemma printed_accepted:
  assumes "printable_forest ts" and "\<forall>t \<in> set ts. p_data t = None"
  shows "accepted (unparse_forest ts)"
  using parser_decided [of "unparse_forest ts" "''p''" "[]"] parser_unparse [OF assms, of "''p''" "[]"]
  by (auto split: if_splits)

definition type_statement :: parse_tree where
  "type_statement = PNode None (map (\<lambda>w. PNode (Some w) [] 1 ''p.cil'') [''type'', ''t'']) 1 ''p.cil''"

lemma unclosed: "\<not> accepted ''(''"
  by (simp add: accepted_def buffer_marks.simps is_newline_def)

definition start_db :: "((string \<times> addr) list, nat list) compiler" where
  "start_db = snd (cil_db_init sepol0 no_database)"

lemma start_db_simps [simp]:
  "db_parse start_db = []" "ast_root start_db = Some 0" "brk start_db = 3" "preserve_tunables start_db = False"
  "nodes start_db = [0 \<mapsto> \<lparr>node_parent = None, node_cl_head = None, node_cl_tail = None, node_next = None,
     node_flavor = CIL_ROOT, node_line = 0, node_path = None, node_data = Some 1\<rparr>]"
  "symtabs start_db (SymArray (Suc 0) 3) = Some []"
  by (simp_all add: start_db_def no_database_def cil_db_init_def cil_root_init_def cil_tree_node_init_def cil_type_init_def
    new_object_def new_struct_def fresh_def datum_init_def cil_symtab_array_init_def cil_symtab_init_def upt_numeral sepol0_def
    cil_store.defs build_state.defs resolve_state.defs compiler.defs store0_def)

lemma type_built: "fst (cil_build_ast sepol0 env0 [type_statement] 0 (start_db\<lparr>db_parse := [type_statement]\<rparr>)) = Ok ()"
  unfolding type_statement_def by (simp add: macro_simps del: one_step cong: weak_congs)

lemma front_end_type: "fst (front_end sepol0 env0 [(''p.cil'', unparse_forest [type_statement])] no_database) = Ok ()"
proof -
  have parse: "cil_parser ''p.cil'' (unparse_forest [type_statement]) [] = Ok [type_statement]"
    using parser_unparse [of "[type_statement]" "''p.cil''" "[]"] by (simp add: type_statement_def is_qbody_def)
  have init: "cil_db_init sepol0 no_database = (Ok (), start_db)"
    using db_init_linked [OF no_database_linked, of sepol0] by (auto simp: start_db_def)
  have added: "add_files [(''p.cil'', unparse_forest [type_statement])] start_db = (Ok (), start_db\<lparr>db_parse := [type_statement]\<rparr>)"
    using parse start_db_simps(1) by (simp add: add_files_def cil_add_file_def del: unparse_forest.simps)
  show ?thesis
    using init added type_built start_db_simps(2)
    by (cases "cil_build_ast sepol0 env0 [type_statement] 0 (start_db\<lparr>db_parse := [type_statement]\<rparr>)")
      (simp add: front_end_def build_pass_def eval_steps del: unparse_forest.simps one_step cong: weak_congs)
qed

theorem front_end_decided_witness:
  "fst (front_end sepol0 env0 [(''p.cil'', unparse_forest [type_statement])] no_database) = Ok () \<and>
   linked (snd (front_end sepol0 env0 [(''p.cil'', unparse_forest [type_statement])] no_database)) \<and>
   fst (front_end sepol0 env0 [(''p.cil'', unparse_forest [type_statement]), (''q.cil'', ''('')] no_database) = Fail SEPOL_ERR"
proof -
  have ok: "accepted (unparse_forest [type_statement])"
    by (rule printed_accepted) (simp_all add: type_statement_def is_qbody_def)
  let ?files = "[(''p.cil'', unparse_forest [type_statement])]" and ?more = "[(''p.cil'', unparse_forest [type_statement]), (''q.cil'', ''('')]"
  have all: "all_accepted ?files" and not_all: "\<not> all_accepted ?more" using ok unclosed by simp_all
  from front_end_decided [OF no_database_linked, where L = sepol0 and E = env0 and files = ?files]
  obtain r t where run: "front_end sepol0 env0 ?files no_database = (if r = Ok () then (r, t\<lparr>db_parse := []\<rparr>) else (r, t))"
    and fine: "r = Ok () \<Longrightarrow> linked t"
    unfolding if_P [OF all] by (metis (full_types))
  from run front_end_type have "r = Ok ()" by (metis fst_conv)
  then have "linked (snd (front_end sepol0 env0 ?files no_database))"
    using run fine by (simp add: linked_def conditional_def)
  moreover from front_end_decided [OF no_database_linked, where L = sepol0 and E = env0 and files = ?more]
  have "fst (front_end sepol0 env0 ?more no_database) = Fail SEPOL_ERR"
    unfolding if_not_P [OF not_all] .
  ultimately show ?thesis using front_end_type by blast
qed

end
