(* ===== verification/Spec2Isabelle.thy ===== *)
theory Spec2Isabelle
  imports Cil_Compare Cil_Order Cil_Parser Cil_Syntax Cil_Verify Cil_Expr Cil_Post_Verify Cil_Reset
    Cil_List Cil_Complex_Symtab Cil_Resolve_Expr Cil_Build_Walk Cil_Fill_Exact Cil_Resolve_Recursion
    Cil_Output Cil_Binary Cil_Policy_Neverallow Cil_Policy_Cond Cil_Fqn Cil_Compile
begin

text \<open>
  A verification library for the compiler of CIL, the Common Intermediate Language of SELinux (\<open>src/src\<close>).

  The compiler is a sequence of passes over two trees. The lexer and the parser turn the text of a policy into a
  parse tree. \<open>cil_build_ast\<close> walks the parse tree and makes the abstract syntax tree (AST), a tree of nodes whose
  data are structs of \<open>cil_internal.h\<close>, and enters every declaration into the symbol table of its block.
  \<open>cil_resolve_ast\<close> walks the AST once per pass of \<open>enum cil_pass\<close>, replaces names by pointers to what they stand
  for, and merges the order statements; when the body of an optional does not resolve, \<open>cil_reset_ast\<close> clears
  what would be in the way of a second resolution and the passes start again. \<open>cil_fqn_qualify\<close> gives the declarations in blocks their full names,
  \<open>cil_post_process\<close> numbers types and roles, expands attribute and
  set expressions to bitmaps and sorts the object contexts, and the functions of \<open>cil_verify.c\<close> check the result.
  Then \<open>cil_binary_create\<close> fills the policydb of libsepol in three walks over the AST, and \<open>cil.c\<close> writes the
  texts for users and file contexts.

  \<^bold>\<open>How the code is modelled\<close>

  \<^item> An address is a number (\<open>addr\<close>). The memory (\<open>cil_store\<close>, in \<open>Cil_Store\<close>) has one map from addresses to
    records for each struct type (\<open>m_type\<close>, \<open>m_role\<close>, ...), one for the nodes (\<open>nodes\<close>), one for the heads of
    declarations (\<open>datums\<close>), and the fields of \<open>struct cil_db\<close>. Records, enumerations and field names follow
    \<open>cil_internal.h\<close>, \<open>cil_flavor.h\<close>, \<open>cil_symtab.h\<close> and \<open>cil_tree.h\<close> (\<open>Cil_Structs\<close>, \<open>Cil_Flavor\<close>).
    The builder extends the memory by the next free address (\<open>build_state\<close>, in \<open>Cil_Alloc\<close>).
  \<^item> A C function is an \<open>outcome\<close>, or a function from a state to an outcome and a state (\<open>('s, 'a) cil\<close>):
    \<open>Ok x\<close> for \<open>SEPOL_OK\<close>, \<open>Fail e\<close> for an error code, \<open>Fault\<close> where the code would read through a null or foreign
    pointer, free twice or use what it did not initialise, and \<open>Out_of_fuel\<close> for a loop that has not ended.
    Functions that only read the memory are functions to \<open>outcome\<close>.
  \<^item> An \<open>int\<close> of C is an \<open>int\<close>, and a \<open>uint32_t\<close> is a \<open>32 word\<close> where the wrap-around matters (the hash of a key,
    ports, addresses, widths of ranges). Strings are interned by the code, which compares them as pointers; the
    model compares their contents.
  \<^item> The code outside of the repository is a parameter: the hash tables and bitmaps of libsepol are operations
    \<open>L :: ('h, 'b) sepol\<close> with the laws they document as hypotheses (\<open>hashtab_laws\<close>, \<open>ebitmap_laws\<close>), \<open>qsort\<close> is any
    function that permutes and sorts, and the constants of the headers of libsepol and \<open>inet_pton\<close> are the
    record \<open>sepol_env\<close>.
  \<^item> The policydb of libsepol appears as records with the fields that the compiler uses; its functions and constants
    are the records \<open>policy_lib\<close> and \<open>policy_consts\<close>. The theorems about rules and \<open>neverallow\<close> assume what libsepol
    documents of its access vector tables and bitmap nodes (\<open>avtab_laws\<close>, \<open>nodes_laws\<close>).
  \<^item> Lists of \<open>cil_list.c\<close> inside structs are values. The list functions themselves are modelled on a heap of items
    in \<open>Cil_List\<close>, which shows that they implement the operations on sequences that the other theories use.

  \<^bold>\<open>The theories\<close>

  \<^item> \<open>Cil_Prelude\<close>: outcomes, the state combinators, the calculus of preserved predicates (\<open>keeps\<close>), lemmas on lists.
  \<^item> \<open>Cil_Parser\<close>: tokens, \<open>cil_parser\<close> and its parse tree; it accepts exactly the well nested buffers, and parsing
    undoes printing.
  \<^item> \<open>Cil_Syntax\<close>: the syntax checks of \<open>cil_verify.c\<close> on names, argument lists, self references and ranges.
  \<^item> \<open>Cil_Keys\<close>, \<open>Cil_Alloc\<close>: the keywords, and the constructors and destructors of every struct.
  \<^item> \<open>Cil_Fill\<close>, \<open>Cil_Fill_Exact\<close>: numbers, addresses, expressions, permissions, levels and contexts; the expression
    that is built is exactly the expression that was written, which integers are read, and what the depth limits do.
  \<^item> \<open>Cil_Build_Gen\<close>, \<open>Cil_Build\<close>: \<open>cil_gen_node\<close> with the search for the symbol table, one \<open>cil_gen_*\<close> per statement,
    the dispatch on the keyword, the restrictions on nesting, the walk, and the destructors of nodes.
  \<^item> \<open>Cil_Build_Inv\<close>, \<open>Cil_Build_Links\<close>, \<open>Cil_Build_Walk\<close>: a locale of what an invariant of the construction must be
    kept by (\<open>statement_build\<close>), in which every statement is verified once; its interpretation on linked ASTs;
    termination, links and the way back of the walk.
  \<^item> \<open>Cil_List\<close>, \<open>Cil_Symtab\<close>, \<open>Cil_Complex_Symtab\<close>: pointer lists refine sequences; declarations in symbol tables;
    the table with keys of four words refines a map, whatever the sum in its hash overflows to.
  \<^item> \<open>Cil_Tree\<close>: \<open>cil_tree_walk\<close> on nodes in memory is a fold over the tree they form.
  \<^item> \<open>Cil_Names\<close>: \<open>cil_resolve_name\<close>, scopes as a list, dotted names.
  \<^item> \<open>Cil_Resolve\<close>, \<open>Cil_Resolve_Pass\<close>, \<open>Cil_Resolve_Expr\<close>: the resolution of statements and the switch over the passes;
    what every statement of the last pass keeps; expressions and tunables.
  \<^item> \<open>Cil_Copy\<close>, \<open>Cil_Copy_Tree\<close>, \<open>Cil_Copy_Walk\<close>: the copy of a part of the AST (\<open>cil_copy_ast.c\<close>); what is copied is a
    copy, and the walk ends when its destination is outside of the tree that is copied.
  \<^item> \<open>Cil_Resolve_Copy\<close>, \<open>Cil_Resolve_Ast\<close>, \<open>Cil_Resolve_Recursion\<close>: the statements that copy (\<open>call\<close>, \<open>in\<close>,
    \<open>blockinherit\<close>, \<open>tunableif\<close>), the walk of a pass and the loop over the passes with its restarts; which recursive
    calls are found, and a self inheritance on which the copy of blocks runs forever.
  \<^item> \<open>Cil_Chain\<close>, \<open>Cil_Order\<close>: chains of aliases and bounds; the merge of order statements.
  \<^item> \<open>Cil_Reset\<close>: what the reset of the AST clears at every node, and that it writes nothing else.
  \<^item> \<open>Cil_Expr\<close>, \<open>Cil_Compare\<close>, \<open>Cil_Post\<close>, \<open>Cil_Numbering\<close>, \<open>Cil_Post_Verify\<close>: the expansion of expressions, the
    comparisons for sorting, the passes of the post processing, the numbering, and the final verification.
  \<^item> \<open>Cil_Fqn\<close>: the qualification of the names in blocks, which succeeds exactly when the full names fit and then stores them.
  \<^item> \<open>Cil_Verify\<close>: contexts, level ranges, users, classes and permission loops.
  \<^item> \<open>Cil_Output\<close>: the texts for user prefixes, users and file contexts; they fill the buffers computed for them.
  \<^item> \<open>Cil_Policydb\<close>, \<open>Cil_Policy_Decl\<close>, \<open>Cil_Policy_Rules\<close>, \<open>Cil_Policy_Contexts\<close>, \<open>Cil_Binary\<close>: \<open>cil_binary.c\<close>, in the order of
    its parts: the policy database and the lookup of what is in it; declarations; rules, transitions and
    conditionals; constraints, levels and object contexts; the three passes.
  \<^item> \<open>Cil_Policy_Laws\<close>, \<open>Cil_Policy_Avtab\<close>, \<open>Cil_Policy_Neverallow\<close>, \<open>Cil_Policy_Cond\<close>: a sequence of access vector rules
    accumulates in its table, type rules are functional, the check against \<open>neverallow\<close> is decided by sets of
    types, and the postfix form of a conditional expression has its value.
  \<^item> \<open>Cil_Compile\<close>: the database, the options, the files, and the passes in the order of \<open>cil_compile\<close>; which files are
    refused, and that for all others the front end builds the AST of their trees, ends, and leaves it linked.

  \<^bold>\<open>Fuel and bounds\<close>

  Loops over memory take fuel, and a theorem says how much is enough. A search along parents takes one more than the
  next free address, since a parent is older than its child (\<open>linked\<close>). The walk of the builder takes twice the size
  of the parse tree and two, one unit for each node and one for each list. A constraint expression takes the height
  of its tree. The chains of aliases and bounds take fuel from their caller, and the theorems state from which fuel on
  the result is fixed. The search for names takes fuel above a measure that decreases along parents, inherited
  blocks and macros (\<open>name_search_ends\<close>), since the code itself does not check that there is one. The copy of the
  AST takes fuel above the size of what it copies (\<open>copy_ast_ends\<close>), the rounds over the list of \<open>in\<close> statements
  one more than its length, the qualification of names more than the depth of nested blocks (\<open>fqn_qualified\<close>), and
  the walks and expansions of \<open>cil_binary.c\<close> take fuel from their caller.

  \<^bold>\<open>Not modelled\<close>

  \<^item> \<open>cil_policy.c\<close>: it prints a policy in the old language; nothing in the repository calls \<open>cil_gen_policy\<close>.
  \<^item> The printing functions of \<open>cil_tree.c\<close>, \<open>cil_node_to_string\<close> and \<open>secilc.c\<close>: debug output and glue.
  \<^item> \<open>cil_log.c\<close>, \<open>cil_mem.c\<close>: messages; allocation, which exits when there is no memory.
  \<^item> The parse tree is destroyed by the code as it is consumed; the model keeps it as a value.
\<close>

end
